(* ===== verification/Prelude.thy ===== *)
theory Prelude
  imports Main "HOL-Library.AList" "HOL-Library.Char_ord" "HOL-Library.List_Lexorder"
    "HOL-Library.Multiset"
begin

text \<open>
  Shared ground of the development.

  \<^item> Errors as values (\<open>err\<close>), the instants of Go's package time (\<open>gotime\<close>), Go maps as
    association lists (\<open>gomap\<close>) and their randomised iteration order (\<open>shuffle\<close>).
  \<^item> Byte strings and the functions of Go's package strings that the program calls
    (TrimSpace, Join, Contains, HasPrefix, HasSuffix, Trim, ToLower) with their laws.
  \<^item> Effectful code: an operation reads an environment and transforms a world,
    \<open>('e, 'w, 'a) io = 'e \<Rightarrow> 'w \<Rightarrow> 'a \<times> 'w\<close>.  \<open>bindE\<close> is the statement sequence
    \<open>x, err := f(); if err != nil { return nil, err }\<close>.
  \<^item> \<open>steps R m\<close>: every run of \<open>m\<close> relates the world before and after by \<open>R\<close>; the
    collection \<open>steps_rules\<close> composes it along the code, so that frame and invariant lemmas
    of whole handlers are one \<open>intro\<close> away from those of their parts.
\<close>

named_theorems steps_rules \<open>composition rules for \<open>steps\<close>\<close>
named_theorems io_iff \<open>inversion equations for the runs of composed operations\<close>

subsection \<open>Errors and instants\<close>

text \<open>
  Go's \<open>error\<close> values of this program.  \<open>ErrNew\<close> is \<open>errors.New\<close> and \<open>fmt.Errorf\<close>;
  \<open>ErrNotFound\<close> wraps the sentinel of \<open>internal/data/memory.go\<close>; \<open>ErrExternal\<close> is an
  error value produced outside the repository, with the text its \<open>Error()\<close> gives; the
  others are built by the constructors of the kernel packages authn and authz.
  \<open>ErrPanic\<close> is a run-time panic of the handler.
\<close>

datatype err =
    ErrNew string
  | ErrNotFound string
  | ErrRoleVersionConflict
  | ErrMissingCredential string
  | ErrInvalidCredential string
  | ErrUnauthenticated string
  | ErrPermissionDenied string
  | ErrBackendFailed string
  | ErrInvalidRequest string
  | ErrInvalidTokenRequest string
  | ErrIdentityBackendFailed string
  | ErrInvalidArgument string
  | ErrExternal string
  | ErrPanic string

primrec err_text :: "err \<Rightarrow> string" where
  "err_text (ErrNew m) = m"
| "err_text (ErrNotFound m) = ''iam data: not found: '' @ m"
| "err_text ErrRoleVersionConflict = ''iam data: role template version conflict''"
| "err_text (ErrMissingCredential m) = m"
| "err_text (ErrInvalidCredential m) = m"
| "err_text (ErrUnauthenticated m) = m"
| "err_text (ErrPermissionDenied m) = m"
| "err_text (ErrBackendFailed m) = m"
| "err_text (ErrInvalidRequest m) = m"
| "err_text (ErrInvalidTokenRequest m) = m"
| "err_text (ErrIdentityBackendFailed m) = m"
| "err_text (ErrInvalidArgument m) = m"
| "err_text (ErrExternal m) = m"
| "err_text (ErrPanic m) = m"

text \<open>An instant is its distance in nanoseconds from Go's zero time, which is 0.\<close>

type_synonym gotime = int

abbreviation (input) zero_time :: gotime where "zero_time \<equiv> 0"

definition IsZero :: "gotime \<Rightarrow> bool" where "IsZero t \<longleftrightarrow> t = zero_time"

definition minute :: int where "minute = 60000000000"

subsection \<open>Maps and their iteration order\<close>

type_synonym 'v gomap = "(string \<times> 'v) list"

abbreviation get_key :: "'v gomap \<Rightarrow> string \<Rightarrow> 'v option" where
  "get_key m k \<equiv> map_of m k"

abbreviation put_key :: "string \<Rightarrow> 'v \<Rightarrow> 'v gomap \<Rightarrow> 'v gomap" where
  "put_key k v m \<equiv> AList.update k v m"

abbreviation del_key :: "string \<Rightarrow> 'v gomap \<Rightarrow> 'v gomap" where
  "del_key k m \<equiv> AList.delete k m"

abbreviation keys_distinct :: "'v gomap \<Rightarrow> bool" where
  "keys_distinct m \<equiv> distinct (map fst m)"

text \<open>
  Go iterates a map in an unspecified order.  \<open>shuffle c\<close> is the permutation coded by the
  choices \<open>c\<close>: each element is inserted at the position chosen for it.  Every \<open>c\<close> gives a
  permutation and every permutation has a \<open>c\<close>, so quantifying over \<open>c\<close> is quantifying over
  the iteration orders.
\<close>

primrec shuffle :: "(nat \<Rightarrow> nat) \<Rightarrow> 'a list \<Rightarrow> 'a list" where
  "shuffle c [] = []"
| "shuffle c (x # xs) =
     (let ys = shuffle c xs; k = c (length ys) mod Suc (length ys)
      in take k ys @ x # drop k ys)"

lemma mset_shuffle [simp]: "mset (shuffle c xs) = mset xs"
proof (induction xs)
  case (Cons x xs)
  let ?ys = "shuffle c xs"
  have "mset (take k ?ys) + mset (drop k ?ys) = mset ?ys" for k
    by (metis append_take_drop_id mset_append)
  with Cons show ?case by (simp add: Let_def)
qed simp

lemma set_shuffle [simp]: "set (shuffle c xs) = set xs"
  by (metis mset_shuffle set_mset_mset)

lemma length_shuffle [simp]: "length (shuffle c xs) = length xs"
  by (metis mset_shuffle size_mset)

lemma distinct_shuffle [simp]: "distinct (shuffle c xs) \<longleftrightarrow> distinct xs"
  by (metis mset_shuffle mset_eq_imp_distinct_iff)

lemma shuffle_empty_iff [simp]: "shuffle c xs = [] \<longleftrightarrow> xs = []"
  by (metis length_0_conv length_shuffle)

text \<open>Every permutation is the iteration order for some choices.\<close>

lemma shuffle_cong: "(\<And>n. n < length xs \<Longrightarrow> c n = d n) \<Longrightarrow> shuffle c xs = shuffle d xs"
  by (induction xs) (auto simp: Let_def)

lemma shuffle_surj: "mset ys = mset xs \<Longrightarrow> \<exists>c. shuffle c xs = ys"
proof (induction xs arbitrary: ys)
  case (Cons x xs)
  then have "x \<in> set ys" by (metis list.set_intros(1) set_mset_mset)
  then obtain as bs where ys: "ys = as @ x # bs" by (meson split_list)
  with Cons.prems have "mset (as @ bs) = mset xs" by simp
  with Cons.IH obtain c where c: "shuffle c xs = as @ bs" by blast
  let ?d = "c(length xs := length as)"
  have d: "shuffle ?d xs = as @ bs" using c shuffle_cong[of xs ?d c] by simp
  have "length xs = length as + length bs" using d by (metis length_append length_shuffle)
  then have "shuffle ?d (x # xs) = ys" using d ys by (simp add: Let_def)
  then show ?case by blast
qed simp

subsection \<open>Byte strings\<close>

text \<open>
  A Go string is its bytes.  \<open>space_runes\<close> lists the UTF-8 encodings of the code points for
  which \<open>unicode.IsSpace\<close> holds.
\<close>

definition byte :: "nat \<Rightarrow> char" where "byte n = char_of n"

definition ascii_spaces :: string where
  "ascii_spaces = [CHR 0x09, CHR 0x0A, CHR 0x0B, CHR 0x0C, CHR 0x0D, CHR 0x20]"

definition wide_spaces :: "string list" where
  "wide_spaces =
    [[CHR 0xC2, CHR 0x85], [CHR 0xC2, CHR 0xA0], [CHR 0xE1, CHR 0x9A, CHR 0x80],
     [CHR 0xE2, CHR 0x80, CHR 0x80], [CHR 0xE2, CHR 0x80, CHR 0x81],
     [CHR 0xE2, CHR 0x80, CHR 0x82], [CHR 0xE2, CHR 0x80, CHR 0x83],
     [CHR 0xE2, CHR 0x80, CHR 0x84], [CHR 0xE2, CHR 0x80, CHR 0x85],
     [CHR 0xE2, CHR 0x80, CHR 0x86], [CHR 0xE2, CHR 0x80, CHR 0x87],
     [CHR 0xE2, CHR 0x80, CHR 0x88], [CHR 0xE2, CHR 0x80, CHR 0x89],
     [CHR 0xE2, CHR 0x80, CHR 0x8A], [CHR 0xE2, CHR 0x80, CHR 0xA8],
     [CHR 0xE2, CHR 0x80, CHR 0xA9], [CHR 0xE2, CHR 0x80, CHR 0xAF],
     [CHR 0xE2, CHR 0x81, CHR 0x9F], [CHR 0xE3, CHR 0x80, CHR 0x80]]"

definition space_runes :: "string list" where
  "space_runes = map (\<lambda>c. [c]) ascii_spaces @ wide_spaces"

primrec is_prefix :: "string \<Rightarrow> string \<Rightarrow> bool" where
  "is_prefix [] s = True"
| "is_prefix (c # p) s = (case s of [] \<Rightarrow> False | d # t \<Rightarrow> c = d \<and> is_prefix p t)"

text \<open>strings.HasPrefix, strings.HasSuffix, strings.Contains, strings.Join.\<close>

abbreviation HasPrefix :: "string \<Rightarrow> string \<Rightarrow> bool" where "HasPrefix s p \<equiv> is_prefix p s"

definition HasSuffix :: "string \<Rightarrow> string \<Rightarrow> bool" where
  "HasSuffix s p \<longleftrightarrow> is_prefix (rev p) (rev s)"

fun Contains :: "string \<Rightarrow> string \<Rightarrow> bool" where
  "Contains [] sub = (sub = [])"
| "Contains (c # s) sub = (is_prefix sub (c # s) \<or> Contains s sub)"

fun Join :: "string list \<Rightarrow> string \<Rightarrow> string" where
  "Join [] sep = []"
| "Join [s] sep = s"
| "Join (s # t # ts) sep = s @ sep @ Join (t # ts) sep"

lemma is_prefix_iff: "is_prefix p s \<longleftrightarrow> (\<exists>t. s = p @ t)"
  by (induction p arbitrary: s) (auto split: list.splits)

lemma HasSuffix_iff: "HasSuffix s p \<longleftrightarrow> (\<exists>t. s = t @ p)"
proof
  assume "HasSuffix s p"
  then obtain t where "rev s = rev p @ t" by (auto simp: HasSuffix_def is_prefix_iff)
  then have "rev (rev s) = rev (rev p @ t)" by (rule arg_cong)
  then show "\<exists>t. s = t @ p" by auto
qed (auto simp: HasSuffix_def is_prefix_iff)

text \<open>
  Trimming drops, as long as there is one, a member of \<open>ws\<close> from the front of the string.
\<close>

definition strip1 :: "string list \<Rightarrow> string \<Rightarrow> nat option" where
  "strip1 ws s = map_option length (find (\<lambda>p. is_prefix p s) ws)"

function trim_front :: "string list \<Rightarrow> string \<Rightarrow> string" where
  "trim_front ws s =
     (case strip1 ws s of None \<Rightarrow> s | Some 0 \<Rightarrow> s | Some (Suc n) \<Rightarrow> trim_front ws (drop (Suc n) s))"
  by pat_completeness auto
termination
proof (relation "measure (\<lambda>(ws, s). length s)")
  fix ws :: "string list" and s :: string and a n
  assume *: "strip1 ws s = Some a" "a = Suc n"
  then obtain p where "find (\<lambda>p. is_prefix p s) ws = Some p" "length p = Suc n"
    by (auto simp: strip1_def)
  then have "is_prefix p s" by (metis find_Some_iff)
  with \<open>length p = Suc n\<close> have "Suc n \<le> length s" by (auto simp: is_prefix_iff)
  then show "((ws, drop (Suc n) s), ws, s) \<in> measure (\<lambda>(ws, s). length s)" by auto
qed simp

declare trim_front.simps [simp del]

definition trim_back :: "string list \<Rightarrow> string \<Rightarrow> string" where
  "trim_back ws s = rev (trim_front (map rev ws) (rev s))"

text \<open>strings.TrimSpace and strings.Trim(s, "/").\<close>

definition TrimSpace :: "string \<Rightarrow> string" where
  "TrimSpace s = trim_back space_runes (trim_front space_runes s)"

definition TrimSlash :: "string \<Rightarrow> string" where
  "TrimSlash s = trim_back [''/''] (trim_front [''/''] s)"

text \<open>strings.ToLower on the ASCII letters; bytes outside ASCII are left as they are.\<close>

definition lower_char :: "char \<Rightarrow> char" where
  "lower_char c = (let n = of_char c :: nat in if 65 \<le> n \<and> n \<le> 90 then byte (n + 32) else c)"

definition ToLower :: "string \<Rightarrow> string" where "ToLower = map lower_char"

definition EqualFold :: "string \<Rightarrow> string \<Rightarrow> bool" where
  "EqualFold s t \<longleftrightarrow> ToLower s = ToLower t"

subsection \<open>Laws of trimming\<close>

lemma strip1_None_iff: "strip1 ws s = None \<longleftrightarrow> (\<forall>p \<in> set ws. \<not> is_prefix p s)"
  by (auto simp: strip1_def find_None_iff)

lemma strip1_append: "strip1 ws (s @ t) = None \<Longrightarrow> strip1 ws s = None"
  by (auto simp: strip1_None_iff is_prefix_iff)

lemma trim_front_fix: "strip1 ws s = None \<Longrightarrow> trim_front ws s = s"
  by (subst trim_front.simps) simp

lemma strip1_trim_front: "[] \<notin> set ws \<Longrightarrow> strip1 ws (trim_front ws s) = None"
proof (induction ws s rule: trim_front.induct)
  case (1 ws s)
  show ?case
  proof (cases "strip1 ws s")
    case None
    then show ?thesis by (simp add: trim_front_fix)
  next
    case (Some k)
    then obtain p where "find (\<lambda>p. is_prefix p s) ws = Some p" "k = length p"
      by (auto simp: strip1_def)
    with "1.prems" have "k \<noteq> 0" by (metis find_Some_iff length_0_conv nth_mem)
    then obtain n where "k = Suc n" by (cases k) auto
    with Some 1 show ?thesis by (subst trim_front.simps) simp
  qed
qed

lemma trim_front_suffix: "\<exists>p. s = p @ trim_front ws s"
proof (induction ws s rule: trim_front.induct)
  case (1 ws s)
  show ?case
  proof (cases "strip1 ws s")
    case None
    then show ?thesis by (simp add: trim_front_fix)
  next
    case (Some k)
    show ?thesis
    proof (cases k)
      case 0
      with Some show ?thesis by (subst trim_front.simps) simp
    next
      case (Suc n)
      with 1 Some obtain p where "drop k s = p @ trim_front ws (drop k s)" by auto
      moreover have "trim_front ws s = trim_front ws (drop k s)"
        using Some Suc by (subst trim_front.simps) simp
      ultimately have "s = (take k s @ p) @ trim_front ws s"
        by (metis append.assoc append_take_drop_id)
      then show ?thesis by blast
    qed
  qed
qed

lemma trim_back_prefix: "\<exists>p. s = trim_back ws s @ p"
proof -
  obtain p where "rev s = p @ trim_front (map rev ws) (rev s)"
    using trim_front_suffix by blast
  then have "rev (rev s) = trim_back ws s @ rev p"
    unfolding trim_back_def by (metis rev_append)
  then show ?thesis by auto
qed

lemma trim_front_Nil [simp]: "trim_front ws [] = []"
  using trim_front_suffix[of "[]" ws] by auto

lemma trim_back_Nil [simp]: "trim_back ws [] = []"
  by (simp add: trim_back_def)

lemma trim_twice:
  assumes ws: "[] \<notin> set ws"
  shows "trim_back ws (trim_front ws (trim_back ws (trim_front ws s))) = trim_back ws (trim_front ws s)"
proof -
  let ?t = "trim_front ws s"
  obtain p where p: "?t = trim_back ws ?t @ p" using trim_back_prefix by blast
  have "strip1 ws ?t = None" using ws by (rule strip1_trim_front)
  then have "strip1 ws (trim_back ws ?t) = None" using p strip1_append by metis
  then have "trim_front ws (trim_back ws ?t) = trim_back ws ?t" by (rule trim_front_fix)
  moreover have "trim_back ws (trim_back ws ?t) = trim_back ws ?t"
  proof -
    have "[] \<notin> set (map rev ws)" using ws by auto
    then have "trim_front (map rev ws) (trim_front (map rev ws) (rev ?t)) = trim_front (map rev ws) (rev ?t)"
      by (intro trim_front_fix strip1_trim_front)
    then show ?thesis by (simp add: trim_back_def)
  qed
  ultimately show ?thesis by simp
qed

lemma space_runes_nonempty: "[] \<notin> set space_runes"
  by (simp add: space_runes_def wide_spaces_def image_iff)

lemma TrimSpace_idem [simp]: "TrimSpace (TrimSpace s) = TrimSpace s"
  unfolding TrimSpace_def by (rule trim_twice[OF space_runes_nonempty])

lemma TrimSpace_Nil [simp]: "TrimSpace [] = []"
  by (simp add: TrimSpace_def)

lemma TrimSlash_idem [simp]: "TrimSlash (TrimSlash s) = TrimSlash s"
  unfolding TrimSlash_def by (rule trim_twice) simp

lemma TrimSlash_Nil [simp]: "TrimSlash [] = []"
  by (simp add: TrimSlash_def)

text \<open>A string that begins and ends with a visible ASCII character is already trimmed.\<close>

definition visible :: "char \<Rightarrow> bool" where
  "visible c \<longleftrightarrow> (let n = of_char c :: nat in 33 \<le> n \<and> n \<le> 126)"

lemma visible_not_space: "visible c \<Longrightarrow> strip1 space_runes (c # s) = None"
  by (auto simp: strip1_None_iff space_runes_def ascii_spaces_def wide_spaces_def visible_def)

lemma visible_not_space_rev: "visible c \<Longrightarrow> strip1 (map rev space_runes) (c # s) = None"
  by (auto simp: strip1_None_iff space_runes_def ascii_spaces_def wide_spaces_def visible_def)

lemma TrimSpace_visible:
  assumes "s \<noteq> []" "visible (hd s)" "visible (last s)"
  shows "TrimSpace s = s"
proof -
  have "trim_front space_runes s = s"
    using assms by (cases s) (auto intro: trim_front_fix visible_not_space)
  moreover have "trim_front (map rev space_runes) (rev s) = rev s"
    using assms by (cases s rule: rev_cases) (auto intro!: trim_front_fix visible_not_space_rev)
  ultimately show ?thesis by (simp add: TrimSpace_def trim_back_def)
qed

subsection \<open>Decimal numerals and 64-bit integers\<close>

text \<open>Go's \<open>int\<close> on a 64-bit target: arithmetic wraps at 2^64.\<close>

definition max_int64 :: int where "max_int64 = 9223372036854775807"

definition min_int64 :: int where "min_int64 = -9223372036854775808"

definition wrap64 :: "int \<Rightarrow> int" where
  "wrap64 i = (i + 9223372036854775808) mod 18446744073709551616 - 9223372036854775808"

definition in_int64 :: "int \<Rightarrow> bool" where "in_int64 i \<longleftrightarrow> min_int64 \<le> i \<and> i \<le> max_int64"

lemma wrap64_id: "in_int64 i \<Longrightarrow> wrap64 i = i"
  by (auto simp: in_int64_def wrap64_def min_int64_def max_int64_def)

lemma wrap64_range: "in_int64 (wrap64 i)"
proof -
  have "0 \<le> (i + 9223372036854775808) mod 18446744073709551616" by simp
  moreover have "(i + 9223372036854775808) mod 18446744073709551616 < 18446744073709551616" by simp
  ultimately show ?thesis
    unfolding in_int64_def wrap64_def min_int64_def max_int64_def by linarith
qed

definition digit_char :: "nat \<Rightarrow> char" where "digit_char d = byte (48 + d)"

definition digit_val :: "char \<Rightarrow> nat option" where
  "digit_val c = (let n = of_char c :: nat in if 48 \<le> n \<and> n \<le> 57 then Some (n - 48) else None)"

fun utoa :: "nat \<Rightarrow> string" where
  "utoa n = (if n < 10 then [digit_char n] else utoa (n div 10) @ [digit_char (n mod 10)])"

declare utoa.simps [simp del]

text \<open>strconv.Itoa, and \<open>fmt.Sprintf("%d", i)\<close>.\<close>

definition Itoa :: "int \<Rightarrow> string" where
  "Itoa i = (if i < 0 then ''-'' @ utoa (nat (- i)) else utoa (nat i))"

primrec digits_val :: "nat \<Rightarrow> string \<Rightarrow> nat option" where
  "digits_val a [] = Some a"
| "digits_val a (c # s) = (case digit_val c of None \<Rightarrow> None | Some d \<Rightarrow> digits_val (10 * a + d) s)"

lemma digit_val_char [simp]: "d < 10 \<Longrightarrow> digit_val (digit_char d) = Some d"
  by (simp add: digit_val_def digit_char_def byte_def)

lemma digits_val_append:
  "digits_val a (s @ t) = (case digits_val a s of None \<Rightarrow> None | Some b \<Rightarrow> digits_val b t)"
  by (induction s arbitrary: a) (auto split: option.splits)

lemma utoa_nonempty [simp]: "utoa n \<noteq> []"
  by (subst utoa.simps) simp

lemma digits_val_utoa [simp]: "digits_val 0 (utoa n) = Some n"
proof (induction n rule: utoa.induct)
  case (1 n)
  show ?case
  proof (cases "n < 10")
    case True
    then show ?thesis by (subst utoa.simps) simp
  next
    case False
    with 1 have "digits_val 0 (utoa (n div 10)) = Some (n div 10)" by simp
    with False show ?thesis by (subst utoa.simps) (simp add: digits_val_append)
  qed
qed

lemma utoa_digits: "c \<in> set (utoa n) \<Longrightarrow> digit_val c \<noteq> None"
proof (induction n rule: utoa.induct)
  case (1 n)
  then show ?case
    by (subst (asm) (2) utoa.simps) (auto split: if_splits)
qed

text \<open>
  strconv.Atoi: an optional sign and decimal digits.  The code of the program ignores the
  error, so the value returned beside it matters: 0 for a syntax error, the nearest bound for
  a range error.
\<close>

definition sign_split :: "string \<Rightarrow> bool \<times> string" where
  "sign_split s = (case s of [] \<Rightarrow> (False, [])
     | c # t \<Rightarrow> if c = CHR ''-'' then (True, t) else if c = CHR ''+'' then (False, t) else (False, s))"

definition Atoi_value :: "string \<Rightarrow> int" where
  "Atoi_value s =
     (case sign_split s of (neg, t) \<Rightarrow>
        if t = [] then 0
        else case digits_val 0 t of None \<Rightarrow> 0
          | Some n \<Rightarrow> if neg then max min_int64 (- int n) else min max_int64 (int n))"

text \<open>
  \<open>fmt.Sscanf(token, "%d", &index)\<close> with \<open>index\<close> initially 0: leading spaces are skipped,
  the longest run of digits after an optional sign is read, what follows is ignored; without
  digits, or out of range, the variable keeps its value 0.
\<close>

primrec take_digits :: "string \<Rightarrow> string" where
  "take_digits [] = []"
| "take_digits (c # s) = (if digit_val c = None then [] else c # take_digits s)"

definition skip_spaces :: "string \<Rightarrow> string" where
  "skip_spaces = trim_front (filter (\<lambda>p. p \<noteq> [CHR 0x0A]) space_runes)"

definition Sscanf_int :: "string \<Rightarrow> int" where
  "Sscanf_int s =
     (case sign_split (skip_spaces s) of (neg, t) \<Rightarrow>
        (case take_digits t of [] \<Rightarrow> 0
         | ds \<Rightarrow> (case digits_val 0 ds of None \<Rightarrow> 0
                 | Some n \<Rightarrow> let i = (if neg then - int n else int n) in if in_int64 i then i else 0)))"

lemma take_digits_all: "(\<And>c. c \<in> set s \<Longrightarrow> digit_val c \<noteq> None) \<Longrightarrow> take_digits s = s"
  by (induction s) auto

lemma digit_val_special [simp]: "digit_val (CHR ''-'') = None" "digit_val (CHR ''+'') = None"
  by (simp_all add: digit_val_def)

lemma skip_spaces_digit: "digit_val c \<noteq> None \<Longrightarrow> skip_spaces (c # s) = c # s"
proof -
  assume "digit_val c \<noteq> None"
  then have "visible c" by (auto simp: digit_val_def visible_def Let_def split: if_splits)
  then have "strip1 space_runes (c # s) = None" by (rule visible_not_space)
  then show ?thesis unfolding skip_spaces_def
    by (intro trim_front_fix) (auto simp: strip1_None_iff)
qed

lemma utoa_Cons: obtains c s where "utoa n = c # s" "digit_val c \<noteq> None"
  using utoa_nonempty[of n] utoa_digits[of _ n] by (cases "utoa n") auto

lemma Sscanf_int_Itoa:
  assumes "0 \<le> i" "i \<le> max_int64"
  shows "Sscanf_int (Itoa i) = i"
proof -
  obtain c s where cs: "utoa (nat i) = c # s" "digit_val c \<noteq> None" by (rule utoa_Cons)
  have "skip_spaces (c # s) = c # s" using cs(2) by (rule skip_spaces_digit)
  moreover have "sign_split (c # s) = (False, c # s)" using cs(2) by (auto simp: sign_split_def)
  moreover have "take_digits (c # s) = c # s" unfolding cs(1)[symmetric]
    by (rule take_digits_all) (rule utoa_digits)
  ultimately show ?thesis
    using assms digits_val_utoa[of "nat i"]
    by (simp add: Sscanf_int_def Itoa_def cs in_int64_def min_int64_def del: take_digits.simps)
qed

lemma Itoa_nonempty [simp]: "Itoa i \<noteq> []"
  by (simp add: Itoa_def)

text \<open>The UTF-8 encoding of a code point, as Go's conversion of an integer to a string.\<close>

definition utf8 :: "int \<Rightarrow> string" where
  "utf8 i =
     (if i < 0 \<or> i > 1114111 \<or> 55296 \<le> i \<and> i \<le> 57343 then [byte 239, byte 191, byte 189]
      else let n = nat i in
        if n < 128 then [byte n]
        else if n < 2048 then [byte (192 + n div 64), byte (128 + n mod 64)]
        else if n < 65536
        then [byte (224 + n div 4096), byte (128 + n div 64 mod 64), byte (128 + n mod 64)]
        else [byte (240 + n div 262144), byte (128 + n div 4096 mod 64),
              byte (128 + n div 64 mod 64), byte (128 + n mod 64)])"

subsection \<open>Operations on a world\<close>

type_synonym ('e, 'w, 'a) io = "'e \<Rightarrow> 'w \<Rightarrow> 'a \<times> 'w"
type_synonym ('e, 'w, 'a) eio = "('e, 'w, err + 'a) io"

definition ret :: "'a \<Rightarrow> ('e, 'w, 'a) io" where "ret x = (\<lambda>e w. (x, w))"

definition bind_io :: "('e, 'w, 'a) io \<Rightarrow> ('a \<Rightarrow> ('e, 'w, 'b) io) \<Rightarrow> ('e, 'w, 'b) io" where
  "bind_io m f = (\<lambda>e w. case m e w of (x, w') \<Rightarrow> f x e w')"

abbreviation okE :: "'a \<Rightarrow> ('e, 'w, 'a) eio" where "okE x \<equiv> ret (Inr x)"

abbreviation failE :: "err \<Rightarrow> ('e, 'w, 'a) eio" where "failE er \<equiv> ret (Inl er)"

definition bindE :: "('e, 'w, 'a) eio \<Rightarrow> ('a \<Rightarrow> ('e, 'w, 'b) eio) \<Rightarrow> ('e, 'w, 'b) eio" where
  "bindE m f = bind_io m (\<lambda>r. case r of Inl er \<Rightarrow> failE er | Inr x \<Rightarrow> f x)"

text \<open>A pure computation that may fail, and one that reads the environment or the world.\<close>

definition liftE :: "err + 'a \<Rightarrow> ('e, 'w, 'a) eio" where "liftE r = ret r"

definition asks :: "('e \<Rightarrow> 'w \<Rightarrow> 'a) \<Rightarrow> ('e, 'w, 'a) io" where "asks g = (\<lambda>e w. (g e w, w))"

definition modify_io :: "('e \<Rightarrow> 'w \<Rightarrow> 'w) \<Rightarrow> ('e, 'w, unit) io" where
  "modify_io g = (\<lambda>e w. ((), g e w))"

text \<open>A loop over a list whose body may fail: the first error ends it.\<close>

primrec eachE :: "('a \<Rightarrow> ('e, 'w, unit) eio) \<Rightarrow> 'a list \<Rightarrow> ('e, 'w, unit) eio" where
  "eachE f [] = okE ()"
| "eachE f (x # xs) = bindE (f x) (\<lambda>_. eachE f xs)"

text \<open>A loop over a list that threads an accumulator.\<close>

primrec fold_io :: "('a \<Rightarrow> 'b \<Rightarrow> ('e, 'w, 'b) io) \<Rightarrow> 'a list \<Rightarrow> 'b \<Rightarrow> ('e, 'w, 'b) io" where
  "fold_io f [] b = ret b"
| "fold_io f (x # xs) b = bind_io (f x b) (\<lambda>b'. fold_io f xs b')"

lemma ret_run [simp]: "ret x e w = (x, w)"
  by (simp add: ret_def)

lemma asks_run [simp]: "asks g e w = (g e w, w)"
  by (simp add: asks_def)

lemma modify_run [simp]: "modify_io g e w = ((), g e w)"
  by (simp add: modify_io_def)

lemma liftE_run [simp]: "liftE r e w = (r, w)"
  by (simp add: liftE_def)

lemma bind_io_run: "m e w = (x, w1) \<Longrightarrow> bind_io m f e w = f x e w1"
  by (simp add: bind_io_def)

lemma bindE_run [simp]: "m e w = (Inr x, w1) \<Longrightarrow> bindE m f e w = f x e w1"
  by (simp add: bindE_def bind_io_def)

lemma bindE_fail [simp]: "m e w = (Inl er, w1) \<Longrightarrow> bindE m f e w = (Inl er, w1)"
  by (simp add: bindE_def bind_io_def)

lemma bind_ret [simp]: "bind_io (ret x) f = f x"
  by (simp add: bind_io_def fun_eq_iff)

lemma bindE_okE [simp]: "bindE (okE x) f = f x"
  by (simp add: bindE_def)

lemma bindE_failE [simp]: "bindE (failE er) f = failE er"
  by (simp add: bindE_def bind_io_def ret_def)

lemma bindE_liftE_Inr [simp]: "bindE (liftE (Inr x)) f = f x"
  by (simp add: liftE_def)

lemma bindE_liftE_Inl [simp]: "bindE (liftE (Inl er)) f = failE er"
  unfolding liftE_def by (rule bindE_failE)

lemma bind_io_iff [io_iff]:
  "bind_io m f e w = (y, w') \<longleftrightarrow> (\<exists>x w1. m e w = (x, w1) \<and> f x e w1 = (y, w'))"
  by (auto simp: bind_io_def split: prod.splits)

lemma bindE_Inr_iff [io_iff]:
  "bindE m f e w = (Inr y, w') \<longleftrightarrow> (\<exists>x w1. m e w = (Inr x, w1) \<and> f x e w1 = (Inr y, w'))"
  by (auto simp: bindE_def bind_io_def split: prod.splits sum.splits)

lemma bindE_Inl_iff:
  "bindE m f e w = (Inl er, w') \<longleftrightarrow>
     m e w = (Inl er, w') \<or> (\<exists>x w1. m e w = (Inr x, w1) \<and> f x e w1 = (Inl er, w'))"
  by (auto simp: bindE_def bind_io_def split: prod.splits sum.splits)

subsection \<open>Relating the worlds before and after\<close>

definition steps :: "('w \<Rightarrow> 'w \<Rightarrow> bool) \<Rightarrow> ('e, 'w, 'a) io \<Rightarrow> bool" where
  "steps R m \<longleftrightarrow> (\<forall>e w. R w (snd (m e w)))"

text \<open>
  The relations used are reflexive and transitive: "these fields are unchanged", "the
  invariant is kept", "only new keys are added".
\<close>

definition frame_rel :: "('w \<Rightarrow> 'w \<Rightarrow> bool) \<Rightarrow> bool" where
  "frame_rel R \<longleftrightarrow> (\<forall>w. R w w) \<and> (\<forall>u v w. R u v \<longrightarrow> R v w \<longrightarrow> R u w)"

definition keeps :: "('w \<Rightarrow> bool) \<Rightarrow> 'w \<Rightarrow> 'w \<Rightarrow> bool" where
  "keeps P w w' \<longleftrightarrow> (P w \<longrightarrow> P w')"

definition same :: "('w \<Rightarrow> 'f) \<Rightarrow> 'w \<Rightarrow> 'w \<Rightarrow> bool" where
  "same g w w' \<longleftrightarrow> g w' = g w"

lemma frame_rel_keeps [steps_rules]: "frame_rel (keeps P)"
  by (auto simp: frame_rel_def keeps_def)

lemma frame_rel_same [steps_rules]: "frame_rel (same g)"
  by (auto simp: frame_rel_def same_def)

lemma stepsI: "(\<And>e w. R w (snd (m e w))) \<Longrightarrow> steps R m"
  by (simp add: steps_def)

lemma stepsD: "steps R m \<Longrightarrow> m e w = (x, w') \<Longrightarrow> R w w'"
  by (metis snd_conv steps_def)

lemma steps_ret [steps_rules]: "frame_rel R \<Longrightarrow> steps R (ret x)"
  by (simp add: steps_def frame_rel_def)

lemma steps_asks [steps_rules]: "frame_rel R \<Longrightarrow> steps R (asks g)"
  by (simp add: steps_def frame_rel_def)

lemma steps_liftE [steps_rules]: "frame_rel R \<Longrightarrow> steps R (liftE r)"
  by (simp add: steps_def frame_rel_def)

lemma steps_bind_io [steps_rules]:
  assumes "frame_rel R" "steps R m" "\<And>x. steps R (f x)"
  shows "steps R (bind_io m f)"
proof (rule stepsI)
  fix e w
  obtain x w1 where m: "m e w = (x, w1)" by (cases "m e w")
  have "R w w1" using assms(2) m by (rule stepsD)
  moreover have "R w1 (snd (f x e w1))" using assms(3) by (auto simp: steps_def)
  moreover have "bind_io m f e w = f x e w1" using m by (rule bind_io_run)
  ultimately show "R w (snd (bind_io m f e w))"
    using assms(1) unfolding frame_rel_def by metis
qed

lemma steps_bindE [steps_rules]:
  assumes "frame_rel R" "steps R m" "\<And>x. steps R (f x)"
  shows "steps R (bindE m f)"
  unfolding bindE_def
  by (rule steps_bind_io[OF assms(1,2)]) (auto intro: assms steps_ret split: sum.splits)

lemma steps_if [steps_rules]: "steps R m \<Longrightarrow> steps R n \<Longrightarrow> steps R (if b then m else n)"
  by simp

lemma steps_case_option [steps_rules]:
  "steps R m \<Longrightarrow> (\<And>x. steps R (f x)) \<Longrightarrow> steps R (case z of None \<Rightarrow> m | Some x \<Rightarrow> f x)"
  by (cases z) auto

lemma steps_case_sum [steps_rules]:
  "(\<And>x. steps R (g x)) \<Longrightarrow> (\<And>x. steps R (f x)) \<Longrightarrow> steps R (case z of Inl x \<Rightarrow> g x | Inr x \<Rightarrow> f x)"
  by (cases z) auto

lemma steps_case_prod [steps_rules]:
  "(\<And>x y. steps R (f x y)) \<Longrightarrow> steps R (case z of (x, y) \<Rightarrow> f x y)"
  by (cases z) auto

lemma steps_let [steps_rules]: "(\<And>x. steps R (f x)) \<Longrightarrow> steps R (let x = v in f x)"
  by simp

lemma steps_eachE [steps_rules]:
  "frame_rel R \<Longrightarrow> (\<And>x. steps R (f x)) \<Longrightarrow> steps R (eachE f xs)"
  by (induction xs) (auto intro: steps_rules)

lemma steps_fold_io [steps_rules]:
  "frame_rel R \<Longrightarrow> (\<And>x b. steps R (f x b)) \<Longrightarrow> steps R (fold_io f xs b)"
  by (induction xs arbitrary: b) (auto intro: steps_rules)

end
