(* ===== verification/Authz.thy ===== *)
theory Authz
  imports Prelude
begin

text \<open>
  Relationship tuples and the surface of \<open>kernel/authz\<close> that the program uses, with the
  projection adapter \<open>internal/biz/graph/projector.go\<close> and the identifier helpers
  \<open>internal/biz/graphid/graphid.go\<close> and \<open>internal/biz/idgen/idgen.go\<close>.

  The kernel packages are outside the repository.  Their data types appear here with the
  fields the program reads and writes; their functions are parameters: the record \<open>kernel\<close>
  holds constants and methods (\<open>IsZero\<close>, \<open>String\<close>, \<open>IsAllowed\<close>), the record \<open>store\<close> is the
  interface \<open>authz.RelationshipStore\<close>, and \<open>CheckRequest \<Rightarrow> 'g \<Rightarrow> \<dots>\<close> is \<open>authz.Authorizer\<close>.
  \<open>tuple_store\<close> names the documented behaviour of a relationship store that some properties
  rely on; \<open>set_store\<close> is a concrete store with that behaviour.
\<close>

subsection \<open>Data of the kernel's authz package\<close>

record ObjectRef =
  ob_Type :: string
  ob_ID :: string

record SubjectRef =
  su_Type :: string
  su_ID :: string
  su_Relation :: string

record Relationship =
  rel_Resource :: ObjectRef
  rel_Relation :: string
  rel_Subject :: SubjectRef
  rel_ExpiresAt :: gotime

record RelationshipFilter =
  f_ResourceType :: string
  f_ResourceID :: string
  f_Relation :: string
  f_SubjectType :: string
  f_SubjectID :: string
  f_SubjectRel :: string

record WriteResult =
  wr_Written :: int
  wr_Deleted :: int
  wr_Token :: string

record Decision =
  dec_Allowed :: bool
  dec_Effect :: string
  dec_Reason :: string
  dec_Token :: string

record CheckRequest =
  chk_Subject :: SubjectRef
  chk_Resource :: ObjectRef
  chk_Permission :: string
  chk_OrgID :: string
  chk_ProjectID :: string

definition no_result :: WriteResult where
  "no_result = \<lparr>wr_Written = 0, wr_Deleted = 0, wr_Token = []\<rparr>"

definition empty_filter :: RelationshipFilter where
  "empty_filter = \<lparr>f_ResourceType = [], f_ResourceID = [], f_Relation = [],
     f_SubjectType = [], f_SubjectID = [], f_SubjectRel = []\<rparr>"

record kernel =
  SubjectTypeUser :: string
  SubjectTypeGroup :: string
  obj_is_zero :: "ObjectRef \<Rightarrow> bool"
  subj_is_zero :: "SubjectRef \<Rightarrow> bool"
  obj_string :: "ObjectRef \<Rightarrow> string"
  subj_string :: "SubjectRef \<Rightarrow> string"
  is_allowed :: "Decision \<Rightarrow> bool"

record 'g store =
  st_write :: "Relationship list \<Rightarrow> 'g \<Rightarrow> (WriteResult \<times> err option) \<times> 'g"
  st_delete :: "RelationshipFilter \<Rightarrow> 'g \<Rightarrow> (WriteResult \<times> err option) \<times> 'g"
  st_read :: "RelationshipFilter \<Rightarrow> 'g \<Rightarrow> (err + Relationship list) \<times> 'g"

type_synonym 'g authorizer = "CheckRequest \<Rightarrow> 'g \<Rightarrow> (err + Decision) \<times> 'g"

subsection \<open>The projection adapter\<close>

definition Object :: "string \<Rightarrow> string \<Rightarrow> ObjectRef" where
  "Object typ ident = \<lparr>ob_Type = TrimSpace typ, ob_ID = TrimSpace ident\<rparr>"

definition Subject :: "string \<Rightarrow> string \<Rightarrow> string \<Rightarrow> SubjectRef" where
  "Subject typ ident rel =
     \<lparr>su_Type = TrimSpace typ, su_ID = TrimSpace ident, su_Relation = TrimSpace rel\<rparr>"

definition Projector_Enabled :: "'g store option \<Rightarrow> bool" where
  "Projector_Enabled p \<longleftrightarrow> p \<noteq> None"

definition well_formed_rel :: "kernel \<Rightarrow> Relationship \<Rightarrow> bool" where
  "well_formed_rel K r \<longleftrightarrow>
     \<not> (obj_is_zero K (rel_Resource r) \<or> subj_is_zero K (rel_Subject r)
        \<or> TrimSpace (rel_Relation r) = [])"

definition Projector_Write ::
    "kernel \<Rightarrow> 'g store option \<Rightarrow> Relationship list \<Rightarrow> 'g \<Rightarrow> (WriteResult \<times> err option) \<times> 'g" where
  "Projector_Write K p rels g =
     (case p of
        None \<Rightarrow> ((no_result, None), g)
      | Some s \<Rightarrow>
          if rels = [] then ((no_result, None), g)
          else let compact = filter (well_formed_rel K) rels
               in if compact = [] then ((no_result, None), g) else st_write s compact g)"

definition Projector_Delete ::
    "'g store option \<Rightarrow> RelationshipFilter \<Rightarrow> 'g \<Rightarrow> (WriteResult \<times> err option) \<times> 'g" where
  "Projector_Delete p f g =
     (case p of None \<Rightarrow> ((no_result, None), g) | Some s \<Rightarrow> st_delete s f g)"

definition QualifiedID :: "string \<Rightarrow> string \<Rightarrow> string" where
  "QualifiedID org local =
     (let org = TrimSlash (TrimSpace org); local = TrimSlash (TrimSpace local)
      in if org = [] then local else if local = [] then org else org @ ''/'' @ local)"

subsection \<open>Generated identifiers\<close>

text \<open>
  \<open>timestamp\<close> formats the UTC instant with the layout \<open>20060102150405_000000000\<close>.  In that
  layout only the date and the time of day are fields; a run of zeros is a fraction of a second
  only after a point or a comma, so \<open>_000000000\<close> is copied as it stands.
\<close>

definition pad_left :: "nat \<Rightarrow> string \<Rightarrow> string" where
  "pad_left n s = replicate (n - length s) (CHR ''0'') @ s"

definition civil_date :: "int \<Rightarrow> int \<times> int \<times> int" where
  "civil_date day =
     (let z = day + 306; era = z div 146097; doe = z mod 146097;
          yoe = (doe - doe div 1460 + doe div 36524 - doe div 146096) div 365;
          doy = doe - (365 * yoe + yoe div 4 - yoe div 100);
          mp = (5 * doy + 2) div 153;
          d = doy - (153 * mp + 2) div 5 + 1;
          m = (if mp < 10 then mp + 3 else mp - 9)
      in (yoe + era * 400 + (if m \<le> 2 then 1 else 0), m, d))"

definition timestamp :: "gotime \<Rightarrow> string" where
  "timestamp t =
     (let s = t div 1000000000; day = s div 86400; r = s mod 86400;
          (y, m, d) = civil_date day
      in pad_left 4 (Itoa y) @ pad_left 2 (Itoa m) @ pad_left 2 (Itoa d)
         @ pad_left 2 (Itoa (r div 3600)) @ pad_left 2 (Itoa (r mod 3600 div 60))
         @ pad_left 2 (Itoa (r mod 60)) @ ''_000000000'')"

definition hex_digit :: "nat \<Rightarrow> char" where
  "hex_digit n = (if n < 10 then byte (48 + n) else byte (87 + n))"

definition hex_encode :: "nat list \<Rightarrow> string" where
  "hex_encode bs = concat (map (\<lambda>b. [hex_digit (b div 16 mod 16), hex_digit (b mod 16)]) bs)"

text \<open>
  \<open>New prefix\<close> from one clock reading and one read of four random bytes (\<open>None\<close> when
  \<open>crypto/rand\<close> fails).
\<close>

definition idgen_New :: "string \<Rightarrow> gotime \<Rightarrow> nat list option \<Rightarrow> string" where
  "idgen_New prefix t rnd =
     (let p = TrimSpace prefix; p = (if p = [] then ''id'' else p)
      in case rnd of
           None \<Rightarrow> p @ ''_'' @ timestamp t
         | Some b \<Rightarrow> p @ ''_'' @ timestamp t @ ''_'' @ hex_encode b)"

lemma timestamp_same_second:
  "t div 1000000000 = t' div 1000000000 \<Longrightarrow> timestamp t = timestamp t'"
  by (simp add: timestamp_def)

lemma hex_digit_val: "k < 16 \<Longrightarrow> (of_char (hex_digit k) :: nat) = (if k < 10 then 48 + k else 87 + k)"
  by (simp add: hex_digit_def byte_def)

lemma hex_digit_inj: "m < 16 \<Longrightarrow> n < 16 \<Longrightarrow> hex_digit m = hex_digit n \<Longrightarrow> m = n"
proof -
  assume m: "m < 16" and n: "n < 16" and "hex_digit m = hex_digit n"
  then have "(if m < 10 then 48 + m else 87 + m) = (if n < 10 then 48 + n else 87 + n)"
    using hex_digit_val[OF m] hex_digit_val[OF n] by metis
  then show "m = n" using m n by (simp split: if_split_asm)
qed

lemma hex_encode_inj:
  "hex_encode as = hex_encode bs \<Longrightarrow> \<forall>b \<in> set as \<union> set bs. b < 256 \<Longrightarrow> as = bs"
proof (induction as arbitrary: bs)
  case Nil
  then show ?case by (cases bs) (auto simp: hex_encode_def)
next
  case (Cons a as)
  then obtain b bs' where bs: "bs = b # bs'" by (cases bs) (auto simp: hex_encode_def)
  with Cons.prems have "hex_digit (a div 16 mod 16) = hex_digit (b div 16 mod 16)"
    "hex_digit (a mod 16) = hex_digit (b mod 16)" "hex_encode as = hex_encode bs'"
    by (simp_all add: hex_encode_def)
  note eqs = this
  have hi: "a div 16 mod 16 = b div 16 mod 16" by (rule hex_digit_inj[OF _ _ eqs(1)]) simp_all
  have lo: "a mod 16 = b mod 16" by (rule hex_digit_inj[OF _ _ eqs(2)]) simp_all
  have "a < 256" "b < 256" using Cons.prems bs by auto
  then have "a div 16 mod 16 = a div 16" "b div 16 mod 16 = b div 16" by simp_all
  with hi lo have "a = b" by (metis div_mult_mod_eq)
  then show ?case using Cons bs eqs(3) by auto
qed

lemma Object_fields [simp]:
  "ob_Type (Object t i) = TrimSpace t" "ob_ID (Object t i) = TrimSpace i"
  by (simp_all add: Object_def)

lemma Subject_fields [simp]:
  "su_Type (Subject t i r) = TrimSpace t" "su_ID (Subject t i r) = TrimSpace i"
  "su_Relation (Subject t i r) = TrimSpace r"
  by (simp_all add: Subject_def)

subsection \<open>What a relationship store promises\<close>

type_synonym tuple = "ObjectRef \<times> string \<times> SubjectRef"

definition rel_key :: "Relationship \<Rightarrow> tuple" where
  "rel_key r = (rel_Resource r, rel_Relation r, rel_Subject r)"

definition field_matches :: "string \<Rightarrow> string \<Rightarrow> bool" where
  "field_matches want v \<longleftrightarrow> want = [] \<or> want = v"

text \<open>
  A filter field that is empty selects every value.  For the subject relation the kernel may
  also read the empty string as "the subject itself": \<open>wide\<close> is the generous reading and
  \<open>narrow\<close> the strict one.  The laws below hold under both.
\<close>

definition narrow :: "RelationshipFilter \<Rightarrow> tuple \<Rightarrow> bool" where
  "narrow f t = (case t of (ob, r, s) \<Rightarrow>
     field_matches (f_ResourceType f) (ob_Type ob) \<and> field_matches (f_ResourceID f) (ob_ID ob)
     \<and> field_matches (f_Relation f) r
     \<and> field_matches (f_SubjectType f) (su_Type s) \<and> field_matches (f_SubjectID f) (su_ID s)
     \<and> (if f_SubjectType f = [] \<and> f_SubjectID f = [] \<and> f_SubjectRel f = [] then True
        else f_SubjectRel f = su_Relation s))"

definition wide :: "RelationshipFilter \<Rightarrow> tuple \<Rightarrow> bool" where
  "wide f t = (case t of (ob, r, s) \<Rightarrow>
     field_matches (f_ResourceType f) (ob_Type ob) \<and> field_matches (f_ResourceID f) (ob_ID ob)
     \<and> field_matches (f_Relation f) r
     \<and> field_matches (f_SubjectType f) (su_Type s) \<and> field_matches (f_SubjectID f) (su_ID s)
     \<and> field_matches (f_SubjectRel f) (su_Relation s))"

lemma narrow_wide: "narrow f t \<Longrightarrow> wide f t"
  by (auto simp: narrow_def wide_def field_matches_def split: prod.splits if_splits)

text \<open>
  The documented behaviour: a write that succeeds adds the tuples and a write that fails adds
  none (one transaction); a delete that succeeds removes what its filter selects and nothing
  its filter does not select; reading changes nothing and returns what the filter selects.
\<close>

definition store_writes :: "'g store \<Rightarrow> ('g \<Rightarrow> tuple set) \<Rightarrow> bool" where
  "store_writes S T \<longleftrightarrow>
     (\<forall>rels g wr er g'. st_write S rels g = ((wr, er), g') \<longrightarrow>
        T g' = (if er = None then T g \<union> rel_key ` set rels else T g))"

definition store_deletes :: "'g store \<Rightarrow> ('g \<Rightarrow> tuple set) \<Rightarrow> bool" where
  "store_deletes S T \<longleftrightarrow>
     (\<forall>f g wr er g'. st_delete S f g = ((wr, er), g') \<longrightarrow>
        {t \<in> T g. \<not> wide f t} \<subseteq> T g' \<and> T g' \<subseteq> T g
        \<and> (er = None \<longrightarrow> T g' \<subseteq> {t \<in> T g. \<not> narrow f t}))"

definition store_reads :: "'g store \<Rightarrow> ('g \<Rightarrow> tuple set) \<Rightarrow> bool" where
  "store_reads S T \<longleftrightarrow>
     (\<forall>f g r g'. st_read S f g = (r, g') \<longrightarrow>
        T g' = T g \<and> (\<forall>rels. r = Inr rels \<longrightarrow>
          {t \<in> T g. narrow f t} \<subseteq> rel_key ` set rels \<and> rel_key ` set rels \<subseteq> {t \<in> T g. wide f t}))"

definition tuple_store :: "'g store \<Rightarrow> ('g \<Rightarrow> tuple set) \<Rightarrow> bool" where
  "tuple_store S T \<longleftrightarrow> store_writes S T \<and> store_deletes S T \<and> store_reads S T"

text \<open>
  SpiceDB refuses a delete whose filter names no resource type (the comment on
  \<open>userSubjectDeleteFilters\<close> in \<open>internal/data/identity_mode.go\<close>).
\<close>

definition refuses_untyped :: "'g store \<Rightarrow> bool" where
  "refuses_untyped S \<longleftrightarrow>
     (\<forall>f g. f_ResourceType f = [] \<longrightarrow> snd (fst (st_delete S f g)) \<noteq> None)"

text \<open>
  A concrete store: a list of relationships.  With \<open>strict\<close> it refuses untyped deletes; the
  names in \<open>down\<close> are relations whose writes fail.
\<close>

definition set_store :: "bool \<Rightarrow> string list \<Rightarrow> (Relationship list) store" where
  "set_store strict down =
     \<lparr>st_write = (\<lambda>rels g.
        if \<exists>r \<in> set rels. rel_Relation r \<in> set down
        then ((no_result, Some (ErrExternal ''store unavailable'')), g)
        else ((no_result\<lparr>wr_Written := int (length rels)\<rparr>, None),
              filter (\<lambda>r. rel_key r \<notin> rel_key ` set rels) g @ rels)),
      st_delete = (\<lambda>f g.
        if strict \<and> f_ResourceType f = []
        then ((no_result, Some (ErrExternal ''resource type is required'')), g)
        else ((no_result\<lparr>wr_Deleted := int (length (filter (\<lambda>r. wide f (rel_key r)) g))\<rparr>, None),
              filter (\<lambda>r. \<not> wide f (rel_key r)) g)),
      st_read = (\<lambda>f g. (Inr (filter (\<lambda>r. wide f (rel_key r)) g), g))\<rparr>"

definition set_tuples :: "Relationship list \<Rightarrow> tuple set" where
  "set_tuples g = rel_key ` set g"

lemma upsert_keys:
  "rel_key ` ({r \<in> A. rel_key r \<notin> rel_key ` B} \<union> B) = rel_key ` A \<union> rel_key ` B"
  by (rule set_eqI) (case_tac "x \<in> rel_key ` B"; fastforce)

lemma tuple_store_set_store: "tuple_store (set_store strict down) set_tuples"
proof -
  have "store_writes (set_store strict down) set_tuples"
    by (auto simp: store_writes_def set_store_def set_tuples_def upsert_keys simp del: image_Un
        split: if_splits)
  moreover have "store_deletes (set_store strict down) set_tuples"
    by (auto simp: store_deletes_def set_store_def set_tuples_def dest: narrow_wide split: if_splits)
  moreover have "store_reads (set_store strict down) set_tuples"
    by (auto simp: store_reads_def set_store_def set_tuples_def dest: narrow_wide)
  ultimately show ?thesis by (simp add: tuple_store_def)
qed

lemma refuses_untyped_set_store: "refuses_untyped (set_store True down)"
  by (simp add: refuses_untyped_def set_store_def)

end
