(* ===== verification/Models.thy ===== *)
theory Models
  imports Authz
begin

text \<open>
  The control-plane records of \<open>internal/data/resource_models.go\<close> and the query types and
  status constants of \<open>internal/data/resource_repository.go\<close>, field by field.  A pointer to a
  time is an option; JSON columns are kept as text.
\<close>

record ProjectModel =
  pr_ID :: string
  pr_OrgID :: string
  pr_Slug :: string
  pr_DisplayName :: string
  pr_Description :: string
  pr_Status :: string
  pr_Visibility :: string
  pr_LabelsJSON :: string
  pr_AnnotationsJSON :: string
  pr_MetadataJSON :: string
  pr_CreatedBy :: string
  pr_CreatedAt :: gotime
  pr_UpdatedAt :: gotime
  pr_DeletedAt :: "gotime option"

record CapabilityModel =
  cap_ID :: string
  cap_Name :: string
  cap_DisplayName :: string
  cap_OwnerService :: string
  cap_Status :: string
  cap_ConfigSchema :: string
  cap_CreatedAt :: gotime
  cap_UpdatedAt :: gotime

record ProjectCapabilityModel =
  pc_ProjectID :: string
  pc_CapabilityID :: string
  pc_Enabled :: bool
  pc_ConfigJSON :: string
  pc_QuotaJSON :: string
  pc_CreatedAt :: gotime
  pc_UpdatedAt :: gotime

record ResourceTypeModel =
  rt_Type :: string
  rt_CapabilityID :: string
  rt_OwnerService :: string
  rt_ParentTypesJSON :: string
  rt_Grantable :: bool
  rt_Auditable :: bool
  rt_SpiceDBType :: string
  rt_RelationsJSON :: string
  rt_PermissionsJSON :: string
  rt_MetadataSchema :: string
  rt_Status :: string
  rt_CreatedAt :: gotime
  rt_UpdatedAt :: gotime

record ResourceModel =
  re_Type :: string
  re_ID :: string
  re_OrgID :: string
  re_ProjectID :: string
  re_ParentType :: string
  re_ParentID :: string
  re_OwnerService :: string
  re_OwnerResourceID :: string
  re_Slug :: string
  re_DisplayName :: string
  re_Path :: string
  re_Status :: string
  re_Visibility :: string
  re_LabelsJSON :: string
  re_AnnotationsJSON :: string
  re_MetadataJSON :: string
  re_CreatedBy :: string
  re_CreatedAt :: gotime
  re_UpdatedAt :: gotime
  re_DeletedAt :: "gotime option"

record ResourceBindingModel =
  rb_ID :: string
  rb_OrgID :: string
  rb_SourceType :: string
  rb_SourceID :: string
  rb_Relation :: string
  rb_TargetType :: string
  rb_TargetID :: string
  rb_Status :: string
  rb_CreatedBy :: string
  rb_CreatedAt :: gotime
  rb_UpdatedAt :: gotime

record ExternalResourceBindingModel =
  eb_ID :: string
  eb_OrgID :: string
  eb_ResourceType :: string
  eb_ResourceID :: string
  eb_Provider :: string
  eb_ExternalType :: string
  eb_ExternalID :: string
  eb_ExternalPath :: string
  eb_ExternalURL :: string
  eb_SyncMode :: string
  eb_SyncStatus :: string
  eb_LastSyncedAt :: "gotime option"
  eb_MetadataJSON :: string
  eb_CreatedAt :: gotime
  eb_UpdatedAt :: gotime

record RoleTemplateModel =
  ro_ID :: string
  ro_OrgID :: string
  ro_ResourceType :: string
  ro_RoleKey :: string
  ro_DisplayName :: string
  ro_Description :: string
  ro_Relation :: string
  ro_BuiltIn :: bool
  ro_Enabled :: bool
  ro_SortOrder :: int
  ro_MetadataJSON :: string
  ro_Version :: int
  ro_CreatedAt :: gotime
  ro_UpdatedAt :: gotime
  ro_Permissions :: "string list"
  ro_ActiveGrantCount :: int

record RoleTemplateAuditModel =
  ra_ID :: string
  ra_RoleTemplateID :: string
  ra_Version :: int
  ra_Action :: string
  ra_ActorType :: string
  ra_ActorID :: string
  ra_BeforeJSON :: string
  ra_AfterJSON :: string
  ra_CreatedAt :: gotime

record GrantModel =
  gr_ID :: string
  gr_OrgID :: string
  gr_ResourceType :: string
  gr_ResourceID :: string
  gr_RoleKey :: string
  gr_RoleTemplateID :: string
  gr_Relation :: string
  gr_SubjectType :: string
  gr_SubjectID :: string
  gr_SubjectRelation :: string
  gr_Source :: string
  gr_Reason :: string
  gr_ExpiresAt :: "gotime option"
  gr_CreatedByType :: string
  gr_CreatedByID :: string
  gr_CreatedAt :: gotime
  gr_RevokedAt :: "gotime option"

record GrantAuditModel =
  ga_ID :: string
  ga_OrgID :: string
  ga_GrantID :: string
  ga_Action :: string
  ga_ResourceType :: string
  ga_ResourceID :: string
  ga_Relation :: string
  ga_SubjectType :: string
  ga_SubjectID :: string
  ga_SubjectRelation :: string
  ga_ActorType :: string
  ga_ActorID :: string
  ga_Reason :: string
  ga_MetadataJSON :: string
  ga_CreatedAt :: gotime

record OutboxEventModel =
  ev_ID :: string
  ev_OrgID :: string
  ev_Topic :: string
  ev_AggregateType :: string
  ev_AggregateID :: string
  ev_PayloadJSON :: string
  ev_Status :: string
  ev_RetryCount :: int
  ev_NextRunAt :: "gotime option"
  ev_LastError :: string
  ev_CreatedAt :: gotime
  ev_UpdatedAt :: gotime

record LocalUserModel =
  lu_Username :: string
  lu_SubjectID :: string
  lu_SubjectType :: string
  lu_DisplayName :: string
  lu_Email :: string
  lu_Organization :: string
  lu_RolesJSON :: string
  lu_PermissionsJSON :: string
  lu_NamespacesJSON :: string
  lu_PasswordHash :: string
  lu_Disabled :: bool
  lu_CreatedAt :: gotime
  lu_UpdatedAt :: gotime

record ListOptions =
  lo_OrgID :: string
  lo_ProjectID :: string
  lo_Type :: string
  lo_CapabilityID :: string
  lo_ResourceType :: string
  lo_ResourceID :: string
  lo_SubjectType :: string
  lo_SubjectID :: string
  lo_Relation :: string
  lo_RoleKey :: string
  lo_Source :: string
  lo_Active :: "bool option"
  lo_Status :: string
  lo_Q :: string
  lo_Page :: int
  lo_Size :: int

record 'a Page =
  pg_Items :: "'a list"
  pg_Total :: int
  pg_Page :: int
  pg_Size :: int
  pg_HasMore :: bool

definition no_options :: ListOptions where
  "no_options = \<lparr>lo_OrgID = [], lo_ProjectID = [], lo_Type = [], lo_CapabilityID = [],
     lo_ResourceType = [], lo_ResourceID = [], lo_SubjectType = [], lo_SubjectID = [],
     lo_Relation = [], lo_RoleKey = [], lo_Source = [], lo_Active = None, lo_Status = [],
     lo_Q = [], lo_Page = 0, lo_Size = 0\<rparr>"

abbreviation StatusActive :: string where "StatusActive \<equiv> ''active''"
abbreviation StatusArchived :: string where "StatusArchived \<equiv> ''archived''"
abbreviation StatusDeleted :: string where "StatusDeleted \<equiv> ''deleted''"
abbreviation StatusPending :: string where "StatusPending \<equiv> ''pending''"
abbreviation StatusSynced :: string where "StatusSynced \<equiv> ''synced''"
abbreviation StatusSubmitted :: string where "StatusSubmitted \<equiv> ''submitted''"
abbreviation StatusProjecting :: string where "StatusProjecting \<equiv> ''projecting''"
abbreviation StatusFailed :: string where "StatusFailed \<equiv> ''failed''"
abbreviation StatusDead :: string where "StatusDead \<equiv> ''dead''"

definition MaxOutboxRetries :: int where "MaxOutboxRetries = 10"

end
