(* ===== verification/Memory.thy ===== *)
theory Memory
  imports Models
begin

text \<open>
  The control-plane repository of \<open>internal/data/memory.go\<close> and
  \<open>internal/data/project_lifecycle.go\<close>: its tables, the world its operations run in, and one
  definition per method.  The mutex of the Go type makes every method one atomic step.

  The world carries the tables (\<open>db\<close>), the state behind the relationship store and the other
  kernel services (\<open>graph\<close>), and a counter of the readings taken so far (\<open>ticks\<close>): the
  environment gives for every reading the clock's instant, the random bytes and the iteration
  order of the map that is read.  Methods store and return copies, so values are shared without
  aliasing.
\<close>

record env =
  clock :: "nat \<Rightarrow> gotime"
  rand4 :: "nat \<Rightarrow> nat list option"
  map_order :: "nat \<Rightarrow> nat \<Rightarrow> nat"
  kern :: kernel
  json_role :: "RoleTemplateModel option \<Rightarrow> string"

record MemoryRepo =
  projects :: "ProjectModel gomap"
  caps :: "CapabilityModel gomap"
  projectCaps :: "ProjectCapabilityModel gomap"
  resourceTypes :: "ResourceTypeModel gomap"
  resources :: "ResourceModel gomap"
  bindings :: "ResourceBindingModel gomap"
  externalBindings :: "ExternalResourceBindingModel gomap"
  roles :: "RoleTemplateModel gomap"
  roleAudits :: "RoleTemplateAuditModel gomap"
  grants :: "GrantModel gomap"
  audits :: "GrantAuditModel gomap"
  events :: "OutboxEventModel gomap"
  localUsers :: "LocalUserModel gomap"

definition NewMemoryControlPlaneRepository :: MemoryRepo where
  "NewMemoryControlPlaneRepository =
     \<lparr>projects = [], caps = [], projectCaps = [], resourceTypes = [], resources = [],
      bindings = [], externalBindings = [], roles = [], roleAudits = [], grants = [],
      audits = [], events = [], localUsers = []\<rparr>"

record 'g world =
  ticks :: nat
  db :: MemoryRepo
  graph :: 'g

type_synonym ('g, 'a) op = "(env, 'g world, 'a) io"
type_synonym ('g, 'a) opE = "(env, 'g world, 'a) eio"

subsection \<open>Readings\<close>

definition tick :: "'g world \<Rightarrow> 'g world" where "tick w = w\<lparr>ticks := Suc (ticks w)\<rparr>"

definition now_io :: "('g, gotime) op" where
  "now_io = (\<lambda>e w. (clock e (ticks w), tick w))"

definition new_id :: "string \<Rightarrow> ('g, string) op" where
  "new_id prefix = (\<lambda>e w. (idgen_New prefix (clock e (ticks w)) (rand4 e (ticks w)), tick w))"

definition range_io :: "(MemoryRepo \<Rightarrow> 'v gomap) \<Rightarrow> ('g, 'v list) op" where
  "range_io tab = (\<lambda>e w. (shuffle (map_order e (ticks w)) (map snd (tab (db w))), tick w))"

definition get_db :: "(MemoryRepo \<Rightarrow> 'a) \<Rightarrow> ('g, 'a) op" where
  "get_db f = asks (\<lambda>e w. f (db w))"

definition modify_db :: "(MemoryRepo \<Rightarrow> MemoryRepo) \<Rightarrow> ('g, unit) op" where
  "modify_db f = modify_io (\<lambda>e w. w\<lparr>db := f (db w)\<rparr>)"

definition on_graph :: "('g \<Rightarrow> 'a \<times> 'g) \<Rightarrow> ('g, 'a) op" where
  "on_graph f = (\<lambda>e w. case f (graph w) of (x, g) \<Rightarrow> (x, w\<lparr>graph := g\<rparr>))"

subsection \<open>Helpers\<close>

definition nowIfZero :: "gotime \<Rightarrow> ('g, gotime) op" where
  "nowIfZero t = (if IsZero t then now_io else ret t)"

definition key :: "string list \<Rightarrow> string" where "key parts = Join parts '':''"

definition containsFold :: "string \<Rightarrow> string \<Rightarrow> bool" where
  "containsFold s q = (if TrimSpace q = [] then True else Contains (ToLower s) (ToLower q))"

definition statusOK :: "string \<Rightarrow> string \<Rightarrow> bool" where
  "statusOK status want \<longleftrightarrow> want = [] \<or> status = want"

definition pageOf :: "'a list \<Rightarrow> int \<Rightarrow> int \<Rightarrow> err + 'a Page" where
  "pageOf items page sz =
     (let len = int (length items);
          page = (if page \<le> 0 then 1 else page);
          sz = (if sz \<le> 0 then (if len = 0 then 100 else len) else sz);
          sz = (if sz > 100 then 100 else sz);
          start = wrap64 ((page - 1) * sz);
          start = (if start > len then len else start);
          stop = wrap64 (start + sz);
          stop = (if stop > len then len else stop)
      in if start < 0 \<or> stop < start then Inl (ErrPanic ''slice bounds out of range'')
         else Inr \<lparr>pg_Items = take (nat (stop - start)) (drop (nat start) items),
                   pg_Total = len, pg_Page = page, pg_Size = sz, pg_HasMore = stop < len\<rparr>)"

definition saveEvent :: "OutboxEventModel option \<Rightarrow> MemoryRepo \<Rightarrow> MemoryRepo" where
  "saveEvent event r =
     (case event of None \<Rightarrow> r
      | Some e \<Rightarrow>
          let e = (if ev_Status e = [] then e\<lparr>ev_Status := StatusPending\<rparr> else e)
          in r\<lparr>events := put_key (ev_ID e) e (events r)\<rparr>)"

definition saveEvents :: "OutboxEventModel option list \<Rightarrow> MemoryRepo \<Rightarrow> MemoryRepo" where
  "saveEvents evs r = fold saveEvent evs r"

definition not_found :: "string \<Rightarrow> string \<Rightarrow> err" where
  "not_found what ident = ErrNotFound (what @ '' '' @ ident)"

definition not_found_in :: "string \<Rightarrow> string \<Rightarrow> string \<Rightarrow> err" where
  "not_found_in what ident org = ErrNotFound (what @ '' '' @ ident @ '' in org '' @ org)"

text \<open>The lookup of an org-scoped entity, as every \<open>GetX(ctx, id, orgID)\<close> spells it out.\<close>

definition scoped :: "string \<Rightarrow> ('v \<Rightarrow> string) \<Rightarrow> string \<Rightarrow> string \<Rightarrow> 'v option \<Rightarrow> err + 'v" where
  "scoped what org ident orgID v =
     (case v of None \<Rightarrow> Inl (not_found what ident)
      | Some x \<Rightarrow> if org x \<noteq> orgID then Inl (not_found_in what ident orgID) else Inr x)"

subsection \<open>Projects and capabilities\<close>

definition CreateProject :: "ProjectModel \<Rightarrow> OutboxEventModel option list \<Rightarrow> ('g, unit) opE" where
  "CreateProject p evs =
     bind_io (nowIfZero (pr_CreatedAt p)) (\<lambda>c.
     bind_io (nowIfZero (pr_UpdatedAt p)) (\<lambda>u.
     let v = p\<lparr>pr_CreatedAt := c, pr_UpdatedAt := u\<rparr> in
     bind_io (modify_db (\<lambda>r. saveEvents evs (r\<lparr>projects := put_key (pr_ID v) v (projects r)\<rparr>)))
       (\<lambda>_. okE ())))"

definition GetProject :: "string \<Rightarrow> string \<Rightarrow> ('g, ProjectModel) opE" where
  "GetProject ident orgID =
     bind_io (get_db projects) (\<lambda>m. ret (scoped ''project'' pr_OrgID ident orgID (get_key m ident)))"

definition UpsertProject :: "ProjectModel \<Rightarrow> ('g, unit) opE" where
  "UpsertProject p =
     bind_io (get_db projects) (\<lambda>m.
     let p = (case get_key m (pr_ID p) of None \<Rightarrow> p
              | Some cur \<Rightarrow> if IsZero (pr_CreatedAt p) then p\<lparr>pr_CreatedAt := pr_CreatedAt cur\<rparr> else p) in
     bind_io (nowIfZero (pr_CreatedAt p)) (\<lambda>c.
     bind_io (nowIfZero (pr_UpdatedAt p)) (\<lambda>u.
     let v = p\<lparr>pr_CreatedAt := c, pr_UpdatedAt := u\<rparr> in
     bind_io (modify_db (\<lambda>r. r\<lparr>projects := put_key (pr_ID v) v (projects r)\<rparr>)) (\<lambda>_. okE ()))))"

definition ListProjects :: "ListOptions \<Rightarrow> ('g, ProjectModel Page) opE" where
  "ListProjects opts =
     bind_io (range_io projects) (\<lambda>vs.
     ret (pageOf (filter (\<lambda>v. (lo_OrgID opts = [] \<or> pr_OrgID v = lo_OrgID opts)
                   \<and> statusOK (pr_Status v) (lo_Status opts)
                   \<and> containsFold (pr_Slug v @ '' '' @ pr_DisplayName v) (lo_Q opts)) vs)
            (lo_Page opts) (lo_Size opts)))"

definition ArchiveProject :: "string \<Rightarrow> string \<Rightarrow> ('g, unit) opE" where
  "ArchiveProject ident orgID =
     bind_io (get_db projects) (\<lambda>m.
     bindE (liftE (scoped ''project'' pr_OrgID ident orgID (get_key m ident))) (\<lambda>v.
     bind_io now_io (\<lambda>t.
     bind_io (modify_db (\<lambda>r. r\<lparr>projects :=
         put_key ident (v\<lparr>pr_Status := StatusArchived, pr_UpdatedAt := t\<rparr>) (projects r)\<rparr>))
       (\<lambda>_. okE ()))))"

definition UpsertCapability :: "CapabilityModel \<Rightarrow> ('g, unit) opE" where
  "UpsertCapability cap =
     bind_io (nowIfZero (cap_CreatedAt cap)) (\<lambda>c.
     bind_io (nowIfZero (cap_UpdatedAt cap)) (\<lambda>u.
     let v = cap\<lparr>cap_CreatedAt := c, cap_UpdatedAt := u\<rparr> in
     bind_io (modify_db (\<lambda>r. r\<lparr>caps := put_key (cap_ID v) v (caps r)\<rparr>)) (\<lambda>_. okE ())))"

definition ListCapabilities :: "ListOptions \<Rightarrow> ('g, CapabilityModel list) opE" where
  "ListCapabilities opts =
     bind_io (range_io caps) (\<lambda>vs. okE (filter (\<lambda>v. statusOK (cap_Status v) (lo_Status opts)) vs))"

definition SetProjectCapability :: "ProjectCapabilityModel \<Rightarrow> ('g, unit) opE" where
  "SetProjectCapability pc =
     bind_io (nowIfZero (pc_CreatedAt pc)) (\<lambda>c.
     bind_io (nowIfZero (pc_UpdatedAt pc)) (\<lambda>u.
     let v = pc\<lparr>pc_CreatedAt := c, pc_UpdatedAt := u\<rparr> in
     bind_io (modify_db (\<lambda>r. r\<lparr>projectCaps :=
         put_key (key [pc_ProjectID v, pc_CapabilityID v]) v (projectCaps r)\<rparr>)) (\<lambda>_. okE ())))"

definition ListProjectCapabilities :: "string \<Rightarrow> ('g, ProjectCapabilityModel list) opE" where
  "ListProjectCapabilities projectID =
     bind_io (range_io projectCaps) (\<lambda>vs.
     okE (filter (\<lambda>v. projectID = [] \<or> pc_ProjectID v = projectID) vs))"

subsection \<open>Resource types, resources and bindings\<close>

definition UpsertResourceType :: "ResourceTypeModel \<Rightarrow> ('g, unit) opE" where
  "UpsertResourceType rt =
     bind_io (nowIfZero (rt_CreatedAt rt)) (\<lambda>c.
     bind_io (nowIfZero (rt_UpdatedAt rt)) (\<lambda>u.
     let v = rt\<lparr>rt_CreatedAt := c, rt_UpdatedAt := u,
                rt_Status := (if rt_Status rt = [] then StatusActive else rt_Status rt)\<rparr> in
     bind_io (modify_db (\<lambda>r. r\<lparr>resourceTypes := put_key (rt_Type v) v (resourceTypes r)\<rparr>))
       (\<lambda>_. okE ())))"

definition GetResourceType :: "string \<Rightarrow> ('g, ResourceTypeModel) opE" where
  "GetResourceType typ =
     bind_io (get_db resourceTypes) (\<lambda>m.
     ret (case get_key m typ of None \<Rightarrow> Inl (not_found ''resource type'' typ) | Some v \<Rightarrow> Inr v))"

definition ListResourceTypes :: "ListOptions \<Rightarrow> ('g, ResourceTypeModel list) opE" where
  "ListResourceTypes opts =
     bind_io (range_io resourceTypes) (\<lambda>vs.
     okE (filter (\<lambda>v. (lo_CapabilityID opts = [] \<or> rt_CapabilityID v = lo_CapabilityID opts)
                     \<and> statusOK (rt_Status v) (lo_Status opts)) vs))"

definition UpsertResource :: "ResourceModel \<Rightarrow> OutboxEventModel option list \<Rightarrow> ('g, unit) opE" where
  "UpsertResource res evs =
     bind_io (nowIfZero (re_CreatedAt res)) (\<lambda>c.
     bind_io (nowIfZero (re_UpdatedAt res)) (\<lambda>u.
     let v = res\<lparr>re_CreatedAt := c, re_UpdatedAt := u,
                 re_Status := (if re_Status res = [] then StatusActive else re_Status res)\<rparr> in
     bind_io (modify_db (\<lambda>r. saveEvents evs
         (r\<lparr>resources := put_key (key [re_Type v, re_ID v]) v (resources r)\<rparr>))) (\<lambda>_. okE ())))"

definition GetResource :: "string \<Rightarrow> string \<Rightarrow> string \<Rightarrow> ('g, ResourceModel) opE" where
  "GetResource typ ident orgID =
     bind_io (get_db resources) (\<lambda>m.
     ret (scoped ''resource'' re_OrgID (typ @ ''/'' @ ident) orgID (get_key m (key [typ, ident]))))"

definition ListResources :: "ListOptions \<Rightarrow> ('g, ResourceModel Page) opE" where
  "ListResources opts =
     bind_io (range_io resources) (\<lambda>vs.
     ret (pageOf (filter (\<lambda>v. (lo_Type opts = [] \<or> re_Type v = lo_Type opts)
                   \<and> (lo_OrgID opts = [] \<or> re_OrgID v = lo_OrgID opts)
                   \<and> (lo_ProjectID opts = [] \<or> re_ProjectID v = lo_ProjectID opts)
                   \<and> statusOK (re_Status v) (lo_Status opts)) vs)
            (lo_Page opts) (lo_Size opts)))"

text \<open>ArchiveResource and DeleteResource differ in the status they store.\<close>

definition set_resource_status :: "string \<Rightarrow> string \<Rightarrow> string \<Rightarrow> string \<Rightarrow> ('g, unit) opE" where
  "set_resource_status status typ ident orgID =
     bind_io (get_db resources) (\<lambda>m.
     bindE (liftE (scoped ''resource'' re_OrgID (typ @ ''/'' @ ident) orgID
                     (get_key m (key [typ, ident])))) (\<lambda>v.
     bind_io now_io (\<lambda>t.
     bind_io (modify_db (\<lambda>r. r\<lparr>resources := put_key (key [typ, ident])
         (v\<lparr>re_Status := status, re_UpdatedAt := t\<rparr>) (resources r)\<rparr>)) (\<lambda>_. okE ()))))"

definition ArchiveResource :: "string \<Rightarrow> string \<Rightarrow> string \<Rightarrow> ('g, unit) opE" where
  "ArchiveResource = set_resource_status StatusArchived"

definition DeleteResource :: "string \<Rightarrow> string \<Rightarrow> string \<Rightarrow> ('g, unit) opE" where
  "DeleteResource = set_resource_status StatusDeleted"

definition BindResource ::
    "ResourceBindingModel \<Rightarrow> OutboxEventModel option list \<Rightarrow> ('g, unit) opE" where
  "BindResource b evs =
     bind_io (nowIfZero (rb_CreatedAt b)) (\<lambda>c.
     bind_io (nowIfZero (rb_UpdatedAt b)) (\<lambda>u.
     let v = b\<lparr>rb_CreatedAt := c, rb_UpdatedAt := u,
               rb_Status := (if rb_Status b = [] then StatusActive else rb_Status b)\<rparr> in
     bind_io (modify_db (\<lambda>r. saveEvents evs (r\<lparr>bindings := put_key (rb_ID v) v (bindings r)\<rparr>)))
       (\<lambda>_. okE ())))"

definition ListResourceBindings :: "ListOptions \<Rightarrow> ('g, ResourceBindingModel list) opE" where
  "ListResourceBindings opts =
     bind_io (range_io bindings) (\<lambda>vs.
     okE (filter (\<lambda>v. (lo_OrgID opts = [] \<or> rb_OrgID v = lo_OrgID opts)
                   \<and> (lo_ResourceType opts = [] \<or> rb_SourceType v = lo_ResourceType opts)
                   \<and> (lo_ResourceID opts = [] \<or> rb_SourceID v = lo_ResourceID opts)
                   \<and> statusOK (rb_Status v) (lo_Status opts)) vs))"

definition UnbindResource :: "string \<Rightarrow> string \<Rightarrow> ('g, unit) opE" where
  "UnbindResource bindingID orgID =
     bind_io (get_db bindings) (\<lambda>m.
     bindE (liftE (scoped ''binding'' rb_OrgID bindingID orgID (get_key m bindingID))) (\<lambda>_.
     bind_io (modify_db (\<lambda>r. r\<lparr>bindings := del_key bindingID (bindings r)\<rparr>)) (\<lambda>_. okE ())))"

definition ListExternalResourceBindings ::
    "ListOptions \<Rightarrow> ('g, ExternalResourceBindingModel list) opE" where
  "ListExternalResourceBindings opts =
     bind_io (range_io externalBindings) (\<lambda>vs.
     okE (filter (\<lambda>v. (lo_OrgID opts = [] \<or> eb_OrgID v = lo_OrgID opts)
                   \<and> (lo_ResourceType opts = [] \<or> eb_ResourceType v = lo_ResourceType opts)
                   \<and> (lo_ResourceID opts = [] \<or> eb_ResourceID v = lo_ResourceID opts)
                   \<and> statusOK (eb_SyncStatus v) (lo_Status opts)) vs))"

definition BindExternalResource :: "ExternalResourceBindingModel \<Rightarrow> ('g, unit) opE" where
  "BindExternalResource b =
     bind_io (nowIfZero (eb_CreatedAt b)) (\<lambda>c.
     bind_io (nowIfZero (eb_UpdatedAt b)) (\<lambda>u.
     let v = b\<lparr>eb_CreatedAt := c, eb_UpdatedAt := u,
               eb_SyncStatus := (if eb_SyncStatus b = [] then StatusPending else eb_SyncStatus b)\<rparr> in
     bind_io (modify_db (\<lambda>r. r\<lparr>externalBindings := put_key (eb_ID v) v (externalBindings r)\<rparr>))
       (\<lambda>_. okE ())))"

subsection \<open>Role templates\<close>

text \<open>
  \<open>grant.ExpiresAt.After(time.Now().UTC())\<close> reads the clock once per grant that gets that
  far in the conjunction.
\<close>

definition grant_unrevoked_of :: "string \<Rightarrow> GrantModel \<Rightarrow> bool" where
  "grant_unrevoked_of roleID g \<longleftrightarrow> gr_RoleTemplateID g = roleID \<and> gr_RevokedAt g = None"

definition count_if_active :: "string \<Rightarrow> GrantModel \<Rightarrow> int \<Rightarrow> ('g, int) op" where
  "count_if_active roleID g n =
     (if grant_unrevoked_of roleID g
      then (case gr_ExpiresAt g of
              None \<Rightarrow> ret (n + 1)
            | Some x \<Rightarrow> bind_io now_io (\<lambda>t. ret (if x > t then n + 1 else n)))
      else ret n)"

definition stored_role :: "RoleTemplateModel \<Rightarrow> gotime \<Rightarrow> gotime \<Rightarrow> RoleTemplateModel" where
  "stored_role role c u = role\<lparr>ro_CreatedAt := c, ro_UpdatedAt := u,
     ro_Version := (if ro_Version role = 0 then 1 else ro_Version role)\<rparr>"

definition put_role :: "RoleTemplateModel \<Rightarrow> MemoryRepo \<Rightarrow> MemoryRepo" where
  "put_role v r = r\<lparr>roles := put_key (key [ro_ResourceType v, ro_RoleKey v]) v (roles r)\<rparr>"

definition put_role_audit :: "RoleTemplateAuditModel option \<Rightarrow> MemoryRepo \<Rightarrow> MemoryRepo" where
  "put_role_audit audit r =
     (case audit of None \<Rightarrow> r | Some a \<Rightarrow> r\<lparr>roleAudits := put_key (ra_ID a) a (roleAudits r)\<rparr>)"

definition UpsertRoleTemplate :: "RoleTemplateModel \<Rightarrow> ('g, unit) opE" where
  "UpsertRoleTemplate role =
     bind_io (nowIfZero (ro_CreatedAt role)) (\<lambda>c.
     bind_io (nowIfZero (ro_UpdatedAt role)) (\<lambda>u.
     bind_io (modify_db (put_role (stored_role role c u))) (\<lambda>_. okE ())))"

definition SaveRoleTemplate ::
    "RoleTemplateModel \<Rightarrow> RoleTemplateAuditModel option \<Rightarrow> OutboxEventModel option list
     \<Rightarrow> ('g, unit) opE" where
  "SaveRoleTemplate role audit evs =
     bind_io (nowIfZero (ro_CreatedAt role)) (\<lambda>c.
     bind_io (nowIfZero (ro_UpdatedAt role)) (\<lambda>u.
     bind_io (modify_db (\<lambda>r. saveEvents evs (put_role_audit audit
                 (put_role (stored_role role c u) r)))) (\<lambda>_. okE ())))"

definition GetRoleTemplate :: "string \<Rightarrow> ('g, RoleTemplateModel) opE" where
  "GetRoleTemplate ident =
     bind_io (range_io roles) (\<lambda>rs.
     case find (\<lambda>role. ro_ID role = ident) rs of
       None \<Rightarrow> failE (not_found ''role template'' ident)
     | Some role \<Rightarrow>
         bind_io (range_io grants) (\<lambda>gs.
         bind_io (fold_io (count_if_active ident) gs (ro_ActiveGrantCount role)) (\<lambda>n.
         okE (role\<lparr>ro_ActiveGrantCount := n\<rparr>))))"

text \<open>
  UpdateRoleTemplate: optimistic concurrency on the version.  The method also writes the new
  version into the caller's struct, which is the value returned here.
\<close>

definition UpdateRoleTemplate ::
    "RoleTemplateModel \<Rightarrow> int \<Rightarrow> RoleTemplateAuditModel option \<Rightarrow> OutboxEventModel option list
     \<Rightarrow> ('g, RoleTemplateModel) opE" where
  "UpdateRoleTemplate role expectedVersion audit evs =
     bind_io (get_db roles) (\<lambda>m.
     case get_key m (key [ro_ResourceType role, ro_RoleKey role]) of
       None \<Rightarrow> failE (not_found ''role template'' (ro_ID role))
     | Some stored \<Rightarrow>
         if ro_ID stored \<noteq> ro_ID role then failE (not_found ''role template'' (ro_ID role))
         else if ro_Version stored \<noteq> expectedVersion then failE ErrRoleVersionConflict
         else let v = role\<lparr>ro_Version := wrap64 (expectedVersion + 1)\<rparr> in
           bind_io (modify_db (\<lambda>r. saveEvents evs (put_role_audit audit (put_role v r))))
             (\<lambda>_. okE v))"

definition CountActiveGrantsByRole :: "string \<Rightarrow> gotime \<Rightarrow> ('g, int) opE" where
  "CountActiveGrantsByRole roleTemplateID at =
     bind_io (range_io grants) (\<lambda>gs.
     okE (int (length (filter (\<lambda>g. grant_unrevoked_of roleTemplateID g
            \<and> (case gr_ExpiresAt g of None \<Rightarrow> True | Some x \<Rightarrow> x > at)) gs))))"

primrec with_counts ::
    "string \<Rightarrow> RoleTemplateModel list \<Rightarrow> ('g, RoleTemplateModel list) op" where
  "with_counts resourceType [] = ret []"
| "with_counts resourceType (v # vs) =
     (if resourceType = [] \<or> ro_ResourceType v = resourceType
      then bind_io (range_io grants) (\<lambda>gs.
           bind_io (fold_io (count_if_active (ro_ID v)) gs (ro_ActiveGrantCount v)) (\<lambda>n.
           bind_io (with_counts resourceType vs) (\<lambda>out.
           ret (v\<lparr>ro_ActiveGrantCount := n\<rparr> # out))))
      else with_counts resourceType vs)"

definition ListRoleTemplates :: "string \<Rightarrow> ('g, RoleTemplateModel list) opE" where
  "ListRoleTemplates resourceType =
     bind_io (range_io roles) (\<lambda>rs. bind_io (with_counts resourceType rs) (\<lambda>out. okE out))"

subsection \<open>Grants\<close>

definition put_grant :: "GrantModel \<Rightarrow> MemoryRepo \<Rightarrow> MemoryRepo" where
  "put_grant g r = r\<lparr>grants := put_key (gr_ID g) g (grants r)\<rparr>"

definition put_audit :: "GrantAuditModel option \<Rightarrow> MemoryRepo \<Rightarrow> MemoryRepo" where
  "put_audit audit r =
     (case audit of None \<Rightarrow> r | Some a \<Rightarrow> r\<lparr>audits := put_key (ga_ID a) a (audits r)\<rparr>)"

definition CreateGrant ::
    "GrantModel \<Rightarrow> GrantAuditModel option \<Rightarrow> OutboxEventModel option list \<Rightarrow> ('g, unit) opE" where
  "CreateGrant grant audit evs =
     bind_io (nowIfZero (gr_CreatedAt grant)) (\<lambda>c.
     bind_io (modify_db (\<lambda>r. saveEvents evs (put_audit audit
                 (put_grant (grant\<lparr>gr_CreatedAt := c\<rparr>) r)))) (\<lambda>_. okE ()))"

definition GetGrant :: "string \<Rightarrow> string \<Rightarrow> ('g, GrantModel) opE" where
  "GetGrant ident orgID =
     bind_io (get_db grants) (\<lambda>m. ret (scoped ''grant'' gr_OrgID ident orgID (get_key m ident)))"

definition RevokeGrant ::
    "string \<Rightarrow> string \<Rightarrow> gotime \<Rightarrow> GrantAuditModel option \<Rightarrow> OutboxEventModel option list
     \<Rightarrow> ('g, unit) opE" where
  "RevokeGrant ident orgID revokedAt audit evs =
     bind_io (get_db grants) (\<lambda>m.
     bindE (liftE (scoped ''grant'' gr_OrgID ident orgID (get_key m ident))) (\<lambda>v.
     bind_io (modify_db (\<lambda>r. saveEvents evs (put_audit audit
         (r\<lparr>grants := put_key ident (v\<lparr>gr_RevokedAt := Some revokedAt\<rparr>) (grants r)\<rparr>))))
       (\<lambda>_. okE ())))"

definition grant_listed :: "ListOptions \<Rightarrow> GrantModel \<Rightarrow> bool" where
  "grant_listed opts v \<longleftrightarrow>
     gr_RevokedAt v = None
     \<and> (lo_OrgID opts = [] \<or> gr_OrgID v = lo_OrgID opts)
     \<and> (lo_ResourceType opts = [] \<or> gr_ResourceType v = lo_ResourceType opts)
     \<and> (lo_ResourceID opts = [] \<or> gr_ResourceID v = lo_ResourceID opts)
     \<and> (lo_SubjectType opts = [] \<or> gr_SubjectType v = lo_SubjectType opts)
     \<and> (lo_SubjectID opts = [] \<or> gr_SubjectID v = lo_SubjectID opts)"

definition ListGrants :: "ListOptions \<Rightarrow> ('g, GrantModel Page) opE" where
  "ListGrants opts =
     bind_io (range_io grants) (\<lambda>vs.
     ret (pageOf (filter (grant_listed opts) vs) (lo_Page opts) (lo_Size opts)))"

text \<open>A loop that collects matching entries until \<open>len(out) >= limit\<close> after an append.\<close>

primrec collect_until :: "('a \<Rightarrow> bool) \<Rightarrow> int \<Rightarrow> 'a list \<Rightarrow> 'a list \<Rightarrow> 'a list" where
  "collect_until P limit [] out = out"
| "collect_until P limit (v # vs) out =
     (if P v
      then (let out = out @ [v] in
            if int (length out) \<ge> limit then out else collect_until P limit vs out)
      else collect_until P limit vs out)"

definition grant_due :: "gotime \<Rightarrow> GrantModel \<Rightarrow> bool" where
  "grant_due now v \<longleftrightarrow>
     gr_RevokedAt v = None \<and> (case gr_ExpiresAt v of None \<Rightarrow> False | Some x \<Rightarrow> x < now \<or> x = now)"

definition ListDueExpiringGrants :: "int \<Rightarrow> ('g, GrantModel list) opE" where
  "ListDueExpiringGrants limit =
     bind_io now_io (\<lambda>now.
     bind_io (range_io grants) (\<lambda>vs. okE (collect_until (grant_due now) limit vs [])))"

subsection \<open>Outbox events\<close>

definition CreateOutboxEvents :: "OutboxEventModel option list \<Rightarrow> ('g, unit) opE" where
  "CreateOutboxEvents evs = bind_io (modify_db (saveEvents evs)) (\<lambda>_. okE ())"

definition ListOutboxEvents :: "ListOptions \<Rightarrow> ('g, OutboxEventModel list) opE" where
  "ListOutboxEvents opts =
     bind_io (range_io events) (\<lambda>vs. okE (filter (\<lambda>v. statusOK (ev_Status v) (lo_Status opts)) vs))"

definition GetOutboxEvent :: "string \<Rightarrow> ('g, OutboxEventModel) opE" where
  "GetOutboxEvent ident =
     bind_io (get_db events) (\<lambda>m.
     ret (case get_key m ident of None \<Rightarrow> Inl (not_found ''outbox'' ident) | Some v \<Rightarrow> Inr v))"

text \<open>
  \<open>applyColumns\<close> finds a struct field by name through reflection and sets it when the value's
  type is assignable or convertible to the field's.  \<open>column\<close> is the dynamic type of the
  \<open>any\<close> values the program passes.  A \<open>time.Time\<close> is neither assignable nor convertible to
  the \<open>*time.Time\<close> of NextRunAt; an integer converts to a string as a code point.
\<close>

datatype column = ColString string | ColInt int | ColTime gotime | ColNil

definition upper_char :: "char \<Rightarrow> char" where
  "upper_char c = (let n = of_char c :: nat in if 97 \<le> n \<and> n \<le> 122 then byte (n - 32) else c)"

fun camel :: "bool \<Rightarrow> string \<Rightarrow> string" where
  "camel upper [] = []"
| "camel upper (c # s) =
     (if c = CHR ''_'' then camel True s
      else if upper then upper_char c # camel False s
      else c # camel False s)"

definition columnToField :: "string \<Rightarrow> string" where "columnToField s = camel True s"

definition string_field :: "column \<Rightarrow> string \<Rightarrow> string" where
  "string_field v old =
     (case v of ColString s \<Rightarrow> s | ColInt i \<Rightarrow> utf8 i | ColTime _ \<Rightarrow> old | ColNil \<Rightarrow> [])"

definition int_field :: "column \<Rightarrow> int \<Rightarrow> int" where
  "int_field v old = (case v of ColInt i \<Rightarrow> i | ColNil \<Rightarrow> 0 | _ \<Rightarrow> old)"

definition time_field :: "column \<Rightarrow> gotime \<Rightarrow> gotime" where
  "time_field v old = (case v of ColTime t \<Rightarrow> t | ColNil \<Rightarrow> zero_time | _ \<Rightarrow> old)"

definition time_ptr_field :: "column \<Rightarrow> gotime option \<Rightarrow> gotime option" where
  "time_ptr_field v old = (case v of ColNil \<Rightarrow> None | _ \<Rightarrow> old)"

definition apply_column :: "string \<times> column \<Rightarrow> OutboxEventModel \<Rightarrow> OutboxEventModel" where
  "apply_column kv e =
     (case kv of (k, v) \<Rightarrow> let f = columnToField k in
        if f = ''ID'' then e\<lparr>ev_ID := string_field v (ev_ID e)\<rparr>
        else if f = ''OrgID'' then e\<lparr>ev_OrgID := string_field v (ev_OrgID e)\<rparr>
        else if f = ''Topic'' then e\<lparr>ev_Topic := string_field v (ev_Topic e)\<rparr>
        else if f = ''AggregateType'' then e\<lparr>ev_AggregateType := string_field v (ev_AggregateType e)\<rparr>
        else if f = ''AggregateID'' then e\<lparr>ev_AggregateID := string_field v (ev_AggregateID e)\<rparr>
        else if f = ''PayloadJSON'' then e\<lparr>ev_PayloadJSON := string_field v (ev_PayloadJSON e)\<rparr>
        else if f = ''Status'' then e\<lparr>ev_Status := string_field v (ev_Status e)\<rparr>
        else if f = ''RetryCount'' then e\<lparr>ev_RetryCount := int_field v (ev_RetryCount e)\<rparr>
        else if f = ''NextRunAt'' then e\<lparr>ev_NextRunAt := time_ptr_field v (ev_NextRunAt e)\<rparr>
        else if f = ''LastError'' then e\<lparr>ev_LastError := string_field v (ev_LastError e)\<rparr>
        else if f = ''CreatedAt'' then e\<lparr>ev_CreatedAt := time_field v (ev_CreatedAt e)\<rparr>
        else if f = ''UpdatedAt'' then e\<lparr>ev_UpdatedAt := time_field v (ev_UpdatedAt e)\<rparr>
        else e)"

definition applyColumns :: "OutboxEventModel \<Rightarrow> (string \<times> column) list \<Rightarrow> OutboxEventModel" where
  "applyColumns e columns = fold apply_column columns e"

definition UpdateOutboxEvent :: "string \<Rightarrow> (string \<times> column) list \<Rightarrow> ('g, unit) opE" where
  "UpdateOutboxEvent ident columns =
     bind_io (get_db events) (\<lambda>m.
     case get_key m ident of
       None \<Rightarrow> failE (not_found ''outbox'' ident)
     | Some v \<Rightarrow>
         bind_io now_io (\<lambda>t.
         bind_io (modify_db (\<lambda>r. r\<lparr>events :=
             put_key ident ((applyColumns v columns)\<lparr>ev_UpdatedAt := t\<rparr>) (events r)\<rparr>)) (\<lambda>_. okE ())))"

definition retry_selected :: "gotime \<Rightarrow> OutboxEventModel \<Rightarrow> bool" where
  "retry_selected now v \<longleftrightarrow>
     ev_RetryCount v < MaxOutboxRetries
     \<and> ev_Status v \<in> {StatusPending, StatusSubmitted, StatusFailed}
     \<and> (case ev_NextRunAt v of None \<Rightarrow> True | Some t \<Rightarrow> \<not> t > now)"

definition ListOutboxEventsForRetry :: "int \<Rightarrow> ('g, OutboxEventModel list) opE" where
  "ListOutboxEventsForRetry limit =
     (let limit = (if limit \<le> 0 then 50 else limit) in
      bind_io now_io (\<lambda>now.
      bind_io (range_io events) (\<lambda>vs. okE (collect_until (retry_selected now) limit vs []))))"

definition IncrementOutboxRetry :: "string \<Rightarrow> ('g, OutboxEventModel) opE" where
  "IncrementOutboxRetry ident =
     bind_io (get_db events) (\<lambda>m.
     case get_key m ident of
       None \<Rightarrow> failE (not_found ''outbox'' ident)
     | Some v \<Rightarrow>
         bind_io now_io (\<lambda>t.
         let v = v\<lparr>ev_RetryCount := wrap64 (ev_RetryCount v + 1), ev_UpdatedAt := t\<rparr> in
         bind_io (modify_db (\<lambda>r. r\<lparr>events := put_key ident v (events r)\<rparr>)) (\<lambda>_. okE v)))"

subsection \<open>Local users\<close>

definition ListUsers :: "('g, LocalUserModel list) opE" where
  "ListUsers = bind_io (range_io localUsers) (\<lambda>vs. okE vs)"

definition SaveUser :: "LocalUserModel \<Rightarrow> ('g, unit) opE" where
  "SaveUser u =
     bind_io (nowIfZero (lu_CreatedAt u)) (\<lambda>c.
     bind_io (nowIfZero (lu_UpdatedAt u)) (\<lambda>t.
     let v = u\<lparr>lu_CreatedAt := c, lu_UpdatedAt := t\<rparr> in
     bind_io (modify_db (\<lambda>r. r\<lparr>localUsers := put_key (lu_Username v) v (localUsers r)\<rparr>)) (\<lambda>_. okE ())))"

definition DeleteUser :: "string \<Rightarrow> ('g, unit) opE" where
  "DeleteUser username =
     bind_io (modify_db (\<lambda>r. r\<lparr>localUsers := del_key username (localUsers r)\<rparr>)) (\<lambda>_. okE ())"

end
