(* ===== verification/MemoryLaws.thy ===== *)
theory MemoryLaws
  imports Memory
begin

text \<open>
  What the in-memory repository guarantees: which parts of the world each method may change,
  the invariant of its tables and its preservation by every method (\<open>repo_reach\<close>), the paging
  function, and the contract of org-scoped entities, stated as the locales
  \<open>org_scoped_store\<close> and \<open>org_scoped_mutator\<close> and interpreted for projects, resources, grants and
  bindings.
\<close>

subsection \<open>Frames of the readings and of table updates\<close>

lemma tick_simps [simp]: "db (tick w) = db w" "graph (tick w) = graph w"
  by (simp_all add: tick_def)

lemma now_io_run [simp]: "now_io e w = (clock e (ticks w), tick w)"
  by (simp add: now_io_def)

lemma new_id_run [simp]:
  "new_id p e w = (idgen_New p (clock e (ticks w)) (rand4 e (ticks w)), tick w)"
  by (simp add: new_id_def)

lemma range_io_run [simp]:
  "range_io tab e w = (shuffle (map_order e (ticks w)) (map snd (tab (db w))), tick w)"
  by (simp add: range_io_def)

lemma get_db_run [simp]: "get_db f e w = (f (db w), w)"
  by (simp add: get_db_def)

lemma modify_db_run [simp]: "modify_db f e w = ((), w\<lparr>db := f (db w)\<rparr>)"
  by (simp add: modify_db_def)

lemma on_graph_run: "f (graph w) = (x, g) \<Longrightarrow> on_graph f e w = (x, w\<lparr>graph := g\<rparr>)"
  by (simp add: on_graph_def)

lemma on_graph_iff [io_iff]:
  "on_graph f e w = (x, w') \<longleftrightarrow> (\<exists>g. f (graph w) = (x, g) \<and> w' = w\<lparr>graph := g\<rparr>)"
  by (auto simp: on_graph_def split: prod.splits)

lemma nowIfZero_run:
  "nowIfZero t e w = (if IsZero t then (clock e (ticks w), tick w) else (t, w))"
  by (simp add: nowIfZero_def)

text \<open>
  \<open>db_frame R\<close>: the relation looks at the tables and the graph only, so that readings are in it.
\<close>

definition db_frame :: "('g world \<Rightarrow> 'g world \<Rightarrow> bool) \<Rightarrow> bool" where
  "db_frame R \<longleftrightarrow> frame_rel R \<and> (\<forall>w. R w (tick w))"

lemma db_frame_same [steps_rules]:
  "db_frame (same db)" "db_frame (same graph)" "db_frame (same (\<lambda>w. f (db w)))"
  by (simp_all add: db_frame_def frame_rel_same) (simp_all add: same_def)

lemma db_frame_keeps [steps_rules]: "db_frame (keeps (\<lambda>w. P (db w)))" "db_frame (keeps (\<lambda>w. Q (graph w)))"
  by (simp_all add: db_frame_def frame_rel_keeps) (simp_all add: keeps_def)

lemma steps_readings [steps_rules]:
  assumes "db_frame R"
  shows "steps R now_io" "steps R (new_id p)" "steps R (range_io tab)" "steps R (get_db f)"
    "steps R (nowIfZero t)"
  using assms by (auto simp: steps_def db_frame_def frame_rel_def nowIfZero_run)

lemma steps_modify_db [steps_rules]:
  "steps (same graph) (modify_db f)"
  "(\<And>r. P r \<Longrightarrow> P (f r)) \<Longrightarrow> steps (keeps (\<lambda>w. P (db w))) (modify_db f)"
  "(\<And>r. h (f r) = h r) \<Longrightarrow> steps (same (\<lambda>w. h (db w))) (modify_db f)"
  by (auto simp: steps_def same_def keeps_def)

lemma steps_on_graph [steps_rules]:
  "steps (same db) (on_graph f)" "steps (same (\<lambda>w. h (db w))) (on_graph f)"
  "steps (keeps (\<lambda>w. P (db w))) (on_graph f)"
  by (auto simp: steps_def same_def keeps_def on_graph_def split: prod.splits)

lemma db_frame_frame: "db_frame R \<Longrightarrow> frame_rel R"
  by (simp add: db_frame_def)

lemma steps_count_if_active [steps_rules]: "db_frame R \<Longrightarrow> steps R (count_if_active r g n)"
  unfolding count_if_active_def
  by (intro steps_rules db_frame_frame | assumption)+

lemma steps_with_counts [steps_rules]: "db_frame R \<Longrightarrow> steps R (with_counts rt vs)"
  by (induction vs) (auto intro!: steps_rules db_frame_frame)

lemmas reads_defs =
  GetProject_def ListProjects_def ListCapabilities_def ListProjectCapabilities_def
  GetResourceType_def ListResourceTypes_def GetResource_def ListResources_def
  ListResourceBindings_def ListExternalResourceBindings_def GetRoleTemplate_def
  CountActiveGrantsByRole_def ListRoleTemplates_def GetGrant_def ListGrants_def
  ListDueExpiringGrants_def ListOutboxEvents_def GetOutboxEvent_def
  ListOutboxEventsForRetry_def ListUsers_def

lemma steps_reads [steps_rules]:
  assumes R: "db_frame R"
  shows "steps R (GetProject i o1)" "steps R (ListProjects opts)" "steps R (ListCapabilities opts)"
    "steps R (ListProjectCapabilities i)" "steps R (GetResourceType i)"
    "steps R (ListResourceTypes opts)" "steps R (GetResource t i o1)" "steps R (ListResources opts)"
    "steps R (ListResourceBindings opts)" "steps R (ListExternalResourceBindings opts)"
    "steps R (GetRoleTemplate i)" "steps R (CountActiveGrantsByRole i at)"
    "steps R (ListRoleTemplates t)" "steps R (GetGrant i o1)" "steps R (ListGrants opts)"
    "steps R (ListDueExpiringGrants n)" "steps R (ListOutboxEvents opts)" "steps R (GetOutboxEvent i)"
    "steps R (ListOutboxEventsForRetry n)" "steps R ListUsers"
  unfolding reads_defs Let_def
  by (intro steps_rules R db_frame_frame[OF R])+

lemmas writes_defs =
  CreateProject_def UpsertProject_def ArchiveProject_def UpsertCapability_def
  SetProjectCapability_def UpsertResourceType_def UpsertResource_def set_resource_status_def
  ArchiveResource_def DeleteResource_def BindResource_def UnbindResource_def
  BindExternalResource_def UpsertRoleTemplate_def SaveRoleTemplate_def UpdateRoleTemplate_def
  CreateGrant_def RevokeGrant_def CreateOutboxEvents_def UpdateOutboxEvent_def
  IncrementOutboxRetry_def SaveUser_def DeleteUser_def

lemma steps_writes_graph [steps_rules]:
  "steps (same graph) (CreateProject p evs)" "steps (same graph) (UpsertProject p)"
  "steps (same graph) (ArchiveProject i o1)" "steps (same graph) (UpsertCapability c)"
  "steps (same graph) (SetProjectCapability pc)" "steps (same graph) (UpsertResourceType rt)"
  "steps (same graph) (UpsertResource re evs)" "steps (same graph) (ArchiveResource t i o1)"
  "steps (same graph) (DeleteResource t i o1)" "steps (same graph) (BindResource b evs)"
  "steps (same graph) (UnbindResource i o1)" "steps (same graph) (BindExternalResource eb)"
  "steps (same graph) (UpsertRoleTemplate ro)" "steps (same graph) (SaveRoleTemplate ro au evs)"
  "steps (same graph) (UpdateRoleTemplate ro v au evs)" "steps (same graph) (CreateGrant g ga evs)"
  "steps (same graph) (RevokeGrant i o1 at ga evs)" "steps (same graph) (CreateOutboxEvents evs)"
  "steps (same graph) (UpdateOutboxEvent i cols)" "steps (same graph) (IncrementOutboxRetry i)"
  "steps (same graph) (SaveUser u)" "steps (same graph) (DeleteUser i)"
  unfolding writes_defs Let_def by (intro steps_rules)+

subsection \<open>The invariant of the tables\<close>

text \<open>
  Every table is a map whose key is computed from the entry it holds, so no entry can be filed
  under another's key, and the statuses that \<open>saveEvent\<close> and the upserts default are never
  empty.
\<close>

definition keyed :: "('v \<Rightarrow> string) \<Rightarrow> 'v gomap \<Rightarrow> bool" where
  "keyed f m \<longleftrightarrow> keys_distinct m \<and> (\<forall>k v. get_key m k = Some v \<longrightarrow> f v = k)"

lemma keyed_Nil [simp]: "keyed f []"
  by (simp add: keyed_def)

lemma keyed_put: "keyed f m \<Longrightarrow> f v = k \<Longrightarrow> keyed f (put_key k v m)"
  by (auto simp: keyed_def distinct_update update_conv')

lemma keyed_del: "keyed f m \<Longrightarrow> keyed f (del_key k m)"
  by (auto simp: keyed_def distinct_delete delete_conv' simp del: AList.delete_eq)

lemma keyed_get: "keyed f m \<Longrightarrow> get_key m k = Some v \<Longrightarrow> f v = k"
  by (auto simp: keyed_def)

definition all_vals :: "('v \<Rightarrow> bool) \<Rightarrow> 'v gomap \<Rightarrow> bool" where
  "all_vals P m \<longleftrightarrow> (\<forall>k v. get_key m k = Some v \<longrightarrow> P v)"

lemma all_vals_Nil [simp]: "all_vals P []"
  by (simp add: all_vals_def)

lemma all_vals_put: "all_vals P m \<Longrightarrow> P v \<Longrightarrow> all_vals P (put_key k v m)"
  by (auto simp: all_vals_def update_conv')

lemma all_vals_del: "all_vals P m \<Longrightarrow> all_vals P (del_key k m)"
  by (auto simp: all_vals_def delete_conv' simp del: AList.delete_eq split: if_splits)

lemma all_vals_get: "all_vals P m \<Longrightarrow> get_key m k = Some v \<Longrightarrow> P v"
  by (auto simp: all_vals_def)

definition pc_key :: "ProjectCapabilityModel \<Rightarrow> string" where
  "pc_key v = key [pc_ProjectID v, pc_CapabilityID v]"

definition re_key :: "ResourceModel \<Rightarrow> string" where "re_key v = key [re_Type v, re_ID v]"

definition ro_key :: "RoleTemplateModel \<Rightarrow> string" where
  "ro_key v = key [ro_ResourceType v, ro_RoleKey v]"

definition tables_keyed :: "MemoryRepo \<Rightarrow> bool" where
  "tables_keyed r \<longleftrightarrow>
     keyed pr_ID (projects r) \<and> keyed cap_ID (caps r) \<and> keyed pc_key (projectCaps r)
     \<and> keyed rt_Type (resourceTypes r) \<and> keyed re_key (resources r) \<and> keyed rb_ID (bindings r)
     \<and> keyed eb_ID (externalBindings r) \<and> keyed ro_key (roles r) \<and> keyed ra_ID (roleAudits r)
     \<and> keyed gr_ID (grants r) \<and> keyed ga_ID (audits r) \<and> keyed ev_ID (events r)
     \<and> keyed lu_Username (localUsers r)"

definition statuses_set :: "MemoryRepo \<Rightarrow> bool" where
  "statuses_set r \<longleftrightarrow>
     all_vals (\<lambda>v. rt_Status v \<noteq> []) (resourceTypes r) \<and> all_vals (\<lambda>v. re_Status v \<noteq> []) (resources r)
     \<and> all_vals (\<lambda>v. rb_Status v \<noteq> []) (bindings r)
     \<and> all_vals (\<lambda>v. eb_SyncStatus v \<noteq> []) (externalBindings r)
     \<and> all_vals (\<lambda>v. ev_Status v \<noteq> []) (events r)"

definition repo_inv :: "MemoryRepo \<Rightarrow> bool" where
  "repo_inv r \<longleftrightarrow> tables_keyed r \<and> statuses_set r"

lemmas repo_inv_unfold = repo_inv_def tables_keyed_def statuses_set_def

lemmas table_intros = keyed_put keyed_del all_vals_put all_vals_del

lemma repo_inv_init: "repo_inv NewMemoryControlPlaneRepository"
  by (simp add: repo_inv_unfold NewMemoryControlPlaneRepository_def)

lemma repo_inv_saveEvent: "repo_inv r \<Longrightarrow> repo_inv (saveEvent ev r)"
  by (auto simp: repo_inv_unfold saveEvent_def Let_def split: option.splits intro!: table_intros)

lemma repo_inv_saveEvents [intro]: "repo_inv r \<Longrightarrow> repo_inv (saveEvents evs r)"
  unfolding saveEvents_def by (induction evs arbitrary: r) (auto intro: repo_inv_saveEvent)

lemma repo_inv_put_role [intro]: "repo_inv r \<Longrightarrow> repo_inv (put_role v r)"
  by (auto simp: repo_inv_unfold put_role_def ro_key_def intro!: table_intros)

lemma repo_inv_put_role_audit [intro]: "repo_inv r \<Longrightarrow> repo_inv (put_role_audit a r)"
  by (auto simp: repo_inv_unfold put_role_audit_def split: option.splits intro!: table_intros)

lemma repo_inv_put_grant [intro]: "repo_inv r \<Longrightarrow> repo_inv (put_grant g r)"
  by (auto simp: repo_inv_unfold put_grant_def intro!: table_intros)

lemma repo_inv_put_audit [intro]: "repo_inv r \<Longrightarrow> repo_inv (put_audit a r)"
  by (auto simp: repo_inv_unfold put_audit_def split: option.splits intro!: table_intros)

abbreviation inv_kept :: "('g, 'a) op \<Rightarrow> bool" where
  "inv_kept m \<equiv> steps (keeps (\<lambda>w. repo_inv (db w))) m"

text \<open>Methods that put what they are given.\<close>

lemmas blind_writes_defs =
  CreateProject_def UpsertProject_def UpsertCapability_def SetProjectCapability_def
  UpsertResourceType_def UpsertResource_def BindResource_def BindExternalResource_def
  UpsertRoleTemplate_def SaveRoleTemplate_def CreateGrant_def CreateOutboxEvents_def
  SaveUser_def DeleteUser_def UpdateRoleTemplate_def

lemma inv_kept_blind:
  "inv_kept (CreateProject p evs)" "inv_kept (UpsertProject p)" "inv_kept (UpsertCapability c)"
  "inv_kept (SetProjectCapability pc)" "inv_kept (UpsertResourceType rt)"
  "inv_kept (UpsertResource re evs)" "inv_kept (BindResource b evs)"
  "inv_kept (BindExternalResource eb)" "inv_kept (UpsertRoleTemplate ro)"
  "inv_kept (SaveRoleTemplate ro au evs)" "inv_kept (CreateGrant g ga evs)"
  "inv_kept (CreateOutboxEvents evs)" "inv_kept (SaveUser u)" "inv_kept (DeleteUser i)"
  "inv_kept (UpdateRoleTemplate ro v au evs)"
  unfolding blind_writes_defs Let_def
  by (intro steps_rules repo_inv_saveEvents repo_inv_put_role repo_inv_put_role_audit
        repo_inv_put_grant repo_inv_put_audit;
      auto simp: repo_inv_unfold pc_key_def re_key_def intro!: table_intros)+

text \<open>
  Methods that read an entry and put it back: the entry read under a key is filed under that
  key, which is what the put needs.
\<close>

lemma steps_read_put:
  assumes "\<And>r m x. repo_inv r \<Longrightarrow> f r = m \<Longrightarrow> g m = Inr x \<Longrightarrow> \<forall>e w. repo_inv (db w) \<longrightarrow> db w = r \<longrightarrow>
    repo_inv (db (snd (h x e w)))"
  shows "inv_kept (bind_io (get_db f) (\<lambda>m. bindE (liftE (g m)) h))"
proof (rule stepsI)
  fix e :: env and w :: "'c world"
  show "keeps (\<lambda>w. repo_inv (db w)) w (snd (bind_io (get_db f) (\<lambda>m. bindE (liftE (g m)) h) e w))"
    using assms[of "db w" "f (db w)"]
    by (cases "g (f (db w))") (auto simp: keeps_def bind_io_def bindE_def liftE_def ret_def)
qed

lemma scoped_Inr_iff: "scoped what org i o1 v = Inr x \<longleftrightarrow> v = Some x \<and> org x = o1"
  by (auto simp: scoped_def split: option.splits)

lemma inv_kept_scoped:
  "inv_kept (ArchiveProject i o1)" "inv_kept (ArchiveResource t i o1)"
  "inv_kept (DeleteResource t i o1)" "inv_kept (UnbindResource i o1)"
  "inv_kept (RevokeGrant i o1 at ga evs)"
  unfolding ArchiveProject_def ArchiveResource_def DeleteResource_def set_resource_status_def
    UnbindResource_def RevokeGrant_def
  by (rule steps_read_put;
      auto simp: scoped_Inr_iff bind_io_def intro!: repo_inv_saveEvents repo_inv_put_audit;
      auto simp: repo_inv_unfold re_key_def dest: keyed_get intro!: table_intros)+

text \<open>
  \<open>UpdateOutboxEvent\<close> sets any column by name; the callers of the program never pass \<open>id\<close> and
  pass non-empty statuses.
\<close>

definition safe_column :: "string \<times> column \<Rightarrow> bool" where
  "safe_column kv \<longleftrightarrow> columnToField (fst kv) \<noteq> ''ID''
     \<and> (columnToField (fst kv) = ''Status'' \<longrightarrow> (case snd kv of ColString s \<Rightarrow> s \<noteq> [] | _ \<Rightarrow> False))"

lemma apply_safe_column:
  assumes "safe_column kv"
  shows "ev_ID (apply_column kv e) = ev_ID e"
    and "ev_Status e \<noteq> [] \<Longrightarrow> ev_Status (apply_column kv e) \<noteq> []"
  using assms
  by (cases kv; cases "snd kv"; simp add: apply_column_def Let_def safe_column_def string_field_def)+

lemma applyColumns_safe:
  "list_all safe_column cols \<Longrightarrow> ev_ID (applyColumns e cols) = ev_ID e"
  "list_all safe_column cols \<Longrightarrow> ev_Status e \<noteq> [] \<Longrightarrow> ev_Status (applyColumns e cols) \<noteq> []"
  unfolding applyColumns_def by (induction cols arbitrary: e) (auto simp: apply_safe_column)

lemma inv_kept_event_update:
  assumes cols: "list_all safe_column cols"
  shows "inv_kept (UpdateOutboxEvent i cols)"
proof (rule stepsI)
  fix e :: env and w :: "'a world"
  show "keeps (\<lambda>w. repo_inv (db w)) w (snd (UpdateOutboxEvent i cols e w))"
    using applyColumns_safe[OF cols]
    by (auto simp: keeps_def UpdateOutboxEvent_def bind_io_def split: option.splits)
      (auto simp: repo_inv_unfold dest: keyed_get all_vals_get intro!: table_intros)
qed

lemma inv_kept_increment: "inv_kept (IncrementOutboxRetry i)"
proof (rule stepsI)
  fix e :: env and w :: "'a world"
  show "keeps (\<lambda>w. repo_inv (db w)) w (snd (IncrementOutboxRetry i e w))"
    by (auto simp: keeps_def IncrementOutboxRetry_def bind_io_def Let_def split: option.splits)
      (auto simp: repo_inv_unfold dest: keyed_get all_vals_get intro!: table_intros)
qed

subsection \<open>Reachable repositories\<close>

text \<open>
  One step is one method call by anybody, with any arguments; the state behind the relationship
  store may change in between.
\<close>

inductive repo_step :: "env \<Rightarrow> 'g world \<Rightarrow> 'g world \<Rightarrow> bool" for e where
  "repo_step e w (w\<lparr>graph := g\<rparr>)"
| "repo_step e w (snd (CreateProject p evs e w))"
| "repo_step e w (snd (GetProject i o1 e w))"
| "repo_step e w (snd (UpsertProject p e w))"
| "repo_step e w (snd (ListProjects opts e w))"
| "repo_step e w (snd (ArchiveProject i o1 e w))"
| "repo_step e w (snd (UpsertCapability c e w))"
| "repo_step e w (snd (ListCapabilities opts e w))"
| "repo_step e w (snd (SetProjectCapability pc e w))"
| "repo_step e w (snd (ListProjectCapabilities i e w))"
| "repo_step e w (snd (UpsertResourceType rt e w))"
| "repo_step e w (snd (GetResourceType i e w))"
| "repo_step e w (snd (ListResourceTypes opts e w))"
| "repo_step e w (snd (UpsertResource re evs e w))"
| "repo_step e w (snd (GetResource t i o1 e w))"
| "repo_step e w (snd (ListResources opts e w))"
| "repo_step e w (snd (ArchiveResource t i o1 e w))"
| "repo_step e w (snd (DeleteResource t i o1 e w))"
| "repo_step e w (snd (BindResource b evs e w))"
| "repo_step e w (snd (ListResourceBindings opts e w))"
| "repo_step e w (snd (UnbindResource i o1 e w))"
| "repo_step e w (snd (BindExternalResource eb e w))"
| "repo_step e w (snd (ListExternalResourceBindings opts e w))"
| "repo_step e w (snd (UpsertRoleTemplate ro e w))"
| "repo_step e w (snd (SaveRoleTemplate ro au evs e w))"
| "repo_step e w (snd (GetRoleTemplate i e w))"
| "repo_step e w (snd (UpdateRoleTemplate ro v au evs e w))"
| "repo_step e w (snd (CountActiveGrantsByRole i at e w))"
| "repo_step e w (snd (ListRoleTemplates t e w))"
| "repo_step e w (snd (CreateGrant g1 ga evs e w))"
| "repo_step e w (snd (GetGrant i o1 e w))"
| "repo_step e w (snd (RevokeGrant i o1 at ga evs e w))"
| "repo_step e w (snd (ListGrants opts e w))"
| "repo_step e w (snd (ListDueExpiringGrants n e w))"
| "repo_step e w (snd (CreateOutboxEvents evs e w))"
| "repo_step e w (snd (ListOutboxEvents opts e w))"
| "repo_step e w (snd (GetOutboxEvent i e w))"
| "list_all safe_column cols \<Longrightarrow> repo_step e w (snd (UpdateOutboxEvent i cols e w))"
| "repo_step e w (snd (ListOutboxEventsForRetry n e w))"
| "repo_step e w (snd (IncrementOutboxRetry i e w))"
| "repo_step e w (snd (ListUsers e w))"
| "repo_step e w (snd (SaveUser u e w))"
| "repo_step e w (snd (DeleteUser i e w))"

inductive repo_reach :: "env \<Rightarrow> 'g world \<Rightarrow> bool" for e where
  start: "db w = NewMemoryControlPlaneRepository \<Longrightarrow> repo_reach e w"
| step: "repo_reach e w \<Longrightarrow> repo_step e w w' \<Longrightarrow> repo_reach e w'"

lemma inv_kept_run: "inv_kept m \<Longrightarrow> repo_inv (db w) \<Longrightarrow> repo_inv (db (snd (m e w)))"
  by (simp add: steps_def keeps_def)

lemma inv_kept_reads: "steps (same db) m \<Longrightarrow> inv_kept m"
  by (simp add: steps_def keeps_def same_def)

lemmas method_rules =
  inv_kept_blind inv_kept_scoped inv_kept_event_update inv_kept_increment
  steps_reads[OF db_frame_keeps(1)]

lemma repo_step_inv: "repo_step e w w' \<Longrightarrow> repo_inv (db w) \<Longrightarrow> repo_inv (db w')"
  by (cases rule: repo_step.cases, assumption)
    (auto intro!: inv_kept_run method_rules)

text \<open>C1. The invariant of the repository holds in every state that its methods can produce with any arguments,
  as long as updates of outbox events neither set the identifier nor an empty status (\<open>safe_column\<close>; no caller in the
  program does): every one of the thirteen tables files each entry under the key computed from the entry itself, without
  duplicates, and no resource type, resource, binding, external binding or outbox event has an empty status.
  Projects, capabilities and the other entries are stored with the status that they come with.\<close>

theorem repository_invariant:
  assumes "repo_reach e w"
  shows "repo_inv (db w)"
  using assms by induction (auto simp: repo_inv_init intro: repo_step_inv)

definition sample_kernel :: kernel where
  "sample_kernel = \<lparr>SubjectTypeUser = ''user'', SubjectTypeGroup = ''group'',
     obj_is_zero = (\<lambda>ob. ob_Type ob = [] \<or> ob_ID ob = []),
     subj_is_zero = (\<lambda>s. su_Type s = [] \<or> su_ID s = []),
     obj_string = (\<lambda>ob. ob_Type ob @ '':'' @ ob_ID ob),
     subj_string = (\<lambda>s. su_Type s @ '':'' @ su_ID s @ (if su_Relation s = [] then [] else ''#'' @ su_Relation s)),
     is_allowed = dec_Allowed\<rparr>"

definition sample_env :: env where
  "sample_env = \<lparr>clock = (\<lambda>n. 63900000000000000000 + int n), rand4 = (\<lambda>n. Some [n mod 256, 0, 0, 7]),
     map_order = (\<lambda>n k. 0), kern = sample_kernel,
     json_role = (\<lambda>r. case r of None \<Rightarrow> [] | Some r \<Rightarrow> ro_ID r)\<rparr>"

definition sample_project :: "string \<Rightarrow> string \<Rightarrow> ProjectModel" where
  "sample_project i org = \<lparr>pr_ID = i, pr_OrgID = org, pr_Slug = i, pr_DisplayName = i,
     pr_Description = [], pr_Status = StatusActive, pr_Visibility = ''private'', pr_LabelsJSON = ''{}'',
     pr_AnnotationsJSON = ''{}'', pr_MetadataJSON = ''{}'', pr_CreatedBy = ''user:u1'',
     pr_CreatedAt = 5, pr_UpdatedAt = 5, pr_DeletedAt = None\<rparr>"

definition empty_world :: "'g \<Rightarrow> 'g world" where
  "empty_world g = \<lparr>ticks = 0, db = NewMemoryControlPlaneRepository, graph = g\<rparr>"

definition two_orgs :: "unit world" where
  "two_orgs = snd (CreateProject (sample_project ''p2'' ''acme'') [] sample_env
     (snd (CreateProject (sample_project ''p1'' ''zeta'') [] sample_env (empty_world ()))))"

lemma repo_reach_two_orgs: "repo_reach sample_env two_orgs"
  unfolding two_orgs_def
  by (intro repo_reach.step[OF _ repo_step.intros(2)] repo_reach.start) (simp add: empty_world_def)

lemma repository_invariant_witness:
  "repo_reach sample_env two_orgs \<and> map fst (projects (db two_orgs)) = [''p1'', ''p2'']
     \<and> repo_inv (db two_orgs)"
  using repository_invariant[OF repo_reach_two_orgs] repo_reach_two_orgs
  by (simp add: two_orgs_def empty_world_def NewMemoryControlPlaneRepository_def CreateProject_def
      sample_project_def nowIfZero_def IsZero_def bind_io_def saveEvents_def)

subsection \<open>Tenant isolation\<close>

text \<open>
  What the services rely on when they look up an entity for an organization: a lookup succeeds
  exactly on the organization's own entities, and reads nothing else.
\<close>

locale org_scoped_reader =
  fixes get :: "'i \<Rightarrow> string \<Rightarrow> ('g, 'v) opE"
    and lookup :: "MemoryRepo \<Rightarrow> 'i \<Rightarrow> 'v option"
    and org :: "'v \<Rightarrow> string"
  assumes get_ok: "get i o1 e w = (Inr x, w') \<longleftrightarrow> lookup (db w) i = Some x \<and> org x = o1 \<and> w' = w"
    and get_err: "get i o1 e w = (Inl er, w') \<Longrightarrow> w' = w \<and> (\<exists>m. er = ErrNotFound m)"
begin

lemma read_only: "get i o1 e w = (r, w') \<Longrightarrow> w' = w"
  by (cases r) (auto simp: get_ok dest: get_err)

lemma own_only: "get i o1 e w = (Inr x, w') \<Longrightarrow> get i o2 e w = (Inr y, w'') \<Longrightarrow> o2 = o1 \<and> y = x"
  by (auto simp: get_ok)

lemma foreign_hidden:
  assumes "\<And>x. lookup (db w) i = Some x \<Longrightarrow> org x \<noteq> o1"
  shows "\<exists>m. get i o1 e w = (Inl (ErrNotFound m), w)"
  using assms by (cases "get i o1 e w"; cases "fst (get i o1 e w)") (auto simp: get_ok dest: get_err)

end

text \<open>A change to one entity on behalf of an organization.\<close>

locale org_scoped_mutator =
  fixes mut :: "'i \<Rightarrow> string \<Rightarrow> ('g, 'a) opE"
    and lookup :: "MemoryRepo \<Rightarrow> 'i \<Rightarrow> 'v option"
    and org :: "'v \<Rightarrow> string"
  assumes mut_ok: "mut i o1 e w = (Inr u, w') \<Longrightarrow> \<exists>x. lookup (db w) i = Some x \<and> org x = o1"
    and mut_own: "lookup (db w) i = Some x \<Longrightarrow> org x = o1 \<Longrightarrow> \<not> isl (fst (mut i o1 e w))"
    and mut_err: "mut i o1 e w = (Inl er, w') \<Longrightarrow> w' = w \<and> (\<exists>m. er = ErrNotFound m)"
    and mut_frame: "mut i o1 e w = (r, w') \<Longrightarrow> lookup (db w') j \<noteq> lookup (db w) j \<Longrightarrow>
      lookup (db w) j = lookup (db w) i"
begin

lemma foreign_denied:
  assumes "\<And>x. lookup (db w) i = Some x \<Longrightarrow> org x \<noteq> o1"
  shows "\<exists>m. mut i o1 e w = (Inl (ErrNotFound m), w)"
  using assms by (cases "mut i o1 e w"; cases "fst (mut i o1 e w)") (auto dest: mut_ok mut_err)

lemma denied_iff:
  "if \<exists>x. lookup (db w) i = Some x \<and> org x = o1 then \<not> isl (fst (mut i o1 e w))
   else \<exists>m. mut i o1 e w = (Inl (ErrNotFound m), w)"
  using foreign_denied[of w i o1 e] mut_own by auto

lemma foreign_kept:
  assumes y: "lookup (db w) j = Some y" "org y \<noteq> o1"
  shows "lookup (db (snd (mut i o1 e w))) j = Some y"
proof (rule ccontr)
  assume n: "lookup (db (snd (mut i o1 e w))) j \<noteq> Some y"
  obtain r w' where r: "mut i o1 e w = (r, w')" by fastforce
  with n y have "lookup (db w) i = Some y" using mut_frame[OF r, of j] by auto
  then have "\<exists>m. mut i o1 e w = (Inl (ErrNotFound m), w)" using y by (intro foreign_denied) auto
  with n y show False by auto
qed

end

lemma scoped_Inl: "scoped what org i o1 v = Inl er \<Longrightarrow> \<exists>m. er = ErrNotFound m"
  by (auto simp: scoped_def not_found_def not_found_in_def split: option.splits if_splits)

lemma liftE_scoped_run:
  "bindE (liftE (scoped what org i o1 v)) h e w =
     (case scoped what org i o1 v of Inl er \<Rightarrow> (Inl er, w) | Inr x \<Rightarrow> h x e w)"
  by (cases "scoped what org i o1 v") simp_all

abbreviation project_at :: "MemoryRepo \<Rightarrow> string \<Rightarrow> ProjectModel option" where
  "project_at r \<equiv> get_key (projects r)"

abbreviation resource_at :: "MemoryRepo \<Rightarrow> string \<times> string \<Rightarrow> ResourceModel option" where
  "resource_at r k \<equiv> get_key (resources r) (key [fst k, snd k])"

abbreviation grant_at :: "MemoryRepo \<Rightarrow> string \<Rightarrow> GrantModel option" where
  "grant_at r \<equiv> get_key (grants r)"

abbreviation binding_at :: "MemoryRepo \<Rightarrow> string \<Rightarrow> ResourceBindingModel option" where
  "binding_at r \<equiv> get_key (bindings r)"

interpretation project_reads: org_scoped_reader GetProject project_at pr_OrgID
  by unfold_locales (auto simp: GetProject_def bind_io_def scoped_Inr_iff dest: scoped_Inl)

interpretation resource_reads: org_scoped_reader "\<lambda>k. GetResource (fst k) (snd k)" resource_at re_OrgID
  by unfold_locales (auto simp: GetResource_def bind_io_def scoped_Inr_iff dest: scoped_Inl)

interpretation grant_reads: org_scoped_reader GetGrant grant_at gr_OrgID
  by unfold_locales (auto simp: GetGrant_def bind_io_def scoped_Inr_iff dest: scoped_Inl)

lemma saveEvents_tables [simp]:
  "projects (saveEvents evs r) = projects r" "resources (saveEvents evs r) = resources r"
  "grants (saveEvents evs r) = grants r" "bindings (saveEvents evs r) = bindings r"
  "roles (saveEvents evs r) = roles r" "audits (saveEvents evs r) = audits r"
  "resourceTypes (saveEvents evs r) = resourceTypes r" "roleAudits (saveEvents evs r) = roleAudits r"
  "externalBindings (saveEvents evs r) = externalBindings r"
  unfolding saveEvents_def
  by (induction evs arbitrary: r) (auto simp: saveEvent_def Let_def split: option.splits)

lemma put_audit_tables [simp]:
  "projects (put_audit a r) = projects r" "resources (put_audit a r) = resources r"
  "grants (put_audit a r) = grants r" "bindings (put_audit a r) = bindings r"
  "events (put_audit a r) = events r" "roles (put_audit a r) = roles r"
  by (simp_all add: put_audit_def split: option.splits)

lemma scoped_own: "v = Some x \<Longrightarrow> org x = o1 \<Longrightarrow> scoped what org i o1 v = Inr x"
  by (simp add: scoped_Inr_iff)

lemmas mutator_unfold = bind_io_def liftE_scoped_run scoped_Inr_iff scoped_own update_conv' delete_conv'

interpretation project_archive: org_scoped_mutator ArchiveProject project_at pr_OrgID
  by unfold_locales
    (auto simp: ArchiveProject_def mutator_unfold split: sum.splits if_splits dest: scoped_Inl)

interpretation resource_archive: org_scoped_mutator "\<lambda>k. ArchiveResource (fst k) (snd k)" resource_at re_OrgID
  by unfold_locales
    (auto simp: ArchiveResource_def set_resource_status_def mutator_unfold
      split: sum.splits if_splits dest: scoped_Inl)

interpretation resource_delete: org_scoped_mutator "\<lambda>k. DeleteResource (fst k) (snd k)" resource_at re_OrgID
  by unfold_locales
    (auto simp: DeleteResource_def set_resource_status_def mutator_unfold
      split: sum.splits if_splits dest: scoped_Inl)

interpretation grant_revoke: org_scoped_mutator "\<lambda>i o1. RevokeGrant i o1 at ga evs" grant_at gr_OrgID
  by unfold_locales
    (auto simp: RevokeGrant_def mutator_unfold split: sum.splits if_splits dest: scoped_Inl)

interpretation binding_remove: org_scoped_mutator UnbindResource binding_at rb_OrgID
  by unfold_locales
    (auto simp: UnbindResource_def mutator_unfold simp del: AList.delete_eq
      split: sum.splits if_splits dest: scoped_Inl)

text \<open>C3. Tenant isolation of the in-memory repository.  Archiving a project, archiving or deleting a resource,
  revoking a grant or removing a binding on behalf of an organization, each looked at in its own table, fails with not-found and
  leaves the world as it was when the entity does not exist or belongs to another organization; only when the entity is
  the organization's own does the call return without an error.  The services and the SQL repository are
  not covered: a service may have purged tuples before it gets here, and the SQL statements succeed without a row.\<close>

theorem foreign_calls_denied:
  shows "(if \<exists>v. project_at (db w) i = Some v \<and> pr_OrgID v = o1 then \<not> isl (fst (ArchiveProject i o1 e w))
      else \<exists>m. ArchiveProject i o1 e w = (Inl (ErrNotFound m), w))
    \<and> (if \<exists>v. resource_at (db w) (t, i) = Some v \<and> re_OrgID v = o1
      then \<not> isl (fst (ArchiveResource t i o1 e w)) \<and> \<not> isl (fst (DeleteResource t i o1 e w))
      else (\<exists>m. ArchiveResource t i o1 e w = (Inl (ErrNotFound m), w)) \<and> (\<exists>m. DeleteResource t i o1 e w = (Inl (ErrNotFound m), w)))
    \<and> (if \<exists>v. grant_at (db w) i = Some v \<and> gr_OrgID v = o1 then \<not> isl (fst (RevokeGrant i o1 at ga evs e w))
      else \<exists>m. RevokeGrant i o1 at ga evs e w = (Inl (ErrNotFound m), w))
    \<and> (if \<exists>v. binding_at (db w) i = Some v \<and> rb_OrgID v = o1 then \<not> isl (fst (UnbindResource i o1 e w))
      else \<exists>m. UnbindResource i o1 e w = (Inl (ErrNotFound m), w))"
proof (intro conjI)
  note R = resource_archive.denied_iff[of w "(t, i)" o1 e] resource_delete.denied_iff[of w "(t, i)" o1 e]
  show "if \<exists>v. resource_at (db w) (t, i) = Some v \<and> re_OrgID v = o1
      then \<not> isl (fst (ArchiveResource t i o1 e w)) \<and> \<not> isl (fst (DeleteResource t i o1 e w))
      else (\<exists>m. ArchiveResource t i o1 e w = (Inl (ErrNotFound m), w)) \<and> (\<exists>m. DeleteResource t i o1 e w = (Inl (ErrNotFound m), w))"
    using R by (auto split: if_splits)
qed (rule project_archive.denied_iff grant_revoke.denied_iff binding_remove.denied_iff)+

definition sample_resource :: "string \<Rightarrow> string \<Rightarrow> string \<Rightarrow> ResourceModel" where
  "sample_resource t i org = \<lparr>re_Type = t, re_ID = i, re_OrgID = org, re_ProjectID = ''p1'',
     re_ParentType = [], re_ParentID = [], re_OwnerService = ''skill'', re_OwnerResourceID = i,
     re_Slug = i, re_DisplayName = i, re_Path = [], re_Status = [], re_Visibility = ''private'',
     re_LabelsJSON = ''{}'', re_AnnotationsJSON = ''{}'', re_MetadataJSON = ''{}'',
     re_CreatedBy = ''user:u1'', re_CreatedAt = 0, re_UpdatedAt = 0, re_DeletedAt = None\<rparr>"

definition sample_grant :: "string \<Rightarrow> string \<Rightarrow> GrantModel" where
  "sample_grant i org = \<lparr>gr_ID = i, gr_OrgID = org, gr_ResourceType = ''skill'',
     gr_ResourceID = ''s1'', gr_RoleKey = ''viewer'', gr_RoleTemplateID = ''r1'',
     gr_Relation = ''viewer'', gr_SubjectType = ''user'', gr_SubjectID = ''u1'',
     gr_SubjectRelation = [], gr_Source = ''manual'', gr_Reason = [], gr_ExpiresAt = None,
     gr_CreatedByType = ''user'', gr_CreatedByID = ''admin'', gr_CreatedAt = 0, gr_RevokedAt = None\<rparr>"

definition sample_binding :: "string \<Rightarrow> string \<Rightarrow> ResourceBindingModel" where
  "sample_binding i org = \<lparr>rb_ID = i, rb_OrgID = org, rb_SourceType = ''skill'', rb_SourceID = ''s1'',
     rb_Relation = ''uses'', rb_TargetType = ''kb'', rb_TargetID = ''k1'', rb_Status = [],
     rb_CreatedBy = ''user:u1'', rb_CreatedAt = 0, rb_UpdatedAt = 0\<rparr>"

definition zeta_world :: "unit world" where
  "zeta_world =
     snd (BindResource (sample_binding ''b1'' ''zeta'') [] sample_env
     (snd (CreateGrant (sample_grant ''g1'' ''zeta'') None [] sample_env
     (snd (UpsertResource (sample_resource ''skill'' ''s1'' ''zeta'') [] sample_env
     (snd (CreateProject (sample_project ''p1'' ''zeta'') [] sample_env (empty_world ()))))))))"

lemmas sample_defs = empty_world_def NewMemoryControlPlaneRepository_def sample_project_def
  sample_resource_def sample_grant_def sample_binding_def nowIfZero_run IsZero_def bind_io_def
  saveEvents_def put_grant_def put_audit_def key_def

lemma zeta_world_tables:
  "projects (db zeta_world) = [(''p1'', sample_project ''p1'' ''zeta'')]"
  "map fst (resources (db zeta_world)) = [''skill:s1'']"
  "map (re_OrgID \<circ> snd) (resources (db zeta_world)) = [''zeta'']"
  "map fst (grants (db zeta_world)) = [''g1'']" "map (gr_OrgID \<circ> snd) (grants (db zeta_world)) = [''zeta'']"
  "map fst (bindings (db zeta_world)) = [''b1'']" "map (rb_OrgID \<circ> snd) (bindings (db zeta_world)) = [''zeta'']"
  by (simp_all add: zeta_world_def sample_defs BindResource_def CreateGrant_def UpsertResource_def
      CreateProject_def)

lemma single_table: "map fst m = [k] \<Longrightarrow> map (f \<circ> snd) m = [x] \<Longrightarrow> \<exists>v. m = [(k, v)] \<and> f v = x"
  by (cases m) auto

lemma foreign_calls_denied_witness:
  "\<exists>m. RevokeGrant ''g1'' ''acme'' 9 None [] sample_env zeta_world = (Inl (ErrNotFound m), zeta_world)"
proof -
  note r = single_table[OF zeta_world_tables(2,3)] and g = single_table[OF zeta_world_tables(4,5)]
    and b = single_table[OF zeta_world_tables(6,7)]
  show ?thesis
    using foreign_calls_denied[where w = zeta_world and i = "''g1''" and ?o1.0 = "''acme''" and e = sample_env and at = 9
        and ga = None and evs = "[]"] g
    by (auto split: if_splits)
qed

text \<open>Tenant isolation, frame.  Whatever an organization archives, deletes, revokes or
  unbinds, under any identifier, the projects, resources, grants and bindings of every other
  organization are still there afterwards, unchanged.\<close>

theorem foreign_entities_kept:
  assumes "project_at (db w) pj = Some p" "pr_OrgID p \<noteq> o1"
    and "resource_at (db w) rk = Some re" "re_OrgID re \<noteq> o1"
    and "grant_at (db w) gi = Some g" "gr_OrgID g \<noteq> o1"
    and "binding_at (db w) bi = Some b" "rb_OrgID b \<noteq> o1"
  shows "project_at (db (snd (ArchiveProject i o1 e w))) pj = Some p
    \<and> resource_at (db (snd (ArchiveResource t i o1 e w))) rk = Some re
    \<and> resource_at (db (snd (DeleteResource t i o1 e w))) rk = Some re
    \<and> grant_at (db (snd (RevokeGrant i o1 at ga evs e w))) gi = Some g
    \<and> binding_at (db (snd (UnbindResource i o1 e w))) bi = Some b"
  using project_archive.foreign_kept[OF assms(1,2)] resource_archive.foreign_kept[OF assms(3,4)]
    resource_delete.foreign_kept[OF assms(3,4)] grant_revoke.foreign_kept[OF assms(5,6)]
    binding_remove.foreign_kept[OF assms(7,8)]
  by (auto dest: spec[of _ "(t, i)"])

lemma foreign_entities_kept_witness:
  "\<exists>g. grant_at (db zeta_world) ''g1'' = Some g \<and> gr_OrgID g = ''zeta''
     \<and> grant_at (db (snd (RevokeGrant ''g1'' ''acme'' 9 None [] sample_env zeta_world))) ''g1'' = Some g"
proof -
  obtain re g b where r: "resources (db zeta_world) = [(''skill:s1'', re)]" "re_OrgID re = ''zeta''"
    and g: "grants (db zeta_world) = [(''g1'', g)]" "gr_OrgID g = ''zeta''"
    and b: "bindings (db zeta_world) = [(''b1'', b)]" "rb_OrgID b = ''zeta''"
    using single_table[OF zeta_world_tables(2,3)] single_table[OF zeta_world_tables(4,5)]
      single_table[OF zeta_world_tables(6,7)] by auto
  show ?thesis
    using foreign_entities_kept[of zeta_world "''p1''" "sample_project ''p1'' ''zeta''" "''acme''"
        "(''skill'', ''s1'')" re "''g1''" g "''b1''" b "''g1''" sample_env "''skill''" 9 None "[]"] r g b
    by (auto simp: zeta_world_tables key_def sample_project_def)
qed

subsection \<open>Paging\<close>

lemma wrap64_small: "min_int64 \<le> i \<Longrightarrow> i \<le> max_int64 \<Longrightarrow> wrap64 i = i"
  by (simp add: wrap64_id in_int64_def)

lemma wrap64_ge: "0 \<le> i \<Longrightarrow> i \<le> max_int64 \<Longrightarrow> wrap64 i = i"
  by (rule wrap64_small) (auto simp: min_int64_def)

lemma pageOf_run:
  assumes s: "0 < s" "s \<le> 100" and p: "1 \<le> p" "p * s \<le> max_int64"
    and n: "int (length xs) \<le> max_int64"
  shows "pageOf xs p s = Inr \<lparr>pg_Items = take (nat s) (drop (nat ((p - 1) * s)) xs),
           pg_Total = int (length xs), pg_Page = p, pg_Size = s,
           pg_HasMore = (p * s < int (length xs))\<rparr>"
proof -
  define d where "d = (p - 1) * s"
  have ps: "p * s = d + s" by (simp add: d_def algebra_simps)
  have d: "0 \<le> d" using s p by (simp add: d_def)
  have le: "d + s \<le> max_int64" using p ps by simp
  have w1: "wrap64 d = d" using d le s by (intro wrap64_ge) linarith+
  have w2: "wrap64 (int (length xs) + s) = int (length xs) + s" if "d > int (length xs)"
    using that le s by (intro wrap64_ge) linarith+
  have w3: "wrap64 (d + s) = d + s" using d le s by (intro wrap64_ge) linarith+
  have tk: "take (nat (int (length xs) - d)) (drop (nat d) xs) = take (nat s) (drop (nat d) xs)"
    if "d + s > int (length xs)" using that d by simp
  have pos: "\<not> p \<le> 0" "\<not> s \<le> 0" "\<not> s > 100" "nat (d + s - d) = nat s" using s p by auto
  have w0: "wrap64 ((p - 1) * s) = d" using w1 by (simp add: d_def)
  have "pageOf xs p s = Inr \<lparr>pg_Items = take (nat s) (drop (nat d) xs),
           pg_Total = int (length xs), pg_Page = p, pg_Size = s, pg_HasMore = (d + s < int (length xs))\<rparr>"
    using d tk w2 pos
    by (simp add: pageOf_def Let_def w0 w3 del: nat_diff_distrib)
  then show ?thesis by (simp add: ps flip: d_def)
qed

text \<open>Paging is complete: for a page size between 1 and 100 the first \<open>n\<close> pages, put
  together, are the first \<open>n * size\<close> entries of the filtered list, in order, without gap or
  repetition, and each page reports the total and whether entries follow it.\<close>

theorem pages_cover_list:
  assumes "0 < s" "s \<le> 100" "int n * s \<le> max_int64" "int (length xs) \<le> max_int64"
  shows "\<exists>pages. list_all2 (\<lambda>p pg. pageOf xs p s = Inr pg \<and> pg_Total pg = int (length xs)
             \<and> (pg_HasMore pg \<longleftrightarrow> p * s < int (length xs)))
           (map int [1..<Suc n]) pages
         \<and> concat (map pg_Items pages) = take (n * nat s) xs"
  using assms(3)
proof (induction n)
  case (Suc n)
  have "int n * s \<le> int (Suc n) * s" using assms by (simp add: algebra_simps)
  with Suc obtain pages where IH: "list_all2 (\<lambda>p pg. pageOf xs p s = Inr pg
      \<and> pg_Total pg = int (length xs) \<and> (pg_HasMore pg \<longleftrightarrow> p * s < int (length xs)))
      (map int [1..<Suc n]) pages" "concat (map pg_Items pages) = take (n * nat s) xs"
    by auto
  let ?pg = "\<lparr>pg_Items = take (nat s) (drop (nat ((int (Suc n) - 1) * s)) xs),
           pg_Total = int (length xs), pg_Page = int (Suc n), pg_Size = s,
           pg_HasMore = (int (Suc n) * s < int (length xs))\<rparr>"
  have pg: "pageOf xs (int (Suc n)) s = Inr ?pg"
    using assms Suc.prems by (intro pageOf_run) auto
  have "nat ((int (Suc n) - 1) * s) = n * nat s" using assms by (simp add: nat_mult_distrib)
  then have "concat (map pg_Items (pages @ [?pg])) = take (Suc n * nat s) xs"
    using IH(2) take_add[of "n * nat s" "nat s" xs] by (simp add: add.commute)
  moreover have "list_all2 (\<lambda>p pg. pageOf xs p s = Inr pg \<and> pg_Total pg = int (length xs)
      \<and> (pg_HasMore pg \<longleftrightarrow> p * s < int (length xs))) (map int [1..<Suc (Suc n)]) (pages @ [?pg])"
  proof -
    have "map int [1..<Suc (Suc n)] = map int [1..<Suc n] @ [int (Suc n)]" by simp
    then show ?thesis using pg IH(1)
      by (simp only:) (intro list_all2_appendI, simp_all)
  qed
  ultimately show ?case by blast
qed simp

lemma pages_cover_list_witness:
  "\<exists>pages :: char Page list. length pages = 3 \<and> concat (map pg_Items pages) = ''abcdefg''"
proof -
  obtain pages where "list_all2 (\<lambda>p pg. pageOf ''abcdefg'' p 3 = Inr pg
      \<and> pg_Total pg = int (length ''abcdefg'') \<and> (pg_HasMore pg \<longleftrightarrow> p * 3 < int (length ''abcdefg'')))
      (map int [1..<Suc 3]) pages" "concat (map pg_Items pages) = take (3 * nat 3) ''abcdefg''"
    using pages_cover_list[of 3 3 "''abcdefg''"] by (auto simp: max_int64_def)
  then have "length pages = 3" "concat (map pg_Items pages) = ''abcdefg''"
    by (auto dest!: list_all2_lengthD)
  then show ?thesis by blast
qed

text \<open>Paging bounds: whatever page and size a client sends, a page that is returned holds at
  most 100 entries and a size between 1 and 100, its entries are a contiguous part of the list,
  and the only other outcome is the slice panic, which a non-negative page number reaches only
  where the start of the page, or its end, overflows 64 bits.\<close>

theorem page_bounds:
  "case pageOf xs page sz of
     Inr pg \<Rightarrow> length (pg_Items pg) \<le> 100 \<and> 1 \<le> pg_Size pg \<and> pg_Size pg \<le> 100 \<and> 1 \<le> pg_Page pg
       \<and> (\<exists>us vs. xs = us @ pg_Items pg @ vs)
   | Inl er \<Rightarrow> er = ErrPanic ''slice bounds out of range''
       \<and> (max_int64 - 100 < int (length xs) \<or> max_int64 < page * 100)"
proof -
  define p where "p = (if page \<le> 0 then 1 else page)"
  define s0 where "s0 = (if sz \<le> 0 then (if int (length xs) = 0 then 100 else int (length xs)) else sz)"
  define s where "s = (if s0 > 100 then 100 else s0)"
  define a0 where "a0 = wrap64 ((p - 1) * s)"
  define a where "a = (if a0 > int (length xs) then int (length xs) else a0)"
  define b0 where "b0 = wrap64 (a + s)"
  define b where "b = (if b0 > int (length xs) then int (length xs) else b0)"
  have run: "pageOf xs page sz = (if a < 0 \<or> b < a then Inl (ErrPanic ''slice bounds out of range'')
      else Inr \<lparr>pg_Items = take (nat (b - a)) (drop (nat a) xs), pg_Total = int (length xs),
                pg_Page = p, pg_Size = s, pg_HasMore = b < int (length xs)\<rparr>)"
    unfolding pageOf_def Let_def p_def s0_def s_def a0_def a_def b0_def b_def by (rule refl)
  have s: "1 \<le> s" "s \<le> 100" by (auto simp: s_def s0_def Suc_le_eq)
  have p: "1 \<le> p" by (simp add: p_def)
  have len: "b - a \<le> 100" if "0 \<le> a"
  proof -
    have "b0 \<le> a + s"
    proof (cases "a + s \<le> max_int64")
      case True
      with that s show ?thesis using wrap64_ge[of "a + s"] by (simp add: b0_def)
    next
      case False
      then show ?thesis using wrap64_range[of "a + s"] by (simp add: b0_def in_int64_def)
    qed
    then show ?thesis using s by (simp add: b_def split: if_splits)
  qed
  have part: "\<exists>us vs. xs = us @ take (nat (b - a)) (drop (nat a) xs) @ vs"
    by (metis append_take_drop_id)
  have panic: "page * 100 > max_int64" if "a < 0 \<or> b < a" "int (length xs) \<le> max_int64 - 100"
  proof (rule ccontr)
    assume n: "\<not> page * 100 > max_int64"
    then have "(p - 1) * 100 \<le> max_int64" by (auto simp: p_def max_int64_def)
    moreover have "(p - 1) * s \<le> (p - 1) * 100" using s p by (intro mult_left_mono) auto
    ultimately have a0: "a0 = (p - 1) * s" "0 \<le> a0" using s p wrap64_ge[of "(p - 1) * s"]
      by (auto simp: a0_def)
    then have a: "0 \<le> a" "a \<le> int (length xs)" by (auto simp: a_def)
    then have "b0 = a + s" using that(2) s wrap64_ge[of "a + s"] by (simp add: b0_def)
    then show False using that(1) a s by (auto simp: b_def split: if_split_asm)
  qed
  have "max_int64 - 100 < int (length xs) \<or> max_int64 < page * 100" if "a < 0 \<or> b < a"
    using panic[OF that] by linarith
  then show ?thesis using run s p len part by (auto simp: min_def)
qed

lemma pageOf_huge: "pageOf xs max_int64 100 = Inl (ErrPanic ''slice bounds out of range'')"
proof -
  have "wrap64 ((max_int64 - 1) * 100) = -200" by (simp add: max_int64_def wrap64_def)
  then show ?thesis by (simp add: pageOf_def Let_def) (simp add: max_int64_def)
qed

text \<open>A client that asks for the page number 2^63-1 makes every listing panic: the start
  offset wraps to a negative slice bound, for any list of results.\<close>

theorem huge_page_panics:
  "\<exists>m. ListProjects (no_options\<lparr>lo_Page := max_int64, lo_Size := 100\<rparr>) e w = (Inl (ErrPanic m), tick w)
     \<and> fst (ListGrants (no_options\<lparr>lo_Page := max_int64, lo_Size := 100\<rparr>) e w) = Inl (ErrPanic m)
     \<and> fst (ListResources (no_options\<lparr>lo_Page := max_int64, lo_Size := 100\<rparr>) e w) = Inl (ErrPanic m)"
  by (simp add: pageOf_huge ListProjects_def ListGrants_def ListResources_def bind_io_def)

subsection \<open>Optimistic concurrency of role templates\<close>

lemma UpdateRoleTemplate_ok_iff:
  "UpdateRoleTemplate role v au evs e w = (Inr r, w') \<longleftrightarrow>
     (\<exists>old. get_key (roles (db w)) (ro_key role) = Some old \<and> ro_ID old = ro_ID role
        \<and> ro_Version old = v \<and> r = role\<lparr>ro_Version := wrap64 (v + 1)\<rparr>
        \<and> w' = w\<lparr>db := saveEvents evs (put_role_audit au (put_role r (db w)))\<rparr>)"
  by (auto simp: UpdateRoleTemplate_def bind_io_def ro_key_def Let_def split: option.splits)

lemma put_role_audit_roles [simp]: "roles (put_role_audit a r) = roles r" "events (put_role_audit a r) = events r"
  "grants (put_role_audit a r) = grants r"
  by (simp_all add: put_role_audit_def split: option.splits)

lemma put_role_roles [simp]: "roles (put_role v r) = put_key (ro_key v) v (roles r)"
  "events (put_role v r) = events r" "grants (put_role v r) = grants r"
  by (simp_all add: put_role_def ro_key_def)

lemma wrap64_succ_neq: "wrap64 (v + 1) \<noteq> v"
proof
  assume "wrap64 (v + 1) = v"
  then have "(v + 1 + 9223372036854775808) mod 18446744073709551616 = v + 9223372036854775808"
    by (simp add: wrap64_def)
  moreover have "(v + 1 + 9223372036854775808) mod 18446744073709551616
      = (v + 1 + 9223372036854775808) - 18446744073709551616 * ((v + 1 + 9223372036854775808) div 18446744073709551616)"
    by (simp add: minus_div_mult_eq_mod [symmetric])
  ultimately have "1 = 18446744073709551616 * ((v + 1 + 9223372036854775808) div 18446744073709551616)"
    by linarith
  then show False
    by (cases "(v + 1 + 9223372036854775808) div 18446744073709551616 \<le> 0") linarith+
qed

text \<open>C27. No lost update on role templates.  An update that succeeds found the version the caller
  expected, stores the caller's role with the next version, and leaves the table in a state where
  every further update of that role with the same expected version is refused with a version
  conflict and changes nothing.\<close>

theorem role_update_not_lost:
  assumes upd: "UpdateRoleTemplate role v au evs e w = (Inr r, w')"
    and same: "ro_key role2 = ro_key role" "ro_ID role2 = ro_ID role"
  shows "(\<exists>old. get_key (roles (db w)) (ro_key role) = Some old \<and> ro_Version old = v)
    \<and> get_key (roles (db w')) (ro_key role) = Some (role\<lparr>ro_Version := wrap64 (v + 1)\<rparr>)
    \<and> UpdateRoleTemplate role2 v au2 evs2 e2 w' = (Inl ErrRoleVersionConflict, w')"
proof -
  obtain old where o1: "get_key (roles (db w)) (ro_key role) = Some old" "ro_Version old = v"
    and w': "w' = w\<lparr>db := saveEvents evs (put_role_audit au (put_role r (db w)))\<rparr>"
    and r: "r = role\<lparr>ro_Version := wrap64 (v + 1)\<rparr>"
    using upd by (auto simp: UpdateRoleTemplate_ok_iff)
  have k: "ro_key r = ro_key role" by (simp add: r ro_key_def)
  have new: "get_key (roles (db w')) (ro_key role) = Some r"
    by (simp add: w' k update_conv')
  moreover have "UpdateRoleTemplate role2 v au2 evs2 e2 w' = (Inl ErrRoleVersionConflict, w')"
    using new same wrap64_succ_neq[of v]
    by (simp add: UpdateRoleTemplate_def bind_io_def r flip: ro_key_def)
  ultimately show ?thesis using o1 r by blast
qed

definition sample_role :: "string \<Rightarrow> int \<Rightarrow> RoleTemplateModel" where
  "sample_role i v = \<lparr>ro_ID = i, ro_OrgID = [], ro_ResourceType = ''skill'', ro_RoleKey = ''viewer'',
     ro_DisplayName = ''Viewer'', ro_Description = [], ro_Relation = ''viewer'', ro_BuiltIn = True,
     ro_Enabled = True, ro_SortOrder = 0, ro_MetadataJSON = ''{}'', ro_Version = v,
     ro_CreatedAt = 1, ro_UpdatedAt = 1, ro_Permissions = [], ro_ActiveGrantCount = 0\<rparr>"

lemma role_update_not_lost_witness:
  "let w = (empty_world ())\<lparr>db := put_role (sample_role ''r1'' 3) NewMemoryControlPlaneRepository\<rparr>;
       w' = snd (UpdateRoleTemplate (sample_role ''r1'' 3) 3 None [] sample_env w)
   in UpdateRoleTemplate (sample_role ''r1'' 3) 3 None [] sample_env w' = (Inl ErrRoleVersionConflict, w')"
proof -
  let ?w = "(empty_world ())\<lparr>db := put_role (sample_role ''r1'' 3) NewMemoryControlPlaneRepository\<rparr>"
  have "UpdateRoleTemplate (sample_role ''r1'' 3) 3 None [] sample_env ?w
     = (Inr ((sample_role ''r1'' 3)\<lparr>ro_Version := wrap64 (3 + 1)\<rparr>),
        snd (UpdateRoleTemplate (sample_role ''r1'' 3) 3 None [] sample_env ?w))"
    by (simp add: UpdateRoleTemplate_def bind_io_def update_conv' Let_def sample_role_def ro_key_def)
  from role_update_not_lost[OF this refl refl] show ?thesis unfolding Let_def by blast
qed

end
