(* ===== verification/Projection.thy ===== *)
theory Projection
  imports MemoryLaws
begin

text \<open>
  The outbox projection of \<open>internal/biz/projection/manager.go\<close>: relationship changes are stored
  as outbox events beside the control-plane rows and projected to the relationship store
  afterwards, directly or through a DTM saga, with compensation and retries.

  The repository, the writer and the DTM manager are interfaces, held here as records of
  operations; \<open>memory_outbox\<close> is the repository of \<open>internal/data/memory.go\<close>.  The JSON codec of
  the payload, whose field types belong to kernel/authz, is the pair \<open>mg_marshal\<close>,
  \<open>mg_unmarshal\<close>.
\<close>

abbreviation TopicAuthzProjection :: string where "TopicAuthzProjection \<equiv> ''iam.authz.projection''"
abbreviation OperationWrite :: string where "OperationWrite \<equiv> ''write''"
abbreviation OperationDelete :: string where "OperationDelete \<equiv> ''delete''"
abbreviation OperationReplace :: string where "OperationReplace \<equiv> ''replace''"

record Payload =
  pl_Operation :: string
  pl_Relationships :: "Relationship list"
  pl_PreviousRelationships :: "Relationship list"
  pl_Filters :: "RelationshipFilter list"
  pl_Filter :: RelationshipFilter

definition empty_payload :: Payload where
  "empty_payload = \<lparr>pl_Operation = [], pl_Relationships = [], pl_PreviousRelationships = [],
     pl_Filters = [], pl_Filter = empty_filter\<rparr>"

record 'g outbox_repo =
  or_GetOutboxEvent :: "string \<Rightarrow> ('g, OutboxEventModel) opE"
  or_UpdateOutboxEvent :: "string \<Rightarrow> (string \<times> column) list \<Rightarrow> ('g, unit) opE"
  or_ListOutboxEventsForRetry :: "int \<Rightarrow> ('g, OutboxEventModel list) opE"
  or_IncrementOutboxRetry :: "string \<Rightarrow> ('g, OutboxEventModel option) opE"

text \<open>The saga of one branch that \<open>Dispatch\<close> submits.\<close>

record Saga =
  sg_GID :: string
  sg_Topic :: string
  sg_Branch :: string
  sg_Action :: string
  sg_Compensate :: string
  sg_EventID :: string

record 'g dtm =
  dtm_Enabled :: "'g \<Rightarrow> bool"
  dtm_NewGID :: "'g \<Rightarrow> (err + string) \<times> 'g"
  dtm_BranchURL :: "string \<Rightarrow> string"
  dtm_SubmitSaga :: "Saga \<Rightarrow> 'g \<Rightarrow> (err + unit) \<times> 'g"

record 'g Manager =
  mg_repo :: "'g outbox_repo option"
  mg_writer :: "'g store option"
  mg_dtm :: "'g dtm option"
  mg_marshal :: "Payload \<Rightarrow> err + string"
  mg_unmarshal :: "string \<Rightarrow> err + Payload"

text \<open>The result pair \<open>(authz.WriteResult, error)\<close> of an operation.\<close>

type_synonym 'g wr_op = "('g, WriteResult \<times> err option) op"

definition not_configured :: err where
  "not_configured = ErrNew ''projection manager is not configured''"

definition memory_outbox :: "'g outbox_repo" where
  "memory_outbox = \<lparr>or_GetOutboxEvent = GetOutboxEvent, or_UpdateOutboxEvent = UpdateOutboxEvent,
     or_ListOutboxEventsForRetry = ListOutboxEventsForRetry,
     or_IncrementOutboxRetry = (\<lambda>i. bindE (IncrementOutboxRetry i) (\<lambda>v. okE (Some v)))\<rparr>"

text \<open>\<open>NewManager\<close>: the codec stands for encoding/json on the payload.\<close>

type_synonym codec = "(Payload \<Rightarrow> err + string) \<times> (string \<Rightarrow> err + Payload)"

definition NewManager ::
    "codec \<Rightarrow> 'g outbox_repo option \<Rightarrow> 'g store option \<Rightarrow> 'g dtm option \<Rightarrow> 'g Manager" where
  "NewManager codec repo writer d = \<lparr>mg_repo = repo, mg_writer = writer, mg_dtm = d,
     mg_marshal = fst codec, mg_unmarshal = snd codec\<rparr>"

subsection \<open>Building events\<close>

definition newEvent :: "'g Manager option \<Rightarrow> string \<Rightarrow> string \<Rightarrow> Payload \<Rightarrow> ('g, OutboxEventModel) opE" where
  "newEvent m aggregateType aggregateID payload =
     (case m of
        None \<Rightarrow> failE (ErrPanic ''nil projection manager'')
      | Some mg \<Rightarrow>
          bindE (liftE (mg_marshal mg payload)) (\<lambda>body.
          bind_io now_io (\<lambda>now.
          bind_io (new_id ''outbox'') (\<lambda>ident.
          okE \<lparr>ev_ID = ident, ev_OrgID = [], ev_Topic = TopicAuthzProjection,
               ev_AggregateType = TrimSpace aggregateType, ev_AggregateID = TrimSpace aggregateID,
               ev_PayloadJSON = body, ev_Status = StatusPending, ev_RetryCount = 0,
               ev_NextRunAt = None, ev_LastError = [], ev_CreatedAt = now, ev_UpdatedAt = now\<rparr>))))"

definition NewWriteEvent ::
    "'g Manager option \<Rightarrow> string \<Rightarrow> string \<Rightarrow> Relationship list \<Rightarrow> ('g, OutboxEventModel option) opE" where
  "NewWriteEvent m aggregateType aggregateID rels =
     (if rels = [] then okE None
      else bindE (newEvent m aggregateType aggregateID
             (empty_payload\<lparr>pl_Operation := OperationWrite, pl_Relationships := rels\<rparr>)) (\<lambda>ev. okE (Some ev)))"

definition NewDeleteEvent ::
    "'g Manager option \<Rightarrow> string \<Rightarrow> string \<Rightarrow> RelationshipFilter \<Rightarrow> Relationship list
     \<Rightarrow> ('g, OutboxEventModel option) opE" where
  "NewDeleteEvent m aggregateType aggregateID flt rels =
     bindE (newEvent m aggregateType aggregateID
       (empty_payload\<lparr>pl_Operation := OperationDelete, pl_Filter := flt, pl_Relationships := rels\<rparr>))
       (\<lambda>ev. okE (Some ev))"

definition NewBatchDeleteEvent ::
    "'g Manager option \<Rightarrow> string \<Rightarrow> string \<Rightarrow> RelationshipFilter list \<Rightarrow> Relationship list
     \<Rightarrow> ('g, OutboxEventModel option) opE" where
  "NewBatchDeleteEvent m aggregateType aggregateID filters rels =
     bindE (newEvent m aggregateType aggregateID
       (empty_payload\<lparr>pl_Operation := OperationDelete, pl_Filters := filters, pl_Relationships := rels\<rparr>))
       (\<lambda>ev. okE (Some ev))"

definition NewReplaceEvent ::
    "'g Manager option \<Rightarrow> string \<Rightarrow> string \<Rightarrow> Relationship list \<Rightarrow> Relationship list
     \<Rightarrow> ('g, OutboxEventModel option) opE" where
  "NewReplaceEvent m aggregateType aggregateID previous desired =
     bindE (newEvent m aggregateType aggregateID
       (empty_payload\<lparr>pl_Operation := OperationReplace, pl_PreviousRelationships := previous,
          pl_Relationships := desired\<rparr>))
       (\<lambda>ev. okE (Some ev))"

subsection \<open>Failures\<close>

text \<open>
  \<open>markFailed\<close>: the callers drop its error.  \<open>next_run_at\<close> is passed as a \<open>time.Time\<close>.
\<close>

definition markFailed :: "'g Manager option \<Rightarrow> string \<Rightarrow> err \<Rightarrow> ('g, unit) opE" where
  "markFailed m eventID er =
     (case m of
        None \<Rightarrow> okE ()
      | Some mg \<Rightarrow>
          (case mg_repo mg of
             None \<Rightarrow> okE ()
           | Some repo \<Rightarrow>
               bind_io (or_IncrementOutboxRetry repo eventID) (\<lambda>r.
               case r of
                 Inl _ \<Rightarrow>
                   bind_io now_io (\<lambda>now.
                   or_UpdateOutboxEvent repo eventID
                     [(''status'', ColString StatusFailed), (''last_error'', ColString (err_text er)),
                      (''next_run_at'', ColTime (now + minute))])
               | Inr updated \<Rightarrow>
                   bind_io now_io (\<lambda>now.
                   let dead = (case updated of None \<Rightarrow> False | Some u \<Rightarrow> ev_RetryCount u \<ge> MaxOutboxRetries) in
                   or_UpdateOutboxEvent repo eventID
                     [(''status'', ColString (if dead then StatusDead else StatusFailed)),
                      (''last_error'', ColString (err_text er)),
                      (''next_run_at'', ColTime (if dead then zero_time else now + minute))]))))"

definition fail_and_mark ::
    "'g Manager option \<Rightarrow> string \<Rightarrow> WriteResult \<Rightarrow> err \<Rightarrow> 'g wr_op" where
  "fail_and_mark m eventID wr er = bind_io (markFailed m eventID er) (\<lambda>_. ret (wr, Some er))"

definition load :: "'g Manager option \<Rightarrow> string \<Rightarrow> ('g, OutboxEventModel \<times> Payload) opE" where
  "load m eventID =
     (case m of
        None \<Rightarrow> failE not_configured
      | Some mg \<Rightarrow>
          (case mg_repo mg of
             None \<Rightarrow> failE not_configured
           | Some repo \<Rightarrow>
               if mg_writer mg = None then failE not_configured
               else bindE (or_GetOutboxEvent repo (TrimSpace eventID)) (\<lambda>event.
                    bindE (liftE (mg_unmarshal mg (ev_PayloadJSON event))) (\<lambda>payload.
                    okE (event, payload)))))"

subsection \<open>Projecting one payload\<close>

definition filter_of :: "Relationship \<Rightarrow> RelationshipFilter" where
  "filter_of rel = \<lparr>f_ResourceType = ob_Type (rel_Resource rel), f_ResourceID = ob_ID (rel_Resource rel),
     f_Relation = rel_Relation rel, f_SubjectType = su_Type (rel_Subject rel),
     f_SubjectID = su_ID (rel_Subject rel), f_SubjectRel = su_Relation (rel_Subject rel)\<rparr>"

definition relationshipFilters :: "Relationship list \<Rightarrow> RelationshipFilter list" where
  "relationshipFilters rels = map filter_of rels"

definition add_deleted :: "WriteResult \<Rightarrow> WriteResult \<Rightarrow> WriteResult" where
  "add_deleted out part = out\<lparr>wr_Deleted := wr_Deleted out + wr_Deleted part,
     wr_Token := (if wr_Token part \<noteq> [] then wr_Token part else wr_Token out)\<rparr>"

definition add_written :: "WriteResult \<Rightarrow> WriteResult \<Rightarrow> WriteResult" where
  "add_written out part = out\<lparr>wr_Written := wr_Written out + wr_Written part,
     wr_Token := (if wr_Token part \<noteq> [] then wr_Token part else wr_Token out)\<rparr>"

primrec delete_from ::
    "'g store \<Rightarrow> WriteResult \<Rightarrow> RelationshipFilter list \<Rightarrow> 'g \<Rightarrow> (WriteResult \<times> err option) \<times> 'g" where
  "delete_from s out [] g = ((out, None), g)"
| "delete_from s out (f # fs) g =
     (case st_delete s f g of ((part, er), g') \<Rightarrow>
        (case er of
           Some x \<Rightarrow> ((add_deleted out part, Some x), g')
         | None \<Rightarrow> delete_from s (add_deleted out part) fs g'))"

definition deleteRelationships ::
    "'g store \<Rightarrow> RelationshipFilter list \<Rightarrow> 'g \<Rightarrow> (WriteResult \<times> err option) \<times> 'g" where
  "deleteRelationships s filters = delete_from s no_result filters"

text \<open>Delete the tuples of one list, then write those of another, as both replacements do.\<close>

definition swap_tuples ::
    "'g store \<Rightarrow> Relationship list \<Rightarrow> Relationship list \<Rightarrow> 'g \<Rightarrow> (WriteResult \<times> err option) \<times> 'g" where
  "swap_tuples s old new g =
     (case deleteRelationships s (relationshipFilters old) g of ((wr, er), g') \<Rightarrow>
        if er = None \<and> new \<noteq> []
        then (case st_write s new g' of ((part, er'), g'') \<Rightarrow> ((add_written wr part, er'), g''))
        else ((wr, er), g'))"

definition project_payload ::
    "'g store \<Rightarrow> Payload \<Rightarrow> 'g \<Rightarrow> (WriteResult \<times> err option) \<times> 'g" where
  "project_payload s p g =
     (if pl_Operation p = OperationWrite then st_write s (pl_Relationships p) g
      else if pl_Operation p = OperationDelete
      then deleteRelationships s (if pl_Filters p = [] then [pl_Filter p] else pl_Filters p) g
      else if pl_Operation p = OperationReplace
      then swap_tuples s (pl_PreviousRelationships p) (pl_Relationships p) g
      else ((no_result, Some (ErrNew (''unsupported projection operation: '' @ pl_Operation p))), g))"

definition undo_payload ::
    "'g store \<Rightarrow> Payload \<Rightarrow> 'g \<Rightarrow> (WriteResult \<times> err option) \<times> 'g" where
  "undo_payload s p g =
     (if pl_Operation p = OperationWrite
      then deleteRelationships s (relationshipFilters (pl_Relationships p)) g
      else if pl_Operation p = OperationDelete then st_write s (pl_Relationships p) g
      else swap_tuples s (pl_Relationships p) (pl_PreviousRelationships p) g)"

subsection \<open>The manager\<close>

definition ApplyEvent :: "'g Manager option \<Rightarrow> string \<Rightarrow> 'g wr_op" where
  "ApplyEvent m eventID =
     bind_io (load m eventID) (\<lambda>loaded.
     case (loaded, m) of
       (Inr (event, payload), Some mg) \<Rightarrow>
         (case (mg_repo mg, mg_writer mg) of
            (Some repo, Some s) \<Rightarrow>
              if ev_Status event = StatusSynced then ret (no_result, None)
              else bind_io (or_UpdateOutboxEvent repo (ev_ID event) [(''status'', ColString StatusProjecting)])
                (\<lambda>r. case r of Inl er \<Rightarrow> ret (no_result, Some er)
                 | Inr _ \<Rightarrow>
                     bind_io (on_graph (project_payload s payload)) (\<lambda>(wr, er).
                     case er of
                       Some x \<Rightarrow> fail_and_mark m (ev_ID event) wr x
                     | None \<Rightarrow>
                         bind_io (or_UpdateOutboxEvent repo (ev_ID event)
                           [(''status'', ColString StatusSynced), (''last_error'', ColString []),
                            (''retry_count'', ColInt (ev_RetryCount event)), (''next_run_at'', ColNil),
                            (''payload_json'', ColString (ev_PayloadJSON event)),
                            (''aggregate_type'', ColString (ev_AggregateType event))])
                           (\<lambda>r. ret (wr, case r of Inl x \<Rightarrow> Some x | Inr _ \<Rightarrow> None))))
          | _ \<Rightarrow> ret (no_result, Some not_configured))
     | (Inl er, _) \<Rightarrow> ret (no_result, Some er)
     | (Inr _, None) \<Rightarrow> ret (no_result, Some not_configured))"

text \<open>The guards of \<open>load\<close> make the last two cases of the inner matches unreachable.\<close>

definition CompensateEvent :: "'g Manager option \<Rightarrow> string \<Rightarrow> 'g wr_op" where
  "CompensateEvent m eventID =
     bind_io (load m eventID) (\<lambda>loaded.
     case (loaded, m) of
       (Inr (event, payload), Some mg) \<Rightarrow>
         (case (mg_repo mg, mg_writer mg) of
            (Some repo, Some s) \<Rightarrow>
              if pl_Operation payload \<notin> {OperationWrite, OperationDelete, OperationReplace}
              then ret (no_result, Some (ErrNew (''unsupported projection operation: '' @ pl_Operation payload)))
              else
                bind_io (on_graph (undo_payload s payload)) (\<lambda>(wr, er).
                case er of
                  Some x \<Rightarrow> fail_and_mark m eventID wr x
                | None \<Rightarrow>
                    if pl_Operation payload = OperationDelete then ret (wr, None)
                    else bind_io (or_UpdateOutboxEvent repo eventID [(''status'', ColString StatusArchived)])
                           (\<lambda>_. ret (wr, None)))
          | _ \<Rightarrow> ret (no_result, Some not_configured))
     | (Inl er, _) \<Rightarrow> ret (no_result, Some er)
     | (Inr _, None) \<Rightarrow> ret (no_result, Some not_configured))"

definition projection_saga :: "'g dtm \<Rightarrow> string \<Rightarrow> string \<Rightarrow> Saga" where
  "projection_saga d gid eventID = \<lparr>sg_GID = gid, sg_Topic = TopicAuthzProjection,
     sg_Branch = ''project-authz'', sg_Action = dtm_BranchURL d ''iam/projection/apply'',
     sg_Compensate = dtm_BranchURL d ''iam/projection/compensate'', sg_EventID = eventID\<rparr>"

definition dtm_enabled :: "'g dtm option \<Rightarrow> ('g, 'g dtm option) op" where
  "dtm_enabled d =
     (case d of None \<Rightarrow> ret None
      | Some x \<Rightarrow> asks (\<lambda>e w. if dtm_Enabled x (graph w) then Some x else None))"

definition Dispatch :: "'g Manager option \<Rightarrow> OutboxEventModel option \<Rightarrow> 'g wr_op" where
  "Dispatch m event =
     (case event of
        None \<Rightarrow> ret (no_result, None)
      | Some ev \<Rightarrow>
          (case m of
             None \<Rightarrow> ret (no_result, Some not_configured)
           | Some mg \<Rightarrow>
               if mg_writer mg = None then ret (no_result, Some not_configured)
               else bind_io (dtm_enabled (mg_dtm mg)) (\<lambda>d.
                 case d of
                   None \<Rightarrow> ApplyEvent m (ev_ID ev)
                 | Some d \<Rightarrow>
                     bind_io (on_graph (dtm_NewGID d)) (\<lambda>r.
                     case r of
                       Inl er \<Rightarrow> fail_and_mark m (ev_ID ev) no_result er
                     | Inr gid \<Rightarrow>
                         bind_io (on_graph (dtm_SubmitSaga d (projection_saga d gid (ev_ID ev)))) (\<lambda>r.
                         case r of
                           Inl er \<Rightarrow> fail_and_mark m (ev_ID ev) no_result er
                         | Inr _ \<Rightarrow> ret (no_result, None))))))"

text \<open>One pass of the retry worker: the number of events dispatched without an error.\<close>

definition retry_one :: "'g Manager option \<Rightarrow> OutboxEventModel \<Rightarrow> int \<Rightarrow> ('g, int) op" where
  "retry_one m event processed =
     bind_io (Dispatch m (Some event)) (\<lambda>(wr, er).
     case er of
       Some x \<Rightarrow> bind_io (markFailed m (ev_ID event) x) (\<lambda>_. ret processed)
     | None \<Rightarrow> ret (processed + 1))"

definition RetryOnce :: "'g Manager option \<Rightarrow> int \<Rightarrow> ('g, int) opE" where
  "RetryOnce m limit =
     (case m of
        None \<Rightarrow> okE 0
      | Some mg \<Rightarrow>
          (case mg_repo mg of
             None \<Rightarrow> okE 0
           | Some repo \<Rightarrow>
               let limit = (if limit \<le> 0 \<or> limit > 200 then 50 else limit) in
               bindE (or_ListOutboxEventsForRetry repo limit) (\<lambda>evs.
               bind_io (fold_io (retry_one m) evs 0) okE)))"

end
