(* ===== verification/ProjectionLaws.thy ===== *)
theory ProjectionLaws
  imports Projection
begin

text \<open>
  What the projection manager guarantees.  \<open>projected\<close> is the abstract effect of a payload on the
  set of tuples and \<open>project_payload\<close> implements it on every store with the documented behaviour
  (\<open>tuple_store\<close>).  The locale \<open>outbox\<close> states what the manager needs of the repository; the life
  cycle of an event is proved inside it and read off for the repository of the program through
  its interpretation.
\<close>

subsection \<open>The effect of a payload on the tuples\<close>

abbreviation keys :: "Relationship list \<Rightarrow> tuple set" where "keys rels \<equiv> rel_key ` set rels"

definition swapped :: "Relationship list \<Rightarrow> Relationship list \<Rightarrow> tuple set \<Rightarrow> tuple set \<Rightarrow> bool" where
  "swapped old new A B \<longleftrightarrow>
     keys new \<subseteq> B \<and> keys old \<inter> B \<subseteq> keys new \<and> B \<subseteq> A \<union> keys new
     \<and> (\<forall>t \<in> A. (\<forall>r \<in> set old. \<not> wide (filter_of r) t) \<longrightarrow> t \<in> B)"

definition deleted :: "RelationshipFilter list \<Rightarrow> tuple set \<Rightarrow> tuple set \<Rightarrow> bool" where
  "deleted fs A B \<longleftrightarrow>
     B \<subseteq> A \<and> (\<forall>t \<in> B. \<forall>f \<in> set fs. \<not> narrow f t)
     \<and> (\<forall>t \<in> A. (\<forall>f \<in> set fs. \<not> wide f t) \<longrightarrow> t \<in> B)"

definition projected :: "Payload \<Rightarrow> tuple set \<Rightarrow> tuple set \<Rightarrow> bool" where
  "projected p A B \<longleftrightarrow>
     (if pl_Operation p = OperationWrite then B = A \<union> keys (pl_Relationships p)
      else if pl_Operation p = OperationDelete
      then deleted (if pl_Filters p = [] then [pl_Filter p] else pl_Filters p) A B
      else pl_Operation p = OperationReplace
        \<and> swapped (pl_PreviousRelationships p) (pl_Relationships p) A B)"

lemma narrow_filter_of [simp]: "narrow (filter_of r) (rel_key r)"
  by (auto simp: narrow_def filter_of_def rel_key_def field_matches_def)

lemma store_write_ok:
  "tuple_store S T \<Longrightarrow> st_write S rels g = ((wr, None), g') \<Longrightarrow> T g' = T g \<union> keys rels"
  by (fastforce simp: tuple_store_def store_writes_def)

lemma store_write_fail:
  "tuple_store S T \<Longrightarrow> st_write S rels g = ((wr, Some er), g') \<Longrightarrow> T g' = T g"
  by (fastforce simp: tuple_store_def store_writes_def)

lemma store_delete_kept:
  "tuple_store S T \<Longrightarrow> st_delete S f g = ((wr, er), g') \<Longrightarrow> t \<in> T g \<Longrightarrow> \<not> wide f t \<Longrightarrow> t \<in> T g'"
  unfolding tuple_store_def store_deletes_def by blast

lemma store_delete_shrinks:
  "tuple_store S T \<Longrightarrow> st_delete S f g = ((wr, er), g') \<Longrightarrow> T g' \<subseteq> T g"
  unfolding tuple_store_def store_deletes_def by blast

lemma store_delete_gone:
  "tuple_store S T \<Longrightarrow> st_delete S f g = ((wr, None), g') \<Longrightarrow> t \<in> T g' \<Longrightarrow> \<not> narrow f t"
  unfolding tuple_store_def store_deletes_def by blast

lemma delete_from_frame:
  assumes "tuple_store S T" "delete_from S out fs g = ((wr, er), g')"
  shows "T g' \<subseteq> T g \<and> (\<forall>t \<in> T g. (\<forall>f \<in> set fs. \<not> wide f t) \<longrightarrow> t \<in> T g')"
  using assms(2)
proof (induction fs arbitrary: out g)
  case (Cons f fs)
  obtain part er1 g1 where d: "st_delete S f g = ((part, er1), g1)" by (metis prod_cases3 surj_pair)
  note fr = store_delete_kept[OF assms(1) d] store_delete_shrinks[OF assms(1) d]
  show ?case
  proof (cases er1)
    case None
    then have "delete_from S (add_deleted out part) fs g1 = ((wr, er), g')" using Cons.prems d by simp
    from Cons.IH[OF this] fr show ?thesis by auto
  next
    case (Some x)
    with Cons.prems d fr show ?thesis by auto
  qed
qed simp

lemma delete_from_gone:
  assumes "tuple_store S T" "delete_from S out fs g = ((wr, None), g')" "f \<in> set fs" "t \<in> T g'"
  shows "\<not> narrow f t"
  using assms(2-4)
proof (induction fs arbitrary: out g)
  case (Cons f1 fs)
  obtain part er1 g1 where d: "st_delete S f1 g = ((part, er1), g1)" by (metis prod_cases3 surj_pair)
  with Cons.prems have n: "er1 = None" by (cases er1) auto
  with Cons.prems d have r: "delete_from S (add_deleted out part) fs g1 = ((wr, None), g')" by simp
  have "T g' \<subseteq> T g1" using delete_from_frame[OF assms(1) r] by simp
  then have "\<not> narrow f1 t" using store_delete_gone[OF assms(1)] d n Cons.prems by blast
  then show ?case using Cons.IH[OF r] Cons.prems by auto
qed simp

lemma deleteRelationships_deleted:
  "tuple_store S T \<Longrightarrow> deleteRelationships S fs g = ((wr, None), g') \<Longrightarrow> deleted fs (T g) (T g')"
  unfolding deleteRelationships_def deleted_def
  using delete_from_frame[of S T no_result fs g wr None g'] delete_from_gone[of S T no_result fs g wr g']
  by blast

lemma delete_from_untyped:
  assumes "refuses_untyped S" "x \<in> set fs" "f_ResourceType x = []"
  shows "snd (fst (delete_from S out fs g)) \<noteq> None"
  using assms(2)
proof (induction fs arbitrary: out g)
  case (Cons y ys)
  obtain part er g' where d: "st_delete S y g = ((part, er), g')" by (metis prod_cases3 surj_pair)
  show ?case
  proof (cases er)
    case None
    with assms(1) d have "f_ResourceType y \<noteq> []" unfolding refuses_untyped_def by (metis fst_conv snd_conv)
    then show ?thesis using Cons assms(3) d None by auto
  qed (simp add: d)
qed simp

lemma swap_tuples_swapped:
  assumes S: "tuple_store S T" and run: "swap_tuples S old new g = ((wr, None), g')"
  shows "swapped old new (T g) (T g')"
proof -
  obtain wr1 er1 g1 where d: "deleteRelationships S (relationshipFilters old) g = ((wr1, er1), g1)"
    by (metis prod_cases3 surj_pair)
  have n: "er1 = None" using run d by (auto simp: swap_tuples_def split: prod.splits if_splits)
  have T: "T g' = T g1 \<union> keys new"
  proof (cases "new = []")
    case True
    then show ?thesis using run d n by (simp add: swap_tuples_def)
  next
    case False
    then obtain part where "st_write S new g1 = ((part, None), g')"
      using run d n by (auto simp: swap_tuples_def split: prod.splits)
    then show ?thesis by (rule store_write_ok[OF S])
  qed
  have "deleted (relationshipFilters old) (T g) (T g1)"
    using deleteRelationships_deleted[OF S] d n by simp
  then have D: "T g1 \<subseteq> T g" "\<forall>t \<in> T g1. \<forall>r \<in> set old. \<not> narrow (filter_of r) t"
    "\<forall>t \<in> T g. (\<forall>r \<in> set old. \<not> wide (filter_of r) t) \<longrightarrow> t \<in> T g1"
    by (auto simp: deleted_def relationshipFilters_def)
  have "keys old \<inter> T g1 = {}" using D(2) narrow_filter_of by blast
  then show ?thesis using D T unfolding swapped_def by blast
qed

lemma project_payload_projected:
  assumes "tuple_store S T" "project_payload S p g = ((wr, None), g')"
  shows "projected p (T g) (T g')"
  using assms
  by (auto simp: project_payload_def projected_def split: if_splits
      simp del: image_Un dest: store_write_ok intro: deleteRelationships_deleted swap_tuples_swapped)

lemma undo_write:
  assumes S: "tuple_store S T" and op: "pl_Operation p = OperationWrite"
    and undo: "undo_payload S p g = ((wr, None), g')"
  shows "T g' \<inter> keys (pl_Relationships p) = {}
    \<and> (\<forall>t \<in> T g. (\<forall>r \<in> set (pl_Relationships p). \<not> wide (filter_of r) t) \<longrightarrow> t \<in> T g')"
proof -
  have "deleted (relationshipFilters (pl_Relationships p)) (T g) (T g')"
    using undo op deleteRelationships_deleted[OF S] by (simp add: undo_payload_def)
  then show ?thesis using narrow_filter_of by (fastforce simp: deleted_def relationshipFilters_def)
qed

subsection \<open>Columns\<close>

lemma columnToField_used [simp]:
  "columnToField ''status'' = ''Status''" "columnToField ''last_error'' = ''LastError''"
  "columnToField ''next_run_at'' = ''NextRunAt''" "columnToField ''retry_count'' = ''RetryCount''"
  "columnToField ''payload_json'' = ''PayloadJson''" "columnToField ''aggregate_type'' = ''AggregateType''"
  by (simp_all add: columnToField_def upper_char_def byte_def char_of_def bit_0)

lemma apply_column_used [simp]:
  "apply_column (''status'', ColString s) v = v\<lparr>ev_Status := s\<rparr>"
  "apply_column (''last_error'', ColString s) v = v\<lparr>ev_LastError := s\<rparr>"
  "apply_column (''next_run_at'', ColTime t) v = v"
  "apply_column (''next_run_at'', ColNil) v = v\<lparr>ev_NextRunAt := None\<rparr>"
  "apply_column (''retry_count'', ColInt n) v = v\<lparr>ev_RetryCount := n\<rparr>"
  "apply_column (''payload_json'', ColString s) v = v"
  "apply_column (''aggregate_type'', ColString s) v = v\<lparr>ev_AggregateType := s\<rparr>"
  by (simp_all add: apply_column_def Let_def string_field_def time_ptr_field_def int_field_def)

lemma applyColumns_Cons [simp]: "applyColumns v (c # cs) = applyColumns (apply_column c v) cs"
  by (simp add: applyColumns_def)

lemma applyColumns_Nil [simp]: "applyColumns v [] = v"
  by (simp add: applyColumns_def)

subsection \<open>The contract of the repository\<close>

text \<open>A store that takes the payload in every state, and the event after one more failure.\<close>

definition accepts :: "'g store \<Rightarrow> Payload \<Rightarrow> bool" where
  "accepts S p \<longleftrightarrow> (\<forall>g. \<exists>wr g'. project_payload S p g = ((wr, None), g'))"

definition after_failure :: "err \<Rightarrow> gotime \<Rightarrow> OutboxEventModel \<Rightarrow> OutboxEventModel" where
  "after_failure er t v = v\<lparr>
     ev_RetryCount := wrap64 (ev_RetryCount v + 1),
     ev_Status := (if wrap64 (ev_RetryCount v + 1) \<ge> MaxOutboxRetries then StatusDead else StatusFailed),
     ev_LastError := err_text er, ev_UpdatedAt := t\<rparr>"

text \<open>
  The events as the manager sees them (\<open>view\<close>), on a repository that does not fail by itself:
  reading returns the stored event, an update merges columns into it and stamps it, an increment
  adds one to its retry count; nothing else happens to the events or the tuples.
\<close>

locale outbox =
  fixes R :: "'g outbox_repo" and view :: "'g world \<Rightarrow> string \<Rightarrow> OutboxEventModel option"
  assumes get_some: "view w i = Some v \<Longrightarrow> or_GetOutboxEvent R i e w = (Inr v, w)"
    and upd_some: "view w i = Some v \<Longrightarrow> \<exists>w' t. or_UpdateOutboxEvent R i cols e w = (Inr (), w')
      \<and> view w' = (view w)(i := Some ((applyColumns v cols)\<lparr>ev_UpdatedAt := t\<rparr>)) \<and> graph w' = graph w"
    and inc_some: "view w i = Some v \<Longrightarrow> \<exists>w' t. or_IncrementOutboxRetry R i e w
        = (Inr (Some (v\<lparr>ev_RetryCount := wrap64 (ev_RetryCount v + 1), ev_UpdatedAt := t\<rparr>)), w')
      \<and> view w' = (view w)(i := Some (v\<lparr>ev_RetryCount := wrap64 (ev_RetryCount v + 1), ev_UpdatedAt := t\<rparr>))
      \<and> graph w' = graph w"
    and view_graph: "view (w\<lparr>graph := g\<rparr>) = view w"
    and view_tick: "view (tick w) = view w"
begin

definition configured :: "'g Manager \<Rightarrow> 'g store \<Rightarrow> bool" where
  "configured mg S \<longleftrightarrow> mg_repo mg = Some R \<and> mg_writer mg = Some S"

definition loads :: "'g Manager \<Rightarrow> 'g world \<Rightarrow> string \<Rightarrow> OutboxEventModel \<Rightarrow> Payload \<Rightarrow> bool" where
  "loads mg w i v p \<longleftrightarrow> view w i = Some v \<and> ev_ID v = i \<and> TrimSpace i = i
     \<and> mg_unmarshal mg (ev_PayloadJSON v) = Inr p"

lemma load_run:
  "configured mg S \<Longrightarrow> loads mg w i v p \<Longrightarrow> load (Some mg) i e w = (Inr (v, p), w)"
  by (simp add: load_def configured_def loads_def get_some)

lemma mark_run:
  assumes c: "configured mg S" and v: "view w i = Some v"
  shows "\<exists>w' t. markFailed (Some mg) i er e w = (Inr (), w') \<and> graph w' = graph w
    \<and> view w' = (view w)(i := Some (after_failure er t v))"
proof -
  let ?v = "\<lambda>t. v\<lparr>ev_RetryCount := wrap64 (ev_RetryCount v + 1), ev_UpdatedAt := t\<rparr>"
  obtain w1 t1 where i1: "or_IncrementOutboxRetry R i e w = (Inr (Some (?v t1)), w1)"
    "view w1 = (view w)(i := Some (?v t1))" "graph w1 = graph w"
    using inc_some[OF v] by blast
  let ?dead = "wrap64 (ev_RetryCount v + 1) \<ge> MaxOutboxRetries"
  let ?now = "clock e (ticks w1)"
  let ?cols = "[(''status'', ColString (if ?dead then StatusDead else StatusFailed)),
     (''last_error'', ColString (err_text er)), (''next_run_at'', ColTime (if ?dead then zero_time else ?now + minute))]"
  have "view (tick w1) i = Some (?v t1)" using i1(2) by (simp add: view_tick)
  from upd_some[OF this, of ?cols e] obtain w2 t2 where u: "or_UpdateOutboxEvent R i ?cols e (tick w1) = (Inr (), w2)"
    "view w2 = (view (tick w1))(i := Some ((applyColumns (?v t1) ?cols)\<lparr>ev_UpdatedAt := t2\<rparr>))"
    "graph w2 = graph (tick w1)"
    by blast
  have "markFailed (Some mg) i er e w = (Inr (), w2)"
    using c i1(1) u(1) by (simp add: markFailed_def configured_def bind_io_def Let_def)
  moreover have "view w2 = (view w)(i := Some (v\<lparr>ev_RetryCount := wrap64 (ev_RetryCount v + 1),
      ev_Status := (if ?dead then StatusDead else StatusFailed), ev_LastError := err_text er, ev_UpdatedAt := t2\<rparr>))"
    using u(2) i1(2) by (simp add: view_tick)
  ultimately show ?thesis using u(3) i1(3) by (auto simp: after_failure_def)
qed

lemma fail_run:
  assumes "configured mg S" "view w i = Some v"
  shows "\<exists>w' t. fail_and_mark (Some mg) i wr er e w = ((wr, Some er), w') \<and> graph w' = graph w
    \<and> view w' = (view w)(i := Some (after_failure er t v))"
proof -
  obtain w' t where "markFailed (Some mg) i er e w = (Inr (), w')" "graph w' = graph w"
    "view w' = (view w)(i := Some (after_failure er t v))"
    using mark_run[OF assms] by blast
  then show ?thesis by (auto simp: fail_and_mark_def bind_io_def)
qed

lemma apply_synced:
  assumes "configured mg S" "loads mg w i v p" "ev_Status v = StatusSynced"
  shows "ApplyEvent (Some mg) i e w = ((no_result, None), w)"
  using assms load_run[OF assms(1,2)] by (simp add: ApplyEvent_def bind_io_def configured_def)

text \<open>The marking as in progress, common to both outcomes.\<close>

lemma apply_started:
  assumes c: "configured mg S" and l: "loads mg w i v p" and ns: "ev_Status v \<noteq> StatusSynced"
    and g: "project_payload S p (graph w) = ((wr, er), g')"
  obtains w1 t where "view w1 = (view w)(i := Some (v\<lparr>ev_Status := StatusProjecting, ev_UpdatedAt := t\<rparr>))"
    "graph w1 = g'"
    "ApplyEvent (Some mg) i e w = (case er of Some x \<Rightarrow> fail_and_mark (Some mg) i wr x e w1
       | None \<Rightarrow> bind_io (or_UpdateOutboxEvent R i
           [(''status'', ColString StatusSynced), (''last_error'', ColString []),
            (''retry_count'', ColInt (ev_RetryCount v)), (''next_run_at'', ColNil),
            (''payload_json'', ColString (ev_PayloadJSON v)),
            (''aggregate_type'', ColString (ev_AggregateType v))])
           (\<lambda>r. ret (wr, case r of Inl x \<Rightarrow> Some x | Inr _ \<Rightarrow> None)) e w1)"
proof -
  have v: "view w i = Some v" "ev_ID v = i" using l by (simp_all add: loads_def)
  obtain w0 t where u: "or_UpdateOutboxEvent R i [(''status'', ColString StatusProjecting)] e w = (Inr (), w0)"
    "view w0 = (view w)(i := Some (v\<lparr>ev_Status := StatusProjecting, ev_UpdatedAt := t\<rparr>))" "graph w0 = graph w"
    using upd_some[OF v(1), of "[(''status'', ColString StatusProjecting)]" e] by auto
  have pg: "project_payload S p (graph w0) = ((wr, er), g')" using g u(3) by simp
  show ?thesis
  proof (rule that[of "w0\<lparr>graph := g'\<rparr>" t])
    show "ApplyEvent (Some mg) i e w = (case er of Some x \<Rightarrow> fail_and_mark (Some mg) i wr x e (w0\<lparr>graph := g'\<rparr>)
       | None \<Rightarrow> bind_io (or_UpdateOutboxEvent R i
           [(''status'', ColString StatusSynced), (''last_error'', ColString []),
            (''retry_count'', ColInt (ev_RetryCount v)), (''next_run_at'', ColNil),
            (''payload_json'', ColString (ev_PayloadJSON v)),
            (''aggregate_type'', ColString (ev_AggregateType v))])
           (\<lambda>r. ret (wr, case r of Inl x \<Rightarrow> Some x | Inr _ \<Rightarrow> None)) e (w0\<lparr>graph := g'\<rparr>))"
      using load_run[OF c l, of e] c ns u(1) v(2) on_graph_run[where f = "project_payload S p" and e = e, OF pg]
      by (simp add: ApplyEvent_def bind_io_def configured_def split: option.splits)
  qed (use u in \<open>simp_all add: view_graph\<close>)
qed

lemma apply_ok:
  assumes c: "configured mg S" and l: "loads mg w i v p" and ns: "ev_Status v \<noteq> StatusSynced"
    and g: "project_payload S p (graph w) = ((wr, None), g')"
  shows "\<exists>w' t. ApplyEvent (Some mg) i e w = ((wr, None), w') \<and> graph w' = g'
    \<and> view w' = (view w)(i := Some (v\<lparr>ev_Status := StatusSynced, ev_LastError := [],
        ev_NextRunAt := None, ev_UpdatedAt := t\<rparr>))"
proof -
  obtain w1 t1 where w1: "view w1 = (view w)(i := Some (v\<lparr>ev_Status := StatusProjecting, ev_UpdatedAt := t1\<rparr>))"
    "graph w1 = g'"
    and run: "ApplyEvent (Some mg) i e w = bind_io (or_UpdateOutboxEvent R i
           [(''status'', ColString StatusSynced), (''last_error'', ColString []),
            (''retry_count'', ColInt (ev_RetryCount v)), (''next_run_at'', ColNil),
            (''payload_json'', ColString (ev_PayloadJSON v)),
            (''aggregate_type'', ColString (ev_AggregateType v))])
           (\<lambda>r. ret (wr, case r of Inl x \<Rightarrow> Some x | Inr _ \<Rightarrow> None)) e w1"
    by (rule apply_started[OF c l ns g, where e = e]) simp
  let ?cols = "[(''status'', ColString StatusSynced), (''last_error'', ColString []),
            (''retry_count'', ColInt (ev_RetryCount v)), (''next_run_at'', ColNil),
            (''payload_json'', ColString (ev_PayloadJSON v)),
            (''aggregate_type'', ColString (ev_AggregateType v))]"
  have "view w1 i = Some (v\<lparr>ev_Status := StatusProjecting, ev_UpdatedAt := t1\<rparr>)" using w1 by simp
  from upd_some[OF this, of ?cols e] obtain w2 t2 where
    "or_UpdateOutboxEvent R i ?cols e w1 = (Inr (), w2)" "graph w2 = graph w1"
    "view w2 = (view w1)(i := Some ((applyColumns (v\<lparr>ev_Status := StatusProjecting, ev_UpdatedAt := t1\<rparr>) ?cols)
       \<lparr>ev_UpdatedAt := t2\<rparr>))" by blast
  with w1 run show ?thesis by (auto simp: bind_io_def intro!: exI[of _ t2])
qed

lemma apply_fail:
  assumes c: "configured mg S" and l: "loads mg w i v p" and ns: "ev_Status v \<noteq> StatusSynced"
    and g: "project_payload S p (graph w) = ((wr, Some er), g')"
  shows "\<exists>w' t. ApplyEvent (Some mg) i e w = ((wr, Some er), w') \<and> graph w' = g'
    \<and> view w' = (view w)(i := Some (after_failure er t v))"
proof -
  obtain w1 t1 where w1: "view w1 = (view w)(i := Some (v\<lparr>ev_Status := StatusProjecting, ev_UpdatedAt := t1\<rparr>))"
    "graph w1 = g'" and run: "ApplyEvent (Some mg) i e w = fail_and_mark (Some mg) i wr er e w1"
    by (rule apply_started[OF c l ns g, where e = e]) simp
  have "view w1 i = Some (v\<lparr>ev_Status := StatusProjecting, ev_UpdatedAt := t1\<rparr>)" using w1 by simp
  from fail_run[OF c this, of wr er e] obtain w2 t2 where
    "fail_and_mark (Some mg) i wr er e w1 = ((wr, Some er), w2)" "graph w2 = graph w1"
    "view w2 = (view w1)(i := Some (after_failure er t2 (v\<lparr>ev_Status := StatusProjecting, ev_UpdatedAt := t1\<rparr>)))" by auto
  with w1 run show ?thesis by (auto simp: after_failure_def intro!: exI[of _ t2])
qed

lemma retry_fail:
  assumes c: "configured mg S" and d: "mg_dtm mg = None" and l: "loads mg w i v p"
    and ns: "ev_Status v \<noteq> StatusSynced" and g: "project_payload S p (graph w) = ((wr, Some er), g')"
  shows "\<exists>w' t1 t2. retry_one (Some mg) v n e w = (n, w') \<and> graph w' = g'
    \<and> view w' = (view w)(i := Some (after_failure er t2 (after_failure er t1 v)))"
proof -
  have i: "ev_ID v = i" using l by (simp add: loads_def)
  obtain w1 t1 where a: "ApplyEvent (Some mg) i e w = ((wr, Some er), w1)" "graph w1 = g'"
    "view w1 = (view w)(i := Some (after_failure er t1 v))"
    using apply_fail[OF c l ns g] by blast
  then have "view w1 i = Some (after_failure er t1 v)" by simp
  from mark_run[OF c this, of er e] obtain w2 t2 where
    "markFailed (Some mg) i er e w1 = (Inr (), w2)" "graph w2 = graph w1"
    "view w2 = (view w1)(i := Some (after_failure er t2 (after_failure er t1 v)))"
    by blast
  with a c d i have "retry_one (Some mg) v n e w = (n, w2)" "graph w2 = g'"
    "view w2 = (view w)(i := Some (after_failure er t2 (after_failure er t1 v)))"
    by (simp_all add: retry_one_def Dispatch_def dtm_enabled_def bind_io_def configured_def)
  then show ?thesis by blast
qed

lemma retry_all_ok:
  assumes c: "configured mg S" and d: "mg_dtm mg = None" and "distinct (map ev_ID vs)"
    and "\<forall>v \<in> set vs. ev_Status v \<noteq> StatusSynced \<and> (\<exists>p. loads mg w (ev_ID v) v p \<and> accepts S p)"
  shows "\<exists>w'. fold_io (retry_one (Some mg)) vs n e w = (n + int (length vs), w')
    \<and> (\<forall>v \<in> set vs. \<exists>v'. view w' (ev_ID v) = Some v' \<and> ev_Status v' = StatusSynced)
    \<and> (\<forall>j. j \<notin> ev_ID ` set vs \<longrightarrow> view w' j = view w j)"
  using assms(3-)
proof (induction vs arbitrary: n w)
  case (Cons v vs)
  then obtain p where l: "loads mg w (ev_ID v) v p" "accepts S p" and ns: "ev_Status v \<noteq> StatusSynced"
    by auto
  obtain wr g' where "project_payload S p (graph w) = ((wr, None), g')"
    using l(2) unfolding accepts_def by blast
  from apply_ok[OF c l(1) ns this, of e] obtain w1 v1 where a:
    "ApplyEvent (Some mg) (ev_ID v) e w = ((wr, None), w1)"
    "view w1 = (view w)(ev_ID v := Some v1)" "ev_Status v1 = StatusSynced"
    by fastforce
  have one: "retry_one (Some mg) v n e w = (n + 1, w1)"
    using a c d by (simp add: retry_one_def Dispatch_def dtm_enabled_def bind_io_def configured_def)
  have "\<forall>u \<in> set vs. ev_Status u \<noteq> StatusSynced \<and> (\<exists>p. loads mg w1 (ev_ID u) u p \<and> accepts S p)"
  proof
    fix u assume u: "u \<in> set vs"
    then have "ev_ID u \<noteq> ev_ID v" using Cons.prems(1) by (auto simp: image_iff)
    then have "view w1 (ev_ID u) = view w (ev_ID u)" using a(2) by simp
    moreover have "ev_Status u \<noteq> StatusSynced \<and> (\<exists>p. loads mg w (ev_ID u) u p \<and> accepts S p)"
      using Cons.prems(2) u by simp
    ultimately show "ev_Status u \<noteq> StatusSynced \<and> (\<exists>p. loads mg w1 (ev_ID u) u p \<and> accepts S p)"
      by (simp add: loads_def)
  qed
  with Cons.IH[of w1 "n + 1"] Cons.prems obtain w2 where w2:
    "fold_io (retry_one (Some mg)) vs (n + 1) e w1 = (n + 1 + int (length vs), w2)"
    "\<forall>v \<in> set vs. \<exists>v'. view w2 (ev_ID v) = Some v' \<and> ev_Status v' = StatusSynced"
    "\<forall>j. j \<notin> ev_ID ` set vs \<longrightarrow> view w2 j = view w1 j"
    by auto
  moreover have "ev_ID v \<notin> ev_ID ` set vs" using Cons.prems(1) by simp
  ultimately show ?case using one a by (auto simp: bind_io_def)
qed simp

lemma undo_run:
  assumes c: "configured mg S" and l: "loads mg w i v p"
    and op: "pl_Operation p \<in> {OperationWrite, OperationReplace}"
    and g: "undo_payload S p (graph w) = ((wr, None), g')"
  shows "\<exists>w' t. CompensateEvent (Some mg) i e w = ((wr, None), w') \<and> graph w' = g'
    \<and> view w' = (view w)(i := Some (v\<lparr>ev_Status := StatusArchived, ev_UpdatedAt := t\<rparr>))"
proof -
  have "view (w\<lparr>graph := g'\<rparr>) i = Some v" using l by (simp add: loads_def view_graph)
  from upd_some[OF this, of "[(''status'', ColString StatusArchived)]" e] obtain w2 t where
    "or_UpdateOutboxEvent R i [(''status'', ColString StatusArchived)] e (w\<lparr>graph := g'\<rparr>) = (Inr (), w2)"
    "view w2 = (view w)(i := Some (v\<lparr>ev_Status := StatusArchived, ev_UpdatedAt := t\<rparr>))" "graph w2 = g'"
    by (auto simp: view_graph)
  then show ?thesis
    using load_run[OF c l, of e] c op on_graph_run[where f = "undo_payload S p" and e = e, OF g]
    by (auto simp: CompensateEvent_def bind_io_def configured_def)
qed

end

interpretation mem: outbox memory_outbox "\<lambda>w i. get_key (events (db w)) i"
proof (unfold_locales, goal_cases)
  case (1 w i v e)
  then show ?case by (simp add: memory_outbox_def GetOutboxEvent_def bind_io_def)
next
  case (2 w i v cols e)
  then show ?case
    by (auto simp: memory_outbox_def UpdateOutboxEvent_def bind_io_def update_conv')
next
  case (3 w i v e)
  then show ?case
    by (auto simp: memory_outbox_def IncrementOutboxRetry_def bindE_def bind_io_def update_conv' Let_def)
qed simp_all


subsection \<open>The life of an event\<close>

lemma collect_until_set: "set (collect_until P n vs out) \<subseteq> set out \<union> {v \<in> set vs. P v}"
proof (induction vs arbitrary: out)
  case (Cons v vs)
  then show ?case using Cons[of "out @ [v]"] Cons[of out] by (auto simp: Let_def)
qed simp

lemma collect_until_distinct:
  "distinct (map f vs) \<Longrightarrow> distinct (map f out) \<Longrightarrow> f ` set vs \<inter> f ` set out = {} \<Longrightarrow>
   distinct (map f (collect_until P n vs out))"
  by (induction vs arbitrary: out) (auto simp: Let_def)

lemma collect_until_mono: "length out \<le> length (collect_until P n vs out)"
proof (induction vs arbitrary: out)
  case (Cons v vs)
  then show ?case using Cons[of "out @ [v]"] by (auto simp: Let_def)
qed simp

lemma collect_until_short:
  "int (length (collect_until P n vs out)) < n \<Longrightarrow> collect_until P n vs out = out @ filter P vs"
proof (induction vs arbitrary: out)
  case (Cons v vs)
  then show ?case using Cons.IH[of "out @ [v]"] Cons.IH[of out] by (simp add: Let_def split: if_splits)
qed simp

lemma collect_until_bound:
  "int (length out) < n \<Longrightarrow> int (length (collect_until P n vs out)) \<le> n"
  by (induction vs arbitrary: out) (auto simp: Let_def)

text \<open>An event as \<open>load\<close> finds it in the repository.\<close>

definition stored_event :: "'g Manager \<Rightarrow> 'g world \<Rightarrow> string \<Rightarrow> OutboxEventModel \<Rightarrow> Payload \<Rightarrow> bool" where
  "stored_event mg w i v p \<longleftrightarrow> get_key (events (db w)) i = Some v \<and> ev_ID v = i \<and> TrimSpace i = i
     \<and> mg_unmarshal mg (ev_PayloadJSON v) = Inr p"

definition on_memory :: "'g Manager \<Rightarrow> 'g store \<Rightarrow> bool" where
  "on_memory mg S \<longleftrightarrow> mg_repo mg = Some memory_outbox \<and> mg_writer mg = Some S"

lemma mem_loads: "stored_event mg w i v p \<longleftrightarrow> mem.loads mg w i v p"
  by (simp add: stored_event_def mem.loads_def)

lemma mem_configured: "on_memory mg S \<longleftrightarrow> mem.configured mg S"
  by (simp add: on_memory_def mem.configured_def)

lemma event_outcome:
  assumes "on_memory mg S" "tuple_store S T" "stored_event mg w i v p" "ev_Status v \<noteq> StatusSynced"
    and run: "ApplyEvent (Some mg) i e w = ((wr, r), w')"
  shows "\<exists>v'. get_key (events (db w')) = (get_key (events (db w)))(i := Some v')
    \<and> (case r of
         None \<Rightarrow> ev_Status v' = StatusSynced \<and> ev_LastError v' = [] \<and> projected p (T (graph w)) (T (graph w'))
       | Some er \<Rightarrow> ev_RetryCount v' = wrap64 (ev_RetryCount v + 1) \<and> ev_LastError v' = err_text er
           \<and> ev_Status v' = (if ev_RetryCount v' \<ge> MaxOutboxRetries then StatusDead else StatusFailed))"
proof -
  have c: "mem.configured mg S" and l: "mem.loads mg w i v p" using assms by (simp_all add: mem_configured mem_loads)
  obtain wr1 r1 g' where g: "project_payload S p (graph w) = ((wr1, r1), g')" by (metis prod_cases3 surj_pair)
  show ?thesis
  proof (cases r1)
    case None
    with g mem.apply_ok[OF c l assms(4), of wr1 g' e] run project_payload_projected[OF assms(2)]
    show ?thesis by fastforce
  next
    case (Some er)
    with g mem.apply_fail[OF c l assms(4), of wr1 er g' e] run show ?thesis
      by (fastforce simp: after_failure_def)
  qed
qed

text \<open>C7. Applying an event.  When an event that is not yet synced is applied, exactly one of two
  things has happened: no error is returned, the event is stored as synced without an error, and
  the relationship store has made the change its payload describes (the tuples written, deleted,
  or replaced); or an error is returned and the event is stored with its retry count one higher,
  the error as its last error, and the status failed, or dead once the retry budget is used up.
  Every other event is as before.\<close>

theorem apply_event_outcome:
  assumes "on_memory mg S" "tuple_store S T" "stored_event mg w i v p" "ev_Status v \<noteq> StatusSynced"
    and run: "ApplyEvent (Some mg) i e w = ((wr, r), w')"
  shows "\<exists>v'. get_key (events (db w')) = (get_key (events (db w)))(i := Some v')
    \<and> (case r of
         None \<Rightarrow> ev_Status v' = StatusSynced \<and> ev_LastError v' = [] \<and> projected p (T (graph w)) (T (graph w'))
       | Some er \<Rightarrow> ev_RetryCount v' = wrap64 (ev_RetryCount v + 1) \<and> ev_LastError v' = err_text er
           \<and> ev_Status v' = (if ev_RetryCount v' \<ge> MaxOutboxRetries then StatusDead else StatusFailed))"
  using assms by (rule event_outcome)

definition sample_codec :: "Payload list \<Rightarrow> codec" where
  "sample_codec ps =
     ((\<lambda>p. case find (\<lambda>(n, q). q = p) (enumerate 0 ps) of None \<Rightarrow> Inl (ErrExternal ''unknown'')
        | Some (n, q) \<Rightarrow> Inr (Itoa (int n))),
      (\<lambda>s. case find (\<lambda>(n, q). Itoa (int n) = s) (enumerate 0 ps) of None \<Rightarrow> Inl (ErrExternal ''bad json'')
        | Some (n, q) \<Rightarrow> Inr q))"

definition sample_rel :: "string \<Rightarrow> string \<Rightarrow> string \<Rightarrow> Relationship" where
  "sample_rel i relation u = \<lparr>rel_Resource = Object ''skill'' i, rel_Relation = relation,
     rel_Subject = Subject ''user'' u [], rel_ExpiresAt = 0\<rparr>"

definition write_payload :: Payload where
  "write_payload = empty_payload\<lparr>pl_Operation := OperationWrite,
     pl_Relationships := [sample_rel ''s1'' ''viewer'' ''u1'']\<rparr>"

definition delete_payload :: Payload where
  "delete_payload = empty_payload\<lparr>pl_Operation := OperationDelete,
     pl_Filter := filter_of (sample_rel ''s1'' ''viewer'' ''u1''),
     pl_Relationships := [sample_rel ''s1'' ''viewer'' ''u1'']\<rparr>"

definition sample_manager :: "string list \<Rightarrow> (Relationship list) Manager" where
  "sample_manager down = \<lparr>mg_repo = Some memory_outbox, mg_writer = Some (set_store False down),
     mg_dtm = None, mg_marshal = fst (sample_codec [write_payload, delete_payload]),
     mg_unmarshal = (\<lambda>s. if s = ''w'' then Inr write_payload else if s = ''d'' then Inr delete_payload
        else Inl (ErrExternal ''bad json''))\<rparr>"

definition sample_event :: "string \<Rightarrow> string \<Rightarrow> string \<Rightarrow> int \<Rightarrow> OutboxEventModel" where
  "sample_event i body status n = \<lparr>ev_ID = i, ev_OrgID = [], ev_Topic = TopicAuthzProjection,
     ev_AggregateType = ''grant'', ev_AggregateID = ''g1'', ev_PayloadJSON = body, ev_Status = status,
     ev_RetryCount = n, ev_NextRunAt = None, ev_LastError = [], ev_CreatedAt = 1, ev_UpdatedAt = 1\<rparr>"

definition event_world :: "OutboxEventModel list \<Rightarrow> Relationship list \<Rightarrow> (Relationship list) world" where
  "event_world evs g = (empty_world g)\<lparr>db := saveEvents (map Some evs) NewMemoryControlPlaneRepository\<rparr>"


lemmas event_world_simps = event_world_def empty_world_def NewMemoryControlPlaneRepository_def
  saveEvents_def saveEvent_def sample_event_def Let_def

lemma sample_on_memory [simp]: "on_memory (sample_manager down) (set_store False down)"
  by (simp add: on_memory_def sample_manager_def)

lemma TrimSpace_outbox1 [simp]: "TrimSpace ''o1'' = ''o1''"
  by (rule TrimSpace_visible) (simp_all add: visible_def)

lemma stored_w: "stored_event (sample_manager down) (event_world [sample_event ''o1'' ''w'' st n] g) ''o1''
    (sample_event ''o1'' ''w'' st n) write_payload" if "st \<noteq> []"
  using that by (simp add: stored_event_def sample_manager_def event_world_simps)

lemma stored_d: "stored_event (sample_manager down) (event_world [sample_event ''o1'' ''d'' st n] g) ''o1''
    (sample_event ''o1'' ''d'' st n) delete_payload" if "st \<noteq> []"
  using that by (simp add: stored_event_def sample_manager_def event_world_simps)

text \<open>The failing run: the store refuses the relation \<open>viewer\<close>, on the tenth attempt.\<close>

lemma apply_event_outcome_witness:
  "\<exists>wr r w'. ApplyEvent (Some (sample_manager [''viewer''])) ''o1'' sample_env
      (event_world [sample_event ''o1'' ''w'' StatusFailed 9] []) = ((wr, r), w')
    \<and> (\<exists>v'. get_key (events (db w')) ''o1'' = Some v'
        \<and> (case r of None \<Rightarrow> ev_Status v' = StatusSynced
            | Some er \<Rightarrow> ev_RetryCount v' = 10 \<and> ev_Status v' = StatusDead))"
proof -
  let ?w = "event_world [sample_event ''o1'' ''w'' StatusFailed 9] []"
  obtain wr r w' where run: "ApplyEvent (Some (sample_manager [''viewer''])) ''o1'' sample_env ?w = ((wr, r), w')"
    by (metis prod_cases3 surj_pair)
  show ?thesis
    using apply_event_outcome[OF sample_on_memory tuple_store_set_store stored_w _ run] run
    by (fastforce simp: sample_event_def wrap64_def MaxOutboxRetries_def split: option.splits)
qed

lemma apply_again:
  assumes "on_memory mg S" "stored_event mg w i v p"
    and run: "ApplyEvent (Some mg) i e w = ((wr, None), w')"
  shows "ApplyEvent (Some mg) i e2 w' = ((no_result, None), w')"
proof (cases "ev_Status v = StatusSynced")
  case True
  with mem.apply_synced[of mg S w i v p] assms show ?thesis by (simp add: mem_configured mem_loads)
next
  case False
  have c: "mem.configured mg S" and l: "mem.loads mg w i v p" using assms by (simp_all add: mem_configured mem_loads)
  obtain wr1 r1 g' where g: "project_payload S p (graph w) = ((wr1, r1), g')" by (metis prod_cases3 surj_pair)
  have n: "r1 = None"
  proof (rule ccontr)
    assume "r1 \<noteq> None"
    then obtain er where "r1 = Some er" by auto
    with g mem.apply_fail[OF c l False, of wr1 er g' e] run show False by auto
  qed
  obtain t where "get_key (events (db w')) = (get_key (events (db w)))(i := Some (v\<lparr>ev_Status := StatusSynced,
      ev_LastError := [], ev_NextRunAt := None, ev_UpdatedAt := t\<rparr>))"
    using mem.apply_ok[OF c l False, of wr1 g' e] g n run by auto
  then have "mem.loads mg w' i (v\<lparr>ev_Status := StatusSynced, ev_LastError := [], ev_NextRunAt := None,
      ev_UpdatedAt := t\<rparr>) p"
    using l by (simp add: mem.loads_def)
  from mem.apply_synced[OF c this] show ?thesis by simp
qed

text \<open>Applying is idempotent.  After an application that returned no error, applying the same
  event again, as a retried saga branch does, returns an empty result and no error and changes
  nothing: neither the tuples nor the tables nor the event.\<close>

theorem apply_event_idempotent:
  assumes "on_memory mg S" "stored_event mg w i v p"
    and run: "ApplyEvent (Some mg) i e w = ((wr, None), w')"
  shows "ApplyEvent (Some mg) i e2 w' = ((no_result, None), w')"
  using assms by (rule apply_again)

lemma apply_event_idempotent_witness:
  "let w = event_world [sample_event ''o1'' ''w'' StatusPending 0] [];
       w' = snd (ApplyEvent (Some (sample_manager [])) ''o1'' sample_env w)
   in ApplyEvent (Some (sample_manager [])) ''o1'' sample_env w' = ((no_result, None), w')"
proof -
  let ?w = "event_world [sample_event ''o1'' ''w'' StatusPending 0] []"
  have st: "ev_Status (sample_event ''o1'' ''w'' StatusPending 0) \<noteq> StatusSynced" by (simp add: sample_event_def)
  have g: "project_payload (set_store False []) write_payload (graph ?w)
      = ((no_result\<lparr>wr_Written := 1\<rparr>, None), [sample_rel ''s1'' ''viewer'' ''u1''])"
    by (simp add: project_payload_def write_payload_def empty_payload_def set_store_def event_world_simps)
  obtain w' where run: "ApplyEvent (Some (sample_manager [])) ''o1'' sample_env ?w
      = ((no_result\<lparr>wr_Written := 1\<rparr>, None), w')"
    using mem.apply_ok[OF _ _ st g, of "sample_manager []" ] stored_w[of StatusPending]
    by (fastforce simp flip: mem_configured mem_loads)
  from apply_event_idempotent[OF sample_on_memory stored_w run] run show ?thesis by (simp add: Let_def)
qed

text \<open>The retry list.  The events offered for a retry are stored events that are pending,
  submitted or failed, have retries left and are due, at most \<open>limit\<close> of them (50 by default), and
  either they are all such events or there are exactly \<open>limit\<close>.  In particular a dead event is
  never offered again, and neither is an event that an unfinished attempt has left in the status
  projecting.\<close>

theorem retry_list_exact:
  "\<exists>vs. ListOutboxEventsForRetry limit e w = (Inr vs, tick (tick w))
    \<and> set vs \<subseteq> {v \<in> snd ` set (events (db w)). retry_selected (clock e (ticks w)) v}
    \<and> int (length vs) \<le> (if limit \<le> 0 then 50 else limit)
    \<and> (set vs = {v \<in> snd ` set (events (db w)). retry_selected (clock e (ticks w)) v}
       \<or> int (length vs) = (if limit \<le> 0 then 50 else limit))
    \<and> set vs \<subseteq> {v. ev_Status v \<noteq> StatusDead \<and> ev_Status v \<noteq> StatusProjecting
         \<and> ev_RetryCount v < MaxOutboxRetries}"
proof -
  let ?P = "retry_selected (clock e (ticks w))"
  let ?n = "if limit \<le> 0 then 50 else limit"
  let ?vs = "shuffle (map_order e (ticks (tick w))) (map snd (events (db w)))"
  let ?out = "collect_until ?P ?n ?vs []"
  have "ListOutboxEventsForRetry limit e w = (Inr ?out, tick (tick w))"
    by (simp add: ListOutboxEventsForRetry_def bind_io_def Let_def)
  moreover have sub: "set ?out \<subseteq> {v \<in> snd ` set (events (db w)). ?P v}"
    using collect_until_set[of ?P ?n ?vs "[]"] by auto
  moreover have b: "int (length ?out) \<le> ?n" by (rule collect_until_bound) simp
  moreover have "set ?out = {v \<in> snd ` set (events (db w)). ?P v} \<or> int (length ?out) = ?n"
  proof (cases "int (length ?out) < ?n")
    case True
    then show ?thesis using collect_until_short[of ?P ?n ?vs "[]"] by auto
  next
    case False
    with b show ?thesis by simp
  qed
  moreover have "set ?out \<subseteq> {v. ev_Status v \<noteq> StatusDead \<and> ev_Status v \<noteq> StatusProjecting
      \<and> ev_RetryCount v < MaxOutboxRetries}"
    using sub by (auto simp: retry_selected_def)
  ultimately show ?thesis by blast
qed

text \<open>A retry charges twice.  When the retry worker dispatches an event directly and the
  projection fails, the event's retry count grows by two: \<open>ApplyEvent\<close> has marked the failure
  and \<open>RetryOnce\<close> marks it again.  An event is therefore dead after five failed rounds of the
  worker, not after the ten that the budget names.\<close>

theorem retry_charges_twice:
  assumes "on_memory mg S" "mg_dtm mg = None" "stored_event mg w i v p" "ev_Status v \<noteq> StatusSynced"
    and "project_payload S p (graph w) = ((wr, Some er), g')"
    and n: "0 \<le> ev_RetryCount v" "ev_RetryCount v < MaxOutboxRetries"
  shows "\<exists>w' v'. retry_one (Some mg) v k e w = (k, w') \<and> get_key (events (db w')) i = Some v'
    \<and> ev_RetryCount v' = ev_RetryCount v + 2
    \<and> ev_Status v' = (if ev_RetryCount v + 2 \<ge> MaxOutboxRetries then StatusDead else StatusFailed)"
proof -
  have "mem.configured mg S" "mem.loads mg w i v p" using assms by (simp_all add: mem_configured mem_loads)
  from mem.retry_fail[OF this(1) assms(2) this(2) assms(4,5), of k e] obtain w' t1 t2 where
    w': "retry_one (Some mg) v k e w = (k, w')"
      "get_key (events (db w')) i = Some (after_failure er t2 (after_failure er t1 v))"
    by auto
  have "wrap64 (ev_RetryCount v + 1) = ev_RetryCount v + 1" "wrap64 (ev_RetryCount v + 1 + 1) = ev_RetryCount v + 2"
    using n wrap64_ge[of "ev_RetryCount v + 1"] wrap64_ge[of "ev_RetryCount v + 2"]
    by (simp_all add: MaxOutboxRetries_def max_int64_def add.commute)
  with w' show ?thesis by (auto simp: after_failure_def)
qed

lemma retry_charges_twice_witness:
  "\<exists>w' v'. retry_one (Some (sample_manager [''viewer''])) (sample_event ''o1'' ''w'' StatusFailed 8) 0 sample_env
      (event_world [sample_event ''o1'' ''w'' StatusFailed 8] []) = (0, w')
    \<and> get_key (events (db w')) ''o1'' = Some v' \<and> ev_RetryCount v' = 10 \<and> ev_Status v' = StatusDead"
proof -
  let ?w = "event_world [sample_event ''o1'' ''w'' StatusFailed 8] []"
  have g: "project_payload (set_store False [''viewer'']) write_payload (graph ?w)
      = ((no_result, Some (ErrExternal ''store unavailable'')), [])"
    by (simp add: project_payload_def write_payload_def empty_payload_def set_store_def event_world_simps
        sample_rel_def)
  have "mg_dtm (sample_manager [''viewer'']) = None" "ev_Status (sample_event ''o1'' ''w'' StatusFailed 8) \<noteq> StatusSynced"
    "0 \<le> ev_RetryCount (sample_event ''o1'' ''w'' StatusFailed 8)"
    "ev_RetryCount (sample_event ''o1'' ''w'' StatusFailed 8) < MaxOutboxRetries"
    by (simp_all add: sample_manager_def sample_event_def MaxOutboxRetries_def)
  note h = this
  from retry_charges_twice[OF sample_on_memory h(1) stored_w h(2) g h(3,4), of 0 sample_env]
  show ?thesis by (fastforce simp: sample_event_def MaxOutboxRetries_def)
qed

definition retryable :: "'g Manager \<Rightarrow> 'g store \<Rightarrow> OutboxEventModel \<Rightarrow> bool" where
  "retryable mg S v \<longleftrightarrow> TrimSpace (ev_ID v) = ev_ID v
     \<and> (\<exists>p. mg_unmarshal mg (ev_PayloadJSON v) = Inr p \<and> accepts S p)"

lemma keyed_ids: "keyed f m \<Longrightarrow> distinct (map f (map snd m)) \<and> map f (map snd m) = map fst m"
proof -
  assume m: "keyed f m"
  then have "f v = k" if "(k, v) \<in> set m" for k v
    using that unfolding keyed_def by (simp add: map_of_is_SomeI)
  then have e: "map f (map snd m) = map fst m" by auto
  moreover have "distinct (map fst m)" using m by (simp add: keyed_def)
  ultimately show ?thesis by metis
qed

text \<open>C36. Recovery.  With direct dispatch and a store that accepts the stored payloads, one pass
  of the retry worker over a repository whose tables satisfy the invariant returns without an
  error, counts every event offered to it as processed, and leaves each of them synced.\<close>

theorem retry_pass_recovers:
  assumes m: "on_memory mg S" "mg_dtm mg = None" and inv: "repo_inv (db w)"
    and all: "\<forall>v \<in> snd ` set (events (db w)). retryable mg S v"
  shows "\<exists>vs w'. fst (ListOutboxEventsForRetry (if limit \<le> 0 \<or> limit > 200 then 50 else limit) e w) = Inr vs
    \<and> RetryOnce (Some mg) limit e w = (Inr (int (length vs)), w')
    \<and> ev_ID ` set vs \<subseteq> {i. \<exists>v'. get_key (events (db w')) i = Some v' \<and> ev_Status v' = StatusSynced}"
proof -
  define n where "n = (if limit \<le> 0 \<or> limit > 200 then 50 else limit)"
  let ?P = "retry_selected (clock e (ticks w))"
  let ?vs = "shuffle (map_order e (ticks (tick w))) (map snd (events (db w)))"
  let ?out = "collect_until ?P n ?vs []"
  let ?w = "tick (tick w)"
  have n: "0 < n" by (simp add: n_def)
  have list: "ListOutboxEventsForRetry n e w = (Inr ?out, ?w)"
    using n by (simp add: ListOutboxEventsForRetry_def bind_io_def Let_def)
  have ev: "keyed ev_ID (events (db w))" using inv by (simp add: repo_inv_unfold)
  have ids: "distinct (map ev_ID (map snd (events (db w))))"
    "map ev_ID (map snd (events (db w))) = map fst (events (db w))" using keyed_ids[OF ev] by simp_all
  have "mset (map ev_ID ?vs) = mset (map ev_ID (map snd (events (db w))))" by (metis mset_map mset_shuffle)
  then have "distinct (map ev_ID ?vs)" using ids(1) by (metis mset_eq_imp_distinct_iff)
  then have d: "distinct (map ev_ID ?out)" by (intro collect_until_distinct) auto
  have c: "mem.configured mg S" using m by (simp add: mem_configured)
  have "ev_Status v \<noteq> StatusSynced \<and> (\<exists>p. mem.loads mg ?w (ev_ID v) v p \<and> accepts S p)"
    if "v \<in> set ?out" for v
  proof -
    have v: "v \<in> snd ` set (events (db w))" "?P v" using that collect_until_set[of ?P n ?vs "[]"] by auto
    then obtain k where "(k, v) \<in> set (events (db w))" by auto
    then have "get_key (events (db w)) k = Some v" using ev by (simp add: keyed_def)
    then have g: "get_key (events (db w)) (ev_ID v) = Some v" using ev by (auto simp: keyed_def)
    obtain p where "TrimSpace (ev_ID v) = ev_ID v" "mg_unmarshal mg (ev_PayloadJSON v) = Inr p" "accepts S p"
      using all v(1) by (auto simp: retryable_def)
    with g have "mem.loads mg ?w (ev_ID v) v p \<and> accepts S p" by (simp add: mem.loads_def)
    with v(2) show ?thesis by (auto simp: retry_selected_def)
  qed
  then have "\<forall>v \<in> set ?out. ev_Status v \<noteq> StatusSynced \<and> (\<exists>p. mem.loads mg ?w (ev_ID v) v p \<and> accepts S p)"
    by blast
  from mem.retry_all_ok[OF c m(2) d this, of 0 e] obtain w' where
    w': "fold_io (retry_one (Some mg)) ?out 0 e ?w = (int (length ?out), w')"
      "\<forall>v \<in> set ?out. \<exists>v'. get_key (events (db w')) (ev_ID v) = Some v' \<and> ev_Status v' = StatusSynced"
    by auto
  have "RetryOnce (Some mg) limit e w = (Inr (int (length ?out)), w')"
    using list w'(1) m(1)
    by (simp add: RetryOnce_def on_memory_def memory_outbox_def bind_io_def Let_def flip: n_def)
  then show ?thesis using list w'(2) by (auto simp flip: n_def)
qed


lemma repo_inv_event_world: "repo_inv (db (event_world evs g))"
  by (auto simp: event_world_def repo_inv_init)

lemma accepts_w: "accepts (set_store False []) write_payload"
  by (simp add: accepts_def project_payload_def write_payload_def empty_payload_def set_store_def)

lemma retry_pass_recovers_witness:
  "\<exists>vs w'. RetryOnce (Some (sample_manager [])) 0 sample_env
      (event_world [sample_event ''o1'' ''w'' StatusFailed 3] []) = (Inr (int (length vs)), w')
    \<and> vs = [sample_event ''o1'' ''w'' StatusFailed 3]
    \<and> ev_ID ` set vs \<subseteq> {i. \<exists>v'. get_key (events (db w')) i = Some v' \<and> ev_Status v' = StatusSynced}"
proof -
  let ?w = "event_world [sample_event ''o1'' ''w'' StatusFailed 3] []"
  have dtm: "mg_dtm (sample_manager []) = None" by (simp add: sample_manager_def)
  have "retryable (sample_manager []) (set_store False []) (sample_event ''o1'' ''w'' StatusFailed 3)"
    using accepts_w by (simp add: retryable_def sample_event_def sample_manager_def)
  then have all: "\<forall>v \<in> snd ` set (events (db ?w)). retryable (sample_manager []) (set_store False []) v"
    by (simp add: event_world_simps)
  have l: "ListOutboxEventsForRetry 50 sample_env ?w = (Inr [sample_event ''o1'' ''w'' StatusFailed 3], tick (tick ?w))"
    by (simp add: ListOutboxEventsForRetry_def event_world_simps bind_io_def retry_selected_def MaxOutboxRetries_def)
  show ?thesis
    using retry_pass_recovers[OF sample_on_memory dtm repo_inv_event_world all, of 0 sample_env] l by simp
qed

text \<open>
  What compensating an event does by itself: undoing a write deletes every tuple it wrote and none that the filters of
  those tuples do not match; undoing a replacement swaps the tuples the other way round.  The event is stored as archived.
\<close>

lemma compensation_effect:
  assumes m: "on_memory mg S" "tuple_store S T" and l: "stored_event mg w i v p"
    and op: "pl_Operation p = OperationWrite \<or> pl_Operation p = OperationReplace"
    and run: "CompensateEvent (Some mg) i e w = ((wr, None), w')"
  shows "(if pl_Operation p = OperationWrite
      then deleted (relationshipFilters (pl_Relationships p)) (T (graph w)) (T (graph w'))
        \<and> keys (pl_Relationships p) \<inter> T (graph w') = {}
      else swapped (pl_Relationships p) (pl_PreviousRelationships p) (T (graph w)) (T (graph w')))
    \<and> (\<exists>t. get_key (events (db w')) = (get_key (events (db w)))
         (i := Some (v\<lparr>ev_Status := StatusArchived, ev_UpdatedAt := t\<rparr>)))"
proof -
  have c: "mem.configured mg S" and l': "mem.loads mg w i v p" using m l by (simp_all add: mem_configured mem_loads)
  obtain wr1 r1 g' where g: "undo_payload S p (graph w) = ((wr1, r1), g')" by (metis prod_cases3 surj_pair)
  have n: "r1 = None"
  proof (rule ccontr)
    assume "r1 \<noteq> None"
    then obtain x where x: "r1 = Some x" by auto
    have "fail_and_mark (Some mg) i wr1 x e (w\<lparr>graph := g'\<rparr>) = ((wr, None), w')"
      using run mem.load_run[OF c l', of e] g x m(1) op on_graph_run[where f = "undo_payload S p" and e = e, OF g]
      by (auto simp: CompensateEvent_def bind_io_def on_memory_def)
    then show False by (auto simp: fail_and_mark_def bind_io_iff)
  qed
  from op have op': "pl_Operation p \<in> {OperationWrite, OperationReplace}" by auto
  from mem.undo_run[OF c l' op', of wr1 g' e] g n run obtain t where
    w': "graph w' = g'" "get_key (events (db w')) = (get_key (events (db w)))
       (i := Some (v\<lparr>ev_Status := StatusArchived, ev_UpdatedAt := t\<rparr>))" by auto
  show ?thesis
  proof (cases "pl_Operation p = OperationWrite")
    case True
    then have "deleteRelationships S (relationshipFilters (pl_Relationships p)) (graph w) = ((wr1, None), g')"
      using g n by (simp add: undo_payload_def)
    then have "deleted (relationshipFilters (pl_Relationships p)) (T (graph w)) (T (graph w'))"
      using deleteRelationships_deleted[OF m(2)] w'(1) by simp
    moreover have "keys (pl_Relationships p) \<inter> T (graph w') = {}"
      using undo_write[OF m(2) True, of "graph w" wr1 g'] g n w'(1) by (simp add: Int_commute)
    ultimately show ?thesis unfolding if_P[OF True] by (intro conjI exI[of _ t] w'(2))
  next
    case False
    then have "swap_tuples S (pl_Relationships p) (pl_PreviousRelationships p) (graph w) = ((wr1, None), g')"
      using g n op by (auto simp: undo_payload_def)
    from swap_tuples_swapped[OF m(2) this] w'(1)
    have "swapped (pl_Relationships p) (pl_PreviousRelationships p) (T (graph w)) (T (graph w'))" by simp
    then show ?thesis unfolding if_not_P[OF False] by (intro conjI exI[of _ t] w'(2))
  qed
qed

lemma apply_effect:
  assumes m: "on_memory mg S" "tuple_store S T" and l: "stored_event mg w i v p" and ns: "ev_Status v \<noteq> StatusSynced"
    and run: "ApplyEvent (Some mg) i e w = ((wr, None), w')"
  shows "projected p (T (graph w)) (T (graph w'))
    \<and> (\<exists>t. get_key (events (db w')) = (get_key (events (db w)))(i := Some (v\<lparr>ev_Status := StatusSynced,
        ev_LastError := [], ev_NextRunAt := None, ev_UpdatedAt := t\<rparr>)))"
proof -
  have c: "mem.configured mg S" and l': "mem.loads mg w i v p" using m l by (simp_all add: mem_configured mem_loads)
  obtain wr1 r1 g' where g: "project_payload S p (graph w) = ((wr1, r1), g')" by (metis prod_cases3 surj_pair)
  have n: "r1 = None"
  proof (rule ccontr)
    assume "r1 \<noteq> None"
    then obtain er where "r1 = Some er" by auto
    with g mem.apply_fail[OF c l' ns, of wr1 er g' e] run show False by auto
  qed
  from mem.apply_ok[OF c l' ns, of wr1 g' e] g n run obtain t where
    t: "graph w' = g'" "get_key (events (db w')) = (get_key (events (db w)))(i := Some (v\<lparr>ev_Status := StatusSynced,
      ev_LastError := [], ev_NextRunAt := None, ev_UpdatedAt := t\<rparr>))" by auto
  from project_payload_projected[OF m(2)] g n t(1) have "projected p (T (graph w)) (T (graph w'))" by simp
  with t(2) show ?thesis by blast
qed

text \<open>The relationships an event knows from before it, and the tuples that one of its filters selects.\<close>

definition prior :: "Payload \<Rightarrow> Relationship list" where
  "prior p = (if pl_Operation p = OperationWrite then [] else pl_PreviousRelationships p)"

definition filtered :: "Payload \<Rightarrow> tuple \<Rightarrow> bool" where
  "filtered p t \<longleftrightarrow> (\<exists>r \<in> set (pl_Relationships p) \<union> set (prior p). wide (filter_of r) t)"

lemma undone_tuples:
  assumes op: "pl_Operation p \<in> {OperationWrite, OperationReplace}"
    and f: "projected p A B"
    and u: "if pl_Operation p = OperationWrite
      then deleted (relationshipFilters (pl_Relationships p)) B C \<and> keys (pl_Relationships p) \<inter> C = {}
      else swapped (pl_Relationships p) (pl_PreviousRelationships p) B C"
  shows "keys (prior p) \<subseteq> C \<and> keys (pl_Relationships p) \<inter> C \<subseteq> keys (prior p) \<and> C \<subseteq> A \<union> keys (prior p)
    \<and> (\<forall>t \<in> A. \<not> filtered p t \<longrightarrow> t \<in> C)"
proof (cases "pl_Operation p = OperationWrite")
  case True
  then have "B = A \<union> keys (pl_Relationships p)" using f by (simp add: projected_def)
  moreover have "C \<subseteq> B" "keys (pl_Relationships p) \<inter> C = {}"
      "\<forall>t \<in> B. (\<forall>r \<in> set (pl_Relationships p). \<not> wide (filter_of r) t) \<longrightarrow> t \<in> C"
    using u True by (auto simp: deleted_def relationshipFilters_def)
  moreover have "prior p = []" using True by (simp add: prior_def)
  ultimately show ?thesis unfolding filtered_def by auto
next
  case False
  then have "pl_Operation p = OperationReplace" using op by simp
  then have "swapped (pl_PreviousRelationships p) (pl_Relationships p) A B"
    "swapped (pl_Relationships p) (pl_PreviousRelationships p) B C"
    using f u False by (simp_all add: projected_def split: if_splits)
  then have s: "B \<subseteq> A \<union> keys (pl_Relationships p)" "keys (prior p) \<subseteq> C"
      "keys (pl_Relationships p) \<inter> C \<subseteq> keys (prior p)" "C \<subseteq> B \<union> keys (prior p)"
      "\<forall>t \<in> A. (\<forall>r \<in> set (prior p). \<not> wide (filter_of r) t) \<longrightarrow> t \<in> B"
      "\<forall>t \<in> B. (\<forall>r \<in> set (pl_Relationships p). \<not> wide (filter_of r) t) \<longrightarrow> t \<in> C"
    using False unfolding swapped_def prior_def by simp_all
  have "C \<subseteq> A \<union> keys (prior p)" using s(1,3,4) by blast
  moreover have "\<forall>t \<in> A. \<not> filtered p t \<longrightarrow> t \<in> C" using s(5,6) unfolding filtered_def by blast
  ultimately show ?thesis using s(2,3) by blast
qed

text \<open>C29. Compensation undoes the projection.  When an event with a write or a replacement is applied and then compensated,
  both without an error, the previous tuples of the event (none for a write) are there, a tuple it wrote is there only if it
  is one of these, no other tuple has been added, and every tuple that none of its filters selects is kept.  So the tuples
  are the same as before the event if its previous tuples were there then and every tuple that one of its filters selects
  was one of them.  Without that condition they need not be: a tuple that was there before the same tuple was
  written is gone after the compensation.  The event is stored as archived and no other event has changed.\<close>

theorem compensation_restores:
  assumes m: "on_memory mg S" "tuple_store S T" and l: "stored_event mg w i v p" "ev_Status v \<noteq> StatusSynced"
    and op: "pl_Operation p \<in> {OperationWrite, OperationReplace}"
    and run: "ApplyEvent (Some mg) i e w = ((wr1, None), w1)" "CompensateEvent (Some mg) i e2 w1 = ((wr2, None), w2)"
  shows "keys (prior p) \<subseteq> T (graph w2) \<and> keys (pl_Relationships p) \<inter> T (graph w2) \<subseteq> keys (prior p)
    \<and> T (graph w2) \<subseteq> T (graph w) \<union> keys (prior p)
    \<and> (\<forall>t \<in> T (graph w). \<not> filtered p t \<longrightarrow> t \<in> T (graph w2))
    \<and> (keys (prior p) \<subseteq> T (graph w) \<and> {t \<in> T (graph w). filtered p t} \<subseteq> keys (prior p)
        \<longrightarrow> T (graph w2) = T (graph w))
    \<and> (\<exists>t. get_key (events (db w2)) = (get_key (events (db w)))(i := Some (v\<lparr>ev_Status := StatusArchived,
        ev_LastError := [], ev_NextRunAt := None, ev_UpdatedAt := t\<rparr>)))"
proof -
  obtain t1 where p: "projected p (T (graph w)) (T (graph w1))"
    and ev: "get_key (events (db w1)) = (get_key (events (db w)))(i := Some (v\<lparr>ev_Status := StatusSynced,
        ev_LastError := [], ev_NextRunAt := None, ev_UpdatedAt := t1\<rparr>))"
    using apply_effect[OF m l run(1)] by blast
  let ?v1 = "v\<lparr>ev_Status := StatusSynced, ev_LastError := [], ev_NextRunAt := None, ev_UpdatedAt := t1\<rparr>"
  have l1: "stored_event mg w1 i ?v1 p" using l(1) ev by (simp add: stored_event_def)
  have op': "pl_Operation p = OperationWrite \<or> pl_Operation p = OperationReplace" using op by simp
  note undo = compensation_effect[OF m l1 op' run(2)]
  obtain t2 where ev2: "get_key (events (db w2)) = (get_key (events (db w1)))
      (i := Some (?v1\<lparr>ev_Status := StatusArchived, ev_UpdatedAt := t2\<rparr>))" using undo[THEN conjunct2] by blast
  have ev': "get_key (events (db w2)) = (get_key (events (db w)))(i := Some (v\<lparr>ev_Status := StatusArchived,
        ev_LastError := [], ev_NextRunAt := None, ev_UpdatedAt := t2\<rparr>))" unfolding ev2 ev by (simp add: fun_eq_iff)
  from undone_tuples[OF op p undo[THEN conjunct1]] have c:
    "keys (prior p) \<subseteq> T (graph w2)" "keys (pl_Relationships p) \<inter> T (graph w2) \<subseteq> keys (prior p)"
    "T (graph w2) \<subseteq> T (graph w) \<union> keys (prior p)" "\<forall>t \<in> T (graph w). \<not> filtered p t \<longrightarrow> t \<in> T (graph w2)" by simp_all
  have "T (graph w2) = T (graph w)"
    if b: "keys (prior p) \<subseteq> T (graph w) \<and> {t \<in> T (graph w). filtered p t} \<subseteq> keys (prior p)"
  proof (rule subset_antisym)
    show "T (graph w2) \<subseteq> T (graph w)" using c(3) b by blast
    show "T (graph w) \<subseteq> T (graph w2)"
    proof
      fix t assume "t \<in> T (graph w)"
      with b c(1,4) show "t \<in> T (graph w2)" by (cases "filtered p t") blast+
    qed
  qed
  with c ev' show ?thesis by (intro conjI impI exI[of _ t2])
qed

lemma compensation_restores_witness:
  "\<exists>wr1 w1 wr2 w2. ApplyEvent (Some (sample_manager [])) ''o1'' sample_env
      (event_world [sample_event ''o1'' ''w'' StatusPending 0] [sample_rel ''s1'' ''viewer'' ''u2'']) = ((wr1, None), w1)
    \<and> set_tuples (graph w1) = {rel_key (sample_rel ''s1'' ''viewer'' ''u1''), rel_key (sample_rel ''s1'' ''viewer'' ''u2'')}
    \<and> CompensateEvent (Some (sample_manager [])) ''o1'' sample_env w1 = ((wr2, None), w2)
    \<and> set_tuples (graph w2) = {rel_key (sample_rel ''s1'' ''viewer'' ''u2'')}"
proof -
  let ?v = "sample_event ''o1'' ''w'' StatusPending 0" and ?mg = "Some (sample_manager [])"
  let ?w = "event_world [?v] [sample_rel ''s1'' ''viewer'' ''u2'']"
  have c: "mem.configured (sample_manager []) (set_store False [])" by (simp flip: mem_configured)
  have l: "stored_event (sample_manager []) ?w ''o1'' ?v write_payload" by (rule stored_w) simp
  have ns: "ev_Status ?v \<noteq> StatusSynced" by (simp add: sample_event_def)
  have op: "pl_Operation write_payload \<in> {OperationWrite, OperationReplace}" by (simp add: write_payload_def)
  have rels: "pl_Relationships write_payload = [sample_rel ''s1'' ''viewer'' ''u1'']" by (simp add: write_payload_def)
  obtain pwr pg where pg: "project_payload (set_store False []) write_payload (graph ?w) = ((pwr, None), pg)"
    using accepts_w unfolding accepts_def by blast
  obtain w1 where run1: "ApplyEvent ?mg ''o1'' sample_env ?w = ((pwr, None), w1)"
    using mem.apply_ok[OF c l[unfolded mem_loads] ns pg, of sample_env] by blast
  from apply_effect[OF sample_on_memory tuple_store_set_store l ns run1] obtain t where
    p: "projected write_payload (set_tuples (graph ?w)) (set_tuples (graph w1))"
    and ev: "get_key (events (db w1)) = (get_key (events (db ?w)))(''o1'' := Some (?v\<lparr>ev_Status := StatusSynced,
      ev_LastError := [], ev_NextRunAt := None, ev_UpdatedAt := t\<rparr>))" by blast
  have l1: "stored_event (sample_manager []) w1 ''o1'' (?v\<lparr>ev_Status := StatusSynced,
      ev_LastError := [], ev_NextRunAt := None, ev_UpdatedAt := t\<rparr>) write_payload"
    using l ev by (simp add: stored_event_def)
  obtain uwr ug where ug: "undo_payload (set_store False []) write_payload (graph w1) = ((uwr, None), ug)"
    by (simp add: undo_payload_def write_payload_def empty_payload_def set_store_def deleteRelationships_def relationshipFilters_def)
  obtain w2 where run2: "CompensateEvent ?mg ''o1'' sample_env w1 = ((uwr, None), w2)"
    using mem.undo_run[OF c l1[unfolded mem_loads] op ug, of sample_env] by auto
  have start: "set_tuples (graph ?w) = {rel_key (sample_rel ''s1'' ''viewer'' ''u2'')}" by (simp add: event_world_simps set_tuples_def)
  have "set_tuples (graph w1) = {rel_key (sample_rel ''s1'' ''viewer'' ''u1''), rel_key (sample_rel ''s1'' ''viewer'' ''u2'')}"
    using p start rels op by (auto simp: projected_def write_payload_def)
  moreover have trims: "TrimSpace ''u1'' = ''u1''" "TrimSpace ''u2'' = ''u2''"
    by (simp_all add: TrimSpace_visible visible_def)
  have "\<not> filtered write_payload (rel_key (sample_rel ''s1'' ''viewer'' ''u2''))"
    by (simp add: trims filtered_def prior_def rels write_payload_def wide_def filter_of_def sample_rel_def rel_key_def field_matches_def)
  then have "set_tuples (graph w2) = {rel_key (sample_rel ''s1'' ''viewer'' ''u2'')}"
    using compensation_restores[OF sample_on_memory tuple_store_set_store l ns op run1 run2] start
    by (simp add: prior_def write_payload_def)
  ultimately show ?thesis using run1 run2 by blast
qed

text \<open>Compensating a delete is not recorded.  Undoing a deletion writes its relationships back
  but leaves every table as it was: an event that was pending or failed before the compensation is
  still offered for a retry, which deletes the restored tuples again.\<close>

theorem delete_compensation_unrecorded:
  assumes m: "on_memory mg S" "tuple_store S T" and l: "stored_event mg w i v p"
    and op: "pl_Operation p = OperationDelete"
    and run: "CompensateEvent (Some mg) i e w = ((wr, None), w')"
  shows "db w' = db w \<and> T (graph w') = T (graph w) \<union> keys (pl_Relationships p)"
proof -
  have c: "mem.configured mg S" and l': "mem.loads mg w i v p" using m l by (simp_all add: mem_configured mem_loads)
  obtain wr1 r1 g' where g: "st_write S (pl_Relationships p) (graph w) = ((wr1, r1), g')" by (metis prod_cases3 surj_pair)
  then have u: "undo_payload S p (graph w) = ((wr1, r1), g')" using op by (simp add: undo_payload_def)
  show ?thesis
  proof (cases r1)
    case None
    then have "w' = w\<lparr>graph := g'\<rparr>" using run mem.load_run[OF c l', of e] m(1) op
        on_graph_run[where f = "undo_payload S p" and e = e, OF u]
      by (auto simp: CompensateEvent_def bind_io_def on_memory_def)
    with None g store_write_ok[OF m(2)] show ?thesis by auto
  next
    case (Some x)
    have "fail_and_mark (Some mg) i wr1 x e (w\<lparr>graph := g'\<rparr>) = ((wr, None), w')"
      using run mem.load_run[OF c l', of e] Some m(1) op on_graph_run[where f = "undo_payload S p" and e = e, OF u]
      by (auto simp: CompensateEvent_def bind_io_def on_memory_def)
    then show ?thesis by (auto simp: fail_and_mark_def bind_io_iff)
  qed
qed

lemma delete_compensation_unrecorded_witness:
  "\<exists>wr w'. CompensateEvent (Some (sample_manager [])) ''o1'' sample_env
      (event_world [sample_event ''o1'' ''d'' StatusFailed 1] []) = ((wr, None), w')
    \<and> db w' = db (event_world [sample_event ''o1'' ''d'' StatusFailed 1] [])
    \<and> rel_key (sample_rel ''s1'' ''viewer'' ''u1'') \<in> set_tuples (graph w')"
proof -
  let ?w = "event_world [sample_event ''o1'' ''d'' StatusFailed 1] []"
  have c: "mem.configured (sample_manager []) (set_store False [])" by (simp flip: mem_configured)
  have l: "stored_event (sample_manager []) ?w ''o1'' (sample_event ''o1'' ''d'' StatusFailed 1) delete_payload"
    by (rule stored_d) simp
  have op: "pl_Operation delete_payload = OperationDelete" by (simp add: delete_payload_def)
  obtain wr g' where u: "undo_payload (set_store False []) delete_payload (graph ?w) = ((wr, None), g')"
    by (simp add: undo_payload_def delete_payload_def empty_payload_def set_store_def)
  have run: "CompensateEvent (Some (sample_manager [])) ''o1'' sample_env ?w = ((wr, None), ?w\<lparr>graph := g'\<rparr>)"
    using mem.load_run[OF c l[unfolded mem_loads], of sample_env] op
        on_graph_run[where f = "undo_payload (set_store False []) delete_payload" and e = sample_env, OF u]
    by (simp add: CompensateEvent_def bind_io_def sample_manager_def)
  from delete_compensation_unrecorded[OF sample_on_memory tuple_store_set_store l op run] run
  show ?thesis by (auto simp: delete_payload_def)
qed

end
