(* ===== verification/Json.thy ===== *)
theory Json
  imports Prelude
begin

text \<open>
  The part of encoding/json that the program applies to permission lists: \<open>json_strings\<close> is
  \<open>json.Unmarshal\<close> of a text into a \<open>[]string\<close> and \<open>json_array\<close> is \<open>json.Marshal\<close> of a
  \<open>[]string\<close>, on byte strings, with Go's escapes, its HTML-safe output, surrogate pairs and the
  replacement of invalid UTF-8.
\<close>

definition quote :: char where "quote = CHR 0x22"
definition backslash :: char where "backslash = CHR 0x5C"

definition replacement :: string where "replacement = [byte 239, byte 191, byte 189]"

subsection \<open>Runes and escapes\<close>

definition in_range :: "nat \<Rightarrow> nat \<Rightarrow> char \<Rightarrow> bool" where
  "in_range lo hi c \<longleftrightarrow> lo \<le> (of_char c :: nat) \<and> (of_char c :: nat) \<le> hi"

text \<open>The number of bytes of the valid multi-byte encoding a string starts with, or 0.\<close>

definition cont :: "char \<Rightarrow> bool" where "cont = in_range 128 191"

fun rune_len :: "string \<Rightarrow> nat" where
  "rune_len (a # b # s) =
     (if in_range 194 223 a then (if cont b then 2 else 0)
      else if in_range 224 239 a
      then (if in_range (if in_range 224 224 a then 160 else 128) (if in_range 237 237 a then 159 else 191) b
              \<and> s \<noteq> [] \<and> cont (hd s) then 3 else 0)
      else if in_range 240 244 a
      then (if in_range (if in_range 240 240 a then 144 else 128) (if in_range 244 244 a then 143 else 191) b
              \<and> length s \<ge> 2 \<and> cont (hd s) \<and> cont (s ! 1) then 4 else 0)
      else 0)"
| "rune_len s = 0"

definition hex_val :: "char \<Rightarrow> nat option" where
  "hex_val c = (let n = of_char c :: nat in
     if 48 \<le> n \<and> n \<le> 57 then Some (n - 48)
     else if 97 \<le> n \<and> n \<le> 102 then Some (n - 87)
     else if 65 \<le> n \<and> n \<le> 70 then Some (n - 55) else None)"

text \<open>Four hexadecimal digits at the front of a string.\<close>

fun hex4 :: "string \<Rightarrow> nat option" where
  "hex4 (a # b # c # d # s) =
     (case (hex_val a, hex_val b, hex_val c, hex_val d) of
        (Some w, Some x, Some y, Some z) \<Rightarrow> Some (4096 * w + 256 * x + 16 * y + z)
      | _ \<Rightarrow> None)"
| "hex4 s = None"

definition escape_val :: "char \<Rightarrow> char option" where
  "escape_val c =
     (if c = quote \<or> c = backslash \<or> c = CHR ''/'' then Some c
      else if c = CHR ''b'' then Some (CHR 0x08) else if c = CHR ''f'' then Some (CHR 0x0C)
      else if c = CHR ''n'' then Some (CHR 0x0A) else if c = CHR ''r'' then Some (CHR 0x0D)
      else if c = CHR ''t'' then Some (CHR 0x09) else None)"

text \<open>\<open>getu4\<close>: a whole \<open>\uXXXX\<close> at the front, and the rune of a surrogate pair.\<close>

fun getu4 :: "string \<Rightarrow> nat option" where
  "getu4 (a # b # s) = (if a = backslash \<and> b = CHR ''u'' then hex4 s else None)"
| "getu4 s = None"

definition pair_rune :: "nat \<Rightarrow> nat option \<Rightarrow> nat option" where
  "pair_rune hi lo =
     (case lo of None \<Rightarrow> None
      | Some lo \<Rightarrow>
          if 55296 \<le> hi \<and> hi < 56320 \<and> 56320 \<le> lo \<and> lo < 57344
          then Some ((hi - 55296) * 1024 + (lo - 56320) + 65536) else None)"

definition surrogate :: "nat \<Rightarrow> bool" where "surrogate u \<longleftrightarrow> 55296 \<le> u \<and> u < 57344"

definition front :: "string \<Rightarrow> (string \<times> string) option \<Rightarrow> (string \<times> string) option" where
  "front x r = map_option (\<lambda>(a, rest). (x @ a, rest)) r"

subsection \<open>Decoding\<close>

text \<open>The rest of a string literal after its opening quote: the decoded bytes and what follows.\<close>

function (sequential) str_body :: "string \<Rightarrow> (string \<times> string) option" where
  "str_body [] = None"
| "str_body (c # s) =
     (if c = quote then Some ([], s)
      else if c = backslash then
        (case s of [] \<Rightarrow> None
         | d # t \<Rightarrow>
             if d = CHR ''u'' then
               (case hex4 t of None \<Rightarrow> None
                | Some u \<Rightarrow>
                    if surrogate u then
                      (case pair_rune u (getu4 (drop 4 t)) of
                         Some r \<Rightarrow> front (utf8 (int r)) (str_body (drop 10 t))
                       | None \<Rightarrow> front replacement (str_body (drop 4 t)))
                    else front (utf8 (int u)) (str_body (drop 4 t)))
             else (case escape_val d of None \<Rightarrow> None | Some x \<Rightarrow> front [x] (str_body t)))
      else if (of_char c :: nat) < 32 then None
      else if (of_char c :: nat) < 128 then front [c] (str_body s)
      else (case rune_len (c # s) of
              0 \<Rightarrow> front replacement (str_body s)
            | Suc n \<Rightarrow> front (c # take n s) (str_body (drop n s))))"
  by pat_completeness auto
termination by (relation "measure length") (auto simp: less_Suc_eq_le split: list.splits)

declare str_body.simps [simp del]

primrec skip_ws :: "string \<Rightarrow> string" where
  "skip_ws [] = []"
| "skip_ws (c # s) = (if c = CHR '' '' \<or> c = CHR 0x09 \<or> c = CHR 0x0A \<or> c = CHR 0x0D then skip_ws s else c # s)"

definition literal :: "string \<Rightarrow> string \<Rightarrow> string option" where
  "literal word s = (if is_prefix word s then Some (drop (length word) s) else None)"

text \<open>One element: a string, or \<open>null\<close>, which leaves the element's zero value.\<close>

definition element :: "string \<Rightarrow> (string \<times> string) option" where
  "element s =
     (case s of c # t \<Rightarrow> if c = quote then str_body t else map_option (Pair []) (literal ''null'' s)
      | [] \<Rightarrow> None)"

lemma skip_ws_length: "length (skip_ws s) \<le> length s"
  by (induction s) auto

lemma front_Some: "front x r = Some (a, t) \<longleftrightarrow> (\<exists>b. r = Some (b, t) \<and> a = x @ b)"
  by (auto simp: front_def)

lemma str_body_length: "str_body s = Some (a, t) \<Longrightarrow> length t < length s"
proof (induction s arbitrary: a t rule: str_body.induct)
  case 1
  then show ?case by (simp add: str_body.simps)
next
  case (2 c s)
  note p = "2.prems"[unfolded str_body.simps(2)[of c s]] and IH = "2.IH"
  consider "c = quote" | "c \<noteq> quote" "c = backslash" | "c \<noteq> quote" "c \<noteq> backslash" by blast
  then show ?case
  proof cases
    case 2
    then obtain d u where s: "s = d # u" using p by (auto split: list.splits)
    have "length t \<le> length u"
      using p 2 s IH(1-4)[of d u]
      by (auto simp: front_Some split: if_splits option.splits dest: less_imp_le)
        (fastforce dest: less_imp_le)+
    then show ?thesis by (simp add: s)
  next
    case 3
    have "length t \<le> length s"
      using p 3 IH(5-7)
      by (auto simp: front_Some split: if_splits nat.splits) (fastforce dest: less_imp_le)+
    then show ?thesis by simp
  qed (use p in auto)
qed

lemma literal_length: "literal w s = Some t \<Longrightarrow> length t \<le> length s"
  by (auto simp: literal_def split: if_splits)

lemma element_length:
  assumes "element s = Some (a, t)"
  shows "length t < length s"
proof (cases s)
  case (Cons c u)
  show ?thesis
  proof (cases "c = quote")
    case True
    with assms Cons have "str_body u = Some (a, t)" by (simp add: element_def)
    with Cons show ?thesis by (auto dest: str_body_length)
  next
    case False
    with assms Cons have "literal ''null'' s = Some t" by (auto simp: element_def)
    then show ?thesis by (auto simp: literal_def is_prefix_iff split: if_splits)
  qed
qed (use assms in \<open>simp add: element_def\<close>)

text \<open>The elements after an opening bracket or a comma, up to the closing bracket.\<close>

function elements :: "string \<Rightarrow> (string list \<times> string) option" where
  "elements s =
     (case element (skip_ws s) of None \<Rightarrow> None
      | Some (x, t) \<Rightarrow>
          (case skip_ws t of [] \<Rightarrow> None
           | c # u \<Rightarrow>
               if c = CHR '']'' then Some ([x], u)
               else if c = CHR '','' then map_option (\<lambda>(xs, r). (x # xs, r)) (elements u)
               else None))"
  by pat_completeness auto
termination
proof (relation "measure length")
  fix s x xa y c u
  assume a: "element (skip_ws s) = Some x" "(xa, y) = x" "skip_ws y = c # u"
  then have "length y < length (skip_ws s)" by (auto dest: element_length)
  moreover have "Suc (length u) \<le> length y" using a(3) skip_ws_length[of y] by simp
  ultimately show "(u, s) \<in> measure length" using skip_ws_length[of s] by simp
qed simp

declare elements.simps [simp del]

definition json_strings :: "string \<Rightarrow> string list option" where
  "json_strings s =
     (case skip_ws s of [] \<Rightarrow> None
      | c # t \<Rightarrow>
          let r = (if c = CHR ''['' then
                     (case skip_ws t of [] \<Rightarrow> None
                      | d # u \<Rightarrow> if d = CHR '']'' then Some ([], u) else elements t)
                   else map_option (Pair []) (literal ''null'' (c # t)))
          in (case r of None \<Rightarrow> None | Some (xs, rest) \<Rightarrow> if skip_ws rest = [] then Some xs else None))"

subsection \<open>Encoding\<close>

definition hex2 :: "nat \<Rightarrow> string" where
  "hex2 n = (let h = \<lambda>k. if k < 10 then byte (48 + k) else byte (87 + k) in [h (n div 16 mod 16), h (n mod 16)])"

definition escape_ascii :: "char \<Rightarrow> string" where
  "escape_ascii c =
     (if c = quote \<or> c = backslash then [backslash, c]
      else if c = CHR 0x08 then [backslash, CHR ''b''] else if c = CHR 0x0C then [backslash, CHR ''f'']
      else if c = CHR 0x0A then [backslash, CHR ''n''] else if c = CHR 0x0D then [backslash, CHR ''r'']
      else if c = CHR 0x09 then [backslash, CHR ''t'']
      else if (of_char c :: nat) < 32 \<or> c = CHR ''<'' \<or> c = CHR ''>'' \<or> c = CHR ''&''
      then backslash # ''u00'' @ hex2 (of_char c)
      else [c])"

definition line_separators :: "string list" where
  "line_separators = [[byte 226, byte 128, byte 168], [byte 226, byte 128, byte 169]]"

function escape :: "string \<Rightarrow> string" where
  "escape s =
     (case s of [] \<Rightarrow> []
      | c # t \<Rightarrow>
          if (of_char c :: nat) < 128 then escape_ascii c @ escape t
          else (case rune_len (c # t) of
                  0 \<Rightarrow> backslash # ''ufffd'' @ escape t
                | Suc n \<Rightarrow>
                    (if c # take n t = line_separators ! 0 then backslash # ''u2028''
                     else if c # take n t = line_separators ! 1 then backslash # ''u2029''
                     else c # take n t) @ escape (drop n t)))"
  by pat_completeness auto
termination by (relation "measure length") auto

declare escape.simps [simp del]

definition json_string :: "string \<Rightarrow> string" where
  "json_string s = quote # escape s @ [quote]"

text \<open>\<open>json.Marshal\<close> of a slice; \<open>None\<close> is the nil slice.\<close>

definition json_array :: "string list option \<Rightarrow> string" where
  "json_array xs = (case xs of None \<Rightarrow> ''null'' | Some xs \<Rightarrow> ''['' @ Join (map json_string xs) '','' @ '']'')"

subsection \<open>Round trip\<close>

definition ascii :: "string \<Rightarrow> bool" where "ascii s \<longleftrightarrow> list_all (\<lambda>c. (of_char c :: nat) < 128) s"

lemma utf8_ascii: "n < 128 \<Longrightarrow> utf8 (int n) = [char_of n]"
  by (simp add: utf8_def byte_def Let_def)

lemma hex_val_byte: "k < 16 \<Longrightarrow> hex_val (if k < 10 then byte (48 + k) else byte (87 + k)) = Some k"
  by (auto simp: hex_val_def byte_def)

lemma hex4_hex2: "n < 128 \<Longrightarrow> hex4 (''00'' @ hex2 n @ s) = Some n"
proof -
  assume n: "n < 128"
  have "hex_val (CHR ''0'') = Some 0" by (simp add: hex_val_def)
  moreover have "16 * (n div 16 mod 16) + n mod 16 = n" using n by simp
  ultimately show ?thesis by (simp add: hex2_def Let_def hex_val_byte)
qed

lemma str_body_plain:
  "c \<noteq> quote \<Longrightarrow> c \<noteq> backslash \<Longrightarrow> 32 \<le> (of_char c :: nat) \<Longrightarrow> (of_char c :: nat) < 128 \<Longrightarrow>
     str_body (c # s) = front [c] (str_body s)"
  by (subst str_body.simps) simp

lemma str_body_escape:
  "escape_val d = Some x \<Longrightarrow> str_body (backslash # d # s) = front [x] (str_body s)"
  by (subst str_body.simps) (auto simp: escape_val_def backslash_def quote_def split: if_splits)

lemma str_body_u00:
  "n < 128 \<Longrightarrow> str_body (backslash # ''u00'' @ hex2 n @ s) = front [char_of n] (str_body s)"
proof -
  assume n: "n < 128"
  have h: "hex4 (CHR ''0'' # CHR ''0'' # hex2 n @ s) = Some n" using hex4_hex2[OF n, of s] by simp
  have "length (hex2 n) = 2" by (simp add: hex2_def Let_def)
  then have "drop 4 (CHR ''0'' # CHR ''0'' # hex2 n @ s) = s" by simp
  with n h utf8_ascii[OF n] show ?thesis
    by (subst str_body.simps) (simp add: backslash_def quote_def surrogate_def)
qed

lemma escape_val_simps [simp]:
  "escape_val quote = Some quote" "escape_val backslash = Some backslash"
  "escape_val (CHR ''b'') = Some (CHR 0x08)" "escape_val (CHR ''f'') = Some (CHR 0x0C)"
  "escape_val (CHR ''n'') = Some (CHR 0x0A)" "escape_val (CHR ''r'') = Some (CHR 0x0D)"
  "escape_val (CHR ''t'') = Some (CHR 0x09)"
  by (simp_all add: escape_val_def quote_def backslash_def)

lemma str_body_escape_ascii:
  assumes c: "(of_char c :: nat) < 128"
  shows "str_body (escape_ascii c @ s) = front [c] (str_body s)"
proof -
  have u: "str_body (backslash # ''u00'' @ hex2 (of_char c) @ s) = front [c] (str_body s)"
    using str_body_u00[OF c] by simp
  show ?thesis
    unfolding escape_ascii_def
    using u c str_body_plain[of c s]
    by (auto simp: str_body_escape)
qed

lemma str_body_escape_all: "ascii s \<Longrightarrow> str_body (escape s @ quote # r) = Some (s, r)"
proof (induction s)
  case Nil
  then show ?case by (subst escape.simps) (simp add: str_body.simps)
next
  case (Cons c s)
  then have "(of_char c :: nat) < 128" "ascii s" by (simp_all add: ascii_def)
  then show ?case using Cons.IH str_body_escape_ascii[of c]
    by (subst escape.simps) (simp add: front_def)
qed

lemma element_json_string: "ascii s \<Longrightarrow> element (json_string s @ r) = Some (s, r)"
  using str_body_escape_all[of s r] by (simp add: element_def json_string_def)

lemma skip_ws_json_string: "skip_ws (json_string s @ r) = json_string s @ r"
  by (simp add: json_string_def quote_def)

lemma elements_Join:
  "xs \<noteq> [] \<Longrightarrow> list_all ascii xs \<Longrightarrow> elements (Join (map json_string xs) '','' @ CHR '']'' # r) = Some (xs, r)"
proof (induction xs rule: induct_list012)
  case (2 x)
  then show ?case
    by (subst elements.simps) (simp add: skip_ws_json_string element_json_string)
next
  case (3 x y zs)
  then show ?case
    by (subst elements.simps) (simp add: skip_ws_json_string element_json_string)
qed simp

lemma Join_json_string_front: "xs \<noteq> [] \<Longrightarrow> \<exists>u. Join (map json_string xs) '','' = quote # u"
  by (cases xs; cases "tl xs") (auto simp: json_string_def)

lemma json_roundtrip_ascii: "list_all ascii xs \<Longrightarrow> json_strings (json_array (Some xs)) = Some xs"
proof (cases "xs = []")
  case True
  then show ?thesis by (simp add: json_array_def json_strings_def)
next
  case False
  assume a: "list_all ascii xs"
  obtain u where u: "Join (map json_string xs) '','' = quote # u" using Join_json_string_front[OF False] by blast
  have "elements (quote # u @ '']'') = Some (xs, [])" using elements_Join[OF False a, of "[]"] u by simp
  then show ?thesis by (simp add: json_array_def json_strings_def u quote_def)
qed

end
