(* ===== verification/GrantSvc.thy ===== *)
theory GrantSvc
  imports ProjectionLaws Json
begin

text \<open>
  The grant service of \<open>internal/biz/grant/service.go\<close>: role templates, grants and their
  revocation and expiry, the explanation of access decisions.  The repository is the one of
  theory Memory.  A result \<open>Inl er\<close> is the Go result \<open>(nil, \<dots>, er)\<close>; operations that return a
  value together with an error return \<open>Inr (value, error)\<close> for that case.
\<close>

record ResourceRef =
  rr_Type :: string
  rr_ID :: string

record GrantSubject =
  sr_Type :: string
  sr_ID :: string
  sr_Relation :: string

record RegisterRoleTemplateRequest =
  rg_ID :: string
  rg_OrgID :: string
  rg_ResourceType :: string
  rg_RoleKey :: string
  rg_DisplayName :: string
  rg_Description :: string
  rg_Relation :: string
  rg_BuiltIn :: bool
  rg_Enabled :: bool
  rg_SortOrder :: int
  rg_MetadataJSON :: string
  rg_Permissions :: "string list"
  rg_Actor :: GrantSubject

record UpdateRoleTemplateRequest =
  up_ID :: string
  up_DisplayName :: string
  up_Description :: string
  up_Permissions :: "string list"
  up_ExpectedVersion :: int
  up_Actor :: GrantSubject

record DisableRoleTemplateRequest =
  ds_ID :: string
  ds_ExpectedVersion :: int
  ds_ConfirmActiveGrants :: bool
  ds_Actor :: GrantSubject

record RoleTemplateImpact =
  im_ActiveGrantCount :: int
  im_AddedPermissions :: "string list"
  im_RemovedPermissions :: "string list"

record GrantAccessRequest =
  gq_OrgID :: string
  gq_Resource :: ResourceRef
  gq_RoleKey :: string
  gq_Subject :: GrantSubject
  gq_Source :: string
  gq_Reason :: string
  gq_ExpiresAt :: "gotime option"
  gq_CreatedBy :: GrantSubject

record RevokeAccessRequest =
  rv_GrantID :: string
  rv_OrgID :: string
  rv_Reason :: string
  rv_DeleteGraphRelationship :: bool
  rv_Actor :: GrantSubject

record ExplainAccessRequest =
  xp_Resource :: ResourceRef
  xp_Permission :: string
  xp_Subject :: GrantSubject

record ExplainStep =
  xs_Source :: string
  xs_Relation :: string
  xs_Resource :: ResourceRef
  xs_Subject :: GrantSubject
  xs_Reason :: string

record ExplainAccessReply =
  xr_Allowed :: bool
  xr_Effect :: string
  xr_Reason :: string
  xr_ConsistencyToken :: string
  xr_Steps :: "ExplainStep list"

record 'g GrantService =
  gs_repo :: bool
  gs_authorizer :: "'g authorizer option"
  gs_store :: "'g store option"
  gs_projection :: "'g Manager option"

definition firstProjectionManager :: "'g Manager option list \<Rightarrow> 'g Manager option" where
  "firstProjectionManager ms = (case find (\<lambda>m. m \<noteq> None) ms of None \<Rightarrow> None | Some m \<Rightarrow> m)"

text \<open>
  \<open>NewService\<close>; \<open>stores\<close> tells whether the writer also implements \<open>RelationshipStore\<close>.
\<close>

definition NewGrantService ::
    "codec \<Rightarrow> bool \<Rightarrow> bool \<Rightarrow> 'g authorizer option \<Rightarrow> 'g store option \<Rightarrow> 'g Manager option list \<Rightarrow> 'g GrantService" where
  "NewGrantService codec repo stores auth writer managers =
     \<lparr>gs_repo = repo, gs_authorizer = auth, gs_store = (if stores then writer else None),
      gs_projection = (case firstProjectionManager managers of
        None \<Rightarrow> Some (NewManager codec (if repo then Some memory_outbox else None) writer None)
      | Some m \<Rightarrow> Some m)\<rparr>"

subsection \<open>Helpers\<close>

definition derefTime :: "gotime option \<Rightarrow> gotime" where
  "derefTime t = (case t of None \<Rightarrow> zero_time | Some x \<Rightarrow> x)"

definition nonEmpty :: "string \<Rightarrow> string \<Rightarrow> string" where
  "nonEmpty v fallback = (if TrimSpace v \<noteq> [] then TrimSpace v else TrimSpace fallback)"

definition jsonOr :: "string \<Rightarrow> string \<Rightarrow> string" where
  "jsonOr v fallback = (if TrimSpace v \<noteq> [] then TrimSpace v else fallback)"

definition subjectZero :: "GrantSubject \<Rightarrow> bool" where
  "subjectZero s \<longleftrightarrow> TrimSpace (sr_Type s) = [] \<or> TrimSpace (sr_ID s) = []"

definition normalizedSubjectRelation :: "kernel \<Rightarrow> GrantSubject \<Rightarrow> string" where
  "normalizedSubjectRelation K s =
     (let rel = TrimSpace (sr_Relation s)
      in if TrimSpace (sr_Type s) = SubjectTypeGroup K \<and> rel = [] then ''member'' else rel)"

definition toAuthzSubject :: "kernel \<Rightarrow> GrantSubject \<Rightarrow> SubjectRef" where
  "toAuthzSubject K s = Subject (sr_Type s) (sr_ID s) (normalizedSubjectRelation K s)"

primrec normalize_loop :: "string list \<Rightarrow> string list \<Rightarrow> string list" where
  "normalize_loop [] out = out"
| "normalize_loop (value # values) out =
     (let value = TrimSpace value in
      if value = [] then normalize_loop values out
      else if value \<in> set out then normalize_loop values out
      else normalize_loop values (out @ [value]))"

definition normalizeStrings :: "string list \<Rightarrow> string list" where
  "normalizeStrings values = sort (normalize_loop values [])"

definition stringSetDiff :: "string list \<Rightarrow> string list \<Rightarrow> string list \<times> string list" where
  "stringSetDiff current desired =
     (let currentSet = set (normalizeStrings current); desiredSet = set (normalizeStrings desired)
      in (filter (\<lambda>v. v \<notin> currentSet) (normalizeStrings desired),
          filter (\<lambda>v. v \<notin> desiredSet) (normalizeStrings current)))"

definition custom_role_object :: "string \<Rightarrow> string \<Rightarrow> string" where
  "custom_role_object resourceType roleKey = resourceType @ ''_'' @ roleKey"

definition roleCapabilityRelationships :: "RoleTemplateModel option \<Rightarrow> Relationship list" where
  "roleCapabilityRelationships role =
     (case role of None \<Rightarrow> []
      | Some r \<Rightarrow> map (\<lambda>permission.
          \<lparr>rel_Resource = \<lparr>ob_Type = ''custom_role'', ob_ID = custom_role_object (ro_ResourceType r) (ro_RoleKey r)\<rparr>,
           rel_Relation = permission,
           rel_Subject = \<lparr>su_Type = ''user'', su_ID = ''*'', su_Relation = []\<rparr>,
           rel_ExpiresAt = zero_time\<rparr>) (normalizeStrings (ro_Permissions r)))"

definition customGrantRelationships :: "GrantModel option \<Rightarrow> string \<Rightarrow> Relationship list" where
  "customGrantRelationships grant spiceType =
     (case grant of None \<Rightarrow> []
      | Some g \<Rightarrow>
          let expiresAt = derefTime (gr_ExpiresAt g); binding = \<lparr>ob_Type = ''role_binding'', ob_ID = gr_ID g\<rparr> in
          [\<lparr>rel_Resource = binding, rel_Relation = ''role'',
            rel_Subject = \<lparr>su_Type = ''custom_role'',
              su_ID = custom_role_object (gr_ResourceType g) (gr_RoleKey g), su_Relation = []\<rparr>,
            rel_ExpiresAt = expiresAt\<rparr>,
           \<lparr>rel_Resource = binding, rel_Relation = ''grantee'',
            rel_Subject = Subject (gr_SubjectType g) (gr_SubjectID g) (gr_SubjectRelation g),
            rel_ExpiresAt = expiresAt\<rparr>,
           \<lparr>rel_Resource = Object spiceType (gr_ResourceID g), rel_Relation = ''custom_binding'',
            rel_Subject = \<lparr>su_Type = ''role_binding'', su_ID = gr_ID g, su_Relation = []\<rparr>,
            rel_ExpiresAt = expiresAt\<rparr>])"

definition auditForGrant ::
    "string \<Rightarrow> string \<Rightarrow> GrantModel \<Rightarrow> GrantSubject \<Rightarrow> string \<Rightarrow> gotime \<Rightarrow> GrantAuditModel" where
  "auditForGrant ident action g actor reason at =
     \<lparr>ga_ID = ident, ga_OrgID = gr_OrgID g, ga_GrantID = gr_ID g, ga_Action = action,
      ga_ResourceType = gr_ResourceType g, ga_ResourceID = gr_ResourceID g, ga_Relation = gr_Relation g,
      ga_SubjectType = gr_SubjectType g, ga_SubjectID = gr_SubjectID g,
      ga_SubjectRelation = gr_SubjectRelation g, ga_ActorType = TrimSpace (sr_Type actor),
      ga_ActorID = TrimSpace (sr_ID actor), ga_Reason = TrimSpace reason, ga_MetadataJSON = ''{}'',
      ga_CreatedAt = at\<rparr>"

text \<open>The JSON snapshots of a role are the text that encoding/json gives for the model.\<close>

definition roleTemplateAudit ::
    "string \<Rightarrow> RoleTemplateModel option \<Rightarrow> RoleTemplateModel option \<Rightarrow> GrantSubject \<Rightarrow> gotime
     \<Rightarrow> ('g, RoleTemplateAuditModel) op" where
  "roleTemplateAudit action before after actor at =
     bind_io (asks (\<lambda>e w. json_role e)) (\<lambda>js.
     bind_io (new_id ''raudit'') (\<lambda>ident.
     ret \<lparr>ra_ID = ident,
          ra_RoleTemplateID = (case after of Some r \<Rightarrow> ro_ID r
             | None \<Rightarrow> (case before of Some r \<Rightarrow> ro_ID r | None \<Rightarrow> [])),
          ra_Version = (case after of Some r \<Rightarrow> ro_Version r
             | None \<Rightarrow> (case before of Some r \<Rightarrow> ro_Version r | None \<Rightarrow> 0)),
          ra_Action = action, ra_ActorType = TrimSpace (sr_Type actor),
          ra_ActorID = TrimSpace (sr_ID actor), ra_BeforeJSON = js before, ra_AfterJSON = js after,
          ra_CreatedAt = at\<rparr>))"

definition no_repo :: err where "no_repo = ErrNew ''grant service repository is nil''"

text \<open>The dispatch of an event whose write result is not used.\<close>

definition dispatchE :: "'g GrantService \<Rightarrow> OutboxEventModel option \<Rightarrow> ('g, WriteResult) opE" where
  "dispatchE s event =
     bind_io (Dispatch (gs_projection s) event) (\<lambda>(wr, er). ret (case er of None \<Rightarrow> Inr wr | Some x \<Rightarrow> Inl x))"

subsection \<open>Role templates\<close>

definition validateCustomRolePermissions :: "string \<Rightarrow> string list \<Rightarrow> ('g, string list) opE" where
  "validateCustomRolePermissions resourceType permissions =
     (let permissions = normalizeStrings permissions in
      if permissions = [] then failE (ErrNew ''custom role permissions are required'')
      else bindE (GetResourceType (TrimSpace resourceType)) (\<lambda>model.
        if \<not> rt_Grantable model then failE (ErrNew (''resource type is not grantable: '' @ resourceType))
        else (case json_strings (rt_PermissionsJSON model) of
                None \<Rightarrow> failE (ErrNew ''resource type permissions are invalid'')
              | Some allowed \<Rightarrow>
                  (case find (\<lambda>p. p \<notin> set (map TrimSpace allowed)) permissions of
                     Some p \<Rightarrow> failE (ErrNew (''permission is not supported by resource type: '' @ p))
                   | None \<Rightarrow> okE permissions))))"

definition customRole :: "string \<Rightarrow> ('g, RoleTemplateModel) opE" where
  "customRole ident =
     bindE (GetRoleTemplate (TrimSpace ident)) (\<lambda>role.
     if ro_BuiltIn role \<or> ro_Relation role \<noteq> ''custom_binding''
     then failE (ErrNew ''built-in role templates are immutable'') else okE role)"

definition RegisterRoleTemplate ::
    "'g GrantService \<Rightarrow> RegisterRoleTemplateRequest \<Rightarrow> ('g, RoleTemplateModel) opE" where
  "RegisterRoleTemplate s req =
     (if \<not> gs_repo s then failE no_repo
      else
        let rtype = TrimSpace (rg_ResourceType req); rkey = TrimSpace (rg_RoleKey req);
            relation = TrimSpace (rg_Relation req) in
        if rtype = [] \<or> rkey = [] then failE (ErrNew ''resource_type and role_key are required'')
        else
          bindE (if relation = []
                 then bindE (validateCustomRolePermissions rtype (normalizeStrings (rg_Permissions req)))
                        (\<lambda>ps. okE (ps, ''custom_binding''))
                 else okE (normalizeStrings (rg_Permissions req), relation)) (\<lambda>(permissions, relation).
          bind_io now_io (\<lambda>now.
          let ident = (if TrimSpace (rg_ID req) = [] then custom_role_object rtype rkey else TrimSpace (rg_ID req));
              role = \<lparr>ro_ID = ident, ro_OrgID = rg_OrgID req, ro_ResourceType = rtype, ro_RoleKey = rkey,
                ro_DisplayName = nonEmpty (rg_DisplayName req) rkey,
                ro_Description = TrimSpace (rg_Description req), ro_Relation = relation,
                ro_BuiltIn = rg_BuiltIn req,
                ro_Enabled = (if \<not> rg_BuiltIn req \<and> \<not> rg_Enabled req then True else rg_Enabled req),
                ro_SortOrder = rg_SortOrder req, ro_MetadataJSON = jsonOr (rg_MetadataJSON req) ''{}'',
                ro_Version = 1, ro_CreatedAt = now, ro_UpdatedAt = now, ro_Permissions = permissions,
                ro_ActiveGrantCount = 0\<rparr> in
          if ro_Relation role \<noteq> ''custom_binding''
          then bindE (UpsertRoleTemplate role) (\<lambda>_. okE role)
          else
            bindE (NewWriteEvent (gs_projection s) ''role_template'' (ro_ID role)
                     (roleCapabilityRelationships (Some role))) (\<lambda>event.
            bind_io (roleTemplateAudit ''create'' None (Some role) (rg_Actor req) now) (\<lambda>audit.
            bindE (SaveRoleTemplate role (Some audit) [event]) (\<lambda>_.
            bindE (dispatchE s event) (\<lambda>_. okE role)))))))"

definition PreviewRoleTemplateImpact :: "string \<Rightarrow> string list \<Rightarrow> ('g, RoleTemplateImpact) opE" where
  "PreviewRoleTemplateImpact ident permissions =
     bindE (customRole ident) (\<lambda>role.
     bindE (validateCustomRolePermissions (ro_ResourceType role) permissions) (\<lambda>desired.
     bind_io now_io (\<lambda>now.
     bindE (CountActiveGrantsByRole (ro_ID role) now) (\<lambda>count.
     case stringSetDiff (ro_Permissions role) desired of
       (added, removed) \<Rightarrow> okE \<lparr>im_ActiveGrantCount = count, im_AddedPermissions = added,
                                im_RemovedPermissions = removed\<rparr>))))"

text \<open>The error of the repository's update, with the version conflict renamed.\<close>

definition conflict_named :: "('g, 'a) opE \<Rightarrow> ('g, 'a) opE" where
  "conflict_named m = bind_io m (\<lambda>r.
     ret (if r = Inl ErrRoleVersionConflict then Inl (ErrNew ''role template version conflict'') else r))"

definition svc_UpdateRoleTemplate ::
    "'g GrantService \<Rightarrow> UpdateRoleTemplateRequest \<Rightarrow> ('g, RoleTemplateModel) opE" where
  "svc_UpdateRoleTemplate s req =
     bindE (customRole (up_ID req)) (\<lambda>before.
     if up_ExpectedVersion req < 1 then failE (ErrNew ''expected_version must be at least 1'')
     else
       bindE (validateCustomRolePermissions (ro_ResourceType before) (up_Permissions req)) (\<lambda>desired.
       bind_io now_io (\<lambda>now.
       let role = before\<lparr>
             ro_DisplayName := (if TrimSpace (up_DisplayName req) \<noteq> [] then TrimSpace (up_DisplayName req)
                                else ro_DisplayName before),
             ro_Description := TrimSpace (up_Description req), ro_Permissions := desired,
             ro_UpdatedAt := now\<rparr> in
       bindE (NewReplaceEvent (gs_projection s) ''role_template'' (ro_ID role)
                (roleCapabilityRelationships (Some before)) (roleCapabilityRelationships (Some role))) (\<lambda>event.
       bind_io (roleTemplateAudit ''update'' (Some before) (Some role) (up_Actor req) (ro_UpdatedAt role)) (\<lambda>audit.
       bindE (conflict_named (UpdateRoleTemplate role (up_ExpectedVersion req) (Some audit) [event])) (\<lambda>role.
       bindE (dispatchE s event) (\<lambda>_.
       bind_io now_io (\<lambda>now.
       bind_io (CountActiveGrantsByRole (ro_ID role) now) (\<lambda>count.
       okE (role\<lparr>ro_ActiveGrantCount := (case count of Inl _ \<Rightarrow> 0 | Inr n \<Rightarrow> n)\<rparr>))))))))))"

definition DisableRoleTemplate ::
    "'g GrantService \<Rightarrow> DisableRoleTemplateRequest \<Rightarrow> ('g, RoleTemplateModel) opE" where
  "DisableRoleTemplate s req =
     bindE (customRole (ds_ID req)) (\<lambda>before.
     bind_io now_io (\<lambda>now.
     bindE (CountActiveGrantsByRole (ro_ID before) now) (\<lambda>count.
     if count > 0 \<and> \<not> ds_ConfirmActiveGrants req
     then failE (ErrNew ''role template has active grants; confirmation is required'')
     else
       bind_io now_io (\<lambda>now.
       let role = before\<lparr>ro_Enabled := False, ro_UpdatedAt := now\<rparr> in
       bind_io (roleTemplateAudit ''disable'' (Some before) (Some role) (ds_Actor req) (ro_UpdatedAt role)) (\<lambda>audit.
       bindE (conflict_named (UpdateRoleTemplate role (ds_ExpectedVersion req) (Some audit) [])) (\<lambda>role.
       okE (role\<lparr>ro_ActiveGrantCount := count\<rparr>)))))))"

subsection \<open>Granting and revoking access\<close>

definition findRoleTemplate :: "string \<Rightarrow> string \<Rightarrow> ('g, RoleTemplateModel) opE" where
  "findRoleTemplate resourceType roleKey =
     bindE (ListRoleTemplates resourceType) (\<lambda>roles.
     case find (\<lambda>role. ro_RoleKey role = roleKey \<and> ro_Enabled role) roles of
       Some role \<Rightarrow> okE role
     | None \<Rightarrow> failE (ErrNew (''role template not found or disabled: '' @ resourceType @ ''/'' @ roleKey)))"

definition grant_spiceType :: "string \<Rightarrow> ('g, string) opE" where
  "grant_spiceType typ =
     (let typ = TrimSpace typ in
      if typ \<in> {''organization'', ''project'', ''zone'', ''group''} then okE typ
      else bindE (GetResourceType typ) (\<lambda>rt.
           okE (if TrimSpace (rt_SpiceDBType rt) = [] then rt_Type rt else rt_SpiceDBType rt)))"

definition grant_resourceByRef :: "ResourceRef \<Rightarrow> string \<Rightarrow> ('g, unit) opE" where
  "grant_resourceByRef ref orgID =
     (let t = TrimSpace (rr_Type ref) in
      if t = ''organization'' then failE (ErrNew ''resource type organization is removed; use zone'')
      else if t = ''project'' then bindE (GetProject (rr_ID ref) orgID) (\<lambda>_. okE ())
      else if t = ''zone'' \<or> t = ''group''
      then (if TrimSpace (rr_ID ref) = [] then failE (ErrNew ''resource id is required'') else okE ())
      else bindE (GetResource (rr_Type ref) (rr_ID ref) orgID) (\<lambda>_. okE ()))"

definition new_grant ::
    "kernel \<Rightarrow> GrantAccessRequest \<Rightarrow> RoleTemplateModel \<Rightarrow> string \<Rightarrow> gotime \<Rightarrow> GrantModel" where
  "new_grant K req role ident now =
     \<lparr>gr_ID = ident, gr_OrgID = gq_OrgID req, gr_ResourceType = TrimSpace (rr_Type (gq_Resource req)),
      gr_ResourceID = TrimSpace (rr_ID (gq_Resource req)), gr_RoleKey = ro_RoleKey role,
      gr_RoleTemplateID = ro_ID role, gr_Relation = ro_Relation role,
      gr_SubjectType = TrimSpace (sr_Type (gq_Subject req)),
      gr_SubjectID = TrimSpace (sr_ID (gq_Subject req)),
      gr_SubjectRelation = normalizedSubjectRelation K (gq_Subject req),
      gr_Source = nonEmpty (gq_Source req) ''manual'', gr_Reason = TrimSpace (gq_Reason req),
      gr_ExpiresAt = gq_ExpiresAt req, gr_CreatedByType = TrimSpace (sr_Type (gq_CreatedBy req)),
      gr_CreatedByID = TrimSpace (sr_ID (gq_CreatedBy req)), gr_CreatedAt = now, gr_RevokedAt = None\<rparr>"

text \<open>The tuples of a new grant.\<close>

definition grant_rels ::
    "kernel \<Rightarrow> GrantAccessRequest \<Rightarrow> RoleTemplateModel \<Rightarrow> GrantModel \<Rightarrow> string \<Rightarrow> Relationship list" where
  "grant_rels K req role grant spiceType =
     (if ro_Relation role = ''custom_binding'' then customGrantRelationships (Some grant) spiceType
      else [\<lparr>rel_Resource = Object spiceType (TrimSpace (rr_ID (gq_Resource req))),
             rel_Relation = ro_Relation role, rel_Subject = toAuthzSubject K (gq_Subject req),
             rel_ExpiresAt = derefTime (gq_ExpiresAt req)\<rparr>])"

definition GrantAccess ::
    "'g GrantService \<Rightarrow> GrantAccessRequest \<Rightarrow> ('g, GrantModel \<times> WriteResult \<times> err option) opE" where
  "GrantAccess s req =
     (if \<not> gs_repo s then failE no_repo
      else
        let rtype = TrimSpace (rr_Type (gq_Resource req)); rid = TrimSpace (rr_ID (gq_Resource req));
            roleKey = TrimSpace (gq_RoleKey req) in
        if rtype = [] \<or> rid = [] \<or> roleKey = [] \<or> subjectZero (gq_Subject req)
        then failE (ErrNew ''resource, role_key and subject are required'')
        else
          bindE (findRoleTemplate rtype roleKey) (\<lambda>role.
          if \<not> ro_Enabled role then failE (ErrNew ''role template is disabled'')
          else
            bindE (grant_resourceByRef \<lparr>rr_Type = rtype, rr_ID = rid\<rparr> (gq_OrgID req)) (\<lambda>_.
            bind_io (asks (\<lambda>e w. kern e)) (\<lambda>K.
            bind_io (new_id ''grant'') (\<lambda>ident.
            bind_io now_io (\<lambda>now.
            let grant = new_grant K req role ident now in
            bind_io (new_id ''gaudit'') (\<lambda>aid.
            let audit = auditForGrant aid ''grant'' grant (gq_CreatedBy req) (gq_Reason req) now in
            bindE (grant_spiceType rtype) (\<lambda>spiceType.
            bindE (NewWriteEvent (gs_projection s) ''grant'' (gr_ID grant)
                     (grant_rels K req role grant spiceType)) (\<lambda>event.
            bindE (CreateGrant grant (Some audit) [event]) (\<lambda>_.
            bind_io (Dispatch (gs_projection s) event) (\<lambda>(wr, er). okE (grant, wr, er))))))))))))"

definition grant_filter :: "GrantModel \<Rightarrow> string \<Rightarrow> RelationshipFilter" where
  "grant_filter g spiceType =
     \<lparr>f_ResourceType = spiceType, f_ResourceID = gr_ResourceID g, f_Relation = gr_Relation g,
      f_SubjectType = gr_SubjectType g, f_SubjectID = gr_SubjectID g, f_SubjectRel = gr_SubjectRelation g\<rparr>"

definition grant_rel :: "GrantModel \<Rightarrow> string \<Rightarrow> Relationship" where
  "grant_rel g spiceType =
     \<lparr>rel_Resource = Object spiceType (gr_ResourceID g), rel_Relation = gr_Relation g,
      rel_Subject = Subject (gr_SubjectType g) (gr_SubjectID g) (gr_SubjectRelation g),
      rel_ExpiresAt = derefTime (gr_ExpiresAt g)\<rparr>"

text \<open>The event that deletes the tuples of a stored grant, for a revocation or an expiry.\<close>

definition grant_delete_event ::
    "'g GrantService \<Rightarrow> GrantModel \<Rightarrow> string \<Rightarrow> ('g, OutboxEventModel option) opE" where
  "grant_delete_event s g spiceType =
     (if gr_Relation g = ''custom_binding''
      then let rels = customGrantRelationships (Some g) spiceType
           in NewBatchDeleteEvent (gs_projection s) ''grant'' (gr_ID g) (map filter_of rels) rels
      else NewDeleteEvent (gs_projection s) ''grant'' (gr_ID g) (grant_filter g spiceType)
             [grant_rel g spiceType])"

definition RevokeAccess ::
    "'g GrantService \<Rightarrow> RevokeAccessRequest \<Rightarrow> ('g, WriteResult \<times> err option) opE" where
  "RevokeAccess s req =
     (if \<not> gs_repo s then failE no_repo
      else
        let gid = TrimSpace (rv_GrantID req) in
        if gid = [] then failE (ErrNew ''grant_id is required'')
        else
          bindE (GetGrant gid (rv_OrgID req)) (\<lambda>existing.
          bind_io now_io (\<lambda>now.
          bind_io (new_id ''gaudit'') (\<lambda>aid.
          let audit = auditForGrant aid ''revoke'' existing (rv_Actor req) (rv_Reason req) now in
          bindE (grant_spiceType (gr_ResourceType existing)) (\<lambda>spiceType.
          bindE (grant_delete_event s existing spiceType) (\<lambda>event.
          bindE (RevokeGrant gid (rv_OrgID req) now (Some audit) [event]) (\<lambda>_.
          bind_io (Dispatch (gs_projection s) event) okE)))))))"

definition expireOne :: "'g GrantService \<Rightarrow> GrantModel \<Rightarrow> ('g, unit) opE" where
  "expireOne s g =
     bind_io now_io (\<lambda>now.
     bindE (grant_spiceType (gr_ResourceType g)) (\<lambda>spiceType.
     bind_io (new_id ''gaudit'') (\<lambda>aid.
     let audit = \<lparr>ga_ID = aid, ga_OrgID = gr_OrgID g, ga_GrantID = gr_ID g, ga_Action = ''expire'',
           ga_ResourceType = gr_ResourceType g, ga_ResourceID = gr_ResourceID g,
           ga_Relation = gr_Relation g, ga_SubjectType = gr_SubjectType g,
           ga_SubjectID = gr_SubjectID g, ga_SubjectRelation = gr_SubjectRelation g,
           ga_ActorType = ''system'', ga_ActorID = ''taskx/grant-expiration-reconciler'',
           ga_Reason = ''grant expired'', ga_MetadataJSON = ''{}'', ga_CreatedAt = now\<rparr> in
     bindE (grant_delete_event s g spiceType) (\<lambda>event.
     bindE (RevokeGrant (gr_ID g) (gr_OrgID g) now (Some audit) [event]) (\<lambda>_.
     bindE (dispatchE s event) (\<lambda>_. okE ()))))))"

text \<open>The loop over the due grants keeps the last error and goes on.\<close>

definition expire_step :: "'g GrantService \<Rightarrow> GrantModel \<Rightarrow> err option \<Rightarrow> ('g, err option) op" where
  "expire_step s g lastErr =
     bind_io (expireOne s g) (\<lambda>r. ret (case r of Inl er \<Rightarrow> Some er | Inr _ \<Rightarrow> lastErr))"

definition ExpireDueGrants :: "'g GrantService \<Rightarrow> ('g, unit) opE" where
  "ExpireDueGrants s =
     (if \<not> gs_repo s then failE no_repo
      else bindE (ListDueExpiringGrants 100) (\<lambda>gs.
        bind_io (fold_io (expire_step s) gs None) (\<lambda>lastErr.
        ret (case lastErr of None \<Rightarrow> Inr () | Some er \<Rightarrow> Inl er))))"

subsection \<open>Explaining a decision\<close>

definition read_rels :: "'g store \<Rightarrow> RelationshipFilter \<Rightarrow> ('g, Relationship list) op" where
  "read_rels st f = bind_io (on_graph (st_read st f)) (\<lambda>r. ret (case r of Inl _ \<Rightarrow> [] | Inr rels \<Rightarrow> rels))"

text \<open>The reasons of the steps, in UTF-8.\<close>

definition reason_direct :: string where
  "reason_direct = map byte [231,155,180, 230,142,165, 230,142,136, 230,157,131]"
definition reason_group :: string where
  "reason_group = map byte [231,148,168, 230,136,183, 231,187,132, 231,187,167, 230,137,191]"
definition reason_parent :: string where
  "reason_parent = map byte [231,136,182, 232,181,132, 230,186,144, 231,187,167, 230,137,191]"
definition reason_org :: string where
  "reason_org = map byte [231,187,132, 231,187,135, 231,186,167, 230,157,131, 233,153,144]"
definition reason_platform :: string where
  "reason_platform = map byte [229,185,179, 229,143,176, 231,186,167, 230,157,131, 233,153,144]"

definition step_of :: "string \<Rightarrow> ResourceRef \<Rightarrow> GrantSubject \<Rightarrow> string \<Rightarrow> Relationship \<Rightarrow> ExplainStep" where
  "step_of source res sub reason rel = \<lparr>xs_Source = source, xs_Relation = rel_Relation rel,
     xs_Resource = res, xs_Subject = sub, xs_Reason = reason\<rparr>"

definition tracePermissionChain ::
    "'g GrantService \<Rightarrow> string \<Rightarrow> string \<Rightarrow> string \<Rightarrow> string \<Rightarrow> GrantSubject \<Rightarrow> ('g, ExplainStep list) op" where
  "tracePermissionChain s spiceType resourceID productType permission subject =
     (case gs_store s of
        None \<Rightarrow> ret []
      | Some st \<Rightarrow>
          let of_subject = empty_filter\<lparr>f_SubjectType := sr_Type subject, f_SubjectID := sr_ID subject\<rparr>;
              on_res = empty_filter\<lparr>f_ResourceType := spiceType, f_ResourceID := resourceID\<rparr>;
              res = \<lparr>rr_Type = productType, rr_ID = resourceID\<rparr>;
              user = subject\<lparr>sr_Relation := []\<rparr> in
          bind_io (read_rels st (of_subject\<lparr>f_ResourceType := spiceType, f_ResourceID := resourceID\<rparr>)) (\<lambda>rels.
          bind_io (read_rels st (of_subject\<lparr>f_ResourceType := ''group'', f_Relation := ''member''\<rparr>)) (\<lambda>groups.
          bind_io (fold_io (\<lambda>g steps.
              bind_io (read_rels st (on_res\<lparr>f_SubjectType := ''group'', f_SubjectID := ob_ID (rel_Resource g),
                         f_SubjectRel := ''member''\<rparr>)) (\<lambda>groupRels.
              ret (steps @ map (step_of ''GROUP_GRANT'' res
                     \<lparr>sr_Type = ''group'', sr_ID = ob_ID (rel_Resource g), sr_Relation = []\<rparr> reason_group) groupRels)))
            groups (map (step_of ''DIRECT'' res subject reason_direct) rels)) (\<lambda>steps.
          bind_io (read_rels st (on_res\<lparr>f_Relation := ''parent''\<rparr>)) (\<lambda>parents.
          bind_io (fold_io (\<lambda>p steps.
              bind_io (read_rels st (of_subject\<lparr>f_ResourceType := su_Type (rel_Subject p),
                         f_ResourceID := su_ID (rel_Subject p)\<rparr>)) (\<lambda>parentRels.
              ret (steps @ map (step_of ''PARENT_INHERITANCE''
                     \<lparr>rr_Type = su_Type (rel_Subject p), rr_ID = su_ID (rel_Subject p)\<rparr> user reason_parent) parentRels)))
            parents steps) (\<lambda>steps.
          bind_io (read_rels st (of_subject\<lparr>f_ResourceType := ''zone''\<rparr>)) (\<lambda>zoneRels.
          bind_io (read_rels st (of_subject\<lparr>f_ResourceType := ''platform''\<rparr>)) (\<lambda>platformRels.
          ret (steps
            @ map (\<lambda>zr. step_of ''ORG_INHERITANCE'' \<lparr>rr_Type = ''zone'', rr_ID = ob_ID (rel_Resource zr)\<rparr>
                          user reason_org zr) zoneRels
            @ map (\<lambda>pr. step_of ''PLATFORM_INHERITANCE'' \<lparr>rr_Type = ''platform'', rr_ID = ob_ID (rel_Resource pr)\<rparr>
                          user reason_platform pr) platformRels)))))))))"

definition ExplainAccess ::
    "'g GrantService \<Rightarrow> ExplainAccessRequest \<Rightarrow> ('g, ExplainAccessReply) opE" where
  "ExplainAccess s req =
     (case gs_authorizer s of
        None \<Rightarrow> failE (ErrNew ''authorizer is nil'')
      | Some auth \<Rightarrow>
          if rr_Type (xp_Resource req) = [] \<or> rr_ID (xp_Resource req) = []
             \<or> TrimSpace (xp_Permission req) = [] \<or> subjectZero (xp_Subject req)
          then failE (ErrNew ''resource, permission and subject are required'')
          else
            bindE (grant_spiceType (rr_Type (xp_Resource req))) (\<lambda>spiceType.
            bind_io (asks (\<lambda>e w. kern e)) (\<lambda>K.
            bindE (on_graph (auth \<lparr>chk_Subject = toAuthzSubject K (xp_Subject req),
                     chk_Resource = Object spiceType (rr_ID (xp_Resource req)),
                     chk_Permission = TrimSpace (xp_Permission req), chk_OrgID = [], chk_ProjectID = []\<rparr>)) (\<lambda>decision.
            bind_io (tracePermissionChain s spiceType (rr_ID (xp_Resource req)) (rr_Type (xp_Resource req))
                       (xp_Permission req) (xp_Subject req)) (\<lambda>steps.
            okE \<lparr>xr_Allowed = dec_Allowed decision, xr_Effect = dec_Effect decision,
                 xr_Reason = dec_Reason decision, xr_ConsistencyToken = dec_Token decision,
                 xr_Steps = steps\<rparr>)))))"

end
