(* ===== verification/GrantLaws.thy ===== *)
theory GrantLaws
  imports GrantSvc
begin

text \<open>
  What the grant service guarantees: permission lists in normal form and their differences,
  validation against the resource type, the persistence of a grant with its audit record and
  its outbox event, and the removal of its tuples on revocation.
\<close>

subsection \<open>Permission lists\<close>

lemma normalize_loop_set: "set (normalize_loop vs out) = set out \<union> {v \<in> TrimSpace ` set vs. v \<noteq> []}"
  by (induction vs arbitrary: out) (auto simp: Let_def)

lemma normalize_loop_distinct: "distinct out \<Longrightarrow> distinct (normalize_loop vs out)"
  by (induction vs arbitrary: out) (auto simp: Let_def)

lemma set_normalizeStrings [simp]: "set (normalizeStrings vs) = TrimSpace ` set vs - {[]}"
  by (auto simp: normalizeStrings_def normalize_loop_set)

lemma sorted_normalizeStrings [simp]: "sorted (normalizeStrings vs)"
  by (simp add: normalizeStrings_def)

lemma distinct_normalizeStrings [simp]: "distinct (normalizeStrings vs)"
  by (simp add: normalizeStrings_def normalize_loop_distinct)

lemma normalizeStrings_unique:
  "sorted xs \<Longrightarrow> distinct xs \<Longrightarrow> set xs = TrimSpace ` set vs - {[]} \<Longrightarrow> normalizeStrings vs = xs"
  by (metis sorted_distinct_set_unique set_normalizeStrings sorted_normalizeStrings distinct_normalizeStrings)

lemma normalizeStrings_idem [simp]: "normalizeStrings (normalizeStrings vs) = normalizeStrings vs"
proof (rule normalizeStrings_unique)
  show "set (normalizeStrings vs) = TrimSpace ` set (normalizeStrings vs) - {[]}"
    by (auto simp: image_iff intro!: bexI[of _ "TrimSpace x" for x])
qed simp_all

text \<open>Permission lists have one normal form.  \<open>normalizeStrings\<close> returns the trimmed, non-empty
  entries, sorted and without repetition, so that it does not depend on the order or the
  repetitions of its input and normalizing twice changes nothing.\<close>

theorem normal_form:
  "sorted (normalizeStrings vs) \<and> distinct (normalizeStrings vs)
    \<and> set (normalizeStrings vs) = TrimSpace ` set vs - {[]}
    \<and> normalizeStrings (normalizeStrings vs) = normalizeStrings vs
    \<and> (TrimSpace ` set vs - {[]} = TrimSpace ` set us - {[]}) = (normalizeStrings vs = normalizeStrings us)"
proof -
  have "normalizeStrings vs = normalizeStrings us" if "TrimSpace ` set vs - {[]} = TrimSpace ` set us - {[]}"
    by (rule normalizeStrings_unique) (simp_all add: that)
  moreover have "TrimSpace ` set vs - {[]} = TrimSpace ` set us - {[]}" if "normalizeStrings vs = normalizeStrings us"
    using that set_normalizeStrings by metis
  ultimately have "(TrimSpace ` set vs - {[]} = TrimSpace ` set us - {[]}) = (normalizeStrings vs = normalizeStrings us)"
    by blast
  then show ?thesis
    by (intro conjI set_normalizeStrings sorted_normalizeStrings distinct_normalizeStrings normalizeStrings_idem)
qed

text \<open>The impact preview is exact.  The added permissions are those of the new list that the old
  one lacks, the removed ones those of the old list that the new one lacks; removing the one and
  adding the other turns the old list into the new one.\<close>

theorem set_diff_exact:
  "case stringSetDiff current desired of (added, removed) \<Rightarrow>
     set added = set (normalizeStrings desired) - set (normalizeStrings current)
     \<and> set removed = set (normalizeStrings current) - set (normalizeStrings desired)
     \<and> (set (normalizeStrings current) - set removed) \<union> set added = set (normalizeStrings desired)
     \<and> sorted added \<and> sorted removed \<and> distinct added \<and> distinct removed"
  by (auto simp: stringSetDiff_def Let_def sorted_wrt_filter simp del: set_normalizeStrings)

lemma GetResourceType_run: "GetResourceType t e w =
    (case get_key (resourceTypes (db w)) t of None \<Rightarrow> (Inl (not_found ''resource type'' t), w) | Some v \<Rightarrow> (Inr v, w))"
  by (simp add: GetResourceType_def bind_io_def split: option.splits)

text \<open>The permissions a resource type offers.\<close>

definition offered :: "'g world \<Rightarrow> string \<Rightarrow> string set" where
  "offered w rtype =
     (case get_key (resourceTypes (db w)) (TrimSpace rtype) of None \<Rightarrow> {}
      | Some m \<Rightarrow> if rt_Grantable m
                  then (case json_strings (rt_PermissionsJSON m) of None \<Rightarrow> {} | Some ps \<Rightarrow> TrimSpace ` set ps)
                  else {})"

text \<open>Custom roles stay within their resource type.  Validation accepts a permission list exactly
  when its normal form is not empty and holds only permissions that the registered, grantable
  resource type offers; it then returns the normal form, and it never changes anything.\<close>

theorem permissions_validated:
  "snd (validateCustomRolePermissions rtype ps e w) = w
    \<and> (fst (validateCustomRolePermissions rtype ps e w) = Inr qs)
      = (qs = normalizeStrings ps \<and> qs \<noteq> [] \<and> set qs \<subseteq> offered w rtype)"
proof -
  note d = validateCustomRolePermissions_def offered_def bindE_def bind_io_def GetResourceType_run Let_def
  have sub: "find (\<lambda>p. p \<notin> A) xs = None \<longleftrightarrow> set xs \<subseteq> A" for A and xs :: "string list"
    by (auto simp: find_None_iff)
  show ?thesis
  proof (cases "get_key (resourceTypes (db w)) (TrimSpace rtype)")
    case None
    then show ?thesis by (auto simp: d simp del: set_normalizeStrings)
  next
    case (Some m)
    show ?thesis
    proof (cases "json_strings (rt_PermissionsJSON m)")
      case None
      with Some show ?thesis by (auto simp: d simp del: set_normalizeStrings)
    next
      case js: (Some allowed)
      have "find (\<lambda>p. p \<notin> TrimSpace ` set allowed) (normalizeStrings ps) = None
          \<longleftrightarrow> set (normalizeStrings ps) \<subseteq> TrimSpace ` set allowed" by (rule sub)
      with Some js show ?thesis
        by (cases "find (\<lambda>p. p \<notin> TrimSpace ` set allowed) (normalizeStrings ps)")
          (auto simp: d simp del: set_normalizeStrings)
    qed
  qed
qed


subsection \<open>From an operation to its event\<close>

text \<open>
  Direct dispatch: the manager works on this repository, writes to \<open>S\<close>, has no DTM, and its JSON
  codec reads back what it wrote.
\<close>

definition codec_ok :: "'g Manager \<Rightarrow> bool" where
  "codec_ok mg \<longleftrightarrow> (\<forall>p b. mg_marshal mg p = Inr b \<longrightarrow> mg_unmarshal mg b = Inr p)"

definition direct :: "'g Manager option \<Rightarrow> 'g store \<Rightarrow> ('g \<Rightarrow> tuple set) \<Rightarrow> bool" where
  "direct m S T \<longleftrightarrow> (\<exists>mg. m = Some mg \<and> on_memory mg S \<and> mg_dtm mg = None \<and> codec_ok mg) \<and> tuple_store S T"

lemma last_timestamp [simp]: "timestamp t \<noteq> []" "last (timestamp t) = CHR ''0''"
  by (simp_all add: timestamp_def Let_def split: prod.splits)

lemma hex_digit_visible: "k < 16 \<Longrightarrow> visible (hex_digit k)"
  by (auto simp: visible_def Let_def hex_digit_val)

lemma last_hex: "b \<noteq> [] \<Longrightarrow> hex_encode b \<noteq> [] \<and> visible (last (hex_encode b))"
  by (cases b rule: rev_cases) (simp_all add: hex_encode_def hex_digit_visible)

lemma TrimSpace_outbox [simp]: "TrimSpace ''outbox'' = ''outbox''"
  by (rule TrimSpace_visible) (simp_all add: visible_def)

lemma TrimSpace_idgen:
  assumes "TrimSpace p = p" "p \<noteq> []" "visible (hd p)"
  shows "TrimSpace (idgen_New p t r) = idgen_New p t r"
proof (rule TrimSpace_visible)
  show "visible (last (idgen_New p t r))"
  proof (cases r)
    case None
    then show ?thesis by (simp add: idgen_New_def visible_def assms)
  next
    case (Some b)
    then show ?thesis using last_hex[of b]
      by (cases "b = []") (simp_all add: idgen_New_def visible_def hex_encode_def assms)
  qed
qed (use assms in \<open>auto simp: idgen_New_def Let_def hd_append split: option.splits\<close>)

lemma TrimSpace_new_id: "TrimSpace (idgen_New ''outbox'' t r) = idgen_New ''outbox'' t r"
  by (rule TrimSpace_idgen) (simp_all add: visible_def)

lemma newEvent_iff:
  "newEvent m at ai p e w = (Inr ev, w') \<longleftrightarrow>
     (\<exists>mg body. m = Some mg \<and> mg_marshal mg p = Inr body \<and> w' = tick (tick w)
       \<and> ev = \<lparr>ev_ID = idgen_New ''outbox'' (clock e (ticks (tick w))) (rand4 e (ticks (tick w))), ev_OrgID = [],
            ev_Topic = TopicAuthzProjection, ev_AggregateType = TrimSpace at, ev_AggregateID = TrimSpace ai,
            ev_PayloadJSON = body, ev_Status = StatusPending, ev_RetryCount = 0, ev_NextRunAt = None,
            ev_LastError = [], ev_CreatedAt = clock e (ticks w), ev_UpdatedAt = clock e (ticks w)\<rparr>)"
  by (auto simp: newEvent_def bindE_Inr_iff bind_io_iff split: option.splits)

text \<open>What an event that was just built satisfies.\<close>

definition fresh :: "'g Manager option \<Rightarrow> Payload \<Rightarrow> OutboxEventModel \<Rightarrow> bool" where
  "fresh m p ev \<longleftrightarrow> ev_Status ev = StatusPending \<and> TrimSpace (ev_ID ev) = ev_ID ev
     \<and> (\<exists>mg. m = Some mg \<and> mg_marshal mg p = Inr (ev_PayloadJSON ev))"

lemma newEvent_fresh:
  "newEvent m at ai p e w = (Inr ev, w') \<Longrightarrow> fresh m p ev \<and> db w' = db w \<and> graph w' = graph w"
  by (auto simp: newEvent_iff fresh_def TrimSpace_new_id)

lemma events_saveEvents1:
  "ev_Status ev \<noteq> [] \<Longrightarrow> get_key (events (saveEvents [Some ev] r)) (ev_ID ev) = Some ev"
  by (simp add: saveEvents_def saveEvent_def Let_def update_conv')

lemma dispatch_fresh:
  assumes d: "direct m S T" and f: "fresh m p ev" and st: "get_key (events (db w)) (ev_ID ev) = Some ev"
    and run: "Dispatch m (Some ev) e w = ((wr, r), w')"
  shows "\<exists>v'. get_key (events (db w')) = (get_key (events (db w)))(ev_ID ev := Some v')
    \<and> (case r of None \<Rightarrow> ev_Status v' = StatusSynced \<and> projected p (T (graph w)) (T (graph w'))
       | Some er \<Rightarrow> ev_RetryCount v' = wrap64 (ev_RetryCount ev + 1) \<and> ev_Status v' \<in> {StatusFailed, StatusDead})"
proof -
  obtain mg where mg: "m = Some mg" "on_memory mg S" "mg_dtm mg = None" "codec_ok mg" "tuple_store S T"
    using d by (auto simp: direct_def)
  have se: "stored_event mg w (ev_ID ev) ev p"
    using f st mg(1,4) by (auto simp: stored_event_def fresh_def codec_ok_def)
  have ns: "ev_Status ev \<noteq> StatusSynced" using f by (simp add: fresh_def)
  have "ApplyEvent (Some mg) (ev_ID ev) e w = ((wr, r), w')"
    using run mg by (simp add: Dispatch_def dtm_enabled_def bind_io_def on_memory_def)
  from event_outcome[OF mg(2,5) se ns this] show ?thesis by (fastforce split: option.splits)
qed

subsection \<open>Readings change nothing\<close>

text \<open>The relation of readings: tables and tuples are as before.\<close>

abbreviation unchanged :: "'g world \<Rightarrow> 'g world \<Rightarrow> bool" where
  "unchanged \<equiv> same (\<lambda>w. (db w, graph w))"

lemma db_frame_unchanged [steps_rules]: "db_frame unchanged"
  by (simp add: db_frame_def frame_rel_same) (simp add: same_def)

lemma steps_roleTemplateAudit [steps_rules]: "db_frame R \<Longrightarrow> steps R (roleTemplateAudit a b c d t)"
  unfolding roleTemplateAudit_def by (intro steps_rules | assumption | erule db_frame_frame)+

lemma steps_builders [steps_rules]:
  assumes R: "db_frame R"
  shows "steps R (newEvent m at ai p)" "steps R (NewWriteEvent m at ai rels)"
    "steps R (NewDeleteEvent m at ai f rels)" "steps R (NewBatchDeleteEvent m at ai fs rels)"
    "steps R (NewReplaceEvent m at ai old new)"
proof -
  show n: "steps R (newEvent m at ai p)" for p
    unfolding newEvent_def by (intro steps_rules R db_frame_frame[OF R])
  show "steps R (NewWriteEvent m at ai rels)" "steps R (NewDeleteEvent m at ai f rels)"
    "steps R (NewBatchDeleteEvent m at ai fs rels)" "steps R (NewReplaceEvent m at ai old new)"
    unfolding NewWriteEvent_def NewDeleteEvent_def NewBatchDeleteEvent_def NewReplaceEvent_def
    by (intro steps_rules R n db_frame_frame[OF R])+
qed

lemma steps_grant_reads [steps_rules]:
  assumes R: "db_frame R"
  shows "steps R (findRoleTemplate a b)" "steps R (grant_spiceType a)" "steps R (grant_resourceByRef ref b)"
    "steps R (validateCustomRolePermissions a ps)" "steps R (customRole a)"
    "steps R (grant_delete_event s g a)"
  unfolding findRoleTemplate_def grant_spiceType_def grant_resourceByRef_def
    validateCustomRolePermissions_def customRole_def grant_delete_event_def Let_def
  by (intro steps_rules R db_frame_frame[OF R])+

subsection \<open>Requests that are refused\<close>

text \<open>An error result means that nothing was changed.\<close>

definition err_clean :: "('g, 'a) opE \<Rightarrow> bool" where
  "err_clean m \<longleftrightarrow> (\<forall>e w er w'. m e w = (Inl er, w') \<longrightarrow> unchanged w w')"

lemma err_clean_reads: "steps unchanged m \<Longrightarrow> err_clean m"
  by (auto simp: err_clean_def dest: stepsD)

lemma err_clean_bindE: "steps unchanged m \<Longrightarrow> (\<And>x. err_clean (f x)) \<Longrightarrow> err_clean (bindE m f)"
  by (auto simp: err_clean_def bindE_Inl_iff same_def dest: stepsD)

lemma err_clean_bind_io: "steps unchanged m \<Longrightarrow> (\<And>x. err_clean (f x)) \<Longrightarrow> err_clean (bind_io m f)"
  by (auto simp: err_clean_def bind_io_iff same_def dest: stepsD)

lemma err_clean_if: "err_clean m \<Longrightarrow> err_clean n \<Longrightarrow> err_clean (if b then m else n)"
  by simp

lemma err_clean_last: "err_clean m \<Longrightarrow> (\<And>x e w. \<exists>y w'. f x e w = (Inr y, w')) \<Longrightarrow> err_clean (bindE m f)"
  unfolding err_clean_def bindE_Inl_iff by (metis Inl_Inr_False prod.inject)

lemma err_clean_CreateGrant: "err_clean (CreateGrant g a evs)"
  by (auto simp: err_clean_def CreateGrant_def bind_io_iff)

lemma err_clean_RevokeGrant: "err_clean (RevokeGrant i o1 t a evs)"
  by (auto simp: err_clean_def same_def dest: grant_revoke.mut_err)

lemma dispatch_okE: "\<exists>y w'. bind_io (Dispatch m ev) (\<lambda>(wr, er). okE (f wr er)) e w = (Inr y, w')"
  by (auto simp: bind_io_def split: prod.splits)

lemma err_clean_GrantAccess: "err_clean (GrantAccess s req)"
  unfolding GrantAccess_def Let_def
  by (intro err_clean_bindE err_clean_bind_io err_clean_if err_clean_last err_clean_CreateGrant
      dispatch_okE err_clean_reads steps_rules)

lemma err_clean_RevokeAccess: "err_clean (RevokeAccess s req)"
  unfolding RevokeAccess_def Let_def
  by (intro err_clean_bindE err_clean_bind_io err_clean_if err_clean_last err_clean_RevokeGrant
      err_clean_reads steps_rules)
    (auto simp: bind_io_def split: prod.splits)

text \<open>Refused requests change nothing.  When granting or revoking returns no grant or write result
  but only an error (missing fields, unknown or disabled role, unknown resource, a grant of
  another organization, a payload that cannot be encoded), the tables and the tuples are exactly
  as before: nothing is persisted and nothing is projected.\<close>

theorem refused_access_changes:
  assumes "GrantAccess s req e w = (Inl er1, w1)" "RevokeAccess s rq e w = (Inl er2, w2)"
  shows "db w1 = db w \<and> graph w1 = graph w \<and> db w2 = db w \<and> graph w2 = graph w"
  using assms err_clean_GrantAccess[of s req] err_clean_RevokeAccess[of s rq]
  by (fastforce simp: err_clean_def same_def)

lemma refused_access_changes_witness:
  "let s = \<lparr>gs_repo = True, gs_authorizer = None, gs_store = None, gs_projection = None\<rparr>;
       req = \<lparr>gq_OrgID = ''zeta'', gq_Resource = \<lparr>rr_Type = [], rr_ID = ''s1''\<rparr>, gq_RoleKey = ''viewer'',
         gq_Subject = \<lparr>sr_Type = ''user'', sr_ID = ''u1'', sr_Relation = []\<rparr>, gq_Source = [], gq_Reason = [],
         gq_ExpiresAt = None, gq_CreatedBy = \<lparr>sr_Type = [], sr_ID = [], sr_Relation = []\<rparr>\<rparr>;
       rq = \<lparr>rv_GrantID = ''g9'', rv_OrgID = ''zeta'', rv_Reason = [], rv_DeleteGraphRelationship = True,
         rv_Actor = \<lparr>sr_Type = [], sr_ID = [], sr_Relation = []\<rparr>\<rparr>
   in db (snd (GrantAccess s req sample_env zeta_world)) = db zeta_world
     \<and> db (snd (RevokeAccess s rq sample_env zeta_world)) = db zeta_world"
proof -
  let ?s = "\<lparr>gs_repo = True, gs_authorizer = None, gs_store = None, gs_projection = None\<rparr> :: unit GrantService"
  let ?req = "\<lparr>gq_OrgID = ''zeta'', gq_Resource = \<lparr>rr_Type = [], rr_ID = ''s1''\<rparr>, gq_RoleKey = ''viewer'',
         gq_Subject = \<lparr>sr_Type = ''user'', sr_ID = ''u1'', sr_Relation = []\<rparr>, gq_Source = [], gq_Reason = [],
         gq_ExpiresAt = None, gq_CreatedBy = \<lparr>sr_Type = [], sr_ID = [], sr_Relation = []\<rparr>\<rparr>"
  let ?rq = "\<lparr>rv_GrantID = ''g9'', rv_OrgID = ''zeta'', rv_Reason = [], rv_DeleteGraphRelationship = True,
         rv_Actor = \<lparr>sr_Type = [], sr_ID = [], sr_Relation = []\<rparr>\<rparr>"
  have g: "GrantAccess ?s ?req sample_env zeta_world = (Inl (ErrNew ''resource, role_key and subject are required''), zeta_world)"
    by (simp add: GrantAccess_def Let_def)
  have g9: "TrimSpace ''g9'' = ''g9''" by (rule TrimSpace_visible) (simp_all add: visible_def)
  have "grant_at (db zeta_world) ''g9'' = None"
    using single_table[OF zeta_world_tables(4,5)] by auto
  then have "GetGrant ''g9'' ''zeta'' sample_env zeta_world = (Inl (not_found ''grant'' ''g9''), zeta_world)"
    by (simp add: GetGrant_def bind_io_def scoped_def)
  then have r: "RevokeAccess ?s ?rq sample_env zeta_world = (Inl (not_found ''grant'' ''g9''), zeta_world)"
    by (simp add: RevokeAccess_def g9 Let_def)
  show ?thesis using refused_access_changes[OF g r] g r by (simp add: Let_def)
qed

subsection \<open>Grants that are made\<close>

text \<open>Dispatching on this repository touches events and tuples only.\<close>

definition non_events :: "MemoryRepo \<Rightarrow> MemoryRepo" where "non_events r = r\<lparr>events := []\<rparr>"

abbreviation events_only :: "'g world \<Rightarrow> 'g world \<Rightarrow> bool" where
  "events_only \<equiv> same (\<lambda>w. non_events (db w))"

lemma steps_memory_outbox:
  "steps events_only (or_UpdateOutboxEvent memory_outbox i cols)"
  "steps events_only (or_IncrementOutboxRetry memory_outbox i)"
  "steps events_only (or_GetOutboxEvent memory_outbox i)"
  by (auto simp: steps_def same_def memory_outbox_def UpdateOutboxEvent_def IncrementOutboxRetry_def
      GetOutboxEvent_def bindE_def bind_io_def Let_def non_events_def split: option.splits)

lemma steps_markFailed:
  assumes repo: "mg_repo mg = Some memory_outbox"
  shows "steps events_only (markFailed (Some mg) i er)"
  unfolding markFailed_def Let_def
  by (simp add: repo) (intro steps_rules steps_memory_outbox db_frame_frame)

lemma steps_load:
  assumes repo: "mg_repo mg = Some memory_outbox"
  shows "steps events_only (load (Some mg) i)"
  by (cases "mg_writer mg"; simp add: load_def repo) (intro steps_rules steps_memory_outbox)+

lemma steps_fail_and_mark:
  "mg_repo mg = Some memory_outbox \<Longrightarrow> steps events_only (fail_and_mark (Some mg) i wr er)"
  unfolding fail_and_mark_def by (intro steps_rules steps_markFailed)

lemma steps_ApplyEvent:
  assumes repo: "mg_repo mg = Some memory_outbox"
  shows "steps events_only (ApplyEvent (Some mg) i)"
  unfolding ApplyEvent_def
  apply (rule steps_bind_io[OF frame_rel_same steps_load[OF repo]])
  subgoal for x
    by (cases x; cases "mg_writer mg"; clarsimp simp: repo)
      (intro conjI impI steps_rules steps_memory_outbox steps_fail_and_mark repo)+
  done

lemma steps_Dispatch:
  assumes repo: "mg_repo mg = Some memory_outbox"
  shows "steps events_only (Dispatch (Some mg) ev)"
  unfolding Dispatch_def dtm_enabled_def
  by (cases ev; simp) (intro conjI impI steps_rules db_frame_frame steps_fail_and_mark steps_ApplyEvent repo)+

text \<open>The SpiceDB type of a resource type, as the tables give it.\<close>

definition spice_of :: "MemoryRepo \<Rightarrow> string \<Rightarrow> err + string" where
  "spice_of r typ =
     (let t = TrimSpace typ in
      if t \<in> {''organization'', ''project'', ''zone'', ''group''} then Inr t
      else (case get_key (resourceTypes r) t of None \<Rightarrow> Inl (not_found ''resource type'' t)
            | Some rt \<Rightarrow> Inr (if TrimSpace (rt_SpiceDBType rt) = [] then rt_Type rt else rt_SpiceDBType rt)))"

lemma grant_spiceType_run: "grant_spiceType t e w = (spice_of (db w) t, w)"
  by (simp add: grant_spiceType_def spice_of_def Let_def bindE_def bind_io_def GetResourceType_run
      split: option.splits)

lemma unchangedD: "steps unchanged m \<Longrightarrow> m e w = (x, w') \<Longrightarrow> db w' = db w \<and> graph w' = graph w"
  by (auto dest!: stepsD simp: same_def)

lemmas unchanged_grant_reads = steps_grant_reads[OF db_frame_unchanged, THEN unchangedD]
lemmas unchanged_builders = steps_builders[OF db_frame_unchanged, THEN unchangedD]
lemmas unchanged_reads = steps_reads[OF db_frame_unchanged, THEN unchangedD]

lemma steps_findRoleTemplate_found:
  "findRoleTemplate t k e w = (Inr role, w') \<Longrightarrow> ro_RoleKey role = k \<and> ro_Enabled role"
  by (auto simp: findRoleTemplate_def bindE_Inr_iff find_Some_iff split: option.splits)

lemma NewWriteEvent_Some:
  "NewWriteEvent m at ai rels e w = (Inr event, w') \<Longrightarrow> rels \<noteq> [] \<Longrightarrow>
     \<exists>ev. event = Some ev \<and> fresh m (empty_payload\<lparr>pl_Operation := OperationWrite, pl_Relationships := rels\<rparr>) ev"
  by (auto simp: NewWriteEvent_def bindE_Inr_iff dest: newEvent_fresh)

lemma grant_rels_nonempty: "grant_rels K req role g st \<noteq> []"
  by (simp add: grant_rels_def customGrantRelationships_def Let_def)

lemma CreateGrant_run:
  assumes "CreateGrant g a evs e w = (r, w')"
  shows "\<exists>c. db w' = saveEvents evs (put_audit a (put_grant (g\<lparr>gr_CreatedAt := c\<rparr>) (db w))) \<and> graph w' = graph w"
proof -
  obtain c w1 where c: "nowIfZero (gr_CreatedAt g) e w = (c, w1)" by fastforce
  then have "db w1 = db w \<and> graph w1 = graph w" by (auto simp: nowIfZero_run split: if_splits)
  with assms c show ?thesis by (auto simp: CreateGrant_def bind_io_def)
qed

text \<open>The state in which \<open>GrantAccess\<close> dispatches its event.\<close>

definition persisted :: "GrantModel \<Rightarrow> GrantAuditModel \<Rightarrow> OutboxEventModel \<Rightarrow> MemoryRepo \<Rightarrow> MemoryRepo" where
  "persisted g a ev r = saveEvents [Some ev] (put_audit (Some a) (put_grant g r))"

lemma GrantAccess_success:
  fixes w :: "'g world"
  assumes run: "GrantAccess s req e w = (Inr (g, wr, r), w')"
  shows "\<exists>role ident now c a st ev w1 w2.
      findRoleTemplate (TrimSpace (rr_Type (gq_Resource req))) (TrimSpace (gq_RoleKey req)) e w = (Inr role, w1)
    \<and> g = new_grant (kern e) req role ident now
    \<and> ga_GrantID a = gr_ID g \<and> ga_Action a = ''grant''
    \<and> spice_of (db w) (TrimSpace (rr_Type (gq_Resource req))) = Inr st
    \<and> fresh (gs_projection s) (empty_payload\<lparr>pl_Operation := OperationWrite,
        pl_Relationships := grant_rels (kern e) req role g st\<rparr>) ev
    \<and> db w2 = persisted (g\<lparr>gr_CreatedAt := c\<rparr>) a ev (db w) \<and> graph w2 = graph w
    \<and> Dispatch (gs_projection s) (Some ev) e w2 = ((wr, r), w')"
proof -
  let ?t = "TrimSpace (rr_Type (gq_Resource req))"
  from run obtain role w1 u w3 ident w4 now w5 aid w6 st w7 event w8 v w9 where
    steps: "findRoleTemplate ?t (TrimSpace (gq_RoleKey req)) e w = (Inr role, w1)"
      "grant_resourceByRef \<lparr>rr_Type = ?t, rr_ID = TrimSpace (rr_ID (gq_Resource req))\<rparr> (gq_OrgID req) e w1 = (Inr u, w3)"
      "new_id ''grant'' e w3 = (ident, w4)" "now_io e w4 = (now, w5)" "new_id ''gaudit'' e w5 = (aid, w6)"
      "grant_spiceType ?t e w6 = (Inr st, w7)"
    and ev: "NewWriteEvent (gs_projection s) ''grant'' (gr_ID (new_grant (kern e) req role ident now))
        (grant_rels (kern e) req role (new_grant (kern e) req role ident now) st) e w7 = (Inr event, w8)"
    and cr: "CreateGrant (new_grant (kern e) req role ident now)
        (Some (auditForGrant aid ''grant'' (new_grant (kern e) req role ident now) (gq_CreatedBy req) (gq_Reason req) now))
        [event] e w8 = (Inr v, w9)"
    and di: "Dispatch (gs_projection s) event e w9 = ((wr, r), w')"
    and g: "g = new_grant (kern e) req role ident now"
    unfolding GrantAccess_def Let_def
    by (auto simp: bindE_Inr_iff bind_io_iff split: if_splits simp del: now_io_run new_id_run)
  have "db w8 = db w \<and> graph w8 = graph w" "db w6 = db w"
    using unchanged_grant_reads(1)[OF steps(1)] unchanged_grant_reads(3)[OF steps(2)] steps(3-5)
      unchanged_grant_reads(2)[OF steps(6)] unchanged_builders(2)[OF ev] by auto
  moreover obtain ev' where ev': "event = Some ev'" "fresh (gs_projection s) (empty_payload\<lparr>pl_Operation := OperationWrite,
        pl_Relationships := grant_rels (kern e) req role g st\<rparr>) ev'"
    using NewWriteEvent_Some[OF ev grant_rels_nonempty] g by auto
  moreover obtain c where c: "db w9 = persisted (g\<lparr>gr_CreatedAt := c\<rparr>)
      (auditForGrant aid ''grant'' g (gq_CreatedBy req) (gq_Reason req) now) ev' (db w8)" "graph w9 = graph w8"
    using CreateGrant_run[OF cr] ev'(1) g by (auto simp: persisted_def)
  ultimately have "db w9 = persisted (g\<lparr>gr_CreatedAt := c\<rparr>)
      (auditForGrant aid ''grant'' g (gq_CreatedBy req) (gq_Reason req) now) ev' (db w)" "graph w9 = graph w"
    "db w6 = db w" by simp_all
  moreover have "ga_GrantID (auditForGrant aid ''grant'' g (gq_CreatedBy req) (gq_Reason req) now) = gr_ID g"
    "ga_Action (auditForGrant aid ''grant'' g (gq_CreatedBy req) (gq_Reason req) now) = ''grant''"
    by (simp_all add: auditForGrant_def)
  moreover have "spice_of (db w6) ?t = Inr st" using steps(6) by (metis grant_spiceType_run prod.inject)
  ultimately show ?thesis using steps(1) di[unfolded ev'(1)] g ev'(2) by metis
qed

lemma non_events_persisted:
  "grants (persisted g a ev r) = put_key (gr_ID g) g (grants r)"
  "get_key (audits (persisted g a ev r)) (ga_ID a) = Some a"
  "ev_Status ev \<noteq> [] \<Longrightarrow> get_key (events (persisted g a ev r)) (ev_ID ev) = Some ev"
  by (simp_all add: persisted_def put_grant_def put_audit_def update_conv' events_saveEvents1)

lemma dispatch_keeps:
  assumes "direct m S T" "Dispatch m ev e w = (x, w')"
  shows "grants (db w') = grants (db w)" "audits (db w') = audits (db w)" "roles (db w') = roles (db w)"
    "resources (db w') = resources (db w)" "projects (db w') = projects (db w)" "bindings (db w') = bindings (db w)"
proof -
  obtain mg where "m = Some mg" "mg_repo mg = Some memory_outbox" using assms(1) by (auto simp: direct_def on_memory_def)
  with assms(2) steps_Dispatch[of mg ev] have "non_events (db w') = non_events (db w)"
    by (auto dest!: stepsD simp: same_def)
  then have "f (non_events (db w')) = f (non_events (db w))" for f :: "MemoryRepo \<Rightarrow> 'z" by simp
  note e = arg_cong[OF \<open>non_events (db w') = non_events (db w)\<close>]
  show "grants (db w') = grants (db w)" "audits (db w') = audits (db w)" "roles (db w') = roles (db w)"
    "resources (db w') = resources (db w)" "projects (db w') = projects (db w)" "bindings (db w') = bindings (db w)"
    using e[of grants] e[of audits] e[of roles] e[of resources] e[of projects] e[of bindings]
    by (simp_all add: non_events_def)
qed

text \<open>C26. A grant is recorded whatever happens to its projection.  When \<open>GrantAccess\<close> returns a grant,
  with or without an error, the grant is stored under its identifier, for the requested resource,
  subject and organization, from an enabled role with the requested key, together with an audit
  record of the grant; and its outbox event is either synced, with the tuples of the grant
  written, or failed or dead, for the retry worker or an operator to take up.\<close>

theorem grant_recorded:
  assumes d: "direct (gs_projection s) S T" and run: "GrantAccess s req e w = (Inr (g, wr, r), w')"
  shows "\<exists>role c a st v' ev.
      fst (findRoleTemplate (TrimSpace (rr_Type (gq_Resource req))) (TrimSpace (gq_RoleKey req)) e w) = Inr role
    \<and> ro_Enabled role \<and> ro_RoleKey role = TrimSpace (gq_RoleKey req)
    \<and> spice_of (db w) (TrimSpace (rr_Type (gq_Resource req))) = Inr st
    \<and> grant_at (db w') (gr_ID g) = Some (g\<lparr>gr_CreatedAt := c\<rparr>)
    \<and> gr_OrgID g = gq_OrgID req \<and> gr_RoleTemplateID g = ro_ID role
    \<and> gr_ResourceType g = TrimSpace (rr_Type (gq_Resource req)) \<and> gr_ResourceID g = TrimSpace (rr_ID (gq_Resource req))
    \<and> gr_SubjectID g = TrimSpace (sr_ID (gq_Subject req)) \<and> gr_RevokedAt g = None
    \<and> get_key (audits (db w')) (ga_ID a) = Some a \<and> ga_GrantID a = gr_ID g \<and> ga_Action a = ''grant''
    \<and> get_key (events (db w')) ev = Some v'
    \<and> (case r of None \<Rightarrow> ev_Status v' = StatusSynced \<and> T (graph w') = T (graph w) \<union> keys (grant_rels (kern e) req role g st)
       | Some er \<Rightarrow> ev_Status v' \<in> {StatusFailed, StatusDead})"
proof -
  from GrantAccess_success[OF run] obtain role ident now c a st ev w1 w2 where
    f: "findRoleTemplate (TrimSpace (rr_Type (gq_Resource req))) (TrimSpace (gq_RoleKey req)) e w = (Inr role, w1)"
    and g: "g = new_grant (kern e) req role ident now" and a: "ga_GrantID a = gr_ID g" "ga_Action a = ''grant''"
    and ev: "fresh (gs_projection s) (empty_payload\<lparr>pl_Operation := OperationWrite,
        pl_Relationships := grant_rels (kern e) req role g st\<rparr>) ev"
    and sp: "spice_of (db w) (TrimSpace (rr_Type (gq_Resource req))) = Inr st"
    and w2: "db w2 = persisted (g\<lparr>gr_CreatedAt := c\<rparr>) a ev (db w)" "graph w2 = graph w"
    and di: "Dispatch (gs_projection s) (Some ev) e w2 = ((wr, r), w')"
    by auto
  have st: "ev_Status ev \<noteq> []" using ev by (simp add: fresh_def)
  have "get_key (events (db w2)) (ev_ID ev) = Some ev" using w2(1) st by (simp add: non_events_persisted)
  from dispatch_fresh[OF d ev this di] obtain v' where
    v': "get_key (events (db w')) (ev_ID ev) = Some v'"
    "case r of None \<Rightarrow> ev_Status v' = StatusSynced \<and> projected (empty_payload\<lparr>pl_Operation := OperationWrite,
        pl_Relationships := grant_rels (kern e) req role g st\<rparr>) (T (graph w2)) (T (graph w'))
       | Some er \<Rightarrow> ev_Status v' \<in> {StatusFailed, StatusDead}"
    by (fastforce split: option.splits)
  have out: "case r of None \<Rightarrow> ev_Status v' = StatusSynced \<and> T (graph w') = T (graph w) \<union> keys (grant_rels (kern e) req role g st)
       | Some er \<Rightarrow> ev_Status v' \<in> {StatusFailed, StatusDead}"
    using v'(2) w2(2) by (simp add: projected_def split: option.splits)
  have "grant_at (db w') (gr_ID g) = Some (g\<lparr>gr_CreatedAt := c\<rparr>)"
    using dispatch_keeps(1)[OF d di] w2(1) by (simp add: non_events_persisted update_conv')
  moreover have "get_key (audits (db w')) (ga_ID a) = Some a"
    using dispatch_keeps(2)[OF d di] w2(1) by (simp add: non_events_persisted)
  moreover note steps_findRoleTemplate_found[OF f] a v'(1) out sp
  moreover have "gr_OrgID g = gq_OrgID req" "gr_RoleTemplateID g = ro_ID role"
    "gr_ResourceType g = TrimSpace (rr_Type (gq_Resource req))" "gr_ResourceID g = TrimSpace (rr_ID (gq_Resource req))"
    "gr_SubjectID g = TrimSpace (sr_ID (gq_Subject req))" "gr_RevokedAt g = None"
    by (simp_all add: g new_grant_def)
  moreover have "fst (findRoleTemplate (TrimSpace (rr_Type (gq_Resource req))) (TrimSpace (gq_RoleKey req)) e w) = Inr role"
    using f by simp
  ultimately show ?thesis by blast
qed

subsection \<open>Grants that are revoked\<close>

definition revoke_payload :: "GrantModel \<Rightarrow> string \<Rightarrow> Payload" where
  "revoke_payload g st =
     (if gr_Relation g = ''custom_binding''
      then let rels = customGrantRelationships (Some g) st in
           empty_payload\<lparr>pl_Operation := OperationDelete, pl_Filters := map filter_of rels, pl_Relationships := rels\<rparr>
      else empty_payload\<lparr>pl_Operation := OperationDelete, pl_Filter := grant_filter g st,
             pl_Relationships := [grant_rel g st]\<rparr>)"

definition revoke_filters :: "GrantModel \<Rightarrow> string \<Rightarrow> RelationshipFilter list" where
  "revoke_filters g st =
     (if gr_Relation g = ''custom_binding'' then map filter_of (customGrantRelationships (Some g) st)
      else [grant_filter g st])"

lemma projected_revoke: "projected (revoke_payload g st) A B \<longleftrightarrow> deleted (revoke_filters g st) A B"
  by (simp add: projected_def revoke_payload_def revoke_filters_def Let_def customGrantRelationships_def
      empty_payload_def)

lemma grant_delete_event_fresh:
  "grant_delete_event s g st e w = (Inr event, w') \<Longrightarrow>
     \<exists>ev. event = Some ev \<and> fresh (gs_projection s) (revoke_payload g st) ev"
  by (auto simp: grant_delete_event_def revoke_payload_def Let_def NewDeleteEvent_def NewBatchDeleteEvent_def
      bindE_Inr_iff split: if_splits dest: newEvent_fresh)

definition revoked_db :: "string \<Rightarrow> GrantModel \<Rightarrow> gotime \<Rightarrow> GrantAuditModel \<Rightarrow> OutboxEventModel \<Rightarrow> MemoryRepo \<Rightarrow> MemoryRepo" where
  "revoked_db i g t a ev r = saveEvents [Some ev] (put_audit (Some a)
     (r\<lparr>grants := put_key i (g\<lparr>gr_RevokedAt := Some t\<rparr>) (grants r)\<rparr>))"

lemma RevokeGrant_run:
  "RevokeGrant i o1 t a evs e w = (Inr u, w') \<longleftrightarrow>
     (\<exists>v. grant_at (db w) i = Some v \<and> gr_OrgID v = o1 \<and> w' = w\<lparr>db := saveEvents evs (put_audit a
        ((db w)\<lparr>grants := put_key i (v\<lparr>gr_RevokedAt := Some t\<rparr>) (grants (db w))\<rparr>))\<rparr>)"
  by (auto simp: RevokeGrant_def mutator_unfold split: sum.splits)

lemma RevokeAccess_success:
  assumes run: "RevokeAccess s rq e w = (Inr (wr, r), w')"
  shows "\<exists>g st now a ev w2. grant_at (db w) (TrimSpace (rv_GrantID rq)) = Some g \<and> gr_OrgID g = rv_OrgID rq
    \<and> spice_of (db w) (gr_ResourceType g) = Inr st \<and> fresh (gs_projection s) (revoke_payload g st) ev
    \<and> ga_Action a = ''revoke'' \<and> ga_GrantID a = gr_ID g
    \<and> db w2 = revoked_db (TrimSpace (rv_GrantID rq)) g now a ev (db w) \<and> graph w2 = graph w
    \<and> Dispatch (gs_projection s) (Some ev) e w2 = ((wr, r), w')"
proof -
  let ?i = "TrimSpace (rv_GrantID rq)"
  from run obtain g w1 now w2 aid w3 st w4 event w5 u w6 where
    steps: "GetGrant ?i (rv_OrgID rq) e w = (Inr g, w1)" "now_io e w1 = (now, w2)"
      "new_id ''gaudit'' e w2 = (aid, w3)" "grant_spiceType (gr_ResourceType g) e w3 = (Inr st, w4)"
    and ev: "grant_delete_event s g st e w4 = (Inr event, w5)"
    and re: "RevokeGrant ?i (rv_OrgID rq) now
        (Some (auditForGrant aid ''revoke'' g (rv_Actor rq) (rv_Reason rq) now)) [event] e w5 = (Inr u, w6)"
    and di: "Dispatch (gs_projection s) event e w6 = ((wr, r), w')"
    unfolding RevokeAccess_def Let_def
    by (auto simp: bindE_Inr_iff bind_io_iff split: if_splits simp del: now_io_run new_id_run)
  have g: "grant_at (db w) ?i = Some g" "gr_OrgID g = rv_OrgID rq" "w1 = w"
    using steps(1) by (auto simp: grant_reads.get_ok)
  have same: "db w3 = db w" "db w5 = db w" "graph w5 = graph w"
    using g(3) steps(2-4) unchanged_grant_reads(6)[OF ev] by (auto simp: grant_spiceType_run)
  have sp: "spice_of (db w) (gr_ResourceType g) = Inr st" using steps(4) same(1) by (simp add: grant_spiceType_run)
  obtain ev' where ev': "event = Some ev'" "fresh (gs_projection s) (revoke_payload g st) ev'"
    using grant_delete_event_fresh[OF ev] by auto
  have "db w6 = revoked_db ?i g now (auditForGrant aid ''revoke'' g (rv_Actor rq) (rv_Reason rq) now) ev' (db w)"
    "graph w6 = graph w"
    using re g(1) same by (auto simp: RevokeGrant_run revoked_db_def ev'(1))
  moreover have "ga_Action (auditForGrant aid ''revoke'' g (rv_Actor rq) (rv_Reason rq) now) = ''revoke''"
    "ga_GrantID (auditForGrant aid ''revoke'' g (rv_Actor rq) (rv_Reason rq) now) = gr_ID g"
    by (simp_all add: auditForGrant_def)
  ultimately show ?thesis using g(1,2) sp ev'(2) di[unfolded ev'(1)] by metis
qed

lemma revoked_db_at:
  "grants (revoked_db i g t a ev r) = put_key i (g\<lparr>gr_RevokedAt := Some t\<rparr>) (grants r)"
  "ev_Status ev \<noteq> [] \<Longrightarrow> get_key (events (revoked_db i g t a ev r)) (ev_ID ev) = Some ev"
  by (simp_all add: revoked_db_def events_saveEvents1)

lemma TrimSpace_member [simp]: "TrimSpace ''member'' = ''member''"
  by (rule TrimSpace_visible) (simp_all add: visible_def)

lemma TrimSpace_normalizedSubjectRelation [simp]:
  "TrimSpace (normalizedSubjectRelation K s) = normalizedSubjectRelation K s"
  by (simp add: normalizedSubjectRelation_def Let_def)

text \<open>The filters of a revocation select the tuples that the grant wrote.\<close>

lemma revoke_selects:
  assumes g: "g = (new_grant K req role ident now)\<lparr>gr_CreatedAt := c\<rparr>" and st: "TrimSpace st = st"
    and t: "t \<in> keys (grant_rels K req role (new_grant K req role ident now) st)"
  shows "\<exists>f \<in> set (revoke_filters g st). narrow f t"
proof (cases "ro_Relation role = ''custom_binding''")
  case True
  have "customGrantRelationships (Some g) st = customGrantRelationships (Some (new_grant K req role ident now)) st"
    by (simp add: g customGrantRelationships_def)
  moreover have "gr_Relation g = ''custom_binding''" using True by (simp add: g new_grant_def)
  moreover obtain x where "x \<in> set (customGrantRelationships (Some (new_grant K req role ident now)) st)" "t = rel_key x"
    using t True by (auto simp: grant_rels_def)
  ultimately show ?thesis by (intro bexI[of _ "filter_of x"]) (auto simp: revoke_filters_def)
next
  case False
  then have "gr_Relation g = ro_Relation role" "gr_Relation g \<noteq> ''custom_binding''"
    by (simp_all add: g new_grant_def)
  with False t st show ?thesis
    by (simp add: revoke_filters_def grant_rels_def rel_key_def narrow_def grant_filter_def field_matches_def
        g new_grant_def toAuthzSubject_def)
qed

lemma revoke_filters_created: "revoke_filters (g\<lparr>gr_CreatedAt := c\<rparr>) st = revoke_filters g st"
  by (simp add: revoke_filters_def customGrantRelationships_def grant_filter_def)

text \<open>C6. Revocation takes away what was granted.  Suppose a grant made by \<open>GrantAccess\<close> is stored, and
  the SpiceDB type of its resource has no surrounding spaces.  A revocation that returns without
  an error marks exactly this grant as revoked and leaves none of the tuples that granting it had
  written in the relationship store, for built-in and for custom roles, and it keeps every tuple
  that the filters of the grant do not match.\<close>

theorem revocation_removes_access:
  assumes d: "direct (gs_projection s) S T"
    and g: "grant_at (db w) (TrimSpace (rv_GrantID rq)) = Some ((new_grant K req role ident now)\<lparr>gr_CreatedAt := c\<rparr>)"
    and st: "spice_of (db w) (TrimSpace (rr_Type (gq_Resource req))) = Inr st" "TrimSpace st = st"
    and run: "RevokeAccess s rq e w = (Inr (wr, None), w')"
  shows "keys (grant_rels K req role (new_grant K req role ident now) st) \<inter> T (graph w') = {}
    \<and> {t \<in> T (graph w). \<nexists>f. f \<in> set (revoke_filters (new_grant K req role ident now) st) \<and> wide f t} \<subseteq> T (graph w')
    \<and> (\<exists>t. grant_at (db w') = (grant_at (db w))(TrimSpace (rv_GrantID rq) :=
         Some ((new_grant K req role ident now)\<lparr>gr_CreatedAt := c, gr_RevokedAt := Some t\<rparr>)))"
proof -
  let ?n = "new_grant K req role ident now"
  from RevokeAccess_success[OF run] g obtain st' t a ev w2 where
    sp: "spice_of (db w) (gr_ResourceType ?n) = Inr st'"
    and ev: "fresh (gs_projection s) (revoke_payload (?n\<lparr>gr_CreatedAt := c\<rparr>) st') ev"
    and w2: "db w2 = revoked_db (TrimSpace (rv_GrantID rq)) (?n\<lparr>gr_CreatedAt := c\<rparr>) t a ev (db w)" "graph w2 = graph w"
    and di: "Dispatch (gs_projection s) (Some ev) e w2 = ((wr, None), w')"
    by auto
  have st': "st' = st" using sp st(1) by (simp add: new_grant_def)
  have "ev_Status ev \<noteq> []" using ev by (simp add: fresh_def)
  then have "get_key (events (db w2)) (ev_ID ev) = Some ev" using w2(1) by (simp add: revoked_db_at)
  from dispatch_fresh[OF d ev this di] w2(2) st'
  have "deleted (revoke_filters (?n\<lparr>gr_CreatedAt := c\<rparr>) st) (T (graph w)) (T (graph w'))"
    by (auto simp: projected_revoke)
  then have del: "deleted (revoke_filters ?n st) (T (graph w)) (T (graph w'))"
    by (simp add: revoke_filters_created)
  have "keys (grant_rels K req role ?n st) \<inter> T (graph w') = {}"
    using revoke_selects[OF refl st(2), of _ K req role ident now] del
    by (fastforce simp: deleted_def revoke_filters_created)
  moreover have "grant_at (db w') = (grant_at (db w))(TrimSpace (rv_GrantID rq) :=
         Some (?n\<lparr>gr_CreatedAt := c, gr_RevokedAt := Some t\<rparr>))"
    using dispatch_keeps(1)[OF d di] w2(1) by (auto simp: revoked_db_at update_conv' fun_eq_iff)
  moreover have "{t \<in> T (graph w). \<nexists>f. f \<in> set (revoke_filters ?n st) \<and> wide f t} \<subseteq> T (graph w')"
    using del by (auto simp: deleted_def)
  ultimately show ?thesis by blast
qed

subsection \<open>A run of the service\<close>

definition sample_type :: ResourceTypeModel where
  "sample_type = \<lparr>rt_Type = ''skill'', rt_CapabilityID = [], rt_OwnerService = ''skill'',
     rt_ParentTypesJSON = ''[]'', rt_Grantable = True, rt_Auditable = True, rt_SpiceDBType = [],
     rt_RelationsJSON = ''[]'', rt_PermissionsJSON = ''[]'', rt_MetadataSchema = ''{}'',
     rt_Status = StatusActive, rt_CreatedAt = 1, rt_UpdatedAt = 1\<rparr>"

definition grant_world :: "GrantModel gomap \<Rightarrow> Relationship list \<Rightarrow> (Relationship list) world" where
  "grant_world gs g = (empty_world g)\<lparr>db := NewMemoryControlPlaneRepository\<lparr>
     resourceTypes := [(''skill'', sample_type)], resources := [(''skill:s1'', sample_resource ''skill'' ''s1'' ''zeta'')],
     roles := [(''skill:viewer'', sample_role ''r1'' 1)], grants := gs\<rparr>\<rparr>"

definition one_payload_manager :: "Payload \<Rightarrow> (Relationship list) Manager" where
  "one_payload_manager p = NewManager (\<lambda>q. if q = p then Inr ''w'' else Inl (ErrExternal ''marshal''),
     \<lambda>s. if s = ''w'' then Inr p else Inl (ErrExternal ''bad json'')) (Some memory_outbox)
     (Some (set_store False [])) None"

definition sample_service :: "Payload \<Rightarrow> (Relationship list) GrantService" where
  "sample_service p = \<lparr>gs_repo = True, gs_authorizer = None, gs_store = Some (set_store False []),
     gs_projection = Some (one_payload_manager p)\<rparr>"

definition sample_request :: GrantAccessRequest where
  "sample_request = \<lparr>gq_OrgID = ''zeta'', gq_Resource = \<lparr>rr_Type = ''skill'', rr_ID = ''s1''\<rparr>,
     gq_RoleKey = ''viewer'', gq_Subject = \<lparr>sr_Type = ''user'', sr_ID = ''u1'', sr_Relation = []\<rparr>,
     gq_Source = [], gq_Reason = [], gq_ExpiresAt = None,
     gq_CreatedBy = \<lparr>sr_Type = ''user'', sr_ID = ''admin'', sr_Relation = []\<rparr>\<rparr>"

definition viewer_payload :: Payload where
  "viewer_payload = empty_payload\<lparr>pl_Operation := OperationWrite,
     pl_Relationships := [sample_rel ''s1'' ''viewer'' ''u1'']\<rparr>"

lemma sample_direct: "direct (gs_projection (sample_service p)) (set_store False []) set_tuples"
  by (simp add: direct_def sample_service_def one_payload_manager_def NewManager_def on_memory_def codec_ok_def
      tuple_store_set_store split: if_splits)

lemmas trims = TrimSpace_visible visible_def

lemma sample_find: "findRoleTemplate ''skill'' ''viewer'' sample_env (grant_world [] g)
    = (Inr (sample_role ''r1'' 1), tick (tick (grant_world [] g)))"
  by (simp add: findRoleTemplate_def ListRoleTemplates_def bindE_def bind_io_def grant_world_def empty_world_def
      NewMemoryControlPlaneRepository_def sample_role_def Let_def)

lemma sample_grant_rels: "grant_rels (kern sample_env) sample_request (sample_role ''r1'' 1) g ''skill''
    = [sample_rel ''s1'' ''viewer'' ''u1'']"
  by (simp add: grant_rels_def sample_role_def sample_request_def sample_rel_def toAuthzSubject_def
      normalizedSubjectRelation_def Let_def sample_env_def sample_kernel_def trims Subject_def Object_def derefTime_def)

lemma sample_spice: "spice_of (db (grant_world gs g)) ''skill'' = Inr ''skill''"
  by (simp add: spice_of_def grant_world_def sample_type_def trims Let_def)

lemma sample_grant_run:
  "\<exists>g wr r w'. GrantAccess (sample_service viewer_payload) sample_request sample_env (grant_world [] []) = (Inr (g, wr, r), w')"
proof -
  have res: "GetResource ''skill'' ''s1'' ''zeta'' sample_env w = (Inr (sample_resource ''skill'' ''s1'' ''zeta''), w)"
    if "db w = db (grant_world [] [])" for w :: "Relationship list world"
    using that by (simp add: GetResource_def bind_io_def key_def scoped_def grant_world_def sample_resource_def)
  have st: "grant_spiceType ''skill'' sample_env w = (Inr ''skill'', w)"
    if "db w = db (grant_world [] [])" for w :: "Relationship list world"
    using that sample_spice[of "[]" "[]"] by (simp add: grant_spiceType_run)
  have ref: "grant_resourceByRef \<lparr>rr_Type = ''skill'', rr_ID = ''s1''\<rparr> ''zeta'' sample_env w = (Inr (), w)"
    if "db w = db (grant_world [] [])" for w :: "Relationship list world"
    using res[OF that] by (simp add: grant_resourceByRef_def Let_def trims)
  have ev: "\<exists>ev w'. NewWriteEvent (gs_projection (sample_service viewer_payload)) ''grant'' i
      [sample_rel ''s1'' ''viewer'' ''u1''] sample_env w = (Inr (Some ev), w')" for i and w :: "Relationship list world"
    by (simp add: NewWriteEvent_def newEvent_def sample_service_def one_payload_manager_def NewManager_def
        viewer_payload_def bindE_def bind_io_def)
  have cr: "CreateGrant g a evs sample_env w \<noteq> (Inl er, w')" for g a evs er w' and w :: "Relationship list world"
    by (simp add: CreateGrant_def bind_io_def split: prod.splits)
  have req: "TrimSpace (rr_Type (gq_Resource sample_request)) = ''skill''" "TrimSpace (rr_ID (gq_Resource sample_request)) = ''s1''"
    "TrimSpace (gq_RoleKey sample_request) = ''viewer''" "\<not> subjectZero (gq_Subject sample_request)"
    "gq_OrgID sample_request = ''zeta''" "gs_repo (sample_service viewer_payload)" "ro_Enabled (sample_role ''r1'' 1)"
    by (simp_all add: sample_request_def trims subjectZero_def sample_service_def sample_role_def)
  let ?w1 = "tick (tick (grant_world [] []))"
  let ?g = "new_grant (kern sample_env) sample_request (sample_role ''r1'' 1)
     (idgen_New ''grant'' (clock sample_env (ticks ?w1)) (rand4 sample_env (ticks ?w1))) (clock sample_env (ticks (tick ?w1)))"
  obtain ev' w4 where e4: "NewWriteEvent (gs_projection (sample_service viewer_payload)) ''grant'' (gr_ID ?g)
      [sample_rel ''s1'' ''viewer'' ''u1''] sample_env (tick (tick (tick ?w1))) = (Inr (Some ev'), w4)" using ev by blast
  show ?thesis
    unfolding GrantAccess_def Let_def req if_True if_False
    by (simp add: req sample_find bindE_def bind_io_def ref st sample_grant_rels e4 cr split: prod.splits sum.splits)
qed

lemma dispatch_accepts:
  assumes "direct m S T" "fresh m p ev" "get_key (events (db w)) (ev_ID ev) = Some ev" "accepts S p"
  shows "\<exists>wr w'. Dispatch m (Some ev) e w = ((wr, None), w')"
proof -
  obtain mg where mg: "m = Some mg" "on_memory mg S" "mg_dtm mg = None" "codec_ok mg"
    using assms(1) by (auto simp: direct_def)
  have "stored_event mg w (ev_ID ev) ev p"
    using assms(2,3) mg(1,4) by (auto simp: stored_event_def fresh_def codec_ok_def)
  then have l: "mem.loads mg w (ev_ID ev) ev p" by (simp add: mem_loads)
  have ns: "ev_Status ev \<noteq> StatusSynced" using assms(2) by (simp add: fresh_def)
  obtain wr g' where "project_payload S p (graph w) = ((wr, None), g')"
    using assms(4) unfolding accepts_def by blast
  from mem.apply_ok[OF mg(2)[unfolded mem_configured] l ns this, of e] obtain w' where
    "ApplyEvent (Some mg) (ev_ID ev) e w = ((wr, None), w')" by blast
  then show ?thesis using mg by (simp add: Dispatch_def dtm_enabled_def bind_io_def on_memory_def)
qed

lemma grant_recorded_witness:
  "\<exists>g wr r w'. GrantAccess (sample_service viewer_payload) sample_request sample_env (grant_world [] []) = (Inr (g, wr, r), w')
    \<and> grant_at (db w') (gr_ID g) \<noteq> None \<and> gr_OrgID g = ''zeta''"
proof -
  obtain g wr r w' where run: "GrantAccess (sample_service viewer_payload) sample_request sample_env (grant_world [] [])
      = (Inr (g, wr, r), w')" using sample_grant_run by blast
  from grant_recorded[OF sample_direct run] have "grant_at (db w') (gr_ID g) \<noteq> None" "gr_OrgID g = ''zeta''"
    by (auto simp: sample_request_def)
  with run show ?thesis by blast
qed

definition granted :: GrantModel where
  "granted = (new_grant (kern sample_env) sample_request (sample_role ''r1'' 1) ''g1'' 7)\<lparr>gr_CreatedAt := 7\<rparr>"

definition sample_revoke :: RevokeAccessRequest where
  "sample_revoke = \<lparr>rv_GrantID = ''g1'', rv_OrgID = ''zeta'', rv_Reason = ''left'', rv_DeleteGraphRelationship = True,
     rv_Actor = \<lparr>sr_Type = ''user'', sr_ID = ''admin'', sr_Relation = []\<rparr>\<rparr>"

lemma sample_revoke_run:
  "\<exists>wr w'. RevokeAccess (sample_service (revoke_payload granted ''skill'')) sample_revoke sample_env
     (grant_world [(''g1'', granted)] [sample_rel ''s1'' ''viewer'' ''u1'']) = (Inr (wr, None), w')"
proof -
  let ?s = "sample_service (revoke_payload granted ''skill'')"
  let ?w = "grant_world [(''g1'', granted)] [sample_rel ''s1'' ''viewer'' ''u1'']"
  have g: "grant_at (db ?w) ''g1'' = Some granted" "gr_OrgID granted = ''zeta''" "gr_ResourceType granted = ''skill''"
    "gr_Relation granted \<noteq> ''custom_binding''" "gr_ID granted = ''g1''"
    by (simp_all add: grant_world_def granted_def new_grant_def sample_request_def trims sample_role_def)
  have get: "GetGrant ''g1'' ''zeta'' sample_env ?w = (Inr granted, ?w)" using g by (simp add: grant_reads.get_ok)
  have sp: "grant_spiceType ''skill'' sample_env w = (Inr ''skill'', w)" if "db w = db ?w" for w :: "Relationship list world"
    using that sample_spice by (simp add: grant_spiceType_run)
  have ev: "\<exists>ev w'. grant_delete_event ?s granted ''skill'' sample_env w = (Inr (Some ev), w') \<and> db w' = db w"
    for w :: "Relationship list world"
    using g(4) by (simp add: grant_delete_event_def NewDeleteEvent_def newEvent_def sample_service_def one_payload_manager_def
        NewManager_def revoke_payload_def bindE_def bind_io_def)
  obtain ev' w4 where e4: "grant_delete_event ?s granted ''skill'' sample_env (tick (tick ?w)) = (Inr (Some ev'), w4)"
    "db w4 = db ?w" using ev[of "tick (tick ?w)"] by auto
  have fr: "fresh (gs_projection ?s) (revoke_payload granted ''skill'') ev'"
    using grant_delete_event_fresh[OF e4(1)] by auto
  let ?a = "auditForGrant (idgen_New ''gaudit'' (clock sample_env (ticks (tick ?w))) (rand4 sample_env (ticks (tick ?w))))
     ''revoke'' granted (rv_Actor sample_revoke) (rv_Reason sample_revoke) (clock sample_env (ticks ?w))"
  let ?w5 = "w4\<lparr>db := revoked_db ''g1'' granted (clock sample_env (ticks ?w)) ?a ev' (db w4)\<rparr>"
  have rg: "RevokeGrant ''g1'' ''zeta'' (clock sample_env (ticks ?w)) (Some ?a) [Some ev'] sample_env w4 = (Inr (), ?w5)"
    using g e4(2) by (simp add: RevokeGrant_run revoked_db_def)
  have acc: "accepts (set_store False []) (revoke_payload granted ''skill'')"
    using g(4) by (simp add: accepts_def revoke_payload_def project_payload_def deleteRelationships_def set_store_def
        empty_payload_def)
  have "ev_Status ev' \<noteq> []" using fr by (simp add: fresh_def)
  then have "get_key (events (db ?w5)) (ev_ID ev') = Some ev'" by (simp add: revoked_db_at)
  from dispatch_accepts[OF sample_direct fr this acc, of sample_env] obtain wr w6 where
    di: "Dispatch (gs_projection ?s) (Some ev') sample_env ?w5 = ((wr, None), w6)" by blast
  have req: "TrimSpace (rv_GrantID sample_revoke) = ''g1''" "rv_OrgID sample_revoke = ''zeta''" "gs_repo ?s"
    by (simp_all add: sample_revoke_def trims sample_service_def)
  have "RevokeAccess ?s sample_revoke sample_env ?w = (Inr (wr, None), w6)"
    by (simp add: RevokeAccess_def Let_def req bindE_def bind_io_def get sp g e4(1) rg di)
  then show ?thesis by blast
qed

lemma revocation_removes_access_witness:
  "\<exists>wr w'. RevokeAccess (sample_service (revoke_payload granted ''skill'')) sample_revoke sample_env
     (grant_world [(''g1'', granted)] [sample_rel ''s1'' ''viewer'' ''u1'']) = (Inr (wr, None), w')
   \<and> rel_key (sample_rel ''s1'' ''viewer'' ''u1'') \<notin> set_tuples (graph w')"
proof -
  obtain wr w' where run: "RevokeAccess (sample_service (revoke_payload granted ''skill'')) sample_revoke sample_env
     (grant_world [(''g1'', granted)] [sample_rel ''s1'' ''viewer'' ''u1'']) = (Inr (wr, None), w')"
    using sample_revoke_run by blast
  have "TrimSpace (rv_GrantID sample_revoke) = ''g1''" by (simp add: sample_revoke_def trims)
  then have g: "grant_at (db (grant_world [(''g1'', granted)] [sample_rel ''s1'' ''viewer'' ''u1''])) (TrimSpace (rv_GrantID sample_revoke))
      = Some ((new_grant (kern sample_env) sample_request (sample_role ''r1'' 1) ''g1'' 7)\<lparr>gr_CreatedAt := 7\<rparr>)"
    by (simp add: grant_world_def granted_def)
  have sp: "spice_of (db (grant_world [(''g1'', granted)] [sample_rel ''s1'' ''viewer'' ''u1'']))
      (TrimSpace (rr_Type (gq_Resource sample_request))) = Inr ''skill''" "TrimSpace ''skill'' = ''skill''"
    using sample_spice by (simp_all add: sample_request_def trims)
  from revocation_removes_access[OF sample_direct g sp run] run sample_grant_rels show ?thesis by auto
qed

end
