(* ===== verification/ProjectSvc.thy ===== *)
theory ProjectSvc
  imports GrantLaws
begin

text \<open>
  The project service of \<open>internal/biz/project/project.go\<close> and \<open>lifecycle.go\<close>: creation with its
  zone and owner edges, updates, archival with the purge of relationships, capabilities.  The
  normalization of a JSON object (\<open>json.Unmarshal\<close> into a map and \<open>json.Marshal\<close> back) is the
  field \<open>ps_json\<close>.  The subject type of this package has the fields of \<open>GrantSubject\<close>.
\<close>

record CreateProjectRequest =
  cp_ID :: string
  cp_ZoneID :: string
  cp_Slug :: string
  cp_DisplayName :: string
  cp_Description :: string
  cp_Visibility :: string
  cp_LabelsJSON :: string
  cp_AnnotationsJSON :: string
  cp_MetadataJSON :: string
  cp_CreatedBy :: GrantSubject
  cp_Owner :: GrantSubject

record RegisterCapabilityRequest =
  rc_ID :: string
  rc_Name :: string
  rc_DisplayName :: string
  rc_OwnerService :: string
  rc_ConfigSchema :: string

record SetProjectCapabilityRequest =
  sp_ZoneID :: string
  sp_ProjectID :: string
  sp_CapabilityID :: string
  sp_Enabled :: bool
  sp_ConfigJSON :: string
  sp_QuotaJSON :: string

record UpdateProjectRequest =
  uq_ID :: string
  uq_ZoneID :: string
  uq_DisplayName :: "string option"
  uq_Description :: "string option"
  uq_Visibility :: "string option"
  uq_LabelsJSON :: "string option"
  uq_AnnotationsJSON :: "string option"
  uq_MetadataJSON :: "string option"

record ArchiveProjectRequest =
  aq_ID :: string
  aq_ZoneID :: string
  aq_Reason :: string

record 'g ProjectService =
  ps_repo :: bool
  ps_projection :: "'g Manager option"
  ps_reader :: "'g store option"
  ps_json :: "string \<Rightarrow> err + string"

abbreviation ResourceTypeZone :: string where "ResourceTypeZone \<equiv> ''zone''"
abbreviation ResourceTypeProject :: string where "ResourceTypeProject \<equiv> ''project''"
abbreviation RelationZone :: string where "RelationZone \<equiv> ''zone''"
abbreviation RelationOwner :: string where "RelationOwner \<equiv> ''owner''"

definition no_project_repo :: err where "no_project_repo = ErrNew ''project service repository is nil''"

text \<open>\<open>NewService\<close>; \<open>reads\<close> tells whether the writer also implements \<open>RelationshipReader\<close>.\<close>

definition NewProjectService ::
    "codec \<Rightarrow> (string \<Rightarrow> err + string) \<Rightarrow> bool \<Rightarrow> bool \<Rightarrow> 'g store option \<Rightarrow> 'g Manager option list \<Rightarrow> 'g ProjectService" where
  "NewProjectService codec js repo reads writer managers =
     \<lparr>ps_repo = repo,
      ps_projection = (case firstProjectionManager managers of
        None \<Rightarrow> Some (NewManager codec (if repo then Some memory_outbox else None) writer None)
      | Some m \<Rightarrow> Some m),
      ps_reader = (if reads then writer else None), ps_json = js\<rparr>"

definition jsonOrEmptyObject :: "string \<Rightarrow> string" where
  "jsonOrEmptyObject v = (if TrimSpace v = [] then ''{}'' else TrimSpace v)"

definition subjectString :: "kernel \<Rightarrow> GrantSubject \<Rightarrow> string" where
  "subjectString K s = (if subjectZero s then [] else subj_string K (toAuthzSubject K s))"

definition project_rels :: "kernel \<Rightarrow> string \<Rightarrow> string \<Rightarrow> GrantSubject \<Rightarrow> Relationship list" where
  "project_rels K zoneID ident owner =
     [\<lparr>rel_Resource = Object ResourceTypeProject (QualifiedID zoneID ident), rel_Relation = RelationZone,
       rel_Subject = Subject ResourceTypeZone zoneID [], rel_ExpiresAt = zero_time\<rparr>,
      \<lparr>rel_Resource = Object ResourceTypeProject (QualifiedID zoneID ident), rel_Relation = RelationOwner,
       rel_Subject = toAuthzSubject K owner, rel_ExpiresAt = zero_time\<rparr>]"

definition new_project :: "kernel \<Rightarrow> CreateProjectRequest \<Rightarrow> string \<Rightarrow> gotime \<Rightarrow> ProjectModel" where
  "new_project K req ident now =
     \<lparr>pr_ID = ident, pr_OrgID = TrimSpace (cp_ZoneID req), pr_Slug = TrimSpace (cp_Slug req),
      pr_DisplayName = nonEmpty (cp_DisplayName req) (TrimSpace (cp_Slug req)),
      pr_Description = TrimSpace (cp_Description req), pr_Status = StatusActive,
      pr_Visibility = nonEmpty (cp_Visibility req) ''private'',
      pr_LabelsJSON = jsonOrEmptyObject (cp_LabelsJSON req),
      pr_AnnotationsJSON = jsonOrEmptyObject (cp_AnnotationsJSON req),
      pr_MetadataJSON = jsonOrEmptyObject (cp_MetadataJSON req),
      pr_CreatedBy = subjectString K (cp_CreatedBy req), pr_CreatedAt = now, pr_UpdatedAt = now,
      pr_DeletedAt = None\<rparr>"

definition prj_CreateProject ::
    "'g ProjectService \<Rightarrow> CreateProjectRequest \<Rightarrow> ('g, ProjectModel \<times> WriteResult \<times> err option) opE" where
  "prj_CreateProject s req =
     (if \<not> ps_repo s then failE no_project_repo
      else
        let zoneID = TrimSpace (cp_ZoneID req) in
        if zoneID = [] then failE (ErrNew ''zone_id is required'')
        else if TrimSpace (cp_Slug req) = [] then failE (ErrNew ''project slug is required'')
        else if subjectZero (cp_CreatedBy req) then failE (ErrNew ''authenticated project creator is required'')
        else if subjectZero (cp_Owner req) then failE (ErrNew ''project owner is required'')
        else
          bind_io (if TrimSpace (cp_ID req) = [] then new_id ''project'' else ret (TrimSpace (cp_ID req))) (\<lambda>ident.
          bind_io now_io (\<lambda>now.
          bind_io (asks (\<lambda>e w. kern e)) (\<lambda>K.
          let project = new_project K req ident now in
          bindE (NewWriteEvent (ps_projection s) ''project'' (pr_ID project)
                   (project_rels K zoneID (pr_ID project) (cp_Owner req))) (\<lambda>event.
          bindE (CreateProject project [event]) (\<lambda>_.
          bind_io (Dispatch (ps_projection s) event) (\<lambda>(wr, er). okE (project, wr, er))))))))"

definition RegisterCapability ::
    "'g ProjectService \<Rightarrow> RegisterCapabilityRequest \<Rightarrow> ('g, CapabilityModel) opE" where
  "RegisterCapability s req =
     (if \<not> ps_repo s then failE no_project_repo
      else
        let name = TrimSpace (rc_Name req) in
        if name = [] then failE (ErrNew ''capability name is required'')
        else
          bind_io now_io (\<lambda>now.
          let cap = \<lparr>cap_ID = (if TrimSpace (rc_ID req) = [] then name else TrimSpace (rc_ID req)),
                cap_Name = name, cap_DisplayName = nonEmpty (rc_DisplayName req) name,
                cap_OwnerService = (if TrimSpace (rc_OwnerService req) = [] then ''aisphere-iam''
                                    else TrimSpace (rc_OwnerService req)),
                cap_Status = StatusActive, cap_ConfigSchema = jsonOrEmptyObject (rc_ConfigSchema req),
                cap_CreatedAt = now, cap_UpdatedAt = now\<rparr> in
          bindE (UpsertCapability cap) (\<lambda>_. okE cap)))"

definition loadProjectInZone :: "'g ProjectService \<Rightarrow> string \<Rightarrow> string \<Rightarrow> ('g, ProjectModel) opE" where
  "loadProjectInZone s ident zoneID =
     (if \<not> ps_repo s then failE no_project_repo
      else
        let ident = TrimSpace ident; zoneID = TrimSpace zoneID in
        if ident = [] \<or> zoneID = [] then failE (ErrNew ''project_id and zone_id are required'')
        else bindE (GetProject ident zoneID) (\<lambda>project.
          if TrimSpace (pr_OrgID project) \<noteq> zoneID
          then failE (ErrNew ''project does not belong to the current zone'') else okE project))"

definition prj_GetProject :: "'g ProjectService \<Rightarrow> string \<Rightarrow> string \<Rightarrow> ('g, ProjectModel) opE" where
  "prj_GetProject = loadProjectInZone"

definition prj_SetProjectCapability ::
    "'g ProjectService \<Rightarrow> SetProjectCapabilityRequest \<Rightarrow> ('g, ProjectCapabilityModel) opE" where
  "prj_SetProjectCapability s req =
     (if \<not> ps_repo s then failE no_project_repo
      else
        let zoneID = TrimSpace (sp_ZoneID req); projectID = TrimSpace (sp_ProjectID req);
            capabilityID = TrimSpace (sp_CapabilityID req) in
        if zoneID = [] \<or> projectID = [] \<or> capabilityID = []
        then failE (ErrNew ''zone_id, project_id and capability_id are required'')
        else
          bindE (loadProjectInZone s projectID zoneID) (\<lambda>project.
          if pr_Status project \<noteq> StatusActive then failE (ErrNew ''project is not active'')
          else
            bind_io now_io (\<lambda>now.
            let pc = \<lparr>pc_ProjectID = projectID, pc_CapabilityID = capabilityID, pc_Enabled = sp_Enabled req,
                  pc_ConfigJSON = jsonOrEmptyObject (sp_ConfigJSON req),
                  pc_QuotaJSON = jsonOrEmptyObject (sp_QuotaJSON req), pc_CreatedAt = now, pc_UpdatedAt = now\<rparr> in
            bindE (SetProjectCapability pc) (\<lambda>_. okE pc))))"

subsection \<open>Updates\<close>

definition normalizedJSONObject :: "'g ProjectService \<Rightarrow> string \<Rightarrow> err + string" where
  "normalizedJSONObject s raw = (if TrimSpace raw = [] then Inr ''{}'' else ps_json s (TrimSpace raw))"

text \<open>One optional field: what the pointer's value turns the project into, or the error.\<close>

definition set_field ::
    "'a option \<Rightarrow> ('a \<Rightarrow> ProjectModel \<Rightarrow> err + ProjectModel) \<Rightarrow> err + ProjectModel \<Rightarrow> err + ProjectModel" where
  "set_field v f p = (case p of Inl er \<Rightarrow> Inl er
     | Inr project \<Rightarrow> (case v of None \<Rightarrow> Inr project | Some x \<Rightarrow> f x project))"

definition json_field ::
    "'g ProjectService \<Rightarrow> string \<Rightarrow> (string \<Rightarrow> ProjectModel \<Rightarrow> ProjectModel) \<Rightarrow> string \<Rightarrow> ProjectModel \<Rightarrow> err + ProjectModel" where
  "json_field s what f raw p =
     (case normalizedJSONObject s raw of
        Inl _ \<Rightarrow> Inl (ErrNew (''project '' @ what @ '' must be a JSON object''))
      | Inr v \<Rightarrow> Inr (f v p))"

definition updated_project :: "'g ProjectService \<Rightarrow> UpdateProjectRequest \<Rightarrow> ProjectModel \<Rightarrow> err + ProjectModel" where
  "updated_project s req p =
     set_field (uq_MetadataJSON req) (json_field s ''metadata'' (\<lambda>v p. p\<lparr>pr_MetadataJSON := v\<rparr>))
     (set_field (uq_AnnotationsJSON req) (json_field s ''annotations'' (\<lambda>v p. p\<lparr>pr_AnnotationsJSON := v\<rparr>))
     (set_field (uq_LabelsJSON req) (json_field s ''labels'' (\<lambda>v p. p\<lparr>pr_LabelsJSON := v\<rparr>))
     (set_field (uq_Visibility req) (\<lambda>v p.
        if TrimSpace v \<in> {''private'', ''org'', ''public''} then Inr (p\<lparr>pr_Visibility := TrimSpace v\<rparr>)
        else Inl (ErrNew ''project visibility must be private, org or public''))
     (set_field (uq_Description req) (\<lambda>v p. Inr (p\<lparr>pr_Description := TrimSpace v\<rparr>))
     (set_field (uq_DisplayName req) (\<lambda>v p.
        if TrimSpace v = [] then Inl (ErrNew ''project display_name is required'')
        else Inr (p\<lparr>pr_DisplayName := TrimSpace v\<rparr>)) (Inr p))))))"

definition UpdateProject :: "'g ProjectService \<Rightarrow> UpdateProjectRequest \<Rightarrow> ('g, ProjectModel) opE" where
  "UpdateProject s req =
     (if \<not> ps_repo s then failE no_project_repo
      else
        bindE (loadProjectInZone s (uq_ID req) (uq_ZoneID req)) (\<lambda>project.
        if pr_Status project \<noteq> StatusActive then failE (ErrNew ''project is not active'')
        else
          bindE (liftE (updated_project s req project)) (\<lambda>project.
          bind_io now_io (\<lambda>now.
          let project = project\<lparr>pr_UpdatedAt := now\<rparr> in
          bindE (UpsertProject project) (\<lambda>_. okE project)))))"

subsection \<open>Archival\<close>

text \<open>
  \<open>captureRelationships\<close> reads, for every filter with a resource type, the tuples it selects; a
  read error ends it with what was captured so far, which is what the caller uses.
\<close>

primrec capture_loop :: "'g store \<Rightarrow> RelationshipFilter list \<Rightarrow> Relationship list \<Rightarrow> ('g, Relationship list) op" where
  "capture_loop st [] captured = ret captured"
| "capture_loop st (f # fs) captured =
     (if TrimSpace (f_ResourceType f) = [] then capture_loop st fs captured
      else bind_io (on_graph (st_read st f)) (\<lambda>r.
        case r of Inl _ \<Rightarrow> ret captured | Inr rels \<Rightarrow> capture_loop st fs (captured @ rels)))"

definition captureRelationships :: "'g store option \<Rightarrow> RelationshipFilter list \<Rightarrow> ('g, Relationship list) op" where
  "captureRelationships reader filters =
     (case reader of None \<Rightarrow> ret [] | Some st \<Rightarrow> capture_loop st filters [])"

definition purge_filters :: "string \<Rightarrow> string \<Rightarrow> RelationshipFilter list" where
  "purge_filters typ ident =
     [empty_filter\<lparr>f_ResourceType := typ, f_ResourceID := ident\<rparr>,
      empty_filter\<lparr>f_SubjectType := typ, f_SubjectID := ident\<rparr>]"

text \<open>The purge after the archival is best effort: its errors are dropped.\<close>

definition purge_project :: "'g ProjectService \<Rightarrow> string \<Rightarrow> ProjectModel \<Rightarrow> ('g, unit) op" where
  "purge_project s zoneID project =
     (let filters = purge_filters ResourceTypeProject (QualifiedID zoneID (pr_ID project)) in
      bind_io (captureRelationships (ps_reader s) filters) (\<lambda>rels.
      bind_io (NewBatchDeleteEvent (ps_projection s) ''project'' (pr_ID project) filters rels) (\<lambda>event.
      case event of
        Inr (Some ev) \<Rightarrow>
          bind_io (CreateOutboxEvents [Some ev]) (\<lambda>r.
          case r of Inl _ \<Rightarrow> ret ()
          | Inr _ \<Rightarrow> bind_io (Dispatch (ps_projection s) (Some ev)) (\<lambda>_. ret ()))
      | _ \<Rightarrow> ret ())))"

definition prj_ArchiveProject :: "'g ProjectService \<Rightarrow> ArchiveProjectRequest \<Rightarrow> ('g, ProjectModel) opE" where
  "prj_ArchiveProject s req =
     (if \<not> ps_repo s then failE no_project_repo
      else
        bindE (loadProjectInZone s (aq_ID req) (aq_ZoneID req)) (\<lambda>project.
        if pr_Status project = StatusArchived then okE project
        else if pr_Status project = StatusDeleted then failE (ErrNew ''deleted project cannot be archived'')
        else
          bind_io now_io (\<lambda>now.
          let project = project\<lparr>pr_Status := StatusArchived, pr_UpdatedAt := now\<rparr> in
          bindE (UpsertProject project) (\<lambda>_.
          bind_io (purge_project s (aq_ZoneID req) project) (\<lambda>_. okE project)))))"

end
