(* ===== verification/ProjectLaws.thy ===== *)
theory ProjectLaws
  imports ProjectSvc
begin

text \<open>
  What the project service guarantees: the stored project and its edges after a creation, the
  status machine of projects, and the reach of the purge that follows an archival.
\<close>

subsection \<open>Creation\<close>

lemma CreateProject_run:
  assumes "CreateProject p evs e w = (r, w')"
  shows "r = Inr () \<and> (\<exists>c u. db w' = saveEvents evs ((db w)\<lparr>projects := put_key (pr_ID p)
      (p\<lparr>pr_CreatedAt := c, pr_UpdatedAt := u\<rparr>) (projects (db w))\<rparr>)) \<and> graph w' = graph w"
proof -
  obtain c w1 where c: "nowIfZero (pr_CreatedAt p) e w = (c, w1)" by fastforce
  obtain u w2 where u: "nowIfZero (pr_UpdatedAt p) e w1 = (u, w2)" by fastforce
  have "db w2 = db w \<and> graph w2 = graph w" using c u by (auto simp: nowIfZero_run split: if_splits)
  with assms c u have "r = Inr ()" "graph w' = graph w" "db w' = saveEvents evs ((db w)\<lparr>projects := put_key (pr_ID p)
      (p\<lparr>pr_CreatedAt := c, pr_UpdatedAt := u\<rparr>) (projects (db w))\<rparr>)"
    by (auto simp: CreateProject_def bind_io_def)
  then show ?thesis by blast
qed

lemma CreateProject_ex: "\<exists>w'. CreateProject p evs e w = (Inr (), w')"
proof -
  obtain r w' where "CreateProject p evs e w = (r, w')" by fastforce
  then show ?thesis using CreateProject_run by blast
qed

lemma UpsertProject_run:
  assumes "UpsertProject p e w = (r, w')"
  shows "r = Inr () \<and> (\<exists>c u. db w' = (db w)\<lparr>projects := put_key (pr_ID p)
      (p\<lparr>pr_CreatedAt := c, pr_UpdatedAt := u\<rparr>) (projects (db w))\<rparr>) \<and> graph w' = graph w"
proof -
  define q where "q = (case get_key (projects (db w)) (pr_ID p) of None \<Rightarrow> p
      | Some cur \<Rightarrow> if IsZero (pr_CreatedAt p) then p\<lparr>pr_CreatedAt := pr_CreatedAt cur\<rparr> else p)"
  obtain c w1 where c: "nowIfZero (pr_CreatedAt q) e w = (c, w1)" by fastforce
  obtain u w2 where u: "nowIfZero (pr_UpdatedAt q) e w1 = (u, w2)" by fastforce
  have "db w2 = db w \<and> graph w2 = graph w" using c u by (auto simp: nowIfZero_run split: if_splits)
  moreover have "q\<lparr>pr_CreatedAt := c, pr_UpdatedAt := u\<rparr> = p\<lparr>pr_CreatedAt := c, pr_UpdatedAt := u\<rparr>" "pr_ID q = pr_ID p"
    by (auto simp: q_def split: option.splits)
  moreover have "UpsertProject p e w = (Inr (), w2\<lparr>db := (db w2)\<lparr>projects := put_key (pr_ID q)
      (q\<lparr>pr_CreatedAt := c, pr_UpdatedAt := u\<rparr>) (projects (db w2))\<rparr>\<rparr>)"
    using c u by (simp add: UpsertProject_def bind_io_def Let_def flip: q_def)
  ultimately have "r = Inr ()" "graph w' = graph w" "db w' = (db w)\<lparr>projects := put_key (pr_ID p)
      (p\<lparr>pr_CreatedAt := c, pr_UpdatedAt := u\<rparr>) (projects (db w))\<rparr>"
    using assms by auto
  then show ?thesis by blast
qed

lemma project_rels_nonempty: "project_rels K z i ow \<noteq> []"
  by (simp add: project_rels_def)

lemma TrimSpace_project_id: "TrimSpace (idgen_New ''project'' t r) = idgen_New ''project'' t r"
  by (rule TrimSpace_idgen) (simp_all add: visible_def TrimSpace_visible)

lemma project_id_nonempty: "idgen_New ''project'' t r \<noteq> []"
  by (simp add: idgen_New_def TrimSpace_visible visible_def Let_def split: option.split)

lemma prj_CreateProject_success:
  assumes run: "prj_CreateProject s req e w = (Inr (p, wr, r), w')"
  shows "\<exists>ident now c u ev w2. p = new_project (kern e) req ident now
    \<and> (TrimSpace (cp_ID req) = [] \<or> ident = TrimSpace (cp_ID req)) \<and> TrimSpace ident = ident \<and> ident \<noteq> []
    \<and> TrimSpace (cp_ZoneID req) \<noteq> [] \<and> TrimSpace (cp_Slug req) \<noteq> []
    \<and> fresh (ps_projection s) (empty_payload\<lparr>pl_Operation := OperationWrite,
        pl_Relationships := project_rels (kern e) (TrimSpace (cp_ZoneID req)) ident (cp_Owner req)\<rparr>) ev
    \<and> db w2 = saveEvents [Some ev] ((db w)\<lparr>projects := put_key ident
        (p\<lparr>pr_CreatedAt := c, pr_UpdatedAt := u\<rparr>) (projects (db w))\<rparr>)
    \<and> graph w2 = graph w \<and> Dispatch (ps_projection s) (Some ev) e w2 = ((wr, r), w')"
proof -
  from run obtain ident w1 now w3 event w4 v w5 where
    i: "(if TrimSpace (cp_ID req) = [] then new_id ''project'' else ret (TrimSpace (cp_ID req))) e w = (ident, w1)"
      "now_io e w1 = (now, w3)"
    and ev: "NewWriteEvent (ps_projection s) ''project'' (pr_ID (new_project (kern e) req ident now))
        (project_rels (kern e) (TrimSpace (cp_ZoneID req)) (pr_ID (new_project (kern e) req ident now)) (cp_Owner req))
        e w3 = (Inr event, w4)"
    and cr: "CreateProject (new_project (kern e) req ident now) [event] e w4 = (Inr v, w5)"
    and di: "Dispatch (ps_projection s) event e w5 = ((wr, r), w')"
    and p: "p = new_project (kern e) req ident now" and ne: "TrimSpace (cp_ZoneID req) \<noteq> []" "TrimSpace (cp_Slug req) \<noteq> []"
    unfolding prj_CreateProject_def Let_def
    by (auto simp: bindE_Inr_iff bind_io_iff split: if_split_asm simp del: now_io_run new_id_run)
  have pid: "pr_ID (new_project (kern e) req ident now) = ident" by (simp add: new_project_def)
  have same: "db w4 = db w" "graph w4 = graph w"
    using i unchanged_builders(2)[OF ev] by (auto split: if_splits)
  obtain ev' where ev': "event = Some ev'" "fresh (ps_projection s) (empty_payload\<lparr>pl_Operation := OperationWrite,
        pl_Relationships := project_rels (kern e) (TrimSpace (cp_ZoneID req)) ident (cp_Owner req)\<rparr>) ev'"
    using NewWriteEvent_Some[OF ev project_rels_nonempty] pid by auto
  obtain c u where "db w5 = saveEvents [event] ((db w4)\<lparr>projects := put_key ident
        (p\<lparr>pr_CreatedAt := c, pr_UpdatedAt := u\<rparr>) (projects (db w4))\<rparr>)" "graph w5 = graph w4"
    using CreateProject_run[OF cr] pid p by auto
  then have "db w5 = saveEvents [Some ev'] ((db w)\<lparr>projects := put_key ident
        (p\<lparr>pr_CreatedAt := c, pr_UpdatedAt := u\<rparr>) (projects (db w))\<rparr>)" "graph w5 = graph w"
    using same ev'(1) by simp_all
  moreover have "TrimSpace (cp_ID req) = [] \<or> ident = TrimSpace (cp_ID req)" using i(1) by (auto split: if_splits)
  moreover have "TrimSpace ident = ident" "ident \<noteq> []"
    using i(1) by (auto simp: TrimSpace_project_id project_id_nonempty split: if_splits)
  ultimately show ?thesis using p ne ev'(2) di[unfolded ev'(1)] by blast
qed

text \<open>C23. A created project is active and bound to its zone.  When \<open>CreateProject\<close> returns a project
  without an error, the project is stored as active under the caller's zone, every other
  project is as before, and the relationship store has gained exactly the zone edge and the owner
  edge of the project's qualified identifier.\<close>

theorem project_created:
  assumes d: "direct (ps_projection s) S T" and run: "prj_CreateProject s req e w = (Inr (p, wr, None), w')"
  shows "pr_Status p = StatusActive \<and> pr_OrgID p = TrimSpace (cp_ZoneID req) \<and> pr_OrgID p \<noteq> [] \<and> pr_Slug p \<noteq> []
    \<and> (\<exists>c u. project_at (db w') = (project_at (db w))(pr_ID p := Some (p\<lparr>pr_CreatedAt := c, pr_UpdatedAt := u\<rparr>)))
    \<and> T (graph w') = T (graph w) \<union> keys (project_rels (kern e) (pr_OrgID p) (pr_ID p) (cp_Owner req))"
proof -
  from prj_CreateProject_success[OF run] obtain ident now c u ev w2 where
    p: "p = new_project (kern e) req ident now" and ne: "TrimSpace (cp_ZoneID req) \<noteq> []" "TrimSpace (cp_Slug req) \<noteq> []"
    and ev: "fresh (ps_projection s) (empty_payload\<lparr>pl_Operation := OperationWrite,
        pl_Relationships := project_rels (kern e) (TrimSpace (cp_ZoneID req)) ident (cp_Owner req)\<rparr>) ev"
    and w2: "db w2 = saveEvents [Some ev] ((db w)\<lparr>projects := put_key ident
        (p\<lparr>pr_CreatedAt := c, pr_UpdatedAt := u\<rparr>) (projects (db w))\<rparr>)" "graph w2 = graph w"
    and di: "Dispatch (ps_projection s) (Some ev) e w2 = ((wr, None), w')"
    by blast
  have f: "pr_ID p = ident" "pr_OrgID p = TrimSpace (cp_ZoneID req)" "pr_Status p = StatusActive"
    "pr_Slug p = TrimSpace (cp_Slug req)" by (simp_all add: p new_project_def)
  have "get_key (events (db w2)) (ev_ID ev) = Some ev" using w2(1) ev by (simp add: events_saveEvents1 fresh_def)
  from dispatch_fresh[OF d ev this di] have T: "T (graph w') = T (graph w)
      \<union> keys (project_rels (kern e) (pr_OrgID p) (pr_ID p) (cp_Owner req))"
    using w2(2) f by (auto simp: projected_def)
  have "project_at (db w') = (project_at (db w))(ident := Some (p\<lparr>pr_CreatedAt := c, pr_UpdatedAt := u\<rparr>))"
    using dispatch_keeps(5)[OF d di] w2(1) by (auto simp: update_conv' fun_eq_iff)
  then have at: "\<exists>c u. project_at (db w') = (project_at (db w))(pr_ID p := Some (p\<lparr>pr_CreatedAt := c, pr_UpdatedAt := u\<rparr>))"
    unfolding f(1) by blast
  have "pr_OrgID p \<noteq> []" "pr_Slug p \<noteq> []" using f ne by simp_all
  with f(2,3) T at show ?thesis by blast
qed

text \<open>A caller-chosen identifier takes over another zone's project.  Creating a project under an
  identifier that a project of another zone already has succeeds in this repository and replaces
  that project: its own zone no longer finds it.\<close>

theorem create_project_overwrites:
  assumes old: "project_at (db w) (TrimSpace (cp_ID req)) = Some q" "pr_OrgID q \<noteq> TrimSpace (cp_ZoneID req)"
    and id: "TrimSpace (cp_ID req) \<noteq> []" and d: "direct (ps_projection s) S T"
    and run: "prj_CreateProject s req e w = (Inr (p, wr, r), w')"
  shows "(\<exists>p'. project_at (db w') (TrimSpace (cp_ID req)) = Some p' \<and> pr_OrgID p' = TrimSpace (cp_ZoneID req))
    \<and> (\<exists>m. GetProject (TrimSpace (cp_ID req)) (pr_OrgID q) e2 w' = (Inl (ErrNotFound m), w'))"
proof -
  from prj_CreateProject_success[OF run] id obtain now c u ev w2 where
    p: "p = new_project (kern e) req (TrimSpace (cp_ID req)) now"
    and w2: "db w2 = saveEvents [Some ev] ((db w)\<lparr>projects := put_key (TrimSpace (cp_ID req))
        (p\<lparr>pr_CreatedAt := c, pr_UpdatedAt := u\<rparr>) (projects (db w))\<rparr>)"
    and di: "Dispatch (ps_projection s) (Some ev) e w2 = ((wr, r), w')"
    by blast
  have at: "project_at (db w') (TrimSpace (cp_ID req)) = Some (p\<lparr>pr_CreatedAt := c, pr_UpdatedAt := u\<rparr>)"
    using dispatch_keeps(5)[OF d di] w2 by (simp add: update_conv')
  moreover have "pr_OrgID p = TrimSpace (cp_ZoneID req)" by (simp add: p new_project_def)
  ultimately show ?thesis using old(2) project_reads.foreign_hidden[of w' "TrimSpace (cp_ID req)" "pr_OrgID q" e2] by auto
qed


subsection \<open>The status machine\<close>

lemma loadProjectInZone_run:
  "loadProjectInZone s i z e w = (Inr p, w') \<Longrightarrow>
     project_at (db w) (TrimSpace i) = Some p \<and> pr_OrgID p = TrimSpace z \<and> TrimSpace i \<noteq> [] \<and> TrimSpace z \<noteq> [] \<and> w' = w"
  by (auto simp: loadProjectInZone_def Let_def bindE_Inr_iff project_reads.get_ok split: if_split_asm)

lemma steps_loadProjectInZone [steps_rules]: "db_frame R \<Longrightarrow> steps R (loadProjectInZone s i z)"
  unfolding loadProjectInZone_def Let_def by (intro steps_rules db_frame_frame | assumption)+

definition project_core :: "ProjectModel \<Rightarrow> string \<times> string \<times> string \<times> string \<times> string" where
  "project_core p = (pr_ID p, pr_OrgID p, pr_Status p, pr_Slug p, pr_CreatedBy p)"

lemma set_field_core:
  assumes "set_field v f r = Inr q" "\<And>x p q. f x p = Inr q \<Longrightarrow> project_core q = project_core p"
  obtains p where "r = Inr p" "project_core q = project_core p"
  using assms by (cases r; cases v) (auto simp: set_field_def)

lemma json_field_core:
  "json_field s what f raw p = Inr q \<Longrightarrow> (\<And>v p. project_core (f v p) = project_core p) \<Longrightarrow> project_core q = project_core p"
  by (auto simp: json_field_def split: sum.splits)

lemma updated_project_core:
  assumes "updated_project s req p = Inr q"
  shows "project_core q = project_core p"
proof -
  from assms[unfolded updated_project_def] obtain p1 where 1: "project_core q = project_core p1" and
    "set_field (uq_AnnotationsJSON req) (json_field s ''annotations'' (\<lambda>v p. p\<lparr>pr_AnnotationsJSON := v\<rparr>))
     (set_field (uq_LabelsJSON req) (json_field s ''labels'' (\<lambda>v p. p\<lparr>pr_LabelsJSON := v\<rparr>))
     (set_field (uq_Visibility req) (\<lambda>v p.
        if TrimSpace v \<in> {''private'', ''org'', ''public''} then Inr (p\<lparr>pr_Visibility := TrimSpace v\<rparr>)
        else Inl (ErrNew ''project visibility must be private, org or public''))
     (set_field (uq_Description req) (\<lambda>v p. Inr (p\<lparr>pr_Description := TrimSpace v\<rparr>))
     (set_field (uq_DisplayName req) (\<lambda>v p.
        if TrimSpace v = [] then Inl (ErrNew ''project display_name is required'')
        else Inr (p\<lparr>pr_DisplayName := TrimSpace v\<rparr>)) (Inr p))))) = Inr p1"
    by (erule_tac set_field_core, erule_tac json_field_core, simp_all add: project_core_def)
  from this(2) obtain p2 where 2: "project_core p1 = project_core p2" and
    "set_field (uq_LabelsJSON req) (json_field s ''labels'' (\<lambda>v p. p\<lparr>pr_LabelsJSON := v\<rparr>))
     (set_field (uq_Visibility req) (\<lambda>v p.
        if TrimSpace v \<in> {''private'', ''org'', ''public''} then Inr (p\<lparr>pr_Visibility := TrimSpace v\<rparr>)
        else Inl (ErrNew ''project visibility must be private, org or public''))
     (set_field (uq_Description req) (\<lambda>v p. Inr (p\<lparr>pr_Description := TrimSpace v\<rparr>))
     (set_field (uq_DisplayName req) (\<lambda>v p.
        if TrimSpace v = [] then Inl (ErrNew ''project display_name is required'')
        else Inr (p\<lparr>pr_DisplayName := TrimSpace v\<rparr>)) (Inr p)))) = Inr p2"
    by (erule_tac set_field_core, erule_tac json_field_core, simp_all add: project_core_def)
  from this(2) have "project_core p2 = project_core p"
    by (auto elim!: set_field_core json_field_core simp: project_core_def split: if_split_asm)
  with 1 2 show ?thesis by simp
qed

lemma updated_project_keeps:
  "updated_project s req p = Inr p' \<Longrightarrow> pr_ID p' = pr_ID p \<and> pr_OrgID p' = pr_OrgID p \<and> pr_Status p' = pr_Status p
     \<and> pr_Slug p' = pr_Slug p \<and> pr_CreatedBy p' = pr_CreatedBy p"
  by (drule updated_project_core) (simp add: project_core_def)

lemma UpdateProject_success:
  assumes "UpdateProject s req e w = (Inr p', w')"
  shows "\<exists>p. project_at (db w) (TrimSpace (uq_ID req)) = Some p \<and> pr_OrgID p = TrimSpace (uq_ZoneID req)
    \<and> pr_Status p = StatusActive \<and> (\<exists>q t. updated_project s req p = Inr q \<and> p' = q\<lparr>pr_UpdatedAt := t\<rparr>)
    \<and> (\<exists>c u. db w' = (db w)\<lparr>projects := put_key (pr_ID p)
         (p'\<lparr>pr_CreatedAt := c, pr_UpdatedAt := u\<rparr>) (projects (db w))\<rparr>) \<and> graph w' = graph w"
proof -
  from assms obtain p w1 q now w2 v where
    l: "loadProjectInZone s (uq_ID req) (uq_ZoneID req) e w = (Inr p, w1)" and a: "pr_Status p = StatusActive"
    and u: "updated_project s req p = Inr q" and n: "now_io e w1 = (now, w2)"
    and up: "UpsertProject (q\<lparr>pr_UpdatedAt := now\<rparr>) e w2 = (Inr v, w')" and p': "p' = q\<lparr>pr_UpdatedAt := now\<rparr>"
    unfolding UpdateProject_def Let_def
    by (auto simp: bindE_Inr_iff bind_io_iff split: if_split_asm simp del: now_io_run)
  have id: "pr_ID p' = pr_ID p" using updated_project_keeps[OF u] p' by simp
  obtain c d where "db w' = (db w2)\<lparr>projects := put_key (pr_ID p') (p'\<lparr>pr_CreatedAt := c, pr_UpdatedAt := d\<rparr>)
      (projects (db w2))\<rparr>" "graph w' = graph w2"
    using UpsertProject_run[OF up] p' by auto
  then have "db w' = (db w)\<lparr>projects := put_key (pr_ID p) (p'\<lparr>pr_CreatedAt := c, pr_UpdatedAt := d\<rparr>)
      (projects (db w))\<rparr>" "graph w' = graph w" using n id loadProjectInZone_run[OF l] by auto
  then show ?thesis using loadProjectInZone_run[OF l] a u p' by blast
qed

lemma UpsertProject_not_Inl: "UpsertProject p e w \<noteq> (Inl er, w')"
  using UpsertProject_run[of p e w "Inl er" w'] by auto

lemma err_clean_UpdateProject: "err_clean (UpdateProject s req)"
proof -
  have u: "err_clean (UpsertProject p)" for p :: ProjectModel
    by (simp add: err_clean_def UpsertProject_not_Inl)
  show ?thesis unfolding UpdateProject_def Let_def
    by (intro err_clean_bindE err_clean_bind_io err_clean_if err_clean_last u err_clean_reads steps_rules) auto
qed

lemma purge_project_projects:
  assumes m: "\<And>mg. ps_projection s = Some mg \<Longrightarrow> mg_repo mg = Some memory_outbox"
  shows "projects (db (snd (purge_project s z p e w))) = projects (db w)"
proof -
  have cap: "steps R (capture_loop st fs cs)" if "db_frame R" "\<And>f. steps R (on_graph (st_read st f))"
    for R :: "'a world \<Rightarrow> 'a world \<Rightarrow> bool" and st fs cs
    using that by (induction fs arbitrary: cs) (auto intro!: steps_rules db_frame_frame split: sum.splits)
  have dbf: "db_frame (same (\<lambda>w. projects (db w)))" by (intro steps_rules)
  have sv: "steps (same (\<lambda>w. projects (db w))) (CreateOutboxEvents evs)" for evs
    unfolding CreateOutboxEvents_def by (intro steps_rules) simp
  have di: "steps (same (\<lambda>w. projects (db w))) (Dispatch (ps_projection s) ev)" for ev
  proof (cases "ps_projection s")
    case None
    then show ?thesis by (cases ev) (auto simp: Dispatch_def intro: steps_rules)
  next
    case (Some mg)
    have "same (\<lambda>w. projects (db w)) w w'" if "events_only w w'" for w w' :: "'a world"
      using arg_cong[where f = projects, OF that[unfolded same_def]] by (simp add: same_def non_events_def)
    then show ?thesis using steps_Dispatch[OF m[OF Some], of ev] by (simp add: Some steps_def)
  qed
  have "steps (same (\<lambda>w. projects (db w))) (purge_project s z p)"
    unfolding purge_project_def captureRelationships_def Let_def
    by (intro steps_rules dbf cap sv di db_frame_frame)
  then show ?thesis by (auto simp: steps_def same_def)
qed

text \<open>A projection manager, when there is one, works on the memory repository.\<close>

definition memory_backed :: "'g ProjectService \<Rightarrow> bool" where
  "memory_backed s \<longleftrightarrow> (case ps_projection s of None \<Rightarrow> True | Some mg \<Rightarrow> mg_repo mg = Some memory_outbox)"

lemma ArchiveProject_success:
  assumes run: "prj_ArchiveProject s req e w = (Inr q, w')"
  shows "\<exists>p. project_at (db w) (TrimSpace (aq_ID req)) = Some p \<and> pr_OrgID p = TrimSpace (aq_ZoneID req)
    \<and> (pr_Status p = StatusArchived \<and> q = p \<and> w' = w
       \<or> pr_Status p \<notin> {StatusArchived, StatusDeleted}
         \<and> (\<exists>t c u w3. q = p\<lparr>pr_Status := StatusArchived, pr_UpdatedAt := t\<rparr> \<and> graph w3 = graph w
              \<and> db w3 = (db w)\<lparr>projects := put_key (pr_ID p) (q\<lparr>pr_CreatedAt := c, pr_UpdatedAt := u\<rparr>) (projects (db w))\<rparr>
              \<and> purge_project s (aq_ZoneID req) q e w3 = ((), w')))"
proof -
  from run obtain p w1 where l: "loadProjectInZone s (aq_ID req) (aq_ZoneID req) e w = (Inr p, w1)"
    unfolding prj_ArchiveProject_def by (auto simp: bindE_Inr_iff split: if_split_asm)
  note p = loadProjectInZone_run[OF l]
  show ?thesis
  proof (cases "pr_Status p = StatusArchived")
    case True
    then show ?thesis using run l p by (auto simp: prj_ArchiveProject_def bindE_Inr_iff split: if_split_asm)
  next
    case False
    have lw: "loadProjectInZone s (aq_ID req) (aq_ZoneID req) e w = (Inr p, w)" using l p by simp
    have r: "ps_repo s" "pr_Status p \<noteq> StatusDeleted"
      using run lw False by (auto simp: prj_ArchiveProject_def split: if_split_asm)
    then have "bind_io now_io (\<lambda>now.
        bindE (UpsertProject (p\<lparr>pr_Status := StatusArchived, pr_UpdatedAt := now\<rparr>)) (\<lambda>_.
        bind_io (purge_project s (aq_ZoneID req) (p\<lparr>pr_Status := StatusArchived, pr_UpdatedAt := now\<rparr>))
          (\<lambda>_. okE (p\<lparr>pr_Status := StatusArchived, pr_UpdatedAt := now\<rparr>)))) e w = (Inr q, w')"
      using run lw False by (simp add: prj_ArchiveProject_def Let_def)
    then obtain now w2 v w3 u where n: "now_io e w = (now, w2)"
      and up: "UpsertProject (p\<lparr>pr_Status := StatusArchived, pr_UpdatedAt := now\<rparr>) e w2 = (Inr v, w3)"
      and pu: "purge_project s (aq_ZoneID req) (p\<lparr>pr_Status := StatusArchived, pr_UpdatedAt := now\<rparr>) e w3 = (u, w')"
      and q: "q = p\<lparr>pr_Status := StatusArchived, pr_UpdatedAt := now\<rparr>"
      by (auto simp: bindE_Inr_iff bind_io_iff simp del: now_io_run)
    obtain c d where "db w3 = (db w)\<lparr>projects := put_key (pr_ID p) (q\<lparr>pr_CreatedAt := c, pr_UpdatedAt := d\<rparr>)
        (projects (db w))\<rparr>" "graph w3 = graph w"
      using UpsertProject_run[OF up] q n by auto
    moreover have "purge_project s (aq_ZoneID req) q e w3 = ((), w')" using pu q by simp
    ultimately show ?thesis using False p r q by blast
  qed
qed

lemma loadProjectInZone_ok:
  assumes "ps_repo s" "project_at (db w) (TrimSpace i) = Some p" "pr_OrgID p = TrimSpace z"
    "TrimSpace i \<noteq> []" "TrimSpace z \<noteq> []"
  shows "loadProjectInZone s i z e w = (Inr p, w)"
proof -
  have "GetProject (TrimSpace i) (TrimSpace z) e w = (Inr p, w)"
    using assms by (simp add: project_reads.get_ok)
  then show ?thesis using assms by (simp add: loadProjectInZone_def Let_def)
qed

text \<open>C19. Archival is final.  A successful archival leaves the project stored as archived with its other
  fields, and from then on the zone can neither update the project nor change its capabilities,
  while archiving it again succeeds and changes nothing.\<close>

theorem archive_is_final:
  assumes m: "memory_backed s" and inv: "repo_inv (db w)"
    and run: "prj_ArchiveProject s req e w = (Inr q, w')"
    and up: "TrimSpace (uq_ID ur) = TrimSpace (aq_ID req)" "TrimSpace (uq_ZoneID ur) = TrimSpace (aq_ZoneID req)"
    and cap: "TrimSpace (sp_ProjectID cr) = TrimSpace (aq_ID req)" "TrimSpace (sp_ZoneID cr) = TrimSpace (aq_ZoneID req)"
      "TrimSpace (sp_CapabilityID cr) \<noteq> []"
  shows "pr_Status q = StatusArchived \<and> pr_OrgID q = TrimSpace (aq_ZoneID req)
    \<and> (\<exists>c u. project_at (db w') (TrimSpace (aq_ID req)) = Some (q\<lparr>pr_CreatedAt := c, pr_UpdatedAt := u\<rparr>))
    \<and> UpdateProject s ur e2 w' = (Inl (ErrNew ''project is not active''), w')
    \<and> prj_SetProjectCapability s cr e2 w' = (Inl (ErrNew ''project is not active''), w')
    \<and> (\<exists>q'. prj_ArchiveProject s req e2 w' = (Inr q', w'))"
proof -
  have pu: "projects (db w') = projects (db w3)" if "purge_project s z v e w3 = ((), w')" for z v w3
    using that purge_project_projects[of s z v e w3] m by (auto simp: memory_backed_def split: option.splits)
  from ArchiveProject_success[OF run] obtain p where p: "project_at (db w) (TrimSpace (aq_ID req)) = Some p"
      "pr_OrgID p = TrimSpace (aq_ZoneID req)"
    and c': "pr_Status p = StatusArchived \<and> q = p \<and> w' = w \<or> (\<exists>t c u w3. q = p\<lparr>pr_Status := StatusArchived, pr_UpdatedAt := t\<rparr> \<and> graph w3 = graph w
              \<and> db w3 = (db w)\<lparr>projects := put_key (pr_ID p) (q\<lparr>pr_CreatedAt := c, pr_UpdatedAt := u\<rparr>) (projects (db w))\<rparr>
              \<and> purge_project s (aq_ZoneID req) q e w3 = ((), w'))"
    by blast
  from c' have c: "pr_Status p = StatusArchived \<and> q = p \<and> w' = w \<or>
       (\<exists>t c u. q = p\<lparr>pr_Status := StatusArchived, pr_UpdatedAt := t\<rparr>
              \<and> projects (db w') = put_key (pr_ID p) (q\<lparr>pr_CreatedAt := c, pr_UpdatedAt := u\<rparr>) (projects (db w)))"
  proof (elim disjE exE conjE)
    fix t c u w3
    assume "q = p\<lparr>pr_Status := StatusArchived, pr_UpdatedAt := t\<rparr>" "purge_project s (aq_ZoneID req) q e w3 = ((), w')"
      "db w3 = (db w)\<lparr>projects := put_key (pr_ID p) (q\<lparr>pr_CreatedAt := c, pr_UpdatedAt := u\<rparr>) (projects (db w))\<rparr>"
    moreover from this(2) have "projects (db w') = projects (db w3)" by (rule pu)
    ultimately show ?thesis by (intro disjI2 exI[of _ t] exI[of _ c] exI[of _ u]) simp
  qed blast
  have pid: "pr_ID p = TrimSpace (aq_ID req)" using inv p(1) keyed_get by (auto simp: repo_inv_unfold)
  have self: "\<exists>c u. v = v\<lparr>pr_CreatedAt := c, pr_UpdatedAt := u\<rparr>"
    "\<exists>c' u'. v\<lparr>pr_Status := st, pr_CreatedAt := c, pr_UpdatedAt := u\<rparr> = v\<lparr>pr_Status := st, pr_CreatedAt := c', pr_UpdatedAt := u'\<rparr>"
    for v :: ProjectModel and st c u
    by (rule exI[of _ "pr_CreatedAt v"], rule exI[of _ "pr_UpdatedAt v"], simp) blast
  with c p pid have q: "pr_Status q = StatusArchived" "pr_OrgID q = TrimSpace (aq_ZoneID req)"
    and "\<exists>c u. project_at (db w') (TrimSpace (aq_ID req)) = Some (q\<lparr>pr_CreatedAt := c, pr_UpdatedAt := u\<rparr>)"
    by (auto simp: update_conv' self)
  then obtain cr' u where at: "project_at (db w') (TrimSpace (aq_ID req)) = Some (q\<lparr>pr_CreatedAt := cr', pr_UpdatedAt := u\<rparr>)"
    by blast
  have g: "ps_repo s" "TrimSpace (aq_ID req) \<noteq> []" "TrimSpace (aq_ZoneID req) \<noteq> []"
    using run by (auto simp: prj_ArchiveProject_def loadProjectInZone_def Let_def bindE_Inr_iff split: if_split_asm)
  note ld = loadProjectInZone_ok[OF g(1)]
  have a: "prj_ArchiveProject s req e2 w' = (Inr (q\<lparr>pr_CreatedAt := cr', pr_UpdatedAt := u\<rparr>), w')"
    using ld[OF at _ g(2,3), of e2] q g(1) by (simp add: prj_ArchiveProject_def)
  have b: "UpdateProject s ur e2 w' = (Inl (ErrNew ''project is not active''), w')"
    using ld[of w' "uq_ID ur" _ "uq_ZoneID ur" e2] at q g up by (simp add: UpdateProject_def)
  have "prj_SetProjectCapability s cr e2 w' = (Inl (ErrNew ''project is not active''), w')"
    using ld[of w' "TrimSpace (sp_ProjectID cr)" _ "TrimSpace (sp_ZoneID cr)" e2] at q g cap
    by (simp add: prj_SetProjectCapability_def Let_def)
  with q at a b show ?thesis by blast
qed

subsection \<open>The reach of the purge\<close>

lemma dispatch_graph:
  assumes d: "direct m S T" and f: "fresh m p ev" and st: "get_key (events (db w)) (ev_ID ev) = Some ev"
    and run: "Dispatch m (Some ev) e w = ((wr, r), w')"
  obtains wr' where "project_payload S p (graph w) = ((wr', r), graph w')"
proof -
  obtain mg where mg: "m = Some mg" "on_memory mg S" "mg_dtm mg = None" "codec_ok mg"
    using d by (auto simp: direct_def)
  have "stored_event mg w (ev_ID ev) ev p"
    using f st mg(1,4) by (auto simp: stored_event_def fresh_def codec_ok_def)
  then have l: "mem.loads mg w (ev_ID ev) ev p" by (simp add: mem_loads)
  have ns: "ev_Status ev \<noteq> StatusSynced" using f by (simp add: fresh_def)
  have c: "mem.configured mg S" using mg(2) by (simp add: mem_configured)
  have ap: "ApplyEvent (Some mg) (ev_ID ev) e w = ((wr, r), w')"
    using run mg by (simp add: Dispatch_def dtm_enabled_def bind_io_def on_memory_def)
  obtain wr1 r1 g' where g: "project_payload S p (graph w) = ((wr1, r1), g')" by (metis prod_cases3 surj_pair)
  have "r1 = r \<and> g' = graph w'"
  proof (cases r1)
    case None
    with mem.apply_ok[OF c l ns, of wr1 g' e] g ap show ?thesis by auto
  next
    case (Some er)
    with mem.apply_fail[OF c l ns, of wr1 er g' e] g ap show ?thesis by auto
  qed
  with g that show thesis by blast
qed

definition purge_payload :: "RelationshipFilter list \<Rightarrow> Relationship list \<Rightarrow> Payload" where
  "purge_payload fs rels = empty_payload\<lparr>pl_Operation := OperationDelete, pl_Filters := fs, pl_Relationships := rels\<rparr>"

lemma NewBatchDeleteEvent_fresh:
  "NewBatchDeleteEvent m at ai fs rels e w = (Inr event, w') \<Longrightarrow>
     \<exists>ev. event = Some ev \<and> fresh m (purge_payload fs rels) ev"
  by (auto simp: NewBatchDeleteEvent_def bindE_Inr_iff purge_payload_def dest: newEvent_fresh)

lemma dispatch_purge:
  assumes d: "direct m S T" and f: "fresh m (purge_payload fs rels) ev" and ne: "fs \<noteq> []"
    and st: "get_key (events (db w)) (ev_ID ev) = Some ev" and run: "Dispatch m (Some ev) e w = ((wr, r), w')"
  shows "T (graph w') \<subseteq> T (graph w) \<and> {t \<in> T (graph w). \<nexists>x. x \<in> set fs \<and> wide x t} \<subseteq> T (graph w')"
    and "r = None \<Longrightarrow> deleted fs (T (graph w)) (T (graph w'))"
    and "refuses_untyped S \<Longrightarrow> x \<in> set fs \<Longrightarrow> f_ResourceType x = [] \<Longrightarrow> r \<noteq> None"
proof -
  have S: "tuple_store S T" using d by (simp add: direct_def)
  obtain wr' where "project_payload S (purge_payload fs rels) (graph w) = ((wr', r), graph w')"
    using dispatch_graph[OF d f st run] by blast
  then have del: "deleteRelationships S fs (graph w) = ((wr', r), graph w')"
    using ne by (simp add: project_payload_def purge_payload_def)
  show "T (graph w') \<subseteq> T (graph w) \<and> {t \<in> T (graph w). \<nexists>x. x \<in> set fs \<and> wide x t} \<subseteq> T (graph w')"
    using delete_from_frame[OF S del[unfolded deleteRelationships_def]] by auto
  show "r = None \<Longrightarrow> deleted fs (T (graph w)) (T (graph w'))"
    using deleteRelationships_deleted[OF S] del by simp
  show "r \<noteq> None" if "refuses_untyped S" "x \<in> set fs" "f_ResourceType x = []"
    using delete_from_untyped[OF that, of no_result "graph w"] del by (simp add: deleteRelationships_def)
qed

lemma capture_loop_run:
  assumes "store_reads S T"
  shows "capture_loop S fs cs e w = (rels, w') \<Longrightarrow> db w' = db w \<and> T (graph w') = T (graph w)"
proof (induction fs arbitrary: cs w)
  case (Cons f fs)
  show ?case
  proof (cases "TrimSpace (f_ResourceType f) = []")
    case True
    then show ?thesis using Cons by simp
  next
    case False
    with Cons.prems obtain r g where r: "st_read S f (graph w) = (r, g)"
      and k: "(case r of Inl _ \<Rightarrow> ret cs | Inr rs \<Rightarrow> capture_loop S fs (cs @ rs)) e (w\<lparr>graph := g\<rparr>) = (rels, w')"
      by (auto simp: bind_io_iff on_graph_iff)
    have "T g = T (graph w)" using assms r by (auto simp: store_reads_def)
    then show ?thesis using k Cons.IH[of _ "w\<lparr>graph := g\<rparr>"] by (auto split: sum.splits)
  qed
qed simp

lemma captureRelationships_run:
  "reader \<in> {None, Some S} \<Longrightarrow> tuple_store S T \<Longrightarrow> captureRelationships reader fs e w = (rels, w') \<Longrightarrow>
     db w' = db w \<and> T (graph w') = T (graph w)"
  by (auto simp: captureRelationships_def tuple_store_def dest: capture_loop_run)

lemma purge_project_reach:
  assumes d: "direct (ps_projection s) S T" and rd: "ps_reader s \<in> {None, Some S}"
    and run: "purge_project s z p e w = ((), w')"
  shows "{t \<in> T (graph w). \<nexists>x. x \<in> set (purge_filters ResourceTypeProject (QualifiedID z (pr_ID p))) \<and> wide x t} \<subseteq> T (graph w')"
proof -
  let ?fs = "purge_filters ResourceTypeProject (QualifiedID z (pr_ID p))"
  obtain rels w1 where c: "captureRelationships (ps_reader s) ?fs e w = (rels, w1)" by fastforce
  have g1: "T (graph w1) = T (graph w)"
    using captureRelationships_run[OF rd _ c] d by (simp add: direct_def)
  obtain r w2 where ev: "NewBatchDeleteEvent (ps_projection s) ''project'' (pr_ID p) ?fs rels e w1 = (r, w2)" by fastforce
  have g2: "graph w2 = graph w1" using unchanged_builders(4)[OF ev] by simp
  show ?thesis
  proof (cases r)
    case (Inl er)
    then have "w' = w2" using run c ev by (simp add: purge_project_def Let_def bind_io_def)
    then show ?thesis using g1 g2 by auto
  next
    case (Inr event)
    then obtain v where v: "event = Some v" "fresh (ps_projection s) (purge_payload ?fs rels) v"
      using NewBatchDeleteEvent_fresh ev by blast
    let ?w3 = "w2\<lparr>db := saveEvents [Some v] (db w2)\<rparr>"
    obtain wr er where di: "Dispatch (ps_projection s) (Some v) e ?w3 = ((wr, er), w')"
      using run c ev Inr v(1)
      by (auto simp: purge_project_def Let_def bind_io_def CreateOutboxEvents_def split: prod.splits)
    have "get_key (events (db ?w3)) (ev_ID v) = Some v" using v(2) by (simp add: events_saveEvents1 fresh_def)
    from dispatch_purge(1)[OF d v(2) _ this di] g1 g2 show ?thesis by (simp add: purge_filters_def)
  qed
qed

lemma QualifiedID_differs:
  "TrimSlash (TrimSpace z) \<noteq> [] \<Longrightarrow> TrimSlash (TrimSpace i) = TrimSpace i \<Longrightarrow> TrimSpace i \<noteq> [] \<Longrightarrow> QualifiedID z i \<noteq> TrimSpace i"
  by (auto simp: QualifiedID_def Let_def dest: arg_cong[where f = length])

text \<open>The purge of an archival does not reach the project's grants.  The purge selects the tuples
  of the identifier qualified with the zone; grants are written on the plain identifier, so
  every tuple on the plain project identifier, grants included, survives the archival.\<close>

theorem archive_leaves_plain_tuples:
  assumes d: "direct (ps_projection s) S T" and rd: "ps_reader s \<in> {None, Some S}"
    and run: "prj_ArchiveProject s req e w = (Inr q, w')"
    and t: "(Object ''project'' (pr_ID q), relation, subject) \<in> T (graph w)" "su_Type subject \<noteq> ''project''"
    and ids: "TrimSlash (TrimSpace (aq_ZoneID req)) \<noteq> []" "TrimSlash (TrimSpace (pr_ID q)) = TrimSpace (pr_ID q)"
      "TrimSpace (pr_ID q) \<noteq> []"
  shows "(Object ''project'' (pr_ID q), relation, subject) \<in> T (graph w')"
proof -
  have "w' = w \<or> (\<exists>w3. graph w3 = graph w \<and> purge_project s (aq_ZoneID req) q e w3 = ((), w'))"
    using ArchiveProject_success[OF run] by blast
  moreover have "\<not> wide x (Object ''project'' (pr_ID q), relation, subject)"
    if "x \<in> set (purge_filters ResourceTypeProject (QualifiedID (aq_ZoneID req) (pr_ID q)))" for x
    using that t(2) QualifiedID_differs[OF ids] ids(1)
    by (auto simp: purge_filters_def wide_def field_matches_def empty_filter_def QualifiedID_def Let_def split: if_splits)
  ultimately show ?thesis using t(1) purge_project_reach[OF d rd, of "aq_ZoneID req" q e _ w'] by fastforce
qed

subsection \<open>Runs of the service\<close>

definition prj_world :: "ProjectModel gomap \<Rightarrow> 'g \<Rightarrow> 'g world" where
  "prj_world ps g = (empty_world g)\<lparr>db := NewMemoryControlPlaneRepository\<lparr>projects := ps\<rparr>\<rparr>"

definition sample_owner :: GrantSubject where
  "sample_owner = \<lparr>sr_Type = ''user'', sr_ID = ''u1'', sr_Relation = []\<rparr>"

definition sample_create :: CreateProjectRequest where
  "sample_create = \<lparr>cp_ID = ''p1'', cp_ZoneID = ''acme'', cp_Slug = ''s'', cp_DisplayName = [], cp_Description = [],
     cp_Visibility = [], cp_LabelsJSON = [], cp_AnnotationsJSON = [], cp_MetadataJSON = [],
     cp_CreatedBy = sample_owner, cp_Owner = sample_owner\<rparr>"

definition sample_prj :: "Payload \<Rightarrow> (Relationship list) ProjectService" where
  "sample_prj p = \<lparr>ps_repo = True, ps_projection = Some (one_payload_manager p),
     ps_reader = Some (set_store False []), ps_json = Inr\<rparr>"

definition create_payload :: Payload where
  "create_payload = empty_payload\<lparr>pl_Operation := OperationWrite,
     pl_Relationships := project_rels sample_kernel ''acme'' ''p1'' sample_owner\<rparr>"

lemma sample_prj_direct: "direct (ps_projection (sample_prj p)) (set_store False []) set_tuples"
  using sample_direct[of p] by (simp add: sample_prj_def sample_service_def)

lemma accepts_write: "pl_Operation p = OperationWrite \<Longrightarrow> accepts (set_store b []) p"
  by (simp add: accepts_def project_payload_def set_store_def)

lemma sample_owner_set [simp]: "\<not> subjectZero sample_owner"
  by (simp add: subjectZero_def sample_owner_def TrimSpace_visible visible_def)

lemma sample_create_run:
  "\<exists>p wr w'. prj_CreateProject (sample_prj create_payload) sample_create sample_env w = (Inr (p, wr, None), w')"
proof -
  let ?s = "sample_prj create_payload" and ?p = "new_project sample_kernel sample_create ''p1'' (clock sample_env (ticks w))"
  have pid: "pr_ID ?p = ''p1''" by (simp add: new_project_def)
  obtain ev w2 where ev: "NewWriteEvent (ps_projection ?s) ''project'' ''p1''
      (project_rels sample_kernel ''acme'' ''p1'' sample_owner) sample_env (tick w) = (Inr (Some ev), w2)"
    by (auto simp: NewWriteEvent_def newEvent_def sample_prj_def one_payload_manager_def NewManager_def create_payload_def
        project_rels_nonempty bindE_def bind_io_def)
  then have fr: "fresh (ps_projection ?s) create_payload ev"
    using NewWriteEvent_Some[OF ev project_rels_nonempty] by (simp add: create_payload_def)
  obtain w3 where cr: "CreateProject ?p [Some ev] sample_env w2 = (Inr (), w3)"
    using CreateProject_ex by blast
  obtain c u where "db w3 = saveEvents [Some ev] ((db w2)\<lparr>projects := put_key ''p1''
      (?p\<lparr>pr_CreatedAt := c, pr_UpdatedAt := u\<rparr>) (projects (db w2))\<rparr>)" using CreateProject_run[OF cr] pid by auto
  then have "get_key (events (db w3)) (ev_ID ev) = Some ev" using fr by (simp add: events_saveEvents1 fresh_def)
  from dispatch_accepts[OF sample_prj_direct fr this accepts_write, of sample_env] obtain wr w4 where
    di: "Dispatch (ps_projection ?s) (Some ev) sample_env w3 = ((wr, None), w4)"
    by (auto simp: create_payload_def)
  have req: "TrimSpace (cp_ZoneID sample_create) = ''acme''" "TrimSpace (cp_Slug sample_create) = ''s''"
    "\<not> subjectZero (cp_CreatedBy sample_create)" "\<not> subjectZero (cp_Owner sample_create)"
    "TrimSpace (cp_ID sample_create) = ''p1''" "cp_Owner sample_create = sample_owner" "ps_repo ?s" "kern sample_env = sample_kernel"
    by (simp_all add: sample_create_def sample_owner_def subjectZero_def trims sample_prj_def sample_env_def)
  have "prj_CreateProject ?s sample_create sample_env w = (Inr (?p, wr, None), w4)"
    by (simp add: prj_CreateProject_def Let_def req bind_io_def pid ev cr di)
  then show ?thesis by blast
qed

lemma sample_create_id: "TrimSpace (cp_ID sample_create) = ''p1''" "TrimSpace (cp_ZoneID sample_create) = ''acme''"
  by (simp_all add: sample_create_def trims)

lemma sample_create_owner: "cp_Owner sample_create = sample_owner"
  by (simp add: sample_create_def)

lemma project_created_witness:
  "\<exists>p wr w'. prj_CreateProject (sample_prj create_payload) sample_create sample_env (prj_world [] []) = (Inr (p, wr, None), w')
    \<and> pr_Status p = StatusActive \<and> pr_OrgID p = ''acme'' \<and> project_at (db w') (pr_ID p) \<noteq> None
    \<and> card (set_tuples (graph w')) = 2"
proof -
  obtain p wr w' where run: "prj_CreateProject (sample_prj create_payload) sample_create sample_env (prj_world [] [])
      = (Inr (p, wr, None), w')" using sample_create_run by blast
  from project_created[OF sample_prj_direct run] have "pr_Status p = StatusActive" "pr_OrgID p = ''acme''"
    "project_at (db w') (pr_ID p) \<noteq> None"
    "set_tuples (graph w') = keys (project_rels sample_kernel ''acme'' (pr_ID p) sample_owner)"
    by (auto simp: sample_create_id prj_world_def empty_world_def set_tuples_def sample_env_def sample_create_owner)
  moreover have "card (keys (project_rels sample_kernel ''acme'' (pr_ID p) sample_owner)) = 2"
    by (simp add: project_rels_def rel_key_def Subject_def toAuthzSubject_def sample_owner_def trims)
  ultimately show ?thesis using run by auto
qed

lemma create_project_overwrites_witness:
  "\<exists>p wr w' m. prj_CreateProject (sample_prj create_payload) sample_create sample_env
      (prj_world [(''p1'', sample_project ''p1'' ''zeta'')] []) = (Inr (p, wr, None), w')
    \<and> GetProject ''p1'' ''zeta'' sample_env w' = (Inl (ErrNotFound m), w')"
proof -
  let ?w = "prj_world [(''p1'', sample_project ''p1'' ''zeta'')] []"
  obtain p wr w' where run: "prj_CreateProject (sample_prj create_payload) sample_create sample_env ?w
      = (Inr (p, wr, None), w')" using sample_create_run by blast
  have old: "project_at (db ?w) (TrimSpace (cp_ID sample_create)) = Some (sample_project ''p1'' ''zeta'')"
    "pr_OrgID (sample_project ''p1'' ''zeta'') \<noteq> TrimSpace (cp_ZoneID sample_create)"
    "TrimSpace (cp_ID sample_create) \<noteq> []"
    by (simp_all add: sample_create_id prj_world_def sample_project_def)
  from create_project_overwrites[OF old sample_prj_direct run, of sample_env] run show ?thesis
    by (auto simp: sample_create_id sample_project_def)
qed

definition sample_archive :: ArchiveProjectRequest where
  "sample_archive = \<lparr>aq_ID = ''p1'', aq_ZoneID = ''zeta'', aq_Reason = ''done''\<rparr>"

definition archive_world :: "Relationship list \<Rightarrow> (Relationship list) world" where
  "archive_world g = prj_world [(''p1'', sample_project ''p1'' ''zeta'')] g"

definition sample_purge :: Payload where
  "sample_purge = purge_payload (purge_filters ResourceTypeProject ''zeta/p1'') []"

lemma sample_archive_run:
  "\<exists>q w'. prj_ArchiveProject (sample_prj sample_purge) sample_archive sample_env (archive_world g) = (Inr q, w') \<and> pr_ID q = ''p1''"
proof -
  let ?s = "sample_prj sample_purge" and ?w = "archive_world g"
  have l: "loadProjectInZone ?s (aq_ID sample_archive) (aq_ZoneID sample_archive) sample_env ?w
      = (Inr (sample_project ''p1'' ''zeta''), ?w)"
    by (rule loadProjectInZone_ok) (simp_all add: sample_prj_def sample_archive_def archive_world_def prj_world_def trims sample_project_def)
  have up: "UpsertProject p sample_env w \<noteq> (Inl er, w')" for p er w' and w :: "Relationship list world"
    by (rule UpsertProject_not_Inl)
  have st: "pr_Status (sample_project ''p1'' ''zeta'') = StatusActive" "pr_ID (sample_project ''p1'' ''zeta'') = ''p1''" "ps_repo ?s"
    by (simp_all add: sample_project_def sample_prj_def)
  show ?thesis
    by (simp add: prj_ArchiveProject_def l st bind_io_def bindE_def up Let_def split: prod.splits sum.splits)
qed

lemma archive_is_final_witness:
  "\<exists>q w'. prj_ArchiveProject (sample_prj sample_purge) sample_archive sample_env (archive_world []) = (Inr q, w')
    \<and> pr_Status q = StatusArchived
    \<and> UpdateProject (sample_prj sample_purge) \<lparr>uq_ID = ''p1'', uq_ZoneID = ''zeta'', uq_DisplayName = Some ''New'',
        uq_Description = None, uq_Visibility = None, uq_LabelsJSON = None, uq_AnnotationsJSON = None,
        uq_MetadataJSON = None\<rparr> sample_env w' = (Inl (ErrNew ''project is not active''), w')"
proof -
  obtain q w' where run: "prj_ArchiveProject (sample_prj sample_purge) sample_archive sample_env (archive_world []) = (Inr q, w')"
    using sample_archive_run by blast
  let ?u = "\<lparr>uq_ID = ''p1'', uq_ZoneID = ''zeta'', uq_DisplayName = Some ''New'', uq_Description = None,
      uq_Visibility = None, uq_LabelsJSON = None, uq_AnnotationsJSON = None, uq_MetadataJSON = None\<rparr>"
  let ?c = "\<lparr>sp_ZoneID = ''zeta'', sp_ProjectID = ''p1'', sp_CapabilityID = ''chat'', sp_Enabled = True,
      sp_ConfigJSON = [], sp_QuotaJSON = []\<rparr>"
  have m: "memory_backed (sample_prj sample_purge)"
    by (simp add: memory_backed_def sample_prj_def one_payload_manager_def NewManager_def)
  have inv: "repo_inv (db (archive_world []))"
    by (auto simp: archive_world_def prj_world_def empty_world_def NewMemoryControlPlaneRepository_def repo_inv_unfold
        keyed_def all_vals_def sample_project_def)
  have ids: "TrimSpace (uq_ID ?u) = TrimSpace (aq_ID sample_archive)" "TrimSpace (uq_ZoneID ?u) = TrimSpace (aq_ZoneID sample_archive)"
    "TrimSpace (sp_ProjectID ?c) = TrimSpace (aq_ID sample_archive)" "TrimSpace (sp_ZoneID ?c) = TrimSpace (aq_ZoneID sample_archive)"
    "TrimSpace (sp_CapabilityID ?c) \<noteq> []"
    by (simp_all add: sample_archive_def trims)
  from archive_is_final[OF m inv run ids, of sample_env] run show ?thesis by blast
qed

definition project_grant :: Relationship where
  "project_grant = \<lparr>rel_Resource = Object ''project'' ''p1'', rel_Relation = ''viewer'',
     rel_Subject = Subject ''user'' ''u2'' [], rel_ExpiresAt = 0\<rparr>"

lemma archive_leaves_plain_tuples_witness:
  "\<exists>q w'. prj_ArchiveProject (sample_prj sample_purge) sample_archive sample_env (archive_world [project_grant]) = (Inr q, w')
    \<and> rel_key project_grant \<in> set_tuples (graph w')"
proof -
  obtain q w' where run: "prj_ArchiveProject (sample_prj sample_purge) sample_archive sample_env (archive_world [project_grant])
      = (Inr q, w')" "pr_ID q = ''p1''" using sample_archive_run by blast
  have t: "(Object ''project'' (pr_ID q), ''viewer'', Subject ''user'' ''u2'' []) \<in> set_tuples (graph (archive_world [project_grant]))"
    by (simp add: run(2) archive_world_def prj_world_def empty_world_def set_tuples_def project_grant_def rel_key_def)
  have s: "TrimSlash ''zeta'' = ''zeta''" "TrimSlash ''p1'' = ''p1''"
    by (simp_all add: TrimSlash_def trim_back_def trim_front_fix strip1_None_iff)
  have "TrimSlash (TrimSpace (aq_ZoneID sample_archive)) \<noteq> []" "TrimSlash (TrimSpace (pr_ID q)) = TrimSpace (pr_ID q)"
    "TrimSpace (pr_ID q) \<noteq> []" "ps_reader (sample_prj sample_purge) \<in> {None, Some (set_store False [])}"
    "su_Type (Subject ''user'' ''u2'' []) \<noteq> ''project''"
    by (simp_all add: sample_archive_def run(2) trims s sample_prj_def)
  from archive_leaves_plain_tuples[OF sample_prj_direct this(4) run(1) t this(5) this(1-3)] run show ?thesis
    by (auto simp: rel_key_def project_grant_def)
qed

end
