(* ===== verification/ResourceSvc.thy ===== *)
theory ResourceSvc
  imports ProjectLaws
begin

text \<open>
  The resource service of \<open>internal/biz/resource/service.go\<close>: resource types, resources and their
  parents, bindings between resources and to external ones, deletion, archival and moves.  Its
  subject type has the fields of \<open>GrantSubject\<close>, and its helpers \<open>nonEmpty\<close>, \<open>jsonOr\<close>,
  \<open>subjectZero\<close>, \<open>toAuthzSubject\<close> and \<open>subjectString\<close> are those of the other services.
  A result \<open>Inr (value, \<dots>, Some er)\<close> is a value returned together with an error.
  \<open>rs_json_error\<close> is the error of \<open>json.Unmarshal\<close> for a text that is not a list of strings.
\<close>

record RegisterResourceTypeRequest =
  rq_Type :: string
  rq_CapabilityID :: string
  rq_OwnerService :: string
  rq_ParentTypesJSON :: string
  rq_Grantable :: bool
  rq_Auditable :: bool
  rq_SpiceDBType :: string
  rq_RelationsJSON :: string
  rq_PermissionsJSON :: string
  rq_MetadataSchema :: string

record UpsertResourceRequest =
  ur_Ref :: ResourceRef
  ur_OrgID :: string
  ur_ProjectID :: string
  ur_Parent :: ResourceRef
  ur_OwnerService :: string
  ur_OwnerResourceID :: string
  ur_Slug :: string
  ur_DisplayName :: string
  ur_Path :: string
  ur_Status :: string
  ur_Visibility :: string
  ur_LabelsJSON :: string
  ur_AnnotationsJSON :: string
  ur_MetadataJSON :: string
  ur_CreatedBy :: GrantSubject
  ur_Owner :: GrantSubject

record BindResourceRequest =
  bq_ID :: string
  bq_OrgID :: string
  bq_Source :: ResourceRef
  bq_Relation :: string
  bq_Target :: ResourceRef
  bq_CreatedBy :: GrantSubject

record BindExternalResourceRequest =
  xq_ID :: string
  xq_OrgID :: string
  xq_Resource :: ResourceRef
  xq_Provider :: string
  xq_ExternalType :: string
  xq_ExternalID :: string
  xq_ExternalPath :: string
  xq_ExternalURL :: string
  xq_SyncMode :: string
  xq_MetadataJSON :: string

record 'g ResourceService =
  rs_repo :: bool
  rs_projection :: "'g Manager option"
  rs_reader :: "'g store option"
  rs_json_error :: "string \<Rightarrow> err"

abbreviation RelationParent :: string where "RelationParent \<equiv> ''parent''"

definition no_resource_repo :: err where "no_resource_repo = ErrNew ''resource service repository is nil''"

text \<open>\<open>NewService\<close>; \<open>reads\<close> tells whether the writer also implements \<open>RelationshipReader\<close>.\<close>

definition NewResourceService ::
    "codec \<Rightarrow> (string \<Rightarrow> err) \<Rightarrow> bool \<Rightarrow> bool \<Rightarrow> 'g store option \<Rightarrow> 'g Manager option list \<Rightarrow> 'g ResourceService" where
  "NewResourceService codec je repo reads writer managers =
     \<lparr>rs_repo = repo,
      rs_projection = (case firstProjectionManager managers of
        None \<Rightarrow> Some (NewManager codec (if repo then Some memory_outbox else None) writer None)
      | Some m \<Rightarrow> Some m),
      rs_reader = (if reads then writer else None), rs_json_error = je\<rparr>"

subsection \<open>Checks and types\<close>

definition trim_ref :: "ResourceRef \<Rightarrow> ResourceRef" where
  "trim_ref ref = \<lparr>rr_Type = TrimSpace (rr_Type ref), rr_ID = TrimSpace (rr_ID ref)\<rparr>"

definition res_spiceType :: "string \<Rightarrow> ('g, string) opE" where
  "res_spiceType typ =
     (if TrimSpace typ \<in> {''organization'', ''project''} then okE (TrimSpace typ)
      else bindE (GetResourceType typ) (\<lambda>rt.
           okE (if TrimSpace (rt_SpiceDBType rt) = [] then rt_Type rt else rt_SpiceDBType rt)))"

definition requireResourceExists :: "ResourceRef \<Rightarrow> string \<Rightarrow> ('g, unit) opE" where
  "requireResourceExists ref orgID =
     (let t = TrimSpace (rr_Type ref) in
      if t = [] then failE (ErrNew ''resource type is required'')
      else if t = ''organization'' then failE (ErrNew ''resource type organization is removed; use zone'')
      else if t = ''zone'' \<or> t = ''group''
      then (if TrimSpace (rr_ID ref) = [] then failE (ErrNew ''resource id is required'') else okE ())
      else if t = ''project'' then bindE (GetProject (rr_ID ref) orgID) (\<lambda>_. okE ())
      else bindE (GetResource (rr_Type ref) (rr_ID ref) orgID) (\<lambda>_. okE ()))"

definition requireListed :: "'g ResourceService \<Rightarrow> string \<Rightarrow> string \<Rightarrow> string \<Rightarrow> err + unit" where
  "requireListed s raw v message =
     (let v = TrimSpace v in
      if v = [] then Inr ()
      else (case json_strings (jsonOr raw ''[]'') of
              None \<Rightarrow> Inl (rs_json_error s (jsonOr raw ''[]''))
            | Some items \<Rightarrow>
                if \<exists>item \<in> set items. TrimSpace item = v then Inr ()
                else Inl (ErrNew (message @ '': '' @ v))))"

definition RegisterResourceType ::
    "'g ResourceService \<Rightarrow> RegisterResourceTypeRequest \<Rightarrow> ('g, ResourceTypeModel) opE" where
  "RegisterResourceType s req =
     (if \<not> rs_repo s then failE no_resource_repo
      else
        let typ = TrimSpace (rq_Type req) in
        if typ = [] then failE (ErrNew ''resource type is required'')
        else
          bind_io now_io (\<lambda>now.
          let rt = \<lparr>rt_Type = typ, rt_CapabilityID = TrimSpace (rq_CapabilityID req),
                rt_OwnerService = (if TrimSpace (rq_OwnerService req) = [] then ''aisphere-iam''
                                   else TrimSpace (rq_OwnerService req)),
                rt_ParentTypesJSON = jsonOr (rq_ParentTypesJSON req) ''[]'',
                rt_Grantable = rq_Grantable req, rt_Auditable = rq_Auditable req,
                rt_SpiceDBType = (if TrimSpace (rq_SpiceDBType req) = [] then typ
                                  else TrimSpace (rq_SpiceDBType req)),
                rt_RelationsJSON = jsonOr (rq_RelationsJSON req) ''[]'',
                rt_PermissionsJSON = jsonOr (rq_PermissionsJSON req) ''[]'',
                rt_MetadataSchema = jsonOr (rq_MetadataSchema req) ''{}'',
                rt_Status = StatusActive, rt_CreatedAt = now, rt_UpdatedAt = now\<rparr> in
          bindE (UpsertResourceType rt) (\<lambda>_. okE rt)))"

subsection \<open>Resources and their parents\<close>

definition parent_rel :: "string \<Rightarrow> string \<Rightarrow> string \<Rightarrow> string \<Rightarrow> Relationship" where
  "parent_rel spiceType ident parentType parentID =
     \<lparr>rel_Resource = Object spiceType ident, rel_Relation = RelationParent,
      rel_Subject = Subject parentType parentID [], rel_ExpiresAt = zero_time\<rparr>"

text \<open>The parent edge of a resource, when it has a parent.\<close>

definition parent_edges :: "string \<Rightarrow> string \<Rightarrow> string \<Rightarrow> string \<Rightarrow> ('g, Relationship list) opE" where
  "parent_edges spiceType ident ptype pid =
     (if TrimSpace ptype \<noteq> [] \<and> TrimSpace pid \<noteq> []
      then bindE (res_spiceType ptype) (\<lambda>parentType. okE [parent_rel spiceType ident parentType pid])
      else okE [])"

definition owner_edges :: "kernel \<Rightarrow> string \<Rightarrow> string \<Rightarrow> GrantSubject \<Rightarrow> Relationship list" where
  "owner_edges K spiceType ident owner =
     (if subjectZero owner then []
      else [\<lparr>rel_Resource = Object spiceType ident, rel_Relation = ''owner'',
             rel_Subject = toAuthzSubject K owner, rel_ExpiresAt = zero_time\<rparr>])"

definition new_resource ::
    "kernel \<Rightarrow> UpsertResourceRequest \<Rightarrow> ResourceTypeModel \<Rightarrow> string \<Rightarrow> gotime \<Rightarrow> ResourceModel" where
  "new_resource K req rt ident now =
     \<lparr>re_Type = TrimSpace (rr_Type (ur_Ref req)), re_ID = ident, re_OrgID = TrimSpace (ur_OrgID req),
      re_ProjectID = TrimSpace (ur_ProjectID req), re_ParentType = TrimSpace (rr_Type (ur_Parent req)),
      re_ParentID = TrimSpace (rr_ID (ur_Parent req)),
      re_OwnerService = nonEmpty (ur_OwnerService req) (rt_OwnerService rt),
      re_OwnerResourceID = nonEmpty (ur_OwnerResourceID req) ident, re_Slug = TrimSpace (ur_Slug req),
      re_DisplayName = TrimSpace (ur_DisplayName req), re_Path = TrimSpace (ur_Path req),
      re_Status = nonEmpty (ur_Status req) StatusActive, re_Visibility = nonEmpty (ur_Visibility req) ''private'',
      re_LabelsJSON = jsonOr (ur_LabelsJSON req) ''{}'', re_AnnotationsJSON = jsonOr (ur_AnnotationsJSON req) ''{}'',
      re_MetadataJSON = jsonOr (ur_MetadataJSON req) ''{}'', re_CreatedBy = subjectString K (ur_CreatedBy req),
      re_CreatedAt = now, re_UpdatedAt = now, re_DeletedAt = None\<rparr>"

definition check_parent :: "'g ResourceService \<Rightarrow> UpsertResourceRequest \<Rightarrow> ResourceTypeModel \<Rightarrow> ('g, unit) opE" where
  "check_parent s req rt =
     (if rr_Type (ur_Parent req) \<noteq> []
      then bindE (liftE (requireListed s (rt_ParentTypesJSON rt) (rr_Type (ur_Parent req))
                           ''parent type is not allowed for resource type''))
             (\<lambda>_. requireResourceExists (ur_Parent req) (ur_OrgID req))
      else okE ())"

text \<open>The end of \<open>UpsertResource\<close>, once the record is built: its edges, its event, the store, the dispatch.\<close>

definition project_resource ::
    "'g ResourceService \<Rightarrow> kernel \<Rightarrow> ResourceTypeModel \<Rightarrow> GrantSubject \<Rightarrow> ResourceModel
     \<Rightarrow> ('g, ResourceModel \<times> WriteResult \<times> err option) opE" where
  "project_resource s K rt owner model =
     bind_io (parent_edges (rt_SpiceDBType rt) (re_ID model) (re_ParentType model) (re_ParentID model)) (\<lambda>r.
     case r of
       Inl er \<Rightarrow> okE (model, no_result, Some er)
     | Inr parents \<Rightarrow>
         bindE (NewWriteEvent (rs_projection s) ''resource'' (re_Type model @ '':'' @ re_ID model)
                  (parents @ owner_edges K (rt_SpiceDBType rt) (re_ID model) owner)) (\<lambda>event.
         bindE (UpsertResource model [event]) (\<lambda>_.
         bind_io (Dispatch (rs_projection s) event) (\<lambda>(wr, er). okE (model, wr, er)))))"

definition res_UpsertResource ::
    "'g ResourceService \<Rightarrow> UpsertResourceRequest \<Rightarrow> ('g, ResourceModel \<times> WriteResult \<times> err option) opE" where
  "res_UpsertResource s req =
     (if \<not> rs_repo s then failE no_resource_repo
      else
        let typ = TrimSpace (rr_Type (ur_Ref req)) in
        if typ = [] then failE (ErrNew ''resource type is required'')
        else
          bind_io (if TrimSpace (rr_ID (ur_Ref req)) = [] then new_id typ
                   else ret (TrimSpace (rr_ID (ur_Ref req)))) (\<lambda>ident.
          bindE (GetResourceType typ) (\<lambda>rt.
          bindE (check_parent s req rt) (\<lambda>_.
          bind_io now_io (\<lambda>now.
          bind_io (asks (\<lambda>e w. kern e)) (\<lambda>K.
          let model = new_resource K req rt ident now in
          if re_OrgID model = [] then failE (ErrNew ''org_id is required'')
          else
            project_resource s K rt (ur_Owner req) model))))))"

text \<open>\<open>MoveResource\<close>: the new parent is stored first, then its edge replaces the old one.\<close>

definition MoveResource ::
    "'g ResourceService \<Rightarrow> ResourceRef \<Rightarrow> ResourceRef \<Rightarrow> string \<Rightarrow> ('g, ResourceModel \<times> err option) opE" where
  "MoveResource s ref newParent orgID =
     (if \<not> rs_repo s then failE no_resource_repo
      else
        let ref = trim_ref ref in
        if rr_Type ref = [] \<or> rr_ID ref = [] then failE (ErrNew ''resource type and id are required'')
        else
          bindE (GetResource (rr_Type ref) (rr_ID ref) orgID) (\<lambda>existing.
          bindE (res_spiceType (rr_Type ref)) (\<lambda>spiceType.
          bindE (parent_edges spiceType (re_ID existing) (re_ParentType existing) (re_ParentID existing)) (\<lambda>previous.
          let moved = existing\<lparr>re_ParentType := TrimSpace (rr_Type newParent), re_ParentID := TrimSpace (rr_ID newParent)\<rparr> in
          bindE (parent_edges spiceType (re_ID moved) (re_ParentType moved) (re_ParentID moved)) (\<lambda>desired.
          bindE (UpsertResource moved []) (\<lambda>_.
          if previous = [] \<and> desired = [] then okE (moved, None)
          else
            bind_io (NewReplaceEvent (rs_projection s) ''resource'' (rr_Type ref @ '':'' @ rr_ID ref) previous desired) (\<lambda>r.
            case r of
              Inl er \<Rightarrow> okE (moved, Some er)
            | Inr event \<Rightarrow>
                bind_io (CreateOutboxEvents [event]) (\<lambda>r.
                case r of
                  Inl er \<Rightarrow> okE (moved, Some er)
                | Inr _ \<Rightarrow> bind_io (Dispatch (rs_projection s) event) (\<lambda>(wr, er). okE (moved, er))))))))))"

subsection \<open>Bindings\<close>

definition bindingRelationship :: "ResourceRef \<Rightarrow> string \<Rightarrow> ResourceRef \<Rightarrow> ('g, Relationship) opE" where
  "bindingRelationship source relation target =
     bindE (res_spiceType (rr_Type source)) (\<lambda>srcType.
     bindE (res_spiceType (rr_Type target)) (\<lambda>tgtType.
     okE \<lparr>rel_Resource = Object srcType (rr_ID source), rel_Relation = relation,
          rel_Subject = Subject tgtType (rr_ID target) [], rel_ExpiresAt = zero_time\<rparr>))"

definition res_BindResource ::
    "'g ResourceService \<Rightarrow> BindResourceRequest \<Rightarrow> ('g, ResourceBindingModel \<times> WriteResult \<times> err option) opE" where
  "res_BindResource s req =
     (if \<not> rs_repo s then failE no_resource_repo
      else
        let source = trim_ref (bq_Source req); target = trim_ref (bq_Target req); relation = TrimSpace (bq_Relation req) in
        if rr_Type source = [] \<or> rr_ID source = [] \<or> rr_Type target = [] \<or> rr_ID target = [] \<or> relation = []
        then failE (ErrNew ''source, target and relation are required'')
        else
          bindE (GetResourceType (rr_Type source)) (\<lambda>sourceType.
          bindE (liftE (requireListed s (rt_RelationsJSON sourceType) relation
                   ''relation is not allowed for source resource type'')) (\<lambda>_.
          bindE (requireResourceExists source (bq_OrgID req)) (\<lambda>_.
          bindE (requireResourceExists target (bq_OrgID req)) (\<lambda>_.
          bind_io (if TrimSpace (bq_ID req) = [] then new_id ''binding'' else ret (TrimSpace (bq_ID req))) (\<lambda>ident.
          bind_io now_io (\<lambda>now.
          bind_io (asks (\<lambda>e w. kern e)) (\<lambda>K.
          let binding = \<lparr>rb_ID = ident, rb_OrgID = bq_OrgID req, rb_SourceType = rr_Type source,
                rb_SourceID = rr_ID source, rb_Relation = relation, rb_TargetType = rr_Type target,
                rb_TargetID = rr_ID target, rb_Status = StatusActive,
                rb_CreatedBy = subjectString K (bq_CreatedBy req), rb_CreatedAt = now, rb_UpdatedAt = now\<rparr> in
          bind_io (bindingRelationship source relation target) (\<lambda>r.
          case r of
            Inl er \<Rightarrow> okE (binding, no_result, Some er)
          | Inr rel \<Rightarrow>
              bindE (NewWriteEvent (rs_projection s) ''resource_binding'' ident [rel]) (\<lambda>event.
              bindE (BindResource binding [event]) (\<lambda>_.
              bind_io (Dispatch (rs_projection s) event) (\<lambda>(wr, er). okE (binding, wr, er)))))))))))))"

definition binding_rel :: "ResourceBindingModel \<Rightarrow> string \<Rightarrow> string \<Rightarrow> Relationship" where
  "binding_rel b srcType tgtType =
     \<lparr>rel_Resource = Object srcType (rb_SourceID b), rel_Relation = rb_Relation b,
      rel_Subject = Subject tgtType (rb_TargetID b) [], rel_ExpiresAt = zero_time\<rparr>"

definition binding_filter :: "ResourceBindingModel \<Rightarrow> string \<Rightarrow> string \<Rightarrow> RelationshipFilter" where
  "binding_filter b srcType tgtType =
     \<lparr>f_ResourceType = srcType, f_ResourceID = rb_SourceID b, f_Relation = rb_Relation b,
      f_SubjectType = su_Type (Subject tgtType (rb_TargetID b) []),
      f_SubjectID = su_ID (Subject tgtType (rb_TargetID b) []),
      f_SubjectRel = su_Relation (Subject tgtType (rb_TargetID b) [])\<rparr>"

text \<open>The dispatch of a lifecycle event: its error ends the operation.\<close>

definition res_dispatch :: "'g ResourceService \<Rightarrow> OutboxEventModel option \<Rightarrow> ('g, unit) opE" where
  "res_dispatch s event =
     bindE (CreateOutboxEvents [event]) (\<lambda>_.
     bind_io (Dispatch (rs_projection s) event) (\<lambda>(wr, er).
     ret (case er of None \<Rightarrow> Inr () | Some x \<Rightarrow> Inl x)))"

definition res_UnbindResource :: "'g ResourceService \<Rightarrow> string \<Rightarrow> string \<Rightarrow> ('g, unit) opE" where
  "res_UnbindResource s bindingID orgID =
     (if \<not> rs_repo s then failE no_resource_repo
      else
        let bindingID = TrimSpace bindingID in
        if bindingID = [] then failE (ErrNew ''binding id is required'')
        else
          bindE (ListResourceBindings (no_options\<lparr>lo_OrgID := orgID, lo_Status := StatusActive\<rparr>)) (\<lambda>bs.
          case find (\<lambda>b. rb_ID b = bindingID) bs of
            None \<Rightarrow> UnbindResource bindingID orgID
          | Some b \<Rightarrow>
              bindE (res_spiceType (rb_SourceType b)) (\<lambda>srcType.
              bindE (res_spiceType (rb_TargetType b)) (\<lambda>tgtType.
              bindE (NewDeleteEvent (rs_projection s) ''resource_binding'' bindingID
                       (binding_filter b srcType tgtType) [binding_rel b srcType tgtType]) (\<lambda>event.
              bindE (res_dispatch s event) (\<lambda>_. UnbindResource bindingID orgID))))))"

definition res_BindExternalResource ::
    "'g ResourceService \<Rightarrow> BindExternalResourceRequest \<Rightarrow> ('g, ExternalResourceBindingModel) opE" where
  "res_BindExternalResource s req =
     (if \<not> rs_repo s then failE no_resource_repo
      else if TrimSpace (rr_Type (xq_Resource req)) = [] \<or> TrimSpace (rr_ID (xq_Resource req)) = []
              \<or> TrimSpace (xq_Provider req) = [] \<or> TrimSpace (xq_ExternalType req) = []
              \<or> TrimSpace (xq_ExternalID req) = []
      then failE (ErrNew ''resource, provider, external_type and external_id are required'')
      else
        bind_io (if TrimSpace (xq_ID req) = [] then new_id ''extbind'' else ret (TrimSpace (xq_ID req))) (\<lambda>ident.
        bind_io now_io (\<lambda>now.
        let b = \<lparr>eb_ID = ident, eb_OrgID = xq_OrgID req, eb_ResourceType = TrimSpace (rr_Type (xq_Resource req)),
              eb_ResourceID = TrimSpace (rr_ID (xq_Resource req)), eb_Provider = TrimSpace (xq_Provider req),
              eb_ExternalType = TrimSpace (xq_ExternalType req), eb_ExternalID = TrimSpace (xq_ExternalID req),
              eb_ExternalPath = TrimSpace (xq_ExternalPath req), eb_ExternalURL = TrimSpace (xq_ExternalURL req),
              eb_SyncMode = nonEmpty (xq_SyncMode req) ''owner'', eb_SyncStatus = StatusPending,
              eb_LastSyncedAt = None, eb_MetadataJSON = jsonOr (xq_MetadataJSON req) ''{}'',
              eb_CreatedAt = now, eb_UpdatedAt = now\<rparr> in
        bindE (BindExternalResource b) (\<lambda>_. okE b))))"

subsection \<open>Deletion and archival\<close>

definition res_captureRelationships :: "'g ResourceService \<Rightarrow> RelationshipFilter list \<Rightarrow> ('g, Relationship list) op" where
  "res_captureRelationships s = captureRelationships (rs_reader s)"

text \<open>
  Both operations purge the tuples of the resource and then store its new status; \<open>finish\<close> is
  the repository call at the end.
\<close>

definition purge_then ::
    "'g ResourceService \<Rightarrow> (string \<Rightarrow> string \<Rightarrow> string \<Rightarrow> ('g, unit) opE) \<Rightarrow> ResourceRef \<Rightarrow> string \<Rightarrow> ('g, unit) opE" where
  "purge_then s finish ref orgID =
     (if \<not> rs_repo s then failE no_resource_repo
      else
        let ref = trim_ref ref in
        if rr_Type ref = [] \<or> rr_ID ref = [] then failE (ErrNew ''resource type and id are required'')
        else
          bindE (res_spiceType (rr_Type ref)) (\<lambda>spiceType.
          let filters = purge_filters spiceType (rr_ID ref) in
          bind_io (res_captureRelationships s filters) (\<lambda>rels.
          bindE (NewBatchDeleteEvent (rs_projection s) ''resource'' (rr_Type ref @ '':'' @ rr_ID ref) filters rels) (\<lambda>event.
          bindE (res_dispatch s event) (\<lambda>_.
          finish (rr_Type ref) (rr_ID ref) orgID)))))"

definition res_DeleteResource :: "'g ResourceService \<Rightarrow> ResourceRef \<Rightarrow> string \<Rightarrow> ('g, unit) opE" where
  "res_DeleteResource s = purge_then s DeleteResource"

definition res_ArchiveResource :: "'g ResourceService \<Rightarrow> ResourceRef \<Rightarrow> string \<Rightarrow> ('g, unit) opE" where
  "res_ArchiveResource s = purge_then s ArchiveResource"

end
