(* ===== verification/ResourceLaws.thy ===== *)
theory ResourceLaws
  imports ResourceSvc
begin

text \<open>
  What the resource service guarantees: the checks and edges of a stored resource, moves as
  replacements of the parent edge, bindings, and what deletion and archival do to the tuples,
  in which order, and on which stores.
\<close>

subsection \<open>Runs of the parts\<close>

definition res_spice_of :: "MemoryRepo \<Rightarrow> string \<Rightarrow> err + string" where
  "res_spice_of r typ =
     (if TrimSpace typ \<in> {''organization'', ''project''} then Inr (TrimSpace typ)
      else (case get_key (resourceTypes r) typ of None \<Rightarrow> Inl (not_found ''resource type'' typ)
            | Some rt \<Rightarrow> Inr (if TrimSpace (rt_SpiceDBType rt) = [] then rt_Type rt else rt_SpiceDBType rt)))"

lemma res_spiceType_run: "res_spiceType typ e w = (res_spice_of (db w) typ, w)"
  by (simp add: res_spiceType_def res_spice_of_def GetResourceType_def bindE_def bind_io_def split: option.splits)

definition edges_of :: "MemoryRepo \<Rightarrow> string \<Rightarrow> string \<Rightarrow> string \<Rightarrow> string \<Rightarrow> err + Relationship list" where
  "edges_of r st ident ptype pid =
     (if TrimSpace ptype \<noteq> [] \<and> TrimSpace pid \<noteq> []
      then (case res_spice_of r ptype of Inl er \<Rightarrow> Inl er | Inr pt \<Rightarrow> Inr [parent_rel st ident pt pid])
      else Inr [])"

lemma parent_edges_run: "parent_edges st i pt pid e w = (edges_of (db w) st i pt pid, w)"
  by (auto simp: parent_edges_def edges_of_def res_spiceType_run bindE_def bind_io_def split: sum.splits)

lemma parent_edges_bind:
  "bind_io (parent_edges st i pt pid) f e w = f (edges_of (db w) st i pt pid) e w"
  by (simp add: bind_io_def parent_edges_run)

lemma UpsertResource_run:
  assumes "UpsertResource p evs e w = (r, w')"
  shows "r = Inr () \<and> (\<exists>c u. db w' = saveEvents evs ((db w)\<lparr>resources := put_key (re_key p)
      (p\<lparr>re_CreatedAt := c, re_UpdatedAt := u, re_Status := (if re_Status p = [] then StatusActive else re_Status p)\<rparr>)
      (resources (db w))\<rparr>)) \<and> graph w' = graph w"
proof -
  obtain c w1 where c: "nowIfZero (re_CreatedAt p) e w = (c, w1)" by fastforce
  obtain u w2 where u: "nowIfZero (re_UpdatedAt p) e w1 = (u, w2)" by fastforce
  have "db w2 = db w \<and> graph w2 = graph w" using c u by (auto simp: nowIfZero_run split: if_splits)
  with assms c u have "r = Inr ()" "graph w' = graph w" "db w' = saveEvents evs ((db w)\<lparr>resources := put_key (re_key p)
      (p\<lparr>re_CreatedAt := c, re_UpdatedAt := u, re_Status := (if re_Status p = [] then StatusActive else re_Status p)\<rparr>)
      (resources (db w))\<rparr>)"
    by (auto simp: UpsertResource_def bind_io_def Let_def re_key_def)
  then show ?thesis by blast
qed

lemma res_dispatch_run:
  assumes ev: "fresh (rs_projection s) p v"
  shows "res_dispatch s (Some v) e w = (case Dispatch (rs_projection s) (Some v) e (w\<lparr>db := saveEvents [Some v] (db w)\<rparr>) of
    ((wr, er), w') \<Rightarrow> (case er of None \<Rightarrow> Inr () | Some x \<Rightarrow> Inl x, w'))"
  by (simp add: res_dispatch_def CreateOutboxEvents_def bindE_def bind_io_def split: prod.splits)

lemma UpsertResource_ex: "\<exists>w'. UpsertResource p evs e w = (Inr (), w')"
proof -
  obtain r w' where "UpsertResource p evs e w = (r, w')" by fastforce
  then show ?thesis using UpsertResource_run by blast
qed

subsection \<open>Storing a resource\<close>

lemma requireListed_ok:
  "requireListed s raw v msg = Inr () \<longleftrightarrow> TrimSpace v = []
     \<or> (\<exists>items. json_strings (jsonOr raw ''[]'') = Some items \<and> TrimSpace v \<in> TrimSpace ` set items)"
  by (auto simp: requireListed_def Let_def split: option.splits intro: rev_image_eqI)

definition exists_in :: "MemoryRepo \<Rightarrow> ResourceRef \<Rightarrow> string \<Rightarrow> bool" where
  "exists_in r ref orgID \<longleftrightarrow>
     (if TrimSpace (rr_Type ref) \<in> {''zone'', ''group''} then TrimSpace (rr_ID ref) \<noteq> []
      else if TrimSpace (rr_Type ref) = ''project'' then \<exists>p. project_at r (rr_ID ref) = Some p \<and> pr_OrgID p = orgID
      else TrimSpace (rr_Type ref) \<notin> {[], ''organization''}
        \<and> (\<exists>v. resource_at r (rr_Type ref, rr_ID ref) = Some v \<and> re_OrgID v = orgID))"

lemma requireResourceExists_ok:
  "requireResourceExists ref o1 e w = (Inr (), w') \<longleftrightarrow> exists_in (db w) ref o1 \<and> w' = w"
proof -
  have p: "bindE (GetProject i o1) (\<lambda>_. okE ()) e w = (Inr (), w') \<longleftrightarrow>
      (\<exists>p. project_at (db w) i = Some p \<and> pr_OrgID p = o1) \<and> w' = w" for i
    using project_reads.get_ok[of i o1 e w] by (auto simp: bindE_Inr_iff)
  have r: "bindE (GetResource t i o1) (\<lambda>_. okE ()) e w = (Inr (), w') \<longleftrightarrow>
      (\<exists>v. resource_at (db w) (t, i) = Some v \<and> re_OrgID v = o1) \<and> w' = w" for t i
    by (auto simp: bindE_Inr_iff GetResource_def bind_io_def scoped_Inr_iff)
  show ?thesis
    by (auto simp: requireResourceExists_def exists_in_def Let_def p r)
qed

lemma owner_edges_parts: "r \<in> set (owner_edges K st i ow) \<Longrightarrow> rel_Relation r = ''owner''"
  by (auto simp: owner_edges_def split: if_splits)

lemma res_UpsertResource_success:
  assumes run: "res_UpsertResource s req e w = (Inr (m, wr, None), w')"
  shows "\<exists>ident rt now parents c u evs w2.
      m = new_resource (kern e) req rt ident now
    \<and> get_key (resourceTypes (db w)) (re_Type m) = Some rt
    \<and> (rr_Type (ur_Parent req) \<noteq> [] \<longrightarrow> requireListed s (rt_ParentTypesJSON rt) (rr_Type (ur_Parent req))
           ''parent type is not allowed for resource type'' = Inr () \<and> exists_in (db w) (ur_Parent req) (ur_OrgID req))
    \<and> re_OrgID m \<noteq> []
    \<and> edges_of (db w) (rt_SpiceDBType rt) ident (re_ParentType m) (re_ParentID m) = Inr parents
    \<and> (case evs of None \<Rightarrow> parents @ owner_edges (kern e) (rt_SpiceDBType rt) ident (ur_Owner req) = []
       | Some ev \<Rightarrow> fresh (rs_projection s) (empty_payload\<lparr>pl_Operation := OperationWrite,
           pl_Relationships := parents @ owner_edges (kern e) (rt_SpiceDBType rt) ident (ur_Owner req)\<rparr>) ev)
    \<and> db w2 = saveEvents [evs] ((db w)\<lparr>resources := put_key (re_key m)
         (m\<lparr>re_CreatedAt := c, re_UpdatedAt := u, re_Status := (if re_Status m = [] then StatusActive else re_Status m)\<rparr>)
         (resources (db w))\<rparr>)
    \<and> graph w2 = graph w \<and> Dispatch (rs_projection s) evs e w2 = ((wr, None), w')"
proof -
  let ?m = "\<lambda>rt ident now. new_resource (kern e) req rt ident now"
  let ?ty = "TrimSpace (rr_Type (ur_Ref req))"
  let ?rels = "\<lambda>ps rt ident. ps @ owner_edges (kern e) (rt_SpiceDBType rt) ident (ur_Owner req)"
  let ?listed = "\<lambda>rt. requireListed s (rt_ParentTypesJSON rt) (rr_Type (ur_Parent req))
       ''parent type is not allowed for resource type''"
  from run obtain ident w1 rt w3 w4 now w5 where
    i: "(if TrimSpace (rr_ID (ur_Ref req)) = [] then new_id ?ty else ret (TrimSpace (rr_ID (ur_Ref req)))) e w = (ident, w1)"
    and rt: "GetResourceType ?ty e w1 = (Inr rt, w3)"
    and par: "check_parent s req rt e w3 = (Inr (), w4)"
    and n: "now_io e w4 = (now, w5)" and org: "re_OrgID (?m rt ident now) \<noteq> []"
    and rest: "project_resource s (kern e) rt (ur_Owner req) (?m rt ident now) e w5 = (Inr (m, wr, None), w')"
    unfolding res_UpsertResource_def Let_def
    by (auto simp: bindE_Inr_iff bind_io_iff simp del: now_io_run new_id_run split: if_split_asm)
  have f: "re_ID (?m rt ident now) = ident" "re_Type (?m rt ident now) = ?ty" by (simp_all add: new_resource_def)
  have s1: "db w1 = db w" "graph w1 = graph w" using i by (auto split: if_splits)
  have s3: "w3 = w1" "get_key (resourceTypes (db w)) ?ty = Some rt"
    using rt s1 by (auto simp: GetResourceType_def bind_io_def split: option.splits)
  have s4: "w4 = w3" "rr_Type (ur_Parent req) \<noteq> [] \<Longrightarrow> ?listed rt = Inr () \<and> exists_in (db w) (ur_Parent req) (ur_OrgID req)"
    using par s1 s3 by (cases "?listed rt"; auto simp: check_parent_def requireResourceExists_ok split: if_splits)+
  have s5: "db w5 = db w" "graph w5 = graph w" using n s1 s3 s4 by auto
  from rest f s5 obtain parents event w6 v w7 where
    ps: "edges_of (db w) (rt_SpiceDBType rt) ident (re_ParentType (?m rt ident now)) (re_ParentID (?m rt ident now)) = Inr parents"
    and ev: "NewWriteEvent (rs_projection s) ''resource'' (?ty @ '':'' @ ident) (?rels parents rt ident) e w5 = (Inr event, w6)"
    and up: "UpsertResource (?m rt ident now) [event] e w6 = (Inr v, w7)"
    and di: "Dispatch (rs_projection s) event e w7 = ((wr, None), w')" and m: "m = ?m rt ident now"
    by (auto simp: project_resource_def parent_edges_bind bindE_Inr_iff bind_io_iff split: sum.splits)
  have s6: "db w6 = db w" "graph w6 = graph w" using unchanged_builders(2)[OF ev] s5 by simp_all
  have evc: "case event of None \<Rightarrow> ?rels parents rt ident = [] | Some x \<Rightarrow> fresh (rs_projection s)
      (empty_payload\<lparr>pl_Operation := OperationWrite, pl_Relationships := ?rels parents rt ident\<rparr>) x"
  proof (cases "?rels parents rt ident = []")
    case True
    then show ?thesis using ev by (simp add: NewWriteEvent_def)
  next
    case False
    then show ?thesis using NewWriteEvent_Some[OF ev] by auto
  qed
  obtain c u where "db w7 = saveEvents [event] ((db w6)\<lparr>resources := put_key (re_key m)
      (m\<lparr>re_CreatedAt := c, re_UpdatedAt := u, re_Status := (if re_Status m = [] then StatusActive else re_Status m)\<rparr>)
      (resources (db w6))\<rparr>)" "graph w7 = graph w6"
    using UpsertResource_run[OF up] m by auto
  with s6 have "db w7 = saveEvents [event] ((db w)\<lparr>resources := put_key (re_key m)
      (m\<lparr>re_CreatedAt := c, re_UpdatedAt := u, re_Status := (if re_Status m = [] then StatusActive else re_Status m)\<rparr>)
      (resources (db w))\<rparr>)" "graph w7 = graph w" by simp_all
  moreover have "get_key (resourceTypes (db w)) (re_Type m) = Some rt" "re_OrgID m \<noteq> []"
    "edges_of (db w) (rt_SpiceDBType rt) ident (re_ParentType m) (re_ParentID m) = Inr parents"
    using s3 f m org ps by simp_all
  ultimately show ?thesis using m s4(2) evc di by blast
qed

lemma res_status_set: "re_Status (new_resource K req rt ident now) \<noteq> []"
  by (simp add: new_resource_def nonEmpty_def trims)

text \<open>C27. A stored resource has passed its checks and has its edges.  When \<open>UpsertResource\<close> returns a
  resource without an error, its type is registered, a parent that was asked for exists in the same
  organization and is of a type that the resource type lists, the resource is stored, and the
  relationship store has gained exactly its parent edge and its owner edge.\<close>

theorem resource_stored:
  assumes d: "direct (rs_projection s) S T" and run: "res_UpsertResource s req e w = (Inr (m, wr, None), w')"
  shows "\<exists>rt c u parents. get_key (resourceTypes (db w)) (re_Type m) = Some rt
    \<and> re_OrgID m = TrimSpace (ur_OrgID req) \<and> re_OrgID m \<noteq> []
    \<and> (rr_Type (ur_Parent req) = [] \<or> exists_in (db w) (ur_Parent req) (ur_OrgID req)
        \<and> (TrimSpace (rr_Type (ur_Parent req)) = []
          \<or> (\<exists>items. json_strings (jsonOr (rt_ParentTypesJSON rt) ''[]'') = Some items
               \<and> TrimSpace (rr_Type (ur_Parent req)) \<in> TrimSpace ` set items)))
    \<and> resources (db w') = put_key (re_key m) (m\<lparr>re_CreatedAt := c, re_UpdatedAt := u\<rparr>) (resources (db w))
    \<and> edges_of (db w) (rt_SpiceDBType rt) (re_ID m) (re_ParentType m) (re_ParentID m) = Inr parents
    \<and> T (graph w') = T (graph w) \<union> keys (parents @ owner_edges (kern e) (rt_SpiceDBType rt) (re_ID m) (ur_Owner req))"
proof -
  from res_UpsertResource_success[OF run] obtain ident rt now parents c u evs w2 where
    m: "m = new_resource (kern e) req rt ident now" and rt: "get_key (resourceTypes (db w)) (re_Type m) = Some rt"
    and par: "rr_Type (ur_Parent req) \<noteq> [] \<longrightarrow> requireListed s (rt_ParentTypesJSON rt) (rr_Type (ur_Parent req))
           ''parent type is not allowed for resource type'' = Inr () \<and> exists_in (db w) (ur_Parent req) (ur_OrgID req)"
    and org: "re_OrgID m \<noteq> []"
    and ed: "edges_of (db w) (rt_SpiceDBType rt) ident (re_ParentType m) (re_ParentID m) = Inr parents"
    and ev: "case evs of None \<Rightarrow> parents @ owner_edges (kern e) (rt_SpiceDBType rt) ident (ur_Owner req) = []
       | Some ev \<Rightarrow> fresh (rs_projection s) (empty_payload\<lparr>pl_Operation := OperationWrite,
           pl_Relationships := parents @ owner_edges (kern e) (rt_SpiceDBType rt) ident (ur_Owner req)\<rparr>) ev"
    and w2: "db w2 = saveEvents [evs] ((db w)\<lparr>resources := put_key (re_key m)
         (m\<lparr>re_CreatedAt := c, re_UpdatedAt := u, re_Status := (if re_Status m = [] then StatusActive else re_Status m)\<rparr>)
         (resources (db w))\<rparr>)" "graph w2 = graph w"
    and di: "Dispatch (rs_projection s) evs e w2 = ((wr, None), w')"
    by blast
  have id: "re_ID m = ident" "re_OrgID m = TrimSpace (ur_OrgID req)" by (simp_all add: m new_resource_def)
  have st: "re_Status m \<noteq> []" by (simp add: m res_status_set)
  have self: "(v\<lparr>re_CreatedAt := c, re_UpdatedAt := u, re_Status := re_Status v\<rparr> :: ResourceModel)
      = v\<lparr>re_CreatedAt := c, re_UpdatedAt := u\<rparr>" for v by simp
  have res: "resources (db w') = put_key (re_key m) (m\<lparr>re_CreatedAt := c, re_UpdatedAt := u\<rparr>) (resources (db w))"
    using dispatch_keeps(4)[OF d di] w2(1) st self[of m] by simp
  have T: "T (graph w') = T (graph w) \<union> keys (parents @ owner_edges (kern e) (rt_SpiceDBType rt) ident (ur_Owner req))"
  proof (cases evs)
    case None
    then show ?thesis using di ev w2(2) by (simp add: Dispatch_def)
  next
    case (Some x)
    then have fr: "fresh (rs_projection s) (empty_payload\<lparr>pl_Operation := OperationWrite,
        pl_Relationships := parents @ owner_edges (kern e) (rt_SpiceDBType rt) ident (ur_Owner req)\<rparr>) x"
      using ev by simp
    have "get_key (events (db w2)) (ev_ID x) = Some x" using w2(1) fr Some by (simp add: events_saveEvents1 fresh_def)
    from dispatch_fresh[OF d fr this di[unfolded Some]] w2(2) show ?thesis by (auto simp: projected_def)
  qed
  show ?thesis using rt id org par res ed T unfolding requireListed_ok by blast
qed

subsection \<open>Moving a resource\<close>

lemma swapped_Nil [simp]: "swapped [] [] A A"
  by (simp add: swapped_def)

lemma MoveResource_success:
  assumes run: "MoveResource s ref np o1 e w = (Inr (m, None), w')"
  shows "\<exists>old st previous desired c u w2.
      resource_at (db w) (TrimSpace (rr_Type ref), TrimSpace (rr_ID ref)) = Some old \<and> re_OrgID old = o1
    \<and> res_spice_of (db w) (TrimSpace (rr_Type ref)) = Inr st
    \<and> m = old\<lparr>re_ParentType := TrimSpace (rr_Type np), re_ParentID := TrimSpace (rr_ID np)\<rparr>
    \<and> edges_of (db w) st (re_ID old) (re_ParentType old) (re_ParentID old) = Inr previous
    \<and> edges_of (db w) st (re_ID m) (re_ParentType m) (re_ParentID m) = Inr desired
    \<and> graph w2 = graph w
    \<and> db w2 = (db w)\<lparr>resources := put_key (re_key m)
         (m\<lparr>re_CreatedAt := c, re_UpdatedAt := u, re_Status := (if re_Status m = [] then StatusActive else re_Status m)\<rparr>)
         (resources (db w))\<rparr>
    \<and> (previous = [] \<and> desired = [] \<and> w' = w2
      \<or> (\<exists>ev w3 wr. fresh (rs_projection s) (empty_payload\<lparr>pl_Operation := OperationReplace,
            pl_PreviousRelationships := previous, pl_Relationships := desired\<rparr>) ev
          \<and> db w3 = saveEvents [Some ev] (db w2) \<and> graph w3 = graph w2
          \<and> Dispatch (rs_projection s) (Some ev) e w3 = ((wr, None), w')))"
proof -
  let ?r = "trim_ref ref"
  let ?m = "\<lambda>old. old\<lparr>re_ParentType := TrimSpace (rr_Type np), re_ParentID := TrimSpace (rr_ID np)\<rparr>"
  from run obtain old wa st wb previous wc desired wd v w2 where
    g: "GetResource (rr_Type ?r) (rr_ID ?r) o1 e w = (Inr old, wa)"
    and st: "res_spiceType (rr_Type ?r) e wa = (Inr st, wb)"
    and p: "parent_edges st (re_ID old) (re_ParentType old) (re_ParentID old) e wb = (Inr previous, wc)"
    and ds: "parent_edges st (re_ID (?m old)) (re_ParentType (?m old)) (re_ParentID (?m old)) e wc = (Inr desired, wd)"
    and up: "UpsertResource (?m old) [] e wd = (Inr v, w2)"
    and rest: "(if previous = [] \<and> desired = [] then okE (?m old, None)
          else
            bind_io (NewReplaceEvent (rs_projection s) ''resource'' (rr_Type ?r @ '':'' @ rr_ID ?r) previous desired) (\<lambda>r.
            case r of
              Inl er \<Rightarrow> okE (?m old, Some er)
            | Inr event \<Rightarrow>
                bind_io (CreateOutboxEvents [event]) (\<lambda>r.
                case r of
                  Inl er \<Rightarrow> okE (?m old, Some er)
                | Inr _ \<Rightarrow> bind_io (Dispatch (rs_projection s) event) (\<lambda>(wr, er). okE (?m old, er))))) e w2 = (Inr (m, None), w')"
    unfolding MoveResource_def Let_def
    by (auto simp: bindE_Inr_iff split: if_split_asm)
  have w: "wa = w" "wb = w" "wc = w" "wd = w"
    using resource_reads.read_only g st p ds by (auto simp: res_spiceType_run parent_edges_run GetResource_def bind_io_def)
  have old: "resource_at (db w) (TrimSpace (rr_Type ref), TrimSpace (rr_ID ref)) = Some old" "re_OrgID old = o1"
    using g by (auto simp: GetResource_def bind_io_def scoped_Inr_iff trim_ref_def)
  have sp: "res_spice_of (db w) (TrimSpace (rr_Type ref)) = Inr st"
    using st w by (simp add: res_spiceType_run trim_ref_def)
  have ed: "edges_of (db w) st (re_ID old) (re_ParentType old) (re_ParentID old) = Inr previous"
    "edges_of (db w) st (re_ID (?m old)) (re_ParentType (?m old)) (re_ParentID (?m old)) = Inr desired"
    using p ds w by (simp_all add: parent_edges_run)
  have m: "m = ?m old"
    using rest by (auto simp: bind_io_def CreateOutboxEvents_def split: if_split_asm sum.splits prod.splits)
  obtain c u where d2: "db w2 = (db w)\<lparr>resources := put_key (re_key m)
         (m\<lparr>re_CreatedAt := c, re_UpdatedAt := u, re_Status := (if re_Status m = [] then StatusActive else re_Status m)\<rparr>)
         (resources (db w))\<rparr>" "graph w2 = graph w"
    using UpsertResource_run[OF up] w m by (auto simp: saveEvents_def)
  have fin: "previous = [] \<and> desired = [] \<and> w' = w2
      \<or> (\<exists>ev w3 wr. fresh (rs_projection s) (empty_payload\<lparr>pl_Operation := OperationReplace,
            pl_PreviousRelationships := previous, pl_Relationships := desired\<rparr>) ev
          \<and> db w3 = saveEvents [Some ev] (db w2) \<and> graph w3 = graph w2
          \<and> Dispatch (rs_projection s) (Some ev) e w3 = ((wr, None), w'))"
  proof (cases "previous = [] \<and> desired = []")
    case True
    then show ?thesis using rest by simp
  next
    case False
    with rest obtain r w4 where ev: "NewReplaceEvent (rs_projection s) ''resource'' (rr_Type ?r @ '':'' @ rr_ID ?r) previous desired e w2 = (r, w4)"
      and k: "(case r of
              Inl er \<Rightarrow> okE (?m old, Some er)
            | Inr event \<Rightarrow>
                bind_io (CreateOutboxEvents [event]) (\<lambda>r.
                case r of
                  Inl er \<Rightarrow> okE (?m old, Some er)
                | Inr _ \<Rightarrow> bind_io (Dispatch (rs_projection s) event) (\<lambda>(wr, er). okE (?m old, er)))) e w4 = (Inr (m, None), w')"
      by (auto simp: bind_io_iff)
    obtain event where r: "r = Inr event" using k by (cases r) auto
    obtain x where x: "event = Some x" "fresh (rs_projection s) (empty_payload\<lparr>pl_Operation := OperationReplace,
            pl_PreviousRelationships := previous, pl_Relationships := desired\<rparr>) x"
      using ev r by (auto simp: NewReplaceEvent_def bindE_Inr_iff dest: newEvent_fresh)
    have same: "db w4 = db w2" "graph w4 = graph w2" using unchanged_builders(5)[OF ev] by simp_all
    let ?w3 = "w4\<lparr>db := saveEvents [Some x] (db w4)\<rparr>"
    obtain wr where "Dispatch (rs_projection s) (Some x) e ?w3 = ((wr, None), w')"
      using k r x(1) by (auto simp: CreateOutboxEvents_def bind_io_def split: prod.splits)
    moreover have "db ?w3 = saveEvents [Some x] (db w2)" "graph ?w3 = graph w2" using same by simp_all
    ultimately show ?thesis using x(2) by blast
  qed
  show ?thesis using old sp m ed d2 fin by blast
qed

lemma move_swaps:
  assumes d: "direct (rs_projection s) S T" and inv: "repo_inv (db w)"
    and run: "MoveResource s ref np o1 e w = (Inr (m, None), w')"
  shows "\<exists>old st previous desired c u.
      resource_at (db w) (TrimSpace (rr_Type ref), TrimSpace (rr_ID ref)) = Some old \<and> re_OrgID old = o1
    \<and> m = old\<lparr>re_ParentType := TrimSpace (rr_Type np), re_ParentID := TrimSpace (rr_ID np)\<rparr>
    \<and> get_key (resources (db w')) = (get_key (resources (db w)))(key [TrimSpace (rr_Type ref), TrimSpace (rr_ID ref)] :=
         Some (m\<lparr>re_CreatedAt := c, re_UpdatedAt := u\<rparr>))
    \<and> res_spice_of (db w) (TrimSpace (rr_Type ref)) = Inr st
    \<and> edges_of (db w) st (re_ID old) (re_ParentType old) (re_ParentID old) = Inr previous
    \<and> edges_of (db w) st (re_ID m) (re_ParentType m) (re_ParentID m) = Inr desired
    \<and> swapped previous desired (T (graph w)) (T (graph w'))"
proof -
  from MoveResource_success[OF run] obtain old st previous desired c u w2 where
    old: "resource_at (db w) (TrimSpace (rr_Type ref), TrimSpace (rr_ID ref)) = Some old" "re_OrgID old = o1"
    and sp: "res_spice_of (db w) (TrimSpace (rr_Type ref)) = Inr st"
    and m: "m = old\<lparr>re_ParentType := TrimSpace (rr_Type np), re_ParentID := TrimSpace (rr_ID np)\<rparr>"
    and ed: "edges_of (db w) st (re_ID old) (re_ParentType old) (re_ParentID old) = Inr previous"
      "edges_of (db w) st (re_ID m) (re_ParentType m) (re_ParentID m) = Inr desired"
    and w2: "graph w2 = graph w" "db w2 = (db w)\<lparr>resources := put_key (re_key m)
         (m\<lparr>re_CreatedAt := c, re_UpdatedAt := u, re_Status := (if re_Status m = [] then StatusActive else re_Status m)\<rparr>)
         (resources (db w))\<rparr>"
    and fin: "previous = [] \<and> desired = [] \<and> w' = w2
      \<or> (\<exists>ev w3 wr. fresh (rs_projection s) (empty_payload\<lparr>pl_Operation := OperationReplace,
            pl_PreviousRelationships := previous, pl_Relationships := desired\<rparr>) ev
          \<and> db w3 = saveEvents [Some ev] (db w2) \<and> graph w3 = graph w2
          \<and> Dispatch (rs_projection s) (Some ev) e w3 = ((wr, None), w'))"
    by blast
  have "keyed re_key (resources (db w))" "all_vals (\<lambda>v. re_Status v \<noteq> []) (resources (db w))"
    using inv by (auto simp: repo_inv_unfold)
  from keyed_get[OF this(1)] all_vals_get[OF this(2)] old(1)
  have k: "re_key old = key [TrimSpace (rr_Type ref), TrimSpace (rr_ID ref)]" and s0: "re_Status old \<noteq> []" by fastforce+
  have km: "re_key m = key [TrimSpace (rr_Type ref), TrimSpace (rr_ID ref)]" using k m by (simp add: re_key_def)
  have sm: "re_Status m \<noteq> []" using s0 m by simp
  have self: "(v\<lparr>re_CreatedAt := c, re_UpdatedAt := u, re_Status := re_Status v\<rparr> :: ResourceModel)
      = v\<lparr>re_CreatedAt := c, re_UpdatedAt := u\<rparr>" for v by simp
  have at2: "get_key (resources (db w2)) = (get_key (resources (db w)))(key [TrimSpace (rr_Type ref), TrimSpace (rr_ID ref)] :=
         Some (m\<lparr>re_CreatedAt := c, re_UpdatedAt := u\<rparr>))"
    using w2(2) km sm self[of m] by (auto simp: update_conv' fun_eq_iff)
  have "resources (db w') = resources (db w2) \<and> swapped previous desired (T (graph w)) (T (graph w'))"
    using fin
  proof (elim disjE exE conjE)
    assume "previous = []" "desired = []" "w' = w2"
    then show ?thesis using w2(1) by simp
  next
    fix ev w3 wr
    assume ev: "fresh (rs_projection s) (empty_payload\<lparr>pl_Operation := OperationReplace,
            pl_PreviousRelationships := previous, pl_Relationships := desired\<rparr>) ev"
      and w3: "db w3 = saveEvents [Some ev] (db w2)" "graph w3 = graph w2"
      and di: "Dispatch (rs_projection s) (Some ev) e w3 = ((wr, None), w')"
    have st: "get_key (events (db w3)) (ev_ID ev) = Some ev" using w3 ev by (simp add: events_saveEvents1 fresh_def)
    from dispatch_fresh[OF d ev st di] w3(2) w2(1) have "swapped previous desired (T (graph w)) (T (graph w'))"
      by (auto simp: projected_def)
    then show ?thesis using dispatch_keeps(4)[OF d di] w3(1) by simp
  qed
  then have "get_key (resources (db w')) = (get_key (resources (db w)))(key [TrimSpace (rr_Type ref), TrimSpace (rr_ID ref)] :=
         Some (m\<lparr>re_CreatedAt := c, re_UpdatedAt := u\<rparr>))" "swapped previous desired (T (graph w)) (T (graph w'))"
    using at2 by (simp_all only:)
  then show ?thesis using old m sp ed by blast
qed

text \<open>C24. A move replaces the parent edge.  When \<open>MoveResource\<close> returns without an error, the resource
  is stored with the new parent and its other fields, every other resource is as before, and in
  the relationship store the old parent edge has been replaced by the new one; tuples that the old
  edge's filter does not select are kept.\<close>

theorem move_replaces_parent:
  assumes d: "direct (rs_projection s) S T" and inv: "repo_inv (db w)"
    and run: "MoveResource s ref np o1 e w = (Inr (m, None), w')"
  shows "\<exists>old st previous desired c u.
      resource_at (db w) (TrimSpace (rr_Type ref), TrimSpace (rr_ID ref)) = Some old \<and> re_OrgID old = o1
    \<and> m = old\<lparr>re_ParentType := TrimSpace (rr_Type np), re_ParentID := TrimSpace (rr_ID np)\<rparr>
    \<and> get_key (resources (db w')) = (get_key (resources (db w)))(key [TrimSpace (rr_Type ref), TrimSpace (rr_ID ref)] :=
         Some (m\<lparr>re_CreatedAt := c, re_UpdatedAt := u\<rparr>))
    \<and> res_spice_of (db w) (TrimSpace (rr_Type ref)) = Inr st
    \<and> edges_of (db w) st (re_ID old) (re_ParentType old) (re_ParentID old) = Inr previous
    \<and> edges_of (db w) st (re_ID m) (re_ParentType m) (re_ParentID m) = Inr desired
    \<and> swapped previous desired (T (graph w)) (T (graph w'))"
  using assms by (rule move_swaps)

text \<open>A resource can become its own parent.  \<open>MoveResource\<close> checks neither that the new parent
  exists nor that its type is allowed nor that it is another resource: a move of a resource under
  itself that returns without an error stores the resource as its own parent and writes the
  edge from the resource to itself.\<close>

theorem move_under_itself:
  assumes d: "direct (rs_projection s) S T" and inv: "repo_inv (db w)"
    and run: "MoveResource s ref ref o1 e w = (Inr (m, None), w')"
    and ne: "TrimSpace (rr_Type ref) \<noteq> []" "TrimSpace (rr_ID ref) \<noteq> []"
  shows "\<exists>st c u. res_spice_of (db w) (TrimSpace (rr_Type ref)) = Inr st
    \<and> get_key (resources (db w')) (key [TrimSpace (rr_Type ref), TrimSpace (rr_ID ref)]) = Some (m\<lparr>re_CreatedAt := c, re_UpdatedAt := u\<rparr>)
    \<and> re_ParentType m = TrimSpace (rr_Type ref) \<and> re_ParentID m = TrimSpace (rr_ID ref)
    \<and> rel_key (parent_rel st (re_ID m) st (TrimSpace (rr_ID ref))) \<in> T (graph w')"
proof -
  from move_swaps[OF d inv run] obtain old st previous desired c u where
    m: "m = old\<lparr>re_ParentType := TrimSpace (rr_Type ref), re_ParentID := TrimSpace (rr_ID ref)\<rparr>"
    and at: "get_key (resources (db w')) = (get_key (resources (db w)))(key [TrimSpace (rr_Type ref), TrimSpace (rr_ID ref)] :=
         Some (m\<lparr>re_CreatedAt := c, re_UpdatedAt := u\<rparr>))"
    and st: "res_spice_of (db w) (TrimSpace (rr_Type ref)) = Inr st"
    and ed: "edges_of (db w) st (re_ID m) (re_ParentType m) (re_ParentID m) = Inr desired"
    and sw: "swapped previous desired (T (graph w)) (T (graph w'))" by blast
  have p: "re_ParentType m = TrimSpace (rr_Type ref)" "re_ParentID m = TrimSpace (rr_ID ref)" by (simp_all add: m)
  have "desired = [parent_rel st (re_ID m) st (TrimSpace (rr_ID ref))]"
    using ed st ne unfolding p by (simp add: edges_of_def)
  then have "rel_key (parent_rel st (re_ID m) st (TrimSpace (rr_ID ref))) \<in> T (graph w')"
    using sw by (simp add: swapped_def)
  moreover have "get_key (resources (db w')) (key [TrimSpace (rr_Type ref), TrimSpace (rr_ID ref)])
      = Some (m\<lparr>re_CreatedAt := c, re_UpdatedAt := u\<rparr>)" by (simp only: at fun_upd_same)
  ultimately show ?thesis using st p by blast
qed

subsection \<open>Deletion and archival\<close>

lemma res_dispatch_purge:
  assumes d: "direct (rs_projection s) S T" and f: "fresh (rs_projection s) (purge_payload fs rels) v" and ne: "fs \<noteq> []"
    and run: "res_dispatch s (Some v) e w = (r, w')"
  shows "resources (db w') = resources (db w)"
    and "r = Inr () \<Longrightarrow> deleted fs (T (graph w)) (T (graph w'))"
    and "accepts S (purge_payload fs rels) \<Longrightarrow> r = Inr ()"
    and "refuses_untyped S \<Longrightarrow> x \<in> set fs \<Longrightarrow> f_ResourceType x = [] \<Longrightarrow> r \<noteq> Inr ()"
proof -
  let ?w = "w\<lparr>db := saveEvents [Some v] (db w)\<rparr>"
  obtain wr er where di: "Dispatch (rs_projection s) (Some v) e ?w = ((wr, er), w')"
    and r: "r = (case er of None \<Rightarrow> Inr () | Some x \<Rightarrow> Inl x)"
    using run by (auto simp: res_dispatch_run[OF f] split: prod.splits)
  have st: "get_key (events (db ?w)) (ev_ID v) = Some v" using f by (simp add: events_saveEvents1 fresh_def)
  have re: "r = Inr () \<longleftrightarrow> er = None" using r by (cases er) auto
  show "resources (db w') = resources (db w)" using dispatch_keeps(4)[OF d di] by simp
  show "r = Inr () \<Longrightarrow> deleted fs (T (graph w)) (T (graph w'))"
    using dispatch_purge(2)[OF d f ne st di] re by simp
  show "r = Inr ()" if "accepts S (purge_payload fs rels)"
    using dispatch_accepts[OF d f st that, of e] di re by auto
  show "refuses_untyped S \<Longrightarrow> x \<in> set fs \<Longrightarrow> f_ResourceType x = [] \<Longrightarrow> r \<noteq> Inr ()"
    using dispatch_purge(3)[OF d f ne st di] re by simp
qed

text \<open>The payload can be encoded, so that the event is built.\<close>

definition encodes :: "'g Manager option \<Rightarrow> Payload \<Rightarrow> bool" where
  "encodes m p \<longleftrightarrow> (case m of None \<Rightarrow> False | Some mg \<Rightarrow> \<exists>b. mg_marshal mg p = Inr b)"

lemma NewBatchDeleteEvent_encodes:
  "encodes m (purge_payload fs rels) \<Longrightarrow> \<exists>v w'. NewBatchDeleteEvent m at ai fs rels e w = (Inr (Some v), w')"
  by (auto simp: encodes_def NewBatchDeleteEvent_def newEvent_def bindE_def bind_io_def purge_payload_def split: option.splits)

text \<open>What the code before \<open>finish\<close> has done, on the runs that reach it and on those that do not.\<close>

definition res_filters :: "ResourceRef \<Rightarrow> string \<Rightarrow> RelationshipFilter list" where
  "res_filters ref st = purge_filters st (TrimSpace (rr_ID ref))"

lemma purge_then_run:
  assumes d: "direct (rs_projection s) S T" and rd: "rs_reader s \<in> {None, Some S}"
    and run: "purge_then s finish ref o1 e w = (r, w')"
  shows "(\<exists>er. r = Inl er \<and> resources (db w') = resources (db w))
    \<or> (\<exists>st w4. res_spice_of (db w) (TrimSpace (rr_Type ref)) = Inr st \<and> \<not> refuses_untyped S
        \<and> deleted (res_filters ref st) (T (graph w)) (T (graph w4)) \<and> resources (db w4) = resources (db w)
        \<and> finish (TrimSpace (rr_Type ref)) (TrimSpace (rr_ID ref)) o1 e w4 = (r, w'))"
proof (cases "rs_repo s \<and> TrimSpace (rr_Type ref) \<noteq> [] \<and> TrimSpace (rr_ID ref) \<noteq> []
    \<and> (\<exists>st. res_spice_of (db w) (TrimSpace (rr_Type ref)) = Inr st)")
  case False
  then show ?thesis using run
    by (cases "res_spice_of (db w) (TrimSpace (rr_Type ref))")
      (auto simp: purge_then_def trim_ref_def Let_def res_spiceType_run bindE_def bind_io_def split: if_splits)
next
  case True
  then obtain st where g: "rs_repo s" "TrimSpace (rr_Type ref) \<noteq> []" "TrimSpace (rr_ID ref) \<noteq> []"
    and st: "res_spice_of (db w) (TrimSpace (rr_Type ref)) = Inr st" by blast
  let ?fs = "res_filters ref st"
  obtain rels w1 where c: "res_captureRelationships s ?fs e w = (rels, w1)" by fastforce
  have g1: "db w1 = db w" "T (graph w1) = T (graph w)"
    using captureRelationships_run[OF rd _ c[unfolded res_captureRelationships_def], of T] d by (simp_all add: direct_def)
  obtain b w2 where ev: "NewBatchDeleteEvent (rs_projection s) ''resource''
      (TrimSpace (rr_Type ref) @ '':'' @ TrimSpace (rr_ID ref)) ?fs rels e w1 = (b, w2)" by fastforce
  have g2: "db w2 = db w1" "graph w2 = graph w1" using unchanged_builders(4)[OF ev] by simp_all
  have run': "(case b of Inl er \<Rightarrow> (Inl er, w2)
     | Inr event \<Rightarrow> (case res_dispatch s event e w2 of
         (Inl er, w3) \<Rightarrow> (Inl er, w3)
       | (Inr u, w3) \<Rightarrow> finish (TrimSpace (rr_Type ref)) (TrimSpace (rr_ID ref)) o1 e w3)) = (r, w')"
    using run g c st ev
    by (auto simp: purge_then_def trim_ref_def Let_def res_spiceType_run bindE_def bind_io_def res_filters_def
        split: sum.splits prod.splits)
  show ?thesis
  proof (cases b)
    case (Inl er)
    then show ?thesis using run' g1 g2 by auto
  next
    case (Inr event)
    then obtain v where v: "event = Some v" "fresh (rs_projection s) (purge_payload ?fs rels) v"
      using NewBatchDeleteEvent_fresh ev by blast
    obtain x w3 where di: "res_dispatch s (Some v) e w2 = (x, w3)" by fastforce
    have ne: "?fs \<noteq> []" and un: "empty_filter\<lparr>f_SubjectType := st, f_SubjectID := TrimSpace (rr_ID ref)\<rparr> \<in> set ?fs"
      by (simp_all add: res_filters_def purge_filters_def)
    note p = res_dispatch_purge[OF d v(2) ne di]
    show ?thesis
    proof (cases x)
      case xl: (Inl er)
      then show ?thesis using run' Inr v(1) di p(1) g1 g2 by auto
    next
      case xr: (Inr u)
      have "\<not> refuses_untyped S" using p(4)[OF _ un] xr by (auto simp: empty_filter_def)
      moreover have "deleted ?fs (T (graph w)) (T (graph w3))" using p(2) xr g1 g2 by simp
      ultimately show ?thesis using run' Inr v(1) di xr p(1) g1 g2 st by auto
    qed
  qed
qed

lemma purge_then_reaches:
  assumes d: "direct (rs_projection s) S T" and rd: "rs_reader s \<in> {None, Some S}"
    and g: "rs_repo s" "TrimSpace (rr_Type ref) \<noteq> []" "TrimSpace (rr_ID ref) \<noteq> []"
    and st: "res_spice_of (db w) (TrimSpace (rr_Type ref)) = Inr st"
    and c: "res_captureRelationships s (res_filters ref st) e w = (rels, w1)"
    and ok: "encodes (rs_projection s) (purge_payload (res_filters ref st) rels)"
      "accepts S (purge_payload (res_filters ref st) rels)"
  shows "\<exists>w4. deleted (res_filters ref st) (T (graph w)) (T (graph w4)) \<and> resources (db w4) = resources (db w)
    \<and> purge_then s finish ref o1 e w = finish (TrimSpace (rr_Type ref)) (TrimSpace (rr_ID ref)) o1 e w4"
proof -
  let ?fs = "res_filters ref st"
  have g1: "db w1 = db w" "T (graph w1) = T (graph w)"
    using captureRelationships_run[OF rd _ c[unfolded res_captureRelationships_def], of T] d by (simp_all add: direct_def)
  obtain v w2 where ev: "NewBatchDeleteEvent (rs_projection s) ''resource''
      (TrimSpace (rr_Type ref) @ '':'' @ TrimSpace (rr_ID ref)) ?fs rels e w1 = (Inr (Some v), w2)"
    using NewBatchDeleteEvent_encodes[OF ok(1)] by blast
  have g2: "db w2 = db w1" "graph w2 = graph w1" using unchanged_builders(4)[OF ev] by simp_all
  have v: "fresh (rs_projection s) (purge_payload ?fs rels) v" using NewBatchDeleteEvent_fresh[OF ev] by simp
  obtain x w3 where di: "res_dispatch s (Some v) e w2 = (x, w3)" by fastforce
  have ne: "?fs \<noteq> []" by (simp add: res_filters_def purge_filters_def)
  note p = res_dispatch_purge[OF d v ne di]
  have x: "x = Inr ()" by (rule p(3)[OF ok(2)])
  have "purge_then s finish ref o1 e w = finish (TrimSpace (rr_Type ref)) (TrimSpace (rr_ID ref)) o1 e w3"
    using g c st ev di x
    by (simp add: purge_then_def trim_ref_def Let_def res_spiceType_run bindE_def bind_io_def res_filters_def)
  moreover have "deleted ?fs (T (graph w)) (T (graph w3))" using p(2)[OF x] g1 g2 by simp
  ultimately show ?thesis using p(1) g1 g2 by auto
qed

text \<open>The tuples on a resource: those of which it is the object, or the subject itself.\<close>

definition tuples_of :: "string \<Rightarrow> string \<Rightarrow> tuple set" where
  "tuples_of st ident = {(ob, r, su). ob = \<lparr>ob_Type = st, ob_ID = ident\<rparr> \<or> su = \<lparr>su_Type = st, su_ID = ident, su_Relation = []\<rparr>}"

lemma deleted_tuples_of:
  assumes "deleted (res_filters ref st) A B"
  shows "B \<inter> tuples_of st (TrimSpace (rr_ID ref)) = {}"
proof -
  have "\<not> narrow f t" if "t \<in> B" "f \<in> set (res_filters ref st)" for f t using assms that by (auto simp: deleted_def)
  moreover have "\<exists>f \<in> set (res_filters ref st). narrow f t" if "t \<in> tuples_of st (TrimSpace (rr_ID ref))" for t
    using that by (auto simp: tuples_of_def res_filters_def purge_filters_def narrow_def field_matches_def empty_filter_def)
  ultimately show ?thesis by blast
qed

lemma set_resource_status_run:
  assumes "set_resource_status status t i o1 e w = (Inr u, w')"
  shows "\<exists>v at. resource_at (db w) (t, i) = Some v \<and> re_OrgID v = o1
    \<and> resource_at (db w') (t, i) = Some (v\<lparr>re_Status := status, re_UpdatedAt := at\<rparr>) \<and> graph w' = graph w"
proof -
  from assms obtain v where "resource_at (db w) (t, i) = Some v" "re_OrgID v = o1"
    and "w' = (tick w)\<lparr>db := (db w)\<lparr>resources := put_key (key [t, i])
      (v\<lparr>re_Status := status, re_UpdatedAt := clock e (ticks w)\<rparr>) (resources (db w))\<rparr>\<rparr>"
    by (auto simp: set_resource_status_def bindE_Inr_iff bind_io_def scoped_Inr_iff)
  then show ?thesis by (intro exI[of _ v] exI[of _ "clock e (ticks w)"]) (simp add: update_conv')
qed

lemma set_resource_status_refused:
  assumes "set_resource_status status t i o1 e w = (Inl er, w')"
  shows "db w' = db w \<and> graph w' = graph w"
  using assms
  by (auto simp: set_resource_status_def bindE_def bind_io_def liftE_scoped_run split: sum.splits prod.splits if_splits)

text \<open>C26. What \<open>DeleteResource\<close> and \<open>ArchiveResource\<close> do.  When one of them returns an error, no resource record
  has changed.  When it returns without one, the store of relationships takes filters without a resource type (SpiceDB
  refuses them, so there neither operation ever succeeds), the resource belonged to the organization of the call and is
  stored with the new status, no tuple has it as object or is granted to the resource itself, and every tuple that neither
  purge filter selects is kept.  Nothing is claimed of tuples granted to a userset of the resource, the subjects
  \<open>resource#relation\<close>: a store may take the empty subject relation of the filter literally and keep them.\<close>

theorem ended_resource_outcome:
  assumes d: "direct (rs_projection s) S T" and rd: "rs_reader s \<in> {None, Some S}"
    and op: "(status, ending) \<in> {(StatusDeleted, res_DeleteResource s), (StatusArchived, res_ArchiveResource s)}"
    and run: "ending ref o1 e w = (r, w')"
  shows "case r of
      Inl er \<Rightarrow> resources (db w') = resources (db w)
    | Inr u \<Rightarrow> \<not> refuses_untyped S
        \<and> (\<exists>st v t. res_spice_of (db w) (TrimSpace (rr_Type ref)) = Inr st
          \<and> resource_at (db w) (TrimSpace (rr_Type ref), TrimSpace (rr_ID ref)) = Some v \<and> re_OrgID v = o1
          \<and> resource_at (db w') (TrimSpace (rr_Type ref), TrimSpace (rr_ID ref)) = Some (v\<lparr>re_Status := status, re_UpdatedAt := t\<rparr>)
          \<and> T (graph w') \<inter> tuples_of st (TrimSpace (rr_ID ref)) = {}
          \<and> {t \<in> T (graph w). \<nexists>f. f \<in> set (res_filters ref st) \<and> wide f t} \<subseteq> T (graph w'))"
proof -
  have "purge_then s (set_resource_status status) ref o1 e w = (r, w')"
    using op run by (auto simp: res_DeleteResource_def res_ArchiveResource_def DeleteResource_def ArchiveResource_def)
  from purge_then_run[OF d rd this] consider
      (early) er where "r = Inl er" "resources (db w') = resources (db w)"
    | (purged) st w4 where "res_spice_of (db w) (TrimSpace (rr_Type ref)) = Inr st" "\<not> refuses_untyped S"
        "deleted (res_filters ref st) (T (graph w)) (T (graph w4))" "resources (db w4) = resources (db w)"
        "set_resource_status status (TrimSpace (rr_Type ref)) (TrimSpace (rr_ID ref)) o1 e w4 = (r, w')"
    by blast
  then show ?thesis
  proof cases
    case early
    then show ?thesis by simp
  next
    case (purged st w4)
    note fin = purged(5)
    show ?thesis
    proof (cases r)
      case (Inl er)
      then show ?thesis using set_resource_status_refused[of status _ _ o1 e w4 er w'] fin purged(4) by simp
    next
      case (Inr u)
      from set_resource_status_run[OF fin[unfolded Inr]] obtain v t where
        v: "resource_at (db w4) (TrimSpace (rr_Type ref), TrimSpace (rr_ID ref)) = Some v" "re_OrgID v = o1"
          "resource_at (db w') (TrimSpace (rr_Type ref), TrimSpace (rr_ID ref)) = Some (v\<lparr>re_Status := status, re_UpdatedAt := t\<rparr>)"
          "graph w' = graph w4" by blast
      have "T (graph w') \<inter> tuples_of st (TrimSpace (rr_ID ref)) = {}"
        "{t \<in> T (graph w). \<nexists>f. f \<in> set (res_filters ref st) \<and> wide f t} \<subseteq> T (graph w')"
        using deleted_tuples_of[OF purged(3)] purged(3) v(4) by (auto simp: deleted_def)
      with purged(1,2) v(2,3) v(1)[unfolded purged(4)] show ?thesis
        unfolding Inr sum.case by (intro conjI exI[of _ st] exI[of _ v] exI[of _ t])
    qed
  qed
qed

text \<open>C35. Deleting a foreign resource purges it.  The purge comes before the organization check: when
  the caller's organization does not own the resource, \<open>DeleteResource\<close> fails with not-found and
  leaves the record as it is, but every tuple on the resource is gone.\<close>

theorem foreign_delete_purges:
  assumes d: "direct (rs_projection s) S T" and rd: "rs_reader s \<in> {None, Some S}"
    and g: "rs_repo s" "TrimSpace (rr_Type ref) \<noteq> []" "TrimSpace (rr_ID ref) \<noteq> []"
    and st: "res_spice_of (db w) (TrimSpace (rr_Type ref)) = Inr st"
    and v: "resource_at (db w) (TrimSpace (rr_Type ref), TrimSpace (rr_ID ref)) = Some v" "re_OrgID v \<noteq> o1"
    and c: "res_captureRelationships s (res_filters ref st) e w = (rels, w1)"
    and ok: "encodes (rs_projection s) (purge_payload (res_filters ref st) rels)"
      "accepts S (purge_payload (res_filters ref st) rels)"
  shows "\<exists>m w'. res_DeleteResource s ref o1 e w = (Inl (ErrNotFound m), w')
    \<and> resources (db w') = resources (db w) \<and> T (graph w') \<inter> tuples_of st (TrimSpace (rr_ID ref)) = {}"
proof -
  from purge_then_reaches[OF d rd g st c ok, of DeleteResource o1] obtain w4 where
    del: "deleted (res_filters ref st) (T (graph w)) (T (graph w4))" and re: "resources (db w4) = resources (db w)"
    and run: "res_DeleteResource s ref o1 e w = DeleteResource (TrimSpace (rr_Type ref)) (TrimSpace (rr_ID ref)) o1 e w4"
    by (auto simp: res_DeleteResource_def)
  have "\<exists>m. DeleteResource (TrimSpace (rr_Type ref)) (TrimSpace (rr_ID ref)) o1 e w4 = (Inl (ErrNotFound m), w4)"
    using v re by (simp add: DeleteResource_def set_resource_status_def bind_io_def liftE_scoped_run scoped_def not_found_in_def)
  then show ?thesis using run re deleted_tuples_of[OF del] by auto
qed

text \<open>On a store that needs a resource type, nothing can be deleted.  The second purge filter names
  no resource type; a store that refuses such filters makes \<open>DeleteResource\<close> and \<open>ArchiveResource\<close>
  fail on every resource, and the resource keeps its status.\<close>

theorem untyped_purge_blocks:
  assumes d: "direct (rs_projection s) S T" and rd: "rs_reader s \<in> {None, Some S}" and ref: "refuses_untyped S"
  shows "(\<exists>er w'. res_DeleteResource s r o1 e w = (Inl er, w') \<and> resources (db w') = resources (db w))
    \<and> (\<exists>er w'. res_ArchiveResource s r o1 e w = (Inl er, w') \<and> resources (db w') = resources (db w))"
proof -
  have "\<exists>er w'. purge_then s finish r o1 e w = (Inl er, w') \<and> resources (db w') = resources (db w)" for finish
    using purge_then_run[OF d rd, of finish r o1 e w] ref by (metis surj_pair)
  then show ?thesis by (simp add: res_DeleteResource_def res_ArchiveResource_def)
qed

subsection \<open>Bindings\<close>

definition edge_of :: "MemoryRepo \<Rightarrow> ResourceRef \<Rightarrow> string \<Rightarrow> ResourceRef \<Rightarrow> err + Relationship" where
  "edge_of r source relation target =
     (case res_spice_of r (rr_Type source) of Inl er \<Rightarrow> Inl er
      | Inr st \<Rightarrow> (case res_spice_of r (rr_Type target) of Inl er \<Rightarrow> Inl er
          | Inr tt \<Rightarrow> Inr \<lparr>rel_Resource = Object st (rr_ID source), rel_Relation = relation,
               rel_Subject = Subject tt (rr_ID target) [], rel_ExpiresAt = zero_time\<rparr>))"

lemma bindingRelationship_bind:
  "bind_io (bindingRelationship a r b) f e w = f (edge_of (db w) a r b) e w"
  by (auto simp: bindingRelationship_def edge_of_def res_spiceType_run bindE_def bind_io_def split: sum.splits)

lemma BindResource_run:
  assumes "BindResource b evs e w = (r, w')"
  shows "r = Inr () \<and> (\<exists>c u. db w' = saveEvents evs ((db w)\<lparr>bindings := put_key (rb_ID b)
      (b\<lparr>rb_CreatedAt := c, rb_UpdatedAt := u, rb_Status := (if rb_Status b = [] then StatusActive else rb_Status b)\<rparr>)
      (bindings (db w))\<rparr>)) \<and> graph w' = graph w"
proof -
  obtain c w1 where c: "nowIfZero (rb_CreatedAt b) e w = (c, w1)" by fastforce
  obtain u w2 where u: "nowIfZero (rb_UpdatedAt b) e w1 = (u, w2)" by fastforce
  have "db w2 = db w \<and> graph w2 = graph w" using c u by (auto simp: nowIfZero_run split: if_splits)
  with assms c u have "r = Inr ()" "graph w' = graph w" "db w' = saveEvents evs ((db w)\<lparr>bindings := put_key (rb_ID b)
      (b\<lparr>rb_CreatedAt := c, rb_UpdatedAt := u, rb_Status := (if rb_Status b = [] then StatusActive else rb_Status b)\<rparr>)
      (bindings (db w))\<rparr>)"
    by (auto simp: BindResource_def bind_io_def Let_def)
  then show ?thesis by blast
qed

lemma res_BindResource_success:
  assumes run: "res_BindResource s req e w = (Inr (b, wr, None), w')"
  shows "\<exists>rt st tt c u ev w2. rb_OrgID b = bq_OrgID req \<and> rb_Status b = StatusActive
    \<and> get_key (resourceTypes (db w)) (rb_SourceType b) = Some rt
    \<and> requireListed s (rt_RelationsJSON rt) (rb_Relation b) ''relation is not allowed for source resource type'' = Inr ()
    \<and> exists_in (db w) \<lparr>rr_Type = rb_SourceType b, rr_ID = rb_SourceID b\<rparr> (bq_OrgID req)
    \<and> exists_in (db w) \<lparr>rr_Type = rb_TargetType b, rr_ID = rb_TargetID b\<rparr> (bq_OrgID req)
    \<and> TrimSpace (rb_SourceID b) = rb_SourceID b \<and> TrimSpace (rb_TargetID b) = rb_TargetID b
    \<and> res_spice_of (db w) (rb_SourceType b) = Inr st \<and> res_spice_of (db w) (rb_TargetType b) = Inr tt
    \<and> fresh (rs_projection s) (empty_payload\<lparr>pl_Operation := OperationWrite, pl_Relationships := [binding_rel b st tt]\<rparr>) ev
    \<and> db w2 = saveEvents [Some ev] ((db w)\<lparr>bindings := put_key (rb_ID b)
         (b\<lparr>rb_CreatedAt := c, rb_UpdatedAt := u\<rparr>) (bindings (db w))\<rparr>)
    \<and> graph w2 = graph w \<and> Dispatch (rs_projection s) (Some ev) e w2 = ((wr, None), w')"
proof -
  let ?src = "trim_ref (bq_Source req)" and ?tgt = "trim_ref (bq_Target req)" and ?rel = "TrimSpace (bq_Relation req)"
  let ?b = "\<lambda>ident now. \<lparr>rb_ID = ident, rb_OrgID = bq_OrgID req, rb_SourceType = rr_Type ?src,
                rb_SourceID = rr_ID ?src, rb_Relation = ?rel, rb_TargetType = rr_Type ?tgt,
                rb_TargetID = rr_ID ?tgt, rb_Status = StatusActive,
                rb_CreatedBy = subjectString (kern e) (bq_CreatedBy req), rb_CreatedAt = now, rb_UpdatedAt = now\<rparr>"
  from run obtain rt w1 w2 w3 ident w4 now w5 where
    rt: "GetResourceType (rr_Type ?src) e w = (Inr rt, w1)"
    and li: "requireListed s (rt_RelationsJSON rt) ?rel ''relation is not allowed for source resource type'' = Inr ()"
    and x1: "requireResourceExists ?src (bq_OrgID req) e w1 = (Inr (), w2)"
    and x2: "requireResourceExists ?tgt (bq_OrgID req) e w2 = (Inr (), w3)"
    and i: "(if TrimSpace (bq_ID req) = [] then new_id ''binding'' else ret (TrimSpace (bq_ID req))) e w3 = (ident, w4)"
    and n: "now_io e w4 = (now, w5)"
    and k: "(case edge_of (db w5) ?src ?rel ?tgt of
          Inl er \<Rightarrow> okE (?b ident now, no_result, Some er)
        | Inr rel \<Rightarrow>
            bindE (NewWriteEvent (rs_projection s) ''resource_binding'' ident [rel]) (\<lambda>event.
            bindE (BindResource (?b ident now) [event]) (\<lambda>_.
            bind_io (Dispatch (rs_projection s) event) (\<lambda>(wr, er). okE (?b ident now, wr, er))))) e w5
          = (Inr (b, wr, None), w')"
    unfolding res_BindResource_def Let_def
    by (auto simp: bindE_Inr_iff bindingRelationship_bind bind_io_iff[of now_io] bind_io_iff[of "new_id _"] bind_io_iff[of "asks _"]
        simp del: now_io_run new_id_run split: if_split_asm)
  have w: "w1 = w" "w2 = w" "w3 = w" using rt x1 x2
    by (auto simp: GetResourceType_def bind_io_def requireResourceExists_ok split: option.splits)
  have s5: "db w5 = db w" "graph w5 = graph w" using i n w by (auto split: if_splits)
  from k obtain rel event w6 v w7 where ed: "edge_of (db w) ?src ?rel ?tgt = Inr rel"
    and ev: "NewWriteEvent (rs_projection s) ''resource_binding'' ident [rel] e w5 = (Inr event, w6)"
    and bi: "BindResource (?b ident now) [event] e w6 = (Inr v, w7)"
    and di: "Dispatch (rs_projection s) event e w7 = ((wr, None), w')" and b: "b = ?b ident now"
    using s5(1) by (auto simp: bindE_Inr_iff bind_io_iff split: sum.splits)
  obtain st tt where sp: "res_spice_of (db w) (rr_Type ?src) = Inr st" "res_spice_of (db w) (rr_Type ?tgt) = Inr tt"
    and rel: "rel = binding_rel b st tt"
    using ed b by (auto simp: edge_of_def binding_rel_def split: sum.splits)
  obtain x where x: "event = Some x" "fresh (rs_projection s) (empty_payload\<lparr>pl_Operation := OperationWrite,
      pl_Relationships := [binding_rel b st tt]\<rparr>) x"
    using NewWriteEvent_Some[OF ev] rel by auto
  have s6: "db w6 = db w" "graph w6 = graph w" using unchanged_builders(2)[OF ev] s5 by simp_all
  have act: "rb_Status (?b ident now) = StatusActive" by simp
  obtain c u where "db w7 = saveEvents [Some x] ((db w)\<lparr>bindings := put_key (rb_ID b)
         (b\<lparr>rb_CreatedAt := c, rb_UpdatedAt := u\<rparr>) (bindings (db w))\<rparr>)" "graph w7 = graph w"
    using BindResource_run[OF bi] b x(1) s6 by auto
  moreover have "get_key (resourceTypes (db w)) (rb_SourceType b) = Some rt"
    using rt b by (auto simp: GetResourceType_def bind_io_def split: option.splits)
  moreover have "exists_in (db w) \<lparr>rr_Type = rb_SourceType b, rr_ID = rb_SourceID b\<rparr> (bq_OrgID req)"
    "exists_in (db w) \<lparr>rr_Type = rb_TargetType b, rr_ID = rb_TargetID b\<rparr> (bq_OrgID req)"
    using x1 x2 w b by (auto simp: requireResourceExists_ok trim_ref_def)
  moreover have "rb_OrgID b = bq_OrgID req" "rb_Status b = StatusActive"
    "TrimSpace (rb_SourceID b) = rb_SourceID b" "TrimSpace (rb_TargetID b) = rb_TargetID b"
    "res_spice_of (db w) (rb_SourceType b) = Inr st" "res_spice_of (db w) (rb_TargetType b) = Inr tt"
    "requireListed s (rt_RelationsJSON rt) (rb_Relation b) ''relation is not allowed for source resource type'' = Inr ()"
    using sp li by (simp_all add: b trim_ref_def)
  ultimately show ?thesis using x di by blast
qed

lemma dispatch_keeps_types:
  assumes "direct m S T" "Dispatch m ev e w = (x, w')"
  shows "resourceTypes (db w') = resourceTypes (db w)"
proof -
  obtain mg where "m = Some mg" "mg_repo mg = Some memory_outbox" using assms(1) by (auto simp: direct_def on_memory_def)
  with assms(2) steps_Dispatch[of mg ev] have "non_events (db w') = non_events (db w)"
    by (auto dest!: stepsD simp: same_def)
  from arg_cong[OF this, of resourceTypes] show ?thesis by (simp add: non_events_def)
qed

lemma find_unique:
  assumes "b \<in> set xs" "P b" "\<And>x. x \<in> set xs \<Longrightarrow> P x \<Longrightarrow> x = b"
  shows "find P xs = Some b"
proof (cases "find P xs")
  case None
  then show ?thesis using assms(1,2) by (simp add: find_None_iff)
next
  case (Some x)
  then have "x \<in> set xs" "P x" by (auto simp: find_Some_iff)
  then show ?thesis using Some assms(3) by simp
qed

lemma listed_binding:
  assumes k: "keyed rb_ID (bindings (db w))" and b: "binding_at (db w) i = Some b" "rb_Status b = StatusActive" "rb_OrgID b = o1"
  shows "\<exists>bs. ListResourceBindings (no_options\<lparr>lo_OrgID := o1, lo_Status := StatusActive\<rparr>) e w = (Inr bs, tick w)
    \<and> find (\<lambda>x. rb_ID x = i) bs = Some b"
proof -
  let ?P = "\<lambda>v. (o1 = [] \<or> rb_OrgID v = o1) \<and> statusOK (rb_Status v) StatusActive"
  let ?bs = "filter ?P (shuffle (map_order e (ticks w)) (map snd (bindings (db w))))"
  have "find (\<lambda>x. rb_ID x = i) ?bs = Some b"
  proof (rule find_unique)
    show "b \<in> set ?bs" using b map_of_SomeD[OF b(1)] by (force simp: statusOK_def)
    show "rb_ID b = i" using keyed_get[OF k b(1)] .
    show "x = b" if x: "x \<in> set ?bs" "rb_ID x = i" for x
    proof -
      obtain j where "(j, x) \<in> set (bindings (db w))" using x(1) by auto
      then have "binding_at (db w) j = Some x" using k by (simp add: keyed_def)
      then show ?thesis using keyed_get[OF k] x(2) b(1) by auto
    qed
  qed
  then show ?thesis by (simp add: ListResourceBindings_def bind_io_def no_options_def)
qed

lemma UnbindResource_run:
  "UnbindResource i o1 e w = (Inr u, w') \<Longrightarrow> binding_at (db w') = (binding_at (db w))(i := None) \<and> graph w' = graph w"
  by (auto simp: UnbindResource_def bind_io_def liftE_scoped_run delete_conv' split: sum.splits)

lemma res_UnbindResource_success:
  assumes d: "direct (rs_projection s) S T" and k: "keyed rb_ID (bindings (db w))"
    and b: "binding_at (db w) (TrimSpace i) = Some b" "rb_Status b = StatusActive" "rb_OrgID b = o1"
    and run: "res_UnbindResource s i o1 e w = (Inr u, w')"
  shows "\<exists>st tt. res_spice_of (db w) (rb_SourceType b) = Inr st \<and> res_spice_of (db w) (rb_TargetType b) = Inr tt
    \<and> binding_at (db w') = (binding_at (db w))(TrimSpace i := None)
    \<and> deleted [binding_filter b st tt] (T (graph w)) (T (graph w'))"
proof -
  obtain bs where bs: "ListResourceBindings (no_options\<lparr>lo_OrgID := o1, lo_Status := StatusActive\<rparr>) e w = (Inr bs, tick w)"
    "find (\<lambda>x. rb_ID x = TrimSpace i) bs = Some b" using listed_binding[OF k b] by blast
  have g: "rs_repo s" "TrimSpace i \<noteq> []" using run by (auto simp: res_UnbindResource_def Let_def split: if_splits)
  with run bs obtain st tt event w2 v w3 where
    sp: "res_spice_of (db w) (rb_SourceType b) = Inr st" "res_spice_of (db w) (rb_TargetType b) = Inr tt"
    and ev: "NewDeleteEvent (rs_projection s) ''resource_binding'' (TrimSpace i) (binding_filter b st tt)
        [binding_rel b st tt] e (tick w) = (Inr event, w2)"
    and di: "res_dispatch s event e w2 = (Inr v, w3)" and un: "UnbindResource (TrimSpace i) o1 e w3 = (Inr u, w')"
    by (auto simp: res_UnbindResource_def Let_def bindE_Inr_iff res_spiceType_run)
  have s2: "db w2 = db w" "graph w2 = graph w" using unchanged_builders(3)[OF ev] by simp_all
  let ?p = "empty_payload\<lparr>pl_Operation := OperationDelete, pl_Filter := binding_filter b st tt,
      pl_Relationships := [binding_rel b st tt]\<rparr>"
  obtain x where x: "event = Some x" "fresh (rs_projection s) ?p x"
    using ev by (auto simp: NewDeleteEvent_def bindE_Inr_iff dest: newEvent_fresh)
  let ?w = "w2\<lparr>db := saveEvents [Some x] (db w2)\<rparr>"
  obtain wr where dd: "Dispatch (rs_projection s) (Some x) e ?w = ((wr, None), w3)"
    using di x res_dispatch_run[OF x(2), of e w2] by (auto split: prod.splits option.splits)
  have "get_key (events (db ?w)) (ev_ID x) = Some x" using x(2) by (simp add: events_saveEvents1 fresh_def)
  from dispatch_fresh[OF d x(2) this dd] s2
  have "deleted [binding_filter b st tt] (T (graph w)) (T (graph w3))" by (auto simp: projected_def empty_payload_def)
  moreover have "binding_at (db w3) = binding_at (db w)" using dispatch_keeps(6)[OF d dd] s2 by simp
  ultimately show ?thesis using UnbindResource_run[OF un] sp by auto
qed

text \<open>C30. Unbinding undoes a binding.  After \<open>BindResource\<close> has returned a binding without an error, the
  binding's tuple is in the relationship store; when \<open>UnbindResource\<close> of the same organization
  then returns without an error, the tuple is gone, the binding table is as it was before with
  no entry for the binding, and tuples that the binding's filter does not select are kept.\<close>

theorem unbind_undoes_bind:
  assumes d: "direct (rs_projection s) S T" and inv: "repo_inv (db w)"
    and bind: "res_BindResource s req e w = (Inr (b, wr, None), w1)"
    and st: "res_spice_of (db w) (rb_SourceType b) = Inr st" "TrimSpace st = st" and i: "TrimSpace (rb_ID b) = rb_ID b"
    and unbind: "res_UnbindResource s (rb_ID b) (bq_OrgID req) e2 w1 = (Inr u, w2)"
  shows "\<exists>tt. res_spice_of (db w) (rb_TargetType b) = Inr tt
    \<and> rel_key (binding_rel b st tt) \<in> T (graph w1) \<and> rel_key (binding_rel b st tt) \<notin> T (graph w2)
    \<and> binding_at (db w1) (rb_ID b) \<noteq> None \<and> binding_at (db w2) = (binding_at (db w))(rb_ID b := None)
    \<and> {t \<in> T (graph w1). \<not> wide (binding_filter b st tt) t} \<subseteq> T (graph w2)"
proof -
  from res_BindResource_success[OF bind] st(1) obtain tt c u ev w0 where
    act: "rb_Status b = StatusActive" "rb_OrgID b = bq_OrgID req"
    and ids: "TrimSpace (rb_SourceID b) = rb_SourceID b" "TrimSpace (rb_TargetID b) = rb_TargetID b"
    and tt: "res_spice_of (db w) (rb_TargetType b) = Inr tt"
    and ev: "fresh (rs_projection s) (empty_payload\<lparr>pl_Operation := OperationWrite, pl_Relationships := [binding_rel b st tt]\<rparr>) ev"
    and w0: "db w0 = saveEvents [Some ev] ((db w)\<lparr>bindings := put_key (rb_ID b)
         (b\<lparr>rb_CreatedAt := c, rb_UpdatedAt := u\<rparr>) (bindings (db w))\<rparr>)" "graph w0 = graph w"
    and di: "Dispatch (rs_projection s) (Some ev) e w0 = ((wr, None), w1)" by auto
  let ?b = "b\<lparr>rb_CreatedAt := c, rb_UpdatedAt := u\<rparr>"
  have bt: "bindings (db w1) = put_key (rb_ID b) ?b (bindings (db w))" using dispatch_keeps(6)[OF d di] w0(1) by simp
  have ty: "resourceTypes (db w1) = resourceTypes (db w)" using dispatch_keeps_types[OF d di] w0(1) by simp
  have k1: "keyed rb_ID (bindings (db w1))" using inv unfolding bt by (auto simp: repo_inv_unfold intro: keyed_put)
  have at1: "binding_at (db w1) (TrimSpace (rb_ID b)) = Some ?b" "rb_Status ?b = StatusActive" "rb_OrgID ?b = bq_OrgID req"
    using i act by (simp_all add: bt update_conv')
  have sp: "res_spice_of (db w1) t = res_spice_of (db w) t" for t by (simp add: res_spice_of_def ty)
  from res_UnbindResource_success[OF d k1 at1 unbind] have
    un: "binding_at (db w2) = (binding_at (db w1))(rb_ID b := None)"
    "deleted [binding_filter ?b st tt] (T (graph w1)) (T (graph w2))"
    using st(1) tt i by (auto simp: sp)
  have fl: "binding_filter ?b st tt = binding_filter b st tt" by (simp add: binding_filter_def)
  have "get_key (events (db w0)) (ev_ID ev) = Some ev" using w0(1) ev by (simp add: events_saveEvents1 fresh_def)
  from dispatch_fresh[OF d ev this di] have "rel_key (binding_rel b st tt) \<in> T (graph w1)" by (auto simp: projected_def)
  moreover have "narrow (binding_filter b st tt) (rel_key (binding_rel b st tt))"
    using st(2) ids by (simp add: narrow_def rel_key_def binding_rel_def binding_filter_def field_matches_def)
  then have "rel_key (binding_rel b st tt) \<notin> T (graph w2)" using un(2) fl by (auto simp: deleted_def)
  moreover have "binding_at (db w2) = (binding_at (db w))(rb_ID b := None)"
    using un(1) by (auto simp: bt update_conv' fun_eq_iff)
  moreover have "{t \<in> T (graph w1). \<not> wide (binding_filter b st tt) t} \<subseteq> T (graph w2)"
    using un(2) fl by (auto simp: deleted_def)
  ultimately show ?thesis using tt at1(1) i by auto
qed

subsection \<open>Runs of the service\<close>

definition pair_manager :: "bool \<Rightarrow> Payload \<Rightarrow> Payload \<Rightarrow> (Relationship list) Manager" where
  "pair_manager strict p q = NewManager (\<lambda>x. if x = p then Inr ''w'' else if x = q then Inr ''d'' else Inl (ErrExternal ''marshal''),
     \<lambda>t. if t = ''w'' then Inr p else if t = ''d'' then Inr q else Inl (ErrExternal ''bad json'')) (Some memory_outbox)
     (Some (set_store strict [])) None"

definition res_service :: "bool \<Rightarrow> Payload \<Rightarrow> Payload \<Rightarrow> (Relationship list) ResourceService" where
  "res_service strict p q = \<lparr>rs_repo = True, rs_projection = Some (pair_manager strict p q), rs_reader = None,
     rs_json_error = ErrExternal\<rparr>"

lemma res_service_simps [simp]: "rs_repo (res_service strict p q)" "rs_reader (res_service strict p q) = None"
  by (simp_all add: res_service_def)

lemma res_service_direct: "direct (rs_projection (res_service strict p q)) (set_store strict []) set_tuples"
  by (simp add: direct_def res_service_def pair_manager_def NewManager_def on_memory_def codec_ok_def
      tuple_store_set_store split: if_splits)

lemma res_service_encodes: "x \<in> {p, q} \<Longrightarrow> encodes (rs_projection (res_service strict p q)) x"
  by (auto simp: encodes_def res_service_def pair_manager_def NewManager_def)

lemma delete_from_set_store: "\<exists>wr g'. delete_from (set_store False down) out fs g = ((wr, None), g')"
  by (induction fs arbitrary: out g) (auto simp: set_store_def)

lemma accepts_set_store:
  "pl_Operation p \<in> {OperationWrite, OperationDelete, OperationReplace} \<Longrightarrow> accepts (set_store False []) p"
proof -
  assume op: "pl_Operation p \<in> {OperationWrite, OperationDelete, OperationReplace}"
  have "\<exists>wr g'. project_payload (set_store False []) p g = ((wr, None), g')" for g
  proof -
    obtain wr g1 where d: "delete_from (set_store False []) no_result (relationshipFilters (pl_PreviousRelationships p)) g
        = ((wr, None), g1)" using delete_from_set_store by blast
    have "\<exists>wr g'. st_write (set_store False []) rels g = ((wr, None), g')" for rels g by (simp add: set_store_def)
    then show ?thesis using op d delete_from_set_store
      by (auto simp: project_payload_def swap_tuples_def deleteRelationships_def split: prod.splits) (metis Pair_inject)+
  qed
  then show ?thesis by (simp add: accepts_def)
qed

definition res_type :: ResourceTypeModel where
  "res_type = sample_type\<lparr>rt_SpiceDBType := ''skill'', rt_ParentTypesJSON := ''[\"project\"]'', rt_RelationsJSON := ''[\"uses\"]''\<rparr>"

definition stored_resource :: ResourceModel where
  "stored_resource = (sample_resource ''skill'' ''s1'' ''zeta'')\<lparr>re_Status := StatusActive, re_ParentType := ''project'', re_ParentID := ''p1''\<rparr>"

definition res_world :: "Relationship list \<Rightarrow> (Relationship list) world" where
  "res_world g = (empty_world g)\<lparr>db := NewMemoryControlPlaneRepository\<lparr>
     projects := [(''p1'', sample_project ''p1'' ''zeta'')], resourceTypes := [(''skill'', res_type)],
     resources := [(''skill:s1'', stored_resource)]\<rparr>\<rparr>"

lemma quote_code: "json_strings ''[\"project\"]'' = Some [''project'']" "json_strings ''[\"uses\"]'' = Some [''uses'']"
  by code_simp+

lemma res_dispatches:
  assumes f: "fresh (rs_projection (res_service False p q)) x v" and "pl_Operation x \<in> {OperationWrite, OperationDelete, OperationReplace}"
    and st: "get_key (events (db w)) (ev_ID v) = Some v"
  shows "\<exists>wr w'. Dispatch (rs_projection (res_service False p q)) (Some v) e w = ((wr, None), w')"
  using dispatch_accepts[OF res_service_direct f st accepts_set_store[OF assms(2)]] by blast

lemma stored_simps [simp]:
  "re_Type stored_resource = ''skill''" "re_ID stored_resource = ''s1''" "re_OrgID stored_resource = ''zeta''"
  "re_ParentType stored_resource = ''project''" "re_ParentID stored_resource = ''p1''"
  by (simp_all add: stored_resource_def sample_resource_def)

lemma res_world_inv: "repo_inv (db (res_world g))"
  by (auto simp: res_world_def empty_world_def NewMemoryControlPlaneRepository_def repo_inv_unfold keyed_def all_vals_def
      sample_project_def res_type_def sample_type_def re_key_def key_def stored_resource_def sample_resource_def)

lemma res_world_at: "resource_at (db (res_world g)) (''skill'', ''s1'') = Some stored_resource"
  "get_key (resourceTypes (db (res_world g))) ''skill'' = Some res_type"
  by (simp_all add: res_world_def key_def)

lemma sample_trims: "TrimSpace ''skill'' = ''skill''" "TrimSpace ''project'' = ''project''" "TrimSpace ''s1'' = ''s1''"
  "TrimSpace ''p1'' = ''p1''" "TrimSpace ''zeta'' = ''zeta''" "TrimSpace ''uses'' = ''uses''" "TrimSpace ''b1'' = ''b1''"
  by (simp_all add: trims)

lemma res_world_spice:
  "resourceTypes r = resourceTypes (db (res_world g)) \<Longrightarrow> res_spice_of r ''skill'' = Inr ''skill''"
  "res_spice_of r ''project'' = Inr ''project''"
  using res_world_at(2)[of g] by (simp_all add: res_spice_of_def sample_trims res_type_def sample_type_def)

definition sample_ref :: ResourceRef where "sample_ref = \<lparr>rr_Type = ''skill'', rr_ID = ''s1''\<rparr>"

lemma sample_ref_simps [simp]: "rr_Type sample_ref = ''skill''" "rr_ID sample_ref = ''s1''" "trim_ref sample_ref = sample_ref"
  by (simp_all add: sample_ref_def trim_ref_def sample_trims)

definition move_payload :: Payload where
  "move_payload = empty_payload\<lparr>pl_Operation := OperationReplace,
     pl_PreviousRelationships := [parent_rel ''skill'' ''s1'' ''project'' ''p1''],
     pl_Relationships := [parent_rel ''skill'' ''s1'' ''skill'' ''s1'']\<rparr>"

lemma sample_move_run:
  "\<exists>m w'. MoveResource (res_service False move_payload move_payload) sample_ref sample_ref ''zeta'' sample_env (res_world g)
    = (Inr (m, None), w')"
proof -
  let ?s = "res_service False move_payload move_payload" and ?w = "res_world g"
  let ?m = "stored_resource\<lparr>re_ParentType := ''skill'', re_ParentID := ''s1''\<rparr>"
  have get: "GetResource ''skill'' ''s1'' ''zeta'' sample_env ?w = (Inr stored_resource, ?w)"
    using res_world_at(1)[of g] by (simp add: GetResource_def bind_io_def scoped_def)
  have sp: "res_spiceType ''skill'' sample_env ?w = (Inr ''skill'', ?w)"
    using res_world_spice(1)[OF refl] by (simp add: res_spiceType_run)
  have e1: "parent_edges ''skill'' ''s1'' ''project'' ''p1'' sample_env ?w = (Inr [parent_rel ''skill'' ''s1'' ''project'' ''p1''], ?w)"
    "parent_edges ''skill'' ''s1'' ''skill'' ''s1'' sample_env ?w = (Inr [parent_rel ''skill'' ''s1'' ''skill'' ''s1''], ?w)"
    using res_world_spice(1)[OF refl] by (simp_all add: parent_edges_run edges_of_def sample_trims res_world_spice(2))
  obtain w2 where up: "UpsertResource ?m [] sample_env ?w = (Inr (), w2)"
    using UpsertResource_ex by blast
  obtain v w3 where ev: "NewReplaceEvent (rs_projection ?s) ''resource'' ''skill:s1'' [parent_rel ''skill'' ''s1'' ''project'' ''p1'']
      [parent_rel ''skill'' ''s1'' ''skill'' ''s1''] sample_env w2 = (Inr (Some v), w3)" and fr: "fresh (rs_projection ?s) move_payload v"
  proof -
    have "\<exists>v w3. NewReplaceEvent (rs_projection ?s) ''resource'' ''skill:s1'' [parent_rel ''skill'' ''s1'' ''project'' ''p1'']
      [parent_rel ''skill'' ''s1'' ''skill'' ''s1''] sample_env w2 = (Inr (Some v), w3)"
      by (simp add: NewReplaceEvent_def newEvent_def res_service_def pair_manager_def NewManager_def bindE_def bind_io_def move_payload_def)
    then obtain v w3 where ev: "NewReplaceEvent (rs_projection ?s) ''resource'' ''skill:s1'' [parent_rel ''skill'' ''s1'' ''project'' ''p1'']
      [parent_rel ''skill'' ''s1'' ''skill'' ''s1''] sample_env w2 = (Inr (Some v), w3)" by blast
    then have "fresh (rs_projection ?s) move_payload v"
      by (auto simp: NewReplaceEvent_def bindE_Inr_iff move_payload_def dest: newEvent_fresh)
    with ev that show thesis by blast
  qed
  let ?w4 = "w3\<lparr>db := saveEvents [Some v] (db w3)\<rparr>"
  have "get_key (events (db ?w4)) (ev_ID v) = Some v" using fr by (simp add: events_saveEvents1 fresh_def)
  from res_dispatches[OF fr _ this, of sample_env] obtain wr w5 where
    di: "Dispatch (rs_projection ?s) (Some v) sample_env ?w4 = ((wr, None), w5)" by (auto simp: move_payload_def)
  have "MoveResource ?s sample_ref sample_ref ''zeta'' sample_env ?w = (Inr (?m, None), w5)"
    using get sp e1 up ev di
    by (simp add: MoveResource_def Let_def bindE_def bind_io_def sample_trims CreateOutboxEvents_def)
  then show ?thesis by blast
qed

lemma move_replaces_parent_witness:
  "\<exists>m w'. MoveResource (res_service False move_payload move_payload) sample_ref sample_ref ''zeta'' sample_env
      (res_world [parent_rel ''skill'' ''s1'' ''project'' ''p1'']) = (Inr (m, None), w')
    \<and> rel_key (parent_rel ''skill'' ''s1'' ''project'' ''p1'') \<notin> set_tuples (graph w')
    \<and> rel_key (parent_rel ''skill'' ''s1'' ''skill'' ''s1'') \<in> set_tuples (graph w')"
proof -
  let ?w = "res_world [parent_rel ''skill'' ''s1'' ''project'' ''p1'']"
  obtain m w' where run: "MoveResource (res_service False move_payload move_payload) sample_ref sample_ref ''zeta'' sample_env ?w
      = (Inr (m, None), w')" using sample_move_run by blast
  from move_replaces_parent[OF res_service_direct res_world_inv run] obtain old st previous desired where
    old: "resource_at (db ?w) (TrimSpace (rr_Type sample_ref), TrimSpace (rr_ID sample_ref)) = Some old"
    and m: "m = old\<lparr>re_ParentType := TrimSpace (rr_Type sample_ref), re_ParentID := TrimSpace (rr_ID sample_ref)\<rparr>"
    and st: "res_spice_of (db ?w) (TrimSpace (rr_Type sample_ref)) = Inr st"
    and ed: "edges_of (db ?w) st (re_ID old) (re_ParentType old) (re_ParentID old) = Inr previous"
      "edges_of (db ?w) st (re_ID m) (re_ParentType m) (re_ParentID m) = Inr desired"
    and sw: "swapped previous desired (set_tuples (graph ?w)) (set_tuples (graph w'))" by blast
  have "old = stored_resource" using old res_world_at(1)[of "[parent_rel ''skill'' ''s1'' ''project'' ''p1'']"]
    by (simp add: sample_trims)
  moreover have "st = ''skill''" using st res_world_spice(1)[OF refl] by (simp add: sample_trims)
  ultimately have "previous = [parent_rel ''skill'' ''s1'' ''project'' ''p1'']" "desired = [parent_rel ''skill'' ''s1'' ''skill'' ''s1'']"
    using ed m res_world_spice(1)[OF refl] by (simp_all add: edges_of_def sample_trims res_world_spice(2))
  note sw = sw[unfolded this]
  have "rel_key (parent_rel ''skill'' ''s1'' ''project'' ''p1'') \<noteq> rel_key (parent_rel ''skill'' ''s1'' ''skill'' ''s1'')"
    by (simp add: parent_rel_def rel_key_def Subject_def sample_trims)
  with sw run show ?thesis by (auto simp: swapped_def)
qed

lemma move_under_itself_witness:
  "\<exists>m w'. MoveResource (res_service False move_payload move_payload) sample_ref sample_ref ''zeta'' sample_env
      (res_world []) = (Inr (m, None), w') \<and> re_ParentType m = ''skill'' \<and> re_ParentID m = ''s1''"
proof -
  obtain m w' where run: "MoveResource (res_service False move_payload move_payload) sample_ref sample_ref ''zeta'' sample_env
      (res_world []) = (Inr (m, None), w')" using sample_move_run by blast
  have ne: "TrimSpace (rr_Type sample_ref) \<noteq> []" "TrimSpace (rr_ID sample_ref) \<noteq> []" by (simp_all add: sample_trims)
  from move_under_itself[OF res_service_direct res_world_inv run ne] run show ?thesis by (auto simp: sample_trims)
qed

definition sample_upsert :: UpsertResourceRequest where
  "sample_upsert = \<lparr>ur_Ref = \<lparr>rr_Type = ''skill'', rr_ID = ''s1''\<rparr>, ur_OrgID = ''zeta'', ur_ProjectID = ''p1'',
     ur_Parent = \<lparr>rr_Type = ''project'', rr_ID = ''p1''\<rparr>, ur_OwnerService = [], ur_OwnerResourceID = [], ur_Slug = [],
     ur_DisplayName = [], ur_Path = [], ur_Status = [], ur_Visibility = [], ur_LabelsJSON = [], ur_AnnotationsJSON = [],
     ur_MetadataJSON = [], ur_CreatedBy = sample_owner, ur_Owner = sample_owner\<rparr>"

definition upsert_payload :: Payload where
  "upsert_payload = empty_payload\<lparr>pl_Operation := OperationWrite,
     pl_Relationships := [parent_rel ''skill'' ''s1'' ''project'' ''p1''] @ owner_edges sample_kernel ''skill'' ''s1'' sample_owner\<rparr>"

lemma sample_upsert_run:
  "\<exists>m wr w'. res_UpsertResource (res_service False upsert_payload upsert_payload) sample_upsert sample_env (res_world g)
    = (Inr (m, wr, None), w')"
proof -
  let ?s = "res_service False upsert_payload upsert_payload" and ?w = "res_world g"
  let ?m = "new_resource sample_kernel sample_upsert res_type ''s1'' (clock sample_env (ticks ?w))"
  have m: "re_Type ?m = ''skill''" "re_ID ?m = ''s1''" "re_OrgID ?m = ''zeta''" "re_ParentType ?m = ''project''" "re_ParentID ?m = ''p1''"
    by (simp_all add: new_resource_def sample_upsert_def sample_trims)
  have rt: "GetResourceType ''skill'' sample_env ?w = (Inr res_type, ?w)" "rt_SpiceDBType res_type = ''skill''"
    using res_world_at(2)[of g] by (simp_all add: GetResourceType_def bind_io_def res_type_def)
  have "exists_in (db ?w) (ur_Parent sample_upsert) (ur_OrgID sample_upsert)"
    by (simp add: exists_in_def sample_upsert_def sample_trims res_world_def sample_project_def)
  then have "requireResourceExists (ur_Parent sample_upsert) (ur_OrgID sample_upsert) sample_env ?w = (Inr (), ?w)"
    by (simp add: requireResourceExists_ok)
  moreover have "jsonOr (rt_ParentTypesJSON res_type) ''[]'' = ''[\"project\"]''"
    by (simp add: jsonOr_def res_type_def trims)
  then have "requireListed ?s (rt_ParentTypesJSON res_type) (rr_Type (ur_Parent sample_upsert))
      ''parent type is not allowed for resource type'' = Inr ()"
    unfolding requireListed_ok by (simp add: quote_code sample_upsert_def)
  ultimately have par: "check_parent ?s sample_upsert res_type sample_env ?w = (Inr (), ?w)"
    by (simp add: check_parent_def)
  have ed: "edges_of (db w) ''skill'' ''s1'' ''project'' ''p1'' = Inr [parent_rel ''skill'' ''s1'' ''project'' ''p1'']" for w :: "Relationship list world"
    by (simp add: edges_of_def sample_trims res_world_spice(2))
  have "\<exists>v w2. NewWriteEvent (rs_projection ?s) ''resource'' ''skill:s1''
      ([parent_rel ''skill'' ''s1'' ''project'' ''p1''] @ owner_edges sample_kernel ''skill'' ''s1'' sample_owner) sample_env (tick ?w)
      = (Inr (Some v), w2)"
    by (simp add: NewWriteEvent_def newEvent_def res_service_def pair_manager_def NewManager_def bindE_def bind_io_def upsert_payload_def)
  then obtain v w2 where ev: "NewWriteEvent (rs_projection ?s) ''resource'' ''skill:s1''
      ([parent_rel ''skill'' ''s1'' ''project'' ''p1''] @ owner_edges sample_kernel ''skill'' ''s1'' sample_owner) sample_env (tick ?w)
      = (Inr (Some v), w2)" by blast
  have fr: "fresh (rs_projection ?s) upsert_payload v" using NewWriteEvent_Some[OF ev] by (simp add: upsert_payload_def)
  obtain w3 where up: "UpsertResource ?m [Some v] sample_env w2 = (Inr (), w3)" using UpsertResource_ex by blast
  have "get_key (events (db w3)) (ev_ID v) = Some v"
    using UpsertResource_run[OF up] fr by (auto simp: events_saveEvents1 fresh_def)
  from res_dispatches[OF fr _ this, of sample_env] obtain wr w4 where
    di: "Dispatch (rs_projection ?s) (Some v) sample_env w3 = ((wr, None), w4)" by (auto simp: upsert_payload_def)
  have ow: "ur_Owner sample_upsert = sample_owner" "TrimSpace (rr_Type (ur_Ref sample_upsert)) = ''skill''"
    "TrimSpace (rr_ID (ur_Ref sample_upsert)) = ''s1''" "kern sample_env = sample_kernel"
    by (simp_all add: sample_upsert_def sample_trims sample_env_def)
  have tail: "project_resource ?s sample_kernel res_type sample_owner ?m sample_env (tick ?w) = (Inr (?m, wr, None), w4)"
    using ev up di by (simp add: project_resource_def parent_edges_run m rt(2) ed bindE_def bind_io_def)
  have "res_UpsertResource ?s sample_upsert sample_env ?w = (Inr (?m, wr, None), w4)"
    using par tail by (simp add: res_UpsertResource_def Let_def ow rt(1) bindE_def bind_io_def m(3))
  then show ?thesis by blast
qed

lemma resource_stored_witness:
  "\<exists>m wr w'. res_UpsertResource (res_service False upsert_payload upsert_payload) sample_upsert sample_env (res_world [])
      = (Inr (m, wr, None), w') \<and> re_OrgID m = ''zeta'' \<and> get_key (resources (db w')) (re_key m) \<noteq> None"
proof -
  obtain m wr w' where run: "res_UpsertResource (res_service False upsert_payload upsert_payload) sample_upsert sample_env (res_world [])
      = (Inr (m, wr, None), w')" using sample_upsert_run by blast
  from resource_stored[OF res_service_direct run] obtain c u where "re_OrgID m = TrimSpace (ur_OrgID sample_upsert)"
    "resources (db w') = put_key (re_key m) (m\<lparr>re_CreatedAt := c, re_UpdatedAt := u\<rparr>) (resources (db (res_world [])))" by blast
  with run show ?thesis by (auto simp: sample_upsert_def sample_trims update_conv')
qed

definition end_payload :: Payload where "end_payload = purge_payload (res_filters sample_ref ''skill'') []"

lemma sample_end:
  "res_spice_of (db (res_world g)) (TrimSpace (rr_Type sample_ref)) = Inr ''skill''"
  "res_captureRelationships (res_service strict p q) fs e w = ([], w)"
  "encodes (rs_projection (res_service strict end_payload end_payload)) (purge_payload (res_filters sample_ref ''skill'') [])"
  "accepts (set_store False []) (purge_payload (res_filters sample_ref ''skill'') [])"
  using res_world_spice(1)[OF refl, of g] res_service_encodes[of end_payload end_payload end_payload strict]
  by (simp_all add: sample_trims res_captureRelationships_def captureRelationships_def end_payload_def accepts_set_store
      purge_payload_def)

lemma sample_delete_run:
  "\<exists>w'. res_DeleteResource (res_service False end_payload end_payload) sample_ref ''zeta'' sample_env (res_world g) = (Inr (), w')"
proof -
  let ?s = "res_service False end_payload end_payload"
  have g: "rs_repo ?s" "TrimSpace (rr_Type sample_ref) \<noteq> []" "TrimSpace (rr_ID sample_ref) \<noteq> []"
    and rd: "rs_reader ?s \<in> {None, Some (set_store False [])}" by (simp_all add: sample_trims)
  from purge_then_reaches[OF res_service_direct rd g sample_end(1)[of g] sample_end(2)[where e = sample_env] sample_end(3,4),
      where finish = DeleteResource and ?o1.0 = "''zeta''"]
  obtain w4 where re: "resources (db w4) = resources (db (res_world g))"
    and run: "res_DeleteResource ?s sample_ref ''zeta'' sample_env (res_world g) = DeleteResource ''skill'' ''s1'' ''zeta'' sample_env w4"
    by (auto simp: res_DeleteResource_def sample_trims)
  have "\<exists>w'. DeleteResource ''skill'' ''s1'' ''zeta'' sample_env w4 = (Inr (), w')"
    using res_world_at(1)[of g] re by (simp add: DeleteResource_def set_resource_status_def bind_io_def liftE_scoped_run scoped_def)
  with run show ?thesis by simp
qed

lemma ended_resource_outcome_witness:
  "\<exists>w'. res_DeleteResource (res_service False end_payload end_payload) sample_ref ''zeta'' sample_env
      (res_world [parent_rel ''skill'' ''s1'' ''project'' ''p1'']) = (Inr (), w')
    \<and> rel_key (parent_rel ''skill'' ''s1'' ''project'' ''p1'') \<notin> set_tuples (graph w')"
proof -
  let ?s = "res_service False end_payload end_payload"
  obtain w' where run: "res_DeleteResource ?s sample_ref ''zeta'' sample_env
      (res_world [parent_rel ''skill'' ''s1'' ''project'' ''p1'']) = (Inr (), w')" using sample_delete_run by blast
  have "(StatusDeleted, res_DeleteResource ?s) \<in> {(StatusDeleted, res_DeleteResource ?s), (StatusArchived, res_ArchiveResource ?s)}"
    and rd: "rs_reader ?s \<in> {None, Some (set_store False [])}" by simp_all
  from ended_resource_outcome[OF res_service_direct rd this(1) run, unfolded sum.case] obtain st where
    "res_spice_of (db (res_world [parent_rel ''skill'' ''s1'' ''project'' ''p1''])) (TrimSpace (rr_Type sample_ref)) = Inr st"
    "set_tuples (graph w') \<inter> tuples_of st (TrimSpace (rr_ID sample_ref)) = {}" by blast
  moreover from this(1) have "st = ''skill''" using sample_end(1) by simp
  moreover have "rel_key (parent_rel ''skill'' ''s1'' ''project'' ''p1'') \<in> tuples_of ''skill'' ''s1''"
    by (simp add: tuples_of_def rel_key_def parent_rel_def Object_def sample_trims)
  ultimately show ?thesis using run by (auto simp: sample_trims)
qed

lemma foreign_delete_purges_witness:
  "\<exists>m w'. res_DeleteResource (res_service False end_payload end_payload) sample_ref ''acme'' sample_env
      (res_world [parent_rel ''skill'' ''s1'' ''project'' ''p1'']) = (Inl (ErrNotFound m), w')
    \<and> rel_key (parent_rel ''skill'' ''s1'' ''project'' ''p1'') \<notin> set_tuples (graph w')"
proof -
  let ?s = "res_service False end_payload end_payload" and ?w = "res_world [parent_rel ''skill'' ''s1'' ''project'' ''p1'']"
  have g: "rs_repo ?s" "TrimSpace (rr_Type sample_ref) \<noteq> []" "TrimSpace (rr_ID sample_ref) \<noteq> []"
    and rd: "rs_reader ?s \<in> {None, Some (set_store False [])}"
    and v: "resource_at (db ?w) (TrimSpace (rr_Type sample_ref), TrimSpace (rr_ID sample_ref)) = Some stored_resource"
      "re_OrgID stored_resource \<noteq> ''acme''"
    using res_world_at(1) by (simp_all add: sample_trims)
  from foreign_delete_purges[OF res_service_direct rd g sample_end(1) v sample_end(2,3,4)] obtain m w' where
    run: "res_DeleteResource ?s sample_ref ''acme'' sample_env ?w = (Inl (ErrNotFound m), w')"
    and no: "set_tuples (graph w') \<inter> tuples_of ''skill'' (TrimSpace (rr_ID sample_ref)) = {}" by blast
  moreover have "rel_key (parent_rel ''skill'' ''s1'' ''project'' ''p1'') \<in> tuples_of ''skill'' ''s1''"
    by (simp add: tuples_of_def rel_key_def parent_rel_def Object_def sample_trims)
  ultimately show ?thesis by (auto simp: sample_trims)
qed

lemma untyped_purge_blocks_witness:
  "\<exists>er w'. res_DeleteResource (res_service True end_payload end_payload) sample_ref ''zeta'' sample_env (res_world []) = (Inl er, w')
    \<and> get_key (resources (db w')) ''skill:s1'' = Some stored_resource"
proof -
  have rd: "rs_reader (res_service True end_payload end_payload) \<in> {None, Some (set_store True [])}" by simp
  from untyped_purge_blocks[OF res_service_direct rd refuses_untyped_set_store, of sample_ref "''zeta''" sample_env "res_world []"]
  show ?thesis by (auto simp: res_world_def)
qed

definition sample_bind :: BindResourceRequest where
  "sample_bind = \<lparr>bq_ID = ''b1'', bq_OrgID = ''zeta'', bq_Source = sample_ref, bq_Relation = ''uses'',
     bq_Target = \<lparr>rr_Type = ''project'', rr_ID = ''p1''\<rparr>, bq_CreatedBy = sample_owner\<rparr>"

definition uses_rel :: Relationship where
  "uses_rel = \<lparr>rel_Resource = Object ''skill'' ''s1'', rel_Relation = ''uses'', rel_Subject = Subject ''project'' ''p1'' [],
     rel_ExpiresAt = 0\<rparr>"

definition uses_binding :: "gotime \<Rightarrow> ResourceBindingModel" where
  "uses_binding now = \<lparr>rb_ID = ''b1'', rb_OrgID = ''zeta'', rb_SourceType = ''skill'', rb_SourceID = ''s1'', rb_Relation = ''uses'',
     rb_TargetType = ''project'', rb_TargetID = ''p1'', rb_Status = StatusActive,
     rb_CreatedBy = subjectString sample_kernel sample_owner, rb_CreatedAt = now, rb_UpdatedAt = now\<rparr>"

definition bind_payload :: Payload where
  "bind_payload = empty_payload\<lparr>pl_Operation := OperationWrite, pl_Relationships := [uses_rel]\<rparr>"

definition unbind_payload :: Payload where
  "unbind_payload = empty_payload\<lparr>pl_Operation := OperationDelete, pl_Filter := filter_of uses_rel, pl_Relationships := [uses_rel]\<rparr>"

abbreviation bind_service :: "(Relationship list) ResourceService" where
  "bind_service \<equiv> res_service False bind_payload unbind_payload"

lemma uses_parts:
  "binding_rel (uses_binding t) ''skill'' ''project'' = uses_rel"
  "binding_filter ((uses_binding t)\<lparr>rb_CreatedAt := c, rb_UpdatedAt := u\<rparr>) ''skill'' ''project'' = filter_of uses_rel"
  "binding_rel ((uses_binding t)\<lparr>rb_CreatedAt := c, rb_UpdatedAt := u\<rparr>) ''skill'' ''project'' = uses_rel"
  by (simp_all add: binding_rel_def binding_filter_def uses_rel_def uses_binding_def filter_of_def sample_trims)

lemma sample_bind_run:
  "\<exists>t wr w'. res_BindResource bind_service sample_bind sample_env (res_world g) = (Inr (uses_binding t, wr, None), w')"
proof -
  let ?w = "res_world g" and ?tgt = "\<lparr>rr_Type = ''project'', rr_ID = ''p1''\<rparr>"
  let ?b = "uses_binding (clock sample_env (ticks ?w))"
  have rt: "GetResourceType ''skill'' sample_env ?w = (Inr res_type, ?w)"
    using res_world_at(2)[of g] by (simp add: GetResourceType_def bind_io_def)
  have "jsonOr (rt_RelationsJSON res_type) ''[]'' = ''[\"uses\"]''" by (simp add: jsonOr_def res_type_def trims)
  then have li: "requireListed bind_service (rt_RelationsJSON res_type) ''uses'' ''relation is not allowed for source resource type'' = Inr ()"
    unfolding requireListed_ok by (simp add: quote_code)
  have "exists_in (db ?w) sample_ref ''zeta''" "exists_in (db ?w) ?tgt ''zeta''"
    using res_world_at(1)[of g] by (simp_all add: exists_in_def sample_trims res_world_def sample_project_def)
  then have ex: "requireResourceExists sample_ref ''zeta'' sample_env ?w = (Inr (), ?w)"
    "requireResourceExists ?tgt ''zeta'' sample_env ?w = (Inr (), ?w)" by (simp_all add: requireResourceExists_ok)
  have "edge_of (db (tick ?w)) sample_ref ''uses'' ?tgt = Inr uses_rel"
    using res_world_spice(1)[of "db (tick ?w)" g] by (simp add: edge_of_def res_world_spice(2) uses_rel_def)
  then have ed: "bindingRelationship sample_ref ''uses'' ?tgt sample_env (tick ?w) = (Inr uses_rel, tick ?w)"
    using bindingRelationship_bind[of sample_ref "''uses''" ?tgt ret sample_env "tick ?w"]
    by (simp add: bind_io_def split: prod.splits)
  obtain v w2 where ev: "NewWriteEvent (rs_projection bind_service) ''resource_binding'' ''b1'' [uses_rel] sample_env (tick ?w)
      = (Inr (Some v), w2)"
    by (auto simp: NewWriteEvent_def newEvent_def res_service_def pair_manager_def NewManager_def bindE_def bind_io_def bind_payload_def)
  have fr: "fresh (rs_projection bind_service) bind_payload v" using NewWriteEvent_Some[OF ev] by (simp add: bind_payload_def)
  obtain r w3 where bi: "BindResource ?b [Some v] sample_env w2 = (r, w3)" by fastforce
  then have bi': "BindResource ?b [Some v] sample_env w2 = (Inr (), w3)" using BindResource_run[OF bi] by simp
  have "get_key (events (db w3)) (ev_ID v) = Some v" using BindResource_run[OF bi] fr by (auto simp: events_saveEvents1 fresh_def)
  from res_dispatches[OF fr _ this, of sample_env] obtain wr w4 where
    di: "Dispatch (rs_projection bind_service) (Some v) sample_env w3 = ((wr, None), w4)" by (auto simp: bind_payload_def)
  have parts: "trim_ref (bq_Source sample_bind) = sample_ref" "trim_ref (bq_Target sample_bind) = ?tgt"
    "TrimSpace (bq_Relation sample_bind) = ''uses''" "TrimSpace (bq_ID sample_bind) = ''b1''" "bq_OrgID sample_bind = ''zeta''"
    "bq_CreatedBy sample_bind = sample_owner" "kern sample_env = sample_kernel"
    by (simp_all add: sample_bind_def trim_ref_def sample_trims sample_env_def)
  have "res_BindResource bind_service sample_bind sample_env ?w = (Inr (?b, wr, None), w4)"
    using rt li ex ed ev bi' di unfolding res_BindResource_def Let_def parts uses_binding_def
    by (simp add: bindE_def bind_io_def parts)
  then show ?thesis by blast
qed

lemma unbind_undoes_bind_witness:
  "\<exists>t wr w1 w2. res_BindResource bind_service sample_bind sample_env (res_world []) = (Inr (uses_binding t, wr, None), w1)
    \<and> res_UnbindResource bind_service ''b1'' ''zeta'' sample_env w1 = (Inr (), w2)
    \<and> rel_key uses_rel \<in> set_tuples (graph w1) \<and> rel_key uses_rel \<notin> set_tuples (graph w2)"
proof -
  let ?w = "res_world []"
  obtain t wr w1 where bind: "res_BindResource bind_service sample_bind sample_env ?w = (Inr (uses_binding t, wr, None), w1)"
    using sample_bind_run by blast
  let ?b = "uses_binding t"
  have parts: "rb_ID ?b = ''b1''" "rb_SourceType ?b = ''skill''" "rb_TargetType ?b = ''project''" "rb_OrgID ?b = ''zeta''"
    "rb_Status ?b = StatusActive" "bq_OrgID sample_bind = ''zeta''"
    by (simp_all add: uses_binding_def sample_bind_def)
  from res_BindResource_success[OF bind] obtain c u ev w0 where
    w0: "db w0 = saveEvents [Some ev] ((db ?w)\<lparr>bindings := put_key (rb_ID ?b) (?b\<lparr>rb_CreatedAt := c, rb_UpdatedAt := u\<rparr>) (bindings (db ?w))\<rparr>)"
    and di: "Dispatch (rs_projection bind_service) (Some ev) sample_env w0 = ((wr, None), w1)" by blast
  let ?b' = "?b\<lparr>rb_CreatedAt := c, rb_UpdatedAt := u\<rparr>"
  have bt: "bindings (db w1) = put_key ''b1'' ?b' (bindings (db ?w))" and ty: "resourceTypes (db w1) = resourceTypes (db ?w)"
    using dispatch_keeps(6)[OF res_service_direct di] dispatch_keeps_types[OF res_service_direct di] w0 parts by simp_all
  have k1: "keyed rb_ID (bindings (db w1))"
    using res_world_inv[of "[]"] parts unfolding bt by (auto simp: repo_inv_unfold intro: keyed_put)
  have at1: "binding_at (db w1) ''b1'' = Some ?b'" "rb_Status ?b' = StatusActive" "rb_OrgID ?b' = ''zeta''"
    using parts by (simp_all add: bt update_conv')
  from listed_binding[OF k1 at1, of sample_env] obtain bs where
    bs: "ListResourceBindings (no_options\<lparr>lo_OrgID := ''zeta'', lo_Status := StatusActive\<rparr>) sample_env w1 = (Inr bs, tick w1)"
      "find (\<lambda>x. rb_ID x = ''b1'') bs = Some ?b'" by blast
  have sp: "res_spiceType ''skill'' sample_env (tick w1) = (Inr ''skill'', tick w1)"
    "res_spiceType ''project'' sample_env (tick w1) = (Inr ''project'', tick w1)"
    using res_world_spice(1)[of "db w1" "[]"] ty by (simp_all add: res_spiceType_run res_world_spice(2))
  have pb': "rb_SourceType ?b' = ''skill''" "rb_TargetType ?b' = ''project''" using parts by simp_all
  obtain v w2 where ev: "NewDeleteEvent (rs_projection bind_service) ''resource_binding'' ''b1'' (filter_of uses_rel) [uses_rel]
      sample_env (tick w1) = (Inr (Some v), w2)"
    by (auto simp: NewDeleteEvent_def newEvent_def res_service_def pair_manager_def NewManager_def bindE_def bind_io_def
        unbind_payload_def bind_payload_def empty_payload_def)
  have s2: "db w2 = db w1" using unchanged_builders(3)[OF ev] by simp
  have fr: "fresh (rs_projection bind_service) unbind_payload v"
    using ev by (auto simp: NewDeleteEvent_def bindE_Inr_iff unbind_payload_def dest: newEvent_fresh)
  let ?w3 = "w2\<lparr>db := saveEvents [Some v] (db w2)\<rparr>"
  have "get_key (events (db ?w3)) (ev_ID v) = Some v" using fr by (simp add: events_saveEvents1 fresh_def)
  from res_dispatches[OF fr _ this, of sample_env] obtain wr2 w4 where
    d2: "Dispatch (rs_projection bind_service) (Some v) sample_env ?w3 = ((wr2, None), w4)" by (auto simp: unbind_payload_def)
  have rd: "res_dispatch bind_service (Some v) sample_env w2 = (Inr (), w4)" using res_dispatch_run[OF fr] d2 by simp
  have "binding_at (db w4) ''b1'' = Some ?b'" using dispatch_keeps(6)[OF res_service_direct d2] s2 at1(1) by simp
  then obtain w5 where un: "UnbindResource ''b1'' ''zeta'' sample_env w4 = (Inr (), w5)"
    using at1(3) by (simp add: UnbindResource_def bind_io_def liftE_scoped_run scoped_def)
  have run: "res_UnbindResource bind_service ''b1'' ''zeta'' sample_env w1 = (Inr (), w5)"
    using bs sp ev rd un
    by (simp add: res_UnbindResource_def Let_def sample_trims pb' uses_parts(2,3) del: select_convs)
  have st: "res_spice_of (db ?w) (rb_SourceType ?b) = Inr ''skill''" "TrimSpace ''skill'' = ''skill''" "TrimSpace (rb_ID ?b) = rb_ID ?b"
    using res_world_spice(1)[OF refl] parts by (simp_all add: sample_trims)
  from unbind_undoes_bind[OF res_service_direct res_world_inv bind st, of sample_env "()" w5] run parts
  have "rel_key (binding_rel ?b ''skill'' ''project'') \<in> set_tuples (graph w1)
      \<and> rel_key (binding_rel ?b ''skill'' ''project'') \<notin> set_tuples (graph w5)"
    by (auto simp: res_world_spice(2))
  then show ?thesis using bind run by (auto simp: uses_parts(1))
qed

end
