(* ===== verification/Sha256.thy ===== *)
theory Sha256
  imports Prelude "HOL-Library.Word"
begin

text \<open>
  SHA-256 of Go's package crypto/sha256, on 32-bit words: the program derives identifiers of
  inherited entitlements from the first bytes of the digest.
\<close>

unbundle bit_operations_syntax

type_synonym word32 = "32 word"

text \<open>
  The constants are the first 32 bits of the fractions of the cube roots and the square roots of the
  first primes.  \<open>root_bits k b n r\<close> decides the lowest \<open>b\<close> bits of the \<open>k\<close>-th root of \<open>n\<close>.
\<close>

primrec root_bits :: "nat \<Rightarrow> nat \<Rightarrow> nat \<Rightarrow> nat \<Rightarrow> nat" where
  "root_bits k 0 n r = r"
| "root_bits k (Suc b) n r = root_bits k b n (if (r + 2 ^ b) ^ k \<le> n then r + 2 ^ b else r)"

definition root_fraction :: "nat \<Rightarrow> nat \<Rightarrow> word32" where
  "root_fraction k p = of_nat (root_bits k 36 (p * 2 ^ (32 * k)) 0)"

definition primes_to :: "nat \<Rightarrow> nat list" where
  "primes_to n = filter (\<lambda>p. \<forall>d \<in> set [2..<p]. p mod d \<noteq> 0) [2..<Suc n]"

definition round_constants :: "word32 list" where
  "round_constants = map (root_fraction 3) (primes_to 311)"

definition initial_state :: "word32 list" where
  "initial_state = map (root_fraction 2) (primes_to 19)"

definition rotr :: "nat \<Rightarrow> word32 \<Rightarrow> word32" where
  "rotr n x = drop_bit n x OR push_bit (32 - n) x"

definition big_endian :: "nat \<Rightarrow> nat \<Rightarrow> nat list" where
  "big_endian n v = map (\<lambda>k. v div 256 ^ (n - 1 - k) mod 256) [0..<n]"

definition padded :: "nat list \<Rightarrow> nat list" where
  "padded m = m @ 128 # replicate ((119 - length m mod 64) mod 64) 0 @ big_endian 8 (8 * length m)"

fun words_of :: "nat list \<Rightarrow> word32 list" where
  "words_of (a # b # c # d # m) = of_nat (16777216 * a + 65536 * b + 256 * c + d) # words_of m"
| "words_of _ = []"

text \<open>The message schedule, built backwards: the newest word first.\<close>

primrec schedule :: "nat \<Rightarrow> word32 list \<Rightarrow> word32 list" where
  "schedule 0 ws = rev ws"
| "schedule (Suc n) ws =
     (let w15 = ws ! 14; w2 = ws ! 1;
          s0 = xor (xor (rotr 7 w15) (rotr 18 w15)) (drop_bit 3 w15);
          s1 = xor (xor (rotr 17 w2) (rotr 19 w2)) (drop_bit 10 w2)
      in schedule n ((ws ! 15 + s0 + ws ! 6 + s1) # ws))"

fun compress :: "(word32 \<times> word32) list \<Rightarrow> word32 list \<Rightarrow> word32 list" where
  "compress [] st = st"
| "compress ((k, w) # kws) [a, b, c, d, e, f, g, h] =
     (let s1 = xor (xor (rotr 6 e) (rotr 11 e)) (rotr 25 e);
          ch = xor (e AND f) (NOT e AND g);
          t1 = h + s1 + ch + k + w;
          s0 = xor (xor (rotr 2 a) (rotr 13 a)) (rotr 22 a);
          maj = xor (xor (a AND b) (a AND c)) (b AND c)
      in compress kws [t1 + (s0 + maj), a, b, c, d + t1, e, f, g])"
| "compress (x # kws) st = st"

definition block :: "word32 list \<Rightarrow> word32 list \<Rightarrow> word32 list" where
  "block st ws = map2 (+) st (compress (zip round_constants (schedule 48 (rev ws))) st)"

primrec blocks :: "nat \<Rightarrow> word32 list \<Rightarrow> word32 list \<Rightarrow> word32 list" where
  "blocks 0 ws st = st"
| "blocks (Suc n) ws st = blocks n (drop 16 ws) (block st (take 16 ws))"

definition Sum256 :: "string \<Rightarrow> nat list" where
  "Sum256 s =
     (let ws = words_of (padded (map of_char s))
      in concat (map (\<lambda>w. big_endian 4 (unat w)) (blocks (length ws div 16) ws initial_state)))"

end
