(* ===== verification/AccessQuery.thy ===== *)
theory AccessQuery
  imports ResourceLaws Sha256
begin

text \<open>
  The access queries of \<open>internal/biz/accessquery/service.go\<close>: the entitlements of a subject, the
  subjects with access to a resource, the preview of a grant.  The subject and resource types of
  the package have the fields of \<open>GrantSubject\<close> and \<open>ResourceRef\<close>.

  The recursion over parents may not end.  It takes fuel, one unit per parent edge followed, and
  returns \<open>None\<close> when the fuel is used up; the other operations pass this \<open>None\<close> on.  The listings
  use page number 0, on which the repository does not fail, so that the \<open>continue\<close> branches after
  a listing error are unreachable here; they are kept as they are.
\<close>

abbreviation SourceDirectGrant :: string where "SourceDirectGrant \<equiv> ''DIRECT_GRANT''"
abbreviation SourceGroupGrant :: string where "SourceGroupGrant \<equiv> ''GROUP_GRANT''"
abbreviation SourceParentInheritance :: string where "SourceParentInheritance \<equiv> ''PARENT_INHERITANCE''"
abbreviation SourceOrgInheritance :: string where "SourceOrgInheritance \<equiv> ''ORG_INHERITANCE''"
abbreviation SourcePlatformInheritance :: string where "SourcePlatformInheritance \<equiv> ''PLATFORM_INHERITANCE''"

record Entitlement =
  en_ID :: string
  en_Subject :: GrantSubject
  en_Resource :: ResourceRef
  en_RoleKey :: string
  en_Permissions :: "string list"
  en_SourceType :: string
  en_SourceSubject :: GrantSubject
  en_SourceResource :: ResourceRef
  en_GrantID :: string
  en_RevocableHere :: bool
  en_ExpiresAt :: "gotime option"
  en_ConsistencyToken :: string

record ListSubjectEntitlementsRequest =
  ls_OrgID :: string
  ls_Subject :: GrantSubject
  ls_ResourceType :: string
  ls_PageSize :: int
  ls_PageToken :: string

record EntitlementsReply =
  lr_Entitlements :: "Entitlement list"
  lr_NextPageToken :: string
  lr_TotalSize :: int

record ListResourceAccessRequest =
  la_OrgID :: string
  la_Resource :: ResourceRef
  la_SubjectType :: string
  la_PageSize :: int
  la_PageToken :: string

record PreviewGrantRequest =
  pq_OrgID :: string
  pq_Resource :: ResourceRef
  pq_RoleKey :: string
  pq_Subject :: GrantSubject

record PreviewGrantReply =
  pv_Permissions :: "string list"
  pv_AlreadyGranted :: bool
  pv_ExistingGrantID :: string
  pv_ConsistencyToken :: string

text \<open>The service: the relationship store, or nil.  Its repository is the one of theory Memory.\<close>

record 'g AccessService =
  as_store :: "'g store option"

definition NewAccessService :: "'g store option \<Rightarrow> 'g AccessService" where
  "NewAccessService svc = \<lparr>as_store = svc\<rparr>"

subsection \<open>Helpers\<close>

definition no_subject :: GrantSubject where "no_subject = \<lparr>sr_Type = [], sr_ID = [], sr_Relation = []\<rparr>"
definition no_resource :: ResourceRef where "no_resource = \<lparr>rr_Type = [], rr_ID = []\<rparr>"

text \<open>A wrapped error (\<open>fmt.Errorf\<close> with \<open>%w\<close>); a panic is not an error value.\<close>

definition wrap_err :: "string \<Rightarrow> err \<Rightarrow> err" where
  "wrap_err what er = (case er of ErrPanic m \<Rightarrow> ErrPanic m | _ \<Rightarrow> ErrNew (what @ '': '' @ err_text er))"

definition inheritedID :: "string \<Rightarrow> string \<Rightarrow> string \<Rightarrow> string" where
  "inheritedID prefix grantID subjectID =
     ''inherited:'' @ hex_encode (take 8 (Sum256 (prefix @ '':'' @ grantID @ '':'' @ subjectID)))"

definition pageToken :: "int \<Rightarrow> string" where "pageToken index = Itoa index"

definition pageFromToken :: "string \<Rightarrow> int" where "pageFromToken token = Sscanf_int token"

primrec dedup_loop :: "Entitlement list \<Rightarrow> string list \<Rightarrow> Entitlement list \<Rightarrow> Entitlement list" where
  "dedup_loop [] seen out = out"
| "dedup_loop (e # es) seen out =
     (if en_ID e \<in> set seen then dedup_loop es seen out
      else dedup_loop es (en_ID e # seen) (out @ [e]))"

definition dedupEntitlements :: "Entitlement list \<Rightarrow> Entitlement list" where
  "dedupEntitlements ents = dedup_loop ents [] []"

definition getPermissions :: "string \<Rightarrow> string \<Rightarrow> string \<Rightarrow> ('g, string list) op" where
  "getPermissions roleTemplateID resourceType roleKey =
     bind_io (if roleTemplateID \<noteq> [] then GetRoleTemplate roleTemplateID else failE (ErrNew [])) (\<lambda>r.
     case r of
       Inr rt \<Rightarrow> ret (ro_Permissions rt)
     | Inl _ \<Rightarrow>
         bind_io (ListRoleTemplates resourceType) (\<lambda>r.
         ret (case r of Inl _ \<Rightarrow> []
              | Inr templates \<Rightarrow> (case find (\<lambda>t. ro_RoleKey t = roleKey) templates of
                  None \<Rightarrow> [] | Some t \<Rightarrow> ro_Permissions t))))"

text \<open>The options of every listing here: active grants, a thousand of them.\<close>

definition active_options :: "string \<Rightarrow> ListOptions" where
  "active_options orgID = no_options\<lparr>lo_OrgID := orgID, lo_Active := Some True, lo_Size := 1000\<rparr>"

text \<open>One entitlement per grant of a list, with the permissions of its role, appended to \<open>result\<close>.\<close>

definition add_grants ::
    "(GrantModel \<Rightarrow> string list \<Rightarrow> Entitlement) \<Rightarrow> GrantModel list \<Rightarrow> Entitlement list \<Rightarrow> ('g, Entitlement list) op" where
  "add_grants entitlement gs result =
     fold_io (\<lambda>g out.
       bind_io (getPermissions (gr_RoleTemplateID g) (gr_ResourceType g) (gr_RoleKey g)) (\<lambda>perms.
       ret (out @ [entitlement g perms]))) gs result"

definition direct_entitlement :: "GrantModel \<Rightarrow> string list \<Rightarrow> Entitlement" where
  "direct_entitlement g perms =
     \<lparr>en_ID = gr_ID g,
      en_Subject = \<lparr>sr_Type = gr_SubjectType g, sr_ID = gr_SubjectID g, sr_Relation = gr_SubjectRelation g\<rparr>,
      en_Resource = \<lparr>rr_Type = gr_ResourceType g, rr_ID = gr_ResourceID g\<rparr>, en_RoleKey = gr_RoleKey g,
      en_Permissions = perms, en_SourceType = SourceDirectGrant,
      en_SourceSubject = \<lparr>sr_Type = gr_SubjectType g, sr_ID = gr_SubjectID g, sr_Relation = []\<rparr>,
      en_SourceResource = no_resource, en_GrantID = gr_ID g, en_RevocableHere = True,
      en_ExpiresAt = gr_ExpiresAt g, en_ConsistencyToken = gr_ID g\<rparr>"

text \<open>An inherited entitlement of a grant: not revocable here, without a token.\<close>

definition inherited_entitlement ::
    "string \<Rightarrow> GrantSubject \<Rightarrow> ResourceRef \<Rightarrow> string \<Rightarrow> GrantSubject \<Rightarrow> ResourceRef \<Rightarrow> GrantModel \<Rightarrow> string list \<Rightarrow> Entitlement" where
  "inherited_entitlement ident subject res source sourceSubject sourceResource g perms =
     \<lparr>en_ID = ident, en_Subject = subject, en_Resource = res, en_RoleKey = gr_RoleKey g,
      en_Permissions = perms, en_SourceType = source, en_SourceSubject = sourceSubject,
      en_SourceResource = sourceResource, en_GrantID = gr_ID g, en_RevocableHere = False,
      en_ExpiresAt = gr_ExpiresAt g, en_ConsistencyToken = []\<rparr>"

definition plain_subject :: "GrantSubject \<Rightarrow> GrantSubject" where
  "plain_subject s = s\<lparr>sr_Relation := []\<rparr>"

subsection \<open>Parents\<close>

definition parent_filter :: "ResourceRef \<Rightarrow> RelationshipFilter" where
  "parent_filter res = empty_filter\<lparr>f_ResourceType := rr_Type res, f_ResourceID := rr_ID res, f_Relation := ''parent''\<rparr>"

definition parent_ref :: "Relationship \<Rightarrow> ResourceRef" where
  "parent_ref p = \<lparr>rr_Type = su_Type (rel_Subject p), rr_ID = su_ID (rel_Subject p)\<rparr>"

definition parent_entitlement ::
    "ListSubjectEntitlementsRequest \<Rightarrow> ResourceRef \<Rightarrow> ResourceRef \<Rightarrow> GrantModel \<Rightarrow> string list \<Rightarrow> Entitlement" where
  "parent_entitlement req res parent g =
     inherited_entitlement (inheritedID ''parent'' (gr_ID g) (sr_ID (ls_Subject req))) (plain_subject (ls_Subject req))
       res SourceParentInheritance no_subject parent g"

primrec traceParentInheritance ::
    "nat \<Rightarrow> 'g AccessService \<Rightarrow> ListSubjectEntitlementsRequest \<Rightarrow> ResourceRef \<Rightarrow> Entitlement list
     \<Rightarrow> ('g, Entitlement list option) op" where
  "traceParentInheritance 0 s req res result = ret None"
| "traceParentInheritance (Suc fuel) s req res result =
     (case as_store s of
        None \<Rightarrow> ret (Some result)
      | Some st \<Rightarrow>
          bind_io (on_graph (st_read st (parent_filter res))) (\<lambda>r.
          case r of
            Inl _ \<Rightarrow> ret (Some result)
          | Inr parents \<Rightarrow>
              fold_io (\<lambda>p acc.
                case acc of
                  None \<Rightarrow> ret None
                | Some result \<Rightarrow>
                    bind_io (ListGrants ((active_options (ls_OrgID req))\<lparr>
                        lo_ResourceType := rr_Type (parent_ref p), lo_ResourceID := rr_ID (parent_ref p),
                        lo_SubjectType := sr_Type (ls_Subject req), lo_SubjectID := sr_ID (ls_Subject req)\<rparr>)) (\<lambda>r.
                    case r of
                      Inl _ \<Rightarrow> ret (Some result)
                    | Inr pg \<Rightarrow>
                        bind_io (add_grants (parent_entitlement req res (parent_ref p)) (pg_Items pg) result) (\<lambda>result.
                        traceParentInheritance fuel s req (parent_ref p) result)))
                parents (Some result)))"

subsection \<open>ListSubjectEntitlements\<close>

text \<open>
  The five sources of entitlements, each appended to the list so far.  A failed read of
  relationships skips its source, a failed listing of grants skips its relation.
\<close>

definition group_filter :: "GrantSubject \<Rightarrow> RelationshipFilter" where
  "group_filter sub = empty_filter\<lparr>f_ResourceType := ''group'', f_Relation := ''member'',
     f_SubjectType := sr_Type sub, f_SubjectID := sr_ID sub\<rparr>"

definition group_entitlement :: "ListSubjectEntitlementsRequest \<Rightarrow> string \<Rightarrow> GrantModel \<Rightarrow> string list \<Rightarrow> Entitlement" where
  "group_entitlement req groupID g =
     inherited_entitlement (inheritedID ''group'' (gr_ID g) (sr_ID (ls_Subject req))) (plain_subject (ls_Subject req))
       \<lparr>rr_Type = gr_ResourceType g, rr_ID = gr_ResourceID g\<rparr> SourceGroupGrant
       \<lparr>sr_Type = ''group'', sr_ID = groupID, sr_Relation = []\<rparr> no_resource g"

definition group_source ::
    "'g store \<Rightarrow> ListSubjectEntitlementsRequest \<Rightarrow> Entitlement list \<Rightarrow> ('g, Entitlement list) op" where
  "group_source st req result =
     bind_io (on_graph (st_read st (group_filter (ls_Subject req)))) (\<lambda>r.
     case r of
       Inl _ \<Rightarrow> ret result
     | Inr groups \<Rightarrow>
         fold_io (\<lambda>g result.
           bind_io (ListGrants ((active_options (ls_OrgID req))\<lparr>
               lo_SubjectType := ''group'', lo_SubjectID := ob_ID (rel_Resource g)\<rparr>)) (\<lambda>r.
           case r of
             Inl _ \<Rightarrow> ret result
           | Inr gs \<Rightarrow> add_grants (group_entitlement req (ob_ID (rel_Resource g))) (pg_Items gs) result)) groups result)"

definition resource_key :: "Entitlement \<Rightarrow> string" where
  "resource_key e = rr_Type (en_Resource e) @ '':'' @ rr_ID (en_Resource e)"

text \<open>The loop over the entitlements found so far; those it appends are not visited.\<close>

primrec parent_source ::
    "nat \<Rightarrow> 'g AccessService \<Rightarrow> ListSubjectEntitlementsRequest \<Rightarrow> Entitlement list \<Rightarrow> string list \<Rightarrow> Entitlement list
     \<Rightarrow> ('g, Entitlement list option) op" where
  "parent_source fuel s req [] seen result = ret (Some result)"
| "parent_source fuel s req (e # es) seen result =
     (if resource_key e \<in> set seen then parent_source fuel s req es seen result
      else bind_io (traceParentInheritance fuel s req (en_Resource e) result) (\<lambda>r.
        case r of
          None \<Rightarrow> ret None
        | Some result \<Rightarrow> parent_source fuel s req es (resource_key e # seen) result))"

definition container_filter :: "string \<Rightarrow> GrantSubject \<Rightarrow> RelationshipFilter" where
  "container_filter container sub = empty_filter\<lparr>f_ResourceType := container,
     f_SubjectType := sr_Type sub, f_SubjectID := sr_ID sub\<rparr>"

text \<open>An entitlement inherited from a zone or the platform.\<close>

definition container_entitlement ::
    "string \<Rightarrow> string \<Rightarrow> ListSubjectEntitlementsRequest \<Rightarrow> string \<Rightarrow> GrantModel \<Rightarrow> string list \<Rightarrow> Entitlement" where
  "container_entitlement container source req containerID g =
     inherited_entitlement (inheritedID container (gr_ID g) (sr_ID (ls_Subject req))) (plain_subject (ls_Subject req))
       \<lparr>rr_Type = container, rr_ID = containerID\<rparr> source no_subject \<lparr>rr_Type = container, rr_ID = containerID\<rparr> g"

definition zone_source ::
    "'g store \<Rightarrow> ListSubjectEntitlementsRequest \<Rightarrow> Entitlement list \<Rightarrow> ('g, Entitlement list) op" where
  "zone_source st req result =
     bind_io (on_graph (st_read st (container_filter ''zone'' (ls_Subject req)))) (\<lambda>r.
     case r of
       Inl _ \<Rightarrow> ret result
     | Inr zoneRels \<Rightarrow>
         fold_io (\<lambda>zr result.
           if rel_Relation zr \<noteq> ''owner'' \<and> rel_Relation zr \<noteq> ''admin'' then ret result
           else bind_io (ListGrants ((active_options (ls_OrgID req))\<lparr>
               lo_ResourceType := ''zone'', lo_ResourceID := ob_ID (rel_Resource zr)\<rparr>)) (\<lambda>r.
           case r of
             Inl _ \<Rightarrow> ret result
           | Inr gs \<Rightarrow>
               add_grants (container_entitlement ''zone'' SourceOrgInheritance req (ob_ID (rel_Resource zr)))
                 (pg_Items gs) result)) zoneRels result)"

definition platform_source ::
    "'g store \<Rightarrow> ListSubjectEntitlementsRequest \<Rightarrow> Entitlement list \<Rightarrow> ('g, Entitlement list) op" where
  "platform_source st req result =
     bind_io (on_graph (st_read st (container_filter ''platform'' (ls_Subject req)))) (\<lambda>r.
     case r of
       Inl _ \<Rightarrow> ret result
     | Inr platformRels \<Rightarrow>
         fold_io (\<lambda>pr result.
           bind_io (ListGrants ((active_options [])\<lparr>
               lo_ResourceType := ''platform'', lo_ResourceID := ob_ID (rel_Resource pr)\<rparr>)) (\<lambda>r.
           case r of
             Inl _ \<Rightarrow> ret result
           | Inr gs \<Rightarrow>
               add_grants (container_entitlement ''platform'' SourcePlatformInheritance req (ob_ID (rel_Resource pr)))
                 (pg_Items gs) result)) platformRels result)"

text \<open>The slice \<open>result[start:end]\<close> of a page, with the token of the next one.\<close>

definition entitlement_slice :: "Entitlement list \<Rightarrow> int \<Rightarrow> int \<Rightarrow> string \<Rightarrow> err + EntitlementsReply" where
  "entitlement_slice result start stop next_token =
     (if start < 0 \<or> stop < start then Inl (ErrPanic ''slice bounds out of range'')
      else Inr \<lparr>lr_Entitlements = take (nat (stop - start)) (drop (nat start) result),
                lr_NextPageToken = next_token, lr_TotalSize = int (length result)\<rparr>)"

definition page_size :: "int \<Rightarrow> int" where "page_size n = (if n \<le> 0 then 20 else n)"

definition page_start :: "string \<Rightarrow> int" where
  "page_start token = (if token \<noteq> [] then pageFromToken token else 0)"

definition subject_page :: "Entitlement list \<Rightarrow> int \<Rightarrow> string \<Rightarrow> err + EntitlementsReply" where
  "subject_page result psize token =
     (let len = int (length result);
          start = page_start token;
          stop = wrap64 (start + page_size psize);
          stop = (if stop > len then len else stop);
          next_token = (if stop < len then pageToken stop else []);
          start = (if start > len then len else start);
          start = (if start > stop then stop else start)
      in entitlement_slice result start stop next_token)"

definition ListSubjectEntitlements ::
    "nat \<Rightarrow> 'g AccessService \<Rightarrow> ListSubjectEntitlementsRequest \<Rightarrow> ('g, (err + EntitlementsReply) option) op" where
  "ListSubjectEntitlements fuel s req =
     bind_io (ListGrants ((active_options (ls_OrgID req))\<lparr>
         lo_SubjectType := sr_Type (ls_Subject req), lo_SubjectID := sr_ID (ls_Subject req)\<rparr>)) (\<lambda>r.
     case r of
       Inl er \<Rightarrow> ret (Some (Inl (wrap_err ''list direct grants'' er)))
     | Inr directGrants \<Rightarrow>
         bind_io (add_grants direct_entitlement (pg_Items directGrants) []) (\<lambda>result.
         bind_io (case as_store s of
             None \<Rightarrow> ret (Some result)
           | Some st \<Rightarrow>
               bind_io (group_source st req result) (\<lambda>result.
               bind_io (parent_source fuel s req result [] result) (\<lambda>r.
               case r of
                 None \<Rightarrow> ret None
               | Some result \<Rightarrow>
                   bind_io (zone_source st req result) (\<lambda>result.
                   bind_io (platform_source st req result) (\<lambda>result. ret (Some result)))))) (\<lambda>r.
         ret (case r of
           None \<Rightarrow> None
         | Some result \<Rightarrow>
             Some (let result = (if ls_ResourceType req \<noteq> []
                                 then filter (\<lambda>e. rr_Type (en_Resource e) = ls_ResourceType req) result else result)
                   in subject_page (dedupEntitlements result) (ls_PageSize req) (ls_PageToken req))))))"

subsection \<open>ListResourceAccess\<close>

definition other_subject_type :: "ListResourceAccessRequest \<Rightarrow> GrantModel \<Rightarrow> bool" where
  "other_subject_type req g \<longleftrightarrow> la_SubjectType req \<noteq> [] \<and> gr_SubjectType g \<noteq> la_SubjectType req"

definition resource_options :: "string \<Rightarrow> ResourceRef \<Rightarrow> ListOptions" where
  "resource_options orgID res = (active_options orgID)\<lparr>lo_ResourceType := rr_Type res, lo_ResourceID := rr_ID res\<rparr>"

definition members_filter :: "string \<Rightarrow> RelationshipFilter" where
  "members_filter groupID =
     empty_filter\<lparr>f_ResourceType := ''group'', f_ResourceID := groupID, f_Relation := ''member''\<rparr>"

definition member_entitlement :: "SubjectRef \<Rightarrow> GrantModel \<Rightarrow> string list \<Rightarrow> Entitlement" where
  "member_entitlement m g =
     inherited_entitlement (inheritedID ''group_ent'' (gr_ID g) (su_ID m))
       \<lparr>sr_Type = su_Type m, sr_ID = su_ID m, sr_Relation = []\<rparr>
       \<lparr>rr_Type = gr_ResourceType g, rr_ID = gr_ResourceID g\<rparr> SourceGroupGrant
       \<lparr>sr_Type = ''group'', sr_ID = gr_SubjectID g, sr_Relation = []\<rparr> no_resource g"

definition access_parent_entitlement ::
    "ResourceRef \<Rightarrow> ResourceRef \<Rightarrow> GrantModel \<Rightarrow> string list \<Rightarrow> Entitlement" where
  "access_parent_entitlement res parent g =
     inherited_entitlement (inheritedID ''parent'' (gr_ID g) (rr_ID res))
       \<lparr>sr_Type = gr_SubjectType g, sr_ID = gr_SubjectID g, sr_Relation = gr_SubjectRelation g\<rparr>
       res SourceParentInheritance no_subject parent g"

definition member_source ::
    "'g store \<Rightarrow> ListResourceAccessRequest \<Rightarrow> Entitlement list \<Rightarrow> ('g, Entitlement list) op" where
  "member_source st req result =
     bind_io (ListGrants ((resource_options (la_OrgID req) (la_Resource req))\<lparr>lo_SubjectType := ''group''\<rparr>)) (\<lambda>r.
     case r of
       Inl _ \<Rightarrow> ret result
     | Inr gs \<Rightarrow>
         fold_io (\<lambda>gg result.
           if la_SubjectType req \<noteq> [] \<and> la_SubjectType req \<noteq> ''user'' then ret result
           else bind_io (on_graph (st_read st (members_filter (gr_SubjectID gg)))) (\<lambda>r.
           case r of
             Inl _ \<Rightarrow> ret result
           | Inr members \<Rightarrow>
               fold_io (\<lambda>m result.
                 bind_io (getPermissions (gr_RoleTemplateID gg) (gr_ResourceType gg) (gr_RoleKey gg)) (\<lambda>perms.
                 ret (result @ [member_entitlement (rel_Subject m) gg perms]))) members result))
           (pg_Items gs) result)"

definition access_parent_source ::
    "'g store \<Rightarrow> ListResourceAccessRequest \<Rightarrow> Entitlement list \<Rightarrow> ('g, Entitlement list) op" where
  "access_parent_source st req result =
     bind_io (on_graph (st_read st (parent_filter (la_Resource req)))) (\<lambda>r.
     case r of
       Inl _ \<Rightarrow> ret result
     | Inr parents \<Rightarrow>
         fold_io (\<lambda>p result.
           bind_io (ListGrants (resource_options (la_OrgID req) (parent_ref p))) (\<lambda>r.
           case r of
             Inl _ \<Rightarrow> ret result
           | Inr gs \<Rightarrow>
               add_grants (access_parent_entitlement (la_Resource req) (parent_ref p))
                 (filter (\<lambda>g. \<not> other_subject_type req g) (pg_Items gs)) result)) parents result)"

text \<open>Unlike \<open>subject_page\<close>, this one does not move the start back to the end.\<close>

definition access_page :: "Entitlement list \<Rightarrow> int \<Rightarrow> string \<Rightarrow> err + EntitlementsReply" where
  "access_page result psize token =
     (let len = int (length result);
          start = page_start token;
          stop = wrap64 (start + page_size psize);
          stop = (if stop > len then len else stop);
          next_token = (if stop < len then pageToken stop else []);
          start = (if start > len then len else start);
          stop = (if stop > len then len else stop)
      in entitlement_slice result start stop next_token)"

definition ListResourceAccess ::
    "'g AccessService \<Rightarrow> ListResourceAccessRequest \<Rightarrow> ('g, EntitlementsReply) opE" where
  "ListResourceAccess s req =
     bind_io (ListGrants (resource_options (la_OrgID req) (la_Resource req))) (\<lambda>r.
     case r of
       Inl er \<Rightarrow> failE (wrap_err ''list direct grants'' er)
     | Inr directGrants \<Rightarrow>
         bind_io (add_grants direct_entitlement
             (filter (\<lambda>g. \<not> other_subject_type req g) (pg_Items directGrants)) []) (\<lambda>result.
         bind_io (case as_store s of
             None \<Rightarrow> ret result
           | Some st \<Rightarrow>
               bind_io (member_source st req result) (access_parent_source st req)) (\<lambda>result.
         liftE (access_page (dedupEntitlements result) (la_PageSize req) (la_PageToken req)))))"

subsection \<open>PreviewGrant\<close>

definition PreviewGrant ::
    "'g AccessService \<Rightarrow> PreviewGrantRequest \<Rightarrow> ('g, PreviewGrantReply) opE" where
  "PreviewGrant s req =
     bind_io (ListRoleTemplates (rr_Type (pq_Resource req))) (\<lambda>r.
     case r of
       Inl er \<Rightarrow> failE (wrap_err ''list role templates'' er)
     | Inr roleTemplates \<Rightarrow>
         (case find (\<lambda>t. ro_RoleKey t = pq_RoleKey req) roleTemplates of
            None \<Rightarrow> failE (ErrNew (''role template not found: '' @ rr_Type (pq_Resource req) @ ''/'' @ pq_RoleKey req))
          | Some role \<Rightarrow>
              bind_io (ListGrants (no_options\<lparr>lo_OrgID := pq_OrgID req,
                  lo_ResourceType := rr_Type (pq_Resource req), lo_ResourceID := rr_ID (pq_Resource req),
                  lo_SubjectType := sr_Type (pq_Subject req), lo_SubjectID := sr_ID (pq_Subject req),
                  lo_RoleKey := pq_RoleKey req, lo_Active := Some True, lo_Size := 1\<rparr>)) (\<lambda>r.
              case r of
                Inl er \<Rightarrow> failE (wrap_err ''check existing grants'' er)
              | Inr existing \<Rightarrow>
                  okE \<lparr>pv_Permissions = ro_Permissions role, pv_AlreadyGranted = pg_Items existing \<noteq> [],
                       pv_ExistingGrantID = (case pg_Items existing of [] \<Rightarrow> [] | g # _ \<Rightarrow> gr_ID g),
                       pv_ConsistencyToken = ro_ID role\<rparr>)))"

end
