(* ===== verification/AccessLaws.thy ===== *)
theory AccessLaws
  imports AccessQuery
begin

text \<open>
  What the access queries return.

  \<^item> \<open>gives I m Q\<close>: the operation keeps the invariant \<open>I\<close> of the world and its result
    satisfies \<open>Q\<close>; the collection \<open>gives_rules\<close> composes it along the code.
  \<^item> The recursion over parents returns exactly when no cycle of parent edges is reachable.
  \<^item> Deduplication is compared with a reference definition, and the tokens of the pages form a
    round trip.
\<close>

named_theorems gives_rules \<open>composition rules for \<open>gives\<close>\<close>

subsection \<open>Operations that keep the world and return what they promise\<close>

definition gives :: "('w \<Rightarrow> bool) \<Rightarrow> ('e, 'w, 'a) io \<Rightarrow> ('a \<Rightarrow> bool) \<Rightarrow> bool" where
  "gives I m Q \<longleftrightarrow> (\<forall>e w x w'. I w \<longrightarrow> m e w = (x, w') \<longrightarrow> I w' \<and> Q x)"

lemma givesD: "gives I m Q \<Longrightarrow> I w \<Longrightarrow> m e w = (x, w') \<Longrightarrow> I w' \<and> Q x"
  unfolding gives_def by blast

lemma gives_ret [gives_rules]: "Q x \<Longrightarrow> gives I (ret x) Q"
  by (simp add: gives_def)

lemma gives_bind: "gives I m P \<Longrightarrow> (\<And>x. P x \<Longrightarrow> gives I (f x) Q) \<Longrightarrow> gives I (bind_io m f) Q"
  unfolding gives_def bind_io_iff by meson

lemma gives_weaken: "gives I m P \<Longrightarrow> (\<And>x. P x \<Longrightarrow> Q x) \<Longrightarrow> gives I m Q"
  unfolding gives_def by blast

lemma gives_conj: "gives I m P \<Longrightarrow> gives I m Q \<Longrightarrow> gives I m (\<lambda>x. P x \<and> Q x)"
  unfolding gives_def by blast

lemma gives_fold:
  assumes "\<And>done x todo b. xs = done @ x # todo \<Longrightarrow> Q done b \<Longrightarrow> gives I (f x b) (Q (done @ [x]))" and "Q [] b"
  shows "gives I (fold_io f xs b) (Q xs)"
proof -
  have "gives I (fold_io f todo b) (Q xs)" if "xs = pre @ todo" "Q pre b" for pre todo b
    using that
  proof (induction todo arbitrary: pre b)
    case (Cons x todo)
    have "gives I (f x b) (Q (pre @ [x]))" using assms(1) Cons.prems by blast
    moreover have "gives I (fold_io f todo b') (Q xs)" if "Q (pre @ [x]) b'" for b'
      using Cons.IH[of "pre @ [x]" b'] Cons.prems that by simp
    ultimately show ?case by (simp add: gives_bind)
  qed (simp add: gives_rules)
  from this[of "[]" xs b] assms(2) show ?thesis by simp
qed

lemma gives_fold_each:
  assumes "\<And>x b. x \<in> set xs \<Longrightarrow> Q b \<Longrightarrow> gives I (f x b) Q" and "Q b"
  shows "gives I (fold_io f xs b) Q"
  by (rule gives_fold[where Q = "\<lambda>_. Q"]) (auto intro: assms)

text \<open>The invariant of the queries: fixed tables and fixed tuples.\<close>

definition at_rest :: "('g \<Rightarrow> tuple set) \<Rightarrow> MemoryRepo \<Rightarrow> tuple set \<Rightarrow> 'g world \<Rightarrow> bool" where
  "at_rest T d Ts w \<longleftrightarrow> db w = d \<and> T (graph w) = Ts"

lemma gives_readings: "steps unchanged m \<Longrightarrow> gives (at_rest T d Ts) m (\<lambda>_. True)"
  by (auto simp: gives_def at_rest_def dest: unchangedD)

lemma range_at_rest: "gives (at_rest T d Ts) (range_io tab) (\<lambda>vs. mset vs = mset (map snd (tab d)))"
  by (auto simp: gives_def at_rest_def)

definition stored_grants :: "MemoryRepo \<Rightarrow> GrantModel set" where
  "stored_grants d = set (map snd (grants d))"

text \<open>The pages that the queries ask for are first pages: they never panic.\<close>

lemma if_Inr: "(if c then Inl x else Inr y) = Inr z \<Longrightarrow> z = y"
  by (simp split: if_splits)

lemma first_page: "pageOf xs 0 n = Inr pg \<Longrightarrow> set (pg_Items pg) \<subseteq> set xs"
  unfolding pageOf_def Let_def
  by (drule if_Inr, simp only: Page.select_convs) (meson order_trans set_drop_subset set_take_subset)

lemma first_page_ok: "\<exists>pg. pageOf xs 0 n = Inr pg"
proof -
  define s0 where "s0 = (if n \<le> 0 then (if int (length xs) = 0 then 100 else int (length xs)) else n)"
  define s where "s = (if s0 > 100 then 100 else s0)"
  have s: "0 < s" "s \<le> 100" by (auto simp: s_def s0_def)
  then have w: "wrap64 (0 + s) = s" by (simp add: wrap64_ge max_int64_def)
  have w0: "wrap64 ((1 - 1) * s) = 0" by (simp add: wrap64_def)
  have p: "(if (0::int) \<le> 0 then 1 else 0) = (1::int)" "\<not> 0 > int (length xs)" by simp_all
  show ?thesis unfolding pageOf_def Let_def p(1) s0_def[symmetric] s_def[symmetric] w0
    unfolding if_not_P[OF p(2)] w using s by simp
qed

lemma first_page_all:
  assumes n: "length xs \<le> 100" and pg: "pageOf xs 0 1000 = Inr pg" shows "pg_Items pg = xs"
proof -
  have "pageOf xs 0 1000 = pageOf xs 1 100" by (simp add: pageOf_def cong: if_cong)
  moreover have "int (length xs) \<le> max_int64" using n by (simp add: max_int64_def)
  ultimately show ?thesis using pg pageOf_run[of 100 1 xs] n by (auto simp: max_int64_def)
qed

lemma ListGrants_at_rest:
  assumes "lo_Page opts = 0"
  shows "gives (at_rest T d Ts) (ListGrants opts)
    (\<lambda>r. \<exists>pg. r = Inr pg \<and> set (pg_Items pg) \<subseteq> {g \<in> stored_grants d. grant_listed opts g}
       \<and> (length (grants d) \<le> 100 \<longrightarrow> lo_Size opts = 1000 \<longrightarrow> set (pg_Items pg) = {g \<in> stored_grants d. grant_listed opts g}))"
  unfolding ListGrants_def
proof (rule gives_bind[OF range_at_rest], rule gives_ret)
  fix vs assume vs: "mset vs = mset (map snd (grants d))"
  let ?xs = "filter (grant_listed opts) vs"
  obtain pg where pg: "pageOf ?xs 0 (lo_Size opts) = Inr pg" using first_page_ok by blast
  have set: "set ?xs = {g \<in> stored_grants d. grant_listed opts g}"
    using mset_eq_setD[OF vs] by (auto simp: stored_grants_def)
  have len: "length ?xs \<le> length (grants d)"
    using vs by (metis length_filter_le length_map mset_eq_length)
  show "\<exists>pg. pageOf ?xs (lo_Page opts) (lo_Size opts) = Inr pg \<and> set (pg_Items pg) \<subseteq> {g \<in> stored_grants d. grant_listed opts g}
      \<and> (length (grants d) \<le> 100 \<longrightarrow> lo_Size opts = 1000 \<longrightarrow> set (pg_Items pg) = {g \<in> stored_grants d. grant_listed opts g})"
  proof (intro exI conjI impI)
    show "pageOf ?xs (lo_Page opts) (lo_Size opts) = Inr pg" using pg assms by simp
    show "set (pg_Items pg) \<subseteq> {g \<in> stored_grants d. grant_listed opts g}" using first_page[OF pg] set by blast
    show "set (pg_Items pg) = {g \<in> stored_grants d. grant_listed opts g}"
      if "length (grants d) \<le> 100" "lo_Size opts = 1000"
      using first_page_all[of ?xs pg] pg that len set by simp
  qed
qed

lemma read_at_rest:
  assumes "store_reads S T"
  shows "gives (at_rest T d Ts) (on_graph (st_read S f))
    (\<lambda>r. \<forall>rels. r = Inr rels \<longrightarrow> {t \<in> Ts. narrow f t} \<subseteq> rel_key ` set rels \<and> rel_key ` set rels \<subseteq> {t \<in> Ts. wide f t})"
  using assms unfolding gives_def at_rest_def store_reads_def on_graph_iff by fastforce

subsection \<open>The recursion over parents\<close>

text \<open>The edges a trace follows: from a resource to the subject of a parent tuple it reads.\<close>

definition subject_ref :: "tuple \<Rightarrow> ResourceRef" where
  "subject_ref t = (case t of (_, _, su) \<Rightarrow> \<lparr>rr_Type = su_Type su, rr_ID = su_ID su\<rparr>)"

definition inherits_from :: "tuple set \<Rightarrow> (ResourceRef \<times> ResourceRef) set" where
  "inherits_from Ts = {(res, p). \<exists>t \<in> Ts. wide (parent_filter res) t \<and> p = subject_ref t}"

definition cycle_above :: "tuple set \<Rightarrow> ResourceRef \<Rightarrow> bool" where
  "cycle_above Ts res \<longleftrightarrow> (\<exists>x. (res, x) \<in> (inherits_from Ts)\<^sup>* \<and> (x, x) \<in> (inherits_from Ts)\<^sup>+)"

definition reads_succeed :: "'g store \<Rightarrow> bool" where
  "reads_succeed S \<longleftrightarrow> (\<forall>f g. \<exists>rels. fst (st_read S f g) = Inr rels)"

lemma finite_parents: "finite Ts \<Longrightarrow> finite {p. (res, p) \<in> inherits_from Ts}"
  by (rule finite_subset[of _ "subject_ref ` Ts"]) (auto simp: inherits_from_def)

lemma narrow_parent_filter: "narrow (parent_filter res) t = wide (parent_filter res) t"
  by (auto simp: narrow_def wide_def parent_filter_def empty_filter_def field_matches_def split: prod.splits)

lemma parent_ref_key: "parent_ref p = subject_ref (rel_key p)"
  by (simp add: parent_ref_def subject_ref_def rel_key_def)

lemma read_parents:
  assumes "store_reads S T"
  shows "gives (at_rest T d Ts) (on_graph (st_read S (parent_filter res)))
    (\<lambda>r. \<forall>rels. r = Inr rels \<longrightarrow> parent_ref ` set rels = {p. (res, p) \<in> inherits_from Ts})"
proof (rule gives_weaken[OF read_at_rest[OF assms]], intro allI impI)
  fix r :: "err + Relationship list" and rels
  assume "\<forall>rels. r = Inr rels \<longrightarrow> {t \<in> Ts. narrow (parent_filter res) t} \<subseteq> rel_key ` set rels
      \<and> rel_key ` set rels \<subseteq> {t \<in> Ts. wide (parent_filter res) t}" and "r = Inr rels"
  then have "rel_key ` set rels = {t \<in> Ts. wide (parent_filter res) t}" by (auto simp: narrow_parent_filter)
  then have "subject_ref ` rel_key ` set rels = {p. (res, p) \<in> inherits_from Ts}"
    by (auto simp: inherits_from_def)
  then show "parent_ref ` set rels = {p. (res, p) \<in> inherits_from Ts}"
    by (simp add: image_image parent_ref_key)
qed

lemma read_ok: "reads_succeed S \<Longrightarrow> gives I (on_graph (st_read S f)) Q
    \<Longrightarrow> gives I (on_graph (st_read S f)) (\<lambda>r. Q r \<and> (\<exists>rels. r = Inr rels))"
  unfolding gives_def on_graph_iff reads_succeed_def by (metis fst_conv)

text \<open>What the body does for one parent, as a step of the loop over the parents.\<close>

definition trace_step ::
    "(ResourceRef \<Rightarrow> Entitlement list \<Rightarrow> ('g, Entitlement list option) op) \<Rightarrow> ListSubjectEntitlementsRequest \<Rightarrow> ResourceRef
     \<Rightarrow> Relationship \<Rightarrow> Entitlement list option \<Rightarrow> ('g, Entitlement list option) op" where
  "trace_step up req res p acc =
     (case acc of
        None \<Rightarrow> ret None
      | Some result \<Rightarrow>
          bind_io (ListGrants ((active_options (ls_OrgID req))\<lparr>
              lo_ResourceType := rr_Type (parent_ref p), lo_ResourceID := rr_ID (parent_ref p),
              lo_SubjectType := sr_Type (ls_Subject req), lo_SubjectID := sr_ID (ls_Subject req)\<rparr>)) (\<lambda>r.
          case r of
            Inl _ \<Rightarrow> ret (Some result)
          | Inr pg \<Rightarrow>
              bind_io (add_grants (parent_entitlement req res (parent_ref p)) (pg_Items pg) result) (\<lambda>result.
              up (parent_ref p) result)))"

lemma trace_Suc:
  assumes "as_store s = Some st"
  shows "traceParentInheritance (Suc n) s req res result =
     bind_io (on_graph (st_read st (parent_filter res))) (\<lambda>r. case r of Inl _ \<Rightarrow> ret (Some result)
       | Inr parents \<Rightarrow> fold_io (trace_step (traceParentInheritance n s req) req res) parents (Some result))"
  unfolding trace_step_def[abs_def] by (simp add: assms)

declare traceParentInheritance.simps(2) [simp del]

lemma steps_getPermissions [steps_rules]: "db_frame R \<Longrightarrow> steps R (getPermissions a b c)"
  unfolding getPermissions_def by (intro steps_rules db_frame_frame | assumption)+

lemma steps_add_grants [steps_rules]: "db_frame R \<Longrightarrow> steps R (add_grants f gs result)"
  unfolding add_grants_def by (intro steps_rules db_frame_frame | assumption)+

lemma trace_step_gives:
  assumes "\<And>result. gives (at_rest T d Ts) (up (parent_ref p) result) Q" and "acc = None \<Longrightarrow> Q None"
  shows "gives (at_rest T d Ts) (trace_step up req res p acc) Q"
proof (cases acc)
  case None
  then show ?thesis using assms(2) by (simp add: trace_step_def gives_rules)
next
  case (Some result)
  let ?opts = "(active_options (ls_OrgID req))\<lparr>
              lo_ResourceType := rr_Type (parent_ref p), lo_ResourceID := rr_ID (parent_ref p),
              lo_SubjectType := sr_Type (ls_Subject req), lo_SubjectID := sr_ID (ls_Subject req)\<rparr>"
  have p: "lo_Page ?opts = 0" by (simp add: active_options_def no_options_def)
  have "gives (at_rest T d Ts) (add_grants f gs result) (\<lambda>_. True)" for f gs
    by (intro gives_readings steps_rules)
  then show ?thesis unfolding trace_step_def Some option.case
    by (intro gives_bind[OF ListGrants_at_rest[OF p]]) (auto intro!: gives_bind assms)
qed

lemma trace_enough:
  assumes S: "as_store s = Some S" "store_reads S T"
    and up: "\<And>p result. (res, p) \<in> inherits_from Ts
      \<Longrightarrow> gives (at_rest T d Ts) (traceParentInheritance n s req p result) (\<lambda>r. r \<noteq> None)"
  shows "gives (at_rest T d Ts) (traceParentInheritance (Suc n) s req res result) (\<lambda>r. r \<noteq> None)"
  unfolding trace_Suc[OF S(1)]
proof (rule gives_bind[OF read_parents[OF S(2)]])
  fix r :: "err + Relationship list"
  assume r: "\<forall>rels. r = Inr rels \<longrightarrow> parent_ref ` set rels = {p. (res, p) \<in> inherits_from Ts}"
  show "gives (at_rest T d Ts) (case r of Inl _ \<Rightarrow> ret (Some result)
      | Inr parents \<Rightarrow> fold_io (trace_step (traceParentInheritance n s req) req res) parents (Some result)) (\<lambda>r. r \<noteq> None)"
  proof (cases r)
    case (Inr parents)
    have "gives (at_rest T d Ts) (trace_step (traceParentInheritance n s req) req res p acc) (\<lambda>r. r \<noteq> None)"
      if "p \<in> set parents" "acc \<noteq> None" for p acc
      using r that Inr by (intro trace_step_gives up) auto
    then show ?thesis using Inr by (auto intro!: gives_fold_each)
  qed (simp add: gives_rules)
qed

lemma trace_keeps:
  assumes S: "as_store s = Some S" "store_reads S T"
  shows "gives (at_rest T d Ts) (traceParentInheritance n s req res result) (\<lambda>_. True)"
proof (induction n arbitrary: res result)
  case (Suc n)
  have "gives (at_rest T d Ts) (trace_step (traceParentInheritance n s req) req res p acc) (\<lambda>_. True)" for p acc
    by (rule trace_step_gives[OF Suc.IH]) simp
  then show ?case unfolding trace_Suc[OF S(1)]
    by (intro gives_bind[OF read_parents[OF S(2)]]) (auto intro!: gives_rules gives_fold_each split: sum.splits)
qed (simp add: gives_rules)

lemma acyclic_returns:
  assumes S: "as_store s = Some S" "store_reads S T" and fin: "finite Ts" and no: "\<not> cycle_above Ts res"
  shows "\<exists>n. \<forall>m \<ge> n. \<forall>result. gives (at_rest T d Ts) (traceParentInheritance m s req res result) (\<lambda>r. r \<noteq> None)"
proof -
  let ?E = "inherits_from Ts"
  let ?R = "{(p, r). (r, p) \<in> ?E \<and> (res, r) \<in> ?E\<^sup>*}"
  let ?X = "insert res (subject_ref ` Ts)"
  have sub: "?R\<inverse> \<subseteq> ?X \<times> ?X"
    by (auto simp: inherits_from_def elim: rtranclE)
  have "finite ?R" using finite_subset[OF sub] fin by simp
  moreover have "acyclic ?R"
  proof (rule ccontr)
    assume "\<not> acyclic ?R"
    then obtain x where x: "(x, x) \<in> ?R\<^sup>+" by (auto simp: acyclic_def)
    have "(x, y) \<in> ?E\<^sup>+ \<and> (res, x) \<in> ?E\<^sup>*" if "(y, x) \<in> ?R\<^sup>+" for x y
      using that by (induction rule: trancl_induct) (auto intro: trancl_into_trancl2)
    from this[OF x] show False using no by (auto simp: cycle_above_def)
  qed
  ultimately have wf: "wf ?R" by (rule finite_acyclic_wf)
  have "(res, r) \<in> ?E\<^sup>* \<Longrightarrow> \<exists>n. \<forall>m \<ge> n. \<forall>result. gives (at_rest T d Ts) (traceParentInheritance m s req r result) (\<lambda>r. r \<noteq> None)" for r
  proof (induction r rule: wf_induct_rule[OF wf])
    case (1 r)
    let ?P = "{p. (r, p) \<in> ?E}"
    let ?ok = "\<lambda>m p. \<forall>result. gives (at_rest T d Ts) (traceParentInheritance m s req p result) (\<lambda>r. r \<noteq> None)"
    have "\<forall>p \<in> ?P. \<exists>n. \<forall>m \<ge> n. ?ok m p"
    proof
      fix p assume "p \<in> ?P"
      with "1.prems" have "(p, r) \<in> ?R" "(res, p) \<in> ?E\<^sup>*" by (simp_all add: rtrancl_into_rtrancl)
      then show "\<exists>n. \<forall>m \<ge> n. ?ok m p" by (rule "1.IH")
    qed
    from bchoice[OF this] obtain k where k: "\<forall>p \<in> ?P. \<forall>m \<ge> k p. ?ok m p" by blast
    obtain N where N: "\<forall>p \<in> ?P. k p \<le> N" using finite_nat_set_iff_bounded_le[of "k ` ?P"] finite_parents[OF fin] by auto
    have "gives (at_rest T d Ts) (traceParentInheritance (Suc m) s req r result) (\<lambda>r. r \<noteq> None)" if "N \<le> m" for m result
    proof (rule trace_enough[OF S])
      fix p result assume "(r, p) \<in> ?E"
      then have "p \<in> ?P" "k p \<le> m" using N that by auto
      with k show "gives (at_rest T d Ts) (traceParentInheritance m s req p result) (\<lambda>r. r \<noteq> None)" by blast
    qed
    then have "gives (at_rest T d Ts) (traceParentInheritance m s req r result) (\<lambda>r. r \<noteq> None)" if "Suc N \<le> m" for m result
      using that by (cases m) auto
    then show ?case by blast
  qed
  then show ?thesis by simp
qed

lemma cycle_above_step:
  assumes "cycle_above Ts res" obtains p where "(res, p) \<in> inherits_from Ts" "cycle_above Ts p"
proof -
  from assms obtain x where x: "(res, x) \<in> (inherits_from Ts)\<^sup>*" "(x, x) \<in> (inherits_from Ts)\<^sup>+"
    by (auto simp: cycle_above_def)
  from x(1) show ?thesis
  proof (cases rule: converse_rtranclE)
    case base
    with x(2) obtain p where "(res, p) \<in> inherits_from Ts" "(p, res) \<in> (inherits_from Ts)\<^sup>*"
      by (auto dest: tranclD)
    with base x(2) show ?thesis by (intro that) (auto simp: cycle_above_def)
  next
    case (step p)
    with x(2) show ?thesis by (intro that) (auto simp: cycle_above_def)
  qed
qed

lemma cycle_never_returns:
  assumes S: "as_store s = Some S" "store_reads S T" "reads_succeed S"
  shows "cycle_above Ts res \<Longrightarrow> gives (at_rest T d Ts) (traceParentInheritance n s req res result) (\<lambda>r. r = None)"
proof (induction n arbitrary: res result)
  case (Suc n)
  from Suc.prems obtain x where x: "(res, x) \<in> inherits_from Ts" "cycle_above Ts x" by (rule cycle_above_step)
  show ?case unfolding trace_Suc[OF S(1)]
  proof (rule gives_bind[OF read_ok[OF S(3) read_parents[OF S(2)]]])
    fix r :: "err + Relationship list"
    assume "(\<forall>rels. r = Inr rels \<longrightarrow> parent_ref ` set rels = {p. (res, p) \<in> inherits_from Ts}) \<and> (\<exists>rels. r = Inr rels)"
    then obtain parents where r: "r = Inr parents" "x \<in> parent_ref ` set parents" using x by blast
    let ?Q = "\<lambda>seen acc. x \<in> parent_ref ` set seen \<longrightarrow> (acc :: Entitlement list option) = None"
    have "gives (at_rest T d Ts) (fold_io (trace_step (traceParentInheritance n s req) req res) parents (Some result)) (?Q parents)"
    proof (rule gives_fold[where Q = ?Q])
      fix seen p todo and acc :: "Entitlement list option"
      assume Q: "?Q seen acc"
      show "gives (at_rest T d Ts) (trace_step (traceParentInheritance n s req) req res p acc) (?Q (seen @ [p]))"
      proof (cases "parent_ref p = x \<or> acc = None")
        case True
        then have "gives (at_rest T d Ts) (trace_step (traceParentInheritance n s req) req res p acc) (\<lambda>r. r = None)"
          using Suc.IH[OF x(2)] by (cases "acc = None")
            (simp add: trace_step_def gives_rules, intro trace_step_gives, auto)
        then show ?thesis by (rule gives_weaken) simp
      next
        case False
        with Q have "x \<notin> parent_ref ` set (seen @ [p])" by auto
        then have all: "?Q (seen @ [p]) r" for r by simp
        show ?thesis by (rule trace_step_gives[OF gives_weaken[OF trace_keeps[OF S(1,2)]]]) (rule all)+
      qed
    qed simp
    then show "gives (at_rest T d Ts) (case r of Inl _ \<Rightarrow> ret (Some result)
      | Inr parents \<Rightarrow> fold_io (trace_step (traceParentInheritance n s req) req res) parents (Some result)) (\<lambda>r. r = None)"
      using r by (auto elim: gives_weaken)
  qed
qed (simp add: gives_rules)

text \<open>More fuel gives the same result: the fuel is an artefact of the model.\<close>

lemma fold_io_stuck: "(\<And>x. f x None = ret None) \<Longrightarrow> fold_io f xs None = ret None"
  by (induction xs) (simp_all add: fun_eq_iff bind_io_def)

lemma fold_io_mono:
  assumes le: "\<And>x acc e w r w'. f x acc e w = (Some r, w') \<Longrightarrow> g x acc e w = (Some r, w')"
    and none: "\<And>x. f x None = ret None"
  shows "fold_io f xs acc e w = (Some r, w') \<Longrightarrow> fold_io g xs acc e w = (Some r, w')"
proof (induction xs arbitrary: acc w)
  case (Cons x xs)
  obtain b w1 where b: "f x acc e w = (b, w1)" by (cases "f x acc e w")
  with Cons.prems have rest: "fold_io f xs b e w1 = (Some r, w')" by (simp add: bind_io_run)
  then obtain b' where b': "b = Some b'" using fold_io_stuck[of f xs] none by (cases b) auto
  have "g x acc e w = (b, w1)" using le b b' by simp
  then show ?case using Cons.IH[OF rest] by (simp add: bind_io_run)
qed simp

lemma trace_step_mono:
  assumes "\<And>r acc e w out w'. up r acc e w = (Some out, w') \<Longrightarrow> up' r acc e w = (Some out, w')"
  shows "trace_step up req res p acc e w = (Some out, w') \<Longrightarrow> trace_step up' req res p acc e w = (Some out, w')"
  by (cases acc) (auto simp: trace_step_def bind_io_def intro: assms split: sum.splits prod.splits)

lemma trace_mono1:
  "traceParentInheritance n s req res acc e w = (Some r, w')
   \<Longrightarrow> traceParentInheritance (Suc n) s req res acc e w = (Some r, w')"
proof (induction n arbitrary: res acc e w r w')
  case (Suc n)
  show ?case
  proof (cases "as_store s")
    case None
    then show ?thesis using Suc.prems by (simp add: traceParentInheritance.simps(2))
  next
    case (Some st)
    have step: "trace_step (traceParentInheritance n s req) req res p acc e w = (Some r, w')
      \<Longrightarrow> trace_step (traceParentInheritance (Suc n) s req) req res p acc e w = (Some r, w')" for p acc e w r w'
      using Suc.IH by (rule trace_step_mono)
    have stuck: "trace_step (traceParentInheritance n s req) req res p None = ret None" for p
      by (simp add: trace_step_def)
    have "fold_io (trace_step (traceParentInheritance n s req) req res) ps acc e w1 = (Some r, w')
      \<Longrightarrow> fold_io (trace_step (traceParentInheritance (Suc n) s req) req res) ps acc e w1 = (Some r, w')" for ps acc w1
      by (rule fold_io_mono[where f = "trace_step (traceParentInheritance n s req) req res"]) (rule step stuck, assumption?)+
    moreover have "bind_io (on_graph (st_read st (parent_filter res))) (\<lambda>r. case r of Inl _ \<Rightarrow> ret (Some acc)
       | Inr parents \<Rightarrow> fold_io (trace_step (traceParentInheritance n s req) req res) parents (Some acc)) e w = (Some r, w')"
      using Suc.prems by (simp only: trace_Suc[OF Some])
    ultimately show ?thesis unfolding trace_Suc[OF Some, of "Suc n"]
      by (auto simp: bind_io_def split: sum.splits prod.splits)
  qed
qed simp

lemma trace_mono:
  "n \<le> m \<Longrightarrow> traceParentInheritance n s req res acc e w = (Some r, w')
   \<Longrightarrow> traceParentInheritance m s req res acc e w = (Some r, w')"
  by (induction m rule: dec_induct) (auto intro: trace_mono1)

text \<open>C17. The recursion over parents returns exactly when it should: on a store whose reads succeed,
  \<open>traceParentInheritance\<close> returns, with some fuel, if and only if no cycle of parent edges can be
  reached from the resource.  More fuel never changes a result, so that for a resource under a cycle the
  code has no result at all.\<close>

theorem trace_returns_iff:
  assumes "as_store s = Some S" "store_reads S T" "reads_succeed S" "finite (T (graph w))"
  shows "((\<exists>n out w'. traceParentInheritance n s req res acc e w = (Some out, w')) \<longleftrightarrow> \<not> cycle_above (T (graph w)) res)
    \<and> (\<forall>n m r. traceParentInheritance n s req res acc e w = r \<longrightarrow> fst r \<noteq> None \<longrightarrow> n \<le> m
         \<longrightarrow> traceParentInheritance m s req res acc e w = r)"
proof (rule conjI)
  have rest: "at_rest T (db w) (T (graph w)) w" by (simp add: at_rest_def)
  show "(\<exists>n out w'. traceParentInheritance n s req res acc e w = (Some out, w')) \<longleftrightarrow> \<not> cycle_above (T (graph w)) res"
  proof
    assume "\<exists>n out w'. traceParentInheritance n s req res acc e w = (Some out, w')"
    then show "\<not> cycle_above (T (graph w)) res"
      using givesD[OF cycle_never_returns[OF assms(1-3)] rest] by blast
  next
    assume "\<not> cycle_above (T (graph w)) res"
    from acyclic_returns[OF assms(1,2,4) this] obtain n where
      "gives (at_rest T (db w) (T (graph w))) (traceParentInheritance n s req res acc) (\<lambda>r. r \<noteq> None)" by blast
    from givesD[OF this rest] show "\<exists>n out w'. traceParentInheritance n s req res acc e w = (Some out, w')"
      by (metis not_None_eq prod.exhaust)
  qed
  show "\<forall>n m r. traceParentInheritance n s req res acc e w = r \<longrightarrow> fst r \<noteq> None \<longrightarrow> n \<le> m
      \<longrightarrow> traceParentInheritance m s req res acc e w = r"
    using trace_mono by (metis not_None_eq prod.collapse)
qed

subsection \<open>Deduplication\<close>

text \<open>The reference: the entries whose identifier occurs at no earlier position.\<close>

definition first_occurrences :: "Entitlement list \<Rightarrow> Entitlement list" where
  "first_occurrences es = map ((!) es) (filter (\<lambda>i. en_ID (es ! i) \<notin> en_ID ` set (take i es)) [0..<length es])"

lemma first_occurrences_snoc:
  "first_occurrences (es @ [x]) = first_occurrences es @ (if en_ID x \<in> en_ID ` set es then [] else [x])"
proof -
  let ?first = "\<lambda>es i. en_ID (es ! i) \<notin> en_ID ` set (take i es)"
  have "filter (?first (es @ [x])) [0..<length es] = filter (?first es) [0..<length es]"
    by (rule filter_cong) (auto simp: nth_append)
  moreover have "map ((!) (es @ [x])) (filter P [0..<length es]) = map ((!) es) (filter P [0..<length es])" for P
    by (rule map_cong) (auto simp: nth_append)
  ultimately show ?thesis by (simp add: first_occurrences_def)
qed

lemma dedup_loop_snoc:
  "dedup_loop (es @ [x]) seen out =
     dedup_loop es seen out @ (if en_ID x \<in> set seen \<union> en_ID ` set es then [] else [x])"
  by (induction es arbitrary: seen out) auto

lemma first_occurrences_Nil [simp]: "first_occurrences [] = []"
  by (simp add: first_occurrences_def)

lemma dedup_eq: "dedupEntitlements es = first_occurrences es"
  unfolding dedupEntitlements_def by (induction es rule: rev_induct) (simp_all add: dedup_loop_snoc first_occurrences_snoc)

lemma first_occurrences_ids: "en_ID ` set (first_occurrences es) = en_ID ` set es"
  by (induction es rule: rev_induct) (auto simp: first_occurrences_snoc)

lemma first_occurrences_distinct: "distinct (map en_ID (first_occurrences es))"
  by (induction es rule: rev_induct) (auto simp: first_occurrences_snoc first_occurrences_ids simp flip: image_set)

text \<open>Deduplication is exact: it keeps, in order, precisely the first entitlement of every
  identifier, so that the identifiers of the result are distinct and none is lost.\<close>

theorem dedup_first_occurrences:
  "dedupEntitlements es = first_occurrences es \<and> distinct (map en_ID (dedupEntitlements es))
   \<and> en_ID ` set (dedupEntitlements es) = en_ID ` set es"
  unfolding dedup_eq using first_occurrences_ids[of es] first_occurrences_distinct[of es] by blast

subsection \<open>Paging by tokens\<close>

text \<open>A client that follows the tokens of the replies until there is none.\<close>

fun walk_pages :: "nat \<Rightarrow> (string \<Rightarrow> err + EntitlementsReply) \<Rightarrow> string \<Rightarrow> Entitlement list option" where
  "walk_pages 0 page token = None"
| "walk_pages (Suc n) page token =
     (case page token of
        Inl _ \<Rightarrow> None
      | Inr r \<Rightarrow> if lr_NextPageToken r = [] then Some (lr_Entitlements r)
                 else map_option (append (lr_Entitlements r)) (walk_pages n page (lr_NextPageToken r)))"

lemma page_size_pos [simp]: "0 < page_size n"
  by (simp add: page_size_def)

lemma page_start_token: "0 \<le> i \<Longrightarrow> i \<le> max_int64 \<Longrightarrow> page_start (pageToken i) = i"
  by (simp add: page_start_def pageToken_def pageFromToken_def Sscanf_int_Itoa)

definition reply_from :: "Entitlement list \<Rightarrow> int \<Rightarrow> nat \<Rightarrow> EntitlementsReply" where
  "reply_from es ps k = \<lparr>lr_Entitlements = take (nat ps) (drop k es),
     lr_NextPageToken = (if int k + ps < int (length es) then pageToken (int k + ps) else []),
     lr_TotalSize = int (length es)\<rparr>"

lemma reply_at:
  assumes k: "page_start token = int k" "k \<le> length es" and n: "int (length es) + page_size psize \<le> max_int64"
  shows "subject_page es psize token = Inr (reply_from es (page_size psize) k)"
    and "access_page es psize token = Inr (reply_from es (page_size psize) k)"
proof -
  have p: "0 < page_size psize" by simp
  have w: "wrap64 (int k + page_size psize) = int k + page_size psize"
    using k n p by (intro wrap64_ge) linarith+
  have t: "take (length es - k) (drop k es) = take (nat (page_size psize)) (drop k es)"
    if "int (length es) < int k + page_size psize" using that k by simp
  have t': "nat (int k + page_size psize) - k = nat (page_size psize)" using p by simp
  have p': "\<not> page_size psize < 0" "\<not> int k + page_size psize < 0" using p by linarith+
  show "subject_page es psize token = Inr (reply_from es (page_size psize) k)"
    "access_page es psize token = Inr (reply_from es (page_size psize) k)"
    using k p p' t t' by (auto simp: subject_page_def access_page_def Let_def w entitlement_slice_def reply_from_def)
qed

lemma walk_from:
  assumes page: "\<And>token k. page_start token = int k \<Longrightarrow> k \<le> length es \<Longrightarrow> page token = Inr (reply_from es ps k)"
    and ps: "0 < ps" "int (length es) + ps \<le> max_int64"
  shows "page_start token = int k \<Longrightarrow> k \<le> length es \<Longrightarrow> length es - k < n \<Longrightarrow> walk_pages n page token = Some (drop k es)"
proof (induction n arbitrary: k token)
  case (Suc n)
  note page = page[OF Suc.prems(1,2), unfolded reply_from_def]
  show ?case
  proof (cases "int k + ps < int (length es)")
    case True
    let ?k = "k + nat ps"
    have k: "int ?k = int k + ps" using ps by simp
    have "0 \<le> int k + ps" "int k + ps \<le> max_int64" using True ps by linarith+
    then have "page_start (pageToken (int k + ps)) = int ?k" using page_start_token k by metis
    moreover have "?k \<le> length es" "length es - ?k < n" using True Suc.prems ps by auto
    ultimately have "walk_pages n page (pageToken (int k + ps)) = Some (drop ?k es)" by (rule Suc.IH)
    moreover have "pageToken (int k + ps) \<noteq> []" by (simp add: pageToken_def)
    moreover have "take (nat ps) (drop k es) @ drop ?k es = drop k es"
      by (metis add.commute append_take_drop_id drop_drop)
    ultimately show ?thesis using page True by simp
  next
    case False
    then show ?thesis using page by simp
  qed
qed simp

text \<open>The tokens of the pages are a round trip: a client that starts without a token and
  follows the next-page tokens of either listing reads the whole list of entitlements, each once and in
  order, whatever page size it asks for, and then gets no further token.\<close>

theorem pages_walk_round_trip:
  assumes "int (length es) + page_size psize \<le> max_int64"
  shows "walk_pages (Suc (length es)) (subject_page es psize) [] = Some es
       \<and> walk_pages (Suc (length es)) (access_page es psize) [] = Some es"
proof -
  have "page_start [] = int 0" by (simp add: page_start_def)
  moreover have "walk_pages (Suc (length es)) page token = Some (drop k es)"
    if "page \<in> {subject_page es psize, access_page es psize}" "page_start token = int k" "k \<le> length es" for page token k
    by (rule walk_from[OF _ page_size_pos assms that(2,3)]) (use that(1) reply_at assms in auto)
  ultimately show ?thesis by fastforce
qed

end
