(* ===== verification/EntitlementLaws.thy ===== *)
theory EntitlementLaws
  imports AccessLaws
begin

text \<open>
  What the two listings of \<open>internal/biz/accessquery/service.go\<close> contain.  The derivations of
  an entitlement are the rules of the inductive predicates \<open>held\<close>, \<open>entitled\<close> and \<open>accesses\<close>.
  Every entitlement returned has a derivation, and every derivation is found when the reads of
  the relationship store succeed and no listing is cut off at a hundred grants.

  \<^item> \<open>grows C X acc out\<close>: a source of entitlements only appends members of \<open>X\<close>, and under the
    condition \<open>C\<close> all of them, up to the permissions, which depend on the order of the roles.
\<close>

subsection \<open>Grants, their permissions and their entitlements\<close>

definition listed :: "MemoryRepo \<Rightarrow> ListOptions \<Rightarrow> GrantModel set" where
  "listed d opts = {g \<in> stored_grants d. grant_listed opts g}"

text \<open>The permissions of a grant are those of a role with its identifier or its key, or none.\<close>

definition role_permissions :: "MemoryRepo \<Rightarrow> GrantModel \<Rightarrow> string list \<Rightarrow> bool" where
  "role_permissions d g perms \<longleftrightarrow> perms = [] \<or>
     (\<exists>r \<in> set (map snd (roles d)). perms = ro_Permissions r
        \<and> (ro_ID r = gr_RoleTemplateID g
           \<or> ro_RoleKey r = gr_RoleKey g \<and> (gr_ResourceType g = [] \<or> ro_ResourceType r = gr_ResourceType g)))"

definition ents :: "MemoryRepo \<Rightarrow> (GrantModel \<Rightarrow> string list \<Rightarrow> Entitlement) \<Rightarrow> GrantModel set \<Rightarrow> Entitlement set" where
  "ents d f G = {f g perms | g perms. g \<in> G \<and> role_permissions d g perms}"

lemma entsI: "g \<in> G \<Longrightarrow> role_permissions d g perms \<Longrightarrow> f g perms \<in> ents d f G"
  by (auto simp: ents_def)

definition shape :: "Entitlement \<Rightarrow> Entitlement" where
  "shape e = e\<lparr>en_Permissions := []\<rparr>"

definition shaped :: "(GrantModel \<Rightarrow> string list \<Rightarrow> Entitlement) \<Rightarrow> bool" where
  "shaped f \<longleftrightarrow> (\<forall>g p. shape (f g p) = f g [])"

lemma shapedD: "shaped f \<Longrightarrow> shape (f g p) = f g []"
  by (simp add: shaped_def)

lemma shaped_entitlements [simp]:
  "shaped direct_entitlement" "shaped (group_entitlement req gid)" "shaped (parent_entitlement req r p)"
  "shaped (container_entitlement c src req cid)" "shaped (member_entitlement m)" "shaped (access_parent_entitlement r p)"
  by (simp_all add: shaped_def shape_def direct_entitlement_def inherited_entitlement_def group_entitlement_def
      parent_entitlement_def container_entitlement_def member_entitlement_def access_parent_entitlement_def)

lemma shape_fields [simp]: "en_ID (shape e) = en_ID e" "en_Resource (shape e) = en_Resource e"
  by (simp_all add: shape_def)

definition grows :: "bool \<Rightarrow> Entitlement set \<Rightarrow> Entitlement list \<Rightarrow> Entitlement list \<Rightarrow> bool" where
  "grows C X acc out \<longleftrightarrow> set acc \<subseteq> set out \<and> set out \<subseteq> set acc \<union> X \<and> (C \<longrightarrow> shape ` X \<subseteq> shape ` set out)"

lemma grows_same: "(C \<Longrightarrow> X = {}) \<Longrightarrow> grows C X acc acc"
  by (auto simp: grows_def)

lemma grows_trans:
  assumes "grows C X a b" "grows C Y b c" shows "grows C (X \<union> Y) a c"
proof -
  have b: "set a \<subseteq> set b" "set b \<subseteq> set a \<union> X" "C \<Longrightarrow> shape ` X \<subseteq> shape ` set b"
    and c: "set b \<subseteq> set c" "set c \<subseteq> set b \<union> Y" "C \<Longrightarrow> shape ` Y \<subseteq> shape ` set c"
    using assms by (simp_all add: grows_def)
  have "set a \<subseteq> set c" using b(1) c(1) by (rule subset_trans)
  moreover have "set c \<subseteq> set a \<union> (X \<union> Y)" using b(2) c(2) by blast
  moreover have "shape ` (X \<union> Y) \<subseteq> shape ` set c" if C
    unfolding image_Un using b(3)[OF that] image_mono[OF c(1), of shape] c(3)[OF that] by (meson Un_least subset_trans)
  ultimately show ?thesis unfolding grows_def by blast
qed

lemma grows_sub: "grows C X a b \<Longrightarrow> X \<subseteq> Y \<Longrightarrow> (C \<Longrightarrow> Y \<subseteq> X) \<Longrightarrow> grows C Y a b"
  unfolding grows_def by blast

text \<open>Loops and sequences of sources.\<close>

lemma gives_grows_fold:
  assumes "\<And>x acc. x \<in> set xs \<Longrightarrow> gives I (h x acc) (grows C (X x) acc)"
  shows "gives I (fold_io h xs acc) (grows C (\<Union>x \<in> set xs. X x) acc)"
proof (rule gives_fold[where Q = "\<lambda>done. grows C (\<Union>x \<in> set done. X x) acc"])
  fix "done" x todo b
  assume xs: "xs = done @ x # todo" and b: "grows C (\<Union>x \<in> set done. X x) acc b"
  then have "gives I (h x b) (grows C (X x) b)" using assms by simp
  then show "gives I (h x b) (grows C (\<Union>x \<in> set (done @ [x]). X x) acc)"
    by (rule gives_weaken) (use grows_trans[OF b] in \<open>simp add: Un_commute\<close>)
qed (simp add: grows_same)

lemma gives_grows_seq:
  assumes "gives I m (grows C X acc)" "\<And>out. gives I (h out) (grows C Y out)"
  shows "gives I (bind_io m h) (grows C (X \<union> Y) acc)"
  by (rule gives_bind[OF assms(1)], rule gives_weaken[OF assms(2)]) (rule grows_trans)

subsection \<open>Permissions and listings\<close>

lemma gives_trivial_count: "gives (at_rest T d Ts) (fold_io (count_if_active i) gs n) (\<lambda>_. True)"
  by (intro gives_readings steps_rules)

lemma GetRoleTemplate_at_rest:
  "gives (at_rest T d Ts) (GetRoleTemplate i)
    (\<lambda>r. \<forall>v. r = Inr v \<longrightarrow> (\<exists>x \<in> set (map snd (roles d)). ro_ID x = i \<and> ro_Permissions v = ro_Permissions x))"
  unfolding GetRoleTemplate_def
proof (rule gives_bind[OF range_at_rest])
  fix rs assume "mset rs = mset (map snd (roles d))"
  then have rs: "set rs = set (map snd (roles d))" by (rule mset_eq_setD)
  show "gives (at_rest T d Ts) (case find (\<lambda>role. ro_ID role = i) rs of
       None \<Rightarrow> failE (not_found ''role template'' i)
     | Some role \<Rightarrow>
         bind_io (range_io grants) (\<lambda>gs.
         bind_io (fold_io (count_if_active i) gs (ro_ActiveGrantCount role)) (\<lambda>n.
         okE (role\<lparr>ro_ActiveGrantCount := n\<rparr>))))
    (\<lambda>r. \<forall>v. r = Inr v \<longrightarrow> (\<exists>x \<in> set (map snd (roles d)). ro_ID x = i \<and> ro_Permissions v = ro_Permissions x))"
  proof (cases "find (\<lambda>role. ro_ID role = i) rs")
    case (Some role)
    then have "role \<in> set (map snd (roles d))" "ro_ID role = i" using rs by (auto simp: find_Some_iff)
    then show ?thesis using Some
      by (auto intro!: gives_bind[OF range_at_rest] gives_bind[OF gives_trivial_count] gives_rules)
  qed (simp add: gives_rules)
qed

lemma with_counts_at_rest:
  "gives (at_rest T d Ts) (with_counts t vs)
    (\<lambda>out. map (\<lambda>v. v\<lparr>ro_ActiveGrantCount := 0\<rparr>) out
       = map (\<lambda>v. v\<lparr>ro_ActiveGrantCount := 0\<rparr>) (filter (\<lambda>v. t = [] \<or> ro_ResourceType v = t) vs))"
proof (induction vs)
  case (Cons v vs)
  show ?case
  proof (cases "t = [] \<or> ro_ResourceType v = t")
    case True
    have "gives (at_rest T d Ts) (bind_io (with_counts t vs) (\<lambda>out. ret (v\<lparr>ro_ActiveGrantCount := n\<rparr> # out)))
      (\<lambda>out. map (\<lambda>v. v\<lparr>ro_ActiveGrantCount := 0\<rparr>) out
       = map (\<lambda>v. v\<lparr>ro_ActiveGrantCount := 0\<rparr>) (filter (\<lambda>v. t = [] \<or> ro_ResourceType v = t) (v # vs)))" for n
      using True by (intro gives_bind[OF Cons.IH] gives_ret) simp
    with True show ?thesis
      by (auto intro!: gives_bind[OF range_at_rest] gives_bind[OF gives_trivial_count] simp del: list.map filter.simps)
  next
    case False
    with Cons.IH show ?thesis by simp
  qed
qed (simp add: gives_def)

definition uncounted :: "RoleTemplateModel \<Rightarrow> RoleTemplateModel" where
  "uncounted v = v\<lparr>ro_ActiveGrantCount := 0\<rparr>"

lemma ListRoleTemplates_at_rest:
  "gives (at_rest T d Ts) (ListRoleTemplates t)
    (\<lambda>r. \<exists>out. r = Inr out \<and> uncounted ` set out
       = uncounted ` {v \<in> set (map snd (roles d)). t = [] \<or> ro_ResourceType v = t})"
  unfolding ListRoleTemplates_def
proof (rule gives_bind[OF range_at_rest], rule gives_bind[OF with_counts_at_rest], rule gives_ret)
  fix rs out
  assume rs: "mset rs = mset (map snd (roles d))"
    and out: "map (\<lambda>v. v\<lparr>ro_ActiveGrantCount := 0\<rparr>) out
       = map (\<lambda>v. v\<lparr>ro_ActiveGrantCount := 0\<rparr>) (filter (\<lambda>v. t = [] \<or> ro_ResourceType v = t) rs)"
  have "set (map uncounted out) = set (map uncounted (filter (\<lambda>v. t = [] \<or> ro_ResourceType v = t) rs))"
    using out by (simp only: uncounted_def[abs_def])
  then have "uncounted ` set out = uncounted ` {v \<in> set rs. t = [] \<or> ro_ResourceType v = t}"
    by (simp only: set_map set_filter)
  then show "\<exists>out'. Inr out = Inr out' \<and> uncounted ` set out'
       = uncounted ` {v \<in> set (map snd (roles d)). t = [] \<or> ro_ResourceType v = t}"
    using mset_eq_setD[OF rs] by simp
qed

lemma uncounted_keeps:
  "ro_Permissions (uncounted v) = ro_Permissions v" "ro_RoleKey (uncounted v) = ro_RoleKey v"
  "ro_ResourceType (uncounted v) = ro_ResourceType v" "ro_ID (uncounted v) = ro_ID v"
  by (simp_all add: uncounted_def)

lemma uncounted_fields: "uncounted v = uncounted x \<Longrightarrow>
    ro_Permissions v = ro_Permissions x \<and> ro_RoleKey v = ro_RoleKey x \<and> ro_ResourceType v = ro_ResourceType x \<and> ro_ID v = ro_ID x"
  by (metis uncounted_keeps)

lemma getPermissions_at_rest:
  "gives (at_rest T d Ts) (getPermissions (gr_RoleTemplateID g) (gr_ResourceType g) (gr_RoleKey g)) (role_permissions d g)"
proof -
  let ?by_id = "\<lambda>r. \<forall>v. r = Inr v \<longrightarrow> (\<exists>x \<in> set (map snd (roles d)). ro_ID x = gr_RoleTemplateID g \<and> ro_Permissions v = ro_Permissions x)"
  have "gives (at_rest T d Ts) (if gr_RoleTemplateID g \<noteq> [] then GetRoleTemplate (gr_RoleTemplateID g) else failE (ErrNew [])) ?by_id"
    using GetRoleTemplate_at_rest by (auto intro: gives_rules)
  then show ?thesis unfolding getPermissions_def
  proof (rule gives_bind)
    fix r :: "err + RoleTemplateModel" assume r: "?by_id r"
    show "gives (at_rest T d Ts) (case r of Inr rt \<Rightarrow> ret (ro_Permissions rt)
     | Inl _ \<Rightarrow> bind_io (ListRoleTemplates (gr_ResourceType g)) (\<lambda>r.
         ret (case r of Inl _ \<Rightarrow> [] | Inr templates \<Rightarrow> (case find (\<lambda>t. ro_RoleKey t = gr_RoleKey g) templates of
                  None \<Rightarrow> [] | Some t \<Rightarrow> ro_Permissions t)))) (role_permissions d g)"
    proof (cases r)
      case (Inr v)
      with r obtain x where "x \<in> set (map snd (roles d))" "ro_ID x = gr_RoleTemplateID g" "ro_Permissions v = ro_Permissions x"
        by blast
      then have "role_permissions d g (ro_Permissions v)" unfolding role_permissions_def by blast
      then show ?thesis using Inr by (simp add: gives_rules)
    next
      case (Inl er)
      have "role_permissions d g (case find (\<lambda>t. ro_RoleKey t = gr_RoleKey g) out of None \<Rightarrow> [] | Some t \<Rightarrow> ro_Permissions t)"
        if out: "uncounted ` set out = uncounted ` {v \<in> set (map snd (roles d)). gr_ResourceType g = [] \<or> ro_ResourceType v = gr_ResourceType g}" for out
      proof (cases "find (\<lambda>t. ro_RoleKey t = gr_RoleKey g) out")
        case (Some v)
        then have v: "v \<in> set out" "ro_RoleKey v = gr_RoleKey g" by (auto simp: find_Some_iff)
        then have "uncounted v \<in> uncounted ` {v \<in> set (map snd (roles d)). gr_ResourceType g = [] \<or> ro_ResourceType v = gr_ResourceType g}"
          using out by blast
        then show ?thesis using Some v by (force simp: role_permissions_def dest: uncounted_fields)
      qed (simp add: role_permissions_def)
      then show ?thesis using Inl by (auto intro!: gives_bind[OF ListRoleTemplates_at_rest] gives_rules)
    qed
  qed
qed

lemma entitlement_grows:
  assumes "shaped f"
  shows "gives (at_rest T d Ts)
      (bind_io (getPermissions (gr_RoleTemplateID g) (gr_ResourceType g) (gr_RoleKey g)) (\<lambda>perms. ret (acc @ [f g perms])))
      (grows C (ents d f {g}) acc)"
proof (rule gives_bind[OF getPermissions_at_rest], rule gives_ret)
  fix perms assume p: "role_permissions d g perms"
  have "shape x = f g []" if "x \<in> ents d f {g}" for x using that assms by (auto simp: ents_def shaped_def)
  then have "shape ` ents d f {g} \<subseteq> {shape (f g perms)}" using assms by (auto simp: shaped_def)
  moreover have "f g perms \<in> ents d f {g}" using p by (auto simp: ents_def)
  ultimately show "grows C (ents d f {g}) acc (acc @ [f g perms])" by (auto simp: grows_def)
qed

lemma add_grants_grows:
  assumes "shaped f"
  shows "gives (at_rest T d Ts) (add_grants f gs acc) (grows C (ents d f (set gs)) acc)"
proof -
  have eq: "ents d f (set gs) = (\<Union>g \<in> set gs. ents d f {g})" by (auto simp: ents_def)
  show ?thesis unfolding add_grants_def eq by (rule gives_grows_fold) (rule entitlement_grows[OF assms])
qed

text \<open>A listing of grants whose members become entitlements.\<close>

lemma listed_page:
  assumes "lo_Page opts = 0" "lo_Size opts = 1000" "C \<Longrightarrow> length (grants d) \<le> 100"
  shows "gives (at_rest T d Ts) (ListGrants opts) (\<lambda>r. \<exists>pg. r = Inr pg
    \<and> set (pg_Items pg) \<subseteq> listed d opts \<and> (C \<longrightarrow> set (pg_Items pg) = listed d opts))"
  by (rule gives_weaken[OF ListGrants_at_rest[OF assms(1)]]) (use assms in \<open>auto simp: listed_def\<close>)

lemma page_grows:
  assumes "set (pg_Items pg) \<subseteq> listed d opts" "C \<longrightarrow> set (pg_Items pg) = listed d opts" and f: "shaped f"
  shows "gives (at_rest T d Ts) (add_grants f (filter P (pg_Items pg)) acc) (grows C (ents d f {g \<in> listed d opts. P g}) acc)"
proof -
  have "ents d f (set (filter P (pg_Items pg))) \<subseteq> ents d f {g \<in> listed d opts. P g}" using assms(1) by (auto simp: ents_def)
  moreover have "ents d f {g \<in> listed d opts. P g} \<subseteq> ents d f (set (filter P (pg_Items pg)))" if C
    using assms(2) that by (auto simp: ents_def)
  ultimately have le: "grows C (ents d f (set (filter P (pg_Items pg)))) acc x \<Longrightarrow> grows C (ents d f {g \<in> listed d opts. P g}) acc x" for x
    by (rule grows_sub[rotated])
  show ?thesis by (rule gives_weaken[OF add_grants_grows[OF f]]) (rule le)
qed

lemmas page_grows_all = page_grows[where P = "\<lambda>_. True", simplified]

lemma listing_grows:
  assumes opts: "lo_Page opts = 0" "lo_Size opts = 1000" and f: "shaped f" and C: "C \<Longrightarrow> length (grants d) \<le> 100"
  shows "gives (at_rest T d Ts) (bind_io (ListGrants opts) (\<lambda>r. case r of Inl _ \<Rightarrow> ret acc
      | Inr gs \<Rightarrow> add_grants f (filter P (pg_Items gs)) acc)) (grows C (ents d f {g \<in> listed d opts. P g}) acc)"
proof (rule gives_bind[OF listed_page[OF opts C]])
  fix r :: "err + GrantModel Page"
  assume "\<exists>pg. r = Inr pg \<and> set (pg_Items pg) \<subseteq> listed d opts \<and> (C \<longrightarrow> set (pg_Items pg) = listed d opts)"
  then obtain pg where "r = Inr pg" and "set (pg_Items pg) \<subseteq> listed d opts" "C \<longrightarrow> set (pg_Items pg) = listed d opts"
    by blast
  then show "gives (at_rest T d Ts) (case r of Inl _ \<Rightarrow> ret acc | Inr gs \<Rightarrow> add_grants f (filter P (pg_Items gs)) acc)
      (grows C (ents d f {g \<in> listed d opts. P g}) acc)"
    using page_grows[OF _ _ f] by simp
qed simp

lemma listing_grows_all:
  assumes "lo_Page opts = 0" "lo_Size opts = 1000" "shaped f" "C \<Longrightarrow> length (grants d) \<le> 100"
  shows "gives (at_rest T d Ts) (bind_io (ListGrants opts) (\<lambda>r. case r of Inl _ \<Rightarrow> ret acc
      | Inr gs \<Rightarrow> add_grants f (pg_Items gs) acc)) (grows C (ents d f (listed d opts)) acc)"
proof -
  have all: "filter (\<lambda>_. True) xs = xs" "{x \<in> A. True} = A" for xs :: "GrantModel list" and A :: "GrantModel set"
    by simp_all
  show ?thesis using listing_grows[OF assms(1-3), where P = "\<lambda>_. True" and C = C] assms(4) unfolding all by blast
qed

text \<open>A read of relationships followed by a loop over them.\<close>

lemma relations_grow:
  assumes S: "store_reads S T" and C: "C \<Longrightarrow> reads_succeed S" "\<And>t. C \<Longrightarrow> t \<in> Ts \<Longrightarrow> wide f t \<Longrightarrow> narrow f t"
    and h: "\<And>p acc. rel_key p \<in> Ts \<Longrightarrow> wide f (rel_key p) \<Longrightarrow> gives (at_rest T d Ts) (h p acc) (grows C (X (rel_key p)) acc)"
  shows "gives (at_rest T d Ts) (bind_io (on_graph (st_read S f)) (\<lambda>r. case r of Inl _ \<Rightarrow> ret acc
      | Inr rels \<Rightarrow> fold_io h rels acc)) (grows C (\<Union>t \<in> {t \<in> Ts. wide f t}. X t) acc)"
proof -
  let ?read = "\<lambda>r. \<forall>rels. r = Inr rels \<longrightarrow> {t \<in> Ts. narrow f t} \<subseteq> rel_key ` set rels \<and> rel_key ` set rels \<subseteq> {t \<in> Ts. wide f t}"
  have "gives (at_rest T d Ts) (on_graph (st_read S f)) (\<lambda>r. ?read r \<and> (C \<longrightarrow> (\<exists>rels. r = Inr rels)))"
    using read_ok[OF C(1) read_at_rest[OF S]] read_at_rest[OF S] by (cases C) simp_all
  then show ?thesis
  proof (rule gives_bind)
    fix r :: "err + Relationship list" assume r: "?read r \<and> (C \<longrightarrow> (\<exists>rels. r = Inr rels))"
    show "gives (at_rest T d Ts) (case r of Inl _ \<Rightarrow> ret acc | Inr rels \<Rightarrow> fold_io h rels acc)
        (grows C (\<Union>t \<in> {t \<in> Ts. wide f t}. X t) acc)"
    proof (cases r)
      case (Inl er)
      with r show ?thesis by (auto intro!: gives_ret grows_same)
    next
      case (Inr rels)
      have sub: "rel_key ` set rels \<subseteq> {t \<in> Ts. wide f t}" using r Inr by blast
      have all: "{t \<in> Ts. wide f t} \<subseteq> rel_key ` set rels" if C using r Inr C(2)[OF that] by blast
      have "gives (at_rest T d Ts) (fold_io h rels acc) (grows C (\<Union>p \<in> set rels. X (rel_key p)) acc)"
        using sub by (intro gives_grows_fold h) auto
      then have "gives (at_rest T d Ts) (fold_io h rels acc) (grows C (\<Union>t \<in> {t \<in> Ts. wide f t}. X t) acc)"
      proof (rule gives_weaken, elim grows_sub)
        show "(\<Union>p \<in> set rels. X (rel_key p)) \<subseteq> (\<Union>t \<in> {t \<in> Ts. wide f t}. X t)" using sub by blast
        show "(\<Union>t \<in> {t \<in> Ts. wide f t}. X t) \<subseteq> (\<Union>p \<in> set rels. X (rel_key p))" if C
          using all[OF that] by blast
      qed
      with Inr show ?thesis by simp
    qed
  qed
qed

subsection \<open>The derivations of a subject's entitlements\<close>

definition subject_options :: "ListSubjectEntitlementsRequest \<Rightarrow> ListOptions" where
  "subject_options req = (active_options (ls_OrgID req))\<lparr>
     lo_SubjectType := sr_Type (ls_Subject req), lo_SubjectID := sr_ID (ls_Subject req)\<rparr>"

definition group_options :: "ListSubjectEntitlementsRequest \<Rightarrow> string \<Rightarrow> ListOptions" where
  "group_options req gid = (active_options (ls_OrgID req))\<lparr>lo_SubjectType := ''group'', lo_SubjectID := gid\<rparr>"

definition parent_options :: "ListSubjectEntitlementsRequest \<Rightarrow> ResourceRef \<Rightarrow> ListOptions" where
  "parent_options req p = (active_options (ls_OrgID req))\<lparr>
     lo_ResourceType := rr_Type p, lo_ResourceID := rr_ID p,
     lo_SubjectType := sr_Type (ls_Subject req), lo_SubjectID := sr_ID (ls_Subject req)\<rparr>"

definition container_options :: "string \<Rightarrow> string \<Rightarrow> string \<Rightarrow> ListOptions" where
  "container_options orgID container cid = (active_options orgID)\<lparr>lo_ResourceType := container, lo_ResourceID := cid\<rparr>"

text \<open>What a subject holds itself or through a group it is a member of.\<close>

inductive held :: "MemoryRepo \<Rightarrow> tuple set \<Rightarrow> ListSubjectEntitlementsRequest \<Rightarrow> Entitlement \<Rightarrow> bool"
  for d Ts req where
  direct: "g \<in> listed d (subject_options req) \<Longrightarrow> role_permissions d g perms
    \<Longrightarrow> held d Ts req (direct_entitlement g perms)"
| group: "t \<in> Ts \<Longrightarrow> wide (group_filter (ls_Subject req)) t \<Longrightarrow> g \<in> listed d (group_options req (ob_ID (fst t)))
    \<Longrightarrow> role_permissions d g perms \<Longrightarrow> held d Ts req (group_entitlement req (ob_ID (fst t)) g perms)"

text \<open>And what it inherits: from the ancestors of a resource on which it holds something, from
  the zones it owns or administers, from the platform.\<close>

inductive entitled :: "MemoryRepo \<Rightarrow> tuple set \<Rightarrow> ListSubjectEntitlementsRequest \<Rightarrow> Entitlement \<Rightarrow> bool"
  for d Ts req where
  held: "held d Ts req c \<Longrightarrow> entitled d Ts req c"
| parent: "held d Ts req c \<Longrightarrow> (en_Resource c, r) \<in> (inherits_from Ts)\<^sup>* \<Longrightarrow> (r, p) \<in> inherits_from Ts
    \<Longrightarrow> g \<in> listed d (parent_options req p) \<Longrightarrow> role_permissions d g perms
    \<Longrightarrow> entitled d Ts req (parent_entitlement req r p g perms)"
| zone: "t \<in> Ts \<Longrightarrow> wide (container_filter ''zone'' (ls_Subject req)) t \<Longrightarrow> fst (snd t) \<in> {''owner'', ''admin''}
    \<Longrightarrow> g \<in> listed d (container_options (ls_OrgID req) ''zone'' (ob_ID (fst t))) \<Longrightarrow> role_permissions d g perms
    \<Longrightarrow> entitled d Ts req (container_entitlement ''zone'' SourceOrgInheritance req (ob_ID (fst t)) g perms)"
| platform: "t \<in> Ts \<Longrightarrow> wide (container_filter ''platform'' (ls_Subject req)) t
    \<Longrightarrow> g \<in> listed d (container_options [] ''platform'' (ob_ID (fst t))) \<Longrightarrow> role_permissions d g perms
    \<Longrightarrow> entitled d Ts req (container_entitlement ''platform'' SourcePlatformInheritance req (ob_ID (fst t)) g perms)"

text \<open>The same as sets, one per source of the code.\<close>

definition direct_set :: "MemoryRepo \<Rightarrow> ListSubjectEntitlementsRequest \<Rightarrow> Entitlement set" where
  "direct_set d req = ents d direct_entitlement (listed d (subject_options req))"

definition group_set :: "MemoryRepo \<Rightarrow> tuple set \<Rightarrow> ListSubjectEntitlementsRequest \<Rightarrow> Entitlement set" where
  "group_set d Ts req = (\<Union>t \<in> {t \<in> Ts. wide (group_filter (ls_Subject req)) t}.
     ents d (group_entitlement req (ob_ID (fst t))) (listed d (group_options req (ob_ID (fst t)))))"

definition edge_set :: "MemoryRepo \<Rightarrow> ListSubjectEntitlementsRequest \<Rightarrow> ResourceRef \<Rightarrow> ResourceRef \<Rightarrow> Entitlement set" where
  "edge_set d req r p = ents d (parent_entitlement req r p) (listed d (parent_options req p))"

definition ancestor_set :: "MemoryRepo \<Rightarrow> tuple set \<Rightarrow> ListSubjectEntitlementsRequest \<Rightarrow> ResourceRef \<Rightarrow> Entitlement set" where
  "ancestor_set d Ts req res = (\<Union>(r, p) \<in> {(r, p). (res, r) \<in> (inherits_from Ts)\<^sup>* \<and> (r, p) \<in> inherits_from Ts}. edge_set d req r p)"

definition zone_set :: "MemoryRepo \<Rightarrow> tuple set \<Rightarrow> ListSubjectEntitlementsRequest \<Rightarrow> Entitlement set" where
  "zone_set d Ts req = (\<Union>t \<in> {t \<in> Ts. wide (container_filter ''zone'' (ls_Subject req)) t}.
     if fst (snd t) \<in> {''owner'', ''admin''}
     then ents d (container_entitlement ''zone'' SourceOrgInheritance req (ob_ID (fst t)))
            (listed d (container_options (ls_OrgID req) ''zone'' (ob_ID (fst t))))
     else {})"

definition platform_set :: "MemoryRepo \<Rightarrow> tuple set \<Rightarrow> ListSubjectEntitlementsRequest \<Rightarrow> Entitlement set" where
  "platform_set d Ts req = (\<Union>t \<in> {t \<in> Ts. wide (container_filter ''platform'' (ls_Subject req)) t}.
     ents d (container_entitlement ''platform'' SourcePlatformInheritance req (ob_ID (fst t)))
            (listed d (container_options [] ''platform'' (ob_ID (fst t)))))"

lemma held_sets: "{c. held d Ts req c} = direct_set d req \<union> group_set d Ts req"
  by (auto simp: direct_set_def group_set_def ents_def elim!: held.cases intro: held.intros)

lemma entitled_sets:
  "{c. entitled d Ts req c} = {c. held d Ts req c} \<union> (\<Union>c \<in> {c. held d Ts req c}. ancestor_set d Ts req (en_Resource c))
     \<union> zone_set d Ts req \<union> platform_set d Ts req" (is "?L = ?R")
proof (intro equalityI subsetI)
  fix c assume "c \<in> ?L"
  then have "entitled d Ts req c" by simp
  then show "c \<in> ?R"
  proof cases
    case (parent c' r p g perms)
    then have "c \<in> edge_set d req r p" by (auto simp: edge_set_def ents_def)
    with parent have "c \<in> ancestor_set d Ts req (en_Resource c')" unfolding ancestor_set_def by blast
    with parent show ?thesis by blast
  next
    case (zone t g perms)
    then have "c \<in> zone_set d Ts req" unfolding zone_set_def zone(1) by (intro UN_I[of t]) (auto intro: entsI)
    then show ?thesis by simp
  next
    case (platform t g perms)
    then have "c \<in> platform_set d Ts req" unfolding platform_set_def platform(1) by (intro UN_I[of t]) (auto intro: entsI)
    then show ?thesis by simp
  qed simp
next
  fix c assume "c \<in> ?R"
  then consider "held d Ts req c"
    | c' where "held d Ts req c'" "c \<in> ancestor_set d Ts req (en_Resource c')"
    | "c \<in> zone_set d Ts req" | "c \<in> platform_set d Ts req" by blast
  then show "c \<in> ?L"
  proof cases
    case 4
    then obtain t g perms where "t \<in> Ts" "wide (container_filter ''platform'' (ls_Subject req)) t"
      "g \<in> listed d (container_options [] ''platform'' (ob_ID (fst t)))" "role_permissions d g perms"
      "c = container_entitlement ''platform'' SourcePlatformInheritance req (ob_ID (fst t)) g perms"
      unfolding platform_set_def ents_def by blast
    then show ?thesis using entitled.platform by simp
  next
    case 3
    then obtain t g perms where "t \<in> Ts" "wide (container_filter ''zone'' (ls_Subject req)) t" "fst (snd t) \<in> {''owner'', ''admin''}"
      "g \<in> listed d (container_options (ls_OrgID req) ''zone'' (ob_ID (fst t)))" "role_permissions d g perms"
      "c = container_entitlement ''zone'' SourceOrgInheritance req (ob_ID (fst t)) g perms"
      unfolding zone_set_def ents_def by (auto split: if_splits simp del: fst_conv)
    then show ?thesis using entitled.zone by simp
  qed (auto simp: ancestor_set_def edge_set_def ents_def intro: entitled.intros)
qed

subsection \<open>The sources of \<open>ListSubjectEntitlements\<close>\<close>

lemma option_fields [simp]:
  "lo_Page (active_options x) = 0" "lo_Size (active_options x) = 1000"
  by (simp_all add: active_options_def no_options_def)

text \<open>What a fuelled operation appends, should it return.\<close>

abbreviation may_grow :: "bool \<Rightarrow> Entitlement set \<Rightarrow> Entitlement list \<Rightarrow> Entitlement list option \<Rightarrow> bool" where
  "may_grow C X acc r \<equiv> (\<forall>out. r = Some out \<longrightarrow> grows C X acc out)"

lemma ancestor_step:
  "ancestor_set d Ts req res = (\<Union>p \<in> {p. (res, p) \<in> inherits_from Ts}. edge_set d req res p \<union> ancestor_set d Ts req p)"
  (is "_ = ?R")
proof (intro equalityI subsetI)
  fix x assume "x \<in> ancestor_set d Ts req res"
  then obtain r p where rp: "(res, r) \<in> (inherits_from Ts)\<^sup>*" "(r, p) \<in> inherits_from Ts" "x \<in> edge_set d req r p"
    by (auto simp: ancestor_set_def)
  from rp(1) show "x \<in> ?R"
  proof (cases rule: converse_rtranclE)
    case (step y)
    then have "x \<in> ancestor_set d Ts req y" using rp by (auto simp: ancestor_set_def)
    with step show ?thesis by blast
  qed (use rp in blast)
next
  fix x assume "x \<in> ?R"
  then show "x \<in> ancestor_set d Ts req res"
    by (auto simp: ancestor_set_def intro: converse_rtrancl_into_rtrancl)
qed

lemma trace_step_grows:
  assumes up: "\<And>acc. gives (at_rest T d Ts) (up (parent_ref p) acc) (may_grow C Y acc)"
    and C: "C \<Longrightarrow> length (grants d) \<le> 100"
  shows "gives (at_rest T d Ts) (trace_step up req res p (Some acc)) (may_grow C (edge_set d req res (parent_ref p) \<union> Y) acc)"
  unfolding trace_step_def option.case parent_options_def[symmetric]
proof (rule gives_bind[OF listed_page[where C = C]])
  fix r :: "err + GrantModel Page"
  let ?opts = "parent_options req (parent_ref p)"
  assume "\<exists>pg. r = Inr pg \<and> set (pg_Items pg) \<subseteq> listed d ?opts \<and> (C \<longrightarrow> set (pg_Items pg) = listed d ?opts)"
  then obtain pg where r: "r = Inr pg" and pg: "set (pg_Items pg) \<subseteq> listed d ?opts" "C \<longrightarrow> set (pg_Items pg) = listed d ?opts"
    by blast
  have "gives (at_rest T d Ts) (add_grants (parent_entitlement req res (parent_ref p)) (pg_Items pg) acc)
      (grows C (edge_set d req res (parent_ref p)) acc)"
    unfolding edge_set_def by (rule page_grows_all[OF pg]) simp
  then have "gives (at_rest T d Ts) (bind_io (add_grants (parent_entitlement req res (parent_ref p)) (pg_Items pg) acc) (up (parent_ref p)))
      (may_grow C (edge_set d req res (parent_ref p) \<union> Y) acc)"
    by (rule gives_bind) (rule gives_weaken[OF up], blast intro: grows_trans)
  then show "gives (at_rest T d Ts) (case r of Inl _ \<Rightarrow> ret (Some acc)
      | Inr pg \<Rightarrow> bind_io (add_grants (parent_entitlement req res (parent_ref p)) (pg_Items pg) acc) (up (parent_ref p)))
      (may_grow C (edge_set d req res (parent_ref p) \<union> Y) acc)"
    by (simp add: r)
qed (use C in \<open>simp_all add: parent_options_def\<close>)

lemma trace_grows:
  assumes S: "as_store s = Some S" "store_reads S T" and C: "C \<Longrightarrow> reads_succeed S" "C \<Longrightarrow> length (grants d) \<le> 100"
  shows "gives (at_rest T d Ts) (traceParentInheritance n s req res acc) (may_grow C (ancestor_set d Ts req res) acc)"
proof (induction n arbitrary: res acc)
  case (Suc n)
  let ?X = "\<lambda>p. edge_set d req res p \<union> ancestor_set d Ts req p"
  let ?loop = "\<lambda>parents. fold_io (trace_step (traceParentInheritance n s req) req res) parents (Some acc)"
  have loop: "gives (at_rest T d Ts) (?loop parents) (may_grow C (\<Union>p \<in> set parents. ?X (parent_ref p)) acc)" for parents
  proof (rule gives_fold[where Q = "\<lambda>done. may_grow C (\<Union>p \<in> set done. ?X (parent_ref p)) acc"])
    fix "done" p todo and r :: "Entitlement list option"
    assume r: "may_grow C (\<Union>p \<in> set done. ?X (parent_ref p)) acc r"
    show "gives (at_rest T d Ts) (trace_step (traceParentInheritance n s req) req res p r)
        (may_grow C (\<Union>p \<in> set (done @ [p]). ?X (parent_ref p)) acc)"
    proof (cases r)
      case (Some a)
      then have a: "grows C (\<Union>p \<in> set done. ?X (parent_ref p)) acc a" using r by simp
      have "gives (at_rest T d Ts) (trace_step (traceParentInheritance n s req) req res p (Some a)) (may_grow C (?X (parent_ref p)) a)"
        by (rule trace_step_grows[OF Suc.IH C(2)])
      then show ?thesis unfolding Some by (rule gives_weaken) (use grows_trans[OF a] in \<open>simp add: Un_commute\<close>)
    qed (simp add: trace_step_def gives_rules)
  qed (simp add: grows_same)
  show ?case unfolding trace_Suc[OF S(1)]
  proof (rule gives_bind)
    show "gives (at_rest T d Ts) (on_graph (st_read S (parent_filter res)))
      (\<lambda>r. (\<forall>rels. r = Inr rels \<longrightarrow> parent_ref ` set rels = {p. (res, p) \<in> inherits_from Ts}) \<and> (C \<longrightarrow> (\<exists>rels. r = Inr rels)))"
      using read_ok[OF C(1) read_parents[OF S(2)]] read_parents[OF S(2)] by (cases C) simp_all
    fix r :: "err + Relationship list"
    assume r: "(\<forall>rels. r = Inr rels \<longrightarrow> parent_ref ` set rels = {p. (res, p) \<in> inherits_from Ts}) \<and> (C \<longrightarrow> (\<exists>rels. r = Inr rels))"
    show "gives (at_rest T d Ts) (case r of Inl _ \<Rightarrow> ret (Some acc) | Inr parents \<Rightarrow> ?loop parents)
      (may_grow C (ancestor_set d Ts req res) acc)"
    proof (cases r)
      case (Inr parents)
      with r have ps: "{p. (res, p) \<in> inherits_from Ts} = parent_ref ` set parents" by simp
      have "(\<Union>p \<in> set parents. ?X (parent_ref p)) = ancestor_set d Ts req res"
        unfolding ancestor_step[of d Ts req res] ps by simp
      then show ?thesis using loop[of parents] Inr by simp
    qed (use r in \<open>auto intro!: gives_ret grows_same\<close>)
  qed
qed (simp add: gives_rules)

lemma parent_source_grows:
  assumes S: "as_store s = Some S" "store_reads S T" and C: "C \<Longrightarrow> reads_succeed S" "C \<Longrightarrow> length (grants d) \<le> 100"
    and inj: "\<And>x y. C \<Longrightarrow> x \<in> E \<Longrightarrow> y \<in> E \<Longrightarrow> resource_key x = resource_key y \<Longrightarrow> en_Resource x = en_Resource y"
  shows "set es \<subseteq> E \<Longrightarrow> gives (at_rest T d Ts) (parent_source n s req es seen acc)
    (\<lambda>r. \<forall>out. r = Some out \<longrightarrow> set acc \<subseteq> set out \<and> set out \<subseteq> set acc \<union> (\<Union>e \<in> set es. ancestor_set d Ts req (en_Resource e))
       \<and> (C \<longrightarrow> shape ` (\<Union>e \<in> {e \<in> set es. resource_key e \<notin> set seen}. ancestor_set d Ts req (en_Resource e)) \<subseteq> shape ` set out))"
proof (induction es arbitrary: seen acc)
  case (Cons e es)
  let ?A = "\<lambda>e. ancestor_set d Ts req (en_Resource e)"
  show ?case
  proof (cases "resource_key e \<in> set seen")
    case True
    have eq: "{x \<in> set (e # es). resource_key x \<notin> set seen} = {x \<in> set es. resource_key x \<notin> set seen}" using True by auto
    have E: "set es \<subseteq> E" using Cons.prems by simp
    have le: "(\<Union>x \<in> set es. ?A x) \<subseteq> (\<Union>x \<in> set (e # es). ?A x)" by auto
    show ?thesis unfolding parent_source.simps if_P[OF True] eq
    proof (rule gives_weaken[OF Cons.IH[OF E]], intro allI impI)
      fix r out
      assume "\<forall>out. r = Some out \<longrightarrow> set acc \<subseteq> set out \<and> set out \<subseteq> set acc \<union> (\<Union>x \<in> set es. ?A x)
          \<and> (C \<longrightarrow> shape ` (\<Union>x \<in> {x \<in> set es. resource_key x \<notin> set seen}. ?A x) \<subseteq> shape ` set out)" and "r = Some out"
      then have "set acc \<subseteq> set out" "set out \<subseteq> set acc \<union> (\<Union>x \<in> set es. ?A x)"
          "C \<longrightarrow> shape ` (\<Union>x \<in> {x \<in> set es. resource_key x \<notin> set seen}. ?A x) \<subseteq> shape ` set out" by blast+
      then show "set acc \<subseteq> set out \<and> set out \<subseteq> set acc \<union> (\<Union>x \<in> set (e # es). ?A x)
          \<and> (C \<longrightarrow> shape ` (\<Union>x \<in> {x \<in> set es. resource_key x \<notin> set seen}. ?A x) \<subseteq> shape ` set out)"
        using le by (intro conjI) (assumption, meson order_trans Un_mono subset_refl, assumption)
    qed
  next
    case False
    show ?thesis unfolding parent_source.simps if_not_P[OF False]
    proof (rule gives_bind[OF trace_grows[OF S C]])
      fix r assume r: "may_grow C (?A e) acc r"
      show "gives (at_rest T d Ts) (case r of None \<Rightarrow> ret None
          | Some result \<Rightarrow> parent_source n s req es (resource_key e # seen) result)
        (\<lambda>r. \<forall>out. r = Some out \<longrightarrow> set acc \<subseteq> set out \<and> set out \<subseteq> set acc \<union> (\<Union>x \<in> set (e # es). ?A x)
         \<and> (C \<longrightarrow> shape ` (\<Union>x \<in> {x \<in> set (e # es). resource_key x \<notin> set seen}. ?A x) \<subseteq> shape ` set out))"
      proof (cases r)
        case (Some a)
        with r have a: "grows C (?A e) acc a" by simp
        have E: "set es \<subseteq> E" using Cons.prems by simp
        show ?thesis unfolding Some option.case
        proof (rule gives_weaken[OF Cons.IH[OF E]], intro allI impI)
          fix r' out
          let ?rest = "\<Union>x \<in> {x \<in> set es. resource_key x \<notin> set (resource_key e # seen)}. ?A x"
          let ?all = "\<Union>x \<in> {x \<in> set (e # es). resource_key x \<notin> set seen}. ?A x"
          assume *: "\<forall>out. r' = Some out \<longrightarrow> set a \<subseteq> set out \<and> set out \<subseteq> set a \<union> (\<Union>x \<in> set es. ?A x)
            \<and> (C \<longrightarrow> shape ` ?rest \<subseteq> shape ` set out)" and "r' = Some out"
          then have out: "set a \<subseteq> set out" "set out \<subseteq> set a \<union> (\<Union>x \<in> set es. ?A x)" "C \<Longrightarrow> shape ` ?rest \<subseteq> shape ` set out"
            by blast+
          have "set acc \<subseteq> set out" "set out \<subseteq> set acc \<union> (\<Union>x \<in> set (e # es). ?A x)"
            using a out by (auto simp: grows_def)
          moreover have "shape ` ?all \<subseteq> shape ` set out" if C
          proof -
            have one: "?A x \<subseteq> ?A e \<union> ?rest" if x: "x \<in> set (e # es)" "resource_key x \<notin> set seen" for x
            proof (cases "resource_key x = resource_key e")
              case True
              have "x \<in> E" "e \<in> E" using x Cons.prems by auto
              from inj[OF \<open>C\<close> this True] show ?thesis by simp
            next
              case False
              then have "x \<in> {x \<in> set es. resource_key x \<notin> set (resource_key e # seen)}" using x by auto
              then show ?thesis by (rule le_supI2[OF UN_upper])
            qed
            have "?all \<subseteq> ?A e \<union> ?rest"
            proof (rule UN_least)
              fix x assume "x \<in> {x \<in> set (e # es). resource_key x \<notin> set seen}"
              then show "?A x \<subseteq> ?A e \<union> ?rest" by (intro one) blast+
            qed
            from image_mono[OF this, of shape] have "shape ` ?all \<subseteq> shape ` ?A e \<union> shape ` ?rest" by (simp only: image_Un)
            moreover have "shape ` ?A e \<subseteq> shape ` set a" using a that by (simp add: grows_def)
            ultimately show ?thesis using out(3)[OF that] image_mono[OF out(1), of shape] by (meson Un_least subset_trans)
          qed
          ultimately show "set acc \<subseteq> set out \<and> set out \<subseteq> set acc \<union> (\<Union>x \<in> set (e # es). ?A x)
            \<and> (C \<longrightarrow> shape ` ?all \<subseteq> shape ` set out)" by blast
        qed
      qed (simp add: gives_rules)
    qed
  qed
qed (simp add: gives_rules)

lemma group_source_grows:
  assumes S: "store_reads S T" and C: "C \<Longrightarrow> reads_succeed S" "C \<Longrightarrow> length (grants d) \<le> 100"
    and plain: "\<And>t. C \<Longrightarrow> t \<in> Ts \<Longrightarrow> wide (group_filter (ls_Subject req)) t \<Longrightarrow> narrow (group_filter (ls_Subject req)) t"
  shows "gives (at_rest T d Ts) (group_source S req acc) (grows C (group_set d Ts req) acc)"
  unfolding group_source_def group_set_def group_options_def
proof (rule relations_grow[OF S C(1) plain])
  fix p :: Relationship and acc
  show "gives (at_rest T d Ts) (bind_io (ListGrants ((active_options (ls_OrgID req))\<lparr>
      lo_SubjectType := ''group'', lo_SubjectID := ob_ID (rel_Resource p)\<rparr>)) (\<lambda>r. case r of Inl _ \<Rightarrow> ret acc
      | Inr gs \<Rightarrow> add_grants (group_entitlement req (ob_ID (rel_Resource p))) (pg_Items gs) acc))
      (grows C (ents d (group_entitlement req (ob_ID (fst (rel_key p))))
        (listed d ((active_options (ls_OrgID req))\<lparr>lo_SubjectType := ''group'', lo_SubjectID := ob_ID (fst (rel_key p))\<rparr>))) acc)"
    unfolding rel_key_def fst_conv by (rule listing_grows_all) (simp_all add: C)
qed

lemma zone_source_grows:
  assumes S: "store_reads S T" and C: "C \<Longrightarrow> reads_succeed S" "C \<Longrightarrow> length (grants d) \<le> 100"
    and plain: "\<And>t. C \<Longrightarrow> t \<in> Ts \<Longrightarrow> wide (container_filter ''zone'' (ls_Subject req)) t \<Longrightarrow> narrow (container_filter ''zone'' (ls_Subject req)) t"
  shows "gives (at_rest T d Ts) (zone_source S req acc) (grows C (zone_set d Ts req) acc)"
  unfolding zone_source_def zone_set_def container_options_def
proof (rule relations_grow[OF S C(1) plain])
  fix p :: Relationship and acc
  let ?ents = "ents d (container_entitlement ''zone'' SourceOrgInheritance req (ob_ID (rel_Resource p)))
     (listed d ((active_options (ls_OrgID req))\<lparr>lo_ResourceType := ''zone'', lo_ResourceID := ob_ID (rel_Resource p)\<rparr>))"
  have "gives (at_rest T d Ts) (bind_io (ListGrants ((active_options (ls_OrgID req))\<lparr>
      lo_ResourceType := ''zone'', lo_ResourceID := ob_ID (rel_Resource p)\<rparr>)) (\<lambda>r. case r of Inl _ \<Rightarrow> ret acc
      | Inr gs \<Rightarrow> add_grants (container_entitlement ''zone'' SourceOrgInheritance req (ob_ID (rel_Resource p))) (pg_Items gs) acc))
      (grows C ?ents acc)"
    by (rule listing_grows_all) (simp_all add: C)
  then show "gives (at_rest T d Ts) (if rel_Relation p \<noteq> ''owner'' \<and> rel_Relation p \<noteq> ''admin'' then ret acc
      else bind_io (ListGrants ((active_options (ls_OrgID req))\<lparr>
      lo_ResourceType := ''zone'', lo_ResourceID := ob_ID (rel_Resource p)\<rparr>)) (\<lambda>r. case r of Inl _ \<Rightarrow> ret acc
      | Inr gs \<Rightarrow> add_grants (container_entitlement ''zone'' SourceOrgInheritance req (ob_ID (rel_Resource p))) (pg_Items gs) acc))
      (grows C (if fst (snd (rel_key p)) \<in> {''owner'', ''admin''}
        then ents d (container_entitlement ''zone'' SourceOrgInheritance req (ob_ID (fst (rel_key p))))
          (listed d ((active_options (ls_OrgID req))\<lparr>lo_ResourceType := ''zone'', lo_ResourceID := ob_ID (fst (rel_key p))\<rparr>))
        else {}) acc)"
    by (simp add: rel_key_def gives_ret grows_same)
qed

lemma platform_source_grows:
  assumes S: "store_reads S T" and C: "C \<Longrightarrow> reads_succeed S" "C \<Longrightarrow> length (grants d) \<le> 100"
    and plain: "\<And>t. C \<Longrightarrow> t \<in> Ts \<Longrightarrow> wide (container_filter ''platform'' (ls_Subject req)) t \<Longrightarrow> narrow (container_filter ''platform'' (ls_Subject req)) t"
  shows "gives (at_rest T d Ts) (platform_source S req acc) (grows C (platform_set d Ts req) acc)"
  unfolding platform_source_def platform_set_def container_options_def
proof (rule relations_grow[OF S C(1) plain])
  fix p :: Relationship and acc
  show "gives (at_rest T d Ts) (bind_io (ListGrants ((active_options [])\<lparr>
      lo_ResourceType := ''platform'', lo_ResourceID := ob_ID (rel_Resource p)\<rparr>)) (\<lambda>r. case r of Inl _ \<Rightarrow> ret acc
      | Inr gs \<Rightarrow> add_grants (container_entitlement ''platform'' SourcePlatformInheritance req (ob_ID (rel_Resource p))) (pg_Items gs) acc))
      (grows C (ents d (container_entitlement ''platform'' SourcePlatformInheritance req (ob_ID (fst (rel_key p))))
        (listed d ((active_options [])\<lparr>lo_ResourceType := ''platform'', lo_ResourceID := ob_ID (fst (rel_key p))\<rparr>))) acc)"
    unfolding rel_key_def fst_conv by (rule listing_grows_all) (simp_all add: C)
qed

text \<open>The view is full: every read succeeds, no listing is cut off, the subject occurs in tuples
  only by itself and not through a relation, and the keys of resources are unambiguous.\<close>

definition full_view :: "'g store \<Rightarrow> MemoryRepo \<Rightarrow> tuple set \<Rightarrow> GrantSubject \<Rightarrow> bool" where
  "full_view S d Ts sub \<longleftrightarrow> reads_succeed S \<and> length (grants d) \<le> 100
     \<and> (\<forall>t \<in> Ts. \<forall>f \<in> {group_filter sub, container_filter ''zone'' sub, container_filter ''platform'' sub}. wide f t \<longrightarrow> narrow f t)
     \<and> (\<forall>g \<in> stored_grants d. CHR '':'' \<notin> set (gr_ResourceType g))"

lemma held_resource: "held d Ts req c \<Longrightarrow> \<exists>g \<in> stored_grants d. en_Resource c = \<lparr>rr_Type = gr_ResourceType g, rr_ID = gr_ResourceID g\<rparr>"
  by (elim held.cases) (auto simp: listed_def direct_entitlement_def group_entitlement_def inherited_entitlement_def)

lemma colon_split:
  "CHR '':'' \<notin> set a \<Longrightarrow> CHR '':'' \<notin> set b \<Longrightarrow> a @ CHR '':'' # x = b @ CHR '':'' # y \<Longrightarrow> a = b \<and> x = y"
proof (induction a arbitrary: b)
  case Nil then show ?case by (cases b) auto
next
  case (Cons c a) then show ?case by (cases b) auto
qed

lemma held_key_inj:
  assumes "full_view S d Ts sub" "held d Ts req x" "held d Ts req y" "resource_key x = resource_key y"
  shows "en_Resource x = en_Resource y"
proof -
  from held_resource[OF assms(2)] held_resource[OF assms(3)] obtain g h where gh: "g \<in> stored_grants d" "h \<in> stored_grants d"
    and res: "en_Resource x = \<lparr>rr_Type = gr_ResourceType g, rr_ID = gr_ResourceID g\<rparr>"
      "en_Resource y = \<lparr>rr_Type = gr_ResourceType h, rr_ID = gr_ResourceID h\<rparr>" by blast
  have "CHR '':'' \<notin> set (gr_ResourceType g)" "CHR '':'' \<notin> set (gr_ResourceType h)"
    using assms(1) gh by (simp_all add: full_view_def)
  from colon_split[OF this] assms(4) show ?thesis by (simp add: resource_key_def res)
qed

definition all_sources :: "nat \<Rightarrow> 'g AccessService \<Rightarrow> 'g store \<Rightarrow> ListSubjectEntitlementsRequest \<Rightarrow> ('g, Entitlement list option) op" where
  "all_sources n s st req =
     bind_io (bind_io (ListGrants (subject_options req)) (\<lambda>r. case r of Inl _ \<Rightarrow> ret []
       | Inr gs \<Rightarrow> add_grants direct_entitlement (pg_Items gs) [])) (\<lambda>result.
     bind_io (group_source st req result) (\<lambda>result.
     bind_io (parent_source n s req result [] result) (\<lambda>r.
     case r of None \<Rightarrow> ret None | Some result \<Rightarrow>
     bind_io (zone_source st req result) (\<lambda>result.
     bind_io (platform_source st req result) (\<lambda>result. ret (Some result))))))"

lemma all_sources_grow:
  fixes d Ts req S
  defines "C \<equiv> full_view S d Ts (ls_Subject req)"
  assumes S: "as_store s = Some S" "store_reads S T"
  shows "gives (at_rest T d Ts) (all_sources n s S req) (may_grow C {c. entitled d Ts req c} [])"
proof -
  let ?held = "{c. held d Ts req c}" and ?A = "\<lambda>c. ancestor_set d Ts req (en_Resource c)"
  have C: "C \<Longrightarrow> reads_succeed S" "C \<Longrightarrow> length (grants d) \<le> 100"
    and plain: "\<And>t f. C \<Longrightarrow> f \<in> {group_filter (ls_Subject req), container_filter ''zone'' (ls_Subject req),
        container_filter ''platform'' (ls_Subject req)} \<Longrightarrow> t \<in> Ts \<Longrightarrow> wide f t \<Longrightarrow> narrow f t"
    unfolding C_def full_view_def by blast+
  have inj: "\<And>x y. C \<Longrightarrow> x \<in> ?held \<Longrightarrow> y \<in> ?held \<Longrightarrow> resource_key x = resource_key y \<Longrightarrow> en_Resource x = en_Resource y"
    unfolding C_def using held_key_inj by blast
  have direct: "gives (at_rest T d Ts) (bind_io (ListGrants (subject_options req)) (\<lambda>r. case r of Inl _ \<Rightarrow> ret []
       | Inr gs \<Rightarrow> add_grants direct_entitlement (pg_Items gs) [])) (grows C (direct_set d req) [])"
    unfolding direct_set_def by (rule listing_grows_all) (simp_all add: subject_options_def C)
  show ?thesis unfolding all_sources_def
  proof (rule gives_bind[OF direct], rule gives_bind[OF group_source_grows[OF S(2) C plain]])
    fix r0 r1 assume "grows C (direct_set d req) [] r0" "grows C (group_set d Ts req) r0 r1"
    from grows_trans[OF this] have r1: "grows C ?held [] r1" by (simp add: held_sets)
    have sub: "set r1 \<subseteq> ?held" using r1 by (simp add: grows_def)
    have res: "en_Resource ` ?held \<subseteq> en_Resource ` set r1" if C
    proof -
      have "shape ` ?held \<subseteq> shape ` set r1" using r1 that by (simp add: grows_def)
      from image_mono[OF this, of en_Resource] show ?thesis by (simp add: image_image)
    qed
    show "gives (at_rest T d Ts) (bind_io (parent_source n s req r1 [] r1) (\<lambda>r.
        case r of None \<Rightarrow> ret None | Some result \<Rightarrow>
        bind_io (zone_source S req result) (\<lambda>result.
        bind_io (platform_source S req result) (\<lambda>result. ret (Some result)))))
      (may_grow C {c. entitled d Ts req c} [])"
    proof (rule gives_bind[OF parent_source_grows[OF S C inj sub]])
      fix r assume r: "\<forall>out. r = Some out \<longrightarrow> set r1 \<subseteq> set out \<and> set out \<subseteq> set r1 \<union> (\<Union>e \<in> set r1. ?A e)
         \<and> (C \<longrightarrow> shape ` (\<Union>e \<in> {e \<in> set r1. resource_key e \<notin> set []}. ?A e) \<subseteq> shape ` set out)"
      show "gives (at_rest T d Ts) (case r of None \<Rightarrow> ret None | Some result \<Rightarrow>
        bind_io (zone_source S req result) (\<lambda>result.
        bind_io (platform_source S req result) (\<lambda>result. ret (Some result))))
        (may_grow C {c. entitled d Ts req c} [])"
      proof (cases r)
        case (Some r2)
        have "grows C (\<Union>e \<in> set r1. ?A e) r1 r2" using r Some by (simp add: grows_def)
        then have "grows C (\<Union>c \<in> ?held. ?A c) r1 r2"
        proof (rule grows_sub)
          show "(\<Union>e \<in> set r1. ?A e) \<subseteq> (\<Union>c \<in> ?held. ?A c)" using sub by blast
          show "(\<Union>c \<in> ?held. ?A c) \<subseteq> (\<Union>e \<in> set r1. ?A e)" if C
          proof (rule UN_least)
            fix c assume "c \<in> ?held"
            with res[OF that] obtain e where "e \<in> set r1" "en_Resource c = en_Resource e" by blast
            then show "?A c \<subseteq> (\<Union>e \<in> set r1. ?A e)" by auto
          qed
        qed
        from grows_trans[OF r1 this] have r2: "grows C (?held \<union> (\<Union>c \<in> ?held. ?A c)) [] r2" .
        show ?thesis unfolding Some option.case
        proof (rule gives_bind[OF zone_source_grows[OF S(2) C plain]])
          fix r3 assume "grows C (zone_set d Ts req) r2 r3"
          from grows_trans[OF r2 this] have r3: "grows C (?held \<union> (\<Union>c \<in> ?held. ?A c) \<union> zone_set d Ts req) [] r3" .
          show "gives (at_rest T d Ts) (bind_io (platform_source S req r3) (\<lambda>result. ret (Some result)))
            (may_grow C {c. entitled d Ts req c} [])"
          proof (rule gives_bind[OF platform_source_grows[OF S(2) C plain]])
            fix r4 assume "grows C (platform_set d Ts req) r3 r4"
            from grows_trans[OF r3 this] have "grows C {c. entitled d Ts req c} [] r4" by (simp only: entitled_sets)
            then show "gives (at_rest T d Ts) (ret (Some r4)) (may_grow C {c. entitled d Ts req c} [])"
              by (intro gives_ret) simp
          qed simp_all
        qed simp_all
      qed (simp add: gives_rules)
    qed
  qed simp_all
qed

lemma slice_reply: "entitlement_slice es a b tok = Inr r
    \<Longrightarrow> lr_TotalSize r = int (length es) \<and> (\<exists>i j. lr_Entitlements r = take i (drop j es))"
  by (simp add: entitlement_slice_def split: if_splits) (drule sym, simp, blast)

lemma page_replies:
  "subject_page es n tok = Inr r \<Longrightarrow> lr_TotalSize r = int (length es) \<and> (\<exists>i j. lr_Entitlements r = take i (drop j es))"
  "access_page es n tok = Inr r \<Longrightarrow> lr_TotalSize r = int (length es) \<and> (\<exists>i j. lr_Entitlements r = take i (drop j es))"
  unfolding subject_page_def access_page_def Let_def by (rule slice_reply, assumption)+

lemma slice_keeps:
  assumes "xs = take i (drop j es)" shows "set xs \<subseteq> set es" "distinct (map f es) \<Longrightarrow> distinct (map f xs)"
  using assms by (auto dest!: in_set_takeD in_set_dropD simp flip: take_map drop_map)

text \<open>The deduplicated list counts the identifiers.\<close>

lemma dedup_count: "length (dedupEntitlements es) = card (en_ID ` set es)"
proof -
  have "card (en_ID ` set (dedupEntitlements es)) = length (dedupEntitlements es)"
    using distinct_card[of "map en_ID (dedupEntitlements es)"] by (simp add: dedup_eq first_occurrences_distinct)
  then show ?thesis by (simp add: dedup_eq first_occurrences_ids)
qed

lemma dedup_set: "set (dedupEntitlements es) \<subseteq> set es"
  unfolding dedup_eq by (induction es rule: rev_induct) (auto simp: first_occurrences_snoc)

lemma ListSubjectEntitlements_run:
  assumes "as_store s = Some S" "ListSubjectEntitlements n s req e w = (Some (Inr reply), w')"
  shows "\<exists>es. all_sources n s S req e w = (Some es, w')
    \<and> subject_page (dedupEntitlements (if ls_ResourceType req \<noteq> [] then filter (\<lambda>e. rr_Type (en_Resource e) = ls_ResourceType req) es else es))
        (ls_PageSize req) (ls_PageToken req) = Inr reply"
  using assms(2) unfolding ListSubjectEntitlements_def all_sources_def subject_options_def
  by (auto simp: bind_io_def assms(1) Let_def split: sum.splits option.splits prod.splits)

text \<open>The entitlements of the resource type a request asks for.\<close>

definition of_type :: "string \<Rightarrow> Entitlement \<Rightarrow> bool" where
  "of_type t c \<longleftrightarrow> t = [] \<or> rr_Type (en_Resource c) = t"

lemma shape_ids:
  assumes "shape ` A = shape ` B" shows "en_ID ` {c \<in> A. of_type t c} = en_ID ` {c \<in> B. of_type t c}"
proof -
  have ids: "en_ID ` {c \<in> X. of_type t c} = en_ID ` {c \<in> shape ` X. of_type t c}" for X
  proof -
    have "{c \<in> shape ` X. of_type t c} = shape ` {c \<in> X. of_type t c}" by (auto simp: of_type_def)
    then show ?thesis by (simp add: image_image)
  qed
  show ?thesis unfolding ids[of A] ids[of B] assms by (rule refl)
qed

lemma entitlements_found:
  assumes S: "as_store s = Some S" "store_reads S T"
    and run: "ListSubjectEntitlements n s req e w = (Some (Inr reply), w')"
  shows "db w' = db w" "T (graph w') = T (graph w)"
    "set (lr_Entitlements reply) \<subseteq> {c. entitled (db w) (T (graph w)) req c \<and> of_type (ls_ResourceType req) c}"
    "distinct (map en_ID (lr_Entitlements reply))"
    "full_view S (db w) (T (graph w)) (ls_Subject req) \<Longrightarrow> lr_TotalSize reply
       = int (card (en_ID ` {c. entitled (db w) (T (graph w)) req c \<and> of_type (ls_ResourceType req) c}))"
proof -
  let ?X = "{c. entitled (db w) (T (graph w)) req c}"
  from ListSubjectEntitlements_run[OF S(1) run] obtain es where es: "all_sources n s S req e w = (Some es, w')"
    and page: "subject_page (dedupEntitlements (if ls_ResourceType req \<noteq> []
        then filter (\<lambda>e. rr_Type (en_Resource e) = ls_ResourceType req) es else es)) (ls_PageSize req) (ls_PageToken req) = Inr reply"
    by blast
  have typed: "(if ls_ResourceType req \<noteq> [] then filter (\<lambda>e. rr_Type (en_Resource e) = ls_ResourceType req) es else es)
      = filter (of_type (ls_ResourceType req)) es" by (simp add: of_type_def[abs_def])
  have rest: "at_rest T (db w) (T (graph w)) w" by (simp add: at_rest_def)
  from givesD[OF all_sources_grow[OF S] rest es] have w': "at_rest T (db w) (T (graph w)) w'"
    and grows: "grows (full_view S (db w) (T (graph w)) (ls_Subject req)) ?X [] es" by auto
  from w' show "db w' = db w" "T (graph w') = T (graph w)" by (simp_all add: at_rest_def)
  let ?ds = "dedupEntitlements (filter (of_type (ls_ResourceType req)) es)"
  from page_replies(1)[OF page[unfolded typed]] obtain i j where total: "lr_TotalSize reply = int (length ?ds)"
    and sl: "lr_Entitlements reply = take i (drop j ?ds)" by blast
  have X: "set es \<subseteq> ?X" using grows by (simp add: grows_def)
  show "set (lr_Entitlements reply) \<subseteq> {c. entitled (db w) (T (graph w)) req c \<and> of_type (ls_ResourceType req) c}"
    using slice_keeps(1)[OF sl] dedup_set[of "filter (of_type (ls_ResourceType req)) es"] X by auto
  show "distinct (map en_ID (lr_Entitlements reply))"
    by (rule slice_keeps(2)[OF sl]) (simp add: dedup_eq first_occurrences_distinct)
  assume "full_view S (db w) (T (graph w)) (ls_Subject req)"
  then have "shape ` set es = shape ` ?X" using grows image_mono[OF X, of shape] by (simp add: grows_def subset_antisym)
  from shape_ids[OF this] have "en_ID ` {c \<in> set es. of_type (ls_ResourceType req) c}
      = en_ID ` {c. entitled (db w) (T (graph w)) req c \<and> of_type (ls_ResourceType req) c}" by simp
  then show "lr_TotalSize reply = int (card (en_ID ` {c. entitled (db w) (T (graph w)) req c \<and> of_type (ls_ResourceType req) c}))"
    by (simp add: total dedup_count)
qed

text \<open>C13. No entitlement without a derivation: every entry that \<open>ListSubjectEntitlements\<close> returns is of
  the requested type and has a derivation from unrevoked grants of the zone: directly, through a group
  the subject is a member of, from an ancestor of such a resource, from a zone the subject owns or
  administers, or from the platform; its permissions are those of a role of the grant.  The identifiers
  of the entries are distinct, and the query changes neither tables nor tuples.\<close>

theorem entitlements_sound:
  assumes "as_store s = Some S" "store_reads S T"
    and "ListSubjectEntitlements n s req e w = (Some (Inr reply), w')"
  shows "db w' = db w \<and> T (graph w') = T (graph w) \<and> distinct (map en_ID (lr_Entitlements reply))
    \<and> set (lr_Entitlements reply) \<subseteq> {c. entitled (db w) (T (graph w)) req c \<and> of_type (ls_ResourceType req) c}"
  using entitlements_found[OF assms] by blast

text \<open>C14. Nothing is missed: when the reads of the relationship store succeed, the zone has at most a
  hundred grants, the subject occurs in tuples only by itself and no resource type holds a colon, then the
  total of the reply is exactly the number of derivable entitlements, counted by identifier.\<close>

theorem entitlements_complete:
  assumes "as_store s = Some S" "store_reads S T"
    and "ListSubjectEntitlements n s req e w = (Some (Inr reply), w')"
    and "full_view S (db w) (T (graph w)) (ls_Subject req)"
  shows "lr_TotalSize reply = int (card (en_ID ` {c. entitled (db w) (T (graph w)) req c \<and> of_type (ls_ResourceType req) c}))"
  by (rule entitlements_found(5)[OF assms])

subsection \<open>The access to a resource\<close>

inductive accesses :: "MemoryRepo \<Rightarrow> tuple set \<Rightarrow> ListResourceAccessRequest \<Rightarrow> Entitlement \<Rightarrow> bool"
  for d Ts req where
  direct: "g \<in> listed d (resource_options (la_OrgID req) (la_Resource req)) \<Longrightarrow> \<not> other_subject_type req g
    \<Longrightarrow> role_permissions d g perms \<Longrightarrow> accesses d Ts req (direct_entitlement g perms)"
| member: "g \<in> listed d ((resource_options (la_OrgID req) (la_Resource req))\<lparr>lo_SubjectType := ''group''\<rparr>)
    \<Longrightarrow> la_SubjectType req \<in> {[], ''user''} \<Longrightarrow> t \<in> Ts \<Longrightarrow> wide (members_filter (gr_SubjectID g)) t
    \<Longrightarrow> role_permissions d g perms \<Longrightarrow> accesses d Ts req (member_entitlement (snd (snd t)) g perms)"
| parent: "(la_Resource req, p) \<in> inherits_from Ts \<Longrightarrow> g \<in> listed d (resource_options (la_OrgID req) p)
    \<Longrightarrow> \<not> other_subject_type req g \<Longrightarrow> role_permissions d g perms
    \<Longrightarrow> accesses d Ts req (access_parent_entitlement (la_Resource req) p g perms)"

definition direct_access_set :: "MemoryRepo \<Rightarrow> ListResourceAccessRequest \<Rightarrow> Entitlement set" where
  "direct_access_set d req = ents d direct_entitlement
     {g \<in> listed d (resource_options (la_OrgID req) (la_Resource req)). \<not> other_subject_type req g}"

definition member_set :: "MemoryRepo \<Rightarrow> tuple set \<Rightarrow> ListResourceAccessRequest \<Rightarrow> Entitlement set" where
  "member_set d Ts req = (if la_SubjectType req \<notin> {[], ''user''} then {}
     else \<Union>g \<in> listed d ((resource_options (la_OrgID req) (la_Resource req))\<lparr>lo_SubjectType := ''group''\<rparr>).
       \<Union>t \<in> {t \<in> Ts. wide (members_filter (gr_SubjectID g)) t}. ents d (member_entitlement (snd (snd t))) {g})"

definition parent_access_set :: "MemoryRepo \<Rightarrow> tuple set \<Rightarrow> ListResourceAccessRequest \<Rightarrow> Entitlement set" where
  "parent_access_set d Ts req = (\<Union>t \<in> {t \<in> Ts. wide (parent_filter (la_Resource req)) t}.
     ents d (access_parent_entitlement (la_Resource req) (subject_ref t))
       {g \<in> listed d (resource_options (la_OrgID req) (subject_ref t)). \<not> other_subject_type req g})"

lemma accesses_sets: "{c. accesses d Ts req c} = direct_access_set d req \<union> member_set d Ts req \<union> parent_access_set d Ts req"
  (is "?L = ?R")
proof (intro equalityI subsetI)
  fix c assume "c \<in> ?L"
  then have "accesses d Ts req c" by simp
  then show "c \<in> ?R"
  proof cases
    case (direct g perms)
    then have "c \<in> direct_access_set d req" by (auto simp: direct_access_set_def intro: entsI)
    then show ?thesis by simp
  next
    case (member g t perms)
    then have "c \<in> ents d (member_entitlement (snd (snd t))) {g}" by (auto intro: entsI)
    with member have "c \<in> member_set d Ts req" unfolding member_set_def by (simp only: if_not_P not_not) blast
    then show ?thesis by simp
  next
    case (parent p g perms)
    then obtain t where "t \<in> Ts" "wide (parent_filter (la_Resource req)) t" "p = subject_ref t" by (auto simp: inherits_from_def)
    with parent have "c \<in> parent_access_set d Ts req" unfolding parent_access_set_def
      by (intro UN_I[of t]) (auto intro: entsI)
    then show ?thesis by simp
  qed
next
  fix c assume "c \<in> ?R"
  then consider "c \<in> direct_access_set d req" | "c \<in> member_set d Ts req" | "c \<in> parent_access_set d Ts req" by blast
  then show "c \<in> ?L"
  proof cases
    case 1 then show ?thesis by (auto simp: direct_access_set_def ents_def intro: accesses.direct)
  next
    case 2
    then have ty: "la_SubjectType req \<in> {[], ''user''}" by (auto simp: member_set_def split: if_splits)
    with 2 obtain g t perms where "g \<in> listed d ((resource_options (la_OrgID req) (la_Resource req))\<lparr>lo_SubjectType := ''group''\<rparr>)"
      "t \<in> Ts" "wide (members_filter (gr_SubjectID g)) t" "role_permissions d g perms" "c = member_entitlement (snd (snd t)) g perms"
      unfolding member_set_def ents_def by (simp only: if_not_P not_not) blast
    then show ?thesis using accesses.member ty by simp
  next
    case 3
    then obtain t g perms where "t \<in> Ts" "wide (parent_filter (la_Resource req)) t"
      "g \<in> listed d (resource_options (la_OrgID req) (subject_ref t))" "\<not> other_subject_type req g" "role_permissions d g perms"
      "c = access_parent_entitlement (la_Resource req) (subject_ref t) g perms"
      unfolding parent_access_set_def ents_def by blast
    moreover from this have "(la_Resource req, subject_ref t) \<in> inherits_from Ts" by (auto simp: inherits_from_def)
    ultimately show ?thesis using accesses.parent by simp
  qed
qed

lemma resource_option_fields [simp]:
  "lo_Page (resource_options x r) = 0" "lo_Size (resource_options x r) = 1000"
  by (simp_all add: resource_options_def)

lemma narrow_members_filter: "narrow (members_filter g) t = wide (members_filter g) t"
  by (auto simp: narrow_def wide_def members_filter_def empty_filter_def field_matches_def split: prod.splits)

lemma member_source_grows:
  assumes S: "store_reads S T" and C: "C \<Longrightarrow> reads_succeed S" "C \<Longrightarrow> length (grants d) \<le> 100"
  shows "gives (at_rest T d Ts) (member_source S req acc) (grows C (member_set d Ts req) acc)"
proof -
  let ?opts = "(resource_options (la_OrgID req) (la_Resource req))\<lparr>lo_SubjectType := ''group''\<rparr>"
  let ?X = "\<lambda>g. if la_SubjectType req \<notin> {[], ''user''} then {}
      else \<Union>t \<in> {t \<in> Ts. wide (members_filter (gr_SubjectID g)) t}. ents d (member_entitlement (snd (snd t))) {g}"
  let ?body = "\<lambda>gg result. if la_SubjectType req \<noteq> [] \<and> la_SubjectType req \<noteq> ''user'' then ret result
           else bind_io (on_graph (st_read S (members_filter (gr_SubjectID gg)))) (\<lambda>r.
           case r of Inl _ \<Rightarrow> ret result
           | Inr members \<Rightarrow> fold_io (\<lambda>m result.
                 bind_io (getPermissions (gr_RoleTemplateID gg) (gr_ResourceType gg) (gr_RoleKey gg)) (\<lambda>perms.
                 ret (result @ [member_entitlement (rel_Subject m) gg perms]))) members result)"
  have body: "gives (at_rest T d Ts) (?body g acc) (grows C (?X g) acc)" for g acc
  proof (cases "la_SubjectType req \<notin> {[], ''user''}")
    case True
    then show ?thesis by (simp add: gives_ret grows_same)
  next
    case False
    have "gives (at_rest T d Ts) (bind_io (on_graph (st_read S (members_filter (gr_SubjectID g)))) (\<lambda>r.
           case r of Inl _ \<Rightarrow> ret acc
           | Inr members \<Rightarrow> fold_io (\<lambda>m result.
                 bind_io (getPermissions (gr_RoleTemplateID g) (gr_ResourceType g) (gr_RoleKey g)) (\<lambda>perms.
                 ret (result @ [member_entitlement (rel_Subject m) g perms]))) members acc))
        (grows C (\<Union>t \<in> {t \<in> Ts. wide (members_filter (gr_SubjectID g)) t}. ents d (member_entitlement (snd (snd t))) {g}) acc)"
    proof (rule relations_grow[OF S C(1)])
      fix p :: Relationship and acc
      show "gives (at_rest T d Ts) (bind_io (getPermissions (gr_RoleTemplateID g) (gr_ResourceType g) (gr_RoleKey g)) (\<lambda>perms.
          ret (acc @ [member_entitlement (rel_Subject p) g perms]))) (grows C (ents d (member_entitlement (snd (snd (rel_key p)))) {g}) acc)"
        unfolding rel_key_def snd_conv by (rule entitlement_grows) simp
    qed (simp_all add: narrow_members_filter)
    moreover have "\<not> (la_SubjectType req \<noteq> [] \<and> la_SubjectType req \<noteq> ''user'')" using False by simp
    ultimately show ?thesis using False by (simp only: if_False simp_thms)
  qed
  have set: "member_set d Ts req = (\<Union>g \<in> listed d ?opts. ?X g)" by (auto simp: member_set_def)
  show ?thesis unfolding member_source_def set
  proof (rule gives_bind[OF listed_page[where C = C]])
    fix r :: "err + GrantModel Page"
    assume "\<exists>pg. r = Inr pg \<and> set (pg_Items pg) \<subseteq> listed d ?opts \<and> (C \<longrightarrow> set (pg_Items pg) = listed d ?opts)"
    then obtain pg where r: "r = Inr pg" and pg: "set (pg_Items pg) \<subseteq> listed d ?opts" "C \<Longrightarrow> set (pg_Items pg) = listed d ?opts"
      by blast
    have "gives (at_rest T d Ts) (fold_io ?body (pg_Items pg) acc) (grows C (\<Union>g \<in> set (pg_Items pg). ?X g) acc)"
      by (rule gives_grows_fold) (rule body)
    then have "gives (at_rest T d Ts) (fold_io ?body (pg_Items pg) acc) (grows C (\<Union>g \<in> listed d ?opts. ?X g) acc)"
      by (rule gives_weaken) (elim grows_sub UN_mono[OF _ subset_refl], use pg in blast, use pg in blast)
    then show "gives (at_rest T d Ts) (case r of Inl _ \<Rightarrow> ret acc | Inr gs \<Rightarrow> fold_io ?body (pg_Items gs) acc)
        (grows C (\<Union>g \<in> listed d ?opts. ?X g) acc)" by (simp only: r sum.case)
  qed (use C in simp_all)
qed

lemma access_parent_source_grows:
  assumes S: "store_reads S T" and C: "C \<Longrightarrow> reads_succeed S" "C \<Longrightarrow> length (grants d) \<le> 100"
  shows "gives (at_rest T d Ts) (access_parent_source S req acc) (grows C (parent_access_set d Ts req) acc)"
  unfolding access_parent_source_def parent_access_set_def
proof (rule relations_grow[OF S C(1)])
  fix p :: Relationship and acc
  show "gives (at_rest T d Ts) (bind_io (ListGrants (resource_options (la_OrgID req) (parent_ref p))) (\<lambda>r. case r of Inl _ \<Rightarrow> ret acc
      | Inr gs \<Rightarrow> add_grants (access_parent_entitlement (la_Resource req) (parent_ref p))
                 (filter (\<lambda>g. \<not> other_subject_type req g) (pg_Items gs)) acc))
      (grows C (ents d (access_parent_entitlement (la_Resource req) (subject_ref (rel_key p)))
        {g \<in> listed d (resource_options (la_OrgID req) (subject_ref (rel_key p))). \<not> other_subject_type req g}) acc)"
    unfolding parent_ref_key by (rule listing_grows) (simp_all add: C)
qed (simp_all add: narrow_parent_filter)

definition access_sources :: "'g store \<Rightarrow> ListResourceAccessRequest \<Rightarrow> ('g, Entitlement list) op" where
  "access_sources st req =
     bind_io (bind_io (ListGrants (resource_options (la_OrgID req) (la_Resource req))) (\<lambda>r. case r of Inl _ \<Rightarrow> ret []
       | Inr gs \<Rightarrow> add_grants direct_entitlement (filter (\<lambda>g. \<not> other_subject_type req g) (pg_Items gs)) [])) (\<lambda>result.
     bind_io (member_source st req result) (access_parent_source st req))"

lemma access_sources_grow:
  assumes S: "store_reads S T" and C: "C \<Longrightarrow> reads_succeed S" "C \<Longrightarrow> length (grants d) \<le> 100"
  shows "gives (at_rest T d Ts) (access_sources S req) (grows C {c. accesses d Ts req c} [])"
proof -
  have direct: "gives (at_rest T d Ts) (bind_io (ListGrants (resource_options (la_OrgID req) (la_Resource req))) (\<lambda>r. case r of Inl _ \<Rightarrow> ret []
       | Inr gs \<Rightarrow> add_grants direct_entitlement (filter (\<lambda>g. \<not> other_subject_type req g) (pg_Items gs)) []))
      (grows C (direct_access_set d req) [])"
    unfolding direct_access_set_def by (rule listing_grows) (simp_all add: C)
  show ?thesis unfolding access_sources_def accesses_sets Un_assoc
    by (rule gives_grows_seq[OF direct], rule gives_grows_seq[OF member_source_grows[OF S C]])
      (use access_parent_source_grows[OF S C] in auto)
qed

lemma ListResourceAccess_run:
  assumes "as_store s = Some S" "ListResourceAccess s req e w = (Inr reply, w')"
  shows "\<exists>es. access_sources S req e w = (es, w')
    \<and> access_page (dedupEntitlements es) (la_PageSize req) (la_PageToken req) = Inr reply"
  using assms(2) unfolding ListResourceAccess_def access_sources_def
  by (auto simp: bind_io_def assms(1) split: sum.splits prod.splits)

text \<open>C35. Who has access: \<open>ListResourceAccess\<close> changes nothing, and its entries are derived from
  unrevoked grants on the resource, on a group of which the entry's subject is a member, or on a direct
  parent, with distinct identifiers.  When reads succeed and the zone has at most a hundred grants the
  total is exactly the number of such derivations, counted by identifier.\<close>

theorem resource_access_exact:
  assumes "as_store s = Some S" "store_reads S T"
    and "ListResourceAccess s req e w = (Inr reply, w')"
  shows "db w' = db w \<and> T (graph w') = T (graph w) \<and> distinct (map en_ID (lr_Entitlements reply))
    \<and> set (lr_Entitlements reply) \<subseteq> {c. accesses (db w) (T (graph w)) req c}
    \<and> (reads_succeed S \<and> length (grants (db w)) \<le> 100
       \<longrightarrow> lr_TotalSize reply = int (card (en_ID ` {c. accesses (db w) (T (graph w)) req c})))"
proof -
  let ?X = "{c. accesses (db w) (T (graph w)) req c}"
  let ?C = "reads_succeed S \<and> length (grants (db w)) \<le> 100"
  from ListResourceAccess_run[OF assms(1,3)] obtain es where es: "access_sources S req e w = (es, w')"
    and page: "access_page (dedupEntitlements es) (la_PageSize req) (la_PageToken req) = Inr reply" by blast
  have rest: "at_rest T (db w) (T (graph w)) w" by (simp add: at_rest_def)
  have "gives (at_rest T (db w) (T (graph w))) (access_sources S req) (grows ?C ?X [])"
    by (rule access_sources_grow[OF assms(2)]) simp_all
  from givesD[OF this rest es] have w': "at_rest T (db w) (T (graph w)) w'" and grows: "grows ?C ?X [] es" by auto
  from page_replies(2)[OF page] obtain i j where total: "lr_TotalSize reply = int (length (dedupEntitlements es))"
    and sl: "lr_Entitlements reply = take i (drop j (dedupEntitlements es))" by blast
  have X: "set es \<subseteq> ?X" using grows by (simp add: grows_def)
  have "lr_TotalSize reply = int (card (en_ID ` ?X))" if ?C
  proof -
    have "shape ` set es = shape ` ?X" using grows that image_mono[OF X, of shape] by (simp add: grows_def subset_antisym)
    from shape_ids[OF this, of "[]"] have "en_ID ` set es = en_ID ` ?X" by (simp add: of_type_def)
    then show ?thesis by (simp add: total dedup_count)
  qed
  moreover have "set (lr_Entitlements reply) \<subseteq> ?X" using slice_keeps(1)[OF sl] dedup_set[of es] X by auto
  moreover have "distinct (map en_ID (lr_Entitlements reply))"
    by (rule slice_keeps(2)[OF sl]) (simp add: dedup_eq first_occurrences_distinct)
  ultimately show ?thesis using w' unfolding at_rest_def by blast
qed

subsection \<open>Cycles of parents\<close>

lemma parent_source_stuck:
  assumes S: "as_store s = Some S" "store_reads S T" "reads_succeed S"
    and inj: "\<And>x y. x \<in> E \<Longrightarrow> y \<in> E \<Longrightarrow> resource_key x = resource_key y \<Longrightarrow> en_Resource x = en_Resource y"
  shows "set es \<subseteq> E \<Longrightarrow> c \<in> set es \<Longrightarrow> resource_key c \<notin> set seen \<Longrightarrow> cycle_above Ts (en_Resource c)
    \<Longrightarrow> gives (at_rest T d Ts) (parent_source n s req es seen acc) (\<lambda>r. r = None)"
proof (induction es arbitrary: seen acc)
  case (Cons x es)
  have E: "set es \<subseteq> E" using Cons.prems(1) by simp
  show ?case
  proof (cases "resource_key x \<in> set seen")
    case True
    with Cons.prems have "c \<in> set es" by auto
    from Cons.IH[OF E this Cons.prems(3,4)] True show ?thesis by simp
  next
    case new: False
    show ?thesis
    proof (cases "resource_key x = resource_key c")
      case True
      have "x \<in> E" "c \<in> E" using Cons.prems(1,2) by auto
      from inj[OF this True] Cons.prems(4) have "cycle_above Ts (en_Resource x)" by simp
      from cycle_never_returns[OF S this] show ?thesis unfolding parent_source.simps if_not_P[OF new]
        by (rule gives_bind) (simp add: gives_ret)
    next
      case False
      with Cons.prems have c: "c \<in> set es" "resource_key c \<notin> set (resource_key x # seen)" by auto
      show ?thesis unfolding parent_source.simps if_not_P[OF new]
        by (rule gives_bind[OF trace_keeps[OF S(1,2)]]) (auto intro: gives_ret Cons.IH[OF E c Cons.prems(4)] split: option.splits)
    qed
  qed
qed simp

lemma all_sources_stuck:
  assumes S: "as_store s = Some S" "store_reads S T" and full: "full_view S d Ts (ls_Subject req)"
    and c: "held d Ts req c" "cycle_above Ts (en_Resource c)"
  shows "gives (at_rest T d Ts) (all_sources n s S req) (\<lambda>r. r = None)"
proof -
  have C: "reads_succeed S" "length (grants d) \<le> 100"
    and plain: "\<And>t. t \<in> Ts \<Longrightarrow> wide (group_filter (ls_Subject req)) t \<Longrightarrow> narrow (group_filter (ls_Subject req)) t"
    using full by (simp_all add: full_view_def)
  have direct: "gives (at_rest T d Ts) (bind_io (ListGrants (subject_options req)) (\<lambda>r. case r of Inl _ \<Rightarrow> ret []
       | Inr gs \<Rightarrow> add_grants direct_entitlement (pg_Items gs) [])) (grows True (direct_set d req) [])"
    unfolding direct_set_def by (rule listing_grows_all) (simp_all add: subject_options_def C)
  show ?thesis unfolding all_sources_def
  proof (rule gives_bind[OF direct], rule gives_bind[OF group_source_grows[where C = True, OF S(2) C plain]])
    fix r0 r1 assume "grows True (direct_set d req) [] r0" "grows True (group_set d Ts req) r0 r1"
    from grows_trans[OF this] have r1: "grows True {c. held d Ts req c} [] r1" by (simp add: held_sets)
    then have "shape c \<in> shape ` set r1" using c(1) by (auto simp: grows_def)
    then obtain e where e: "e \<in> set r1" "shape c = shape e" by blast
    then have "en_Resource e = en_Resource c" by (metis shape_fields(2))
    with c(2) have cyc: "cycle_above Ts (en_Resource e)" by simp
    have held: "set r1 \<subseteq> {c. held d Ts req c}" using r1 by (simp add: grows_def)
    have inj: "\<And>x y. x \<in> {c. held d Ts req c} \<Longrightarrow> y \<in> {c. held d Ts req c} \<Longrightarrow> resource_key x = resource_key y
        \<Longrightarrow> en_Resource x = en_Resource y" using held_key_inj[OF full] by blast
    have "gives (at_rest T d Ts) (parent_source n s req r1 [] r1) (\<lambda>r. r = None)"
      by (rule parent_source_stuck[OF S C(1) inj held e(1) _ cyc]) simp_all
    then show "gives (at_rest T d Ts) (bind_io (parent_source n s req r1 [] r1) (\<lambda>r.
        case r of None \<Rightarrow> ret None | Some result \<Rightarrow>
        bind_io (zone_source S req result) (\<lambda>result.
        bind_io (platform_source S req result) (\<lambda>result. ret (Some result))))) (\<lambda>r. r = None)"
      by (rule gives_bind) (simp add: gives_ret)
  qed simp_all
qed

text \<open>C39. One cycle of parents takes the listing down for everyone with access below it: when the view
  is full and a subject holds anything on a resource from which a cycle of parent edges can be reached,
  for instance a resource that was moved under itself, then \<open>ListSubjectEntitlements\<close> never returns for
  this subject, whatever the fuel.\<close>

theorem cyclic_parents_hang:
  assumes "as_store s = Some S" "store_reads S T" "full_view S (db w) (T (graph w)) (ls_Subject req)"
    and "held (db w) (T (graph w)) req c" "cycle_above (T (graph w)) (en_Resource c)"
  shows "fst (ListSubjectEntitlements n s req e w) = None"
proof -
  have "at_rest T (db w) (T (graph w)) w" by (simp add: at_rest_def)
  moreover obtain r w' where run: "all_sources n s S req e w = (r, w')" by (cases "all_sources n s S req e w")
  ultimately have r: "r = None" using givesD[OF all_sources_stuck[OF assms]] by blast
  obtain xs where "fst (ListGrants (subject_options req) e w) = pageOf xs 0 1000"
    by (simp add: ListGrants_def bind_io_def subject_options_def split: prod.splits)
  then have "fst (ListGrants (subject_options req) e w) \<noteq> Inl er" for er using first_page_ok[of xs 1000] by auto
  with run r assms(1) show ?thesis unfolding ListSubjectEntitlements_def all_sources_def subject_options_def
    by (auto simp: bind_io_def split: sum.splits option.splits prod.splits)
qed

text \<open>Entries inherited from a parent by the same grant are the same entry, on whichever child.\<close>

lemma siblings_share_entry:
  assumes "as_store s = Some S" "store_reads S T"
    and "ListSubjectEntitlements n s req e w = (Some (Inr reply), w')"
    and "parent_entitlement req r1 p g q1 \<in> set (lr_Entitlements reply)" "parent_entitlement req r2 p' g q2 \<in> set (lr_Entitlements reply)"
  shows "r1 = r2 \<and> p = p'"
proof -
  have "en_ID (parent_entitlement req r1 p g q1) = en_ID (parent_entitlement req r2 p' g q2)"
    by (simp add: parent_entitlement_def inherited_entitlement_def)
  with entitlements_found(4)[OF assms(1-3)] assms(4,5)
  have "parent_entitlement req r1 p g q1 = parent_entitlement req r2 p' g q2"
    by (auto simp: distinct_map dest: inj_onD)
  then show ?thesis by (simp add: parent_entitlement_def inherited_entitlement_def)
qed

subsection \<open>The preview of a grant\<close>

lemma pageOf_one: "pageOf xs 0 1 = Inr pg \<Longrightarrow> pg_Items pg = take 1 xs"
proof -
  have w: "wrap64 0 = 0" "wrap64 1 = 1" by (simp_all add: wrap64_def)
  show "pageOf xs 0 1 = Inr pg \<Longrightarrow> pg_Items pg = take 1 xs" by (cases xs) (auto simp: pageOf_def Let_def w)
qed

lemma first_grant:
  assumes "lo_Page opts = 0" "lo_Size opts = 1"
  shows "gives (at_rest T d Ts) (ListGrants opts) (\<lambda>r. \<exists>pg. r = Inr pg \<and> set (pg_Items pg) \<subseteq> listed d opts
    \<and> (pg_Items pg = [] \<longleftrightarrow> listed d opts = {}))"
  unfolding ListGrants_def assms
proof (rule gives_bind[OF range_at_rest], rule gives_ret)
  fix vs assume "mset vs = mset (map snd (grants d))"
  from mset_eq_setD[OF this] have set: "set (filter (grant_listed opts) vs) = listed d opts"
    by (auto simp: listed_def stored_grants_def)
  obtain pg where pg: "pageOf (filter (grant_listed opts) vs) 0 1 = Inr pg" using first_page_ok by blast
  have "pg_Items pg = [] \<longleftrightarrow> filter (grant_listed opts) vs = []" using pageOf_one[OF pg] by simp
  then show "\<exists>pg. pageOf (filter (grant_listed opts) vs) 0 1 = Inr pg \<and> set (pg_Items pg) \<subseteq> listed d opts
      \<and> (pg_Items pg = [] \<longleftrightarrow> listed d opts = {})"
    using pg first_page[OF pg] set by (metis set_empty)
qed

text \<open>The unrevoked grants of the subject on the resource, whatever their role.\<close>

definition subject_holds :: "MemoryRepo \<Rightarrow> PreviewGrantRequest \<Rightarrow> GrantModel \<Rightarrow> bool" where
  "subject_holds d req g \<longleftrightarrow> g \<in> stored_grants d \<and> gr_RevokedAt g = None \<and> field_matches (pq_OrgID req) (gr_OrgID g)
     \<and> field_matches (rr_Type (pq_Resource req)) (gr_ResourceType g) \<and> field_matches (rr_ID (pq_Resource req)) (gr_ResourceID g)
     \<and> field_matches (sr_Type (pq_Subject req)) (gr_SubjectType g) \<and> field_matches (sr_ID (pq_Subject req)) (gr_SubjectID g)"

definition previewed_role :: "MemoryRepo \<Rightarrow> PreviewGrantRequest \<Rightarrow> RoleTemplateModel \<Rightarrow> bool" where
  "previewed_role d req v \<longleftrightarrow> v \<in> set (map snd (roles d)) \<and> field_matches (rr_Type (pq_Resource req)) (ro_ResourceType v)
     \<and> ro_RoleKey v = pq_RoleKey req"

definition preview_result :: "MemoryRepo \<Rightarrow> PreviewGrantRequest \<Rightarrow> err + PreviewGrantReply \<Rightarrow> bool" where
  "preview_result d req r = (case r of
     Inl er \<Rightarrow> er = ErrNew (''role template not found: '' @ rr_Type (pq_Resource req) @ ''/'' @ pq_RoleKey req)
       \<and> (\<nexists>v. previewed_role d req v)
   | Inr pv \<Rightarrow> (\<exists>v. previewed_role d req v \<and> pv_Permissions pv = ro_Permissions v \<and> pv_ConsistencyToken pv = ro_ID v)
       \<and> pv_AlreadyGranted pv = (\<exists>g. subject_holds d req g)
       \<and> (if pv_AlreadyGranted pv then \<exists>g. subject_holds d req g \<and> pv_ExistingGrantID pv = gr_ID g
          else pv_ExistingGrantID pv = []))"

lemma same_image: "f ` A = f ` B \<Longrightarrow> x \<in> A \<Longrightarrow> \<exists>y \<in> B. f y = f x"
  by (metis imageE imageI)

lemma preview_roles:
  assumes out: "uncounted ` set out = uncounted ` {v \<in> set (map snd (roles d)). t = [] \<or> ro_ResourceType v = t}"
    and t: "t = rr_Type (pq_Resource req)"
  shows "find (\<lambda>t. ro_RoleKey t = pq_RoleKey req) out = None \<Longrightarrow> \<nexists>v. previewed_role d req v"
    and "find (\<lambda>t. ro_RoleKey t = pq_RoleKey req) out = Some role \<Longrightarrow>
      \<exists>v. previewed_role d req v \<and> ro_Permissions role = ro_Permissions v \<and> ro_ID role = ro_ID v"
proof -
  have role: "\<exists>v \<in> set (map snd (roles d)). (t = [] \<or> ro_ResourceType v = t) \<and> uncounted v = uncounted x" if "x \<in> set out" for x
    using same_image[OF out that] by blast
  have stored: "\<exists>x \<in> set out. uncounted x = uncounted v" if "v \<in> set (map snd (roles d))" "t = [] \<or> ro_ResourceType v = t" for v
    by (rule same_image[OF out[symmetric]]) (use that in simp)
  {
    assume none: "find (\<lambda>t. ro_RoleKey t = pq_RoleKey req) out = None"
    show "\<nexists>v. previewed_role d req v"
    proof
      assume "\<exists>v. previewed_role d req v"
      then obtain v where "previewed_role d req v" by blast
      then have v: "v \<in> set (map snd (roles d))" "t = [] \<or> ro_ResourceType v = t" "ro_RoleKey v = pq_RoleKey req"
        unfolding previewed_role_def field_matches_def t by auto
      from stored[OF v(1,2)] obtain x where x: "x \<in> set out" "uncounted x = uncounted v" by blast
      from uncounted_fields[OF x(2)] v(3) have "ro_RoleKey x = pq_RoleKey req" by simp
      with none x(1) show False by (auto simp: find_None_iff)
    qed
  next
    assume "find (\<lambda>t. ro_RoleKey t = pq_RoleKey req) out = Some role"
    then have r: "role \<in> set out" "ro_RoleKey role = pq_RoleKey req" by (auto simp: find_Some_iff)
    from role[OF r(1)] obtain v where v: "v \<in> set (map snd (roles d))" "t = [] \<or> ro_ResourceType v = t" "uncounted v = uncounted role" by blast
    from uncounted_fields[OF v(3)] r(2) v(1,2) have "previewed_role d req v" "ro_Permissions role = ro_Permissions v" "ro_ID role = ro_ID v"
      unfolding previewed_role_def field_matches_def t by auto
    then show "\<exists>v. previewed_role d req v \<and> ro_Permissions role = ro_Permissions v \<and> ro_ID role = ro_ID v" by blast
  }
qed

lemma PreviewGrant_at_rest: "gives (at_rest T d Ts) (PreviewGrant s req) (preview_result d req)"
  unfolding PreviewGrant_def
proof (rule gives_bind[OF ListRoleTemplates_at_rest])
  let ?t = "rr_Type (pq_Resource req)"
  let ?opts = "no_options\<lparr>lo_OrgID := pq_OrgID req, lo_ResourceType := ?t, lo_ResourceID := rr_ID (pq_Resource req),
     lo_SubjectType := sr_Type (pq_Subject req), lo_SubjectID := sr_ID (pq_Subject req),
     lo_RoleKey := pq_RoleKey req, lo_Active := Some True, lo_Size := 1\<rparr>"
  have holds: "g \<in> listed d ?opts \<longleftrightarrow> subject_holds d req g" for g
    by (auto simp: listed_def grant_listed_def subject_holds_def field_matches_def no_options_def)
  fix r :: "err + RoleTemplateModel list"
  assume "\<exists>out. r = Inr out \<and> uncounted ` set out = uncounted ` {v \<in> set (map snd (roles d)). ?t = [] \<or> ro_ResourceType v = ?t}"
  then obtain out where r: "r = Inr out"
    and out: "uncounted ` set out = uncounted ` {v \<in> set (map snd (roles d)). ?t = [] \<or> ro_ResourceType v = ?t}" by blast
  show "gives (at_rest T d Ts) (case r of Inl er \<Rightarrow> failE (wrap_err ''list role templates'' er) | Inr roleTemplates \<Rightarrow>
      (case find (\<lambda>t. ro_RoleKey t = pq_RoleKey req) roleTemplates of
            None \<Rightarrow> failE (ErrNew (''role template not found: '' @ ?t @ ''/'' @ pq_RoleKey req))
          | Some role \<Rightarrow> bind_io (ListGrants ?opts) (\<lambda>r. case r of Inl er \<Rightarrow> failE (wrap_err ''check existing grants'' er)
              | Inr existing \<Rightarrow> okE \<lparr>pv_Permissions = ro_Permissions role, pv_AlreadyGranted = pg_Items existing \<noteq> [],
                       pv_ExistingGrantID = (case pg_Items existing of [] \<Rightarrow> [] | g # _ \<Rightarrow> gr_ID g),
                       pv_ConsistencyToken = ro_ID role\<rparr>))) (preview_result d req)"
  proof (cases "find (\<lambda>t. ro_RoleKey t = pq_RoleKey req) out")
    case None
    then show ?thesis using preview_roles(1)[OF out refl None] r by (simp add: gives_ret preview_result_def)
  next
    case (Some role)
    note v = preview_roles(2)[OF out refl Some]
    have opts: "lo_Page ?opts = 0" "lo_Size ?opts = 1" by (simp_all add: no_options_def)
    have res: "preview_result d req (Inr \<lparr>pv_Permissions = ro_Permissions role, pv_AlreadyGranted = pg_Items pg \<noteq> [],
        pv_ExistingGrantID = (case pg_Items pg of [] \<Rightarrow> [] | g # _ \<Rightarrow> gr_ID g), pv_ConsistencyToken = ro_ID role\<rparr>)"
      if "set (pg_Items pg) \<subseteq> listed d ?opts" "pg_Items pg = [] \<longleftrightarrow> listed d ?opts = {}" for pg
      using that v holds unfolding preview_result_def by (cases "pg_Items pg") auto
    show ?thesis unfolding r sum.case Some option.case
    proof (rule gives_bind[OF first_grant[OF opts]])
      fix r :: "err + GrantModel Page"
      assume "\<exists>pg. r = Inr pg \<and> set (pg_Items pg) \<subseteq> listed d ?opts \<and> (pg_Items pg = [] \<longleftrightarrow> listed d ?opts = {})"
      then obtain pg where "r = Inr pg" and pg: "set (pg_Items pg) \<subseteq> listed d ?opts" "pg_Items pg = [] \<longleftrightarrow> listed d ?opts = {}"
        by blast
      then show "gives (at_rest T d Ts) (case r of Inl er \<Rightarrow> failE (wrap_err ''check existing grants'' er)
              | Inr existing \<Rightarrow> okE \<lparr>pv_Permissions = ro_Permissions role, pv_AlreadyGranted = pg_Items existing \<noteq> [],
                       pv_ExistingGrantID = (case pg_Items existing of [] \<Rightarrow> [] | g # _ \<Rightarrow> gr_ID g),
                       pv_ConsistencyToken = ro_ID role\<rparr>) (preview_result d req)"
        using res[OF pg] by (simp only: sum.case gives_ret)
    qed
  qed
qed

text \<open>The preview of a grant is an error exactly when the resource type has no role with the key,
  and otherwise shows the permissions of such a role.  It reports the role as granted already as
  soon as the subject has any unrevoked grant on the resource: the role of that grant plays no part.\<close>

theorem preview_exact:
  assumes "PreviewGrant s req e w = (r, w')"
  shows "db w' = db w \<and> preview_result (db w) req r"
proof -
  have "at_rest (\<lambda>_. {}) (db w) {} w" by (simp add: at_rest_def)
  from givesD[OF PreviewGrant_at_rest this assms] show ?thesis by (simp add: at_rest_def)
qed

end
