(* ===== verification/AccessExamples.thy ===== *)
theory AccessExamples
  imports EntitlementLaws
begin

text \<open>
  A small zone, on which the theorems about the access queries are applied: two skills under one
  project, a subject with a grant on each, and the same zone with a skill that is its own parent.
\<close>

subsection \<open>A zone with two skills under one project\<close>

definition access_grant :: "string \<Rightarrow> string \<Rightarrow> string \<Rightarrow> GrantModel" where
  "access_grant i rt rid = (sample_grant i ''zeta'')\<lparr>gr_ResourceType := rt, gr_ResourceID := rid\<rparr>"

definition parent_tuple :: "string \<Rightarrow> Relationship" where
  "parent_tuple sid = \<lparr>rel_Resource = \<lparr>ob_Type = ''skill'', ob_ID = sid\<rparr>, rel_Relation = ''parent'',
     rel_Subject = \<lparr>su_Type = ''project'', su_ID = ''p1'', su_Relation = []\<rparr>, rel_ExpiresAt = 0\<rparr>"

definition access_db :: MemoryRepo where
  "access_db = NewMemoryControlPlaneRepository\<lparr>
     roles := [(''skill:viewer'', (sample_role ''r1'' 1)\<lparr>ro_Permissions := [''view'']\<rparr>)],
     grants := [(''g1'', access_grant ''g1'' ''skill'' ''s1''), (''g2'', access_grant ''g2'' ''project'' ''p1''),
                (''g3'', access_grant ''g3'' ''skill'' ''s2'')]\<rparr>"

definition access_world :: "(Relationship list) world" where
  "access_world = \<lparr>ticks = 0, db = access_db, graph = [parent_tuple ''s1'', parent_tuple ''s2'']\<rparr>"

definition access_service :: "(Relationship list) AccessService" where
  "access_service = NewAccessService (Some (set_store False []))"

definition subject_request :: ListSubjectEntitlementsRequest where
  "subject_request = \<lparr>ls_OrgID = ''zeta'', ls_Subject = \<lparr>sr_Type = ''user'', sr_ID = ''u1'', sr_Relation = []\<rparr>,
     ls_ResourceType = [], ls_PageSize = 0, ls_PageToken = []\<rparr>"

lemma sample_shuffle [simp]: "shuffle (map_order sample_env n) xs = xs"
  by (induction xs) (simp_all add: sample_env_def)

abbreviation "sample_at n \<equiv> access_world\<lparr>ticks := n\<rparr>"

lemmas access_defs = access_grant_def sample_grant_def sample_role_def access_service_def
  NewAccessService_def subject_request_def NewMemoryControlPlaneRepository_def parent_tuple_def

definition sample_grants :: "GrantModel list" where
  "sample_grants = [access_grant ''g1'' ''skill'' ''s1'', access_grant ''g2'' ''project'' ''p1'', access_grant ''g3'' ''skill'' ''s2'']"

lemma access_grant_fields [simp]:
  "gr_ID (access_grant i t r) = i" "gr_ResourceType (access_grant i t r) = t" "gr_ResourceID (access_grant i t r) = r"
  "gr_RoleTemplateID (access_grant i t r) = ''r1''" "gr_RevokedAt (access_grant i t r) = None"
  "gr_OrgID (access_grant i t r) = ''zeta''" "gr_SubjectType (access_grant i t r) = ''user''" "gr_SubjectID (access_grant i t r) = ''u1''"
  by (simp_all add: access_grant_def sample_grant_def)

lemma sample_grants_role: "g \<in> set (filter P sample_grants) \<Longrightarrow> gr_RoleTemplateID g = ''r1''"
  unfolding set_filter by (auto simp: sample_grants_def)

lemma sample_list: "lo_Page opts = 0 \<Longrightarrow> lo_Size opts = 1000 \<Longrightarrow> \<exists>pg. ListGrants opts sample_env (sample_at n) = (Inr pg, sample_at (Suc n))
    \<and> pg_Items pg = filter (grant_listed opts) sample_grants"
proof -
  assume opts: "lo_Page opts = 0" "lo_Size opts = 1000"
  let ?xs = "filter (grant_listed opts) sample_grants"
  obtain pg where pg: "pageOf ?xs 0 1000 = Inr pg" using first_page_ok by blast
  have "pg_Items pg = ?xs" by (rule first_page_all[OF _ pg]) (simp add: sample_grants_def)
  moreover have "ListGrants opts sample_env (sample_at n) = (pageOf ?xs 0 1000, sample_at (Suc n))"
    by (simp add: ListGrants_def bind_io_def tick_def access_world_def access_db_def sample_grants_def opts)
  ultimately show ?thesis using pg by simp
qed

lemma sample_perms: "getPermissions ''r1'' t k sample_env (sample_at n) = ([''view''], sample_at (n + 2))"
  by (simp add: getPermissions_def GetRoleTemplate_def bind_io_def access_world_def access_db_def access_defs
      count_if_active_def grant_unrevoked_of_def tick_def)

lemma sample_add: "(\<And>g. g \<in> set gs \<Longrightarrow> gr_RoleTemplateID g = ''r1'') \<Longrightarrow>
    add_grants f gs acc sample_env (sample_at n) = (acc @ map (\<lambda>g. f g [''view'']) gs, sample_at (n + 2 * length gs))"
  by (induction gs arbitrary: acc n) (simp_all add: add_grants_def bind_io_def sample_perms)

lemma sample_listing:
  assumes "lo_Page opts = 0" "lo_Size opts = 1000"
  shows "bind_io (ListGrants opts) (\<lambda>r. case r of Inl _ \<Rightarrow> h | Inr gs \<Rightarrow> add_grants f (pg_Items gs) acc) sample_env (sample_at n)
    = (let gs = filter (grant_listed opts) sample_grants
       in (acc @ map (\<lambda>g. f g [''view'']) gs, sample_at (Suc n + 2 * length gs)))"
proof -
  obtain pg where "ListGrants opts sample_env (sample_at n) = (Inr pg, sample_at (Suc n))"
    "pg_Items pg = filter (grant_listed opts) sample_grants"
    using sample_list[OF assms] by blast
  then show ?thesis unfolding bind_io_def Let_def
    by (simp only: prod.case sum.case) (rule sample_add, rule sample_grants_role)
qed

lemma sample_read: "on_graph (st_read (set_store False []) f) sample_env (sample_at n)
    = (Inr (filter (\<lambda>r. wide f (rel_key r)) [parent_tuple ''s1'', parent_tuple ''s2'']), sample_at n)"
  by (simp add: on_graph_def set_store_def access_world_def)

lemma sample_wide:
  "wide f (rel_key (parent_tuple sid)) \<longleftrightarrow> field_matches (f_ResourceType f) ''skill'' \<and> field_matches (f_ResourceID f) sid
     \<and> field_matches (f_Relation f) ''parent'' \<and> field_matches (f_SubjectType f) ''project'' \<and> field_matches (f_SubjectID f) ''p1''
     \<and> field_matches (f_SubjectRel f) []"
  by (simp add: wide_def rel_key_def parent_tuple_def)

lemmas sample_eval = grant_listed_def sample_grants_def active_options_def no_options_def
  sample_listing sample_read sample_wide field_matches_def group_filter_def container_filter_def
  parent_filter_def empty_filter_def

lemma sample_group: "group_source (set_store False []) subject_request acc sample_env (sample_at n) = (acc, sample_at n)"
  by (simp add: group_source_def bind_io_def sample_eval subject_request_def)

lemma sample_zone: "zone_source (set_store False []) subject_request acc sample_env (sample_at n) = (acc, sample_at n)"
  by (simp add: zone_source_def bind_io_def sample_eval subject_request_def)

lemma sample_platform: "platform_source (set_store False []) subject_request acc sample_env (sample_at n) = (acc, sample_at n)"
  by (simp add: platform_source_def bind_io_def sample_eval subject_request_def)

lemma sample_trace_step:
  "as_store s = Some (set_store False []) \<Longrightarrow> ls_Subject req = ls_Subject subject_request \<Longrightarrow> ls_OrgID req = ''zeta'' \<Longrightarrow>
   trace_step up req res (parent_tuple sid) (Some acc) sample_env (sample_at n) =
     up \<lparr>rr_Type = ''project'', rr_ID = ''p1''\<rparr>
       (acc @ [parent_entitlement req res \<lparr>rr_Type = ''project'', rr_ID = ''p1''\<rparr> (access_grant ''g2'' ''project'' ''p1'') [''view'']])
       sample_env (sample_at (n + 3))"
proof -
  assume req: "ls_Subject req = ls_Subject subject_request" "ls_OrgID req = ''zeta''"
  let ?p = "\<lparr>rr_Type = ''project'', rr_ID = ''p1''\<rparr>" and ?g = "access_grant ''g2'' ''project'' ''p1''"
  have p: "parent_ref (parent_tuple sid) = ?p" by (simp add: parent_ref_def parent_tuple_def)
  let ?opts = "(active_options (ls_OrgID req))\<lparr>lo_ResourceType := rr_Type ?p, lo_ResourceID := rr_ID ?p,
      lo_SubjectType := sr_Type (ls_Subject req), lo_SubjectID := sr_ID (ls_Subject req)\<rparr>"
  obtain pg where pg: "ListGrants ?opts sample_env (sample_at n) = (Inr pg, sample_at (Suc n))"
    "pg_Items pg = filter (grant_listed ?opts) sample_grants" using sample_list[of ?opts] by auto
  have items: "pg_Items pg = [?g]"
    by (simp add: pg(2) grant_listed_def sample_grants_def active_options_def no_options_def req subject_request_def)
  have "add_grants (parent_entitlement req res ?p) [?g] acc sample_env (sample_at (Suc n))
      = (acc @ map (\<lambda>g. parent_entitlement req res ?p g [''view'']) [?g], sample_at (Suc n + 2 * length [?g]))"
    by (rule sample_add) simp
  then show ?thesis unfolding trace_step_def option.case p bind_io_def pg(1)
    by (simp add: items eval_nat_numeral)
qed

lemma sample_trace_top:
  "0 < n \<Longrightarrow> traceParentInheritance n access_service req \<lparr>rr_Type = ''project'', rr_ID = ''p1''\<rparr> acc sample_env (sample_at k) = (Some acc, sample_at k)"
  by (cases n) (simp_all add: traceParentInheritance.simps(2) access_service_def NewAccessService_def bind_io_def sample_eval)

lemma sample_trace:
  assumes "sid \<in> {''s1'', ''s2''}" "1 < n"
  shows "traceParentInheritance n access_service subject_request \<lparr>rr_Type = ''skill'', rr_ID = sid\<rparr> acc sample_env (sample_at k) =
   (Some (acc @ [parent_entitlement subject_request \<lparr>rr_Type = ''skill'', rr_ID = sid\<rparr> \<lparr>rr_Type = ''project'', rr_ID = ''p1''\<rparr>
       (access_grant ''g2'' ''project'' ''p1'') [''view'']]), sample_at (k + 3))"
proof -
  obtain m where n: "n = Suc m" "0 < m" using assms(2) by (cases n) auto
  have st: "as_store access_service = Some (set_store False [])" by (simp add: access_service_def NewAccessService_def)
  have req: "ls_OrgID subject_request = ''zeta''" by (simp add: subject_request_def)
  have "filter (\<lambda>r. wide (parent_filter \<lparr>rr_Type = ''skill'', rr_ID = sid\<rparr>) (rel_key r)) [parent_tuple ''s1'', parent_tuple ''s2''] = [parent_tuple sid]"
    using assms(1) by (auto simp: sample_wide field_matches_def parent_filter_def empty_filter_def)
  then show ?thesis unfolding n(1) trace_Suc[OF st] bind_io_def sample_read prod.case sum.case
    by (simp only: fold_io.simps bind_io_def sample_trace_step[OF st refl req] sample_trace_top[OF n(2)] prod.case ret_run)
qed

text \<open>What the query finds: three direct grants and, for both skills, the grant on the project, whose
  two entries have the same identifier.\<close>

definition sample_direct_entries :: "Entitlement list" where
  "sample_direct_entries = map (\<lambda>g. direct_entitlement g [''view'']) sample_grants"

definition sample_inherited :: "string \<Rightarrow> Entitlement" where
  "sample_inherited sid = parent_entitlement subject_request \<lparr>rr_Type = ''skill'', rr_ID = sid\<rparr>
     \<lparr>rr_Type = ''project'', rr_ID = ''p1''\<rparr> (access_grant ''g2'' ''project'' ''p1'') [''view'']"

lemma sample_parents:
  "parent_source 2 access_service subject_request sample_direct_entries [] acc sample_env (sample_at n) =
     (Some (acc @ [sample_inherited ''s1'', sample_inherited ''s2'']), sample_at (n + 6))"
  by (simp add: sample_direct_entries_def sample_grants_def direct_entitlement_def resource_key_def bind_io_def
      sample_trace sample_trace_top sample_inherited_def eval_nat_numeral)

lemma sample_all: "all_sources 2 access_service (set_store False []) subject_request sample_env (sample_at 0)
    = (Some (sample_direct_entries @ [sample_inherited ''s1'', sample_inherited ''s2'']), sample_at 13)"
proof -
  let ?opts = "subject_options subject_request"
  have opts: "lo_Page ?opts = 0" "lo_Size ?opts = 1000" by (simp_all add: subject_options_def)
  have all: "filter (grant_listed ?opts) sample_grants = sample_grants" and len: "length sample_grants = 3"
    by (simp_all add: subject_options_def subject_request_def sample_eval)
  have "bind_io (ListGrants ?opts) (\<lambda>r. case r of Inl _ \<Rightarrow> ret [] | Inr gs \<Rightarrow> add_grants direct_entitlement (pg_Items gs) [])
      sample_env (sample_at 0) = (sample_direct_entries, sample_at 7)"
    unfolding sample_listing[OF opts] Let_def all by (simp add: sample_direct_entries_def len)
  then show ?thesis unfolding all_sources_def
    by (simp add: bind_io_def[of "bind_io _ _"] bind_io_def[of "group_source _ _ _"] bind_io_def[of "parent_source _ _ _ _ _ _"]
        bind_io_def[of "zone_source _ _ _"] bind_io_def[of "platform_source _ _ _"] sample_group sample_parents sample_zone sample_platform)
qed

lemma sample_dedup: "dedupEntitlements (sample_direct_entries @ [sample_inherited ''s1'', sample_inherited ''s2''])
    = sample_direct_entries @ [sample_inherited ''s1'']"
proof -
  have "en_ID (sample_inherited sid) = inheritedID ''parent'' ''g2'' ''u1''" for sid
    by (simp add: sample_inherited_def parent_entitlement_def inherited_entitlement_def subject_request_def)
  moreover have "inheritedID ''parent'' ''g2'' ''u1'' \<notin> {''g1'', ''g2'', ''g3''}" by (simp add: inheritedID_def)
  ultimately show ?thesis
    by (simp add: dedupEntitlements_def sample_direct_entries_def sample_grants_def direct_entitlement_def)
qed

definition sample_reply :: EntitlementsReply where
  "sample_reply = \<lparr>lr_Entitlements = sample_direct_entries @ [sample_inherited ''s1''], lr_NextPageToken = [], lr_TotalSize = 4\<rparr>"

lemma ListSubjectEntitlements_of:
  assumes st: "as_store s = Some S" and run: "all_sources n s S req e w = (Some es, w')" and ty: "ls_ResourceType req = []"
  shows "ListSubjectEntitlements n s req e w = (Some (subject_page (dedupEntitlements es) (ls_PageSize req) (ls_PageToken req)), w')"
proof -
  have "fst (ListGrants (subject_options req) e w) \<noteq> Inl er" for er
  proof -
    obtain xs where "fst (ListGrants (subject_options req) e w) = pageOf xs 0 1000"
      by (simp add: ListGrants_def bind_io_def subject_options_def split: prod.splits)
    then show ?thesis using first_page_ok[of xs 1000] by auto
  qed
  then show ?thesis using run unfolding ListSubjectEntitlements_def all_sources_def subject_options_def
    by (auto simp: bind_io_def st ty split: sum.splits option.splits prod.splits)
qed

lemma sample_run: "ListSubjectEntitlements 2 access_service subject_request sample_env access_world = (Some (Inr sample_reply), sample_at 13)"
proof -
  have w: "sample_at 0 = access_world" by (simp add: access_world_def)
  have st: "as_store access_service = Some (set_store False [])" by (simp add: access_service_def NewAccessService_def)
  let ?es = "sample_direct_entries @ [sample_inherited ''s1'']"
  have "length ?es = 4" by (simp add: sample_direct_entries_def sample_grants_def)
  then have "subject_page ?es 0 [] = Inr sample_reply"
    using reply_at(1)[of "[]" 0 ?es 0]
    by (simp add: page_start_def page_size_def max_int64_def reply_from_def sample_reply_def)
  then show ?thesis using ListSubjectEntitlements_of[OF st sample_all] sample_dedup w
    by (simp add: subject_request_def)
qed

subsection \<open>Applications\<close>

lemma set_store_reads: "store_reads (set_store strict down) set_tuples" "reads_succeed (set_store strict down)"
  using tuple_store_set_store by (auto simp: tuple_store_def reads_succeed_def set_store_def)

lemma access_store: "as_store access_service = Some (set_store False [])"
  by (simp add: access_service_def NewAccessService_def)

lemma entitlements_sound_witness:
  "ListSubjectEntitlements 2 access_service subject_request sample_env access_world = (Some (Inr sample_reply), sample_at 13)
   \<and> entitled (db access_world) (set_tuples (graph access_world)) subject_request (sample_inherited ''s1'')"
proof -
  have "sample_inherited ''s1'' \<in> set (lr_Entitlements sample_reply)" by (simp add: sample_reply_def)
  with entitlements_sound[OF access_store set_store_reads(1) sample_run] sample_run show ?thesis by blast
qed

lemma sample_full: "full_view (set_store False []) (db access_world) (set_tuples (graph access_world)) (ls_Subject subject_request)"
  by (auto simp: full_view_def set_store_reads access_world_def access_db_def set_tuples_def sample_eval stored_grants_def)

lemma entitlements_complete_witness:
  "card (en_ID ` {c. entitled (db access_world) (set_tuples (graph access_world)) subject_request c}) = 4"
  using entitlements_complete[OF access_store set_store_reads(1) sample_run sample_full]
  by (simp add: sample_reply_def subject_request_def of_type_def)

definition loop_tuple :: Relationship where
  "loop_tuple = \<lparr>rel_Resource = \<lparr>ob_Type = ''skill'', ob_ID = ''s1''\<rparr>, rel_Relation = ''parent'',
     rel_Subject = \<lparr>su_Type = ''skill'', su_ID = ''s1'', su_Relation = []\<rparr>, rel_ExpiresAt = 0\<rparr>"

lemma trace_returns_iff_witness:
  "\<forall>n. fst (traceParentInheritance n access_service subject_request \<lparr>rr_Type = ''skill'', rr_ID = ''s1''\<rparr> []
         sample_env (access_world\<lparr>graph := [loop_tuple]\<rparr>)) = None"
proof -
  let ?w = "access_world\<lparr>graph := [loop_tuple]\<rparr>" and ?r = "\<lparr>rr_Type = ''skill'', rr_ID = ''s1''\<rparr>"
  have T: "set_tuples (graph ?w) = {rel_key loop_tuple}" by (simp add: set_tuples_def)
  have "(?r, ?r) \<in> inherits_from (set_tuples (graph ?w))"
    unfolding T by (simp add: inherits_from_def loop_tuple_def rel_key_def wide_def parent_filter_def empty_filter_def field_matches_def subject_ref_def)
  then have "cycle_above (set_tuples (graph ?w)) ?r" unfolding cycle_above_def by blast
  with trace_returns_iff[OF access_store set_store_reads, of ?w subject_request ?r "[]" sample_env]
  show ?thesis by (metis T finite.emptyI finite.insertI not_None_eq prod.collapse)
qed

lemma pages_walk_round_trip_witness:
  "walk_pages 5 (subject_page (lr_Entitlements sample_reply) 3) [] = Some (lr_Entitlements sample_reply)"
proof -
  have "length (lr_Entitlements sample_reply) = 4" by (simp add: sample_reply_def sample_direct_entries_def sample_grants_def)
  then show ?thesis using pages_walk_round_trip[of "lr_Entitlements sample_reply" 3]
    by (simp add: page_size_def max_int64_def)
qed

definition loop_world :: "(Relationship list) world" where
  "loop_world = access_world\<lparr>graph := [loop_tuple]\<rparr>"

lemma loop_cycle: "cycle_above (set_tuples (graph loop_world)) \<lparr>rr_Type = ''skill'', rr_ID = ''s1''\<rparr>"
proof -
  let ?r = "\<lparr>rr_Type = ''skill'', rr_ID = ''s1''\<rparr>"
  have "(?r, ?r) \<in> inherits_from (set_tuples (graph loop_world))"
    by (simp add: inherits_from_def loop_world_def set_tuples_def loop_tuple_def rel_key_def wide_def parent_filter_def
        empty_filter_def field_matches_def subject_ref_def)
  then show ?thesis unfolding cycle_above_def by blast
qed

lemma cyclic_parents_hang_witness:
  "\<forall>n. fst (ListSubjectEntitlements n access_service subject_request sample_env loop_world) = None"
proof -
  let ?c = "direct_entitlement (access_grant ''g1'' ''skill'' ''s1'') []"
  have full: "full_view (set_store False []) (db loop_world) (set_tuples (graph loop_world)) (ls_Subject subject_request)"
    by (auto simp: full_view_def set_store_reads loop_world_def access_world_def access_db_def set_tuples_def loop_tuple_def rel_key_def
        wide_def sample_eval stored_grants_def subject_request_def)
  have "access_grant ''g1'' ''skill'' ''s1'' \<in> listed (db loop_world) (subject_options subject_request)"
    by (simp add: listed_def stored_grants_def loop_world_def access_world_def access_db_def subject_options_def subject_request_def sample_eval)
  then have held: "held (db loop_world) (set_tuples (graph loop_world)) subject_request ?c"
    by (rule held.direct) (simp add: role_permissions_def)
  have "cycle_above (set_tuples (graph loop_world)) (en_Resource ?c)"
    using loop_cycle by (simp add: direct_entitlement_def)
  from cyclic_parents_hang[OF access_store set_store_reads(1) full held this] show ?thesis by blast
qed

text \<open>The access to the first skill: its own grant and the one on the project.\<close>

definition access_request :: ListResourceAccessRequest where
  "access_request = \<lparr>la_OrgID = ''zeta'', la_Resource = \<lparr>rr_Type = ''skill'', rr_ID = ''s1''\<rparr>,
     la_SubjectType = [], la_PageSize = 0, la_PageToken = []\<rparr>"

lemma ListResourceAccess_total:
  assumes "as_store s = Some S" "la_PageSize req = 0" "la_PageToken req = []"
  shows "\<exists>reply w'. ListResourceAccess s req e w = (Inr reply, w')"
proof -
  obtain xs where "fst (ListGrants (resource_options (la_OrgID req) (la_Resource req)) e w) = pageOf xs 0 1000"
    by (simp add: ListGrants_def bind_io_def split: prod.splits)
  then obtain pg w1 where "ListGrants (resource_options (la_OrgID req) (la_Resource req)) e w = (Inr pg, w1)"
    using first_page_ok[of xs 1000] by (cases "ListGrants (resource_options (la_OrgID req) (la_Resource req)) e w") auto
  moreover have "\<exists>r. access_page es 0 [] = Inr r" for es
    by (auto simp: access_page_def Let_def page_start_def page_size_def wrap64_def entitlement_slice_def)
  ultimately show ?thesis unfolding ListResourceAccess_def
    by (auto simp: bind_io_def assms split: prod.splits)
qed

lemma resource_access_exact_witness:
  "\<exists>reply w'. ListResourceAccess access_service access_request sample_env access_world = (Inr reply, w')
     \<and> lr_TotalSize reply = int (card (en_ID ` {c. accesses (db access_world) (set_tuples (graph access_world)) access_request c}))
     \<and> access_parent_entitlement \<lparr>rr_Type = ''skill'', rr_ID = ''s1''\<rparr> \<lparr>rr_Type = ''project'', rr_ID = ''p1''\<rparr> (access_grant ''g2'' ''project'' ''p1'') []
         \<in> {c. accesses (db access_world) (set_tuples (graph access_world)) access_request c}"
proof -
  have "la_PageSize access_request = 0" "la_PageToken access_request = []" by (simp_all add: access_request_def)
  from ListResourceAccess_total[OF access_store this] obtain reply w' where
    run: "ListResourceAccess access_service access_request sample_env access_world = (Inr reply, w')" by blast
  have "length (grants (db access_world)) \<le> 100" by (simp add: access_world_def access_db_def)
  with resource_access_exact[OF access_store set_store_reads(1) run] set_store_reads(2)
  have total: "lr_TotalSize reply = int (card (en_ID ` {c. accesses (db access_world) (set_tuples (graph access_world)) access_request c}))"
    by blast
  have edge: "(la_Resource access_request, \<lparr>rr_Type = ''project'', rr_ID = ''p1''\<rparr>) \<in> inherits_from (set_tuples (graph access_world))"
    by (simp add: inherits_from_def access_world_def access_request_def set_tuples_def sample_eval)
      (simp add: subject_ref_def rel_key_def parent_tuple_def)
  have "access_grant ''g2'' ''project'' ''p1'' \<in> listed (db access_world) (resource_options (la_OrgID access_request) \<lparr>rr_Type = ''project'', rr_ID = ''p1''\<rparr>)"
    by (simp add: listed_def stored_grants_def access_world_def access_db_def access_request_def resource_options_def sample_eval)
  from accesses.parent[OF edge this, of "[]"] run total show ?thesis
    by (auto simp: access_request_def other_subject_type_def role_permissions_def)
qed

text \<open>The preview of an editor grant for a subject that only holds viewer grants.\<close>

definition editor_world :: "(Relationship list) world" where
  "editor_world = access_world\<lparr>db := access_db\<lparr>roles := (''skill:editor'',
     (sample_role ''r2'' 1)\<lparr>ro_RoleKey := ''editor'', ro_Permissions := [''edit'']\<rparr>) # roles access_db\<rparr>\<rparr>"

definition editor_request :: PreviewGrantRequest where
  "editor_request = \<lparr>pq_OrgID = ''zeta'', pq_Resource = \<lparr>rr_Type = ''skill'', rr_ID = ''s1''\<rparr>, pq_RoleKey = ''editor'',
     pq_Subject = \<lparr>sr_Type = ''user'', sr_ID = ''u1'', sr_Relation = []\<rparr>\<rparr>"

lemma preview_exact_witness:
  "\<exists>pv w'. PreviewGrant access_service editor_request sample_env editor_world = (Inr pv, w')
     \<and> pv_Permissions pv = [''edit''] \<and> pv_AlreadyGranted pv
     \<and> (\<forall>g \<in> stored_grants (db editor_world). gr_RoleKey g = ''viewer'')"
proof -
  obtain r w' where run: "PreviewGrant access_service editor_request sample_env editor_world = (r, w')"
    by (cases "PreviewGrant access_service editor_request sample_env editor_world")
  from preview_exact[OF run] have res: "preview_result (db editor_world) editor_request r" by blast
  have roles: "previewed_role (db editor_world) editor_request v \<longleftrightarrow> v = (sample_role ''r2'' 1)\<lparr>ro_RoleKey := ''editor'', ro_Permissions := [''edit'']\<rparr>" for v
    by (auto simp: previewed_role_def editor_world_def editor_request_def access_db_def sample_role_def field_matches_def)
  then obtain pv where r: "r = Inr pv" using res by (cases r) (auto simp: preview_result_def)
  have "subject_holds (db editor_world) editor_request (access_grant ''g1'' ''skill'' ''s1'')"
    by (simp add: subject_holds_def stored_grants_def editor_world_def access_db_def editor_request_def field_matches_def)
  then have "pv_AlreadyGranted pv" "pv_Permissions pv = [''edit'']"
    using res roles unfolding r preview_result_def by (auto simp: sample_role_def)
  moreover have "\<forall>g \<in> stored_grants (db editor_world). gr_RoleKey g = ''viewer''"
    by (simp add: stored_grants_def editor_world_def access_db_def access_grant_def sample_grant_def)
  ultimately show ?thesis using run r by blast
qed

end
