(* ===== verification/ApiMessages.thy ===== *)
theory ApiMessages
  imports EntitlementLaws
begin

text \<open>
  The gRPC messages of the control plane (api/iam/project, resource and grant, v1) as far as the
  handlers read or fill them, the principal of the request context, and the conversions of
  internal/service/control_plane.go and project_lifecycle.go between messages and records.

  A message pointer is an option; the getters of a nil message give zero values.  The references
  of package resourcev1 have the fields of \<open>ResourceRef\<close> and \<open>GrantSubject\<close>, which stand for
  them.  A timestamp is its instant.  \<open>'s\<close> is the protobuf Struct; the record \<open>wire\<close> holds the
  third-party protojson codec for it and the results of encoding/json on texts that are no JSON
  array of strings, or that are decoded into a map.
\<close>

record 's wire =
  w_marshal :: "'s \<Rightarrow> err + string"
  w_unmarshal :: "string \<Rightarrow> err + 's"
  w_other_slice :: "string \<Rightarrow> string list"
  w_string_map :: "string \<Rightarrow> string gomap option"

subsection \<open>The principal of the request\<close>

text \<open>\<open>ap_Authenticated\<close> is the kernel's \<open>IsAuthenticated()\<close>.\<close>

record ApiPrincipal =
  ap_Authenticated :: bool
  ap_SubjectType :: string
  ap_SubjectID :: string
  ap_OrgID :: string

definition no_principal :: err where
  "no_principal = ErrMissingCredential ''kernel principal is required''"

definition no_org :: err where
  "no_org = ErrMissingCredential ''kernel principal org_id is required''"

definition authenticated :: "ApiPrincipal option \<Rightarrow> err + ApiPrincipal" where
  "authenticated pn =
     (case pn of None \<Rightarrow> Inl no_principal
      | Some p \<Rightarrow> if ap_Authenticated p then Inr p else Inl no_principal)"

definition principal_type :: "kernel \<Rightarrow> ApiPrincipal \<Rightarrow> string" where
  "principal_type K p =
     (if TrimSpace (ap_SubjectType p) = [] then SubjectTypeUser K else TrimSpace (ap_SubjectType p))"

definition currentPrincipalSubject :: "kernel \<Rightarrow> ApiPrincipal option \<Rightarrow> err + string \<times> string" where
  "currentPrincipalSubject K pn =
     (case authenticated pn of Inl er \<Rightarrow> Inl er
      | Inr p \<Rightarrow> Inr (principal_type K p, TrimSpace (ap_SubjectID p)))"

definition currentOrgID :: "ApiPrincipal option \<Rightarrow> err + string" where
  "currentOrgID pn =
     (case authenticated pn of Inl er \<Rightarrow> Inl er
      | Inr p \<Rightarrow> if TrimSpace (ap_OrgID p) = [] then Inl no_org else Inr (TrimSpace (ap_OrgID p)))"

definition currentProjectContext ::
    "kernel \<Rightarrow> ApiPrincipal option \<Rightarrow> string list \<Rightarrow> err + string \<times> GrantSubject" where
  "currentProjectContext K pn pathOrgIDs =
     (case authenticated pn of Inl er \<Rightarrow> Inl er
      | Inr p \<Rightarrow>
          let orgID = TrimSpace (ap_OrgID p) in
          if orgID = [] then Inl no_org
          else if length pathOrgIDs > 0 \<and> hd pathOrgIDs \<noteq> [] \<and> \<not> EqualFold (hd pathOrgIDs) orgID
          then Inl (ErrPermissionDenied ''org_id mismatch: path org_id does not match principal org_id'')
          else Inr (orgID, \<lparr>sr_Type = principal_type K p, sr_ID = TrimSpace (ap_SubjectID p), sr_Relation = []\<rparr>))"

definition currentProjectSubject :: "kernel \<Rightarrow> ApiPrincipal option \<Rightarrow> err + GrantSubject" where
  "currentProjectSubject K pn =
     (case currentProjectContext K pn [] of Inl er \<Rightarrow> Inl er | Inr (_, subject) \<Rightarrow> Inr subject)"

definition currentGrantSubject :: "kernel \<Rightarrow> ApiPrincipal option \<Rightarrow> err + GrantSubject" where
  "currentGrantSubject K pn =
     (case currentPrincipalSubject K pn of Inl er \<Rightarrow> Inl er
      | Inr (t, i) \<Rightarrow> Inr \<lparr>sr_Type = t, sr_ID = i, sr_Relation = []\<rparr>)"

definition currentResourceSubject :: "kernel \<Rightarrow> ApiPrincipal option \<Rightarrow> err + GrantSubject" where
  "currentResourceSubject K pn =
     (case currentPrincipalSubject K pn of Inl er \<Rightarrow> Inl er
      | Inr (t, i) \<Rightarrow> Inr \<lparr>sr_Type = t, sr_ID = i, sr_Relation = []\<rparr>)"

subsection \<open>References\<close>

definition resourceSubject :: "GrantSubject option \<Rightarrow> GrantSubject" where
  "resourceSubject m =
     (case m of None \<Rightarrow> no_subject
      | Some s \<Rightarrow> \<lparr>sr_Type = sr_Type s, sr_ID = sr_ID s, sr_Relation = sr_Relation s\<rparr>)"

definition grantSubject :: "GrantSubject option \<Rightarrow> GrantSubject" where
  "grantSubject m =
     (case m of None \<Rightarrow> no_subject
      | Some s \<Rightarrow> \<lparr>sr_Type = sr_Type s, sr_ID = sr_ID s, sr_Relation = sr_Relation s\<rparr>)"

definition resourceRef :: "ResourceRef option \<Rightarrow> ResourceRef" where
  "resourceRef m = (case m of None \<Rightarrow> no_resource | Some r \<Rightarrow> \<lparr>rr_Type = rr_Type r, rr_ID = rr_ID r\<rparr>)"

definition grantResource :: "ResourceRef option \<Rightarrow> ResourceRef" where
  "grantResource m = (case m of None \<Rightarrow> no_resource | Some r \<Rightarrow> \<lparr>rr_Type = rr_Type r, rr_ID = rr_ID r\<rparr>)"

definition resourceSubjectOr :: "GrantSubject option \<Rightarrow> GrantSubject \<Rightarrow> GrantSubject" where
  "resourceSubjectOr m fallback =
     (let subject = resourceSubject m in
      if TrimSpace (sr_Type subject) = [] \<or> TrimSpace (sr_ID subject) = [] then fallback else subject)"

text \<open>
  \<open>projectSubjectStringToProto\<close>: type, colon, identifier, and a relation behind the last hash.
\<close>

definition split_last :: "char \<Rightarrow> string \<Rightarrow> (string \<times> string) option" where
  "split_last c s =
     (if c \<in> set s
      then Some (rev (tl (dropWhile ((\<noteq>) c) (rev s))), rev (takeWhile ((\<noteq>) c) (rev s)))
      else None)"

definition split_first :: "char \<Rightarrow> string \<Rightarrow> (string \<times> string) option" where
  "split_first c s =
     (if c \<in> set s then Some (takeWhile ((\<noteq>) c) s, tl (dropWhile ((\<noteq>) c) s)) else None)"

definition projectSubjectStringToProto :: "string \<Rightarrow> GrantSubject option" where
  "projectSubjectStringToProto raw0 =
     (let raw = TrimSpace raw0 in
      if raw = [] then None
      else
        let (raw, relation) = (case split_last (CHR ''#'') raw of None \<Rightarrow> (raw, []) | Some x \<Rightarrow> x) in
        case split_first (CHR '':'') raw of
          None \<Rightarrow> None
        | Some (t, i) \<Rightarrow>
            if TrimSpace t = [] \<or> TrimSpace i = [] then None
            else Some \<lparr>sr_Type = TrimSpace t, sr_ID = TrimSpace i, sr_Relation = TrimSpace relation\<rparr>)"

subsection \<open>JSON columns and timestamps\<close>

definition structToJSON :: "'s wire \<Rightarrow> 's option \<Rightarrow> string \<Rightarrow> string" where
  "structToJSON W m fallback =
     (case m of None \<Rightarrow> fallback
      | Some x \<Rightarrow> (case w_marshal W x of Inl _ \<Rightarrow> fallback | Inr body \<Rightarrow> body))"

definition jsonToStruct :: "'s wire \<Rightarrow> string \<Rightarrow> 's option" where
  "jsonToStruct W raw =
     (if TrimSpace raw = [] then None
      else case w_unmarshal W raw of Inl _ \<Rightarrow> None | Inr x \<Rightarrow> Some x)"

text \<open>\<open>json.Marshal\<close> of a map: the entries in the order of their keys.\<close>

definition json_object :: "string gomap \<Rightarrow> string" where
  "json_object m =
     ''{'' @ Join (map (\<lambda>k. json_string k @ '':'' @ json_string (the (get_key m k))) (sort (map fst m))) '','' @ ''}''"

definition mapStringToJSON :: "string gomap \<Rightarrow> string" where
  "mapStringToJSON m = (if length m = 0 then ''{}'' else json_object m)"

definition stringSliceToJSON :: "string list \<Rightarrow> string" where
  "stringSliceToJSON xs = (if length xs = 0 then ''[]'' else json_array (Some xs))"

definition jsonToStringMap :: "'s wire \<Rightarrow> string \<Rightarrow> string gomap" where
  "jsonToStringMap W raw = (case w_string_map W raw of None \<Rightarrow> [] | Some m \<Rightarrow> m)"

definition jsonToStringSlice :: "'s wire \<Rightarrow> string \<Rightarrow> string list" where
  "jsonToStringSlice W raw = (case json_strings raw of Some xs \<Rightarrow> xs | None \<Rightarrow> w_other_slice W raw)"

definition ts :: "gotime \<Rightarrow> gotime option" where "ts t = (if IsZero t then None else Some t)"

definition tsPtr :: "gotime option \<Rightarrow> gotime option" where
  "tsPtr t = (case t of None \<Rightarrow> None | Some v \<Rightarrow> if IsZero v then None else Some v)"

definition timestampPtr :: "gotime option \<Rightarrow> gotime option" where
  "timestampPtr t = (case t of None \<Rightarrow> None | Some v \<Rightarrow> Some v)"

subsection \<open>Page tokens\<close>

definition api_pageFromToken :: "string \<Rightarrow> int" where
  "api_pageFromToken v = (let n = Atoi_value v in if n \<le> 0 then 1 else n)"

definition nextPage :: "'a Page \<Rightarrow> string" where
  "nextPage p = (if pg_HasMore p then Itoa (wrap64 (pg_Page p + 1)) else [])"

subsection \<open>Enumerations\<close>

text \<open>A protobuf enumeration is open: other numbers can be received.\<close>

datatype LifecycleStatus =
  LIFECYCLE_STATUS_UNSPECIFIED | ACTIVE | ARCHIVED | DELETED | DISABLED | OtherStatus int

datatype ProjectVisibility =
  PROJECT_VISIBILITY_UNSPECIFIED | PRIVATE | ORG | PUBLIC | OtherVisibility int

definition lifecycleToStatus :: "LifecycleStatus \<Rightarrow> string" where
  "lifecycleToStatus v =
     (case v of ACTIVE \<Rightarrow> StatusActive | ARCHIVED \<Rightarrow> StatusArchived | DELETED \<Rightarrow> StatusDeleted
      | DISABLED \<Rightarrow> ''disabled'' | _ \<Rightarrow> [])"

definition statusToLifecycle :: "string \<Rightarrow> LifecycleStatus" where
  "statusToLifecycle v =
     (let s = TrimSpace v in
      if s = StatusActive then ACTIVE else if s = StatusArchived then ARCHIVED
      else if s = StatusDeleted then DELETED else if s = ''disabled'' then DISABLED
      else LIFECYCLE_STATUS_UNSPECIFIED)"

definition visibilityToStatus :: "ProjectVisibility \<Rightarrow> string" where
  "visibilityToStatus v =
     (case v of ORG \<Rightarrow> ''org'' | PUBLIC \<Rightarrow> ''public'' | PRIVATE \<Rightarrow> ''private'' | _ \<Rightarrow> [])"

definition statusToVisibility :: "string \<Rightarrow> ProjectVisibility" where
  "statusToVisibility v =
     (let s = TrimSpace v in
      if s = ''org'' then ORG else if s = ''public'' then PUBLIC else if s = ''private'' then PRIVATE
      else PROJECT_VISIBILITY_UNSPECIFIED)"

end
