(* ===== verification/ProjectApi.thy ===== *)
theory ProjectApi
  imports ApiMessages
begin

text \<open>
  The gRPC project service (internal/service/control_plane.go and project_lifecycle.go): the
  messages of api/iam/project/v1, their conversion from records, and the ten handlers over the
  project service and the repository.  Every handler takes the principal of its context.
\<close>

record 's ProjectMsg =
  mp_Id :: string
  mp_OrgId :: string
  mp_Slug :: string
  mp_DisplayName :: string
  mp_Description :: string
  mp_Status :: LifecycleStatus
  mp_Visibility :: ProjectVisibility
  mp_Labels :: "string gomap"
  mp_Annotations :: "string gomap"
  mp_Metadata :: "'s option"
  mp_CreatedBy :: "GrantSubject option"
  mp_CreatedAt :: "gotime option"
  mp_UpdatedAt :: "gotime option"

record 's CapabilityMsg =
  mc_Id :: string
  mc_Name :: string
  mc_DisplayName :: string
  mc_OwnerService :: string
  mc_Status :: LifecycleStatus
  mc_ConfigSchema :: "'s option"
  mc_CreatedAt :: "gotime option"
  mc_UpdatedAt :: "gotime option"

record 's ProjectCapabilityMsg =
  mk_ProjectId :: string
  mk_CapabilityId :: string
  mk_Enabled :: bool
  mk_Config :: "'s option"
  mk_Quota :: "'s option"
  mk_CreatedAt :: "gotime option"
  mk_UpdatedAt :: "gotime option"

record 's CreateProjectMsg =
  qc_OrgId :: string
  qc_Slug :: string
  qc_DisplayName :: string
  qc_Description :: string
  qc_Visibility :: ProjectVisibility
  qc_Labels :: "string gomap"
  qc_Annotations :: "string gomap"
  qc_Metadata :: "'s option"
  qc_EnableCapabilities :: "string list"

record ListProjectsMsg =
  ql_OrgId :: string
  ql_Query :: string
  ql_Status :: LifecycleStatus
  ql_PageSize :: int
  ql_PageToken :: string

record 's ListProjectsReplyMsg =
  yl_Projects :: "'s ProjectMsg list"
  yl_NextPageToken :: string
  yl_TotalSize :: int

text \<open>Nil maps of labels and annotations are \<open>None\<close>: the handler asks for nil.\<close>

record 's UpdateProjectMsg =
  qu_OrgId :: string
  qu_ProjectId :: string
  qu_DisplayName :: string
  qu_Description :: string
  qu_Visibility :: ProjectVisibility
  qu_Labels :: "string gomap option"
  qu_Annotations :: "string gomap option"
  qu_Metadata :: "'s option"
  qu_UpdateMask :: "string list"

record 's EnableCapabilityMsg =
  qe_OrgId :: string
  qe_ProjectId :: string
  qe_CapabilityId :: string
  qe_Config :: "'s option"
  qe_Quota :: "'s option"

record 's ProjectApi =
  pa_wire :: "'s wire"
  pa_quote :: "string \<Rightarrow> string"

subsection \<open>Conversions\<close>

definition projectModelToProto :: "'s wire \<Rightarrow> ProjectModel \<Rightarrow> 's ProjectMsg" where
  "projectModelToProto W p =
     \<lparr>mp_Id = pr_ID p, mp_OrgId = pr_OrgID p, mp_Slug = pr_Slug p, mp_DisplayName = pr_DisplayName p,
      mp_Description = pr_Description p, mp_Status = statusToLifecycle (pr_Status p),
      mp_Visibility = statusToVisibility (pr_Visibility p), mp_Labels = jsonToStringMap W (pr_LabelsJSON p),
      mp_Annotations = jsonToStringMap W (pr_AnnotationsJSON p), mp_Metadata = jsonToStruct W (pr_MetadataJSON p),
      mp_CreatedBy = projectSubjectStringToProto (pr_CreatedBy p),
      mp_CreatedAt = ts (pr_CreatedAt p), mp_UpdatedAt = ts (pr_UpdatedAt p)\<rparr>"

definition capabilityModelToProto :: "'s wire \<Rightarrow> CapabilityModel \<Rightarrow> 's CapabilityMsg" where
  "capabilityModelToProto W c =
     \<lparr>mc_Id = cap_ID c, mc_Name = cap_Name c, mc_DisplayName = cap_DisplayName c,
      mc_OwnerService = cap_OwnerService c, mc_Status = statusToLifecycle (cap_Status c),
      mc_ConfigSchema = jsonToStruct W (cap_ConfigSchema c), mc_CreatedAt = ts (cap_CreatedAt c),
      mc_UpdatedAt = ts (cap_UpdatedAt c)\<rparr>"

definition projectCapabilityModelToProto :: "'s wire \<Rightarrow> ProjectCapabilityModel \<Rightarrow> 's ProjectCapabilityMsg" where
  "projectCapabilityModelToProto W c =
     \<lparr>mk_ProjectId = pc_ProjectID c, mk_CapabilityId = pc_CapabilityID c, mk_Enabled = pc_Enabled c,
      mk_Config = jsonToStruct W (pc_ConfigJSON c), mk_Quota = jsonToStruct W (pc_QuotaJSON c),
      mk_CreatedAt = ts (pc_CreatedAt c), mk_UpdatedAt = ts (pc_UpdatedAt c)\<rparr>"

text \<open>The optional fields without a mask: a field is set when its value is not the zero value.\<close>

definition no_update :: "'s UpdateProjectMsg \<Rightarrow> string \<Rightarrow> UpdateProjectRequest" where
  "no_update req zoneID =
     \<lparr>uq_ID = qu_ProjectId req, uq_ZoneID = zoneID, uq_DisplayName = None, uq_Description = None,
      uq_Visibility = None, uq_LabelsJSON = None, uq_AnnotationsJSON = None, uq_MetadataJSON = None\<rparr>"

definition unmasked_update :: "'s wire \<Rightarrow> 's UpdateProjectMsg \<Rightarrow> string \<Rightarrow> UpdateProjectRequest" where
  "unmasked_update W req zoneID =
     (no_update req zoneID)\<lparr>
       uq_DisplayName := (if qu_DisplayName req \<noteq> [] then Some (qu_DisplayName req) else None),
       uq_Description := (if qu_Description req \<noteq> [] then Some (qu_Description req) else None),
       uq_Visibility := (let v = visibilityToStatus (qu_Visibility req) in if v \<noteq> [] then Some v else None),
       uq_LabelsJSON := map_option mapStringToJSON (qu_Labels req),
       uq_AnnotationsJSON := map_option mapStringToJSON (qu_Annotations req),
       uq_MetadataJSON := (case qu_Metadata req of None \<Rightarrow> None | Some m \<Rightarrow> Some (structToJSON W (Some m) ''{}''))\<rparr>"

text \<open>An error of package status; its text names the code.\<close>

definition grpc_status :: "string \<Rightarrow> string \<Rightarrow> err" where
  "grpc_status code m = ErrExternal (''rpc error: code = '' @ code @ '' desc = '' @ m)"

text \<open>One path of the mask; the getters of nil maps give the empty map.\<close>

definition the_map :: "string gomap option \<Rightarrow> string gomap" where
  "the_map m = (case m of None \<Rightarrow> [] | Some x \<Rightarrow> x)"

definition mask_path ::
    "'s ProjectApi \<Rightarrow> 's UpdateProjectMsg \<Rightarrow> string \<Rightarrow> UpdateProjectRequest \<Rightarrow> err + UpdateProjectRequest" where
  "mask_path A req path out =
     (if path = ''display_name'' then Inr (out\<lparr>uq_DisplayName := Some (qu_DisplayName req)\<rparr>)
      else if path = ''description'' then Inr (out\<lparr>uq_Description := Some (qu_Description req)\<rparr>)
      else if path = ''visibility'' then
        (let v = visibilityToStatus (qu_Visibility req) in
         if v = [] then Inl (grpc_status ''InvalidArgument'' ''visibility must be PRIVATE, ORG or PUBLIC'')
         else Inr (out\<lparr>uq_Visibility := Some v\<rparr>))
      else if path = ''labels'' then Inr (out\<lparr>uq_LabelsJSON := Some (mapStringToJSON (the_map (qu_Labels req)))\<rparr>)
      else if path = ''annotations''
      then Inr (out\<lparr>uq_AnnotationsJSON := Some (mapStringToJSON (the_map (qu_Annotations req)))\<rparr>)
      else if path = ''metadata''
      then Inr (out\<lparr>uq_MetadataJSON := Some (structToJSON (pa_wire A) (qu_Metadata req) ''{}'')\<rparr>)
      else Inl (grpc_status ''InvalidArgument'' (''unsupported update_mask path '' @ pa_quote A path)))"

primrec mask_loop ::
    "'s ProjectApi \<Rightarrow> 's UpdateProjectMsg \<Rightarrow> string list \<Rightarrow> string list \<Rightarrow> UpdateProjectRequest \<Rightarrow> err + UpdateProjectRequest" where
  "mask_loop A req [] seen out = Inr out"
| "mask_loop A req (raw # paths) seen out =
     (let path = TrimSpace raw in
      if path \<in> set seen then mask_loop A req paths seen out
      else case mask_path A req path out of Inl er \<Rightarrow> Inl er
        | Inr out' \<Rightarrow> mask_loop A req paths (path # seen) out')"

definition projectUpdateFromProto ::
    "'s ProjectApi \<Rightarrow> 's UpdateProjectMsg \<Rightarrow> string \<Rightarrow> err + UpdateProjectRequest" where
  "projectUpdateFromProto A req zoneID =
     (let paths = qu_UpdateMask req in
      if length paths = 0 then Inr (unmasked_update (pa_wire A) req zoneID)
      else mask_loop A req paths [] (no_update req zoneID))"

subsection \<open>Handlers\<close>

text \<open>
  The kernel's constants come with the environment; \<open>in_zone\<close> is the preamble of the handlers.
  The second result of an operation that also returns an error is dropped when there is one.
\<close>

definition in_zone ::
    "ApiPrincipal option \<Rightarrow> string \<Rightarrow> (string \<Rightarrow> GrantSubject \<Rightarrow> ('g, 'a) opE) \<Rightarrow> ('g, 'a) opE" where
  "in_zone pn orgID f =
     bind_io (asks (\<lambda>e w. kern e)) (\<lambda>K.
     bindE (liftE (currentProjectContext K pn [orgID])) (\<lambda>(zoneID, actor). f zoneID actor))"

definition result_or_err :: "'a \<Rightarrow> err option \<Rightarrow> ('g, 'a) opE" where
  "result_or_err x er = (case er of Some e \<Rightarrow> failE e | None \<Rightarrow> okE x)"

definition api_CreateProject ::
    "'s ProjectApi \<Rightarrow> 'g ProjectService \<Rightarrow> ApiPrincipal option \<Rightarrow> 's CreateProjectMsg \<Rightarrow> ('g, 's ProjectMsg) opE" where
  "api_CreateProject A s pn req =
     in_zone pn (qc_OrgId req) (\<lambda>orgID actor.
     bindE (prj_CreateProject s
        \<lparr>cp_ID = [], cp_ZoneID = orgID, cp_Slug = qc_Slug req, cp_DisplayName = qc_DisplayName req,
         cp_Description = qc_Description req, cp_Visibility = visibilityToStatus (qc_Visibility req),
         cp_LabelsJSON = mapStringToJSON (qc_Labels req), cp_AnnotationsJSON = mapStringToJSON (qc_Annotations req),
         cp_MetadataJSON = structToJSON (pa_wire A) (qc_Metadata req) ''{}'',
         cp_CreatedBy = actor, cp_Owner = actor\<rparr>) (\<lambda>(project, _, er).
     result_or_err (projectModelToProto (pa_wire A) project) er))"

definition project_not_found :: "'s ProjectApi \<Rightarrow> string \<Rightarrow> err" where
  "project_not_found A ident = grpc_status ''NotFound'' (''project '' @ pa_quote A ident @ '' not found'')"

definition map_not_found :: "err \<Rightarrow> err \<Rightarrow> err" where
  "map_not_found nf er = (case er of ErrNotFound _ \<Rightarrow> nf | _ \<Rightarrow> er)"

definition api_GetProject ::
    "'s ProjectApi \<Rightarrow> 'g ProjectService \<Rightarrow> ApiPrincipal option \<Rightarrow> string \<Rightarrow> string \<Rightarrow> ('g, 's ProjectMsg) opE" where
  "api_GetProject A s pn orgId projectId =
     in_zone pn orgId (\<lambda>zoneID _.
     bind_io (prj_GetProject s projectId zoneID) (\<lambda>r.
     case r of Inl er \<Rightarrow> failE (map_not_found (project_not_found A projectId) er)
     | Inr project \<Rightarrow> okE (projectModelToProto (pa_wire A) project)))"

definition api_ListProjects ::
    "'s ProjectApi \<Rightarrow> ApiPrincipal option \<Rightarrow> ListProjectsMsg \<Rightarrow> ('g, 's ListProjectsReplyMsg) opE" where
  "api_ListProjects A pn req =
     in_zone pn (ql_OrgId req) (\<lambda>orgID _.
     bindE (ListProjects (no_options\<lparr>lo_OrgID := orgID, lo_Q := ql_Query req,
         lo_Status := lifecycleToStatus (ql_Status req), lo_Page := api_pageFromToken (ql_PageToken req),
         lo_Size := ql_PageSize req\<rparr>)) (\<lambda>page.
     okE \<lparr>yl_Projects = map (projectModelToProto (pa_wire A)) (pg_Items page),
          yl_NextPageToken = nextPage page, yl_TotalSize = pg_Total page\<rparr>))"

definition api_UpdateProject ::
    "'s ProjectApi \<Rightarrow> 'g ProjectService \<Rightarrow> ApiPrincipal option \<Rightarrow> 's UpdateProjectMsg \<Rightarrow> ('g, 's ProjectMsg) opE" where
  "api_UpdateProject A s pn req =
     in_zone pn (qu_OrgId req) (\<lambda>zoneID _.
     bindE (liftE (projectUpdateFromProto A req zoneID)) (\<lambda>update.
     bindE (UpdateProject s update) (\<lambda>project.
     okE (projectModelToProto (pa_wire A) project))))"

definition api_ArchiveProject ::
    "'s ProjectApi \<Rightarrow> 'g ProjectService \<Rightarrow> ApiPrincipal option \<Rightarrow> string \<Rightarrow> string \<Rightarrow> string \<Rightarrow> ('g, 's ProjectMsg) opE" where
  "api_ArchiveProject A s pn orgId projectId reason =
     in_zone pn orgId (\<lambda>zoneID _.
     bindE (prj_ArchiveProject s \<lparr>aq_ID = projectId, aq_ZoneID = zoneID, aq_Reason = TrimSpace reason\<rparr>) (\<lambda>project.
     okE (projectModelToProto (pa_wire A) project)))"

definition api_RegisterCapability ::
    "'s ProjectApi \<Rightarrow> 'g ProjectService \<Rightarrow> 's CapabilityMsg option \<Rightarrow> ('g, 's CapabilityMsg) opE" where
  "api_RegisterCapability A s capability =
     (let field = (\<lambda>f. case capability of None \<Rightarrow> [] | Some m \<Rightarrow> f m) in
      bindE (RegisterCapability s
         \<lparr>rc_ID = field mc_Id, rc_Name = field mc_Name, rc_DisplayName = field mc_DisplayName,
          rc_OwnerService = field mc_OwnerService,
          rc_ConfigSchema = structToJSON (pa_wire A) (case capability of None \<Rightarrow> None | Some m \<Rightarrow> mc_ConfigSchema m) ''{}''\<rparr>)
       (\<lambda>cap. okE (capabilityModelToProto (pa_wire A) cap)))"

definition api_ListCapabilities ::
    "'s ProjectApi \<Rightarrow> LifecycleStatus \<Rightarrow> ('g, 's CapabilityMsg list) opE" where
  "api_ListCapabilities A status =
     bindE (ListCapabilities (no_options\<lparr>lo_Status := lifecycleToStatus status\<rparr>)) (\<lambda>items.
     okE (map (capabilityModelToProto (pa_wire A)) items))"

definition api_EnableProjectCapability ::
    "'s ProjectApi \<Rightarrow> 'g ProjectService \<Rightarrow> ApiPrincipal option \<Rightarrow> 's EnableCapabilityMsg \<Rightarrow> ('g, 's ProjectCapabilityMsg) opE" where
  "api_EnableProjectCapability A s pn req =
     in_zone pn (qe_OrgId req) (\<lambda>zoneID _.
     bindE (prj_SetProjectCapability s
        \<lparr>sp_ZoneID = zoneID, sp_ProjectID = qe_ProjectId req, sp_CapabilityID = qe_CapabilityId req,
         sp_Enabled = True, sp_ConfigJSON = structToJSON (pa_wire A) (qe_Config req) ''{}'',
         sp_QuotaJSON = structToJSON (pa_wire A) (qe_Quota req) ''{}''\<rparr>) (\<lambda>c.
     okE (projectCapabilityModelToProto (pa_wire A) c)))"

definition api_DisableProjectCapability ::
    "'s ProjectApi \<Rightarrow> 'g ProjectService \<Rightarrow> ApiPrincipal option \<Rightarrow> string \<Rightarrow> string \<Rightarrow> string \<Rightarrow> ('g, 's ProjectCapabilityMsg) opE" where
  "api_DisableProjectCapability A s pn orgId projectId capabilityId =
     in_zone pn orgId (\<lambda>zoneID _.
     bindE (prj_SetProjectCapability s
        \<lparr>sp_ZoneID = zoneID, sp_ProjectID = projectId, sp_CapabilityID = capabilityId,
         sp_Enabled = False, sp_ConfigJSON = [], sp_QuotaJSON = []\<rparr>) (\<lambda>c.
     okE (projectCapabilityModelToProto (pa_wire A) c)))"

definition api_ListProjectCapabilities ::
    "'s ProjectApi \<Rightarrow> 'g ProjectService \<Rightarrow> ApiPrincipal option \<Rightarrow> string \<Rightarrow> string \<Rightarrow> bool option \<Rightarrow> ('g, 's ProjectCapabilityMsg list) opE" where
  "api_ListProjectCapabilities A s pn orgId projectId enabled =
     in_zone pn orgId (\<lambda>zoneID _.
     bindE (prj_GetProject s projectId zoneID) (\<lambda>_.
     bindE (ListProjectCapabilities projectId) (\<lambda>items.
     okE (map (projectCapabilityModelToProto (pa_wire A))
       (filter (\<lambda>c. \<not> (enabled \<noteq> None \<and> Some (pc_Enabled c) \<noteq> enabled)) items)))))"

end
