(* ===== verification/ResourceApi.thy ===== *)
theory ResourceApi
  imports ProjectApi
begin

text \<open>
  The gRPC resource service (internal/service/control_plane.go): the messages of
  api/iam/resource/v1 that its handlers use, their conversion from records, and the handlers
  over the resource service and the repository.
\<close>

record 's ResourceTypeMsg =
  my_Type :: string
  my_CapabilityId :: string
  my_OwnerService :: string
  my_ParentTypes :: "string list"
  my_Grantable :: bool
  my_Auditable :: bool
  my_SpicedbType :: string
  my_Relations :: "string list"
  my_Permissions :: "string list"
  my_Metadata :: "'s option"
  my_Status :: string
  my_CreatedAt :: "gotime option"
  my_UpdatedAt :: "gotime option"

record 's ResourceMsg =
  mr_Ref :: "ResourceRef option"
  mr_OrgId :: string
  mr_ProjectId :: string
  mr_Parent :: "ResourceRef option"
  mr_OwnerService :: string
  mr_OwnerResourceId :: string
  mr_Slug :: string
  mr_DisplayName :: string
  mr_Path :: string
  mr_Status :: string
  mr_Visibility :: string
  mr_Labels :: "string gomap"
  mr_Annotations :: "string gomap"
  mr_Metadata :: "'s option"
  mr_CreatedAt :: "gotime option"
  mr_UpdatedAt :: "gotime option"

record BindingMsg =
  mb_Id :: string
  mb_Source :: "ResourceRef option"
  mb_Relation :: string
  mb_Target :: "ResourceRef option"
  mb_Status :: string
  mb_CreatedAt :: "gotime option"
  mb_UpdatedAt :: "gotime option"

record 's ExternalBindingMsg =
  me_Id :: string
  me_Resource :: "ResourceRef option"
  me_Provider :: string
  me_ExternalType :: string
  me_ExternalId :: string
  me_ExternalPath :: string
  me_ExternalUrl :: string
  me_SyncMode :: string
  me_SyncStatus :: string
  me_Metadata :: "'s option"

record 's UpsertResourceMsg =
  qr_OrgId :: string
  qr_Resource :: "'s ResourceMsg option"
  qr_Owner :: "GrantSubject option"

record ListResourcesMsg =
  qs_OrgId :: string
  qs_Type :: string
  qs_ProjectId :: string
  qs_Status :: string
  qs_PageSize :: int
  qs_PageToken :: string

record 's ListResourcesReplyMsg =
  ys_Resources :: "'s ResourceMsg list"
  ys_NextPageToken :: string
  ys_TotalSize :: int

text \<open>The messages a getter reads from when the pointer is nil.\<close>

definition no_type_msg :: "'s ResourceTypeMsg" where
  "no_type_msg = \<lparr>my_Type = [], my_CapabilityId = [], my_OwnerService = [], my_ParentTypes = [],
     my_Grantable = False, my_Auditable = False, my_SpicedbType = [], my_Relations = [],
     my_Permissions = [], my_Metadata = None, my_Status = [], my_CreatedAt = None, my_UpdatedAt = None\<rparr>"

definition no_resource_msg :: "'s ResourceMsg" where
  "no_resource_msg = \<lparr>mr_Ref = None, mr_OrgId = [], mr_ProjectId = [], mr_Parent = None,
     mr_OwnerService = [], mr_OwnerResourceId = [], mr_Slug = [], mr_DisplayName = [], mr_Path = [],
     mr_Status = [], mr_Visibility = [], mr_Labels = [], mr_Annotations = [], mr_Metadata = None,
     mr_CreatedAt = None, mr_UpdatedAt = None\<rparr>"

definition no_binding_msg :: BindingMsg where
  "no_binding_msg = \<lparr>mb_Id = [], mb_Source = None, mb_Relation = [], mb_Target = None, mb_Status = [],
     mb_CreatedAt = None, mb_UpdatedAt = None\<rparr>"

definition no_external_msg :: "'s ExternalBindingMsg" where
  "no_external_msg = \<lparr>me_Id = [], me_Resource = None, me_Provider = [], me_ExternalType = [],
     me_ExternalId = [], me_ExternalPath = [], me_ExternalUrl = [], me_SyncMode = [], me_SyncStatus = [],
     me_Metadata = None\<rparr>"

definition the_msg :: "'m \<Rightarrow> 'm option \<Rightarrow> 'm" where
  "the_msg zero m = (case m of None \<Rightarrow> zero | Some x \<Rightarrow> x)"

subsection \<open>Conversions\<close>

definition resourceTypeModelToProto :: "'s wire \<Rightarrow> ResourceTypeModel \<Rightarrow> 's ResourceTypeMsg" where
  "resourceTypeModelToProto W t =
     \<lparr>my_Type = rt_Type t, my_CapabilityId = rt_CapabilityID t, my_OwnerService = rt_OwnerService t,
      my_ParentTypes = jsonToStringSlice W (rt_ParentTypesJSON t), my_Grantable = rt_Grantable t,
      my_Auditable = rt_Auditable t, my_SpicedbType = rt_SpiceDBType t,
      my_Relations = jsonToStringSlice W (rt_RelationsJSON t),
      my_Permissions = jsonToStringSlice W (rt_PermissionsJSON t),
      my_Metadata = jsonToStruct W (rt_MetadataSchema t), my_Status = rt_Status t,
      my_CreatedAt = ts (rt_CreatedAt t), my_UpdatedAt = ts (rt_UpdatedAt t)\<rparr>"

definition resourceModelToProto :: "'s wire \<Rightarrow> ResourceModel \<Rightarrow> 's ResourceMsg" where
  "resourceModelToProto W r =
     \<lparr>mr_Ref = Some \<lparr>rr_Type = re_Type r, rr_ID = re_ID r\<rparr>, mr_OrgId = re_OrgID r,
      mr_ProjectId = re_ProjectID r, mr_Parent = Some \<lparr>rr_Type = re_ParentType r, rr_ID = re_ParentID r\<rparr>,
      mr_OwnerService = re_OwnerService r, mr_OwnerResourceId = re_OwnerResourceID r, mr_Slug = re_Slug r,
      mr_DisplayName = re_DisplayName r, mr_Path = re_Path r, mr_Status = re_Status r,
      mr_Visibility = re_Visibility r, mr_Labels = jsonToStringMap W (re_LabelsJSON r),
      mr_Annotations = jsonToStringMap W (re_AnnotationsJSON r), mr_Metadata = jsonToStruct W (re_MetadataJSON r),
      mr_CreatedAt = ts (re_CreatedAt r), mr_UpdatedAt = ts (re_UpdatedAt r)\<rparr>"

definition resourceBindingModelToProto :: "ResourceBindingModel \<Rightarrow> BindingMsg" where
  "resourceBindingModelToProto b =
     \<lparr>mb_Id = rb_ID b, mb_Source = Some \<lparr>rr_Type = rb_SourceType b, rr_ID = rb_SourceID b\<rparr>,
      mb_Relation = rb_Relation b, mb_Target = Some \<lparr>rr_Type = rb_TargetType b, rr_ID = rb_TargetID b\<rparr>,
      mb_Status = rb_Status b, mb_CreatedAt = ts (rb_CreatedAt b), mb_UpdatedAt = ts (rb_UpdatedAt b)\<rparr>"

definition externalBindingModelToProto :: "'s wire \<Rightarrow> ExternalResourceBindingModel \<Rightarrow> 's ExternalBindingMsg" where
  "externalBindingModelToProto W b =
     \<lparr>me_Id = eb_ID b, me_Resource = Some \<lparr>rr_Type = eb_ResourceType b, rr_ID = eb_ResourceID b\<rparr>,
      me_Provider = eb_Provider b, me_ExternalType = eb_ExternalType b, me_ExternalId = eb_ExternalID b,
      me_ExternalPath = eb_ExternalPath b, me_ExternalUrl = eb_ExternalURL b, me_SyncMode = eb_SyncMode b,
      me_SyncStatus = eb_SyncStatus b, me_Metadata = jsonToStruct W (eb_MetadataJSON b)\<rparr>"

subsection \<open>Handlers\<close>

definition api_RegisterResourceType ::
    "'s wire \<Rightarrow> 'g ResourceService \<Rightarrow> 's ResourceTypeMsg option \<Rightarrow> ('g, 's ResourceTypeMsg) opE" where
  "api_RegisterResourceType W s m =
     (let t = the_msg no_type_msg m in
      bindE (RegisterResourceType s
        \<lparr>rq_Type = my_Type t, rq_CapabilityID = my_CapabilityId t, rq_OwnerService = my_OwnerService t,
         rq_ParentTypesJSON = stringSliceToJSON (my_ParentTypes t), rq_Grantable = my_Grantable t,
         rq_Auditable = my_Auditable t, rq_SpiceDBType = my_SpicedbType t,
         rq_RelationsJSON = stringSliceToJSON (my_Relations t),
         rq_PermissionsJSON = stringSliceToJSON (my_Permissions t),
         rq_MetadataSchema = structToJSON W (my_Metadata t) ''{}''\<rparr>) (\<lambda>rt.
      okE (resourceTypeModelToProto W rt)))"

definition api_GetResourceType :: "'s wire \<Rightarrow> string \<Rightarrow> ('g, 's ResourceTypeMsg) opE" where
  "api_GetResourceType W resourceType = bindE (GetResourceType resourceType) (\<lambda>rt. okE (resourceTypeModelToProto W rt))"

definition api_ListResourceTypes :: "'s wire \<Rightarrow> string \<Rightarrow> string \<Rightarrow> ('g, 's ResourceTypeMsg list) opE" where
  "api_ListResourceTypes W capabilityId status =
     bindE (ListResourceTypes (no_options\<lparr>lo_CapabilityID := capabilityId, lo_Status := status\<rparr>)) (\<lambda>items.
     okE (map (resourceTypeModelToProto W) items))"

definition api_UpsertResource ::
    "'s wire \<Rightarrow> 'g ResourceService \<Rightarrow> ApiPrincipal option \<Rightarrow> 's UpsertResourceMsg \<Rightarrow> ('g, 's ResourceMsg) opE" where
  "api_UpsertResource W s pn req =
     bind_io (asks (\<lambda>e w. kern e)) (\<lambda>K.
     bindE (liftE (currentResourceSubject K pn)) (\<lambda>actor.
     in_zone pn (qr_OrgId req) (\<lambda>orgID _.
     let m = the_msg no_resource_msg (qr_Resource req) in
     bindE (res_UpsertResource s
        \<lparr>ur_Ref = resourceRef (mr_Ref m), ur_OrgID = orgID, ur_ProjectID = mr_ProjectId m,
         ur_Parent = resourceRef (mr_Parent m), ur_OwnerService = mr_OwnerService m,
         ur_OwnerResourceID = mr_OwnerResourceId m, ur_Slug = mr_Slug m, ur_DisplayName = mr_DisplayName m,
         ur_Path = mr_Path m, ur_Status = mr_Status m, ur_Visibility = mr_Visibility m,
         ur_LabelsJSON = mapStringToJSON (mr_Labels m), ur_AnnotationsJSON = mapStringToJSON (mr_Annotations m),
         ur_MetadataJSON = structToJSON W (mr_Metadata m) ''{}'',
         ur_CreatedBy = actor, ur_Owner = resourceSubjectOr (qr_Owner req) actor\<rparr>) (\<lambda>(model, _, er).
     result_or_err (resourceModelToProto W model) er))))"

definition api_GetResource ::
    "'s wire \<Rightarrow> ApiPrincipal option \<Rightarrow> string \<Rightarrow> string \<Rightarrow> string \<Rightarrow> ('g, 's ResourceMsg) opE" where
  "api_GetResource W pn orgId resourceType resourceId =
     in_zone pn orgId (\<lambda>zoneID _.
     bindE (GetResource resourceType resourceId zoneID) (\<lambda>model.
     if TrimSpace (re_OrgID model) \<noteq> zoneID
     then failE (ErrNew ''resource does not belong to the current zone'')
     else okE (resourceModelToProto W model)))"

definition api_ListResources ::
    "'s wire \<Rightarrow> ApiPrincipal option \<Rightarrow> ListResourcesMsg \<Rightarrow> ('g, 's ListResourcesReplyMsg) opE" where
  "api_ListResources W pn req =
     in_zone pn (qs_OrgId req) (\<lambda>orgID _.
     bindE (ListResources (no_options\<lparr>lo_Type := qs_Type req, lo_OrgID := orgID, lo_ProjectID := qs_ProjectId req,
        lo_Status := qs_Status req, lo_Page := api_pageFromToken (qs_PageToken req), lo_Size := qs_PageSize req\<rparr>)) (\<lambda>page.
     okE \<lparr>ys_Resources = map (resourceModelToProto W) (pg_Items page), ys_NextPageToken = nextPage page,
          ys_TotalSize = pg_Total page\<rparr>))"

definition api_MoveResource ::
    "'s wire \<Rightarrow> 'g ResourceService \<Rightarrow> ApiPrincipal option \<Rightarrow> string \<Rightarrow> string \<Rightarrow> string \<Rightarrow> ResourceRef option
      \<Rightarrow> ('g, 's ResourceMsg) opE" where
  "api_MoveResource W s pn orgId resourceType resourceId newParent =
     in_zone pn orgId (\<lambda>orgID _.
     bindE (MoveResource s (resourceRef (Some \<lparr>rr_Type = resourceType, rr_ID = resourceId\<rparr>))
        (case newParent of None \<Rightarrow> no_resource | Some p \<Rightarrow> resourceRef (Some p)) orgID) (\<lambda>(_, er).
     bindE (result_or_err () er) (\<lambda>_.
     api_GetResource W pn orgId resourceType resourceId)))"

definition api_ArchiveResource ::
    "'s wire \<Rightarrow> 'g ResourceService \<Rightarrow> ApiPrincipal option \<Rightarrow> string \<Rightarrow> string \<Rightarrow> string \<Rightarrow> ('g, 's ResourceMsg) opE" where
  "api_ArchiveResource W s pn orgId resourceType resourceId =
     in_zone pn orgId (\<lambda>orgID _.
     bindE (res_ArchiveResource s (resourceRef (Some \<lparr>rr_Type = resourceType, rr_ID = resourceId\<rparr>)) orgID) (\<lambda>_.
     api_GetResource W pn orgId resourceType resourceId))"

definition api_DeleteResource ::
    "'g ResourceService \<Rightarrow> ApiPrincipal option \<Rightarrow> string \<Rightarrow> string \<Rightarrow> string \<Rightarrow> ('g, ResourceRef \<times> bool) opE" where
  "api_DeleteResource s pn orgId resourceType resourceId =
     in_zone pn orgId (\<lambda>orgID _.
     bindE (res_DeleteResource s (resourceRef (Some \<lparr>rr_Type = resourceType, rr_ID = resourceId\<rparr>)) orgID) (\<lambda>_.
     okE (\<lparr>rr_Type = resourceType, rr_ID = resourceId\<rparr>, True)))"

definition api_BindResource ::
    "'g ResourceService \<Rightarrow> ApiPrincipal option \<Rightarrow> string \<Rightarrow> BindingMsg option \<Rightarrow> ('g, BindingMsg) opE" where
  "api_BindResource s pn orgId binding =
     bind_io (asks (\<lambda>e w. kern e)) (\<lambda>K.
     bindE (liftE (currentResourceSubject K pn)) (\<lambda>actor.
     in_zone pn orgId (\<lambda>orgID _.
     let m = the_msg no_binding_msg binding in
     bindE (res_BindResource s
        \<lparr>bq_ID = mb_Id m, bq_OrgID = orgID, bq_Source = resourceRef (mb_Source m), bq_Relation = mb_Relation m,
         bq_Target = resourceRef (mb_Target m), bq_CreatedBy = actor\<rparr>) (\<lambda>(model, _, er).
     result_or_err (resourceBindingModelToProto model) er))))"

definition api_UnbindResource ::
    "'g ResourceService \<Rightarrow> ApiPrincipal option \<Rightarrow> string \<Rightarrow> string \<Rightarrow> ('g, string \<times> bool) opE" where
  "api_UnbindResource s pn orgId bindingId =
     in_zone pn orgId (\<lambda>orgID _.
     bindE (res_UnbindResource s bindingId orgID) (\<lambda>_. okE (bindingId, True)))"

definition api_ListResourceBindings ::
    "ApiPrincipal option \<Rightarrow> string \<Rightarrow> ResourceRef option \<Rightarrow> string \<Rightarrow> ('g, BindingMsg list \<times> int) opE" where
  "api_ListResourceBindings pn orgId source status =
     in_zone pn orgId (\<lambda>orgID _.
     bindE (ListResourceBindings (no_options\<lparr>lo_OrgID := orgID, lo_ResourceType := rr_Type (the_msg no_resource source),
        lo_ResourceID := rr_ID (the_msg no_resource source), lo_Status := status\<rparr>)) (\<lambda>items.
     okE (map resourceBindingModelToProto items, int (length items))))"

definition api_BindExternalResource ::
    "'s wire \<Rightarrow> 'g ResourceService \<Rightarrow> ApiPrincipal option \<Rightarrow> string \<Rightarrow> 's ExternalBindingMsg option
      \<Rightarrow> ('g, 's ExternalBindingMsg) opE" where
  "api_BindExternalResource W s pn orgId binding =
     (let m = the_msg no_external_msg binding in
      in_zone pn orgId (\<lambda>orgID _.
      bindE (res_BindExternalResource s
        \<lparr>xq_ID = me_Id m, xq_OrgID = orgID, xq_Resource = resourceRef (me_Resource m), xq_Provider = me_Provider m,
         xq_ExternalType = me_ExternalType m, xq_ExternalID = me_ExternalId m, xq_ExternalPath = me_ExternalPath m,
         xq_ExternalURL = me_ExternalUrl m, xq_SyncMode = me_SyncMode m,
         xq_MetadataJSON = structToJSON W (me_Metadata m) ''{}''\<rparr>) (\<lambda>model.
      okE (externalBindingModelToProto W model))))"

definition api_ListExternalResourceBindings ::
    "'s wire \<Rightarrow> ApiPrincipal option \<Rightarrow> string \<Rightarrow> ResourceRef option \<Rightarrow> string \<Rightarrow> string
      \<Rightarrow> ('g, 's ExternalBindingMsg list \<times> int) opE" where
  "api_ListExternalResourceBindings W pn orgId resource provider syncStatus =
     in_zone pn orgId (\<lambda>orgID _.
     bindE (ListExternalResourceBindings (no_options\<lparr>lo_OrgID := orgID,
        lo_ResourceType := rr_Type (the_msg no_resource resource), lo_ResourceID := rr_ID (the_msg no_resource resource),
        lo_Type := provider, lo_Status := syncStatus\<rparr>)) (\<lambda>items.
     okE (map (externalBindingModelToProto W) items, int (length items))))"

end
