(* ===== verification/GrantApi.thy ===== *)
theory GrantApi
  imports ResourceApi
begin

text \<open>
  The gRPC grant service (internal/service/control_plane.go) and the access query service
  (internal/service/access_query.go): messages of api/iam/grant/v1 and api/iam/access/v1, their
  conversion, and the handlers over the grant service, the access queries and the repository.
\<close>

record 's RoleTemplateMsg =
  mt_Id :: string
  mt_ResourceType :: string
  mt_RoleKey :: string
  mt_DisplayName :: string
  mt_Description :: string
  mt_Relation :: string
  mt_BuiltIn :: bool
  mt_Enabled :: bool
  mt_SortOrder :: int
  mt_Metadata :: "'s option"
  mt_CreatedAt :: "gotime option"
  mt_UpdatedAt :: "gotime option"
  mt_Permissions :: "string list"
  mt_ActiveGrantCount :: int
  mt_Version :: int

record GrantMsg =
  mg_Id :: string
  mg_Resource :: "ResourceRef option"
  mg_RoleKey :: string
  mg_Relation :: string
  mg_Subject :: "GrantSubject option"
  mg_Source :: string
  mg_Reason :: string
  mg_ExpiresAt :: "gotime option"
  mg_CreatedBy :: "GrantSubject option"
  mg_CreatedAt :: "gotime option"
  mg_RevokedAt :: "gotime option"
  mg_ConsistencyToken :: string

record UpdateRoleMsg =
  qo_Id :: string
  qo_DisplayName :: string
  qo_Description :: string
  qo_Permissions :: "string list"
  qo_ExpectedVersion :: int

record GrantAccessMsg =
  qg_OrgId :: string
  qg_Resource :: "ResourceRef option"
  qg_RoleKey :: string
  qg_Subject :: "GrantSubject option"
  qg_Source :: string
  qg_Reason :: string
  qg_ExpiresAt :: "gotime option"

record RevokeAccessMsg =
  qv_OrgId :: string
  qv_GrantId :: string
  qv_Reason :: string

record ListGrantsMsg =
  qn_OrgId :: string
  qn_Resource :: "ResourceRef option"
  qn_Subject :: "GrantSubject option"
  qn_Relation :: string
  qn_RoleKey :: string
  qn_Source :: string
  qn_Active :: "bool option"
  qn_PageSize :: int
  qn_PageToken :: string

record ListGrantsReplyMsg =
  yn_Grants :: "GrantMsg list"
  yn_NextPageToken :: string
  yn_TotalSize :: int

record ExplainAccessMsg =
  qx_OrgId :: string
  qx_Resource :: "ResourceRef option"
  qx_Permission :: string
  qx_Subject :: "GrantSubject option"

record ExplainStepMsg =
  mx_Source :: string
  mx_Relation :: string
  mx_Resource :: "ResourceRef option"
  mx_Subject :: "GrantSubject option"
  mx_Reason :: string

record ExplainReplyMsg =
  yx_Allowed :: bool
  yx_Effect :: string
  yx_Reason :: string
  yx_ConsistencyToken :: string
  yx_Steps :: "ExplainStepMsg list"

text \<open>
  An int32 read from an int, as Go's conversion wraps it.  The fields of an entitlement message
  are those of the record.
\<close>

definition wrap32 :: "int \<Rightarrow> int" where "wrap32 i = (i + 2147483648) mod 4294967296 - 2147483648"

subsection \<open>Conversions\<close>

definition roleTemplateModelToProto :: "'s wire \<Rightarrow> RoleTemplateModel \<Rightarrow> 's RoleTemplateMsg" where
  "roleTemplateModelToProto W r =
     \<lparr>mt_Id = ro_ID r, mt_ResourceType = ro_ResourceType r, mt_RoleKey = ro_RoleKey r,
      mt_DisplayName = ro_DisplayName r, mt_Description = ro_Description r, mt_Relation = ro_Relation r,
      mt_BuiltIn = ro_BuiltIn r, mt_Enabled = ro_Enabled r, mt_SortOrder = wrap32 (ro_SortOrder r),
      mt_Metadata = jsonToStruct W (ro_MetadataJSON r), mt_CreatedAt = ts (ro_CreatedAt r),
      mt_UpdatedAt = ts (ro_UpdatedAt r), mt_Permissions = ro_Permissions r,
      mt_ActiveGrantCount = ro_ActiveGrantCount r, mt_Version = ro_Version r\<rparr>"

definition grantModelToProto :: "GrantModel \<Rightarrow> GrantMsg" where
  "grantModelToProto g =
     \<lparr>mg_Id = gr_ID g, mg_Resource = Some \<lparr>rr_Type = gr_ResourceType g, rr_ID = gr_ResourceID g\<rparr>,
      mg_RoleKey = gr_RoleKey g, mg_Relation = gr_Relation g,
      mg_Subject = Some \<lparr>sr_Type = gr_SubjectType g, sr_ID = gr_SubjectID g, sr_Relation = gr_SubjectRelation g\<rparr>,
      mg_Source = gr_Source g, mg_Reason = gr_Reason g, mg_ExpiresAt = tsPtr (gr_ExpiresAt g),
      mg_CreatedBy = Some \<lparr>sr_Type = gr_CreatedByType g, sr_ID = gr_CreatedByID g, sr_Relation = []\<rparr>,
      mg_CreatedAt = ts (gr_CreatedAt g), mg_RevokedAt = tsPtr (gr_RevokedAt g), mg_ConsistencyToken = []\<rparr>"

datatype EntitlementSourceType =
  ENTITLEMENT_SOURCE_TYPE_UNSPECIFIED | DIRECT_GRANT | GROUP_GRANT | PARENT_INHERITANCE
  | ORG_INHERITANCE | PLATFORM_INHERITANCE

record EntitlementMsg =
  ee_Id :: string
  ee_Subject :: "GrantSubject option"
  ee_Resource :: "ResourceRef option"
  ee_RoleKey :: string
  ee_Permissions :: "string list"
  ee_SourceType :: EntitlementSourceType
  ee_SourceSubject :: "GrantSubject option"
  ee_SourceResource :: "ResourceRef option"
  ee_GrantId :: string
  ee_RevocableHere :: bool
  ee_ExpiresAt :: "gotime option"
  ee_ConsistencyToken :: string

definition entitlementToProto :: "Entitlement \<Rightarrow> EntitlementMsg" where
  "entitlementToProto e =
     (let st = en_SourceType e in
      \<lparr>ee_Id = en_ID e,
       ee_Subject = Some \<lparr>sr_Type = sr_Type (en_Subject e), sr_ID = sr_ID (en_Subject e),
         sr_Relation = sr_Relation (en_Subject e)\<rparr>,
       ee_Resource = Some \<lparr>rr_Type = rr_Type (en_Resource e), rr_ID = rr_ID (en_Resource e)\<rparr>,
       ee_RoleKey = en_RoleKey e, ee_Permissions = en_Permissions e,
       ee_SourceType =
         (if st = SourceDirectGrant then DIRECT_GRANT else if st = SourceGroupGrant then GROUP_GRANT
          else if st = SourceParentInheritance then PARENT_INHERITANCE
          else if st = SourceOrgInheritance then ORG_INHERITANCE
          else if st = SourcePlatformInheritance then PLATFORM_INHERITANCE
          else ENTITLEMENT_SOURCE_TYPE_UNSPECIFIED),
       ee_SourceSubject = Some \<lparr>sr_Type = sr_Type (en_SourceSubject e), sr_ID = sr_ID (en_SourceSubject e),
         sr_Relation = []\<rparr>,
       ee_SourceResource = Some \<lparr>rr_Type = rr_Type (en_SourceResource e), rr_ID = rr_ID (en_SourceResource e)\<rparr>,
       ee_GrantId = en_GrantID e, ee_RevocableHere = en_RevocableHere e, ee_ExpiresAt = en_ExpiresAt e,
       ee_ConsistencyToken = en_ConsistencyToken e\<rparr>)"

subsection \<open>Handlers of the grant service\<close>

definition no_role_msg :: "'s RoleTemplateMsg" where
  "no_role_msg = \<lparr>mt_Id = [], mt_ResourceType = [], mt_RoleKey = [], mt_DisplayName = [],
     mt_Description = [], mt_Relation = [], mt_BuiltIn = False, mt_Enabled = False, mt_SortOrder = 0,
     mt_Metadata = None, mt_CreatedAt = None, mt_UpdatedAt = None, mt_Permissions = [],
     mt_ActiveGrantCount = 0, mt_Version = 0\<rparr>"

text \<open>The three handlers of role templates ignore a missing principal; its zero value is used.\<close>

definition actor_or_zero :: "kernel \<Rightarrow> ApiPrincipal option \<Rightarrow> GrantSubject" where
  "actor_or_zero K pn = (case currentGrantSubject K pn of Inl _ \<Rightarrow> no_subject | Inr a \<Rightarrow> a)"

definition org_or_zero :: "ApiPrincipal option \<Rightarrow> string" where
  "org_or_zero pn = (case currentOrgID pn of Inl _ \<Rightarrow> [] | Inr org \<Rightarrow> org)"

definition api_RegisterRoleTemplate ::
    "'s wire \<Rightarrow> 'g GrantService \<Rightarrow> ApiPrincipal option \<Rightarrow> 's RoleTemplateMsg option \<Rightarrow> ('g, 's RoleTemplateMsg) opE" where
  "api_RegisterRoleTemplate W s pn role =
     bind_io (asks (\<lambda>e w. kern e)) (\<lambda>K.
     let m = the_msg no_role_msg role;
         orgID = (if mt_BuiltIn m then [] else org_or_zero pn)
     in bindE (RegisterRoleTemplate s
          \<lparr>rg_ID = mt_Id m, rg_OrgID = orgID, rg_ResourceType = mt_ResourceType m, rg_RoleKey = mt_RoleKey m,
           rg_DisplayName = mt_DisplayName m, rg_Description = mt_Description m, rg_Relation = mt_Relation m,
           rg_BuiltIn = mt_BuiltIn m, rg_Enabled = mt_Enabled m, rg_SortOrder = mt_SortOrder m,
           rg_MetadataJSON = structToJSON W (mt_Metadata m) ''{}'', rg_Permissions = mt_Permissions m,
           rg_Actor = actor_or_zero K pn\<rparr>) (\<lambda>r.
        okE (roleTemplateModelToProto W r)))"

definition api_UpdateRoleTemplate ::
    "'s wire \<Rightarrow> 'g GrantService \<Rightarrow> ApiPrincipal option \<Rightarrow> UpdateRoleMsg \<Rightarrow> ('g, 's RoleTemplateMsg) opE" where
  "api_UpdateRoleTemplate W s pn req =
     bind_io (asks (\<lambda>e w. kern e)) (\<lambda>K.
     bindE (svc_UpdateRoleTemplate s
        \<lparr>up_ID = qo_Id req, up_DisplayName = qo_DisplayName req, up_Description = qo_Description req,
         up_Permissions = qo_Permissions req, up_ExpectedVersion = qo_ExpectedVersion req,
         up_Actor = actor_or_zero K pn\<rparr>) (\<lambda>r.
     okE (roleTemplateModelToProto W r)))"

definition api_DisableRoleTemplate ::
    "'s wire \<Rightarrow> 'g GrantService \<Rightarrow> ApiPrincipal option \<Rightarrow> string \<Rightarrow> int \<Rightarrow> bool \<Rightarrow> ('g, 's RoleTemplateMsg) opE" where
  "api_DisableRoleTemplate W s pn ident expectedVersion confirm =
     bind_io (asks (\<lambda>e w. kern e)) (\<lambda>K.
     bindE (DisableRoleTemplate s
        \<lparr>ds_ID = ident, ds_ExpectedVersion = expectedVersion, ds_ConfirmActiveGrants = confirm,
         ds_Actor = actor_or_zero K pn\<rparr>) (\<lambda>r.
     okE (roleTemplateModelToProto W r)))"

definition api_PreviewRoleTemplateImpact ::
    "string \<Rightarrow> string list \<Rightarrow> ('g, int \<times> string list \<times> string list) opE" where
  "api_PreviewRoleTemplateImpact ident permissions =
     bindE (PreviewRoleTemplateImpact ident permissions) (\<lambda>i.
     okE (im_ActiveGrantCount i, im_AddedPermissions i, im_RemovedPermissions i))"

definition api_ListRoleTemplates ::
    "'s wire \<Rightarrow> string \<Rightarrow> string \<Rightarrow> bool option \<Rightarrow> ('g, 's RoleTemplateMsg list) opE" where
  "api_ListRoleTemplates W resourceType roleKey enabled =
     bindE (ListRoleTemplates resourceType) (\<lambda>items.
     okE (map (roleTemplateModelToProto W)
       (filter (\<lambda>r. (roleKey = [] \<or> ro_RoleKey r = roleKey) \<and> (enabled = None \<or> Some (ro_Enabled r) = enabled)) items)))"

definition api_GrantAccess ::
    "'g GrantService \<Rightarrow> ApiPrincipal option \<Rightarrow> GrantAccessMsg \<Rightarrow> ('g, GrantMsg) opE" where
  "api_GrantAccess s pn req =
     bind_io (asks (\<lambda>e w. kern e)) (\<lambda>K.
     bindE (liftE (currentGrantSubject K pn)) (\<lambda>actor.
     in_zone pn (qg_OrgId req) (\<lambda>orgID _.
     bindE (GrantAccess s
        \<lparr>gq_OrgID = orgID, gq_Resource = grantResource (qg_Resource req), gq_RoleKey = qg_RoleKey req,
         gq_Subject = grantSubject (qg_Subject req), gq_Source = qg_Source req, gq_Reason = qg_Reason req,
         gq_ExpiresAt = timestampPtr (qg_ExpiresAt req), gq_CreatedBy = actor\<rparr>) (\<lambda>(grant, wr, er).
     result_or_err ((grantModelToProto grant)\<lparr>mg_ConsistencyToken := wr_Token wr\<rparr>) er))))"

definition api_RevokeAccess ::
    "'g GrantService \<Rightarrow> ApiPrincipal option \<Rightarrow> RevokeAccessMsg \<Rightarrow> ('g, string \<times> bool \<times> string) opE" where
  "api_RevokeAccess s pn req =
     bind_io (asks (\<lambda>e w. kern e)) (\<lambda>K.
     bindE (liftE (currentGrantSubject K pn)) (\<lambda>actor.
     in_zone pn (qv_OrgId req) (\<lambda>orgID _.
     bindE (RevokeAccess s
        \<lparr>rv_GrantID = qv_GrantId req, rv_OrgID = orgID, rv_Reason = qv_Reason req,
         rv_DeleteGraphRelationship = True, rv_Actor = actor\<rparr>) (\<lambda>(wr, er).
     result_or_err (qv_GrantId req, True, wr_Token wr) er))))"

definition api_ListGrants :: "ApiPrincipal option \<Rightarrow> ListGrantsMsg \<Rightarrow> ('g, ListGrantsReplyMsg) opE" where
  "api_ListGrants pn req =
     (let res = the_msg no_resource (qn_Resource req); sub = the_msg no_subject (qn_Subject req) in
      in_zone pn (qn_OrgId req) (\<lambda>orgID _.
      bindE (ListGrants (no_options\<lparr>lo_OrgID := orgID, lo_ResourceType := rr_Type res, lo_ResourceID := rr_ID res,
         lo_SubjectType := sr_Type sub, lo_SubjectID := sr_ID sub, lo_Relation := qn_Relation req,
         lo_RoleKey := qn_RoleKey req, lo_Source := qn_Source req, lo_Active := qn_Active req,
         lo_Page := api_pageFromToken (qn_PageToken req), lo_Size := qn_PageSize req\<rparr>)) (\<lambda>page.
      okE \<lparr>yn_Grants = map grantModelToProto (pg_Items page), yn_NextPageToken = nextPage page,
           yn_TotalSize = pg_Total page\<rparr>)))"

definition step_msg :: "ExplainStep \<Rightarrow> ExplainStepMsg" where
  "step_msg st =
     \<lparr>mx_Source = xs_Source st, mx_Relation = xs_Relation st,
      mx_Resource = Some \<lparr>rr_Type = rr_Type (xs_Resource st), rr_ID = rr_ID (xs_Resource st)\<rparr>,
      mx_Subject = Some \<lparr>sr_Type = sr_Type (xs_Subject st), sr_ID = sr_ID (xs_Subject st),
        sr_Relation = sr_Relation (xs_Subject st)\<rparr>, mx_Reason = xs_Reason st\<rparr>"

definition api_ExplainAccess ::
    "'g GrantService \<Rightarrow> ApiPrincipal option \<Rightarrow> ExplainAccessMsg \<Rightarrow> ('g, ExplainReplyMsg) opE" where
  "api_ExplainAccess s pn req =
     in_zone pn (qx_OrgId req) (\<lambda>_ _.
     bindE (ExplainAccess s
        \<lparr>xp_Resource = grantResource (qx_Resource req), xp_Permission = qx_Permission req,
         xp_Subject = grantSubject (qx_Subject req)\<rparr>) (\<lambda>reply.
     okE \<lparr>yx_Allowed = xr_Allowed reply, yx_Effect = xr_Effect reply, yx_Reason = xr_Reason reply,
          yx_ConsistencyToken = xr_ConsistencyToken reply, yx_Steps = map step_msg (xr_Steps reply)\<rparr>))"

subsection \<open>Handlers of the access queries\<close>

record SubjectEntitlementsMsg =
  qk_OrgId :: string
  qk_Subject :: "GrantSubject option"
  qk_ResourceType :: string
  qk_PageSize :: int
  qk_PageToken :: string

record ResourceAccessMsg =
  qa_OrgId :: string
  qa_Resource :: "ResourceRef option"
  qa_SubjectType :: string
  qa_PageSize :: int
  qa_PageToken :: string

record PreviewGrantMsg =
  qp_OrgId :: string
  qp_Resource :: "ResourceRef option"
  qp_RoleKey :: string
  qp_Subject :: "GrantSubject option"

definition bare_subject :: "GrantSubject option \<Rightarrow> GrantSubject" where
  "bare_subject m =
     \<lparr>sr_Type = sr_Type (the_msg no_subject m), sr_ID = sr_ID (the_msg no_subject m), sr_Relation = []\<rparr>"

definition entitlements_msg :: "EntitlementsReply \<Rightarrow> EntitlementMsg list \<times> string \<times> int" where
  "entitlements_msg reply =
     (map entitlementToProto (lr_Entitlements reply), lr_NextPageToken reply, lr_TotalSize reply)"

text \<open>\<open>None\<close>: the query has not returned within the fuel.\<close>

definition api_ListSubjectEntitlements ::
    "nat \<Rightarrow> 'g AccessService \<Rightarrow> ApiPrincipal option \<Rightarrow> SubjectEntitlementsMsg
      \<Rightarrow> ('g, (err + EntitlementMsg list \<times> string \<times> int) option) op" where
  "api_ListSubjectEntitlements fuel s pn req =
     bind_io (asks (\<lambda>e w. kern e)) (\<lambda>K.
     case currentProjectContext K pn [qk_OrgId req] of Inl er \<Rightarrow> ret (Some (Inl er))
     | Inr (orgID, _) \<Rightarrow>
         bind_io (ListSubjectEntitlements fuel s
            \<lparr>ls_OrgID = orgID, ls_Subject = bare_subject (qk_Subject req), ls_ResourceType = qk_ResourceType req,
             ls_PageSize = qk_PageSize req, ls_PageToken = qk_PageToken req\<rparr>) (\<lambda>r.
         ret (map_option (map_sum id entitlements_msg) r)))"

definition api_ListResourceAccess ::
    "'g AccessService \<Rightarrow> ApiPrincipal option \<Rightarrow> ResourceAccessMsg \<Rightarrow> ('g, EntitlementMsg list \<times> string \<times> int) opE" where
  "api_ListResourceAccess s pn req =
     in_zone pn (qa_OrgId req) (\<lambda>orgID _.
     bindE (ListResourceAccess s
        \<lparr>la_OrgID = orgID, la_Resource = resourceRef (qa_Resource req), la_SubjectType = qa_SubjectType req,
         la_PageSize = qa_PageSize req, la_PageToken = qa_PageToken req\<rparr>) (\<lambda>reply.
     okE (entitlements_msg reply)))"

definition api_PreviewGrant ::
    "'g AccessService \<Rightarrow> ApiPrincipal option \<Rightarrow> PreviewGrantMsg \<Rightarrow> ('g, PreviewGrantReply) opE" where
  "api_PreviewGrant s pn req =
     in_zone pn (qp_OrgId req) (\<lambda>orgID _.
     bindE (PreviewGrant s
        \<lparr>pq_OrgID = orgID, pq_Resource = resourceRef (qp_Resource req), pq_RoleKey = qp_RoleKey req,
         pq_Subject = bare_subject (qp_Subject req)\<rparr>) (\<lambda>reply. okE reply))"

end
