(* ===== verification/ApiLaws.thy ===== *)
theory ApiLaws
  imports GrantApi
begin

text \<open>
  What the gRPC layer adds to the services: a request without a principal of the zone it names is
  refused before anything happens, listings and lookups stay inside the zone of the principal,
  updates change what their mask names, and what a creation returns is what a lookup finds.
\<close>

subsection \<open>Admission\<close>

text \<open>The principal is authenticated, has a zone, and the request names that zone or none.\<close>

definition admitted :: "ApiPrincipal option \<Rightarrow> string \<Rightarrow> string \<Rightarrow> bool" where
  "admitted pn org zone \<longleftrightarrow>
     (\<exists>p. pn = Some p \<and> ap_Authenticated p \<and> zone = TrimSpace (ap_OrgID p) \<and> zone \<noteq> []
        \<and> (org = [] \<or> EqualFold org zone))"

definition actor_of :: "kernel \<Rightarrow> ApiPrincipal option \<Rightarrow> GrantSubject" where
  "actor_of K pn = (case pn of None \<Rightarrow> no_subject
     | Some p \<Rightarrow> \<lparr>sr_Type = principal_type K p, sr_ID = TrimSpace (ap_SubjectID p), sr_Relation = []\<rparr>)"

lemma currentProjectContext_iff:
  "currentProjectContext K pn [org] = Inr (z, a) \<longleftrightarrow> admitted pn org z \<and> a = actor_of K pn"
  by (auto simp: currentProjectContext_def authenticated_def admitted_def actor_of_def Let_def split: option.split)

lemma admitted_zone: "admitted pn org z \<Longrightarrow> TrimSpace z = z \<and> z \<noteq> []"
  by (auto simp: admitted_def)

lemma in_zone_admitted: "admitted pn org z \<Longrightarrow> in_zone pn org f e w = f z (actor_of (kern e) pn) e w"
  using currentProjectContext_iff[of "kern e" pn org z "actor_of (kern e) pn"]
  by (simp add: in_zone_def bind_io_def)

lemma in_zone_refused: "\<nexists>z. admitted pn org z \<Longrightarrow> \<exists>er. in_zone pn org f e w = (Inl er, w)"
  using currentProjectContext_iff[of "kern e" pn org]
  by (cases "currentProjectContext (kern e) pn [org]") (auto simp: in_zone_def bind_io_def)

lemma in_zone_Inr: "in_zone pn org f e w = (Inr y, w') \<Longrightarrow>
    \<exists>z. admitted pn org z \<and> f z (actor_of (kern e) pn) e w = (Inr y, w')"
proof -
  assume run: "in_zone pn org f e w = (Inr y, w')"
  then obtain z where "admitted pn org z" using in_zone_refused[of pn org f e w] by force
  then show ?thesis using run in_zone_admitted[of pn org z f e w] by auto
qed

lemma subject_or_refused:
  assumes "\<And>a. \<exists>er. f a e w = (Inl er, w)"
  shows "\<exists>er. bindE (liftE r) f e w = (Inl er, w)"
  using assms by (cases r) auto

definition refused :: "('g, 'a) opE \<Rightarrow> env \<Rightarrow> 'g world \<Rightarrow> bool" where
  "refused m e w \<longleftrightarrow> (\<exists>er. m e w = (Inl er, w))"

lemma refused_in_zone: "\<nexists>z. admitted pn org z \<Longrightarrow> refused (in_zone pn org f) e w"
  unfolding refused_def by (rule in_zone_refused)

lemma refused_after_subject:
  "\<nexists>z. admitted pn org z \<Longrightarrow>
     refused (bind_io (asks (\<lambda>e w. kern e)) (\<lambda>K. bindE (liftE (g K)) (\<lambda>a. in_zone pn org (f K a)))) e w"
  unfolding refused_def
  using in_zone_refused[of pn org _ e w] by (auto simp: bind_io_def intro!: subject_or_refused)

lemma entitlements_refused:
  assumes "\<nexists>z. admitted pn org z" "qk_OrgId ls = org"
  shows "\<exists>er. api_ListSubjectEntitlements fuel acs pn ls e w = (Some (Inl er), w)"
  using assms currentProjectContext_iff[of "kern e" pn org]
  by (cases "currentProjectContext (kern e) pn [org]") (auto simp: api_ListSubjectEntitlements_def bind_io_def)

text \<open>C2. Without an authenticated principal whose zone is the one the request names, if it names
  one, every zone-scoped handler fails and leaves clock, tables and tuples as they are.\<close>

theorem unadmitted_refused:
  assumes "\<nexists>z. admitted pn org z"
  shows "(qc_OrgId cr = org \<longrightarrow> refused (api_CreateProject A ps pn cr) e w)
    \<and> refused (api_GetProject A ps pn org i) e w
    \<and> (ql_OrgId lp = org \<longrightarrow> refused (api_ListProjects A pn lp) e w)
    \<and> (qu_OrgId up = org \<longrightarrow> refused (api_UpdateProject A ps pn up) e w)
    \<and> refused (api_ArchiveProject A ps pn org i reason) e w
    \<and> (qe_OrgId en = org \<longrightarrow> refused (api_EnableProjectCapability A ps pn en) e w)
    \<and> refused (api_DisableProjectCapability A ps pn org i cap) e w
    \<and> refused (api_ListProjectCapabilities A ps pn org i enabled) e w
    \<and> (qr_OrgId ur = org \<longrightarrow> refused (api_UpsertResource W rs pn ur) e w)
    \<and> refused (api_GetResource W pn org ty i) e w
    \<and> (qs_OrgId lr = org \<longrightarrow> refused (api_ListResources W pn lr) e w)
    \<and> refused (api_MoveResource W rs pn org ty i parent) e w
    \<and> refused (api_ArchiveResource W rs pn org ty i) e w
    \<and> refused (api_DeleteResource rs pn org ty i) e w
    \<and> refused (api_BindResource rs pn org binding) e w
    \<and> refused (api_UnbindResource rs pn org i) e w
    \<and> refused (api_ListResourceBindings pn org src st) e w
    \<and> refused (api_BindExternalResource W rs pn org ext) e w
    \<and> refused (api_ListExternalResourceBindings W pn org src prov st) e w
    \<and> (qg_OrgId ga = org \<longrightarrow> refused (api_GrantAccess gs pn ga) e w)
    \<and> (qv_OrgId rv = org \<longrightarrow> refused (api_RevokeAccess gs pn rv) e w)
    \<and> (qn_OrgId lg = org \<longrightarrow> refused (api_ListGrants pn lg) e w)
    \<and> (qx_OrgId xp = org \<longrightarrow> refused (api_ExplainAccess gs pn xp) e w)
    \<and> (qk_OrgId ls = org \<longrightarrow> (\<exists>er. api_ListSubjectEntitlements fuel acs pn ls e w = (Some (Inl er), w)))
    \<and> (qa_OrgId la = org \<longrightarrow> refused (api_ListResourceAccess acs pn la) e w)
    \<and> (qp_OrgId pq = org \<longrightarrow> refused (api_PreviewGrant acs pn pq) e w)"
  unfolding api_CreateProject_def api_GetProject_def api_ListProjects_def api_UpdateProject_def
    api_ArchiveProject_def api_EnableProjectCapability_def api_DisableProjectCapability_def
    api_ListProjectCapabilities_def api_UpsertResource_def api_GetResource_def api_ListResources_def
    api_MoveResource_def api_ArchiveResource_def api_DeleteResource_def api_BindResource_def
    api_UnbindResource_def api_ListResourceBindings_def api_BindExternalResource_def Let_def
    api_ListExternalResourceBindings_def api_GrantAccess_def api_RevokeAccess_def api_ListGrants_def
    api_ExplainAccess_def api_ListResourceAccess_def api_PreviewGrant_def
  by (intro conjI impI entitlements_refused[OF assms])
    (use assms in \<open>auto intro: refused_in_zone refused_after_subject\<close>)

subsection \<open>Reads inside the zone\<close>

lemma page_items: "pageOf xs p n = Inr pg \<Longrightarrow> set (pg_Items pg) \<subseteq> set xs"
  unfolding pageOf_def Let_def
  by (drule if_Inr, simp only: Page.select_convs) (meson order_trans set_drop_subset set_take_subset)

lemma listings_tick:
  "ListProjects opts e w = (r1, w1) \<Longrightarrow> w1 = tick w" "ListResources opts e w = (r2, w2) \<Longrightarrow> w2 = tick w"
  "ListGrants opts e w = (r3, w3) \<Longrightarrow> w3 = tick w"
  by (auto simp: ListProjects_def ListResources_def ListGrants_def bind_io_def)

lemma ListProjects_zone:
  assumes "ListProjects opts e w = (Inr pg, w')" "lo_OrgID opts \<noteq> []" "x \<in> set (pg_Items pg)"
  shows "x \<in> snd ` set (projects (db w)) \<and> pr_OrgID x = lo_OrgID opts"
  using assms by (auto simp: ListProjects_def bind_io_def dest!: page_items)

lemma ListResources_zone:
  assumes "ListResources opts e w = (Inr pg, w')" "lo_OrgID opts \<noteq> []" "x \<in> set (pg_Items pg)"
  shows "x \<in> snd ` set (resources (db w)) \<and> re_OrgID x = lo_OrgID opts"
  using assms by (auto simp: ListResources_def bind_io_def dest!: page_items)

lemma ListGrants_zone:
  assumes "ListGrants opts e w = (Inr pg, w')" "lo_OrgID opts \<noteq> []" "x \<in> set (pg_Items pg)"
  shows "x \<in> snd ` set (grants (db w)) \<and> gr_OrgID x = lo_OrgID opts"
  using assms by (auto simp: ListGrants_def grant_listed_def bind_io_def dest!: page_items)

lemma read_project:
  assumes "api_GetProject A s pn org i e w = (Inr m, w')"
  shows "\<exists>z x. admitted pn org z \<and> w' = w \<and> project_at (db w) (TrimSpace i) = Some x \<and> pr_OrgID x = z
    \<and> m = projectModelToProto (pa_wire A) x"
proof -
  obtain z where z: "admitted pn org z" and
    run: "bind_io (prj_GetProject s i z) (\<lambda>r. case r of Inl er \<Rightarrow> failE (map_not_found (project_not_found A i) er)
      | Inr project \<Rightarrow> okE (projectModelToProto (pa_wire A) project)) e w = (Inr m, w')"
    using in_zone_Inr[OF assms[unfolded api_GetProject_def]] by blast
  obtain r w1 where r: "loadProjectInZone s i z e w = (r, w1)" by (cases "loadProjectInZone s i z e w")
  obtain x where "loadProjectInZone s i z e w = (Inr x, w')" "m = projectModelToProto (pa_wire A) x"
    using run r by (cases r) (auto simp: bind_io_def prj_GetProject_def)
  then show ?thesis using loadProjectInZone_run[of s i z e w x w'] admitted_zone[OF z] z by metis
qed

lemma read_resource:
  assumes "api_GetResource W pn org ty i e w = (Inr m, w')"
  shows "\<exists>z x. admitted pn org z \<and> w' = w \<and> resource_at (db w) (ty, i) = Some x \<and> re_OrgID x = z
    \<and> m = resourceModelToProto W x"
proof -
  obtain z where z: "admitted pn org z" and
    run: "bindE (GetResource ty i z) (\<lambda>model. if TrimSpace (re_OrgID model) \<noteq> z
     then failE (ErrNew ''resource does not belong to the current zone'')
     else okE (resourceModelToProto W model)) e w = (Inr m, w')"
    using in_zone_Inr[OF assms[unfolded api_GetResource_def]] by blast
  then obtain x w1 where g: "GetResource ty i z e w = (Inr x, w1)" and
    "(if TrimSpace (re_OrgID x) \<noteq> z then failE (ErrNew ''resource does not belong to the current zone'')
     else okE (resourceModelToProto W x)) e w1 = (Inr m, w')"
    by (auto simp: bindE_Inr_iff)
  then have "m = resourceModelToProto W x" "w' = w1" by (auto split: if_splits)
  moreover have "resource_at (db w) (ty, i) = Some x \<and> re_OrgID x = z \<and> w1 = w"
    using resource_reads.get_ok[of "(ty, i)" z e w x w1] g by simp
  ultimately show ?thesis using z by blast
qed

lemma list_projects:
  assumes "api_ListProjects A pn req e w = (Inr y, w')"
  shows "\<exists>z pg. admitted pn (ql_OrgId req) z \<and> w' = tick w
    \<and> ListProjects (no_options\<lparr>lo_OrgID := z, lo_Q := ql_Query req, lo_Status := lifecycleToStatus (ql_Status req),
         lo_Page := api_pageFromToken (ql_PageToken req), lo_Size := ql_PageSize req\<rparr>) e w = (Inr pg, w')
    \<and> y = \<lparr>yl_Projects = map (projectModelToProto (pa_wire A)) (pg_Items pg),
          yl_NextPageToken = nextPage pg, yl_TotalSize = pg_Total pg\<rparr>"
  using in_zone_Inr[OF assms[unfolded api_ListProjects_def]] listings_tick(1) by (auto simp: bindE_Inr_iff) blast

lemma list_resources:
  assumes "api_ListResources W pn req e w = (Inr y, w')"
  shows "\<exists>z pg. admitted pn (qs_OrgId req) z \<and> w' = tick w
    \<and> ListResources (no_options\<lparr>lo_Type := qs_Type req, lo_OrgID := z, lo_ProjectID := qs_ProjectId req,
        lo_Status := qs_Status req, lo_Page := api_pageFromToken (qs_PageToken req), lo_Size := qs_PageSize req\<rparr>) e w
      = (Inr pg, w')
    \<and> y = \<lparr>ys_Resources = map (resourceModelToProto W) (pg_Items pg), ys_NextPageToken = nextPage pg,
          ys_TotalSize = pg_Total pg\<rparr>"
  using in_zone_Inr[OF assms[unfolded api_ListResources_def]] listings_tick(2) by (auto simp: bindE_Inr_iff) blast

lemma list_grants:
  assumes "api_ListGrants pn req e w = (Inr y, w')"
  shows "\<exists>z pg opts. admitted pn (qn_OrgId req) z \<and> w' = tick w \<and> lo_OrgID opts = z
    \<and> ListGrants opts e w = (Inr pg, w') \<and> yn_Grants y = map grantModelToProto (pg_Items pg)"
proof -
  let ?opts = "\<lambda>z. no_options\<lparr>lo_OrgID := z, lo_ResourceType := rr_Type (the_msg no_resource (qn_Resource req)),
      lo_ResourceID := rr_ID (the_msg no_resource (qn_Resource req)),
      lo_SubjectType := sr_Type (the_msg no_subject (qn_Subject req)),
      lo_SubjectID := sr_ID (the_msg no_subject (qn_Subject req)), lo_Relation := qn_Relation req,
      lo_RoleKey := qn_RoleKey req, lo_Source := qn_Source req, lo_Active := qn_Active req,
      lo_Page := api_pageFromToken (qn_PageToken req), lo_Size := qn_PageSize req\<rparr>"
  obtain z pg where "admitted pn (qn_OrgId req) z" "ListGrants (?opts z) e w = (Inr pg, w')"
    "yn_Grants y = map grantModelToProto (pg_Items pg)"
    using in_zone_Inr[OF assms[unfolded api_ListGrants_def Let_def]] by (auto simp: bindE_Inr_iff)
  moreover have "lo_OrgID (?opts z) = z" by simp
  ultimately show ?thesis using listings_tick(3) by blast
qed

lemma admitted_own: "admitted (Some p) org z \<Longrightarrow> z = TrimSpace (ap_OrgID p) \<and> z \<noteq> []"
  by (auto simp: admitted_def)

lemma tick_same [simp]: "db (tick w) = db w" "graph (tick w) = graph w"
  by (simp_all add: tick_def)

lemma listed_projects:
  assumes "api_ListProjects A (Some p) req e w = (Inr y, w')"
  shows "db w' = db w \<and> graph w' = graph w \<and> (\<forall>m \<in> set (yl_Projects y). \<exists>x \<in> snd ` set (projects (db w)).
    pr_OrgID x = TrimSpace (ap_OrgID p) \<and> m = projectModelToProto (pa_wire A) x)"
proof -
  obtain z pg opts where z: "admitted (Some p) (ql_OrgId req) z" and w': "w' = tick w" and
    run: "ListProjects opts e w = (Inr pg, w')" "lo_OrgID opts = z" and y: "yl_Projects y = map (projectModelToProto (pa_wire A)) (pg_Items pg)"
    using list_projects[OF assms] by force
  have "\<exists>x \<in> snd ` set (projects (db w)). pr_OrgID x = TrimSpace (ap_OrgID p) \<and> m = projectModelToProto (pa_wire A) x"
    if m: "m \<in> set (yl_Projects y)" for m
  proof -
    from m y obtain x where x: "x \<in> set (pg_Items pg)" "m = projectModelToProto (pa_wire A) x" by auto
    have "x \<in> snd ` set (projects (db w)) \<and> pr_OrgID x = lo_OrgID opts"
      by (rule ListProjects_zone[OF run(1) _ x(1)]) (use run(2) admitted_own[OF z] in auto)
    then show ?thesis using x(2) run(2) admitted_own[OF z] by auto
  qed
  with w' show ?thesis by simp
qed

lemma listed_resources:
  assumes "api_ListResources W (Some p) req e w = (Inr y, w')"
  shows "db w' = db w \<and> graph w' = graph w \<and> (\<forall>m \<in> set (ys_Resources y). \<exists>x \<in> snd ` set (resources (db w)).
    re_OrgID x = TrimSpace (ap_OrgID p) \<and> m = resourceModelToProto W x)"
proof -
  obtain z pg opts where z: "admitted (Some p) (qs_OrgId req) z" and w': "w' = tick w" and
    run: "ListResources opts e w = (Inr pg, w')" "lo_OrgID opts = z" and y: "ys_Resources y = map (resourceModelToProto W) (pg_Items pg)"
    using list_resources[OF assms] by force
  have "\<exists>x \<in> snd ` set (resources (db w)). re_OrgID x = TrimSpace (ap_OrgID p) \<and> m = resourceModelToProto W x"
    if m: "m \<in> set (ys_Resources y)" for m
  proof -
    from m y obtain x where x: "x \<in> set (pg_Items pg)" "m = resourceModelToProto W x" by auto
    have "x \<in> snd ` set (resources (db w)) \<and> re_OrgID x = lo_OrgID opts"
      by (rule ListResources_zone[OF run(1) _ x(1)]) (use run(2) admitted_own[OF z] in auto)
    then show ?thesis using x(2) run(2) admitted_own[OF z] by auto
  qed
  with w' show ?thesis by simp
qed

lemma listed_grants:
  assumes "api_ListGrants (Some p) req e w = (Inr y, w')"
  shows "db w' = db w \<and> graph w' = graph w \<and> (\<forall>m \<in> set (yn_Grants y). \<exists>x \<in> snd ` set (grants (db w)).
    gr_OrgID x = TrimSpace (ap_OrgID p) \<and> m = grantModelToProto x)"
proof -
  obtain z pg opts where z: "admitted (Some p) (qn_OrgId req) z" and w': "w' = tick w" and
    run: "ListGrants opts e w = (Inr pg, w')" "lo_OrgID opts = z" and y: "yn_Grants y = map (grantModelToProto) (pg_Items pg)"
    using list_grants[OF assms] by force
  have "\<exists>x \<in> snd ` set (grants (db w)). gr_OrgID x = TrimSpace (ap_OrgID p) \<and> m = grantModelToProto x"
    if m: "m \<in> set (yn_Grants y)" for m
  proof -
    from m y obtain x where x: "x \<in> set (pg_Items pg)" "m = grantModelToProto x" by auto
    have "x \<in> snd ` set (grants (db w)) \<and> gr_OrgID x = lo_OrgID opts"
      by (rule ListGrants_zone[OF run(1) _ x(1)]) (use run(2) admitted_own[OF z] in auto)
    then show ?thesis using x(2) run(2) admitted_own[OF z] by auto
  qed
  with w' show ?thesis by simp
qed

text \<open>C15. Whatever zone the request names, the lookups and listings answer with records of the
  principal's own zone only, as they are stored, and change no record and no tuple.\<close>

theorem reads_stay_in_zone:
  assumes p: "zone = TrimSpace (ap_OrgID p)"
  shows "(\<forall>m. api_GetProject A s (Some p) org i e w = (Inr m, w') \<longrightarrow> w' = w \<and>
        (\<exists>x. project_at (db w) (TrimSpace i) = Some x \<and> pr_OrgID x = zone \<and> m = projectModelToProto (pa_wire A) x))
    \<and> (\<forall>m. api_GetResource W (Some p) org ty i e w = (Inr m, w') \<longrightarrow> w' = w \<and>
        (\<exists>x. resource_at (db w) (ty, i) = Some x \<and> re_OrgID x = zone \<and> m = resourceModelToProto W x))
    \<and> (\<forall>y. api_ListProjects A (Some p) lp e w = (Inr y, w') \<longrightarrow> db w' = db w \<and> graph w' = graph w \<and>
        (\<forall>m \<in> set (yl_Projects y). \<exists>x \<in> snd ` set (projects (db w)).
          pr_OrgID x = zone \<and> m = projectModelToProto (pa_wire A) x))
    \<and> (\<forall>y. api_ListResources W (Some p) lr e w = (Inr y, w') \<longrightarrow> db w' = db w \<and> graph w' = graph w \<and>
        (\<forall>m \<in> set (ys_Resources y). \<exists>x \<in> snd ` set (resources (db w)).
          re_OrgID x = zone \<and> m = resourceModelToProto W x))
    \<and> (\<forall>y. api_ListGrants (Some p) lg e w = (Inr y, w') \<longrightarrow> db w' = db w \<and> graph w' = graph w \<and>
        (\<forall>m \<in> set (yn_Grants y). \<exists>x \<in> snd ` set (grants (db w)).
          gr_OrgID x = zone \<and> m = grantModelToProto x))"
proof (intro conjI allI impI)
  fix m
  assume "api_GetProject A s (Some p) org i e w = (Inr m, w')"
  from read_project[OF this] show "w' = w" "\<exists>x. project_at (db w) (TrimSpace i) = Some x \<and> pr_OrgID x = zone
      \<and> m = projectModelToProto (pa_wire A) x" unfolding p by (auto dest: admitted_own)
next
  fix m
  assume "api_GetResource W (Some p) org ty i e w = (Inr m, w')"
  from read_resource[OF this] show "w' = w" "\<exists>x. resource_at (db w) (ty, i) = Some x \<and> re_OrgID x = zone
      \<and> m = resourceModelToProto W x" unfolding p by (auto dest: admitted_own)
next
  fix y
  assume "api_ListProjects A (Some p) lp e w = (Inr y, w')"
  from listed_projects[OF this] show "db w' = db w" "graph w' = graph w"
    "\<forall>m \<in> set (yl_Projects y). \<exists>x \<in> snd ` set (projects (db w)). pr_OrgID x = zone \<and> m = projectModelToProto (pa_wire A) x"
    unfolding p by blast+
next
  fix y
  assume "api_ListResources W (Some p) lr e w = (Inr y, w')"
  from listed_resources[OF this] show "db w' = db w" "graph w' = graph w"
    "\<forall>m \<in> set (ys_Resources y). \<exists>x \<in> snd ` set (resources (db w)). re_OrgID x = zone \<and> m = resourceModelToProto W x"
    unfolding p by blast+
next
  fix y
  assume "api_ListGrants (Some p) lg e w = (Inr y, w')"
  from listed_grants[OF this] show "db w' = db w" "graph w' = graph w"
    "\<forall>m \<in> set (yn_Grants y). \<exists>x \<in> snd ` set (grants (db w)). gr_OrgID x = zone \<and> m = grantModelToProto x"
    unfolding p by blast+
qed

subsection \<open>Updates and their mask\<close>

definition mask_fields :: "string set" where
  "mask_fields = {''display_name'', ''description'', ''visibility'', ''labels'', ''annotations'', ''metadata''}"

text \<open>The update that sets exactly the fields of \<open>P\<close>.\<close>

definition masked_update :: "'s ProjectApi \<Rightarrow> 's UpdateProjectMsg \<Rightarrow> string \<Rightarrow> string set \<Rightarrow> UpdateProjectRequest" where
  "masked_update A req zone P =
     \<lparr>uq_ID = qu_ProjectId req, uq_ZoneID = zone,
      uq_DisplayName = (if ''display_name'' \<in> P then Some (qu_DisplayName req) else None),
      uq_Description = (if ''description'' \<in> P then Some (qu_Description req) else None),
      uq_Visibility = (if ''visibility'' \<in> P then Some (visibilityToStatus (qu_Visibility req)) else None),
      uq_LabelsJSON = (if ''labels'' \<in> P then Some (mapStringToJSON (the_map (qu_Labels req))) else None),
      uq_AnnotationsJSON =
        (if ''annotations'' \<in> P then Some (mapStringToJSON (the_map (qu_Annotations req))) else None),
      uq_MetadataJSON =
        (if ''metadata'' \<in> P then Some (structToJSON (pa_wire A) (qu_Metadata req) ''{}'') else None)\<rparr>"

definition path_ok :: "'s UpdateProjectMsg \<Rightarrow> string \<Rightarrow> bool" where
  "path_ok req path \<longleftrightarrow> path \<in> mask_fields
     \<and> (path = ''visibility'' \<longrightarrow> visibilityToStatus (qu_Visibility req) \<noteq> [])"

lemma masked_update_empty: "masked_update A req zone {} = no_update req zone"
  by (simp add: masked_update_def no_update_def)

lemma mask_path_step:
  "path_ok req path \<Longrightarrow> mask_path A req path (masked_update A req zone S) = Inr (masked_update A req zone (insert path S))"
  unfolding path_ok_def mask_fields_def
  by (elim conjE insertE) (simp_all add: mask_path_def masked_update_def Let_def)

lemma mask_path_error: "\<not> path_ok req path \<Longrightarrow> \<exists>er. mask_path A req path out = Inl er"
  by (auto simp: path_ok_def mask_fields_def mask_path_def Let_def)

lemma mask_loop_iff:
  "mask_loop A req paths seen (masked_update A req zone (set seen)) = Inr out \<longleftrightarrow>
     (\<forall>p \<in> TrimSpace ` set paths - set seen. path_ok req p)
     \<and> out = masked_update A req zone (set seen \<union> TrimSpace ` set paths)"
proof (induction paths arbitrary: seen)
  case (Cons raw paths)
  let ?p = "TrimSpace raw"
  show ?case
  proof (cases "?p \<in> set seen")
    case True
    then have "set seen \<union> TrimSpace ` set (raw # paths) = set seen \<union> TrimSpace ` set paths"
      "TrimSpace ` set (raw # paths) - set seen = TrimSpace ` set paths - set seen" by auto
    then show ?thesis using Cons[of seen] True by simp
  next
    case False
    show ?thesis
    proof (cases "path_ok req ?p")
      case True
      have "mask_loop A req (raw # paths) seen (masked_update A req zone (set seen))
          = mask_loop A req paths (?p # seen) (masked_update A req zone (set (?p # seen)))"
        using False mask_path_step[OF True, of A zone "set seen"] by (simp add: Let_def)
      moreover have "set (?p # seen) \<union> TrimSpace ` set paths = set seen \<union> TrimSpace ` set (raw # paths)" by auto
      moreover have "(\<forall>p \<in> TrimSpace ` set paths - set (?p # seen). path_ok req p) \<longleftrightarrow>
          (\<forall>p \<in> TrimSpace ` set (raw # paths) - set seen. path_ok req p)" using True by auto
      ultimately show ?thesis using Cons[of "?p # seen"] by simp
    next
      case bad: False
      obtain er where "mask_path A req ?p (masked_update A req zone (set seen)) = Inl er"
        using mask_path_error[OF bad] by blast
      then show ?thesis using False bad by (auto simp: Let_def)
    qed
  qed
qed auto

text \<open>An update request with a mask is accepted exactly when every path is one of the six
  fields and a visibility that is asked for is a known one; it then sets exactly the fields that
  the mask names, zero values included.\<close>

theorem mask_exact:
  assumes "qu_UpdateMask req \<noteq> []"
  shows "projectUpdateFromProto A req zone = Inr out \<longleftrightarrow>
    (\<forall>p \<in> TrimSpace ` set (qu_UpdateMask req). path_ok req p)
    \<and> out = masked_update A req zone (TrimSpace ` set (qu_UpdateMask req))"
proof -
  have "projectUpdateFromProto A req zone
      = mask_loop A req (qu_UpdateMask req) [] (masked_update A req zone (set []))"
    using assms by (simp add: projectUpdateFromProto_def masked_update_empty)
  then show ?thesis by (simp only: mask_loop_iff) simp
qed

subsection \<open>What a creation returns\<close>

lemma api_create_run:
  assumes "api_CreateProject A s pn req e w = (Inr m, w1)"
  shows "\<exists>z p wr cr. admitted pn (qc_OrgId req) z \<and> prj_CreateProject s cr e w = (Inr (p, wr, None), w1)
    \<and> cp_ZoneID cr = z \<and> cp_Slug cr = qc_Slug req \<and> cp_CreatedBy cr = actor_of (kern e) pn
    \<and> m = projectModelToProto (pa_wire A) p"
proof -
  obtain z where z: "admitted pn (qc_OrgId req) z" and run: "bindE (prj_CreateProject s
        \<lparr>cp_ID = [], cp_ZoneID = z, cp_Slug = qc_Slug req, cp_DisplayName = qc_DisplayName req,
         cp_Description = qc_Description req, cp_Visibility = visibilityToStatus (qc_Visibility req),
         cp_LabelsJSON = mapStringToJSON (qc_Labels req), cp_AnnotationsJSON = mapStringToJSON (qc_Annotations req),
         cp_MetadataJSON = structToJSON (pa_wire A) (qc_Metadata req) ''{}'',
         cp_CreatedBy = actor_of (kern e) pn, cp_Owner = actor_of (kern e) pn\<rparr>) (\<lambda>(project, _, er).
     result_or_err (projectModelToProto (pa_wire A) project) er) e w = (Inr m, w1)"
    (is "bindE (prj_CreateProject s ?cr) _ e w = _")
    using in_zone_Inr[OF assms[unfolded api_CreateProject_def]] by blast
  then obtain p wr er w2 where "prj_CreateProject s ?cr e w = (Inr (p, wr, er), w2)"
    "result_or_err (projectModelToProto (pa_wire A) p) er e w2 = (Inr m, w1)"
    by (auto simp: bindE_Inr_iff split: prod.splits)
  then have "prj_CreateProject s ?cr e w = (Inr (p, wr, None), w1)" "m = projectModelToProto (pa_wire A) p"
    by (auto simp: result_or_err_def split: option.splits)
  with z show ?thesis by (intro exI[of _ z] exI[of _ p] exI[of _ wr] exI[of _ ?cr]) simp
qed

lemma prj_CreateProject_repo: "prj_CreateProject s req e w = (Inr x, w') \<Longrightarrow> ps_repo s"
  by (auto simp: prj_CreateProject_def split: if_splits)

lemma api_GetProject_found:
  assumes "admitted pn org z" "ps_repo s" "TrimSpace i = i" "i \<noteq> []"
    "project_at (db w) i = Some x" "pr_OrgID x = z"
  shows "api_GetProject A s pn org i e w = (Inr (projectModelToProto (pa_wire A) x), w)"
proof -
  have "loadProjectInZone s i z e w = (Inr x, w)"
    using assms admitted_zone[OF assms(1)] by (intro loadProjectInZone_ok) auto
  then show ?thesis
    unfolding api_GetProject_def in_zone_admitted[OF assms(1)] by (simp add: bind_io_def prj_GetProject_def)
qed

text \<open>C30. A project that a principal creates can be read back by it: the lookup under the returned
  identifier finds, in the principal's zone, the message that the creation returned, up to its two
  timestamps; the project is active.\<close>

theorem created_project_found:
  assumes d: "direct (ps_projection s) S T"
    and run: "api_CreateProject A s pn req e w = (Inr m, w1)"
  shows "\<exists>c u. api_GetProject A s pn (qc_OrgId req) (mp_Id m) e w1
      = (Inr (m\<lparr>mp_CreatedAt := c, mp_UpdatedAt := u\<rparr>), w1)
    \<and> admitted pn (qc_OrgId req) (mp_OrgId m) \<and> mp_Status m = ACTIVE \<and> mp_Slug m = TrimSpace (qc_Slug req)"
proof -
  obtain z p wr cr where z: "admitted pn (qc_OrgId req) z" and
    cr: "prj_CreateProject s cr e w = (Inr (p, wr, None), w1)" "cp_ZoneID cr = z" "cp_Slug cr = qc_Slug req"
    and m: "m = projectModelToProto (pa_wire A) p"
    using api_create_run[OF run] by blast
  obtain ident now c u ev w2 where
    p: "p = new_project (kern e) cr ident now" and id: "TrimSpace ident = ident" "ident \<noteq> []"
    and w2: "db w2 = saveEvents [Some ev] ((db w)\<lparr>projects := put_key ident
        (p\<lparr>pr_CreatedAt := c, pr_UpdatedAt := u\<rparr>) (projects (db w))\<rparr>)"
    and di: "Dispatch (ps_projection s) (Some ev) e w2 = ((wr, None), w1)"
    using prj_CreateProject_success[OF cr(1)] by blast
  let ?q = "p\<lparr>pr_CreatedAt := c, pr_UpdatedAt := u\<rparr>"
  have "projects (db w1) = put_key ident ?q (projects (db w))"
    using dispatch_keeps(5)[OF d di] w2 by simp
  then have at: "project_at (db w1) ident = Some ?q" by (simp add: update_conv')
  have f: "pr_ID p = ident" "pr_OrgID p = z" "pr_Status p = StatusActive" "pr_Slug p = TrimSpace (qc_Slug req)"
    using cr(2,3) admitted_zone[OF z] by (simp_all add: p new_project_def)
  have "api_GetProject A s pn (qc_OrgId req) ident e w1 = (Inr (projectModelToProto (pa_wire A) ?q), w1)"
    by (rule api_GetProject_found[OF z prj_CreateProject_repo[OF cr(1)] id at]) (use f in simp)
  moreover have "projectModelToProto (pa_wire A) ?q = m\<lparr>mp_CreatedAt := ts c, mp_UpdatedAt := ts u\<rparr>"
    by (simp add: m projectModelToProto_def)
  moreover have "mp_Id m = ident" "mp_OrgId m = z" "mp_Slug m = TrimSpace (qc_Slug req)"
    "mp_Status m = ACTIVE"
    by (simp_all add: m projectModelToProto_def f statusToLifecycle_def TrimSpace_visible visible_def)
  ultimately show ?thesis using z by metis
qed

subsection \<open>Page tokens\<close>

lemma huge_token: "Atoi_value token = max_int64 \<Longrightarrow> api_pageFromToken token = max_int64"
  by (simp add: api_pageFromToken_def max_int64_def)

text \<open>A page token of 2^63 - 1 or more makes the listings of projects, resources and grants panic
  for every admitted principal that asks for a full page.\<close>

theorem huge_token_panics:
  assumes "admitted pn org z" "Atoi_value token = max_int64"
  shows "(\<exists>m. api_ListProjects A pn \<lparr>ql_OrgId = org, ql_Query = q, ql_Status = st, ql_PageSize = 100,
        ql_PageToken = token\<rparr> e w = (Inl (ErrPanic m), tick w))
    \<and> (\<exists>m. api_ListResources W pn \<lparr>qs_OrgId = org, qs_Type = ty, qs_ProjectId = pj, qs_Status = rst,
        qs_PageSize = 100, qs_PageToken = token\<rparr> e w = (Inl (ErrPanic m), tick w))
    \<and> (\<exists>m. api_ListGrants pn \<lparr>qn_OrgId = org, qn_Resource = r, qn_Subject = s, qn_Relation = rel, qn_RoleKey = rk,
        qn_Source = src, qn_Active = act, qn_PageSize = 100, qn_PageToken = token\<rparr> e w = (Inl (ErrPanic m), tick w))"
  using assms
  by (simp add: api_ListProjects_def api_ListResources_def api_ListGrants_def in_zone_admitted ListProjects_def
      ListResources_def ListGrants_def bind_io_def huge_token pageOf_huge bindE_def)

text \<open>
  The repository pages through the iteration of a map, whose order is chosen anew for every call:
  following the tokens can repeat one project and miss another.
\<close>

definition two_projects :: "unit world" where
  "two_projects = prj_world [(''p1'', sample_project ''p1'' ''acme''), (''p2'', sample_project ''p2'' ''acme'')] ()"

definition order_flips :: env where
  "order_flips = sample_env\<lparr>map_order := (\<lambda>t _. if t = 0 then 0 else 1)\<rparr>"

definition page_of_projects :: "int \<Rightarrow> 'g world \<Rightarrow> (string list \<times> 'g world)" where
  "page_of_projects n w =
     (case ListProjects (no_options\<lparr>lo_OrgID := ''acme'', lo_Page := n, lo_Size := 1\<rparr>) order_flips w of
        (Inr pg, w') \<Rightarrow> (map pr_ID (pg_Items pg), w') | (_, w') \<Rightarrow> ([], w'))"

lemma pages_repeat:
  "fst (page_of_projects 1 two_projects) = fst (page_of_projects 2 (snd (page_of_projects 1 two_projects)))
    \<and> fst (page_of_projects 1 two_projects) \<noteq> []"
  by code_simp

subsection \<open>Role templates\<close>

text \<open>
  The handlers of role templates neither check the principal nor the zone of the template: without
  any principal, a custom role of a zone can be disabled.
\<close>

definition zeta_role :: RoleTemplateModel where
  "zeta_role =
     \<lparr>ro_ID = ''role1'', ro_OrgID = ''zeta'', ro_ResourceType = ''skill'', ro_RoleKey = ''auditor'',
      ro_DisplayName = ''Auditor'', ro_Description = [], ro_Relation = ''custom_binding'', ro_BuiltIn = False,
      ro_Enabled = True, ro_SortOrder = 0, ro_MetadataJSON = ''{}'', ro_Version = 1, ro_CreatedAt = 1,
      ro_UpdatedAt = 1, ro_Permissions = [''view''], ro_ActiveGrantCount = 0\<rparr>"

definition zeta_roles :: "unit world" where
  "zeta_roles = (prj_world [] ())\<lparr>db := NewMemoryControlPlaneRepository\<lparr>
     roles := [(''skill:auditor'', zeta_role)]\<rparr>\<rparr>"

definition unit_wire :: "unit wire" where
  "unit_wire = \<lparr>w_marshal = \<lambda>_. Inr ''{}'', w_unmarshal = \<lambda>_. Inr (), w_other_slice = \<lambda>_. [],
     w_string_map = \<lambda>_. None\<rparr>"

definition plain_grants :: "unit GrantService" where
  "plain_grants = \<lparr>gs_repo = True, gs_authorizer = None, gs_store = None, gs_projection = None\<rparr>"

definition disabled_by_nobody :: "(bool \<times> bool list)" where
  "disabled_by_nobody =
     (case api_DisableRoleTemplate unit_wire plain_grants None ''role1'' 1 True sample_env zeta_roles of
        (r, w) \<Rightarrow> (case r of Inr m \<Rightarrow> mt_Enabled m | Inl _ \<Rightarrow> True,
          map (\<lambda>(k, x). ro_Enabled x) (roles (db w))))"

lemma nobody_disables_roles: "disabled_by_nobody = (False, [False])"
  by code_simp

subsection \<open>Requests\<close>

definition sample_principal :: ApiPrincipal where
  "sample_principal = \<lparr>ap_Authenticated = True, ap_SubjectType = [], ap_SubjectID = ''u1'', ap_OrgID = ''acme''\<rparr>"

definition sample_api :: "unit ProjectApi" where
  "sample_api = \<lparr>pa_wire = unit_wire, pa_quote = id\<rparr>"

lemma acme_admitted: "org \<in> {[], ''acme''} \<Longrightarrow> admitted (Some sample_principal) org ''acme''"
  by (auto simp: admitted_def sample_principal_def trims EqualFold_def)

definition plain_projects :: "unit ProjectService" where
  "plain_projects = \<lparr>ps_repo = True, ps_projection = None, ps_reader = None, ps_json = Inr\<rparr>"

lemma unadmitted_refused_witness:
  "refused (api_ArchiveProject sample_api plain_projects (Some sample_principal) ''zeta'' ''p1'' [])
     sample_env (prj_world [(''p1'', sample_project ''p1'' ''zeta'')] ())"
proof -
  have "\<nexists>z. admitted (Some sample_principal) ''zeta'' z"
    by (auto simp: admitted_def sample_principal_def trims EqualFold_def ToLower_def lower_char_def byte_def)
  from unadmitted_refused[OF this] show ?thesis
    by (rule conjunct2[THEN conjunct2, THEN conjunct2, THEN conjunct2, THEN conjunct1])
qed

lemma mask_exact_witness:
  "let req = \<lparr>qu_OrgId = [], qu_ProjectId = ''p1'', qu_DisplayName = [], qu_Description = [],
       qu_Visibility = PRIVATE, qu_Labels = None, qu_Annotations = None, qu_Metadata = None,
       qu_UpdateMask = ['' description'', ''labels'']\<rparr>;
     out = masked_update sample_api req ''acme'' {''description'', ''labels''}
   in projectUpdateFromProto sample_api req ''acme'' = Inr out
     \<and> uq_Description out = Some [] \<and> uq_LabelsJSON out = Some ''{}'' \<and> uq_DisplayName out = None"
proof -
  let ?req = "\<lparr>qu_OrgId = [], qu_ProjectId = ''p1'', qu_DisplayName = [], qu_Description = [],
       qu_Visibility = PRIVATE, qu_Labels = None, qu_Annotations = None, qu_Metadata = None,
       qu_UpdateMask = ['' description'', ''labels'']\<rparr>"
  have t: "TrimSpace ` set (qu_UpdateMask ?req) = {''description'', ''labels''}"
    by code_simp
  have "qu_UpdateMask ?req \<noteq> []" by simp
  from mask_exact[OF this, of sample_api "''acme''"] have
    "projectUpdateFromProto sample_api ?req ''acme'' = Inr (masked_update sample_api ?req ''acme'' {''description'', ''labels''})"
    unfolding t by (simp add: path_ok_def mask_fields_def)
  then show ?thesis by (simp add: masked_update_def mapStringToJSON_def the_map_def Let_def)
qed

lemma huge_token_panics_witness:
  "\<exists>m. api_ListProjects sample_api (Some sample_principal) \<lparr>ql_OrgId = [], ql_Query = [], ql_Status = ACTIVE,
      ql_PageSize = 100, ql_PageToken = ''9223372036854775808''\<rparr> sample_env (prj_world [] ()) = (Inl (ErrPanic m), tick (prj_world [] ()))"
proof -
  have "Atoi_value ''9223372036854775808'' = max_int64"
    by (simp add: Atoi_value_def sign_split_def digit_val_def max_int64_def)
  from huge_token_panics[OF acme_admitted this, of "[]"] show ?thesis by blast
qed

lemma reads_stay_in_zone_witness:
  "\<not> (\<exists>y w'. api_ListProjects sample_api (Some sample_principal) \<lparr>ql_OrgId = [], ql_Query = [], ql_Status = ACTIVE,
      ql_PageSize = 0, ql_PageToken = []\<rparr> sample_env (prj_world [(''p1'', sample_project ''p1'' ''zeta'')] ()) = (Inr y, w')
      \<and> yl_Projects y \<noteq> [])"
proof -
  have "''acme'' = TrimSpace (ap_OrgID sample_principal)" by (simp add: sample_principal_def trims)
  note * = reads_stay_in_zone[OF this, THEN conjunct2, THEN conjunct2, THEN conjunct1, rule_format]
  have False if run: "api_ListProjects sample_api (Some sample_principal) \<lparr>ql_OrgId = [], ql_Query = [], ql_Status = ACTIVE,
      ql_PageSize = 0, ql_PageToken = []\<rparr> sample_env (prj_world [(''p1'', sample_project ''p1'' ''zeta'')] ()) = (Inr y, w')"
    and m: "m \<in> set (yl_Projects y)" for y w' m
  proof -
    have "\<exists>x \<in> snd ` set (projects (db (prj_world [(''p1'', sample_project ''p1'' ''zeta'')] ()))).
        pr_OrgID x = ''acme'' \<and> m = projectModelToProto (pa_wire sample_api) x"
      using *[OF run] m by blast
    then show False by (auto simp: prj_world_def sample_project_def)
  qed
  then show ?thesis by (metis list.set_intros(1) neq_Nil_conv)
qed

subsection \<open>A creation\<close>

definition create_msg :: "unit CreateProjectMsg" where
  "create_msg = \<lparr>qc_OrgId = ''acme'', qc_Slug = ''s'', qc_DisplayName = [], qc_Description = [],
     qc_Visibility = ORG, qc_Labels = [], qc_Annotations = [], qc_Metadata = None, qc_EnableCapabilities = []\<rparr>"

definition first_id :: string where
  "first_id = idgen_New ''project'' (clock sample_env 0) (rand4 sample_env 0)"

definition first_payload :: Payload where
  "first_payload = empty_payload\<lparr>pl_Operation := OperationWrite,
     pl_Relationships := project_rels sample_kernel ''acme'' first_id sample_owner\<rparr>"

definition create_biz :: CreateProjectRequest where
  "create_biz = \<lparr>cp_ID = [], cp_ZoneID = ''acme'', cp_Slug = ''s'', cp_DisplayName = [], cp_Description = [],
     cp_Visibility = ''org'', cp_LabelsJSON = ''{}'', cp_AnnotationsJSON = ''{}'', cp_MetadataJSON = ''{}'',
     cp_CreatedBy = sample_owner, cp_Owner = sample_owner\<rparr>"

lemma create_biz_run:
  assumes "ticks w = 0"
  shows "\<exists>p wr w'. prj_CreateProject (sample_prj first_payload) create_biz sample_env w = (Inr (p, wr, None), w')"
proof -
  let ?s = "sample_prj first_payload" and ?p = "new_project sample_kernel create_biz first_id (clock sample_env (ticks (tick w)))"
  have pid: "pr_ID ?p = first_id" by (simp add: new_project_def)
  obtain ev w2 where ev: "NewWriteEvent (ps_projection ?s) ''project'' first_id
      (project_rels sample_kernel ''acme'' first_id sample_owner) sample_env (tick (tick w)) = (Inr (Some ev), w2)"
    by (auto simp: NewWriteEvent_def newEvent_def sample_prj_def one_payload_manager_def NewManager_def first_payload_def
        project_rels_nonempty bindE_def bind_io_def)
  then have fr: "fresh (ps_projection ?s) first_payload ev"
    using NewWriteEvent_Some[OF ev project_rels_nonempty] by (simp add: first_payload_def)
  obtain w3 where cr: "CreateProject ?p [Some ev] sample_env w2 = (Inr (), w3)"
    using CreateProject_ex by blast
  obtain c u where "db w3 = saveEvents [Some ev] ((db w2)\<lparr>projects := put_key first_id
      (?p\<lparr>pr_CreatedAt := c, pr_UpdatedAt := u\<rparr>) (projects (db w2))\<rparr>)" using CreateProject_run[OF cr] pid by auto
  then have "get_key (events (db w3)) (ev_ID ev) = Some ev" using fr by (simp add: events_saveEvents1 fresh_def)
  from dispatch_accepts[OF sample_prj_direct fr this accepts_write, of sample_env] obtain wr w4 where
    di: "Dispatch (ps_projection ?s) (Some ev) sample_env w3 = ((wr, None), w4)"
    by (auto simp: first_payload_def)
  have req: "TrimSpace (cp_ZoneID create_biz) = ''acme''" "TrimSpace (cp_Slug create_biz) = ''s''"
    "\<not> subjectZero (cp_CreatedBy create_biz)" "\<not> subjectZero (cp_Owner create_biz)"
    "TrimSpace (cp_ID create_biz) = []" "cp_Owner create_biz = sample_owner" "ps_repo ?s" "kern sample_env = sample_kernel"
    by (simp_all add: create_biz_def sample_owner_def subjectZero_def trims sample_prj_def sample_env_def)
  have nid: "new_id ''project'' sample_env w = (first_id, tick w)" using assms by (simp add: first_id_def)
  have "prj_CreateProject ?s create_biz sample_env w = (Inr (?p, wr, None), w4)"
    by (simp add: prj_CreateProject_def Let_def req bind_io_def pid ev cr di nid del: new_id_run)
  then show ?thesis by blast
qed

lemma created_project_found_witness:
  "\<exists>m w1. api_CreateProject sample_api (sample_prj first_payload) (Some sample_principal) create_msg sample_env (prj_world [] [])
      = (Inr m, w1) \<and> mp_Slug m = ''s'' \<and> mp_Status m = ACTIVE
    \<and> (\<exists>m'. api_GetProject sample_api (sample_prj first_payload) (Some sample_principal) ''acme'' (mp_Id m) sample_env w1
        = (Inr m', w1) \<and> mp_Slug m' = ''s'')"
proof -
  have t0: "ticks (prj_world [] []) = 0" by (simp add: prj_world_def empty_world_def)
  obtain p wr w1 where run: "prj_CreateProject (sample_prj first_payload) create_biz sample_env (prj_world [] [])
      = (Inr (p, wr, None), w1)" using create_biz_run[OF t0] by blast
  have adm: "admitted (Some sample_principal) (qc_OrgId create_msg) ''acme''"
    by (rule acme_admitted) (simp add: create_msg_def)
  have "api_CreateProject sample_api (sample_prj first_payload) (Some sample_principal) create_msg sample_env (prj_world [] [])
      = (Inr (projectModelToProto unit_wire p), w1)"
  proof -
    have a: "actor_of (kern sample_env) (Some sample_principal) = sample_owner"
      by (simp add: actor_of_def sample_env_def sample_kernel_def sample_principal_def principal_type_def sample_owner_def trims)
    have cb: "\<lparr>cp_ID = [], cp_ZoneID = ''acme'', cp_Slug = qc_Slug create_msg, cp_DisplayName = qc_DisplayName create_msg,
         cp_Description = qc_Description create_msg, cp_Visibility = visibilityToStatus (qc_Visibility create_msg),
         cp_LabelsJSON = mapStringToJSON (qc_Labels create_msg),
         cp_AnnotationsJSON = mapStringToJSON (qc_Annotations create_msg),
         cp_MetadataJSON = structToJSON (pa_wire sample_api) (qc_Metadata create_msg) ''{}'',
         cp_CreatedBy = sample_owner, cp_Owner = sample_owner\<rparr> = create_biz"
      by (simp add: create_msg_def create_biz_def visibilityToStatus_def mapStringToJSON_def structToJSON_def)
    show ?thesis
      unfolding api_CreateProject_def in_zone_admitted[OF adm] a cb
      using run by (simp add: result_or_err_def sample_api_def)
  qed
  note made = this
  from created_project_found[OF sample_prj_direct made] obtain c u where
    g: "api_GetProject sample_api (sample_prj first_payload) (Some sample_principal) (qc_OrgId create_msg)
        (mp_Id (projectModelToProto unit_wire p)) sample_env w1
      = (Inr ((projectModelToProto unit_wire p)\<lparr>mp_CreatedAt := c, mp_UpdatedAt := u\<rparr>), w1)"
    and f: "mp_Status (projectModelToProto unit_wire p) = ACTIVE" "mp_Slug (projectModelToProto unit_wire p) = TrimSpace (qc_Slug create_msg)"
    by blast
  have "qc_OrgId create_msg = ''acme''" "TrimSpace (qc_Slug create_msg) = ''s''"
    by (simp_all add: create_msg_def trims)
  then show ?thesis using made g f
    by (intro exI[of _ "projectModelToProto unit_wire p"] exI[of _ w1]) auto
qed

end
