(* ===== verification/Regexp.thy ===== *)
theory Regexp
  imports Prelude
begin

text \<open>
  The part of Go's package regexp that the program uses, on bytes: \<open>run r s\<close> lists every way in which
  \<open>r\<close> can match from \<open>s\<close>, in the order of preference of a backtracking engine, so that the first
  one is the match that Go reports (leftmost-first).  A matcher state is the byte before the
  position, the text that is left and the captured groups, the latest first.
\<close>

datatype re =
    Cls "char \<Rightarrow> bool"
  | Seq re re
  | Alt re re
  | Star re
  | LazyStar re
  | Cap nat re
  | Bol
  | Eol
  | WordB

type_synonym mstate = "char option \<times> string \<times> (nat \<times> string) list"

definition word_char :: "char \<Rightarrow> bool" where
  "word_char c \<longleftrightarrow> c \<in> set ''ABCDEFGHIJKLMNOPQRSTUVWXYZabcdefghijklmnopqrstuvwxyz0123456789_''"

definition word_before :: "mstate \<Rightarrow> bool" where
  "word_before s = (case fst s of None \<Rightarrow> False | Some c \<Rightarrow> word_char c)"

definition word_after :: "mstate \<Rightarrow> bool" where
  "word_after s = (case fst (snd s) of [] \<Rightarrow> False | c # _ \<Rightarrow> word_char c)"

abbreviation left :: "mstate \<Rightarrow> string" where "left s \<equiv> fst (snd s)"

abbreviation caps :: "mstate \<Rightarrow> (nat \<times> string) list" where "caps s \<equiv> snd (snd s)"

text \<open>The iterations of a star that consume nothing are dropped.\<close>

function (sequential) run :: "re \<Rightarrow> mstate \<Rightarrow> mstate list" where
  "run (Cls P) (p, [], k) = []"
| "run (Cls P) (p, c # cs, k) = (if P c then [(Some c, cs, k)] else [])"
| "run (Seq a b) s = concat (map (run b) (run a s))"
| "run (Alt a b) s = run a s @ run b s"
| "run (Star a) s =
     concat (map (\<lambda>t. if length (left t) < length (left s) then run (Star a) t else []) (run a s)) @ [s]"
| "run (LazyStar a) s =
     s # concat (map (\<lambda>t. if length (left t) < length (left s) then run (LazyStar a) t else []) (run a s))"
| "run (Cap n a) s =
     map (\<lambda>(p, t, k). (p, t, (n, take (length (left s) - length t) (left s)) # k)) (run a s)"
| "run Bol s = (if fst s = None \<or> fst s = Some (CHR 0x0A) then [s] else [])"
| "run Eol s = (if left s = [] \<or> hd (left s) = CHR 0x0A then [s] else [])"
| "run WordB s = (if word_before s \<noteq> word_after s then [s] else [])"
  by pat_completeness auto
termination by (relation "measures [\<lambda>(r, s). size r, \<lambda>(r, s). length (left s)]") auto

definition first :: "re \<Rightarrow> mstate \<Rightarrow> mstate option" where
  "first r s = (case run r s of [] \<Rightarrow> None | t # _ \<Rightarrow> Some t)"

text \<open>The leftmost match at or after a position.\<close>

fun find_re :: "re \<Rightarrow> char option \<Rightarrow> string \<Rightarrow> mstate option" where
  "find_re r p [] = first r (p, [], [])"
| "find_re r p (c # cs) =
     (case first r (p, c # cs, []) of Some t \<Rightarrow> Some t | None \<Rightarrow> find_re r (Some c) cs)"

text \<open>\<open>FindAllStringSubmatch\<close> for an expression whose matches are never empty.\<close>

function find_all :: "re \<Rightarrow> char option \<Rightarrow> string \<Rightarrow> (nat \<times> string) list list" where
  "find_all r p s =
     (case find_re r p s of
        None \<Rightarrow> []
      | Some t \<Rightarrow> caps t # (if length (left t) < length s then find_all r (fst t) (left t) else []))"
  by pat_completeness auto
termination by (relation "measure (\<lambda>(r, p, s). length s)") auto

declare find_all.simps [simp del]

definition capture :: "nat \<Rightarrow> (nat \<times> string) list \<Rightarrow> string" where
  "capture n k = (case map_of k n of None \<Rightarrow> [] | Some v \<Rightarrow> v)"

subsection \<open>Abbreviations of the syntax\<close>

definition plus :: "re \<Rightarrow> re" where "plus r = Seq r (Star r)"

definition space_re :: re where
  "space_re = Cls (\<lambda>c. c \<in> set [CHR 0x09, CHR 0x0A, CHR 0x0C, CHR 0x0D, CHR 0x20])"

definition ident_start :: "char \<Rightarrow> bool" where
  "ident_start c \<longleftrightarrow> c \<in> set ''ABCDEFGHIJKLMNOPQRSTUVWXYZabcdefghijklmnopqrstuvwxyz_''"

definition ident_re :: re where "ident_re = Seq (Cls ident_start) (Star (Cls word_char))"

primrec text_re :: "char \<Rightarrow> string \<Rightarrow> re" where
  "text_re c [] = Cls ((=) c)"
| "text_re c (d # ds) = Seq (Cls ((=) c)) (text_re d ds)"

definition lit :: "string \<Rightarrow> re" where
  "lit s = (case s of [] \<Rightarrow> Star (Cls (\<lambda>_. False)) | c # cs \<Rightarrow> text_re c cs)"

subsection \<open>Laws\<close>

lemma star_shrinks:
  assumes "\<And>t. t \<in> set ts \<Longrightarrow> length (left t) \<le> length (left s)"
    and "\<And>t u. t \<in> set ts \<Longrightarrow> length (left t) < length (left s) \<Longrightarrow> u \<in> set (f t) \<Longrightarrow>
      length (left u) \<le> length (left t)"
    and "u \<in> set (concat (map (\<lambda>t. if length (left t) < length (left s) then f t else []) ts))"
  shows "length (left u) \<le> length (left s)"
proof -
  from assms(3) obtain t where "t \<in> set ts" "length (left t) < length (left s)" "u \<in> set (f t)"
    by (auto split: if_splits)
  then show ?thesis using assms(2)[of t u] by linarith
qed

lemma run_shrinks: "t \<in> set (run r s) \<Longrightarrow> length (left t) \<le> length (left s)"
proof (induction r s arbitrary: t rule: run.induct)
  case (3 a b s)
  then obtain u where "u \<in> set (run a s)" "t \<in> set (run b u)" by auto
  then show ?case using 3(1)[of u] 3(2)[of u t] by linarith
next
  case (5 a s)
  from 5(3) consider "t = s"
    | "t \<in> set (concat (map (\<lambda>t. if length (left t) < length (left s) then run (Star a) t else []) (run a s)))"
    unfolding run.simps(5)[of a s] by (auto simp only: set_append Un_iff list.set insert_iff empty_iff)
  then show ?case
  proof cases
    case 2
    show ?thesis by (rule star_shrinks[OF _ _ 2]) (use 5(1,2) in blast)+
  qed simp
next
  case (6 a s)
  from 6(3) consider "t = s"
    | "t \<in> set (concat (map (\<lambda>t. if length (left t) < length (left s) then run (LazyStar a) t else []) (run a s)))"
    unfolding run.simps(6)[of a s] by (auto simp only: set_append Un_iff list.set insert_iff empty_iff set_simps)
  then show ?case
  proof cases
    case 2
    show ?thesis by (rule star_shrinks[OF _ _ 2]) (use 6(1,2) in blast)+
  qed simp
qed (auto split: if_splits)

declare run.simps(5,6) [simp del]

end
