(* ===== verification/SchemaText.thy ===== *)
theory SchemaText
  imports Regexp Json
begin

text \<open>
  The schema reader and the schema diff (internal/permissionmanifest/schema.go).  A schema is
  read from its text with two regular expressions after the comments are removed; two schemas
  are compared member by member.  The iteration order of Go's maps cannot be observed, since
  both lists of the diff are sorted.
\<close>

record Definition =
  Relations :: "string gomap"
  Permissions :: "string gomap"

record Schema =
  Definitions :: "Definition gomap"

record SchemaDiff =
  Additions :: "string list"
  Conflicts :: "string list"

definition empty_definition :: Definition where
  "empty_definition = \<lparr>Relations = [], Permissions = []\<rparr>"

definition empty_schema :: Schema where "empty_schema = \<lparr>Definitions = []\<rparr>"

subsection \<open>The expressions\<close>

definition definitionPattern :: re where
  "definitionPattern =
     Seq WordB (Seq (lit ''definition'') (Seq (plus space_re) (Seq (Cap 1 ident_re)
       (Seq (Star space_re) (lit ''{'')))))"

definition line_byte :: "char \<Rightarrow> bool" where
  "line_byte c \<longleftrightarrow> c \<noteq> CHR 0x0D \<and> c \<noteq> CHR 0x0A"

definition declarationPattern :: re where
  "declarationPattern =
     Seq Bol (Seq (Star space_re) (Seq (Cap 1 (Alt (lit ''relation'') (lit ''permission'')))
       (Seq (plus space_re) (Seq (Cap 2 ident_re) (Seq (Star space_re)
         (Seq (Cls (\<lambda>c. c = CHR '':'' \<or> c = CHR ''='')) (Seq (Star space_re)
           (Seq (Cap 3 (Seq (Cls line_byte) (LazyStar (Cls line_byte))))
             (Seq (Star space_re) Eol)))))))))"

subsection \<open>Comments, braces and white space\<close>

text \<open>
  The three loops of \<open>stripSchemaComments\<close>: in the text, in a line comment, in a block
  comment.  An unterminated block comment leaves its last byte in the output.
\<close>

datatype comment_state = InText | InLine | InBlock

fun strip_comments :: "comment_state \<Rightarrow> string \<Rightarrow> string" where
  "strip_comments st [] = []"
| "strip_comments st [c] = (if st = InLine \<and> c \<noteq> CHR 0x0A then [] else [c])"
| "strip_comments st (c # d # s) =
     (case st of
        InText \<Rightarrow>
          if c = CHR ''/'' \<and> d = CHR ''/'' then strip_comments InLine s
          else if c = CHR ''/'' \<and> d = CHR ''*'' then strip_comments InBlock s
          else c # strip_comments InText (d # s)
      | InLine \<Rightarrow>
          if c = CHR 0x0A then c # strip_comments InText (d # s)
          else strip_comments InLine (d # s)
      | InBlock \<Rightarrow>
          if c = CHR ''*'' \<and> d = CHR ''/'' then strip_comments InText s
          else (if c = CHR 0x0A then [c] else []) @ strip_comments InBlock (d # s))"

definition stripSchemaComments :: "string \<Rightarrow> string" where
  "stripSchemaComments s = strip_comments InText s"

text \<open>The text up to the brace that closes the first one, and the text behind it.\<close>

fun matchingBrace :: "int \<Rightarrow> string \<Rightarrow> (string \<times> string) option" where
  "matchingBrace depth [] = None"
| "matchingBrace depth (c # s) =
     (if c = CHR ''{'' then map_option (apfst ((#) c)) (matchingBrace (depth + 1) s)
      else if c = CHR ''}''
      then (if depth - 1 = 0 then Some ([], s)
            else map_option (apfst ((#) c)) (matchingBrace (depth - 1) s))
      else map_option (apfst ((#) c)) (matchingBrace depth s))"

text \<open>Byte sequences that are no rune become the replacement character, as in strings.Map.\<close>

function normalizeSchemaExpression :: "string \<Rightarrow> string" where
  "normalizeSchemaExpression s =
     (case s of [] \<Rightarrow> []
      | c # cs \<Rightarrow>
         (if of_char c < (128::nat)
          then (if c \<in> set ascii_spaces then [] else [c]) @ normalizeSchemaExpression cs
          else let n = rune_len s in
            if n = 0 then replacement @ normalizeSchemaExpression cs
            else (if take n s \<in> set wide_spaces then [] else take n s)
              @ normalizeSchemaExpression (drop n s)))"
  by pat_completeness auto
termination by (relation "measure length") (auto split: if_splits)

declare normalizeSchemaExpression.simps [simp del]

subsection \<open>Reading a schema\<close>

definition duplicate_member :: "string \<Rightarrow> string \<Rightarrow> err" where
  "duplicate_member name member = ErrNew (''definition '' @ name @ '' has duplicate member '' @ member)"

definition add_member :: "string \<Rightarrow> (nat \<times> string) list \<Rightarrow> Definition \<Rightarrow> err + Definition" where
  "add_member name m d =
     (let kind = capture 1 m; member = capture 2 m; expression = normalizeSchemaExpression (capture 3 m)
      in if get_key (Relations d) member \<noteq> None then Inl (duplicate_member name member)
         else if get_key (Permissions d) member \<noteq> None then Inl (duplicate_member name member)
         else if kind = ''relation''
         then Inr (d\<lparr>Relations := put_key member expression (Relations d)\<rparr>)
         else Inr (d\<lparr>Permissions := put_key member expression (Permissions d)\<rparr>))"

primrec add_members :: "string \<Rightarrow> (nat \<times> string) list list \<Rightarrow> Definition \<Rightarrow> err + Definition" where
  "add_members name [] d = Inr d"
| "add_members name (m # ms) d =
     (case add_member name m d of Inl er \<Rightarrow> Inl er | Inr d' \<Rightarrow> add_members name ms d')"

definition parseDefinition :: "string \<Rightarrow> string \<Rightarrow> err + Definition" where
  "parseDefinition name body =
     add_members name (find_all declarationPattern None body) empty_definition"

text \<open>
  One round of the loop of \<open>ParseSchema\<close> on the text that is left: nothing more to read, or the
  definition's name, what it holds and the text behind it.
\<close>

definition next_definition ::
    "string \<Rightarrow> Schema \<Rightarrow> err + (string \<times> Definition \<times> string) option" where
  "next_definition clean schema =
     (case find_re definitionPattern None clean of
        None \<Rightarrow> Inr None
      | Some (_, behind, k) \<Rightarrow>
         (let name = capture 1 k in
          if get_key (Definitions schema) name \<noteq> None
          then Inl (ErrNew (''duplicate definition '' @ name))
          else case matchingBrace 0 (CHR ''{'' # behind) of
            None \<Rightarrow> Inl (ErrNew (''definition '' @ name @ '': missing closing brace''))
          | Some (block, rest) \<Rightarrow>
             (case parseDefinition name (tl block) of
                Inl er \<Rightarrow> Inl er
              | Inr d \<Rightarrow> Inr (Some (name, d, rest)))))"

lemma find_re_shrinks: "find_re r p s = Some t \<Longrightarrow> length (left t) \<le> length s"
proof (induction r p s rule: find_re.induct)
  case (1 r p)
  then show ?case
    using run_shrinks[of t r "(p, [], [])"] by (auto simp: first_def split: list.splits)
next
  case (2 r p c cs)
  then show ?case
    using run_shrinks[of t r "(p, c # cs, [])"]
    by (auto simp: first_def split: option.splits list.splits)
qed

lemma matchingBrace_split:
  "matchingBrace n s = Some (b, r) \<Longrightarrow> \<exists>c. s = b @ c # r"
  by (induction n s arbitrary: b rule: matchingBrace.induct) (auto split: if_splits)

lemma matchingBrace_open:
  "matchingBrace 0 (CHR ''{'' # s) = map_option (apfst ((#) (CHR ''{''))) (matchingBrace 1 s)"
  by simp

lemma next_definition_cases:
  assumes n: "next_definition clean schema = Inr (Some (name, d, rest))"
  obtains p behind k block where
    "find_re definitionPattern None clean = Some (p, behind, k)" "name = capture 1 k"
    "get_key (Definitions schema) name = None"
    "matchingBrace 1 behind = Some (block, rest)" "parseDefinition name block = Inr d"
proof -
  obtain p behind k where f: "find_re definitionPattern None clean = Some (p, behind, k)"
    using n by (cases "find_re definitionPattern None clean") (auto simp: next_definition_def)
  have free: "get_key (Definitions schema) (capture 1 k) = None"
    using n f by (auto simp: next_definition_def Let_def simp del: matchingBrace.simps
      split: if_splits)
  obtain block r where b: "matchingBrace 1 behind = Some (block, r)"
    using n f free unfolding next_definition_def matchingBrace_open
    by (cases "matchingBrace 1 behind") (auto simp: Let_def)
  obtain d' where "parseDefinition (capture 1 k) block = Inr d'"
    using n f free b unfolding next_definition_def matchingBrace_open
    by (cases "parseDefinition (capture 1 k) block") (auto simp: Let_def)
  then show ?thesis
    using that[of p behind k block] n f free b unfolding next_definition_def matchingBrace_open
    by (auto simp: Let_def)
qed

lemma next_definition_shrinks:
  assumes "next_definition clean schema = Inr (Some (name, d, rest))"
  shows "length rest < length clean"
proof -
  from assms obtain p behind k block where
    f: "find_re definitionPattern None clean = Some (p, behind, k)" and
    "matchingBrace 1 behind = Some (block, rest)"
    by (rule next_definition_cases)
  then obtain c where "behind = block @ c # rest" using matchingBrace_split by blast
  then show ?thesis using find_re_shrinks[OF f] by simp
qed

function parse_loop :: "string \<Rightarrow> Schema \<Rightarrow> err + Schema" where
  "parse_loop clean schema =
     (if clean = [] then Inr schema
      else case next_definition clean schema of
        Inl er \<Rightarrow> Inl er
      | Inr None \<Rightarrow> Inr schema
      | Inr (Some (name, d, rest)) \<Rightarrow>
          parse_loop rest (schema\<lparr>Definitions := put_key name d (Definitions schema)\<rparr>))"
  by pat_completeness auto
termination
  by (relation "measure (\<lambda>(clean, schema). length clean)") (auto dest: next_definition_shrinks)

declare parse_loop.simps [simp del]

definition ParseSchema :: "string \<Rightarrow> err + Schema" where
  "ParseSchema text = parse_loop (stripSchemaComments text) empty_schema"

subsection \<open>Comparing schemas\<close>

definition only_active :: string where "only_active = '' exists only in active schema''"

definition compareMembers ::
    "string \<Rightarrow> string \<Rightarrow> string gomap \<Rightarrow> string gomap \<Rightarrow> string list" where
  "compareMembers defn kind current desired =
     concat (map (\<lambda>(name, expression).
       let path = defn @ ''.'' @ kind @ ''.'' @ name
       in case get_key desired name of
            None \<Rightarrow> [path @ only_active]
          | Some wanted \<Rightarrow> if expression \<noteq> wanted then [path @ '' changed''] else []) current)"

definition appendMissingMembers ::
    "string \<Rightarrow> string \<Rightarrow> string gomap \<Rightarrow> string gomap \<Rightarrow> string list" where
  "appendMissingMembers defn kind current desired =
     concat (map (\<lambda>(name, expression).
       if get_key current name = None then [defn @ ''.'' @ kind @ ''.'' @ name] else []) desired)"

definition schema_conflicts :: "Schema \<Rightarrow> Schema \<Rightarrow> string list" where
  "schema_conflicts current desired =
     concat (map (\<lambda>(name, currentDefinition).
       case get_key (Definitions desired) name of
         None \<Rightarrow> [''definition '' @ name @ only_active]
       | Some desiredDefinition \<Rightarrow>
           compareMembers name ''relation'' (Relations currentDefinition) (Relations desiredDefinition)
           @ compareMembers name ''permission'' (Permissions currentDefinition) (Permissions desiredDefinition))
       (Definitions current))"

definition schema_additions :: "Schema \<Rightarrow> Schema \<Rightarrow> string list" where
  "schema_additions current desired =
     concat (map (\<lambda>(name, desiredDefinition).
       case get_key (Definitions current) name of
         None \<Rightarrow> [''definition '' @ name]
       | Some currentDefinition \<Rightarrow>
           appendMissingMembers name ''relation'' (Relations currentDefinition) (Relations desiredDefinition)
           @ appendMissingMembers name ''permission'' (Permissions currentDefinition) (Permissions desiredDefinition))
       (Definitions desired))"

definition CompareSchemas :: "Schema \<Rightarrow> Schema \<Rightarrow> SchemaDiff" where
  "CompareSchemas current desired =
     \<lparr>Additions = sort (schema_additions current desired),
      Conflicts = sort (schema_conflicts current desired)\<rparr>"

definition Identical :: "SchemaDiff \<Rightarrow> bool" where
  "Identical d \<longleftrightarrow> length (Additions d) = 0 \<and> length (Conflicts d) = 0"

definition Additive :: "SchemaDiff \<Rightarrow> bool" where
  "Additive d \<longleftrightarrow> length (Additions d) > 0 \<and> length (Conflicts d) = 0"

end
