(* ===== verification/SchemaBootstrap.thy ===== *)
theory SchemaBootstrap
  imports SchemaText
begin

text \<open>
  The schema step of the start-up (internal/data/authz_bootstrap.go).  The schema manager of the
  kernel is a record of operations on its own state \<open>'m\<close>, the schema file is what the given
  \<open>read_file\<close> returns, and the policy flags come from the configuration.  Logging is left out.
  The laws at the end say when the active schema may be replaced.
\<close>

record AuthzConfig =
  AllowPermissionMigrations :: bool
  AllowSchemaDeletions :: bool
  SchemaPath :: string

record 'm SchemaManager =
  sm_ReadSchema :: "'m \<Rightarrow> (err + string) \<times> 'm"
  sm_ValidateSchema :: "string \<Rightarrow> 'm \<Rightarrow> (err + unit) \<times> 'm"
  sm_WriteSchema :: "string \<Rightarrow> 'm \<Rightarrow> (err + unit) \<times> 'm"

subsection \<open>Operations\<close>

definition changed_suffix :: string where "changed_suffix = '' changed''"

definition blocked_conflict :: "AuthzConfig \<Rightarrow> string \<Rightarrow> bool" where
  "blocked_conflict cfg conflict =
     (let trimmed = TrimSpace conflict in
      if HasSuffix trimmed changed_suffix then \<not> AllowPermissionMigrations cfg
      else if HasSuffix trimmed only_active then \<not> AllowSchemaDeletions cfg
      else True)"

definition authorizeSchemaConflicts :: "string list \<Rightarrow> AuthzConfig \<Rightarrow> err + unit" where
  "authorizeSchemaConflicts conflicts cfg =
     (let blocked = filter (blocked_conflict cfg) conflicts in
      if length blocked > 0
      then Inl (ErrBackendFailed (''authz schema drift requires explicit migration: '' @ Join blocked ''; ''))
      else Inr ())"

definition countChangedConflicts :: "string list \<Rightarrow> nat" where
  "countChangedConflicts conflicts =
     length (filter (\<lambda>c. HasSuffix (TrimSpace c) changed_suffix) conflicts)"

definition countDeletedConflicts :: "string list \<Rightarrow> nat" where
  "countDeletedConflicts conflicts =
     length (filter (\<lambda>c. HasSuffix (TrimSpace c) only_active) conflicts)"

text \<open>
  \<open>if err != nil { return authz.ErrBackendFailed(m, err) }\<close> around a call that may fail.
\<close>

definition backend :: "string \<Rightarrow> err + 'a \<Rightarrow> err + 'a" where
  "backend m r = (case r of Inl _ \<Rightarrow> Inl (ErrBackendFailed m) | Inr x \<Rightarrow> Inr x)"

definition desired_text :: "(string \<Rightarrow> err + string) \<Rightarrow> AuthzConfig \<Rightarrow> err + string" where
  "desired_text read_file cfg =
     (let path = TrimSpace (SchemaPath cfg) in
      if path = []
      then Inl (ErrBackendFailed ''security.authz.schema_path is required when install_default_schema is enabled'')
      else case backend (''read authz schema file failed: '' @ path) (read_file path) of
        Inl er \<Rightarrow> Inl er
      | Inr desiredText \<Rightarrow>
          if TrimSpace desiredText = []
          then Inl (ErrBackendFailed (''authz schema file is empty: '' @ path))
          else Inr desiredText)"

definition BootstrapAuthzSchema ::
    "(string \<Rightarrow> err + string) \<Rightarrow> AuthzConfig \<Rightarrow> 'm SchemaManager option \<Rightarrow> 'm \<Rightarrow> (err + unit) \<times> 'm" where
  "BootstrapAuthzSchema read_file cfg manager m =
     (case manager of None \<Rightarrow> (Inr (), m) | Some mgr \<Rightarrow>
      case desired_text read_file cfg of Inl er \<Rightarrow> (Inl er, m) | Inr desiredText \<Rightarrow>
      case backend ''parse desired authz schema failed'' (ParseSchema desiredText) of
        Inl er \<Rightarrow> (Inl er, m)
      | Inr desired \<Rightarrow>
      case sm_ReadSchema mgr m of (r, m1) \<Rightarrow>
      case backend ''read active authz schema failed'' r of Inl er \<Rightarrow> (Inl er, m1) | Inr activeText \<Rightarrow>
      case backend ''parse active authz schema failed'' (ParseSchema activeText) of
        Inl er \<Rightarrow> (Inl er, m1)
      | Inr active \<Rightarrow>
      let diff = CompareSchemas active desired in
      case (if length (Conflicts diff) > 0 then authorizeSchemaConflicts (Conflicts diff) cfg else Inr ()) of
        Inl er \<Rightarrow> (Inl er, m1)
      | Inr _ \<Rightarrow>
      if Identical diff then (Inr (), m1)
      else case sm_ValidateSchema mgr desiredText m1 of (v, m2) \<Rightarrow>
        (case v of Inl er \<Rightarrow> (Inl er, m2) | Inr _ \<Rightarrow> sm_WriteSchema mgr desiredText m2))"

end
