(* ===== verification/SchemaLaws.thy ===== *)
theory SchemaLaws
  imports SchemaBootstrap
begin

text \<open>
  What a parsed schema guarantees, what the diff of two schemas means, and when the start-up
  replaces the active schema.
\<close>

subsection \<open>Parsed schemas are well formed\<close>

definition definition_wf :: "Definition \<Rightarrow> bool" where
  "definition_wf d \<longleftrightarrow> keys_distinct (Relations d) \<and> keys_distinct (Permissions d)
     \<and> (\<forall>n. get_key (Relations d) n = None \<or> get_key (Permissions d) n = None)"

definition schema_wf :: "Schema \<Rightarrow> bool" where
  "schema_wf s \<longleftrightarrow> keys_distinct (Definitions s) \<and> (\<forall>(n, d) \<in> set (Definitions s). definition_wf d)"

lemma distinct_put_key: "keys_distinct m \<Longrightarrow> keys_distinct (put_key k v m)"
  by (rule distinct_update)

lemma set_put_key: "set (put_key k v m) \<subseteq> insert (k, v) (set m)"
  by (induction m) auto

lemma add_member_wf:
  assumes "add_member name m d = Inr d'" and d: "definition_wf d"
  shows "definition_wf d'"
proof -
  let ?k = "capture 2 m" and ?e = "normalizeSchemaExpression (capture 3 m)"
  have none: "get_key (Relations d) ?k = None" "get_key (Permissions d) ?k = None" and
    d': "d' = d\<lparr>Relations := put_key ?k ?e (Relations d)\<rparr> \<or> d' = d\<lparr>Permissions := put_key ?k ?e (Permissions d)\<rparr>"
    using assms(1) by (auto simp: add_member_def Let_def split: if_splits)
  from d' show ?thesis
    by (elim disjE) (use d none in \<open>auto simp: definition_wf_def distinct_put_key update_conv'\<close>)
qed

lemma add_members_wf: "add_members name ms d = Inr d' \<Longrightarrow> definition_wf d \<Longrightarrow> definition_wf d'"
  by (induction ms arbitrary: d) (auto split: sum.splits intro: add_member_wf)

lemma parseDefinition_wf: "parseDefinition name body = Inr d \<Longrightarrow> definition_wf d"
  unfolding parseDefinition_def
  by (erule add_members_wf) (simp add: definition_wf_def empty_definition_def)

lemma parse_loop_wf: "parse_loop clean s = Inr s' \<Longrightarrow> schema_wf s \<Longrightarrow> schema_wf s'"
proof (induction clean s rule: parse_loop.induct)
  case (1 clean s)
  show ?case
  proof (cases "clean = [] \<or> next_definition clean s = Inr None")
    case True
    with 1(2,3) show ?thesis by (auto simp: parse_loop.simps[of clean s] split: if_splits)
  next
    case False
    with 1 obtain name d rest where n: "next_definition clean s = Inr (Some (name, d, rest))"
      by (auto simp: parse_loop.simps[of clean s] split: sum.splits option.splits)
    let ?t = "s\<lparr>Definitions := put_key name d (Definitions s)\<rparr>"
    obtain block where "parseDefinition name block = Inr d"
      by (rule next_definition_cases[OF n])
    then have "definition_wf d" by (rule parseDefinition_wf)
    then have "schema_wf ?t"
      using 1(3) set_put_key[of name d "Definitions s"] by (auto simp: schema_wf_def distinct_put_key)
    moreover have "parse_loop rest ?t = Inr s'"
      using 1(2) False n by (simp add: parse_loop.simps[of clean s])
    ultimately show ?thesis using 1(1) False n by blast
  qed
qed

lemma ParseSchema_wf: "ParseSchema text = Inr s \<Longrightarrow> schema_wf s"
  unfolding ParseSchema_def
  by (erule parse_loop_wf) (simp add: schema_wf_def empty_schema_def)

subsection \<open>The meaning of the diff\<close>

text \<open>
  A schema as a map: what it declares under (definition, kind, member).  \<open>b\<close> extends \<open>a\<close> when
  every definition and every declaration of \<open>a\<close> is one of \<open>b\<close>, with the same expression.
\<close>

definition members :: "Definition \<Rightarrow> string \<Rightarrow> string \<Rightarrow> string option" where
  "members d kind n =
     (if kind = ''relation'' then get_key (Relations d) n
      else if kind = ''permission'' then get_key (Permissions d) n else None)"

definition declared :: "Schema \<Rightarrow> string \<times> string \<times> string \<Rightarrow> string option" where
  "declared s = (\<lambda>(defn, kind, n).
     case get_key (Definitions s) defn of None \<Rightarrow> None | Some d \<Rightarrow> members d kind n)"

definition defined :: "Schema \<Rightarrow> string set" where "defined s = dom (get_key (Definitions s))"

definition extends :: "Schema \<Rightarrow> Schema \<Rightarrow> bool" where
  "extends b a \<longleftrightarrow> defined a \<subseteq> defined b \<and> declared a \<subseteq>\<^sub>m declared b"

text \<open>The two kinds of conflict: a declaration that is gone, one whose expression is another.\<close>

definition nothing_removed :: "Schema \<Rightarrow> Schema \<Rightarrow> bool" where
  "nothing_removed a b \<longleftrightarrow> defined a \<subseteq> defined b \<and> dom (declared a) \<subseteq> dom (declared b)"

definition nothing_changed :: "Schema \<Rightarrow> Schema \<Rightarrow> bool" where
  "nothing_changed a b \<longleftrightarrow>
     (\<forall>k \<in> dom (declared a) \<inter> dom (declared b). declared a k = declared b k)"

lemma extends_iff: "extends b a \<longleftrightarrow> nothing_removed a b \<and> nothing_changed a b"
proof
  assume e: "extends b a"
  then have "declared a k = declared b k" if "k \<in> dom (declared a)" for k
    using that by (simp add: extends_def map_le_def)
  with e show "nothing_removed a b \<and> nothing_changed a b"
    by (simp add: extends_def nothing_removed_def nothing_changed_def map_le_implies_dom_le)
next
  assume *: "nothing_removed a b \<and> nothing_changed a b"
  then have "declared a k = declared b k" if "k \<in> dom (declared a)" for k
    using that unfolding nothing_removed_def nothing_changed_def by blast
  with * show "extends b a" by (simp add: extends_def nothing_removed_def map_le_def)
qed

lemma declared_in: "declared s (defn, kind, n) = Some e \<Longrightarrow> defn \<in> defined s"
  by (auto simp: declared_def defined_def split: option.splits)

definition member_path :: "string \<Rightarrow> string \<Rightarrow> string \<Rightarrow> string" where
  "member_path defn kind n = defn @ ''.'' @ kind @ ''.'' @ n"

lemma set_concat_map: "x \<in> set (concat (map f m)) \<longleftrightarrow> (\<exists>p \<in> set m. x \<in> set (f p))"
  by auto

lemma ex_pair_map_of:
  "keys_distinct m \<Longrightarrow> (\<exists>p \<in> set m. P p) \<longleftrightarrow> (\<exists>k v. get_key m k = Some v \<and> P (k, v))"
  by (auto simp: map_of_eq_Some_iff)

lemma compareMembers_set:
  assumes "keys_distinct cur"
  shows "x \<in> set (compareMembers defn kind cur des) \<longleftrightarrow>
    (\<exists>n e. get_key cur n = Some e \<and>
      (case get_key des n of None \<Rightarrow> x = member_path defn kind n @ only_active
       | Some e' \<Rightarrow> e' \<noteq> e \<and> x = member_path defn kind n @ changed_suffix))"
  unfolding compareMembers_def set_concat_map ex_pair_map_of[OF assms] Let_def
  by (intro ex_cong1 conj_cong refl)
    (auto simp: member_path_def changed_suffix_def split: option.split if_splits)

lemma appendMissingMembers_set:
  assumes "keys_distinct des"
  shows "x \<in> set (appendMissingMembers defn kind cur des) \<longleftrightarrow>
    (\<exists>n v. get_key des n = Some v \<and> (get_key cur n = None \<and> x = member_path defn kind n))"
  unfolding appendMissingMembers_def set_concat_map ex_pair_map_of[OF assms]
  by (auto simp: member_path_def)

definition defn_path :: "string \<Rightarrow> string" where "defn_path n = ''definition '' @ n"

text \<open>
  The conflicts and the additions, declaration by declaration.
\<close>

definition removed_texts :: "Schema \<Rightarrow> Schema \<Rightarrow> string set" where
  "removed_texts a b =
     {defn_path n @ only_active | n. n \<in> defined a - defined b}
     \<union> {member_path defn kind n @ only_active | defn kind n.
         (defn, kind, n) \<in> dom (declared a) - dom (declared b) \<and> defn \<in> defined b}"

definition changed_texts :: "Schema \<Rightarrow> Schema \<Rightarrow> string set" where
  "changed_texts a b =
     {member_path defn kind n @ changed_suffix | defn kind n.
        (defn, kind, n) \<in> dom (declared a) \<inter> dom (declared b)
        \<and> declared a (defn, kind, n) \<noteq> declared b (defn, kind, n)}"

definition new_texts :: "Schema \<Rightarrow> Schema \<Rightarrow> string set" where
  "new_texts a b =
     {defn_path n | n. n \<in> defined b - defined a}
     \<union> {member_path defn kind n | defn kind n.
         (defn, kind, n) \<in> dom (declared b) - dom (declared a) \<and> defn \<in> defined a}"

text \<open>The members of one definition against those of its counterpart.\<close>

definition member_conflicts :: "string \<Rightarrow> Definition \<Rightarrow> Definition \<Rightarrow> string set" where
  "member_conflicts defn d e =
     set (compareMembers defn ''relation'' (Relations d) (Relations e)
       @ compareMembers defn ''permission'' (Permissions d) (Permissions e))"

lemma members_relation: "members d ''relation'' = get_key (Relations d)"
  and members_permission: "members d ''permission'' = get_key (Permissions d)"
  and members_other: "kind \<noteq> ''relation'' \<Longrightarrow> kind \<noteq> ''permission'' \<Longrightarrow> members d kind n = None"
  by (simp_all add: members_def fun_eq_iff)

lemma members_some_iff:
  "(\<exists>kind n v. members d kind n = Some v \<and> P kind n v) \<longleftrightarrow>
     (\<exists>n v. get_key (Relations d) n = Some v \<and> P ''relation'' n v)
     \<or> (\<exists>n v. get_key (Permissions d) n = Some v \<and> P ''permission'' n v)"
  (is "?l \<longleftrightarrow> ?r \<or> ?p")
proof
  assume ?l
  then obtain kind n v where k: "members d kind n = Some v" "P kind n v" by blast
  then have "kind = ''relation'' \<or> kind = ''permission''" using members_other[of kind d n] by auto
  with k show "?r \<or> ?p" by (auto simp: members_relation members_permission)
next
  assume "?r \<or> ?p"
  then show ?l
  proof
    assume ?r
    then obtain n v where "members d ''relation'' n = Some v" "P ''relation'' n v"
      by (auto simp: members_relation)
    then show ?l by blast
  next
    assume ?p
    then obtain n v where "members d ''permission'' n = Some v" "P ''permission'' n v"
      by (auto simp: members_permission)
    then show ?l by blast
  qed
qed

lemma member_conflicts_iff:
  assumes "definition_wf d"
  shows "x \<in> member_conflicts defn d e \<longleftrightarrow> (\<exists>kind n v. members d kind n = Some v \<and>
    (case members e kind n of None \<Rightarrow> x = member_path defn kind n @ only_active
     | Some v' \<Rightarrow> v' \<noteq> v \<and> x = member_path defn kind n @ changed_suffix))"
  using assms
  by (subst members_some_iff)
    (simp add: member_conflicts_def compareMembers_set definition_wf_def members_relation members_permission)

lemma defined_iff: "n \<in> defined s \<longleftrightarrow> (\<exists>d. get_key (Definitions s) n = Some d)"
  by (auto simp: defined_def)

lemma schema_conflicts_iff:
  assumes "schema_wf a"
  shows "x \<in> set (schema_conflicts a b) \<longleftrightarrow>
    (\<exists>defn d. get_key (Definitions a) defn = Some d \<and>
      (case get_key (Definitions b) defn of
         None \<Rightarrow> x = defn_path defn @ only_active
       | Some e \<Rightarrow> x \<in> member_conflicts defn d e))"
proof -
  have dk: "keys_distinct (Definitions a)" using assms by (simp add: schema_wf_def)
  show ?thesis
    unfolding schema_conflicts_def set_concat_map ex_pair_map_of[OF dk]
    by (intro ex_cong1 conj_cong refl) (auto simp: member_conflicts_def defn_path_def split: option.split)
qed

lemma get_definition_wf: "schema_wf s \<Longrightarrow> get_key (Definitions s) n = Some d \<Longrightarrow> definition_wf d"
  by (auto simp: schema_wf_def dest: map_of_SomeD)

lemma declared_Some:
  "get_key (Definitions s) defn = Some d \<Longrightarrow> declared s (defn, kind, n) = members d kind n"
  by (simp add: declared_def)

lemma removedI_definition:
  "n \<in> defined a \<Longrightarrow> n \<notin> defined b \<Longrightarrow> defn_path n @ only_active \<in> removed_texts a b"
  unfolding removed_texts_def by blast

lemma removedI_member:
  "(defn, kind, n) \<in> dom (declared a) \<Longrightarrow> (defn, kind, n) \<notin> dom (declared b) \<Longrightarrow> defn \<in> defined b \<Longrightarrow>
     member_path defn kind n @ only_active \<in> removed_texts a b"
  unfolding removed_texts_def by blast

lemma changedI:
  "declared a (defn, kind, n) = Some v \<Longrightarrow> declared b (defn, kind, n) = Some v' \<Longrightarrow> v' \<noteq> v \<Longrightarrow>
     member_path defn kind n @ changed_suffix \<in> changed_texts a b"
  unfolding changed_texts_def by (intro CollectI exI[of _ defn] exI[of _ kind] exI[of _ n]) auto

lemma conflict_texts_sound:
  assumes a: "schema_wf a" and x: "x \<in> set (schema_conflicts a b)"
  shows "x \<in> removed_texts a b \<union> changed_texts a b"
proof -
  obtain defn d where d: "get_key (Definitions a) defn = Some d" and
    c: "case get_key (Definitions b) defn of None \<Rightarrow> x = defn_path defn @ only_active
        | Some e \<Rightarrow> x \<in> member_conflicts defn d e"
    using x schema_conflicts_iff[OF a] by blast
  show ?thesis
  proof (cases "get_key (Definitions b) defn")
    case None
    with c d have "x \<in> removed_texts a b" by (auto intro!: removedI_definition simp: defined_iff)
    then show ?thesis by blast
  next
    case (Some e)
    with c have "x \<in> member_conflicts defn d e" by simp
    then obtain kind n v where v: "members d kind n = Some v" and
      m: "case members e kind n of None \<Rightarrow> x = member_path defn kind n @ only_active
          | Some v' \<Rightarrow> v' \<noteq> v \<and> x = member_path defn kind n @ changed_suffix"
      using member_conflicts_iff[OF get_definition_wf[OF a d]] by blast
    have dec: "declared a (defn, kind, n) = Some v" "declared b (defn, kind, n) = members e kind n"
      "defn \<in> defined b"
      using d v Some by (auto simp: declared_Some defined_iff)
    show ?thesis
    proof (cases "members e kind n")
      case None
      with m have x: "x = member_path defn kind n @ only_active" by simp
      have "x \<in> removed_texts a b" unfolding x
        by (rule removedI_member) (use dec None in auto)
      then show ?thesis by blast
    next
      case (Some v')
      with m have x: "x = member_path defn kind n @ changed_suffix" and "v' \<noteq> v" by auto
      then have "x \<in> changed_texts a b"
        unfolding x using changedI[OF dec(1)] dec(2) Some by auto
      then show ?thesis by blast
    qed
  qed
qed

lemma member_conflictI:
  assumes a: "schema_wf a" and d: "declared a (defn, kind, n) = Some v" and b: "defn \<in> defined b"
    and x: "case declared b (defn, kind, n) of None \<Rightarrow> x = member_path defn kind n @ only_active
       | Some v' \<Rightarrow> v' \<noteq> v \<and> x = member_path defn kind n @ changed_suffix"
  shows "x \<in> set (schema_conflicts a b)"
proof -
  obtain f where f: "get_key (Definitions a) defn = Some f" using declared_in[OF d] by (auto simp: defined_iff)
  obtain e where e: "get_key (Definitions b) defn = Some e" using b by (auto simp: defined_iff)
  have "x \<in> member_conflicts defn f e"
    unfolding member_conflicts_iff[OF get_definition_wf[OF a f]]
    using d x f e by (auto simp: declared_Some)
  then show ?thesis unfolding schema_conflicts_iff[OF a] using f e by (intro exI[of _ defn] exI[of _ f]) simp
qed

lemma conflict_texts_complete:
  assumes a: "schema_wf a" and x: "x \<in> removed_texts a b \<union> changed_texts a b"
  shows "x \<in> set (schema_conflicts a b)"
proof -
  consider (defn) n where "n \<in> defined a" "n \<notin> defined b" "x = defn_path n @ only_active"
    | (gone) defn kind n where "(defn, kind, n) \<in> dom (declared a)" "(defn, kind, n) \<notin> dom (declared b)"
        "defn \<in> defined b" "x = member_path defn kind n @ only_active"
    | (changed) defn kind n where "(defn, kind, n) \<in> dom (declared a)" "(defn, kind, n) \<in> dom (declared b)"
        "declared a (defn, kind, n) \<noteq> declared b (defn, kind, n)"
        "x = member_path defn kind n @ changed_suffix"
    using x unfolding removed_texts_def changed_texts_def by blast
  then show ?thesis
  proof cases
    case defn
    then obtain d where "get_key (Definitions a) n = Some d" "get_key (Definitions b) n = None"
      by (auto simp: defined_iff)
    then show ?thesis unfolding schema_conflicts_iff[OF a] defn(3)
      by (intro exI[of _ n] exI[of _ d]) simp
  next
    case gone
    then show ?thesis by (auto intro!: member_conflictI[OF a] simp: dom_def)
  next
    case changed
    then obtain v v' where "declared a (defn, kind, n) = Some v" "declared b (defn, kind, n) = Some v'" by blast
    then show ?thesis using changed declared_in by (auto intro!: member_conflictI[OF a])
  qed
qed

lemma conflicts_exact:
  "schema_wf a \<Longrightarrow> set (Conflicts (CompareSchemas a b)) = removed_texts a b \<union> changed_texts a b"
  using conflict_texts_sound conflict_texts_complete by (auto simp: CompareSchemas_def)

lemma schema_additions_iff:
  assumes b: "schema_wf b"
  shows "x \<in> set (schema_additions a b) \<longleftrightarrow>
    (\<exists>defn d. get_key (Definitions b) defn = Some d \<and>
      (case get_key (Definitions a) defn of
         None \<Rightarrow> x = defn_path defn
       | Some e \<Rightarrow> \<exists>kind n v. members d kind n = Some v \<and>
           (members e kind n = None \<and> x = member_path defn kind n)))"
proof -
  have dk: "keys_distinct (Definitions b)" using b by (simp add: schema_wf_def)
  have inner: "x \<in> set (appendMissingMembers defn ''relation'' (Relations e) (Relations d)
        @ appendMissingMembers defn ''permission'' (Permissions e) (Permissions d)) \<longleftrightarrow>
      (\<exists>kind n v. members d kind n = Some v \<and> (members e kind n = None \<and> x = member_path defn kind n))"
    if "get_key (Definitions b) defn = Some d" for defn d e
    using get_definition_wf[OF b that] unfolding members_some_iff
    by (simp add: appendMissingMembers_set definition_wf_def members_relation members_permission)
  show ?thesis
    unfolding schema_additions_def set_concat_map ex_pair_map_of[OF dk]
    by (intro ex_cong1 conj_cong refl)
      (simp add: defn_path_def inner[simplified] split: option.split)
qed

lemma additions_exact:
  assumes b: "schema_wf b"
  shows "set (Additions (CompareSchemas a b)) = new_texts a b"
proof (intro set_eqI iffI)
  fix x
  assume "x \<in> set (Additions (CompareSchemas a b))"
  then obtain defn d where d: "get_key (Definitions b) defn = Some d" and
    c: "case get_key (Definitions a) defn of None \<Rightarrow> x = defn_path defn
       | Some e \<Rightarrow> \<exists>kind n v. members d kind n = Some v \<and>
           (members e kind n = None \<and> x = member_path defn kind n)"
    using schema_additions_iff[OF b] by (auto simp: CompareSchemas_def)
  show "x \<in> new_texts a b"
  proof (cases "get_key (Definitions a) defn")
    case None
    with c d have "x = defn_path defn" "defn \<in> defined b - defined a" by (auto simp: defined_iff)
    then show ?thesis unfolding new_texts_def by blast
  next
    case (Some e)
    with c obtain kind n v where "members d kind n = Some v" "members e kind n = None"
      and x: "x = member_path defn kind n" by auto
    with d Some have "(defn, kind, n) \<in> dom (declared b) - dom (declared a)" "defn \<in> defined a"
      by (auto simp: declared_Some defined_iff)
    with x show ?thesis unfolding new_texts_def by blast
  qed
next
  fix x
  assume "x \<in> new_texts a b"
  then consider (defn) n where "n \<in> defined b" "n \<notin> defined a" "x = defn_path n"
    | (new) defn kind n v where "declared b (defn, kind, n) = Some v" "declared a (defn, kind, n) = None"
        "defn \<in> defined a" "x = member_path defn kind n"
    unfolding new_texts_def by blast
  then have "x \<in> set (schema_additions a b)"
  proof cases
    case defn
    then obtain d where "get_key (Definitions b) n = Some d" "get_key (Definitions a) n = None"
      by (auto simp: defined_iff)
    then show ?thesis unfolding schema_additions_iff[OF b] defn(3)
      by (intro exI[of _ n] exI[of _ d]) simp
  next
    case new
    obtain d e where d: "get_key (Definitions b) defn = Some d" and e: "get_key (Definitions a) defn = Some e"
      using declared_in[OF new(1)] new(3) by (auto simp: defined_iff)
    then have "members d kind n = Some v" "members e kind n = None"
      using new by (auto simp: declared_Some)
    with d e new(4) show ?thesis unfolding schema_additions_iff[OF b]
      by (intro exI[of _ defn] exI[of _ d]) auto
  qed
  then show "x \<in> set (Additions (CompareSchemas a b))" by (simp add: CompareSchemas_def)
qed

lemma removed_empty_iff: "removed_texts a b = {} \<longleftrightarrow> nothing_removed a b"
proof
  assume e: "removed_texts a b = {}"
  then have d: "defined a \<subseteq> defined b" using removedI_definition by blast
  have "k \<in> dom (declared b)" if k: "k \<in> dom (declared a)" for k
  proof -
    obtain defn kind n where [simp]: "k = (defn, kind, n)" by (cases k)
    have "defn \<in> defined b" using k d declared_in by auto
    with k e removedI_member[of defn kind n a b] show ?thesis by auto
  qed
  with d show "nothing_removed a b" unfolding nothing_removed_def by blast
qed (auto simp: nothing_removed_def removed_texts_def)

lemma changed_empty_iff: "changed_texts a b = {} \<longleftrightarrow> nothing_changed a b"
proof
  assume e: "changed_texts a b = {}"
  have "declared a k = declared b k" if k: "k \<in> dom (declared a) \<inter> dom (declared b)" for k
  proof -
    obtain defn kind n where [simp]: "k = (defn, kind, n)" by (cases k)
    from k obtain v v' where "declared a k = Some v" "declared b k = Some v'" by blast
    with e changedI[of a defn kind n v b v'] show ?thesis by auto
  qed
  then show "nothing_changed a b" by (simp add: nothing_changed_def)
qed (auto simp: nothing_changed_def changed_texts_def)

lemma newI_member:
  "(defn, kind, n) \<in> dom (declared b) \<Longrightarrow> (defn, kind, n) \<notin> dom (declared a) \<Longrightarrow> defn \<in> defined a \<Longrightarrow>
     member_path defn kind n \<in> new_texts a b"
  unfolding new_texts_def by blast

lemma new_empty_iff: "new_texts a b = {} \<longleftrightarrow> nothing_removed b a"
proof
  assume e: "new_texts a b = {}"
  then have d: "defined b \<subseteq> defined a" unfolding new_texts_def by blast
  have "k \<in> dom (declared a)" if k: "k \<in> dom (declared b)" for k
  proof -
    obtain defn kind n where [simp]: "k = (defn, kind, n)" by (cases k)
    have "defn \<in> defined a" using k d declared_in by auto
    with k e newI_member[of defn kind n b a] show ?thesis by auto
  qed
  with d show "nothing_removed b a" unfolding nothing_removed_def by blast
qed (auto simp: nothing_removed_def new_texts_def)

lemma identical_iff:
  assumes "schema_wf a" "schema_wf b"
  shows "Identical (CompareSchemas a b) \<longleftrightarrow> defined a = defined b \<and> declared a = declared b"
proof -
  have sym: "nothing_changed a b \<longleftrightarrow> nothing_changed b a"
    unfolding nothing_changed_def by (metis Int_commute)
  have "Identical (CompareSchemas a b) \<longleftrightarrow>
      set (Conflicts (CompareSchemas a b)) = {} \<and> set (Additions (CompareSchemas a b)) = {}"
    by (auto simp: Identical_def)
  also have "\<dots> \<longleftrightarrow> extends b a \<and> nothing_removed b a"
    unfolding conflicts_exact[OF assms(1)] additions_exact[OF assms(2)] Un_empty
      removed_empty_iff changed_empty_iff new_empty_iff extends_iff ..
  also have "\<dots> \<longleftrightarrow> extends b a \<and> extends a b"
    unfolding extends_iff using sym by blast
  also have "\<dots> \<longleftrightarrow> defined a = defined b \<and> declared a = declared b"
    unfolding extends_def by (auto intro: map_le_antisym)
  finally show ?thesis .
qed

lemma diff_facts:
  assumes "ParseSchema s = Inr a" "ParseSchema t = Inr b"
  defines "d \<equiv> CompareSchemas a b"
  shows "set (Conflicts d) = removed_texts a b \<union> changed_texts a b"
    "set (Additions d) = new_texts a b" "sorted (Conflicts d)" "sorted (Additions d)"
    "Identical d \<longleftrightarrow> defined a = defined b \<and> declared a = declared b"
    "Conflicts d = [] \<longleftrightarrow> extends b a"
    "Additive d \<longleftrightarrow> extends b a \<and> \<not> extends a b"
proof -
  have wf: "schema_wf a" "schema_wf b" using assms by (auto intro: ParseSchema_wf)
  show c: "set (Conflicts d) = removed_texts a b \<union> changed_texts a b"
    unfolding d_def using wf by (simp add: conflicts_exact)
  show ad: "set (Additions d) = new_texts a b"
    unfolding d_def using wf by (simp add: additions_exact)
  show "sorted (Conflicts d)" "sorted (Additions d)" by (simp_all add: d_def CompareSchemas_def)
  have none: "Conflicts d = [] \<longleftrightarrow> removed_texts a b \<union> changed_texts a b = {}"
    unfolding c[symmetric] by simp
  show e: "Conflicts d = [] \<longleftrightarrow> extends b a"
    unfolding none Un_empty removed_empty_iff changed_empty_iff extends_iff ..
  have n: "Additions d = [] \<longleftrightarrow> nothing_removed b a"
    unfolding new_empty_iff[symmetric] ad[symmetric] by simp
  show "Identical d \<longleftrightarrow> defined a = defined b \<and> declared a = declared b"
    unfolding d_def by (rule identical_iff[OF wf])
  have sym: "nothing_changed a b \<longleftrightarrow> nothing_changed b a"
    unfolding nothing_changed_def by (metis Int_commute)
  show "Additive d \<longleftrightarrow> extends b a \<and> \<not> extends a b"
    using e n sym extends_iff[of a b] extends_iff[of b a] by (auto simp: Additive_def)
qed

text \<open>C20. For two schema texts that parse, the conflicts of the diff are exactly the texts of the
  declarations that are gone or have another expression, and its additions exactly those of the new
  ones, both sorted; so the diff is identical when both texts declare the same, free of conflicts
  when the desired schema extends the active one, and additive when it does so strictly.\<close>

theorem schema_diff_exact:
  assumes "ParseSchema s = Inr a" "ParseSchema t = Inr b"
  shows "set (Conflicts (CompareSchemas a b)) = removed_texts a b \<union> changed_texts a b
    \<and> set (Additions (CompareSchemas a b)) = new_texts a b
    \<and> sorted (Conflicts (CompareSchemas a b)) \<and> sorted (Additions (CompareSchemas a b))
    \<and> (Identical (CompareSchemas a b) \<longleftrightarrow> defined a = defined b \<and> declared a = declared b)
    \<and> (Conflicts (CompareSchemas a b) = [] \<longleftrightarrow> extends b a)
    \<and> (Additive (CompareSchemas a b) \<longleftrightarrow> extends b a \<and> \<not> extends a b)"
  by (intro conjI diff_facts[OF assms])

subsection \<open>Policy\<close>

lemma trim_front_keeps:
  assumes "visible c"
  shows "\<exists>a'. trim_front space_runes (a @ c # b) = a' @ c # b"
proof (induction a rule: length_induct)
  case (1 a)
  show ?case
  proof (cases "strip1 space_runes (a @ c # b)")
    case None
    then show ?thesis by (auto simp: trim_front_fix)
  next
    case (Some k)
    then obtain p where p: "find (\<lambda>p. is_prefix p (a @ c # b)) space_runes = Some p" "k = length p"
      by (auto simp: strip1_def)
    then have ps: "p \<in> set space_runes" "is_prefix p (a @ c # b)"
      by (metis find_Some_iff nth_mem)+
    have "c \<notin> set p"
      using ps(1) assms
      by (auto simp: space_runes_def ascii_spaces_def wide_spaces_def visible_def)
    moreover obtain r where r: "a @ c # b = p @ r" using ps(2) is_prefix_iff by blast
    have "length p \<le> length a"
    proof (rule ccontr)
      assume "\<not> length p \<le> length a"
      moreover have "(p @ r) ! length a = c" using r by (metis nth_append_length)
      ultimately have "p ! length a = c" by (simp add: nth_append)
      with \<open>\<not> length p \<le> length a\<close> \<open>c \<notin> set p\<close> show False by (metis not_le nth_mem)
    qed
    show ?thesis
    proof (cases k)
      case 0
      with Some show ?thesis by (subst trim_front.simps) auto
    next
      case (Suc n)
      then have "trim_front space_runes (a @ c # b) = trim_front space_runes (drop k (a @ c # b))"
        using Some by (subst trim_front.simps) simp
      also have "drop k (a @ c # b) = drop k a @ c # b" using p(2) \<open>length p \<le> length a\<close> by simp
      finally have eq: "trim_front space_runes (a @ c # b) = trim_front space_runes (drop k a @ c # b)" .
      have "length (drop k a) < length a" using Suc p(2) \<open>length p \<le> length a\<close> by simp
      then show ?thesis unfolding eq using 1 by blast
    qed
  qed
qed

lemma is_prefix_take: "is_prefix p s \<longleftrightarrow> take (length p) s = p"
  by (induction p arbitrary: s) (auto split: list.splits)

text \<open>A conflict keeps its suffix when it is trimmed.\<close>

lemma trimmed_suffix:
  assumes c: "visible c" and s: "s = a @ c # b" "visible (last s)"
    and t: "length t \<le> length b"
  shows "HasSuffix (TrimSpace s) t \<longleftrightarrow> HasSuffix s t"
proof -
  obtain a' where f: "trim_front space_runes s = a' @ c # b"
    using trim_front_keeps[OF c, of a b] s by auto
  have "last (a' @ c # b) = last s" using s by simp
  then have "trim_front (map rev space_runes) (rev (a' @ c # b)) = rev (a' @ c # b)"
    using s(2) by (cases "a' @ c # b" rule: rev_cases) (auto intro!: trim_front_fix visible_not_space_rev)
  then have ts: "TrimSpace s = a' @ c # b" by (simp only: TrimSpace_def trim_back_def f rev_rev_ident)
  have "HasSuffix (x @ c # b) t \<longleftrightarrow> HasSuffix b t" for x
    using t by (simp add: HasSuffix_def is_prefix_take)
  then show ?thesis using ts s by simp
qed

lemma suffix_changed: "HasSuffix (p @ changed_suffix) changed_suffix"
  and suffix_gone: "HasSuffix (p @ only_active) only_active"
  and suffix_differs: "\<not> HasSuffix (p @ only_active) changed_suffix"
  by (simp_all add: HasSuffix_def is_prefix_take changed_suffix_def only_active_def)

lemma suffix_ends: "visible (last (p @ changed_suffix))" "visible (last (p @ only_active))"
  "length changed_suffix \<le> length only_active"
  by (simp_all add: changed_suffix_def only_active_def visible_def)

lemma changed_blocked:
  "x \<in> changed_texts a b \<Longrightarrow> blocked_conflict cfg x \<longleftrightarrow> \<not> AllowPermissionMigrations cfg"
proof -
  assume "x \<in> changed_texts a b"
  then obtain defn kind n where x: "x = member_path defn kind n @ changed_suffix"
    unfolding changed_texts_def by blast
  have "HasSuffix (TrimSpace x) changed_suffix \<longleftrightarrow> HasSuffix x changed_suffix"
    by (rule trimmed_suffix[of "CHR ''.''" x defn "kind @ ''.'' @ n @ changed_suffix"])
      (use suffix_ends(1)[of "member_path defn kind n"] in \<open>simp_all add: x member_path_def visible_def\<close>)
  then have "HasSuffix (TrimSpace x) changed_suffix" by (simp add: x suffix_changed)
  then show ?thesis by (simp add: blocked_conflict_def Let_def)
qed

lemma removed_blocked:
  "x \<in> removed_texts a b \<Longrightarrow> blocked_conflict cfg x \<longleftrightarrow> \<not> AllowSchemaDeletions cfg"
proof -
  assume "x \<in> removed_texts a b"
  then consider n where "x = defn_path n @ only_active"
    | defn kind n where "x = member_path defn kind n @ only_active"
    unfolding removed_texts_def by blast
  then obtain c u v w where *: "x = u @ only_active" "visible c" "x = v @ c # w @ only_active"
  proof cases
    case 1
    then show ?thesis
      using that[of "defn_path n" "CHR ''d''" "[]" "''efinition '' @ n"]
      by (simp add: defn_path_def visible_def)
  next
    case 2
    then show ?thesis
      using that[of "member_path defn kind n" "CHR ''.''" defn "kind @ ''.'' @ n"]
      by (simp add: member_path_def visible_def)
  qed
  have "HasSuffix (TrimSpace x) t \<longleftrightarrow> HasSuffix x t" if "length t \<le> length only_active" for t
    by (rule trimmed_suffix[OF *(2,3)]) (use that *(1) suffix_ends in simp_all)
  then show ?thesis
    using suffix_gone suffix_differs suffix_ends(3) by (simp add: blocked_conflict_def Let_def *(1))
qed

lemma authorized_iff:
  assumes "schema_wf a"
  shows "authorizeSchemaConflicts (Conflicts (CompareSchemas a b)) cfg = Inr () \<longleftrightarrow>
    (AllowSchemaDeletions cfg \<or> nothing_removed a b)
    \<and> (AllowPermissionMigrations cfg \<or> nothing_changed a b)"
proof -
  let ?C = "Conflicts (CompareSchemas a b)"
  have "authorizeSchemaConflicts ?C cfg = Inr () \<longleftrightarrow> (\<forall>x \<in> set ?C. \<not> blocked_conflict cfg x)"
    by (auto simp: authorizeSchemaConflicts_def Let_def filter_empty_conv)
  also have "\<dots> \<longleftrightarrow> (\<forall>x \<in> removed_texts a b. \<not> blocked_conflict cfg x)
      \<and> (\<forall>x \<in> changed_texts a b. \<not> blocked_conflict cfg x)"
    unfolding conflicts_exact[OF assms] by blast
  also have "\<dots> \<longleftrightarrow> (AllowSchemaDeletions cfg \<or> removed_texts a b = {})
      \<and> (AllowPermissionMigrations cfg \<or> changed_texts a b = {})"
    by (simp add: removed_blocked changed_blocked) blast
  finally show ?thesis unfolding removed_empty_iff changed_empty_iff .
qed

text \<open>
  What the start-up relies on: reading and validating leave the active text, a successful read
  returns it, a successful write replaces it and a failed one leaves it.
\<close>

definition schema_manager :: "'m SchemaManager \<Rightarrow> ('m \<Rightarrow> string) \<Rightarrow> bool" where
  "schema_manager mgr active \<longleftrightarrow> (\<forall>m t.
     active (snd (sm_ReadSchema mgr m)) = active m
     \<and> fst (sm_ReadSchema mgr m) \<in> range Inl \<union> {Inr (active m)}
     \<and> active (snd (sm_ValidateSchema mgr t m)) = active m
     \<and> active (snd (sm_WriteSchema mgr t m))
         = (if fst (sm_WriteSchema mgr t m) = Inr () then t else active m))"

lemma backend_Inr [simp]: "backend m r = Inr x \<longleftrightarrow> r = Inr x"
  by (cases r) (auto simp: backend_def)

text \<open>The runs of the bootstrap: what they end in, by the steps they got through.\<close>

lemma bootstrap_run_cases:
  assumes run: "BootstrapAuthzSchema rf cfg (Some mgr) m = (r, m')"
  obtains (unread) er where "r = Inl er" "m' = m"
  | (refused) er where "r = Inl er" "m' = snd (sm_ReadSchema mgr m)"
  | (kept) t a d b m1 where "desired_text rf cfg = Inr d" "ParseSchema d = Inr b"
      "sm_ReadSchema mgr m = (Inr t, m1)" "ParseSchema t = Inr a"
      "Identical (CompareSchemas a b)" "r = Inr ()" "m' = m1"
  | (invalid) er t d m1 where "sm_ReadSchema mgr m = (Inr t, m1)"
      "r = Inl er" "m' = snd (sm_ValidateSchema mgr d m1)"
  | (written) t a d b m1 m2 where "desired_text rf cfg = Inr d" "ParseSchema d = Inr b"
      "sm_ReadSchema mgr m = (Inr t, m1)" "ParseSchema t = Inr a"
      "\<not> Identical (CompareSchemas a b)"
      "authorizeSchemaConflicts (Conflicts (CompareSchemas a b)) cfg = Inr ()"
      "sm_ValidateSchema mgr d m1 = (Inr (), m2)" "sm_WriteSchema mgr d m2 = (r, m')"
proof (cases "desired_text rf cfg")
  case (Inl er)
  with run show ?thesis using unread[of er] by (simp add: BootstrapAuthzSchema_def)
next
  case d: (Inr d)
  show ?thesis
  proof (cases "ParseSchema d")
    case (Inl er)
    with d run show ?thesis by (auto simp: BootstrapAuthzSchema_def backend_def intro: unread)
  next
    case b: (Inr b)
    obtain q m1 where rd: "sm_ReadSchema mgr m = (q, m1)" by (cases "sm_ReadSchema mgr m")
    show ?thesis
    proof (cases q)
      case (Inl er)
      with d b rd run show ?thesis
        by (auto simp: BootstrapAuthzSchema_def backend_def intro: refused)
    next
      case t: (Inr t)
      show ?thesis
      proof (cases "ParseSchema t")
        case (Inl er)
        with d b rd t run show ?thesis
        by (auto simp: BootstrapAuthzSchema_def backend_def intro: refused)
      next
        case a: (Inr a)
        let ?d = "CompareSchemas a b"
        let ?au = "authorizeSchemaConflicts (Conflicts ?d) cfg"
        have none: "?au = Inr ()" if "Conflicts ?d = []"
          using that by (simp add: authorizeSchemaConflicts_def)
        have au: "(if length (Conflicts ?d) > 0 then ?au else Inr ()) = ?au" using none by simp
        have "(case (if length (Conflicts ?d) > 0 then ?au else Inr ()) of Inl er \<Rightarrow> (Inl er, m1) | Inr _ \<Rightarrow>
            if Identical ?d then (Inr (), m1)
            else case sm_ValidateSchema mgr d m1 of (v, m2) \<Rightarrow>
              (case v of Inl er \<Rightarrow> (Inl er, m2) | Inr _ \<Rightarrow> sm_WriteSchema mgr d m2)) = (r, m')"
          using run d b rd t a by (simp add: BootstrapAuthzSchema_def backend_def Let_def)
        note run' = this[unfolded au]
        show ?thesis
        proof (cases ?au)
          case (Inl er)
          with run' rd show ?thesis by (intro refused[of er]) auto
        next
          case (Inr u)
          then have ok: "?au = Inr ()" by simp
          obtain v m2 where v: "sm_ValidateSchema mgr d m1 = (v, m2)" by (cases "sm_ValidateSchema mgr d m1")
          show ?thesis
          proof (cases "Identical ?d")
            case True
            then show ?thesis using run' ok d b rd t a by (intro kept) simp_all
          next
            case False
            show ?thesis
            proof (cases v)
              case (Inl er)
              then show ?thesis using run' ok False v rd t by (intro invalid[of t m1 er d]) simp_all
            next
              case (Inr w)
              then show ?thesis using run' ok False v d b rd t a
                by (intro written[of d b t m1 a m2]) simp_all
            qed
          qed
        qed
      qed
    qed
  qed
qed

text \<open>Whatever the start-up does to the active schema text, it either leaves it or replaces
  it by the text of the schema file, and then without an error, only when the two schemas declare
  different things, and without removing a declaration or changing an expression unless the flag
  for that kind of change is set.\<close>

lemma schema_text_guarded:
  assumes mgr: "schema_manager mgr active"
    and run: "BootstrapAuthzSchema rf cfg (Some mgr) m = (r, m')"
  shows "active m' = active m \<or>
    (\<exists>a b. r = Inr () \<and> desired_text rf cfg = Inr (active m')
      \<and> ParseSchema (active m) = Inr a \<and> ParseSchema (active m') = Inr b
      \<and> (defined a \<noteq> defined b \<or> declared a \<noteq> declared b)
      \<and> (AllowSchemaDeletions cfg \<or> nothing_removed a b)
      \<and> (AllowPermissionMigrations cfg \<or> nothing_changed a b))"
proof -
  note M = mgr[unfolded schema_manager_def, rule_format]
  from run show ?thesis
  proof (cases rule: bootstrap_run_cases)
    case (refused er)
    then show ?thesis using M by simp
  next
    case (kept t a d b m1)
    then show ?thesis using M[of m] by simp
  next
    case (invalid er t d m1)
    then show ?thesis using M[of m] M[of m1 d] by simp
  next
    case (written t a d b m1 m2)
    then have act: "active m1 = active m" "t = active m" "active m2 = active m"
      using M[of m] M[of m1 d] by auto
    show ?thesis
    proof (cases r)
      case (Inl er)
      then show ?thesis using M[of m2 d] written act by simp
    next
      case (Inr u)
      then have "active m' = d" using M[of m2 d] written by simp
      moreover have "schema_wf a" using written ParseSchema_wf by blast
      ultimately show ?thesis
        using written act Inr authorized_iff[of a b cfg] identical_iff[of a b] ParseSchema_wf by auto
    qed
  qed simp
qed

subsection \<open>Runs\<close>

definition cell_manager :: "string SchemaManager" where
  "cell_manager =
     \<lparr>sm_ReadSchema = \<lambda>m. (Inr m, m), sm_ValidateSchema = \<lambda>t m. (Inr (), m),
      sm_WriteSchema = \<lambda>t m. (Inr (), t)\<rparr>"

lemma cell_manager: "schema_manager cell_manager id"
  by (simp add: schema_manager_def cell_manager_def)

definition old_text :: string where
  "old_text = ''definition user {} definition zone {relation owner: user}''"

definition new_text :: string where
  "new_text = ''definition user {} definition zone {relation owner: user'' @ [CHR 0x0A] @ ''permission view = owner}''"

definition strict_config :: AuthzConfig where
  "strict_config =
     \<lparr>AllowPermissionMigrations = False, AllowSchemaDeletions = False, SchemaPath = ''schema.zed''\<rparr>"

definition old_schema :: Schema where
  "old_schema = \<lparr>Definitions =
     [(''user'', empty_definition), (''zone'', \<lparr>Relations = [(''owner'', ''user'')], Permissions = []\<rparr>)]\<rparr>"

definition new_schema :: Schema where
  "new_schema = \<lparr>Definitions =
     [(''user'', empty_definition),
      (''zone'', \<lparr>Relations = [(''owner'', ''user'')], Permissions = [(''view'', ''owner'')]\<rparr>)]\<rparr>"

lemma parse_old: "ParseSchema old_text = Inr old_schema" by code_simp

lemma parse_new: "ParseSchema new_text = Inr new_schema" by code_simp

lemma bootstrap_adds:
  "BootstrapAuthzSchema (\<lambda>_. Inr new_text) strict_config (Some cell_manager) old_text = (Inr (), new_text)"
  by code_simp

lemma schema_diff_exact_witness:
  "Additive (CompareSchemas old_schema new_schema) \<and> extends new_schema old_schema"
proof -
  have "Additive (CompareSchemas old_schema new_schema)" by code_simp
  then show ?thesis using schema_diff_exact[OF parse_old parse_new] by blast
qed

lemma schema_text_guarded_example:
  "\<exists>a b. ParseSchema old_text = Inr a \<and> ParseSchema new_text = Inr b
     \<and> nothing_removed a b \<and> nothing_changed a b"
proof -
  have "new_text \<noteq> old_text" by (simp add: new_text_def old_text_def)
  then show ?thesis
    using schema_text_guarded[OF cell_manager bootstrap_adds] by (auto simp: strict_config_def)
qed

text \<open>
  A permission that goes on behind the end of its line is read up to there only, so a change in the rest of it counts as
  no change: by itself it is not installed, and next to an addition it is, with both flags off.
\<close>

definition continued :: "string \<Rightarrow> string" where
  "continued tail =
     ''definition zone {'' @ [CHR 0x0A] @ ''relation a: user'' @ [CHR 0x0A] @ ''relation b: user'' @ [CHR 0x0A]
     @ ''permission view = a -'' @ [CHR 0x0A] @ tail @ [CHR 0x0A] @ ''}''"

lemma continuation_not_compared:
  "BootstrapAuthzSchema (\<lambda>_. Inr (continued ''b'')) strict_config (Some cell_manager) (continued ''a'')
     = (Inr (), continued ''a'')"
  by code_simp

lemma continuation_published:
  "BootstrapAuthzSchema (\<lambda>_. Inr (continued (''b'' @ [CHR 0x0A] @ ''relation c: user''))) strict_config (Some cell_manager) (continued ''a'')
     = (Inr (), continued (''b'' @ [CHR 0x0A] @ ''relation c: user''))"
  by code_simp

end
