(* ===== verification/ManifestCheck.thy ===== *)
theory ManifestCheck
  imports SchemaLaws
begin

text \<open>
  The permission manifest and its check against the schema (internal/permissionmanifest,
  manifest.go and validate.go).  The YAML decoder is third-party code: the model starts from the
  decoded manifest.  Texts of errors are those of \<open>fmt.Errorf\<close>.
\<close>

record ManifestCapability =
  mfc_ID :: string
  mfc_Name :: string
  mfc_DisplayName :: string
  mfc_OwnerService :: string
  mfc_Status :: string

record ManifestType =
  mt_Type :: string
  mt_CapabilityID :: string
  mt_OwnerService :: string
  mt_ParentTypes :: "string list"
  mt_Grantable :: bool
  mt_Auditable :: bool
  mt_SpiceDBType :: string
  mt_Relations :: "string list"
  mt_Permissions :: "string list"
  mt_Status :: string

record ManifestRole =
  mfr_ResourceType :: string
  mfr_RoleKey :: string
  mfr_DisplayName :: string
  mfr_Relation :: string
  mfr_BuiltIn :: bool
  mfr_Enabled :: bool
  mfr_SortOrder :: int

record BootstrapRole =
  br_Aliases :: "string list"
  br_Scope :: string
  br_Relation :: string

record AdminResource =
  ar_Type :: string
  ar_ID :: string

record BootstrapPolicy =
  bp_DefaultRole :: string
  bp_PlatformID :: string
  bp_Roles :: "BootstrapRole gomap"
  bp_PlatformResources :: "AdminResource list"

record Manifest =
  mf_Capabilities :: "ManifestCapability list"
  mf_ResourceTypes :: "ManifestType list"
  mf_RoleTemplates :: "ManifestRole list"
  mf_Bootstrap :: BootstrapPolicy

subsection \<open>Roles of the start-up\<close>

definition no_role :: BootstrapRole where
  "no_role = \<lparr>br_Aliases = [], br_Scope = [], br_Relation = []\<rparr>"

text \<open>The choices \<open>c\<close> are the iteration order of the map of roles.\<close>

definition ResolveRole ::
    "(nat \<Rightarrow> nat) \<Rightarrow> BootstrapPolicy \<Rightarrow> string \<Rightarrow> BootstrapRole \<times> string \<times> bool" where
  "ResolveRole c p role0 =
     (let r1 = TrimSpace role0;
          role = (if r1 = [] then TrimSpace (bp_DefaultRole p) else r1)
      in case get_key (bp_Roles p) role of
           Some policy \<Rightarrow> (policy, role, True)
         | None \<Rightarrow>
            (case find (\<lambda>(canonical, policy). \<exists>alias \<in> set (br_Aliases policy). TrimSpace alias = role)
                (shuffle c (bp_Roles p)) of
               Some (canonical, policy) \<Rightarrow> (policy, canonical, True)
             | None \<Rightarrow> (no_role, [], False)))"

definition ResolveBootstrapRole ::
    "(nat \<Rightarrow> nat) \<Rightarrow> Manifest option \<Rightarrow> string \<Rightarrow> BootstrapRole \<times> string \<times> bool" where
  "ResolveBootstrapRole c m role =
     (case m of None \<Rightarrow> (no_role, [], False) | Some mf \<Rightarrow> ResolveRole c (mf_Bootstrap mf) role)"

subsection \<open>Validation\<close>

text \<open>Go's \<open>%v\<close> of a string slice.\<close>

definition show_strings :: "string list \<Rightarrow> string" where
  "show_strings vs = ''['' @ Join vs '' '' @ '']''"

definition validateExactSet :: "string \<Rightarrow> string list \<Rightarrow> string gomap \<Rightarrow> err + unit" where
  "validateExactSet label manifestValues schemaValues =
     (let values = map TrimSpace manifestValues in
      if [] \<in> set values then Inl (ErrNew (label @ '' contains an empty value''))
      else
        let missing = filter (\<lambda>v. v \<notin> set values) (map fst schemaValues);
            extra = filter (\<lambda>v. get_key schemaValues v = None) (remdups values)
        in if length missing = 0 \<and> length extra = 0 then Inr ()
           else Inl (ErrNew (label @ '' drift: missing='' @ show_strings (sort missing)
             @ '' extra='' @ show_strings (sort extra))))"

definition check_type ::
    "Schema \<Rightarrow> ManifestType \<Rightarrow> ManifestType gomap \<Rightarrow> err + ManifestType gomap" where
  "check_type schema t seen =
     (let name = TrimSpace (mt_Type t) in
      if name = [] then Inl (ErrNew ''resource type name is required'')
      else if get_key seen name \<noteq> None then Inl (ErrNew (''duplicate resource type '' @ name))
      else let definitionName = TrimSpace (mt_SpiceDBType t) in
        case get_key (Definitions schema) definitionName of
          None \<Rightarrow> Inl (ErrNew (''resource type '' @ name @ '' references missing schema definition '' @ definitionName))
        | Some d \<Rightarrow>
          (case validateExactSet (''resource type '' @ name @ '' relations'') (mt_Relations t) (Relations d) of
             Inl er \<Rightarrow> Inl er
           | Inr _ \<Rightarrow>
          (case validateExactSet (''resource type '' @ name @ '' permissions'') (mt_Permissions t) (Permissions d) of
             Inl er \<Rightarrow> Inl er
           | Inr _ \<Rightarrow> Inr (put_key name t seen))))"

primrec check_types ::
    "Schema \<Rightarrow> ManifestType list \<Rightarrow> ManifestType gomap \<Rightarrow> err + ManifestType gomap" where
  "check_types schema [] seen = Inr seen"
| "check_types schema (t # ts) seen =
     (case check_type schema t seen of Inl er \<Rightarrow> Inl er | Inr seen' \<Rightarrow> check_types schema ts seen')"

text \<open>
  The definition of a role's type is looked up under the type as it is written, and a missing
  definition reads as the empty one.
\<close>

definition check_role :: "Schema \<Rightarrow> ManifestType gomap \<Rightarrow> ManifestRole \<Rightarrow> err + unit" where
  "check_role schema types role =
     (case get_key types (TrimSpace (mfr_ResourceType role)) of
        None \<Rightarrow> Inl (ErrNew (''role template '' @ mfr_RoleKey role @ '' references unknown resource type ''
          @ mfr_ResourceType role))
      | Some t \<Rightarrow>
         (let d = (case get_key (Definitions schema) (mt_SpiceDBType t) of None \<Rightarrow> empty_definition | Some d \<Rightarrow> d) in
          if get_key (Relations d) (TrimSpace (mfr_Relation role)) = None
          then Inl (ErrNew (''role template '' @ mfr_RoleKey role @ '' references missing relation ''
            @ mfr_Relation role @ '' on '' @ mt_SpiceDBType t))
          else Inr ()))"

primrec each_check :: "('a \<Rightarrow> err + unit) \<Rightarrow> 'a list \<Rightarrow> err + unit" where
  "each_check f [] = Inr ()"
| "each_check f (x # xs) = (case f x of Inl er \<Rightarrow> Inl er | Inr _ \<Rightarrow> each_check f xs)"

definition check_scope :: "Schema \<Rightarrow> string \<Rightarrow> err + unit" where
  "check_scope schema scope =
     (if get_key (Definitions schema) scope = None
      then Inl (ErrNew (''bootstrap requires schema definition '' @ scope)) else Inr ())"

primrec check_names :: "string list \<Rightarrow> string list \<Rightarrow> err + string list" where
  "check_names [] seen = Inr seen"
| "check_names (candidate0 # cs) seen =
     (let candidate = TrimSpace candidate0 in
      if candidate = [] then Inl (ErrNew ''bootstrap role name or alias is empty'')
      else if candidate \<in> set seen
      then Inl (ErrNew (''duplicate bootstrap role name or alias '' @ candidate))
      else check_names cs (candidate # seen))"

definition scope_relations :: "Schema \<Rightarrow> string \<Rightarrow> string gomap" where
  "scope_relations schema scope =
     (case get_key (Definitions schema) scope of None \<Rightarrow> [] | Some d \<Rightarrow> Relations d)"

definition check_boot_role ::
    "Schema \<Rightarrow> string \<Rightarrow> BootstrapRole \<Rightarrow> string list \<Rightarrow> err + string list" where
  "check_boot_role schema name role seen =
     (case check_names (name # br_Aliases role) seen of
        Inl er \<Rightarrow> Inl er
      | Inr seen' \<Rightarrow>
         (let scope = TrimSpace (br_Scope role); relation = TrimSpace (br_Relation role) in
          if scope \<noteq> ''platform'' \<and> scope \<noteq> ''zone''
          then Inl (ErrNew (''bootstrap role '' @ name @ '' has unsupported scope '' @ scope))
          else if relation = [] then Inl (ErrNew (''bootstrap role '' @ name @ '' relation is required''))
          else if get_key (scope_relations schema scope) relation = None
          then Inl (ErrNew (''bootstrap role '' @ name @ '' references missing '' @ scope @ '' relation '' @ relation))
          else Inr seen'))"

primrec check_boot_roles ::
    "Schema \<Rightarrow> BootstrapRole gomap \<Rightarrow> string list \<Rightarrow> string list \<Rightarrow> err + string list" where
  "check_boot_roles schema roles [] seen = Inr seen"
| "check_boot_roles schema roles (name # ns) seen =
     (case check_boot_role schema name (case get_key roles name of None \<Rightarrow> no_role | Some r \<Rightarrow> r) seen of
        Inl er \<Rightarrow> Inl er
      | Inr seen' \<Rightarrow> check_boot_roles schema roles ns seen')"

definition check_platform_resource :: "Schema \<Rightarrow> AdminResource \<Rightarrow> err + unit" where
  "check_platform_resource schema r =
     (let resourceType = TrimSpace (ar_Type r) in
      case get_key (Definitions schema) resourceType of
        None \<Rightarrow> Inl (ErrNew (''bootstrap platform resource type '' @ resourceType @ '' is not defined in schema''))
      | Some d \<Rightarrow>
          if TrimSpace (ar_ID r) = []
          then Inl (ErrNew (''bootstrap platform resource '' @ resourceType @ '' has empty id''))
          else if get_key (Relations d) ''platform'' = None
          then Inl (ErrNew (''bootstrap platform resource '' @ resourceType @ '' requires relation platform''))
          else Inr ())"

definition validateBootstrap :: "(nat \<Rightarrow> nat) \<Rightarrow> Manifest \<Rightarrow> Schema \<Rightarrow> err + unit" where
  "validateBootstrap c manifest schema =
     (let boot = mf_Bootstrap manifest in
      if TrimSpace (bp_PlatformID boot) = [] then Inl (ErrNew ''bootstrap platform_id is required'')
      else case each_check (check_scope schema) [''platform'', ''zone''] of Inl er \<Rightarrow> Inl er | Inr _ \<Rightarrow>
      case check_boot_roles schema (bp_Roles boot) (sort (map fst (bp_Roles boot))) [] of
        Inl er \<Rightarrow> Inl er
      | Inr _ \<Rightarrow>
      if \<not> snd (snd (ResolveBootstrapRole c (Some manifest) (bp_DefaultRole boot)))
      then Inl (ErrNew (''bootstrap default role '' @ bp_DefaultRole boot @ '' does not resolve''))
      else each_check (check_platform_resource schema) (bp_PlatformResources boot))"

definition Validate :: "(nat \<Rightarrow> nat) \<Rightarrow> Manifest option \<Rightarrow> Schema \<Rightarrow> err + unit" where
  "Validate c m schema =
     (case m of None \<Rightarrow> Inl (ErrNew ''permission manifest is nil'') | Some manifest \<Rightarrow>
      case check_types schema (mf_ResourceTypes manifest) [] of Inl er \<Rightarrow> Inl er | Inr types \<Rightarrow>
      case each_check (check_role schema types) (mf_RoleTemplates manifest) of Inl er \<Rightarrow> Inl er | Inr _ \<Rightarrow>
      validateBootstrap c manifest schema)"

end
