(* ===== verification/IdentityMode.thy ===== *)
theory IdentityMode
  imports ProjectionLaws
begin

text \<open>
  The identity layer of \<open>internal/data/identity_mode.go\<close>: an identity provider (Casdoor or an
  upstream OIDC directory) whose changes of zones, groups and memberships are projected to the
  relationship store, with an event table, DTM sagas, compensation and retries.

  Outside the repository and parameters here: the provider (\<open>authn.IdentityAdmin\<close>, a record of its
  methods on a state \<open>'p\<close>), the event table and the DTM server (\<open>dbx.DB\<close>, \<open>dtmx.Manager\<close>, records of
  their methods on a state \<open>'d\<close>), the relationship store of theory Authz on a state \<open>'g\<close>, and the
  JSON codec of the payload.  The provider's data have the fields that the program uses.
\<close>

abbreviation IdentityModeCasdoorLocal :: string where "IdentityModeCasdoorLocal \<equiv> ''casdoor_local''"
abbreviation IdentityModeExternalOIDC :: string where "IdentityModeExternalOIDC \<equiv> ''external_oidc''"
abbreviation identityTopic :: string where "identityTopic \<equiv> ''iam.identity.authz.projection''"
abbreviation OperationUp :: string where "OperationUp \<equiv> ''write''"
abbreviation OperationRm :: string where "OperationRm \<equiv> ''delete''"
abbreviation defaultPlatformID :: string where "defaultPlatformID \<equiv> ''global''"

subsection \<open>The provider and its data\<close>

record DirGroup =
  gp_ID :: string
  gp_OrgID :: string
  gp_Name :: string
  gp_DisplayName :: string
  gp_ParentID :: string
  gp_ExternalID :: string
  gp_Users :: "string list"
  gp_Type :: string
  gp_Path :: string

record DirUser =
  us_ID :: string
  us_OrgID :: string
  us_Groups :: "string list"
  us_ExternalID :: string
  us_Provider :: string
  us_Username :: string
  us_DisplayName :: string
  us_Email :: string
  us_Phone :: string
  us_Roles :: "string list"
  us_Enabled :: bool

record Organization =
  og_ID :: string
  og_Name :: string
  og_ExternalID :: string
  og_DisplayName :: string
  og_OwnerID :: string
  og_ParentID :: string
  og_Tags :: "string list"
  og_Enabled :: bool

record Application =
  app_ID :: string
  app_OrgID :: string

record GroupFilter =
  gf_OrgID :: string
  gf_UserID :: string
  gf_Limit :: int
  gf_ParentID :: string
  gf_Type :: string

record UserFilter =
  uf_OrgID :: string
  uf_Limit :: int
  uf_GroupID :: string
  uf_Role :: string
  uf_Username :: string

text \<open>
  The methods of the provider; the requests are given by their fields: a record with the idempotency
  key of a creation, the flags \<open>Hard\<close> and \<open>Recursive\<close> of a deletion.
\<close>

record 'p IdentityAdmin =
  ia_CreateUser :: "DirUser \<Rightarrow> string \<Rightarrow> 'p \<Rightarrow> (err + DirUser) \<times> 'p"
  ia_UpdateUser :: "DirUser \<Rightarrow> 'p \<Rightarrow> (err + DirUser) \<times> 'p"
  ia_DeleteUser :: "string \<Rightarrow> string \<Rightarrow> bool \<Rightarrow> 'p \<Rightarrow> (err + unit) \<times> 'p"
  ia_UpsertUser :: "DirUser \<Rightarrow> 'p \<Rightarrow> (err + DirUser) \<times> 'p"
  ia_DisableUser :: "string \<Rightarrow> string \<Rightarrow> 'p \<Rightarrow> (err + unit) \<times> 'p"
  ia_GetUser :: "string \<Rightarrow> string \<Rightarrow> 'p \<Rightarrow> (err + DirUser) \<times> 'p"
  ia_FindUsers :: "UserFilter \<Rightarrow> 'p \<Rightarrow> (err + DirUser list) \<times> 'p"
  ia_CreateOrganization :: "Organization \<Rightarrow> 'p \<Rightarrow> (err + Organization) \<times> 'p"
  ia_GetOrganization :: "string \<Rightarrow> 'p \<Rightarrow> (err + Organization) \<times> 'p"
  ia_UpdateOrganization :: "Organization \<Rightarrow> 'p \<Rightarrow> (err + Organization) \<times> 'p"
  ia_DeleteOrganization :: "string \<Rightarrow> 'p \<Rightarrow> (err + unit) \<times> 'p"
  ia_CreateApplication :: "Application \<Rightarrow> 'p \<Rightarrow> (err + Application) \<times> 'p"
  ia_GetApplication :: "string \<Rightarrow> string \<Rightarrow> 'p \<Rightarrow> (err + Application) \<times> 'p"
  ia_UpdateApplication :: "Application \<Rightarrow> 'p \<Rightarrow> (err + Application) \<times> 'p"
  ia_DeleteApplication :: "string \<Rightarrow> string \<Rightarrow> 'p \<Rightarrow> (err + unit) \<times> 'p"
  ia_CreateGroup :: "DirGroup \<Rightarrow> string \<Rightarrow> 'p \<Rightarrow> (err + DirGroup) \<times> 'p"
  ia_GetGroup :: "string \<Rightarrow> string \<Rightarrow> 'p \<Rightarrow> (err + DirGroup) \<times> 'p"
  ia_ListGroups :: "GroupFilter \<Rightarrow> 'p \<Rightarrow> (err + DirGroup list) \<times> 'p"
  ia_UpdateGroup :: "DirGroup \<Rightarrow> 'p \<Rightarrow> (err + DirGroup) \<times> 'p"
  ia_DeleteGroup :: "string \<Rightarrow> string \<Rightarrow> bool \<Rightarrow> 'p \<Rightarrow> (err + unit) \<times> 'p"
  ia_AssignUserToGroup :: "string \<Rightarrow> string \<Rightarrow> string \<Rightarrow> 'p \<Rightarrow> (err + unit) \<times> 'p"
  ia_RemoveUserFromGroup :: "string \<Rightarrow> string \<Rightarrow> string \<Rightarrow> 'p \<Rightarrow> (err + unit) \<times> 'p"

definition identityMode :: "string \<Rightarrow> err + string" where
  "identityMode mode =
     (let mode = TrimSpace (ToLower mode) in
      if mode = [] \<or> mode = IdentityModeCasdoorLocal then Inr IdentityModeCasdoorLocal
      else if mode = IdentityModeExternalOIDC then Inr IdentityModeExternalOIDC
      else Inl (ErrNew (''unsupported authn identity_mode: '' @ mode)))"

definition externalDirectoryReadOnlyError :: "string \<Rightarrow> err" where
  "externalDirectoryReadOnlyError operation =
     ErrIdentityBackendFailed (''identity user/org directory is read-only in external_oidc mode: '' @ operation)"

text \<open>The methods that \<open>externalOIDCIdentityAdmin\<close> refuses; it passes on all others.\<close>

definition externalOIDCIdentityAdmin :: "'p IdentityAdmin \<Rightarrow> 'p IdentityAdmin" where
  "externalOIDCIdentityAdmin a = a\<lparr>
     ia_CreateUser := (\<lambda>_ _ p. (Inl (externalDirectoryReadOnlyError ''CreateUser''), p)),
     ia_UpdateUser := (\<lambda>_ p. (Inl (externalDirectoryReadOnlyError ''UpdateUser''), p)),
     ia_DeleteUser := (\<lambda>_ _ _ p. (Inl (externalDirectoryReadOnlyError ''DeleteUser''), p)),
     ia_UpsertUser := (\<lambda>_ p. (Inl (externalDirectoryReadOnlyError ''UpsertUser''), p)),
     ia_DisableUser := (\<lambda>_ _ p. (Inl (externalDirectoryReadOnlyError ''DisableUser''), p)),
     ia_CreateOrganization := (\<lambda>_ p. (Inl (externalDirectoryReadOnlyError ''CreateOrganization''), p)),
     ia_UpdateOrganization := (\<lambda>_ p. (Inl (externalDirectoryReadOnlyError ''UpdateOrganization''), p)),
     ia_DeleteOrganization := (\<lambda>_ p. (Inl (externalDirectoryReadOnlyError ''DeleteOrganization''), p)),
     ia_CreateApplication := (\<lambda>_ p. (Inl (externalDirectoryReadOnlyError ''CreateApplication''), p)),
     ia_UpdateApplication := (\<lambda>_ p. (Inl (externalDirectoryReadOnlyError ''UpdateApplication''), p)),
     ia_DeleteApplication := (\<lambda>_ _ p. (Inl (externalDirectoryReadOnlyError ''DeleteApplication''), p))\<rparr>"

definition identityForMode :: "string \<Rightarrow> 'p IdentityAdmin option \<Rightarrow> err + 'p IdentityAdmin option" where
  "identityForMode mode admin =
     (case identityMode mode of
        Inl er \<Rightarrow> Inl er
      | Inr resolved \<Rightarrow>
          (case admin of
             None \<Rightarrow> Inr None
           | Some a \<Rightarrow> Inr (Some (if resolved = IdentityModeExternalOIDC then externalOIDCIdentityAdmin a else a))))"

subsection \<open>Text helpers and identifiers\<close>

primrec firstNonEmpty :: "string list \<Rightarrow> string" where
  "firstNonEmpty [] = []"
| "firstNonEmpty (v # vs) = (if TrimSpace v \<noteq> [] then TrimSpace v else firstNonEmpty vs)"

text \<open>\<open>qualifiedGroupID\<close> ignores the organization.\<close>

definition qualifiedGroupID :: "string \<Rightarrow> string \<Rightarrow> string" where
  "qualifiedGroupID orgID groupID = TrimSpace groupID"

definition UnixNano :: "gotime \<Rightarrow> int" where
  "UnixNano t = wrap64 (t - 62135596800000000000)"

fun hex_of :: "nat \<Rightarrow> string" where
  "hex_of n = (if n < 16 then [hex_digit n] else hex_of (n div 16) @ [hex_digit (n mod 16)])"

declare hex_of.simps [simp del]

text \<open>The verb \<open>%016x\<close>: the sign counts among the sixteen characters.\<close>

definition hex16 :: "int \<Rightarrow> string" where
  "hex16 i = (if i < 0 then CHR ''-'' # pad_left 15 (hex_of (nat (- i))) else pad_left 16 (hex_of (nat i)))"

text \<open>
  Identifiers from one read of the random source (\<open>None\<close> when it fails) and, then, the clock.  The
  bytes are in the range of Go's \<open>byte\<close>: \<open>b AND 15 OR 64\<close> is \<open>b mod 16 + 64\<close> and \<open>b AND 63 OR 128\<close> is
  \<open>b mod 64 + 128\<close>.
\<close>

definition newGroupID :: "nat list option \<Rightarrow> gotime \<Rightarrow> string" where
  "newGroupID rnd t =
     (case rnd of
        Some b \<Rightarrow> ''grp_'' @ hex_encode ((b[6 := b ! 6 mod 16 + 64])[8 := b ! 8 mod 64 + 128])
      | None \<Rightarrow> ''grp_'' @ hex16 (UnixNano t))"

definition newIdentityProjectionID :: "nat list option \<Rightarrow> gotime \<Rightarrow> string" where
  "newIdentityProjectionID rnd t =
     (case rnd of
        Some b \<Rightarrow> ''dirproj_'' @ hex_encode b
      | None \<Rightarrow> ''dirproj_'' @ Itoa (UnixNano t))"

subsection \<open>Relationships and filters of the directory\<close>

definition edge :: "ObjectRef \<Rightarrow> string \<Rightarrow> SubjectRef \<Rightarrow> Relationship" where
  "edge ob relation subj =
     \<lparr>rel_Resource = ob, rel_Relation = relation, rel_Subject = subj, rel_ExpiresAt = zero_time\<rparr>"

definition platformZoneRelationship :: "string \<Rightarrow> Relationship" where
  "platformZoneRelationship orgID =
     edge \<lparr>ob_Type = ''zone'', ob_ID = TrimSpace orgID\<rparr> ''platform''
          \<lparr>su_Type = ''platform'', su_ID = defaultPlatformID, su_Relation = []\<rparr>"

definition groupMemberRelationship :: "string \<Rightarrow> string \<Rightarrow> Relationship" where
  "groupMemberRelationship groupID userID =
     edge \<lparr>ob_Type = ''group'', ob_ID = TrimSpace groupID\<rparr> ''member''
          \<lparr>su_Type = ''user'', su_ID = TrimSpace userID, su_Relation = []\<rparr>"

definition zoneMemberRelationship :: "string \<Rightarrow> string \<Rightarrow> Relationship" where
  "zoneMemberRelationship orgID userID =
     edge \<lparr>ob_Type = ''zone'', ob_ID = TrimSpace orgID\<rparr> ''member''
          \<lparr>su_Type = ''user'', su_ID = TrimSpace userID, su_Relation = []\<rparr>"

definition groupTopologyRelationships :: "DirGroup \<Rightarrow> DirGroup \<Rightarrow> Relationship list" where
  "groupTopologyRelationships primary fallback =
     (let orgID = firstNonEmpty [gp_OrgID primary, gp_OrgID fallback];
          groupID = qualifiedGroupID orgID (firstNonEmpty [gp_ID primary, gp_ID fallback]);
          parentID = qualifiedGroupID orgID (firstNonEmpty [gp_ParentID primary, gp_ParentID fallback])
      in if groupID = [] then []
         else (if orgID \<noteq> []
               then [edge \<lparr>ob_Type = ''group'', ob_ID = groupID\<rparr> ''zone''
                       \<lparr>su_Type = ''zone'', su_ID = orgID, su_Relation = []\<rparr>]
               else [])
              @ (if parentID \<noteq> [] \<and> parentID \<noteq> groupID \<and> parentID \<noteq> orgID
                 then [edge \<lparr>ob_Type = ''group'', ob_ID = groupID\<rparr> ''parent''
                         \<lparr>su_Type = ''group'', su_ID = parentID, su_Relation = []\<rparr>,
                       edge \<lparr>ob_Type = ''group'', ob_ID = parentID\<rparr> ''member''
                         \<lparr>su_Type = ''group'', su_ID = groupID, su_Relation = ''member''\<rparr>]
                 else []))"

definition groupTopologyDeleteFilters :: "DirGroup \<Rightarrow> DirGroup \<Rightarrow> RelationshipFilter list" where
  "groupTopologyDeleteFilters oldGroup fallback =
     (let orgID = firstNonEmpty [gp_OrgID oldGroup, gp_OrgID fallback];
          groupID = qualifiedGroupID orgID (firstNonEmpty [gp_ID oldGroup, gp_ID fallback])
      in if groupID = [] then []
         else [empty_filter\<lparr>f_ResourceType := ''group'', f_ResourceID := groupID, f_Relation := ''zone''\<rparr>,
               empty_filter\<lparr>f_ResourceType := ''group'', f_ResourceID := groupID, f_Relation := ''parent''\<rparr>,
               empty_filter\<lparr>f_ResourceType := ''group'', f_Relation := ''member'', f_SubjectType := ''group'',
                 f_SubjectID := groupID, f_SubjectRel := ''member''\<rparr>])"

definition groupDeleteFilters :: "string \<Rightarrow> string \<Rightarrow> RelationshipFilter list" where
  "groupDeleteFilters orgID groupID =
     (let groupID = qualifiedGroupID orgID groupID
      in if groupID = [] then []
         else [empty_filter\<lparr>f_ResourceType := ''group'', f_ResourceID := groupID\<rparr>,
               empty_filter\<lparr>f_SubjectType := ''group'', f_SubjectID := groupID\<rparr>,
               empty_filter\<lparr>f_SubjectType := ''group'', f_SubjectID := groupID, f_SubjectRel := ''member''\<rparr>])"

text \<open>The resource types that \<open>userSubjectDeleteFilters\<close> enumerates, and its filters.\<close>

definition iam_resource_types :: "string list" where
  "iam_resource_types =
     [''platform'', ''zone'', ''group'', ''iam_authz'', ''iam'', ''project'', ''skill_space'', ''skill'',
      ''agent_space'', ''agent'', ''tool_space'', ''tool'', ''sandbox_space'', ''sandbox'',
      ''runtime_environment'', ''deployment'', ''role_binding'']"

definition userSubjectDeleteFilters :: "string \<Rightarrow> RelationshipFilter list" where
  "userSubjectDeleteFilters userID =
     (let uid = TrimSpace userID
      in if uid = [] then []
         else map (\<lambda>t. empty_filter\<lparr>f_ResourceType := t, f_SubjectType := ''user'', f_SubjectID := uid\<rparr>)
                iam_resource_types)"

subsection \<open>Payloads\<close>

record IdentityAuthZProjectionPayload =
  ip_Operation :: string
  ip_Relationships :: "Relationship list"
  ip_Filters :: "RelationshipFilter list"

record IdentityAuthZBranchPayload =
  ib_EventID :: string
  ib_Payload :: IdentityAuthZProjectionPayload

definition rel_text :: "Relationship \<Rightarrow> string" where
  "rel_text r = ob_Type (rel_Resource r) @ '':'' @ ob_ID (rel_Resource r) @ ''#'' @ rel_Relation r
     @ ''@'' @ su_Type (rel_Subject r) @ '':'' @ su_ID (rel_Subject r) @ ''#'' @ su_Relation (rel_Subject r)"

primrec dedupe_rels :: "kernel \<Rightarrow> string list \<Rightarrow> Relationship list \<Rightarrow> Relationship list" where
  "dedupe_rels K seen [] = []"
| "dedupe_rels K seen (r # rs) =
     (if \<not> well_formed_rel K r \<or> rel_text r \<in> set seen then dedupe_rels K seen rs
      else r # dedupe_rels K (rel_text r # seen) rs)"

definition dedupeRelationships :: "kernel \<Rightarrow> Relationship list \<Rightarrow> Relationship list" where
  "dedupeRelationships K rels = dedupe_rels K [] rels"

definition trim_rel :: "Relationship \<Rightarrow> Relationship" where
  "trim_rel r = r\<lparr>rel_Resource := (rel_Resource r)\<lparr>ob_ID := TrimSpace (ob_ID (rel_Resource r))\<rparr>,
     rel_Subject := (rel_Subject r)\<lparr>su_ID := TrimSpace (su_ID (rel_Subject r))\<rparr>\<rparr>"

definition trim_filter :: "RelationshipFilter \<Rightarrow> RelationshipFilter" where
  "trim_filter f = f\<lparr>f_ResourceID := TrimSpace (f_ResourceID f), f_SubjectID := TrimSpace (f_SubjectID f)\<rparr>"

text \<open>The loop over the relationships skips the malformed ones (\<open>well_formed_rel\<close> of theory Authz).\<close>

definition normalizeProjectionPayload ::
    "kernel \<Rightarrow> IdentityAuthZProjectionPayload \<Rightarrow> IdentityAuthZProjectionPayload" where
  "normalizeProjectionPayload K p =
     \<lparr>ip_Operation = (if TrimSpace (ip_Operation p) = [] then OperationUp else TrimSpace (ip_Operation p)),
      ip_Relationships = dedupeRelationships K (map trim_rel (filter (well_formed_rel K) (ip_Relationships p))),
      ip_Filters = map trim_filter (filter (\<lambda>f. f \<noteq> empty_filter) (ip_Filters p))\<rparr>"

definition isProjectionPayloadEmpty :: "IdentityAuthZProjectionPayload \<Rightarrow> bool" where
  "isProjectionPayloadEmpty p \<longleftrightarrow> ip_Relationships p = [] \<and> ip_Filters p = []"

subsection \<open>Applying and compensating a payload\<close>

definition ApplyIdentityAuthZProjection ::
    "kernel \<Rightarrow> 'g store option \<Rightarrow> IdentityAuthZProjectionPayload \<Rightarrow> 'g \<Rightarrow> (WriteResult \<times> err option) \<times> 'g" where
  "ApplyIdentityAuthZProjection K writer payload g =
     (case writer of
        None \<Rightarrow> ((no_result, Some (ErrBackendFailed ''authz relationship writer is not configured'')), g)
      | Some s \<Rightarrow>
          let p = normalizeProjectionPayload K payload in
          if ip_Operation p = OperationUp then st_write s (ip_Relationships p) g
          else if ip_Operation p = OperationRm then deleteRelationships s (ip_Filters p) g
          else ((no_result, Some (ErrNew
                 (''unsupported identity authz projection operation: '' @ ip_Operation p))), g))"

definition CompensateIdentityAuthZProjection ::
    "kernel \<Rightarrow> 'g store option \<Rightarrow> IdentityAuthZProjectionPayload \<Rightarrow> 'g \<Rightarrow> (WriteResult \<times> err option) \<times> 'g" where
  "CompensateIdentityAuthZProjection K writer payload g =
     (case writer of
        None \<Rightarrow> ((no_result, Some (ErrBackendFailed ''authz relationship writer is not configured'')), g)
      | Some s \<Rightarrow>
          let p = normalizeProjectionPayload K payload in
          if ip_Operation p = OperationUp
          then deleteRelationships s (relationshipFilters (ip_Relationships p)) g
          else if ip_Operation p = OperationRm then st_write s (ip_Relationships p) g
          else ((no_result, Some (ErrNew
                 (''unsupported identity authz projection operation: '' @ ip_Operation p))), g))"

subsection \<open>Desired relationships and drift\<close>

definition user_relationships :: "string \<Rightarrow> DirUser \<Rightarrow> Relationship list" where
  "user_relationships orgID u =
     (if TrimSpace (us_ID u) = [] then []
      else edge \<lparr>ob_Type = ''zone'', ob_ID = orgID\<rparr> ''member''
             \<lparr>su_Type = ''user'', su_ID = TrimSpace (us_ID u), su_Relation = []\<rparr>
           # map (\<lambda>g. groupMemberRelationship (qualifiedGroupID orgID g) (us_ID u)) (us_Groups u))"

definition zero_group :: DirGroup where
  "zero_group = \<lparr>gp_ID = [], gp_OrgID = [], gp_Name = [], gp_DisplayName = [], gp_ParentID = [],
     gp_ExternalID = [], gp_Users = [], gp_Type = [], gp_Path = []\<rparr>"

definition group_relationships :: "string \<Rightarrow> DirGroup \<Rightarrow> Relationship list" where
  "group_relationships orgID g =
     groupTopologyRelationships g (zero_group\<lparr>gp_OrgID := orgID\<rparr>)
     @ map (\<lambda>u. groupMemberRelationship
              (qualifiedGroupID (firstNonEmpty [gp_OrgID g, orgID]) (gp_ID g)) u) (gp_Users g)"

definition directory_relationships :: "string \<Rightarrow> DirGroup list \<Rightarrow> DirUser list \<Rightarrow> Relationship list" where
  "directory_relationships orgID groups users =
     platformZoneRelationship orgID # concat (map (user_relationships orgID) users)
     @ concat (map (group_relationships orgID) groups)"

definition BuildDirectoryProjectionRelationships ::
    "kernel \<Rightarrow> 'p IdentityAdmin option \<Rightarrow> string \<Rightarrow> 'p \<Rightarrow> (err + Relationship list) \<times> 'p" where
  "BuildDirectoryProjectionRelationships K identity orgID p =
     (let orgID = TrimSpace orgID in
      case identity of
        None \<Rightarrow> (Inr [], p)
      | Some a \<Rightarrow>
          if orgID = [] then (Inr [], p)
          else case ia_ListGroups a \<lparr>gf_OrgID = orgID, gf_UserID = [], gf_Limit = 10000,
                   gf_ParentID = [], gf_Type = []\<rparr> p of
                 (Inl er, p) \<Rightarrow> (Inl er, p)
               | (Inr groups, p) \<Rightarrow>
                   (case ia_FindUsers a \<lparr>uf_OrgID = orgID, uf_Limit = 10000,
                      uf_GroupID = [], uf_Role = [], uf_Username = []\<rparr> p of
                      (Inl er, p) \<Rightarrow> (Inl er, p)
                    | (Inr users, p) \<Rightarrow>
                        (Inr (dedupeRelationships K (directory_relationships orgID groups users)), p)))"

primrec drift_loop ::
    "'g store \<Rightarrow> Relationship list \<Rightarrow> Relationship list \<Rightarrow> 'g \<Rightarrow> (Relationship list \<times> err option) \<times> 'g" where
  "drift_loop s missing [] g = ((missing, None), g)"
| "drift_loop s missing (r # rs) g =
     (case st_read s (filter_of r) g of
        (Inl er, g') \<Rightarrow> ((missing, Some er), g')
      | (Inr current, g') \<Rightarrow> drift_loop s (if current = [] then missing @ [r] else missing) rs g')"

definition DetectDirectoryProjectionDrift ::
    "kernel \<Rightarrow> 'g store option \<Rightarrow> Relationship list \<Rightarrow> 'g \<Rightarrow> (Relationship list \<times> err option) \<times> 'g" where
  "DetectDirectoryProjectionDrift K reader desired g =
     (case reader of
        None \<Rightarrow> (([], Some (ErrBackendFailed ''authz relationship reader is not configured'')), g)
      | Some s \<Rightarrow> drift_loop s [] (dedupeRelationships K desired) g)"

end
