(* ===== verification/IdentityProjection.thy ===== *)
theory IdentityProjection
  imports IdentityMode
begin

text \<open>
  The stateful half of \<open>internal/data/identity_mode.go\<close>: the dispatcher of identity projections, the
  identity provider that projects its changes, and the reconciliation and drift operations of
  \<open>internal/service/directory_projection.go\<close>.

  The world holds the states of the provider, of the event table and DTM server, and of the
  relationship store.  Each reading of the clock or of the random source is one tick.
\<close>

subsection \<open>Environment and world\<close>

record Principal =
  pn_SubjectType :: string
  pn_SubjectID :: string

text \<open>
  \<open>ie_quote\<close> is the verb \<open>%q\<close>; \<open>ie_principal\<close> is the principal of the context, when the context has one
  and its method \<open>IsAuthenticated\<close> holds.
\<close>

record identity_env =
  ie_clock :: "nat \<Rightarrow> gotime"
  ie_rand :: "nat \<Rightarrow> nat \<Rightarrow> nat list option"
  ie_kern :: kernel
  ie_quote :: "string \<Rightarrow> string"
  ie_principal :: "Principal option"

record ('p, 'd, 'g) identity_world =
  iw_ticks :: nat
  iw_provider :: 'p
  iw_back :: 'd
  iw_graph :: 'g

type_synonym ('p, 'd, 'g, 'a) iop = "(identity_env, ('p, 'd, 'g) identity_world, 'a) io"

definition i_now :: "('p, 'd, 'g, gotime) iop" where
  "i_now = (\<lambda>e w. (ie_clock e (iw_ticks w), w\<lparr>iw_ticks := Suc (iw_ticks w)\<rparr>))"

definition i_id :: "nat \<Rightarrow> (nat list option \<Rightarrow> gotime \<Rightarrow> string) \<Rightarrow> ('p, 'd, 'g, string) iop" where
  "i_id n f = (\<lambda>e w. (f (ie_rand e (iw_ticks w) n) (ie_clock e (iw_ticks w)),
     w\<lparr>iw_ticks := Suc (iw_ticks w)\<rparr>))"

definition on_provider :: "('p \<Rightarrow> 'a \<times> 'p) \<Rightarrow> ('p, 'd, 'g, 'a) iop" where
  "on_provider f = (\<lambda>e w. case f (iw_provider w) of (r, p) \<Rightarrow> (r, w\<lparr>iw_provider := p\<rparr>))"

definition on_back :: "('d \<Rightarrow> 'a \<times> 'd) \<Rightarrow> ('p, 'd, 'g, 'a) iop" where
  "on_back f = (\<lambda>e w. case f (iw_back w) of (r, d) \<Rightarrow> (r, w\<lparr>iw_back := d\<rparr>))"

definition on_tuples :: "(kernel \<Rightarrow> 'g \<Rightarrow> 'a \<times> 'g) \<Rightarrow> ('p, 'd, 'g, 'a) iop" where
  "on_tuples f = (\<lambda>e w. case f (ie_kern e) (iw_graph w) of (r, g) \<Rightarrow> (r, w\<lparr>iw_graph := g\<rparr>))"

subsection \<open>The dispatcher\<close>

record IdentityProjectionEventModel =
  ipe_ID :: string
  ipe_Source :: string
  ipe_AggregateType :: string
  ipe_AggregateID :: string
  ipe_Operation :: string
  ipe_PayloadJSON :: string
  ipe_Status :: string
  ipe_RetryCount :: int
  ipe_LastError :: string
  ipe_NextRunAt :: "gotime option"
  ipe_CreatedAt :: gotime
  ipe_UpdatedAt :: gotime

text \<open>
  The event table: \<open>edb_Update\<close> and \<open>edb_Increment\<close> act on the row with the given identifier,
  \<open>edb_Due statuses now limit\<close> is the query of \<open>RetryOnce\<close> (rows with one of the statuses and no later
  \<open>next_run_at\<close>, oldest first).
\<close>

record 'd eventdb =
  edb_Create :: "IdentityProjectionEventModel \<Rightarrow> 'd \<Rightarrow> (err + unit) \<times> 'd"
  edb_Update :: "string \<Rightarrow> (string \<times> column) list \<Rightarrow> 'd \<Rightarrow> (err + unit) \<times> 'd"
  edb_Increment :: "string \<Rightarrow> string \<Rightarrow> int \<Rightarrow> 'd \<Rightarrow> (err + unit) \<times> 'd"
  edb_Due :: "string list \<Rightarrow> gotime \<Rightarrow> int \<Rightarrow> 'd \<Rightarrow> (err + IdentityProjectionEventModel list) \<times> 'd"

record IdentitySaga =
  is_GID :: string
  is_Topic :: string
  is_Branch :: string
  is_Action :: string
  is_Compensate :: string
  is_Payload :: IdentityAuthZBranchPayload

record 'd identity_dtm =
  idt_Enabled :: bool
  idt_NewGID :: "'d \<Rightarrow> (err + string) \<times> 'd"
  idt_BranchURL :: "string \<Rightarrow> string"
  idt_SubmitSaga :: "IdentitySaga \<Rightarrow> 'd \<Rightarrow> (err + unit) \<times> 'd"

record ('d, 'g) Dispatcher =
  idp_writer :: "'g store option"
  idp_reader :: "'g store option"
  idp_dtm :: "'d identity_dtm option"
  idp_db :: "'d eventdb option"
  idp_marshal :: "IdentityAuthZProjectionPayload \<Rightarrow> err + string"
  idp_unmarshal :: "string \<Rightarrow> err + IdentityAuthZProjectionPayload"

type_synonym identity_codec =
  "(IdentityAuthZProjectionPayload \<Rightarrow> err + string) \<times> (string \<Rightarrow> err + IdentityAuthZProjectionPayload)"

definition NewIdentityProjectionDispatcher ::
    "identity_codec \<Rightarrow> 'g store option \<Rightarrow> 'g store option \<Rightarrow> 'd identity_dtm option \<Rightarrow> 'd eventdb option
     \<Rightarrow> ('d, 'g) Dispatcher option" where
  "NewIdentityProjectionDispatcher codec writer reader dtm table =
     (case writer of
        None \<Rightarrow> None
      | Some s \<Rightarrow> Some \<lparr>idp_writer = Some s, idp_reader = reader, idp_dtm = dtm, idp_db = table,
                       idp_marshal = fst codec, idp_unmarshal = snd codec\<rparr>)"

definition idn_not_configured :: err where
  "idn_not_configured = ErrBackendFailed ''identity authz projection dispatcher is not configured''"

text \<open>\<open>idn_mark\<close> and \<open>idn_markFailure\<close>; their callers drop the errors.\<close>

definition idn_mark :: "('d, 'g) Dispatcher \<Rightarrow> string \<Rightarrow> string \<Rightarrow> string \<Rightarrow> ('p, 'd, 'g, err + unit) iop" where
  "idn_mark d eventID status lastError =
     (case idp_db d of
        None \<Rightarrow> okE ()
      | Some table \<Rightarrow>
          if TrimSpace eventID = [] then okE ()
          else bind_io i_now (\<lambda>now.
               on_back (edb_Update table eventID
                 [(''status'', ColString status), (''last_error'', ColString lastError),
                  (''updated_at'', ColTime now)])))"

definition idn_markFailure :: "('d, 'g) Dispatcher \<Rightarrow> string \<Rightarrow> err \<Rightarrow> ('p, 'd, 'g, err + unit) iop" where
  "idn_markFailure d eventID er =
     (case idp_db d of
        None \<Rightarrow> okE ()
      | Some table \<Rightarrow>
          if TrimSpace eventID = [] then okE ()
          else bind_io i_now (\<lambda>t.
               bind_io i_now (\<lambda>now.
               bindE (on_back (edb_Update table eventID
                   [(''status'', ColString StatusFailed), (''last_error'', ColString (err_text er)),
                    (''next_run_at'', ColTime (t + minute)), (''updated_at'', ColTime now)]))
                 (\<lambda>_. on_back (edb_Increment table eventID ''retry_count'' 1)))))"

definition idn_fail :: "('d, 'g) Dispatcher \<Rightarrow> string \<Rightarrow> WriteResult \<Rightarrow> err
    \<Rightarrow> ('p, 'd, 'g, WriteResult \<times> err option) iop" where
  "idn_fail d eventID wr er =
     (if eventID \<noteq> [] then bind_io (idn_markFailure d eventID er) (\<lambda>_. ret (wr, Some er))
      else ret (wr, Some er))"

definition idn_done :: "('d, 'g) Dispatcher \<Rightarrow> string \<Rightarrow> string \<Rightarrow> WriteResult
    \<Rightarrow> ('p, 'd, 'g, WriteResult \<times> err option) iop" where
  "idn_done d eventID status wr =
     (if eventID \<noteq> [] then bind_io (idn_mark d eventID status []) (\<lambda>_. ret (wr, None))
      else ret (wr, None))"

definition ApplyBranch ::
    "('d, 'g) Dispatcher option \<Rightarrow> IdentityAuthZBranchPayload \<Rightarrow> ('p, 'd, 'g, WriteResult \<times> err option) iop" where
  "ApplyBranch d branch =
     (case d of
        None \<Rightarrow> ret (no_result, Some idn_not_configured)
      | Some d \<Rightarrow>
          bind_io (if ib_EventID branch \<noteq> [] then idn_mark d (ib_EventID branch) StatusProjecting [] else okE ()) (\<lambda>_.
          bind_io (on_tuples (\<lambda>K. ApplyIdentityAuthZProjection K (idp_writer d) (ib_Payload branch))) (\<lambda>(wr, er).
          case er of
            Some x \<Rightarrow> idn_fail d (ib_EventID branch) wr x
          | None \<Rightarrow> idn_done d (ib_EventID branch) StatusSynced wr)))"

definition CompensateBranch ::
    "('d, 'g) Dispatcher option \<Rightarrow> IdentityAuthZBranchPayload \<Rightarrow> ('p, 'd, 'g, WriteResult \<times> err option) iop" where
  "CompensateBranch d branch =
     (case d of
        None \<Rightarrow> ret (no_result, Some idn_not_configured)
      | Some d \<Rightarrow>
          bind_io (on_tuples (\<lambda>K. CompensateIdentityAuthZProjection K (idp_writer d) (ib_Payload branch)))
            (\<lambda>(wr, er).
          case er of
            Some x \<Rightarrow> idn_fail d (ib_EventID branch) wr x
          | None \<Rightarrow> idn_done d (ib_EventID branch) StatusArchived wr))"

definition identity_saga :: "'d identity_dtm \<Rightarrow> string \<Rightarrow> IdentityAuthZBranchPayload \<Rightarrow> IdentitySaga" where
  "identity_saga m gid branch = \<lparr>is_GID = gid, is_Topic = identityTopic, is_Branch = ''identity-authz'',
     is_Action = idt_BranchURL m ''iam/identity-authz/apply'',
     is_Compensate = idt_BranchURL m ''iam/identity-authz/compensate'', is_Payload = branch\<rparr>"

definition saga_manager :: "('d, 'g) Dispatcher \<Rightarrow> 'd identity_dtm option" where
  "saga_manager d = (case idp_dtm d of None \<Rightarrow> None | Some m \<Rightarrow> if idt_Enabled m then Some m else None)"

definition idn_submit ::
    "('d, 'g) Dispatcher \<Rightarrow> string \<Rightarrow> IdentityAuthZProjectionPayload \<Rightarrow> ('p, 'd, 'g, err + unit) iop" where
  "idn_submit d eventID payload =
     (let branch = \<lparr>ib_EventID = eventID, ib_Payload = payload\<rparr> in
      case saga_manager d of
        Some m \<Rightarrow>
          bindE (on_back (idt_NewGID m)) (\<lambda>gid.
          bind_io (idn_mark d eventID StatusSubmitted []) (\<lambda>_.
          on_back (idt_SubmitSaga m (identity_saga m gid branch))))
      | None \<Rightarrow>
          bind_io (ApplyBranch (Some d) branch) (\<lambda>(wr, er).
          case er of Some x \<Rightarrow> failE x | None \<Rightarrow> okE ()))"

definition new_identity_event ::
    "string \<Rightarrow> string \<Rightarrow> string \<Rightarrow> string \<Rightarrow> string \<Rightarrow> string \<Rightarrow> gotime \<Rightarrow> gotime \<Rightarrow> IdentityProjectionEventModel" where
  "new_identity_event eventID source aggregateType aggregateID operation body nextRun now =
     \<lparr>ipe_ID = eventID, ipe_Source = firstNonEmpty [source, ''iam_api''],
      ipe_AggregateType = TrimSpace aggregateType, ipe_AggregateID = TrimSpace aggregateID,
      ipe_Operation = operation, ipe_PayloadJSON = body, ipe_Status = StatusPending,
      ipe_RetryCount = 0, ipe_LastError = [], ipe_NextRunAt = Some nextRun,
      ipe_CreatedAt = now, ipe_UpdatedAt = now\<rparr>"

definition idn_record ::
    "('d, 'g) Dispatcher \<Rightarrow> string \<Rightarrow> string \<Rightarrow> string \<Rightarrow> string \<Rightarrow> IdentityAuthZProjectionPayload
     \<Rightarrow> ('p, 'd, 'g, err + unit) iop" where
  "idn_record d eventID source aggregateType aggregateID payload =
     (case idp_db d of
        None \<Rightarrow> okE ()
      | Some table \<Rightarrow>
          bind_io i_now (\<lambda>t.
          bindE (liftE (idp_marshal d payload)) (\<lambda>body.
          bind_io i_now (\<lambda>now.
          on_back (edb_Create table (new_identity_event eventID source aggregateType aggregateID
            (ip_Operation payload) body (t + minute) now))))))"

definition idn_Dispatch ::
    "('d, 'g) Dispatcher option \<Rightarrow> string \<Rightarrow> string \<Rightarrow> string \<Rightarrow> IdentityAuthZProjectionPayload
     \<Rightarrow> ('p, 'd, 'g, err + unit) iop" where
  "idn_Dispatch d source aggregateType aggregateID payload =
     (case d of
        None \<Rightarrow> failE idn_not_configured
      | Some d \<Rightarrow>
          if idp_writer d = None then failE idn_not_configured
          else bind_io (asks (\<lambda>e w. normalizeProjectionPayload (ie_kern e) payload)) (\<lambda>payload.
               if isProjectionPayloadEmpty payload then okE ()
               else bind_io (i_id 8 newIdentityProjectionID) (\<lambda>eventID.
                    bindE (idn_record d eventID source aggregateType aggregateID payload) (\<lambda>_.
                    idn_submit d eventID payload))))"

definition idn_retry_one ::
    "('d, 'g) Dispatcher \<Rightarrow> IdentityProjectionEventModel \<Rightarrow> int \<Rightarrow> ('p, 'd, 'g, int) iop" where
  "idn_retry_one d event processed =
     (case idp_unmarshal d (ipe_PayloadJSON event) of
        Inl er \<Rightarrow> bind_io (idn_markFailure d (ipe_ID event) er) (\<lambda>_. ret processed)
      | Inr payload \<Rightarrow>
          bind_io (idn_submit d (ipe_ID event) payload) (\<lambda>r.
          case r of
            Inl er \<Rightarrow> bind_io (idn_markFailure d (ipe_ID event) er) (\<lambda>_. ret processed)
          | Inr _ \<Rightarrow> ret (processed + 1)))"

definition idn_RetryOnce :: "('d, 'g) Dispatcher option \<Rightarrow> int \<Rightarrow> ('p, 'd, 'g, err + int) iop" where
  "idn_RetryOnce d limit =
     (case d of
        None \<Rightarrow> okE 0
      | Some d \<Rightarrow>
          (case idp_db d of
             None \<Rightarrow> okE 0
           | Some table \<Rightarrow>
               let limit = (if limit \<le> 0 \<or> limit > 200 then 50 else limit) in
               bind_io i_now (\<lambda>now.
               bindE (on_back (edb_Due table [StatusPending, StatusSubmitted, StatusFailed] now limit)) (\<lambda>events.
               bind_io (fold_io (idn_retry_one d) events 0) okE))))"

subsection \<open>The projecting identity provider\<close>

record ('d, 'g) identityProjectionConfig =
  ipc_dispatcher :: "('d, 'g) Dispatcher option"
  ipc_writer :: "'g store option"
  ipc_reader :: "'g store option"
  ipc_dtm :: "'d identity_dtm option"
  ipc_db :: "'d eventdb option"

type_synonym ('d, 'g) IdentityProjectionOption =
  "('d, 'g) identityProjectionConfig \<Rightarrow> ('d, 'g) identityProjectionConfig"

definition WithIdentityProjectionDispatcher ::
    "('d, 'g) Dispatcher option \<Rightarrow> ('d, 'g) IdentityProjectionOption" where
  "WithIdentityProjectionDispatcher d cfg = cfg\<lparr>ipc_dispatcher := d\<rparr>"

definition WithIdentityProjectionDTM :: "'d identity_dtm option \<Rightarrow> ('d, 'g) IdentityProjectionOption" where
  "WithIdentityProjectionDTM dtm cfg = cfg\<lparr>ipc_dtm := dtm\<rparr>"

definition WithIdentityProjectionDB :: "'d eventdb option \<Rightarrow> ('d, 'g) IdentityProjectionOption" where
  "WithIdentityProjectionDB table cfg = cfg\<lparr>ipc_db := table\<rparr>"

definition WithIdentityProjectionReader :: "'g store option \<Rightarrow> ('d, 'g) IdentityProjectionOption" where
  "WithIdentityProjectionReader reader cfg = cfg\<lparr>ipc_reader := reader\<rparr>"

text \<open>
  The provider with the dispatcher of \<open>authzProjectingIdentityAdmin\<close>.  \<open>BindIdentityAuthZ\<close> returns it, or
  the provider itself (possibly nil) when one of its arguments is nil.
\<close>

record ('p, 'd, 'g) projecting_admin =
  pa_next :: "'p IdentityAdmin"
  pa_projection :: "('d, 'g) Dispatcher option"

definition BindIdentityAuthZ ::
    "identity_codec \<Rightarrow> 'p IdentityAdmin option \<Rightarrow> 'g store option \<Rightarrow> ('d, 'g) IdentityProjectionOption option list
     \<Rightarrow> 'p IdentityAdmin option + ('p, 'd, 'g) projecting_admin" where
  "BindIdentityAuthZ codec admin relationships opts =
     (case (admin, relationships) of
        (Some a, Some s) \<Rightarrow>
          let cfg = foldl (\<lambda>cfg opt. case opt of None \<Rightarrow> cfg | Some f \<Rightarrow> f cfg)
                \<lparr>ipc_dispatcher = None, ipc_writer = Some s, ipc_reader = None, ipc_dtm = None, ipc_db = None\<rparr> opts;
              d = (case ipc_dispatcher cfg of
                     Some d \<Rightarrow> Some d
                   | None \<Rightarrow> NewIdentityProjectionDispatcher codec (Some s) (ipc_reader cfg) (ipc_dtm cfg) (ipc_db cfg))
          in Inr \<lparr>pa_next = a, pa_projection = d\<rparr>
      | _ \<Rightarrow> Inl admin)"

definition groupOwnerFromPrincipal :: "Principal option \<Rightarrow> SubjectRef option" where
  "groupOwnerFromPrincipal pn =
     (case pn of
        None \<Rightarrow> None
      | Some q \<Rightarrow>
          let subjectType = (if pn_SubjectType q \<noteq> ''service'' \<and> pn_SubjectType q \<noteq> ''service_account''
                             then ''user'' else pn_SubjectType q)
          in if pn_SubjectID q = [] then None
             else Some \<lparr>su_Type = subjectType, su_ID = pn_SubjectID q, su_Relation = []\<rparr>)"

definition projectWrite ::
    "('p, 'd, 'g) projecting_admin \<Rightarrow> string \<Rightarrow> string \<Rightarrow> string \<Rightarrow> Relationship list \<Rightarrow> ('p, 'd, 'g, err + unit) iop" where
  "projectWrite a source aggregateType aggregateID rels =
     idn_Dispatch (pa_projection a) source aggregateType aggregateID
       \<lparr>ip_Operation = OperationUp, ip_Relationships = rels, ip_Filters = []\<rparr>"

definition projectDelete ::
    "('p, 'd, 'g) projecting_admin \<Rightarrow> string \<Rightarrow> string \<Rightarrow> string \<Rightarrow> RelationshipFilter list \<Rightarrow> Relationship list
     \<Rightarrow> ('p, 'd, 'g, err + unit) iop" where
  "projectDelete a source aggregateType aggregateID filters rels =
     idn_Dispatch (pa_projection a) source aggregateType aggregateID
       \<lparr>ip_Operation = OperationRm, ip_Relationships = rels, ip_Filters = filters\<rparr>"

text \<open>
  \<open>captureRelationships\<close>: the callers drop its error and use what was captured (unduplicated only when
  every read succeeded).
\<close>

primrec idn_capture_loop ::
    "'g store \<Rightarrow> Relationship list \<Rightarrow> RelationshipFilter list \<Rightarrow> 'g \<Rightarrow> (Relationship list \<times> err option) \<times> 'g" where
  "idn_capture_loop s captured [] g = ((captured, None), g)"
| "idn_capture_loop s captured (f # fs) g =
     (if TrimSpace (f_ResourceType f) = [] then idn_capture_loop s captured fs g
      else case st_read s f g of
             (Inl er, g') \<Rightarrow> ((captured, Some er), g')
           | (Inr rels, g') \<Rightarrow> idn_capture_loop s (captured @ rels) fs g')"

definition idn_captureRelationships ::
    "('p, 'd, 'g) projecting_admin \<Rightarrow> RelationshipFilter list \<Rightarrow> ('p, 'd, 'g, Relationship list \<times> err option) iop" where
  "idn_captureRelationships a filters =
     (case pa_projection a of
        None \<Rightarrow> ret ([], None)
      | Some d \<Rightarrow>
          (case idp_reader d of
             None \<Rightarrow> ret ([], None)
           | Some s \<Rightarrow>
               on_tuples (\<lambda>K g. case idn_capture_loop s [] filters g of
                 ((captured, Some er), g') \<Rightarrow> ((captured, Some er), g')
               | ((captured, None), g') \<Rightarrow> ((dedupeRelationships K captured, None), g'))))"

text \<open>Capture the relationships that filters select, then project their deletion.\<close>

definition purge ::
    "('p, 'd, 'g) projecting_admin \<Rightarrow> string \<Rightarrow> string \<Rightarrow> RelationshipFilter list \<Rightarrow> ('p, 'd, 'g, err + unit) iop" where
  "purge a aggregateType aggregateID filters =
     bind_io (idn_captureRelationships a filters) (\<lambda>(rels, _).
     projectDelete a ''iam_api'' aggregateType aggregateID filters rels)"

definition ida_CreateOrganization ::
    "('p, 'd, 'g) projecting_admin \<Rightarrow> Organization \<Rightarrow> ('p, 'd, 'g, err + Organization) iop" where
  "ida_CreateOrganization a req =
     bindE (on_provider (ia_CreateOrganization (pa_next a) req)) (\<lambda>organization.
     let orgID = firstNonEmpty [og_ID organization, og_ID req] in
     bindE (projectWrite a ''iam_api'' ''zone'' orgID [platformZoneRelationship orgID]) (\<lambda>_.
     okE organization))"

definition group_owner_edges :: "Principal option \<Rightarrow> DirGroup \<Rightarrow> DirGroup \<Rightarrow> Relationship list" where
  "group_owner_edges pn grp req =
     (case groupOwnerFromPrincipal pn of
        None \<Rightarrow> []
      | Some owner \<Rightarrow>
          let groupID = qualifiedGroupID (firstNonEmpty [gp_OrgID grp, gp_OrgID req])
                (firstNonEmpty [gp_ID grp, gp_ID req])
          in if groupID \<noteq> [] then [edge \<lparr>ob_Type = ''group'', ob_ID = groupID\<rparr> ''owner'' owner] else [])"

definition ida_CreateGroup ::
    "('p, 'd, 'g) projecting_admin \<Rightarrow> DirGroup \<Rightarrow> string \<Rightarrow> ('p, 'd, 'g, err + DirGroup) iop" where
  "ida_CreateGroup a req idempotencyKey =
     bind_io (i_id 16 newGroupID) (\<lambda>stableID.
     let req = req\<lparr>gp_ID := stableID, gp_Name := stableID\<rparr> in
     bindE (on_provider (ia_CreateGroup (pa_next a) req idempotencyKey)) (\<lambda>group.
     let group = group\<lparr>gp_ExternalID := gp_ExternalID req\<rparr> in
     bind_io (asks (\<lambda>e w. ie_principal e)) (\<lambda>pn.
     bindE (projectWrite a ''iam_api'' ''group'' (firstNonEmpty [gp_ID group, gp_ID req])
              (groupTopologyRelationships group req @ group_owner_edges pn group req)) (\<lambda>_.
     okE group))))"

text \<open>A failed \<open>GetGroup\<close> returns the zero group.\<close>

definition old_group ::
    "('p, 'd, 'g) projecting_admin \<Rightarrow> DirGroup \<Rightarrow> ('p, 'd, 'g, DirGroup) iop" where
  "old_group a req =
     (if gp_OrgID req \<noteq> [] \<and> gp_ID req \<noteq> []
      then bind_io (on_provider (ia_GetGroup (pa_next a) (gp_OrgID req) (gp_ID req))) (\<lambda>r.
           ret (case r of Inl _ \<Rightarrow> zero_group | Inr g \<Rightarrow> g))
      else ret zero_group)"

definition ida_UpdateGroup ::
    "('p, 'd, 'g) projecting_admin \<Rightarrow> DirGroup \<Rightarrow> ('p, 'd, 'g, err + DirGroup) iop" where
  "ida_UpdateGroup a req =
     bind_io (old_group a req) (\<lambda>oldGroup.
     let newName = TrimSpace (gp_Name req) in
     if newName \<noteq> [] \<and> gp_Name oldGroup \<noteq> [] \<and> \<not> EqualFold newName (gp_Name oldGroup)
     then bind_io (asks (\<lambda>e w. ie_quote e)) (\<lambda>q.
          failE (ErrInvalidTokenRequest (''group name is immutable: cannot rename '' @ q (gp_Name oldGroup)
                   @ '' to '' @ q newName)))
     else
     bindE (on_provider (ia_UpdateGroup (pa_next a) req)) (\<lambda>group.
     let group = group\<lparr>gp_ExternalID := gp_ExternalID req\<rparr>;
         aggregateID = firstNonEmpty [gp_ID group, gp_ID req] in
     bindE (projectDelete a ''iam_api'' ''group'' aggregateID (groupTopologyDeleteFilters oldGroup req) []) (\<lambda>_.
     bindE (projectWrite a ''iam_api'' ''group'' aggregateID (groupTopologyRelationships group req)) (\<lambda>_.
     okE group))))"

definition ida_DeleteGroup ::
    "('p, 'd, 'g) projecting_admin \<Rightarrow> string \<Rightarrow> string \<Rightarrow> bool \<Rightarrow> ('p, 'd, 'g, err + unit) iop" where
  "ida_DeleteGroup a orgID groupID recursive =
     bindE (on_provider (ia_DeleteGroup (pa_next a) orgID groupID recursive)) (\<lambda>_.
     purge a ''group'' groupID (groupDeleteFilters orgID groupID))"

definition ida_AssignUserToGroup ::
    "('p, 'd, 'g) projecting_admin \<Rightarrow> string \<Rightarrow> string \<Rightarrow> string \<Rightarrow> ('p, 'd, 'g, err + unit) iop" where
  "ida_AssignUserToGroup a orgID groupID userID =
     bindE (on_provider (ia_AssignUserToGroup (pa_next a) orgID groupID userID)) (\<lambda>_.
     projectWrite a ''iam_api'' ''group_membership'' groupID
       (groupMemberRelationship (qualifiedGroupID orgID groupID) userID
        # (if TrimSpace orgID \<noteq> [] then [zoneMemberRelationship orgID userID] else [])))"

definition group_member_filter :: "string \<Rightarrow> string \<Rightarrow> RelationshipFilter" where
  "group_member_filter groupID userID =
     \<lparr>f_ResourceType = ''group'', f_ResourceID = groupID, f_Relation = ''member'',
      f_SubjectType = ''user'', f_SubjectID = userID, f_SubjectRel = []\<rparr>"

definition zone_member_filter :: "string \<Rightarrow> string \<Rightarrow> RelationshipFilter" where
  "zone_member_filter orgID userID =
     \<lparr>f_ResourceType = ''zone'', f_ResourceID = orgID, f_Relation = ''member'',
      f_SubjectType = ''user'', f_SubjectID = userID, f_SubjectRel = []\<rparr>"

definition ida_RemoveUserFromGroup ::
    "('p, 'd, 'g) projecting_admin \<Rightarrow> string \<Rightarrow> string \<Rightarrow> string \<Rightarrow> ('p, 'd, 'g, err + unit) iop" where
  "ida_RemoveUserFromGroup a reqOrg reqGroup reqUser =
     bindE (on_provider (ia_RemoveUserFromGroup (pa_next a) reqOrg reqGroup reqUser)) (\<lambda>_.
     let groupID = qualifiedGroupID reqOrg reqGroup; userID = TrimSpace reqUser; orgID = TrimSpace reqOrg in
     if groupID = [] \<or> userID = [] then okE ()
     else
     bind_io (on_provider (ia_ListGroups (pa_next a)
                \<lparr>gf_OrgID = orgID, gf_UserID = userID, gf_Limit = 1000, gf_ParentID = [], gf_Type = []\<rparr>)) (\<lambda>remainingGroups.
     let isLast = (remainingGroups = Inr []);
         filters = group_member_filter groupID userID # (if isLast then [zone_member_filter orgID userID] else []);
         rels = groupMemberRelationship groupID userID # (if isLast then [zoneMemberRelationship orgID userID] else [])
     in projectDelete a ''iam_api'' ''group_membership'' reqGroup filters rels))"

definition ida_DeleteUser ::
    "('p, 'd, 'g) projecting_admin \<Rightarrow> string \<Rightarrow> string \<Rightarrow> bool \<Rightarrow> ('p, 'd, 'g, err + unit) iop" where
  "ida_DeleteUser a orgID reqUser hard =
     bindE (on_provider (ia_DeleteUser (pa_next a) orgID reqUser hard)) (\<lambda>_.
     let userID = TrimSpace reqUser in
     if userID = [] then okE () else purge a ''user'' userID (userSubjectDeleteFilters userID))"

definition ida_DisableUser ::
    "('p, 'd, 'g) projecting_admin \<Rightarrow> string \<Rightarrow> string \<Rightarrow> ('p, 'd, 'g, err + unit) iop" where
  "ida_DisableUser a orgID reqUser =
     bindE (on_provider (ia_DisableUser (pa_next a) orgID reqUser)) (\<lambda>_.
     let userID = TrimSpace reqUser in
     if userID = [] then okE () else purge a ''user'' userID (userSubjectDeleteFilters userID))"

text \<open>The filter of the zone and those of its groups; a failed listing counts as no groups.\<close>

definition zone_delete_filters :: "string \<Rightarrow> DirGroup list \<Rightarrow> RelationshipFilter list" where
  "zone_delete_filters orgID groups =
     empty_filter\<lparr>f_ResourceType := ''zone'', f_ResourceID := orgID\<rparr>
     # concat (map (\<lambda>g. let gid = qualifiedGroupID orgID (firstNonEmpty [gp_ID g, gp_Name g])
                          in if gid \<noteq> [] then groupDeleteFilters orgID gid else []) groups)"

definition ida_DeleteOrganization ::
    "('p, 'd, 'g) projecting_admin \<Rightarrow> string \<Rightarrow> ('p, 'd, 'g, err + unit) iop" where
  "ida_DeleteOrganization a reqOrg =
     (let orgID = TrimSpace reqOrg in
      bind_io (if orgID \<noteq> []
               then on_provider (ia_ListGroups (pa_next a) \<lparr>gf_OrgID = orgID, gf_UserID = [], gf_Limit = 0,
                        gf_ParentID = [], gf_Type = []\<rparr>)
               else okE []) (\<lambda>listed.
      bindE (on_provider (ia_DeleteOrganization (pa_next a) reqOrg)) (\<lambda>_.
      if orgID = [] then okE ()
      else purge a ''zone'' orgID
             (zone_delete_filters orgID (case listed of Inl _ \<Rightarrow> [] | Inr groups \<Rightarrow> groups)))))"

subsection \<open>Reconciliation and drift\<close>

record ('p, 'd, 'g) DirectoryProjectionOps =
  dop_Identity :: "'p IdentityAdmin option"
  dop_Authz :: "'g store option"
  dop_Projection :: "('d, 'g) Dispatcher option"

record CheckDirectoryProjectionDriftResult =
  cd_Desired :: int
  cd_Missing :: int
  cd_MissingRelationships :: "string list"
  cd_MissingObjects :: "Relationship list"

record ReconcileDirectoryProjectionResult =
  rc_Status :: string
  rc_Relationships :: int

definition dop_not_configured :: err where
  "dop_not_configured = ErrBackendFailed ''directory projection service is not configured''"

definition dop_Retry ::
    "('p, 'd, 'g) DirectoryProjectionOps option \<Rightarrow> int \<Rightarrow> ('p, 'd, 'g, err + int) iop" where
  "dop_Retry s limit =
     (case s of
        None \<Rightarrow> failE (ErrBackendFailed ''directory projection dispatcher is not configured'')
      | Some ops \<Rightarrow>
          if dop_Projection ops = None
          then failE (ErrBackendFailed ''directory projection dispatcher is not configured'')
          else idn_RetryOnce (dop_Projection ops) limit)"

definition dop_desired ::
    "'p IdentityAdmin option \<Rightarrow> string \<Rightarrow> ('p, 'd, 'g, err + Relationship list) iop" where
  "dop_desired identity orgID =
     bind_io (asks (\<lambda>e w. ie_kern e)) (\<lambda>K.
     on_provider (BuildDirectoryProjectionRelationships K identity orgID))"

definition firstNonEmptyProjectionSource :: "string list \<Rightarrow> string" where
  "firstNonEmptyProjectionSource values = firstNonEmpty values"

definition Reconcile ::
    "('p, 'd, 'g) DirectoryProjectionOps option \<Rightarrow> string \<Rightarrow> string
     \<Rightarrow> ('p, 'd, 'g, err + ReconcileDirectoryProjectionResult) iop" where
  "Reconcile s orgID source =
     (case s of
        None \<Rightarrow> failE dop_not_configured
      | Some ops \<Rightarrow>
          if dop_Identity ops = None \<or> dop_Projection ops = None then failE dop_not_configured
          else let orgID = TrimSpace orgID in
          if orgID = [] then failE (ErrInvalidTokenRequest ''org_id is required'')
          else
          bindE (dop_desired (dop_Identity ops) orgID) (\<lambda>rels.
          bindE (idn_Dispatch (dop_Projection ops) (firstNonEmptyProjectionSource [source, ''reconcile''])
                   ''zone'' orgID \<lparr>ip_Operation = ''write'', ip_Relationships = rels, ip_Filters = []\<rparr>) (\<lambda>_.
          okE \<lparr>rc_Status = ''submitted'', rc_Relationships = int (length rels)\<rparr>)))"

definition relationshipStrings :: "Relationship list \<Rightarrow> string list" where
  "relationshipStrings rels = map (\<lambda>r.
     ob_Type (rel_Resource r) @ '':'' @ ob_ID (rel_Resource r) @ ''#'' @ rel_Relation r @ ''@''
     @ su_Type (rel_Subject r) @ '':'' @ su_ID (rel_Subject r)
     @ (if su_Relation (rel_Subject r) \<noteq> [] then ''#'' @ su_Relation (rel_Subject r) else [])) rels"

definition Drift ::
    "('p, 'd, 'g) DirectoryProjectionOps option \<Rightarrow> string
     \<Rightarrow> ('p, 'd, 'g, err + CheckDirectoryProjectionDriftResult) iop" where
  "Drift s orgID =
     (case s of
        None \<Rightarrow> failE dop_not_configured
      | Some ops \<Rightarrow>
          if dop_Identity ops = None \<or> dop_Authz ops = None then failE dop_not_configured
          else let orgID = TrimSpace orgID in
          if orgID = [] then failE (ErrInvalidTokenRequest ''org_id is required'')
          else
          bindE (dop_desired (dop_Identity ops) orgID) (\<lambda>desired.
          bind_io (on_tuples (\<lambda>K. DetectDirectoryProjectionDrift K (dop_Authz ops) desired)) (\<lambda>(missing, er).
          case er of
            Some x \<Rightarrow> failE x
          | None \<Rightarrow> okE \<lparr>cd_Desired = int (length desired), cd_Missing = int (length missing),
                        cd_MissingRelationships = relationshipStrings missing,
                        cd_MissingObjects = missing\<rparr>)))"

end
