(* ===== verification/StartUp.thy ===== *)
theory StartUp
  imports ManifestCheck IdentityProjection
begin

text \<open>
  The start-up of the authorization (internal/data/data.go): the permission manifest is loaded and checked,
  the schema is bootstrapped, the configured administrators get their relationships, and the directory
  projection of the configured zones is reconciled.

  Parameters are the YAML decoder (\<open>load_file\<close>), the file system (\<open>read_file\<close>), the schema manager and the
  relationship store of the kernel's SpiceDB client, which share the state \<open>'g\<close>, and the migration of the
  event table.  The worker that is started in the background is \<open>idn_RetryOnce\<close> in a loop.
\<close>

record ControlPlaneAdminSubject =
  cas_Type :: string
  cas_ID :: string
  cas_Relation :: string
  cas_ZoneID :: string
  cas_Role :: string
  cas_ExternalSubject :: string
  cas_CasdoorOrg :: string
  cas_Username :: string

record ControlPlaneConfig =
  cp_DefaultsEnabled :: bool
  cp_DefaultsPath :: string
  cp_AdminsEnabled :: bool
  cp_Subjects :: "ControlPlaneAdminSubject list"
  cp_ReconcileOnStartup :: bool
  cp_OrgIDs :: "string list"

subsection \<open>The manifest\<close>

definition loadPermissionManifest ::
    "(nat \<Rightarrow> nat) \<Rightarrow> (string \<Rightarrow> err + Manifest) \<Rightarrow> (string \<Rightarrow> err + string) \<Rightarrow> ControlPlaneConfig
     \<Rightarrow> bool \<Rightarrow> AuthzConfig \<Rightarrow> err + Manifest option" where
  "loadPermissionManifest c load_file read_file cfg installDefaultSchema authz =
     (if \<not> cp_DefaultsEnabled cfg \<and> \<not> cp_AdminsEnabled cfg then Inr None
      else let path = TrimSpace (cp_DefaultsPath cfg) in
        if path = [] then Inl (ErrNew ''control_plane.defaults.path is required for permission bootstrap'')
        else case load_file path of
          Inl er \<Rightarrow> Inl (ErrNew (''load permission manifest '' @ path @ '': '' @ err_text er))
        | Inr manifest \<Rightarrow>
          if \<not> installDefaultSchema then Inr (Some manifest)
          else let schemaPath = TrimSpace (SchemaPath authz) in
            if schemaPath = []
            then Inl (ErrNew ''security.authz.schema_path is required for permission manifest validation'')
            else case read_file schemaPath of
              Inl er \<Rightarrow> Inl (ErrNew (''read authz schema '' @ schemaPath @ '': '' @ err_text er))
            | Inr body \<Rightarrow>
              (case ParseSchema body of
                 Inl er \<Rightarrow> Inl (ErrNew (''parse authz schema '' @ schemaPath @ '': '' @ err_text er))
               | Inr schema \<Rightarrow>
                 (case Validate c (Some manifest) schema of
                    Inl er \<Rightarrow> Inl (ErrNew (''validate permission manifest: '' @ err_text er))
                  | Inr _ \<Rightarrow> Inr (Some manifest))))"

subsection \<open>Administrators\<close>

primrec dataFirstNonEmpty :: "string list \<Rightarrow> string" where
  "dataFirstNonEmpty [] = []"
| "dataFirstNonEmpty (v # vs) = (if TrimSpace v \<noteq> [] then TrimSpace v else dataFirstNonEmpty vs)"

text \<open>\<open>None\<close> is \<open>hasSubject = false\<close>.\<close>

definition resolveBootstrapZoneSubject ::
    "kernel \<Rightarrow> ControlPlaneAdminSubject \<Rightarrow> 'p IdentityAdmin option \<Rightarrow> 'p \<Rightarrow> (err + SubjectRef option) \<times> 'p" where
  "resolveBootstrapZoneSubject K subject directory p =
     (let subjectType = (if TrimSpace (cas_Type subject) = [] then SubjectTypeUser K else TrimSpace (cas_Type subject));
          relation = TrimSpace (cas_Relation subject);
          subjectID = dataFirstNonEmpty [cas_ID subject, cas_ExternalSubject subject]
      in if subjectID \<noteq> []
         then (Inr (Some \<lparr>su_Type = subjectType, su_ID = subjectID, su_Relation = relation\<rparr>), p)
         else let username = TrimSpace (cas_Username subject) in
           if username = [] then (Inr None, p)
           else case directory of
             None \<Rightarrow> (Inl (ErrIdentityBackendFailed ''bootstrap admin username requires identity provider''), p)
           | Some a \<Rightarrow>
             let orgID = dataFirstNonEmpty [cas_CasdoorOrg subject, cas_ZoneID subject] in
             (case ia_FindUsers a \<lparr>uf_OrgID = orgID, uf_Limit = 20, uf_GroupID = [], uf_Role = [],
                uf_Username = username\<rparr> p of
                (Inl er, p) \<Rightarrow> (Inl (ErrIdentityBackendFailed ''resolve bootstrap admin user failed''), p)
              | (Inr users, p) \<Rightarrow>
                (case find (\<lambda>u. EqualFold (us_Username u) username) users of
                   None \<Rightarrow> (Inl (ErrIdentityBackendFailed (''bootstrap admin user not found: '' @ orgID @ ''/'' @ username)), p)
                 | Some user \<Rightarrow>
                     if us_ID user = []
                     then (Inl (ErrIdentityBackendFailed ''bootstrap admin user has empty stable id''), p)
                     else (Inr (Some \<lparr>su_Type = subjectType, su_ID = us_ID user, su_Relation = relation\<rparr>), p))))"

definition platform_link :: "ObjectRef \<Rightarrow> string \<Rightarrow> Relationship" where
  "platform_link resource platformID =
     edge resource ''platform'' \<lparr>su_Type = ''platform'', su_ID = platformID, su_Relation = []\<rparr>"

definition platform_links :: "BootstrapPolicy \<Rightarrow> string \<Rightarrow> Relationship list" where
  "platform_links policy platformID =
     map (\<lambda>r. platform_link \<lparr>ob_Type = TrimSpace (ar_Type r), ob_ID = TrimSpace (ar_ID r)\<rparr> platformID)
       (filter (\<lambda>r. TrimSpace (ar_Type r) \<noteq> [] \<and> TrimSpace (ar_ID r) \<noteq> []) (bp_PlatformResources policy))"

definition bootstrap_resource :: "string \<Rightarrow> string \<Rightarrow> BootstrapRole \<Rightarrow> string \<Rightarrow> err + ObjectRef" where
  "bootstrap_resource platformID zoneID rolePolicy canonicalRole =
     (let scope = TrimSpace (br_Scope rolePolicy) in
      if scope = ''platform'' then Inr \<lparr>ob_Type = ''platform'', ob_ID = platformID\<rparr>
      else if scope = ''zone''
      then if zoneID = [] then Inl (ErrNew (''zone_id is required for bootstrap role '' @ canonicalRole))
           else Inr \<lparr>ob_Type = ''zone'', ob_ID = zoneID\<rparr>
      else if scope = [] then Inl (ErrNew (''bootstrap role '' @ canonicalRole @ '' scope is required''))
      else Inl (ErrNew (''unsupported bootstrap role scope '' @ br_Scope rolePolicy)))"

text \<open>The body of the loop over the subjects; \<open>c\<close> is the iteration order of the roles in \<open>ResolveRole\<close>.\<close>

definition subject_links ::
    "(nat \<Rightarrow> nat) \<Rightarrow> kernel \<Rightarrow> BootstrapPolicy \<Rightarrow> string \<Rightarrow> 'p IdentityAdmin option \<Rightarrow> ControlPlaneAdminSubject
     \<Rightarrow> 'p \<Rightarrow> (err + Relationship list) \<times> 'p" where
  "subject_links c K policy platformID directory subject p =
     (case ResolveRole c policy (cas_Role subject) of
        (rolePolicy, canonicalRole, found) \<Rightarrow>
          if \<not> found then (Inl (ErrNew (''unknown bootstrap role '' @ TrimSpace (cas_Role subject))), p)
          else case resolveBootstrapZoneSubject K subject directory p of
            (Inl er, p) \<Rightarrow> (Inl er, p)
          | (Inr None, p) \<Rightarrow> (Inr [], p)
          | (Inr (Some resolved), p) \<Rightarrow>
              let zoneID = dataFirstNonEmpty [cas_ZoneID subject, cas_CasdoorOrg subject] in
              (case bootstrap_resource platformID zoneID rolePolicy canonicalRole of
                 Inl er \<Rightarrow> (Inl er, p)
               | Inr resource \<Rightarrow>
                   (Inr ((if zoneID \<noteq> [] then [platform_link \<lparr>ob_Type = ''zone'', ob_ID = zoneID\<rparr> platformID] else [])
                      @ [edge resource (TrimSpace (br_Relation rolePolicy)) resolved]), p)))"

primrec admin_links ::
    "(nat \<Rightarrow> nat \<Rightarrow> nat) \<Rightarrow> kernel \<Rightarrow> BootstrapPolicy \<Rightarrow> string \<Rightarrow> 'p IdentityAdmin option
     \<Rightarrow> ControlPlaneAdminSubject list \<Rightarrow> Relationship list \<Rightarrow> 'p \<Rightarrow> (err + Relationship list) \<times> 'p" where
  "admin_links c K policy platformID directory [] rels p = (Inr rels, p)"
| "admin_links c K policy platformID directory (s # ss) rels p =
     (case subject_links (c (length ss)) K policy platformID directory s p of
        (Inl er, p) \<Rightarrow> (Inl er, p)
      | (Inr new, p) \<Rightarrow> admin_links c K policy platformID directory ss (rels @ new) p)"

definition bootstrapControlPlaneAdmins ::
    "(nat \<Rightarrow> nat \<Rightarrow> nat) \<Rightarrow> ControlPlaneConfig \<Rightarrow> BootstrapPolicy \<Rightarrow> 'g store option \<Rightarrow> 'p IdentityAdmin option
     \<Rightarrow> ('p, 'd, 'g, err + unit) iop" where
  "bootstrapControlPlaneAdmins c cfg policy writer directory =
     (case writer of
        None \<Rightarrow> okE ()
      | Some s \<Rightarrow>
          if \<not> cp_AdminsEnabled cfg \<or> cp_Subjects cfg = [] then okE ()
          else let platformID = TrimSpace (bp_PlatformID policy) in
            if platformID = [] then failE (ErrNew ''bootstrap platform_id is required'')
            else bind_io (asks (\<lambda>e w. ie_kern e)) (\<lambda>K.
              bindE (on_provider (admin_links c K policy platformID directory (cp_Subjects cfg)
                  (platform_links policy platformID))) (\<lambda>rels.
              let rels = dedupeRelationships K rels in
              if rels = [] then okE ()
              else bind_io (on_tuples (\<lambda>_. st_write s rels)) (\<lambda>(result, er).
                   case er of Some x \<Rightarrow> failE x | None \<Rightarrow> okE ()))))"

subsection \<open>The directory\<close>

definition startup_zone ::
    "'p IdentityAdmin \<Rightarrow> ('d, 'g) Dispatcher \<Rightarrow> string \<Rightarrow> ('p, 'd, 'g, err + unit) iop" where
  "startup_zone identity d org =
     (let orgID = TrimSpace org in
      if orgID = [] then okE ()
      else bind_io (asks (\<lambda>e w. (ie_kern e, ie_quote e orgID))) (\<lambda>(K, quoted).
           bind_io (on_provider (BuildDirectoryProjectionRelationships K (Some identity) orgID)) (\<lambda>r.
           case r of
             Inl er \<Rightarrow> failE (ErrNew (''startup directory reconcile: build relationships for '' @ quoted @ '': '' @ err_text er))
           | Inr rels \<Rightarrow>
               bind_io (idn_Dispatch (Some d) ''startup_reconcile'' ''zone'' orgID
                  \<lparr>ip_Operation = ''write'', ip_Relationships = rels, ip_Filters = []\<rparr>) (\<lambda>r.
               case r of
                 Inr _ \<Rightarrow> okE ()
               | Inl er \<Rightarrow> if idp_db d \<noteq> None then okE ()
                           else failE (ErrNew (''startup directory reconcile for '' @ quoted @ '': '' @ err_text er))))))"

definition reconcileDirectoryOnStartup ::
    "'p IdentityAdmin option \<Rightarrow> ('d, 'g) Dispatcher option \<Rightarrow> string list \<Rightarrow> ('p, 'd, 'g, err + unit) iop" where
  "reconcileDirectoryOnStartup identity dispatcher orgIDs =
     (case (identity, dispatcher) of
        (Some a, Some d) \<Rightarrow> eachE (startup_zone a d) orgIDs
      | _ \<Rightarrow> okE ())"

definition EnsureStore ::
    "('d \<Rightarrow> (err + unit) \<times> 'd) \<Rightarrow> ('d, 'g) Dispatcher option \<Rightarrow> ('p, 'd, 'g, err + unit) iop" where
  "EnsureStore migrate d =
     (case d of None \<Rightarrow> okE () | Some d \<Rightarrow> if idp_db d = None then okE () else on_back migrate)"

subsection \<open>The sequence\<close>

definition no_policy :: BootstrapPolicy where
  "no_policy = \<lparr>bp_DefaultRole = [], bp_PlatformID = [], bp_Roles = [], bp_PlatformResources = []\<rparr>"

text \<open>
  The block of \<open>NewResources\<close> for an enabled authorization with the provider \<open>(mgr, s)\<close>; its result is the
  identity provider that the services get.
\<close>

definition start_authz ::
    "(nat \<Rightarrow> nat \<Rightarrow> nat) \<Rightarrow> (string \<Rightarrow> err + string) \<Rightarrow> identity_codec \<Rightarrow> ('d \<Rightarrow> (err + unit) \<times> 'd)
     \<Rightarrow> ControlPlaneConfig \<Rightarrow> bool \<Rightarrow> AuthzConfig \<Rightarrow> Manifest option \<Rightarrow> 'g SchemaManager \<Rightarrow> 'g store
     \<Rightarrow> 'p IdentityAdmin option \<Rightarrow> 'd identity_dtm option \<Rightarrow> 'd eventdb option
     \<Rightarrow> ('p, 'd, 'g, err + ('p IdentityAdmin option + ('p, 'd, 'g) projecting_admin)) iop" where
  "start_authz c read_file codec migrate cfg installDefaultSchema authz manifest mgr s identity dtm table =
     bindE (if installDefaultSchema
            then on_tuples (\<lambda>_. BootstrapAuthzSchema read_file authz (Some mgr)) else okE ()) (\<lambda>_.
     bindE (bootstrapControlPlaneAdmins c cfg
        (case manifest of None \<Rightarrow> no_policy | Some m \<Rightarrow> mf_Bootstrap m) (Some s) identity) (\<lambda>_.
     case identity of
       None \<Rightarrow> okE (Inl None)
     | Some a \<Rightarrow>
         let d = NewIdentityProjectionDispatcher codec (Some s) (Some s) dtm table in
         bindE (EnsureStore migrate d) (\<lambda>_.
         let bound = BindIdentityAuthZ codec (Some a) (Some s)
               [Some (WithIdentityProjectionDispatcher d), Some (WithIdentityProjectionReader (Some s))] in
         if cp_ReconcileOnStartup cfg
         then bindE (reconcileDirectoryOnStartup (Some a) d (cp_OrgIDs cfg)) (\<lambda>_. okE bound)
         else okE bound)))"

end
