(* ===== verification/ManifestLaws.thy ===== *)
theory ManifestLaws
  imports ManifestCheck
begin

text \<open>
  Which manifests pass the check, stated without the loops of the code, and what a checked
  manifest guarantees about the resolution of role names.
\<close>

subsection \<open>The conditions\<close>

definition exact_set :: "string list \<Rightarrow> string gomap \<Rightarrow> bool" where
  "exact_set vs m \<longleftrightarrow> [] \<notin> TrimSpace ` set vs \<and> TrimSpace ` set vs = dom (get_key m)"

definition type_name :: "ManifestType \<Rightarrow> string" where "type_name t = TrimSpace (mt_Type t)"

definition type_ok :: "Schema \<Rightarrow> ManifestType \<Rightarrow> bool" where
  "type_ok schema t \<longleftrightarrow> type_name t \<noteq> [] \<and>
     (\<exists>d. get_key (Definitions schema) (TrimSpace (mt_SpiceDBType t)) = Some d
        \<and> exact_set (mt_Relations t) (Relations d) \<and> exact_set (mt_Permissions t) (Permissions d))"

definition role_ok :: "Schema \<Rightarrow> ManifestType list \<Rightarrow> ManifestRole \<Rightarrow> bool" where
  "role_ok schema ts role \<longleftrightarrow>
     (\<exists>t \<in> set ts. type_name t = TrimSpace (mfr_ResourceType role)
        \<and> declared schema (mt_SpiceDBType t, ''relation'', TrimSpace (mfr_Relation role)) \<noteq> None)"

definition role_names :: "string \<Rightarrow> BootstrapRole \<Rightarrow> string list" where
  "role_names name r = map TrimSpace (name # br_Aliases r)"

definition boot_role_ok :: "Schema \<Rightarrow> BootstrapRole \<Rightarrow> bool" where
  "boot_role_ok schema r \<longleftrightarrow> TrimSpace (br_Scope r) \<in> {''platform'', ''zone''} \<and> TrimSpace (br_Relation r) \<noteq> []
     \<and> declared schema (TrimSpace (br_Scope r), ''relation'', TrimSpace (br_Relation r)) \<noteq> None"

definition platform_resource_ok :: "Schema \<Rightarrow> AdminResource \<Rightarrow> bool" where
  "platform_resource_ok schema r \<longleftrightarrow> TrimSpace (ar_ID r) \<noteq> []
     \<and> declared schema (TrimSpace (ar_Type r), ''relation'', ''platform'') \<noteq> None"

definition all_names :: "BootstrapRole gomap \<Rightarrow> string list" where
  "all_names roles = concat (map (\<lambda>(n, r). role_names n r) roles)"

text \<open>The role a name stands for: by its key, or by one of its aliases.\<close>

definition stands_for :: "string \<Rightarrow> string \<Rightarrow> BootstrapRole \<Rightarrow> bool" where
  "stands_for role n r \<longleftrightarrow> role = n \<or> role \<in> TrimSpace ` set (br_Aliases r)"

definition bootstrap_ok :: "BootstrapPolicy \<Rightarrow> Schema \<Rightarrow> bool" where
  "bootstrap_ok p schema \<longleftrightarrow> TrimSpace (bp_PlatformID p) \<noteq> []
     \<and> {''platform'', ''zone''} \<subseteq> defined schema
     \<and> [] \<notin> set (all_names (bp_Roles p)) \<and> distinct (all_names (bp_Roles p))
     \<and> (\<forall>(n, r) \<in> set (bp_Roles p). boot_role_ok schema r)
     \<and> (\<exists>(n, r) \<in> set (bp_Roles p). stands_for (TrimSpace (bp_DefaultRole p)) n r)
     \<and> (\<forall>r \<in> set (bp_PlatformResources p). platform_resource_ok schema r)"

definition manifest_ok :: "Manifest \<Rightarrow> Schema \<Rightarrow> bool" where
  "manifest_ok m schema \<longleftrightarrow>
     distinct (map type_name (mf_ResourceTypes m))
     \<and> (\<forall>t \<in> set (mf_ResourceTypes m). type_ok schema t)
     \<and> (\<forall>r \<in> set (mf_RoleTemplates m). role_ok schema (mf_ResourceTypes m) r)
     \<and> bootstrap_ok (mf_Bootstrap m) schema"

subsection \<open>The loops of the check\<close>

lemma each_check_iff: "each_check f xs = Inr () \<longleftrightarrow> (\<forall>x \<in> set xs. f x = Inr ())"
  by (induction xs) (auto split: sum.splits)

lemma validateExactSet_iff: "validateExactSet label vs m = Inr () \<longleftrightarrow> exact_set vs m"
proof -
  let ?M = "filter (\<lambda>v. v \<notin> set (map TrimSpace vs)) (map fst m)"
  let ?E = "filter (\<lambda>v. get_key m v = None) (remdups (map TrimSpace vs))"
  have "?M = [] \<longleftrightarrow> dom (get_key m) \<subseteq> TrimSpace ` set vs"
    by (auto simp: filter_empty_conv dom_map_of_conv_image_fst)
  moreover have "?E = [] \<longleftrightarrow> TrimSpace ` set vs \<subseteq> dom (get_key m)"
    by (auto simp: filter_empty_conv)
  moreover have "validateExactSet label vs m = Inr () \<longleftrightarrow> [] \<notin> set (map TrimSpace vs) \<and> ?M = [] \<and> ?E = []"
    unfolding validateExactSet_def Let_def
    by (cases "[] \<in> set (map TrimSpace vs)"; cases "?M = []"; cases "?E = []")
      (simp_all only: if_True if_False length_0_conv simp_thms sum.distinct)
  ultimately show ?thesis unfolding exact_set_def by (simp only: set_map) blast
qed

lemma check_type_iff:
  "check_type schema t seen = Inr seen' \<longleftrightarrow>
     type_ok schema t \<and> get_key seen (type_name t) = None \<and> seen' = put_key (type_name t) t seen"
proof -
  have "check_type schema t seen = Inr seen' \<longleftrightarrow>
     type_name t \<noteq> [] \<and> get_key seen (type_name t) = None \<and>
     (\<exists>d. get_key (Definitions schema) (TrimSpace (mt_SpiceDBType t)) = Some d
       \<and> validateExactSet (''resource type '' @ type_name t @ '' relations'') (mt_Relations t) (Relations d) = Inr ()
       \<and> validateExactSet (''resource type '' @ type_name t @ '' permissions'') (mt_Permissions t) (Permissions d) = Inr ())
     \<and> seen' = put_key (type_name t) t seen"
    by (auto simp: check_type_def Let_def type_name_def split: option.splits sum.splits)
  then show ?thesis unfolding validateExactSet_iff type_ok_def by blast
qed

definition file_types :: "ManifestType list \<Rightarrow> ManifestType gomap \<Rightarrow> ManifestType gomap" where
  "file_types ts seen = fold (\<lambda>t. put_key (type_name t) t) ts seen"

lemma check_types_iff:
  "check_types schema ts seen = Inr seen' \<longleftrightarrow>
     (\<forall>t \<in> set ts. type_ok schema t) \<and> distinct (map type_name ts)
     \<and> (\<forall>t \<in> set ts. get_key seen (type_name t) = None) \<and> seen' = file_types ts seen"
proof (induction ts arbitrary: seen)
  case (Cons t ts)
  have step: "check_types schema (t # ts) seen = Inr seen' \<longleftrightarrow>
    (\<exists>s1. check_type schema t seen = Inr s1 \<and> check_types schema ts s1 = Inr seen')"
    by (auto split: sum.splits)
  show ?case
    unfolding step check_type_iff Cons.IH by (auto simp: file_types_def update_conv' image_iff)
qed (auto simp: file_types_def)

lemma file_types_get:
  "distinct (map type_name ts) \<Longrightarrow>
     get_key (file_types ts seen) n = Some t \<longleftrightarrow>
       (t \<in> set ts \<and> type_name t = n) \<or> (n \<notin> type_name ` set ts \<and> get_key seen n = Some t)"
proof (induction ts arbitrary: seen)
  case (Cons u ts)
  then show ?case by (auto simp: file_types_def update_conv')
qed (simp add: file_types_def)

lemma relation_declared:
  "declared schema (n, ''relation'', k) = get_key (scope_relations schema n) k"
  by (simp add: declared_def members_def scope_relations_def split: option.split)

lemma check_role_iff:
  assumes "distinct (map type_name ts)"
  shows "check_role schema (file_types ts []) role = Inr () \<longleftrightarrow> role_ok schema ts role"
proof -
  have eq: "Relations (case get_key (Definitions schema) n of None \<Rightarrow> empty_definition | Some d \<Rightarrow> d)
      = scope_relations schema n" for n
    by (simp add: scope_relations_def empty_definition_def split: option.split)
  have "check_role schema (file_types ts []) role = Inr () \<longleftrightarrow>
      (\<exists>t. get_key (file_types ts []) (TrimSpace (mfr_ResourceType role)) = Some t
        \<and> get_key (scope_relations schema (mt_SpiceDBType t)) (TrimSpace (mfr_Relation role)) \<noteq> None)"
    unfolding check_role_def Let_def eq by (auto split: option.split)
  then show ?thesis unfolding file_types_get[OF assms] role_ok_def relation_declared by auto
qed

lemma check_names_iff:
  "check_names cs seen = Inr seen' \<longleftrightarrow>
     [] \<notin> set (map TrimSpace cs) \<and> distinct (map TrimSpace cs)
     \<and> set (map TrimSpace cs) \<inter> set seen = {} \<and> seen' = rev (map TrimSpace cs) @ seen"
  by (induction cs arbitrary: seen) (auto simp: Let_def)

lemma check_boot_role_iff:
  "check_boot_role schema n r seen = Inr seen' \<longleftrightarrow>
     boot_role_ok schema r \<and> [] \<notin> set (role_names n r) \<and> distinct (role_names n r)
     \<and> set (role_names n r) \<inter> set seen = {} \<and> seen' = rev (role_names n r) @ seen"
proof -
  have "check_boot_role schema n r seen = Inr seen' \<longleftrightarrow>
     check_names (n # br_Aliases r) seen = Inr seen' \<and> boot_role_ok schema r"
    unfolding boot_role_ok_def relation_declared
    by (auto simp: check_boot_role_def Let_def simp del: check_names.simps split: sum.split)
  then show ?thesis unfolding check_names_iff role_names_def by blast
qed

lemma check_boot_roles_iff:
  "check_boot_roles schema roles ns seen = Inr seen' \<longleftrightarrow>
     (let R = (\<lambda>n. case get_key roles n of None \<Rightarrow> no_role | Some r \<Rightarrow> r);
          names = concat (map (\<lambda>n. role_names n (R n)) ns)
      in (\<forall>n \<in> set ns. boot_role_ok schema (R n)) \<and> [] \<notin> set names \<and> distinct names
        \<and> set names \<inter> set seen = {} \<and> seen' = rev names @ seen)"
proof (induction ns arbitrary: seen)
  case (Cons n ns)
  let ?R = "\<lambda>n. case get_key roles n of None \<Rightarrow> no_role | Some r \<Rightarrow> r"
  have step: "check_boot_roles schema roles (n # ns) seen = Inr seen' \<longleftrightarrow>
    (\<exists>s1. check_boot_role schema n (?R n) seen = Inr s1 \<and> check_boot_roles schema roles ns s1 = Inr seen')"
    by (auto split: sum.splits)
  show ?case
    unfolding step check_boot_role_iff Cons.IH by (auto simp: Let_def)
qed (simp add: Let_def eq_commute)

lemma platform_resource_iff: "check_platform_resource schema r = Inr () \<longleftrightarrow> platform_resource_ok schema r"
  unfolding platform_resource_ok_def relation_declared
  by (auto simp: check_platform_resource_def Let_def scope_relations_def split: option.split)

lemma check_scope_iff: "check_scope schema n = Inr () \<longleftrightarrow> n \<in> defined schema"
  by (auto simp: check_scope_def defined_def)

lemma mset_concat_cong:
  assumes "mset xs = mset ys"
  shows "mset (concat (map f xs)) = mset (concat (map f ys))"
proof -
  have "mset (concat (map f zs)) = \<Sum>\<^sub># (image_mset (\<lambda>x. mset (f x)) (mset zs))" for zs
    by (induction zs) auto
  with assms show ?thesis by simp
qed

text \<open>The order in which the roles are visited does not matter for their names.\<close>

lemma all_names_sorted:
  assumes "keys_distinct roles"
  shows "mset (concat (map (\<lambda>n. role_names n (case get_key roles n of None \<Rightarrow> no_role | Some r \<Rightarrow> r))
      (sort (map fst roles)))) = mset (all_names roles)"
proof -
  let ?R = "\<lambda>n. case get_key roles n of None \<Rightarrow> no_role | Some r \<Rightarrow> r"
  have "mset (concat (map (\<lambda>n. role_names n (?R n)) (sort (map fst roles))))
      = mset (concat (map (\<lambda>n. role_names n (?R n)) (map fst roles)))"
    by (rule mset_concat_cong) simp
  also have "map (\<lambda>n. role_names n (?R n)) (map fst roles) = map (\<lambda>(n, r). role_names n r) roles"
    using assms by (auto simp: map_of_is_SomeI)
  finally show ?thesis by (simp add: all_names_def)
qed

lemma mset_distinct_cong: "mset xs = mset ys \<Longrightarrow> (distinct xs \<longleftrightarrow> distinct ys) \<and> set xs = set ys"
  by (metis mset_eq_imp_distinct_iff mset_eq_setD)

lemma check_all_boot_roles:
  assumes "keys_distinct roles"
  shows "(\<exists>s. check_boot_roles schema roles (sort (map fst roles)) [] = Inr s) \<longleftrightarrow>
    (\<forall>(n, r) \<in> set roles. boot_role_ok schema r) \<and> [] \<notin> set (all_names roles) \<and> distinct (all_names roles)"
proof -
  let ?R = "\<lambda>n. case get_key roles n of None \<Rightarrow> no_role | Some r \<Rightarrow> r"
  have "(\<forall>n \<in> set (sort (map fst roles)). boot_role_ok schema (?R n)) \<longleftrightarrow>
      (\<forall>(n, r) \<in> set roles. boot_role_ok schema r)"
    using assms by (auto simp: map_of_is_SomeI)
  then show ?thesis
    using mset_distinct_cong[OF all_names_sorted[OF assms]]
    unfolding check_boot_roles_iff Let_def by simp
qed

subsection \<open>Resolving a role name\<close>

definition wanted_role :: "BootstrapPolicy \<Rightarrow> string \<Rightarrow> string" where
  "wanted_role p role = (if TrimSpace role = [] then TrimSpace (bp_DefaultRole p) else TrimSpace role)"

definition alias_hit :: "string \<Rightarrow> string \<times> BootstrapRole \<Rightarrow> bool" where
  "alias_hit role x \<longleftrightarrow> role \<in> TrimSpace ` set (br_Aliases (snd x))"

lemma ResolveRole_alt:
  "ResolveRole c p role =
     (case get_key (bp_Roles p) (wanted_role p role) of
        Some r \<Rightarrow> (r, wanted_role p role, True)
      | None \<Rightarrow> (case find (alias_hit (wanted_role p role)) (shuffle c (bp_Roles p)) of
          Some x \<Rightarrow> (snd x, fst x, True) | None \<Rightarrow> (no_role, [], False)))"
proof -
  have "(\<lambda>(n :: string, r). \<exists>a \<in> set (br_Aliases r). TrimSpace a = w) = alias_hit w" for w
    by (auto simp: alias_hit_def fun_eq_iff image_iff)
  then show ?thesis
    unfolding ResolveRole_def wanted_role_def[symmetric] Let_def
    by (simp split: option.split prod.split)
qed

lemma find_SomeD: "find P xs = Some x \<Longrightarrow> x \<in> set xs \<and> P x"
  by (induction xs) (auto split: if_splits)

lemma stands_for_iff: "stands_for w n r \<longleftrightarrow> w = n \<or> alias_hit w (n, r)"
  by (simp add: stands_for_def alias_hit_def)

lemma resolved_stands:
  "ResolveRole c p role = (r, n, True) \<Longrightarrow> (n, r) \<in> set (bp_Roles p) \<and> stands_for (wanted_role p role) n r"
  by (auto simp: ResolveRole_alt stands_for_iff split: option.splits dest: map_of_SomeD find_SomeD)

lemma resolves:
  assumes "(n, r) \<in> set (bp_Roles p)" "stands_for (wanted_role p role) n r"
  shows "\<exists>r' n'. ResolveRole c p role = (r', n', True)"
proof (cases "get_key (bp_Roles p) (wanted_role p role)")
  case None
  with assms have "alias_hit (wanted_role p role) (n, r)"
    by (force simp: stands_for_iff map_of_eq_None_iff)
  then have "find (alias_hit (wanted_role p role)) (shuffle c (bp_Roles p)) \<noteq> None"
    using assms(1) by (auto simp: find_None_iff)
  with None show ?thesis by (auto simp: ResolveRole_alt)
qed (simp add: ResolveRole_alt)

lemma resolves_iff:
  "snd (snd (ResolveRole c p role)) \<longleftrightarrow> (\<exists>(n, r) \<in> set (bp_Roles p). stands_for (wanted_role p role) n r)"
  using resolves[of _ _ p role c] resolved_stands[of c p role] by (cases "ResolveRole c p role") fastforce

lemma distinct_concat_unique:
  "distinct (concat (map f xs)) \<Longrightarrow> x \<in> set xs \<Longrightarrow> y \<in> set xs \<Longrightarrow> w \<in> set (f x) \<Longrightarrow> w \<in> set (f y) \<Longrightarrow> x = y"
  by (induction xs) auto

lemma stands_for_named:
  assumes "stands_for w n r" "TrimSpace w = w"
  shows "w \<in> set (role_names n r)"
  using assms by (auto simp: stands_for_def role_names_def)

lemma wanted_role_trimmed: "TrimSpace (wanted_role p role) = wanted_role p role"
  by (simp add: wanted_role_def)

lemma stands_for_unique:
  assumes "distinct (all_names roles)" "TrimSpace w = w"
    "(n, r) \<in> set roles" "stands_for w n r" "(n', r') \<in> set roles" "stands_for w n' r'"
  shows "(n, r) = (n', r')"
proof (rule distinct_concat_unique)
  show "distinct (concat (map (\<lambda>(n, r). role_names n r) roles))" using assms(1) by (simp add: all_names_def)
qed (use assms stands_for_named in auto)

lemma validateBootstrap_iff:
  assumes "keys_distinct (bp_Roles (mf_Bootstrap m))"
  shows "validateBootstrap c m schema = Inr () \<longleftrightarrow> bootstrap_ok (mf_Bootstrap m) schema"
proof -
  let ?p = "mf_Bootstrap m"
  have "validateBootstrap c m schema = Inr () \<longleftrightarrow>
    TrimSpace (bp_PlatformID ?p) \<noteq> []
    \<and> each_check (check_scope schema) [''platform'', ''zone''] = Inr ()
    \<and> (\<exists>s. check_boot_roles schema (bp_Roles ?p) (sort (map fst (bp_Roles ?p))) [] = Inr s)
    \<and> snd (snd (ResolveRole c ?p (bp_DefaultRole ?p)))
    \<and> each_check (check_platform_resource schema) (bp_PlatformResources ?p) = Inr ()"
    by (auto simp: validateBootstrap_def Let_def ResolveBootstrapRole_def
        simp del: each_check.simps split: sum.split)
  also have "\<dots> \<longleftrightarrow> bootstrap_ok ?p schema"
    unfolding check_all_boot_roles[OF assms] each_check_iff resolves_iff bootstrap_ok_def
      platform_resource_iff check_scope_iff
    by (auto simp: wanted_role_def)
  finally show ?thesis .
qed

subsection \<open>Results\<close>

lemma manifest_validated:
  assumes "keys_distinct (bp_Roles (mf_Bootstrap m))"
  shows "Validate c (Some m) schema = Inr () \<longleftrightarrow> manifest_ok m schema"
proof -
  let ?ts = "mf_ResourceTypes m"
  have "Validate c (Some m) schema = Inr () \<longleftrightarrow>
      (\<exists>types. check_types schema ?ts [] = Inr types
        \<and> each_check (check_role schema types) (mf_RoleTemplates m) = Inr ())
      \<and> validateBootstrap c m schema = Inr ()"
    by (auto simp: Validate_def split: sum.split)
  also have "(\<exists>types. check_types schema ?ts [] = Inr types
        \<and> each_check (check_role schema types) (mf_RoleTemplates m) = Inr ()) \<longleftrightarrow>
      (\<forall>t \<in> set ?ts. type_ok schema t) \<and> distinct (map type_name ?ts)
      \<and> (\<forall>r \<in> set (mf_RoleTemplates m). role_ok schema ?ts r)"
    unfolding check_types_iff each_check_iff using check_role_iff[of ?ts schema] by auto
  finally show ?thesis unfolding validateBootstrap_iff[OF assms] manifest_ok_def by blast
qed

text \<open>C12. The check accepts a manifest exactly when the resource types are distinct and match the
  relations and permissions of their schema definitions, every role template has a relation of its
  type's definition, and the start-up policy is consistent: scopes and relations exist, no name or
  alias occurs twice, the default role is one of them; whatever the iteration order of its map.\<close>

theorem manifest_accepted_iff:
  assumes "keys_distinct (bp_Roles (mf_Bootstrap m))"
  shows "Validate c (Some m) schema = Inr () \<longleftrightarrow> manifest_ok m schema"
  by (rule manifest_validated[OF assms])

lemma validated_roles:
  assumes "keys_distinct (bp_Roles (mf_Bootstrap m))" "Validate c (Some m) schema = Inr ()"
  shows "distinct (all_names (bp_Roles (mf_Bootstrap m)))"
proof -
  have "validateBootstrap c m schema = Inr ()"
    using assms(2) by (auto simp: Validate_def split: sum.splits)
  then show ?thesis unfolding validateBootstrap_iff[OF assms(1)] by (simp add: bootstrap_ok_def)
qed

text \<open>In a checked manifest a role name, or the default role for an empty one, resolves to
  the one role that has it as its key or among its aliases, whatever the iteration order of the
  map of roles.\<close>

theorem role_resolution_exact:
  assumes "keys_distinct (bp_Roles (mf_Bootstrap m))" "Validate c0 (Some m) schema = Inr ()"
  shows "ResolveBootstrapRole c (Some m) role = (r, n, True) \<longleftrightarrow>
    (n, r) \<in> set (bp_Roles (mf_Bootstrap m)) \<and> stands_for (wanted_role (mf_Bootstrap m) role) n r"
proof
  let ?p = "mf_Bootstrap m"
  assume *: "(n, r) \<in> set (bp_Roles ?p) \<and> stands_for (wanted_role ?p role) n r"
  then obtain r' n' where res: "ResolveRole c ?p role = (r', n', True)" using resolves by blast
  have "(n', r') = (n, r)"
    using stands_for_unique[OF validated_roles[OF assms] wanted_role_trimmed] resolved_stands[OF res] * by blast
  with res show "ResolveBootstrapRole c (Some m) role = (r, n, True)" by (simp add: ResolveBootstrapRole_def)
qed (auto simp: ResolveBootstrapRole_def dest: resolved_stands)

subsection \<open>A manifest that passes\<close>

definition platform_definition :: Definition where
  "platform_definition = \<lparr>Relations = [(''admin'', ''user''), (''platform'', ''platform'')], Permissions = []\<rparr>"

definition small_schema :: Schema where
  "small_schema = \<lparr>Definitions =
     [(''platform'', platform_definition),
      (''zone'', \<lparr>Relations = [(''owner'', ''user'')], Permissions = [(''view'', ''owner'')]\<rparr>)]\<rparr>"

definition zone_type :: ManifestType where
  "zone_type = \<lparr>mt_Type = ''zone'', mt_CapabilityID = [], mt_OwnerService = ''iam'', mt_ParentTypes = [],
     mt_Grantable = True, mt_Auditable = True, mt_SpiceDBType = ''zone'', mt_Relations = [''owner''],
     mt_Permissions = ['' view''], mt_Status = ''active''\<rparr>"

definition owner_template :: ManifestRole where
  "owner_template = \<lparr>mfr_ResourceType = ''zone'', mfr_RoleKey = ''owner'', mfr_DisplayName = ''Owner'',
     mfr_Relation = ''owner'', mfr_BuiltIn = True, mfr_Enabled = True, mfr_SortOrder = 10\<rparr>"

definition small_policy :: BootstrapPolicy where
  "small_policy = \<lparr>bp_DefaultRole = ''root'', bp_PlatformID = ''aisphere'',
     bp_Roles = [(''admin'', \<lparr>br_Aliases = [''root''], br_Scope = ''platform'', br_Relation = ''admin''\<rparr>),
       (''owner'', \<lparr>br_Aliases = [''boss''], br_Scope = ''zone'', br_Relation = ''owner''\<rparr>)],
     bp_PlatformResources = [\<lparr>ar_Type = ''platform'', ar_ID = ''iam''\<rparr>]\<rparr>"

definition small_manifest :: Manifest where
  "small_manifest = \<lparr>mf_Capabilities = [], mf_ResourceTypes = [zone_type],
     mf_RoleTemplates = [owner_template], mf_Bootstrap = small_policy\<rparr>"

lemma small_keys: "keys_distinct (bp_Roles (mf_Bootstrap small_manifest))"
  by (simp add: small_manifest_def small_policy_def)

lemma small_accepted: "Validate (\<lambda>_. 0) (Some small_manifest) small_schema = Inr ()"
  by code_simp

lemma manifest_accepted_iff_witness:
  "manifest_ok small_manifest small_schema \<and> \<not> manifest_ok (small_manifest\<lparr>mf_ResourceTypes := []\<rparr>) small_schema"
proof -
  have "Validate (\<lambda>_. 0) (Some (small_manifest\<lparr>mf_ResourceTypes := []\<rparr>)) small_schema \<noteq> Inr ()"
    by code_simp
  moreover have "keys_distinct (bp_Roles (mf_Bootstrap (small_manifest\<lparr>mf_ResourceTypes := []\<rparr>)))"
    using small_keys by simp
  ultimately show ?thesis
    using manifest_accepted_iff[OF small_keys] manifest_accepted_iff small_accepted by blast
qed

lemma role_resolution_exact_witness:
  "\<exists>r. ResolveBootstrapRole (\<lambda>_. 1) (Some small_manifest) [] = (r, ''admin'', True)"
proof -
  let ?r = "\<lparr>br_Aliases = [''root''], br_Scope = ''platform'', br_Relation = ''admin''\<rparr>"
  have "(''admin'', ?r) \<in> set (bp_Roles (mf_Bootstrap small_manifest))"
    by (simp add: small_manifest_def small_policy_def)
  moreover have "stands_for (wanted_role (mf_Bootstrap small_manifest) []) ''admin'' ?r" by code_simp
  ultimately show ?thesis
    using role_resolution_exact[OF small_keys small_accepted, of "\<lambda>_. 1" "[]" ?r "''admin''"] by blast
qed

text \<open>A role whose key is written with white space passes the check but has no name that resolves.\<close>

lemma padded_role_key:
  "let m = small_manifest\<lparr>mf_Bootstrap := small_policy\<lparr>bp_Roles := bp_Roles small_policy @
       [('' auditor'', \<lparr>br_Aliases = [], br_Scope = ''zone'', br_Relation = ''owner''\<rparr>)]\<rparr>\<rparr>
   in Validate (\<lambda>_. 0) (Some m) small_schema = Inr ()
     \<and> \<not> snd (snd (ResolveBootstrapRole (\<lambda>_. 0) (Some m) '' auditor''))"
  by code_simp

text \<open>
  A schema type written with white space is found for its resource type, but not for the role
  templates of that type.
\<close>

lemma padded_schema_type:
  "let m = small_manifest\<lparr>mf_ResourceTypes := [zone_type\<lparr>mt_SpiceDBType := '' zone''\<rparr>]\<rparr>
   in Validate (\<lambda>_. 0) (Some (m\<lparr>mf_RoleTemplates := []\<rparr>)) small_schema = Inr ()
     \<and> Validate (\<lambda>_. 0) (Some m) small_schema
       = Inl (ErrNew ''role template owner references missing relation owner on  zone'')"
  by code_simp

end
