(* ===== verification/IdentityLaws.thy ===== *)
theory IdentityLaws
  imports IdentityProjection
begin

text \<open>
  Properties of the identity layer: the normal form of payloads, what a projected operation does to
  the tuples when no saga manager is configured, the purge of users, memberships and groups, and the
  agreement of reconciliation with drift detection.
\<close>

subsection \<open>Frames\<close>

lemma step_frames [steps_rules]:
  "steps (same iw_graph) i_now" "steps (same iw_graph) (i_id n f)" "steps (same iw_graph) (on_back h)"
  "steps (same iw_graph) (on_provider q)"
  "steps (same iw_provider) i_now" "steps (same iw_provider) (i_id n f)" "steps (same iw_provider) (on_back h)"
  "steps (same iw_provider) (on_tuples j)"
  by (auto simp: steps_def same_def i_now_def i_id_def on_back_def on_provider_def on_tuples_def split: prod.splits)

lemma mark_frames [steps_rules]:
  "steps (same iw_graph) (idn_mark d ident status er)" "steps (same iw_provider) (idn_mark d ident status er)"
  unfolding idn_mark_def by (auto intro!: steps_rules)

lemma markFailure_frames [steps_rules]:
  "steps (same iw_graph) (idn_markFailure d ident er)" "steps (same iw_provider) (idn_markFailure d ident er)"
  unfolding idn_markFailure_def by (auto intro!: steps_rules)

lemma close_frames [steps_rules]:
  "steps (same iw_graph) (idn_fail d ident wr er)" "steps (same iw_graph) (idn_done d ident status wr)"
  "steps (same iw_provider) (idn_fail d ident wr er)" "steps (same iw_provider) (idn_done d ident status wr)"
  unfolding idn_fail_def idn_done_def by (auto intro!: steps_rules)

lemma record_frames [steps_rules]:
  "steps (same iw_graph) (idn_record d ident s t i p)" "steps (same iw_provider) (idn_record d ident s t i p)"
  unfolding idn_record_def by (auto intro!: steps_rules)

lemma ApplyBranch_frame [steps_rules]: "steps (same iw_provider) (ApplyBranch d b)"
  unfolding ApplyBranch_def by (auto intro!: steps_rules)

lemma submit_frame [steps_rules]: "steps (same iw_provider) (idn_submit d ident p)"
  unfolding idn_submit_def Let_def by (auto intro!: steps_rules)

lemma Dispatch_frame [steps_rules]: "steps (same iw_provider) (idn_Dispatch d s t i p)"
  unfolding idn_Dispatch_def by (auto intro!: steps_rules)

lemma graph_frameD: "steps (same iw_graph) m \<Longrightarrow> m e w = (x, w') \<Longrightarrow> iw_graph w' = iw_graph w"
  by (drule (1) stepsD) (simp add: same_def)

lemma provider_frameD: "steps (same iw_provider) m \<Longrightarrow> m e w = (x, w') \<Longrightarrow> iw_provider w' = iw_provider w"
  by (drule (1) stepsD) (simp add: same_def)

lemma dispatch_provider:
  assumes "idn_Dispatch d s t i p e w = (r, w')"
  shows "iw_provider w' = iw_provider w"
  using Dispatch_frame assms by (rule provider_frameD)

lemma on_tuples_run: "on_tuples f e w = (r, w') \<longleftrightarrow>
    f (ie_kern e) (iw_graph w) = (r, iw_graph w') \<and> w' = w\<lparr>iw_graph := iw_graph w'\<rparr>"
  by (auto simp: on_tuples_def split: prod.splits)

lemma fail_result: "idn_fail d ident wr er e w = (r, w') \<Longrightarrow> r = (wr, Some er)"
  by (auto simp: idn_fail_def bind_io_iff split: if_splits)

lemma done_result: "idn_done d ident status wr e w = (r, w') \<Longrightarrow> r = (wr, None)"
  by (auto simp: idn_done_def bind_io_iff split: if_splits)

lemma ApplyBranch_run:
  assumes "ApplyBranch (Some d) b e w = ((wr, er), w')"
  shows "ApplyIdentityAuthZProjection (ie_kern e) (idp_writer d) (ib_Payload b) (iw_graph w)
      = ((wr, er), iw_graph w')"
proof -
  let ?mark = "if ib_EventID b \<noteq> [] then idn_mark d (ib_EventID b) StatusProjecting [] else okE ()"
  let ?close = "\<lambda>wr er. case er of Some x \<Rightarrow> idn_fail d (ib_EventID b) wr x
      | None \<Rightarrow> idn_done d (ib_EventID b) StatusSynced wr"
  obtain x w1 y w2 where
    m: "?mark e w = (x, w1)" and
    a': "on_tuples (\<lambda>K. ApplyIdentityAuthZProjection K (idp_writer d) (ib_Payload b)) e w1 = (y, w2)" and
    c': "(case y of (wr1, er1) \<Rightarrow> ?close wr1 er1) e w2 = ((wr, er), w')"
    using assms unfolding ApplyBranch_def option.case bind_io_iff by blast
  obtain wr1 er1 where y: "y = (wr1, er1)" by (cases y)
  note a = a'[unfolded y] and c = c'[unfolded y prod.case]
  have "steps (same iw_graph) ?mark" by (auto intro: steps_rules)
  then have g1: "iw_graph w1 = iw_graph w" using m by (rule graph_frameD)
  have "steps (same iw_graph) (?close wr1 er1)" by (auto intro: steps_rules split: option.splits)
  then have g2: "iw_graph w' = iw_graph w2" using c by (rule graph_frameD)
  have "wr = wr1 \<and> er = er1" using c by (auto split: option.splits dest: fail_result done_result)
  then show ?thesis using a g1 g2 by (simp add: on_tuples_run)
qed

lemma submit_direct:
  assumes "saga_manager d = None" "idn_submit d ident p e w = (r, w')"
  shows "\<exists>wr er. ApplyIdentityAuthZProjection (ie_kern e) (idp_writer d) p (iw_graph w) = ((wr, er), iw_graph w')
    \<and> r = (case er of Some x \<Rightarrow> Inl x | None \<Rightarrow> Inr ())"
proof -
  let ?b = "\<lparr>ib_EventID = ident, ib_Payload = p\<rparr>"
  obtain wr er w1 where b: "ApplyBranch (Some d) ?b e w = ((wr, er), w1)"
    and c: "(case er of Some x \<Rightarrow> failE x | None \<Rightarrow> okE ()) e w1 = (r, w')"
    using assms by (auto simp: idn_submit_def bind_io_iff)
  show ?thesis using ApplyBranch_run[OF b] c by (auto split: option.splits)
qed

text \<open>
  A dispatch without a saga manager: the provider is untouched, and when it reports success the
  payload was empty or its application to the store succeeded.
\<close>

lemma Dispatch_direct:
  assumes d: "saga_manager d = None" "idp_writer d = Some S"
    and run: "idn_Dispatch (Some d) s t i p e w = (r, w')"
  defines "np \<equiv> normalizeProjectionPayload (ie_kern e) p"
  shows "iw_provider w' = iw_provider w"
    and "if isProjectionPayloadEmpty np then r = Inr () \<and> iw_graph w' = iw_graph w
         else r = Inr () \<longrightarrow> (\<exists>wr. ApplyIdentityAuthZProjection (ie_kern e) (Some S) np (iw_graph w)
                = ((wr, None), iw_graph w'))"
proof -
  show "iw_provider w' = iw_provider w" using Dispatch_frame run by (rule provider_frameD)
  show "if isProjectionPayloadEmpty np then r = Inr () \<and> iw_graph w' = iw_graph w
         else r = Inr () \<longrightarrow> (\<exists>wr. ApplyIdentityAuthZProjection (ie_kern e) (Some S) np (iw_graph w)
                = ((wr, None), iw_graph w'))"
  proof (cases "isProjectionPayloadEmpty np")
    case True
    then show ?thesis using run d by (auto simp: idn_Dispatch_def np_def bind_io_iff)
  next
    case False
    let ?rest = "\<lambda>ident. bindE (idn_record d ident s t i np) (\<lambda>_. idn_submit d ident np)"
    obtain ident w1 where i: "i_id 8 newIdentityProjectionID e w = (ident, w1)" and rest: "?rest ident e w1 = (r, w')"
      using run d False by (auto simp: idn_Dispatch_def np_def bind_io_iff)
    have g1: "iw_graph w1 = iw_graph w" using step_frames(2) i by (rule graph_frameD)
    have "\<exists>wr. ApplyIdentityAuthZProjection (ie_kern e) (Some S) np (iw_graph w) = ((wr, None), iw_graph w')"
      if ok: "r = Inr ()"
    proof -
      obtain w2 where "idn_record d ident s t i np e w1 = (Inr (), w2)" and sub: "idn_submit d ident np e w2 = (Inr (), w')"
        using rest ok by (auto simp: bindE_Inr_iff)
      then have "iw_graph w2 = iw_graph w1" by (metis graph_frameD record_frames(1))
      then show ?thesis using submit_direct[OF d(1) sub] d(2) g1 by (auto split: option.splits)
    qed
    then show ?thesis using False by simp
  qed
qed

subsection \<open>The normal form of payloads\<close>

lemma dedupe_rels_mem:
  "r \<in> set (dedupe_rels K seen rs) \<Longrightarrow> well_formed_rel K r \<and> r \<in> set rs \<and> rel_text r \<notin> set seen"
proof (induction rs arbitrary: seen)
  case (Cons x rs)
  then show ?case using Cons.IH[of seen] Cons.IH[of "rel_text x # seen"] by (auto split: if_splits)
qed simp

lemma dedupe_rels_distinct: "distinct (map rel_text (dedupe_rels K seen rs))"
  by (induction rs arbitrary: seen) (auto dest: dedupe_rels_mem)

lemma dedupe_rels_fix:
  "\<forall>r \<in> set rs. well_formed_rel K r \<and> rel_text r \<notin> set seen \<Longrightarrow> distinct (map rel_text rs)
   \<Longrightarrow> dedupe_rels K seen rs = rs"
proof (induction rs arbitrary: seen)
  case (Cons r rs)
  have "rel_text x \<noteq> rel_text r" if "x \<in> set rs" for x
    using Cons.prems(2) imageI[OF that, of rel_text] by auto
  then have "dedupe_rels K (rel_text r # seen) rs = rs" by (intro Cons.IH) (use Cons.prems in auto)
  then show ?case using Cons.prems by simp
qed simp

lemma dedupe_rels_texts:
  "rel_text ` set (dedupe_rels K seen rs) = rel_text ` {r \<in> set rs. well_formed_rel K r} - set seen"
proof (induction rs arbitrary: seen)
  case (Cons r rs)
  have "rel_text ` {x \<in> set (r # rs). well_formed_rel K x}
      = (if well_formed_rel K r then {rel_text r} else {}) \<union> rel_text ` {x \<in> set rs. well_formed_rel K x}"
    by auto
  then show ?case using Cons.IH[of seen] Cons.IH[of "rel_text r # seen"] by auto
qed simp

lemma dedupe_idem [simp]: "dedupeRelationships K (dedupeRelationships K rs) = dedupeRelationships K rs"
  unfolding dedupeRelationships_def
  by (rule dedupe_rels_fix) (auto dest: dedupe_rels_mem intro: dedupe_rels_distinct)

definition trimmed_rel :: "Relationship \<Rightarrow> bool" where
  "trimmed_rel r \<longleftrightarrow> TrimSpace (ob_ID (rel_Resource r)) = ob_ID (rel_Resource r)
     \<and> TrimSpace (su_ID (rel_Subject r)) = su_ID (rel_Subject r)"

lemma trim_rel_trimmed [simp]: "trimmed_rel (trim_rel r)"
  by (simp add: trim_rel_def trimmed_rel_def)

lemma trim_rel_id: "trimmed_rel r \<Longrightarrow> trim_rel r = r"
  by (cases r) (simp add: trim_rel_def trimmed_rel_def)

lemma map_trim_id: "\<forall>r \<in> set rs. trimmed_rel r \<Longrightarrow> map trim_rel rs = rs"
  by (simp add: map_idI trim_rel_id)

lemma filter_wf_dedupe [simp]:
  "filter (well_formed_rel K) (dedupeRelationships K rs) = dedupeRelationships K rs"
  by (auto simp: filter_id_conv dedupeRelationships_def dest: dedupe_rels_mem)

text \<open>The normal form of relationships that are trimmed and deduplicated already is the list itself.\<close>

lemma normal_rels_fix:
  "\<forall>r \<in> set rs. trimmed_rel r \<Longrightarrow> dedupeRelationships K rs = rs \<Longrightarrow>
   dedupeRelationships K (map trim_rel (filter (well_formed_rel K) rs)) = rs"
  by (metis filter_wf_dedupe map_trim_id)

definition trimmed_filter :: "RelationshipFilter \<Rightarrow> bool" where
  "trimmed_filter f \<longleftrightarrow> f \<noteq> empty_filter \<and> TrimSpace (f_ResourceID f) = f_ResourceID f
     \<and> TrimSpace (f_SubjectID f) = f_SubjectID f"

lemma trimmed_filters_fix:
  "\<forall>f \<in> set fs. trimmed_filter f \<Longrightarrow> map trim_filter (filter (\<lambda>f. f \<noteq> empty_filter) fs) = fs"
  by (induction fs) (simp_all add: trimmed_filter_def trim_filter_def)

lemma trim_operations [simp]: "TrimSpace OperationUp = OperationUp" "TrimSpace OperationRm = OperationRm"
  by (simp_all add: TrimSpace_visible visible_def)

lemma normalize_write:
  "normalizeProjectionPayload K \<lparr>ip_Operation = OperationUp, ip_Relationships = rels, ip_Filters = []\<rparr>
   = \<lparr>ip_Operation = OperationUp,
      ip_Relationships = dedupeRelationships K (map trim_rel (filter (well_formed_rel K) rels)), ip_Filters = []\<rparr>"
  by (simp add: normalizeProjectionPayload_def)

lemma normal_rels_idem:
  "dedupeRelationships K (map trim_rel (dedupeRelationships K (map trim_rel rels)))
   = dedupeRelationships K (map trim_rel rels)"
proof -
  have "\<forall>r \<in> set (dedupeRelationships K (map trim_rel rels)). trimmed_rel r"
    by (auto simp: dedupeRelationships_def dest!: dedupe_rels_mem)
  then show ?thesis by (simp add: map_trim_id)
qed

lemma normalize_delete:
  "\<forall>f \<in> set fs. trimmed_filter f \<Longrightarrow>
   normalizeProjectionPayload K \<lparr>ip_Operation = OperationRm, ip_Relationships = rels, ip_Filters = fs\<rparr>
   = \<lparr>ip_Operation = OperationRm,
      ip_Relationships = dedupeRelationships K (map trim_rel (filter (well_formed_rel K) rels)), ip_Filters = fs\<rparr>"
  by (simp add: normalizeProjectionPayload_def trimmed_filters_fix)

subsection \<open>Purges\<close>

lemma deleted_lost: "deleted fs A B \<Longrightarrow> t \<in> A \<Longrightarrow> t \<notin> B \<Longrightarrow> \<exists>f \<in> set fs. wide f t"
  unfolding deleted_def by blast

text \<open>The dispatcher projects at once (no saga manager) to a store with the documented behaviour.\<close>

definition direct_store :: "('d, 'g) Dispatcher \<Rightarrow> 'g store \<Rightarrow> ('g \<Rightarrow> tuple set) \<Rightarrow> bool" where
  "direct_store d S T \<longleftrightarrow> saga_manager d = None \<and> idp_writer d = Some S \<and> tuple_store S T
     \<and> (\<forall>R. idp_reader d = Some R \<longrightarrow> tuple_store R T)"

lemma apply_write_ok:
  assumes "tuple_store S T"
    and "ApplyIdentityAuthZProjection K (Some S) (normalizeProjectionPayload K
        \<lparr>ip_Operation = OperationUp, ip_Relationships = rels, ip_Filters = []\<rparr>) g = ((wr, None), g')"
  shows "T g' = T g \<union> keys (dedupeRelationships K (map trim_rel (filter (well_formed_rel K) rels)))"
  using assms by (simp add: ApplyIdentityAuthZProjection_def normalize_write normal_rels_idem store_write_ok
      del: image_set)

lemma apply_delete_ok:
  assumes "tuple_store S T" "\<forall>f \<in> set fs. trimmed_filter f"
    and "ApplyIdentityAuthZProjection K (Some S) (normalizeProjectionPayload K
        \<lparr>ip_Operation = OperationRm, ip_Relationships = rels, ip_Filters = fs\<rparr>) g = ((wr, None), g')"
  shows "deleted fs (T g) (T g')"
  using assms by (simp add: ApplyIdentityAuthZProjection_def normalize_delete deleteRelationships_deleted)

lemma dispatch_write:
  assumes d: "direct_store d S T"
    and run: "idn_Dispatch (Some d) s t i
        \<lparr>ip_Operation = OperationUp, ip_Relationships = rels, ip_Filters = []\<rparr> e w = (Inr (), w')"
  shows "iw_provider w' = iw_provider w"
    and "T (iw_graph w') = T (iw_graph w)
      \<union> keys (dedupeRelationships (ie_kern e) (map trim_rel (filter (well_formed_rel (ie_kern e)) rels)))"
proof -
  let ?p = "\<lparr>ip_Operation = OperationUp, ip_Relationships = rels, ip_Filters = []\<rparr>"
  have d': "saga_manager d = None" "idp_writer d = Some S" "tuple_store S T"
    using d by (simp_all add: direct_store_def)
  note D = Dispatch_direct[OF d'(1,2) run]
  show "iw_provider w' = iw_provider w" by (rule D(1))
  show "T (iw_graph w') = T (iw_graph w)
      \<union> keys (dedupeRelationships (ie_kern e) (map trim_rel (filter (well_formed_rel (ie_kern e)) rels)))"
  proof (cases "isProjectionPayloadEmpty (normalizeProjectionPayload (ie_kern e) ?p)")
    case True
    then show ?thesis using D(2) by (simp add: isProjectionPayloadEmpty_def normalize_write)
  next
    case False
    then obtain wr where "ApplyIdentityAuthZProjection (ie_kern e) (Some S)
        (normalizeProjectionPayload (ie_kern e) ?p) (iw_graph w) = ((wr, None), iw_graph w')"
      using D(2) by auto
    then show ?thesis by (rule apply_write_ok[OF d'(3)])
  qed
qed

lemma dispatch_delete:
  assumes d: "direct_store d S T" and fs: "\<forall>f \<in> set fs. trimmed_filter f"
    and run: "idn_Dispatch (Some d) s t i
        \<lparr>ip_Operation = OperationRm, ip_Relationships = rels, ip_Filters = fs\<rparr> e w = (Inr (), w')"
  shows "deleted fs (T (iw_graph w)) (T (iw_graph w'))"
proof -
  let ?p = "\<lparr>ip_Operation = OperationRm, ip_Relationships = rels, ip_Filters = fs\<rparr>"
  have d': "saga_manager d = None" "idp_writer d = Some S" "tuple_store S T"
    using d by (simp_all add: direct_store_def)
  note D = Dispatch_direct(2)[OF d'(1,2) run]
  show ?thesis
  proof (cases "isProjectionPayloadEmpty (normalizeProjectionPayload (ie_kern e) ?p)")
    case True
    then show ?thesis using D fs by (simp add: isProjectionPayloadEmpty_def normalize_delete deleted_def)
  next
    case False
    then obtain wr where "ApplyIdentityAuthZProjection (ie_kern e) (Some S)
        (normalizeProjectionPayload (ie_kern e) ?p) (iw_graph w) = ((wr, None), iw_graph w')"
      using D by auto
    then show ?thesis by (rule apply_delete_ok[OF d'(3) fs])
  qed
qed

lemma read_keeps: "tuple_store S T \<Longrightarrow> st_read S f g = (r, g') \<Longrightarrow> T g' = T g"
  unfolding tuple_store_def store_reads_def by blast

lemma capture_keeps:
  assumes "tuple_store R T" "idn_capture_loop R captured fs g = (r, g')"
  shows "T g' = T g"
  using assms(2)
proof (induction fs arbitrary: captured g)
  case (Cons f fs)
  obtain x g1 where rd: "st_read R f g = (x, g1)" by (cases "st_read R f g")
  then have "T g1 = T g" by (rule read_keeps[OF assms(1)])
  then show ?case using Cons rd by (auto split: if_splits sum.splits)
qed simp

lemma captureRelationships_keeps:
  assumes d: "direct_store d S T" and proj: "pa_projection a = Some d"
    and run: "idn_captureRelationships a fs e w = (x, w')"
  shows "T (iw_graph w') = T (iw_graph w)" "iw_provider w' = iw_provider w"
proof -
  show "iw_provider w' = iw_provider w"
    using run proj by (auto simp: idn_captureRelationships_def on_tuples_def split: option.splits prod.splits)
  show "T (iw_graph w') = T (iw_graph w)"
  proof (cases "idp_reader d")
    case None
    then show ?thesis using run proj by (simp add: idn_captureRelationships_def)
  next
    case (Some R)
    obtain y g' where c: "idn_capture_loop R [] fs (iw_graph w) = (y, g')" by (cases "idn_capture_loop R [] fs (iw_graph w)")
    have "tuple_store R T" using d Some by (simp add: direct_store_def)
    then have "T g' = T (iw_graph w)" using c by (rule capture_keeps)
    moreover have "iw_graph w' = g'"
      using run proj Some c
      by (cases y; cases "snd y") (auto simp: idn_captureRelationships_def on_tuples_def)
    ultimately show ?thesis by simp
  qed
qed

lemma purge_run:
  assumes "purge a ty i fs e w = (r, w')"
  obtains x w1 where "idn_captureRelationships a fs e w = (x, w1)"
    "projectDelete a ''iam_api'' ty i fs (fst x) e w1 = (r, w')"
proof -
  obtain x w1 where "idn_captureRelationships a fs e w = (x, w1)"
    "(case x of (rels, _) \<Rightarrow> projectDelete a ''iam_api'' ty i fs rels) e w1 = (r, w')"
    using assms unfolding purge_def bind_io_iff by (elim exE conjE)
  then show thesis by (cases x) (auto intro: that)
qed

lemma purge_deleted:
  assumes d: "direct_store d S T" and a: "pa_projection a = Some d" and fs: "\<forall>f \<in> set fs. trimmed_filter f"
    and run: "purge a ty i fs e w = (Inr (), w')"
  shows "deleted fs (T (iw_graph w)) (T (iw_graph w'))"
proof -
  obtain x w1 where c: "idn_captureRelationships a fs e w = (x, w1)"
    and p: "projectDelete a ''iam_api'' ty i fs (fst x) e w1 = (Inr (), w')"
    by (rule purge_run[OF run])
  have "idn_Dispatch (Some d) ''iam_api'' ty i
      \<lparr>ip_Operation = OperationRm, ip_Relationships = fst x, ip_Filters = fs\<rparr> e w1 = (Inr (), w')"
    using p a by (simp add: projectDelete_def)
  then have "deleted fs (T (iw_graph w1)) (T (iw_graph w'))" by (rule dispatch_delete[OF d fs])
  then show ?thesis using captureRelationships_keeps[OF d a c] by simp
qed

subsection \<open>Users\<close>

lemma iam_types_nonempty: "[] \<notin> set iam_resource_types"
  by (simp add: iam_resource_types_def)

lemma user_filters:
  assumes "TrimSpace u = u" "u \<noteq> []"
  shows "userSubjectDeleteFilters u
    = map (\<lambda>t. empty_filter\<lparr>f_ResourceType := t, f_SubjectType := ''user'', f_SubjectID := u\<rparr>) iam_resource_types"
    and "\<forall>f \<in> set (userSubjectDeleteFilters u). trimmed_filter f"
  using assms iam_types_nonempty
  by (auto simp: userSubjectDeleteFilters_def trimmed_filter_def empty_filter_def)

definition plain_user :: "string \<Rightarrow> SubjectRef" where
  "plain_user u = \<lparr>su_Type = ''user'', su_ID = u, su_Relation = []\<rparr>"

lemma user_filters_deleted:
  assumes u: "TrimSpace u = u" "u \<noteq> []" and del: "deleted (userSubjectDeleteFilters u) A B"
  shows "\<forall>(ob, r, s) \<in> B. ob_Type ob \<in> set iam_resource_types \<longrightarrow> s \<noteq> plain_user u"
    and "B \<subseteq> A" and "\<forall>(ob, r, s) \<in> A - B. su_Type s = ''user'' \<and> su_ID s = u"
proof -
  note D = del[unfolded deleted_def]
  show "B \<subseteq> A" using D by simp
  have "False" if t: "(ob, r, plain_user u) \<in> B" "ob_Type ob \<in> set iam_resource_types" for ob r
  proof -
    let ?f = "empty_filter\<lparr>f_ResourceType := ob_Type ob, f_SubjectType := ''user'', f_SubjectID := u\<rparr>"
    have "?f \<in> set (userSubjectDeleteFilters u)" using t(2) by (simp add: user_filters[OF u])
    then have "\<not> narrow ?f (ob, r, plain_user u)" using D t(1) by blast
    then show False by (simp add: narrow_def plain_user_def empty_filter_def field_matches_def)
  qed
  then show "\<forall>(ob, r, s) \<in> B. ob_Type ob \<in> set iam_resource_types \<longrightarrow> s \<noteq> plain_user u" by auto
  have "su_Type s = ''user'' \<and> su_ID s = u" if t: "(ob, r, s) \<in> A" "(ob, r, s) \<notin> B" for ob r s
  proof -
    obtain f where f: "f \<in> set (userSubjectDeleteFilters u)" "wide f (ob, r, s)" using D t by blast
    then show ?thesis using u by (auto simp: user_filters[OF u] wide_def empty_filter_def field_matches_def)
  qed
  then show "\<forall>(ob, r, s) \<in> A - B. su_Type s = ''user'' \<and> su_ID s = u" by auto
qed

lemma on_provider_run: "on_provider f e w = (r, w') \<longleftrightarrow>
    f (iw_provider w) = (r, iw_provider w') \<and> w' = w\<lparr>iw_provider := iw_provider w'\<rparr>"
  by (auto simp: on_provider_def split: prod.splits)

lemma purge_provider:
  assumes d: "direct_store d S T" and a: "pa_projection a = Some d" and run: "purge a ty i fs e w = (r, w')"
  shows "iw_provider w' = iw_provider w"
proof -
  obtain x w1 where c: "idn_captureRelationships a fs e w = (x, w1)"
    and p: "projectDelete a ''iam_api'' ty i fs (fst x) e w1 = (r, w')"
    by (rule purge_run[OF run])
  note p[unfolded projectDelete_def]
  then have "iw_provider w' = iw_provider w1" by (rule dispatch_provider)
  also have "\<dots> = iw_provider w" by (rule captureRelationships_keeps(2)[OF d a c])
  finally show ?thesis .
qed

lemma end_user_def:
  "(if disable then ida_DisableUser a org user else ida_DeleteUser a org user hard) =
     bindE (on_provider (if disable then ia_DisableUser (pa_next a) org user
         else ia_DeleteUser (pa_next a) org user hard)) (\<lambda>_.
     let userID = TrimSpace user in
     if userID = [] then okE () else purge a ''user'' userID (userSubjectDeleteFilters userID))"
  by (simp add: ida_DisableUser_def ida_DeleteUser_def)

text \<open>C9. A user who is deleted or disabled without an error keeps no direct tuple on any of the
  enumerated resource types; nothing of any other subject is removed, and the identity provider was
  called exactly as requested.
\<close>

theorem user_purged:
  assumes d: "direct_store d S T" and a: "pa_projection a = Some d" and u: "TrimSpace user = u" "u \<noteq> []"
    and run: "(if disable then ida_DisableUser a org user else ida_DeleteUser a org user hard) e w = (Inr (), w')"
  defines "A \<equiv> T (iw_graph w)" and "B \<equiv> T (iw_graph w')"
  shows "(\<forall>(ob, r, s) \<in> B. ob_Type ob \<in> set [''platform'', ''zone'', ''group'', ''iam_authz'', ''iam'',
        ''project'', ''skill_space'', ''skill'', ''agent_space'', ''agent'', ''tool_space'', ''tool'',
        ''sandbox_space'', ''sandbox'', ''runtime_environment'', ''deployment'', ''role_binding''] \<longrightarrow> s \<noteq> plain_user u)
    \<and> B \<subseteq> A \<and> (\<forall>(ob, r, s) \<in> A - B. su_Type s = ''user'' \<and> su_ID s = u)
    \<and> (if disable then ia_DisableUser (pa_next a) org user
         else ia_DeleteUser (pa_next a) org user hard) (iw_provider w)
        = (Inr (), iw_provider w')"
proof -
  have tu: "TrimSpace u = u" using u by auto
  let ?call = "if disable then ia_DisableUser (pa_next a) org user else ia_DeleteUser (pa_next a) org user hard"
  obtain w1 where p: "on_provider ?call e w = (Inr (), w1)"
    and pu: "purge a ''user'' u (userSubjectDeleteFilters u) e w1 = (Inr (), w')"
    using run u(2) unfolding end_user_def bindE_Inr_iff u(1) Let_def by auto
  have w1: "?call (iw_provider w) = (Inr (), iw_provider w1)" "iw_graph w1 = iw_graph w"
    using p step_frames(4)[of ?call] by (auto simp: on_provider_run dest: graph_frameD)
  have "deleted (userSubjectDeleteFilters u) A B"
    using purge_deleted[OF d a user_filters(2)[OF tu u(2)] pu] w1(2) by (simp add: A_def B_def)
  note del = user_filters_deleted[OF tu u(2) this]
  have "iw_provider w' = iw_provider w1" by (rule purge_provider[OF d a pu])
  then show ?thesis using del[unfolded iam_resource_types_def] w1(1) by simp
qed

subsection \<open>Memberships\<close>

lemma member_filters_trimmed:
  "u \<noteq> [] \<Longrightarrow> TrimSpace u = u \<Longrightarrow> TrimSpace gid = gid \<Longrightarrow> trimmed_filter (group_member_filter gid u)"
  "u \<noteq> [] \<Longrightarrow> TrimSpace u = u \<Longrightarrow> TrimSpace org = org \<Longrightarrow> trimmed_filter (zone_member_filter org u)"
  by (simp_all add: trimmed_filter_def group_member_filter_def zone_member_filter_def empty_filter_def)

lemma member_filters_select:
  "narrow (group_member_filter gid u) (\<lparr>ob_Type = ''group'', ob_ID = gid\<rparr>, ''member'', plain_user u)"
  "narrow (zone_member_filter org u) (\<lparr>ob_Type = ''zone'', ob_ID = org\<rparr>, ''member'', plain_user u)"
  "gid \<noteq> [] \<Longrightarrow> u \<noteq> [] \<Longrightarrow> wide (group_member_filter gid u) (ob, r, s) \<Longrightarrow>
     ob = \<lparr>ob_Type = ''group'', ob_ID = gid\<rparr> \<and> r = ''member'' \<and> su_Type s = ''user'' \<and> su_ID s = u"
  "u \<noteq> [] \<Longrightarrow> wide (zone_member_filter org u) (ob, r, s) \<Longrightarrow>
     ob_Type ob = ''zone'' \<and> (org = [] \<or> ob_ID ob = org) \<and> r = ''member'' \<and> su_Type s = ''user'' \<and> su_ID s = u"
  by (auto simp: narrow_def wide_def group_member_filter_def zone_member_filter_def plain_user_def field_matches_def)

text \<open>After a removal from a group the user has no direct membership of it, and the zone membership goes
  exactly when the provider lists no group of the user any more; nothing else is removed.
\<close>

theorem membership_removed:
  assumes d: "direct_store d S T" and a: "pa_projection a = Some d"
    and ids: "TrimSpace grp = gid" "TrimSpace user = u" "TrimSpace org = zone" "gid \<noteq> []" "u \<noteq> []"
    and removed: "ia_RemoveUserFromGroup (pa_next a) org grp user (iw_provider w) = (Inr (), p1)"
    and listed: "ia_ListGroups (pa_next a) \<lparr>gf_OrgID = zone, gf_UserID = u, gf_Limit = 1000,
        gf_ParentID = [], gf_Type = []\<rparr> p1 = (rest, p2)"
    and run: "ida_RemoveUserFromGroup a org grp user e w = (Inr (), w')"
  defines "A \<equiv> T (iw_graph w)" and "B \<equiv> T (iw_graph w')"
  shows "(\<lparr>ob_Type = ''group'', ob_ID = gid\<rparr>, ''member'', plain_user u) \<notin> B
    \<and> (if rest = Inr [] then (\<lparr>ob_Type = ''zone'', ob_ID = zone\<rparr>, ''member'', plain_user u) \<notin> B
       else \<forall>(ob, r, s) \<in> A. ob_Type ob \<noteq> ''group'' \<longrightarrow> (ob, r, s) \<in> B)
    \<and> (\<forall>(ob, r, s) \<in> A - B. r = ''member'' \<and> su_Type s = ''user'' \<and> su_ID s = u
         \<and> (ob = \<lparr>ob_Type = ''group'', ob_ID = gid\<rparr>
            \<or> rest = Inr [] \<and> ob_Type ob = ''zone'' \<and> (zone = [] \<or> ob_ID ob = zone)))
    \<and> B \<subseteq> A \<and> iw_provider w' = p2"
proof -
  have t: "TrimSpace gid = gid" "TrimSpace u = u" "TrimSpace zone = zone" using ids by auto
  let ?last = "rest = Inr []"
  let ?fs = "group_member_filter gid u # (if ?last then [zone_member_filter zone u] else [])"
  let ?w = "w\<lparr>iw_provider := p2\<rparr>"
  obtain rels where proj: "projectDelete a ''iam_api'' ''group_membership'' grp ?fs rels e ?w = (Inr (), w')"
    using run ids removed listed
    by (simp add: ida_RemoveUserFromGroup_def bindE_def bind_io_def on_provider_def qualifiedGroupID_def Let_def)
  have fs: "\<forall>f \<in> set ?fs. trimmed_filter f" using ids t by (simp add: member_filters_trimmed)
  have run': "idn_Dispatch (Some d) ''iam_api'' ''group_membership'' grp
      \<lparr>ip_Operation = OperationRm, ip_Relationships = rels, ip_Filters = ?fs\<rparr> e ?w = (Inr (), w')"
    using proj a unfolding projectDelete_def by simp
  have del: "deleted ?fs A B" using dispatch_delete[OF d fs run'] by (simp add: A_def B_def)
  note D = del[unfolded deleted_def]
  have prov: "iw_provider w' = p2" using dispatch_provider[OF run'] by simp
  have gone: "(\<lparr>ob_Type = ''group'', ob_ID = gid\<rparr>, ''member'', plain_user u) \<notin> B"
    using D member_filters_select(1)[of gid u] by auto
  have zgone: "(\<lparr>ob_Type = ''zone'', ob_ID = zone\<rparr>, ''member'', plain_user u) \<notin> B" if ?last
    using D member_filters_select(2)[of zone u] that by auto
  have lost: "r = ''member'' \<and> su_Type s = ''user'' \<and> su_ID s = u
      \<and> (ob = \<lparr>ob_Type = ''group'', ob_ID = gid\<rparr> \<or> ?last \<and> ob_Type ob = ''zone'' \<and> (zone = [] \<or> ob_ID ob = zone))"
    if mem: "(ob, r, s) \<in> A" "(ob, r, s) \<notin> B" for ob r s
  proof -
    obtain f where f: "f \<in> set ?fs" "wide f (ob, r, s)" by (rule bexE[OF deleted_lost[OF del mem]])
    then show ?thesis
      using member_filters_select(3)[OF ids(4,5), of ob r s] member_filters_select(4)[OF ids(5), of zone ob r s]
      by (auto split: if_splits)
  qed
  have "\<forall>(ob, r, s) \<in> A. ob_Type ob \<noteq> ''group'' \<longrightarrow> (ob, r, s) \<in> B" if "\<not> ?last" using lost that by fastforce
  moreover have "\<forall>(ob, r, s) \<in> A - B. r = ''member'' \<and> su_Type s = ''user'' \<and> su_ID s = u
         \<and> (ob = \<lparr>ob_Type = ''group'', ob_ID = gid\<rparr>
            \<or> ?last \<and> ob_Type ob = ''zone'' \<and> (zone = [] \<or> ob_ID ob = zone))" using lost by blast
  ultimately show ?thesis using gone zgone prov D by (cases ?last) simp_all
qed

subsection \<open>Groups on a store that refuses untyped filters\<close>

lemma dispatch_untyped:
  assumes d: "saga_manager d = None" "idp_writer d = Some S" and S: "refuses_untyped S"
    and fs: "\<forall>f \<in> set fs. trimmed_filter f" "f \<in> set fs" "f_ResourceType f = []"
    and run: "idn_Dispatch (Some d) s t i
        \<lparr>ip_Operation = OperationRm, ip_Relationships = rels, ip_Filters = fs\<rparr> e w = (r, w')"
  shows "r \<noteq> Inr ()"
proof
  let ?p = "\<lparr>ip_Operation = OperationRm, ip_Relationships = rels, ip_Filters = fs\<rparr>"
  assume "r = Inr ()"
  moreover have "\<not> isProjectionPayloadEmpty (normalizeProjectionPayload (ie_kern e) ?p)"
    using fs by (auto simp: normalize_delete isProjectionPayloadEmpty_def)
  ultimately obtain wr where "ApplyIdentityAuthZProjection (ie_kern e) (Some S)
      (normalizeProjectionPayload (ie_kern e) ?p) (iw_graph w) = ((wr, None), iw_graph w')"
    using Dispatch_direct(2)[OF d run] by auto
  then have "delete_from S no_result fs (iw_graph w) = ((wr, None), iw_graph w')"
    using fs by (simp add: ApplyIdentityAuthZProjection_def normalize_delete deleteRelationships_def)
  then show False using delete_from_untyped[OF S fs(2,3), of no_result "iw_graph w"] by simp
qed

lemma group_filters:
  assumes "TrimSpace grp = gid" "gid \<noteq> []"
  shows "\<forall>f \<in> set (groupDeleteFilters org grp). trimmed_filter f"
    and "empty_filter\<lparr>f_SubjectType := ''group'', f_SubjectID := gid\<rparr> \<in> set (groupDeleteFilters org grp)"
  using assms by (auto simp: groupDeleteFilters_def qualifiedGroupID_def trimmed_filter_def empty_filter_def Let_def)

lemma capture_provider:
  "idn_captureRelationships a fs e w = (x, w') \<Longrightarrow> iw_provider w' = iw_provider w"
  by (auto simp: idn_captureRelationships_def on_tuples_def split: option.splits prod.splits)

text \<open>On a store that refuses filters without a resource type every deletion of a group reports an error,
  although the identity provider has deleted the group by then.
\<close>

theorem group_delete_blocked:
  assumes d: "saga_manager d = None" "idp_writer d = Some S" and S: "refuses_untyped S"
    and a: "pa_projection a = Some d" and grp: "TrimSpace grp \<noteq> []"
    and gone: "ia_DeleteGroup (pa_next a) org grp recursive (iw_provider w) = (Inr (), p)"
  shows "\<exists>er w'. ida_DeleteGroup a org grp recursive e w = (Inl er, w') \<and> iw_provider w' = p"
proof -
  let ?fs = "groupDeleteFilters org grp" and ?w = "w\<lparr>iw_provider := p\<rparr>"
  obtain r w' where run: "purge a ''group'' grp ?fs e ?w = (r, w')"
    by (cases "purge a ''group'' grp ?fs e ?w")
  obtain x w1 where c: "idn_captureRelationships a ?fs e ?w = (x, w1)"
    and pr: "projectDelete a ''iam_api'' ''group'' grp ?fs (fst x) e w1 = (r, w')"
    by (rule purge_run[OF run])
  have pr': "idn_Dispatch (Some d) ''iam_api'' ''group'' grp
      \<lparr>ip_Operation = OperationRm, ip_Relationships = fst x, ip_Filters = ?fs\<rparr> e w1 = (r, w')"
    using pr a unfolding projectDelete_def by simp
  have "r \<noteq> Inr ()"
    by (rule dispatch_untyped[OF d S group_filters(1)[OF refl grp] group_filters(2)[OF refl grp] _ pr'])
      (simp add: empty_filter_def)
  then obtain er where "r = Inl er" by (cases r) auto
  moreover have "iw_provider w' = p" using dispatch_provider[OF pr'] capture_provider[OF c] by simp
  moreover have "ida_DeleteGroup a org grp recursive e w = (r, w')"
    using gone run by (simp add: ida_DeleteGroup_def bindE_def bind_io_def on_provider_def)
  ultimately show ?thesis by blast
qed

subsection \<open>Drift\<close>

lemma drift_loop_exact:
  assumes S: "tuple_store S T" and run: "drift_loop S m rs g = ((found, None), g')"
  shows "T g' = T g \<and> (\<exists>ms. found = m @ ms \<and> set ms \<subseteq> {r \<in> set rs. rel_key r \<notin> T g}
    \<and> (\<forall>r \<in> set rs. r \<in> set ms \<or> (\<exists>t \<in> T g. wide (filter_of r) t)))"
  using run
proof (induction rs arbitrary: m g)
  case (Cons r rs)
  obtain x g1 where rd: "st_read S (filter_of r) g = (x, g1)" by (cases "st_read S (filter_of r) g")
  obtain cur where x: "x = Inr cur" using Cons.prems rd by (cases x) auto
  let ?m = "if cur = [] then m @ [r] else m"
  have g1: "T g1 = T g" using read_keeps[OF S rd] .
  have sel: "{t \<in> T g. narrow (filter_of r) t} \<subseteq> rel_key ` set cur" "rel_key ` set cur \<subseteq> {t \<in> T g. wide (filter_of r) t}"
    using S rd x unfolding tuple_store_def store_reads_def by blast+
  have "drift_loop S ?m rs g1 = ((found, None), g')" using Cons.prems rd x by simp
  from Cons.IH[OF this] obtain ms where ms: "T g' = T g" "found = ?m @ ms"
    "set ms \<subseteq> {r \<in> set rs. rel_key r \<notin> T g}" "\<forall>r \<in> set rs. r \<in> set ms \<or> (\<exists>t \<in> T g. wide (filter_of r) t)"
    using g1 by auto
  show ?case
  proof (cases "cur = []")
    case True
    have "{t \<in> T g. narrow (filter_of r) t} = {}" using sel(1) unfolding True list.set image_empty by blast
    then have "rel_key r \<notin> T g" using narrow_filter_of[of r] by blast
    then show ?thesis using ms True by (intro conjI exI[of _ "r # ms"]) auto
  next
    case False
    then obtain c where "c \<in> set cur" by (cases cur) auto
    then have "\<exists>t \<in> T g. wide (filter_of r) t" using sel(2) by blast
    then show ?thesis using ms False by (intro conjI exI[of _ ms]) auto
  qed
qed simp

subsection \<open>Reconciliation\<close>

lemma firstNonEmpty_trimmed [simp]: "TrimSpace (firstNonEmpty vs) = firstNonEmpty vs"
  by (induction vs) simp_all

lemma global_trimmed [simp]: "TrimSpace defaultPlatformID = defaultPlatformID"
  by (simp add: TrimSpace_visible visible_def)

lemma edge_fields [simp]:
  "rel_Resource (edge ob r s) = ob" "rel_Relation (edge ob r s) = r" "rel_Subject (edge ob r s) = s"
  by (simp_all add: edge_def)

lemma directory_trimmed:
  assumes "TrimSpace org = org" "r \<in> set (directory_relationships org gs us)"
  shows "trimmed_rel r"
proof -
  have "trimmed_rel x" if "x \<in> set (user_relationships org u)" for x u
    using that assms(1)
    by (auto simp: user_relationships_def groupMemberRelationship_def trimmed_rel_def split: if_splits)
  moreover have "trimmed_rel x" if "x \<in> set (group_relationships org g)" for x g
    using that by (auto simp: group_relationships_def groupTopologyRelationships_def groupMemberRelationship_def
        qualifiedGroupID_def trimmed_rel_def Let_def split: if_splits)
  ultimately show ?thesis
    using assms(2) by (auto simp: directory_relationships_def platformZoneRelationship_def trimmed_rel_def)
qed

lemma dedupe_mem: "r \<in> set (dedupeRelationships K rs) \<Longrightarrow> well_formed_rel K r \<and> r \<in> set rs"
  unfolding dedupeRelationships_def by (blast dest: dedupe_rels_mem)

lemma normal_desired:
  assumes "TrimSpace org = org"
  shows "dedupeRelationships K (map trim_rel (filter (well_formed_rel K)
      (dedupeRelationships K (directory_relationships org gs us))))
    = dedupeRelationships K (directory_relationships org gs us)"
proof (rule normal_rels_fix)
  show "\<forall>r \<in> set (dedupeRelationships K (directory_relationships org gs us)). trimmed_rel r"
    using dedupe_mem directory_trimmed[OF assms] by blast
qed simp

text \<open>What the directory wants, when its two listings succeed and leave the provider as it is.\<close>

definition directory_lists ::
    "'p IdentityAdmin \<Rightarrow> string \<Rightarrow> 'p \<Rightarrow> DirGroup list \<Rightarrow> DirUser list \<Rightarrow> bool" where
  "directory_lists a org p gs us \<longleftrightarrow>
     ia_ListGroups a \<lparr>gf_OrgID = org, gf_UserID = [], gf_Limit = 10000,
        gf_ParentID = [], gf_Type = []\<rparr> p = (Inr gs, p)
     \<and> ia_FindUsers a \<lparr>uf_OrgID = org, uf_Limit = 10000,
        uf_GroupID = [], uf_Role = [], uf_Username = []\<rparr> p = (Inr us, p)"

lemma dop_desired_run:
  assumes "directory_lists a org (iw_provider w) gs us" "TrimSpace org = org" "org \<noteq> []"
  shows "dop_desired (Some a) org e w
    = (Inr (dedupeRelationships (ie_kern e) (directory_relationships org gs us)), w)"
  using assms by (simp add: dop_desired_def bind_io_def on_provider_def directory_lists_def
      BuildDirectoryProjectionRelationships_def)

text \<open>C23. Reconciliation repairs the projection: when it succeeds, the store has gained exactly the tuples the
  directory asks for, and a drift check that answers afterwards reports none of them missing.
\<close>

theorem reconcile_leaves_no_drift:
  assumes d: "direct_store d S T"
    and ops: "dop_Identity ops = Some a" "dop_Projection ops = Some d" "dop_Authz ops = Some S"
    and org: "TrimSpace org = zone" "zone \<noteq> []" and listed: "directory_lists a zone (iw_provider w) gs us"
    and rec: "Reconcile (Some ops) org src e w = (Inr rc, w1)"
    and drift: "Drift (Some ops) org e w1 = (Inr cd, w2)"
  shows "T (iw_graph w1) = T (iw_graph w)
      \<union> keys (dedupeRelationships (ie_kern e) (directory_relationships zone gs us))
    \<and> T (iw_graph w2) = T (iw_graph w1)
    \<and> cd_Missing cd = 0 \<and> cd_MissingObjects cd = [] \<and> cd_Desired cd = rc_Relationships rc"
proof -
  let ?K = "ie_kern e"
  let ?D = "dedupeRelationships ?K (directory_relationships zone gs us)"
  have z: "TrimSpace zone = zone" using org by auto
  have S: "tuple_store S T" using d by (simp add: direct_store_def)
  obtain src' where disp: "idn_Dispatch (Some d) src' ''zone'' zone
      \<lparr>ip_Operation = OperationUp, ip_Relationships = ?D, ip_Filters = []\<rparr> e w = (Inr (), w1)"
    and rc: "rc_Relationships rc = int (length ?D)"
    using rec ops org dop_desired_run[OF listed z org(2), of e]
    by (auto simp: Reconcile_def Let_def bindE_Inr_iff)
  have w1: "T (iw_graph w1) = T (iw_graph w) \<union> keys ?D" "iw_provider w1 = iw_provider w"
    using dispatch_write[OF d disp] normal_desired[OF z] by simp_all
  have "dop_desired (Some a) zone e w1 = (Inr ?D, w1)"
    using listed w1(2) by (intro dop_desired_run[OF _ z org(2)]) simp
  then obtain found g2 where loop: "drift_loop S [] ?D (iw_graph w1) = ((found, None), g2)"
    and cd: "w2 = w1\<lparr>iw_graph := g2\<rparr>" "cd_Missing cd = int (length found)" "cd_MissingObjects cd = found"
      "cd_Desired cd = int (length ?D)"
    using drift ops org
    by (auto simp: Drift_def Let_def bind_io_def on_tuples_def DetectDirectoryProjectionDrift_def
        split: prod.splits option.splits)
  from drift_loop_exact[OF S loop] have "T g2 = T (iw_graph w1)" "set found \<subseteq> {r \<in> set ?D. rel_key r \<notin> T (iw_graph w1)}"
    by auto
  moreover from this(2) have "found = []" using w1(1) by (cases found) auto
  ultimately show ?thesis using w1(1) cd rc by simp
qed

subsection \<open>Creating groups\<close>

lemma hex_encode_length: "length (hex_encode bs) = 2 * length bs"
  by (induction bs) (simp_all add: hex_encode_def)

lemma hex_encode_nth:
  "i < length bs \<Longrightarrow> hex_encode bs ! (2 * i) = hex_digit (bs ! i div 16 mod 16)"
proof (induction bs arbitrary: i)
  case (Cons b bs)
  then show ?case by (cases i) (simp_all add: hex_encode_def)
qed simp

lemma hex_encode_digits: "c \<in> set (hex_encode bs) \<Longrightarrow> \<exists>k < 16. c = hex_digit k"
  by (auto simp: hex_encode_def intro: exI[of _ "_ mod 16"])

definition hex_chars :: string where "hex_chars = ''0123456789abcdef''"

lemma hex_chars_length: "length hex_chars = 16"
  by (simp add: hex_chars_def)

lemma hex_digit_chars: "k < 16 \<Longrightarrow> hex_digit k = hex_chars ! k"
proof -
  have "\<forall>k \<in> set [0..<16]. hex_digit k = hex_chars ! k" by code_simp
  then show "k < 16 \<Longrightarrow> ?thesis" by simp
qed

text \<open>The identifier from random bytes.\<close>

lemma random_group_id:
  assumes "length b = 16" "\<forall>x \<in> set b. x < 256"
  shows "\<exists>h. newGroupID (Some b) t = ''grp_'' @ h \<and> length h = 32 \<and> set h \<subseteq> set hex_chars
    \<and> h ! 12 = CHR ''4'' \<and> h ! 16 \<in> set ''89ab''"
proof -
  let ?b = "(b[6 := b ! 6 mod 16 + 64])[8 := b ! 8 mod 64 + 128]"
  let ?h = "hex_encode ?b"
  have len: "length ?b = 16" using assms by simp
  have "?h ! 12 = hex_digit (?b ! 6 div 16 mod 16)" "?h ! 16 = hex_digit (?b ! 8 div 16 mod 16)"
    using hex_encode_nth[of 6 ?b] hex_encode_nth[of 8 ?b] len by simp_all
  moreover have "?b ! 6 div 16 mod 16 = 4" using assms by simp
  moreover have "?b ! 8 div 16 mod 16 \<in> set [8, 9, 10, 11]"
  proof -
    have "(b ! 8 mod 64 + 128) div 16 = b ! 8 mod 64 div 16 + 8" by simp
    moreover have "b ! 8 mod 64 div 16 < 4" by (simp add: less_mult_imp_div_less)
    ultimately show ?thesis using assms by (simp, linarith)
  qed
  ultimately have "?h ! 12 = CHR ''4''" "?h ! 16 \<in> set ''89ab''"
    by (auto simp: hex_digit_chars hex_chars_def)
  moreover have "set ?h \<subseteq> set hex_chars"
  proof
    fix c assume "c \<in> set ?h"
    then obtain k where "k < 16" "c = hex_digit k" using hex_encode_digits by blast
    then show "c \<in> set hex_chars" using hex_chars_length by (simp add: hex_digit_chars nth_mem)
  qed
  ultimately show ?thesis using len by (auto simp: newGroupID_def hex_encode_length)
qed

text \<open>The identifier from the clock, when the random source fails.\<close>

definition hex_value :: "string \<Rightarrow> nat" where
  "hex_value h = foldl (\<lambda>n c. n * 16 + (if of_char c < (58 :: nat) then of_char c - 48 else of_char c - 87)) 0 h"

lemma hex_value_snoc: "k < 16 \<Longrightarrow> hex_value (h @ [hex_digit k]) = hex_value h * 16 + k"
  by (auto simp: hex_value_def hex_digit_val)

lemma hex_of_spec: "hex_value (hex_of n) = n \<and> set (hex_of n) \<subseteq> set hex_chars \<and> hex_of n \<noteq> []"
proof (induction n rule: hex_of.induct)
  case (1 n)
  have d: "hex_digit k \<in> set hex_chars" if "k < 16" for k
    using that hex_chars_length by (simp add: hex_digit_chars nth_mem)
  show ?case
  proof (cases "n < 16")
    case True
    then show ?thesis using hex_value_snoc[of n "[]"] d[of n] by (simp add: hex_of.simps[of n] hex_value_def)
  next
    case False
    then show ?thesis using 1 hex_value_snoc[of "n mod 16" "hex_of (n div 16)"] d[of "n mod 16"]
      by (simp add: hex_of.simps[of n])
  qed
qed

lemma hex_of_length: "n < 16 ^ Suc k \<Longrightarrow> length (hex_of n) \<le> Suc k"
proof (induction k arbitrary: n)
  case 0
  then show ?case by (simp add: hex_of.simps[of n])
next
  case (Suc k)
  have "n div 16 < 16 ^ Suc k" using Suc.prems by (simp add: div_less_iff_less_mult mult.commute)
  then show ?case using Suc.IH[of "n div 16"] by (cases "n < 16") (simp_all add: hex_of.simps[of n])
qed

lemma hex_value_Cons_zero: "hex_value (CHR ''0'' # h) = hex_value h"
proof -
  have "of_char CHR ''0'' = (48 :: nat)" by simp
  then show ?thesis by (simp add: hex_value_def)
qed

lemma hex_value_zeros: "hex_value (replicate k CHR ''0'' @ h) = hex_value h"
  by (induction k) (simp_all add: hex_value_Cons_zero)

lemma clock_group_id:
  assumes "0 \<le> i" "i < 2 ^ 63"
  shows "length (hex16 i) = 16 \<and> set (hex16 i) \<subseteq> set hex_chars \<and> hex_value (hex16 i) = nat i"
proof -
  have "nat i < 16 ^ Suc 15" using assms by simp
  from hex_of_length[OF this] have len: "length (hex_of (nat i)) \<le> 16" by simp
  have "CHR ''0'' \<in> set hex_chars" by (simp add: hex_chars_def)
  moreover have "hex16 i = replicate (16 - length (hex_of (nat i))) CHR ''0'' @ hex_of (nat i)"
    using assms by (simp add: hex16_def pad_left_def)
  ultimately show ?thesis using hex_of_spec[of "nat i"] len by (auto simp: hex_value_zeros)
qed

text \<open>C40. A generated group identifier is the prefix \<open>grp_\<close> and lower-case hexadecimal digits.  With random bytes these are
  32, the version digit 4 and a variant digit from 8 to b among them; when the random source fails, and \<open>UnixNano\<close>
  is not negative, as from 1970 to 2262, they are 16 and spell its value, so that such identifiers have neither version nor
  variant and differ only as their clock readings do.\<close>

theorem stable_group_id:
  assumes "\<forall>b. rnd = Some b \<longrightarrow> length b = 16 \<and> (\<forall>x \<in> set b. x < 256)"
  shows "\<exists>h. newGroupID rnd t = ''grp_'' @ h \<and> (case rnd of
      Some b \<Rightarrow> length h = 32 \<and> set h \<subseteq> set hex_chars \<and> h ! 12 = CHR ''4'' \<and> h ! 16 \<in> set ''89ab''
    | None \<Rightarrow> 0 \<le> UnixNano t \<longrightarrow> length h = 16 \<and> set h \<subseteq> set hex_chars \<and> hex_value h = nat (UnixNano t))"
proof (cases rnd)
  case None
  have "UnixNano t < 2 ^ 63" using wrap64_range[of "t - 62135596800000000000"]
    by (simp add: UnixNano_def in_int64_def max_int64_def)
  then show ?thesis using None clock_group_id[of "UnixNano t"] by (simp add: newGroupID_def)
next
  case (Some b)
  then show ?thesis using random_group_id[of b t] assms by simp
qed

text \<open>Distinct tuples with separable fields have distinct texts.\<close>

definition separable :: "Relationship \<Rightarrow> bool" where
  "separable r \<longleftrightarrow> CHR '':'' \<notin> set (ob_Type (rel_Resource r)) \<and> CHR ''#'' \<notin> set (ob_ID (rel_Resource r))
     \<and> CHR ''@'' \<notin> set (rel_Relation r) \<and> CHR '':'' \<notin> set (su_Type (rel_Subject r))
     \<and> CHR ''#'' \<notin> set (su_ID (rel_Subject r))"

lemma split_at: "a @ c # x = b @ c # y \<Longrightarrow> c \<notin> set a \<Longrightarrow> c \<notin> set b \<Longrightarrow> a = b \<and> x = y"
proof (induction a arbitrary: b)
  case Nil
  then show ?case by (cases b) auto
next
  case (Cons z a)
  then show ?case by (cases b) auto
qed

lemma rel_text_inj:
  assumes "separable r" "separable r'" "rel_text r = rel_text r'"
  shows "rel_key r = rel_key r'"
proof -
  note S = assms(1,2)[unfolded separable_def]
  have e: "ob_Type (rel_Resource r) @ CHR '':'' # (ob_ID (rel_Resource r) @ CHR ''#'' # (rel_Relation r
      @ CHR ''@'' # (su_Type (rel_Subject r) @ CHR '':'' # (su_ID (rel_Subject r) @ CHR ''#'' # su_Relation (rel_Subject r)))))
    = ob_Type (rel_Resource r') @ CHR '':'' # (ob_ID (rel_Resource r') @ CHR ''#'' # (rel_Relation r'
      @ CHR ''@'' # (su_Type (rel_Subject r') @ CHR '':'' # (su_ID (rel_Subject r') @ CHR ''#'' # su_Relation (rel_Subject r')))))"
    using assms(3) by (simp add: rel_text_def)
  from split_at[OF e] S have 1: "ob_Type (rel_Resource r) = ob_Type (rel_Resource r')" and e1:
    "ob_ID (rel_Resource r) @ CHR ''#'' # (rel_Relation r
      @ CHR ''@'' # (su_Type (rel_Subject r) @ CHR '':'' # (su_ID (rel_Subject r) @ CHR ''#'' # su_Relation (rel_Subject r))))
    = ob_ID (rel_Resource r') @ CHR ''#'' # (rel_Relation r'
      @ CHR ''@'' # (su_Type (rel_Subject r') @ CHR '':'' # (su_ID (rel_Subject r') @ CHR ''#'' # su_Relation (rel_Subject r'))))"
    by auto
  from split_at[OF e1] S have 2: "ob_ID (rel_Resource r) = ob_ID (rel_Resource r')" and e2:
    "rel_Relation r @ CHR ''@'' # (su_Type (rel_Subject r) @ CHR '':''
      # (su_ID (rel_Subject r) @ CHR ''#'' # su_Relation (rel_Subject r)))
    = rel_Relation r' @ CHR ''@'' # (su_Type (rel_Subject r') @ CHR '':''
      # (su_ID (rel_Subject r') @ CHR ''#'' # su_Relation (rel_Subject r')))"
    by auto
  from split_at[OF e2] S have 3: "rel_Relation r = rel_Relation r'" and e3:
    "su_Type (rel_Subject r) @ CHR '':'' # (su_ID (rel_Subject r) @ CHR ''#'' # su_Relation (rel_Subject r))
    = su_Type (rel_Subject r') @ CHR '':'' # (su_ID (rel_Subject r') @ CHR ''#'' # su_Relation (rel_Subject r'))"
    by auto
  from split_at[OF e3] S have 4: "su_Type (rel_Subject r) = su_Type (rel_Subject r')" and e4:
    "su_ID (rel_Subject r) @ CHR ''#'' # su_Relation (rel_Subject r)
    = su_ID (rel_Subject r') @ CHR ''#'' # su_Relation (rel_Subject r')"
    by auto
  from split_at[OF e4] S have 5: "su_ID (rel_Subject r) = su_ID (rel_Subject r')"
    "su_Relation (rel_Subject r) = su_Relation (rel_Subject r')"
    by auto
  show ?thesis unfolding rel_key_def using 1 2 3 4 5 by (simp add: ObjectRef.equality SubjectRef.equality)
qed

lemma dedupe_separable:
  assumes "\<forall>r \<in> set rs. well_formed_rel K r \<and> separable r" "distinct (map rel_key rs)"
  shows "dedupeRelationships K rs = rs"
proof -
  have "inj_on rel_text (set rs)"
  proof (rule inj_onI)
    fix r r' assume "r \<in> set rs" "r' \<in> set rs" "rel_text r = rel_text r'"
    then have "rel_key r = rel_key r'" using assms(1) rel_text_inj by blast
    then show "r = r'" using assms(2) \<open>r \<in> set rs\<close> \<open>r' \<in> set rs\<close> by (auto simp: distinct_map dest: inj_onD)
  qed
  then show ?thesis unfolding dedupeRelationships_def
    using assms by (intro dedupe_rels_fix) (auto simp: distinct_map)
qed

definition plain_id :: "string \<Rightarrow> bool" where
  "plain_id s \<longleftrightarrow> s \<noteq> [] \<and> TrimSpace s = s \<and> CHR ''#'' \<notin> set s"

text \<open>\<open>IsZero\<close> of the kernel: a reference with both fields set is not zero.\<close>

definition zero_is_blank :: "kernel \<Rightarrow> bool" where
  "zero_is_blank K \<longleftrightarrow> (\<forall>ob. obj_is_zero K ob \<longrightarrow> ob_Type ob = [] \<or> ob_ID ob = [])
     \<and> (\<forall>s. subj_is_zero K s \<longrightarrow> su_Type s = [] \<or> su_ID s = [])"

lemma newGroupID_plain:
  assumes "length b = 16"
  shows "plain_id (newGroupID (Some b) t)"
proof -
  let ?b = "(b[6 := b ! 6 mod 16 + 64])[8 := b ! 8 mod 64 + 128]"
  have hex: "\<exists>k < 16. c = hex_chars ! k" if "c \<in> set (hex_encode ?b)" for c
    using hex_encode_digits[OF that] hex_digit_chars by metis
  have "\<forall>k \<in> set [0..<16]. visible (hex_chars ! k) \<and> hex_chars ! k \<noteq> CHR ''#''"
    by (simp add: hex_chars_def visible_def upt_rec)
  then have vis: "visible c \<and> c \<noteq> CHR ''#''" if "c \<in> set (hex_encode ?b)" for c using hex[OF that] by auto
  have "hex_encode ?b \<noteq> []" using hex_encode_length[of ?b] assms by auto
  then have "visible (last (''grp_'' @ hex_encode ?b))" using vis last_in_set by (metis last_appendR)
  moreover have "visible (hd (''grp_'' @ hex_encode ?b))" by (simp add: visible_def)
  ultimately have "TrimSpace (''grp_'' @ hex_encode ?b) = ''grp_'' @ hex_encode ?b"
    by (intro TrimSpace_visible) simp_all
  then show ?thesis using vis by (auto simp: plain_id_def newGroupID_def)
qed

text \<open>A provider that returns a created group with the identifiers it was given.\<close>

definition echoes_groups :: "'p IdentityAdmin \<Rightarrow> bool" where
  "echoes_groups a \<longleftrightarrow> (\<forall>g ikey p g' p'. ia_CreateGroup a g ikey p = (Inr g', p') \<longrightarrow>
     plain_id (gp_ID g) \<longrightarrow> plain_id (gp_OrgID g) \<longrightarrow> gp_ParentID g = [] \<or> plain_id (gp_ParentID g) \<longrightarrow>
     gp_ID g' = gp_ID g \<and> gp_OrgID g' = gp_OrgID g \<and> gp_ParentID g' = gp_ParentID g)"

definition owner_subject :: "Principal \<Rightarrow> SubjectRef" where
  "owner_subject pn = \<lparr>su_Type = (if pn_SubjectType pn \<in> {''service'', ''service_account''}
     then pn_SubjectType pn else ''user''), su_ID = pn_SubjectID pn, su_Relation = []\<rparr>"

definition group_ref :: "string \<Rightarrow> ObjectRef" where
  "group_ref g = \<lparr>ob_Type = ''group'', ob_ID = g\<rparr>"

text \<open>The tuples of a new group.\<close>

definition group_tuples :: "string \<Rightarrow> string \<Rightarrow> string \<Rightarrow> Principal \<Rightarrow> tuple list" where
  "group_tuples ident org parent pn =
     (group_ref ident, ''zone'', \<lparr>su_Type = ''zone'', su_ID = org, su_Relation = []\<rparr>)
     # (if parent \<in> {[], ident, org} then []
        else [(group_ref ident, ''parent'', \<lparr>su_Type = ''group'', su_ID = parent, su_Relation = []\<rparr>),
              (group_ref parent, ''member'', \<lparr>su_Type = ''group'', su_ID = ident, su_Relation = ''member''\<rparr>)])
     @ [(group_ref ident, ''owner'', owner_subject pn)]"

lemma firstNonEmpty_plain:
  "plain_id s \<Longrightarrow> firstNonEmpty (s # vs) = s" "firstNonEmpty ([] # vs) = firstNonEmpty vs" "firstNonEmpty [] = []"
  by (simp_all add: plain_id_def)

lemma new_group_rels:
  assumes ids: "plain_id ident" "plain_id org" "parent = [] \<or> plain_id parent" "plain_id (pn_SubjectID pn)"
    and g: "gp_ID g = ident" "gp_OrgID g = org" "gp_ParentID g = parent"
    and req: "gp_ID req = ident" "gp_OrgID req = org" "gp_ParentID req = parent"
  shows "map rel_key (groupTopologyRelationships g req @ group_owner_edges (Some pn) g req)
    = group_tuples ident org parent pn"
proof -
  have first: "firstNonEmpty [ident, ident] = ident" "firstNonEmpty [org, org] = org"
    "firstNonEmpty [parent, parent] = parent" "TrimSpace ident = ident" "TrimSpace parent = parent"
    "ident \<noteq> []" "org \<noteq> []" "pn_SubjectID pn \<noteq> []"
    using ids by (auto simp: plain_id_def)
  show ?thesis
    by (simp add: groupTopologyRelationships_def group_owner_edges_def groupOwnerFromPrincipal_def qualifiedGroupID_def
        group_tuples_def group_ref_def owner_subject_def edge_def rel_key_def g req first Let_def
        del: firstNonEmpty.simps)
qed

lemma group_tuple_fields:
  assumes ids: "plain_id ident" "plain_id org" "parent = [] \<or> plain_id parent" "plain_id (pn_SubjectID pn)"
    and t: "(ob, r, s) \<in> set (group_tuples ident org parent pn)"
  shows "ob_Type ob \<noteq> []" "plain_id (ob_ID ob)" "su_Type s \<noteq> []" "plain_id (su_ID s)" "CHR '':'' \<notin> set (ob_Type ob)"
    "CHR '':'' \<notin> set (su_Type s)" "CHR ''@'' \<notin> set r" "TrimSpace r \<noteq> []"
proof -
  have trim: "TrimSpace ''zone'' \<noteq> []" "TrimSpace ''parent'' \<noteq> []" "TrimSpace ''member'' \<noteq> []" "TrimSpace ''owner'' \<noteq> []"
    by (simp_all add: TrimSpace_visible visible_def)
  show "ob_Type ob \<noteq> []" "plain_id (ob_ID ob)" "su_Type s \<noteq> []" "plain_id (su_ID s)" "CHR '':'' \<notin> set (ob_Type ob)"
    "CHR '':'' \<notin> set (su_Type s)" "CHR ''@'' \<notin> set r" "TrimSpace r \<noteq> []"
    using t ids trim by (auto simp: group_tuples_def group_ref_def owner_subject_def split: if_splits)
qed

lemma group_tuples_normal:
  assumes K: "zero_is_blank K"
    and ids: "plain_id ident" "plain_id org" "parent = [] \<or> plain_id parent" "plain_id (pn_SubjectID pn)"
    and rels: "map rel_key rels = group_tuples ident org parent pn"
  shows "dedupeRelationships K (map trim_rel (filter (well_formed_rel K) rels)) = rels"
proof -
  have F: "well_formed_rel K r \<and> separable r \<and> trimmed_rel r" if "r \<in> set rels" for r
  proof -
    have "rel_key r \<in> set (group_tuples ident org parent pn)"
      using that rels by (metis image_eqI list.set_map)
    note f = group_tuple_fields[OF ids this[unfolded rel_key_def]]
    have "\<not> obj_is_zero K (rel_Resource r)" "\<not> subj_is_zero K (rel_Subject r)"
      using K f(1-4) by (auto simp: zero_is_blank_def plain_id_def)
    then show ?thesis using f by (auto simp: well_formed_rel_def separable_def trimmed_rel_def plain_id_def)
  qed
  have "distinct (map rel_key rels)" unfolding rels by (auto simp: group_tuples_def group_ref_def)
  then have "dedupeRelationships K rels = rels" using F by (intro dedupe_separable) auto
  moreover have "filter (well_formed_rel K) rels = rels" using F by (simp add: filter_id_conv)
  moreover have "map trim_rel rels = rels" using F by (simp add: map_trim_id)
  ultimately show ?thesis by simp
qed

lemma created_group_tuples:
  assumes d: "direct_store d S T" and a: "pa_projection a = Some d" "echoes_groups (pa_next a)"
    and K: "zero_is_blank (ie_kern e)"
    and b: "ie_rand e (iw_ticks w) 16 = Some b" "length b = 16"
    and ids: "plain_id (gp_OrgID req)" "gp_ParentID req = [] \<or> plain_id (gp_ParentID req)"
    and owner: "ie_principal e = Some pn" "plain_id (pn_SubjectID pn)"
    and run: "ida_CreateGroup a req ikey e w = (Inr grp, w')"
  shows "gp_ID grp = newGroupID (Some b) (ie_clock e (iw_ticks w)) \<and> gp_ExternalID grp = gp_ExternalID req
    \<and> T (iw_graph w') = T (iw_graph w)
        \<union> set (group_tuples (gp_ID grp) (gp_OrgID req) (gp_ParentID req) pn)"
proof -
  let ?id = "newGroupID (Some b) (ie_clock e (iw_ticks w))"
  let ?req = "req\<lparr>gp_ID := ?id, gp_Name := ?id\<rparr>" and ?w = "w\<lparr>iw_ticks := Suc (iw_ticks w)\<rparr>"
  obtain g1 p where created: "ia_CreateGroup (pa_next a) ?req ikey (iw_provider w) = (Inr g1, p)"
    and proj: "projectWrite a ''iam_api'' ''group'' (firstNonEmpty [gp_ID g1, ?id])
        (groupTopologyRelationships (g1\<lparr>gp_ExternalID := gp_ExternalID req\<rparr>) ?req
         @ group_owner_edges (Some pn) (g1\<lparr>gp_ExternalID := gp_ExternalID req\<rparr>) ?req) e (?w\<lparr>iw_provider := p\<rparr>) = (Inr (), w')"
    and grp: "grp = g1\<lparr>gp_ExternalID := gp_ExternalID req\<rparr>"
    using run b(1) owner(1)
    by (auto simp: ida_CreateGroup_def i_id_def bind_io_def bindE_def on_provider_def Let_def
        simp del: firstNonEmpty.simps split: prod.splits sum.splits)
  have echo: "gp_ID g1 = ?id" "gp_OrgID g1 = gp_OrgID req" "gp_ParentID g1 = gp_ParentID req"
    using a(2)[unfolded echoes_groups_def, rule_format, OF created] newGroupID_plain[OF b(2)] ids by simp_all
  let ?rels = "groupTopologyRelationships grp ?req @ group_owner_edges (Some pn) grp ?req"
  note ids' = newGroupID_plain[OF b(2)] ids owner(2)
  have rels: "map rel_key ?rels = group_tuples ?id (gp_OrgID req) (gp_ParentID req) pn"
    by (rule new_group_rels[OF ids']) (simp_all add: grp echo)
  have "idn_Dispatch (Some d) ''iam_api'' ''group'' (firstNonEmpty [gp_ID g1, ?id])
      \<lparr>ip_Operation = OperationUp, ip_Relationships = ?rels, ip_Filters = []\<rparr> e (?w\<lparr>iw_provider := p\<rparr>) = (Inr (), w')"
    using proj a(1) unfolding projectWrite_def grp by simp
  from dispatch_write(2)[OF d this] have "T (iw_graph w') = T (iw_graph w) \<union> keys ?rels"
    using group_tuples_normal[OF K ids' rels] by simp
  moreover have "keys ?rels = set (group_tuples ?id (gp_OrgID req) (gp_ParentID req) pn)"
    using rels by (metis list.set_map)
  ultimately show ?thesis using grp echo by simp
qed

text \<open>A group that is created without an error carries the generated identifier, and the store gains exactly its
  zone edge, its parent edges (unless there is no parent, or it is the group or the zone itself) and the edge of
  its owner, the authenticated principal.
\<close>

theorem group_created:
  assumes d: "direct_store d S T" and a: "pa_projection a = Some d" "echoes_groups (pa_next a)"
    and K: "zero_is_blank (ie_kern e)"
    and b: "ie_rand e (iw_ticks w) 16 = Some b" "length b = 16"
    and ids: "plain_id (gp_OrgID req)" "gp_ParentID req = [] \<or> plain_id (gp_ParentID req)"
    and owner: "ie_principal e = Some pn" "plain_id (pn_SubjectID pn)"
    and run: "ida_CreateGroup a req ikey e w = (Inr grp, w')"
  shows "gp_ID grp = newGroupID (Some b) (ie_clock e (iw_ticks w)) \<and> gp_ExternalID grp = gp_ExternalID req
    \<and> T (iw_graph w') = T (iw_graph w)
        \<union> set (group_tuples (gp_ID grp) (gp_OrgID req) (gp_ParentID req) pn)"
  by (rule created_group_tuples[OF assms])

end
