(* ===== verification/StartUpLaws.thy ===== *)
theory StartUpLaws
  imports StartUp ManifestLaws IdentityLaws
begin

text \<open>
  Laws of the start-up: the relationships it adds are those of the configured administrators and of the
  configured zones, a configuration that is refused writes no administrator, and a second start-up adds
  nothing.
\<close>

subsection \<open>Who may gain what\<close>

definition admin_zone :: "ControlPlaneAdminSubject \<Rightarrow> string" where
  "admin_zone s = dataFirstNonEmpty [cas_ZoneID s, cas_CasdoorOrg s]"

text \<open>
  The subject that an entry of the configuration names: by its identifier, or a user whom the directory
  answers with for the user name, up to case.
\<close>

definition named_user :: "'p IdentityAdmin option \<Rightarrow> ControlPlaneAdminSubject \<Rightarrow> string \<Rightarrow> bool" where
  "named_user directory s ident \<longleftrightarrow> (\<exists>a flt p us p' u. directory = Some a \<and> ia_FindUsers a flt p = (Inr us, p')
     \<and> uf_Username flt = TrimSpace (cas_Username s) \<and> u \<in> set us
     \<and> EqualFold (us_Username u) (TrimSpace (cas_Username s)) \<and> ident = us_ID u \<and> ident \<noteq> [])"

definition named_subject ::
    "kernel \<Rightarrow> 'p IdentityAdmin option \<Rightarrow> ControlPlaneAdminSubject \<Rightarrow> SubjectRef \<Rightarrow> bool" where
  "named_subject K directory s sub \<longleftrightarrow>
     su_Type sub = (if TrimSpace (cas_Type s) = [] then SubjectTypeUser K else TrimSpace (cas_Type s))
     \<and> su_Relation sub = TrimSpace (cas_Relation s)
     \<and> (let ident = dataFirstNonEmpty [cas_ID s, cas_ExternalSubject s]
        in if ident \<noteq> [] then su_ID sub = ident else named_user directory s (su_ID sub))"

inductive admin_tuple ::
    "kernel \<Rightarrow> BootstrapPolicy \<Rightarrow> 'p IdentityAdmin option \<Rightarrow> ControlPlaneAdminSubject list \<Rightarrow> tuple \<Rightarrow> bool"
  for K policy directory ss where
  platform_resource: "r \<in> set (bp_PlatformResources policy) \<Longrightarrow>
    admin_tuple K policy directory ss
      (rel_key (platform_link \<lparr>ob_Type = TrimSpace (ar_Type r), ob_ID = TrimSpace (ar_ID r)\<rparr> (TrimSpace (bp_PlatformID policy))))"
| zone_link: "s \<in> set ss \<Longrightarrow> admin_zone s \<noteq> [] \<Longrightarrow>
    admin_tuple K policy directory ss
      (rel_key (platform_link \<lparr>ob_Type = ''zone'', ob_ID = admin_zone s\<rparr> (TrimSpace (bp_PlatformID policy))))"
| platform_role: "s \<in> set ss \<Longrightarrow> (n, r) \<in> set (bp_Roles policy) \<Longrightarrow> stands_for (wanted_role policy (cas_Role s)) n r
    \<Longrightarrow> TrimSpace (br_Scope r) = ''platform'' \<Longrightarrow> named_subject K directory s sub \<Longrightarrow>
    admin_tuple K policy directory ss
      (\<lparr>ob_Type = ''platform'', ob_ID = TrimSpace (bp_PlatformID policy)\<rparr>, TrimSpace (br_Relation r), sub)"
| zone_role: "s \<in> set ss \<Longrightarrow> (n, r) \<in> set (bp_Roles policy) \<Longrightarrow> stands_for (wanted_role policy (cas_Role s)) n r
    \<Longrightarrow> TrimSpace (br_Scope r) = ''zone'' \<Longrightarrow> admin_zone s \<noteq> [] \<Longrightarrow> named_subject K directory s sub \<Longrightarrow>
    admin_tuple K policy directory ss
      (\<lparr>ob_Type = ''zone'', ob_ID = admin_zone s\<rparr>, TrimSpace (br_Relation r), sub)"

lemma resolved_subject:
  assumes "resolveBootstrapZoneSubject K s directory p = (Inr (Some sub), p')"
  shows "named_subject K directory s sub"
proof -
  let ?ident = "dataFirstNonEmpty [cas_ID s, cas_ExternalSubject s]" and ?name = "TrimSpace (cas_Username s)"
  show ?thesis
  proof (cases "?ident = []")
    case False
    then show ?thesis using assms
      by (auto simp: resolveBootstrapZoneSubject_def named_subject_def Let_def simp del: dataFirstNonEmpty.simps)
  next
    case True
    obtain a flt us u where dir: "directory = Some a" and found: "ia_FindUsers a flt p = (Inr us, p')"
        "uf_Username flt = ?name" "find (\<lambda>u. EqualFold (us_Username u) ?name) us = Some u" "us_ID u \<noteq> []"
      and sub: "su_Type sub = (if TrimSpace (cas_Type s) = [] then SubjectTypeUser K else TrimSpace (cas_Type s))"
        "su_ID sub = us_ID u" "su_Relation sub = TrimSpace (cas_Relation s)"
      using assms True
      by (fastforce simp: resolveBootstrapZoneSubject_def Let_def simp del: dataFirstNonEmpty.simps
          split: option.splits prod.splits sum.splits if_splits)
    have "u \<in> set us \<and> EqualFold (us_Username u) ?name" using found(3) by (rule find_SomeD)
    then have "named_user directory s (us_ID u)" unfolding named_user_def using dir found by blast
    then show ?thesis using True sub by (simp add: named_subject_def Let_def del: dataFirstNonEmpty.simps)
  qed
qed

lemma subject_links_sound:
  assumes "subject_links c K policy (TrimSpace (bp_PlatformID policy)) directory s p = (Inr rels, p')" "s \<in> set ss"
  shows "\<forall>t \<in> keys rels. admin_tuple K policy directory ss t"
proof -
  obtain r n found where res: "ResolveRole c policy (cas_Role s) = (r, n, found)" by (cases "ResolveRole c policy (cas_Role s)")
  have found: "found" using assms(1) res by (auto simp: subject_links_def split: if_splits)
  note stands = resolved_stands[OF res[unfolded eqTrueI[OF found]]]
  obtain sub q where sub: "resolveBootstrapZoneSubject K s directory p = (Inr sub, q)"
    using assms(1) res found by (auto simp: subject_links_def split: sum.splits prod.splits)
  show ?thesis
  proof (cases sub)
    case None
    then show ?thesis using assms(1) res found sub by (simp add: subject_links_def)
  next
    case (Some x)
    note named = resolved_subject[OF sub[unfolded Some]]
    obtain ob where ob: "bootstrap_resource (TrimSpace (bp_PlatformID policy)) (admin_zone s) r n = Inr ob"
      and rels: "rels = (if admin_zone s \<noteq> [] then [platform_link \<lparr>ob_Type = ''zone'', ob_ID = admin_zone s\<rparr>
          (TrimSpace (bp_PlatformID policy))] else []) @ [edge ob (TrimSpace (br_Relation r)) x]"
      using assms(1) res found sub Some
      by (auto simp: subject_links_def admin_zone_def Let_def simp del: dataFirstNonEmpty.simps split: sum.splits)
    have "admin_tuple K policy directory ss (rel_key (edge ob (TrimSpace (br_Relation r)) x))"
      using ob assms(2) stands named
      by (auto simp: bootstrap_resource_def rel_key_def Let_def intro: platform_role zone_role split: if_splits)
    then show ?thesis using rels assms(2) by (auto intro: zone_link)
  qed
qed

lemma admin_links_sound:
  assumes "admin_links c K policy (TrimSpace (bp_PlatformID policy)) directory todo rels p = (Inr out, p')"
    "set todo \<subseteq> set ss" "\<forall>t \<in> keys rels. admin_tuple K policy directory ss t"
  shows "\<forall>t \<in> keys out. admin_tuple K policy directory ss t"
  using assms
proof (induction todo arbitrary: rels p)
  case (Cons s todo)
  obtain new q where new: "subject_links (c (length todo)) K policy (TrimSpace (bp_PlatformID policy)) directory s p = (Inr new, q)"
    and rest: "admin_links c K policy (TrimSpace (bp_PlatformID policy)) directory todo (rels @ new) q = (Inr out, p')"
    using Cons.prems(1) by (auto split: prod.splits sum.splits)
  have "s \<in> set ss" using Cons.prems(2) by simp
  from subject_links_sound[OF new this] have "\<forall>t \<in> keys (rels @ new). admin_tuple K policy directory ss t"
    using Cons.prems(3) by auto
  then show ?case using Cons.IH[OF rest] Cons.prems(2) by simp
qed simp

lemma platform_links_sound:
  "\<forall>t \<in> keys (platform_links policy (TrimSpace (bp_PlatformID policy))). admin_tuple K policy directory ss t"
  by (auto simp: platform_links_def intro: platform_resource)

subsection \<open>What each phase writes\<close>

text \<open>Reading the directory does not change it.\<close>

definition steady :: "'p IdentityAdmin option \<Rightarrow> bool" where
  "steady directory \<longleftrightarrow> (\<forall>a. directory = Some a \<longrightarrow>
     (\<forall>f p. snd (ia_FindUsers a f p) = p) \<and> (\<forall>f p. snd (ia_ListGroups a f p) = p))"

text \<open>The schema operations leave the relationships as they are.\<close>

definition tuples_kept :: "'g SchemaManager \<Rightarrow> ('g \<Rightarrow> tuple set) \<Rightarrow> bool" where
  "tuples_kept mgr T \<longleftrightarrow> (\<forall>g. T (snd (sm_ReadSchema mgr g)) = T g)
     \<and> (\<forall>x g. T (snd (sm_ValidateSchema mgr x g)) = T g) \<and> (\<forall>x g. T (snd (sm_WriteSchema mgr x g)) = T g)"

definition admin_set ::
    "(nat \<Rightarrow> nat \<Rightarrow> nat) \<Rightarrow> kernel \<Rightarrow> ControlPlaneConfig \<Rightarrow> BootstrapPolicy \<Rightarrow> 'p IdentityAdmin option \<Rightarrow> 'p \<Rightarrow> tuple set" where
  "admin_set c K cfg policy directory p =
     (if cp_AdminsEnabled cfg \<and> cp_Subjects cfg \<noteq> [] \<and> TrimSpace (bp_PlatformID policy) \<noteq> []
      then case fst (admin_links c K policy (TrimSpace (bp_PlatformID policy)) directory (cp_Subjects cfg)
             (platform_links policy (TrimSpace (bp_PlatformID policy))) p) of
             Inl _ \<Rightarrow> {} | Inr rels \<Rightarrow> keys (dedupeRelationships K rels)
      else {})"

definition zone_set :: "kernel \<Rightarrow> 'p IdentityAdmin \<Rightarrow> 'p \<Rightarrow> string \<Rightarrow> tuple set" where
  "zone_set K a p org =
     (case fst (BuildDirectoryProjectionRelationships K (Some a) (TrimSpace org) p) of
        Inl _ \<Rightarrow> {} | Inr rels \<Rightarrow> keys rels)"

definition startup_set ::
    "(nat \<Rightarrow> nat \<Rightarrow> nat) \<Rightarrow> kernel \<Rightarrow> ControlPlaneConfig \<Rightarrow> BootstrapPolicy \<Rightarrow> 'p IdentityAdmin option \<Rightarrow> 'p \<Rightarrow> tuple set" where
  "startup_set c K cfg policy directory p = admin_set c K cfg policy directory p
     \<union> (case directory of None \<Rightarrow> {} | Some a \<Rightarrow>
          if cp_ReconcileOnStartup cfg then \<Union>z \<in> set (cp_OrgIDs cfg). zone_set K a p z else {})"

text \<open>A phase that may write the tuples \<open>A\<close>, and writes all of them when \<open>full\<close>; the directory stays.\<close>

definition writes ::
    "('g \<Rightarrow> tuple set) \<Rightarrow> tuple set \<Rightarrow> bool \<Rightarrow> ('p, 'd, 'g) identity_world \<Rightarrow> ('p, 'd, 'g) identity_world \<Rightarrow> bool" where
  "writes T A full w w' \<longleftrightarrow> iw_provider w' = iw_provider w \<and> T (iw_graph w) \<subseteq> T (iw_graph w')
     \<and> T (iw_graph w') \<subseteq> T (iw_graph w) \<union> A \<and> (full \<longrightarrow> A \<subseteq> T (iw_graph w'))"

lemma writes_trans: "writes T A f u v \<Longrightarrow> writes T B g v w \<Longrightarrow> writes T (A \<union> B) (f \<and> g) u w"
  unfolding writes_def by auto

lemma writes_part: "writes T A f u v \<Longrightarrow> writes T (A \<union> B) False u v"
  unfolding writes_def by auto

lemma writes_weaken: "writes T A True u v \<Longrightarrow> writes T A f u v"
  unfolding writes_def by auto

lemma writes_nothing:
  "iw_provider w' = iw_provider w \<Longrightarrow> T (iw_graph w') = T (iw_graph w) \<Longrightarrow> A = {} \<or> \<not> f \<Longrightarrow> writes T A f w w'"
  unfolding writes_def by auto

lemma find_users_same: "steady (Some a) \<Longrightarrow> ia_FindUsers a f p = (r, p') \<Longrightarrow> p' = p"
  unfolding steady_def by (metis snd_conv)

lemma list_groups_same: "steady (Some a) \<Longrightarrow> ia_ListGroups a f p = (r, p') \<Longrightarrow> p' = p"
  unfolding steady_def by (metis snd_conv)

lemma resolve_same:
  assumes "steady directory" "resolveBootstrapZoneSubject K s directory p = (r, p')"
  shows "p' = p"
  using assms by (auto simp: resolveBootstrapZoneSubject_def Let_def simp del: dataFirstNonEmpty.simps
      dest: find_users_same split: if_splits option.splits prod.splits sum.splits)

lemma subject_links_same:
  assumes "steady directory" "subject_links c K policy pid directory s p = (r, p')"
  shows "p' = p"
  using assms by (auto simp: subject_links_def Let_def simp del: dataFirstNonEmpty.simps
      dest: resolve_same split: if_splits option.splits prod.splits sum.splits)

lemma admin_links_same:
  assumes "steady directory"
  shows "admin_links c K policy pid directory ss rels p = (r, p') \<Longrightarrow> p' = p"
  by (induction ss arbitrary: rels p)
    (auto dest: subject_links_same[OF assms] split: prod.splits sum.splits)

lemma build_same:
  assumes "steady (Some a)" "BuildDirectoryProjectionRelationships K (Some a) org p = (r, p')"
  shows "p' = p"
  using assms by (auto simp: BuildDirectoryProjectionRelationships_def Let_def
      dest: find_users_same list_groups_same split: if_splits prod.splits sum.splits)

lemma bootstrap_writes:
  assumes S: "tuple_store S T" and dir: "steady directory"
    and run: "bootstrapControlPlaneAdmins c cfg policy (Some S) directory e w = (r, w')"
  shows "writes T (admin_set c (ie_kern e) cfg policy directory (iw_provider w)) (r = Inr ()) w w'
    \<and> (T (iw_graph w') = T (iw_graph w) \<or> r = Inr ())"
proof -
  let ?pid = "TrimSpace (bp_PlatformID policy)"
  let ?links = "admin_links c (ie_kern e) policy ?pid directory (cp_Subjects cfg) (platform_links policy ?pid) (iw_provider w)"
  show ?thesis
  proof (cases "cp_AdminsEnabled cfg \<and> cp_Subjects cfg \<noteq> [] \<and> ?pid \<noteq> []")
    case False
    then have "w' = w" using run by (auto simp: bootstrapControlPlaneAdmins_def Let_def split: if_splits)
    then show ?thesis using False by (auto simp: admin_set_def intro: writes_nothing)
  next
    case True
    obtain x p where links: "?links = (x, p)" by (cases ?links)
    have p: "p = iw_provider w" using admin_links_same[OF dir links] .
    show ?thesis
    proof (cases x)
      case (Inl er)
      then have "r = Inl er" "w' = w" using run True links p
        by (auto simp: bootstrapControlPlaneAdmins_def Let_def bind_io_def bindE_def on_provider_def)
      then show ?thesis by (auto intro: writes_nothing)
    next
      case (Inr rels)
      let ?D = "dedupeRelationships (ie_kern e) rels"
      have A: "admin_set c (ie_kern e) cfg policy directory (iw_provider w) = keys ?D"
        using True links Inr by (simp add: admin_set_def)
      show ?thesis
      proof (cases "?D = []")
        case empty: True
        then have "w' = w" using run True links Inr p
          by (auto simp: bootstrapControlPlaneAdmins_def Let_def bind_io_def bindE_def on_provider_def)
        then show ?thesis using A empty by (auto intro: writes_nothing)
      next
        case False
        obtain wr er g where wrt: "st_write S ?D (iw_graph w) = ((wr, er), g)"
          by (metis surj_pair)
        have run': "r = (case er of Some y \<Rightarrow> Inl y | None \<Rightarrow> Inr ())" "w' = w\<lparr>iw_graph := g\<rparr>"
          using run True links Inr p False wrt
          by (auto simp: bootstrapControlPlaneAdmins_def Let_def bind_io_def bindE_def on_provider_def on_tuples_def
              split: option.splits)
        show ?thesis
        proof (cases er)
          case None
          then show ?thesis using store_write_ok[OF S wrt[unfolded None]] run' A by (auto simp: writes_def)
        next
          case (Some y)
          then show ?thesis using store_write_fail[OF S wrt[unfolded Some]] run' by (auto intro: writes_nothing)
        qed
      qed
    qed
  qed
qed

text \<open>A dispatch changes the store by its payload or not at all, whatever happens to the event table.\<close>

lemma dispatch_changes:
  assumes d: "saga_manager d = None" "idp_writer d = Some S"
    and run: "idn_Dispatch (Some d) s t i p e w = (r, w')"
  defines "np \<equiv> normalizeProjectionPayload (ie_kern e) p"
  shows "iw_graph w' = iw_graph w
    \<or> (\<exists>wr er. ApplyIdentityAuthZProjection (ie_kern e) (Some S) np (iw_graph w) = ((wr, er), iw_graph w'))"
proof (cases "isProjectionPayloadEmpty np")
  case True
  then show ?thesis using run d by (auto simp: idn_Dispatch_def np_def bind_io_iff)
next
  case False
  obtain ident w1 where i: "i_id 8 newIdentityProjectionID e w = (ident, w1)"
    and rest: "bindE (idn_record d ident s t i np) (\<lambda>_. idn_submit d ident np) e w1 = (r, w')"
    using run d False by (auto simp: idn_Dispatch_def np_def bind_io_iff)
  obtain q w2 where rec: "idn_record d ident s t i np e w1 = (q, w2)" by fastforce
  have g: "iw_graph w2 = iw_graph w"
    using graph_frameD[OF step_frames(2) i] graph_frameD[OF record_frames(1) rec] by simp
  show ?thesis
  proof (cases q)
    case (Inl er)
    then have "w' = w2" using rest rec by (simp add: bindE_fail)
    then show ?thesis using g by simp
  next
    case (Inr x)
    then have "idn_submit d ident np e w2 = (r, w')" using rest rec by (simp add: bindE_run)
    from submit_direct[OF d(1) this] show ?thesis using d(2) g by auto
  qed
qed

lemma dispatch_writes:
  assumes d: "saga_manager d = None" "idp_writer d = Some S" and S: "tuple_store S T"
    and rels: "dedupeRelationships (ie_kern e) (map trim_rel (filter (well_formed_rel (ie_kern e)) rels)) = rels"
    and run: "idn_Dispatch (Some d) s t i \<lparr>ip_Operation = ''write'', ip_Relationships = rels, ip_Filters = []\<rparr> e w = (r, w')"
  shows "writes T (keys rels) (r = Inr ()) w w'"
proof -
  let ?p = "\<lparr>ip_Operation = OperationUp, ip_Relationships = rels, ip_Filters = []\<rparr>"
  have np: "normalizeProjectionPayload (ie_kern e) ?p = ?p" by (simp add: normalize_write rels)
  have prov: "iw_provider w' = iw_provider w" using run by (rule dispatch_provider)
  have some: "T (iw_graph w') = T (iw_graph w) \<or> T (iw_graph w') = T (iw_graph w) \<union> keys rels"
  proof -
    consider "iw_graph w' = iw_graph w"
      | wr er where "ApplyIdentityAuthZProjection (ie_kern e) (Some S) ?p (iw_graph w) = ((wr, er), iw_graph w')"
      using dispatch_changes[OF d run] np by auto
    then show ?thesis
    proof cases
      case (2 wr er)
      then have "st_write S rels (iw_graph w) = ((wr, er), iw_graph w')"
        by (simp add: ApplyIdentityAuthZProjection_def np)
      then show ?thesis by (cases er) (auto dest: store_write_ok[OF S] store_write_fail[OF S])
    qed simp
  qed
  have "T (iw_graph w') = T (iw_graph w) \<union> keys rels" if ok: "r = Inr ()"
  proof (cases "isProjectionPayloadEmpty ?p")
    case True
    then show ?thesis using Dispatch_direct(2)[OF d run] np by (simp add: isProjectionPayloadEmpty_def)
  next
    case False
    then obtain wr where "ApplyIdentityAuthZProjection (ie_kern e) (Some S) ?p (iw_graph w) = ((wr, None), iw_graph w')"
      using Dispatch_direct(2)[OF d run] np ok by auto
    then have "st_write S rels (iw_graph w) = ((wr, None), iw_graph w')"
      by (simp add: ApplyIdentityAuthZProjection_def np)
    then show ?thesis by (rule store_write_ok[OF S])
  qed
  then show ?thesis using prov some by (auto simp: writes_def)
qed

lemma build_normal:
  assumes "BuildDirectoryProjectionRelationships K (Some a) org p = (Inr rels, p')"
  shows "dedupeRelationships K (map trim_rel (filter (well_formed_rel K) rels)) = rels"
  using assms normal_desired[of "TrimSpace org" K]
  by (auto simp: BuildDirectoryProjectionRelationships_def Let_def dedupeRelationships_def
      split: if_splits prod.splits sum.splits)

lemma zone_writes:
  assumes d: "saga_manager d = None" "idp_writer d = Some S" and S: "tuple_store S T" and dir: "steady (Some a)"
    and run: "startup_zone a d org e w = (r, w')"
  shows "writes T (zone_set (ie_kern e) a (iw_provider w) org) (r = Inr () \<and> idp_db d = None) w w'"
proof (cases "TrimSpace org = []")
  case True
  then have "w' = w" "zone_set (ie_kern e) a (iw_provider w) org = {}"
    using run by (simp_all add: startup_zone_def zone_set_def BuildDirectoryProjectionRelationships_def dedupeRelationships_def)
  then show ?thesis by (simp add: writes_nothing)
next
  case False
  obtain x p where b: "BuildDirectoryProjectionRelationships (ie_kern e) (Some a) (TrimSpace org) (iw_provider w) = (x, p)"
    by fastforce
  have p: "p = iw_provider w" using build_same[OF dir b] .
  show ?thesis
  proof (cases x)
    case (Inl er)
    then have "w' = w" "r \<noteq> Inr ()" using run b p False
      by (auto simp: startup_zone_def Let_def bind_io_def on_provider_def)
    then show ?thesis by (simp add: writes_nothing)
  next
    case (Inr rels)
    have Z: "zone_set (ie_kern e) a (iw_provider w) org = keys rels" using b Inr by (simp add: zone_set_def)
    obtain q w1 where disp: "idn_Dispatch (Some d) ''startup_reconcile'' ''zone'' (TrimSpace org)
        \<lparr>ip_Operation = ''write'', ip_Relationships = rels, ip_Filters = []\<rparr> e w = (q, w1)" by fastforce
    have "w' = w1" "r = Inr () \<and> idp_db d = None \<longrightarrow> q = Inr ()"
      using run b p Inr False disp
      by (auto simp: startup_zone_def Let_def bind_io_def on_provider_def split: sum.splits if_splits)
    moreover have "writes T (keys rels) (q = Inr ()) w w1"
      using dispatch_writes[OF d S build_normal[OF b[unfolded Inr]] disp] .
    ultimately show ?thesis using Z by (auto simp: writes_def)
  qed
qed

lemma zones_write:
  assumes d: "saga_manager d = None" "idp_writer d = Some S" and S: "tuple_store S T" and dir: "steady (Some a)"
  shows "eachE (startup_zone a d) orgs e w = (r, w') \<Longrightarrow>
    writes T (\<Union>z \<in> set orgs. zone_set (ie_kern e) a (iw_provider w) z) (r = Inr () \<and> idp_db d = None) w w'"
proof (induction orgs arbitrary: w)
  case Nil
  then show ?case by (simp add: writes_nothing)
next
  case (Cons z orgs)
  obtain q w1 where z: "startup_zone a d z e w = (q, w1)" by fastforce
  note W = zone_writes[OF d S dir z]
  have p: "iw_provider w1 = iw_provider w" using W by (simp add: writes_def)
  show ?case
  proof (cases q)
    case (Inl er)
    then have "r = Inl er" "w' = w1" using Cons.prems z by (simp_all add: bindE_fail)
    then show ?thesis using W Inl by (auto simp: writes_def)
  next
    case (Inr u)
    then have "eachE (startup_zone a d) orgs e w1 = (r, w')" using Cons.prems z by (simp add: bindE_run)
    from writes_trans[OF W Cons.IH[OF this]] show ?thesis using Inr p by (simp add: Un_commute) (auto simp: writes_def)
  qed
qed

subsection \<open>The whole start-up\<close>

lemma bootstrap_schema_tuples:
  assumes K: "tuples_kept mgr T" and run: "BootstrapAuthzSchema rf cfg (Some mgr) g = (r, g')"
  shows "T g' = T g"
proof -
  have R: "T g2 = T g1" if "sm_ReadSchema mgr g1 = (x, g2)" for g1 x g2 using K that unfolding tuples_kept_def by (metis snd_conv)
  have V: "T g2 = T g1" if "sm_ValidateSchema mgr d g1 = (x, g2)" for d g1 x g2 using K that unfolding tuples_kept_def by (metis snd_conv)
  have W: "T g2 = T g1" if "sm_WriteSchema mgr d g1 = (x, g2)" for d g1 x g2 using K that unfolding tuples_kept_def by (metis snd_conv)
  show ?thesis
    using run
  proof (cases rule: bootstrap_run_cases)
    case (refused er)
    then show ?thesis using K by (simp add: tuples_kept_def)
  next
    case (kept t a d b m1)
    then show ?thesis using R by simp
  next
    case (invalid er t d m1)
    then show ?thesis using R K by (metis tuples_kept_def)
  next
    case (written t a d b m1 m2)
    then show ?thesis using R[OF written(3)] V[OF written(7)] W[OF written(8)] by simp
  qed simp
qed

abbreviation manifest_policy :: "Manifest option \<Rightarrow> BootstrapPolicy" where
  "manifest_policy m \<equiv> (case m of None \<Rightarrow> no_policy | Some m \<Rightarrow> mf_Bootstrap m)"

abbreviation sagas_off :: "'d identity_dtm option \<Rightarrow> bool" where
  "sagas_off dtm \<equiv> (\<forall>m. dtm = Some m \<longrightarrow> \<not> idt_Enabled m)"

lemma start_writes:
  assumes S: "tuple_store S T" and dir: "steady identity" and dtm: "sagas_off dtm" and mgr: "tuples_kept mgr T"
    and run: "start_authz c rf codec migrate cfg inst authz manifest mgr S identity dtm table e w = (r, w')"
  shows "writes T (startup_set c (ie_kern e) cfg (manifest_policy manifest) identity (iw_provider w))
    (\<not> isl r \<and> table = None) w w'"
proof -
  let ?A = "admin_set c (ie_kern e) cfg (manifest_policy manifest) identity (iw_provider w)"
  let ?schema = "if inst then on_tuples (\<lambda>_. BootstrapAuthzSchema rf authz (Some mgr)) else okE ()"
  let ?admins = "bootstrapControlPlaneAdmins c cfg (manifest_policy manifest) (Some S) identity"
  let ?A' = "startup_set c (ie_kern e) cfg (manifest_policy manifest) identity (iw_provider w)"
  obtain x1 w1 where s: "?schema e w = (x1, w1)" by fastforce
  have W1: "writes T {} True w w1"
  proof (cases inst)
    case True
    then have b: "BootstrapAuthzSchema rf authz (Some mgr) (iw_graph w) = (x1, iw_graph w1)"
      and p: "w1 = w\<lparr>iw_graph := iw_graph w1\<rparr>"
      using s by (simp_all add: on_tuples_run)
    have "iw_provider w1 = iw_provider w" by (subst p) simp
    then show ?thesis using bootstrap_schema_tuples[OF mgr b] by (simp add: writes_nothing)
  qed (use s in \<open>simp add: writes_nothing\<close>)
  have p1: "iw_provider w1 = iw_provider w" using W1 by (simp add: writes_def)
  obtain x2 w2 where a: "?admins e w1 = (x2, w2)" by fastforce
  have W2: "writes T ?A (x2 = Inr ()) w1 w2" using bootstrap_writes[OF S dir a] p1 by simp
  have W12: "writes T ?A (x2 = Inr ()) w w2" using writes_trans[OF W1 W2] by simp
  have p2: "iw_provider w2 = iw_provider w" using W12 by (simp add: writes_def)
  have A: "?A \<subseteq> ?A'" by (auto simp: startup_set_def)
  have stop: "writes T ?A' f w v" if "writes T ?A g w v" "\<not> f" for f g v
    using that A by (auto simp: writes_def)
  show ?thesis
  proof (cases "isl x1 \<or> isl x2")
    case True
    then have "isl r \<and> (w' = w1 \<or> w' = w2)" using run s a
      by (cases x1; cases x2) (auto simp: start_authz_def bindE_fail bindE_run)
    moreover have "writes T ?A False w w1" using W1 by (auto simp: writes_def)
    ultimately show ?thesis using stop[OF W12] stop[of False w1] by auto
  next
    case False
    then have ok: "x1 = Inr ()" "x2 = Inr ()" by (auto simp: isl_def) (metis obj_sumE old.unit.exhaust)+
    have s': "?schema e w = (Inr (), w1)" and a': "?admins e w1 = (Inr (), w2)" using s a ok by simp_all
    note run2 = run[unfolded start_authz_def bindE_run[where m = ?schema and e = e and w = w, OF s']
        bindE_run[where m = ?admins and e = e and w = w1, OF a']]
    show ?thesis
    proof (cases identity)
      case None
      then have "w' = w2" using run2 by simp
      moreover have "?A' = ?A" using None by (simp add: startup_set_def)
      ultimately show ?thesis using W12 ok by (auto simp: writes_def)
    next
      case (Some a)
      let ?d = "\<lparr>idp_writer = Some S, idp_reader = Some S, idp_dtm = dtm, idp_db = table,
        idp_marshal = fst codec, idp_unmarshal = snd codec\<rparr>"
      have d: "saga_manager ?d = None" "idp_writer ?d = Some S"
        using dtm by (auto simp: saga_manager_def split: option.splits)
      obtain x3 w3 where m: "EnsureStore migrate (Some ?d) e w2 = (x3, w3)" by fastforce
      have f3: "iw_graph w3 = iw_graph w2" "iw_provider w3 = iw_provider w2"
        using m by (auto simp: EnsureStore_def on_back_def split: if_splits prod.splits)
      have W3: "writes T ?A True w w3" using W12 ok f3 by (simp add: writes_def)
      show ?thesis
      proof (cases "x3 = Inr () \<and> cp_ReconcileOnStartup cfg")
        case no: False
        then have "w' = w3 \<and> (isl r \<or> \<not> cp_ReconcileOnStartup cfg)"
          using run2 m Some by (cases x3) (auto simp: NewIdentityProjectionDispatcher_def Let_def bindE_fail bindE_run)
        moreover have "?A' = ?A" if "\<not> cp_ReconcileOnStartup cfg" using that by (simp add: startup_set_def split: option.splits)
        ultimately show ?thesis using W3 stop[OF W3] by (auto simp: writes_def)
      next
        case yes: True
        obtain x4 w4 where z: "eachE (startup_zone a ?d) (cp_OrgIDs cfg) e w3 = (x4, w4)" by fastforce
        have W4: "writes T (\<Union>z \<in> set (cp_OrgIDs cfg). zone_set (ie_kern e) a (iw_provider w) z) (x4 = Inr () \<and> table = None) w3 w4"
          using zones_write[OF d S dir[unfolded Some] z] f3 p2 by simp
        have "w' = w4 \<and> (isl r \<or> x4 = Inr ())"
          using run2 m Some yes z
          by (cases x4) (auto simp: NewIdentityProjectionDispatcher_def reconcileDirectoryOnStartup_def Let_def bindE_fail bindE_run)
        moreover have "?A' = ?A \<union> (\<Union>z \<in> set (cp_OrgIDs cfg). zone_set (ie_kern e) a (iw_provider w) z)"
          using Some yes by (simp add: startup_set_def)
        ultimately show ?thesis using writes_trans[OF W3 W4] by (auto simp: writes_def)
      qed
    qed
  qed
qed

text \<open>The two listings that the relationships of a zone are built from.\<close>

definition directory_answers :: "'p IdentityAdmin \<Rightarrow> string \<Rightarrow> DirGroup list \<Rightarrow> DirUser list \<Rightarrow> bool" where
  "directory_answers a org gs us \<longleftrightarrow> (\<exists>gf uf p p' q q'. gf_OrgID gf = org \<and> uf_OrgID uf = org
     \<and> ia_ListGroups a gf p = (Inr gs, p') \<and> ia_FindUsers a uf q = (Inr us, q'))"

lemma zone_set_answers:
  assumes "t \<in> zone_set K a p org"
  shows "\<exists>gs us. directory_answers a (TrimSpace org) gs us \<and> t \<in> keys (directory_relationships (TrimSpace org) gs us)"
proof -
  obtain rels p' where b: "BuildDirectoryProjectionRelationships K (Some a) (TrimSpace org) p = (Inr rels, p')"
    and t: "t \<in> keys rels"
    using assms by (auto simp: zone_set_def split: sum.splits) (metis surj_pair fst_conv imageI)
  then obtain gs us gf uf q q' where "ia_ListGroups a gf p = (Inr gs, q)" "ia_FindUsers a uf q = (Inr us, q')"
    "gf_OrgID gf = TrimSpace org" "uf_OrgID uf = TrimSpace org"
    and rels: "rels = dedupeRelationships K (directory_relationships (TrimSpace org) gs us)"
    by (fastforce simp: BuildDirectoryProjectionRelationships_def Let_def split: if_splits prod.splits sum.splits)
  then have "directory_answers a (TrimSpace org) gs us" unfolding directory_answers_def by blast
  moreover have "t \<in> keys (directory_relationships (TrimSpace org) gs us)"
    using t rels dedupe_mem by fastforce
  ultimately show ?thesis by blast
qed

lemma admin_set_sound:
  assumes "t \<in> admin_set c K cfg policy directory p"
  shows "cp_AdminsEnabled cfg \<and> admin_tuple K policy directory (cp_Subjects cfg) t"
proof -
  let ?pid = "TrimSpace (bp_PlatformID policy)"
  obtain rels p' where l: "admin_links c K policy ?pid directory (cp_Subjects cfg) (platform_links policy ?pid) p = (Inr rels, p')"
    and t: "t \<in> keys (dedupeRelationships K rels)" and e: "cp_AdminsEnabled cfg"
    using assms by (auto simp: admin_set_def split: if_splits sum.splits) (metis surj_pair fst_conv imageI)
  have "t \<in> keys rels" using t dedupe_mem by fastforce
  then show ?thesis using admin_links_sound[OF l _ platform_links_sound] e by blast
qed

text \<open>C5. Whatever its outcome, the start-up takes no relationship away and adds only those that the configuration
  grants: of an administrator that it names, with a role that the manifest knows, and, when the
  directory is reconciled, those of the listed zones.  When it succeeds without an event table, it has
  added all of them.\<close>

theorem start_adds_only_configured:
  assumes S: "tuple_store S T" and dir: "steady identity" and dtm: "\<forall>m. dtm = Some m \<longrightarrow> \<not> idt_Enabled m"
    and mgr: "tuples_kept mgr T"
    and run: "start_authz c rf codec migrate cfg inst authz (Some manifest) mgr S identity dtm table e w = (r, w')"
  shows "T (iw_graph w) \<subseteq> T (iw_graph w')
    \<and> (\<forall>t \<in> T (iw_graph w') - T (iw_graph w).
        cp_AdminsEnabled cfg \<and> admin_tuple (ie_kern e) (mf_Bootstrap manifest) identity (cp_Subjects cfg) t
        \<or> cp_ReconcileOnStartup cfg \<and> (\<exists>a z gs us. identity = Some a \<and> z \<in> set (cp_OrgIDs cfg)
            \<and> directory_answers a (TrimSpace z) gs us \<and> t \<in> keys (directory_relationships (TrimSpace z) gs us)))
    \<and> (\<not> isl r \<longrightarrow> table = None \<longrightarrow> T (iw_graph w') = T (iw_graph w)
        \<union> startup_set c (ie_kern e) cfg (mf_Bootstrap manifest) identity (iw_provider w))"
proof -
  note W = start_writes[OF S dir dtm mgr run, unfolded writes_def option.case]
  let ?A = "startup_set c (ie_kern e) cfg (mf_Bootstrap manifest) identity (iw_provider w)"
  have A: "cp_AdminsEnabled cfg \<and> admin_tuple (ie_kern e) (mf_Bootstrap manifest) identity (cp_Subjects cfg) t
      \<or> cp_ReconcileOnStartup cfg \<and> (\<exists>a z gs us. identity = Some a \<and> z \<in> set (cp_OrgIDs cfg)
          \<and> directory_answers a (TrimSpace z) gs us \<and> t \<in> keys (directory_relationships (TrimSpace z) gs us))"
    if t: "t \<in> ?A" for t
  proof -
    consider "t \<in> admin_set c (ie_kern e) cfg (mf_Bootstrap manifest) identity (iw_provider w)"
      | a z where "identity = Some a" "cp_ReconcileOnStartup cfg" "z \<in> set (cp_OrgIDs cfg)"
          "t \<in> zone_set (ie_kern e) a (iw_provider w) z"
      using t by (auto simp: startup_set_def split: option.splits if_splits)
    then show ?thesis
    proof cases
      case 1
      from admin_set_sound[OF this] show ?thesis by simp
    next
      case 2
      from zone_set_answers[OF this(4)] this(1-3) show ?thesis by blast
    qed
  qed
  show ?thesis using W A by blast
qed

subsection \<open>Starting again\<close>

lemma resolve_role_order:
  assumes "distinct (all_names (bp_Roles policy))"
  shows "ResolveRole c policy role = ResolveRole c' policy role"
proof (cases "get_key (bp_Roles policy) (wanted_role policy role)")
  case (Some r)
  then show ?thesis by (simp add: ResolveRole_alt)
next
  case None
  let ?hit = "alias_hit (wanted_role policy role)"
  have uniq: "x = y" if "x \<in> set (bp_Roles policy)" "?hit x" "y \<in> set (bp_Roles policy)" "?hit y" for x y
    using stands_for_unique[OF assms wanted_role_trimmed, of "fst x" "snd x" policy role "fst y" "snd y"] that
    by (simp add: stands_for_iff prod_eq_iff)
  have "find ?hit (shuffle c (bp_Roles policy)) = find ?hit (shuffle c' (bp_Roles policy))"
  proof (cases "\<exists>x \<in> set (bp_Roles policy). ?hit x")
    case True
    then have "\<exists>x. find ?hit (shuffle d (bp_Roles policy)) = Some x" for d
      by (metis find_None_iff not_None_eq set_shuffle)
    then show ?thesis using uniq find_SomeD[of ?hit] by (metis set_shuffle)
  next
    case False
    then have "find ?hit (shuffle d (bp_Roles policy)) = None" for d by (simp add: find_None_iff)
    then show ?thesis by simp
  qed
  then show ?thesis by (simp add: ResolveRole_alt None)
qed

lemma admin_links_order:
  assumes "distinct (all_names (bp_Roles policy))"
  shows "admin_links c K policy pid directory ss rels p = admin_links c' K policy pid directory ss rels p"
proof (induction ss arbitrary: rels p)
  case (Cons s ss)
  have "subject_links (c n) K policy pid directory s p = subject_links (c' n) K policy pid directory s p" for n
    unfolding subject_links_def using resolve_role_order[OF assms, of "c n" _ "c' n"] by simp
  then show ?case using Cons.IH by (simp split: prod.split sum.split)
qed simp

text \<open>C31. A start that follows a successful one without an event table adds no relationship.  The first start ran without the
  event table and with the saga manager off and returned no error, so that a relationship that could not be written had
  made it fail; the identity provider does not change by being asked, the schema operations leave the tuples alone and role
  names are unique in the manifest.  The second start has the same configuration, manifest and provider; its iteration
  orders, schema file, event table and outcome are arbitrary.  Nothing is claimed after a first start with an event table,
  where failures of the reconciliation are only logged and a later start can add what is missing.\<close>

theorem restart_adds_nothing:
  assumes S: "tuple_store S T" and dir: "steady identity" and dtm: "\<forall>m. dtm = Some m \<longrightarrow> \<not> idt_Enabled m"
    and mgr: "tuples_kept mgr T" and names: "distinct (all_names (bp_Roles (mf_Bootstrap manifest)))"
    and first: "start_authz c rf codec migrate cfg inst authz (Some manifest) mgr S identity dtm None e w = (Inr b, w1)"
    and again: "start_authz c' rf' codec' migrate' cfg inst' authz' (Some manifest) mgr S identity dtm table e w1 = (r, w2)"
  shows "T (iw_graph w2) = T (iw_graph w1)"
proof -
  let ?A = "\<lambda>c. startup_set c (ie_kern e) cfg (mf_Bootstrap manifest) identity (iw_provider w)"
  note W1 = start_writes[OF S dir dtm mgr first, unfolded writes_def option.case]
  note W2 = start_writes[OF S dir dtm mgr again, unfolded writes_def option.case]
  have "?A c' = ?A c"
    by (simp add: startup_set_def admin_set_def admin_links_order[OF names, of c' _ _ _ _ _ _ c])
  moreover have "?A c \<subseteq> T (iw_graph w1)" using W1 by simp
  ultimately show ?thesis using W1 W2 by auto
qed

subsection \<open>Administrators get in\<close>

text \<open>An entry that names its subject directly, with a known role, and with a zone when the role needs one.\<close>

definition complete_subject :: "BootstrapPolicy \<Rightarrow> ControlPlaneAdminSubject \<Rightarrow> bool" where
  "complete_subject policy s \<longleftrightarrow> dataFirstNonEmpty [cas_ID s, cas_ExternalSubject s] \<noteq> []
     \<and> (\<exists>(n, r) \<in> set (bp_Roles policy). stands_for (wanted_role policy (cas_Role s)) n r)
     \<and> (\<forall>(n, r) \<in> set (bp_Roles policy). stands_for (wanted_role policy (cas_Role s)) n r
          \<longrightarrow> TrimSpace (br_Scope r) = ''zone'' \<longrightarrow> admin_zone s \<noteq> [])"

definition role_rel :: "kernel \<Rightarrow> BootstrapPolicy \<Rightarrow> ControlPlaneAdminSubject \<Rightarrow> BootstrapRole \<Rightarrow> Relationship" where
  "role_rel K policy s r = edge
     (if TrimSpace (br_Scope r) = ''platform'' then \<lparr>ob_Type = ''platform'', ob_ID = TrimSpace (bp_PlatformID policy)\<rparr>
      else \<lparr>ob_Type = ''zone'', ob_ID = admin_zone s\<rparr>) (TrimSpace (br_Relation r))
     \<lparr>su_Type = (if TrimSpace (cas_Type s) = [] then SubjectTypeUser K else TrimSpace (cas_Type s)),
      su_ID = dataFirstNonEmpty [cas_ID s, cas_ExternalSubject s], su_Relation = TrimSpace (cas_Relation s)\<rparr>"

abbreviation role_rels :: "kernel \<Rightarrow> BootstrapPolicy \<Rightarrow> ControlPlaneAdminSubject \<Rightarrow> Relationship set" where
  "role_rels K policy s \<equiv> {role_rel K policy s r |n r. (n, r) \<in> set (bp_Roles policy)
     \<and> stands_for (wanted_role policy (cas_Role s)) n r}"

lemma subject_links_complete:
  assumes ok: "bootstrap_ok policy schema" and s: "complete_subject policy s"
  shows "\<exists>rels. subject_links c K policy (TrimSpace (bp_PlatformID policy)) directory s p = (Inr rels, p)
    \<and> role_rels K policy s \<subseteq> set rels"
proof -
  let ?w = "wanted_role policy (cas_Role s)"
  obtain n0 r0 where "(n0, r0) \<in> set (bp_Roles policy)" "stands_for ?w n0 r0"
    using s by (auto simp: complete_subject_def)
  then obtain r n where res: "ResolveRole c policy (cas_Role s) = (r, n, True)" using resolves by metis
  note hit = resolved_stands[OF res]
  have uniq: "r' = r" if "(n', r') \<in> set (bp_Roles policy)" "stands_for ?w n' r'" for n' r'
    using stands_for_unique[OF _ wanted_role_trimmed that] hit ok unfolding bootstrap_ok_def by blast
  have sub: "resolveBootstrapZoneSubject K s directory p
      = (Inr (Some (rel_Subject (role_rel K policy s r))), p)"
    using s by (simp add: resolveBootstrapZoneSubject_def complete_subject_def role_rel_def Let_def
        del: dataFirstNonEmpty.simps)
  have scope: "TrimSpace (br_Scope r) \<in> {''platform'', ''zone''}"
    using ok hit by (auto simp: bootstrap_ok_def boot_role_ok_def)
  have zone: "TrimSpace (br_Scope r) = ''zone'' \<longrightarrow> admin_zone s \<noteq> []"
    using s hit by (auto simp: complete_subject_def)
  have ob: "bootstrap_resource (TrimSpace (bp_PlatformID policy)) (admin_zone s) r n
      = Inr (rel_Resource (role_rel K policy s r))"
    using scope zone by (auto simp: bootstrap_resource_def role_rel_def Let_def)
  have "subject_links c K policy (TrimSpace (bp_PlatformID policy)) directory s p
      = (Inr ((if admin_zone s \<noteq> [] then [platform_link \<lparr>ob_Type = ''zone'', ob_ID = admin_zone s\<rparr>
          (TrimSpace (bp_PlatformID policy))] else []) @ [role_rel K policy s r]), p)"
    unfolding subject_links_def res prod.case sub sum.case option.case Let_def admin_zone_def[symmetric] ob
    by (simp add: role_rel_def)
  then show ?thesis using uniq by auto
qed

lemma admin_links_complete:
  assumes ok: "bootstrap_ok policy schema"
  shows "\<forall>s \<in> set ss. complete_subject policy s \<Longrightarrow>
    \<exists>out. admin_links c K policy (TrimSpace (bp_PlatformID policy)) directory ss rels p = (Inr out, p)
      \<and> set rels \<union> (\<Union>s \<in> set ss. role_rels K policy s) \<subseteq> set out"
proof (induction ss arbitrary: rels)
  case (Cons s ss)
  obtain new where new: "subject_links (c (length ss)) K policy (TrimSpace (bp_PlatformID policy)) directory s p = (Inr new, p)"
    "role_rels K policy s \<subseteq> set new"
    using subject_links_complete[OF ok] Cons.prems by fastforce
  obtain out where out: "admin_links c K policy (TrimSpace (bp_PlatformID policy)) directory ss (rels @ new) p = (Inr out, p)"
    "set (rels @ new) \<union> (\<Union>s \<in> set ss. role_rels K policy s) \<subseteq> set out"
    using Cons.IH[of "rels @ new"] Cons.prems by auto
  have "set rels \<union> (\<Union>s \<in> set (s # ss). role_rels K policy s) \<subseteq> set out" using out(2) new(2) by (simp; blast)
  then show ?case using new(1) out(1) by simp
qed simp

text \<open>C18. With a manifest that passed its check, entries that name their subject, a role and the zone that the role
  needs, and a store that accepts writes, the bootstrap succeeds and every named administrator holds
  the relation of every role that the entry stands for.\<close>

theorem administrators_admitted:
  assumes S: "tuple_store S T" and acc: "\<And>rels g. \<exists>wr g'. st_write S rels g = ((wr, None), g')"
    and ok: "bootstrap_ok policy schema" and on: "cp_AdminsEnabled cfg"
    and ss: "\<forall>s \<in> set (cp_Subjects cfg). complete_subject policy s"
  shows "\<exists>w'. bootstrapControlPlaneAdmins c cfg policy (Some S) directory e w = (Inr (), w')
    \<and> (\<forall>s \<in> set (cp_Subjects cfg). \<forall>q \<in> role_rels (ie_kern e) policy s. well_formed_rel (ie_kern e) q \<longrightarrow>
        (\<exists>q'. rel_text q' = rel_text q \<and> rel_key q' \<in> T (iw_graph w')))"
proof (cases "cp_Subjects cfg = []")
  case True
  then show ?thesis by (simp add: bootstrapControlPlaneAdmins_def)
next
  case False
  let ?pid = "TrimSpace (bp_PlatformID policy)" and ?K = "ie_kern e"
  have pid: "?pid \<noteq> []" using ok by (simp add: bootstrap_ok_def)
  obtain out where L: "admin_links c ?K policy ?pid directory (cp_Subjects cfg) (platform_links policy ?pid) (iw_provider w)
      = (Inr out, iw_provider w)
      \<and> set (platform_links policy ?pid) \<union> (\<Union>s \<in> set (cp_Subjects cfg). role_rels ?K policy s) \<subseteq> set out"
    using admin_links_complete[OF ok ss, of c ?K directory "platform_links policy ?pid" "iw_provider w"] by (rule exE)
  note links = L[THEN conjunct1]
  have out: "role_rels ?K policy s \<subseteq> set out" if "s \<in> set (cp_Subjects cfg)" for s
    using L[THEN conjunct2] that by (meson UN_upper Un_upper2 order_trans)
  let ?D = "dedupeRelationships ?K out"
  have texts: "\<exists>q'. rel_text q' = rel_text q \<and> q' \<in> set ?D"
    if "s \<in> set (cp_Subjects cfg)" "q \<in> role_rels ?K policy s" "well_formed_rel ?K q" for s q
  proof -
    have "rel_text q \<in> rel_text ` {r \<in> set out. well_formed_rel ?K r}" using subsetD[OF out[OF that(1)] that(2)] that(3) by simp
    then have "rel_text q \<in> rel_text ` set ?D" using dedupe_rels_texts[of ?K "[]" out] by (simp add: dedupeRelationships_def)
    then show ?thesis by (auto simp: image_iff)
  qed
  show ?thesis
  proof (cases "?D = []")
    case True
    then have "bootstrapControlPlaneAdmins c cfg policy (Some S) directory e w = (Inr (), w)"
      using on False pid links
      by (simp add: bootstrapControlPlaneAdmins_def Let_def bind_io_def bindE_def on_provider_def)
    then show ?thesis using texts True by fastforce
  next
    case nonempty: False
    obtain wr g' where wrt: "st_write S ?D (iw_graph w) = ((wr, None), g')" using acc by blast
    have "bootstrapControlPlaneAdmins c cfg policy (Some S) directory e w = (Inr (), w\<lparr>iw_graph := g'\<rparr>)"
      using on False pid links nonempty wrt
      by (simp add: bootstrapControlPlaneAdmins_def Let_def bind_io_def bindE_def on_provider_def on_tuples_def)
    moreover have "\<exists>q'. rel_text q' = rel_text q \<and> rel_key q' \<in> T g'"
      if "s \<in> set (cp_Subjects cfg)" "q \<in> role_rels ?K policy s" "well_formed_rel ?K q" for s q
      using texts[OF that] store_write_ok[OF S wrt] by (metis Un_iff imageI)
    ultimately show ?thesis by (intro exI[of _ "w\<lparr>iw_graph := g'\<rparr>"] conjI ballI impI) simp_all
  qed
qed

end
