(* ===== verification/Defaults.thy ===== *)
theory Defaults
  imports ResourceLaws ManifestLaws
begin

text \<open>
  The built-in definitions (internal/biz/defaults/loader.go): the capabilities, resource types and role
  templates of the permission manifest are registered through the services at every start.

  A slice of the decoded file is nil when its key is missing, which its JSON shows; the list of the model
  does not, so \<open>raw\<close> gives the three slices of a resource type with nil as \<open>None\<close>.
\<close>

record 'g DefaultServices =
  df_Projects :: "'g ProjectService option"
  df_Resources :: "'g ResourceService option"
  df_Grants :: "'g GrantService option"

record DefaultsResult =
  dr_Capabilities :: nat
  dr_ResourceTypes :: nat
  dr_RoleTemplates :: nat

type_synonym raw_slices = "ManifestType \<Rightarrow> string list option \<times> string list option \<times> string list option"

definition default_capability :: "ManifestCapability \<Rightarrow> RegisterCapabilityRequest" where
  "default_capability x = \<lparr>rc_ID = mfc_ID x, rc_Name = mfc_Name x, rc_DisplayName = mfc_DisplayName x,
     rc_OwnerService = mfc_OwnerService x, rc_ConfigSchema = []\<rparr>"

definition default_type :: "raw_slices \<Rightarrow> ManifestType \<Rightarrow> RegisterResourceTypeRequest" where
  "default_type raw t = (case raw t of (parents, relations, permissions) \<Rightarrow>
     \<lparr>rq_Type = mt_Type t, rq_CapabilityID = mt_CapabilityID t, rq_OwnerService = mt_OwnerService t,
      rq_ParentTypesJSON = json_array parents, rq_Grantable = mt_Grantable t, rq_Auditable = mt_Auditable t,
      rq_SpiceDBType = mt_SpiceDBType t, rq_RelationsJSON = json_array relations,
      rq_PermissionsJSON = json_array permissions, rq_MetadataSchema = []\<rparr>)"

definition default_role :: "GrantSubject \<Rightarrow> ManifestRole \<Rightarrow> RegisterRoleTemplateRequest" where
  "default_role nobody r = \<lparr>rg_ID = [], rg_OrgID = [], rg_ResourceType = mfr_ResourceType r,
     rg_RoleKey = mfr_RoleKey r, rg_DisplayName = mfr_DisplayName r, rg_Description = [],
     rg_Relation = mfr_Relation r, rg_BuiltIn = mfr_BuiltIn r, rg_Enabled = mfr_Enabled r,
     rg_SortOrder = mfr_SortOrder r, rg_MetadataJSON = [], rg_Permissions = [], rg_Actor = nobody\<rparr>"

text \<open>One of the three loops: the number of registrations so far, and the error that ended it.\<close>

primrec register_each :: "('a \<Rightarrow> ('g, 'b) opE) \<Rightarrow> 'a list \<Rightarrow> nat \<Rightarrow> ('g, nat \<times> err option) op" where
  "register_each f [] n = ret (n, None)"
| "register_each f (x # xs) n =
     bind_io (f x) (\<lambda>r. case r of Inl er \<Rightarrow> ret (n, Some er) | Inr _ \<Rightarrow> register_each f xs (Suc n))"

definition reconcile_defaults ::
    "GrantSubject \<Rightarrow> raw_slices \<Rightarrow> Manifest option \<Rightarrow> 'g DefaultServices \<Rightarrow> ('g, DefaultsResult \<times> err option) op" where
  "reconcile_defaults nobody raw file services =
     (let none = \<lparr>dr_Capabilities = 0, dr_ResourceTypes = 0, dr_RoleTemplates = 0\<rparr> in
      case file of
        None \<Rightarrow> ret (none, None)
      | Some m \<Rightarrow>
        (case (df_Projects services, df_Resources services, df_Grants services) of
           (Some ps, Some rs, Some gs) \<Rightarrow>
             bind_io (register_each (\<lambda>x. RegisterCapability ps (default_capability x)) (mf_Capabilities m) 0) (\<lambda>(n1, e1).
             if e1 \<noteq> None then ret (none\<lparr>dr_Capabilities := n1\<rparr>, e1)
             else bind_io (register_each (\<lambda>x. RegisterResourceType rs (default_type raw x)) (mf_ResourceTypes m) 0) (\<lambda>(n2, e2).
             if e2 \<noteq> None then ret (none\<lparr>dr_Capabilities := n1, dr_ResourceTypes := n2\<rparr>, e2)
             else bind_io (register_each (\<lambda>x. RegisterRoleTemplate gs (default_role nobody x)) (mf_RoleTemplates m) 0) (\<lambda>(n3, e3).
             ret (\<lparr>dr_Capabilities = n1, dr_ResourceTypes = n2, dr_RoleTemplates = n3\<rparr>, e3))))
         | _ \<Rightarrow> ret (none, Some (ErrNew ''defaults reconcile requires project, resource and grant services''))))"

definition ReconcileFile ::
    "(string \<Rightarrow> err + Manifest option) \<Rightarrow> GrantSubject \<Rightarrow> raw_slices \<Rightarrow> string \<Rightarrow> 'g DefaultServices
     \<Rightarrow> ('g, DefaultsResult \<times> err option) op" where
  "ReconcileFile load_file nobody raw path services =
     (case load_file path of
        Inl er \<Rightarrow> ret (\<lparr>dr_Capabilities = 0, dr_ResourceTypes = 0, dr_RoleTemplates = 0\<rparr>, Some er)
      | Inr file \<Rightarrow> reconcile_defaults nobody raw file services)"

subsection \<open>Registering\<close>

text \<open>
  An operation that registers an item \<open>x\<close>: it puts one entry under the key of \<open>x\<close> into one table and
  touches nothing else of the repository, nor the relationships.
\<close>

locale registrar =
  fixes register :: "'a \<Rightarrow> ('g, 'b) opE"
    and valid :: "'a \<Rightarrow> bool"
    and tab :: "MemoryRepo \<Rightarrow> 'v gomap"
    and entry_key :: "'a \<Rightarrow> string"
    and good :: "'a \<Rightarrow> 'v \<Rightarrow> bool"
    and others :: "MemoryRepo \<Rightarrow> MemoryRepo"
  assumes registers: "valid x \<Longrightarrow> register x e w = (r, w') \<Longrightarrow>
    v = the (get_key (tab (db w')) (entry_key x)) \<Longrightarrow>
    \<not> isl r \<and> tab (db w') = put_key (entry_key x) v (tab (db w)) \<and> good x v
    \<and> others (db w') = others (db w) \<and> graph w' = graph w"
begin

lemma all_registered:
  "\<forall>x \<in> set xs. valid x \<Longrightarrow> distinct (map entry_key xs) \<Longrightarrow>
   \<exists>w'. register_each register xs n e w = ((n + length xs, None), w') \<and> graph w' = graph w
     \<and> others (db w') = others (db w)
     \<and> (\<forall>x \<in> set xs. \<exists>v. get_key (tab (db w')) (entry_key x) = Some v \<and> good x v)
     \<and> (\<forall>k. k \<notin> entry_key ` set xs \<longrightarrow> get_key (tab (db w')) k = get_key (tab (db w)) k)"
proof (induction xs arbitrary: n w)
  case (Cons x xs)
  obtain q w1 where q: "register x e w = (q, w1)" by fastforce
  note R = registers[OF _ q refl]
  obtain y v where r: "register x e w = (Inr y, w1)" and v: "good x v"
    and t: "tab (db w1) = put_key (entry_key x) v (tab (db w))" and f: "others (db w1) = others (db w)" "graph w1 = graph w"
    using R q Cons.prems by (cases q) auto
  obtain w' where w': "register_each register xs (Suc n) e w1 = ((Suc n + length xs, None), w')" "graph w' = graph w1"
      "others (db w') = others (db w1)"
    and in_tab: "\<forall>x \<in> set xs. \<exists>v. get_key (tab (db w')) (entry_key x) = Some v \<and> good x v"
    and out: "\<forall>k. k \<notin> entry_key ` set xs \<longrightarrow> get_key (tab (db w')) k = get_key (tab (db w1)) k"
    using Cons.IH[of "Suc n" w1] Cons.prems by auto
  have "get_key (tab (db w')) (entry_key x) = Some v" using out Cons.prems t by (simp add: update_conv')
  then have "\<forall>z \<in> set (x # xs). \<exists>v. get_key (tab (db w')) (entry_key z) = Some v \<and> good z v" using in_tab v by auto
  moreover have "\<forall>k. k \<notin> entry_key ` set (x # xs) \<longrightarrow> get_key (tab (db w')) k = get_key (tab (db w)) k"
    using out t by (auto simp: update_conv')
  ultimately show ?case using r w' f by (simp add: bind_io_def)
qed (simp add: ret_def)

end

text \<open>The entries, up to their times.\<close>

definition stored_capability :: "ManifestCapability \<Rightarrow> CapabilityModel \<Rightarrow> bool" where
  "stored_capability x v \<longleftrightarrow> cap_Name v = TrimSpace (mfc_Name x)
     \<and> cap_DisplayName v = nonEmpty (mfc_DisplayName x) (TrimSpace (mfc_Name x))
     \<and> cap_OwnerService v = (if TrimSpace (mfc_OwnerService x) = [] then ''aisphere-iam'' else TrimSpace (mfc_OwnerService x))
     \<and> cap_Status v = StatusActive \<and> cap_ConfigSchema v = ''{}''"

definition capability_key :: "ManifestCapability \<Rightarrow> string" where
  "capability_key x = (if TrimSpace (mfc_ID x) = [] then TrimSpace (mfc_Name x) else TrimSpace (mfc_ID x))"

definition stored_type :: "raw_slices \<Rightarrow> ManifestType \<Rightarrow> ResourceTypeModel \<Rightarrow> bool" where
  "stored_type raw t v \<longleftrightarrow> rt_Type v = type_name t \<and> rt_CapabilityID v = TrimSpace (mt_CapabilityID t)
     \<and> rt_SpiceDBType v = (if TrimSpace (mt_SpiceDBType t) = [] then type_name t else TrimSpace (mt_SpiceDBType t))
     \<and> rt_Grantable v = mt_Grantable t \<and> rt_Auditable v = mt_Auditable t
     \<and> (rt_ParentTypesJSON v, rt_RelationsJSON v, rt_PermissionsJSON v)
        = (case raw t of (a, b, c) \<Rightarrow> (jsonOr (json_array a) ''[]'', jsonOr (json_array b) ''[]'', jsonOr (json_array c) ''[]''))
     \<and> rt_Status v = StatusActive"

definition role_entry_key :: "ManifestRole \<Rightarrow> string" where
  "role_entry_key r = Memory.key [TrimSpace (mfr_ResourceType r), TrimSpace (mfr_RoleKey r)]"

text \<open>A role is stored as new: with version 1, without permissions, enabled unless it is built in and disabled.\<close>

definition stored_template :: "ManifestRole \<Rightarrow> RoleTemplateModel \<Rightarrow> bool" where
  "stored_template r v \<longleftrightarrow> ro_ResourceType v = TrimSpace (mfr_ResourceType r) \<and> ro_RoleKey v = TrimSpace (mfr_RoleKey r)
     \<and> ro_Relation v = TrimSpace (mfr_Relation r) \<and> ro_BuiltIn v = mfr_BuiltIn r
     \<and> ro_Enabled v = (\<not> mfr_BuiltIn r \<or> mfr_Enabled r) \<and> ro_SortOrder v = mfr_SortOrder r
     \<and> ro_Version v = 1 \<and> ro_Permissions v = [] \<and> ro_OrgID v = []"

lemmas upsert_parts = nowIfZero_run bind_io_def bindE_def Let_def update_conv'

interpretation capabilities: registrar "\<lambda>x. RegisterCapability ps (default_capability x)"
    "\<lambda>x. ps_repo ps \<and> TrimSpace (mfc_Name x) \<noteq> []" MemoryRepo.caps capability_key stored_capability "\<lambda>r. r\<lparr>caps := []\<rparr>"
  by unfold_locales
    (auto simp: RegisterCapability_def UpsertCapability_def default_capability_def stored_capability_def
       capability_key_def jsonOrEmptyObject_def upsert_parts split: if_splits)

interpretation types: registrar "\<lambda>x. RegisterResourceType rs (default_type raw x)"
    "\<lambda>x. rs_repo rs \<and> type_name x \<noteq> []" resourceTypes type_name "stored_type raw" "\<lambda>r. r\<lparr>resourceTypes := []\<rparr>"
  by unfold_locales
    (auto simp: RegisterResourceType_def UpsertResourceType_def default_type_def stored_type_def type_name_def
       upsert_parts split: prod.splits if_splits)

interpretation templates: registrar "\<lambda>x. RegisterRoleTemplate gs (default_role nobody x)"
    "\<lambda>x. gs_repo gs \<and> TrimSpace (mfr_ResourceType x) \<noteq> [] \<and> TrimSpace (mfr_RoleKey x) \<noteq> []
       \<and> TrimSpace (mfr_Relation x) \<noteq> [] \<and> TrimSpace (mfr_Relation x) \<noteq> ''custom_binding''"
    roles role_entry_key stored_template "\<lambda>r. r\<lparr>roles := []\<rparr>"
  by unfold_locales
    (auto simp: RegisterRoleTemplate_def UpsertRoleTemplate_def default_role_def stored_template_def put_role_def
       stored_role_def role_entry_key_def normalizeStrings_def upsert_parts split: if_splits)

subsection \<open>A reconciled repository\<close>

definition registrable :: "Manifest \<Rightarrow> bool" where
  "registrable m \<longleftrightarrow> (\<forall>x \<in> set (mf_Capabilities m). TrimSpace (mfc_Name x) \<noteq> [])
     \<and> distinct (map capability_key (mf_Capabilities m))
     \<and> (\<forall>r \<in> set (mf_RoleTemplates m). TrimSpace (mfr_RoleKey r) \<noteq> [] \<and> TrimSpace (mfr_Relation r) \<noteq> []
          \<and> TrimSpace (mfr_Relation r) \<noteq> ''custom_binding'')
     \<and> distinct (map role_entry_key (mf_RoleTemplates m))"

text \<open>C34. With a manifest that passed its check and is registrable, that is, names every capability, fills in key and
  relation of every role template, none of them \<open>custom_binding\<close>, and repeats no key of either kind (more than the
  check demands), the registration of the default definitions succeeds at every start, whatever was stored before.  Each
  definition is then stored as the manifest says, role templates with version 1, without permissions, and enabled unless
  they are built in and the manifest disables them (its enabled flag counts for built-in roles only).  Capabilities, resource
  types and role templates under other keys stay, as do all other tables, and no relationship is written.\<close>

theorem defaults_registered:
  assumes services: "df_Projects services = Some ps" "df_Resources services = Some rs" "df_Grants services = Some gs"
      "ps_repo ps" "rs_repo rs" "gs_repo gs"
    and ok: "manifest_ok m schema" and reg: "registrable m"
  shows "\<exists>w'. reconcile_defaults nobody raw (Some m) services e w
        = ((\<lparr>dr_Capabilities = length (mf_Capabilities m), dr_ResourceTypes = length (mf_ResourceTypes m),
             dr_RoleTemplates = length (mf_RoleTemplates m)\<rparr>, None), w')
    \<and> graph w' = graph w
    \<and> (db w')\<lparr>caps := [], resourceTypes := [], roles := []\<rparr> = (db w)\<lparr>caps := [], resourceTypes := [], roles := []\<rparr>
    \<and> (\<forall>x \<in> set (mf_Capabilities m). \<exists>v. get_key (MemoryRepo.caps (db w')) (capability_key x) = Some v \<and> stored_capability x v)
    \<and> (\<forall>t \<in> set (mf_ResourceTypes m). \<exists>v. get_key (resourceTypes (db w')) (type_name t) = Some v \<and> stored_type raw t v)
    \<and> (\<forall>r \<in> set (mf_RoleTemplates m). \<exists>v. get_key (roles (db w')) (role_entry_key r) = Some v \<and> stored_template r v)
    \<and> (\<forall>k. k \<notin> capability_key ` set (mf_Capabilities m) \<longrightarrow> get_key (MemoryRepo.caps (db w')) k = get_key (MemoryRepo.caps (db w)) k)
    \<and> (\<forall>k. k \<notin> type_name ` set (mf_ResourceTypes m) \<longrightarrow> get_key (resourceTypes (db w')) k = get_key (resourceTypes (db w)) k)
    \<and> (\<forall>k. k \<notin> role_entry_key ` set (mf_RoleTemplates m) \<longrightarrow> get_key (roles (db w')) k = get_key (roles (db w)) k)"
proof -
  have vc: "\<forall>x \<in> set (mf_Capabilities m). ps_repo ps \<and> TrimSpace (mfc_Name x) \<noteq> []"
    "distinct (map capability_key (mf_Capabilities m))"
    using services reg by (simp_all add: registrable_def)
  have vt: "\<forall>t \<in> set (mf_ResourceTypes m). rs_repo rs \<and> type_name t \<noteq> []" "distinct (map type_name (mf_ResourceTypes m))"
    using services ok by (auto simp: manifest_ok_def type_ok_def)
  have "TrimSpace (mfr_ResourceType r) \<noteq> []" if "r \<in> set (mf_RoleTemplates m)" for r
    using that ok by (auto simp: manifest_ok_def role_ok_def type_ok_def)
  then have vr: "\<forall>x \<in> set (mf_RoleTemplates m). gs_repo gs \<and> TrimSpace (mfr_ResourceType x) \<noteq> [] \<and> TrimSpace (mfr_RoleKey x) \<noteq> []
       \<and> TrimSpace (mfr_Relation x) \<noteq> [] \<and> TrimSpace (mfr_Relation x) \<noteq> ''custom_binding''"
    "distinct (map role_entry_key (mf_RoleTemplates m))"
    using services reg by (auto simp: registrable_def)
  obtain w1 where c: "register_each (\<lambda>x. RegisterCapability ps (default_capability x)) (mf_Capabilities m) 0 e w
      = ((length (mf_Capabilities m), None), w1)"
    and c1: "graph w1 = graph w" "(db w1)\<lparr>caps := []\<rparr> = (db w)\<lparr>caps := []\<rparr>"
      "\<forall>x \<in> set (mf_Capabilities m). \<exists>v. get_key (MemoryRepo.caps (db w1)) (capability_key x) = Some v \<and> stored_capability x v"
      "\<forall>k. k \<notin> capability_key ` set (mf_Capabilities m) \<longrightarrow> get_key (MemoryRepo.caps (db w1)) k = get_key (MemoryRepo.caps (db w)) k"
    using capabilities.all_registered[OF vc, of 0 e w] by auto
  obtain w2 where t: "register_each (\<lambda>x. RegisterResourceType rs (default_type raw x)) (mf_ResourceTypes m) 0 e w1
      = ((length (mf_ResourceTypes m), None), w2)"
    and t1: "graph w2 = graph w1" "(db w2)\<lparr>resourceTypes := []\<rparr> = (db w1)\<lparr>resourceTypes := []\<rparr>"
      "\<forall>x \<in> set (mf_ResourceTypes m). \<exists>v. get_key (resourceTypes (db w2)) (type_name x) = Some v \<and> stored_type raw x v"
      "\<forall>k. k \<notin> type_name ` set (mf_ResourceTypes m) \<longrightarrow> get_key (resourceTypes (db w2)) k = get_key (resourceTypes (db w1)) k"
    using types.all_registered[OF vt, of raw 0 e w1] by auto
  obtain w3 where r: "register_each (\<lambda>x. RegisterRoleTemplate gs (default_role nobody x)) (mf_RoleTemplates m) 0 e w2
      = ((length (mf_RoleTemplates m), None), w3)"
    and r1: "graph w3 = graph w2" "(db w3)\<lparr>roles := []\<rparr> = (db w2)\<lparr>roles := []\<rparr>"
      "\<forall>x \<in> set (mf_RoleTemplates m). \<exists>v. get_key (roles (db w3)) (role_entry_key x) = Some v \<and> stored_template x v"
      "\<forall>k. k \<notin> role_entry_key ` set (mf_RoleTemplates m) \<longrightarrow> get_key (roles (db w3)) k = get_key (roles (db w2)) k"
    using templates.all_registered[OF vr, of nobody 0 e w2] by auto
  have same: "MemoryRepo.caps (db w3) = MemoryRepo.caps (db w2)" "MemoryRepo.caps (db w2) = MemoryRepo.caps (db w1)"
    "resourceTypes (db w3) = resourceTypes (db w2)" "resourceTypes (db w1) = resourceTypes (db w)"
    "roles (db w2) = roles (db w1)" "roles (db w1) = roles (db w)"
    using arg_cong[OF r1(2), of MemoryRepo.caps] arg_cong[OF t1(2), of MemoryRepo.caps]
      arg_cong[OF r1(2), of resourceTypes] arg_cong[OF c1(2), of resourceTypes] arg_cong[OF t1(2), of roles]
      arg_cong[OF c1(2), of roles] by simp_all
  have rest: "(db w3)\<lparr>caps := [], resourceTypes := [], roles := []\<rparr> = (db w)\<lparr>caps := [], resourceTypes := [], roles := []\<rparr>"
    using r1(2) t1(2) c1(2) by (cases "db w3"; cases "db w2"; cases "db w1"; cases "db w") simp
  have run: "reconcile_defaults nobody raw (Some m) services e w
      = ((\<lparr>dr_Capabilities = length (mf_Capabilities m), dr_ResourceTypes = length (mf_ResourceTypes m),
           dr_RoleTemplates = length (mf_RoleTemplates m)\<rparr>, None), w3)"
    using services by (simp add: reconcile_defaults_def Let_def bind_io_def c t r)
  show ?thesis using run rest same c1 t1 r1 by (intro exI[of _ w3]) simp
qed

end
