(* ===== verification/IdentityExamples.thy ===== *)
theory IdentityExamples
  imports IdentityLaws
begin

text \<open>
  Concrete runs of the identity layer: a provider that accepts everything, a dispatcher without an event
  table and without sagas, and the list store of theory Authz.  They witness that the hypotheses of the
  properties of theory IdentityLaws can hold.
\<close>

definition sample_user :: "string \<Rightarrow> string \<Rightarrow> string list \<Rightarrow> DirUser" where
  "sample_user ident org groups = \<lparr>us_ID = ident, us_OrgID = org, us_Groups = groups, us_ExternalID = [],
     us_Provider = ''casdoor'', us_Username = ident, us_DisplayName = ident, us_Email = [], us_Phone = [],
     us_Roles = [], us_Enabled = True\<rparr>"

definition sample_idp :: "DirGroup list \<Rightarrow> DirUser list \<Rightarrow> unit IdentityAdmin" where
  "sample_idp gs us = \<lparr>
     ia_CreateUser = (\<lambda>u _ p. (Inr u, p)), ia_UpdateUser = (\<lambda>u p. (Inr u, p)),
     ia_DeleteUser = (\<lambda>_ _ _ p. (Inr (), p)), ia_UpsertUser = (\<lambda>u p. (Inr u, p)),
     ia_DisableUser = (\<lambda>_ _ p. (Inr (), p)),
     ia_GetUser = (\<lambda>org u p. (Inr (sample_user u org []), p)),
     ia_FindUsers = (\<lambda>_ p. (Inr us, p)),
     ia_CreateOrganization = (\<lambda>x p. (Inr x, p)),
     ia_GetOrganization = (\<lambda>x p. (Inr \<lparr>og_ID = x, og_Name = x, og_ExternalID = [],
       og_DisplayName = x, og_OwnerID = [], og_ParentID = [], og_Tags = [], og_Enabled = True\<rparr>, p)),
     ia_UpdateOrganization = (\<lambda>x p. (Inr x, p)), ia_DeleteOrganization = (\<lambda>_ p. (Inr (), p)),
     ia_CreateApplication = (\<lambda>x p. (Inr x, p)),
     ia_GetApplication = (\<lambda>org x p. (Inr \<lparr>app_ID = x, app_OrgID = org\<rparr>, p)),
     ia_UpdateApplication = (\<lambda>x p. (Inr x, p)), ia_DeleteApplication = (\<lambda>_ _ p. (Inr (), p)),
     ia_CreateGroup = (\<lambda>g _ p. (Inr g, p)), ia_GetGroup = (\<lambda>_ _ p. (Inr zero_group, p)),
     ia_ListGroups = (\<lambda>_ p. (Inr gs, p)), ia_UpdateGroup = (\<lambda>g p. (Inr g, p)),
     ia_DeleteGroup = (\<lambda>_ _ _ p. (Inr (), p)), ia_AssignUserToGroup = (\<lambda>_ _ _ p. (Inr (), p)),
     ia_RemoveUserFromGroup = (\<lambda>_ _ _ p. (Inr (), p))\<rparr>"

definition sample_dispatcher :: "bool \<Rightarrow> (unit, Relationship list) Dispatcher" where
  "sample_dispatcher strict = \<lparr>idp_writer = Some (set_store strict []), idp_reader = Some (set_store strict []),
     idp_dtm = None, idp_db = None, idp_marshal = (\<lambda>_. Inr []), idp_unmarshal = (\<lambda>_. Inl (ErrExternal []))\<rparr>"

definition sample_proj :: "bool \<Rightarrow> (unit, unit, Relationship list) projecting_admin" where
  "sample_proj strict = \<lparr>pa_next = sample_idp [] [], pa_projection = Some (sample_dispatcher strict)\<rparr>"

definition sample_ienv :: identity_env where
  "sample_ienv = \<lparr>ie_clock = (\<lambda>_. 63900000000000000000), ie_rand = (\<lambda>_ n. Some (replicate n 7)),
     ie_kern = sample_kernel, ie_quote = (\<lambda>s. s),
     ie_principal = Some \<lparr>pn_SubjectType = ''user'', pn_SubjectID = ''u1''\<rparr>\<rparr>"

definition sample_iworld :: "Relationship list \<Rightarrow> (unit, unit, Relationship list) identity_world" where
  "sample_iworld g = \<lparr>iw_ticks = 0, iw_provider = (), iw_back = (), iw_graph = g\<rparr>"

definition sample_tuples :: "Relationship list" where
  "sample_tuples =
     [edge \<lparr>ob_Type = ''project'', ob_ID = ''p1''\<rparr> ''viewer'' (plain_user ''u1''),
      edge \<lparr>ob_Type = ''group'', ob_ID = ''g1''\<rparr> ''member'' (plain_user ''u1''),
      edge \<lparr>ob_Type = ''zone'', ob_ID = ''acme''\<rparr> ''member'' (plain_user ''u1''),
      edge \<lparr>ob_Type = ''project'', ob_ID = ''p1''\<rparr> ''viewer'' (plain_user ''u2'')]"

lemma sample_identity_direct: "direct_store (sample_dispatcher strict) (set_store strict []) set_tuples"
  by (simp add: direct_store_def saga_manager_def sample_dispatcher_def tuple_store_set_store)

lemma sample_projection: "pa_projection (sample_proj strict) = Some (sample_dispatcher strict)"
  by (simp add: sample_proj_def)

lemma sample_delete_runs:
  "fst (ida_DeleteUser (sample_proj True) ''acme'' ''u1'' True sample_ienv (sample_iworld sample_tuples)) = Inr ()"
  by code_simp

lemma sample_remove_runs:
  "fst (ida_RemoveUserFromGroup (sample_proj True) ''acme'' ''g1'' ''u1'' sample_ienv (sample_iworld sample_tuples)) = Inr ()"
  by code_simp

lemma run_split: "fst (m e w) = r \<Longrightarrow> m e w = (r, snd (m e w))"
  by (metis prod.collapse)

lemma run_Inr:
  assumes "\<not> isl (fst r)"
  obtains x w' where "r = (Inr x, w')"
  using assms by (cases r; cases "fst r") auto

lemma u1_plain: "TrimSpace ''u1'' = ''u1''" "TrimSpace ''g1'' = ''g1''" "TrimSpace ''acme'' = ''acme''"
  by (simp_all add: TrimSpace_visible visible_def)

lemma user_purged_witness:
  "\<exists>w'. ida_DeleteUser (sample_proj True) ''acme'' ''u1'' True sample_ienv (sample_iworld sample_tuples) = (Inr (), w')
    \<and> (\<lparr>ob_Type = ''project'', ob_ID = ''p1''\<rparr>, ''viewer'', plain_user ''u1'') \<notin> set_tuples (iw_graph w')
    \<and> (\<lparr>ob_Type = ''project'', ob_ID = ''p1''\<rparr>, ''viewer'', plain_user ''u2'') \<in> set_tuples (iw_graph w')"
proof -
  let ?run = "ida_DeleteUser (sample_proj True) ''acme'' ''u1'' True sample_ienv (sample_iworld sample_tuples)"
  have run: "?run = (Inr (), snd ?run)" using sample_delete_runs by (rule run_split)
  have kept: "(\<lparr>ob_Type = ''project'', ob_ID = ''p1''\<rparr>, ''viewer'', plain_user ''u2'')
      \<in> set_tuples (iw_graph (sample_iworld sample_tuples))"
    by (simp add: sample_iworld_def sample_tuples_def set_tuples_def rel_key_def)
  have run': "(if False then ida_DisableUser (sample_proj True) ''acme'' ''u1''
      else ida_DeleteUser (sample_proj True) ''acme'' ''u1'' True) sample_ienv
      (sample_iworld sample_tuples) = (Inr (), snd ?run)" using run by simp
  let ?A = "set_tuples (iw_graph (sample_iworld sample_tuples))" and ?B = "set_tuples (iw_graph (snd ?run))"
  note P = user_purged[OF sample_identity_direct sample_projection u1_plain(1) _ run']
  have gone: "\<forall>(ob, r, s) \<in> ?B. ob_Type ob = ''project'' \<longrightarrow> s \<noteq> plain_user ''u1''"
    using P[THEN conjunct1] by fastforce
  have lost: "\<forall>(ob, r, s) \<in> ?A - ?B. su_Type s = ''user'' \<and> su_ID s = ''u1''"
    by (rule P[THEN conjunct2, THEN conjunct2, THEN conjunct1]) simp
  have "(\<lparr>ob_Type = ''project'', ob_ID = ''p1''\<rparr>, ''viewer'', plain_user ''u1'') \<notin> ?B"
    using gone by auto
  moreover have "(\<lparr>ob_Type = ''project'', ob_ID = ''p1''\<rparr>, ''viewer'', plain_user ''u2'') \<in> ?B"
  proof (rule ccontr)
    assume "(\<lparr>ob_Type = ''project'', ob_ID = ''p1''\<rparr>, ''viewer'', plain_user ''u2'') \<notin> ?B"
    with kept lost have "su_ID (plain_user ''u2'') = ''u1''" by fast
    then show False by (simp add: plain_user_def)
  qed
  ultimately show ?thesis using run by metis
qed

lemma membership_removed_witness:
  "\<exists>w'. ida_RemoveUserFromGroup (sample_proj True) ''acme'' ''g1'' ''u1'' sample_ienv (sample_iworld sample_tuples)
      = (Inr (), w')
    \<and> (\<lparr>ob_Type = ''group'', ob_ID = ''g1''\<rparr>, ''member'', plain_user ''u1'') \<notin> set_tuples (iw_graph w')
    \<and> (\<lparr>ob_Type = ''zone'', ob_ID = ''acme''\<rparr>, ''member'', plain_user ''u1'') \<notin> set_tuples (iw_graph w')"
proof -
  let ?run = "ida_RemoveUserFromGroup (sample_proj True) ''acme'' ''g1'' ''u1'' sample_ienv (sample_iworld sample_tuples)"
  have run: "?run = (Inr (), snd ?run)" using sample_remove_runs by (rule run_split)
  have calls: "ia_RemoveUserFromGroup (pa_next (sample_proj True)) ''acme'' ''g1'' ''u1''
      (iw_provider (sample_iworld sample_tuples)) = (Inr (), ())"
    "ia_ListGroups (pa_next (sample_proj True)) \<lparr>gf_OrgID = ''acme'', gf_UserID = ''u1'', gf_Limit = 1000,
        gf_ParentID = [], gf_Type = []\<rparr> () = (Inr [], ())"
    by (simp_all add: sample_proj_def sample_idp_def)
  show ?thesis
    using membership_removed[OF sample_identity_direct sample_projection u1_plain(2,1,3) _ _ calls run] run by auto
qed

lemma group_delete_blocked_witness:
  "\<exists>er w'. ida_DeleteGroup (sample_proj True) ''acme'' ''g1'' True sample_ienv (sample_iworld sample_tuples) = (Inl er, w')"
proof -
  have d: "saga_manager (sample_dispatcher True) = None"
    "idp_writer (sample_dispatcher True) = Some (set_store True [])"
    by (simp_all add: saga_manager_def sample_dispatcher_def)
  have "ia_DeleteGroup (pa_next (sample_proj True)) ''acme'' ''g1'' True (iw_provider (sample_iworld sample_tuples)) = (Inr (), ())"
    by (simp add: sample_proj_def sample_idp_def)
  from group_delete_blocked[OF d refuses_untyped_set_store sample_projection _ this, of sample_ienv]
  show ?thesis by (auto simp: u1_plain)
qed

text \<open>A zone with one group and one user, none of it projected yet.\<close>

definition sample_groups :: "DirGroup list" where
  "sample_groups = [zero_group\<lparr>gp_ID := ''g1'', gp_OrgID := ''acme'', gp_Users := [''u1'']\<rparr>]"

definition sample_users :: "DirUser list" where
  "sample_users = [sample_user ''u1'' ''acme'' [''g1'']]"

definition sample_ops :: "(unit, unit, Relationship list) DirectoryProjectionOps" where
  "sample_ops = \<lparr>dop_Identity = Some (sample_idp sample_groups sample_users),
     dop_Authz = Some (set_store True []), dop_Projection = Some (sample_dispatcher True)\<rparr>"

definition sample_reconciled :: "(unit, unit, Relationship list) identity_world" where
  "sample_reconciled = snd (Reconcile (Some sample_ops) ''acme'' ''reconcile'' sample_ienv (sample_iworld []))"

lemma sample_reconcile_runs:
  "fst (Reconcile (Some sample_ops) ''acme'' ''reconcile'' sample_ienv (sample_iworld []))
    = Inr \<lparr>rc_Status = ''submitted'', rc_Relationships = 4\<rparr>"
  "\<not> isl (fst (Drift (Some sample_ops) ''acme'' sample_ienv sample_reconciled))"
  by code_simp+

lemma reconcile_leaves_no_drift_witness:
  "\<exists>cd w'. Drift (Some sample_ops) ''acme'' sample_ienv sample_reconciled = (Inr cd, w')
    \<and> cd_Missing cd = 0 \<and> cd_Desired cd = 4"
proof -
  have rec: "Reconcile (Some sample_ops) ''acme'' ''reconcile'' sample_ienv (sample_iworld [])
      = (Inr \<lparr>rc_Status = ''submitted'', rc_Relationships = 4\<rparr>, sample_reconciled)"
    using run_split[of "Reconcile (Some sample_ops) ''acme'' ''reconcile''", OF sample_reconcile_runs(1)]
    by (simp add: sample_reconciled_def)
  obtain cd w' where drift: "Drift (Some sample_ops) ''acme'' sample_ienv sample_reconciled = (Inr cd, w')"
    by (rule run_Inr[OF sample_reconcile_runs(2)])
  have ops: "dop_Identity sample_ops = Some (sample_idp sample_groups sample_users)"
    "dop_Projection sample_ops = Some (sample_dispatcher True)" "dop_Authz sample_ops = Some (set_store True [])"
    by (simp_all add: sample_ops_def)
  have listed: "directory_lists (sample_idp sample_groups sample_users) ''acme'' (iw_provider (sample_iworld []))
      sample_groups sample_users"
    by (simp add: directory_lists_def sample_idp_def)
  from reconcile_leaves_no_drift[OF sample_identity_direct ops u1_plain(3) _ listed rec drift]
  show ?thesis using drift by auto
qed

lemma stable_group_id_witness:
  "(\<exists>h. newGroupID (Some (replicate 16 7)) 0 = ''grp_'' @ h \<and> length h = 32)
    \<and> (\<exists>h. newGroupID None 62135596800000000255 = ''grp_'' @ h \<and> length h = 16 \<and> hex_value h = 255)"
proof
  show "\<exists>h. newGroupID (Some (replicate 16 7)) 0 = ''grp_'' @ h \<and> length h = 32"
    using stable_group_id[of "Some (replicate 16 7)" 0] by auto
  have "UnixNano 62135596800000000255 = 255" by (simp add: UnixNano_def wrap64_def)
  then show "\<exists>h. newGroupID None 62135596800000000255 = ''grp_'' @ h \<and> length h = 16 \<and> hex_value h = 255"
    using stable_group_id[of None 62135596800000000255] by auto
qed

definition sample_new_group :: DirGroup where
  "sample_new_group = zero_group\<lparr>gp_OrgID := ''acme'', gp_ExternalID := ''devs'', gp_ParentID := ''g1''\<rparr>"

text \<open>The list store accepts every write.\<close>

lemma sample_applies:
  "\<exists>wr g'. ApplyIdentityAuthZProjection K (Some (set_store strict [])) \<lparr>ip_Operation = OperationUp,
      ip_Relationships = rs, ip_Filters = []\<rparr> g = ((wr, None), g')"
  by (simp add: ApplyIdentityAuthZProjection_def normalize_write set_store_def)

lemma sample_submits:
  "\<exists>w'. idn_submit (sample_dispatcher strict) ident \<lparr>ip_Operation = OperationUp,
      ip_Relationships = rs, ip_Filters = []\<rparr> e w = (Inr (), w')"
  using sample_applies[of "ie_kern e" strict rs "iw_graph w"]
  by (auto simp: idn_submit_def ApplyBranch_def idn_mark_def idn_done_def sample_dispatcher_def saga_manager_def
      on_tuples_def bind_io_def Let_def)

lemma sample_writes:
  "\<exists>w'. projectWrite (sample_proj strict) s t i rels e w = (Inr (), w')"
proof -
  have "idp_writer (sample_dispatcher strict) \<noteq> None" "idp_db (sample_dispatcher strict) = None"
    by (simp_all add: sample_dispatcher_def)
  then show ?thesis
    by (simp add: projectWrite_def sample_projection idn_Dispatch_def idn_record_def normalize_write i_id_def
        bind_io_def asks_def) (intro impI sample_submits)
qed

lemma sample_write_bind:
  "\<exists>w'. bindE (projectWrite (sample_proj strict) s t i rels) f e w = f () e w'"
proof -
  obtain w' where "projectWrite (sample_proj strict) s t i rels e w = (Inr (), w')"
    using sample_writes[of strict s t i rels e w] by (rule exE)
  then show ?thesis by (intro exI[of _ w'] bindE_run)
qed

lemma sample_create_group_runs:
  "\<exists>g w'. ida_CreateGroup (sample_proj strict) req ikey e w = (Inr g, w')"
proof -
  have next_group: "ia_CreateGroup (pa_next (sample_proj strict)) = (\<lambda>g _ p. (Inr g, p))"
    by (simp add: sample_proj_def sample_idp_def)
  have "\<exists>g w'. bindE (projectWrite (sample_proj strict) s t i rels) (\<lambda>_. okE g0) e w1 = (Inr g, w')"
    for s t i rels w1 and g0 :: DirGroup
    using sample_write_bind[of strict s t i rels "\<lambda>_. okE g0" e w1] by auto
  then show ?thesis
    by (simp add: ida_CreateGroup_def i_id_def bind_io_def bindE_def[of "on_provider _"] on_provider_def next_group
        asks_def Let_def)
qed

lemma group_created_witness:
  "\<exists>g w'. ida_CreateGroup (sample_proj True) sample_new_group [] sample_ienv (sample_iworld []) = (Inr g, w')
    \<and> gp_ExternalID g = ''devs''
    \<and> set_tuples (iw_graph w') = set (group_tuples (gp_ID g) ''acme'' ''g1''
        \<lparr>pn_SubjectType = ''user'', pn_SubjectID = ''u1''\<rparr>)"
proof -
  obtain g w' where run: "ida_CreateGroup (sample_proj True) sample_new_group [] sample_ienv (sample_iworld []) = (Inr g, w')"
    using sample_create_group_runs by blast
  have a: "echoes_groups (pa_next (sample_proj True))" by (simp add: echoes_groups_def sample_proj_def sample_idp_def)
  have K: "zero_is_blank (ie_kern sample_ienv)" by (simp add: zero_is_blank_def sample_ienv_def sample_kernel_def)
  have b: "ie_rand sample_ienv (iw_ticks (sample_iworld [])) 16 = Some (replicate 16 7)" by (simp add: sample_ienv_def)
  have ids: "plain_id (gp_OrgID sample_new_group)"
    "gp_ParentID sample_new_group = [] \<or> plain_id (gp_ParentID sample_new_group)"
    "plain_id (pn_SubjectID \<lparr>pn_SubjectType = ''user'', pn_SubjectID = ''u1''\<rparr>)"
    by (simp_all add: sample_new_group_def plain_id_def u1_plain)
  have owner: "ie_principal sample_ienv = Some \<lparr>pn_SubjectType = ''user'', pn_SubjectID = ''u1''\<rparr>"
    by (simp add: sample_ienv_def)
  from group_created[OF sample_identity_direct sample_projection a K b _ ids(1,2) owner ids(3) run] run
  show ?thesis by (auto simp: sample_new_group_def sample_iworld_def set_tuples_def)
qed

end
