(* ===== verification/GroupMetadata.thy ===== *)
theory GroupMetadata
  imports IdentityMode
begin

text \<open>
  The IAM-side metadata of groups (internal/data/group_metadata.go): the provider keeps the stable
  identifier of a group as its name, so the machine name and the other details that the provider
  drops live in the table \<open>iam_groups\<close>.  \<open>BindGroupMetadata\<close> decorates a provider with it.

  The table is reached through the third-party layer dbx; the record \<open>group_table\<close> holds its three
  statements and the clock on the state \<open>'p\<close> that it shares with the provider.
\<close>

record GroupModel =
  gm_ID :: string
  gm_OrgID :: string
  gm_ParentID :: string
  gm_Name :: string
  gm_DisplayName :: string
  gm_CasdoorName :: string
  gm_Type :: string
  gm_Status :: string
  gm_CreatedAt :: gotime
  gm_UpdatedAt :: gotime
  gm_DeletedAt :: "gotime option"

text \<open>
  \<open>gt_SafeUpsert m cols\<close> inserts the row or updates the columns of the row with the same key;
  \<open>gt_FindMany org status\<close> and \<open>gt_Update org ident\<close> have the two conditions of their statements.
\<close>

record 'p group_table =
  gt_now :: "'p \<Rightarrow> gotime \<times> 'p"
  gt_SafeUpsert :: "GroupModel \<Rightarrow> string list \<Rightarrow> 'p \<Rightarrow> (err + unit) \<times> 'p"
  gt_FindMany :: "string \<Rightarrow> string \<Rightarrow> 'p \<Rightarrow> (err + GroupModel list) \<times> 'p"
  gt_Update :: "string \<Rightarrow> string \<Rightarrow> (string \<times> column) list \<Rightarrow> 'p \<Rightarrow> (err + unit) \<times> 'p"

subsection \<open>The repository\<close>

record 'p GroupMetadataRepository =
  gmr_now :: "'p \<Rightarrow> gotime \<times> 'p"
  gmr_SaveGroup :: "GroupModel \<Rightarrow> 'p \<Rightarrow> (err + unit) \<times> 'p"
  gmr_ListGroupMetadata :: "string \<Rightarrow> 'p \<Rightarrow> (err + GroupModel list) \<times> 'p"
  gmr_ArchiveGroup :: "string \<Rightarrow> string \<Rightarrow> 'p \<Rightarrow> (err + unit) \<times> 'p"

definition saved_columns :: "string list" where
  "saved_columns = [''parent_id'', ''name'', ''display_name'', ''casdoor_name'', ''type'',
     ''status'', ''updated_at'', ''deleted_at'']"

definition SaveGroup :: "'p group_table \<Rightarrow> GroupModel \<Rightarrow> 'p \<Rightarrow> (err + unit) \<times> 'p" where
  "SaveGroup tbl grp = gt_SafeUpsert tbl grp saved_columns"

definition ListGroupMetadata :: "'p group_table \<Rightarrow> string \<Rightarrow> 'p \<Rightarrow> (err + GroupModel list) \<times> 'p" where
  "ListGroupMetadata tbl orgID = gt_FindMany tbl orgID StatusActive"

definition ArchiveGroup :: "'p group_table \<Rightarrow> string \<Rightarrow> string \<Rightarrow> 'p \<Rightarrow> (err + unit) \<times> 'p" where
  "ArchiveGroup tbl orgID groupID p =
     (case gt_now tbl p of
        (now, p) \<Rightarrow> gt_Update tbl orgID groupID
          [(''status'', ColString StatusArchived), (''deleted_at'', ColTime now), (''updated_at'', ColTime now)] p)"

definition NewGroupMetadataRepository :: "'p group_table \<Rightarrow> 'p GroupMetadataRepository" where
  "NewGroupMetadataRepository tbl =
     \<lparr>gmr_now = gt_now tbl, gmr_SaveGroup = SaveGroup tbl, gmr_ListGroupMetadata = ListGroupMetadata tbl,
      gmr_ArchiveGroup = ArchiveGroup tbl\<rparr>"

subsection \<open>Metadata and groups\<close>

text \<open>\<open>firstGroupValue\<close> is the same function as \<open>firstNonEmpty\<close> of identity\_mode.go.\<close>

primrec firstGroupValue :: "string list \<Rightarrow> string" where
  "firstGroupValue [] = []"
| "firstGroupValue (v # vs) = (if TrimSpace v \<noteq> [] then TrimSpace v else firstGroupValue vs)"

definition groupMetadataModel :: "gotime \<Rightarrow> DirGroup \<Rightarrow> DirGroup \<Rightarrow> GroupModel" where
  "groupMetadataModel now grp requested =
     (let ident = firstGroupValue [gp_ID grp, gp_ID requested, gp_Name grp, gp_Name requested];
          providerName = firstGroupValue [gp_Name grp, gp_Name requested, ident];
          externalID0 = firstGroupValue [gp_ExternalID requested, gp_ExternalID grp];
          externalID = (if externalID0 = [] \<or> externalID0 = ident then ident else externalID0)
      in \<lparr>gm_ID = ident, gm_OrgID = firstGroupValue [gp_OrgID grp, gp_OrgID requested],
          gm_ParentID = gp_ParentID requested, gm_Name = externalID,
          gm_DisplayName = firstGroupValue [gp_DisplayName requested, gp_DisplayName grp, externalID],
          gm_CasdoorName = providerName,
          gm_Type = firstGroupValue [gp_Type requested, gp_Type grp, ''Physical''],
          gm_Status = StatusActive, gm_CreatedAt = now, gm_UpdatedAt = now, gm_DeletedAt = None\<rparr>)"

definition decorateGroupMetadata :: "DirGroup \<Rightarrow> GroupModel \<Rightarrow> DirGroup" where
  "decorateGroupMetadata grp m =
     grp\<lparr>gp_ID := firstGroupValue [gp_ID grp, gm_ID m],
         gp_ExternalID := firstGroupValue [gm_Name m, gp_ExternalID grp],
         gp_OrgID := firstGroupValue [gm_OrgID m, gp_OrgID grp],
         gp_ParentID := gm_ParentID m,
         gp_DisplayName := firstGroupValue [gm_DisplayName m, gp_DisplayName grp],
         gp_Type := firstGroupValue [gm_Type m, gp_Type grp]\<rparr>"

text \<open>Go's map of the rows under their trimmed identifiers and provider names; later rows win.\<close>

definition put_metadata :: "GroupModel \<Rightarrow> string \<Rightarrow> GroupModel gomap \<Rightarrow> GroupModel gomap" where
  "put_metadata m k out = (let k = TrimSpace k in if k \<noteq> [] then put_key k m out else out)"

definition metadata_map :: "GroupModel list \<Rightarrow> GroupModel gomap" where
  "metadata_map ms =
     foldl (\<lambda>out m. put_metadata m (gm_CasdoorName m) (put_metadata m (gm_ID m) out)) [] ms"

definition metadataByProviderID ::
    "'p GroupMetadataRepository \<Rightarrow> string \<Rightarrow> 'p \<Rightarrow> (err + GroupModel gomap) \<times> 'p" where
  "metadataByProviderID repo orgID p =
     (case gmr_ListGroupMetadata repo orgID p of
        (Inl _, p) \<Rightarrow> (Inl (ErrIdentityBackendFailed ''list IAM group metadata failed''), p)
      | (Inr ms, p) \<Rightarrow> (Inr (metadata_map ms), p))"

definition lookupGroupMetadata :: "GroupModel gomap \<Rightarrow> DirGroup \<Rightarrow> GroupModel option" where
  "lookupGroupMetadata metadata grp =
     (case get_key metadata (TrimSpace (gp_ID grp)) of
        Some m \<Rightarrow> Some m
      | None \<Rightarrow> get_key metadata (TrimSpace (gp_Name grp)))"

definition decorated :: "GroupModel gomap \<Rightarrow> DirGroup \<Rightarrow> DirGroup" where
  "decorated metadata grp =
     (case lookupGroupMetadata metadata grp of None \<Rightarrow> grp | Some m \<Rightarrow> decorateGroupMetadata grp m)"

subsection \<open>The decorated provider\<close>

definition save_metadata ::
    "'p GroupMetadataRepository \<Rightarrow> DirGroup \<Rightarrow> GroupModel \<Rightarrow> 'p \<Rightarrow> (err + DirGroup) \<times> 'p" where
  "save_metadata repo grp m p =
     (case gmr_SaveGroup repo m p of
        (Inl _, p) \<Rightarrow> (Inl (ErrIdentityBackendFailed ''persist IAM group metadata failed''), p)
      | (Inr _, p) \<Rightarrow> (Inr (decorateGroupMetadata grp m), p))"

definition meta_CreateGroup ::
    "'p IdentityAdmin \<Rightarrow> 'p GroupMetadataRepository \<Rightarrow> DirGroup \<Rightarrow> string \<Rightarrow> 'p \<Rightarrow> (err + DirGroup) \<times> 'p" where
  "meta_CreateGroup a repo req idempotencyKey p =
     (case ia_CreateGroup a req idempotencyKey p of
        (Inl er, p) \<Rightarrow> (Inl er, p)
      | (Inr grp, p) \<Rightarrow>
          (case gmr_now repo p of (now, p) \<Rightarrow> save_metadata repo grp (groupMetadataModel now grp req) p))"

definition meta_GetGroup ::
    "'p IdentityAdmin \<Rightarrow> 'p GroupMetadataRepository \<Rightarrow> string \<Rightarrow> string \<Rightarrow> 'p \<Rightarrow> (err + DirGroup) \<times> 'p" where
  "meta_GetGroup a repo orgID groupID p =
     (case ia_GetGroup a orgID groupID p of
        (Inl er, p) \<Rightarrow> (Inl er, p)
      | (Inr grp, p) \<Rightarrow>
          (case metadataByProviderID repo orgID p of
             (Inl er, p) \<Rightarrow> (Inl er, p)
           | (Inr metadata, p) \<Rightarrow> (Inr (decorated metadata grp), p)))"

definition meta_ListGroups ::
    "'p IdentityAdmin \<Rightarrow> 'p GroupMetadataRepository \<Rightarrow> GroupFilter \<Rightarrow> 'p \<Rightarrow> (err + DirGroup list) \<times> 'p" where
  "meta_ListGroups a repo flt p =
     (case ia_ListGroups a flt p of
        (Inl er, p) \<Rightarrow> (Inl er, p)
      | (Inr groups, p) \<Rightarrow>
          (case metadataByProviderID repo (gf_OrgID flt) p of
             (Inl er, p) \<Rightarrow> (Inl er, p)
           | (Inr metadata, p) \<Rightarrow> (Inr (map (decorated metadata) groups), p)))"

definition meta_UpdateGroup ::
    "'p IdentityAdmin \<Rightarrow> 'p GroupMetadataRepository \<Rightarrow> DirGroup \<Rightarrow> 'p \<Rightarrow> (err + DirGroup) \<times> 'p" where
  "meta_UpdateGroup a repo req p =
     (case metadataByProviderID repo (gp_OrgID req) p of
        (Inl er, p) \<Rightarrow> (Inl er, p)
      | (Inr metadata, p) \<Rightarrow>
          (case ia_UpdateGroup a req p of
             (Inl er, p) \<Rightarrow> (Inl er, p)
           | (Inr grp, p) \<Rightarrow>
               (case gmr_now repo p of
                  (now, p) \<Rightarrow>
                    let m = groupMetadataModel now grp req;
                        m' = (if TrimSpace (gp_ExternalID req) = []
                              then case lookupGroupMetadata metadata grp of
                                     None \<Rightarrow> m
                                   | Some existing \<Rightarrow> m\<lparr>gm_Name := gm_Name existing, gm_CreatedAt := gm_CreatedAt existing\<rparr>
                              else m)
                    in save_metadata repo grp m' p)))"

definition meta_DeleteGroup ::
    "'p IdentityAdmin \<Rightarrow> 'p GroupMetadataRepository \<Rightarrow> string \<Rightarrow> string \<Rightarrow> bool \<Rightarrow> 'p \<Rightarrow> (err + unit) \<times> 'p" where
  "meta_DeleteGroup a repo orgID groupID recursive p =
     (case ia_DeleteGroup a orgID groupID recursive p of
        (Inl er, p) \<Rightarrow> (Inl er, p)
      | (Inr _, p) \<Rightarrow>
          (case gmr_ArchiveGroup repo orgID groupID p of
             (Inl _, p) \<Rightarrow> (Inl (ErrIdentityBackendFailed ''archive IAM group metadata failed''), p)
           | (Inr _, p) \<Rightarrow> (Inr (), p)))"

text \<open>The methods that \<open>groupMetadataIdentityAdmin\<close> replaces; it passes on all others.\<close>

definition groupMetadataIdentityAdmin :: "'p IdentityAdmin \<Rightarrow> 'p GroupMetadataRepository \<Rightarrow> 'p IdentityAdmin" where
  "groupMetadataIdentityAdmin a repo = a\<lparr>
     ia_CreateGroup := meta_CreateGroup a repo, ia_GetGroup := meta_GetGroup a repo,
     ia_ListGroups := meta_ListGroups a repo, ia_UpdateGroup := meta_UpdateGroup a repo,
     ia_DeleteGroup := meta_DeleteGroup a repo\<rparr>"

definition BindGroupMetadata ::
    "'p IdentityAdmin option \<Rightarrow> 'p GroupMetadataRepository option \<Rightarrow> 'p IdentityAdmin option" where
  "BindGroupMetadata next_admin repo =
     (case (next_admin, repo) of
        (Some a, Some r) \<Rightarrow> Some (groupMetadataIdentityAdmin a r)
      | _ \<Rightarrow> next_admin)"

end
