(* ===== verification/DirectoryApi.thy ===== *)
theory DirectoryApi
  imports GrantApi GroupMetadata SchemaBootstrap
begin

text \<open>
  The token and directory services (internal/service/iam.go, iam\_external.go, directory\_group.go) with
  the conversions of groups, users and organizations that they share with the administration services.

  A service holds three providers, each of which may be nil: the token service, the identity
  provider (theory IdentityMode) and the authorization provider of the kernel.  They act on one
  state \<open>'w\<close>; how it is put together does not matter to the services.
\<close>

subsection \<open>Providers and context\<close>

record AuthnPrincipal = ApiPrincipal +
  ap_Provider :: string
  ap_ExternalID :: string
  ap_Issuer :: string
  ap_Audience :: "string list"
  ap_TenantID :: string
  ap_AppID :: string
  ap_ProjectID :: string
  ap_Username :: string
  ap_Name :: string
  ap_Email :: string
  ap_Phone :: string
  ap_Roles :: "string list"
  ap_Groups :: "string list"
  ap_Scopes :: "string list"
  ap_AuthMethod :: string
  ap_IssuedAt :: gotime
  ap_ExpiresAt :: gotime

record VerifyTokenRequest =
  vt_Token :: string
  vt_TokenType :: string
  vt_OrgID :: string
  vt_AppID :: string

type_synonym 'w token_service = "VerifyTokenRequest \<Rightarrow> 'w \<Rightarrow> (err + AuthnPrincipal) \<times> 'w"

record LookupResourcesRequest =
  lk_Subject :: SubjectRef
  lk_ResourceType :: string
  lk_Permission :: string
  lk_Limit :: int
  lk_Cursor :: string

record LookupSubjectsRequest =
  lj_Resource :: ObjectRef
  lj_Permission :: string
  lj_SubjectType :: string
  lj_Limit :: int
  lj_Cursor :: string

text \<open>The results of the lookups are the references, the next cursor and the consistency token.\<close>

record 'w AdminProvider =
  adm_Check :: "'w authorizer"
  adm_BatchCheck :: "CheckRequest list \<Rightarrow> 'w \<Rightarrow> (err + Decision list) \<times> 'w"
  adm_Relationships :: "'w store"
  adm_LookupResources :: "LookupResourcesRequest \<Rightarrow> 'w \<Rightarrow> (err + ObjectRef list \<times> string \<times> string) \<times> 'w"
  adm_LookupSubjects :: "LookupSubjectsRequest \<Rightarrow> 'w \<Rightarrow> (err + SubjectRef list \<times> string \<times> string) \<times> 'w"
  adm_Schema :: "'w SchemaManager"
  adm_SchemaVersion :: "'w \<Rightarrow> string"

record 'w IAMDeps =
  dep_Tokens :: "'w token_service option"
  dep_Identity :: "'w IdentityAdmin option"
  dep_Authz :: "'w AdminProvider option"

text \<open>The context of a request: the kernel's functions and the principal, when there is one.\<close>

record svc_env =
  sv_kern :: kernel
  sv_principal :: "AuthnPrincipal option"
  sv_normalize :: "AuthnPrincipal \<Rightarrow> AuthnPrincipal"

type_synonym ('w, 'a) svc = "(svc_env, 'w, 'a) eio"

definition calls :: "('w \<Rightarrow> (err + 'a) \<times> 'w) \<Rightarrow> ('w, 'a) svc" where
  "calls f = (\<lambda>e. f)"

definition no_token_provider :: err where
  "no_token_provider = ErrIdentityBackendFailed ''token provider is not configured''"

definition no_identity_provider :: err where
  "no_identity_provider = ErrIdentityBackendFailed ''identity provider is not configured''"

definition no_authz_provider :: err where
  "no_authz_provider = ErrBackendFailed ''authz provider is not configured''"

text \<open>\<open>if p == nil { return nil, e }\<close> before the rest.\<close>

definition need :: "err \<Rightarrow> 'x option \<Rightarrow> ('x \<Rightarrow> ('w, 'a) svc) \<Rightarrow> ('w, 'a) svc" where
  "need er p f = (case p of None \<Rightarrow> failE er | Some x \<Rightarrow> f x)"

subsection \<open>Messages and conversions\<close>

record PrincipalMsg =
  np_SubjectId :: string
  np_SubjectType :: string
  np_Provider :: string
  np_ExternalId :: string
  np_Issuer :: string
  np_Audience :: "string list"
  np_TenantId :: string
  np_OrgId :: string
  np_AppId :: string
  np_ProjectId :: string
  np_Username :: string
  np_Name :: string
  np_Email :: string
  np_Phone :: string
  np_Roles :: "string list"
  np_Groups :: "string list"
  np_Scopes :: "string list"
  np_AuthMethod :: string
  np_IssuedAt :: gotime
  np_ExpiresAt :: gotime

record UserMsg =
  nu_Id :: string
  nu_ExternalId :: string
  nu_Provider :: string
  nu_OrgId :: string
  nu_Username :: string
  nu_DisplayName :: string
  nu_Email :: string
  nu_Phone :: string
  nu_Roles :: "string list"
  nu_Groups :: "string list"
  nu_Enabled :: bool

record OrganizationMsg =
  no_Id :: string
  no_ExternalId :: string
  no_Name :: string
  no_DisplayName :: string
  no_OwnerId :: string
  no_ParentId :: string
  no_Tags :: "string list"
  no_Enabled :: bool

record DirGroupMsg =
  ng_Id :: string
  ng_ExternalId :: string
  ng_OrgId :: string
  ng_ParentId :: "string option"
  ng_Name :: string
  ng_DisplayName :: string
  ng_Type :: string
  ng_Path :: string
  ng_Users :: "string list"

definition principalToProto :: "(AuthnPrincipal \<Rightarrow> AuthnPrincipal) \<Rightarrow> AuthnPrincipal \<Rightarrow> PrincipalMsg" where
  "principalToProto nrm p =
     (let p = nrm p in
      \<lparr>np_SubjectId = ap_SubjectID p, np_SubjectType = ap_SubjectType p, np_Provider = ap_Provider p,
       np_ExternalId = ap_ExternalID p, np_Issuer = ap_Issuer p, np_Audience = ap_Audience p,
       np_TenantId = ap_TenantID p, np_OrgId = ap_OrgID p, np_AppId = ap_AppID p,
       np_ProjectId = ap_ProjectID p, np_Username = ap_Username p, np_Name = ap_Name p,
       np_Email = ap_Email p, np_Phone = ap_Phone p, np_Roles = ap_Roles p, np_Groups = ap_Groups p,
       np_Scopes = ap_Scopes p, np_AuthMethod = ap_AuthMethod p, np_IssuedAt = ap_IssuedAt p,
       np_ExpiresAt = ap_ExpiresAt p\<rparr>)"

definition userToProto :: "DirUser \<Rightarrow> UserMsg" where
  "userToProto u =
     \<lparr>nu_Id = us_ID u, nu_ExternalId = us_ExternalID u, nu_Provider = us_Provider u, nu_OrgId = us_OrgID u,
      nu_Username = us_Username u, nu_DisplayName = us_DisplayName u, nu_Email = us_Email u,
      nu_Phone = us_Phone u, nu_Roles = us_Roles u, nu_Groups = us_Groups u, nu_Enabled = us_Enabled u\<rparr>"

definition usersToProto :: "DirUser list \<Rightarrow> UserMsg list" where
  "usersToProto us = map userToProto us"

definition organizationToProto :: "Organization \<Rightarrow> OrganizationMsg" where
  "organizationToProto g =
     \<lparr>no_Id = og_ID g, no_ExternalId = og_ExternalID g, no_Name = og_Name g, no_DisplayName = og_DisplayName g,
      no_OwnerId = og_OwnerID g, no_ParentId = og_ParentID g, no_Tags = og_Tags g, no_Enabled = og_Enabled g\<rparr>"

definition groupToProto :: "DirGroup \<Rightarrow> DirGroupMsg" where
  "groupToProto g =
     (let name = (if gp_ExternalID g = [] then gp_ID g else gp_ExternalID g) in
      \<lparr>ng_Id = gp_ID g, ng_ExternalId = gp_ExternalID g, ng_OrgId = gp_OrgID g,
       ng_ParentId = (if gp_ParentID g \<noteq> [] then Some (gp_ParentID g) else None), ng_Name = name,
       ng_DisplayName = gp_DisplayName g, ng_Type = gp_Type g, ng_Path = gp_Path g, ng_Users = gp_Users g\<rparr>)"

definition groupsToProto :: "DirGroup list \<Rightarrow> DirGroupMsg list" where
  "groupsToProto gs = map groupToProto gs"

subsection \<open>Tokens\<close>

definition svc_VerifyToken :: "'w IAMDeps \<Rightarrow> VerifyTokenRequest \<Rightarrow> ('w, PrincipalMsg) svc" where
  "svc_VerifyToken d req =
     need no_token_provider (dep_Tokens d) (\<lambda>tokens.
     bindE (calls (tokens req)) (\<lambda>principal.
     bind_io (asks (\<lambda>e w. sv_normalize e)) (\<lambda>nrm.
     okE (principalToProto nrm principal))))"

definition gateway_required :: err where
  "gateway_required = ErrMissingCredential ''gateway principal is required''"

definition gateway_principal :: "('w, AuthnPrincipal) svc" where
  "gateway_principal =
     bind_io (asks (\<lambda>e w. sv_principal e)) (\<lambda>pn.
     case pn of None \<Rightarrow> failE gateway_required
     | Some p \<Rightarrow> if ap_Authenticated p then okE p else failE gateway_required)"

text \<open>Only the principal of the reply is ever set.\<close>

definition GetMe :: "('w, PrincipalMsg) svc" where
  "GetMe =
     bindE gateway_principal (\<lambda>p.
     bind_io (asks (\<lambda>e w. sv_normalize e)) (\<lambda>nrm.
     okE (principalToProto nrm p)))"

text \<open>
  The header \<open>Authorization\<close>: \<open>None\<close> without a transport, the empty text when it is missing.
\<close>

definition bearerTokenFromContext :: "string option \<Rightarrow> err + string" where
  "bearerTokenFromContext header =
     (case header of
        None \<Rightarrow> Inl (ErrNew ''no transport context'')
      | Some auth \<Rightarrow>
          if auth = [] then Inl (ErrNew ''missing Authorization header'')
          else case split_first CHR '' '' auth of
                 None \<Rightarrow> Inl (ErrNew ''invalid Authorization header format'')
               | Some (scheme, token) \<Rightarrow>
                   if \<not> EqualFold scheme ''Bearer'' \<or> token = []
                   then Inl (ErrNew ''invalid Authorization header format'')
                   else Inr (TrimSpace token))"

text \<open>
  \<open>ExternalAuthorize\<close> sets reply headers: those the kernel injects for the principal and the internal
  token.  They are the second result; \<open>internal\<close> is the header and token of an enabled, normalized
  configuration with a token.
\<close>

definition ExternalAuthorize ::
    "'w IAMDeps \<Rightarrow> (AuthnPrincipal \<Rightarrow> (string \<times> string) list) \<Rightarrow> (string \<times> string) option \<Rightarrow> string option
     \<Rightarrow> ('w, PrincipalMsg \<times> (string \<times> string) list) svc" where
  "ExternalAuthorize d trusted internal header =
     need no_token_provider (dep_Tokens d) (\<lambda>tokens.
     bindE (liftE (bearerTokenFromContext header)) (\<lambda>token.
     bindE (calls (tokens \<lparr>vt_Token = token, vt_TokenType = ''access_token'', vt_OrgID = [], vt_AppID = []\<rparr>)) (\<lambda>p.
     bind_io (asks (\<lambda>e w. sv_normalize e)) (\<lambda>nrm.
     okE (principalToProto nrm p,
          trusted p @ (case internal of None \<Rightarrow> [] | Some h \<Rightarrow> [h]))))))"

subsection \<open>The directory\<close>

definition denied_text :: "string \<Rightarrow> string \<Rightarrow> string \<Rightarrow> string \<Rightarrow> string" where
  "denied_text object permission subjectType subjectID =
     ''spicedb check permission failed: '' @ object @ ''#'' @ permission @ ''@'' @ subjectType @ '':'' @ subjectID"

definition requireZonePermission :: "'w IAMDeps \<Rightarrow> string \<Rightarrow> string \<Rightarrow> ('w, unit) svc" where
  "requireZonePermission d orgID permission =
     bindE gateway_principal (\<lambda>p.
     need no_authz_provider (dep_Authz d) (\<lambda>a.
     bind_io (asks (\<lambda>e w. sv_kern e)) (\<lambda>K.
     let subjectType = (if ap_SubjectType p = [] then SubjectTypeUser K else ap_SubjectType p) in
     bindE (calls (adm_Check a
        \<lparr>chk_Subject = \<lparr>su_Type = subjectType, su_ID = ap_SubjectID p, su_Relation = []\<rparr>,
         chk_Resource = \<lparr>ob_Type = ''zone'', ob_ID = orgID\<rparr>, chk_Permission = permission,
         chk_OrgID = orgID, chk_ProjectID = []\<rparr>)) (\<lambda>decision.
     if \<not> is_allowed K decision
     then failE (ErrPermissionDenied (denied_text (''zone:'' @ orgID) permission subjectType (ap_SubjectID p)))
     else okE ()))))"

definition svc_GetUser :: "'w IAMDeps \<Rightarrow> string \<Rightarrow> string \<Rightarrow> ('w, UserMsg) svc" where
  "svc_GetUser d orgID userID =
     bindE (requireZonePermission d orgID ''view_users'') (\<lambda>_.
     need no_identity_provider (dep_Identity d) (\<lambda>a.
     bindE (calls (ia_GetUser a orgID userID)) (\<lambda>user. okE (userToProto user))))"

text \<open>The query and the page token of the request are not used.\<close>

definition svc_ListUsers ::
    "'w IAMDeps \<Rightarrow> string \<Rightarrow> string \<Rightarrow> string \<Rightarrow> int \<Rightarrow> ('w, UserMsg list) svc" where
  "svc_ListUsers d orgID groupID role pageSize =
     bindE (requireZonePermission d orgID ''view_users'') (\<lambda>_.
     need no_identity_provider (dep_Identity d) (\<lambda>a.
     bindE (calls (ia_FindUsers a \<lparr>uf_OrgID = orgID, uf_Limit = pageSize, uf_GroupID = groupID,
        uf_Role = role, uf_Username = []\<rparr>)) (\<lambda>users. okE (usersToProto users))))"

definition svc_GetOrganization :: "'w IAMDeps \<Rightarrow> string \<Rightarrow> ('w, OrganizationMsg) svc" where
  "svc_GetOrganization d orgID =
     bindE (requireZonePermission d orgID ''view_zone'') (\<lambda>_.
     need no_identity_provider (dep_Identity d) (\<lambda>a.
     bindE (calls (ia_GetOrganization a orgID)) (\<lambda>org. okE (organizationToProto org))))"

text \<open>The groups of one user, picked from those of the organization.\<close>

definition user_aliases :: "string \<Rightarrow> DirUser option \<Rightarrow> string list" where
  "user_aliases uid matched =
     filter (\<lambda>a. a \<noteq> []) (uid # (case matched of None \<Rightarrow> []
       | Some u \<Rightarrow> [us_ID u, us_ExternalID u, us_Username u]))"

definition user_in_group :: "string list \<Rightarrow> string list \<Rightarrow> DirGroup \<Rightarrow> bool" where
  "user_in_group userGroups aliases g \<longleftrightarrow>
     gp_Name g \<in> set userGroups \<or> gp_ID g \<in> set userGroups \<or> gp_ExternalID g \<in> set userGroups
     \<or> list_ex (\<lambda>m. m \<in> set aliases) (gp_Users g)"

definition groups_of_user :: "string \<Rightarrow> DirUser list \<Rightarrow> DirGroup list \<Rightarrow> DirGroup list" where
  "groups_of_user uid users groups =
     (let matched = find (\<lambda>u. us_ID u = uid \<or> us_Username u = uid) users;
          userGroups = (case matched of None \<Rightarrow> [] | Some u \<Rightarrow> us_Groups u)
      in filter (user_in_group userGroups (user_aliases uid matched)) groups)"

definition svc_ListGroups ::
    "'w IAMDeps \<Rightarrow> string \<Rightarrow> string \<Rightarrow> string \<Rightarrow> string \<Rightarrow> ('w, DirGroupMsg list) svc" where
  "svc_ListGroups d orgID parentID ty userID =
     bindE (requireZonePermission d orgID ''view_groups'') (\<lambda>_.
     need no_identity_provider (dep_Identity d) (\<lambda>a.
     if userID \<noteq> []
     then bindE (calls (ia_FindUsers a \<lparr>uf_OrgID = orgID, uf_Limit = 500, uf_GroupID = [], uf_Role = [],
            uf_Username = []\<rparr>)) (\<lambda>users.
          bindE (calls (ia_ListGroups a \<lparr>gf_OrgID = orgID, gf_UserID = [], gf_Limit = 0,
            gf_ParentID = parentID, gf_Type = ty\<rparr>)) (\<lambda>allGroups.
          okE (groupsToProto (groups_of_user userID users allGroups))))
     else bindE (calls (ia_ListGroups a \<lparr>gf_OrgID = orgID, gf_UserID = userID, gf_Limit = 0,
            gf_ParentID = parentID, gf_Type = ty\<rparr>)) (\<lambda>groups. okE (groupsToProto groups))))"

definition svc_GetGroup :: "'w IAMDeps \<Rightarrow> string \<Rightarrow> string \<Rightarrow> ('w, DirGroupMsg) svc" where
  "svc_GetGroup d orgID groupID =
     bindE (requireZonePermission d orgID ''view_groups'') (\<lambda>_.
     need no_identity_provider (dep_Identity d) (\<lambda>a.
     bindE (calls (ia_GetGroup a orgID groupID)) (\<lambda>grp. okE (groupToProto grp))))"

end
