(* ===== verification/PermissionApi.thy ===== *)
theory PermissionApi
  imports DirectoryApi IdentityProjection
begin

text \<open>
  The permission service (internal/service/iam.go), the authorization administration
  (authz\_admin.go) and the adapters of the directory projection (directory\_projection.go).

  Object and subject references of the messages have the fields of \<open>ObjectRef\<close> and \<open>SubjectRef\<close>,
  which stand for them; a pointer is an option.  A relationship message has no expiry.
\<close>

subsection \<open>Messages and conversions\<close>

record RelationshipMsg =
  nr_Resource :: "ObjectRef option"
  nr_Relation :: string
  nr_Subject :: "SubjectRef option"

text \<open>A filter message and a list request have the same fields as the filter of the kernel.\<close>

record CheckPermissionMsg =
  nc_Subject :: "SubjectRef option"
  nc_Resource :: "ObjectRef option"
  nc_Permission :: string
  nc_OrgId :: string
  nc_ProjectId :: string

record CheckReplyMsg =
  nk_Allowed :: bool
  nk_Effect :: string
  nk_Reason :: string
  nk_ConsistencyToken :: string

definition no_object :: ObjectRef where "no_object = \<lparr>ob_Type = [], ob_ID = []\<rparr>"

definition zero_subject :: SubjectRef where "zero_subject = \<lparr>su_Type = [], su_ID = [], su_Relation = []\<rparr>"

definition objectFromProto :: "ObjectRef option \<Rightarrow> ObjectRef" where
  "objectFromProto m = (case m of None \<Rightarrow> no_object | Some x \<Rightarrow> \<lparr>ob_Type = ob_Type x, ob_ID = ob_ID x\<rparr>)"

definition objectToProto :: "ObjectRef \<Rightarrow> ObjectRef" where
  "objectToProto x = \<lparr>ob_Type = ob_Type x, ob_ID = ob_ID x\<rparr>"

definition objectsToProto :: "ObjectRef list \<Rightarrow> ObjectRef list" where
  "objectsToProto xs = map objectToProto xs"

definition subjectFromProto :: "SubjectRef option \<Rightarrow> SubjectRef" where
  "subjectFromProto m = (case m of None \<Rightarrow> zero_subject
     | Some x \<Rightarrow> \<lparr>su_Type = su_Type x, su_ID = su_ID x, su_Relation = su_Relation x\<rparr>)"

definition subjectToProto :: "SubjectRef \<Rightarrow> SubjectRef" where
  "subjectToProto x = \<lparr>su_Type = su_Type x, su_ID = su_ID x, su_Relation = su_Relation x\<rparr>"

definition subjectsToProto :: "SubjectRef list \<Rightarrow> SubjectRef list" where
  "subjectsToProto xs = map subjectToProto xs"

definition relationshipFromProto :: "RelationshipMsg option \<Rightarrow> Relationship" where
  "relationshipFromProto m = (case m of
       None \<Rightarrow> \<lparr>rel_Resource = no_object, rel_Relation = [], rel_Subject = zero_subject, rel_ExpiresAt = zero_time\<rparr>
     | Some x \<Rightarrow> \<lparr>rel_Resource = objectFromProto (nr_Resource x), rel_Relation = nr_Relation x,
                 rel_Subject = subjectFromProto (nr_Subject x), rel_ExpiresAt = zero_time\<rparr>)"

definition relationshipToProto :: "Relationship \<Rightarrow> RelationshipMsg" where
  "relationshipToProto r =
     \<lparr>nr_Resource = Some (objectToProto (rel_Resource r)), nr_Relation = rel_Relation r,
      nr_Subject = Some (subjectToProto (rel_Subject r))\<rparr>"

definition relationshipFilterFromProto :: "RelationshipFilter option \<Rightarrow> RelationshipFilter" where
  "relationshipFilterFromProto m = (case m of None \<Rightarrow> empty_filter | Some f \<Rightarrow>
     \<lparr>f_ResourceType = f_ResourceType f, f_ResourceID = f_ResourceID f, f_Relation = f_Relation f,
      f_SubjectType = f_SubjectType f, f_SubjectID = f_SubjectID f, f_SubjectRel = f_SubjectRel f\<rparr>)"

definition permissionCheckFromProto :: "CheckPermissionMsg \<Rightarrow> CheckRequest" where
  "permissionCheckFromProto req =
     \<lparr>chk_Subject = subjectFromProto (nc_Subject req), chk_Resource = objectFromProto (nc_Resource req),
      chk_Permission = nc_Permission req, chk_OrgID = nc_OrgId req, chk_ProjectID = nc_ProjectId req\<rparr>"

definition permissionDecisionToProto :: "kernel \<Rightarrow> Decision \<Rightarrow> CheckReplyMsg" where
  "permissionDecisionToProto K d =
     \<lparr>nk_Allowed = is_allowed K d, nk_Effect = dec_Effect d, nk_Reason = dec_Reason d,
      nk_ConsistencyToken = dec_Token d\<rparr>"

text \<open>A store method returns a result next to its error; the handlers drop the result of a failed call.\<close>

definition written :: "(WriteResult \<times> err option) \<times> 'w \<Rightarrow> (err + WriteResult) \<times> 'w" where
  "written r = (case r of ((wr, None), w) \<Rightarrow> (Inr wr, w) | ((_, Some er), w) \<Rightarrow> (Inl er, w))"

definition kernel_of :: "(kernel \<Rightarrow> ('w, 'a) svc) \<Rightarrow> ('w, 'a) svc" where
  "kernel_of f = bind_io (asks (\<lambda>e w. sv_kern e)) f"

subsection \<open>The permission service\<close>

definition CheckPermission :: "'w IAMDeps \<Rightarrow> CheckPermissionMsg \<Rightarrow> ('w, CheckReplyMsg) svc" where
  "CheckPermission d req =
     need no_authz_provider (dep_Authz d) (\<lambda>a.
     bindE (calls (adm_Check a (permissionCheckFromProto req))) (\<lambda>decision.
     kernel_of (\<lambda>K. okE (permissionDecisionToProto K decision))))"

definition BatchCheckPermissions :: "'w IAMDeps \<Rightarrow> CheckPermissionMsg list \<Rightarrow> ('w, CheckReplyMsg list) svc" where
  "BatchCheckPermissions d checks =
     need no_authz_provider (dep_Authz d) (\<lambda>a.
     bindE (calls (adm_BatchCheck a (map permissionCheckFromProto checks))) (\<lambda>decisions.
     kernel_of (\<lambda>K. okE (map (permissionDecisionToProto K) decisions))))"

definition svc_WriteRelationships :: "'w IAMDeps \<Rightarrow> RelationshipMsg list \<Rightarrow> ('w, int \<times> string) svc" where
  "svc_WriteRelationships d inputs =
     need no_authz_provider (dep_Authz d) (\<lambda>a.
     bindE (calls (\<lambda>w. written (st_write (adm_Relationships a) (map (\<lambda>m. relationshipFromProto (Some m)) inputs) w)))
       (\<lambda>r. okE (wrap32 (wr_Written r), wr_Token r)))"

definition svc_DeleteRelationships :: "'w IAMDeps \<Rightarrow> RelationshipFilter option \<Rightarrow> ('w, int \<times> string) svc" where
  "svc_DeleteRelationships d flt =
     need no_authz_provider (dep_Authz d) (\<lambda>a.
     bindE (calls (\<lambda>w. written (st_delete (adm_Relationships a) (relationshipFilterFromProto flt) w)))
       (\<lambda>r. okE (wrap32 (wr_Deleted r), wr_Token r)))"

definition svc_ReadRelationships :: "'w IAMDeps \<Rightarrow> RelationshipFilter \<Rightarrow> ('w, RelationshipMsg list) svc" where
  "svc_ReadRelationships d req =
     need no_authz_provider (dep_Authz d) (\<lambda>a.
     bindE (calls (st_read (adm_Relationships a)
        \<lparr>f_ResourceType = f_ResourceType req, f_ResourceID = f_ResourceID req, f_Relation = f_Relation req,
         f_SubjectType = f_SubjectType req, f_SubjectID = f_SubjectID req, f_SubjectRel = f_SubjectRel req\<rparr>))
       (\<lambda>rels. okE (map relationshipToProto rels)))"

definition svc_WriteRelationship :: "'w IAMDeps \<Rightarrow> RelationshipMsg option \<Rightarrow> ('w, int \<times> string) svc" where
  "svc_WriteRelationship d rel =
     need no_authz_provider (dep_Authz d) (\<lambda>a.
     bindE (calls (\<lambda>w. written (st_write (adm_Relationships a) [relationshipFromProto rel] w)))
       (\<lambda>r. okE (wrap32 (wr_Written r), wr_Token r)))"

definition svc_DeleteRelationship :: "'w IAMDeps \<Rightarrow> RelationshipFilter option \<Rightarrow> ('w, int \<times> string) svc" where
  "svc_DeleteRelationship d flt =
     need no_authz_provider (dep_Authz d) (\<lambda>a.
     bindE (calls (\<lambda>w. written (st_delete (adm_Relationships a) (relationshipFilterFromProto flt) w)))
       (\<lambda>r. okE (wrap32 (wr_Deleted r), wr_Token r)))"

record LookupResourcesMsg =
  nl_Subject :: "SubjectRef option"
  nl_ResourceType :: string
  nl_Permission :: string
  nl_Limit :: int
  nl_Cursor :: string

record LookupSubjectsMsg =
  nj_Resource :: "ObjectRef option"
  nj_Permission :: string
  nj_SubjectType :: string
  nj_Limit :: int
  nj_Cursor :: string

definition svc_LookupResources :: "'w IAMDeps \<Rightarrow> LookupResourcesMsg \<Rightarrow> ('w, ObjectRef list \<times> string \<times> string) svc" where
  "svc_LookupResources d req =
     need no_authz_provider (dep_Authz d) (\<lambda>a.
     bindE (calls (adm_LookupResources a
        \<lparr>lk_Subject = subjectFromProto (nl_Subject req), lk_ResourceType = nl_ResourceType req,
         lk_Permission = nl_Permission req, lk_Limit = nl_Limit req, lk_Cursor = nl_Cursor req\<rparr>))
       (\<lambda>(objects, cursor, token). okE (objectsToProto objects, cursor, token)))"

definition svc_LookupSubjects :: "'w IAMDeps \<Rightarrow> LookupSubjectsMsg \<Rightarrow> ('w, SubjectRef list \<times> string \<times> string) svc" where
  "svc_LookupSubjects d req =
     need no_authz_provider (dep_Authz d) (\<lambda>a.
     bindE (calls (adm_LookupSubjects a
        \<lparr>lj_Resource = objectFromProto (nj_Resource req), lj_Permission = nj_Permission req,
         lj_SubjectType = nj_SubjectType req, lj_Limit = nj_Limit req, lj_Cursor = nj_Cursor req\<rparr>))
       (\<lambda>(subjects, cursor, token). okE (subjectsToProto subjects, cursor, token)))"

subsection \<open>The authorization administration\<close>

definition requireGlobalAuthz :: "'w IAMDeps \<Rightarrow> string \<Rightarrow> ('w, unit) svc" where
  "requireGlobalAuthz d permission =
     bindE gateway_principal (\<lambda>p.
     need no_authz_provider (dep_Authz d) (\<lambda>a.
     kernel_of (\<lambda>K.
     let subjectType = (if ap_SubjectType p = [] then SubjectTypeUser K else ap_SubjectType p) in
     bindE (calls (adm_Check a
        \<lparr>chk_Subject = \<lparr>su_Type = subjectType, su_ID = ap_SubjectID p, su_Relation = []\<rparr>,
         chk_Resource = \<lparr>ob_Type = ''iam_authz'', ob_ID = ''global''\<rparr>, chk_Permission = permission,
         chk_OrgID = ap_OrgID p, chk_ProjectID = ap_ProjectID p\<rparr>)) (\<lambda>decision.
     if \<not> is_allowed K decision
     then failE (ErrPermissionDenied (denied_text ''iam_authz:global'' permission subjectType (ap_SubjectID p)))
     else okE ()))))"

definition GetAuthorizationSchema :: "'w IAMDeps \<Rightarrow> ('w, string \<times> string) svc" where
  "GetAuthorizationSchema d =
     bindE (requireGlobalAuthz d ''view_schema'') (\<lambda>_.
     need no_authz_provider (dep_Authz d) (\<lambda>a.
     bindE (calls (sm_ReadSchema (adm_Schema a))) (\<lambda>text.
     bind_io (asks (\<lambda>e w. adm_SchemaVersion a w)) (\<lambda>version. okE (text, version)))))"

definition ValidateAuthorizationSchema :: "'w IAMDeps \<Rightarrow> string \<Rightarrow> ('w, bool \<times> string) svc" where
  "ValidateAuthorizationSchema d text =
     bindE (requireGlobalAuthz d ''publish_schema'') (\<lambda>_.
     need no_authz_provider (dep_Authz d) (\<lambda>a.
     bind_io (calls (sm_ValidateSchema (adm_Schema a) text)) (\<lambda>r.
     okE (case r of Inl er \<Rightarrow> (False, err_text er) | Inr _ \<Rightarrow> (True, [])))))"

definition PublishAuthorizationSchema :: "'w IAMDeps \<Rightarrow> string \<Rightarrow> ('w, bool) svc" where
  "PublishAuthorizationSchema d text =
     bindE (requireGlobalAuthz d ''publish_schema'') (\<lambda>_.
     need no_authz_provider (dep_Authz d) (\<lambda>a.
     if TrimSpace text = [] then failE (ErrInvalidTokenRequest ''schema text is required'')
     else bindE (calls (sm_WriteSchema (adm_Schema a) text)) (\<lambda>_. okE True)))"

definition adm_ListRelationships :: "'w IAMDeps \<Rightarrow> RelationshipFilter \<Rightarrow> ('w, RelationshipMsg list) svc" where
  "adm_ListRelationships d req =
     bindE (requireGlobalAuthz d ''view_relationships'') (\<lambda>_.
     need no_authz_provider (dep_Authz d) (\<lambda>a.
     bindE (calls (st_read (adm_Relationships a)
        \<lparr>f_ResourceType = f_ResourceType req, f_ResourceID = f_ResourceID req, f_Relation = f_Relation req,
         f_SubjectType = f_SubjectType req, f_SubjectID = f_SubjectID req, f_SubjectRel = f_SubjectRel req\<rparr>))
       (\<lambda>rels. okE (map relationshipToProto rels))))"

definition CheckAuthorization :: "'w IAMDeps \<Rightarrow> CheckPermissionMsg \<Rightarrow> ('w, CheckReplyMsg) svc" where
  "CheckAuthorization d req =
     bindE (requireGlobalAuthz d ''view_relationships'') (\<lambda>_.
     need no_authz_provider (dep_Authz d) (\<lambda>a.
     bindE (calls (adm_Check a
        \<lparr>chk_Subject = subjectFromProto (nc_Subject req), chk_Resource = objectFromProto (nc_Resource req),
         chk_Permission = nc_Permission req, chk_OrgID = nc_OrgId req, chk_ProjectID = nc_ProjectId req\<rparr>)) (\<lambda>decision.
     kernel_of (\<lambda>K. okE \<lparr>nk_Allowed = is_allowed K decision, nk_Effect = dec_Effect decision,
        nk_Reason = dec_Reason decision, nk_ConsistencyToken = dec_Token decision\<rparr>))))"

definition nil_provider :: err where
  "nil_provider = ErrPanic ''invalid memory address or nil pointer dereference''"

text \<open>The request may be a nil pointer here; the reply adds the steps.\<close>

definition ExplainAuthorization ::
    "'w IAMDeps \<Rightarrow> CheckPermissionMsg option \<Rightarrow> ('w, CheckReplyMsg \<times> string list) svc" where
  "ExplainAuthorization d request =
     bindE (requireGlobalAuthz d ''view_relationships'') (\<lambda>_.
     case request of
       None \<Rightarrow> failE (ErrInvalidTokenRequest ''check request is required'')
     | Some req \<Rightarrow>
         need nil_provider (dep_Authz d) (\<lambda>a.
         bindE (calls (adm_Check a
            \<lparr>chk_Subject = subjectFromProto (nc_Subject req), chk_Resource = objectFromProto (nc_Resource req),
             chk_Permission = nc_Permission req, chk_OrgID = nc_OrgId req, chk_ProjectID = nc_ProjectId req\<rparr>))
           (\<lambda>decision.
         kernel_of (\<lambda>K.
         let steps = [''subject='' @ subj_string K (subjectFromProto (nc_Subject req)),
                ''resource='' @ obj_string K (objectFromProto (nc_Resource req)),
                ''permission='' @ TrimSpace (nc_Permission req), ''decision='' @ dec_Effect decision]
              @ (if dec_Reason decision \<noteq> [] then [''reason='' @ dec_Reason decision] else [])
         in okE (\<lparr>nk_Allowed = is_allowed K decision, nk_Effect = dec_Effect decision,
                 nk_Reason = dec_Reason decision, nk_ConsistencyToken = dec_Token decision\<rparr>, steps)))))"

fun split_all :: "char \<Rightarrow> string \<Rightarrow> string list" where
  "split_all c [] = [[]]"
| "split_all c (x # s) =
     (if x = c then [] # split_all c s
      else case split_all c s of [] \<Rightarrow> [[x]] | p # ps \<Rightarrow> (x # p) # ps)"

primrec expand_parts :: "string list \<Rightarrow> string list \<Rightarrow> string list" where
  "expand_parts [] out = out"
| "expand_parts (part0 # parts) out =
     (let part = TrimSpace part0 in
      if part = [] then expand_parts parts out
      else if part \<in> set out then expand_parts parts out
      else expand_parts parts (out @ [part]))"

definition expandPermissionNames :: "string list \<Rightarrow> string list" where
  "expandPermissionNames values = foldl (\<lambda>out v. expand_parts (split_all CHR '','' v) out) [] values"

definition default_permissions :: "string list" where
  "default_permissions = [''read'', ''view'', ''manage'', ''edit'', ''delete'', ''view_users'', ''manage_users'',
     ''view_groups'', ''manage_groups'', ''view_permissions'', ''manage_permissions'']"

text \<open>One decision per permission; an error of the check is a decision as well.\<close>

definition effective_one ::
    "'w AdminProvider \<Rightarrow> SubjectRef \<Rightarrow> ObjectRef \<Rightarrow> string
     \<Rightarrow> (svc_env, 'w, string \<times> bool \<times> string \<times> string) io" where
  "effective_one a subject resource permission =
     bind_io (calls (adm_Check a
        \<lparr>chk_Subject = subjectFromProto (Some subject), chk_Resource = objectFromProto (Some resource),
         chk_Permission = permission, chk_OrgID = [], chk_ProjectID = []\<rparr>)) (\<lambda>r.
     bind_io (asks (\<lambda>e w. sv_kern e)) (\<lambda>K.
     ret (permission, case r of Inl er \<Rightarrow> (False, ''error'', err_text er)
       | Inr decision \<Rightarrow> (is_allowed K decision, dec_Effect decision, dec_Reason decision))))"

definition GetEffectivePermissions ::
    "'w IAMDeps \<Rightarrow> SubjectRef \<Rightarrow> ObjectRef \<Rightarrow> string list
     \<Rightarrow> ('w, SubjectRef \<times> ObjectRef \<times> (bool \<times> string \<times> string) gomap) svc" where
  "GetEffectivePermissions d subject resource requested =
     bindE (requireGlobalAuthz d ''view_relationships'') (\<lambda>_.
     need nil_provider (dep_Authz d) (\<lambda>a.
     let permissions = (if expandPermissionNames requested = [] then default_permissions
                        else expandPermissionNames requested)
     in bind_io (fold_io (\<lambda>p out. bind_io (effective_one a subject resource p) (\<lambda>(k, r). ret (put_key k r out)))
          permissions []) (\<lambda>out. okE (subject, resource, out))))"

subsection \<open>The projection service\<close>

definition svc_RetryDirectoryProjection ::
    "('p, 'd, 'g) DirectoryProjectionOps option \<Rightarrow> int option \<Rightarrow> ('p, 'd, 'g, err + int) iop" where
  "svc_RetryDirectoryProjection ops req =
     bindE (dop_Retry ops (case req of None \<Rightarrow> 0 | Some limit \<Rightarrow> limit)) (\<lambda>n. okE (wrap32 n))"

definition svc_ReconcileDirectoryProjection ::
    "('p, 'd, 'g) DirectoryProjectionOps option \<Rightarrow> string option \<Rightarrow> ('p, 'd, 'g, err + string \<times> int) iop" where
  "svc_ReconcileDirectoryProjection ops req =
     bindE (Reconcile ops (case req of None \<Rightarrow> [] | Some orgID \<Rightarrow> orgID) ''reconcile'') (\<lambda>r.
     okE (rc_Status r, wrap32 (rc_Relationships r)))"

definition svc_CheckDirectoryProjectionDrift ::
    "('p, 'd, 'g) DirectoryProjectionOps option \<Rightarrow> string option
     \<Rightarrow> ('p, 'd, 'g, err + int \<times> int \<times> string list \<times> RelationshipMsg list) iop" where
  "svc_CheckDirectoryProjectionDrift ops req =
     bindE (Drift ops (case req of None \<Rightarrow> [] | Some orgID \<Rightarrow> orgID)) (\<lambda>r.
     okE (wrap32 (cd_Desired r), wrap32 (cd_Missing r), cd_MissingRelationships r,
          map relationshipToProto (cd_MissingObjects r)))"

end
