(* ===== verification/AuthzClient.thy ===== *)
theory AuthzClient
  imports PermissionApi
begin

text \<open>
  The client that business services use in place of a local authorization provider
  (client/authzgrpc): it turns the calls of the kernel's interfaces into requests of the permission
  service and maps gRPC status codes back to the kernel's errors.

  The generated stub is the record \<open>permissionClient\<close>; a pointer in a reply is an option.  The status
  of an error (its code and message) and the kernel's \<open>Deny\<close> are the record \<open>client_env\<close>.
\<close>

record 'w permissionClient =
  raw_CheckPermission :: "CheckPermissionMsg \<Rightarrow> 'w \<Rightarrow> (err + CheckReplyMsg option) \<times> 'w"
  raw_BatchCheckPermissions :: "CheckPermissionMsg list \<Rightarrow> 'w \<Rightarrow> (err + CheckReplyMsg option list) \<times> 'w"
  raw_WriteRelationships :: "RelationshipMsg list \<Rightarrow> 'w \<Rightarrow> (err + int \<times> string) \<times> 'w"
  raw_DeleteRelationships :: "RelationshipFilter \<Rightarrow> 'w \<Rightarrow> (err + int \<times> string) \<times> 'w"
  raw_ReadRelationships :: "RelationshipFilter \<Rightarrow> 'w \<Rightarrow> (err + RelationshipMsg option list) \<times> 'w"
  raw_LookupResources :: "LookupResourcesMsg \<Rightarrow> 'w \<Rightarrow> (err + ObjectRef option list \<times> string \<times> string) \<times> 'w"
  raw_LookupSubjects :: "LookupSubjectsMsg \<Rightarrow> 'w \<Rightarrow> (err + SubjectRef option list \<times> string \<times> string) \<times> 'w"

record client_env =
  cl_code :: "err \<Rightarrow> string"
  cl_message :: "err \<Rightarrow> string"
  cl_deny :: "string \<Rightarrow> Decision"

definition mapError :: "client_env \<Rightarrow> err \<Rightarrow> err" where
  "mapError e er =
     (if cl_code e er = ''PermissionDenied'' then ErrPermissionDenied (cl_message e er)
      else if cl_code e er = ''InvalidArgument'' then ErrInvalidRequest (cl_message e er)
      else ErrBackendFailed ''iam authz grpc request failed'')"

subsection \<open>Conversions\<close>

definition cl_subjectToProto :: "SubjectRef \<Rightarrow> SubjectRef" where
  "cl_subjectToProto x = \<lparr>su_Type = su_Type x, su_ID = su_ID x, su_Relation = su_Relation x\<rparr>"

definition cl_objectToProto :: "ObjectRef \<Rightarrow> ObjectRef" where
  "cl_objectToProto x = \<lparr>ob_Type = ob_Type x, ob_ID = ob_ID x\<rparr>"

definition cl_objectFromProto :: "ObjectRef option \<Rightarrow> ObjectRef" where
  "cl_objectFromProto m = (case m of None \<Rightarrow> no_object | Some x \<Rightarrow> \<lparr>ob_Type = ob_Type x, ob_ID = ob_ID x\<rparr>)"

definition cl_subjectFromProto :: "SubjectRef option \<Rightarrow> SubjectRef" where
  "cl_subjectFromProto m = (case m of None \<Rightarrow> zero_subject
     | Some x \<Rightarrow> \<lparr>su_Type = su_Type x, su_ID = su_ID x, su_Relation = su_Relation x\<rparr>)"

definition checkRequestToProto :: "CheckRequest \<Rightarrow> CheckPermissionMsg" where
  "checkRequestToProto req =
     \<lparr>nc_Subject = Some (cl_subjectToProto (chk_Subject req)), nc_Resource = Some (cl_objectToProto (chk_Resource req)),
      nc_Permission = chk_Permission req, nc_OrgId = chk_OrgID req, nc_ProjectId = chk_ProjectID req\<rparr>"

definition decisionFromProto :: "client_env \<Rightarrow> CheckReplyMsg option \<Rightarrow> Decision" where
  "decisionFromProto e m = (case m of
       None \<Rightarrow> cl_deny e ''empty IAM authorization decision''
     | Some x \<Rightarrow> \<lparr>dec_Allowed = nk_Allowed x, dec_Effect = nk_Effect x, dec_Reason = nk_Reason x,
                 dec_Token = nk_ConsistencyToken x\<rparr>)"

definition cl_relationshipToProto :: "Relationship \<Rightarrow> RelationshipMsg" where
  "cl_relationshipToProto r =
     \<lparr>nr_Resource = Some (cl_objectToProto (rel_Resource r)), nr_Relation = rel_Relation r,
      nr_Subject = Some (cl_subjectToProto (rel_Subject r))\<rparr>"

definition cl_relationshipFromProto :: "RelationshipMsg option \<Rightarrow> Relationship" where
  "cl_relationshipFromProto m = (case m of
       None \<Rightarrow> \<lparr>rel_Resource = no_object, rel_Relation = [], rel_Subject = zero_subject, rel_ExpiresAt = zero_time\<rparr>
     | Some x \<Rightarrow> \<lparr>rel_Resource = cl_objectFromProto (nr_Resource x), rel_Relation = nr_Relation x,
                 rel_Subject = cl_subjectFromProto (nr_Subject x), rel_ExpiresAt = zero_time\<rparr>)"

definition filterToProto :: "RelationshipFilter \<Rightarrow> RelationshipFilter" where
  "filterToProto f =
     \<lparr>f_ResourceType = f_ResourceType f, f_ResourceID = f_ResourceID f, f_Relation = f_Relation f,
      f_SubjectType = f_SubjectType f, f_SubjectID = f_SubjectID f, f_SubjectRel = f_SubjectRel f\<rparr>"

definition listRequestToProto :: "RelationshipFilter \<Rightarrow> RelationshipFilter" where
  "listRequestToProto f =
     \<lparr>f_ResourceType = f_ResourceType f, f_ResourceID = f_ResourceID f, f_Relation = f_Relation f,
      f_SubjectType = f_SubjectType f, f_SubjectID = f_SubjectID f, f_SubjectRel = f_SubjectRel f\<rparr>"

subsection \<open>Calls\<close>

text \<open>\<open>if err != nil { return zero, mapError(err) }\<close> around a call of the stub.\<close>

definition remote :: "client_env \<Rightarrow> ('a \<Rightarrow> 'b) \<Rightarrow> (err + 'a) \<times> 'w \<Rightarrow> (err + 'b) \<times> 'w" where
  "remote e f r = (case r of (Inl er, w) \<Rightarrow> (Inl (mapError e er), w) | (Inr x, w) \<Rightarrow> (Inr (f x), w))"

definition cl_Check :: "client_env \<Rightarrow> 'w permissionClient \<Rightarrow> 'w authorizer" where
  "cl_Check e c req w = remote e (decisionFromProto e) (raw_CheckPermission c (checkRequestToProto req) w)"

definition cl_BatchCheck ::
    "client_env \<Rightarrow> 'w permissionClient \<Rightarrow> CheckRequest list \<Rightarrow> 'w \<Rightarrow> (err + Decision list) \<times> 'w" where
  "cl_BatchCheck e c reqs w =
     remote e (map (decisionFromProto e)) (raw_BatchCheckPermissions c (map checkRequestToProto reqs) w)"

text \<open>A failed call returns the zero result next to its error.\<close>

definition write_result :: "(err + WriteResult) \<times> 'w \<Rightarrow> (WriteResult \<times> err option) \<times> 'w" where
  "write_result r = (case r of (Inl er, w) \<Rightarrow> ((no_result, Some er), w) | (Inr wr, w) \<Rightarrow> ((wr, None), w))"

definition cl_WriteRelationships ::
    "client_env \<Rightarrow> 'w permissionClient \<Rightarrow> Relationship list \<Rightarrow> 'w \<Rightarrow> (WriteResult \<times> err option) \<times> 'w" where
  "cl_WriteRelationships e c rels w =
     write_result (remote e (\<lambda>(n, token). no_result\<lparr>wr_Written := n, wr_Token := token\<rparr>)
       (raw_WriteRelationships c (map cl_relationshipToProto rels) w))"

definition cl_DeleteRelationships ::
    "client_env \<Rightarrow> 'w permissionClient \<Rightarrow> RelationshipFilter \<Rightarrow> 'w \<Rightarrow> (WriteResult \<times> err option) \<times> 'w" where
  "cl_DeleteRelationships e c flt w =
     write_result (remote e (\<lambda>(n, token). no_result\<lparr>wr_Deleted := n, wr_Token := token\<rparr>)
       (raw_DeleteRelationships c (filterToProto flt) w))"

definition cl_ReadRelationships ::
    "client_env \<Rightarrow> 'w permissionClient \<Rightarrow> RelationshipFilter \<Rightarrow> 'w \<Rightarrow> (err + Relationship list) \<times> 'w" where
  "cl_ReadRelationships e c flt w =
     remote e (map cl_relationshipFromProto) (raw_ReadRelationships c (listRequestToProto flt) w)"

definition cl_LookupResources ::
    "client_env \<Rightarrow> 'w permissionClient \<Rightarrow> LookupResourcesRequest \<Rightarrow> 'w
     \<Rightarrow> (err + ObjectRef list \<times> string \<times> string) \<times> 'w" where
  "cl_LookupResources e c req w =
     remote e (\<lambda>(refs, cursor, token). (map cl_objectFromProto refs, cursor, token))
       (raw_LookupResources c
          \<lparr>nl_Subject = Some (cl_subjectToProto (lk_Subject req)), nl_ResourceType = lk_ResourceType req,
           nl_Permission = lk_Permission req, nl_Limit = wrap32 (lk_Limit req), nl_Cursor = lk_Cursor req\<rparr> w)"

definition cl_LookupSubjects ::
    "client_env \<Rightarrow> 'w permissionClient \<Rightarrow> LookupSubjectsRequest \<Rightarrow> 'w
     \<Rightarrow> (err + SubjectRef list \<times> string \<times> string) \<times> 'w" where
  "cl_LookupSubjects e c req w =
     remote e (\<lambda>(refs, cursor, token). (map cl_subjectFromProto refs, cursor, token))
       (raw_LookupSubjects c
          \<lparr>nj_Resource = Some (cl_objectToProto (lj_Resource req)), nj_Permission = lj_Permission req,
           nj_SubjectType = lj_SubjectType req, nj_Limit = wrap32 (lj_Limit req), nj_Cursor = lj_Cursor req\<rparr> w)"

subsection \<open>The principal of outgoing calls\<close>

text \<open>
  Outgoing metadata as pairs of a lower-case name and a value; \<open>trusted_names\<close> are the kernel's trusted
  header names.  The principal of the context, or else the service's own, replaces them.
\<close>

record header_names =
  hn_Verified :: string
  hn_Subject :: string
  hn_SubjectType :: string
  hn_Provider :: string
  hn_OrgID :: string
  hn_ProjectID :: string

definition identity_headers :: "header_names \<Rightarrow> AuthnPrincipal \<Rightarrow> (string \<times> string) list" where
  "identity_headers h p =
     [(hn_Verified h, ''true''), (hn_Subject h, ap_SubjectID p), (hn_SubjectType h, ap_SubjectType p),
      (hn_Provider h, ap_Provider p), (hn_OrgID h, ap_OrgID p), (hn_ProjectID h, ap_ProjectID p)]"

definition outgoingPrincipalContext ::
    "svc_env \<Rightarrow> header_names \<Rightarrow> string list \<Rightarrow> AuthnPrincipal \<Rightarrow> (string \<times> string) list \<Rightarrow> (string \<times> string) list" where
  "outgoingPrincipalContext e h trusted_names fallback md =
     (let principal = (case sv_principal e of None \<Rightarrow> fallback
            | Some p \<Rightarrow> if ap_Authenticated p then p else fallback)
      in if \<not> ap_Authenticated principal then md
         else let principal = sv_normalize e principal;
                  kept = filter (\<lambda>(k, v). k \<notin> ToLower ` set trusted_names) md
              in foldl (\<lambda>md (k, v). if TrimSpace v \<noteq> [] then put_key (ToLower k) v md else md)
                   kept (identity_headers h principal))"

end
