(* ===== verification/DirectoryAdminApi.thy ===== *)
theory DirectoryAdminApi
  imports DirectoryApi
begin

text \<open>
  The administration of groups and users (internal/service/group\_admin.go, identity\_admin.go) and the
  scope guard of internal/biz/scope/scope.go.  Permissions of these services are checked by the
  generated middleware before the handlers run; the handlers compare the zone themselves.
\<close>

subsection \<open>Conversions\<close>

text \<open>The getters of a nil message give the zero value of the record.\<close>

definition zero_user :: DirUser where
  "zero_user = \<lparr>us_ID = [], us_OrgID = [], us_Groups = [], us_ExternalID = [], us_Provider = [],
     us_Username = [], us_DisplayName = [], us_Email = [], us_Phone = [], us_Roles = [], us_Enabled = False\<rparr>"

definition userFromProto :: "UserMsg option \<Rightarrow> DirUser" where
  "userFromProto m = (case m of None \<Rightarrow> zero_user | Some u \<Rightarrow>
     \<lparr>us_ID = nu_Id u, us_OrgID = nu_OrgId u, us_Groups = nu_Groups u, us_ExternalID = nu_ExternalId u,
      us_Provider = nu_Provider u, us_Username = nu_Username u, us_DisplayName = nu_DisplayName u,
      us_Email = nu_Email u, us_Phone = nu_Phone u, us_Roles = nu_Roles u, us_Enabled = nu_Enabled u\<rparr>)"

definition optional_text :: "string option \<Rightarrow> string" where
  "optional_text v = (case v of None \<Rightarrow> [] | Some s \<Rightarrow> s)"

definition groupFromProto :: "DirGroupMsg option \<Rightarrow> DirGroup" where
  "groupFromProto m = (case m of None \<Rightarrow> zero_group | Some g \<Rightarrow>
     \<lparr>gp_ID = ng_Id g, gp_OrgID = ng_OrgId g, gp_Name = ng_Id g, gp_DisplayName = ng_DisplayName g,
      gp_ParentID = optional_text (ng_ParentId g), gp_ExternalID = ng_Name g, gp_Users = ng_Users g,
      gp_Type = ng_Type g, gp_Path = ng_Path g\<rparr>)"

primrec firstNonEmptyString :: "string list \<Rightarrow> string" where
  "firstNonEmptyString [] = []"
| "firstNonEmptyString (v # vs) = (if v \<noteq> [] then v else firstNonEmptyString vs)"

subsection \<open>Groups\<close>

definition orgIDFromPrincipal :: "AuthnPrincipal option \<Rightarrow> string \<Rightarrow> err + string" where
  "orgIDFromPrincipal pn pathOrgID =
     (case pn of None \<Rightarrow> Inl no_principal
      | Some p \<Rightarrow>
          if \<not> ap_Authenticated p then Inl no_principal
          else let principalOrgID = TrimSpace (ap_OrgID p) in
               if principalOrgID = [] then Inl no_org
               else if pathOrgID \<noteq> [] \<and> \<not> EqualFold pathOrgID principalOrgID
               then Inl (ErrPermissionDenied ''org_id mismatch: path org_id does not match principal org_id'')
               else Inr principalOrgID)"

text \<open>The preamble of the handlers: a provider, and the zone of the principal.\<close>

definition group_admin ::
    "'w IAMDeps \<Rightarrow> string \<Rightarrow> ('w IdentityAdmin \<Rightarrow> string \<Rightarrow> ('w, 'a) svc) \<Rightarrow> ('w, 'a) svc" where
  "group_admin d pathOrgID f =
     need no_identity_provider (dep_Identity d) (\<lambda>a.
     bind_io (asks (\<lambda>e w. sv_principal e)) (\<lambda>pn.
     bindE (liftE (orgIDFromPrincipal pn pathOrgID)) (\<lambda>orgID. f a orgID)))"

record CreateGroupMsg =
  nv_OrgId :: string
  nv_Group :: "DirGroupMsg option"
  nv_IdempotencyKey :: string

definition adm_CreateGroup :: "'w IAMDeps \<Rightarrow> CreateGroupMsg \<Rightarrow> ('w, DirGroupMsg) svc" where
  "adm_CreateGroup d req =
     group_admin d (nv_OrgId req) (\<lambda>a orgID.
     bindE (calls (ia_CreateGroup a ((groupFromProto (nv_Group req))\<lparr>gp_OrgID := orgID\<rparr>) (nv_IdempotencyKey req)))
       (\<lambda>created. okE (groupToProto created)))"

record UpdateGroupMsg =
  nw_OrgId :: string
  nw_GroupId :: string
  nw_Group :: "DirGroupMsg option"
  nw_ParentId :: "string option"

text \<open>The group of an update request, up to its parent and its organization.\<close>

definition incoming_group :: "UpdateGroupMsg \<Rightarrow> DirGroup" where
  "incoming_group req =
     (let grp = groupFromProto (nw_Group req);
          ident = firstNonEmptyString [gp_ID grp, nw_GroupId req];
          grp = grp\<lparr>gp_ID := ident, gp_Name := ident\<rparr>
      in case nw_Group req of None \<Rightarrow> grp
         | Some g \<Rightarrow> if ng_Name g \<noteq> [] then grp\<lparr>gp_ExternalID := ng_Name g\<rparr> else grp)"

definition names_parent :: "DirGroupMsg option \<Rightarrow> bool" where
  "names_parent m \<longleftrightarrow> (case m of None \<Rightarrow> False | Some g \<Rightarrow> ng_ParentId g \<noteq> None)"

definition adm_UpdateGroup :: "'w IAMDeps \<Rightarrow> UpdateGroupMsg \<Rightarrow> ('w, DirGroupMsg) svc" where
  "adm_UpdateGroup d req =
     group_admin d (nw_OrgId req) (\<lambda>a orgID.
     let grp = incoming_group req in
     bindE (case nw_ParentId req of
              Some parent \<Rightarrow> okE (grp\<lparr>gp_ParentID := parent\<rparr>)
            | None \<Rightarrow>
                if \<not> names_parent (nw_Group req)
                then bindE (calls (ia_GetGroup a orgID (nw_GroupId req))) (\<lambda>existing.
                     okE (grp\<lparr>gp_ParentID := gp_ParentID existing\<rparr>))
                else okE grp) (\<lambda>grp.
     bindE (calls (ia_UpdateGroup a (grp\<lparr>gp_OrgID := orgID\<rparr>))) (\<lambda>updated. okE (groupToProto updated))))"

definition adm_DeleteGroup :: "'w IAMDeps \<Rightarrow> string \<Rightarrow> string \<Rightarrow> bool \<Rightarrow> ('w, unit) svc" where
  "adm_DeleteGroup d pathOrgID groupID recursive =
     group_admin d pathOrgID (\<lambda>a orgID.
     bindE (calls (ia_DeleteGroup a orgID groupID recursive)) (\<lambda>_. okE ()))"

definition adm_AssignUserToGroup :: "'w IAMDeps \<Rightarrow> string \<Rightarrow> string \<Rightarrow> string \<Rightarrow> ('w, unit) svc" where
  "adm_AssignUserToGroup d pathOrgID groupID userID =
     group_admin d pathOrgID (\<lambda>a orgID.
     bindE (calls (ia_AssignUserToGroup a orgID groupID userID)) (\<lambda>_. okE ()))"

definition adm_RemoveUserFromGroup :: "'w IAMDeps \<Rightarrow> string \<Rightarrow> string \<Rightarrow> string \<Rightarrow> ('w, unit) svc" where
  "adm_RemoveUserFromGroup d pathOrgID groupID userID =
     group_admin d pathOrgID (\<lambda>a orgID.
     bindE (calls (ia_RemoveUserFromGroup a orgID groupID userID)) (\<lambda>_. okE ()))"

subsection \<open>Users\<close>

text \<open>These handlers take the organization of the request as it is.\<close>

definition adm_CreateUser :: "'w IAMDeps \<Rightarrow> string \<Rightarrow> UserMsg option \<Rightarrow> string \<Rightarrow> ('w, UserMsg) svc" where
  "adm_CreateUser d orgID user idempotencyKey =
     need no_identity_provider (dep_Identity d) (\<lambda>a.
     bindE (calls (ia_CreateUser a ((userFromProto user)\<lparr>us_OrgID := orgID\<rparr>) idempotencyKey)) (\<lambda>created.
     okE (userToProto created)))"

definition adm_UpdateUser :: "'w IAMDeps \<Rightarrow> string \<Rightarrow> string \<Rightarrow> UserMsg option \<Rightarrow> ('w, UserMsg) svc" where
  "adm_UpdateUser d orgID userID user =
     need no_identity_provider (dep_Identity d) (\<lambda>a.
     let u = userFromProto user in
     bindE (calls (ia_UpdateUser a (u\<lparr>us_ID := firstNonEmptyString [us_ID u, userID], us_OrgID := orgID\<rparr>)))
       (\<lambda>updated. okE (userToProto updated)))"

definition adm_DisableUser :: "'w IAMDeps \<Rightarrow> string \<Rightarrow> string \<Rightarrow> ('w, unit) svc" where
  "adm_DisableUser d orgID userID =
     need no_identity_provider (dep_Identity d) (\<lambda>a.
     bindE (calls (ia_DisableUser a orgID userID)) (\<lambda>_. okE ()))"

definition adm_DeleteUser :: "'w IAMDeps \<Rightarrow> string \<Rightarrow> string \<Rightarrow> bool \<Rightarrow> ('w, unit) svc" where
  "adm_DeleteUser d orgID userID hard =
     need no_identity_provider (dep_Identity d) (\<lambda>a.
     bindE (calls (ia_DeleteUser a orgID userID hard)) (\<lambda>_. okE ()))"

subsection \<open>The scope guard\<close>

record OrgScope = sc_OrgID :: string

record 'w ScopeGuard = sg_authorizer :: "'w authorizer option"

definition NewScopeGuard :: "'w authorizer option \<Rightarrow> 'w ScopeGuard" where
  "NewScopeGuard a = \<lparr>sg_authorizer = a\<rparr>"

definition ValidateScope :: "string \<Rightarrow> AuthnPrincipal \<Rightarrow> err + OrgScope" where
  "ValidateScope pathOrgID p =
     (let principalOrgID = TrimSpace (ap_OrgID p) in
      if principalOrgID = [] then Inl (ErrMissingCredential ''principal org_id is required'')
      else if pathOrgID \<noteq> [] \<and> \<not> EqualFold pathOrgID principalOrgID
      then Inl (ErrPermissionDenied ''org_id mismatch: path org_id does not match principal org_id'')
      else Inr \<lparr>sc_OrgID = principalOrgID\<rparr>)"

definition scope_PrincipalFromContext :: "('w, AuthnPrincipal) svc" where
  "scope_PrincipalFromContext =
     bind_io (asks (\<lambda>e w. (sv_principal e, sv_normalize e))) (\<lambda>(pn, nrm).
     case pn of None \<Rightarrow> failE no_principal
     | Some p \<Rightarrow> if ap_Authenticated p then okE (nrm p) else failE no_principal)"

definition SubjectRefFromPrincipal :: "kernel \<Rightarrow> AuthnPrincipal \<Rightarrow> SubjectRef" where
  "SubjectRefFromPrincipal K p =
     (let subjectType = TrimSpace (ap_SubjectType p) in
      \<lparr>su_Type = (if subjectType = [] then SubjectTypeUser K else subjectType),
       su_ID = TrimSpace (ap_SubjectID p), su_Relation = []\<rparr>)"

definition RequirePermission ::
    "'w ScopeGuard \<Rightarrow> OrgScope \<Rightarrow> SubjectRef \<Rightarrow> ObjectRef \<Rightarrow> string \<Rightarrow> ('w, unit) svc" where
  "RequirePermission g scope subject resource permission =
     need (ErrBackendFailed ''authorization provider is not configured'') (sg_authorizer g) (\<lambda>check.
     bind_io (asks (\<lambda>e w. sv_kern e)) (\<lambda>K.
     bindE (calls (check \<lparr>chk_Subject = subject, chk_Resource = resource, chk_Permission = permission,
        chk_OrgID = sc_OrgID scope, chk_ProjectID = []\<rparr>)) (\<lambda>decision.
     if \<not> is_allowed K decision
     then failE (ErrPermissionDenied (''permission denied: '' @ obj_string K resource @ ''#'' @ permission))
     else okE ())))"

end
