(* ===== verification/PermissionLaws.thy ===== *)
theory PermissionLaws
  imports AuthzClient DirectoryAdminApi
begin

text \<open>
  Laws of the permission checks.  A guard passes exactly when the authorization provider allows what it
  asks, and leaves nothing behind but the state of that check; the locale \<open>permission_guard\<close> states
  this interface once, and the guards of the directory, of the authorization administration and of
  the organization scope are its interpretations.  The second half is about the remote client:
  through the service it keeps the contract of a relationship store.
\<close>

subsection \<open>Guards\<close>

locale permission_guard =
  fixes guard :: "('w, unit) svc"
    and allows :: "svc_env \<Rightarrow> 'w \<Rightarrow> bool"
    and after :: "svc_env \<Rightarrow> 'w \<Rightarrow> 'w"
  assumes guard_state: "guard e w = (r, w') \<Longrightarrow> w' = after e w"
    and guard_passes: "guard e w = (Inr (), w') \<longleftrightarrow> allows e w \<and> w' = after e w"
begin

lemma passed: "allows e w \<Longrightarrow> bindE guard f e w = f () e (after e w)"
  by (intro bindE_run) (simp add: guard_passes)

lemma stopped: "\<not> allows e w \<Longrightarrow> \<exists>er. bindE guard f e w = (Inl er, after e w)"
proof -
  assume n: "\<not> allows e w"
  obtain r w' where g: "guard e w = (r, w')" by fastforce
  with n have "\<exists>er. r = Inl er" using guard_passes[of e w w'] by (cases r) auto
  then show ?thesis using g guard_state[OF g] by (auto intro: bindE_fail)
qed

lemma success_allowed: "bindE guard f e w = (Inr x, w') \<Longrightarrow> allows e w \<and> f () e (after e w) = (Inr x, w')"
  using stopped[of e w f] passed[of e w f] by fastforce

end

text \<open>The check that a guard makes: its request, whether it is allowed, and the state it leaves.\<close>

definition checks :: "'w AdminProvider option \<Rightarrow> (AuthnPrincipal \<Rightarrow> kernel \<Rightarrow> CheckRequest) \<Rightarrow> svc_env \<Rightarrow> 'w
    \<Rightarrow> ((err + Decision) \<times> 'w) option" where
  "checks pr req e w = (case (sv_principal e, pr) of
     (Some p, Some a) \<Rightarrow> if ap_Authenticated p then Some (adm_Check a (req p (sv_kern e)) w) else None
   | _ \<Rightarrow> None)"

definition check_allows :: "kernel \<Rightarrow> ((err + Decision) \<times> 'w) option \<Rightarrow> bool" where
  "check_allows K c \<longleftrightarrow> (\<exists>d w. c = Some (Inr d, w) \<and> is_allowed K d)"

definition check_state :: "'w \<Rightarrow> ((err + Decision) \<times> 'w) option \<Rightarrow> 'w" where
  "check_state w c = (case c of None \<Rightarrow> w | Some (_, w') \<Rightarrow> w')"

definition acting_subject :: "kernel \<Rightarrow> AuthnPrincipal \<Rightarrow> SubjectRef" where
  "acting_subject K p = \<lparr>su_Type = (if ap_SubjectType p = [] then SubjectTypeUser K else ap_SubjectType p),
     su_ID = ap_SubjectID p, su_Relation = []\<rparr>"

definition zone_request :: "string \<Rightarrow> string \<Rightarrow> AuthnPrincipal \<Rightarrow> kernel \<Rightarrow> CheckRequest" where
  "zone_request orgID permission p K =
     \<lparr>chk_Subject = acting_subject K p, chk_Resource = \<lparr>ob_Type = ''zone'', ob_ID = orgID\<rparr>,
      chk_Permission = permission, chk_OrgID = orgID, chk_ProjectID = []\<rparr>"

definition global_request :: "string \<Rightarrow> AuthnPrincipal \<Rightarrow> kernel \<Rightarrow> CheckRequest" where
  "global_request permission p K =
     \<lparr>chk_Subject = acting_subject K p, chk_Resource = \<lparr>ob_Type = ''iam_authz'', ob_ID = ''global''\<rparr>,
      chk_Permission = permission, chk_OrgID = ap_OrgID p, chk_ProjectID = ap_ProjectID p\<rparr>"

lemmas guard_parts = gateway_principal_def checks_def check_allows_def check_state_def need_def kernel_of_def
  calls_def bind_io_def bindE_def acting_subject_def Let_def

interpretation zone: permission_guard "requireZonePermission d orgID permission"
    "\<lambda>e w. check_allows (sv_kern e) (checks (dep_Authz d) (zone_request orgID permission) e w)"
    "\<lambda>e w. check_state w (checks (dep_Authz d) (zone_request orgID permission) e w)"
  by unfold_locales
    (auto simp: requireZonePermission_def zone_request_def guard_parts split: option.splits prod.splits sum.splits if_splits)

interpretation global: permission_guard "requireGlobalAuthz d permission"
    "\<lambda>e w. check_allows (sv_kern e) (checks (dep_Authz d) (global_request permission) e w)"
    "\<lambda>e w. check_state w (checks (dep_Authz d) (global_request permission) e w)"
  by unfold_locales
    (auto simp: requireGlobalAuthz_def global_request_def guard_parts split: option.splits prod.splits sum.splits if_splits)

definition scope_check :: "'w ScopeGuard \<Rightarrow> OrgScope \<Rightarrow> SubjectRef \<Rightarrow> ObjectRef \<Rightarrow> string \<Rightarrow> 'w
    \<Rightarrow> ((err + Decision) \<times> 'w) option" where
  "scope_check g scope subject resource permission w = (case sg_authorizer g of None \<Rightarrow> None
     | Some check \<Rightarrow> Some (check \<lparr>chk_Subject = subject, chk_Resource = resource, chk_Permission = permission,
         chk_OrgID = sc_OrgID scope, chk_ProjectID = []\<rparr> w))"

interpretation scope: permission_guard "RequirePermission g sc subject resource permission"
    "\<lambda>e w. check_allows (sv_kern e) (scope_check g sc subject resource permission w)"
    "\<lambda>e w. check_state w (scope_check g sc subject resource permission w)"
  by unfold_locales
    (auto simp: RequirePermission_def scope_check_def guard_parts split: option.splits prod.splits sum.splits if_splits)

abbreviation zone_allows :: "'w IAMDeps \<Rightarrow> svc_env \<Rightarrow> 'w \<Rightarrow> string \<Rightarrow> string \<Rightarrow> bool" where
  "zone_allows d e w orgID permission \<equiv>
     check_allows (sv_kern e) (checks (dep_Authz d) (zone_request orgID permission) e w)"

abbreviation after_zone :: "'w IAMDeps \<Rightarrow> svc_env \<Rightarrow> 'w \<Rightarrow> string \<Rightarrow> string \<Rightarrow> 'w" where
  "after_zone d e w orgID permission \<equiv>
     check_state w (checks (dep_Authz d) (zone_request orgID permission) e w)"

abbreviation global_allows :: "'w IAMDeps \<Rightarrow> svc_env \<Rightarrow> 'w \<Rightarrow> string \<Rightarrow> bool" where
  "global_allows d e w permission \<equiv>
     check_allows (sv_kern e) (checks (dep_Authz d) (global_request permission) e w)"

abbreviation after_global :: "'w IAMDeps \<Rightarrow> svc_env \<Rightarrow> 'w \<Rightarrow> string \<Rightarrow> 'w" where
  "after_global d e w permission \<equiv>
     check_state w (checks (dep_Authz d) (global_request permission) e w)"

definition stops_at :: "'w \<Rightarrow> (err + 'a) \<times> 'w \<Rightarrow> bool" where
  "stops_at w1 r \<longleftrightarrow> (\<exists>er. r = (Inl er, w1))"

lemma zone_stops: "\<not> zone_allows d e w orgID permission \<Longrightarrow>
    stops_at (after_zone d e w orgID permission) (bindE (requireZonePermission d orgID permission) f e w)"
  unfolding stops_at_def by (rule zone.stopped)

lemma global_stops: "\<not> global_allows d e w permission \<Longrightarrow>
    stops_at (after_global d e w permission) (bindE (requireGlobalAuthz d permission) f e w)"
  unfolding stops_at_def by (rule global.stopped)

text \<open>C4. Unless the authorization provider allows the authenticated principal the permission of the call, on the
  zone of the request or on the global authorization object, every handler of the directory and of
  the authorization administration fails and leaves the state of that one check: neither the identity
  provider is asked nor schema or relationships are read or written.\<close>

theorem unpermitted_calls_stop:
  shows "(\<not> zone_allows d e w org ''view_users'' \<longrightarrow>
      stops_at (after_zone d e w org ''view_users'') (svc_GetUser d org user e w)
      \<and> stops_at (after_zone d e w org ''view_users'') (svc_ListUsers d org grp role n e w))
    \<and> (\<not> zone_allows d e w org ''view_zone'' \<longrightarrow>
      stops_at (after_zone d e w org ''view_zone'') (svc_GetOrganization d org e w))
    \<and> (\<not> zone_allows d e w org ''view_groups'' \<longrightarrow>
      stops_at (after_zone d e w org ''view_groups'') (svc_ListGroups d org parent ty user e w)
      \<and> stops_at (after_zone d e w org ''view_groups'') (svc_GetGroup d org grp e w))
    \<and> (\<not> global_allows d e w ''view_schema'' \<longrightarrow>
      stops_at (after_global d e w ''view_schema'') (GetAuthorizationSchema d e w))
    \<and> (\<not> global_allows d e w ''publish_schema'' \<longrightarrow>
      stops_at (after_global d e w ''publish_schema'') (ValidateAuthorizationSchema d text e w)
      \<and> stops_at (after_global d e w ''publish_schema'') (PublishAuthorizationSchema d text e w))
    \<and> (\<not> global_allows d e w ''view_relationships'' \<longrightarrow>
      stops_at (after_global d e w ''view_relationships'') (adm_ListRelationships d flt e w)
      \<and> stops_at (after_global d e w ''view_relationships'') (CheckAuthorization d chk e w)
      \<and> stops_at (after_global d e w ''view_relationships'') (ExplainAuthorization d request e w)
      \<and> stops_at (after_global d e w ''view_relationships'') (GetEffectivePermissions d sub res ps e w))"
  unfolding svc_GetUser_def svc_ListUsers_def svc_GetOrganization_def svc_ListGroups_def svc_GetGroup_def
    GetAuthorizationSchema_def ValidateAuthorizationSchema_def PublishAuthorizationSchema_def
    adm_ListRelationships_def CheckAuthorization_def ExplainAuthorization_def GetEffectivePermissions_def
  by (intro conjI impI zone_stops global_stops)

subsection \<open>Effective permissions\<close>

text \<open>The names that a request asks about: the trimmed, non-empty parts between commas.\<close>

definition asked_names :: "string list \<Rightarrow> string set" where
  "asked_names vs = TrimSpace ` (\<Union>v \<in> set vs. set (split_all CHR '','' v)) - {[]}"

lemma expand_parts_set: "set (expand_parts ps out) = set out \<union> (TrimSpace ` set ps - {[]})"
  by (induction ps arbitrary: out) (auto simp: Let_def)

lemma expand_parts_distinct: "distinct out \<Longrightarrow> distinct (expand_parts ps out)"
  by (induction ps arbitrary: out) (auto simp: Let_def)

lemma expanded: "set (expandPermissionNames vs) = asked_names vs" "distinct (expandPermissionNames vs)"
proof -
  have "set (foldl (\<lambda>out v. expand_parts (split_all CHR '','' v) out) out vs) = set out \<union> asked_names vs" for out
    by (induction vs arbitrary: out) (auto simp: expand_parts_set asked_names_def)
  then show "set (expandPermissionNames vs) = asked_names vs" by (simp add: expandPermissionNames_def)
  have "distinct out \<Longrightarrow> distinct (foldl (\<lambda>out v. expand_parts (split_all CHR '','' v) out) out vs)" for out
    by (induction vs arbitrary: out) (auto intro: expand_parts_distinct)
  then show "distinct (expandPermissionNames vs)" by (simp add: expandPermissionNames_def)
qed

definition verdict :: "kernel \<Rightarrow> err + Decision \<Rightarrow> bool \<times> string \<times> string" where
  "verdict K r = (case r of Inl er \<Rightarrow> (False, ''error'', err_text er)
     | Inr decision \<Rightarrow> (is_allowed K decision, dec_Effect decision, dec_Reason decision))"

definition permission_request :: "SubjectRef \<Rightarrow> ObjectRef \<Rightarrow> string \<Rightarrow> CheckRequest" where
  "permission_request sub res permission = \<lparr>chk_Subject = sub, chk_Resource = res,
     chk_Permission = permission, chk_OrgID = [], chk_ProjectID = []\<rparr>"

lemma from_proto_Some [simp]: "subjectFromProto (Some sub) = sub" "objectFromProto (Some res) = res"
  by (cases sub, simp add: subjectFromProto_def) (cases res, simp add: objectFromProto_def)

lemma pure_state:
  assumes "\<And>req w. snd (adm_Check a req w) = w"
  shows "check_state w (checks (Some a) req e w) = w"
proof (cases "checks (Some a) req e w")
  case (Some c)
  then obtain r where "c = adm_Check a r w" by (auto simp: checks_def split: option.splits if_splits)
  then have "snd c = w" using assms by simp
  then show ?thesis using Some by (cases c) (simp add: check_state_def)
qed (simp add: check_state_def)

lemma effective_one_run:
  assumes "\<And>req w. snd (adm_Check a req w) = w"
  shows "effective_one a sub res p e w
    = ((p, verdict (sv_kern e) (fst (adm_Check a (permission_request sub res p) w))), w)"
  using assms[of "permission_request sub res p" w]
  by (cases "adm_Check a (permission_request sub res p) w")
    (auto simp: effective_one_def calls_def bind_io_def verdict_def permission_request_def)

lemma effective_fold:
  assumes "\<And>req w. snd (adm_Check a req w) = w"
  shows "fold_io (\<lambda>p out. bind_io (effective_one a sub res p) (\<lambda>(k, r). ret (put_key k r out))) ps out e w
    = (foldl (\<lambda>out p. put_key p (verdict (sv_kern e) (fst (adm_Check a (permission_request sub res p) w))) out) out ps, w)"
  by (induction ps arbitrary: out) (simp_all add: bind_io_def effective_one_run[OF assms])

lemma effective_bind:
  assumes "\<And>req w. snd (adm_Check a req w) = w"
  shows "bind_io (fold_io (\<lambda>p out. bind_io (effective_one a sub res p) (\<lambda>(k, r). ret (put_key k r out))) ps out) f e w
    = f (foldl (\<lambda>out p. put_key p (verdict (sv_kern e) (fst (adm_Check a (permission_request sub res p) w))) out) out ps) e w"
  unfolding bind_io_def[of "fold_io _ _ _"] effective_fold[OF assms] prod.case ..

lemma put_all_keys:
  "get_key (foldl (\<lambda>out p. put_key p (f p) out) out ps) q = (if q \<in> set ps then Some (f q) else get_key out q)"
  by (induction ps arbitrary: out) (auto simp: update_conv')

text \<open>C33. When checks do not change the state, the effective permissions of a subject are exactly the verdicts on
  the names the request asks about, or on the default names when it asks about none; the error of a
  check is the verdict not allowed with its text.\<close>

theorem effective_permissions_exact:
  assumes a: "dep_Authz d = Some a" and pure: "\<And>req w. snd (adm_Check a req w) = w"
    and run: "GetEffectivePermissions d sub res vs e w = (Inr (sub', res', out), w')"
  shows "sub' = sub \<and> res' = res \<and> w' = w
    \<and> global_allows d e w ''view_relationships''
    \<and> (\<forall>p. get_key out p =
        (if p \<in> (if asked_names vs = {} then set default_permissions else asked_names vs)
         then Some (verdict (sv_kern e) (fst (adm_Check a (permission_request sub res p) w))) else None))"
proof -
  let ?ps = "if expandPermissionNames vs = [] then default_permissions else expandPermissionNames vs"
  note same = pure_state[OF pure]
  have names: "set ?ps = (if asked_names vs = {} then set default_permissions else asked_names vs)"
    unfolding expanded(1)[symmetric] set_empty by (rule if_distrib)
  note G = global.success_allowed[OF run[unfolded GetEffectivePermissions_def]]
  note allow = G[THEN conjunct1]
  define vd where "vd = (\<lambda>p. verdict (sv_kern e) (fst (adm_Check a (permission_request sub res p) w)))"
  note G[THEN conjunct2, unfolded a same need_def option.case Let_def  effective_bind[OF pure] ret_run]
  then have "(Inr (sub, res, foldl (\<lambda>out p. put_key p (vd p) out) [] ?ps), w)
      = ((Inr (sub', res', out), w') :: (err + SubjectRef \<times> ObjectRef \<times> (bool \<times> string \<times> string) gomap) \<times> _)"
    unfolding vd_def .
  then have rest: "sub' = sub \<and> res' = res \<and> w' = w" "out = foldl (\<lambda>out p. put_key p (vd p) out) [] ?ps"
    by (simp_all only: prod.inject sum.inject)
  have "\<forall>p. get_key out p = (if p \<in> set ?ps then Some (vd p) else None)"
    unfolding rest(2) put_all_keys by simp
  then show ?thesis using allow rest(1) unfolding names vd_def by simp
qed

end
