(* ===== verification/RemoteLaws.thy ===== *)
theory RemoteLaws
  imports PermissionLaws
begin

text \<open>
  The authorization client over the permission service: composed, they behave as the provider behind
  the service, with the decisions reduced to what a message carries and without the expiry of
  relationships.  In particular a remote store keeps the contract of a relationship store that the
  theories of the services rely on.
\<close>

subsection \<open>The service as a stub\<close>

definition serve :: "svc_env \<Rightarrow> ('a \<Rightarrow> 'b) \<Rightarrow> ('w, 'a) svc \<Rightarrow> 'w \<Rightarrow> (err + 'b) \<times> 'w" where
  "serve e f h w = (case h e w of (Inl er, w') \<Rightarrow> (Inl er, w') | (Inr x, w') \<Rightarrow> (Inr (f x), w'))"

text \<open>The stub reaches the handlers; how an error is transported shows in \<open>cl_code\<close> and \<open>cl_message\<close> only.\<close>

definition service_stub :: "svc_env \<Rightarrow> 'w IAMDeps \<Rightarrow> 'w permissionClient" where
  "service_stub e d =
     \<lparr>raw_CheckPermission = (\<lambda>req. serve e Some (CheckPermission d req)),
      raw_BatchCheckPermissions = (\<lambda>reqs. serve e (map Some) (BatchCheckPermissions d reqs)),
      raw_WriteRelationships = (\<lambda>rels. serve e id (svc_WriteRelationships d rels)),
      raw_DeleteRelationships = (\<lambda>f. serve e id (svc_DeleteRelationships d (Some f))),
      raw_ReadRelationships = (\<lambda>f. serve e (map Some) (svc_ReadRelationships d f)),
      raw_LookupResources = (\<lambda>req. serve e (\<lambda>(xs, c, t). (map Some xs, c, t)) (svc_LookupResources d req)),
      raw_LookupSubjects = (\<lambda>req. serve e (\<lambda>(xs, c, t). (map Some xs, c, t)) (svc_LookupSubjects d req))\<rparr>"

definition remote_store :: "client_env \<Rightarrow> 'w permissionClient \<Rightarrow> 'w store" where
  "remote_store ce c = \<lparr>st_write = cl_WriteRelationships ce c, st_delete = cl_DeleteRelationships ce c,
     st_read = cl_ReadRelationships ce c\<rparr>"

definition no_expiry :: "Relationship \<Rightarrow> Relationship" where
  "no_expiry r = r\<lparr>rel_ExpiresAt := zero_time\<rparr>"

lemma no_expiry_key [simp]: "rel_key (no_expiry r) = rel_key r"
  by (simp add: no_expiry_def rel_key_def)

lemma no_expiry_twice [simp]: "no_expiry (no_expiry r) = no_expiry r"
  by (simp add: no_expiry_def)

lemma filter_eta [simp]:
  "\<lparr>f_ResourceType = f_ResourceType f, f_ResourceID = f_ResourceID f, f_Relation = f_Relation f,
    f_SubjectType = f_SubjectType f, f_SubjectID = f_SubjectID f, f_SubjectRel = f_SubjectRel f\<rparr> = f"
  by (cases f) simp

subsection \<open>Conversions there and back\<close>

lemma messages_id [simp]:
  "cl_subjectToProto s = s" "cl_objectToProto x = x" "subjectToProto s = s" "objectToProto x = x"
  "cl_subjectFromProto (Some s) = s" "cl_objectFromProto (Some x) = x" "filterToProto f = f"
  "listRequestToProto f = f" "relationshipFilterFromProto (Some f) = f"
  by (simp_all add: cl_subjectToProto_def cl_objectToProto_def subjectToProto_def objectToProto_def
      cl_subjectFromProto_def cl_objectFromProto_def filterToProto_def listRequestToProto_def
      relationshipFilterFromProto_def)

lemma relationship_round_trip [simp]:
  "relationshipFromProto (Some (cl_relationshipToProto r)) = no_expiry r"
  "cl_relationshipFromProto (Some (relationshipToProto r)) = no_expiry r"
  by (cases r; simp add: relationshipFromProto_def cl_relationshipToProto_def cl_relationshipFromProto_def
      relationshipToProto_def no_expiry_def)+

lemma check_round_trip [simp]: "permissionCheckFromProto (checkRequestToProto req) = req"
  by (cases req) (simp add: permissionCheckFromProto_def checkRequestToProto_def)

definition carried :: "kernel \<Rightarrow> Decision \<Rightarrow> Decision" where
  "carried K dec = dec\<lparr>dec_Allowed := is_allowed K dec\<rparr>"

lemma decision_round_trip [simp]: "decisionFromProto ce (Some (permissionDecisionToProto K dec)) = carried K dec"
  by (cases dec) (simp add: decisionFromProto_def permissionDecisionToProto_def carried_def)

lemmas remote_parts = serve_def service_stub_def remote_def need_def calls_def kernel_of_def bindE_def bind_io_def

subsection \<open>The remote provider\<close>

lemma remote_check:
  assumes "dep_Authz d = Some a"
  shows "cl_Check ce (service_stub e d) req w =
    (case adm_Check a req w of (Inl er, w') \<Rightarrow> (Inl (mapError ce er), w')
     | (Inr dec, w') \<Rightarrow> (Inr (carried (sv_kern e) dec), w'))"
  using assms by (auto simp: cl_Check_def CheckPermission_def remote_parts split: prod.splits sum.splits)

lemma remote_write:
  assumes "dep_Authz d = Some a"
  shows "st_write (remote_store ce (service_stub e d)) rels w =
    (case st_write (adm_Relationships a) (map no_expiry rels) w of
       ((wr, None), w') \<Rightarrow> ((no_result\<lparr>wr_Written := wrap32 (wr_Written wr), wr_Token := wr_Token wr\<rparr>, None), w')
     | ((_, Some er), w') \<Rightarrow> ((no_result, Some (mapError ce er)), w'))"
  using assms by (auto simp: remote_store_def cl_WriteRelationships_def svc_WriteRelationships_def write_result_def
      written_def comp_def remote_parts split: prod.splits sum.splits option.splits)

lemma remote_delete:
  assumes "dep_Authz d = Some a"
  shows "st_delete (remote_store ce (service_stub e d)) f w =
    (case st_delete (adm_Relationships a) f w of
       ((wr, None), w') \<Rightarrow> ((no_result\<lparr>wr_Deleted := wrap32 (wr_Deleted wr), wr_Token := wr_Token wr\<rparr>, None), w')
     | ((_, Some er), w') \<Rightarrow> ((no_result, Some (mapError ce er)), w'))"
  using assms by (auto simp: remote_store_def cl_DeleteRelationships_def svc_DeleteRelationships_def write_result_def
      written_def remote_parts split: prod.splits sum.splits option.splits)

lemma remote_read:
  assumes "dep_Authz d = Some a"
  shows "st_read (remote_store ce (service_stub e d)) f w =
    (case st_read (adm_Relationships a) f w of (Inl er, w') \<Rightarrow> (Inl (mapError ce er), w')
     | (Inr rels, w') \<Rightarrow> (Inr (map no_expiry rels), w'))"
  using assms by (auto simp: remote_store_def cl_ReadRelationships_def svc_ReadRelationships_def comp_def
      remote_parts split: prod.splits sum.splits)

lemma image_no_expiry [simp]: "rel_key ` no_expiry ` R = rel_key ` R"
  by (auto simp: image_comp comp_def)

text \<open>C16. A business service that uses the client gets what the provider behind the permission service offers: a
  check has the same verdict, effect, reason and token, and the remote store keeps the contract of a
  relationship store on the same tuples, provided the local store does.\<close>

theorem remote_provider_agrees:
  assumes a: "dep_Authz d = Some a" and S: "tuple_store (adm_Relationships a) T"
  shows "tuple_store (remote_store ce (service_stub e d)) T
    \<and> (adm_Check a req w = (Inr dec, w') \<longrightarrow>
        (\<exists>dec'. cl_Check ce (service_stub e d) req w = (Inr dec', w') \<and> dec_Allowed dec' = is_allowed (sv_kern e) dec
          \<and> dec_Effect dec' = dec_Effect dec \<and> dec_Reason dec' = dec_Reason dec \<and> dec_Token dec' = dec_Token dec))"
proof -
  let ?R = "remote_store ce (service_stub e d)"
  note W = S[unfolded tuple_store_def store_writes_def, THEN conjunct1]
  note D = S[unfolded tuple_store_def store_deletes_def, THEN conjunct2, THEN conjunct1]
  note R = S[unfolded tuple_store_def store_reads_def, THEN conjunct2, THEN conjunct2]
  have w: "T g' = (if er = None then T g \<union> rel_key ` set rels else T g)"
    if "st_write ?R rels g = ((wr, er), g')" for rels g wr er g'
  proof -
    obtain wr0 er0 g0 where l0: "st_write (adm_Relationships a) (map no_expiry rels) g = ((wr0, er0), g0)"
      by (metis prod.collapse)
    have er: "er = None \<longleftrightarrow> er0 = None" and l: "st_write (adm_Relationships a) (map no_expiry rels) g = ((wr0, er0), g')"
      using that l0 unfolding remote_write[OF a]
      by (auto split: option.splits)
    show ?thesis using W[rule_format, OF l] er by simp
  qed
  have dl: "{t \<in> T g. \<not> wide f t} \<subseteq> T g' \<and> T g' \<subseteq> T g \<and> (er = None \<longrightarrow> T g' \<subseteq> {t \<in> T g. \<not> narrow f t})"
    if "st_delete ?R f g = ((wr, er), g')" for f g wr er g'
  proof -
    obtain wr0 er0 g0 where l0: "st_delete (adm_Relationships a) f g = ((wr0, er0), g0)"
      by (metis prod.collapse)
    have er: "er = None \<longleftrightarrow> er0 = None" and l: "st_delete (adm_Relationships a) f g = ((wr0, er0), g')"
      using that l0 unfolding remote_delete[OF a] by (cases er0; auto)+
    show ?thesis using D[rule_format, OF l] er by simp
  qed
  have rd: "T g' = T g \<and> (\<forall>rels. r = Inr rels \<longrightarrow>
      {t \<in> T g. narrow f t} \<subseteq> rel_key ` set rels \<and> rel_key ` set rels \<subseteq> {t \<in> T g. wide f t})"
    if "st_read ?R f g = (r, g')" for f g r g'
  proof -
    obtain r0 g0 where l0: "st_read (adm_Relationships a) f g = (r0, g0)" by fastforce
    have r: "r = map_sum (mapError ce) (map no_expiry) r0" and l: "st_read (adm_Relationships a) f g = (r0, g')"
      using that l0 unfolding remote_read[OF a] by (cases r0; auto)+
    show ?thesis using R[rule_format, OF l] unfolding r by (cases r0) simp_all
  qed
  have "tuple_store ?R T"
    unfolding tuple_store_def store_writes_def store_deletes_def store_reads_def using w dl rd by blast
  moreover have "\<exists>dec'. cl_Check ce (service_stub e d) req w = (Inr dec', w') \<and> dec_Allowed dec' = is_allowed (sv_kern e) dec
      \<and> dec_Effect dec' = dec_Effect dec \<and> dec_Reason dec' = dec_Reason dec \<and> dec_Token dec' = dec_Token dec"
    if "adm_Check a req w = (Inr dec, w')"
    using that by (simp add: remote_check[OF a] carried_def)
  ultimately show ?thesis by blast
qed

text \<open>A relationship that is written through the client loses its expiry: the grant it stands for never ends.\<close>

lemma remote_write_is_permanent:
  "dep_Authz d = Some a \<Longrightarrow> st_write (remote_store ce (service_stub e d)) rels w
     = st_write (remote_store ce (service_stub e d)) (map no_expiry rels) w"
  by (simp add: remote_write comp_def)

end
