(* ===== verification/MetadataLaws.thy ===== *)
theory MetadataLaws
  imports IdentityLaws GroupMetadata
begin

text \<open>
  Laws of the group metadata: what the provider drops of a group comes back from the table, the
  machine name survives updates that do not name one, and the decorated provider keeps what the
  projecting provider expects of a creation.
\<close>

lemma firstGroupValue_same: "firstGroupValue = firstNonEmpty"
proof
  show "firstGroupValue vs = firstNonEmpty vs" for vs by (induction vs) simp_all
qed

lemma firstGroupValue_trimmed [simp]: "TrimSpace (firstGroupValue vs) = firstGroupValue vs"
  by (simp add: firstGroupValue_same)

lemma firstGroupValue_first: "TrimSpace v \<noteq> [] \<Longrightarrow> firstGroupValue (v # vs) = TrimSpace v"
  by simp

lemma firstGroupValue_idem:
  "firstGroupValue (v # vs) \<noteq> [] \<Longrightarrow> firstGroupValue (firstGroupValue (v # vs) # us) = firstGroupValue (v # vs)"
  by (simp only: firstGroupValue.simps(2)[of _ us] firstGroupValue_trimmed) simp

subsection \<open>The table\<close>

text \<open>
  The documented behaviour of the three statements on the rows, keyed by their identifier: an upsert
  changes the named columns of an existing row and inserts a missing one; a query finds the rows of
  the organization with the status; reading the clock changes nothing.
\<close>

definition upserted :: "GroupModel option \<Rightarrow> GroupModel \<Rightarrow> GroupModel" where
  "upserted old m = (case old of None \<Rightarrow> m
     | Some r \<Rightarrow> m\<lparr>gm_OrgID := gm_OrgID r, gm_CreatedAt := gm_CreatedAt r\<rparr>)"

definition group_rows :: "'p group_table \<Rightarrow> ('p \<Rightarrow> string \<Rightarrow> GroupModel option) \<Rightarrow> bool" where
  "group_rows tbl R \<longleftrightarrow>
     (\<forall>p i m. R p i = Some m \<longrightarrow> gm_ID m = i)
     \<and> (\<forall>p. R (snd (gt_now tbl p)) = R p)
     \<and> (\<forall>m p p'. gt_SafeUpsert tbl m saved_columns p = (Inr (), p') \<longrightarrow>
          R p' = (R p)(gm_ID m := Some (upserted (R p (gm_ID m)) m)))
     \<and> (\<forall>org st p ms p'. gt_FindMany tbl org st p = (Inr ms, p') \<longrightarrow>
          R p' = R p \<and> set ms = {m. R p (gm_ID m) = Some m \<and> gm_OrgID m = org \<and> gm_Status m = st})"

definition keeps_rows :: "'p IdentityAdmin \<Rightarrow> ('p \<Rightarrow> string \<Rightarrow> GroupModel option) \<Rightarrow> bool" where
  "keeps_rows a R \<longleftrightarrow> (\<forall>g k p. R (snd (ia_CreateGroup a g k p)) = R p) \<and> (\<forall>g p. R (snd (ia_UpdateGroup a g p)) = R p)
     \<and> (\<forall>o1 i p. R (snd (ia_GetGroup a o1 i p)) = R p)"

subsection \<open>Lookup\<close>

definition carries :: "GroupModel \<Rightarrow> string \<Rightarrow> bool" where
  "carries m k \<longleftrightarrow> TrimSpace (gm_ID m) = k \<or> TrimSpace (gm_CasdoorName m) = k"

lemma put_metadata_get:
  "k \<noteq> [] \<Longrightarrow> get_key (put_metadata m x out) k = (if TrimSpace x = k then Some m else get_key out k)"
  by (auto simp: put_metadata_def Let_def update_conv')

lemma metadata_map_snoc:
  "k \<noteq> [] \<Longrightarrow> get_key (metadata_map (ms @ [m])) k = (if carries m k then Some m else get_key (metadata_map ms) k)"
  by (auto simp: metadata_map_def put_metadata_get carries_def)

lemma metadata_map_get:
  assumes k: "k \<noteq> []" and m: "m \<in> set ms" "carries m k" and other: "\<And>n. n \<in> set ms \<Longrightarrow> n \<noteq> m \<Longrightarrow> \<not> carries n k"
  shows "get_key (metadata_map ms) k = Some m"
  using m(1) other
proof (induction ms rule: rev_induct)
  case (snoc x ms)
  show ?case
  proof (cases "x = m")
    case True
    then show ?thesis using m(2) by (simp add: metadata_map_snoc[OF k])
  next
    case False
    then have "\<not> carries x k" "m \<in> set ms" using snoc.prems by auto
    then show ?thesis using snoc by (simp add: metadata_map_snoc[OF k])
  qed
qed simp

text \<open>No other row of the table carries the identifier.\<close>

definition sole_row :: "(string \<Rightarrow> GroupModel option) \<Rightarrow> string \<Rightarrow> bool" where
  "sole_row rows k \<longleftrightarrow> (\<forall>i m. rows i = Some m \<longrightarrow> i \<noteq> k \<longrightarrow> \<not> carries m k)"

lemma metadata_found:
  assumes tbl: "group_rows tbl R" and row: "R p k = Some m" "gm_OrgID m = org" "gm_Status m = StatusActive"
    and k: "k \<noteq> []" "TrimSpace k = k" and sole: "sole_row (R p) k"
    and listed: "metadataByProviderID (NewGroupMetadataRepository tbl) org p = (Inr md, p')"
  shows "get_key md k = Some m \<and> R p' = R p"
proof -
  have id: "gm_ID m = k" using tbl row(1) unfolding group_rows_def by blast
  obtain ms where f: "gt_FindMany tbl org StatusActive p = (Inr ms, p')" and md: "md = metadata_map ms"
    using listed by (auto simp: metadataByProviderID_def NewGroupMetadataRepository_def ListGroupMetadata_def
        split: prod.splits sum.splits)
  have rows: "R p' = R p" "set ms = {m. R p (gm_ID m) = Some m \<and> gm_OrgID m = org \<and> gm_Status m = StatusActive}"
    using tbl f unfolding group_rows_def by blast+
  have "get_key (metadata_map ms) k = Some m"
  proof (rule metadata_map_get[OF k(1)])
    show "m \<in> set ms" using rows(2) row id by simp
    show "carries m k" using id k(2) by (simp add: carries_def)
    show "\<not> carries n k" if "n \<in> set ms" "n \<noteq> m" for n
    proof -
      have n: "R p (gm_ID n) = Some n" using that rows(2) by simp
      then have "gm_ID n \<noteq> k" using that(2) row(1) by auto
      then show ?thesis using sole n unfolding sole_row_def by blast
    qed
  qed
  then show ?thesis using md rows by simp
qed

subsection \<open>Saving\<close>

lemma save_metadata_run:
  assumes tbl: "group_rows tbl R" and run: "save_metadata (NewGroupMetadataRepository tbl) grp m p = (Inr g, p')"
  shows "g = decorateGroupMetadata grp m \<and> R p' = (R p)(gm_ID m := Some (upserted (R p (gm_ID m)) m))"
proof -
  obtain x where "gt_SafeUpsert tbl m saved_columns p = (Inr x, p')" and g: "g = decorateGroupMetadata grp m"
    using run by (auto simp: save_metadata_def NewGroupMetadataRepository_def SaveGroup_def split: prod.splits sum.splits)
  then show ?thesis using tbl unfolding group_rows_def by (cases x) blast
qed

lemma now_rows: "group_rows tbl R \<Longrightarrow> gmr_now (NewGroupMetadataRepository tbl) p = (t, p') \<Longrightarrow> R p' = R p"
  unfolding group_rows_def NewGroupMetadataRepository_def by (auto simp: ) (metis snd_conv)

lemma model_fields:
  "gm_ID (groupMetadataModel now grp req) = firstGroupValue [gp_ID grp, gp_ID req, gp_Name grp, gp_Name req]"
  "gm_Status (groupMetadataModel now grp req) = StatusActive"
  "gm_ParentID (groupMetadataModel now grp req) = gp_ParentID req"
  "gm_OrgID (groupMetadataModel now grp req) = firstGroupValue [gp_OrgID grp, gp_OrgID req]"
  by (simp_all add: groupMetadataModel_def Let_def)

lemma model_requested:
  "TrimSpace (gp_ExternalID req) = [] \<or> gm_Name (groupMetadataModel now grp req) = TrimSpace (gp_ExternalID req)"
  "TrimSpace (gp_DisplayName req) = [] \<or> gm_DisplayName (groupMetadataModel now grp req) = TrimSpace (gp_DisplayName req)"
  "TrimSpace (gp_Type req) = [] \<or> gm_Type (groupMetadataModel now grp req) = TrimSpace (gp_Type req)"
  by (auto simp: groupMetadataModel_def Let_def)

lemma model_texts_trimmed:
  "TrimSpace (gm_Name (groupMetadataModel now grp req)) = gm_Name (groupMetadataModel now grp req)"
  "TrimSpace (gm_DisplayName (groupMetadataModel now grp req)) = gm_DisplayName (groupMetadataModel now grp req)"
  "TrimSpace (gm_Type (groupMetadataModel now grp req)) = gm_Type (groupMetadataModel now grp req)"
  "TrimSpace (gm_OrgID (groupMetadataModel now grp req)) = gm_OrgID (groupMetadataModel now grp req)"
  "TrimSpace (gm_ID (groupMetadataModel now grp req)) = gm_ID (groupMetadataModel now grp req)"
  by (simp_all add: groupMetadataModel_def Let_def del: firstGroupValue.simps)

lemma saved_row:
  assumes "group_rows tbl R" "R p (gm_ID m) = None" "save_metadata (NewGroupMetadataRepository tbl) grp m p = (Inr g, p')"
  shows "R p' (gm_ID m) = Some m"
  using save_metadata_run[OF assms(1,3)] assms(2) by (simp add: upserted_def)

lemma create_run:
  assumes tbl: "group_rows tbl R" and a: "keeps_rows a R"
    and run: "meta_CreateGroup a (NewGroupMetadataRepository tbl) req ikey p = (Inr g, p')"
  obtains grp now where "fst (ia_CreateGroup a req ikey p) = Inr grp"
    "g = decorateGroupMetadata grp (groupMetadataModel now grp req)"
    "R p' = (R p)(gm_ID (groupMetadataModel now grp req) :=
       Some (upserted (R p (gm_ID (groupMetadataModel now grp req))) (groupMetadataModel now grp req)))"
proof -
  obtain grp p1 now p2 where c: "ia_CreateGroup a req ikey p = (Inr grp, p1)"
    and n: "gmr_now (NewGroupMetadataRepository tbl) p1 = (now, p2)"
    and s: "save_metadata (NewGroupMetadataRepository tbl) grp (groupMetadataModel now grp req) p2 = (Inr g, p')"
    using run by (auto simp: meta_CreateGroup_def split: prod.splits sum.splits)
  have "R p1 = R p" using a c unfolding keeps_rows_def by (metis snd_conv)
  then have "R p2 = R p" using now_rows[OF tbl n] by simp
  then show ?thesis using that[of grp now] c save_metadata_run[OF tbl s] by simp
qed

text \<open>The decorated group shows the fields of its row.\<close>

lemma decorated_fields:
  assumes "TrimSpace (gm_Name m) = gm_Name m" "gm_Name m \<noteq> []" "TrimSpace (gm_DisplayName m) = gm_DisplayName m"
    "gm_DisplayName m \<noteq> []" "TrimSpace (gm_Type m) = gm_Type m" "gm_Type m \<noteq> []"
  shows "gp_ExternalID (decorateGroupMetadata h m) = gm_Name m"
    "gp_DisplayName (decorateGroupMetadata h m) = gm_DisplayName m"
    "gp_Type (decorateGroupMetadata h m) = gm_Type m"
    "gp_ParentID (decorateGroupMetadata h m) = gm_ParentID m"
  using assms by (simp_all add: decorateGroupMetadata_def)

lemma model_nonempty:
  assumes "gm_ID (groupMetadataModel now grp req) \<noteq> []"
  shows "gm_Name (groupMetadataModel now grp req) \<noteq> []" "gm_DisplayName (groupMetadataModel now grp req) \<noteq> []"
    "gm_Type (groupMetadataModel now grp req) \<noteq> []"
proof -
  have phys: "TrimSpace ''Physical'' \<noteq> []" by (simp add: TrimSpace_visible visible_def)
  let ?m = "groupMetadataModel now grp req"
  have names: "TrimSpace (gm_Name ?m) = gm_Name ?m" by (rule model_texts_trimmed)
  show n: "gm_Name ?m \<noteq> []"
    using assms by (simp add: groupMetadataModel_def Let_def del: firstGroupValue.simps)
  have "gm_DisplayName ?m = firstGroupValue [gp_DisplayName req, gp_DisplayName grp, gm_Name ?m]"
    by (simp add: groupMetadataModel_def Let_def del: firstGroupValue.simps)
  then show "gm_DisplayName ?m \<noteq> []" using n names by simp
  show "gm_Type ?m \<noteq> []" using phys by (simp add: groupMetadataModel_def Let_def)
qed

lemmas model_shown = decorated_fields[OF model_texts_trimmed(1) model_nonempty(1) model_texts_trimmed(2)
  model_nonempty(2) model_texts_trimmed(3) model_nonempty(3)]

lemma lookup_by_id:
  "get_key md k = Some m \<Longrightarrow> TrimSpace (gp_ID h) = k \<Longrightarrow> lookupGroupMetadata md h = Some m"
  by (simp add: lookupGroupMetadata_def)

subsection \<open>What the provider drops comes back\<close>

text \<open>C21. A group whose creation succeeds can be read back with the machine name, display name and type of the request,
  without outer blanks and as far as the request fills them in, with the parent of the request, and with all of these
  as the creation answered, whatever of them the provider has kept: as long as the provider still finds the group, its row is
  as it was written and no other row of the table carries its identifier.\<close>

theorem group_details_survive:
  assumes tbl: "group_rows tbl R" and a: "keeps_rows a R"
    and created: "meta_CreateGroup a (NewGroupMetadataRepository tbl) req ikey p = (Inr g, p1)"
    and k: "gp_ID g = k" "TrimSpace k = k" "k \<noteq> []" "R p k = None" "gp_OrgID g = org"
    and later: "R p2 = R p1" "sole_row (R p2) k"
    and found: "ia_GetGroup a org k p2 = (Inr h, p3)" "TrimSpace (gp_ID h) = k"
    and run: "meta_GetGroup a (NewGroupMetadataRepository tbl) org k p2 = (Inr h', p4)"
  shows "gp_ExternalID h' = gp_ExternalID g \<and> gp_DisplayName h' = gp_DisplayName g \<and> gp_Type h' = gp_Type g
    \<and> gp_ParentID h' = gp_ParentID g \<and> gp_ParentID h' = gp_ParentID req
    \<and> (TrimSpace (gp_ExternalID req) = [] \<or> gp_ExternalID h' = TrimSpace (gp_ExternalID req))
    \<and> (TrimSpace (gp_DisplayName req) = [] \<or> gp_DisplayName h' = TrimSpace (gp_DisplayName req))
    \<and> (TrimSpace (gp_Type req) = [] \<or> gp_Type h' = TrimSpace (gp_Type req))"
proof -
  let ?repo = "NewGroupMetadataRepository tbl"
  obtain grp now where g: "g = decorateGroupMetadata grp (groupMetadataModel now grp req)"
    and rows: "R p1 = (R p)(gm_ID (groupMetadataModel now grp req) :=
       Some (upserted (R p (gm_ID (groupMetadataModel now grp req))) (groupMetadataModel now grp req)))"
    by (rule create_run[OF tbl a created])
  define m where "m = groupMetadataModel now grp req"
  have mid: "gm_ID m = k"
    using k(1,3) model_fields(1)[of now grp req] model_texts_trimmed(5)[of now grp req]
    by (auto simp: g m_def decorateGroupMetadata_def split: if_splits)
  have "gm_OrgID m = org"
    using k(5) model_texts_trimmed(4)[of now grp req] model_fields(4)[of now grp req]
    by (auto simp: g m_def decorateGroupMetadata_def split: if_splits)
  moreover have row: "R p2 k = Some m"
    using rows later(1) k(4) unfolding m_def[symmetric] mid by (simp add: upserted_def)
  moreover have "gm_Status m = StatusActive" by (simp add: m_def model_fields)
  moreover have kept: "R p3 = R p2" using a found(1) unfolding keeps_rows_def by (metis snd_conv)
  moreover obtain md p5 where listed: "metadataByProviderID ?repo org p3 = (Inr md, p5)" and h': "h' = decorated md h"
    using run found(1) by (auto simp: meta_GetGroup_def split: prod.splits sum.splits)
  ultimately have "get_key md k = Some m"
    using metadata_found[OF tbl _ _ _ k(3,2) _ listed, of m] later(2) by simp
  then have "h' = decorateGroupMetadata h m" using h' found(2) by (simp add: decorated_def lookup_by_id)
  moreover have "gm_ID (groupMetadataModel now grp req) \<noteq> []" using mid k(3) by (simp add: m_def)
  ultimately show ?thesis
    using model_requested[of req now grp] by (simp add: g m_def model_shown model_fields)
qed

subsection \<open>Updates\<close>

lemma update_run:
  assumes tbl: "group_rows tbl R" and a: "keeps_rows a R"
    and run: "meta_UpdateGroup a (NewGroupMetadataRepository tbl) req p = (Inr g, p')"
  obtains md p0 grp now m where "metadataByProviderID (NewGroupMetadataRepository tbl) (gp_OrgID req) p = (Inr md, p0)"
    "fst (ia_UpdateGroup a req p0) = Inr grp"
    "m = (if TrimSpace (gp_ExternalID req) = []
       then case lookupGroupMetadata md grp of None \<Rightarrow> groupMetadataModel now grp req
         | Some old \<Rightarrow> (groupMetadataModel now grp req)\<lparr>gm_Name := gm_Name old, gm_CreatedAt := gm_CreatedAt old\<rparr>
       else groupMetadataModel now grp req)"
    "g = decorateGroupMetadata grp m" "R p' = (R p)(gm_ID m := Some (upserted (R p (gm_ID m)) m))"
proof -
  let ?repo = "NewGroupMetadataRepository tbl"
  obtain md p0 grp p1 now p2 where l: "metadataByProviderID ?repo (gp_OrgID req) p = (Inr md, p0)"
    and u: "ia_UpdateGroup a req p0 = (Inr grp, p1)" and n: "gmr_now ?repo p1 = (now, p2)"
    and s: "save_metadata ?repo grp (if TrimSpace (gp_ExternalID req) = []
       then case lookupGroupMetadata md grp of None \<Rightarrow> groupMetadataModel now grp req
         | Some old \<Rightarrow> (groupMetadataModel now grp req)\<lparr>gm_Name := gm_Name old, gm_CreatedAt := gm_CreatedAt old\<rparr>
       else groupMetadataModel now grp req) p2 = (Inr g, p')"
    using run by (auto simp: meta_UpdateGroup_def Let_def split: prod.splits sum.splits)
  have "R p0 = R p"
    using l tbl unfolding metadataByProviderID_def NewGroupMetadataRepository_def ListGroupMetadata_def group_rows_def
    by (auto split: prod.splits sum.splits)
  moreover have "R p1 = R p0" using a u unfolding keeps_rows_def by (metis snd_conv)
  ultimately have "R p2 = R p" using now_rows[OF tbl n] by simp
  with l u save_metadata_run[OF tbl s] show ?thesis by (intro that[OF l]) auto
qed

text \<open>An update that succeeds and names no machine name keeps the one of the group, in the answer and in the
  table, and changes no other row.\<close>

theorem machine_name_kept:
  assumes tbl: "group_rows tbl R" and a: "keeps_rows a R"
    and row: "R p k = Some old" "gm_OrgID old = gp_OrgID req" "gm_Status old = StatusActive" "gm_Name old = slug"
      "TrimSpace slug = slug" "slug \<noteq> []"
    and k: "TrimSpace k = k" "k \<noteq> []" "sole_row (R p) k"
    and echo: "\<And>q x. fst (ia_UpdateGroup a req q) = Inr x \<Longrightarrow> gp_ID x = k"
    and noname: "TrimSpace (gp_ExternalID req) = []"
    and run: "meta_UpdateGroup a (NewGroupMetadataRepository tbl) req p = (Inr g, p')"
  shows "gp_ExternalID g = slug \<and> (\<exists>m. R p' k = Some m \<and> gm_Name m = slug) \<and> (\<forall>i. i \<noteq> k \<longrightarrow> R p' i = R p i)"
proof -
  obtain md p0 grp now m where l: "metadataByProviderID (NewGroupMetadataRepository tbl) (gp_OrgID req) p = (Inr md, p0)"
    and u: "fst (ia_UpdateGroup a req p0) = Inr grp"
    and m: "m = (if TrimSpace (gp_ExternalID req) = []
       then case lookupGroupMetadata md grp of None \<Rightarrow> groupMetadataModel now grp req
         | Some old \<Rightarrow> (groupMetadataModel now grp req)\<lparr>gm_Name := gm_Name old, gm_CreatedAt := gm_CreatedAt old\<rparr>
       else groupMetadataModel now grp req)"
    and g: "g = decorateGroupMetadata grp m" and rows: "R p' = (R p)(gm_ID m := Some (upserted (R p (gm_ID m)) m))"
    by (rule update_run[OF tbl a run])
  have id: "gp_ID grp = k" using echo[OF u] .
  have "get_key md k = Some old" using metadata_found[OF tbl row(1,2,3) k(2,1,3) l] by simp
  then have "lookupGroupMetadata md grp = Some old" using id k(1) by (simp add: lookup_by_id)
  then have mm: "m = (groupMetadataModel now grp req)\<lparr>gm_Name := slug, gm_CreatedAt := gm_CreatedAt old\<rparr>"
    using m noname row(4) by simp
  have mid: "gm_ID m = k" using id k by (simp add: mm model_fields)
  show ?thesis using row(5,6) mid by (auto simp: g rows decorateGroupMetadata_def mm upserted_def split: option.splits)
qed

subsection \<open>The decorated provider echoes creations\<close>

lemma metadata_echoes_groups:
  assumes "echoes_groups a"
  shows "echoes_groups (groupMetadataIdentityAdmin a repo)"
  unfolding echoes_groups_def
proof (intro allI impI)
  fix g ikey p g' p'
  assume run: "ia_CreateGroup (groupMetadataIdentityAdmin a repo) g ikey p = (Inr g', p')"
    and ids: "plain_id (gp_ID g)" "plain_id (gp_OrgID g)" "gp_ParentID g = [] \<or> plain_id (gp_ParentID g)"
  obtain grp p1 now where c: "ia_CreateGroup a g ikey p = (Inr grp, p1)"
    and g': "g' = decorateGroupMetadata grp (groupMetadataModel now grp g)"
    using run by (auto simp: groupMetadataIdentityAdmin_def meta_CreateGroup_def save_metadata_def split: prod.splits sum.splits)
  have "gp_ID grp = gp_ID g" "gp_OrgID grp = gp_OrgID g"
    using assms[unfolded echoes_groups_def, rule_format, OF c ids] by simp_all
  then show "gp_ID g' = gp_ID g \<and> gp_OrgID g' = gp_OrgID g \<and> gp_ParentID g' = gp_ParentID g"
    using ids by (simp add: g' decorateGroupMetadata_def model_fields plain_id_def)
qed

end
