(* ===== verification/ServiceExamples.thy ===== *)
theory ServiceExamples
  imports RemoteLaws MetadataLaws GroupLaws
begin

text \<open>
  Concrete runs of the services: an authorization provider over the list store of theory Authz whose
  check asks for a relationship with the permission as its relation, and a provider of groups whose
  state is the list of the rows of the metadata table.
\<close>

subsection \<open>The permission services\<close>

definition graph_check :: "Relationship list authorizer" where
  "graph_check req g = (Inr \<lparr>dec_Allowed = list_ex (\<lambda>r. rel_Resource r = chk_Resource req
       \<and> rel_Relation r = chk_Permission req \<and> rel_Subject r = chk_Subject req) g,
     dec_Effect = [], dec_Reason = [], dec_Token = []\<rparr>, g)"

definition still_schema :: "'w SchemaManager" where
  "still_schema = \<lparr>sm_ReadSchema = (\<lambda>w. (Inr [], w)), sm_ValidateSchema = (\<lambda>_ w. (Inr (), w)),
     sm_WriteSchema = (\<lambda>_ w. (Inr (), w))\<rparr>"

definition sample_provider :: "Relationship list AdminProvider" where
  "sample_provider = \<lparr>adm_Check = graph_check, adm_BatchCheck = (\<lambda>_ w. (Inr [], w)),
     adm_Relationships = set_store False [], adm_LookupResources = (\<lambda>_ w. (Inr ([], [], []), w)),
     adm_LookupSubjects = (\<lambda>_ w. (Inr ([], [], []), w)), adm_Schema = still_schema,
     adm_SchemaVersion = (\<lambda>_. [])\<rparr>"

definition sample_deps :: "Relationship list IAMDeps" where
  "sample_deps = \<lparr>dep_Tokens = None, dep_Identity = None, dep_Authz = Some sample_provider\<rparr>"

definition sample_caller :: AuthnPrincipal where
  "sample_caller = \<lparr>ap_Authenticated = True, ap_SubjectType = [], ap_SubjectID = ''u1'', ap_OrgID = ''acme'',
     ap_Provider = [], ap_ExternalID = [], ap_Issuer = [], ap_Audience = [], ap_TenantID = [],
     ap_AppID = [], ap_ProjectID = [], ap_Username = ''u1'', ap_Name = [], ap_Email = [], ap_Phone = [],
     ap_Roles = [], ap_Groups = [], ap_Scopes = [], ap_AuthMethod = [], ap_IssuedAt = 0, ap_ExpiresAt = 0\<rparr>"

definition sample_senv :: svc_env where
  "sample_senv = \<lparr>sv_kern = sample_kernel, sv_principal = Some sample_caller, sv_normalize = (\<lambda>p. p)\<rparr>"

definition watchers :: "Relationship list" where
  "watchers = [edge \<lparr>ob_Type = ''iam_authz'', ob_ID = ''global''\<rparr> ''view_relationships'' (plain_user ''u1''),
     edge \<lparr>ob_Type = ''project'', ob_ID = ''p1''\<rparr> ''edit'' (plain_user ''u2'')]"

lemmas sample_services = sample_provider_def sample_deps_def sample_caller_def sample_senv_def sample_kernel_def
  watchers_def graph_check_def edge_def plain_user_def

lemma unpermitted_calls_stop_witness:
  "stops_at watchers (PublishAuthorizationSchema sample_deps (''definition user {}'') sample_senv watchers)"
proof -
  have no: "\<not> global_allows sample_deps sample_senv watchers ''publish_schema''"
    by (simp add: check_allows_def checks_def global_request_def acting_subject_def sample_services)
  have at: "after_global sample_deps sample_senv watchers ''publish_schema'' = watchers"
    by (simp add: check_state_def checks_def global_request_def acting_subject_def sample_services)
  show ?thesis using unpermitted_calls_stop[where d = sample_deps and e = sample_senv and w = watchers] no at by metis
qed

lemma effective_permissions_exact_witness:
  "\<exists>out. GetEffectivePermissions sample_deps (plain_user ''u2'') \<lparr>ob_Type = ''project'', ob_ID = ''p1''\<rparr>
      [''edit, view''] sample_senv watchers
      = (Inr (plain_user ''u2'', \<lparr>ob_Type = ''project'', ob_ID = ''p1''\<rparr>, out), watchers)
    \<and> get_key out ''edit'' = Some (True, [], []) \<and> get_key out ''view'' = Some (False, [], [])
    \<and> get_key out ''delete'' = None"
proof -
  let ?res = "\<lparr>ob_Type = ''project'', ob_ID = ''p1''\<rparr>" and ?sub = "plain_user ''u2''"
  let ?run = "GetEffectivePermissions sample_deps ?sub ?res [''edit, view''] sample_senv watchers"
  have "\<not> isl (fst ?run)" by code_simp
  then obtain s r out w' where run: "?run = (Inr (s, r, out), w')" by (metis run_Inr prod_cases3)
  have names: "asked_names [''edit, view''] = {''edit'', ''view''}"
  proof -
    have "TrimSpace ` set (split_all CHR '','' ''edit, view'') = {''edit'', ''view''}" by code_simp
    then show ?thesis by (auto simp: asked_names_def)
  qed
  have a: "dep_Authz sample_deps = Some sample_provider" by (simp add: sample_deps_def)
  have pure: "snd (adm_Check sample_provider req w) = w" for req w
    by (simp add: sample_provider_def graph_check_def)
  note E = effective_permissions_exact[OF a pure run]
  have keys: "get_key out p = (if p \<in> {''edit'', ''view''}
      then Some (verdict (sv_kern sample_senv) (fst (adm_Check sample_provider (permission_request ?sub ?res p) watchers)))
      else None)" for p
    using E by (simp add: names)
  have "get_key out ''edit'' = Some (True, [], [])" "get_key out ''view'' = Some (False, [], [])"
    "get_key out ''delete'' = None"
    unfolding keys by (simp_all add: verdict_def permission_request_def sample_services)
  then show ?thesis using run E by auto
qed

definition sample_cenv :: client_env where
  "sample_cenv = \<lparr>cl_code = (\<lambda>_. ''Unknown''), cl_message = (\<lambda>_. []),
     cl_deny = (\<lambda>s. \<lparr>dec_Allowed = False, dec_Effect = ''deny'', dec_Reason = s, dec_Token = []\<rparr>)\<rparr>"

lemma remote_provider_agrees_witness:
  "tuple_store (remote_store sample_cenv (service_stub sample_senv sample_deps)) set_tuples
    \<and> (\<exists>dec. cl_Check sample_cenv (service_stub sample_senv sample_deps)
          (permission_request (plain_user ''u2'') \<lparr>ob_Type = ''project'', ob_ID = ''p1''\<rparr> ''edit'') watchers
        = (Inr dec, watchers) \<and> dec_Allowed dec)"
proof -
  let ?req = "permission_request (plain_user ''u2'') \<lparr>ob_Type = ''project'', ob_ID = ''p1''\<rparr> ''edit''"
  have a: "dep_Authz sample_deps = Some sample_provider" by (simp add: sample_deps_def)
  have S: "tuple_store (adm_Relationships sample_provider) set_tuples"
    by (simp add: sample_provider_def tuple_store_set_store)
  have c: "adm_Check sample_provider ?req watchers
      = (Inr \<lparr>dec_Allowed = True, dec_Effect = [], dec_Reason = [], dec_Token = []\<rparr>, watchers)"
    by (simp add: permission_request_def sample_services)
  note R = remote_provider_agrees[OF a S, where ce = sample_cenv and e = sample_senv and req = ?req and w = watchers and w' = watchers]
  show ?thesis using R c by (fastforce simp: sample_senv_def sample_kernel_def)
qed

subsection \<open>Groups with metadata\<close>

definition row_of :: "GroupModel list \<Rightarrow> string \<Rightarrow> GroupModel option" where
  "row_of rows i = find (\<lambda>m. gm_ID m = i) rows"

definition row_table :: "GroupModel list group_table" where
  "row_table = \<lparr>gt_now = (\<lambda>p. (7, p)),
     gt_SafeUpsert = (\<lambda>m _ p. (Inr (), upserted (row_of p (gm_ID m)) m # p)),
     gt_FindMany = (\<lambda>org st p. (Inr (filter (\<lambda>m. row_of p (gm_ID m) = Some m \<and> gm_OrgID m = org \<and> gm_Status m = st) p), p)),
     gt_Update = (\<lambda>_ _ _ p. (Inr (), p))\<rparr>"

text \<open>A provider that keeps the identifier of a group only.\<close>

definition names_only :: "DirGroup \<Rightarrow> DirGroup" where
  "names_only g = zero_group\<lparr>gp_ID := gp_ID g, gp_Name := gp_ID g, gp_OrgID := gp_OrgID g\<rparr>"

definition name_idp :: "'p IdentityAdmin" where
  "name_idp = \<lparr>
     ia_CreateUser = (\<lambda>u _ p. (Inr u, p)), ia_UpdateUser = (\<lambda>u p. (Inr u, p)),
     ia_DeleteUser = (\<lambda>_ _ _ p. (Inr (), p)), ia_UpsertUser = (\<lambda>u p. (Inr u, p)),
     ia_DisableUser = (\<lambda>_ _ p. (Inr (), p)), ia_GetUser = (\<lambda>_ _ p. (Inl no_identity_provider, p)),
     ia_FindUsers = (\<lambda>_ p. (Inr [], p)),
     ia_CreateOrganization = (\<lambda>x p. (Inr x, p)), ia_GetOrganization = (\<lambda>_ p. (Inl no_identity_provider, p)),
     ia_UpdateOrganization = (\<lambda>x p. (Inr x, p)), ia_DeleteOrganization = (\<lambda>_ p. (Inr (), p)),
     ia_CreateApplication = (\<lambda>x p. (Inr x, p)),
     ia_GetApplication = (\<lambda>org x p. (Inr \<lparr>app_ID = x, app_OrgID = org\<rparr>, p)),
     ia_UpdateApplication = (\<lambda>x p. (Inr x, p)), ia_DeleteApplication = (\<lambda>_ _ p. (Inr (), p)),
     ia_CreateGroup = (\<lambda>g _ p. (Inr (names_only g), p)),
     ia_GetGroup = (\<lambda>org i p. (Inr (names_only (zero_group\<lparr>gp_ID := i, gp_OrgID := org\<rparr>)), p)),
     ia_ListGroups = (\<lambda>_ p. (Inr [], p)), ia_UpdateGroup = (\<lambda>g p. (Inr (names_only g), p)),
     ia_DeleteGroup = (\<lambda>_ _ _ p. (Inr (), p)), ia_AssignUserToGroup = (\<lambda>_ _ _ p. (Inr (), p)),
     ia_RemoveUserFromGroup = (\<lambda>_ _ _ p. (Inr (), p))\<rparr>"

lemma row_table_rows: "group_rows row_table row_of"
proof -
  have id: "row_of p i = Some m \<Longrightarrow> gm_ID m = i" for p i m
    by (auto simp: row_of_def find_Some_iff)
  have same: "gm_ID (upserted x m) = gm_ID m" for x m by (simp add: upserted_def split: option.splits)
  have present: "row_of p i = Some m \<Longrightarrow> m \<in> set p" for p i m
    by (auto simp: row_of_def find_Some_iff)
  show ?thesis unfolding group_rows_def
    by (auto simp: row_table_def id same present) (auto simp: row_of_def same fun_eq_iff)
qed

lemma name_idp_rows: "keeps_rows name_idp row_of"
  by (simp add: keeps_rows_def name_idp_def)

definition asked_group :: DirGroup where
  "asked_group = zero_group\<lparr>gp_ID := ''g1'', gp_OrgID := ''acme'', gp_ExternalID := ''devs'',
     gp_DisplayName := ''Developers'', gp_ParentID := ''root''\<rparr>"

lemma group_details_survive_witness:
  "\<exists>g p1 h p4. meta_CreateGroup name_idp (NewGroupMetadataRepository row_table) asked_group [] [] = (Inr g, p1)
    \<and> meta_GetGroup name_idp (NewGroupMetadataRepository row_table) ''acme'' ''g1'' p1 = (Inr h, p4)
    \<and> gp_ExternalID h = ''devs'' \<and> gp_DisplayName h = ''Developers'' \<and> gp_ParentID h = ''root''"
proof -
  let ?repo = "NewGroupMetadataRepository row_table"
  let ?c = "meta_CreateGroup name_idp ?repo asked_group [] []"
  have "\<not> isl (fst ?c)" by code_simp
  then obtain g p1 where c: "?c = (Inr g, p1)" by (rule run_Inr)
  let ?r = "meta_GetGroup name_idp ?repo ''acme'' ''g1'' p1"
  have p1: "p1 = snd ?c" and g: "Inr g = fst ?c" using c by simp_all
  have "\<not> isl (fst ?r)" unfolding p1 by code_simp
  then obtain h p4 where r: "?r = (Inr h, p4)" by (rule run_Inr)
  let ?h = "names_only (zero_group\<lparr>gp_ID := ''g1'', gp_OrgID := ''acme''\<rparr>)"
  have gid: "map_sum id (\<lambda>g. (gp_ID g, gp_OrgID g)) (fst ?c) = Inr (''g1'', ''acme'')" by code_simp
  then have gk: "gp_ID g = ''g1''" "gp_OrgID g = ''acme''" unfolding g[symmetric] by simp_all
  have ids: "map (\<lambda>m. (gm_ID m, gm_CasdoorName m)) p1 = [(''g1'', ''g1'')]" unfolding p1 by code_simp
  have sole: "sole_row (row_of p1) ''g1''"
    using ids by (auto simp: sole_row_def row_of_def split: if_splits)
  have trim: "TrimSpace ''devs'' = ''devs''" "TrimSpace ''Developers'' = ''Developers''"
    by (simp_all add: TrimSpace_visible visible_def)
  have "gp_ExternalID h = ''devs'' \<and> gp_DisplayName h = ''Developers'' \<and> gp_ParentID h = gp_ParentID asked_group"
    using group_details_survive[OF row_table_rows name_idp_rows c gk(1) u1_plain(2) _ _ gk(2) refl sole _ _ r, of ?h p1]
    by (auto simp: row_of_def name_idp_def names_only_def u1_plain asked_group_def trim)
  then show ?thesis using c r by (auto simp: asked_group_def)
qed

definition kept_row :: GroupModel where
  "kept_row = \<lparr>gm_ID = ''g1'', gm_OrgID = ''acme'', gm_ParentID = ''root'', gm_Name = ''devs'',
     gm_DisplayName = ''Developers'', gm_CasdoorName = ''g1'', gm_Type = ''Physical'', gm_Status = StatusActive,
     gm_CreatedAt = 5, gm_UpdatedAt = 5, gm_DeletedAt = None\<rparr>"

lemma machine_name_kept_witness:
  "\<exists>g p'. meta_UpdateGroup (name_idp\<lparr>ia_UpdateGroup := \<lambda>g p. (Inr (zero_group\<lparr>gp_ID := ''g1''\<rparr>), p)\<rparr>)
      (NewGroupMetadataRepository row_table)
      (zero_group\<lparr>gp_ID := ''g1'', gp_OrgID := ''acme'', gp_DisplayName := ''Crew''\<rparr>) [kept_row] = (Inr g, p')
    \<and> gp_ExternalID g = ''devs''"
proof -
  let ?a = "name_idp\<lparr>ia_UpdateGroup := \<lambda>g p. (Inr (zero_group\<lparr>gp_ID := ''g1''\<rparr>), p)\<rparr>"
  let ?repo = "NewGroupMetadataRepository row_table"
  let ?req = "zero_group\<lparr>gp_ID := ''g1'', gp_OrgID := ''acme'', gp_DisplayName := ''Crew''\<rparr>"
  have "\<not> isl (fst (meta_UpdateGroup ?a ?repo ?req [kept_row]))" by code_simp
  then obtain g p' where run: "meta_UpdateGroup ?a ?repo ?req [kept_row] = (Inr g, p')" by (rule run_Inr)
  have a: "keeps_rows ?a row_of" using name_idp_rows by (simp add: keeps_rows_def)
  have slug: "TrimSpace ''devs'' = ''devs''" by (simp add: TrimSpace_visible visible_def)
  have row: "row_of [kept_row] ''g1'' = Some kept_row" by (simp add: row_of_def kept_row_def)
  have sole: "sole_row (row_of [kept_row]) ''g1''"
    by (auto simp: sole_row_def row_of_def kept_row_def)
  have "gp_ExternalID g = ''devs''"
    using machine_name_kept[OF row_table_rows a row _ _ _ slug _ u1_plain(2) _ sole _ _ run]
    by (simp add: kept_row_def zero_group_def)
  then show ?thesis using run by blast
qed

subsection \<open>Group administration\<close>

definition zone_deps :: "unit IAMDeps" where
  "zone_deps = \<lparr>dep_Tokens = None, dep_Identity = Some name_idp, dep_Authz = None\<rparr>"

lemma group_admin_in_own_zone_witness:
  "(\<exists>er. adm_DeleteGroup zone_deps ''zeta'' ''g1'' True sample_senv () = (Inl er, ()))
    \<and> adm_DeleteGroup zone_deps ''ACME'' ''g1'' True sample_senv () = (Inr (), ())"
proof -
  have z: "own_zone (sv_principal sample_senv) ''ACME'' ''acme''"
  proof -
    have "EqualFold ''ACME'' ''acme''" by code_simp
    then show ?thesis by (simp add: own_zone_def sample_senv_def sample_caller_def u1_plain)
  qed
  have n: "\<nexists>zone. own_zone (sv_principal sample_senv) ''zeta'' zone"
  proof -
    have "\<not> EqualFold ''zeta'' ''acme''" by code_simp
    then show ?thesis by (simp add: own_zone_def sample_senv_def sample_caller_def u1_plain)
  qed
  have a: "dep_Identity zone_deps = Some name_idp" by (simp add: zone_deps_def)
  have del: "ia_DeleteGroup name_idp ''acme'' ''g1'' True () = (Inr (), ())" by (simp add: name_idp_def)
  show ?thesis
    using group_admin_in_own_zone[where e = sample_senv and d = zone_deps and w = "()" and org = "''zeta''"
        and i = "''g1''" and recursive = True] n
      group_admin_in_own_zone[where e = sample_senv and d = zone_deps and w = "()" and org = "''ACME''"
        and zone = "''acme''" and i = "''g1''" and recursive = True and a = name_idp] z a
    by (simp add: del answer_def)
qed

lemma path_identifier_ignored_witness:
  "\<exists>req u. adm_UpdateGroup zone_deps (req\<lparr>nw_GroupId := ''g1''\<rparr>) = adm_UpdateGroup zone_deps (req\<lparr>nw_GroupId := ''g2''\<rparr>)
    \<and> gp_ID (incoming_group (req\<lparr>nw_GroupId := ''g1''\<rparr>)) = ''g9'' \<and> nu_Id u = ''u9''
    \<and> adm_UpdateUser zone_deps ''acme'' ''u1'' (Some u) = adm_UpdateUser zone_deps ''acme'' ''u2'' (Some u)"
proof -
  obtain g :: DirGroupMsg where g: "ng_Id g = ''g9''" by (metis DirGroupMsg.select_convs(1))
  obtain u :: UserMsg where u: "nu_Id u = ''u9''" by (metis UserMsg.select_convs(1))
  define req where "req = \<lparr>nw_OrgId = ''acme'', nw_GroupId = [], nw_Group = Some g, nw_ParentId = Some []\<rparr>"
  have r: "nw_Group req = Some g" "nw_ParentId req \<noteq> None \<or> ng_ParentId g \<noteq> None" by (simp_all add: req_def)
  have "ng_Id g \<noteq> []" "nu_Id u \<noteq> []" using g u by simp_all
  then show ?thesis
    using path_identifier_ignored[OF r(1) _ r(2), of u zone_deps "''g1''" "''g2''" "''acme''"] u g
      path_identifier_ignored[OF r(1) _ r(2), of u zone_deps "''u1''" "''u2''" "''acme''"] by metis
qed

end
