(* ===== verification/StartUpExamples.thy ===== *)
theory StartUpExamples
  imports StartUpLaws Defaults IdentityExamples ServiceExamples
begin

text \<open>
  Concrete starts: the manifest of theory ManifestLaws, the list store of theory Authz, and a configuration that
  names one platform administrator and one owner of a zone whose directory is reconciled.
\<close>

definition named_admin :: "string \<Rightarrow> string \<Rightarrow> string \<Rightarrow> ControlPlaneAdminSubject" where
  "named_admin ident zone role = \<lparr>cas_Type = [], cas_ID = ident, cas_Relation = [], cas_ZoneID = zone, cas_Role = role,
     cas_ExternalSubject = [], cas_CasdoorOrg = [], cas_Username = []\<rparr>"

definition sample_config :: ControlPlaneConfig where
  "sample_config = \<lparr>cp_DefaultsEnabled = True, cp_DefaultsPath = [], cp_AdminsEnabled = True,
     cp_Subjects = [named_admin ''u1'' [] [], named_admin ''u2'' ''acme'' ''boss''],
     cp_ReconcileOnStartup = True, cp_OrgIDs = [''acme'']\<rparr>"

definition sample_authz :: AuthzConfig where
  "sample_authz = \<lparr>AllowPermissionMigrations = False, AllowSchemaDeletions = False, SchemaPath = []\<rparr>"

definition sample_icodec :: identity_codec where
  "sample_icodec = (\<lambda>_. Inr [], \<lambda>_. Inl (ErrExternal []))"

definition sample_directory :: "unit IdentityAdmin" where
  "sample_directory = sample_idp [] [sample_user ''u7'' ''acme'' []]"

abbreviation sample_start ::
    "(unit, unit, Relationship list) identity_world
     \<Rightarrow> (err + (unit IdentityAdmin option + (unit, unit, Relationship list) projecting_admin))
        \<times> (unit, unit, Relationship list) identity_world" where
  "sample_start \<equiv> start_authz (\<lambda>_ _. 0) (\<lambda>_. Inr []) sample_icodec (\<lambda>p. (Inr (), p)) sample_config False sample_authz
     (Some small_manifest) still_schema (set_store False []) (Some sample_directory) None None sample_ienv"

lemma sample_start_succeeds: "\<exists>b. sample_start (sample_iworld []) = (Inr b, snd (sample_start (sample_iworld [])))"
proof -
  have "\<not> isl (fst (sample_start (sample_iworld [])))" by code_simp
  then show ?thesis by (metis isl_def prod.collapse sum.collapse(2))
qed

lemma sample_start_laws:
  "tuple_store (set_store False []) set_tuples" "steady (Some sample_directory)"
  "\<forall>m. (None :: unit identity_dtm option) = Some m \<longrightarrow> \<not> idt_Enabled m" "tuples_kept still_schema set_tuples"
  by (simp_all add: tuple_store_set_store steady_def sample_directory_def sample_idp_def tuples_kept_def still_schema_def)

lemma start_adds_only_configured_witness:
  "set_tuples (iw_graph (snd (sample_start (sample_iworld []))))
   = startup_set (\<lambda>_ _. 0) sample_kernel sample_config small_policy (Some sample_directory) ()
   \<and> (\<lparr>ob_Type = ''zone'', ob_ID = ''acme''\<rparr>, ''owner'', plain_user ''u2'')
     \<in> set_tuples (iw_graph (snd (sample_start (sample_iworld []))))"
proof
  obtain b where b: "sample_start (sample_iworld []) = (Inr b, snd (sample_start (sample_iworld [])))"
    using sample_start_succeeds ..
  show "set_tuples (iw_graph (snd (sample_start (sample_iworld []))))
      = startup_set (\<lambda>_ _. 0) sample_kernel sample_config small_policy (Some sample_directory) ()"
    using start_adds_only_configured[OF sample_start_laws b]
    by (simp add: sample_iworld_def set_tuples_def sample_ienv_def small_manifest_def)
qed code_simp

lemma restart_adds_nothing_witness:
  "set_tuples (iw_graph (snd (sample_start (snd (sample_start (sample_iworld []))))))
   = set_tuples (iw_graph (snd (sample_start (sample_iworld []))))"
proof -
  obtain b where b: "sample_start (sample_iworld []) = (Inr b, snd (sample_start (sample_iworld [])))"
    using sample_start_succeeds ..
  have names: "distinct (all_names (bp_Roles (mf_Bootstrap small_manifest)))" by code_simp
  show ?thesis
    using restart_adds_nothing[OF sample_start_laws names b
      surjective_pairing[of "sample_start (snd (sample_start (sample_iworld [])))"]] .
qed

subsection \<open>Administrators\<close>

lemma small_policy_ok: "bootstrap_ok small_policy small_schema"
proof -
  have "validateBootstrap (\<lambda>_. 0) small_manifest small_schema = Inr ()" by code_simp
  then show ?thesis using validateBootstrap_iff[OF small_keys] by (simp add: small_manifest_def)
qed

abbreviation admin_run ::
    "(err + unit) \<times> (unit, unit, Relationship list) identity_world" where
  "admin_run \<equiv> bootstrapControlPlaneAdmins (\<lambda>_ _. 0) sample_config small_policy (Some (set_store False []))
     (None :: unit IdentityAdmin option) sample_ienv (sample_iworld [])"

lemma administrators_admitted_witness:
  "fst admin_run = Inr () \<and> (\<exists>q \<in> set (iw_graph (snd admin_run)).
     rel_text q = rel_text (edge \<lparr>ob_Type = ''zone'', ob_ID = ''acme''\<rparr> ''owner'' (plain_user ''u2'')))"
proof -
  let ?S = "set_store False []" and ?s = "named_admin ''u2'' ''acme'' ''boss''"
    and ?q = "edge \<lparr>ob_Type = ''zone'', ob_ID = ''acme''\<rparr> ''owner'' (plain_user ''u2'')"
  have acc: "\<exists>wr g'. st_write ?S rels g = ((wr, None), g')" for rels g by (simp add: set_store_def)
  have on: "cp_AdminsEnabled sample_config" by (simp add: sample_config_def)
  have "complete_subject small_policy ?s" "complete_subject small_policy (named_admin ''u1'' [] [])" by code_simp+
  then have ss: "\<forall>s \<in> set (cp_Subjects sample_config). complete_subject small_policy s"
    by (simp add: sample_config_def)
  obtain w' where w': "admin_run = (Inr (), w')"
    and all: "\<forall>s \<in> set (cp_Subjects sample_config). \<forall>q \<in> role_rels (ie_kern sample_ienv) small_policy s.
      well_formed_rel (ie_kern sample_ienv) q \<longrightarrow> (\<exists>q'. rel_text q' = rel_text q \<and> rel_key q' \<in> set_tuples (iw_graph w'))"
    using administrators_admitted[OF tuple_store_set_store acc small_policy_ok on ss, of "\<lambda>_ _. 0"
      "None :: unit IdentityAdmin option" sample_ienv "sample_iworld []"] by (elim exE conjE)
  have s: "?s \<in> set (cp_Subjects sample_config)" by (simp add: sample_config_def)
  let ?r = "\<lparr>br_Aliases = [''boss''], br_Scope = ''zone'', br_Relation = ''owner''\<rparr>"
  have m: "(''owner'', ?r) \<in> set (bp_Roles small_policy)" by (simp add: small_policy_def)
  have h: "stands_for (wanted_role small_policy (cas_Role ?s)) ''owner'' ?r"
    "role_rel (ie_kern sample_ienv) small_policy ?s ?r = ?q" "well_formed_rel (ie_kern sample_ienv) ?q" by code_simp+
  have "?q \<in> role_rels (ie_kern sample_ienv) small_policy ?s" using m h(1,2) by (intro CollectI exI[of _ ?r] exI[of _ "''owner''"]) simp
  then obtain q' where q': "rel_text q' = rel_text ?q" "rel_key q' \<in> set_tuples (iw_graph w')" using all s h(3) by blast
  from q'(2) obtain q where q: "q \<in> set (iw_graph w')" "rel_key q = rel_key q'" unfolding set_tuples_def by (metis imageE)
  then have "rel_text q = rel_text q'" by (simp add: rel_text_def rel_key_def)
  with q(1) q'(1) have "\<exists>q \<in> set (iw_graph w'). rel_text q = rel_text ?q" by (intro bexI[of _ q]) simp
  then show ?thesis by (simp only: w' fst_conv snd_conv simp_thms)
qed

subsection \<open>The built-in definitions\<close>

definition sample_defaults :: "(Relationship list) DefaultServices" where
  "sample_defaults = \<lparr>df_Projects = Some (sample_prj sample_purge), df_Resources = Some (res_service True sample_purge sample_purge),
     df_Grants = Some (sample_service sample_purge)\<rparr>"

definition sample_raw :: raw_slices where
  "sample_raw = (\<lambda>t. (None, Some (ManifestType.mt_Relations t), Some (ManifestType.mt_Permissions t)))"

lemma defaults_registered_witness:
  "\<exists>w'. reconcile_defaults sample_owner sample_raw (Some small_manifest) sample_defaults sample_env (archive_world [])
    = ((\<lparr>dr_Capabilities = 0, dr_ResourceTypes = 1, dr_RoleTemplates = 1\<rparr>, None), w')
    \<and> (\<exists>v. get_key (roles (db w')) ''zone:owner'' = Some v \<and> ro_Relation v = ''owner'' \<and> ro_Version v = 1)"
proof -
  have services: "df_Projects sample_defaults = Some (sample_prj sample_purge)"
    "df_Resources sample_defaults = Some (res_service True sample_purge sample_purge)"
    "df_Grants sample_defaults = Some (sample_service sample_purge)" "ps_repo (sample_prj sample_purge)"
    "rs_repo (res_service True sample_purge sample_purge)" "gs_repo (sample_service sample_purge)"
    by (simp_all add: sample_defaults_def sample_prj_def res_service_def sample_service_def)
  have ok: "manifest_ok small_manifest small_schema"
    using manifest_validated[OF small_keys] small_accepted by blast
  have reg: "registrable small_manifest" by code_simp
  note R = defaults_registered[OF services ok reg, of sample_owner sample_raw sample_env "archive_world []"]
  obtain w' where w': "reconcile_defaults sample_owner sample_raw (Some small_manifest) sample_defaults sample_env (archive_world [])
      = ((\<lparr>dr_Capabilities = length (mf_Capabilities small_manifest), dr_ResourceTypes = length (mf_ResourceTypes small_manifest),
           dr_RoleTemplates = length (mf_RoleTemplates small_manifest)\<rparr>, None), w')"
    and r: "\<forall>r \<in> set (mf_RoleTemplates small_manifest). \<exists>v. get_key (roles (db w')) (role_entry_key r) = Some v \<and> stored_template r v"
    using R by (elim exE conjE)
  have k: "role_entry_key owner_template = ''zone:owner''" "TrimSpace (mfr_Relation owner_template) = ''owner''" by code_simp+
  have "owner_template \<in> set (mf_RoleTemplates small_manifest)" by (simp add: small_manifest_def)
  with r k obtain v where "get_key (roles (db w')) ''zone:owner'' = Some v" "ro_Relation v = ''owner''" "ro_Version v = 1"
    unfolding stored_template_def by metis
  then show ?thesis using w' by (simp add: small_manifest_def)
qed

end
