(* ===== verification/SqlRepo.thy ===== *)
theory SqlRepo
  imports Memory
begin

text \<open>
  The control-plane repository over PostgreSQL (internal/data/resource\_repository.go).

  The kernel's dbx, its GORM session and the database are parameters: a \<open>table\<close> has the statements that
  the repository issues against the table of one model, on the state \<open>'d\<close> of the database, and \<open>InTx\<close> runs a
  function in a transaction.  Conditions and column names are the texts of the source, with their arguments.
  A failing statement leaves its state behind.  What GORM writes back into a model that it stores (its times and
  the defaults of its columns) is not returned.
\<close>

datatype sql = SqlText string | SqlTexts "string list" | SqlInt int | SqlBool bool | SqlTime gotime | SqlNil

record PageResult =
  rs_Total :: int
  rs_Page :: int
  rs_Size :: int
  rs_HasMore :: bool

type_synonym condition = "string option \<times> sql list"

record ('d, 'r) table =
  tb_Create :: "'r \<Rightarrow> 'd \<Rightarrow> err + 'd"
  tb_SafeUpsert :: "'r \<Rightarrow> string list \<Rightarrow> 'd \<Rightarrow> err + 'd"
  tb_Update :: "string \<Rightarrow> sql list \<Rightarrow> (string \<times> sql) list \<Rightarrow> 'd \<Rightarrow> err + int \<times> 'd"
  tb_Delete :: "string \<Rightarrow> sql list \<Rightarrow> 'd \<Rightarrow> err + 'd"
  tb_Increment :: "string \<Rightarrow> sql list \<Rightarrow> string \<Rightarrow> int \<Rightarrow> 'd \<Rightarrow> err + 'd"
  tb_FindOne :: "string \<Rightarrow> sql list \<Rightarrow> 'd \<Rightarrow> err + 'r"
  tb_FindMany :: "condition \<Rightarrow> 'd \<Rightarrow> err + 'r list"
  tb_Find :: "string \<Rightarrow> sql list \<Rightarrow> string \<Rightarrow> int \<Rightarrow> 'd \<Rightarrow> err + 'r list"
  tb_Count :: "string \<Rightarrow> sql list \<Rightarrow> 'd \<Rightarrow> err + int"
  tb_Paginate :: "condition \<Rightarrow> int \<Rightarrow> int \<Rightarrow> 'd \<Rightarrow> err + 'r list \<times> PageResult"

record RoleTemplatePermissionModel =
  rp_ID :: string
  rp_RoleTemplateID :: string
  rp_Permission :: string
  rp_SortOrder :: int

record 'd dbx =
  dx_projects :: "('d, ProjectModel) table"
  dx_caps :: "('d, CapabilityModel) table"
  dx_projectCaps :: "('d, ProjectCapabilityModel) table"
  dx_resourceTypes :: "('d, ResourceTypeModel) table"
  dx_resources :: "('d, ResourceModel) table"
  dx_bindings :: "('d, ResourceBindingModel) table"
  dx_externalBindings :: "('d, ExternalResourceBindingModel) table"
  dx_roles :: "('d, RoleTemplateModel) table"
  dx_rolePermissions :: "('d, RoleTemplatePermissionModel) table"
  dx_roleAudits :: "('d, RoleTemplateAuditModel) table"
  dx_grants :: "('d, GrantModel) table"
  dx_audits :: "('d, GrantAuditModel) table"
  dx_events :: "('d, OutboxEventModel) table"
  dx_localUsers :: "('d, LocalUserModel) table"
  dx_InTx :: "('d \<Rightarrow> err + 'd) \<Rightarrow> 'd \<Rightarrow> err option \<times> 'd"
  dx_now :: "'d \<Rightarrow> gotime \<times> 'd"

type_synonym ('d, 'a) query = "'d \<Rightarrow> (err + 'a) \<times> 'd"

definition asking :: "('d \<Rightarrow> err + 'a) \<Rightarrow> ('d, 'a) query" where
  "asking f d = (f d, d)"

definition stating :: "('d \<Rightarrow> err + 'd) \<Rightarrow> ('d, unit) query" where
  "stating f d = (case f d of Inl er \<Rightarrow> (Inl er, d) | Inr d' \<Rightarrow> (Inr (), d'))"

definition in_tx :: "'d dbx \<Rightarrow> ('d \<Rightarrow> err + 'd) \<Rightarrow> ('d, unit) query" where
  "in_tx x f d = (case dx_InTx x f d of (None, d) \<Rightarrow> (Inr (), d) | (Some er, d) \<Rightarrow> (Inl er, d))"

definition then_do :: "('d \<Rightarrow> err + 'd) \<Rightarrow> ('d \<Rightarrow> err + 'd) \<Rightarrow> 'd \<Rightarrow> err + 'd" where
  "then_do f g d = (case f d of Inl er \<Rightarrow> Inl er | Inr d \<Rightarrow> g d)"

subsection \<open>Conditions\<close>

record where_builder =
  wh_parts :: "string list"
  wh_args :: "sql list"

definition whereBuilder :: where_builder where
  "whereBuilder = \<lparr>wh_parts = [], wh_args = []\<rparr>"

definition where_add :: "string \<Rightarrow> sql list \<Rightarrow> where_builder \<Rightarrow> where_builder" where
  "where_add part args w = w\<lparr>wh_parts := wh_parts w @ [part], wh_args := wh_args w @ args\<rparr>"

definition where_eq :: "string \<Rightarrow> sql \<Rightarrow> where_builder \<Rightarrow> where_builder" where
  "where_eq col v w =
     (if v = SqlNil then w
      else if (case v of SqlText s \<Rightarrow> TrimSpace s = [] | _ \<Rightarrow> False) then w
      else where_add (col @ '' = ?'') [v] w)"

definition likeAny :: "string list \<Rightarrow> string \<Rightarrow> where_builder \<Rightarrow> where_builder" where
  "likeAny cols q w =
     (let q = TrimSpace q in
      if q = [] \<or> cols = [] then w
      else where_add (''('' @ Join (map (\<lambda>col. col @ '' ILIKE ?'') cols) '' OR '' @ '')'')
             (map (\<lambda>_. SqlText (''%'' @ q @ ''%'')) cols) w)"

definition isNull :: "string \<Rightarrow> where_builder \<Rightarrow> where_builder" where
  "isNull col = where_add (col @ '' IS NULL'') []"

definition isNotNull :: "string \<Rightarrow> where_builder \<Rightarrow> where_builder" where
  "isNotNull col = where_add (col @ '' IS NOT NULL'') []"

definition where_build :: "where_builder \<Rightarrow> condition" where
  "where_build w = (if wh_parts w = [] then (None, []) else (Some (Join (wh_parts w) '' AND ''), wh_args w))"

text \<open>The chain of \<open>eq\<close> calls over columns and option values, from left to right.\<close>

definition eq_all :: "(string \<times> string) list \<Rightarrow> where_builder \<Rightarrow> where_builder" where
  "eq_all cvs w = fold (\<lambda>(col, v). where_eq col (SqlText v)) cvs w"

definition pageFrom :: "err + 'r list \<times> PageResult \<Rightarrow> err + 'r Page" where
  "pageFrom res =
     (case res of
        Inl er \<Rightarrow> Inl er
      | Inr (items, r) \<Rightarrow> Inr \<lparr>pg_Items = items, pg_Total = rs_Total r, pg_Page = rs_Page r,
          pg_Size = rs_Size r, pg_HasMore = rs_HasMore r\<rparr>)"

subsection \<open>Outbox events\<close>

primrec createOutbox :: "('d, OutboxEventModel) table \<Rightarrow> OutboxEventModel option list \<Rightarrow> 'd \<Rightarrow> err + 'd" where
  "createOutbox store [] d = Inr d"
| "createOutbox store (event # evs) d =
     (case event of
        None \<Rightarrow> createOutbox store evs d
      | Some ev \<Rightarrow> (case tb_Create store ev d of Inl er \<Rightarrow> Inl er | Inr d \<Rightarrow> createOutbox store evs d))"

definition sql_CreateOutboxEvents :: "'d dbx \<Rightarrow> OutboxEventModel option list \<Rightarrow> ('d, unit) query" where
  "sql_CreateOutboxEvents x evs = in_tx x (createOutbox (dx_events x) evs)"

definition sql_GetOutboxEvent :: "'d dbx \<Rightarrow> string \<Rightarrow> ('d, OutboxEventModel) query" where
  "sql_GetOutboxEvent x ident = asking (tb_FindOne (dx_events x) ''id = ?'' [SqlText ident])"

definition updating :: "('d, 'r) table \<Rightarrow> string \<Rightarrow> sql list \<Rightarrow> (string \<times> sql) list \<Rightarrow> ('d, unit) query" where
  "updating t cond args columns = stating (\<lambda>d. map_sum id snd (tb_Update t cond args columns d))"

definition sql_UpdateOutboxEvent :: "'d dbx \<Rightarrow> string \<Rightarrow> (string \<times> sql) list \<Rightarrow> ('d, unit) query" where
  "sql_UpdateOutboxEvent x ident columns d =
     (case dx_now x d of (t, d) \<Rightarrow>
        updating (dx_events x) ''id = ?'' [SqlText ident] (put_key ''updated_at'' (SqlTime t) columns) d)"

definition outbox_filter :: "ListOptions \<Rightarrow> condition" where
  "outbox_filter opts = where_build (eq_all [(''topic'', lo_Type opts), (''status'', lo_Status opts)] whereBuilder)"

definition sql_ListOutboxEvents :: "'d dbx \<Rightarrow> ListOptions \<Rightarrow> ('d, OutboxEventModel list) query" where
  "sql_ListOutboxEvents x opts = asking (tb_FindMany (dx_events x) (outbox_filter opts))"

definition sql_ListOutboxEventsForRetry :: "'d dbx \<Rightarrow> int \<Rightarrow> ('d, OutboxEventModel list) query" where
  "sql_ListOutboxEventsForRetry x limit d =
     (let limit = (if limit \<le> 0 then 50 else limit) in
      case dx_now x d of (t, d) \<Rightarrow>
        asking (tb_Find (dx_events x)
          ''status IN ? AND (next_run_at IS NULL OR next_run_at <= ?) AND retry_count < ?''
          [SqlTexts [StatusPending, StatusSubmitted, StatusFailed], SqlTime t, SqlInt MaxOutboxRetries]
          ''created_at ASC'' limit) d)"

definition sql_IncrementOutboxRetry :: "'d dbx \<Rightarrow> string \<Rightarrow> ('d, OutboxEventModel) query" where
  "sql_IncrementOutboxRetry x ident d =
     (case tb_Increment (dx_events x) ''id = ?'' [SqlText ident] ''retry_count'' 1 d of
        Inl er \<Rightarrow> (Inl er, d)
      | Inr d \<Rightarrow> sql_GetOutboxEvent x ident d)"

subsection \<open>Projects and capabilities\<close>

definition sql_CreateProject :: "'d dbx \<Rightarrow> ProjectModel \<Rightarrow> OutboxEventModel option list \<Rightarrow> ('d, unit) query" where
  "sql_CreateProject x project outbox =
     in_tx x (then_do (tb_Create (dx_projects x) project) (createOutbox (dx_events x) outbox))"

definition sql_UpsertProject :: "'d dbx \<Rightarrow> ProjectModel \<Rightarrow> ('d, unit) query" where
  "sql_UpsertProject x project = stating (tb_SafeUpsert (dx_projects x) project
     [''display_name'', ''description'', ''status'', ''visibility'', ''labels_json'', ''annotations_json'',
      ''metadata_json'', ''updated_at''])"

definition sql_GetProject :: "'d dbx \<Rightarrow> string \<Rightarrow> string \<Rightarrow> ('d, ProjectModel) query" where
  "sql_GetProject x ident orgID =
     asking (tb_FindOne (dx_projects x) ''id = ? AND org_id = ?'' [SqlText ident, SqlText orgID])"

text \<open>ArchiveProject, ArchiveResource and DeleteResource write a status and the time of the call.\<close>

definition set_status :: "'d dbx \<Rightarrow> ('d, 'r) table \<Rightarrow> string \<Rightarrow> sql list \<Rightarrow> string \<Rightarrow> ('d, unit) query" where
  "set_status x t cond args status d =
     (case dx_now x d of (now, d) \<Rightarrow>
        updating t cond args [(''status'', SqlText status), (''updated_at'', SqlTime now)] d)"

definition sql_ArchiveProject :: "'d dbx \<Rightarrow> string \<Rightarrow> string \<Rightarrow> ('d, unit) query" where
  "sql_ArchiveProject x ident orgID =
     set_status x (dx_projects x) ''id = ? AND org_id = ?'' [SqlText ident, SqlText orgID] StatusArchived"

definition project_filter :: "ListOptions \<Rightarrow> condition" where
  "project_filter opts = where_build (likeAny [''slug'', ''display_name''] (lo_Q opts)
     (eq_all [(''org_id'', lo_OrgID opts), (''status'', lo_Status opts)] whereBuilder))"

definition sql_ListProjects :: "'d dbx \<Rightarrow> ListOptions \<Rightarrow> ('d, ProjectModel Page) query" where
  "sql_ListProjects x opts =
     asking (\<lambda>d. pageFrom (tb_Paginate (dx_projects x) (project_filter opts) (lo_Page opts) (lo_Size opts) d))"

definition sql_UpsertCapability :: "'d dbx \<Rightarrow> CapabilityModel \<Rightarrow> ('d, unit) query" where
  "sql_UpsertCapability x capability = stating (tb_SafeUpsert (dx_caps x) capability
     [''name'', ''display_name'', ''owner_service'', ''status'', ''config_schema'', ''updated_at''])"

definition capability_filter :: "ListOptions \<Rightarrow> condition" where
  "capability_filter opts = where_build (likeAny [''name'', ''display_name''] (lo_Q opts)
     (eq_all [(''status'', lo_Status opts)] whereBuilder))"

definition sql_ListCapabilities :: "'d dbx \<Rightarrow> ListOptions \<Rightarrow> ('d, CapabilityModel list) query" where
  "sql_ListCapabilities x opts = asking (tb_FindMany (dx_caps x) (capability_filter opts))"

definition sql_SetProjectCapability :: "'d dbx \<Rightarrow> ProjectCapabilityModel \<Rightarrow> ('d, unit) query" where
  "sql_SetProjectCapability x pc = stating (tb_SafeUpsert (dx_projectCaps x) pc
     [''enabled'', ''config_json'', ''quota_json'', ''updated_at''])"

definition sql_ListProjectCapabilities :: "'d dbx \<Rightarrow> string \<Rightarrow> ('d, ProjectCapabilityModel list) query" where
  "sql_ListProjectCapabilities x projectID =
     asking (tb_FindMany (dx_projectCaps x) (Some ''project_id = ?'', [SqlText projectID]))"

subsection \<open>Resource types, resources and bindings\<close>

definition sql_UpsertResourceType :: "'d dbx \<Rightarrow> ResourceTypeModel \<Rightarrow> ('d, unit) query" where
  "sql_UpsertResourceType x rt = stating (tb_SafeUpsert (dx_resourceTypes x) rt
     [''capability_id'', ''owner_service'', ''parent_types_json'', ''grantable'', ''auditable'', ''spicedb_type'',
      ''relations_json'', ''permissions_json'', ''metadata_schema'', ''status'', ''updated_at''])"

definition sql_GetResourceType :: "'d dbx \<Rightarrow> string \<Rightarrow> ('d, ResourceTypeModel) query" where
  "sql_GetResourceType x typ = asking (tb_FindOne (dx_resourceTypes x) ''type = ?'' [SqlText typ])"

definition resource_type_filter :: "ListOptions \<Rightarrow> condition" where
  "resource_type_filter opts = where_build
     (eq_all [(''capability_id'', lo_CapabilityID opts), (''status'', lo_Status opts)] whereBuilder)"

definition sql_ListResourceTypes :: "'d dbx \<Rightarrow> ListOptions \<Rightarrow> ('d, ResourceTypeModel list) query" where
  "sql_ListResourceTypes x opts = asking (tb_FindMany (dx_resourceTypes x) (resource_type_filter opts))"

definition sql_UpsertResource :: "'d dbx \<Rightarrow> ResourceModel \<Rightarrow> OutboxEventModel option list \<Rightarrow> ('d, unit) query" where
  "sql_UpsertResource x resource outbox =
     in_tx x (then_do (tb_SafeUpsert (dx_resources x) resource
       [''org_id'', ''project_id'', ''parent_type'', ''parent_id'', ''owner_service'', ''owner_resource_id'', ''slug'',
        ''display_name'', ''path'', ''status'', ''visibility'', ''labels_json'', ''annotations_json'',
        ''metadata_json'', ''updated_at''])
       (createOutbox (dx_events x) outbox))"

definition sql_GetResource :: "'d dbx \<Rightarrow> string \<Rightarrow> string \<Rightarrow> string \<Rightarrow> ('d, ResourceModel) query" where
  "sql_GetResource x typ ident orgID =
     asking (tb_FindOne (dx_resources x) ''type = ? AND id = ? AND org_id = ?''
       [SqlText typ, SqlText ident, SqlText orgID])"

definition resource_filter :: "ListOptions \<Rightarrow> condition" where
  "resource_filter opts = where_build (likeAny [''slug'', ''display_name'', ''path''] (lo_Q opts)
     (eq_all [(''org_id'', lo_OrgID opts), (''project_id'', lo_ProjectID opts), (''type'', lo_Type opts),
        (''status'', lo_Status opts)] whereBuilder))"

definition sql_ListResources :: "'d dbx \<Rightarrow> ListOptions \<Rightarrow> ('d, ResourceModel Page) query" where
  "sql_ListResources x opts =
     asking (\<lambda>d. pageFrom (tb_Paginate (dx_resources x) (resource_filter opts) (lo_Page opts) (lo_Size opts) d))"

definition sql_ArchiveResource :: "'d dbx \<Rightarrow> string \<Rightarrow> string \<Rightarrow> string \<Rightarrow> ('d, unit) query" where
  "sql_ArchiveResource x typ ident orgID =
     set_status x (dx_resources x) ''type = ? AND id = ? AND org_id = ?''
       [SqlText typ, SqlText ident, SqlText orgID] StatusArchived"

definition sql_DeleteResource :: "'d dbx \<Rightarrow> string \<Rightarrow> string \<Rightarrow> string \<Rightarrow> ('d, unit) query" where
  "sql_DeleteResource x typ ident orgID =
     set_status x (dx_resources x) ''type = ? AND id = ? AND org_id = ?''
       [SqlText typ, SqlText ident, SqlText orgID] StatusDeleted"

definition sql_BindResource ::
    "'d dbx \<Rightarrow> ResourceBindingModel \<Rightarrow> OutboxEventModel option list \<Rightarrow> ('d, unit) query" where
  "sql_BindResource x binding outbox =
     in_tx x (then_do (tb_SafeUpsert (dx_bindings x) binding [''status'', ''updated_at''])
       (createOutbox (dx_events x) outbox))"

definition binding_filter :: "ListOptions \<Rightarrow> condition" where
  "binding_filter opts = where_build (eq_all [(''org_id'', lo_OrgID opts), (''source_type'', lo_ResourceType opts),
     (''source_id'', lo_ResourceID opts), (''status'', lo_Status opts)] whereBuilder)"

definition sql_ListResourceBindings :: "'d dbx \<Rightarrow> ListOptions \<Rightarrow> ('d, ResourceBindingModel list) query" where
  "sql_ListResourceBindings x opts = asking (tb_FindMany (dx_bindings x) (binding_filter opts))"

definition sql_UnbindResource :: "'d dbx \<Rightarrow> string \<Rightarrow> string \<Rightarrow> ('d, unit) query" where
  "sql_UnbindResource x bindingID orgID =
     stating (tb_Delete (dx_bindings x) ''id = ? AND org_id = ?'' [SqlText bindingID, SqlText orgID])"

definition sql_BindExternalResource :: "'d dbx \<Rightarrow> ExternalResourceBindingModel \<Rightarrow> ('d, unit) query" where
  "sql_BindExternalResource x binding = stating (tb_SafeUpsert (dx_externalBindings x) binding
     [''resource_type'', ''resource_id'', ''external_path'', ''external_url'', ''sync_mode'', ''sync_status'',
      ''last_synced_at'', ''metadata_json'', ''updated_at''])"

definition external_filter :: "ListOptions \<Rightarrow> condition" where
  "external_filter opts = where_build (eq_all [(''org_id'', lo_OrgID opts), (''resource_type'', lo_ResourceType opts),
     (''resource_id'', lo_ResourceID opts), (''provider'', lo_Type opts), (''sync_status'', lo_Status opts)] whereBuilder)"

definition sql_ListExternalResourceBindings ::
    "'d dbx \<Rightarrow> ListOptions \<Rightarrow> ('d, ExternalResourceBindingModel list) query" where
  "sql_ListExternalResourceBindings x opts = asking (tb_FindMany (dx_externalBindings x) (external_filter opts))"

subsection \<open>Role templates\<close>

definition role_columns :: "string list" where
  "role_columns = [''display_name'', ''description'', ''relation'', ''built_in'', ''enabled'', ''sort_order'',
     ''metadata_json'', ''version'', ''updated_at'']"

definition sql_UpsertRoleTemplate :: "'d dbx \<Rightarrow> RoleTemplateModel \<Rightarrow> ('d, unit) query" where
  "sql_UpsertRoleTemplate x role = stating (tb_SafeUpsert (dx_roles x) role role_columns)"

definition permission_row :: "string \<Rightarrow> nat \<Rightarrow> string \<Rightarrow> RoleTemplatePermissionModel" where
  "permission_row roleID index permission =
     \<lparr>rp_ID = roleID @ '':'' @ permission, rp_RoleTemplateID = roleID, rp_Permission = permission,
      rp_SortOrder = int index\<rparr>"

primrec create_permissions ::
    "('d, RoleTemplatePermissionModel) table \<Rightarrow> string \<Rightarrow> nat \<Rightarrow> string list \<Rightarrow> 'd \<Rightarrow> err + 'd" where
  "create_permissions t roleID index [] d = Inr d"
| "create_permissions t roleID index (p # ps) d =
     (case tb_Create t (permission_row roleID index p) d of
        Inl er \<Rightarrow> Inl er
      | Inr d \<Rightarrow> create_permissions t roleID (Suc index) ps d)"

definition replaceRolePermissions ::
    "('d, RoleTemplatePermissionModel) table \<Rightarrow> RoleTemplateModel \<Rightarrow> 'd \<Rightarrow> err + 'd" where
  "replaceRolePermissions t role =
     then_do (tb_Delete t ''role_template_id = ?'' [SqlText (ro_ID role)])
       (create_permissions t (ro_ID role) 0 (ro_Permissions role))"

definition loadRolePermissions ::
    "('d, RoleTemplatePermissionModel) table \<Rightarrow> RoleTemplateModel \<Rightarrow> 'd \<Rightarrow> err + RoleTemplateModel" where
  "loadRolePermissions t role d =
     (case tb_FindMany t (Some ''role_template_id = ? ORDER BY sort_order ASC, permission ASC'',
         [SqlText (ro_ID role)]) d of
        Inl er \<Rightarrow> Inl er
      | Inr rows \<Rightarrow> Inr (role\<lparr>ro_Permissions := map rp_Permission rows\<rparr>))"

text \<open>\<open>if audit != nil { tx.Create(ctx, audit) }\<close>\<close>

definition create_if :: "('d, 'r) table \<Rightarrow> 'r option \<Rightarrow> 'd \<Rightarrow> err + 'd" where
  "create_if t r d = (case r of None \<Rightarrow> Inr d | Some r \<Rightarrow> tb_Create t r d)"

definition sql_SaveRoleTemplate ::
    "'d dbx \<Rightarrow> RoleTemplateModel \<Rightarrow> RoleTemplateAuditModel option \<Rightarrow> OutboxEventModel option list
     \<Rightarrow> ('d, unit) query" where
  "sql_SaveRoleTemplate x role audit outbox =
     in_tx x (then_do (tb_SafeUpsert (dx_roles x) role role_columns)
       (then_do (replaceRolePermissions (dx_rolePermissions x) role)
       (then_do (create_if (dx_roleAudits x) audit)
       (createOutbox (dx_events x) outbox))))"

definition sql_CountActiveGrantsByRole :: "'d dbx \<Rightarrow> string \<Rightarrow> gotime \<Rightarrow> ('d, int) query" where
  "sql_CountActiveGrantsByRole x roleTemplateID at =
     asking (tb_Count (dx_grants x)
       ''role_template_id = ? AND revoked_at IS NULL AND (expires_at IS NULL OR expires_at > ?)''
       [SqlText roleTemplateID, SqlTime at])"

text \<open>What GetRoleTemplate and the loop of ListRoleTemplates do with a row they found.\<close>

definition complete_role :: "'d dbx \<Rightarrow> RoleTemplateModel \<Rightarrow> ('d, RoleTemplateModel) query" where
  "complete_role x role d =
     (case loadRolePermissions (dx_rolePermissions x) role d of
        Inl er \<Rightarrow> (Inl er, d)
      | Inr role \<Rightarrow>
          (case dx_now x d of (t, d) \<Rightarrow>
          (case sql_CountActiveGrantsByRole x (ro_ID role) t d of
             (Inl er, d) \<Rightarrow> (Inl er, d)
           | (Inr n, d) \<Rightarrow> (Inr (role\<lparr>ro_ActiveGrantCount := n\<rparr>), d))))"

definition sql_GetRoleTemplate :: "'d dbx \<Rightarrow> string \<Rightarrow> ('d, RoleTemplateModel) query" where
  "sql_GetRoleTemplate x ident d =
     (case tb_FindOne (dx_roles x) ''id = ?'' [SqlText ident] d of
        Inl er \<Rightarrow> (Inl er, d)
      | Inr role \<Rightarrow> complete_role x role d)"

primrec complete_roles :: "'d dbx \<Rightarrow> RoleTemplateModel list \<Rightarrow> ('d, RoleTemplateModel list) query" where
  "complete_roles x [] d = (Inr [], d)"
| "complete_roles x (role # rest) d =
     (case complete_role x role d of
        (Inl er, d) \<Rightarrow> (Inl er, d)
      | (Inr role, d) \<Rightarrow>
          (case complete_roles x rest d of
             (Inl er, d) \<Rightarrow> (Inl er, d)
           | (Inr out, d) \<Rightarrow> (Inr (role # out), d)))"

definition role_filter :: "string \<Rightarrow> condition" where
  "role_filter resourceType = where_build (eq_all [(''resource_type'', resourceType)] whereBuilder)"

definition sql_ListRoleTemplates :: "'d dbx \<Rightarrow> string \<Rightarrow> ('d, RoleTemplateModel list) query" where
  "sql_ListRoleTemplates x resourceType d =
     (case tb_FindMany (dx_roles x) (role_filter resourceType) d of
        Inl er \<Rightarrow> (Inl er, d)
      | Inr out \<Rightarrow> complete_roles x out d)"

text \<open>
  UpdateRoleTemplate; a result other than one changed row is a version conflict.  The new version, which the method
  writes into the role it is handed, is in the role returned.
\<close>

definition update_version :: "('d, RoleTemplateModel) table \<Rightarrow> RoleTemplateModel \<Rightarrow> int \<Rightarrow> 'd \<Rightarrow> err + 'd" where
  "update_version t role expectedVersion d =
     (case tb_Update t ''id = ? AND version = ?'' [SqlText (ro_ID role), SqlInt expectedVersion]
        [(''display_name'', SqlText (ro_DisplayName role)), (''description'', SqlText (ro_Description role)),
         (''enabled'', SqlBool (ro_Enabled role)), (''version'', SqlInt (ro_Version role)),
         (''updated_at'', SqlTime (ro_UpdatedAt role))] d of
        Inl er \<Rightarrow> Inl er
      | Inr (rowsAffected, d) \<Rightarrow> if rowsAffected \<noteq> 1 then Inl ErrRoleVersionConflict else Inr d)"

definition sql_UpdateRoleTemplate ::
    "'d dbx \<Rightarrow> RoleTemplateModel \<Rightarrow> int \<Rightarrow> RoleTemplateAuditModel option \<Rightarrow> OutboxEventModel option list
     \<Rightarrow> ('d, RoleTemplateModel) query" where
  "sql_UpdateRoleTemplate x role expectedVersion audit outbox d =
     (let role = role\<lparr>ro_Version := wrap64 (expectedVersion + 1)\<rparr> in
      case in_tx x (then_do (update_version (dx_roles x) role expectedVersion)
          (then_do (replaceRolePermissions (dx_rolePermissions x) role)
          (then_do (create_if (dx_roleAudits x) audit)
          (createOutbox (dx_events x) outbox)))) d of
        (Inl er, d) \<Rightarrow> (Inl er, d)
      | (Inr _, d) \<Rightarrow> (Inr role, d))"

subsection \<open>Grants\<close>

definition sql_CreateGrant ::
    "'d dbx \<Rightarrow> GrantModel \<Rightarrow> GrantAuditModel option \<Rightarrow> OutboxEventModel option list \<Rightarrow> ('d, unit) query" where
  "sql_CreateGrant x grant audit outbox =
     in_tx x (then_do (tb_Create (dx_grants x) grant)
       (then_do (create_if (dx_audits x) audit) (createOutbox (dx_events x) outbox)))"

definition sql_GetGrant :: "'d dbx \<Rightarrow> string \<Rightarrow> string \<Rightarrow> ('d, GrantModel) query" where
  "sql_GetGrant x ident orgID =
     asking (tb_FindOne (dx_grants x) ''id = ? AND org_id = ?'' [SqlText ident, SqlText orgID])"

definition sql_RevokeGrant ::
    "'d dbx \<Rightarrow> string \<Rightarrow> string \<Rightarrow> gotime \<Rightarrow> GrantAuditModel option \<Rightarrow> OutboxEventModel option list
     \<Rightarrow> ('d, unit) query" where
  "sql_RevokeGrant x ident orgID revokedAt audit outbox =
     in_tx x (then_do (\<lambda>d. map_sum id snd (tb_Update (dx_grants x) ''id = ? AND org_id = ? AND revoked_at IS NULL''
         [SqlText ident, SqlText orgID] [(''revoked_at'', SqlTime revokedAt)] d))
       (then_do (create_if (dx_audits x) audit) (createOutbox (dx_events x) outbox)))"

definition grant_filter :: "ListOptions \<Rightarrow> condition" where
  "grant_filter opts =
     (let wb = eq_all [(''org_id'', lo_OrgID opts), (''resource_type'', lo_ResourceType opts),
        (''resource_id'', lo_ResourceID opts), (''subject_type'', lo_SubjectType opts),
        (''subject_id'', lo_SubjectID opts), (''relation'', lo_Relation opts), (''role_key'', lo_RoleKey opts),
        (''source'', lo_Source opts)] whereBuilder;
          wb = (case lo_Active opts of
             None \<Rightarrow> wb | Some active \<Rightarrow> if active then isNull ''revoked_at'' wb else isNotNull ''revoked_at'' wb)
      in where_build wb)"

definition sql_ListGrants :: "'d dbx \<Rightarrow> ListOptions \<Rightarrow> ('d, GrantModel Page) query" where
  "sql_ListGrants x opts =
     asking (\<lambda>d. pageFrom (tb_Paginate (dx_grants x) (grant_filter opts) (lo_Page opts) (lo_Size opts) d))"

definition sql_ListDueExpiringGrants :: "'d dbx \<Rightarrow> int \<Rightarrow> ('d, GrantModel list) query" where
  "sql_ListDueExpiringGrants x limit d =
     (let limit = (if limit \<le> 0 \<or> limit > 500 then 100 else limit) in
      case dx_now x d of (t, d) \<Rightarrow>
        asking (tb_FindMany (dx_grants x)
          (Some ''expires_at IS NOT NULL AND expires_at <= ? AND revoked_at IS NULL ORDER BY expires_at ASC LIMIT ?'',
           [SqlTime t, SqlInt limit])) d)"

subsection \<open>Local users\<close>

definition sql_ListUsers :: "'d dbx \<Rightarrow> ('d, LocalUserModel list) query" where
  "sql_ListUsers x = asking (tb_FindMany (dx_localUsers x) (Some ''true ORDER BY username ASC'', []))"

definition sql_GetUser :: "'d dbx \<Rightarrow> string \<Rightarrow> ('d, LocalUserModel) query" where
  "sql_GetUser x username = asking (tb_FindOne (dx_localUsers x) ''username = ?'' [SqlText username])"

definition sql_SaveUser :: "'d dbx \<Rightarrow> LocalUserModel \<Rightarrow> ('d, unit) query" where
  "sql_SaveUser x user = stating (tb_SafeUpsert (dx_localUsers x) user
     [''subject_id'', ''subject_type'', ''display_name'', ''email'', ''organization'', ''roles_json'',
      ''permissions_json'', ''namespaces_json'', ''password_hash'', ''disabled'', ''updated_at''])"

definition sql_DeleteUser :: "'d dbx \<Rightarrow> string \<Rightarrow> ('d, unit) query" where
  "sql_DeleteUser x username = stating (tb_Delete (dx_localUsers x) ''username = ?'' [SqlText username])"

end
