(* ===== verification/SqlLaws.thy ===== *)
theory SqlLaws
  imports SqlRepo
begin

text \<open>
  Laws of the repository over PostgreSQL.  The texts of its conditions never hold a value of the options, and each
  placeholder has its argument; a change of a grant is stored with its audit and its events or not at all;
  the permissions of a role come back in the order they were saved.

  For the last two the database is seen as the set of its rows, each under the table it is in, and the documented
  behaviour of the statements (a transaction that fails leaves no trace, an insert adds its row, DELETE,
  UPDATE, WHERE and ORDER BY of SQL) is stated on that set.
\<close>

subsection \<open>Conditions\<close>

definition marks :: "string \<Rightarrow> nat" where "marks s = length (filter (\<lambda>c. c = CHR ''?'') s)"

lemma marks_append [simp]: "marks (s @ t) = marks s + marks t"
  by (simp add: marks_def)

lemma marks_Join: "marks sep = 0 \<Longrightarrow> marks (Join ps sep) = sum_list (map marks ps)"
  by (induction ps sep rule: Join.induct) (auto simp: marks_def)

definition balanced :: "where_builder \<Rightarrow> bool" where
  "balanced w \<longleftrightarrow> sum_list (map marks (wh_parts w)) = length (wh_args w)"

lemma balanced_add: "balanced w \<Longrightarrow> marks part = length args \<Longrightarrow> balanced (where_add part args w)"
  by (simp add: balanced_def where_add_def)

lemma balanced_start: "balanced whereBuilder"
  by (simp add: balanced_def whereBuilder_def)

lemma balanced_eq:
  assumes "balanced w" and "marks col = 0" shows "balanced (where_eq col v w)"
proof -
  have "marks (col @ '' = ?'') = length [v]" using assms(2) by (simp add: marks_def)
  then show ?thesis using assms(1) balanced_add unfolding where_eq_def by presburger
qed

lemma balanced_eq_all: "balanced w \<Longrightarrow> list_all (\<lambda>(col, v). marks col = 0) cvs \<Longrightarrow> balanced (eq_all cvs w)"
  by (induction cvs arbitrary: w) (auto simp: eq_all_def balanced_eq)

lemma balanced_like:
  assumes "balanced w" and "list_all (\<lambda>col. marks col = 0) cols" shows "balanced (likeAny cols q w)"
proof -
  have one: "marks (col @ '' ILIKE ?'') = marks col + 1" for col by (simp add: marks_def)
  have "sum_list (map (\<lambda>col. marks (col @ '' ILIKE ?'')) cols) = length cols"
    using assms(2) by (induction cols) (simp_all add: one del: marks_append)
  moreover have "marks '' OR '' = 0" "marks ''('' = 0" "marks '')'' = 0" by (simp_all add: marks_def)
  ultimately have "marks (''('' @ Join (map (\<lambda>col. col @ '' ILIKE ?'') cols) '' OR '' @ '')'')
      = length (map (\<lambda>_. SqlText (''%'' @ TrimSpace q @ ''%'')) cols)"
    by (simp only: marks_append marks_Join map_map comp_def length_map)
  then show ?thesis using assms(1) balanced_add unfolding likeAny_def Let_def by presburger
qed

lemma balanced_null: "balanced w \<Longrightarrow> marks col = 0 \<Longrightarrow> balanced (isNull col w) \<and> balanced (isNotNull col w)"
  unfolding isNull_def isNotNull_def by (auto intro!: balanced_add simp: marks_def)

definition bound :: "condition \<Rightarrow> bool" where
  "bound c \<longleftrightarrow> (case c of (None, args) \<Rightarrow> args = [] | (Some text, args) \<Rightarrow> marks text = length args)"

lemma where_build_bound: "balanced w \<Longrightarrow> bound (where_build w)"
  using marks_Join[of "'' AND ''"] by (auto simp: bound_def where_build_def balanced_def marks_def)

text \<open>Two builders with the same text.\<close>

definition same_text :: "where_builder \<Rightarrow> where_builder \<Rightarrow> bool" where
  "same_text w w' \<longleftrightarrow> wh_parts w = wh_parts w'"

definition blank :: "string \<Rightarrow> bool" where "blank s \<longleftrightarrow> TrimSpace s = []"

lemma same_text_eq:
  "same_text w w' \<Longrightarrow> blank v = blank v' \<Longrightarrow> same_text (where_eq c (SqlText v) w) (where_eq c (SqlText v') w')"
  by (auto simp: same_text_def where_eq_def where_add_def blank_def)

lemma same_text_eq_all:
  "list_all2 (\<lambda>cv cv'. fst cv = fst cv' \<and> blank (snd cv) = blank (snd cv')) cvs cvs' \<Longrightarrow> same_text w w'
   \<Longrightarrow> same_text (eq_all cvs w) (eq_all cvs' w')"
proof (induction arbitrary: w w' rule: list_all2_induct)
  case (Cons cv cvs cv' cvs')
  then show ?case by (simp add: eq_all_def split_beta same_text_eq)
qed (simp add: eq_all_def)

lemma same_text_like:
  "same_text w w' \<Longrightarrow> blank q = blank q' \<Longrightarrow> same_text (likeAny cols q w) (likeAny cols q' w')"
  by (auto simp: same_text_def likeAny_def where_add_def blank_def Let_def)

lemma same_text_null: "same_text w w' \<Longrightarrow> same_text (isNull col w) (isNull col w') \<and> same_text (isNotNull col w) (isNotNull col w')"
  by (simp add: same_text_def isNull_def isNotNull_def where_add_def)

lemma same_text_build: "same_text w w' \<Longrightarrow> fst (where_build w) = fst (where_build w')"
  by (simp add: same_text_def where_build_def)

text \<open>
  Two options that leave the same text filters blank and agree on the active flag, which \<open>ListGrants\<close> turns into
  \<open>revoked_at IS NULL\<close> or \<open>revoked_at IS NOT NULL\<close>.
\<close>

definition option_texts :: "ListOptions \<Rightarrow> string list" where
  "option_texts opts = [lo_OrgID opts, lo_ProjectID opts, lo_Type opts, lo_CapabilityID opts, lo_ResourceType opts,
     lo_ResourceID opts, lo_SubjectType opts, lo_SubjectID opts, lo_Relation opts, lo_RoleKey opts,
     lo_Source opts, lo_Status opts, lo_Q opts]"

definition same_shape :: "ListOptions \<Rightarrow> ListOptions \<Rightarrow> bool" where
  "same_shape a b \<longleftrightarrow> map blank (option_texts a) = map blank (option_texts b) \<and> lo_Active a = lo_Active b"

definition list_filters :: "(ListOptions \<Rightarrow> condition) list" where
  "list_filters = [project_filter, capability_filter, resource_type_filter, resource_filter, binding_filter,
     external_filter, grant_filter, outbox_filter, \<lambda>opts. role_filter (lo_ResourceType opts)]"

lemmas filter_defs = project_filter_def capability_filter_def resource_type_filter_def resource_filter_def
  binding_filter_def external_filter_def grant_filter_def outbox_filter_def role_filter_def

lemma filters_bound:
  assumes "f \<in> set list_filters"
  shows "bound (f opts)"
proof -
  note bal = where_build_bound balanced_like balanced_eq_all balanced_start
    balanced_null[THEN conjunct1] balanced_null[THEN conjunct2]
  show ?thesis
    using assms unfolding list_filters_def
    by (auto simp: filter_defs Let_def marks_def split: option.split intro!: bal)
qed

lemma filters_same_text:
  assumes "f \<in> set list_filters" and "same_shape a b"
  shows "fst (f a) = fst (f b)"
proof -
  have s: "same_text whereBuilder whereBuilder" by (simp add: same_text_def)
  note st = same_text_build same_text_like same_text_eq_all s same_text_null[THEN conjunct1] same_text_null[THEN conjunct2]
  have sh: "blank (lo_OrgID a) = blank (lo_OrgID b)" "blank (lo_ProjectID a) = blank (lo_ProjectID b)"
    "blank (lo_Type a) = blank (lo_Type b)" "blank (lo_CapabilityID a) = blank (lo_CapabilityID b)"
    "blank (lo_ResourceType a) = blank (lo_ResourceType b)" "blank (lo_ResourceID a) = blank (lo_ResourceID b)"
    "blank (lo_SubjectType a) = blank (lo_SubjectType b)" "blank (lo_SubjectID a) = blank (lo_SubjectID b)"
    "blank (lo_Relation a) = blank (lo_Relation b)" "blank (lo_RoleKey a) = blank (lo_RoleKey b)"
    "blank (lo_Source a) = blank (lo_Source b)" "blank (lo_Status a) = blank (lo_Status b)"
    "blank (lo_Q a) = blank (lo_Q b)" "lo_Active a = lo_Active b"
    using assms(2) by (simp_all add: same_shape_def option_texts_def)
  show ?thesis
    using assms(1) unfolding list_filters_def
    by (auto simp: filter_defs Let_def sh split: option.split intro!: st)
qed

text \<open>C28. The condition of a listing never contains a value of its text filters.  Its text depends on which of them are
  blank and on the active flag (absent, or \<open>IS NULL\<close> for true and \<open>IS NOT NULL\<close> for false) and on nothing else: two requests
  that agree on these issue the same text, which has one placeholder for each argument that goes with it.  This holds of
  the listings of projects, capabilities, resource types, resources, bindings, external bindings, grants, outbox events and
  role templates, which are all that build their condition from the request.\<close>

theorem listing_text_fixed:
  assumes "f \<in> set list_filters" and "same_shape a b"
  shows "fst (f a) = fst (f b)
    \<and> (case f a of (None, args) \<Rightarrow> args = [] | (Some text, args) \<Rightarrow> length (filter (\<lambda>c. c = CHR ''?'') text) = length args)"
  using filters_same_text[OF assms] filters_bound[OF assms(1), of a] unfolding bound_def marks_def by (rule conjI)

subsection \<open>The database as a set of rows\<close>

datatype stored =
    InRoles RoleTemplateModel
  | InPermissions RoleTemplatePermissionModel
  | InRoleAudits RoleTemplateAuditModel
  | InGrants GrantModel
  | InAudits GrantAuditModel
  | InEvents OutboxEventModel

definition transactional :: "'d dbx \<Rightarrow> bool" where
  "transactional x \<longleftrightarrow>
     (\<forall>f d. case dx_InTx x f d of (None, d') \<Rightarrow> f d = Inr d' | (Some er, d') \<Rightarrow> d' = d)"

text \<open>\<open>fill\<close> gives the columns that the database fills in.\<close>

definition inserts :: "('d \<Rightarrow> stored set) \<Rightarrow> ('d, 'r) table \<Rightarrow> ('r \<Rightarrow> stored) \<Rightarrow> ('r \<Rightarrow> 'r) \<Rightarrow> bool" where
  "inserts V t tag fill \<longleftrightarrow> (\<forall>r d d'. tb_Create t r d = Inr d' \<longrightarrow> V d' = insert (tag (fill r)) (V d))"

lemma insertsD: "inserts V t tag fill \<Longrightarrow> tb_Create t r d = Inr d' \<Longrightarrow> V d' = insert (tag (fill r)) (V d)"
  by (simp add: inserts_def)

lemma in_tx_result:
  assumes "transactional x" and "in_tx x f d = (r, d')"
  shows "isl r \<and> d' = d \<or> r = Inr () \<and> f d = Inr d'"
proof (cases "dx_InTx x f d")
  case (Pair o' d'')
  have *: "case dx_InTx x f d of (None, d') \<Rightarrow> f d = Inr d' | (Some er, d') \<Rightarrow> d' = d"
    by (rule assms(1)[unfolded transactional_def, rule_format, of f d])
  show ?thesis using * assms(2) Pair by (cases o') (auto simp: in_tx_def)
qed

lemma then_doE:
  assumes "then_do f g d = Inr d'"
  obtains d1 where "f d = Inr d1" and "g d1 = Inr d'"
  using assms by (auto simp: then_do_def split: sum.splits)

lemma in_txE:
  assumes "transactional x" and "in_tx x (then_do f g) d = (r, d')" and "\<not> isl r"
  obtains d1 where "f d = Inr d1" and "g d1 = Inr d'"
  using in_tx_result[OF assms(1,2)] assms(3) by (auto elim: then_doE)

lemma changed_rows: "map_sum id snd y = Inr d' \<Longrightarrow> \<exists>n. y = Inr (n, d')"
  by (cases y) auto

lemma then_do_Inr: "then_do f g d = Inr d' \<longleftrightarrow> (\<exists>d1. f d = Inr d1 \<and> g d1 = Inr d')"
  by (auto simp: then_do_def split: sum.splits)

lemma create_if_rows:
  "inserts V t tag fill \<Longrightarrow> create_if t r d = Inr d' \<Longrightarrow> V d' = V d \<union> tag ` fill ` set_option r"
  by (cases r) (auto simp: create_if_def dest: insertsD)

lemma createOutbox_rows:
  assumes "inserts V t tag fill"
  shows "createOutbox t evs d = Inr d' \<Longrightarrow> V d' = V d \<union> tag ` fill ` {e. Some e \<in> set evs}"
proof (induction evs arbitrary: d)
  case (Cons event evs)
  show ?case
  proof (cases event)
    case None
    then have "{e. Some e \<in> set (event # evs)} = {e. Some e \<in> set evs}" by auto
    then show ?thesis using Cons None by simp
  next
    case (Some ev)
    then obtain d1 where d1: "tb_Create t ev d = Inr d1" "createOutbox t evs d1 = Inr d'"
      using Cons.prems by (auto split: sum.splits)
    have "{e. Some e \<in> set (event # evs)} = insert ev {e. Some e \<in> set evs}" using Some by auto
    then show ?thesis using Cons.IH[OF d1(2)] insertsD[OF assms d1(1)] by auto
  qed
qed auto

subsection \<open>Grants\<close>

text \<open>The UPDATE of RevokeGrant.\<close>

definition revokes :: "('d \<Rightarrow> stored set) \<Rightarrow> ('d, GrantModel) table \<Rightarrow> bool" where
  "revokes V t \<longleftrightarrow> (\<forall>ident org at d n d'.
     tb_Update t ''id = ? AND org_id = ? AND revoked_at IS NULL'' [SqlText ident, SqlText org]
       [(''revoked_at'', SqlTime at)] d = Inr (n, d') \<longrightarrow>
     (let M = {g. InGrants g \<in> V d \<and> gr_ID g = ident \<and> gr_OrgID g = org \<and> gr_RevokedAt g = None}
      in V d' = (V d - InGrants ` M) \<union> InGrants ` (\<lambda>g. g\<lparr>gr_RevokedAt := Some at\<rparr>) ` M))"

lemma revoked_left:
  assumes in_rows: "InGrants g' \<in> (S - InGrants ` {g. InGrants g \<in> S \<and> gr_ID g = ident \<and> gr_OrgID g = org \<and> gr_RevokedAt g = None})
      \<union> InGrants ` (\<lambda>g. g\<lparr>gr_RevokedAt := Some at\<rparr>) ` M \<union> (InAudits ` B \<union> InEvents ` C)"
    and "gr_ID g' = ident" and "gr_OrgID g' = org"
  shows "gr_RevokedAt g' \<noteq> None"
proof
  assume n: "gr_RevokedAt g' = None"
  from in_rows consider "InGrants g' \<in> S" "InGrants g' \<notin> InGrants ` {g. InGrants g \<in> S \<and> gr_ID g = ident \<and> gr_OrgID g = org \<and> gr_RevokedAt g = None}"
    | g where "g' = g\<lparr>gr_RevokedAt := Some at\<rparr>" by blast
  then show False
  proof cases
    case 1
    then show False using n assms(2,3) by blast
  next
    case 2
    then show False using n by simp
  qed
qed

text \<open>The audit and the events that go with a change.\<close>

lemma grant_records:
  assumes A: "inserts V (dx_audits x) InAudits af" and E: "inserts V (dx_events x) InEvents ef"
    and run: "then_do (create_if (dx_audits x) audit) (createOutbox (dx_events x) evs) d = Inr d'"
  shows "V d' = V d \<union> (InAudits ` af ` set_option audit \<union> InEvents ` ef ` {e. Some e \<in> set evs})"
proof -
  from run obtain da where "create_if (dx_audits x) audit d = Inr da" "createOutbox (dx_events x) evs da = Inr d'"
    by (rule then_doE)
  then show ?thesis using create_if_rows[OF A] createOutbox_rows[OF E] by auto
qed

lemma created_rows:
  assumes tx: "transactional x" and G: "inserts V (dx_grants x) InGrants gf"
    and A: "inserts V (dx_audits x) InAudits af" and E: "inserts V (dx_events x) InEvents ef"
    and run: "sql_CreateGrant x g audit evs d = (r, d')" and ok: "\<not> isl r"
  shows "V d' = insert (InGrants (gf g)) (V d) \<union> (InAudits ` af ` set_option audit \<union> InEvents ` ef ` {e. Some e \<in> set evs})"
proof -
  obtain da where da: "tb_Create (dx_grants x) g d = Inr da"
    "then_do (create_if (dx_audits x) audit) (createOutbox (dx_events x) evs) da = Inr d'"
    using in_txE[OF tx run[unfolded sql_CreateGrant_def] ok] .
  show ?thesis using grant_records[OF A E da(2)] insertsD[OF G da(1)] by (rule trans[OF _ arg_cong])
qed

lemma revoked_rows:
  assumes tx: "transactional x" and R: "revokes V (dx_grants x)"
    and A: "inserts V (dx_audits x) InAudits af" and E: "inserts V (dx_events x) InEvents ef"
    and run: "sql_RevokeGrant x ident org at audit evs d = (r, d')" and ok: "\<not> isl r"
  shows "let M = {g. InGrants g \<in> V d \<and> gr_ID g = ident \<and> gr_OrgID g = org \<and> gr_RevokedAt g = None} in
    V d' = (V d - InGrants ` M) \<union> InGrants ` (\<lambda>g. g\<lparr>gr_RevokedAt := Some at\<rparr>) ` M
      \<union> (InAudits ` af ` set_option audit \<union> InEvents ` ef ` {e. Some e \<in> set evs})"
proof -
  let ?text = "''id = ? AND org_id = ? AND revoked_at IS NULL''"
  obtain da where da: "map_sum id snd (tb_Update (dx_grants x) ?text [SqlText ident, SqlText org]
      [(''revoked_at'', SqlTime at)] d) = Inr da"
    and rest: "then_do (create_if (dx_audits x) audit) (createOutbox (dx_events x) evs) da = Inr d'"
    using in_txE[OF tx run[unfolded sql_RevokeGrant_def] ok] .
  from changed_rows[OF da] obtain n where "tb_Update (dx_grants x) ?text [SqlText ident, SqlText org]
      [(''revoked_at'', SqlTime at)] d = Inr (n, da)" ..
  from R[unfolded revokes_def Let_def, rule_format, OF this] grant_records[OF A E rest] show ?thesis by (simp only: Let_def)
qed

text \<open>C10. Creating and revoking a grant are each one step of the database: a call that fails leaves every row as it was,
  and a call that succeeds has made its change of the grant, added the audit it was given and all its events, and
  touched nothing else; after a successful revocation no grant of the organisation with that identifier is active.
\<close>

theorem grant_change_atomic:
  assumes tx: "transactional x" and G: "inserts V (dx_grants x) InGrants gf"
    and A: "inserts V (dx_audits x) InAudits af" and E: "inserts V (dx_events x) InEvents ef"
    and R: "revokes V (dx_grants x)"
    and create: "sql_CreateGrant x g audit evs d = (r1, d1)"
    and revoke: "sql_RevokeGrant x ident org at audit evs d = (r2, d2)"
  shows "(let added = InAudits ` af ` set_option audit \<union> InEvents ` ef ` {e. Some e \<in> set evs};
             M = {g. InGrants g \<in> V d \<and> gr_ID g = ident \<and> gr_OrgID g = org \<and> gr_RevokedAt g = None}
         in (if isl r1 then V d1 = V d else V d1 = insert (InGrants (gf g)) (V d) \<union> added)
          \<and> (if isl r2 then V d2 = V d
             else V d2 = (V d - InGrants ` M) \<union> InGrants ` (\<lambda>g. g\<lparr>gr_RevokedAt := Some at\<rparr>) ` M \<union> added
               \<and> (\<forall>g'. InGrants g' \<in> V d2 \<longrightarrow> gr_ID g' = ident \<longrightarrow> gr_OrgID g' = org \<longrightarrow> gr_RevokedAt g' \<noteq> None)))"
proof -
  let ?added = "InAudits ` af ` set_option audit \<union> InEvents ` ef ` {e. Some e \<in> set evs}"
  let ?M = "{g. InGrants g \<in> V d \<and> gr_ID g = ident \<and> gr_OrgID g = org \<and> gr_RevokedAt g = None}"
  have same: "isl r1 \<Longrightarrow> d1 = d" "isl r2 \<Longrightarrow> d2 = d"
    using in_tx_result[OF tx create[unfolded sql_CreateGrant_def]]
      in_tx_result[OF tx revoke[unfolded sql_RevokeGrant_def]] by auto
  have first: "if isl r1 then V d1 = V d else V d1 = insert (InGrants (gf g)) (V d) \<union> ?added"
    using same(1) created_rows[OF tx G A E create] by presburger
  note two = revoked_rows[OF tx R A E revoke, unfolded Let_def]
  have second: "if isl r2 then V d2 = V d
      else V d2 = (V d - InGrants ` ?M) \<union> InGrants ` (\<lambda>g. g\<lparr>gr_RevokedAt := Some at\<rparr>) ` ?M \<union> ?added
        \<and> (\<forall>g'. InGrants g' \<in> V d2 \<longrightarrow> gr_ID g' = ident \<longrightarrow> gr_OrgID g' = org \<longrightarrow> gr_RevokedAt g' \<noteq> None)"
  proof (cases "isl r2")
    case False
    have "gr_RevokedAt g' \<noteq> None" if "InGrants g' \<in> V d2" "gr_ID g' = ident" "gr_OrgID g' = org" for g'
      by (rule revoked_left[OF that(1)[unfolded two[OF False]] that(2,3)])
    then show ?thesis by (simp only: False if_False) (intro conjI allI impI two[OF False])
  qed (simp add: same(2))
  show ?thesis unfolding Let_def by (rule conjI[OF first second])
qed

subsection \<open>The permissions of a role\<close>

text \<open>
  The rows of the permissions table with a given role, and the statements of replaceRolePermissions and
  loadRolePermissions on them.
\<close>

definition rows_of :: "stored set \<Rightarrow> string \<Rightarrow> RoleTemplatePermissionModel set" where
  "rows_of S roleID = {r. InPermissions r \<in> S \<and> rp_RoleTemplateID r = roleID}"

definition clears :: "('d \<Rightarrow> stored set) \<Rightarrow> ('d, RoleTemplatePermissionModel) table \<Rightarrow> bool" where
  "clears V t \<longleftrightarrow> (\<forall>roleID d d'. tb_Delete t ''role_template_id = ?'' [SqlText roleID] d = Inr d' \<longrightarrow>
     V d' = V d - InPermissions ` rows_of (V d) roleID)"

definition reads_ordered :: "('d \<Rightarrow> stored set) \<Rightarrow> ('d, RoleTemplatePermissionModel) table \<Rightarrow> bool" where
  "reads_ordered V t \<longleftrightarrow> (\<forall>roleID d rows.
     tb_FindMany t (Some ''role_template_id = ? ORDER BY sort_order ASC, permission ASC'', [SqlText roleID]) d = Inr rows
     \<longrightarrow> set rows = rows_of (V d) roleID \<and> distinct rows \<and> sorted (map rp_SortOrder rows))"

text \<open>Statements on another table leave the permissions alone.\<close>

definition spares_permissions :: "('d \<Rightarrow> stored set) \<Rightarrow> ('d, RoleTemplateModel) table \<Rightarrow> bool" where
  "spares_permissions V t \<longleftrightarrow>
     (\<forall>r cols d d' roleID. tb_SafeUpsert t r cols d = Inr d' \<longrightarrow> rows_of (V d') roleID = rows_of (V d) roleID)
     \<and> (\<forall>c args cols d n d' roleID. tb_Update t c args cols d = Inr (n, d') \<longrightarrow> rows_of (V d') roleID = rows_of (V d) roleID)
     \<and> (\<forall>i d r. tb_FindOne t ''id = ?'' [SqlText i] d = Inr r \<longrightarrow> ro_ID r = i)"

primrec number_rows :: "string \<Rightarrow> nat \<Rightarrow> string list \<Rightarrow> RoleTemplatePermissionModel list" where
  "number_rows roleID n [] = []"
| "number_rows roleID n (p # ps) = permission_row roleID n p # number_rows roleID (Suc n) ps"

lemma number_rows_order: "r \<in> set (number_rows roleID n ps) \<Longrightarrow> int n \<le> rp_SortOrder r"
  by (induction ps arbitrary: n) (fastforce simp: permission_row_def)+

lemma number_rows_sorted:
  "sorted (map rp_SortOrder (number_rows roleID n ps)) \<and> distinct (map rp_SortOrder (number_rows roleID n ps))"
proof (induction ps arbitrary: n)
  case (Cons p ps)
  have "int n < rp_SortOrder r" if "r \<in> set (number_rows roleID (Suc n) ps)" for r
    using number_rows_order[OF that] by simp
  then show ?case using Cons.IH[of "Suc n"] by (fastforce simp: permission_row_def)
qed simp

lemma number_rows_permissions [simp]: "map rp_Permission (number_rows roleID n ps) = ps"
  by (induction ps arbitrary: n) (simp_all add: permission_row_def)

lemma create_permissions_rows:
  assumes "inserts V t InPermissions (\<lambda>r. r)"
  shows "create_permissions t roleID n ps d = Inr d' \<Longrightarrow> V d' = V d \<union> InPermissions ` set (number_rows roleID n ps)"
proof (induction ps arbitrary: n d)
  case (Cons p ps)
  then obtain d1 where d1: "tb_Create t (permission_row roleID n p) d = Inr d1"
    "create_permissions t roleID (Suc n) ps d1 = Inr d'" by (auto split: sum.splits)
  then show ?case using Cons.IH[OF d1(2)] insertsD[OF assms d1(1)] by auto
qed simp

lemma number_rows_id: "r \<in> set (number_rows roleID n ps) \<Longrightarrow> rp_RoleTemplateID r = roleID"
  by (induction ps arbitrary: n) (auto simp: permission_row_def)

lemma replace_rows:
  assumes "clears V t" and "inserts V t InPermissions (\<lambda>r. r)" and "replaceRolePermissions t role d = Inr d'"
  shows "rows_of (V d') (ro_ID role) = set (number_rows (ro_ID role) 0 (ro_Permissions role))"
proof -
  obtain d1 where d1: "tb_Delete t ''role_template_id = ?'' [SqlText (ro_ID role)] d = Inr d1"
    "create_permissions t (ro_ID role) 0 (ro_Permissions role) d1 = Inr d'"
    using assms(3) by (auto simp only: replaceRolePermissions_def then_do_Inr)
  have "V d1 = V d - InPermissions ` rows_of (V d) (ro_ID role)" using assms(1) d1(1) by (simp add: clears_def)
  then have "rows_of (V d1) (ro_ID role) = {}" by (auto simp: rows_of_def)
  moreover have "rows_of (V d') (ro_ID role)
      = rows_of (V d1) (ro_ID role) \<union> set (number_rows (ro_ID role) 0 (ro_Permissions role))"
    using create_permissions_rows[OF assms(2) d1(2)] by (auto simp: rows_of_def number_rows_id)
  ultimately show ?thesis by simp
qed

text \<open>A list sorted by a key under which its elements are distinct is determined by its set.\<close>

lemma sorted_by_key_unique:
  assumes "set xs = set ys" and "distinct xs" and "sorted (map f xs)" and "sorted (map f ys)" and "distinct (map f ys)"
  shows "xs = ys"
proof -
  have "inj_on f (set xs)" using assms(1,5) by (simp add: distinct_map)
  then show ?thesis using map_sorted_distinct_set_unique[of f xs ys] assms by (simp add: distinct_map)
qed

lemma adds_elsewhere:
  assumes "V d' = V d \<union> S" and "S \<subseteq> range InRoleAudits \<union> range InEvents"
  shows "rows_of (V d') roleID = rows_of (V d) roleID"
  using assms by (auto simp: rows_of_def)

lemma role_records:
  assumes A: "inserts V (dx_roleAudits x) InRoleAudits af" and E: "inserts V (dx_events x) InEvents ef"
    and run: "then_do (create_if (dx_roleAudits x) audit) (createOutbox (dx_events x) evs) d = Inr d'"
  shows "rows_of (V d') roleID = rows_of (V d) roleID"
proof -
  from run obtain da where "create_if (dx_roleAudits x) audit d = Inr da" "createOutbox (dx_events x) evs da = Inr d'"
    by (auto simp only: then_do_Inr)
  then have "V d' = V d \<union> (InRoleAudits ` af ` set_option audit \<union> InEvents ` ef ` {e. Some e \<in> set evs})"
    using create_if_rows[OF A] createOutbox_rows[OF E] by auto
  then show ?thesis by (rule adds_elsewhere) auto
qed

lemma update_version_rows:
  assumes "spares_permissions V t" and "update_version t role v d = Inr d'"
  shows "rows_of (V d') roleID = rows_of (V d) roleID"
  using assms by (auto simp: update_version_def spares_permissions_def split: sum.splits prod.splits if_splits)

text \<open>What a write of a role leaves in the permissions table, whichever statement stores the role itself.\<close>

lemma role_written:
  assumes C: "clears V (dx_rolePermissions x)" and I: "inserts V (dx_rolePermissions x) InPermissions (\<lambda>r. r)"
    and A: "inserts V (dx_roleAudits x) InRoleAudits af" and E: "inserts V (dx_events x) InEvents ef"
    and run: "then_do (replaceRolePermissions (dx_rolePermissions x) role)
      (then_do (create_if (dx_roleAudits x) audit) (createOutbox (dx_events x) evs)) d = Inr d'"
  shows "rows_of (V d') (ro_ID role) = set (number_rows (ro_ID role) 0 (ro_Permissions role))"
proof -
  obtain d1 where "replaceRolePermissions (dx_rolePermissions x) role d = Inr d1"
    "then_do (create_if (dx_roleAudits x) audit) (createOutbox (dx_events x) evs) d1 = Inr d'"
    using run by (auto simp only: then_do_Inr)
  then show ?thesis using replace_rows[OF C I] role_records[OF A E] by metis
qed

lemma role_read:
  assumes O: "reads_ordered V (dx_rolePermissions x)" and F: "spares_permissions V (dx_roles x)"
    and "rows_of (V d) ident = set (number_rows ident 0 ps)"
    and "sql_GetRoleTemplate x ident d = (Inr r, d')"
  shows "ro_Permissions r = ps"
proof -
  from assms(4) obtain r0 where r0: "tb_FindOne (dx_roles x) ''id = ?'' [SqlText ident] d = Inr r0"
    and c: "complete_role x r0 d = (Inr r, d')" by (auto simp: sql_GetRoleTemplate_def split: sum.splits)
  have i: "ro_ID r0 = ident" using F r0 by (simp add: spares_permissions_def)
  from c obtain rows where rows: "tb_FindMany (dx_rolePermissions x)
      (Some ''role_template_id = ? ORDER BY sort_order ASC, permission ASC'', [SqlText (ro_ID r0)]) d = Inr rows"
    and p: "ro_Permissions r = map rp_Permission rows"
    by (auto simp: complete_role_def loadRolePermissions_def split: sum.splits prod.splits)
  have "set rows = rows_of (V d) ident" "distinct rows" "sorted (map rp_SortOrder rows)"
    using O rows i unfolding reads_ordered_def by blast+
  then have "rows = number_rows ident 0 ps"
    using sorted_by_key_unique[of rows "number_rows ident 0 ps" rp_SortOrder] number_rows_sorted[of ident 0 ps] assms(3)
    by simp
  then show ?thesis using p by simp
qed

text \<open>C22. A role that is saved, or updated at the version it had, is read back with exactly the permissions it was
  written with, in their order, whatever permissions it had before.
\<close>

theorem role_permissions_survive:
  assumes tx: "transactional x"
    and C: "clears V (dx_rolePermissions x)" and I: "inserts V (dx_rolePermissions x) InPermissions (\<lambda>r. r)"
    and O: "reads_ordered V (dx_rolePermissions x)" and F: "spares_permissions V (dx_roles x)"
    and A: "inserts V (dx_roleAudits x) InRoleAudits af" and E: "inserts V (dx_events x) InEvents ef"
    and write_run: "sql_SaveRoleTemplate x role audit evs d = (Inr (), d1)
      \<or> sql_UpdateRoleTemplate x role v audit evs d = (Inr role', d1)"
    and read_run: "sql_GetRoleTemplate x (ro_ID role) d1 = (Inr r, d2)"
  shows "ro_Permissions r = ro_Permissions role"
proof -
  have "rows_of (V d1) (ro_ID role) = set (number_rows (ro_ID role) 0 (ro_Permissions role))"
    using write_run
  proof
    assume "sql_SaveRoleTemplate x role audit evs d = (Inr (), d1)"
    from in_txE[OF tx this[unfolded sql_SaveRoleTemplate_def] sum.disc(2)]
    obtain da where "then_do (replaceRolePermissions (dx_rolePermissions x) role)
        (then_do (create_if (dx_roleAudits x) audit) (createOutbox (dx_events x) evs)) da = Inr d1"
      by blast
    then show ?thesis by (rule role_written[OF C I A E])
  next
    let ?role = "role\<lparr>ro_Version := wrap64 (v + 1)\<rparr>"
    let ?whole = "then_do (update_version (dx_roles x) ?role v)
        (then_do (replaceRolePermissions (dx_rolePermissions x) ?role)
        (then_do (create_if (dx_roleAudits x) audit) (createOutbox (dx_events x) evs)))"
    assume "sql_UpdateRoleTemplate x role v audit evs d = (Inr role', d1)"
    then have "in_tx x ?whole d = (Inr (), d1)"
      by (simp add: sql_UpdateRoleTemplate_def Let_def split: prod.splits sum.splits)
    from in_txE[OF tx this sum.disc(2)] obtain da where "then_do (replaceRolePermissions (dx_rolePermissions x) ?role)
        (then_do (create_if (dx_roleAudits x) audit) (createOutbox (dx_events x) evs)) da = Inr d1"
      by blast
    from role_written[OF C I A E this] show ?thesis by simp
  qed
  then show ?thesis using role_read[OF O F _ read_run] by blast
qed

end
