(* ===== verification/SqlExamples.thy ===== *)
theory SqlExamples
  imports SqlLaws ProjectionLaws
begin

text \<open>
  A database that is the list of its rows, for the tables that the properties of theory SqlLaws are about.  It answers
  the conditions they use.
\<close>

definition closed_table :: "(stored list, 'r) table" where
  "closed_table = \<lparr>tb_Create = (\<lambda>r d. Inl (ErrExternal [])), tb_SafeUpsert = (\<lambda>r c d. Inl (ErrExternal [])),
     tb_Update = (\<lambda>c a k d. Inl (ErrExternal [])), tb_Delete = (\<lambda>c a d. Inl (ErrExternal [])),
     tb_Increment = (\<lambda>c a k n d. Inl (ErrExternal [])), tb_FindOne = (\<lambda>c a d. Inl (ErrExternal [])),
     tb_FindMany = (\<lambda>c d. Inl (ErrExternal [])), tb_Find = (\<lambda>c a s n d. Inl (ErrExternal [])),
     tb_Count = (\<lambda>c a d. Inr 0), tb_Paginate = (\<lambda>c p n d. Inl (ErrExternal []))\<rparr>"

definition row_table :: "('r \<Rightarrow> stored) \<Rightarrow> (stored list, 'r) table" where
  "row_table tag = closed_table\<lparr>tb_Create := (\<lambda>r d. Inr (tag r # d))\<rparr>"

definition revoke_row :: "string \<Rightarrow> string \<Rightarrow> gotime \<Rightarrow> stored \<Rightarrow> stored" where
  "revoke_row ident org at s = (case s of
     InGrants g \<Rightarrow> if gr_ID g = ident \<and> gr_OrgID g = org \<and> gr_RevokedAt g = None
       then InGrants (g\<lparr>gr_RevokedAt := Some at\<rparr>) else s
   | _ \<Rightarrow> s)"

definition grants_table :: "(stored list, GrantModel) table" where
  "grants_table = (row_table InGrants)\<lparr>tb_Update := (\<lambda>c args k d. case (args, k) of
     ([SqlText ident, SqlText org], [(_, SqlTime at)]) \<Rightarrow> Inr (0, map (revoke_row ident org at) d)
   | _ \<Rightarrow> Inl (ErrExternal []))\<rparr>"

definition is_permission_of :: "string \<Rightarrow> stored \<Rightarrow> bool" where
  "is_permission_of roleID s = (case s of InPermissions r \<Rightarrow> rp_RoleTemplateID r = roleID | _ \<Rightarrow> False)"

definition permission_rows :: "string \<Rightarrow> stored list \<Rightarrow> RoleTemplatePermissionModel list" where
  "permission_rows roleID d = sort_key rp_SortOrder (remdups (List.map_filter
     (\<lambda>s. case s of InPermissions r \<Rightarrow> if rp_RoleTemplateID r = roleID then Some r else None | _ \<Rightarrow> None) d))"

definition permissions_table :: "(stored list, RoleTemplatePermissionModel) table" where
  "permissions_table = (row_table InPermissions)\<lparr>
     tb_Delete := (\<lambda>c args d. case args of [SqlText roleID] \<Rightarrow> Inr (filter (\<lambda>s. \<not> is_permission_of roleID s) d)
       | _ \<Rightarrow> Inl (ErrExternal [])),
     tb_FindMany := (\<lambda>c d. case snd c of [SqlText roleID] \<Rightarrow> Inr (permission_rows roleID d) | _ \<Rightarrow> Inl (ErrExternal []))\<rparr>"

definition role_with :: "string \<Rightarrow> stored \<Rightarrow> RoleTemplateModel option" where
  "role_with ident s = (case s of InRoles r \<Rightarrow> if ro_ID r = ident then Some r else None | _ \<Rightarrow> None)"

definition roles_table :: "(stored list, RoleTemplateModel) table" where
  "roles_table = closed_table\<lparr>
     tb_SafeUpsert := (\<lambda>r c d. Inr (InRoles r # filter (\<lambda>s. role_with (ro_ID r) s = None) d)),
     tb_FindOne := (\<lambda>c args d. case args of
       [SqlText ident] \<Rightarrow> (case List.map_filter (role_with ident) d of [] \<Rightarrow> Inl (ErrExternal []) | r # rs \<Rightarrow> Inr r)
     | _ \<Rightarrow> Inl (ErrExternal []))\<rparr>"

definition row_database :: "stored list dbx" where
  "row_database = \<lparr>dx_projects = closed_table, dx_caps = closed_table, dx_projectCaps = closed_table,
     dx_resourceTypes = closed_table, dx_resources = closed_table, dx_bindings = closed_table,
     dx_externalBindings = closed_table, dx_roles = roles_table, dx_rolePermissions = permissions_table,
     dx_roleAudits = row_table InRoleAudits, dx_grants = grants_table, dx_audits = row_table InAudits,
     dx_events = row_table InEvents, dx_localUsers = closed_table,
     dx_InTx = (\<lambda>f d. case f d of Inl er \<Rightarrow> (Some er, d) | Inr d' \<Rightarrow> (None, d')), dx_now = (\<lambda>d. (0, d))\<rparr>"

lemma row_transactions: "transactional row_database"
  by (simp add: transactional_def row_database_def split: sum.split)

lemma row_inserts: "inserts set (row_table tag) tag (\<lambda>r. r)"
  by (simp add: inserts_def row_table_def)

lemma grants_inserts: "inserts set grants_table InGrants (\<lambda>r. r)"
  by (simp add: inserts_def grants_table_def row_table_def)

lemma permissions_inserts: "inserts set permissions_table InPermissions (\<lambda>r. r)"
  by (simp add: inserts_def permissions_table_def row_table_def)

lemma revoke_rows:
  assumes M: "M = {g. InGrants g \<in> S \<and> gr_ID g = ident \<and> gr_OrgID g = org \<and> gr_RevokedAt g = None}"
  shows "revoke_row ident org at ` S = (S - InGrants ` M) \<union> InGrants ` (\<lambda>g. g\<lparr>gr_RevokedAt := Some at\<rparr>) ` M"
proof -
  have change: "revoke_row ident org at (InGrants g) = InGrants (g\<lparr>gr_RevokedAt := Some at\<rparr>)" if "g \<in> M" for g
    using that by (simp add: revoke_row_def M)
  have keep: "revoke_row ident org at s = s" if "s \<in> S - InGrants ` M" for s
  proof (cases s)
    case (InGrants g)
    then have "\<not> (gr_ID g = ident \<and> gr_OrgID g = org \<and> gr_RevokedAt g = None)" using that M by blast
    then show ?thesis by (simp only: InGrants revoke_row_def stored.case if_False)
  qed (simp_all add: revoke_row_def)
  have "InGrants ` M \<subseteq> S" using M by blast
  then have "revoke_row ident org at ` S = revoke_row ident org at ` (S - InGrants ` M) \<union> revoke_row ident org at ` InGrants ` M"
    by blast
  also have "revoke_row ident org at ` (S - InGrants ` M) = (\<lambda>s. s) ` (S - InGrants ` M)" by (rule image_cong[OF refl keep])
  also have "(\<lambda>s. s) ` (S - InGrants ` M) = S - InGrants ` M" by simp
  also have "revoke_row ident org at ` InGrants ` M = InGrants ` (\<lambda>g. g\<lparr>gr_RevokedAt := Some at\<rparr>) ` M"
    unfolding image_image by (rule image_cong[OF refl change])
  finally show ?thesis .
qed

lemma grants_revoke: "revokes set grants_table"
  unfolding revokes_def Let_def
proof (intro allI impI)
  fix ident org at d n d'
  assume "tb_Update grants_table ''id = ? AND org_id = ? AND revoked_at IS NULL'' [SqlText ident, SqlText org]
    [(''revoked_at'', SqlTime at)] d = Inr (n, d')"
  then have "d' = map (revoke_row ident org at) d" by (simp add: grants_table_def)
  then show "set d' = (set d - InGrants ` {g. InGrants g \<in> set d \<and> gr_ID g = ident \<and> gr_OrgID g = org \<and> gr_RevokedAt g = None})
      \<union> InGrants ` (\<lambda>g. g\<lparr>gr_RevokedAt := Some at\<rparr>) ` {g. InGrants g \<in> set d \<and> gr_ID g = ident \<and> gr_OrgID g = org \<and> gr_RevokedAt g = None}"
    by (simp only: set_map) (rule revoke_rows[OF refl])
qed

lemma permissions_clear: "clears set permissions_table"
proof -
  have "is_permission_of roleID s \<longleftrightarrow> (\<exists>r. s = InPermissions r \<and> rp_RoleTemplateID r = roleID)" for s roleID
    by (cases s) (simp_all add: is_permission_of_def)
  then have "{s \<in> set d. \<not> is_permission_of roleID s} = set d - InPermissions ` rows_of (set d) roleID" for d roleID
    by (auto simp: rows_of_def)
  then show ?thesis by (simp add: clears_def permissions_table_def row_table_def closed_table_def)
qed

lemma permission_rows_set: "set (permission_rows roleID d) = rows_of (set d) roleID"
proof -
  have pick: "(case s of InPermissions r \<Rightarrow> if rp_RoleTemplateID r = roleID then Some r else None | _ \<Rightarrow> None) = Some r
      \<longleftrightarrow> s = InPermissions r \<and> rp_RoleTemplateID r = roleID" for s r
    by (cases s) auto
  show ?thesis unfolding permission_rows_def rows_of_def set_sort set_remdups
    by (induction d) (auto simp: List.map_filter_simps pick split: option.split)
qed

lemma permissions_read: "reads_ordered set permissions_table"
proof -
  have "distinct (permission_rows roleID d)" "sorted (map rp_SortOrder (permission_rows roleID d))" for roleID d
    by (simp_all add: permission_rows_def)
  then show ?thesis by (simp add: reads_ordered_def permissions_table_def permission_rows_set)
qed

lemma map_filter_head: "List.map_filter f d = r # rs \<Longrightarrow> \<exists>s. f s = Some r"
  by (induction d) (auto simp: List.map_filter_simps split: option.splits)

lemma roles_spare: "spares_permissions set roles_table"
proof -
  have keep: "rows_of (insert (InRoles r) {s \<in> S. role_with i s = None}) roleID = rows_of S roleID" for r i S roleID
    by (auto simp: rows_of_def role_with_def)
  have "ro_ID r = i" if "role_with i s = Some r" for r i s
    using that by (auto simp: role_with_def split: stored.splits if_splits)
  then have found: "ro_ID r = i" if "List.map_filter (role_with i) d = r # rs" for r i d rs
    using map_filter_head[OF that] by blast
  show ?thesis
    by (auto simp: spares_permissions_def roles_table_def closed_table_def keep split: list.splits dest: found)
qed

lemmas row_fields = row_database_def dbx.simps

subsection \<open>Witnesses\<close>

lemma listing_text_fixed_witness:
  "fst (resource_filter (no_options\<lparr>lo_OrgID := ''acme'', lo_Q := ''it''\<rparr>))
     = fst (resource_filter (no_options\<lparr>lo_OrgID := ''x OR 1 = 1'', lo_Q := '' %''\<rparr>))
   \<and> length (snd (resource_filter (no_options\<lparr>lo_OrgID := ''acme'', lo_Q := ''it''\<rparr>))) = 4"
proof
  let ?a = "no_options\<lparr>lo_OrgID := ''acme'', lo_Q := ''it''\<rparr>" and ?b = "no_options\<lparr>lo_OrgID := ''x OR 1 = 1'', lo_Q := '' %''\<rparr>"
  have f: "resource_filter \<in> set list_filters" by (simp add: list_filters_def)
  have s: "same_shape ?a ?b" by code_simp
  show "fst (resource_filter ?a) = fst (resource_filter ?b)" using listing_text_fixed[OF f s] by blast
  show "length (snd (resource_filter ?a)) = 4" by code_simp
qed

definition grant_audit :: GrantAuditModel where
  "grant_audit = \<lparr>ga_ID = ''a1'', ga_OrgID = ''acme'', ga_GrantID = ''g1'', ga_Action = ''revoke'', ga_ResourceType = [],
     ga_ResourceID = [], ga_Relation = [], ga_SubjectType = [], ga_SubjectID = [], ga_SubjectRelation = [], ga_ActorType = [],
     ga_ActorID = [], ga_Reason = [], ga_MetadataJSON = [], ga_CreatedAt = 1\<rparr>"

lemma grant_change_atomic_witness:
  "set (snd (sql_RevokeGrant row_database ''g1'' ''acme'' 9 (Some grant_audit) [None, Some (sample_event ''e1'' [] [] 0)]
      [InGrants (sample_grant ''g1'' ''acme''), InGrants (sample_grant ''g2'' ''acme'')]))
   = {InGrants ((sample_grant ''g1'' ''acme'')\<lparr>gr_RevokedAt := Some 9\<rparr>), InGrants (sample_grant ''g2'' ''acme''),
      InAudits grant_audit, InEvents (sample_event ''e1'' [] [] 0)}"
proof -
  let ?g1 = "sample_grant ''g1'' ''acme''" and ?g2 = "sample_grant ''g2'' ''acme''" and ?ev = "sample_event ''e1'' [] [] 0"
  let ?d = "[InGrants ?g1, InGrants ?g2]" and ?evs = "[None, Some ?ev]"
  let ?run = "sql_RevokeGrant row_database ''g1'' ''acme'' 9 (Some grant_audit) ?evs ?d"
  have laws: "inserts set (dx_grants row_database) InGrants (\<lambda>r. r)" "inserts set (dx_audits row_database) InAudits (\<lambda>r. r)"
    "inserts set (dx_events row_database) InEvents (\<lambda>r. r)" "revokes set (dx_grants row_database)"
    by (simp_all only: row_fields grants_inserts row_inserts grants_revoke)
  have M: "{g. InGrants g \<in> set ?d \<and> gr_ID g = ''g1'' \<and> gr_OrgID g = ''acme'' \<and> gr_RevokedAt g = None} = {?g1}"
    by (auto simp: sample_grant_def)
  have ne: "?g2 \<noteq> ?g1" by (simp add: sample_grant_def)
  have ok: "\<not> isl (fst ?run)" by code_simp
  have evs: "{e. Some e \<in> set ?evs} = {?ev}" by auto
  note A = grant_change_atomic[OF row_transactions laws surjective_pairing surjective_pairing,
      where g = ?g1 and audit = "Some grant_audit" and evs = ?evs and d = ?d and ident = "''g1''" and org = "''acme''"
        and at = 9, unfolded Let_def M evs]
  have "set (snd ?run) = (set ?d - InGrants ` {?g1}) \<union> InGrants ` (\<lambda>g. g\<lparr>gr_RevokedAt := Some 9\<rparr>) ` {?g1}
      \<union> (InAudits ` (\<lambda>r. r) ` set_option (Some grant_audit) \<union> InEvents ` (\<lambda>r. r) ` {?ev})"
    using A ok by (simp only: if_False)
  then show ?thesis using ne by auto
qed

lemma role_permissions_survive_witness:
  "\<exists>r. fst (sql_GetRoleTemplate row_database ''r1''
      (snd (sql_SaveRoleTemplate row_database ((sample_role ''r1'' 1)\<lparr>ro_Permissions := [''view'', ''edit'', ''admin'']\<rparr>) None []
        [InPermissions (permission_row ''r1'' 0 ''old'')]))) = Inr r \<and> ro_Permissions r = [''view'', ''edit'', ''admin'']"
proof -
  let ?role = "(sample_role ''r1'' 1)\<lparr>ro_Permissions := [''view'', ''edit'', ''admin'']\<rparr>"
  let ?save = "sql_SaveRoleTemplate row_database ?role None [] [InPermissions (permission_row ''r1'' 0 ''old'')]"
  let ?read = "sql_GetRoleTemplate row_database ''r1'' (snd ?save)"
  have laws: "clears set (dx_rolePermissions row_database)" "inserts set (dx_rolePermissions row_database) InPermissions (\<lambda>r. r)"
    "reads_ordered set (dx_rolePermissions row_database)" "spares_permissions set (dx_roles row_database)"
    "inserts set (dx_roleAudits row_database) InRoleAudits (\<lambda>r. r)" "inserts set (dx_events row_database) InEvents (\<lambda>r. r)"
    by (simp_all only: row_fields permissions_clear permissions_inserts permissions_read roles_spare row_inserts)
  have "fst ?save = Inr ()" by code_simp
  then have save: "?save = (Inr (), snd ?save)" by (metis prod.collapse)
  have "\<not> isl (fst ?read)" by code_simp
  then obtain r where r: "?read = (Inr r, snd ?read)" by (metis prod.collapse sum.collapse(2))
  have i: "ro_ID ?role = ''r1''" by (simp add: sample_role_def)
  have "ro_Permissions r = ro_Permissions ?role"
    using role_permissions_survive[OF row_transactions laws disjI1[OF save], of r "snd ?read"] r i by simp
  then show ?thesis using r by (intro exI[of _ r]) (simp add: arg_cong[OF r, of fst, unfolded fst_conv])
qed

end
