(* ===== verification/OpenApiCheck.thy ===== *)
theory OpenApiCheck
  imports Prelude
begin

text \<open>
  The check of the published API contract (cmd/openapi-contract-check/main.go): a Swagger document is read,
  normalized, validated and written.  Values of \<open>map[string]any\<close> are trees without sharing, so that the
  assignments through nested maps are updates along a path.  The JSON codec, the quoting of \<open>%q\<close> and the
  file system are parameters.
\<close>

datatype any = ANil | ABool bool | ANumber string | AText string | AList "any list" | AMap "(string \<times> any) list"

type_synonym document = "any gomap"

record contract_options =
  co_input :: string
  co_output :: string
  co_title :: string
  co_version :: string

definition kernelErrorReference :: string where
  "kernelErrorReference = ''#/definitions/KernelErrorResponse''"

subsection \<open>Access\<close>

text \<open>\<open>x, _ := v.(map[string]any)\<close>: the nil map is the empty one for reading.\<close>

definition as_map :: "any option \<Rightarrow> document" where
  "as_map v = (case v of Some (AMap m) \<Rightarrow> m | _ \<Rightarrow> [])"

definition text_of :: "any option \<Rightarrow> string" where
  "text_of v = (case v of Some (AText s) \<Rightarrow> TrimSpace s | _ \<Rightarrow> [])"

definition operation_methods :: "string list" where
  "operation_methods = [''get'', ''put'', ''post'', ''delete'', ''patch'', ''head'', ''options'', ''trace'']"

definition operationMethod :: "string \<Rightarrow> bool" where
  "operationMethod v \<longleftrightarrow> ToLower v \<in> set operation_methods"

definition upper_ascii :: "char \<Rightarrow> char" where
  "upper_ascii c = (let n = (of_char c :: nat) in if 97 \<le> n \<and> n \<le> 122 then byte (n - 32) else c)"

definition ToUpper :: "string \<Rightarrow> string" where "ToUpper = map upper_ascii"

subsection \<open>Normalizing\<close>

definition object_update :: "document \<Rightarrow> string \<Rightarrow> (document \<Rightarrow> document) \<Rightarrow> document" where
  "object_update parent k f =
     (case get_key parent k of
        Some (AMap m) \<Rightarrow> put_key k (AMap (f m)) parent
      | _ \<Rightarrow> put_key k (AMap (f [])) parent)"

definition described :: "string \<Rightarrow> string \<Rightarrow> any" where
  "described ty d = AMap [(''type'', AText ty), (''description'', AText d)]"

definition kernel_error_definition :: any where
  "kernel_error_definition = AMap [
     (''type'', AText ''object''),
     (''required'', AList [AText ''code'', AText ''message'']),
     (''properties'', AMap [
        (''code'', described ''string'' ''Stable business error code.''),
        (''message'', described ''string'' ''Safe error message.''),
        (''request_id'', described ''string'' ''Request correlation identifier.''),
        (''trace_id'', described ''string'' ''Distributed trace identifier.''),
        (''metadata'', AMap [(''type'', AText ''object''), (''description'', AText ''Safe structured error metadata.''),
           (''additionalProperties'', AMap [])])])]"

text \<open>The visit of one operation: the default response, when there is one, refers to the error definition.\<close>

definition normalize_operation :: "document \<Rightarrow> document" where
  "normalize_operation operation =
     (case get_key operation ''responses'' of
        Some (AMap responses) \<Rightarrow>
          (case get_key responses ''default'' of
             Some (AMap default_response) \<Rightarrow>
               put_key ''responses'' (AMap (put_key ''default'' (AMap (put_key ''schema''
                 (AMap [(''$ref'', AText kernelErrorReference)]) default_response)) responses)) operation
           | _ \<Rightarrow> operation)
      | _ \<Rightarrow> operation)"

definition normalize_item :: "string \<times> any \<Rightarrow> string \<times> any" where
  "normalize_item x = (case x of (method, v) \<Rightarrow>
     (case v of AMap operation \<Rightarrow> if operationMethod method then (method, AMap (normalize_operation operation)) else x
      | _ \<Rightarrow> x))"

definition normalize_path :: "string \<times> any \<Rightarrow> string \<times> any" where
  "normalize_path x = (case x of (path, v) \<Rightarrow>
     (case v of AMap item \<Rightarrow> (path, AMap (map normalize_item item)) | _ \<Rightarrow> x))"

definition normalizeDocument :: "document \<Rightarrow> string \<Rightarrow> string \<Rightarrow> document" where
  "normalizeDocument document title version =
     (let d1 = object_update document ''info''
            (\<lambda>info. put_key ''version'' (AText (TrimSpace version)) (put_key ''title'' (AText (TrimSpace title)) info));
          d2 = object_update d1 ''definitions'' (put_key ''KernelErrorResponse'' kernel_error_definition)
      in case get_key d2 ''paths'' of
           Some (AMap paths) \<Rightarrow> put_key ''paths'' (AMap (map normalize_path paths)) d2
         | _ \<Rightarrow> d2)"

subsection \<open>Validating\<close>

text \<open>
  The operations in the order they are visited: the choices are the iteration orders of the map of paths
  and, per path, of its methods.
\<close>

definition path_operations :: "(string \<Rightarrow> nat \<Rightarrow> nat) \<Rightarrow> string \<times> any \<Rightarrow> (string \<times> string \<times> document) list" where
  "path_operations d x = (case x of (path, v) \<Rightarrow>
     concat (map (\<lambda>(method, v). case v of AMap operation \<Rightarrow> if operationMethod method then [(path, method, operation)] else []
                                | _ \<Rightarrow> []) (shuffle (d path) (as_map (Some v)))))"

definition forEachOperation ::
    "(nat \<Rightarrow> nat) \<Rightarrow> (string \<Rightarrow> nat \<Rightarrow> nat) \<Rightarrow> document \<Rightarrow> (string \<times> string \<times> document) list" where
  "forEachOperation c d document =
     concat (map (path_operations d) (shuffle c (as_map (get_key document ''paths''))))"

definition operation_key :: "string \<Rightarrow> string \<Rightarrow> string" where
  "operation_key path method = ToUpper method @ '' '' @ path"

definition default_reference :: "document \<Rightarrow> string" where
  "default_reference operation =
     text_of (get_key (as_map (get_key (as_map (get_key (as_map (get_key operation ''responses''))
       ''default'')) ''schema'')) ''$ref'')"

definition operation_problems :: "(string \<Rightarrow> string) \<Rightarrow> string \<Rightarrow> document \<Rightarrow> string list" where
  "operation_problems quote k operation =
     (if text_of (get_key operation ''operationId'') = [] then [k @ '' has no operationId''] else [])
     @ (case get_key operation ''tags'' of
          Some (AList tags) \<Rightarrow> if tags = [] then [k @ '' has no tags''] else []
        | _ \<Rightarrow> [k @ '' has no tags''])
     @ (if default_reference operation \<noteq> kernelErrorReference
        then [k @ '' default error ref = '' @ quote (default_reference operation)] else [])"

primrec visit_operations :: "(string \<Rightarrow> string) \<Rightarrow> string list \<Rightarrow> (string \<times> string \<times> document) list \<Rightarrow> string list" where
  "visit_operations quote seen [] = []"
| "visit_operations quote seen (x # xs) = (case x of (path, method, operation) \<Rightarrow>
     let k = operation_key path method in
     (if k \<in> set seen then [''duplicate operation '' @ k] else [])
     @ operation_problems quote k operation @ visit_operations quote (k # seen) xs)"

definition error_fields :: "string list" where
  "error_fields = [''code'', ''message'', ''request_id'', ''trace_id'', ''metadata'']"

definition document_problems ::
    "(nat \<Rightarrow> nat) \<Rightarrow> (string \<Rightarrow> nat \<Rightarrow> nat) \<Rightarrow> (string \<Rightarrow> string) \<Rightarrow> document \<Rightarrow> string \<Rightarrow> string list" where
  "document_problems c d quote document expectedTitle =
     (let info = as_map (get_key document ''info'');
          title = text_of (get_key info ''title''); version = text_of (get_key info ''version'');
          properties = as_map (get_key (as_map (get_key (as_map (get_key document ''definitions''))
            ''KernelErrorResponse'')) ''properties'')
      in (if title \<noteq> expectedTitle then [''info.title = '' @ quote title @ '', want '' @ quote expectedTitle] else [])
         @ (if version = [] \<or> version = ''version not set'' then [''info.version must be set, got '' @ quote version] else [])
         @ visit_operations quote [] (forEachOperation c d document)
         @ map (\<lambda>f. ''KernelErrorResponse has no '' @ f @ '' field'')
             (filter (\<lambda>f. get_key properties f = None) error_fields))"

definition validateDocument ::
    "(nat \<Rightarrow> nat) \<Rightarrow> (string \<Rightarrow> nat \<Rightarrow> nat) \<Rightarrow> (string \<Rightarrow> string) \<Rightarrow> document \<Rightarrow> string \<Rightarrow> err + unit" where
  "validateDocument c d quote document expectedTitle =
     (let problems = document_problems c d quote document expectedTitle in
      if problems = [] then Inr () else Inl (ErrNew (Join (sort problems) [CHR 0x0A])))"

subsection \<open>The command\<close>

definition decodeDocument ::
    "(string \<Rightarrow> err + document option) \<Rightarrow> (string \<Rightarrow> string) \<Rightarrow> string \<Rightarrow> err + document" where
  "decodeDocument unmarshal quote raw =
     (case unmarshal raw of
        Inl er \<Rightarrow> Inl (ErrNew (''decode Swagger JSON: '' @ err_text er))
      | Inr None \<Rightarrow> Inl (ErrNew ''Swagger document is empty'')
      | Inr (Some document) \<Rightarrow>
          let swagger = (case get_key document ''swagger'' of Some (AText s) \<Rightarrow> s | _ \<Rightarrow> []) in
          if swagger \<noteq> ''2.0'' then Inl (ErrNew (''swagger = '' @ quote swagger @ '', want '' @ quote ''2.0''))
          else Inr document)"

record 'w contract_io =
  ci_read :: "string \<Rightarrow> err + string"
  ci_unmarshal :: "string \<Rightarrow> err + document option"
  ci_marshal :: "document \<Rightarrow> err + string"
  ci_write :: "string \<Rightarrow> string \<Rightarrow> 'w \<Rightarrow> (err + unit) \<times> 'w"
  ci_quote :: "string \<Rightarrow> string"

definition marshalDocument :: "'w contract_io \<Rightarrow> document \<Rightarrow> err + string" where
  "marshalDocument io document =
     (case ci_marshal io document of
        Inl er \<Rightarrow> Inl (ErrNew (''encode normalized Swagger JSON: '' @ err_text er))
      | Inr body \<Rightarrow> Inr (body @ [CHR 0x0A]))"

definition run_contract_check ::
    "(nat \<Rightarrow> nat) \<Rightarrow> (string \<Rightarrow> nat \<Rightarrow> nat) \<Rightarrow> 'w contract_io \<Rightarrow> contract_options \<Rightarrow> 'w \<Rightarrow> (err + unit) \<times> 'w" where
  "run_contract_check c d io opts w =
     (if TrimSpace (co_input opts) = [] then (Inl (ErrNew ''--input is required''), w)
      else if TrimSpace (co_output opts) = [] then (Inl (ErrNew ''--output is required''), w)
      else if TrimSpace (co_title opts) = [] then (Inl (ErrNew ''--title is required''), w)
      else if TrimSpace (co_version opts) = [] then (Inl (ErrNew ''--version is required''), w)
      else case ci_read io (co_input opts) of
        Inl er \<Rightarrow> (Inl (ErrNew (''read '' @ co_input opts @ '': '' @ err_text er)), w)
      | Inr raw \<Rightarrow>
      (case decodeDocument (ci_unmarshal io) (ci_quote io) raw of
        Inl er \<Rightarrow> (Inl er, w)
      | Inr decoded \<Rightarrow>
        let document = normalizeDocument decoded (co_title opts) (co_version opts) in
        (case validateDocument c d (ci_quote io) document (co_title opts) of
          Inl er \<Rightarrow> (Inl er, w)
        | Inr _ \<Rightarrow>
          (case marshalDocument io document of
            Inl er \<Rightarrow> (Inl er, w)
          | Inr normalized \<Rightarrow>
            (case ci_write io (co_output opts) normalized w of
              (Inl er, w) \<Rightarrow> (Inl (ErrNew (''write '' @ co_output opts @ '': '' @ err_text er)), w)
            | (Inr _, w) \<Rightarrow> (Inr (), w))))))"

end
