(* ===== verification/OpenApiLaws.thy ===== *)
theory OpenApiLaws
  imports OpenApiCheck
begin

text \<open>
  Laws of the contract check: what a document must have so that the normalized document is accepted and written.
\<close>

lemma shuffle_map: "shuffle c (map f xs) = map f (shuffle c xs)"
  by (induction xs) (simp_all add: Let_def take_map drop_map)

lemma reference_trimmed: "TrimSpace kernelErrorReference = kernelErrorReference"
  by (simp add: kernelErrorReference_def TrimSpace_visible visible_def)

lemma get_update [simp]:
  "get_key (put_key k v m) i = (if i = k then Some v else get_key m i)"
  by (simp add: update_conv')

lemma as_map_simps [simp]: "as_map (Some (AMap m)) = m" "as_map None = []"
  by (simp_all add: as_map_def)

lemma get_object_update:
  "get_key (object_update parent k f) i =
    (if i = k then Some (AMap (f (as_map (get_key parent k)))) else get_key parent i)"
  by (auto simp: object_update_def as_map_def split: option.splits any.splits)

subsection \<open>The operations of a normalized document\<close>

definition normalized_at :: "string \<times> string \<times> document \<Rightarrow> string \<times> string \<times> document" where
  "normalized_at x = (case x of (path, method, operation) \<Rightarrow> (path, method, normalize_operation operation))"

lemma normalize_item_any:
  "normalize_item (m, v) = (m, case v of AMap operation \<Rightarrow> if operationMethod m then AMap (normalize_operation operation) else v | _ \<Rightarrow> v)"
  by (simp add: normalize_item_def split: any.split)

lemma path_operations_normalized: "path_operations d (normalize_path x) = map normalized_at (path_operations d x)"
proof (cases x)
  case (Pair path v)
  let ?op = "\<lambda>(method, v). case v of AMap operation \<Rightarrow> if operationMethod method then [(path, method, operation)] else [] | _ \<Rightarrow> []"
  have one: "?op (normalize_item y) = map normalized_at (?op y)" for y
    by (cases y) (simp add: normalize_item_any normalized_at_def split: any.split)
  show ?thesis
  proof (cases v)
    case (AMap item)
    have "path_operations d (normalize_path x) = concat (map ?op (map normalize_item (shuffle (d path) item)))"
      using Pair AMap by (simp add: path_operations_def normalize_path_def shuffle_map)
    also have "\<dots> = map normalized_at (concat (map ?op (shuffle (d path) item)))"
      by (simp add: map_concat o_def one)
    finally show ?thesis using Pair AMap by (simp add: path_operations_def)
  qed (use Pair in \<open>simp_all add: path_operations_def normalize_path_def as_map_def\<close>)
qed

lemma normalized_entries:
  "get_key (normalizeDocument document title version) ''paths'' = (case get_key document ''paths'' of
     Some (AMap paths) \<Rightarrow> Some (AMap (map normalize_path paths)) | v \<Rightarrow> v)"
  "get_key (normalizeDocument document title version) ''info'' = Some (AMap
     (put_key ''version'' (AText (TrimSpace version)) (put_key ''title'' (AText (TrimSpace title)) (as_map (get_key document ''info'')))))"
  "get_key (normalizeDocument document title version) ''definitions'' = Some (AMap
     (put_key ''KernelErrorResponse'' kernel_error_definition (as_map (get_key document ''definitions''))))"
  by (auto simp: normalizeDocument_def Let_def get_object_update split: option.split any.split)

lemma operations_normalized:
  "forEachOperation c d (normalizeDocument document title version) = map normalized_at (forEachOperation c d document)"
proof -
  have "as_map (get_key (normalizeDocument document title version) ''paths'')
      = map normalize_path (as_map (get_key document ''paths''))"
    by (simp add: normalized_entries as_map_def split: option.split any.split)
  then show ?thesis
    by (simp add: forEachOperation_def shuffle_map map_concat o_def path_operations_normalized)
qed

subsection \<open>Problems\<close>

text \<open>What an operation must have: an identifier, tags, and a default response.\<close>

definition complete_operation :: "document \<Rightarrow> bool" where
  "complete_operation operation \<longleftrightarrow> text_of (get_key operation ''operationId'') \<noteq> []
     \<and> (\<exists>t ts. get_key operation ''tags'' = Some (AList (t # ts)))
     \<and> (\<exists>responses r. get_key operation ''responses'' = Some (AMap responses) \<and> get_key responses ''default'' = Some (AMap r))"

lemma as_map_cases: "as_map v = [] \<or> (\<exists>m. v = Some (AMap m))"
  by (simp add: as_map_def split: option.split any.split)

lemma default_reference_normalized:
  "default_reference (normalize_operation operation) = kernelErrorReference \<longleftrightarrow>
    (\<exists>responses r. get_key operation ''responses'' = Some (AMap responses) \<and> get_key responses ''default'' = Some (AMap r))"
proof (cases "\<exists>responses r. get_key operation ''responses'' = Some (AMap responses) \<and> get_key responses ''default'' = Some (AMap r)")
  case True
  then obtain responses r where r: "get_key operation ''responses'' = Some (AMap responses)" "get_key responses ''default'' = Some (AMap r)"
    by blast
  have "default_reference (normalize_operation operation) = text_of (Some (AText kernelErrorReference))"
    by (simp add: default_reference_def normalize_operation_def r)
  then show ?thesis using True by (simp add: text_of_def reference_trimmed)
next
  case False
  have same: "normalize_operation operation = operation"
    unfolding normalize_operation_def using False by (auto split: option.split any.split)
  have "as_map (get_key (as_map (get_key operation ''responses'')) ''default'') = []"
    using False as_map_cases[of "get_key operation ''responses''"]
      as_map_cases[of "get_key (as_map (get_key operation ''responses'')) ''default''"] by fastforce
  then have "default_reference (normalize_operation operation) = []"
    by (simp add: default_reference_def same text_of_def)
  then show ?thesis using False by (simp add: kernelErrorReference_def)
qed

lemma other_entries: "i \<noteq> ''responses'' \<Longrightarrow> get_key (normalize_operation operation) i = get_key operation i"
  by (auto simp: normalize_operation_def split: option.split any.split)

lemma no_operation_problems:
  "operation_problems quote k (normalize_operation operation) = [] \<longleftrightarrow> complete_operation operation"
  by (auto simp: operation_problems_def complete_operation_def other_entries default_reference_normalized neq_Nil_conv
      split: option.splits any.splits)

definition operation_name :: "string \<times> string \<times> document \<Rightarrow> string" where
  "operation_name x = operation_key (fst x) (fst (snd x))"

lemma no_visit_problems:
  "visit_operations quote seen xs = [] \<longleftrightarrow> (\<forall>x \<in> set xs. operation_problems quote (operation_name x) (snd (snd x)) = [])
     \<and> distinct (map operation_name xs) \<and> set seen \<inter> set (map operation_name xs) = {}"
proof (induction xs arbitrary: seen)
  case (Cons x xs)
  have "visit_operations quote seen (x # xs) = [] \<longleftrightarrow> operation_name x \<notin> set seen
      \<and> operation_problems quote (operation_name x) (snd (snd x)) = [] \<and> visit_operations quote (operation_name x # seen) xs = []"
    by (cases x) (simp add: operation_name_def Let_def)
  then show ?case unfolding Cons.IH by auto
qed simp

lemma normalized_name [simp]: "operation_name (normalized_at x) = operation_name x" "snd (snd (normalized_at x)) = normalize_operation (snd (snd x))"
  by (auto simp: operation_name_def normalized_at_def split: prod.split)

lemma error_fields_present:
  "\<forall>f \<in> set error_fields. get_key (as_map (get_key (as_map (Some kernel_error_definition)) ''properties'')) f \<noteq> None"
  by (simp add: kernel_error_definition_def error_fields_def)

definition contract_complete ::
    "(nat \<Rightarrow> nat) \<Rightarrow> (string \<Rightarrow> nat \<Rightarrow> nat) \<Rightarrow> document \<Rightarrow> string \<Rightarrow> string \<Rightarrow> bool" where
  "contract_complete c d document title version \<longleftrightarrow> TrimSpace title = title
     \<and> TrimSpace version \<notin> {[], ''version not set''}
     \<and> (\<forall>x \<in> set (forEachOperation c d document). complete_operation (snd (snd x)))
     \<and> distinct (map operation_name (forEachOperation c d document))"

lemma normalized_accepted_iff:
  "validateDocument c d quote (normalizeDocument document title version) title = Inr ()
    \<longleftrightarrow> contract_complete c d document title version"
proof -
  have fields: "filter (\<lambda>f. get_key (as_map (get_key (as_map (get_key (as_map (get_key
      (normalizeDocument document title version) ''definitions'')) ''KernelErrorResponse'')) ''properties'')) f = None) error_fields = []"
    using error_fields_present by (auto simp: normalized_entries filter_empty_conv)
  have ops: "visit_operations quote [] (forEachOperation c d (normalizeDocument document title version)) = []
      \<longleftrightarrow> (\<forall>x \<in> set (forEachOperation c d document). complete_operation (snd (snd x)))
        \<and> distinct (map operation_name (forEachOperation c d document))"
    by (simp add: operations_normalized no_visit_problems no_operation_problems o_def)
  show ?thesis
    unfolding validateDocument_def document_problems_def Let_def contract_complete_def fields
    by (auto simp: ops normalized_entries text_of_def)
qed

text \<open>C38. The check writes a contract exactly when the decoded document is complete: every operation has an
  identifier, tags and a default response, no operation occurs twice, the version is set and the title
  is given without surrounding white space; what it writes is the normalized document, and an
  incomplete contract leaves the output alone.\<close>

theorem contract_written_iff:
  assumes given: "TrimSpace (co_input opts) \<noteq> []" "TrimSpace (co_output opts) \<noteq> []" "TrimSpace (co_title opts) \<noteq> []"
      "TrimSpace (co_version opts) \<noteq> []"
    and doc: "ci_read io (co_input opts) = Inr raw" "ci_unmarshal io raw = Inr (Some document)"
      "get_key document ''swagger'' = Some (AText ''2.0'')"
    and enc: "ci_marshal io (normalizeDocument document (co_title opts) (co_version opts)) = Inr body"
  shows "if contract_complete c d document (co_title opts) (co_version opts)
    then run_contract_check c d io opts w = (case ci_write io (co_output opts) (body @ [CHR 0x0A]) w of
        (Inl er, w') \<Rightarrow> (Inl (ErrNew (''write '' @ co_output opts @ '': '' @ err_text er)), w')
      | (Inr _, w') \<Rightarrow> (Inr (), w'))
    else \<exists>er. run_contract_check c d io opts w = (Inl er, w)"
proof -
  let ?n = "normalizeDocument document (co_title opts) (co_version opts)"
  have dec: "decodeDocument (ci_unmarshal io) (ci_quote io) raw = Inr document"
    using doc by (simp add: decodeDocument_def)
  have mar: "marshalDocument io ?n = Inr (body @ [CHR 0x0A])" using enc by (simp add: marshalDocument_def)
  show ?thesis
  proof (cases "validateDocument c d (ci_quote io) ?n (co_title opts)")
    case (Inl er)
    then have "\<not> contract_complete c d document (co_title opts) (co_version opts)"
      using normalized_accepted_iff[of c d "ci_quote io" document] by force
    then show ?thesis using given doc dec Inl by (simp add: run_contract_check_def Let_def)
  next
    case (Inr u)
    then have "contract_complete c d document (co_title opts) (co_version opts)"
      using normalized_accepted_iff[of c d "ci_quote io" document] by force
    then show ?thesis using given doc dec Inr mar by (simp add: run_contract_check_def Let_def)
  qed
qed

subsection \<open>A contract that passes\<close>

definition sample_document :: "any \<Rightarrow> document" where
  "sample_document tags = [(''swagger'', AText ''2.0''),
     (''paths'', AMap [(''/v1/projects'', AMap [(''get'', AMap [(''operationId'', AText ''ListProjects''), (''tags'', tags),
        (''responses'', AMap [(''default'', AMap [])])])])])]"

definition sample_contract :: "any \<Rightarrow> (string \<times> string) list contract_io" where
  "sample_contract tags = \<lparr>ci_read = (\<lambda>_. Inr []), ci_unmarshal = (\<lambda>_. Inr (Some (sample_document tags))),
     ci_marshal = (\<lambda>_. Inr ''{}''), ci_write = (\<lambda>p b w. (Inr (), (p, b) # w)), ci_quote = (\<lambda>s. s)\<rparr>"

definition contract_flags :: contract_options where
  "contract_flags = \<lparr>co_input = ''in'', co_output = ''out'', co_title = ''IAM'', co_version = ''1''\<rparr>"

lemma contract_written_iff_witness:
  "run_contract_check (\<lambda>_. 0) (\<lambda>_ _. 0) (sample_contract (AList [AText ''Project''])) contract_flags []
     = (Inr (), [(''out'', ''{}'' @ [CHR 0x0A])])
   \<and> (\<exists>er. run_contract_check (\<lambda>_. 0) (\<lambda>_ _. 0) (sample_contract ANil) contract_flags [] = (Inl er, []))"
proof -
  have given: "TrimSpace (co_input contract_flags) \<noteq> []" "TrimSpace (co_output contract_flags) \<noteq> []"
    "TrimSpace (co_title contract_flags) \<noteq> []" "TrimSpace (co_version contract_flags) \<noteq> []" by code_simp+
  have doc: "ci_read (sample_contract tags) (co_input contract_flags) = Inr []"
    "ci_unmarshal (sample_contract tags) [] = Inr (Some (sample_document tags))"
    "get_key (sample_document tags) ''swagger'' = Some (AText ''2.0'')"
    "ci_marshal (sample_contract tags) (normalizeDocument (sample_document tags) (co_title contract_flags) (co_version contract_flags))
      = Inr ''{}''" for tags
    by (simp_all add: sample_contract_def sample_document_def)
  have out_file: "ci_write (sample_contract tags) p b w = (Inr (), (p, b) # w)" for tags p b w
    by (simp add: sample_contract_def)
  let ?operation = "\<lambda>tags. [(''operationId'', AText ''ListProjects''), (''tags'', tags), (''responses'', AMap [(''default'', AMap [])])]"
  have ops: "forEachOperation (\<lambda>_. 0) (\<lambda>_ _. 0) (sample_document tags) = [(''/v1/projects'', ''get'', ?operation tags)]" for tags
    by code_simp
  have texts: "TrimSpace ''ListProjects'' = ''ListProjects''" "TrimSpace ''IAM'' = ''IAM''" "TrimSpace ''1'' = ''1''" by code_simp+
  have yes: "contract_complete (\<lambda>_. 0) (\<lambda>_ _. 0) (sample_document (AList [AText ''Project'']))
      (co_title contract_flags) (co_version contract_flags)"
    by (simp add: contract_complete_def complete_operation_def ops texts contract_flags_def text_of_def)
  have no: "\<not> contract_complete (\<lambda>_. 0) (\<lambda>_ _. 0) (sample_document ANil) (co_title contract_flags) (co_version contract_flags)"
    by (simp add: contract_complete_def complete_operation_def ops)
  have out: "co_output contract_flags = ''out''" by (simp add: contract_flags_def)
  have "run_contract_check (\<lambda>_. 0) (\<lambda>_ _. 0) (sample_contract (AList [AText ''Project''])) contract_flags []
     = (Inr (), [(''out'', ''{}'' @ [CHR 0x0A])])"
    using contract_written_iff[OF given doc, of "\<lambda>_. 0" "\<lambda>_ _. 0" "AList [AText ''Project'']" "[]"] yes
    by (simp only: if_True out_file prod.case sum.case out)
  moreover have "\<exists>er. run_contract_check (\<lambda>_. 0) (\<lambda>_ _. 0) (sample_contract ANil) contract_flags [] = (Inl er, [])"
    using contract_written_iff[OF given doc, of "\<lambda>_. 0" "\<lambda>_ _. 0" ANil "[]"] no by (simp only: if_False)
  ultimately show ?thesis by (rule conjI)
qed

end
