(* ===== verification/CasdoorTokens.thy ===== *)
theory CasdoorTokens
  imports GroupLaws
begin

text \<open>
  The token service over Casdoor (internal/data/casdoor\_clock\_skew.go): tokens are parsed with a clock that is a
  minute ahead, and their claims become the principal.

  Parameters are the JWT parser of the Casdoor SDK at the instant that \<open>jwt.TimeFunc\<close> gives it,
  the clock, the kernel's constants, and its \<open>Normalize\<close>, which here also fills \<open>ap_Authenticated\<close>, the result of
  \<open>IsAuthenticated\<close>.  The attributes of the principal, which no service reads, are left out.
\<close>

record CasdoorClaims =
  cc_Id :: string
  cc_ExternalId :: string
  cc_Subject :: string
  cc_Name :: string
  cc_Owner :: string
  cc_DisplayName :: string
  cc_Issuer :: string
  cc_Audience :: "string list"
  cc_Email :: string
  cc_Phone :: string
  cc_Roles :: "string option list"
  cc_Groups :: "string list"
  cc_IssuedAt :: "gotime option"
  cc_NotBefore :: "gotime option"
  cc_ExpiresAt :: "gotime option"

definition casdoorTokenClockLeeway :: gotime where
  "casdoorTokenClockLeeway = minute"

text \<open>Unlike its namesakes, this one does not trim.\<close>

primrec cas_firstNonEmpty :: "string list \<Rightarrow> string" where
  "cas_firstNonEmpty [] = []"
| "cas_firstNonEmpty (v # vs) = (if v \<noteq> [] then v else cas_firstNonEmpty vs)"

text \<open>The roles are their names; a nil role is \<open>None\<close>.\<close>

definition casdoorRoleNames :: "string option list \<Rightarrow> string list" where
  "casdoorRoleNames rs = filter (\<lambda>n. n \<noteq> []) (List.map_filter id rs)"

record 'w casdoor_env =
  ce_parse :: "string \<Rightarrow> gotime \<Rightarrow> err + CasdoorClaims option"
  ce_now :: "'w \<Rightarrow> gotime \<times> 'w"
  ce_normalize :: "AuthnPrincipal \<Rightarrow> AuthnPrincipal"
  ce_anonymous :: AuthnPrincipal
  ce_canceled :: "err option"
  ce_user_type :: string
  ce_provider :: string
  ce_method :: string

definition principalFromCasdoorClaims ::
    "'w casdoor_env \<Rightarrow> CasdoorClaims option \<Rightarrow> string \<Rightarrow> string \<Rightarrow> AuthnPrincipal" where
  "principalFromCasdoorClaims ce claims orgID appID =
     (case claims of
        None \<Rightarrow> ce_anonymous ce
      | Some cl \<Rightarrow> ce_normalize ce \<lparr>
          ap_Authenticated = False, ap_SubjectType = ce_user_type ce,
          ap_SubjectID = cas_firstNonEmpty [cc_Id cl, cc_ExternalId cl, cc_Subject cl, cc_Name cl],
          ap_OrgID = cas_firstNonEmpty [orgID, cc_Owner cl],
          ap_Provider = ce_provider ce, ap_ExternalID = cc_Owner cl @ ''/'' @ cc_Name cl, ap_Issuer = cc_Issuer cl,
          ap_Audience = cc_Audience cl, ap_TenantID = [], ap_AppID = appID, ap_ProjectID = [],
          ap_Username = cc_Name cl, ap_Name = cas_firstNonEmpty [cc_DisplayName cl, cc_Name cl],
          ap_Email = cc_Email cl, ap_Phone = cc_Phone cl, ap_Roles = casdoorRoleNames (cc_Roles cl),
          ap_Groups = cc_Groups cl, ap_Scopes = [], ap_AuthMethod = ce_method ce,
          ap_IssuedAt = (case cc_IssuedAt cl of None \<Rightarrow> zero_time | Some t \<Rightarrow> t),
          ap_ExpiresAt = (case cc_ExpiresAt cl of None \<Rightarrow> zero_time | Some t \<Rightarrow> t)\<rparr>)"

definition parseJwtTokenWithLeeway :: "'w casdoor_env \<Rightarrow> string \<Rightarrow> 'w \<Rightarrow> (err + CasdoorClaims option) \<times> 'w" where
  "parseJwtTokenWithLeeway ce token w =
     (case ce_now ce w of (t, w) \<Rightarrow> (ce_parse ce token (t + casdoorTokenClockLeeway), w))"

definition principalFromAccessToken ::
    "'w casdoor_env \<Rightarrow> string \<Rightarrow> string \<Rightarrow> string \<Rightarrow> 'w \<Rightarrow> (err + AuthnPrincipal) \<times> 'w" where
  "principalFromAccessToken ce token orgID appID w =
     (case ce_canceled ce of
        Some er \<Rightarrow> (Inl er, w)
      | None \<Rightarrow>
          (case parseJwtTokenWithLeeway ce token w of
             (Inl er, w) \<Rightarrow> (Inl (ErrInvalidCredential ''invalid casdoor token''), w)
           | (Inr claims, w) \<Rightarrow>
               let p = principalFromCasdoorClaims ce claims orgID appID in
               if \<not> ap_Authenticated p
               then (Inl (ErrUnauthenticated ''casdoor token has no authenticated subject''), w)
               else (Inr p, w)))"

definition cas_VerifyToken :: "'w casdoor_env \<Rightarrow> 'w token_service" where
  "cas_VerifyToken ce req w =
     (if TrimSpace (vt_Token req) = [] then (Inl (ErrMissingCredential ''token is required''), w)
      else principalFromAccessToken ce (vt_Token req) (vt_OrgID req) (vt_AppID req) w)"

subsection \<open>Exchanging a code\<close>

text \<open>
  The values that \<open>token.Extra\<close> finds: a text, something that prints itself, or another value; \<open>None\<close> is nil.
  The copies of the two values in \<open>Raw\<close> are left out.
\<close>

datatype extra = ExtraText string | ExtraStringer string | ExtraOther

record OAuthToken =
  ot_AccessToken :: string
  ot_RefreshToken :: string
  ot_TokenType :: string
  ot_Expiry :: gotime
  ot_Extra :: "string \<Rightarrow> extra option"

record TokenSet =
  ts_AccessToken :: string
  ts_RefreshToken :: string
  ts_IDToken :: string
  ts_TokenType :: string
  ts_Scope :: string
  ts_ExpiresAt :: gotime

definition no_tokens :: TokenSet where
  "no_tokens = \<lparr>ts_AccessToken = [], ts_RefreshToken = [], ts_IDToken = [], ts_TokenType = [],
     ts_Scope = [], ts_ExpiresAt = zero_time\<rparr>"

definition stringFromOAuthExtra :: "extra option \<Rightarrow> string" where
  "stringFromOAuthExtra v =
     (case v of Some (ExtraText x) \<Rightarrow> x | Some (ExtraStringer x) \<Rightarrow> x | _ \<Rightarrow> [])"

definition tokenSetFromOAuth :: "OAuthToken option \<Rightarrow> TokenSet" where
  "tokenSetFromOAuth token =
     (case token of
        None \<Rightarrow> no_tokens
      | Some t \<Rightarrow> \<lparr>ts_AccessToken = ot_AccessToken t, ts_RefreshToken = ot_RefreshToken t,
          ts_IDToken = stringFromOAuthExtra (ot_Extra t ''id_token''),
          ts_TokenType = (if ot_TokenType t = [] then ''Bearer'' else ot_TokenType t),
          ts_Scope = stringFromOAuthExtra (ot_Extra t ''scope''), ts_ExpiresAt = ot_Expiry t\<rparr>)"

text \<open>
  The request of a code exchange, the configuration of the provider, and the configuration handed to the OAuth
  library, whose \<open>Exchange\<close> is the parameter; the style \<open>AuthStyleInParams\<close>, the HTTP client and the log line of a
  failure are left out.
\<close>

record AuthCodeExchangeRequest =
  ax_Code :: string
  ax_RedirectURI :: string
  ax_CodeVerifier :: string
  ax_OrgID :: string
  ax_AppID :: string

record CasdoorConfig =
  ccf_Endpoint :: string
  ccf_ClientID :: string
  ccf_ClientSecret :: string

record OAuthConfig =
  oc_ClientID :: string
  oc_ClientSecret :: string
  oc_RedirectURL :: string
  oc_AuthURL :: string
  oc_TokenURL :: string

type_synonym 'w code_exchange = "OAuthConfig \<Rightarrow> string \<Rightarrow> (string \<times> string) list \<Rightarrow> 'w \<Rightarrow> (err + OAuthToken) \<times> 'w"

definition exchange_config :: "CasdoorConfig \<Rightarrow> AuthCodeExchangeRequest \<Rightarrow> OAuthConfig" where
  "exchange_config cfg req =
     (let endpoint = trim_back [''/''] (TrimSpace (ccf_Endpoint cfg)) in
      \<lparr>oc_ClientID = ccf_ClientID cfg, oc_ClientSecret = ccf_ClientSecret cfg,
       oc_RedirectURL = TrimSpace (ax_RedirectURI req),
       oc_AuthURL = endpoint @ ''/api/login/oauth/authorize'',
       oc_TokenURL = endpoint @ ''/api/login/oauth/access_token''\<rparr>)"

definition exchange_options :: "AuthCodeExchangeRequest \<Rightarrow> (string \<times> string) list" where
  "exchange_options req =
     (let verifier = TrimSpace (ax_CodeVerifier req) in
      if verifier \<noteq> [] then [(''code_verifier'', verifier)] else [])"

definition ExchangeCode ::
    "'w casdoor_env \<Rightarrow> CasdoorConfig \<Rightarrow> 'w code_exchange \<Rightarrow> AuthCodeExchangeRequest \<Rightarrow> 'w
     \<Rightarrow> (err + TokenSet \<times> AuthnPrincipal) \<times> 'w" where
  "ExchangeCode ce cfg exchange req w =
     (if TrimSpace (ax_Code req) = []
      then (Inl (ErrInvalidTokenRequest ''authorization code is required''), w)
      else case exchange (exchange_config cfg req) (ax_Code req) (exchange_options req) w of
        (Inl er, w) \<Rightarrow> (Inl (ErrIdentityBackendFailed (''casdoor code exchange failed: '' @ err_text er)), w)
      | (Inr token, w) \<Rightarrow>
          (case principalFromAccessToken ce (ot_AccessToken token) (ax_OrgID req) (ax_AppID req) w of
             (Inl er, w) \<Rightarrow> (Inl er, w)
           | (Inr pn, w) \<Rightarrow> (Inr (tokenSetFromOAuth (Some token), pn), w)))"

end
