(* ===== verification/CasdoorLaws.thy ===== *)
theory CasdoorLaws
  imports CasdoorTokens
begin

text \<open>
  Which tokens the service accepts.  The parser of the SDK is described by the claims a token vouches for, if its
  signature is good, and by the JWT time window at the instant it is handed; the laws read that window at the
  instant of the call.
\<close>

definition in_window :: "CasdoorClaims \<Rightarrow> gotime \<Rightarrow> bool" where
  "in_window cl t \<longleftrightarrow>
     (case cc_IssuedAt cl of None \<Rightarrow> True | Some i \<Rightarrow> i \<le> t)
     \<and> (case cc_NotBefore cl of None \<Rightarrow> True | Some n \<Rightarrow> n \<le> t)
     \<and> (case cc_ExpiresAt cl of None \<Rightarrow> True | Some x \<Rightarrow> t < x)"

definition jwt_parser :: "(string \<Rightarrow> CasdoorClaims option) \<Rightarrow> (string \<Rightarrow> gotime \<Rightarrow> err + CasdoorClaims option) \<Rightarrow> bool" where
  "jwt_parser vouched parse \<longleftrightarrow>
     (\<forall>token t. case vouched token of
        None \<Rightarrow> isl (parse token t)
      | Some cl \<Rightarrow> if in_window cl t then parse token t = Inr (Some cl) else isl (parse token t))"

lemma jwt_parser_Inr:
  assumes "jwt_parser vouched parse"
  shows "parse token t = Inr c \<longleftrightarrow> (\<exists>cl. c = Some cl \<and> vouched token = Some cl \<and> in_window cl t)"
proof -
  have *: "case vouched token of None \<Rightarrow> isl (parse token t)
      | Some cl \<Rightarrow> if in_window cl t then parse token t = Inr (Some cl) else isl (parse token t)"
    using assms by (simp add: jwt_parser_def)
  show ?thesis
  proof (cases "vouched token")
    case None
    with * show ?thesis by (cases "parse token t") auto
  next
    case (Some cl)
    with * show ?thesis by (cases "in_window cl t"; cases "parse token t") auto
  qed
qed

text \<open>The window of a call at \<open>t\<close>: a minute more for the start of the token, a minute less for its end.\<close>

definition accepted_at :: "CasdoorClaims \<Rightarrow> gotime \<Rightarrow> bool" where
  "accepted_at cl t \<longleftrightarrow>
     (case cc_IssuedAt cl of None \<Rightarrow> True | Some i \<Rightarrow> i - minute \<le> t)
     \<and> (case cc_NotBefore cl of None \<Rightarrow> True | Some n \<Rightarrow> n - minute \<le> t)
     \<and> (case cc_ExpiresAt cl of None \<Rightarrow> True | Some x \<Rightarrow> t < x - minute)"

lemma shifted_window: "in_window cl (t + casdoorTokenClockLeeway) \<longleftrightarrow> accepted_at cl t"
  by (auto simp: in_window_def accepted_at_def casdoorTokenClockLeeway_def algebra_simps split: option.splits)

lemma parse_Inr:
  assumes "jwt_parser vouched (ce_parse ce)" and "ce_now ce w = (t, w')"
  shows "fst (parseJwtTokenWithLeeway ce token w) = Inr c
    \<longleftrightarrow> (\<exists>cl. c = Some cl \<and> vouched token = Some cl \<and> accepted_at cl t)"
  by (simp add: parseJwtTokenWithLeeway_def assms(2) jwt_parser_Inr[OF assms(1)] shifted_window)

lemma principal_Inr:
  "fst (principalFromAccessToken ce token org app w) = Inr p
   \<longleftrightarrow> ce_canceled ce = None \<and> (\<exists>c. fst (parseJwtTokenWithLeeway ce token w) = Inr c
      \<and> p = principalFromCasdoorClaims ce c org app \<and> ap_Authenticated p)"
proof (cases "ce_canceled ce")
  case (Some er)
  then show ?thesis by (simp add: principalFromAccessToken_def)
next
  case None
  show ?thesis
  proof (cases "parseJwtTokenWithLeeway ce token w")
    case (Pair r w')
    with None show ?thesis by (cases r) (auto simp: principalFromAccessToken_def Let_def)
  qed
qed

text \<open>C25. Verifying a token at the instant t gives the principal p exactly when the request names a token, the call
  is not cancelled, the token is signed, it was issued and became valid at most a minute after t, it expires more
  than a minute after t, and p is the principal of its claims and counts as authenticated: the leeway admits
  tokens of an issuer whose clock is ahead and refuses every token in its last minute.
\<close>

theorem token_verified_iff:
  assumes "jwt_parser vouched (ce_parse ce)" and "ce_now ce w = (t, w')"
  shows "fst (cas_VerifyToken ce req w) = Inr p
    \<longleftrightarrow> TrimSpace (vt_Token req) \<noteq> [] \<and> ce_canceled ce = None
      \<and> (\<exists>cl. vouched (vt_Token req) = Some cl
          \<and> (case cc_IssuedAt cl of None \<Rightarrow> True | Some i \<Rightarrow> i - minute \<le> t)
          \<and> (case cc_NotBefore cl of None \<Rightarrow> True | Some n \<Rightarrow> n - minute \<le> t)
          \<and> (case cc_ExpiresAt cl of None \<Rightarrow> True | Some x \<Rightarrow> t < x - minute)
          \<and> p = principalFromCasdoorClaims ce (Some cl) (vt_OrgID req) (vt_AppID req) \<and> ap_Authenticated p)"
  by (auto simp: cas_VerifyToken_def principal_Inr parse_Inr[OF assms] accepted_at_def)

subsection \<open>An accepted token\<close>

definition sample_claims :: CasdoorClaims where
  "sample_claims = \<lparr>cc_Id = ''u1'', cc_ExternalId = [], cc_Subject = [], cc_Name = ''alice'', cc_Owner = ''acme'',
     cc_DisplayName = [], cc_Issuer = [], cc_Audience = [], cc_Email = [], cc_Phone = [], cc_Roles = [Some ''editor'', None],
     cc_Groups = [], cc_IssuedAt = Some (2 * minute), cc_NotBefore = None, cc_ExpiresAt = Some (10 * minute)\<rparr>"

definition nobody :: AuthnPrincipal where
  "nobody = \<lparr>ap_Authenticated = False, ap_SubjectType = [], ap_SubjectID = [], ap_OrgID = [], ap_Provider = [],
     ap_ExternalID = [], ap_Issuer = [], ap_Audience = [], ap_TenantID = [], ap_AppID = [], ap_ProjectID = [],
     ap_Username = [], ap_Name = [], ap_Email = [], ap_Phone = [], ap_Roles = [], ap_Groups = [], ap_Scopes = [],
     ap_AuthMethod = [], ap_IssuedAt = 0, ap_ExpiresAt = 0\<rparr>"

definition sample_tokens :: "gotime \<Rightarrow> unit casdoor_env" where
  "sample_tokens t = \<lparr>ce_parse = (\<lambda>token t. if token = ''signed'' \<and> 2 * minute \<le> t \<and> t < 10 * minute
       then Inr (Some sample_claims) else Inl (ErrExternal [])),
     ce_now = (\<lambda>_. (t, ())), ce_normalize = (\<lambda>p. p\<lparr>ap_Authenticated := ap_SubjectID p \<noteq> []\<rparr>),
     ce_anonymous = nobody,
     ce_canceled = None, ce_user_type = ''user'', ce_provider = ''casdoor'', ce_method = ''oidc''\<rparr>"

text \<open>A minute before its issue the token is accepted, a minute before its end it is not.\<close>

lemma token_verified_iff_witness:
  "(\<exists>p. fst (cas_VerifyToken (sample_tokens minute) \<lparr>vt_Token = ''signed'', vt_TokenType = [], vt_OrgID = [], vt_AppID = []\<rparr> ())
      = Inr p \<and> ap_SubjectID p = ''u1'' \<and> ap_OrgID p = ''acme'' \<and> ap_Roles p = [''editor''])
   \<and> isl (fst (cas_VerifyToken (sample_tokens (9 * minute)) \<lparr>vt_Token = ''signed'', vt_TokenType = [], vt_OrgID = [], vt_AppID = []\<rparr> ()))"
proof
  let ?v = "\<lambda>token. if token = ''signed'' then Some sample_claims else None"
    and ?req = "\<lparr>vt_Token = ''signed'', vt_TokenType = [], vt_OrgID = [], vt_AppID = []\<rparr>"
  have j: "jwt_parser ?v (ce_parse (sample_tokens t))" for t
    by (auto simp: jwt_parser_def sample_tokens_def in_window_def sample_claims_def)
  have n: "ce_now (sample_tokens t) () = (t, ())" for t by (simp add: sample_tokens_def)
  let ?p = "principalFromCasdoorClaims (sample_tokens minute) (Some sample_claims) [] []"
  have p: "ap_Authenticated ?p" "ap_SubjectID ?p = ''u1''" "ap_OrgID ?p = ''acme''" "ap_Roles ?p = [''editor'']"
    by (simp_all add: principalFromCasdoorClaims_def sample_tokens_def sample_claims_def casdoorRoleNames_def List.map_filter_def)
  have t: "TrimSpace ''signed'' \<noteq> []" by code_simp
  have "fst (cas_VerifyToken (sample_tokens minute) ?req ()) = Inr ?p"
    using p(1) t by (simp add: token_verified_iff[OF j n]) (simp add: sample_claims_def sample_tokens_def minute_def)
  then show "\<exists>p. fst (cas_VerifyToken (sample_tokens minute) ?req ()) = Inr p
      \<and> ap_SubjectID p = ''u1'' \<and> ap_OrgID p = ''acme'' \<and> ap_Roles p = [''editor'']" using p(2-4) by blast
  have "fst (cas_VerifyToken (sample_tokens (9 * minute)) ?req ()) \<noteq> Inr p" for p
    unfolding token_verified_iff[OF j n] by (simp add: sample_claims_def)
  then show "isl (fst (cas_VerifyToken (sample_tokens (9 * minute)) ?req ()))"
    by (cases "fst (cas_VerifyToken (sample_tokens (9 * minute)) ?req ())") auto
qed

end
