(* ===== verification/ServerAccess.thy ===== *)
theory ServerAccess
  imports Prelude
begin

text \<open>
  What the access middleware of the server skips (internal/server/access.go).  The catalog of operations, which is
  generated from the API, and the kernel's name of the gateway mode are parameters; the runtime that the kernel builds from
  the configuration is not modelled.
\<close>

datatype SkipPolicy = SkipAll | SkipAuthz | SkipDefault

record RequestInfo =
  ri_Public :: bool
  ri_Labels :: "string gomap"

definition TrimPrefix :: "string \<Rightarrow> string \<Rightarrow> string" where
  "TrimPrefix s p = (if HasPrefix s p then drop (length p) s else s)"

definition directory_reads :: "string list" where
  "directory_reads = [''GetUser'', ''ListUsers'', ''GetOrganization'', ''ListGroups'',
     ''iam.v1.IAMDirectoryService/GetUser'', ''iam.v1.IAMDirectoryService/ListUsers'',
     ''iam.v1.IAMDirectoryService/GetOrganization'', ''iam.v1.IAMDirectoryService/ListGroups'']"

definition isDirectoryReadOperation :: "string \<Rightarrow> bool" where
  "isDirectoryReadOperation op \<longleftrightarrow> TrimPrefix (TrimSpace op) ''/'' \<in> set directory_reads"

definition open_operations :: "string list" where
  "open_operations = [''healthz'', ''readyz'', ''metrics'', ''iam.v1.IAMAuthService/ExternalAuthorize'']"

text \<open>\<open>resolve\<close> is \<open>RequestInfoResolver\<close>; \<open>None\<close> is \<open>ok = false\<close>.\<close>

definition iamSkipPolicyResolver :: "(string \<Rightarrow> err + RequestInfo option) \<Rightarrow> string \<Rightarrow> SkipPolicy" where
  "iamSkipPolicyResolver resolve operation =
     (let op = TrimSpace operation in
      if TrimPrefix op ''/'' \<in> set open_operations then SkipAll
      else if op = ''ExternalAuthorize'' then SkipAll
      else if isDirectoryReadOperation op then SkipAuthz
      else case resolve op of
        Inr (Some info) \<Rightarrow>
          if ri_Public info then SkipAll
          else if EqualFold (case get_key (ri_Labels info) ''authz_mode'' of None \<Rightarrow> [] | Some v \<Rightarrow> v) ''SELF_CHECK''
          then SkipAuthz else SkipDefault
      | _ \<Rightarrow> SkipDefault)"

text \<open>The configuration of the call between services: the trust of the gateway replaces the token.\<close>

record InternalCallConfig =
  ic_Enabled :: bool
  ic_Token :: string

definition internal_call :: "string \<Rightarrow> string \<Rightarrow> InternalCallConfig \<Rightarrow> InternalCallConfig" where
  "internal_call gateway_mode mode c =
     (if EqualFold mode gateway_mode then c\<lparr>ic_Enabled := False, ic_Token := []\<rparr> else c)"

subsection \<open>What is skipped\<close>

lemma skips_all_iff:
  "iamSkipPolicyResolver resolve operation = SkipAll \<longleftrightarrow>
     TrimPrefix (TrimSpace operation) ''/'' \<in> set open_operations \<or> TrimSpace operation = ''ExternalAuthorize''
     \<or> \<not> isDirectoryReadOperation operation \<and> (\<exists>info. resolve (TrimSpace operation) = Inr (Some info) \<and> ri_Public info)"
  by (simp add: iamSkipPolicyResolver_def isDirectoryReadOperation_def Let_def split: sum.split option.split)

text \<open>
  An operation that the catalog does not know, or cannot resolve, is checked, unless it is one of the operations
  listed here.
\<close>

lemma unknown_is_checked:
  "\<not> (\<exists>info. resolve (TrimSpace operation) = Inr (Some info)) \<Longrightarrow>
   TrimPrefix (TrimSpace operation) ''/'' \<notin> set (open_operations @ directory_reads) \<Longrightarrow>
   TrimSpace operation \<noteq> ''ExternalAuthorize'' \<Longrightarrow> iamSkipPolicyResolver resolve operation = SkipDefault"
  by (simp add: iamSkipPolicyResolver_def isDirectoryReadOperation_def Let_def split: sum.split option.split)

text \<open>GetGroup checks its caller itself like the other reads of the directory, but is not listed as one of them.\<close>

lemma GetGroup_not_listed: "\<not> isDirectoryReadOperation ''/iam.v1.IAMDirectoryService/GetGroup''"
  by code_simp

end
