(* ===== verification/ResourceStart.thy ===== *)
theory ResourceStart
  imports StartUp
begin

text \<open>
  Opening and closing what the service runs on (\<open>NewResources\<close>, \<open>Close\<close> and \<open>pingEnabled\<close> in internal/data/data.go).

  The constructors of the kernel's database, cache, object store, authenticator and SpiceDB client are parameters
  on a state \<open>'w\<close>, and so is the closing of a handle.  The steps of an enabled authorization are parameters here and
  taken from theory StartUp in \<open>start_phases\<close>.  What a resource does once it is open is the subject of other theories;
  \<open>Resources\<close> holds which ones there are, and the functions that \<open>Close\<close> will call.
\<close>

datatype handle = HDatabase | HCache | HObjectStore | HRetryWorker | HAuthorizer

datatype audit_store = NoopAudit | MemoryAudit | PostgresAudit

datatype authorizer_kind = DenyAll | AllowAllForDevOnly | SpiceDB

record Resources =
  rs_DB :: bool
  rs_Cache :: bool
  rs_ObjectStore :: bool
  rs_Audit :: audit_store
  rs_Identity :: bool
  rs_Authz :: authorizer_kind
  rs_Projection :: bool
  rs_closers :: "handle list"

record resource_config =
  rf_Audit :: bool
  rf_AuditStore :: string
  rf_Database :: bool
  rf_Migration :: bool
  rf_Cache :: bool
  rf_ObjectStore :: bool
  rf_Authn :: bool
  rf_AuthnProvider :: string
  rf_Authz :: bool
  rf_AuthzProvider :: string
  rf_DevAllowAll :: bool
  rf_InstallDefaultSchema :: bool
  rf_ReconcileOnStartup :: bool

type_synonym 'w step = "'w \<Rightarrow> (err + unit) \<times> 'w"

record 'w openers =
  op_manifest :: "err + Manifest option"
  op_database :: "'w step"
  op_audit_table :: "'w step"
  op_migrate :: "'w step"
  op_cache :: "'w step"
  op_object_store :: "'w step"
  op_authenticator :: "'w step"
  op_identity :: "err + unit"
  op_authorizer :: "'w step"
  op_schema :: "'w step"
  op_admins :: "'w step"
  op_ensure :: "'w step"
  op_worker :: "'w \<Rightarrow> 'w"
  op_reconcile :: "'w step"
  op_ping_database :: "'w step"
  op_ping_cache :: "'w step"
  op_close :: "handle \<Rightarrow> 'w step"

subsection \<open>Closing\<close>

text \<open>All handles are closed, the last opened first; the result is the first error.\<close>

primrec close_each :: "(handle \<Rightarrow> 'w step) \<Rightarrow> handle list \<Rightarrow> err option \<Rightarrow> 'w \<Rightarrow> err option \<times> 'w" where
  "close_each close [] out w = (out, w)"
| "close_each close (h # hs) out w =
     (case close h w of
        (Inl er, w) \<Rightarrow> close_each close hs (if out = None then Some er else out) w
      | (Inr _, w) \<Rightarrow> close_each close hs out w)"

definition Resources_Close :: "'w openers \<Rightarrow> Resources \<Rightarrow> 'w \<Rightarrow> err option \<times> 'w" where
  "Resources_Close ops r w = close_each (op_close ops) (rev (rs_closers r)) None w"

subsection \<open>Opening\<close>

text \<open>
  A phase gives the resources so far, or ends \<open>NewResources\<close> with an error; \<open>or_close\<close> is the branch
  \<open>r.Close(); return nil, nil, err\<close>.
\<close>

type_synonym 'w phase = "Resources \<Rightarrow> 'w \<Rightarrow> (err + Resources) \<times> 'w"

definition or_close :: "'w openers \<Rightarrow> 'w step \<Rightarrow> 'w phase \<Rightarrow> 'w phase" where
  "or_close ops s k r w =
     (case s w of (Inl er, w) \<Rightarrow> (Inl er, snd (Resources_Close ops r w)) | (Inr _, w) \<Rightarrow> k r w)"

definition then_phase :: "'w phase \<Rightarrow> 'w phase \<Rightarrow> 'w phase" where
  "then_phase p q r w = (case p r w of (Inl er, w) \<Rightarrow> (Inl er, w) | (Inr r, w) \<Rightarrow> q r w)"

definition finish :: "(Resources \<Rightarrow> Resources) \<Rightarrow> 'w phase" where
  "finish f r w = (Inr (f r), w)"

definition closer :: "handle \<Rightarrow> Resources \<Rightarrow> Resources" where
  "closer h r = r\<lparr>rs_closers := rs_closers r @ [h]\<rparr>"

definition first_resources :: "resource_config \<Rightarrow> Resources" where
  "first_resources cfg = \<lparr>rs_DB = False, rs_Cache = False, rs_ObjectStore = False,
     rs_Audit = (if rf_Audit cfg then MemoryAudit else NoopAudit), rs_Identity = False,
     rs_Authz = (if rf_DevAllowAll cfg then AllowAllForDevOnly else DenyAll), rs_Projection = False, rs_closers = []\<rparr>"

text \<open>Before the database is open there is nothing to close.\<close>

definition or_fail :: "'w step \<Rightarrow> 'w phase \<Rightarrow> 'w phase" where
  "or_fail s k r w = (case s w of (Inl er, w) \<Rightarrow> (Inl er, w) | (Inr _, w) \<Rightarrow> k r w)"

text \<open>A table of audits that cannot be ensured leaves the store in memory.\<close>

definition choose_audit :: "'w openers \<Rightarrow> resource_config \<Rightarrow> 'w phase" where
  "choose_audit ops cfg r w =
     (if rf_Audit cfg \<and> rf_AuditStore cfg = ''postgres''
      then case op_audit_table ops w of (Inl _, w) \<Rightarrow> (Inr r, w) | (Inr _, w) \<Rightarrow> (Inr (r\<lparr>rs_Audit := PostgresAudit\<rparr>), w)
      else (Inr r, w))"

definition open_database :: "'w openers \<Rightarrow> resource_config \<Rightarrow> 'w phase" where
  "open_database ops cfg =
     (if \<not> rf_Database cfg then finish id
      else or_fail (op_database ops)
        (then_phase (finish (\<lambda>r. closer HDatabase (r\<lparr>rs_DB := True\<rparr>)))
        (then_phase (choose_audit ops cfg)
        (if rf_Migration cfg then or_close ops (op_migrate ops) (finish id) else finish id))))"

definition open_cache :: "'w openers \<Rightarrow> resource_config \<Rightarrow> 'w phase" where
  "open_cache ops cfg = (if rf_Cache cfg
     then or_close ops (op_cache ops) (finish (\<lambda>r. closer HCache (r\<lparr>rs_Cache := True\<rparr>))) else finish id)"

definition open_object_store :: "'w openers \<Rightarrow> resource_config \<Rightarrow> 'w phase" where
  "open_object_store ops cfg = (if rf_ObjectStore cfg
     then or_close ops (op_object_store ops) (finish (\<lambda>r. closer HObjectStore (r\<lparr>rs_ObjectStore := True\<rparr>))) else finish id)"

text \<open>The provider is chosen by name; only one of each kind is supported.\<close>

definition newAuthenticator :: "string \<Rightarrow> 'w step \<Rightarrow> 'w step" where
  "newAuthenticator provider client w = (if provider = [] \<or> provider = ''casdoor'' then client w
     else (Inl (ErrNew (''unsupported authn provider: '' @ provider)), w))"

definition newAuthorizer :: "string \<Rightarrow> 'w step \<Rightarrow> 'w step" where
  "newAuthorizer provider client w = (if provider = [] \<or> provider = ''spicedb'' then client w
     else (Inl (ErrNew (''unsupported authz provider: '' @ provider)), w))"

definition open_identity :: "'w openers \<Rightarrow> resource_config \<Rightarrow> 'w phase" where
  "open_identity ops cfg = (if rf_Authn cfg
     then or_close ops (newAuthenticator (rf_AuthnProvider cfg) (op_authenticator ops)) (or_close ops (\<lambda>w. (op_identity ops, w)) (finish (\<lambda>r. r\<lparr>rs_Identity := True\<rparr>)))
     else finish id)"

definition start_worker :: "'w openers \<Rightarrow> 'w phase" where
  "start_worker ops r w =
     (let r = r\<lparr>rs_Projection := True\<rparr> in
      if rs_DB r then (Inr (closer HRetryWorker r), op_worker ops w) else (Inr r, w))"

definition open_projection :: "'w openers \<Rightarrow> resource_config \<Rightarrow> 'w phase" where
  "open_projection ops cfg r =
     (if \<not> rs_Identity r then finish id r
      else or_close ops (op_ensure ops) (then_phase
        (start_worker ops)
        (if rf_ReconcileOnStartup cfg then or_close ops (op_reconcile ops) (finish id) else finish id)) r)"

definition open_authorizer :: "'w openers \<Rightarrow> resource_config \<Rightarrow> 'w phase" where
  "open_authorizer ops cfg =
     (if rf_Authz cfg \<and> \<not> rf_DevAllowAll cfg
      then or_close ops (newAuthorizer (rf_AuthzProvider cfg) (op_authorizer ops)) (then_phase (finish (\<lambda>r. r\<lparr>rs_Authz := SpiceDB\<rparr>))
        (then_phase (if rf_InstallDefaultSchema cfg then or_close ops (op_schema ops) (finish id) else finish id)
        (then_phase (or_close ops (op_admins ops) (finish id))
        (then_phase (open_projection ops cfg) (finish (closer HAuthorizer))))))
      else finish id)"

definition pingEnabled :: "'w openers \<Rightarrow> Resources \<Rightarrow> 'w \<Rightarrow> err option \<times> 'w" where
  "pingEnabled ops r w =
     (case (if rs_DB r then op_ping_database ops w else (Inr (), w)) of
        (Inl er, w) \<Rightarrow> (Some er, w)
      | (Inr _, w) \<Rightarrow>
          (case (if rs_Cache r then op_ping_cache ops w else (Inr (), w)) of
             (Inl er, w) \<Rightarrow> (Some er, w) | (Inr _, w) \<Rightarrow> (None, w)))"

text \<open>The three results: the resources, unless there are none, and the error.  The cleanup function is \<open>Resources_Close\<close>.\<close>

definition NewResources :: "'w openers \<Rightarrow> resource_config \<Rightarrow> 'w \<Rightarrow> (Resources option \<times> err option) \<times> 'w" where
  "NewResources ops cfg w =
     (case op_manifest ops of
        Inl er \<Rightarrow> ((None, Some er), w)
      | Inr _ \<Rightarrow>
          (case then_phase (open_database ops cfg) (then_phase (open_cache ops cfg) (then_phase (open_object_store ops cfg)
              (then_phase (open_identity ops cfg) (open_authorizer ops cfg)))) (first_resources cfg) w of
             (Inl er, w) \<Rightarrow> ((None, Some er), w)
           | (Inr r, w) \<Rightarrow> (case pingEnabled ops r w of (er, w) \<Rightarrow> ((Some r, er), w))))"

text \<open>The steps of the authorization are those of theory StartUp.\<close>

definition start_phases ::
    "(nat \<Rightarrow> nat \<Rightarrow> nat) \<Rightarrow> (string \<Rightarrow> err + string) \<Rightarrow> ('d \<Rightarrow> (err + unit) \<times> 'd) \<Rightarrow> ControlPlaneConfig \<Rightarrow> AuthzConfig
     \<Rightarrow> Manifest option \<Rightarrow> 'g SchemaManager \<Rightarrow> 'g store \<Rightarrow> 'p IdentityAdmin option \<Rightarrow> ('d, 'g) Dispatcher option
     \<Rightarrow> identity_env \<Rightarrow> ('p, 'd, 'g) identity_world openers \<Rightarrow> ('p, 'd, 'g) identity_world openers" where
  "start_phases c read_file migrate cfg authz manifest mgr s identity d e ops = ops\<lparr>
     op_schema := on_tuples (\<lambda>_. BootstrapAuthzSchema read_file authz (Some mgr)) e,
     op_admins := bootstrapControlPlaneAdmins c cfg (case manifest of None \<Rightarrow> no_policy | Some m \<Rightarrow> mf_Bootstrap m)
       (Some s) identity e,
     op_ensure := EnsureStore migrate d e,
     op_reconcile := reconcileDirectoryOnStartup identity d (cp_OrgIDs cfg) e\<rparr>"

subsection \<open>What stays open\<close>

text \<open>
  \<open>live w\<close> are the handles that are open in \<open>w\<close>.  A constructor that succeeds opens its handle, one that fails opens
  nothing, closing a handle closes it, and no other step opens or closes one.
\<close>

definition opens :: "('w \<Rightarrow> handle set) \<Rightarrow> handle \<Rightarrow> 'w step \<Rightarrow> bool" where
  "opens live h s \<longleftrightarrow> (\<forall>w. live (snd (s w)) = (if isl (fst (s w)) then live w else insert h (live w)))"

definition neutral :: "('w \<Rightarrow> handle set) \<Rightarrow> 'w step \<Rightarrow> bool" where
  "neutral live s \<longleftrightarrow> (\<forall>w. live (snd (s w)) = live w)"

definition handles_tracked :: "('w \<Rightarrow> handle set) \<Rightarrow> 'w openers \<Rightarrow> bool" where
  "handles_tracked live ops \<longleftrightarrow> opens live HDatabase (op_database ops) \<and> opens live HCache (op_cache ops)
     \<and> opens live HObjectStore (op_object_store ops) \<and> opens live HAuthorizer (op_authorizer ops)
     \<and> (\<forall>s \<in> {op_audit_table ops, op_migrate ops, op_authenticator ops, op_schema ops, op_admins ops, op_ensure ops,
          op_reconcile ops, op_ping_database ops, op_ping_cache ops}. neutral live s)
     \<and> (\<forall>w. live (op_worker ops w) = insert HRetryWorker (live w))
     \<and> (\<forall>h w. live (snd (op_close ops h w)) = live w - {h})"

lemma close_each_live:
  assumes "\<forall>h w. live (snd (close h w)) = live w - {h}"
  shows "live (snd (close_each close hs out w)) = live w - set hs"
proof (induction hs arbitrary: out w)
  case (Cons h hs)
  obtain x w' where s: "close h w = (x, w')" by fastforce
  then have "live w' = live w - {h}" using assms by (metis snd_conv)
  then show ?case using Cons.IH s by (cases x) auto
qed simp

text \<open>
  A phase keeps the account: the open handles are those that \<open>Close\<close> will close, and \<open>A\<close>, which is empty or the
  authorizer; when it fails, \<open>A\<close> is left.
\<close>

definition accounted :: "('w \<Rightarrow> handle set) \<Rightarrow> handle set \<Rightarrow> Resources \<Rightarrow> 'w \<Rightarrow> bool" where
  "accounted live A r w \<longleftrightarrow> live w = set (rs_closers r) \<union> A \<and> HAuthorizer \<notin> set (rs_closers r)"

definition booked :: "('w \<Rightarrow> handle set) \<Rightarrow> handle set \<Rightarrow> (err + Resources) \<times> 'w \<Rightarrow> bool" where
  "booked live A y \<longleftrightarrow> (case y of (Inl er, w) \<Rightarrow> live w = A | (Inr r, w) \<Rightarrow> accounted live A r w)"

lemma booked_simps [simp]:
  "booked live A (Inl er, w) \<longleftrightarrow> live w = A" "booked live A (Inr r, w) \<longleftrightarrow> accounted live A r w"
  by (simp_all add: booked_def)

definition keeps :: "('w \<Rightarrow> handle set) \<Rightarrow> handle set \<Rightarrow> 'w phase \<Rightarrow> bool" where
  "keeps live A p \<longleftrightarrow> (\<forall>r w. accounted live A r w \<longrightarrow> booked live A (p r w))"

lemma keepsI: "(\<And>r w. accounted live A r w \<Longrightarrow> booked live A (p r w)) \<Longrightarrow> keeps live A p"
  by (simp add: keeps_def)

lemma keepsD: "keeps live A p \<Longrightarrow> accounted live A r w \<Longrightarrow> booked live A (p r w)"
  by (simp add: keeps_def)

lemma closed_live:
  assumes "handles_tracked live ops" and "accounted live A r w" and "A \<subseteq> {HAuthorizer}"
  shows "live (snd (Resources_Close ops r w)) = A"
proof -
  have "\<forall>h w. live (snd (op_close ops h w)) = live w - {h}" using assms(1) by (simp add: handles_tracked_def)
  from close_each_live[where close = "op_close ops", OF this] show ?thesis
    using assms(2,3) by (auto simp: Resources_Close_def accounted_def)
qed

lemma keeps_finish: "(\<And>r. rs_closers (f r) = rs_closers r) \<Longrightarrow> keeps live A (finish f)"
  by (simp add: keeps_def finish_def accounted_def)

lemma then_phase_assoc: "then_phase (then_phase p q) u = then_phase p (then_phase q u)"
  by (intro ext) (simp add: then_phase_def split: prod.split sum.split)

lemma booked_then: "booked live A (p r w) \<Longrightarrow> keeps live A q \<Longrightarrow> booked live A (then_phase p q r w)"
  by (cases "p r w"; cases "fst (p r w)") (auto simp: then_phase_def dest: keepsD)

lemma keeps_then: "keeps live A p \<Longrightarrow> keeps live A q \<Longrightarrow> keeps live A (then_phase p q)"
  by (rule keepsI, rule booked_then, erule keepsD)

lemma keeps_step:
  assumes T: "handles_tracked live ops" and A: "A \<subseteq> {HAuthorizer}" and s: "neutral live s" and k: "keeps live A k"
  shows "keeps live A (or_close ops s k)"
proof (rule keepsI)
  fix r w assume acc: "accounted live A r w"
  obtain x w1 where x: "s w = (x, w1)" by fastforce
  then have acc1: "accounted live A r w1" using s acc by (metis neutral_def accounted_def snd_conv)
  show "booked live A (or_close ops s k r w)"
    using x keepsD[OF k acc1] closed_live[OF T acc1 A] by (cases x) (simp_all add: or_close_def)
qed

lemma opened_live: "opens live h s \<Longrightarrow> s w = (x, w1) \<Longrightarrow> live w1 = (if isl x then live w else insert h (live w))"
  unfolding opens_def by (metis fst_conv snd_conv)

lemma keeps_open:
  assumes T: "handles_tracked live ops" and A: "A \<subseteq> {HAuthorizer}" and s: "opens live h s" and h: "h \<noteq> HAuthorizer"
    and f: "\<And>r. rs_closers (f r) = rs_closers r"
  shows "keeps live A (or_close ops s (finish (\<lambda>r. closer h (f r))))"
proof (rule keepsI)
  fix r w assume acc: "accounted live A r w"
  obtain x w1 where x: "s w = (x, w1)" by fastforce
  note w1 = opened_live[OF s x]
  show "booked live A (or_close ops s (finish (\<lambda>r. closer h (f r))) r w)"
  proof (cases x)
    case (Inl er)
    then have "accounted live A r w1" using w1 acc by (simp add: accounted_def)
    then show ?thesis using x Inl closed_live[OF T _ A] by (simp add: or_close_def)
  next
    case (Inr u)
    then show ?thesis using x w1 acc h f by (auto simp: or_close_def finish_def closer_def accounted_def)
  qed
qed

lemma authenticator_neutral: "neutral live s \<Longrightarrow> neutral live (newAuthenticator provider s)"
  by (simp add: neutral_def newAuthenticator_def)

lemma authorizer_opens: "opens live h s \<Longrightarrow> opens live h (newAuthorizer provider s)"
  by (simp add: opens_def newAuthorizer_def)

lemma tracked:
  assumes "handles_tracked live ops"
  shows "opens live HDatabase (op_database ops)" "opens live HCache (op_cache ops)" "opens live HObjectStore (op_object_store ops)"
    "opens live HAuthorizer (op_authorizer ops)" "neutral live (op_audit_table ops)" "neutral live (op_migrate ops)"
    "neutral live (op_authenticator ops)" "neutral live (op_schema ops)" "neutral live (op_admins ops)"
    "neutral live (op_ensure ops)" "neutral live (op_reconcile ops)" "neutral live (op_ping_database ops)"
    "neutral live (op_ping_cache ops)" "neutral live (\<lambda>w. (y, w))"
  using assms by (simp_all add: handles_tracked_def neutral_def)

lemma keeps_audit: "neutral live (op_audit_table ops) \<Longrightarrow> keeps live A (choose_audit ops cfg)"
proof (rule keepsI)
  fix r w assume n: "neutral live (op_audit_table ops)" and acc: "accounted live A r w"
  obtain x w1 where x: "op_audit_table ops w = (x, w1)" by fastforce
  then have "live w1 = live w" using n by (metis neutral_def snd_conv)
  then show "booked live A (choose_audit ops cfg r w)"
    using x acc by (cases x) (simp_all add: choose_audit_def accounted_def)
qed

lemma keeps_worker: "handles_tracked live ops \<Longrightarrow> keeps live A (start_worker ops)"
  by (rule keepsI) (auto simp: start_worker_def closer_def accounted_def handles_tracked_def Let_def)

lemma keeps_choice: "(b \<Longrightarrow> keeps live A p) \<Longrightarrow> (\<not> b \<Longrightarrow> keeps live A q) \<Longrightarrow> keeps live A (if b then p else q)"
  by simp

lemma database_booked:
  assumes T: "handles_tracked live ops" and acc: "accounted live {} r w" and e: "rs_closers r = []"
  shows "booked live {} (open_database ops cfg r w)"
proof (cases "rf_Database cfg")
  case False
  then show ?thesis using acc by (simp add: open_database_def finish_def)
next
  case True
  let ?rest = "then_phase (choose_audit ops cfg) (if rf_Migration cfg then or_close ops (op_migrate ops) (finish id) else finish id)"
  have k: "keeps live {} ?rest"
    by (intro keeps_then keeps_audit keeps_choice keeps_step[OF T] keeps_finish tracked[OF T]) simp_all
  obtain x w1 where x: "op_database ops w = (x, w1)" by fastforce
  note w1 = opened_live[OF tracked(1)[OF T] x]
  show ?thesis
  proof (cases x)
    case (Inl er)
    then show ?thesis using True x w1 acc e by (simp add: open_database_def or_fail_def accounted_def)
  next
    case (Inr u)
    then have "accounted live {} (closer HDatabase (r\<lparr>rs_DB := True\<rparr>)) w1" using w1 acc e by (simp add: accounted_def closer_def)
    from keepsD[OF k this] show ?thesis
      using True x Inr by (simp add: open_database_def or_fail_def then_phase_def finish_def)
  qed
qed

lemma keeps_projection: "handles_tracked live ops \<Longrightarrow> A \<subseteq> {HAuthorizer} \<Longrightarrow> keeps live A (open_projection ops cfg)"
proof -
  assume T: "handles_tracked live ops" and A: "A \<subseteq> {HAuthorizer}"
  let ?go = "or_close ops (op_ensure ops) (then_phase (start_worker ops)
      (if rf_ReconcileOnStartup cfg then or_close ops (op_reconcile ops) (finish id) else finish id))"
  have "keeps live A ?go"
    by (intro keeps_then keeps_worker keeps_choice keeps_step[OF T A] keeps_finish tracked[OF T] T) simp_all
  then show ?thesis by (intro keepsI) (auto simp: open_projection_def finish_def dest: keepsD)
qed

text \<open>The result of the last phase: the authorizer's handle is a closer once everything else has succeeded.\<close>

lemma authorizer_result:
  assumes T: "handles_tracked live ops" and acc: "accounted live {} r w"
  shows "case open_authorizer ops cfg r w of
      (Inl er, w') \<Rightarrow> live w' = {} \<or> rf_Authz cfg \<and> \<not> rf_DevAllowAll cfg \<and> live w' = {HAuthorizer}
    | (Inr r', w') \<Rightarrow> live w' = set (rs_closers r')"
proof (cases "rf_Authz cfg \<and> \<not> rf_DevAllowAll cfg")
  case False
  then have "open_authorizer ops cfg = finish id" unfolding open_authorizer_def by (rule if_not_P)
  then show ?thesis using acc by (simp add: finish_def accounted_def)
next
  case True
  let ?A = "{HAuthorizer}"
  let ?steps = "then_phase (finish (\<lambda>r. r\<lparr>rs_Authz := SpiceDB\<rparr>))
      (then_phase (if rf_InstallDefaultSchema cfg then or_close ops (op_schema ops) (finish id) else finish id)
      (then_phase (or_close ops (op_admins ops) (finish id)) (open_projection ops cfg)))"
  have k: "keeps live ?A ?steps"
    by (intro keeps_then keeps_projection[OF T] keeps_choice keeps_step[OF T] keeps_finish tracked[OF T]) simp_all
  have assoc: "open_authorizer ops cfg = or_close ops (newAuthorizer (rf_AuthzProvider cfg) (op_authorizer ops)) (then_phase ?steps (finish (closer HAuthorizer)))"
    using True by (simp add: open_authorizer_def then_phase_assoc)
  obtain x w1 where x: "newAuthorizer (rf_AuthzProvider cfg) (op_authorizer ops) w = (x, w1)" by fastforce
  note w1 = opened_live[OF authorizer_opens[OF tracked(4)[OF T]] x]
  show ?thesis
  proof (cases x)
    case (Inl er)
    then have "accounted live {} r w1" using w1 acc by (simp add: accounted_def)
    then show ?thesis using x Inl closed_live[OF T] by (simp add: assoc or_close_def)
  next
    case (Inr u)
    then have "accounted live ?A r w1" using w1 acc by (auto simp: accounted_def)
    from keepsD[OF k this] have b: "booked live ?A (?steps r w1)" .
    have run: "open_authorizer ops cfg r w = then_phase ?steps (finish (closer HAuthorizer)) r w1"
      using x Inr by (simp add: assoc or_close_def)
    show ?thesis unfolding run
      using b True by (cases "?steps r w1"; cases "fst (?steps r w1)")
        (auto simp: then_phase_def[of "?steps"] finish_def closer_def accounted_def simp del: then_phase_def)
  qed
qed

lemma pings_live:
  assumes T: "handles_tracked live ops" shows "live (snd (pingEnabled ops r w)) = live w"
proof -
  have db: "live (snd (op_ping_database ops w)) = live w" and cache: "live (snd (op_ping_cache ops w)) = live w" for w
    using tracked(12,13)[OF T] by (simp_all add: neutral_def)
  obtain x w1 where x: "(if rs_DB r then op_ping_database ops w else (Inr (), w)) = (x, w1)" by fastforce
  then have w1: "live w1 = live w" using db[of w] by (cases "rs_DB r") auto
  obtain y w2 where y: "(if rs_Cache r then op_ping_cache ops w1 else (Inr (), w1)) = (y, w2)" by fastforce
  then have "live w2 = live w1" using cache[of w1] by (cases "rs_Cache r") auto
  then show ?thesis using x y w1 by (cases x; cases y) (simp_all add: pingEnabled_def)
qed

lemma opened_result:
  assumes T: "handles_tracked live ops" and e: "live w = {}"
  shows "case then_phase (open_database ops cfg) (then_phase (open_cache ops cfg) (then_phase (open_object_store ops cfg)
      (then_phase (open_identity ops cfg) (open_authorizer ops cfg)))) (first_resources cfg) w of
      (Inl er, w') \<Rightarrow> live w' = {} \<or> rf_Authz cfg \<and> \<not> rf_DevAllowAll cfg \<and> live w' = {HAuthorizer}
    | (Inr r', w') \<Rightarrow> live w' = set (rs_closers r')"
proof -
  have acc: "accounted live {} (first_resources cfg) w" using e by (simp add: accounted_def first_resources_def)
  have rest: "keeps live {} (open_cache ops cfg)" "keeps live {} (open_object_store ops cfg)" "keeps live {} (open_identity ops cfg)"
    unfolding open_cache_def open_object_store_def open_identity_def
    by (intro keeps_choice keeps_open[OF T] keeps_step[OF T] keeps_finish authenticator_neutral tracked[OF T]; simp)+
  let ?p = "then_phase (open_database ops cfg) (then_phase (open_cache ops cfg) (then_phase (open_object_store ops cfg)
      (open_identity ops cfg)))"
  have b: "booked live {} (?p (first_resources cfg) w)"
    by (intro booked_then database_booked[OF T acc] keeps_then rest) (simp add: first_resources_def)
  have run: "then_phase (open_database ops cfg) (then_phase (open_cache ops cfg) (then_phase (open_object_store ops cfg)
      (then_phase (open_identity ops cfg) (open_authorizer ops cfg)))) (first_resources cfg) w
      = then_phase ?p (open_authorizer ops cfg) (first_resources cfg) w"
    by (simp add: then_phase_assoc)
  obtain y w1 where y: "?p (first_resources cfg) w = (y, w1)" by fastforce
  show ?thesis
  proof (cases y)
    case (Inl er)
    then show ?thesis unfolding run using b y by (simp add: then_phase_def[of ?p])
  next
    case (Inr r)
    then have "accounted live {} r w1" using b y by simp
    from authorizer_result[OF T this, of cfg] show ?thesis unfolding run using y Inr by (simp add: then_phase_def[of ?p])
  qed
qed

text \<open>C32. When the resources cannot all be opened, \<open>NewResources\<close> has closed again what it had opened, except for the
  client of the authorizer, whose closing is booked only after everything else has succeeded; when it returns
  resources, with or without an error of the health check, its cleanup closes everything.\<close>

theorem failed_start_releases:
  assumes T: "handles_tracked live ops" and e: "live w = {}" and run: "NewResources ops cfg w = ((res, er), w')"
  shows "case res of
      None \<Rightarrow> er \<noteq> None \<and> (live w' = {} \<or> rf_Authz cfg \<and> \<not> rf_DevAllowAll cfg \<and> live w' = {HAuthorizer})
    | Some r \<Rightarrow> live w' = set (rs_closers r) \<and> live (snd (Resources_Close ops r w')) = {}"
proof (cases "op_manifest ops")
  case (Inl x)
  then show ?thesis using run e by (auto simp: NewResources_def)
next
  case (Inr m)
  have cl: "\<forall>h w. live (snd (op_close ops h w)) = live w - {h}" using T by (simp add: handles_tracked_def)
  let ?p = "then_phase (open_database ops cfg) (then_phase (open_cache ops cfg) (then_phase (open_object_store ops cfg)
      (then_phase (open_identity ops cfg) (open_authorizer ops cfg))))"
  obtain y w1 where y: "?p (first_resources cfg) w = (y, w1)" by fastforce
  note R = opened_result[OF T e, of cfg, unfolded y]
  show ?thesis
  proof (cases y)
    case (Inl x)
    then show ?thesis using run Inr y R by (auto simp: NewResources_def)
  next
    case (Inr r)
    obtain z w2 where z: "pingEnabled ops r w1 = (z, w2)" by fastforce
    then have "live w2 = live w1" using pings_live[OF T, of r w1] by simp
    then have "live w2 = set (rs_closers r)" using R Inr by simp
    moreover from this have "live (snd (Resources_Close ops r w2)) = {}"
      using close_each_live[where close = "op_close ops", OF cl] by (simp add: Resources_Close_def)
    ultimately show ?thesis using run \<open>op_manifest ops = Inr m\<close> y Inr z by (auto simp: NewResources_def)
  qed
qed

subsection \<open>A start that fails\<close>

definition ok_step :: "handle list step" where "ok_step w = (Inr (), w)"

definition open_step :: "handle \<Rightarrow> handle list step" where "open_step h w = (Inr (), h # w)"

definition failing_admins :: "handle list openers" where
  "failing_admins = \<lparr>op_manifest = Inr None, op_database = open_step HDatabase, op_audit_table = ok_step, op_migrate = ok_step,
     op_cache = open_step HCache, op_object_store = open_step HObjectStore, op_authenticator = ok_step, op_identity = Inr (),
     op_authorizer = open_step HAuthorizer, op_schema = ok_step, op_admins = (\<lambda>w. (Inl (ErrNew ''bootstrap''), w)),
     op_ensure = ok_step, op_worker = (\<lambda>w. HRetryWorker # w), op_reconcile = ok_step, op_ping_database = ok_step,
     op_ping_cache = ok_step, op_close = (\<lambda>h w. (Inr (), filter (\<lambda>x. x \<noteq> h) w))\<rparr>"

definition full_config :: resource_config where
  "full_config = \<lparr>rf_Audit = True, rf_AuditStore = ''postgres'', rf_Database = True, rf_Migration = True, rf_Cache = True,
     rf_ObjectStore = True, rf_Authn = True, rf_AuthnProvider = [], rf_Authz = True,
     rf_AuthzProvider = ''spicedb'', rf_DevAllowAll = False, rf_InstallDefaultSchema = True,
     rf_ReconcileOnStartup = True\<rparr>"

text \<open>The bootstrap of the administrators fails: the client of the authorizer stays open.\<close>

lemma failed_start_releases_witness:
  "NewResources failing_admins full_config [] = ((None, Some (ErrNew ''bootstrap'')), [HAuthorizer])
   \<and> (\<exists>r w. NewResources (failing_admins\<lparr>op_admins := ok_step\<rparr>) full_config [] = ((Some r, None), w)
        \<and> set w = set (rs_closers r))"
proof
  show "NewResources failing_admins full_config [] = ((None, Some (ErrNew ''bootstrap'')), [HAuthorizer])" by code_simp
  let ?ops = "failing_admins\<lparr>op_admins := ok_step\<rparr>"
  let ?run = "NewResources ?ops full_config []"
  have T: "handles_tracked set ?ops"
    by (auto simp: handles_tracked_def failing_admins_def opens_def neutral_def open_step_def ok_step_def)
  have "fst (fst ?run) \<noteq> None \<and> snd (fst ?run) = None" by code_simp
  then obtain r w where r: "?run = ((Some r, None), w)" by (metis not_None_eq prod.collapse)
  have "set w = set (rs_closers r)" using failed_start_releases[OF T _ r] by simp
  then show "\<exists>r w. ?run = ((Some r, None), w) \<and> set w = set (rs_closers r)" using r by blast
qed

end
