(* ===== verification/ServerRoutes.thy ===== *)
theory ServerRoutes
  imports ProjectionLaws IdentityLaws
begin

text \<open>
  The raw routes of the HTTP server (internal/server/http.go): the branches that the saga manager calls, the webhook of
  the identity provider, and the health checks.

  A request carries the decoded body as the JSON decoder returns it, a parameter, and what the URL query holds for
  \<open>org_id\<close>.  The server's middleware, which is the kernel's, is not modelled.
\<close>

datatype json_body = JsonFields "(string \<times> string) list" | JsonReconcile ReconcileDirectoryProjectionResult

record http_response =
  hr_Status :: int
  hr_ContentType :: string
  hr_Body :: json_body

definition writeJSON :: "int \<Rightarrow> json_body \<Rightarrow> http_response" where
  "writeJSON status body = \<lparr>hr_Status = status, hr_ContentType = ''application/json'', hr_Body = body\<rparr>"

definition json_error :: "int \<Rightarrow> string \<Rightarrow> http_response" where
  "json_error status text = writeJSON status (JsonFields [(''error'', text)])"

definition json_status :: "int \<Rightarrow> string \<Rightarrow> http_response" where
  "json_status status text = writeJSON status (JsonFields [(''status'', text)])"

subsection \<open>Branches of a saga\<close>

record BranchPayload =
  bp_EventID :: string

text \<open>The four handlers differ in the payload and in the operation.\<close>

definition branch_handler ::
    "('b \<Rightarrow> ('e, 'w, WriteResult \<times> err option) io) \<Rightarrow> err + 'b \<Rightarrow> ('e, 'w, http_response) io" where
  "branch_handler run decoded =
     (case decoded of
        Inl er \<Rightarrow> ret (json_error 400 (err_text er))
      | Inr payload \<Rightarrow>
          bind_io (run payload) (\<lambda>(_, er).
          ret (case er of Some x \<Rightarrow> json_error 500 (err_text x) | None \<Rightarrow> json_status 200 ''ok'')))"

text \<open>Without a manager nothing is registered.\<close>

definition registerProjectionBranches ::
    "'g Manager option \<Rightarrow> (string \<times> (err + BranchPayload \<Rightarrow> ('g, http_response) op)) list" where
  "registerProjectionBranches projections =
     (case projections of None \<Rightarrow> []
      | Some m \<Rightarrow>
         [(''/internal/dtm/iam/projection/apply'', branch_handler (\<lambda>p. ApplyEvent (Some m) (bp_EventID p))),
          (''/internal/dtm/iam/projection/compensate'', branch_handler (\<lambda>p. CompensateEvent (Some m) (bp_EventID p)))])"

definition registerIdentityAuthZBranches ::
    "('d, 'g) Dispatcher option
     \<Rightarrow> (string \<times> (err + IdentityAuthZBranchPayload \<Rightarrow> ('p, 'd, 'g, http_response) iop)) list" where
  "registerIdentityAuthZBranches dispatcher =
     (case dispatcher of None \<Rightarrow> []
      | Some d \<Rightarrow>
         [(''/internal/dtm/iam/identity-authz/apply'', branch_handler (ApplyBranch (Some d))),
          (''/internal/dtm/iam/identity-authz/compensate'', branch_handler (CompensateBranch (Some d)))])"

subsection \<open>The webhook of the identity provider\<close>

text \<open>\<open>wh_BodyOrg\<close> is the string under \<open>org_id\<close>; it is \<open>None\<close> too when the body cannot be decoded.\<close>

record webhook_request =
  wh_Method :: string
  wh_QueryOrg :: string
  wh_BodyOrg :: "string option"

definition webhook_org :: "webhook_request \<Rightarrow> string" where
  "webhook_org r =
     (let orgID = TrimSpace (wh_QueryOrg r) in
      if orgID = [] then case wh_BodyOrg r of Some raw \<Rightarrow> TrimSpace raw | None \<Rightarrow> orgID else orgID)"

definition casdoor_webhook ::
    "('p, 'd, 'g) DirectoryProjectionOps \<Rightarrow> webhook_request \<Rightarrow> ('p, 'd, 'g, http_response) iop" where
  "casdoor_webhook ops r =
     (if wh_Method r \<noteq> ''POST'' then ret (json_error 405 ''method not allowed'')
      else let orgID = webhook_org r in
        if orgID = []
        then ret (writeJSON 202 (JsonFields [(''reason'', ''org_id missing''), (''reconcile'', ''skipped''), (''status'', ''accepted'')]))
        else bind_io (Reconcile (Some ops) orgID ''casdoor_webhook'') (\<lambda>result.
          ret (case result of Inl er \<Rightarrow> json_error 500 (err_text er) | Inr rc \<Rightarrow> writeJSON 202 (JsonReconcile rc))))"

definition registerCasdoorWebhookRoute ::
    "('p, 'd, 'g) DirectoryProjectionOps option
     \<Rightarrow> (string \<times> (webhook_request \<Rightarrow> ('p, 'd, 'g, http_response) iop)) list" where
  "registerCasdoorWebhookRoute ops =
     (case ops of None \<Rightarrow> [] | Some s \<Rightarrow> [(''/v1/iam/casdoor/webhooks'', casdoor_webhook s)])"

text \<open>The health checks answer without looking at the stores.\<close>

definition healthz :: http_response where "healthz = json_status 200 ''ok''"

definition readyz :: "bool \<Rightarrow> http_response" where
  "readyz present = (if present then json_status 200 ''ready'' else json_status 503 ''not_ready'')"

subsection \<open>What the answers say\<close>

lemma branch_runs:
  "run p e w = ((wr, r), w') \<Longrightarrow> branch_handler run (Inr p) e w
     = (case r of None \<Rightarrow> json_status 200 ''ok'' | Some er \<Rightarrow> json_error 500 (err_text er), w')"
  by (simp add: branch_handler_def bind_io_def ret_def)

lemma branch_undecoded: "branch_handler run (Inl er) e w = (json_error 400 (err_text er), w)"
  by (simp add: branch_handler_def ret_def)

lemma answer_status [simp]:
  "hr_Status (json_status n t) = n" "hr_Status (json_error n t) = n" "hr_Status (writeJSON n b) = n"
  by (simp_all add: json_status_def json_error_def writeJSON_def)

lemma branch_ok_iff:
  "hr_Status (fst (branch_handler run decoded e w)) = 200 \<longleftrightarrow> (\<exists>p wr w'. decoded = Inr p \<and> run p e w = ((wr, None), w'))"
proof (cases decoded)
  case (Inl er)
  then show ?thesis by (simp add: branch_undecoded)
next
  case (Inr p)
  obtain wr r w' where "run p e w = ((wr, r), w')" by (metis prod.collapse)
  then show ?thesis using Inr branch_runs[of run p e w wr r w'] by (cases r) simp_all
qed

text \<open>
  The saga manager takes the status for the outcome of the branch.  A status 200 of the apply branch says that the
  event is synced and its payload projected, every other status that the event is recorded as failed.
\<close>

lemma apply_branch_outcome:
  assumes m: "on_memory mg S" and T: "tuple_store S T" and v: "stored_event mg w (bp_EventID p) v pl"
    and open_event: "ev_Status v \<noteq> StatusSynced"
    and run: "branch_handler (\<lambda>q. ApplyEvent (Some mg) (bp_EventID q)) (Inr p) e w = (resp, w')"
  shows "\<exists>v'. get_key (events (db w')) = (get_key (events (db w)))(bp_EventID p := Some v')
    \<and> (if hr_Status resp = 200 then ev_Status v' = StatusSynced \<and> projected pl (T (graph w)) (T (graph w'))
       else ev_RetryCount v' = wrap64 (ev_RetryCount v + 1) \<and> resp = json_error 500 (ev_LastError v'))"
proof -
  obtain wr r w1 where r: "ApplyEvent (Some mg) (bp_EventID p) e w = ((wr, r), w1)" by (metis prod.collapse)
  then have w1: "w1 = w'" and resp: "resp = (case r of None \<Rightarrow> json_status 200 ''ok'' | Some er \<Rightarrow> json_error 500 (err_text er))"
    using run by (simp_all add: branch_runs[of "\<lambda>q. ApplyEvent (Some mg) (bp_EventID q)", OF r])
  from event_outcome[OF m T v open_event r] show ?thesis unfolding w1 resp by (cases r) auto
qed

text \<open>A branch that is delivered again after its success answers 200 and changes nothing.\<close>

lemma apply_branch_again:
  assumes m: "on_memory mg S" and v: "stored_event mg w (bp_EventID p) v pl"
    and run: "branch_handler (\<lambda>q. ApplyEvent (Some mg) (bp_EventID q)) (Inr p) e w = (resp, w')" and ok: "hr_Status resp = 200"
  shows "branch_handler (\<lambda>q. ApplyEvent (Some mg) (bp_EventID q)) (Inr p) e2 w' = (json_status 200 ''ok'', w')"
proof -
  obtain wr r w1 where r: "ApplyEvent (Some mg) (bp_EventID p) e w = ((wr, r), w1)" by (metis prod.collapse)
  have w1: "w1 = w'" and none: "r = None"
    using run ok by (auto simp: branch_runs[of "\<lambda>q. ApplyEvent (Some mg) (bp_EventID q)", OF r] split: option.splits)
  from apply_again[OF m v, of e wr w' e2] r have "ApplyEvent (Some mg) (bp_EventID p) e2 w' = ((no_result, None), w')"
    by (simp add: w1 none)
  then show ?thesis by (simp add: branch_runs[of "\<lambda>q. ApplyEvent (Some mg) (bp_EventID q)"])
qed

text \<open>
  The webhook changes something only for a POST that names an organization, in the query before the body; then it
  does what the reconciliation of that organization does, whoever sent it.
\<close>

lemma webhook_skips:
  "wh_Method r \<noteq> ''POST'' \<or> webhook_org r = [] \<Longrightarrow>
     casdoor_webhook ops r e w = (fst (casdoor_webhook ops r e w), w) \<and> hr_Status (fst (casdoor_webhook ops r e w)) \<in> {405, 202}"
  by (auto simp: casdoor_webhook_def ret_def Let_def)

lemma webhook_reconciles:
  assumes "wh_Method r = ''POST''" and "webhook_org r \<noteq> []"
    and "Reconcile (Some ops) (webhook_org r) ''casdoor_webhook'' e w = (x, w')"
  shows "casdoor_webhook ops r e w
    = (case x of Inl er \<Rightarrow> json_error 500 (err_text er) | Inr rc \<Rightarrow> writeJSON 202 (JsonReconcile rc), w')"
  using assms by (simp add: casdoor_webhook_def bind_io_def ret_def Let_def)

lemma webhook_query_first:
  "TrimSpace (wh_QueryOrg r) \<noteq> [] \<Longrightarrow> webhook_org r = TrimSpace (wh_QueryOrg r)"
  by (simp add: webhook_org_def)

end
