(* ===== verification/Commands.thy ===== *)
theory Commands
  imports ManifestCheck
begin

text \<open>
  The pure parts of the commands: the build information and the addresses that cmd/aisphere-iam/main.go fills in, its
  loop that schedules the job of expiring grants, and the check of the permission manifest
  (cmd/permission-manifest-check/main.go).  The flag parser, the file system, the YAML decoder, and the Dapr runtime that takes the job are
  parameters.
\<close>

subsection \<open>Build information\<close>

record build_config =
  bc_ServiceName :: string
  bc_ServiceVersion :: string
  bc_ServiceEnv :: string
  bc_LogServiceName :: string
  bc_LogEnv :: string
  bc_LogVersion :: string
  bc_MetricsPath :: string
  bc_HTTPAddr :: string
  bc_DTMServiceBaseURL :: string
  bc_DTMBranchPrefix :: string

text \<open>The suffix from the last colon.\<close>

fun address_port :: "string \<Rightarrow> string option" where
  "address_port [] = None"
| "address_port (c # s) =
     (case address_port s of Some p \<Rightarrow> Some p | None \<Rightarrow> if c = CHR '':'' then Some (c # s) else None)"

definition normalizeAddrPort :: "string \<Rightarrow> string" where
  "normalizeAddrPort addr = (case address_port addr of Some p \<Rightarrow> p | None \<Rightarrow> '':8000'')"

definition or_default :: "string \<Rightarrow> string \<Rightarrow> string" where
  "or_default v d = (if v = [] then d else v)"

definition applyBuildInfo :: "string \<Rightarrow> string \<Rightarrow> build_config \<Rightarrow> build_config" where
  "applyBuildInfo Name Version bc =
     (let bc = bc\<lparr>bc_ServiceName := or_default (bc_ServiceName bc) Name,
                  bc_ServiceVersion := or_default (bc_ServiceVersion bc) Version,
                  bc_ServiceEnv := or_default (bc_ServiceEnv bc) ''local''\<rparr>;
          bc = bc\<lparr>bc_LogServiceName := or_default (bc_LogServiceName bc) (bc_ServiceName bc),
                  bc_LogEnv := or_default (bc_LogEnv bc) (bc_ServiceEnv bc),
                  bc_LogVersion := or_default (bc_LogVersion bc) (bc_ServiceVersion bc),
                  bc_MetricsPath := or_default (bc_MetricsPath bc) ''/metrics''\<rparr>;
          bc = (if bc_DTMServiceBaseURL bc = [] \<and> bc_HTTPAddr bc \<noteq> []
                then bc\<lparr>bc_DTMServiceBaseURL := ''http://127.0.0.1'' @ normalizeAddrPort (bc_HTTPAddr bc)\<rparr> else bc)
      in bc\<lparr>bc_DTMBranchPrefix := or_default (bc_DTMBranchPrefix bc) ''/internal/dtm''\<rparr>)"

subsection \<open>Scheduling the job\<close>

text \<open>
  Durations are nanoseconds.  The loop is attempt after attempt; \<open>cancelled n\<close> says that the context is done before
  the pause behind attempt \<open>n\<close> is over.  The result is whether the job was scheduled, the pauses begun, and the state of
  the runtime; \<open>None\<close> is a loop that never ends.
\<close>

definition second :: int where "second = 1000000000"

definition maxBackoff :: int where "maxBackoff = 30 * second"

definition next_backoff :: "int \<Rightarrow> int" where
  "next_backoff backoff = (let backoff = backoff * 2 in if backoff > maxBackoff then maxBackoff else backoff)"

partial_function (option) job_loop ::
    "('w \<Rightarrow> (err + unit) \<times> 'w) \<Rightarrow> (nat \<Rightarrow> bool) \<Rightarrow> nat \<Rightarrow> int \<Rightarrow> int list \<Rightarrow> 'w \<Rightarrow> (bool \<times> int list \<times> 'w) option" where
  "job_loop schedule cancelled attempt backoff pauses w =
     (if \<not> isl (fst (schedule w)) then Some (True, pauses, snd (schedule w))
      else if cancelled attempt then Some (False, pauses @ [backoff], snd (schedule w))
      else job_loop schedule cancelled (attempt + 1) (next_backoff backoff) (pauses @ [backoff]) (snd (schedule w)))"

definition ensureGrantExpirationJob ::
    "('w \<Rightarrow> (err + unit) \<times> 'w) \<Rightarrow> (nat \<Rightarrow> bool) \<Rightarrow> 'w \<Rightarrow> (bool \<times> int list \<times> 'w) option" where
  "ensureGrantExpirationJob schedule cancelled w = job_loop schedule cancelled 1 second [] w"

subsection \<open>The check of the permission manifest\<close>

definition permission_manifest_check ::
    "(nat \<Rightarrow> nat) \<Rightarrow> (string list \<Rightarrow> err + string \<times> string) \<Rightarrow> (string \<Rightarrow> err + Manifest) \<Rightarrow> (string \<Rightarrow> err + string)
     \<Rightarrow> string list \<Rightarrow> err + string" where
  "permission_manifest_check c parse_flags load_file read_file args =
     (case parse_flags args of
        Inl er \<Rightarrow> Inl er
      | Inr (manifestPath, schemaPath) \<Rightarrow>
        (case load_file manifestPath of
           Inl er \<Rightarrow> Inl (ErrNew (''load permission manifest: '' @ err_text er))
         | Inr manifest \<Rightarrow>
           (case read_file schemaPath of
              Inl er \<Rightarrow> Inl (ErrNew (''read SpiceDB schema: '' @ err_text er))
            | Inr body \<Rightarrow>
              (case ParseSchema body of
                 Inl er \<Rightarrow> Inl (ErrNew (''parse SpiceDB schema: '' @ err_text er))
               | Inr schema \<Rightarrow>
                 (case Validate c (Some manifest) schema of
                    Inl er \<Rightarrow> Inl er
                  | Inr _ \<Rightarrow> Inr (''permission manifest valid: '' @ Itoa (int (length (mf_ResourceTypes manifest)))
                      @ '' resource types, '' @ Itoa (int (length (mf_RoleTemplates manifest))) @ '' role templates, ''
                      @ Itoa (int (length (Definitions schema))) @ '' schema definitions'' @ [CHR 0x0A]))))))"

subsection \<open>Laws\<close>

lemma address_port_None [simp]: "CHR '':'' \<notin> set s \<Longrightarrow> address_port s = None"
  by (induction s) auto

lemma address_port_split: "CHR '':'' \<notin> set t \<Longrightarrow> address_port (s @ CHR '':'' # t) = Some (CHR '':'' # t)"
  by (induction s) simp_all

text \<open>The port of an address with a host, a bracketed IPv6 address included.\<close>

lemma normalizeAddrPort_port: "CHR '':'' \<notin> set port \<Longrightarrow> normalizeAddrPort (host @ '':'' @ port) = '':'' @ port"
  by (simp add: normalizeAddrPort_def address_port_split)

lemma or_default_again: "or_default (or_default v d) d' = (if d = [] then or_default v d' else or_default v d)"
  by (simp add: or_default_def)

lemma applyBuildInfo_fields:
  "bc_ServiceName (applyBuildInfo N V bc) = or_default (bc_ServiceName bc) N"
  "bc_ServiceVersion (applyBuildInfo N V bc) = or_default (bc_ServiceVersion bc) V"
  "bc_ServiceEnv (applyBuildInfo N V bc) = or_default (bc_ServiceEnv bc) ''local''"
  "bc_LogServiceName (applyBuildInfo N V bc) = or_default (bc_LogServiceName bc) (or_default (bc_ServiceName bc) N)"
  "bc_LogEnv (applyBuildInfo N V bc) = or_default (bc_LogEnv bc) (or_default (bc_ServiceEnv bc) ''local'')"
  "bc_LogVersion (applyBuildInfo N V bc) = or_default (bc_LogVersion bc) (or_default (bc_ServiceVersion bc) V)"
  "bc_MetricsPath (applyBuildInfo N V bc) = or_default (bc_MetricsPath bc) ''/metrics''"
  "bc_HTTPAddr (applyBuildInfo N V bc) = bc_HTTPAddr bc"
  "bc_DTMServiceBaseURL (applyBuildInfo N V bc) = (if bc_DTMServiceBaseURL bc = [] \<and> bc_HTTPAddr bc \<noteq> []
     then ''http://127.0.0.1'' @ normalizeAddrPort (bc_HTTPAddr bc) else bc_DTMServiceBaseURL bc)"
  "bc_DTMBranchPrefix (applyBuildInfo N V bc) = or_default (bc_DTMBranchPrefix bc) ''/internal/dtm''"
  by (simp_all add: applyBuildInfo_def Let_def)

text \<open>Filling in is finished after once.\<close>

lemma applyBuildInfo_idem:
  fixes bc :: build_config
  assumes "N \<noteq> []" "V \<noteq> []"
  shows "applyBuildInfo N V (applyBuildInfo N V bc) = applyBuildInfo N V bc"
proof (rule build_config.equality)
  show "bc_DTMServiceBaseURL (applyBuildInfo N V (applyBuildInfo N V bc)) = bc_DTMServiceBaseURL (applyBuildInfo N V bc)"
    unfolding applyBuildInfo_fields by simp
qed (unfold applyBuildInfo_fields, use assms in \<open>simp_all add: or_default_def\<close>)

text \<open>The state of the runtime after \<open>n\<close> attempts.\<close>

primrec after :: "('w \<Rightarrow> (err + unit) \<times> 'w) \<Rightarrow> nat \<Rightarrow> 'w \<Rightarrow> 'w" where
  "after schedule 0 w = w"
| "after schedule (Suc n) w = after schedule n (snd (schedule w))"

fun backoffs :: "nat \<Rightarrow> int \<Rightarrow> int list" where
  "backoffs 0 b = []"
| "backoffs (Suc n) b = b # backoffs n (next_backoff b)"

text \<open>The attempts from \<open>attempt\<close> on before the \<open>n\<close>-th fail and are followed by their whole pause.\<close>

definition goes_on :: "('w \<Rightarrow> (err + unit) \<times> 'w) \<Rightarrow> (nat \<Rightarrow> bool) \<Rightarrow> nat \<Rightarrow> 'w \<Rightarrow> nat \<Rightarrow> bool" where
  "goes_on schedule cancelled attempt w n \<longleftrightarrow>
     (\<forall>i < n. isl (fst (schedule (after schedule i w))) \<and> \<not> cancelled (attempt + i))"

lemma goes_on_Suc: "goes_on schedule cancelled attempt w (Suc n) \<longleftrightarrow>
  isl (fst (schedule w)) \<and> \<not> cancelled attempt \<and> goes_on schedule cancelled (attempt + 1) (snd (schedule w)) n"
  by (auto simp: goes_on_def less_Suc_eq_0_disj)

lemma job_loop_steps:
  "goes_on schedule cancelled attempt w n \<Longrightarrow> job_loop schedule cancelled attempt b pauses w
     = job_loop schedule cancelled (attempt + n) ((next_backoff ^^ n) b) (pauses @ backoffs n b) (after schedule n w)"
proof (induction n arbitrary: attempt b pauses w)
  case (Suc n)
  from Suc.prems have h: "isl (fst (schedule w))" "\<not> cancelled attempt"
    and g: "goes_on schedule cancelled (attempt + 1) (snd (schedule w)) n"
    unfolding goes_on_Suc by auto
  have "job_loop schedule cancelled attempt b pauses w
      = job_loop schedule cancelled (attempt + 1) (next_backoff b) (pauses @ [b]) (snd (schedule w))"
    using h by (subst job_loop.simps) simp
  also have "\<dots> = job_loop schedule cancelled (attempt + 1 + n) ((next_backoff ^^ n) (next_backoff b))
      ((pauses @ [b]) @ backoffs n (next_backoff b)) (after schedule n (snd (schedule w)))"
    by (rule Suc.IH[OF g])
  finally show ?case by (simp add: funpow_swap1)
qed simp

lemma job_loop_returns:
  assumes "job_loop schedule cancelled attempt b pauses w = Some y"
  shows "\<exists>n. goes_on schedule cancelled attempt w n
    \<and> (isl (fst (schedule (after schedule n w))) \<longrightarrow> cancelled (attempt + n))"
  using assms
proof (induction schedule cancelled attempt b pauses w y rule: job_loop.raw_induct[rotated, consumes 1])
  case (1 loop schedule cancelled attempt b pauses w y)
  show ?case
  proof (cases "isl (fst (schedule w)) \<and> \<not> cancelled attempt")
    case False
    then have "goes_on schedule cancelled attempt w 0
        \<and> (isl (fst (schedule (after schedule 0 w))) \<longrightarrow> cancelled (attempt + 0))" by (simp add: goes_on_def)
    then show ?thesis by blast
  next
    case True
    then have "loop schedule cancelled (attempt + 1) (next_backoff b) (pauses @ [b]) (snd (schedule w)) = Some y"
      using 1(2) by simp
    from 1(1)[OF this] obtain n where "goes_on schedule cancelled (attempt + 1) (snd (schedule w)) n"
      and "isl (fst (schedule (after schedule n (snd (schedule w))))) \<longrightarrow> cancelled (attempt + 1 + n)" by blast
    then have "goes_on schedule cancelled attempt w (Suc n)
        \<and> (isl (fst (schedule (after schedule (Suc n) w))) \<longrightarrow> cancelled (attempt + Suc n))"
      using True by (simp add: goes_on_Suc)
    then show ?thesis by blast
  qed
qed

definition pause :: "nat \<Rightarrow> int" where "pause i = min (2 ^ i * second) maxBackoff"

lemma next_pause: "next_backoff (pause i) = pause (Suc i)"
  by (simp add: next_backoff_def pause_def maxBackoff_def second_def min_def Let_def)

lemma backoffs_pauses: "backoffs n (pause k) = map pause [k..<k + n]"
  by (induction n arbitrary: k) (simp_all add: next_pause upt_rec)

text \<open>The end of the loop after \<open>n\<close> failures.\<close>

lemma job_ends:
  assumes "goes_on schedule cancelled 1 w n"
    and "isl (fst (schedule (after schedule n w))) \<Longrightarrow> cancelled (Suc n)"
  shows "ensureGrantExpirationJob schedule cancelled w =
    (if isl (fst (schedule (after schedule n w)))
     then Some (False, map pause [0..<Suc n], after schedule (Suc n) w)
     else Some (True, map pause [0..<n], after schedule (Suc n) w))"
proof -
  have b: "(next_backoff ^^ n) (pause 0) = pause n" by (induction n) (simp_all add: next_pause)
  have s: "snd (schedule (after schedule n w)) = after schedule (Suc n) w" by (induction n arbitrary: w) simp_all
  have "ensureGrantExpirationJob schedule cancelled w
      = job_loop schedule cancelled (1 + n) (pause n) (map pause [0..<n]) (after schedule n w)"
    using job_loop_steps[OF assms(1), of "pause 0" "[]"] b backoffs_pauses[of n 0]
    by (simp add: ensureGrantExpirationJob_def) (simp add: pause_def maxBackoff_def second_def)
  then show ?thesis using assms(2) s by (subst (asm) job_loop.simps) auto
qed

text \<open>
  The job is scheduled when an attempt succeeds before the context is done; the pauses before it are a second,
  doubled up to half a minute.  The loop is endless only when every attempt fails and the context is never done.
\<close>

lemma job_scheduled_iff:
  "ensureGrantExpirationJob schedule cancelled w = Some (True, pauses, w') \<longleftrightarrow>
     (\<exists>n. goes_on schedule cancelled 1 w n \<and> \<not> isl (fst (schedule (after schedule n w)))
        \<and> pauses = map (\<lambda>i. min (2 ^ i * second) maxBackoff) [0..<n] \<and> w' = after schedule (Suc n) w)" (is "?l = ?r")
proof
  assume l: ?l
  then obtain n where n: "goes_on schedule cancelled 1 w n"
    "isl (fst (schedule (after schedule n w))) \<longrightarrow> cancelled (Suc n)"
    using job_loop_returns by (fastforce simp: ensureGrantExpirationJob_def)
  with l job_ends[OF n(1)] show ?r by (intro exI[of _ n]) (auto simp: pause_def split: if_splits)
next
  assume ?r
  then obtain n where n: "goes_on schedule cancelled 1 w n" "\<not> isl (fst (schedule (after schedule n w)))"
    and y: "pauses = map pause [0..<n]" "w' = after schedule (Suc n) w" by (auto simp: pause_def)
  show ?l using job_ends[OF n(1)] n(2) y by simp
qed

lemma job_endless_iff:
  "ensureGrantExpirationJob schedule cancelled w = None \<longleftrightarrow> (\<forall>n. goes_on schedule cancelled 1 w n)" (is "?l = ?r")
proof
  assume l: ?l
  show ?r
  proof
    fix n show "goes_on schedule cancelled 1 w n"
    proof (induction n)
      case (Suc n)
      then have "isl (fst (schedule (after schedule n w))) \<and> \<not> cancelled (Suc n)"
        using l job_ends[OF Suc] by (fastforce split: if_splits)
      then show ?case using Suc by (auto simp: goes_on_def less_Suc_eq)
    qed (simp add: goes_on_def)
  qed
next
  assume r: ?r
  show ?l
  proof (rule ccontr)
    assume "\<not> ?l"
    then obtain n where "isl (fst (schedule (after schedule n w))) \<longrightarrow> cancelled (Suc n)"
      using job_loop_returns by (fastforce simp: ensureGrantExpirationJob_def)
    moreover have "goes_on schedule cancelled 1 w (Suc n)" using r by blast
    ultimately show False by (auto simp: goes_on_def)
  qed
qed

end
