(* ===== verification/TraceCheck.thy ===== *)
theory TraceCheck
  imports Regexp
begin

text \<open>
  The check of the chain from requirements over artifacts to tests (cmd/traceability-check/main.go): three documents are
  read line by line with regular expressions and compared.  The printed lines of the report are left out, except for the
  numbers they show.  \<open>exists\<close> is \<open>fileExists\<close> under the root directory; a document that cannot be
  opened is \<open>None\<close>.
\<close>

record REQ =
  req_ID :: string
  req_Text :: string
  req_Status :: string

record ART =
  art_ID :: string
  art_REQID :: string
  art_Path :: string

record TC =
  tc_ID :: string
  tc_REQID :: string
  tc_Desc :: string
  tc_Type :: string
  tc_Status :: string
  tc_File :: string

definition knownGaps :: "string list" where
  "knownGaps = [''REQ-IAM-DEPRECATED-001'', ''REQ-IAM-DECISION-001'', ''REQ-IAM-DECISION-002'',
     ''REQ-IAM-PROJECT-004'', ''REQ-IAM-PROJECT-005'', ''REQ-IAM-PROJECT-006'', ''REQ-IAM-PROJECT-007'',
     ''REQ-IAM-PROJECT-008'', ''REQ-IAM-RESOURCE-001'', ''REQ-IAM-RESOURCE-002'', ''REQ-IAM-RESOURCE-003'',
     ''REQ-IAM-RESOURCE-004'', ''REQ-IAM-RESOURCE-005'', ''REQ-IAM-GRANT-002'', ''REQ-IAM-GRANT-003'',
     ''REQ-IAM-GRANT-004'']"

subsection \<open>Lines\<close>

text \<open>
  bufio.Scanner: the text behind the last line feed is a line unless it is empty, one carriage return at the end of
  a line is dropped, and a line that does not fit into the buffer of 64 KiB ends the scan.
\<close>

fun raw_lines :: "string \<Rightarrow> string list" where
  "raw_lines [] = []"
| "raw_lines (c # s) =
     (if c = CHR 0x0A then [] # raw_lines s
      else case s of [] \<Rightarrow> [[c]]
        | d # r \<Rightarrow> if d = CHR 0x0A then [c] # raw_lines r
            else (case raw_lines s of [] \<Rightarrow> [[c]] | l # ls \<Rightarrow> (c # l) # ls))"

definition drop_cr :: "string \<Rightarrow> string" where
  "drop_cr l = (if l \<noteq> [] \<and> last l = CHR 0x0D then butlast l else l)"

definition scan_lines :: "string \<Rightarrow> string list" where
  "scan_lines s = map drop_cr (takeWhile (\<lambda>l. length l < 65536) (raw_lines s))"

subsection \<open>The documents\<close>

definition digit_re :: re where "digit_re = Cls (\<lambda>c. c \<in> set ''0123456789'')"

definition word_re :: re where "word_re = Cls word_char"

text \<open>\<open>^##\s+(REQ-IAM-\w+-\d+)\<close> and the pattern of a status line.\<close>

definition heading_re :: re where
  "heading_re = Seq Bol (Seq (lit ''##'') (Seq (plus space_re)
     (Cap 1 (Seq (lit ''REQ-IAM-'') (Seq (plus word_re) (Seq (lit ''-'') (plus digit_re)))))))"

definition status_re :: re where
  "status_re = Seq (lit ''**Status:**'') (Seq (Star space_re) (Seq (lit [CHR 0x60])
     (Seq (Cap 1 (plus (Cls (\<lambda>c. c \<noteq> CHR 0x60)))) (lit [CHR 0x60]))))"

definition submatch :: "re \<Rightarrow> string \<Rightarrow> (nat \<times> string) list option" where
  "submatch r s = map_option (snd \<circ> snd) (find_re r None s)"

text \<open>The loop over the lines; the requirement whose status is awaited is \<open>(currentID, currentLines)\<close>.\<close>

fun requirement_lines :: "string \<Rightarrow> string list \<Rightarrow> string list \<Rightarrow> REQ list" where
  "requirement_lines cur ls [] =
     (if cur \<noteq> [] then [\<lparr>req_ID = cur, req_Text = Join ls '' '', req_Status = []\<rparr>] else [])"
| "requirement_lines cur ls (line # rest) =
     (case submatch heading_re line of
        Some k \<Rightarrow>
          (if cur \<noteq> [] then [\<lparr>req_ID = cur, req_Text = Join ls '' '', req_Status = []\<rparr>] else [])
          @ requirement_lines (capture 1 k) [] rest
      | None \<Rightarrow>
          if cur = [] then requirement_lines cur ls rest
          else (case submatch status_re line of
             Some k \<Rightarrow> \<lparr>req_ID = cur, req_Text = Join ls '' '', req_Status = capture 1 k\<rparr> # requirement_lines [] [] rest
           | None \<Rightarrow> requirement_lines cur (ls @ [TrimSpace line]) rest))"

definition parseRequirements :: "string option \<Rightarrow> REQ list" where
  "parseRequirements doc = (case doc of None \<Rightarrow> [] | Some s \<Rightarrow> requirement_lines [] [] (scan_lines s))"

text \<open>\<open>\|\s*(ART-\d+)\s*\|\s*((?:REQ-IAM-)?\w+-\d+)\s*\|\<close>, and the same with \<open>TC\<close>.\<close>

definition row_re :: "string \<Rightarrow> re" where
  "row_re kind = Seq (lit ''|'') (Seq (Star space_re) (Seq (Cap 1 (Seq (lit kind) (plus digit_re))) (Seq (Star space_re)
     (Seq (lit ''|'') (Seq (Star space_re) (Seq (Cap 2 (Seq (Alt (lit ''REQ-IAM-'') (lit []))
        (Seq (plus word_re) (Seq (lit ''-'') (plus digit_re))))) (Seq (Star space_re) (lit ''|''))))))))"

definition full_id :: "string \<Rightarrow> string" where
  "full_id reqID = (if HasPrefix reqID ''REQ-IAM-'' then reqID else ''REQ-IAM-'' @ reqID)"

definition artifact_row :: "string \<Rightarrow> ART list" where
  "artifact_row line = (case submatch (row_re ''ART-'') line of
     None \<Rightarrow> [] | Some k \<Rightarrow> [\<lparr>art_ID = capture 1 k, art_REQID = full_id (capture 2 k), art_Path = []\<rparr>])"

definition parseARTs :: "string option \<Rightarrow> ART list" where
  "parseARTs doc = (case doc of None \<Rightarrow> [] | Some s \<Rightarrow> concat (map artifact_row (scan_lines s)))"

text \<open>The two marks, in UTF-8.\<close>

definition done_mark :: string where "done_mark = [CHR 0xE2, CHR 0x9C, CHR 0x85]"

definition open_mark :: string where "open_mark = [CHR 0xE2, CHR 0x9D, CHR 0x8C]"

definition test_row :: "string \<Rightarrow> TC list" where
  "test_row line = (case submatch (row_re ''TC-'') line of
     None \<Rightarrow> []
   | Some k \<Rightarrow> [\<lparr>tc_ID = capture 1 k, tc_REQID = full_id (capture 2 k),
        tc_Desc = [], tc_Type = [], tc_Status = (if Contains line done_mark then done_mark else open_mark), tc_File = []\<rparr>])"

definition parseTCs :: "string option \<Rightarrow> TC list" where
  "parseTCs doc = (case doc of None \<Rightarrow> [] | Some s \<Rightarrow> concat (map test_row (scan_lines s)))"

subsection \<open>The comparison\<close>

definition hasARTFor :: "ART list \<Rightarrow> string \<Rightarrow> bool" where
  "hasARTFor arts reqID \<longleftrightarrow> list_ex (\<lambda>a. art_REQID a = reqID) arts"

definition hasTCFor :: "TC list \<Rightarrow> string \<Rightarrow> bool" where
  "hasTCFor tcs reqID \<longleftrightarrow> list_ex (\<lambda>t. tc_REQID t = reqID) tcs"

definition implemented :: "REQ \<Rightarrow> bool" where
  "implemented r \<longleftrightarrow> req_Status r = ''OBSERVED_IMPLEMENTED'' \<or> req_Status r = ''PARTIAL_IMPLEMENTATION''"

record trace_counts =
  tr_withoutART :: nat
  tr_skippedART :: nat
  tr_implemented :: nat
  tr_withoutTest :: nat
  tr_skippedTest :: nat
  tr_missingPaths :: nat

definition trace_check :: "REQ list \<Rightarrow> ART list \<Rightarrow> TC list \<Rightarrow> (string \<Rightarrow> bool) \<Rightarrow> trace_counts" where
  "trace_check reqs arts tcs exists = \<lparr>
     tr_withoutART = length (filter (\<lambda>r. req_ID r \<notin> set knownGaps \<and> \<not> hasARTFor arts (req_ID r)) reqs),
     tr_skippedART = length (filter (\<lambda>r. req_ID r \<in> set knownGaps) reqs),
     tr_implemented = length (filter implemented reqs),
     tr_withoutTest = length (filter (\<lambda>r. implemented r \<and> req_ID r \<notin> set knownGaps \<and> \<not> hasTCFor tcs (req_ID r)) reqs),
     tr_skippedTest = length (filter (\<lambda>r. implemented r \<and> req_ID r \<in> set knownGaps) reqs),
     tr_missingPaths = length (filter (\<lambda>a. art_Path a \<noteq> [] \<and> art_Path a \<noteq> ''-'' \<and> \<not> exists (art_Path a)) arts)\<rparr>"

text \<open>The requirements that the coverage is printed for; an int, since the list may hold fewer than the known gaps.\<close>

definition effectiveReqs :: "REQ list \<Rightarrow> int" where
  "effectiveReqs reqs = int (length reqs) - int (length knownGaps)"

text \<open>The exit code of \<open>main\<close>.\<close>

definition trace_main :: "bool \<Rightarrow> string option \<Rightarrow> string option \<Rightarrow> string option \<Rightarrow> (string \<Rightarrow> bool) \<Rightarrow> nat" where
  "trace_main strict requirements manifest tests exists =
     (let n = trace_check (parseRequirements requirements) (parseARTs manifest) (parseTCs tests) exists;
          totalGaps = tr_withoutART n + tr_withoutTest n + tr_missingPaths n
      in if totalGaps > 0 \<and> strict then 1 else 0)"

subsection \<open>What the exit code says\<close>

lemma parsed_paths: "a \<in> set (parseARTs manifest) \<Longrightarrow> art_Path a = []"
  by (auto simp: parseARTs_def artifact_row_def split: option.splits)

text \<open>The parser of the artifacts reads no path, so the check of the paths passes for every document.\<close>

lemma paths_never_missing: "tr_missingPaths (trace_check reqs (parseARTs manifest) tcs exists) = 0"
  using parsed_paths by (auto simp: trace_check_def filter_empty_conv)

lemma strict_passes_iff:
  "trace_main True requirements manifest tests exists = 0 \<longleftrightarrow>
     (\<forall>r \<in> set (parseRequirements requirements). req_ID r \<in> set knownGaps
        \<or> (\<exists>a \<in> set (parseARTs manifest). art_REQID a = req_ID r)
          \<and> (implemented r \<longrightarrow> (\<exists>t \<in> set (parseTCs tests). tc_REQID t = req_ID r)))"
  unfolding trace_main_def Let_def add_is_0 paths_never_missing
  by (auto simp: trace_check_def filter_empty_conv hasARTFor_def hasTCFor_def list_ex_iff)

text \<open>Without its documents the strict check passes.\<close>

lemma nothing_passes: "trace_main True None None None exists = 0"
  by (simp add: trace_main_def trace_check_def parseRequirements_def parseARTs_def parseTCs_def)

end
