(* ===== verification/RegexpLaws.thy ===== *)
theory RegexpLaws
  imports Regexp
begin

text \<open>
  How the matcher runs on texts of a known form: a greedy class before something that cannot start
  with one of its bytes takes the longest run, a literal takes itself, a lazy class stops where the rest first matches.
\<close>

definition behind :: "char option \<Rightarrow> string \<Rightarrow> char option" where
  "behind p u = (if u = [] then p else Some (last u))"

lemma behind_simps [simp]: "behind p [] = p" "behind p (c # u) = behind (Some c) u"
  by (simp_all add: behind_def)

lemma behind_append [simp]: "behind p (u @ v) = behind (behind p u) v"
  by (simp add: behind_def)

definition fails_on :: "(char \<Rightarrow> bool) \<Rightarrow> re \<Rightarrow> bool" where
  "fails_on P r \<longleftrightarrow> (\<forall>p c cs k. P c \<longrightarrow> run r (p, c # cs, k) = [])"

lemma fails_onD: "fails_on P r \<Longrightarrow> P c \<Longrightarrow> run r (p, c # cs, k) = []"
  by (simp add: fails_on_def)

lemma run_assoc: "run (Seq (Seq a b) c) s = run (Seq a (Seq b c)) s"
proof -
  have "concat (map f (concat (map g xs))) = concat (map (\<lambda>x. concat (map f (g x))) xs)" for f :: "mstate \<Rightarrow> mstate list" and g and xs :: "mstate list"
    by (induction xs) simp_all
  moreover have "run (Seq b c) = (\<lambda>x. concat (map (run c) (run b x)))" by (rule ext) simp
  ultimately show ?thesis by simp
qed

lemma star_step:
  "run (Star (Cls P)) (p, [], k) = [(p, [], k)]"
  "run (Star (Cls P)) (p, c # cs, k) = (if P c then run (Star (Cls P)) (Some c, cs, k) else []) @ [(p, c # cs, k)]"
  by (simp_all add: run.simps(5))

lemma lazy_step:
  "run (LazyStar (Cls P)) (p, [], k) = [(p, [], k)]"
  "run (LazyStar (Cls P)) (p, c # cs, k) = (p, c # cs, k) # (if P c then run (LazyStar (Cls P)) (Some c, cs, k) else [])"
  by (simp_all add: run.simps(6))

lemma fails_cls: "(\<And>c. P c \<Longrightarrow> \<not> Q c) \<Longrightarrow> fails_on P (Cls Q)"
  by (simp add: fails_on_def)

lemma fails_seq: "fails_on P a \<Longrightarrow> fails_on P (Seq a b)"
  by (simp add: fails_on_def)

lemma fails_cap: "fails_on P a \<Longrightarrow> fails_on P (Cap n a)"
  by (simp add: fails_on_def)

lemma fails_alt: "fails_on P a \<Longrightarrow> fails_on P b \<Longrightarrow> fails_on P (Alt a b)"
  by (simp add: fails_on_def)

lemma fails_star: "(\<And>c. P c \<Longrightarrow> \<not> Q c) \<Longrightarrow> fails_on P b \<Longrightarrow> fails_on P (Seq (Star (Cls Q)) b)"
  by (simp add: fails_on_def star_step)

lemma fails_lit: "s \<noteq> [] \<Longrightarrow> \<not> P (hd s) \<Longrightarrow> fails_on P (lit s)"
  by (cases s; cases "tl s") (auto simp: fails_on_def lit_def)

lemmas fails = fails_cls fails_seq fails_cap fails_alt fails_lit

subsection \<open>Literals and greedy classes\<close>

lemma run_text: "run (text_re c s) (p, (c # s) @ v, k) = [(behind p (c # s), v, k)]"
  by (induction s arbitrary: c p) auto

lemma run_lit: "s \<noteq> [] \<Longrightarrow> run (lit s) (p, s @ v, k) = [(behind p s, v, k)]"
  using run_text[of "hd s" "tl s" p v k] by (cases s) (simp_all add: lit_def del: text_re.simps)

lemma lit_then: "s \<noteq> [] \<Longrightarrow> run (Seq (lit s) b) (p, s @ v, k) = run b (behind p s, v, k)"
  by (simp add: run_lit)

lemma star_then:
  assumes "\<forall>c \<in> set u. P c" and "v = [] \<or> \<not> P (hd v)" and b: "fails_on P b"
  shows "run (Seq (Star (Cls P)) b) (p, u @ v, k) = run b (behind p u, v, k)"
  using assms(1)
proof (induction u arbitrary: p)
  case Nil
  then show ?case using assms(2) by (cases v) (simp_all add: star_step)
next
  case (Cons c u)
  then have "run (Seq (Star (Cls P)) b) (Some c, u @ v, k) = run b (behind (Some c) u, v, k)" by simp
  then show ?case using Cons.prems fails_onD[OF b] by (simp add: star_step)
qed

lemma first_star_then:
  assumes "\<forall>c \<in> set u. P c" and "v = [] \<or> \<not> P (hd v)" and b: "first b (behind p u, v, k) = Some t"
  shows "first (Seq (Star (Cls P)) b) (p, u @ v, k) = Some t"
  using assms(1,3)
proof (induction u arbitrary: p)
  case Nil
  then show ?case using assms(2) by (cases v) (simp_all add: star_step first_def)
next
  case (Cons c u)
  then have "first (Seq (Star (Cls P)) b) (Some c, u @ v, k) = Some t" by simp
  then obtain ts where "concat (map (run b) (run (Star (Cls P)) (Some c, u @ v, k))) = t # ts"
    by (auto simp: first_def split: list.splits)
  then show ?case using Cons.prems(1) by (simp add: star_step first_def)
qed

text \<open>A greedy class inside a group.\<close>

lemma star_cap_then:
  assumes "\<forall>c \<in> set u. P c" and "v = [] \<or> \<not> P (hd v)" and b: "fails_on P b"
  shows "concat (map (\<lambda>(q, t, j). run b (q, t, f t # j)) (run (Star (Cls P)) (p, u @ v, k)))
    = run b (behind p u, v, f v # k)"
  using assms(1)
proof (induction u arbitrary: p)
  case Nil
  then show ?case using assms(2) by (cases v) (simp_all add: star_step)
next
  case (Cons c u)
  then show ?case using Cons.prems fails_onD[OF b] by (simp add: star_step)
qed

lemma cap_then:
  "run (Seq (Cap n a) b) (p, s, k)
     = concat (map (\<lambda>(q, t, j). run b (q, t, (n, take (length s - length t) s) # j)) (run a (p, s, k)))"
  by (simp add: comp_def case_prod_beta')

lemma ident_then:
  assumes x: "x = c # w" "ident_start c" "\<forall>d \<in> set w. word_char d" and v: "v = [] \<or> \<not> word_char (hd v)"
    and b: "fails_on word_char b"
  shows "run (Seq (Cap n ident_re) b) (p, x @ v, k) = run b (behind p x, v, (n, x) # k)"
  using star_cap_then[OF x(3) v b, of "\<lambda>t. (n, take (length (x @ v) - length t) (x @ v))" "Some c" k]
  by (simp add: cap_then ident_re_def x(1,2) del: run.simps(7) run.simps(3)) (simp add: x(2))

subsection \<open>Lazy classes\<close>

lemma lazy_cap_first:
  assumes "\<forall>c \<in> set w. P c" and "\<And>x y q. w = x @ y \<Longrightarrow> y \<noteq> [] \<Longrightarrow> run b (q, y @ v, f (y @ v) # k) = []"
    and "first b (behind p w, v, f v # k) = Some t"
  shows "(case concat (map (\<lambda>(q, t, j). run b (q, t, f t # j)) (run (LazyStar (Cls P)) (p, w @ v, k))) of
      [] \<Rightarrow> None | s # _ \<Rightarrow> Some s) = Some t"
  using assms
proof (induction w arbitrary: p)
  case Nil
  then show ?case by (cases v) (auto simp: lazy_step first_def split: list.splits)
next
  case (Cons c w)
  have "run b (q, y @ v, f (y @ v) # k) = []" if "w = x @ y" "y \<noteq> []" for x y q
    using Cons.prems(2)[of "c # x" y q] that by simp
  then show ?case using Cons.IH[of "Some c"] Cons.prems(1,3) Cons.prems(2)[of "[]" "c # w"] by (simp add: lazy_step)
qed

end
