(* ===== verification/SchemaRoundtrip.thy ===== *)
theory SchemaRoundtrip
  imports RegexpLaws SchemaLaws
begin

text \<open>
  The schema reader against a writer: a schema that is laid out with one declaration on each line, with comments and blanks
  between them as in configs/spicedb/aisphere.schema.zed, is read back as it was written.  With that the guards of the
  start-up are stated on the declarations themselves, without the reader.
\<close>

subsection \<open>Written schemas\<close>

text \<open>A source schema: its definitions, each with its declarations in their order.\<close>

datatype decl = Relation string string | Permission string string

type_synonym source = "(string \<times> decl list) list"

primrec decl_kind :: "decl \<Rightarrow> string" where
  "decl_kind (Relation n x) = ''relation''" | "decl_kind (Permission n x) = ''permission''"

primrec decl_name :: "decl \<Rightarrow> string" where
  "decl_name (Relation n x) = n" | "decl_name (Permission n x) = n"

primrec decl_expr :: "decl \<Rightarrow> string" where
  "decl_expr (Relation n x) = x" | "decl_expr (Permission n x) = x"

definition nl :: char where "nl = CHR 0x0A"

definition re_space :: "char \<Rightarrow> bool" where
  "re_space c \<longleftrightarrow> c \<in> set [CHR 0x09, CHR 0x0A, CHR 0x0C, CHR 0x0D, CHR 0x20]"

text \<open>What stands between the declarations of a text: blanks and line ends, comments up to the end of the line, and
  comments in stars.\<close>

datatype trivia = Blanks string | LineNote string | StarNote string

primrec trivia_text :: "trivia \<Rightarrow> string" where
  "trivia_text (Blanks s) = s"
| "trivia_text (LineNote t) = ''//'' @ t @ [nl]"
| "trivia_text (StarNote t) = ''/*'' @ t @ ''*/''"

fun unclosed :: "string \<Rightarrow> bool" where
  "unclosed (c # d # s) \<longleftrightarrow> \<not> (c = CHR ''*'' \<and> d = CHR ''/'') \<and> unclosed (d # s)"
| "unclosed s \<longleftrightarrow> True"

primrec trivia_ok :: "trivia \<Rightarrow> bool" where
  "trivia_ok (Blanks s) = (\<forall>c \<in> set s. re_space c)"
| "trivia_ok (LineNote t) = (nl \<notin> set t)"
| "trivia_ok (StarNote t) = unclosed t"

definition fill_text :: "trivia list \<Rightarrow> string" where "fill_text ts = concat (map trivia_text ts)"

text \<open>The line ends in it.\<close>

primrec breaks_line :: "trivia \<Rightarrow> bool" where
  "breaks_line (Blanks s) = (nl \<in> set s)"
| "breaks_line (LineNote t) = True"
| "breaks_line (StarNote t) = (nl \<in> set t)"

primrec decl_text :: "decl \<Rightarrow> string" where
  "decl_text (Relation n x) = ''relation '' @ n @ '': '' @ x"
| "decl_text (Permission n x) = ''permission '' @ n @ '' = '' @ x"

text \<open>A definition as it is laid out: what stands before it, its name, its declarations with what stands before each, and
  what stands before the closing brace.  A document ends with what stands behind its last definition.\<close>

record laid =
  la_lead :: "trivia list"
  la_name :: string
  la_decls :: "(trivia list \<times> decl) list"
  la_tail :: "trivia list"

record document =
  dc_definitions :: "laid list"
  dc_tail :: "trivia list"

definition body_text :: "(trivia list \<times> decl) list \<Rightarrow> string" where
  "body_text ds = concat (map (\<lambda>(ts, d). fill_text ts @ decl_text d) ds)"

definition definition_text :: "laid \<Rightarrow> string" where
  "definition_text l = fill_text (la_lead l) @ ''definition '' @ la_name l @ '' {''
     @ body_text (la_decls l) @ fill_text (la_tail l) @ ''}''"

definition schema_text :: "document \<Rightarrow> string" where
  "schema_text doc = concat (map definition_text (dc_definitions doc)) @ fill_text (dc_tail doc)"

definition said :: "document \<Rightarrow> source" where
  "said doc = map (\<lambda>l. (la_name l, map snd (la_decls l))) (dc_definitions doc)"

text \<open>What can be written like that: identifiers as names, and expressions of one line of ASCII without braces,
  slashes and outer blanks; names are unique.\<close>

definition ident :: "string \<Rightarrow> bool" where
  "ident n \<longleftrightarrow> n \<noteq> [] \<and> ident_start (hd n) \<and> (\<forall>c \<in> set (tl n). word_char c)"

definition expr_ok :: "string \<Rightarrow> bool" where
  "expr_ok x \<longleftrightarrow> x \<noteq> [] \<and> \<not> re_space (hd x) \<and> \<not> re_space (last x)
     \<and> (\<forall>c \<in> set x. line_byte c \<and> of_char c < (128::nat) \<and> c \<notin> set ''{}/'')"

definition source_ok :: "source \<Rightarrow> bool" where
  "source_ok s \<longleftrightarrow> distinct (map fst s) \<and> (\<forall>(n, ds) \<in> set s. ident n \<and> distinct (map decl_name ds)
     \<and> (\<forall>d \<in> set ds. ident (decl_name d) \<and> expr_ok (decl_expr d)))"

text \<open>Each declaration but the first of a definition begins on a new line.\<close>

definition laid_ok :: "laid \<Rightarrow> bool" where
  "laid_ok l \<longleftrightarrow> list_all trivia_ok (la_lead l) \<and> list_all trivia_ok (la_tail l)
     \<and> list_all (\<lambda>(ts, d). list_all trivia_ok ts) (la_decls l)
     \<and> list_all (\<lambda>(ts, d). list_ex breaks_line ts) (tl (la_decls l))"

definition document_ok :: "document \<Rightarrow> bool" where
  "document_ok doc \<longleftrightarrow> source_ok (said doc) \<and> list_all laid_ok (dc_definitions doc) \<and> list_all trivia_ok (dc_tail doc)"

text \<open>The schema that the text stands for; blanks in expressions do not count.\<close>

definition squeeze :: "string \<Rightarrow> string" where
  "squeeze x = filter (\<lambda>c. c \<notin> set ascii_spaces) x"

definition is_relation :: "decl \<Rightarrow> bool" where "is_relation d \<longleftrightarrow> decl_kind d = ''relation''"

definition meant :: "decl list \<Rightarrow> Definition" where
  "meant ds = (let entry = (\<lambda>d. (decl_name d, squeeze (decl_expr d))) in
     \<lparr>Relations = map entry (filter is_relation ds), Permissions = map entry (filter (\<lambda>d. \<not> is_relation d) ds)\<rparr>)"

definition meaning :: "source \<Rightarrow> Schema" where
  "meaning s = \<lparr>Definitions = map (\<lambda>(n, ds). (n, meant ds)) s\<rparr>"

subsection \<open>Declarations\<close>

lemma space_re_alt: "space_re = Cls re_space"
  by (simp add: space_re_def re_space_def fun_eq_iff)

lemma no_space: "ident_start c \<Longrightarrow> \<not> re_space c" "word_char c \<Longrightarrow> \<not> re_space c" "ident_start c \<Longrightarrow> word_char c"
  by (auto simp: ident_start_def word_char_def re_space_def)

definition sep_byte :: "char \<Rightarrow> bool" where "sep_byte c \<longleftrightarrow> c = CHR '':'' \<or> c = CHR ''=''"

abbreviation tail_re :: re where "tail_re \<equiv> Seq (Star (Cls re_space)) Eol"

abbreviation expr_re :: re where
  "expr_re \<equiv> Seq (Cap 3 (Seq (Cls line_byte) (LazyStar (Cls line_byte)))) tail_re"

lemma eol_later:
  "\<forall>x \<in> set u. re_space x \<and> x \<noteq> nl \<Longrightarrow> \<not> re_space c \<Longrightarrow> run tail_re (p, u @ c # y, k) = []"
proof (induction u arbitrary: p)
  case Nil
  then show ?case by (auto simp: star_step re_space_def)
next
  case (Cons d u)
  then have "run tail_re (Some d, u @ c # y, k) = []" by simp
  then show ?case using Cons.prems by (simp add: star_step nl_def)
qed

lemma first_step:
  assumes "P d" "first (Seq (Star (Cls P)) b) (Some d, cs, k) = Some t"
  shows "first (Seq (Star (Cls P)) b) (p, d # cs, k) = Some t"
proof -
  have "run (Seq (Star (Cls P)) b) (p, d # cs, k) = run (Seq (Star (Cls P)) b) (Some d, cs, k) @ run b (p, d # cs, k)"
    using assms(1) by (simp add: star_step)
  with assms(2) show ?thesis unfolding first_def by (cases "run (Seq (Star (Cls P)) b) (Some d, cs, k)") (simp_all del: run.simps)
qed

lemma run_seq: "run (Seq a b) s = concat (map (run b) (run a s))"
  by simp

text \<open>What follows an expression: blanks up to the end of the body, or up to the last line end before more text.\<close>

lemma eol_end: "\<forall>c \<in> set v. re_space c \<Longrightarrow> first tail_re (p, v, k) = Some (behind p v, [], k)"
  using first_star_then[of v re_space "[]" Eol p k] by (simp add: first_def)

lemma eol_line:
  assumes "\<forall>x \<in> set w. re_space x" and u: "\<forall>x \<in> set u. re_space x \<and> x \<noteq> nl" "\<not> re_space c"
  shows "first tail_re (p, w @ nl # u @ c # y, k) = Some (behind p w, nl # u @ c # y, k)"
  using assms(1)
proof (induction w arbitrary: p)
  case Nil
  let ?s = "nl # u @ c # y" and ?R = "run (Star (Cls re_space)) (Some nl, u @ c # y, k)"
  have "run tail_re (Some nl, u @ c # y, k) = []" by (rule eol_later[OF u])
  then have later: "concat (map (run Eol) ?R) = []" by (simp only: run_seq)
  have "run (Star (Cls re_space)) (p, ?s, k) = ?R @ [(p, ?s, k)]" by (simp add: star_step re_space_def nl_def)
  then have "run tail_re (p, ?s, k) = concat (map (run Eol) (?R @ [(p, ?s, k)]))" by (simp only: run_seq)
  also have "\<dots> = [(p, ?s, k)]" unfolding map_append concat_append later by (simp add: nl_def)
  finally show ?case by (simp add: first_def)
next
  case (Cons d w)
  have "first tail_re (Some d, w @ nl # u @ c # y, k) = Some (behind (Some d) w, nl # u @ c # y, k)"
    using Cons by simp
  from first_step[OF _ this] show ?case using Cons.prems by simp
qed

lemma expr_first:
  assumes x: "expr_ok x" and v: "\<And>j. first tail_re (Some (last x), v, j) = Some (q, t, j)"
  shows "first expr_re (p, x @ v, k) = Some (q, t, (3, x) # k)"
proof -
  obtain c w where xc: "x = c # w" using x by (auto simp: expr_ok_def neq_Nil_conv)
  have line: "line_byte c" "\<forall>d \<in> set w. line_byte d" using x by (simp_all add: expr_ok_def xc)
  let ?f = "\<lambda>t. (3, take (length (x @ v) - length t) (x @ v))"
  have stop: "run tail_re (q, y @ v, j) = []" if y: "w = z @ y" "y \<noteq> []" for z y q j
  proof -
    let ?u = "takeWhile re_space y"
    have "\<not> re_space (last y)" using x y by (simp add: expr_ok_def xc split: if_splits)
    then have "dropWhile re_space y \<noteq> []" using y(2) by (metis dropWhile_eq_Nil_conv last_in_set)
    then obtain d r where d: "dropWhile re_space y = d # r" by (meson neq_Nil_conv)
    then have "y = ?u @ d # r" "\<not> re_space d" using takeWhile_dropWhile_id[of re_space y] hd_dropWhile[of re_space y] by simp_all
    moreover have "\<forall>b \<in> set ?u. re_space b \<and> b \<noteq> nl"
      using line(2) y(1) by (auto simp: line_byte_def nl_def dest: set_takeWhileD)
    ultimately show ?thesis using eol_later[of ?u d q "r @ v" j] by (metis append.assoc append_Cons)
  qed
  have last: "behind (Some c) w = Some (last x)" by (simp add: behind_def xc)
  have "first tail_re (behind (Some c) w, v, ?f v # k) = Some (q, t, ?f v # k)"
    unfolding last by (rule v)
  note L = lazy_cap_first[where P = line_byte and b = tail_re and f = ?f and p = "Some c" and k = k, OF line(2) _ this]
  have "run (Seq (Cls line_byte) (LazyStar (Cls line_byte))) (p, x @ v, k) = run (LazyStar (Cls line_byte)) (Some c, w @ v, k)"
    using line(1) by (simp add: xc)
  then have "run expr_re (p, x @ v, k)
      = concat (map (\<lambda>(q, t, j). run tail_re (q, t, ?f t # j)) (run (LazyStar (Cls line_byte)) (Some c, w @ v, k)))"
    by (simp only: cap_then)
  then have "first expr_re (p, x @ v, k) = Some (q, t, ?f v # k)"
    unfolding first_def using L stop by presburger
  then show ?thesis by simp
qed

text \<open>A declaration: blanks, the keyword, a blank, the name, the separator, a blank, the expression.\<close>

definition gap :: "decl \<Rightarrow> string" where "gap d = (if is_relation d then [] else '' '')"

definition sep :: "decl \<Rightarrow> char" where "sep d = (if is_relation d then CHR '':'' else CHR ''='')"

lemma decl_text_parts:
  "decl_text d = decl_kind d @ CHR '' '' # decl_name d @ gap d @ sep d # CHR '' '' # decl_expr d"
  by (cases d) (simp_all add: gap_def sep_def is_relation_def)

definition decl_caps :: "decl \<Rightarrow> (nat \<times> string) list" where
  "decl_caps d = [(3, decl_expr d), (2, decl_name d), (1, decl_kind d)]"

abbreviation kind_re :: re where "kind_re \<equiv> Alt (lit ''relation'') (lit ''permission'')"

lemma kind_run: "run kind_re (p, decl_kind d @ v, k) = [(behind p (decl_kind d), v, k)]"
proof (cases d)
  case (Relation n x)
  have "fails_on (\<lambda>c. c = CHR ''r'') (lit ''permission'')" by (rule fails_lit) simp_all
  from fails_onD[OF this] have "run (lit ''permission'') (p, ''relation'' @ v, k) = []" by simp
  then show ?thesis using run_lit[of "''relation''" p v k] Relation by simp
next
  case (Permission n x)
  have "fails_on (\<lambda>c. c = CHR ''p'') (lit ''relation'')" by (rule fails_lit) simp_all
  from fails_onD[OF this] have "run (lit ''relation'') (p, ''permission'' @ v, k) = []" by simp
  then show ?thesis using run_lit[of "''permission''" p v k] Permission by simp
qed

lemma kind_fails: "fails_on re_space kind_re"
  by (intro fails_alt fails_lit) (simp_all add: re_space_def)

lemma cap_kind: "run (Seq (Cap 1 kind_re) b) (p, decl_kind d @ v, k) = run b (behind p (decl_kind d), v, (1, decl_kind d) # k)"
  unfolding cap_then kind_run by simp

abbreviation sep_re :: re where "sep_re \<equiv> Seq (Cls (\<lambda>c. c = CHR '':'' \<or> c = CHR ''='')) (Seq (Star (Cls re_space)) expr_re)"

lemma declaration_first:
  assumes p: "p = None \<or> p = Some nl" and pre: "\<forall>c \<in> set pre. re_space c"
    and n: "ident (decl_name d)" and x: "expr_ok (decl_expr d)"
    and v: "\<And>j. first tail_re (Some (last (decl_expr d)), v, j) = Some (q, t, j)"
  shows "first declarationPattern (p, pre @ decl_text d @ v, []) = Some (q, t, decl_caps d)"
proof -
  let ?n = "decl_name d" and ?x = "decl_expr d"
  let ?A = "Seq (Star (Cls re_space)) sep_re"
  let ?B = "Seq (Cap 2 ident_re) ?A"
  let ?C = "Seq (plus (Cls re_space)) ?B"
  let ?v1 = "gap d @ sep d # CHR '' '' # ?x @ v"
  obtain c w where nc: "?n = c # w" "ident_start c" "\<forall>d \<in> set w. word_char d"
    using n by (cases ?n) (auto simp: ident_def)
  have sepfail: "fails_on re_space sep_re" by (intro fails_seq fails_cls) (auto simp: re_space_def)
  have wordfail: "fails_on word_char ?A"
    by (intro fails_star fails_seq fails_cls) (auto simp: no_space word_char_def)
  have bfail: "fails_on re_space ?B"
    unfolding ident_re_def by (intro fails_seq fails_cap fails_cls) (auto simp: no_space)
  have cfail: "fails_on re_space (Seq (Cap 1 kind_re) ?C)" by (intro fails_seq fails_cap kind_fails)
  have bol: "run (Seq Bol r) (p, s, k) = run r (p, s, k)" for r s k using p by (auto simp: nl_def)
  have kd: "\<not> re_space (hd (decl_kind d @ z))" for z by (cases d) (simp_all add: re_space_def)
  have hd_v1: "?v1 = [] \<or> \<not> word_char (hd ?v1)" by (simp add: gap_def sep_def word_char_def)
  have "run declarationPattern (p, pre @ decl_text d @ v, [])
      = run (Seq (Cap 1 kind_re) ?C) (behind p pre, decl_kind d @ CHR '' '' # ?n @ ?v1, [])"
    unfolding declarationPattern_def space_re_alt bol
    using star_then[OF pre _ cfail, of "decl_kind d @ CHR '' '' # ?n @ ?v1"] kd by (simp add: decl_text_parts)
  also have "\<dots> = run ?C (behind (behind p pre) (decl_kind d), CHR '' '' # ?n @ ?v1, [(1, decl_kind d)])"
    by (rule cap_kind)
  also have "\<dots> = run (Seq (Star (Cls re_space)) ?B) (Some (CHR '' ''), ?n @ ?v1, [(1, decl_kind d)])"
    unfolding plus_def run_assoc by (simp add: re_space_def)
  also have "\<dots> = run ?B (Some (CHR '' ''), ?n @ ?v1, [(1, decl_kind d)])"
    using star_then[OF _ _ bfail, of "[]" "?n @ ?v1"] nc no_space by simp
  also have "\<dots> = run ?A (behind (Some (CHR '' '')) ?n, ?v1, [(2, ?n), (1, decl_kind d)])"
    by (rule ident_then[OF nc hd_v1 wordfail])
  also have "\<dots> = run sep_re (behind (behind (Some (CHR '' '')) ?n) (gap d), sep d # CHR '' '' # ?x @ v, [(2, ?n), (1, decl_kind d)])"
    by (rule star_then[OF _ _ sepfail]) (simp_all add: gap_def sep_def re_space_def)
  also have "\<dots> = run (Seq (Star (Cls re_space)) expr_re) (Some (sep d), '' '' @ ?x @ v, [(2, ?n), (1, decl_kind d)])"
    by (simp add: sep_def)
  finally have run: "first declarationPattern (p, pre @ decl_text d @ v, [])
      = first (Seq (Star (Cls re_space)) expr_re) (Some (sep d), '' '' @ ?x @ v, [(2, ?n), (1, decl_kind d)])"
    by (simp only: first_def)
  have "?x \<noteq> [] \<and> \<not> re_space (hd ?x)" using x by (simp add: expr_ok_def)
  then have hx: "?x @ v = [] \<or> \<not> re_space (hd (?x @ v))" by simp
  show ?thesis unfolding run decl_caps_def
    by (rule first_star_then[where P = re_space and v = "?x @ v", OF _ hx expr_first[OF x v]]) (simp add: re_space_def)
qed

subsection \<open>Bodies\<close>

lemma find_here: "first r (p, s, []) = Some t \<Longrightarrow> find_re r p s = Some t"
  by (cases s) simp_all

lemma find_later: "first r (p, c # s, []) = None \<Longrightarrow> find_re r p (c # s) = find_re r (Some c) s"
  by simp

lemma declaration_inside: "c \<noteq> nl \<Longrightarrow> first declarationPattern (Some c, s, []) = None"
  by (simp add: declarationPattern_def first_def nl_def)

lemma bol_none: "run r (p, s, k) = [] \<Longrightarrow> run (Seq Bol r) (p, s, k) = []"
  by (cases p) auto

lemma no_declaration: "\<forall>c \<in> set s. re_space c \<Longrightarrow> find_all declarationPattern p s = []"
proof -
  assume s: "\<forall>c \<in> set s. re_space c"
  have e: "run kind_re (q, [], k) = []" for q k by (simp add: lit_def)
  have none: "first declarationPattern (p, s, []) = None" if "\<forall>c \<in> set s. re_space c" for p s
  proof -
    have "run (Seq (Cap 1 kind_re) r) (behind p s, [], []) = []" for r using e by (simp add: cap_then)
    then have "run (Seq (Star (Cls re_space)) (Seq (Cap 1 kind_re) r)) (p, s, []) = []" for r
      using star_then[OF that disjI1[OF refl] fails_seq[OF fails_cap[OF kind_fails]], of 1 r p "[]"] by simp
    then show ?thesis unfolding declarationPattern_def space_re_alt first_def by (simp only: bol_none list.case)
  qed
  have "find_re declarationPattern p s = None" using s
  proof (induction s arbitrary: p)
    case Nil
    then show ?case using none[of "[]" p] by simp
  next
    case (Cons c s)
    then show ?case using none[of "c # s" p] by simp
  qed
  then show ?thesis by (simp add: find_all.simps)
qed

text \<open>The text of a body without its comments: declarations with blanks before each, and blanks.\<close>

definition rows :: "(string \<times> decl) list \<Rightarrow> string \<Rightarrow> string" where
  "rows rs tail = concat (map (\<lambda>(sp, d). sp @ decl_text d) rs) @ tail"

lemma rows_simps [simp]: "rows [] tail = tail" "rows ((sp, d) # rs) tail = sp @ decl_text d @ rows rs tail"
  by (simp_all add: rows_def)

definition decl_ok :: "decl \<Rightarrow> bool" where "decl_ok d \<longleftrightarrow> ident (decl_name d) \<and> expr_ok (decl_expr d)"

lemma decl_text_start: "\<exists>c y. decl_text d = c # y \<and> \<not> re_space c"
  by (cases d) (simp_all add: re_space_def)

lemma find_all_step:
  assumes "decl_ok d" "\<forall>c \<in> set pre. re_space c" "p = None \<or> (\<exists>u. pre = nl # u)"
    and v: "\<And>j. first tail_re (Some (last (decl_expr d)), v, j) = Some (q, t, j)" and len: "length t \<le> length v"
  shows "find_all declarationPattern p (pre @ decl_text d @ v) = decl_caps d # find_all declarationPattern q t"
proof -
  have d: "ident (decl_name d)" "expr_ok (decl_expr d)" using assms(1) by (simp_all add: decl_ok_def)
  have found: "find_re declarationPattern p (pre @ decl_text d @ v) = Some (q, t, decl_caps d)"
  proof (cases "p = None \<or> p = Some nl")
    case True
    from declaration_first[OF this assms(2) d v] show ?thesis by (rule find_here)
  next
    case False
    then obtain u c where u: "pre = nl # u" "p = Some c" "c \<noteq> nl" using assms(3) by auto
    from assms(2) u(1) have "\<forall>c \<in> set u. re_space c" by simp
    from declaration_first[OF disjI2[OF refl] this d v] show ?thesis
      unfolding u(1,2) append_Cons find_later[OF declaration_inside[OF u(3)]] by (rule find_here)
  qed
  have "length t < length (pre @ decl_text d @ v)" using len by (cases d) simp_all
  with found show ?thesis by (subst find_all.simps) simp
qed

lemma find_all_rows:
  assumes tail: "\<forall>c \<in> set tail. re_space c"
    and "\<forall>(sp, d) \<in> set rs. decl_ok d \<and> nl \<in> set sp \<and> (\<forall>c \<in> set sp. re_space c)"
    and "decl_ok d" "\<forall>c \<in> set pre. re_space c" "p = None \<or> (\<exists>u. pre = nl # u)"
  shows "find_all declarationPattern p (pre @ decl_text d @ rows rs tail) = decl_caps d # map (\<lambda>(sp, d). decl_caps d) rs"
  using assms(2-)
proof (induction rs arbitrary: p pre d)
  case (Cons r rs)
  obtain sp d' where r: "r = (sp, d')" by fastforce
  obtain w u where sp: "sp = w @ nl # u" "nl \<notin> set u" using Cons.prems(1) split_list_last[of nl sp] r by auto
  obtain c y where hd: "decl_text d' = c # y" "\<not> re_space c" using decl_text_start by blast
  let ?x = "decl_expr d" and ?t = "(nl # u) @ decl_text d' @ rows rs tail"
  have sps: "\<forall>c \<in> set w. re_space c" "\<forall>c \<in> set u. re_space c \<and> c \<noteq> nl" using Cons.prems(1) r sp by auto
  then have "first tail_re (Some (last ?x), rows (r # rs) tail, j) = Some (behind (Some (last ?x)) w, ?t, j)" for j
    using eol_line[OF sps(1,2) hd(2), of "Some (last ?x)" "y @ rows rs tail" j] by (simp add: r sp(1) hd(1))
  note step = find_all_step[OF Cons.prems(2-4) this]
  have "find_all declarationPattern (behind (Some (last ?x)) w) ?t = decl_caps d' # map (\<lambda>(sp, d). decl_caps d) rs"
    using Cons.prems(1) sps(2) r by (intro Cons.IH) (auto simp: re_space_def nl_def)
  moreover have "length ?t \<le> length (rows (r # rs) tail)" by (simp add: r sp(1))
  ultimately show ?case using step by (simp add: r)
next
  case Nil
  have "first tail_re (Some (last (decl_expr d)), tail, j) = Some (behind (Some (last (decl_expr d))) tail, [], j)" for j
    by (rule eol_end[OF tail])
  from find_all_step[OF Nil(2-4) this] show ?case using no_declaration[of "[]"] by simp
qed

lemma find_all_body:
  assumes "\<forall>c \<in> set tail. re_space c" "\<forall>(sp, d) \<in> set rs. decl_ok d \<and> (\<forall>c \<in> set sp. re_space c)"
    and "\<forall>(sp, d) \<in> set (tl rs). nl \<in> set sp"
  shows "find_all declarationPattern None (rows rs tail) = map (\<lambda>(sp, d). decl_caps d) rs"
proof (cases rs)
  case Nil
  then show ?thesis using no_declaration assms(1) by simp
next
  case (Cons r rs')
  obtain sp d where r: "r = (sp, d)" by fastforce
  have "\<forall>(sp, d) \<in> set rs'. decl_ok d \<and> nl \<in> set sp \<and> (\<forall>c \<in> set sp. re_space c)" using assms(2,3) Cons by auto
  from find_all_rows[OF assms(1) this, of d sp None] show ?thesis using assms(2) Cons r by auto
qed

text \<open>The expressions are read without their blanks.\<close>

lemma normalize_ascii: "\<forall>c \<in> set x. of_char c < (128::nat) \<Longrightarrow> normalizeSchemaExpression x = squeeze x"
  by (induction x) (simp_all add: normalizeSchemaExpression.simps squeeze_def)

lemma put_new: "get_key m k = None \<Longrightarrow> put_key k v m = m @ [(k, v)]"
  by (induction m) auto

lemma add_members_meant:
  assumes "\<forall>d \<in> set ds. expr_ok (decl_expr d)" "distinct (map decl_name ds)"
    and "\<forall>d \<in> set ds. get_key (Relations f) (decl_name d) = None \<and> get_key (Permissions f) (decl_name d) = None"
  shows "add_members name (map decl_caps ds) f
    = Inr \<lparr>Relations = Relations f @ Relations (meant ds), Permissions = Permissions f @ Permissions (meant ds)\<rparr>"
  using assms
proof (induction ds arbitrary: f)
  case Nil
  then show ?case by (simp add: meant_def)
next
  case (Cons d ds)
  let ?e = "(decl_name d, squeeze (decl_expr d))"
  let ?f = "if is_relation d then f\<lparr>Relations := Relations f @ [?e]\<rparr> else f\<lparr>Permissions := Permissions f @ [?e]\<rparr>"
  have norm: "normalizeSchemaExpression (decl_expr d) = squeeze (decl_expr d)"
    using Cons.prems(1) by (intro normalize_ascii) (simp add: expr_ok_def)
  have caps: "capture 1 (decl_caps d) = decl_kind d" "capture 2 (decl_caps d) = decl_name d" "capture 3 (decl_caps d) = decl_expr d"
    by (simp_all add: capture_def decl_caps_def)
  have fresh: "get_key (Relations f) (decl_name d) = None" "get_key (Permissions f) (decl_name d) = None"
    using Cons.prems(3) by simp_all
  have add: "add_member name (decl_caps d) f = Inr ?f"
    unfolding add_member_def caps Let_def norm using fresh by (simp add: is_relation_def put_new)
  have "add_members name (map decl_caps ds) ?f
      = Inr \<lparr>Relations = Relations ?f @ Relations (meant ds), Permissions = Permissions ?f @ Permissions (meant ds)\<rparr>"
  proof (rule Cons.IH)
    show "\<forall>da \<in> set ds. get_key (Relations ?f) (decl_name da) = None \<and> get_key (Permissions ?f) (decl_name da) = None"
    proof
      fix da assume "da \<in> set ds"
      then have "decl_name da \<noteq> decl_name d" using Cons.prems(2) by (metis distinct.simps(2) imageI list.set_map list.simps(9))
      then show "get_key (Relations ?f) (decl_name da) = None \<and> get_key (Permissions ?f) (decl_name da) = None"
        using Cons.prems(3) \<open>da \<in> set ds\<close> by (simp add: map_add_def)
    qed
  qed (use Cons.prems in simp_all)
  then show ?case using add by (simp add: meant_def Let_def)
qed

lemma parse_body:
  assumes "\<forall>c \<in> set tail. re_space c" "\<forall>(sp, d) \<in> set rs. decl_ok d \<and> (\<forall>c \<in> set sp. re_space c)"
    and "\<forall>(sp, d) \<in> set (tl rs). nl \<in> set sp" "distinct (map decl_name (map snd rs))"
  shows "parseDefinition name (rows rs tail) = Inr (meant (map snd rs))"
proof -
  have "find_all declarationPattern None (rows rs tail) = map decl_caps (map snd rs)"
    unfolding find_all_body[OF assms(1-3)] by (simp add: case_prod_beta comp_def)
  moreover have "\<forall>d \<in> set (map snd rs). expr_ok (decl_expr d)" using assms(2) by (auto simp: decl_ok_def)
  ultimately show ?thesis
    using add_members_meant[OF _ assms(4), of empty_definition name]
    by (simp add: parseDefinition_def empty_definition_def)
qed

subsection \<open>Definitions\<close>

lemma definition_first:
  assumes p: "\<forall>c. p = Some c \<longrightarrow> \<not> word_char c" and n: "ident n"
  shows "first definitionPattern (p, ''definition '' @ n @ '' {'' @ v, []) = Some (Some (CHR ''{''), v, [(1, n)])"
proof -
  let ?A = "Seq (Star (Cls re_space)) (lit ''{'')"
  let ?B = "Seq (Cap 1 ident_re) ?A"
  obtain c w where nc: "n = c # w" "ident_start c" "\<forall>d \<in> set w. word_char d"
    using n by (cases n) (auto simp: ident_def)
  have wordb: "run (Seq WordB r) (p, ''definition'' @ z, k) = run r (p, ''definition'' @ z, k)" for r z k
    using p by (auto simp: word_before_def word_after_def word_char_def split: option.splits)
  have bfail: "fails_on re_space ?B"
    unfolding ident_re_def by (intro fails_seq fails_cap fails_cls) (auto simp: no_space)
  have lfail: "fails_on re_space (lit ''{'')" by (rule fails_lit) (simp_all add: re_space_def)
  have wordfail: "fails_on word_char ?A" by (intro fails_star fails_lit) (auto simp: no_space word_char_def)
  have "run definitionPattern (p, ''definition'' @ '' '' @ n @ '' {'' @ v, [])
      = run (Seq (plus (Cls re_space)) ?B) (behind p ''definition'', '' '' @ n @ '' {'' @ v, [])"
    unfolding definitionPattern_def space_re_alt wordb by (rule lit_then) simp
  also have "\<dots> = run (Seq (Star (Cls re_space)) ?B) (Some (CHR '' ''), n @ '' {'' @ v, [])"
    unfolding plus_def run_assoc by (simp add: re_space_def)
  also have "\<dots> = run ?B (Some (CHR '' ''), n @ '' {'' @ v, [])"
    using star_then[OF _ _ bfail, of "[]" "n @ '' {'' @ v"] nc no_space by simp
  also have "\<dots> = run ?A (behind (Some (CHR '' '')) n, '' {'' @ v, [(1, n)])"
    by (rule ident_then[OF nc _ wordfail]) (simp add: word_char_def)
  also have "\<dots> = run (lit ''{'') (Some (CHR '' ''), ''{'' @ v, [(1, n)])"
    using star_then[OF _ _ lfail, of "'' ''" "''{'' @ v" "behind (Some (CHR '' '')) n"] by (simp add: re_space_def)
  also have "\<dots> = [(Some (CHR ''{''), v, [(1, n)])]" using run_lit[of "''{''"] by simp
  finally show ?thesis by (simp add: first_def)
qed

lemma word_none: "run r (p, s, k) = [] \<Longrightarrow> run (Seq WordB r) (p, s, k) = []"
  by simp

lemma no_definition_space:
  assumes "s = [] \<or> re_space (hd s)" shows "first definitionPattern (p, s, []) = None"
proof -
  have f: "fails_on re_space (lit ''definition'')" by (rule fails_lit) (simp_all add: re_space_def)
  have "run (lit ''definition'') (p, s, []) = []"
  proof (cases s)
    case Nil
    then show ?thesis by (simp add: lit_def)
  next
    case (Cons c z)
    then show ?thesis using assms fails_onD[OF f] by simp
  qed
  then have "run (Seq (lit ''definition'') r) (p, s, []) = []" for r unfolding run_seq by simp
  from word_none[OF this] show ?thesis unfolding definitionPattern_def first_def by (simp only: list.case)
qed

lemma find_definition:
  assumes "\<forall>c \<in> set pre. re_space c" "ident n" "\<forall>c. p = Some c \<longrightarrow> \<not> word_char c"
  shows "find_re definitionPattern p (pre @ ''definition '' @ n @ '' {'' @ v) = Some (Some (CHR ''{''), v, [(1, n)])"
  using assms(1,3)
proof (induction pre arbitrary: p)
  case Nil
  then show ?case using find_here[OF definition_first[OF Nil(2) assms(2)]] by simp
next
  case (Cons c pre)
  have "\<not> word_char c" using Cons.prems(1) no_space(2) by auto
  then have "find_re definitionPattern (Some c) (pre @ ''definition '' @ n @ '' {'' @ v) = Some (Some (CHR ''{''), v, [(1, n)])"
    using Cons by simp
  moreover have "first definitionPattern (p, (c # pre) @ ''definition '' @ n @ '' {'' @ v, []) = None"
    using Cons.prems(1) by (intro no_definition_space) simp
  ultimately show ?case by simp
qed

lemma nothing_left: "\<forall>c \<in> set s. re_space c \<Longrightarrow> find_re definitionPattern p s = None"
proof (induction s arbitrary: p)
  case Nil
  then show ?case using no_definition_space[of "[]" p] by simp
next
  case (Cons c s)
  then show ?case using no_definition_space[of "c # s" p] by simp
qed

lemma matchingBrace_body:
  "CHR ''{'' \<notin> set b \<Longrightarrow> CHR ''}'' \<notin> set b \<Longrightarrow> matchingBrace 1 (b @ CHR ''}'' # r) = Some (b, r)"
  by (induction b) auto

definition reserved :: "char \<Rightarrow> bool" where "reserved c \<longleftrightarrow> c \<in> set ''{}/''"

lemma reserved_not: "reserved c \<Longrightarrow> \<not> word_char c \<and> \<not> ident_start c \<and> c \<notin> set ''relation permission :=''"
  by (auto simp: reserved_def word_char_def ident_start_def)

lemma ident_plain: "ident n \<Longrightarrow> reserved c \<Longrightarrow> c \<notin> set n"
  using reserved_not[of c] by (cases n) (auto simp: ident_def)

lemma expr_plain: "expr_ok x \<Longrightarrow> reserved c \<Longrightarrow> c \<notin> set x"
  unfolding expr_ok_def reserved_def by blast

lemma decl_text_set: "set (decl_text d) \<subseteq> set (decl_name d) \<union> set (decl_expr d) \<union> set ''relation permission :=''"
  by (cases d) auto

lemma decl_plain: "ident (decl_name d) \<Longrightarrow> expr_ok (decl_expr d) \<Longrightarrow> reserved c \<Longrightarrow> c \<notin> set (decl_text d)"
  using decl_text_set[of d] ident_plain[of "decl_name d" c] expr_plain[of "decl_expr d" c] reserved_not[of c] by blast

lemma rows_plain:
  assumes "\<forall>c \<in> set tail. re_space c" "\<forall>(sp, d) \<in> set rs. decl_ok d \<and> (\<forall>c \<in> set sp. re_space c)" "reserved c"
  shows "c \<notin> set (rows rs tail)"
proof -
  have "\<not> re_space c" using assms(3) by (auto simp: reserved_def re_space_def)
  moreover have "c \<notin> set (decl_text d)" if "(sp, d) \<in> set rs" for sp d
    using decl_plain[OF _ _ assms(3)] assms(2) that by (auto simp: decl_ok_def)
  ultimately show ?thesis using assms(1,2) by (auto simp: rows_def)
qed

lemmas braces_reserved = reserved_def[of "CHR ''{''", simplified] reserved_def[of "CHR ''}''", simplified]
  reserved_def[of "CHR ''/''", simplified]

text \<open>What is left of the text between declarations without its comments.\<close>

primrec trivia_space :: "trivia \<Rightarrow> string" where
  "trivia_space (Blanks s) = s"
| "trivia_space (LineNote t) = [nl]"
| "trivia_space (StarNote t) = filter (\<lambda>c. c = nl) t"

definition fill_space :: "trivia list \<Rightarrow> string" where "fill_space ts = concat (map trivia_space ts)"

lemma fill_space_ok: "list_all trivia_ok ts \<Longrightarrow> \<forall>c \<in> set (fill_space ts). re_space c"
proof -
  have "\<forall>c \<in> set (trivia_space t). re_space c" if "trivia_ok t" for t
    using that by (cases t) (auto simp: re_space_def nl_def)
  then show "list_all trivia_ok ts \<Longrightarrow> ?thesis" by (auto simp: fill_space_def list_all_iff)
qed

lemma fill_breaks: "list_ex breaks_line ts \<Longrightarrow> nl \<in> set (fill_space ts)"
proof -
  have "nl \<in> set (trivia_space t)" if "breaks_line t" for t using that by (cases t) auto
  then show "list_ex breaks_line ts \<Longrightarrow> ?thesis" by (auto simp: fill_space_def list_ex_iff)
qed

lemma strip_plain: "CHR ''/'' \<notin> set s \<Longrightarrow> strip_comments InText (s @ r) = s @ strip_comments InText r"
proof (induction s)
  case (Cons c s)
  then have "c \<noteq> CHR ''/''" by auto
  then have "strip_comments InText (c # s @ r) = c # strip_comments InText (s @ r)" by (cases "s @ r") simp_all
  then show ?case using Cons by simp
qed simp

lemma strip_line: "nl \<notin> set t \<Longrightarrow> strip_comments InLine (t @ nl # r) = nl # strip_comments InText r"
proof (induction t)
  case Nil
  then show ?case by (cases r) (simp_all add: nl_def)
next
  case (Cons c t)
  then have "c \<noteq> nl" by auto
  then have "strip_comments InLine (c # t @ nl # r) = strip_comments InLine (t @ nl # r)"
    by (cases t) (simp_all add: nl_def)
  then show ?case using Cons by simp
qed

lemma strip_block:
  "unclosed t \<Longrightarrow> strip_comments InBlock (t @ ''*/'' @ r) = filter (\<lambda>c. c = nl) t @ strip_comments InText r"
proof (induction t rule: unclosed.induct)
  case (1 c d s)
  then show ?case by (auto simp: nl_def)
qed (simp_all add: nl_def)

lemma strip_trivia: "trivia_ok t \<Longrightarrow> strip_comments InText (trivia_text t @ r) = trivia_space t @ strip_comments InText r"
proof (cases t)
  case (Blanks s)
  assume "trivia_ok t"
  then have "\<forall>c \<in> set s. re_space c" using Blanks by simp
  moreover have "\<not> re_space (CHR ''/'')" by (simp add: re_space_def)
  ultimately have "CHR ''/'' \<notin> set s" by blast
  then show ?thesis using Blanks strip_plain by simp
next
  case (LineNote u)
  assume "trivia_ok t"
  then show ?thesis using LineNote strip_line by simp
next
  case (StarNote u)
  assume "trivia_ok t"
  then show ?thesis using StarNote strip_block by simp
qed

lemma strip_fill: "list_all trivia_ok ts \<Longrightarrow> strip_comments InText (fill_text ts @ r) = fill_space ts @ strip_comments InText r"
  by (induction ts) (simp_all add: fill_text_def fill_space_def strip_trivia)

text \<open>A definition without its comments.\<close>

definition spaced :: "laid \<Rightarrow> (string \<times> decl) list" where
  "spaced l = map (\<lambda>(ts, d). (fill_space ts, d)) (la_decls l)"

definition block_text :: "laid \<Rightarrow> string" where
  "block_text l = rows (spaced l) (fill_space (la_tail l)) @ ''}''"

definition plain_text :: "laid \<Rightarrow> string" where
  "plain_text l = fill_space (la_lead l) @ ''definition '' @ la_name l @ '' {'' @ block_text l"

definition decls_ok :: "laid \<Rightarrow> bool" where
  "decls_ok l \<longleftrightarrow> ident (la_name l) \<and> list_all (\<lambda>(ts, d). decl_ok d) (la_decls l)
     \<and> distinct (map decl_name (map snd (la_decls l))) \<and> laid_ok l"

lemma spaced_ok:
  assumes "decls_ok l"
  shows "\<forall>c \<in> set (fill_space (la_tail l)). re_space c"
    "\<forall>(sp, d) \<in> set (spaced l). decl_ok d \<and> (\<forall>c \<in> set sp. re_space c)"
    "\<forall>(sp, d) \<in> set (tl (spaced l)). nl \<in> set sp" "map snd (spaced l) = map snd (la_decls l)"
  using assms fill_space_ok fill_breaks
  by (auto simp: decls_ok_def laid_ok_def spaced_def list_all_iff map_tl[symmetric])

lemma strip_rows:
  "list_all (\<lambda>(ts, d). list_all trivia_ok ts \<and> decl_ok d) ds \<Longrightarrow> strip_comments InText (body_text ds @ r)
     = rows (map (\<lambda>(ts, d). (fill_space ts, d)) ds) (strip_comments InText r)"
proof (induction ds)
  case (Cons x ds)
  obtain ts d where x: "x = (ts, d)" by fastforce
  have "CHR ''/'' \<notin> set (decl_text d)"
    using Cons.prems decl_plain[OF _ _ braces_reserved(3)] by (simp add: x decl_ok_def)
  then show ?case using Cons x by (simp add: body_text_def strip_fill strip_plain)
qed (simp add: body_text_def)

lemma rows_append: "rows rs (u @ v) = rows rs u @ v"
  by (simp add: rows_def)

lemma strip_definition:
  assumes "decls_ok l"
  shows "strip_comments InText (definition_text l @ r) = plain_text l @ strip_comments InText r"
proof -
  have ok: "list_all trivia_ok (la_lead l)" "list_all trivia_ok (la_tail l)"
    "list_all (\<lambda>(ts, d). list_all trivia_ok ts \<and> decl_ok d) (la_decls l)" "ident (la_name l)"
    using assms by (auto simp: decls_ok_def laid_ok_def list_all_iff)
  have n: "CHR ''/'' \<notin> set (la_name l)" by (rule ident_plain[OF ok(4) braces_reserved(3)])
  have "strip_comments InText (''}'' @ r) = ''}'' @ strip_comments InText r" by (rule strip_plain) simp
  then have tail: "strip_comments InText (fill_text (la_tail l) @ ''}'' @ r)
      = (fill_space (la_tail l) @ ''}'') @ strip_comments InText r" using strip_fill[OF ok(2)] by simp
  have head: "strip_comments InText ((''definition '' @ la_name l @ '' {'') @ z)
      = (''definition '' @ la_name l @ '' {'') @ strip_comments InText z" for z
    using n by (intro strip_plain) simp
  show ?thesis
    using strip_fill[OF ok(1)] head strip_rows[OF ok(3)] tail
    by (simp add: definition_text_def plain_text_def block_text_def spaced_def rows_append del: strip_comments.simps)
qed

lemma next_definition_written:
  assumes l: "decls_ok l" and free: "get_key (Definitions sch) (la_name l) = None"
  shows "next_definition (plain_text l @ r) sch = Inr (Some (la_name l, meant (map snd (la_decls l)), r))"
proof -
  let ?n = "la_name l" and ?body = "rows (spaced l) (fill_space (la_tail l))"
  note sp = spaced_ok[OF l]
  have n: "ident ?n" "\<forall>c \<in> set (fill_space (la_lead l)). re_space c" "distinct (map decl_name (map snd (spaced l)))"
    using l fill_space_ok[of "la_lead l"] by (simp_all add: decls_ok_def laid_ok_def sp(4))
  have "find_re definitionPattern None (plain_text l @ r) = Some (Some (CHR ''{''), ?body @ CHR ''}'' # r, [(1, ?n)])"
    using find_definition[OF n(2,1), of None "?body @ CHR ''}'' # r"] by (simp add: plain_text_def block_text_def del: find_re.simps)
  moreover have "matchingBrace 0 (CHR ''{'' # ?body @ CHR ''}'' # r) = Some (CHR ''{'' # ?body, r)"
    unfolding matchingBrace_open
    using matchingBrace_body[OF rows_plain rows_plain, OF sp(1,2) braces_reserved(1) sp(1,2) braces_reserved(2)] by simp
  ultimately show ?thesis
    using free parse_body[OF sp(1-3) n(3), of ?n] sp(4)
    by (simp add: next_definition_def capture_def del: matchingBrace.simps find_re.simps)
qed

definition laid_source :: "laid list \<Rightarrow> source" where
  "laid_source ls = map (\<lambda>l. (la_name l, map snd (la_decls l))) ls"

lemma parse_written:
  assumes "list_all decls_ok ls" "distinct (map la_name ls)" "\<forall>l \<in> set ls. get_key (Definitions sch) (la_name l) = None"
    and tail: "\<forall>c \<in> set tail. re_space c"
  shows "parse_loop (concat (map plain_text ls) @ tail) sch
    = Inr \<lparr>Definitions = Definitions sch @ Definitions (meaning (laid_source ls))\<rparr>"
  using assms(1-3)
proof (induction ls arbitrary: sch)
  case Nil
  then show ?case
    using nothing_left[OF tail]
    by (simp add: meaning_def laid_source_def parse_loop.simps next_definition_def del: find_re.simps)
next
  case (Cons l ls)
  let ?r = "concat (map plain_text ls) @ tail" and ?d = "meant (map snd (la_decls l))"
  let ?sch = "sch\<lparr>Definitions := put_key (la_name l) ?d (Definitions sch)\<rparr>"
  have free: "get_key (Definitions sch) (la_name l) = None" using Cons.prems(3) by simp
  then have put: "put_key (la_name l) ?d (Definitions sch) = Definitions sch @ [(la_name l, ?d)]" by (rule put_new)
  have l: "decls_ok l" using Cons.prems(1) by simp
  have "plain_text l @ ?r \<noteq> []" by (simp add: plain_text_def block_text_def)
  then have "parse_loop (plain_text l @ ?r) sch = parse_loop ?r ?sch"
    using next_definition_written[OF l free, of ?r] by (subst parse_loop.simps) (simp del: append_is_Nil_conv)
  also have "\<dots> = Inr \<lparr>Definitions = Definitions ?sch @ Definitions (meaning (laid_source ls))\<rparr>"
  proof (rule Cons.IH)
    show "\<forall>m \<in> set ls. get_key (Definitions ?sch) (la_name m) = None"
    proof
      fix m assume m: "m \<in> set ls"
      then have "la_name m \<noteq> la_name l" using Cons.prems(2) by (metis distinct.simps(2) image_eqI list.set_map list.simps(9))
      then show "get_key (Definitions ?sch) (la_name m) = None" using Cons.prems(3) m by (simp add: put map_add_def)
    qed
  qed (use Cons.prems in simp_all)
  finally show ?case by (simp add: put meaning_def laid_source_def)
qed

lemma document_parts:
  assumes "document_ok doc"
  shows "list_all decls_ok (dc_definitions doc)" "distinct (map la_name (dc_definitions doc))"
    "said doc = laid_source (dc_definitions doc)" "source_ok (said doc)"
proof -
  show src: "source_ok (said doc)" using assms by (simp add: document_ok_def)
  show "said doc = laid_source (dc_definitions doc)" by (simp add: said_def laid_source_def)
  show "distinct (map la_name (dc_definitions doc))" using src by (simp add: source_ok_def said_def comp_def)
  have "decls_ok l" if "l \<in> set (dc_definitions doc)" for l
  proof -
    have "(la_name l, map snd (la_decls l)) \<in> set (said doc)" using that by (auto simp: said_def)
    with src have "ident (la_name l) \<and> distinct (map decl_name (map snd (la_decls l)))
      \<and> (\<forall>d \<in> set (map snd (la_decls l)). ident (decl_name d) \<and> expr_ok (decl_expr d))"
      unfolding source_ok_def by fast
    then have "ident (la_name l)" "distinct (map decl_name (map snd (la_decls l)))"
      "\<forall>d \<in> set (map snd (la_decls l)). decl_ok d" by (simp_all add: decl_ok_def)
    moreover have "laid_ok l" using assms that by (simp add: document_ok_def list_all_iff)
    ultimately show ?thesis by (auto simp: decls_ok_def list_all_iff)
  qed
  then show "list_all decls_ok (dc_definitions doc)" by (simp add: list_all_iff)
qed

text \<open>A written schema is read back as what was written.\<close>

lemma schema_read_back:
  assumes "document_ok doc" shows "ParseSchema (schema_text doc) = Inr (meaning (said doc))"
proof -
  have "strip_comments InText (concat (map definition_text ls) @ r) = concat (map plain_text ls) @ strip_comments InText r"
    if "list_all decls_ok ls" for ls r using that
    by (induction ls) (simp_all add: strip_definition)
  note strip = this[OF document_parts(1)[OF assms]]
  have t: "list_all trivia_ok (dc_tail doc)" using assms by (simp add: document_ok_def)
  have "stripSchemaComments (schema_text doc) = concat (map plain_text (dc_definitions doc)) @ fill_space (dc_tail doc)"
    using strip strip_fill[OF t, of "[]"] by (simp add: schema_text_def stripSchemaComments_def)
  then show ?thesis
    using parse_written[OF document_parts(1,2)[OF assms], of empty_schema "fill_space (dc_tail doc)"] fill_space_ok[OF t]
    by (simp add: ParseSchema_def empty_schema_def document_parts(3)[OF assms])
qed

subsection \<open>The guards of the start-up\<close>

text \<open>The declarations of a source schema: definition, kind, name and expression without blanks.\<close>

definition written :: "source \<Rightarrow> (string \<times> string \<times> string \<times> string) list" where
  "written s = concat (map (\<lambda>(f, ds). map (\<lambda>d. (f, decl_kind d, decl_name d, squeeze (decl_expr d))) ds) s)"

definition removes :: "source \<Rightarrow> source \<Rightarrow> bool" where
  "removes a b \<longleftrightarrow> \<not> list_all (\<lambda>f. f \<in> set (map fst b)) (map fst a)
     \<or> list_ex (\<lambda>(f, k, n, x). \<not> list_ex (\<lambda>(g, l, m, y). (g, l, m) = (f, k, n)) (written b)) (written a)"

definition changes :: "source \<Rightarrow> source \<Rightarrow> bool" where
  "changes a b \<longleftrightarrow> list_ex (\<lambda>(f, k, n, x). list_ex (\<lambda>(g, l, m, y). (g, l, m) = (f, k, n) \<and> y \<noteq> x) (written b)) (written a)"

definition says_same :: "source \<Rightarrow> source \<Rightarrow> bool" where
  "says_same a b \<longleftrightarrow> set (map fst a) = set (map fst b) \<and> set (written a) = set (written b)"

lemma defined_meaning: "defined (meaning s) = set (map fst s)"
  by (simp add: defined_def meaning_def dom_map_of_conv_image_fst image_image case_prod_beta)

lemma meant_members:
  assumes "distinct (map decl_name ds)"
  shows "members (meant ds) k n = Some x \<longleftrightarrow> (\<exists>d \<in> set ds. decl_kind d = k \<and> decl_name d = n \<and> squeeze (decl_expr d) = x)"
proof -
  have "distinct (map fst (map (\<lambda>d. (decl_name d, squeeze (decl_expr d))) (filter Q ds)))" for Q
    using assms by (simp add: comp_def distinct_map_filter)
  note get = map_of_eq_Some_iff[OF this]
  have kinds: "decl_kind d = ''relation'' \<or> decl_kind d = ''permission''" for d by (cases d) simp_all
  show ?thesis
  proof (cases "k = ''relation'' \<or> k = ''permission''")
    case True
    then show ?thesis
      using kinds by (auto simp: members_def meant_def Let_def get is_relation_def image_iff)
  next
    case False
    then show ?thesis using kinds by (auto simp: members_other)
  qed
qed

lemma declared_meaning:
  assumes "source_ok s" shows "declared (meaning s) (f, k, n) = Some x \<longleftrightarrow> (f, k, n, x) \<in> set (written s)"
proof -
  have dist: "distinct (map fst (map (\<lambda>(n, ds). (n, meant ds)) s))"
    using assms by (simp add: source_ok_def comp_def case_prod_beta)
  have G: "get_key (Definitions (meaning s)) f = Some e \<longleftrightarrow> (\<exists>ds. (f, ds) \<in> set s \<and> e = meant ds)" for e
    using map_of_eq_Some_iff[OF dist, of f e] by (auto simp: meaning_def)
  have "declared (meaning s) (f, k, n) = Some x
      \<longleftrightarrow> (\<exists>e. get_key (Definitions (meaning s)) f = Some e \<and> members e k n = Some x)"
    by (simp add: declared_def split: option.split)
  also have "\<dots> \<longleftrightarrow> (\<exists>ds. (f, ds) \<in> set s \<and> members (meant ds) k n = Some x)" by (auto simp: G)
  also have "\<dots> \<longleftrightarrow> (\<exists>ds. (f, ds) \<in> set s \<and>
      (\<exists>d \<in> set ds. decl_kind d = k \<and> decl_name d = n \<and> squeeze (decl_expr d) = x))"
  proof -
    have "distinct (map decl_name ds)" if "(f, ds) \<in> set s" for ds using assms that by (auto simp: source_ok_def)
    then show ?thesis by (intro ex_cong1 conj_cong refl meant_members)
  qed
  also have "\<dots> \<longleftrightarrow> (f, k, n, x) \<in> set (written s)" by (auto simp: written_def)
  finally show ?thesis .
qed

lemma meaning_wf: "document_ok doc \<Longrightarrow> schema_wf (meaning (said doc))"
  using schema_read_back ParseSchema_wf by blast

lemma removes_iff:
  assumes "source_ok a" "source_ok b" shows "removes a b \<longleftrightarrow> \<not> nothing_removed (meaning a) (meaning b)"
proof -
  have D: "(f, k, n) \<in> dom (declared (meaning s)) \<longleftrightarrow> (\<exists>x. (f, k, n, x) \<in> set (written s))" if "source_ok s" for s f k n
    by (simp add: domIff declared_meaning[OF that, symmetric])
  have "dom (declared (meaning a)) \<subseteq> dom (declared (meaning b)) \<longleftrightarrow>
      (\<forall>f k n x. (f, k, n, x) \<in> set (written a) \<longrightarrow> (\<exists>y. (f, k, n, y) \<in> set (written b)))"
    unfolding subset_iff split_paired_All D[OF assms(1)] D[OF assms(2)] by blast
  moreover have "list_ex (\<lambda>(f, k, n, x). \<not> list_ex (\<lambda>(g, l, m, y). (g, l, m) = (f, k, n)) (written b)) (written a) \<longleftrightarrow>
      \<not> (\<forall>f k n x. (f, k, n, x) \<in> set (written a) \<longrightarrow> (\<exists>y. (f, k, n, y) \<in> set (written b)))"
    unfolding list_ex_iff Bex_def split_paired_Ex by simp
  ultimately show ?thesis
    unfolding removes_def nothing_removed_def defined_meaning list_all_iff subset_iff by blast
qed

lemma changes_iff:
  assumes "source_ok a" "source_ok b" shows "changes a b \<longleftrightarrow> \<not> nothing_changed (meaning a) (meaning b)"
proof -
  have "\<not> nothing_changed (meaning a) (meaning b) \<longleftrightarrow>
      (\<exists>k x y. declared (meaning a) k = Some x \<and> declared (meaning b) k = Some y \<and> y \<noteq> x)"
    (is "?l \<longleftrightarrow> ?r")
  proof
    assume ?l
    then obtain k where k: "k \<in> dom (declared (meaning a))" "k \<in> dom (declared (meaning b))"
      and ne: "declared (meaning a) k \<noteq> declared (meaning b) k" unfolding nothing_changed_def by blast
    from k obtain x y where xy: "declared (meaning a) k = Some x" "declared (meaning b) k = Some y" unfolding domIff by blast
    with ne show ?r by (intro exI[of _ k] exI[of _ x] exI[of _ y]) simp
  next
    assume ?r
    then obtain k x y where "declared (meaning a) k = Some x" "declared (meaning b) k = Some y" "y \<noteq> x" by blast
    then have "k \<in> dom (declared (meaning a)) \<inter> dom (declared (meaning b))"
      and "declared (meaning a) k \<noteq> declared (meaning b) k" by (simp_all add: domI)
    then show ?l unfolding nothing_changed_def by blast
  qed
  also have "\<dots> \<longleftrightarrow> (\<exists>f k n x y. (f, k, n, x) \<in> set (written a) \<and> (f, k, n, y) \<in> set (written b) \<and> y \<noteq> x)"
    unfolding split_paired_Ex declared_meaning[OF assms(1)] declared_meaning[OF assms(2)] by simp
  also have "\<dots> \<longleftrightarrow> changes a b"
    unfolding changes_def list_ex_iff Bex_def split_paired_Ex by auto
  finally show ?thesis by blast
qed

lemma says_same_iff:
  "source_ok a \<Longrightarrow> source_ok b \<Longrightarrow>
     says_same a b \<longleftrightarrow> defined (meaning a) = defined (meaning b) \<and> declared (meaning a) = declared (meaning b)"
proof -
  assume a: "source_ok a" and b: "source_ok b"
  have "declared (meaning a) = declared (meaning b) \<longleftrightarrow>
      (\<forall>f k n x. declared (meaning a) (f, k, n) = Some x \<longleftrightarrow> declared (meaning b) (f, k, n) = Some x)"
    by (auto simp: fun_eq_iff) (metis option.exhaust)
  also have "\<dots> \<longleftrightarrow> set (written a) = set (written b)"
    unfolding declared_meaning[OF a] declared_meaning[OF b] by auto
  finally show ?thesis by (simp add: says_same_def defined_meaning)
qed

text \<open>C8. The schema step of the start-up, with the active schema and the file laid out as documents: each declaration after the
  first of a definition begins on a new line and stays on its line, and blanks, empty lines and comments may stand between
  them.  When the file would remove a definition or declaration of the active schema, or change an expression by more than
  blanks, and the flag for that is not set, the step fails and only reads; when both say the same, it succeeds and only
  reads; otherwise the file's text is validated and written.\<close>

theorem bootstrap_guarded:
  fixes active wanted :: document
  defines "a \<equiv> said active" and "b \<equiv> said wanted"
  assumes ok: "document_ok active" "document_ok wanted"
    and read: "sm_ReadSchema mgr m = (Inr (schema_text active), m1)" "desired_text rf cfg = Inr (schema_text wanted)"
  shows "if removes a b \<and> \<not> AllowSchemaDeletions cfg \<or> changes a b \<and> \<not> AllowPermissionMigrations cfg
    then \<exists>er. BootstrapAuthzSchema rf cfg (Some mgr) m = (Inl er, m1)
    else BootstrapAuthzSchema rf cfg (Some mgr) m =
      (if says_same a b then (Inr (), m1)
       else case sm_ValidateSchema mgr (schema_text wanted) m1 of
         (Inl er, m2) \<Rightarrow> (Inl er, m2) | (Inr _, m2) \<Rightarrow> sm_WriteSchema mgr (schema_text wanted) m2)"
proof -
  let ?d = "CompareSchemas (meaning a) (meaning b)"
  let ?au = "authorizeSchemaConflicts (Conflicts ?d) cfg"
  note parse = schema_read_back[OF ok(1), folded a_def] schema_read_back[OF ok(2), folded b_def]
  have src: "source_ok a" "source_ok b" using ok by (simp_all add: document_ok_def a_def b_def)
  have wf: "schema_wf (meaning a)" "schema_wf (meaning b)" using meaning_wf ok by (simp_all add: a_def b_def)
  have au: "?au = Inr () \<longleftrightarrow>
      \<not> (removes a b \<and> \<not> AllowSchemaDeletions cfg \<or> changes a b \<and> \<not> AllowPermissionMigrations cfg)"
    using authorized_iff[OF wf(1)] removes_iff[OF src] changes_iff[OF src] by blast
  have same: "Identical ?d \<longleftrightarrow> says_same a b"
    using identical_iff[OF wf] says_same_iff[OF src] by blast
  have none: "?au = Inr ()" if "Conflicts ?d = []" using that by (simp add: authorizeSchemaConflicts_def)
  have check: "(if length (Conflicts ?d) > 0 then ?au else Inr ()) = ?au" using none by simp
  have run: "BootstrapAuthzSchema rf cfg (Some mgr) m = (case ?au of Inl er \<Rightarrow> (Inl er, m1) | Inr _ \<Rightarrow>
      if Identical ?d then (Inr (), m1)
      else case sm_ValidateSchema mgr (schema_text wanted) m1 of (v, m2) \<Rightarrow>
        (case v of Inl er \<Rightarrow> (Inl er, m2) | Inr _ \<Rightarrow> sm_WriteSchema mgr (schema_text wanted) m2))"
    unfolding BootstrapAuthzSchema_def using read parse check by (simp add: backend_def Let_def)
  show ?thesis
  proof (cases ?au)
    case (Inl er)
    then show ?thesis using au run by auto
  next
    case (Inr u)
    then show ?thesis using au run same by (auto split: prod.splits sum.splits)
  qed
qed

definition sample_old :: document where
  "sample_old = \<lparr>dc_definitions =
     [\<lparr>la_lead = [], la_name = ''user'', la_decls = [], la_tail = []\<rparr>,
      \<lparr>la_lead = [Blanks [nl, nl]], la_name = ''zone'',
       la_decls = [([Blanks [nl, CHR 0x09]], Relation ''owner'' ''user''), ([Blanks [nl, CHR 0x09]], Permission ''view'' ''owner'')],
       la_tail = [Blanks [nl]]\<rparr>],
     dc_tail = []\<rparr>"

definition sample_new :: document where
  "sample_new = \<lparr>dc_definitions =
     [\<lparr>la_lead = [LineNote '' people''], la_name = ''user'', la_decls = [], la_tail = []\<rparr>,
      \<lparr>la_lead = [Blanks [nl, nl]], la_name = ''zone'',
       la_decls = [([Blanks (nl # ''  ''), LineNote '' owners {see} view'', Blanks ''  ''], Relation ''owner'' ''user''),
         ([Blanks [nl, nl]], Permission ''view'' ''owner + admin''),
         ([Blanks '' '', StarNote '' named by an owner ** '', Blanks [nl]], Relation ''admin'' ''user'')],
       la_tail = [Blanks [nl]]\<rparr>],
     dc_tail = [Blanks [nl]]\<rparr>"

definition open_config :: AuthzConfig where
  "open_config = strict_config\<lparr>AllowPermissionMigrations := True\<rparr>"

text \<open>A changed permission is refused, and published with the flag.\<close>

lemma bootstrap_guarded_witness:
  "(\<exists>er. BootstrapAuthzSchema (\<lambda>_. Inr (schema_text sample_new)) strict_config (Some cell_manager) (schema_text sample_old)
      = (Inl er, schema_text sample_old))
   \<and> BootstrapAuthzSchema (\<lambda>_. Inr (schema_text sample_new)) open_config (Some cell_manager) (schema_text sample_old)
      = (Inr (), schema_text sample_new)"
proof -
  have ok: "document_ok sample_old" "document_ok sample_new" "\<not> removes (said sample_old) (said sample_new)"
    "changes (said sample_old) (said sample_new)" "\<not> says_same (said sample_old) (said sample_new)"
    by code_simp+
  let ?new = "schema_text sample_new" and ?old = "schema_text sample_old"
  have full: "TrimSpace ''schema.zed'' \<noteq> []" "TrimSpace ?new \<noteq> []" by code_simp+
  have wanted: "desired_text (\<lambda>_. Inr ?new) strict_config = Inr ?new" "desired_text (\<lambda>_. Inr ?new) open_config = Inr ?new"
    using full by (simp_all add: desired_text_def strict_config_def open_config_def backend_def)
  have read: "sm_ReadSchema cell_manager ?old = (Inr ?old, ?old)" by (simp add: cell_manager_def)
  note run = bootstrap_guarded[OF ok(1,2) read]
  show ?thesis
  proof
    show "\<exists>er. BootstrapAuthzSchema (\<lambda>_. Inr ?new) strict_config (Some cell_manager) ?old = (Inl er, ?old)"
      using run[OF wanted(1)] ok(4) by (simp add: strict_config_def)
    show "BootstrapAuthzSchema (\<lambda>_. Inr ?new) open_config (Some cell_manager) ?old = (Inr (), ?new)"
      using run[OF wanted(2)] ok(3,5) by (simp add: open_config_def strict_config_def cell_manager_def)
  qed
qed

text \<open>C37. A schema document is read back with exactly its definitions, and under each the relations and permissions with
  their expressions, up to blanks, in the order of the text: whatever its comments, empty lines and indentation are, as
  long as each declaration after the first of a definition begins on a new line and stays on its line.\<close>

theorem schema_text_read_back:
  assumes "document_ok doc"
  shows "ParseSchema (schema_text doc) = Inr (meaning (said doc))"
  using assms by (rule schema_read_back)

lemma schema_text_read_back_witness:
  "ParseSchema (schema_text sample_new) = Inr (meaning (said sample_new))
   \<and> get_key (Definitions (meaning (said sample_new))) ''zone''
     = Some \<lparr>Relations = [(''owner'', ''user''), (''admin'', ''user'')], Permissions = [(''view'', ''owner+admin'')]\<rparr>"
proof -
  have "document_ok sample_new" by code_simp
  moreover have "get_key (Definitions (meaning (said sample_new))) ''zone''
     = Some \<lparr>Relations = [(''owner'', ''user''), (''admin'', ''user'')], Permissions = [(''view'', ''owner+admin'')]\<rparr>"
    by code_simp
  ultimately show ?thesis using schema_text_read_back by blast
qed

end
