(* ===== verification/Spec2Isabelle.thy ===== *)
theory Spec2Isabelle
  imports AccessExamples ApiLaws StartUpExamples SqlExamples OpenApiLaws CasdoorLaws ServerAccess
    ResourceStart ServerRoutes Commands TraceCheck SchemaRoundtrip
begin

text \<open>
  Verification of aisphere-iam, the identity and access service of the Aisphere platform.

  \<^bold>\<open>The program.\<close>  IAM keeps the records of a control plane (projects, capabilities, resource types,
  resources, bindings, role templates, grants, their audits and outbox events) in a repository, and the
  permissions themselves as relationship tuples in SpiceDB.  A business service changes a record and writes an outbox
  event in the same transaction; the projection manager turns the events into changes of the tuples, with retries
  and compensation.  Users, groups and organizations belong to an identity provider (Casdoor, or an upstream OIDC
  directory); changes of them that concern permissions are projected to the tuples as well.  At the start the
  permission manifest is checked against the schema of SpiceDB, the schema is published under guards, the
  configured administrators and the built-in definitions are registered, and the directory is reconciled.  gRPC
  handlers admit a request by the zone (organization) of its principal and convert messages to records and back.

  \<^bold>\<open>Theories and the code they model.\<close>
  \<^item> Prelude: errors, Go maps and their random iteration order, byte strings and package strings, the
    composition of effects.  Json, Regexp, Sha256: the parts of the standard library the program applies.
  \<^item> Authz: relationship tuples, the interfaces of kernel/authz, internal/biz/graph, graphid, idgen; the contract
    \<open>tuple_store\<close> of a relationship store.  Models: internal/data/resource\_models.go.
  \<^item> Memory, MemoryLaws: the repository of internal/data/memory.go and project\_lifecycle.go.
    SqlRepo, SqlLaws, SqlExamples: the one of internal/data/resource\_repository.go.
  \<^item> Projection, ProjectionLaws: internal/biz/projection/manager.go.
  \<^item> GrantSvc, ProjectSvc, ResourceSvc and their laws: internal/biz/grant, project and resource.
    AccessQuery, AccessLaws, EntitlementLaws, AccessExamples: internal/biz/accessquery.
  \<^item> IdentityMode, IdentityProjection, IdentityLaws, IdentityExamples: internal/data/identity\_mode.go and the
    operations of internal/service/directory\_projection.go.  GroupMetadata, MetadataLaws: internal/data/group\_metadata.go.
    CasdoorTokens, CasdoorLaws: internal/data/casdoor\_clock\_skew.go.
  \<^item> SchemaText, SchemaBootstrap, SchemaLaws: internal/permissionmanifest/schema.go and internal/data/authz\_bootstrap.go.
    RegexpLaws, SchemaRoundtrip: what its reader makes of a schema that is laid out like the one under configs.
    ManifestCheck, ManifestLaws: manifest.go and validate.go.  Defaults: internal/biz/defaults.
    StartUp, StartUpLaws, StartUpExamples: the start-up of internal/data/data.go.  ResourceStart: NewResources there,
    which opens and closes what the service runs on.
  \<^item> ApiMessages, ProjectApi, ResourceApi, GrantApi, ApiLaws: internal/service/control\_plane.go,
    project\_lifecycle.go and access\_query.go.  DirectoryApi, PermissionApi, DirectoryAdminApi: iam.go,
    iam\_external.go, directory\_group.go, authz\_admin.go, group\_admin.go, identity\_admin.go and internal/biz/scope.
    PermissionLaws, GroupLaws, ServiceExamples: their laws.  ServerAccess and ServerRoutes: internal/server/access.go
    and http.go.
  \<^item> AuthzClient, RemoteLaws: client/authzgrpc, and its composition with the permission service.
  \<^item> OpenApiCheck, OpenApiLaws: cmd/openapi-contract-check.  TraceCheck: cmd/traceability-check.  Commands:
    cmd/permission-manifest-check and the loops and defaults of cmd/aisphere-iam.

  A method of a Go type is a definition with the name of the method, with a prefix where several types have it
  (\<open>api_\<close> and \<open>svc_\<close> for handlers, \<open>sql_\<close> for the SQL repository, \<open>adm_\<close>, \<open>meta_\<close>, \<open>idn_\<close>, \<open>cas_\<close>, \<open>cl_\<close>).  A
  struct is a record, a nil pointer \<open>None\<close>, an error result \<open>Inl\<close>.  State is passed explicitly: the
  repository, the tuples and the readings of clock, random source and map order in one world, which an operation
  \<open>('e, 'w, 'a) io\<close> transforms.

  \<^bold>\<open>What the laws show.\<close>
  \<^item> Tables: every reachable repository satisfies \<open>repo_inv\<close>; org-scoped operations deny and keep foreign entities
    (the locales of theory MemoryLaws, interpreted on the five scoped tables); pages put together are the list.
  \<^item> Outbox: applying an event refines the abstract effect of its payload on the set of tuples, again changes
    nothing; its compensation brings the tuples back that its payload knew; what the retry worker picks up and when it gives up.
  \<^item> Services: what a grant, project or resource stores and projects, in which order it ends, that a
    revocation removes the access and that archival is final; the permission trace returns exactly when no cycle of
    parents is reachable; the listed entitlements are sound and complete with respect to the rules \<open>entitled\<close> and \<open>accesses\<close>.
  \<^item> Identity: the purge of a user leaves it no direct tuple on the resource types it enumerates, reconciliation
    leaves no drift, groups get back what the provider drops, tokens are accepted within their shifted window.
  \<^item> Start: the manifest check and the schema diff are equivalent to declarative conditions; a schema with one declaration
    on each line is read as it was written and replaced only as the policy allows; administrators get exactly what the
    configuration says and a restart after a complete start adds nothing; a start that fails closes what it opened,
    but for one client; the job is scheduled unless every attempt fails.
  \<^item> Handlers: no admission without a principal of the zone, no record of another zone in a reply, guards that stop
    a call before it acts; the remote client keeps the contract of a local store.
  \<^item> SQL: the texts of the conditions never contain values; changes of grants are atomic; permissions of a role survive.

  \<^bold>\<open>Interfaces.\<close>  What a component relies on is a locale with the laws of the provider, interpreted on the
  definitions that provide it: the scoped tables and the outbox of the repository, the guards of the services, the
  providers of groups, the registrars of built-in definitions.  Code outside the repository (the kernel packages, SpiceDB,
  Casdoor, dbx and the database, DTM, codecs of protobuf, JSON values and YAML, files) is a parameter; its documented
  behaviour is a hypothesis where a law needs it, and the example theories instantiate it.

  \<^bold>\<open>Bounds.\<close>  Integers of Go are wrapped at 64 bits where they are computed with (\<open>wrap64\<close>); SHA-256 is on 32-bit
  words.  The two recursions over parents, which need not end, take one unit of fuel per edge; \<open>trace_returns_iff\<close> and
  the completeness of the listings show that some fuel is enough exactly when no cycle is reachable, and more fuel changes nothing.
  The loop that schedules the job is a partial function, endless
  exactly when every attempt fails and nobody cancels it; all other loops are structural or have a termination proof.  Letters outside ASCII are not folded by the case functions.

  \<^bold>\<open>Not modelled.\<close>  The wiring of servers (the registration of the generated services and the middleware of the kernel
  in internal/server, main of cmd/aisphere-iam) and the configuration of kernel clients; generated code under api; logging,
  metrics and tracing; the interleaving of concurrent requests within an operation:
  repository methods are atomic (they hold a mutex, or are one transaction), services are sequences of them.  Attributes of
  principals and the raw responses of tokens, which no service reads, are left out.
\<close>

end
